(* ===== verification/Prelude.thy ===== *)
theory Prelude
  imports Main "HOL-Library.Multiset" "HOL-Library.Word"
begin

text \<open>
  Material the components share: sequencing of operations that may fail, the extraction of the
  first matching element of a queue, positional number printing, and the collections of rewrite
  rules the component theories fill.
\<close>

section \<open>Rule collections\<close>

text \<open>
  \<open>handler_simps\<close> unfolds the handlers of a component, \<open>state_simps\<close> the accessors and updates
  of its state.
\<close>

named_theorems handler_simps
named_theorems state_simps

section \<open>Operations that may fail\<close>

text \<open>
  An operation that may throw returns a sum: \<open>Inl\<close> the fault, \<open>Inr\<close> the result. The combinator
  runs a continuation on the result and hands a fault on, as an exception would.
\<close>

fun and_then :: "'e + 'a \<Rightarrow> ('a \<Rightarrow> 'e + 'b) \<Rightarrow> 'e + 'b" where
  "and_then (Inl e) f = Inl e"
| "and_then (Inr x) f = f x"

lemma and_then_Inr_iff [simp]:
  "and_then x f = Inr y \<longleftrightarrow> (\<exists>a. x = Inr a \<and> f a = Inr y)"
  by (cases x) auto

lemma and_then_Inl_iff:
  "and_then x f = Inl e \<longleftrightarrow> x = Inl e \<or> (\<exists>a. x = Inr a \<and> f a = Inl e)"
  by (cases x) auto

lemma and_then_cong [fundef_cong]:
  "x = y \<Longrightarrow> (\<And>a. y = Inr a \<Longrightarrow> f a = g a) \<Longrightarrow> and_then x f = and_then y g"
  by (cases y) auto

lemma and_then_assoc:
  "and_then (and_then x f) g = and_then x (\<lambda>a. and_then (f a) g)"
  by (cases x) auto

text \<open>Running one operation per element of a list, left to right.\<close>

fun run_all :: "('a \<Rightarrow> 's \<Rightarrow> 'e + 's) \<Rightarrow> 'a list \<Rightarrow> 's \<Rightarrow> 'e + 's" where
  "run_all f [] s = Inr s"
| "run_all f (x # xs) s = and_then (f x s) (run_all f xs)"

fun map_all :: "('a \<Rightarrow> 'e + 'b) \<Rightarrow> 'a list \<Rightarrow> 'e + 'b list" where
  "map_all f [] = Inr []"
| "map_all f (x # xs) = and_then (f x) (\<lambda>y. and_then (map_all f xs) (\<lambda>ys. Inr (y # ys)))"

lemma map_all_ok: "(\<And>x. x \<in> set xs \<Longrightarrow> f x = Inr (h x)) \<Longrightarrow> map_all f xs = Inr (map h xs)"
  by (induction xs) auto

lemma run_all_append:
  "run_all f (xs @ ys) s = and_then (run_all f xs s) (run_all f ys)"
proof (induction xs arbitrary: s)
  case (Cons x xs)
  then show ?case by (cases "f x s") simp_all
qed simp

lemma run_all_invariant:
  assumes "\<And>x s s'. x \<in> set xs \<Longrightarrow> P s \<Longrightarrow> f x s = Inr s' \<Longrightarrow> P s'"
    and "P s" and "run_all f xs s = Inr s'"
  shows "P s'"
  using assms
proof (induction xs arbitrary: s)
  case Nil
  then show ?case by simp
next
  case (Cons x xs)
  then obtain s1 where "f x s = Inr s1" "run_all f xs s1 = Inr s'" by auto
  with Cons.prems(1) [of x s s1] Cons.prems(2) have "P s1" by simp
  show ?case
  proof (rule Cons.IH [OF _ \<open>P s1\<close> \<open>run_all f xs s1 = Inr s'\<close>])
    fix y t t'
    assume "y \<in> set xs" "P t" "f y t = Inr t'"
    then show "P t'" using Cons.prems(1) [of y t t'] by simp
  qed
qed

section \<open>Queues of pending items\<close>

text \<open>\<open>take_first P xs\<close> is the first element satisfying \<open>P\<close> and the list without it.\<close>

fun take_first :: "('a \<Rightarrow> bool) \<Rightarrow> 'a list \<Rightarrow> ('a \<times> 'a list) option" where
  "take_first P [] = None"
| "take_first P (x # xs) =
     (if P x then Some (x, xs) else map_option (map_prod id ((#) x)) (take_first P xs))"

lemma take_first_None: "take_first P xs = None \<longleftrightarrow> (\<forall>x\<in>set xs. \<not> P x)"
  by (induction xs) auto

lemma take_first_Some:
  "take_first P xs = Some (x, ys) \<Longrightarrow>
     \<exists>us vs. xs = us @ x # vs \<and> ys = us @ vs \<and> P x \<and> (\<forall>u\<in>set us. \<not> P u)"
proof (induction xs arbitrary: ys)
  case Nil
  then show ?case by simp
next
  case (Cons a xs)
  show ?case
  proof (cases "P a")
    case True
    with Cons.prems have "a = x" "xs = ys" by auto
    with True show ?thesis by (intro exI [of _ "[]"] exI [of _ ys]) simp
  next
    case False
    with Cons.prems obtain zs where "take_first P xs = Some (x, zs)" "ys = a # zs"
      by (auto simp: map_prod_def)
    with Cons.IH [of zs] obtain us vs
      where "xs = us @ x # vs" "zs = us @ vs" "P x" "\<forall>u\<in>set us. \<not> P u" by blast
    with False \<open>ys = a # zs\<close> show ?thesis
      by (intro exI [of _ "a # us"] exI [of _ vs]) simp
  qed
qed

lemma take_first_mset:
  "take_first P xs = Some (x, ys) \<Longrightarrow> mset xs = add_mset x (mset ys)"
  by (drule take_first_Some) auto

lemma take_first_filter_other:
  assumes "take_first P xs = Some (x, ys)" and "\<And>y. Q y \<Longrightarrow> \<not> P y"
  shows "filter Q ys = filter Q xs"
proof -
  from assms(1) obtain us vs where "xs = us @ x # vs" "ys = us @ vs" "P x"
    by (blast dest: take_first_Some)
  with assms(2) show ?thesis by auto
qed

lemma take_first_subset:
  "take_first P xs = Some (x, ys) \<Longrightarrow> set ys \<subseteq> set xs \<and> x \<in> set xs"
  by (drule take_first_Some) auto

section \<open>Positional notation\<close>

text \<open>
  The digits of a number in a base, most significant first, as \<open>Number.prototype.toString\<close> and
  \<open>std::to_string\<close> print them: \<open>0\<close> is one digit.
\<close>

fun digits_of :: "nat \<Rightarrow> nat \<Rightarrow> nat list" where
  "digits_of b n = (if b < 2 \<or> n < b then [n] else digits_of b (n div b) @ [n mod b])"

declare digits_of.simps [simp del]

definition undigits :: "nat \<Rightarrow> nat list \<Rightarrow> nat" where
  "undigits b ds = foldl (\<lambda>acc d. acc * b + d) 0 ds"

lemma undigits_snoc [simp]: "undigits b (ds @ [d]) = undigits b ds * b + d"
  by (simp add: undigits_def)

lemma undigits_digits_of: "undigits b (digits_of b n) = n"
proof (induction b n rule: digits_of.induct)
  case (1 b n)
  show ?case
  proof (cases "b < 2 \<or> n < b")
    case True
    then show ?thesis by (simp add: digits_of.simps [of b n] undigits_def)
  next
    case False
    with 1 show ?thesis by (simp add: digits_of.simps [of b n])
  qed
qed

lemma digits_of_inject: "digits_of b m = digits_of b n \<longleftrightarrow> m = n"
  by (metis undigits_digits_of)

lemma digits_of_less: "2 \<le> b \<Longrightarrow> d \<in> set (digits_of b n) \<Longrightarrow> d < b"
proof (induction b n rule: digits_of.induct)
  case (1 b n)
  then show ?case
    by (cases "n < b") (auto simp: digits_of.simps [of b n])
qed

lemma digits_of_nonempty [simp]: "digits_of b n \<noteq> []"
  by (subst digits_of.simps) simp

text \<open>The printed digit: 0 to 9, then the lower case letters.\<close>

definition digit_char :: "nat \<Rightarrow> char" where
  "digit_char d = (if d < 10 then char_of (48 + d) else char_of (87 + d))"

lemma of_char_digit_char:
  "d < 36 \<Longrightarrow> of_char (digit_char d) = (if d < 10 then 48 + d else 87 + d :: nat)"
  by (simp add: digit_char_def)

lemma digit_char_inject: "d < 36 \<Longrightarrow> e < 36 \<Longrightarrow> digit_char d = digit_char e \<longleftrightarrow> d = e"
proof
  assume "d < 36" "e < 36" "digit_char d = digit_char e"
  then have "(if d < 10 then 48 + d else 87 + d) = (if e < 10 then 48 + e else 87 + e)"
    by (metis of_char_digit_char)
  with \<open>d < 36\<close> \<open>e < 36\<close> show "d = e" by (auto split: if_splits)
qed simp

definition show_nat :: "nat \<Rightarrow> nat \<Rightarrow> string" where
  "show_nat b n = map digit_char (digits_of b n)"

lemma show_nat_inject:
  assumes "2 \<le> b" "b \<le> 36"
  shows "show_nat b m = show_nat b n \<longleftrightarrow> m = n"
proof
  assume eq: "show_nat b m = show_nat b n"
  have "inj_on digit_char (set (digits_of b m) \<union> set (digits_of b n))"
    unfolding inj_on_def by (meson assms digit_char_inject digits_of_less order_less_le_trans UnE)
  with eq have "digits_of b m = digits_of b n"
    unfolding show_nat_def by (meson inj_on_map_eq_map)
  then show "m = n" by (simp add: digits_of_inject)
qed simp

section \<open>Insertion behind the elements with smaller or equal keys\<close>

lemma sorted_dropWhile_greater:
  fixes f :: "'a \<Rightarrow> 'k::linorder"
  shows "sorted (map f xs) \<Longrightarrow> \<forall>y\<in>set (dropWhile (\<lambda>y. f y \<le> k) xs). k < f y"
  by (induction xs) (auto split: if_splits)

lemma sorted_between:
  fixes f :: "'a \<Rightarrow> 'k::linorder"
  assumes "sorted (map f us)" "sorted (map f vs)" "\<forall>y\<in>set us. f y \<le> f x" "\<forall>y\<in>set vs. f x < f y"
  shows "sorted (map f (us @ x # vs))"
  using assms by (fastforce simp: sorted_append)

lemma sort_key_snoc:
  fixes f :: "'a \<Rightarrow> 'k::linorder"
  shows "sort_key f (xs @ [x]) =
           takeWhile (\<lambda>y. f y \<le> f x) (sort_key f xs) @ x # dropWhile (\<lambda>y. f y \<le> f x) (sort_key f xs)"
    (is "_ = ?us @ x # ?vs")
proof (rule properties_for_sort_key)
  let ?s = "sort_key f xs"
  have "mset ?us + mset ?vs = mset xs"
    by (simp only: takeWhile_dropWhile_id mset_sort flip: mset_append)
  then show "mset (?us @ x # ?vs) = mset (xs @ [x])" by simp
  have us: "\<forall>y\<in>set ?us. f y \<le> f x" by (auto dest: set_takeWhileD)
  have vs: "\<forall>y\<in>set ?vs. f x < f y"
    by (rule sorted_dropWhile_greater) simp
  have same: "filter P ?us @ filter P ?vs = filter P ?s" for P
    by (simp only: takeWhile_dropWhile_id flip: filter_append)
  have stable: "filter (\<lambda>y. f k = f y) ?s = filter (\<lambda>y. f k = f y) xs" for k
    using sort_key_stable [of f "f k" xs] by (simp add: eq_commute)
  have after: "filter (\<lambda>y. f x = f y) ?vs = []" using vs by (auto simp: filter_empty_conv)
  show "filter (\<lambda>y. f k = f y) (?us @ x # ?vs) = filter (\<lambda>y. f k = f y) (xs @ [x])" for k
    using same [of "\<lambda>y. f k = f y"] stable [of k] after by auto
  have "sorted (map f ?us @ map f ?vs)"
    by (simp only: takeWhile_dropWhile_id sorted_sort_key flip: map_append)
  then have "sorted (map f ?us)" "sorted (map f ?vs)" by (simp_all only: sorted_append)
  then show "sorted (map f (?us @ x # ?vs))" using us vs by (rule sorted_between)
qed

lemma sort_key_map:
  fixes f :: "'b \<Rightarrow> 'k::linorder"
  shows "sort_key f (map g xs) = map g (sort_key (\<lambda>x. f (g x)) xs)"
proof (induction xs rule: rev_induct)
  case (snoc x xs)
  then show ?case
    using sort_key_snoc [of f "map g xs" "g x"] sort_key_snoc [of "\<lambda>x. f (g x)" xs x]
    by (simp add: takeWhile_map dropWhile_map comp_def)
qed simp

lemma sort_key_iso:
  fixes f :: "'a \<Rightarrow> 'k::linorder" and g :: "'a \<Rightarrow> 'l::linorder"
  assumes "\<And>x y. x \<in> set xs \<Longrightarrow> y \<in> set xs \<Longrightarrow> f x \<le> f y \<longleftrightarrow> g x \<le> g y"
  shows "sort_key f xs = sort_key g xs"
  using assms
proof (induction xs rule: rev_induct)
  case (snoc x xs)
  then have IH: "sort_key f xs = sort_key g xs" by simp
  have "takeWhile (\<lambda>y. f y \<le> f x) (sort_key g xs) = takeWhile (\<lambda>y. g y \<le> g x) (sort_key g xs)"
    by (rule takeWhile_cong) (use snoc.prems in auto)
  moreover have "dropWhile (\<lambda>y. f y \<le> f x) (sort_key g xs) = dropWhile (\<lambda>y. g y \<le> g x) (sort_key g xs)"
    by (rule dropWhile_cong) (use snoc.prems in auto)
  ultimately show ?case by (simp add: sort_key_snoc IH)
qed simp

end
