(* ===== verification/Dist_Id.thy ===== *)
theory Dist_Id
  imports Prelude
begin

text \<open>
  \<open>src/fpmas/api/graph/distributed_id.h\<close> and \<open>.cpp\<close>: the identifiers of nodes and edges, a pair of
  the rank of the process that created the item and a counter of that process. The counter has the
  type \<open>FPMAS_ID_TYPE\<close> (\<open>unsigned long\<close>, 64 bits) and wraps around; the rank is a C++ \<open>int\<close> that is
  only read and compared, so it is an \<open>int\<close> here. The nlohmann::json and MPI type registrations are
  not modelled.
\<close>

section \<open>The identifier and its operators\<close>

record mpi_dist_id =
  mpi_rank :: int
  mpi_id :: "64 word"

datatype dist_id = DistributedId (id_rank: int) (id_num: "64 word")

definition id_default :: dist_id where
  "id_default = DistributedId 0 0"

definition id_of_rank :: "int \<Rightarrow> dist_id" where
  "id_of_rank r = DistributedId r 0"

definition id_of_mpi :: "mpi_dist_id \<Rightarrow> dist_id" where
  "id_of_mpi m = DistributedId (mpi_rank m) (mpi_id m)"

text \<open>The postfix increment returns the old value and stores the new one.\<close>

definition id_post_inc :: "dist_id \<Rightarrow> dist_id \<times> dist_id" where
  "id_post_inc i = (i, DistributedId (id_rank i) (id_num i + 1))"

definition id_less :: "dist_id \<Rightarrow> dist_id \<Rightarrow> bool" where
  "id_less a b =
     (if id_rank a = id_rank b then id_num a < id_num b
      else if id_rank a < id_rank b then True
      else False)"

definition id_equal :: "dist_id \<Rightarrow> dist_id \<Rightarrow> bool" where
  "id_equal a b \<longleftrightarrow> id_rank b = id_rank a \<and> id_num b = id_num a"

definition id_not_equal :: "dist_id \<Rightarrow> dist_id \<Rightarrow> bool" where
  "id_not_equal a b \<longleftrightarrow> id_rank b \<noteq> id_rank a \<or> id_num b \<noteq> id_num a"

text \<open>\<open>std::hash\<close> of the counter is a parameter.\<close>

definition id_hash :: "(64 word \<Rightarrow> 64 word) \<Rightarrow> dist_id \<Rightarrow> 64 word" where
  "id_hash std_hash i = std_hash (id_num i)"

text \<open>\<open>std::to_string\<close> of a signed and of an unsigned integer, and the printed identifier.\<close>

definition show_int :: "int \<Rightarrow> string" where
  "show_int i = (if i < 0 then CHR ''-'' # show_nat 10 (nat (- i)) else show_nat 10 (nat i))"

definition id_to_string :: "dist_id \<Rightarrow> string" where
  "id_to_string i =
     ''['' @ show_int (id_rank i) @ '':'' @ show_nat 10 (unat (id_num i)) @ '']''"

text \<open>The identifiers a process hands out: \<open>n\<close> successive post-increments of its counter.\<close>

fun id_series :: "nat \<Rightarrow> dist_id \<Rightarrow> dist_id list \<times> dist_id" where
  "id_series 0 i = ([], i)"
| "id_series (Suc n) i =
     (let (old, i') = id_post_inc i; (ids, i'') = id_series n i' in (old # ids, i''))"

section \<open>Order\<close>

lemma id_equal_iff [simp]: "id_equal a b \<longleftrightarrow> a = b"
  by (cases a; cases b) (auto simp: id_equal_def)

lemma id_not_equal_iff [simp]: "id_not_equal a b \<longleftrightarrow> a \<noteq> b"
  by (cases a; cases b) (auto simp: id_not_equal_def)

lemma id_less_iff:
  "id_less a b \<longleftrightarrow> id_rank a < id_rank b \<or> id_rank a = id_rank b \<and> id_num a < id_num b"
  by (auto simp: id_less_def)

instantiation dist_id :: linorder
begin

definition less_dist_id :: "dist_id \<Rightarrow> dist_id \<Rightarrow> bool" where
  "less_dist_id a b = id_less a b"

definition less_eq_dist_id :: "dist_id \<Rightarrow> dist_id \<Rightarrow> bool" where
  "less_eq_dist_id a b = (id_less a b \<or> id_equal a b)"

instance
proof
  fix a b c :: dist_id
  show "a < b \<longleftrightarrow> a \<le> b \<and> \<not> b \<le> a"
    by (auto simp: less_dist_id_def less_eq_dist_id_def id_less_iff)
  show "a \<le> a" by (simp add: less_eq_dist_id_def)
  show "a \<le> b \<Longrightarrow> b \<le> c \<Longrightarrow> a \<le> c"
    by (auto simp: less_eq_dist_id_def id_less_iff)
  show "a \<le> b \<Longrightarrow> b \<le> a \<Longrightarrow> a = b"
    by (auto simp: less_eq_dist_id_def id_less_iff)
  show "a \<le> b \<or> b \<le> a"
    by (cases a; cases b) (auto simp: less_eq_dist_id_def id_less_iff)
qed

end

section \<open>Printing\<close>

lemma digit_char_not_special:
  "d < 10 \<Longrightarrow> digit_char d \<noteq> CHR '':'' \<and> digit_char d \<noteq> CHR '']'' \<and> digit_char d \<noteq> CHR ''-''"
proof -
  assume d: "d < 10"
  then have "of_char (digit_char d) = (48 + d :: nat)" by (simp add: of_char_digit_char)
  with d show ?thesis by auto
qed

lemma show_nat_chars:
  assumes "c \<in> set (show_nat 10 n)"
  shows "c \<noteq> CHR '':'' \<and> c \<noteq> CHR '']'' \<and> c \<noteq> CHR ''-''"
proof -
  from assms obtain d where "d \<in> set (digits_of 10 n)" "c = digit_char d"
    by (auto simp: show_nat_def)
  with digits_of_less [of 10 d n] show ?thesis by (simp add: digit_char_not_special)
qed

lemma show_nat_nonempty [simp]: "show_nat b n \<noteq> []"
  by (simp add: show_nat_def)

lemma show_int_inject: "show_int i = show_int j \<longleftrightarrow> i = j"
proof
  assume eq: "show_int i = show_int j"
  have no_minus: "hd (show_nat 10 n) \<noteq> CHR ''-''" for n
    using show_nat_chars [OF hd_in_set, of n] by simp
  show "i = j"
  proof (cases "i < 0 \<longleftrightarrow> j < 0")
    case True
    with eq have "nat \<bar>i\<bar> = nat \<bar>j\<bar>"
      by (auto simp: show_int_def show_nat_inject split: if_splits)
    with True show ?thesis by (auto split: if_splits)
  next
    case False
    with eq no_minus show ?thesis
      by (metis list.sel(1) show_int_def)
  qed
qed simp

lemma show_int_no_colon: "c \<in> set (show_int i) \<Longrightarrow> c \<noteq> CHR '':''"
  using show_nat_chars by (auto simp: show_int_def split: if_splits)

lemma append_sep_inject:
  assumes "us @ c # vs = us' @ c # vs'" and "c \<notin> set us" and "c \<notin> set us'"
  shows "us = us' \<and> vs = vs'"
  using assms
proof (induction us arbitrary: us')
  case Nil
  then show ?case by (cases us') auto
next
  case (Cons u us)
  then show ?case by (cases us') auto
qed

lemma id_to_string_inject: "id_to_string a = id_to_string b \<longleftrightarrow> a = b"
proof
  assume "id_to_string a = id_to_string b"
  then have "show_int (id_rank a) @ CHR '':'' # (show_nat 10 (unat (id_num a)) @ '']'')
      = show_int (id_rank b) @ CHR '':'' # (show_nat 10 (unat (id_num b)) @ '']'')"
    by (simp add: id_to_string_def)
  then have "show_int (id_rank a) = show_int (id_rank b)
      \<and> show_nat 10 (unat (id_num a)) @ '']'' = show_nat 10 (unat (id_num b)) @ '']''"
    by (rule append_sep_inject) (auto dest: show_int_no_colon)
  then show "a = b"
    by (cases a; cases b) (simp add: show_int_inject show_nat_inject word_unat_eq_iff)
qed simp

section \<open>Series of identifiers\<close>

lemma id_series_eq:
  "id_series n i =
     (map (\<lambda>k. DistributedId (id_rank i) (id_num i + of_nat k)) [0..<n],
      DistributedId (id_rank i) (id_num i + of_nat n))"
proof (induction n arbitrary: i)
  case 0
  then show ?case by simp
next
  case (Suc n)
  then show ?case
    by (cases i)
      (simp add: id_post_inc_def upt_conv_Cons map_Suc_upt [symmetric] add.assoc comp_def
        del: upt_Suc map_Suc_upt)
qed

lemma id_series_distinct:
  assumes "n \<le> 2 ^ 64"
  shows "distinct (fst (id_series n i))"
proof -
  have "inj_on (\<lambda>k. DistributedId (id_rank i) (id_num i + of_nat k)) {0..<n}"
  proof (rule inj_onI)
    fix j k
    assume "j \<in> {0..<n}" "k \<in> {0..<n}"
      and eq: "DistributedId (id_rank i) (id_num i + of_nat j)
                = DistributedId (id_rank i) (id_num i + of_nat k)"
    then have "j < 2 ^ 64" "k < 2 ^ 64" using assms by auto
    moreover from eq have "unat (of_nat j :: 64 word) = unat (of_nat k :: 64 word)" by simp
    ultimately show "j = k" by (simp add: unat_of_nat)
  qed
  then show ?thesis by (simp add: id_series_eq distinct_map)
qed

section \<open>Properties\<close>

text \<open>
  \<open>operator<\<close> of identifiers is a strict total order, consistent with \<open>operator==\<close> and
  \<open>operator!=\<close>, that compares the ranks first: it can order the keys of a map.\<close>

lemma id_order:
  "\<not> id_less a a \<and> (id_less a b \<and> id_less b c \<longrightarrow> id_less a c) \<and>
   (id_less a b \<noteq> id_less b a \<longleftrightarrow> id_not_equal a b) \<and> (id_not_equal a b \<longleftrightarrow> \<not> id_equal a b) \<and>
   (id_rank a < id_rank b \<longrightarrow> id_less a b)"
proof -
  have "(id_less a b \<noteq> id_less b a) = (a \<noteq> b)"
    by (cases a; cases b) (auto simp: id_less_iff)
  then show ?thesis by (auto simp: id_less_iff)
qed

text \<open>Two identifiers print alike only if they are equal.\<close>

theorem id_printing_faithful: "id_to_string a = id_to_string b \<longleftrightarrow> id_equal a b"
  by (simp add: id_to_string_inject)

text \<open>Property C38: a process that takes its identifiers by post-increment hands out at most 2 to the power 64
  of them without a repetition, all of its rank, and then starts again at the first.\<close>

theorem id_series_unique:
  assumes "n \<le> 2 ^ 64"
  shows "distinct (fst (id_series n i)) \<and> length (fst (id_series n i)) = n \<and>
    (\<forall>j\<in>set (fst (id_series n i)). id_rank j = id_rank i) \<and> snd (id_series (2 ^ 64) i) = i"
proof -
  have "(of_nat (2 ^ 64) :: 64 word) = 0" by (simp only: word_of_nat_eq_0_iff) simp
  then have "snd (id_series (2 ^ 64) i) = i" by (cases i) (simp add: id_series_eq)
  with id_series_distinct [OF assms, of i] show ?thesis by (auto simp: id_series_eq)
qed

theorem id_series_unique_witness:
  "distinct (fst (id_series 3 (DistributedId 2 (- 1)))) \<and> length (fst (id_series 3 (DistributedId 2 (- 1)))) = 3"
  using id_series_unique [of 3 "DistributedId 2 (- 1)"] by simp

end
