(* ===== verification/Mutex_Sync.thy ===== *)
theory Mutex_Sync
  imports Dist_Id
begin

unbundle bit_operations_syntax

text \<open>
  The hard synchronization mode (\<open>src/fpmas/synchro/hard\<close>): the message tags (\<open>api/enums.h\<close>), the
  requests (\<open>api/client_server.h\<close>), the mutex of a node (\<open>hard_sync_mutex.h\<close>), and the server that
  answers the requests of the other processes (\<open>mutex_server.h\<close>). A process owns its mutexes in
  \<open>mutex_map\<close>; MPI is a queue of messages not yet received (\<open>inbox\<close>) and the list of messages sent
  (\<open>outbox\<close>). \<open>MPI_Iprobe\<close> with \<open>MPI_ANY_SOURCE\<close> reports the first pending message with the tag, so
  every arrival order of the messages is one order of \<open>inbox\<close>. \<open>std::unordered_map::at\<close> throws on a
  missing key, which is the fault \<open>Out_Of_Range\<close>. Log statements are left out.
\<close>

section \<open>Tags and requests\<close>

datatype epoch_kind = EVEN | ODD

datatype tag =
    READ | READ_RESPONSE | ACQUIRE | ACQUIRE_RESPONSE | RELEASE_ACQUIRE
  | LOCK | LOCK_RESPONSE | UNLOCK | LOCK_SHARED | LOCK_SHARED_RESPONSE | UNLOCK_SHARED
  | LINK | UNLINK | REMOVE_NODE | TOKEN | END

datatype color = WHITE | BLACK

datatype mutex_request_type = RT_READ | RT_LOCK | RT_ACQUIRE | RT_LOCK_SHARED

primrec epoch_value :: "epoch_kind \<Rightarrow> int" where
  "epoch_value EVEN = 0x00"
| "epoch_value ODD = 0x10"

primrec tag_value :: "tag \<Rightarrow> int" where
  "tag_value READ = 0x00"
| "tag_value READ_RESPONSE = 0x01"
| "tag_value ACQUIRE = 0x02"
| "tag_value ACQUIRE_RESPONSE = 0x03"
| "tag_value RELEASE_ACQUIRE = 0x04"
| "tag_value LOCK = 0x05"
| "tag_value LOCK_RESPONSE = 0x06"
| "tag_value UNLOCK = 0x07"
| "tag_value LOCK_SHARED = 0x08"
| "tag_value LOCK_SHARED_RESPONSE = 0x09"
| "tag_value UNLOCK_SHARED = 0x0A"
| "tag_value LINK = 0x0B"
| "tag_value UNLINK = 0x0C"
| "tag_value REMOVE_NODE = 0x0D"
| "tag_value TOKEN = 0x0E"
| "tag_value END = 0x0F"

text \<open>The tag of a message on the wire is \<open>epoch | tag\<close>.\<close>

definition msg_tag :: "epoch_kind \<Rightarrow> tag \<Rightarrow> int" where
  "msg_tag e t = epoch_value e OR tag_value t"

record mutex_request =
  req_id :: dist_id
  req_source :: int
  req_type :: mutex_request_type

abbreviation Request :: "dist_id \<Rightarrow> int \<Rightarrow> mutex_request_type \<Rightarrow> mutex_request" where
  "Request i s t \<equiv> \<lparr>req_id = i, req_source = s, req_type = t\<rparr>"

definition LOCAL_REQUEST :: int where
  "LOCAL_REQUEST = -1"

definition request_equal :: "mutex_request \<Rightarrow> mutex_request \<Rightarrow> bool" where
  "request_equal a b \<longleftrightarrow>
     req_type a = req_type b \<and> req_id a = req_id b \<and> req_source a = req_source b"

section \<open>The mutex of a node\<close>

datatype location_state = LOCAL | DISTANT

record 'd hs_mutex =
  node_state :: location_state
  node_location :: int
  node_data :: 'd
  is_locked :: bool
  locked_shared :: int
  lock_requests :: "mutex_request list"
  lock_shared_requests :: "mutex_request list"

definition mutex_lock :: "'d hs_mutex \<Rightarrow> 'd hs_mutex" where
  "mutex_lock m = m\<lparr>is_locked := True\<rparr>"

definition mutex_lockShared :: "'d hs_mutex \<Rightarrow> 'd hs_mutex" where
  "mutex_lockShared m = m\<lparr>locked_shared := locked_shared m + 1\<rparr>"

definition mutex_unlock :: "'d hs_mutex \<Rightarrow> 'd hs_mutex" where
  "mutex_unlock m = m\<lparr>is_locked := False\<rparr>"

definition mutex_unlockShared :: "'d hs_mutex \<Rightarrow> 'd hs_mutex" where
  "mutex_unlockShared m = m\<lparr>locked_shared := locked_shared m - 1\<rparr>"

definition new_mutex :: "location_state \<Rightarrow> int \<Rightarrow> 'd \<Rightarrow> 'd hs_mutex" where
  "new_mutex st loc d =
     \<lparr>node_state = st, node_location = loc, node_data = d, is_locked = False, locked_shared = 0,
      lock_requests = [], lock_shared_requests = []\<rparr>"

definition pushRequest :: "mutex_request \<Rightarrow> 'd hs_mutex \<Rightarrow> 'd hs_mutex" where
  "pushRequest r m =
     (case req_type r of
        RT_READ \<Rightarrow> m\<lparr>lock_shared_requests := lock_shared_requests m @ [r]\<rparr>
      | RT_LOCK \<Rightarrow> m\<lparr>lock_requests := lock_requests m @ [r]\<rparr>
      | RT_ACQUIRE \<Rightarrow> m\<lparr>lock_requests := lock_requests m @ [r]\<rparr>
      | RT_LOCK_SHARED \<Rightarrow> m\<lparr>lock_shared_requests := lock_shared_requests m @ [r]\<rparr>)"

text \<open>
  The loop of \<open>requestsToProcess\<close> over the shared requests: it stops right after a local request.
  The result is what it pushed, what is left, and whether it returned from the loop.
\<close>

fun drain_shared :: "mutex_request list \<Rightarrow> mutex_request list \<times> mutex_request list \<times> bool" where
  "drain_shared [] = ([], [], False)"
| "drain_shared (r # rs) =
     (if req_source r = LOCAL_REQUEST then ([r], rs, True)
      else let (q, rest, stop) = drain_shared rs in (r # q, rest, stop))"

definition requestsToProcess :: "'d hs_mutex \<Rightarrow> mutex_request list \<times> 'd hs_mutex" where
  "requestsToProcess m =
     (if is_locked m then ([], m)
      else
        let (q, rest, stop) = drain_shared (lock_shared_requests m);
            m1 = m\<lparr>lock_shared_requests := rest\<rparr>
        in if stop then (q, m1)
           else case lock_requests m1 of
                  [] \<Rightarrow> (q, m1)
                | r # rs \<Rightarrow> (q @ [r], m1\<lparr>lock_requests := rs\<rparr>))"

section \<open>The process: server state and messages\<close>

datatype 'd payload = Id_Payload dist_id | Data_Payload 'd | Update_Payload dist_id 'd | Void_Payload

record 'd message =
  msg_source :: int
  msg_dest :: int
  wire_tag :: int
  msg_payload :: "'d payload"

record 'd process =
  rank :: int
  server_epoch :: epoch_kind
  mutex_map :: "dist_id \<rightharpoonup> 'd hs_mutex"
  inbox :: "'d message list"
  outbox :: "'d message list"

datatype fault = Out_Of_Range dist_id | Diverges | Blocked | Bad_Payload

definition setEpoch :: "epoch_kind \<Rightarrow> 'd process \<Rightarrow> 'd process" where
  "setEpoch e p = p\<lparr>server_epoch := e\<rparr>"

definition getEpoch :: "'d process \<Rightarrow> epoch_kind" where
  "getEpoch p = server_epoch p"

definition manage :: "dist_id \<Rightarrow> 'd hs_mutex \<Rightarrow> 'd process \<Rightarrow> 'd process" where
  "manage i m p = p\<lparr>mutex_map := (mutex_map p)(i \<mapsto> m)\<rparr>"

definition remove_mutex :: "dist_id \<Rightarrow> 'd process \<Rightarrow> 'd process" where
  "remove_mutex i p = p\<lparr>mutex_map := (mutex_map p)(i := None)\<rparr>"

definition mutex_at :: "dist_id \<Rightarrow> 'd process \<Rightarrow> fault + 'd hs_mutex" where
  "mutex_at i p = (case mutex_map p i of None \<Rightarrow> Inl (Out_Of_Range i) | Some m \<Rightarrow> Inr m)"

text \<open>An operation on the mutex behind the pointer \<open>mutex_map.at(id)\<close>.\<close>

definition update_mutex ::
  "dist_id \<Rightarrow> ('d hs_mutex \<Rightarrow> 'd hs_mutex) \<Rightarrow> 'd process \<Rightarrow> fault + 'd process" where
  "update_mutex i f p = and_then (mutex_at i p) (\<lambda>m. Inr (manage i (f m) p))"

definition send :: "int \<Rightarrow> tag \<Rightarrow> 'd payload \<Rightarrow> 'd process \<Rightarrow> 'd process" where
  "send dest t d p = p\<lparr>outbox := outbox p @
     [\<lparr>msg_source = rank p, msg_dest = dest, wire_tag = msg_tag (server_epoch p) t,
       msg_payload = d\<rparr>]\<rparr>"

section \<open>Responses and handlers\<close>

definition respondToRead :: "dist_id \<Rightarrow> int \<Rightarrow> 'd process \<Rightarrow> fault + 'd process" where
  "respondToRead i source p =
     and_then (update_mutex i mutex_lockShared p) (\<lambda>p1.
     and_then (mutex_at i p1) (\<lambda>m.
     Inr (send source READ_RESPONSE (Data_Payload (node_data m)) p1)))"

definition handleRead :: "dist_id \<Rightarrow> int \<Rightarrow> 'd process \<Rightarrow> fault + 'd process" where
  "handleRead i source p =
     and_then (mutex_at i p) (\<lambda>m.
       if is_locked m then update_mutex i (pushRequest (Request i source RT_READ)) p
       else respondToRead i source p)"

definition respondToAcquire :: "dist_id \<Rightarrow> int \<Rightarrow> 'd process \<Rightarrow> fault + 'd process" where
  "respondToAcquire i source p =
     and_then (update_mutex i mutex_lock p) (\<lambda>p1.
     and_then (mutex_at i p1) (\<lambda>m.
     Inr (send source ACQUIRE_RESPONSE (Data_Payload (node_data m)) p1)))"

definition handleAcquire :: "dist_id \<Rightarrow> int \<Rightarrow> 'd process \<Rightarrow> fault + 'd process" where
  "handleAcquire i source p =
     and_then (mutex_at i p) (\<lambda>m.
       if is_locked m \<or> locked_shared m > 0
       then update_mutex i (pushRequest (Request i source RT_ACQUIRE)) p
       else respondToAcquire i source p)"

definition respondToLock :: "dist_id \<Rightarrow> int \<Rightarrow> 'd process \<Rightarrow> fault + 'd process" where
  "respondToLock i source p =
     and_then (update_mutex i mutex_lock p) (\<lambda>p1.
     Inr (send source LOCK_RESPONSE Void_Payload p1))"

definition handleLock :: "dist_id \<Rightarrow> int \<Rightarrow> 'd process \<Rightarrow> fault + 'd process" where
  "handleLock i source p =
     and_then (mutex_at i p) (\<lambda>m.
       if is_locked m \<or> locked_shared m > 0
       then update_mutex i (pushRequest (Request i source RT_LOCK)) p
       else respondToLock i source p)"

definition respondToLockShared :: "dist_id \<Rightarrow> int \<Rightarrow> 'd process \<Rightarrow> fault + 'd process" where
  "respondToLockShared i source p =
     and_then (update_mutex i mutex_lockShared p) (\<lambda>p1.
     Inr (send source LOCK_SHARED_RESPONSE Void_Payload p1))"

definition handleLockShared :: "dist_id \<Rightarrow> int \<Rightarrow> 'd process \<Rightarrow> fault + 'd process" where
  "handleLockShared i source p =
     and_then (mutex_at i p) (\<lambda>m.
       if is_locked m then update_mutex i (pushRequest (Request i source RT_LOCK_SHARED)) p
       else respondToLockShared i source p)"

text \<open>One iteration of the loop of \<open>respondToRequests\<close>: the switch on the request type.\<close>

definition respond :: "mutex_request \<Rightarrow> 'd process \<Rightarrow> fault + 'd process" where
  "respond r p =
     (case req_type r of
        RT_READ \<Rightarrow> respondToRead (req_id r) (req_source r) p
      | RT_LOCK \<Rightarrow> respondToLock (req_id r) (req_source r) p
      | RT_ACQUIRE \<Rightarrow> respondToAcquire (req_id r) (req_source r) p
      | RT_LOCK_SHARED \<Rightarrow> respondToLockShared (req_id r) (req_source r) p)"

definition respondToRequests :: "dist_id \<Rightarrow> 'd process \<Rightarrow> fault + 'd process" where
  "respondToRequests i p =
     and_then (mutex_at i p) (\<lambda>m.
       let (requests, m') = requestsToProcess m
       in run_all respond requests (manage i m' p))"

definition handleReleaseAcquire :: "dist_id \<Rightarrow> 'd \<Rightarrow> 'd process \<Rightarrow> fault + 'd process" where
  "handleReleaseAcquire i d p =
     and_then (update_mutex i (\<lambda>m. (mutex_unlock m)\<lparr>node_data := d\<rparr>) p) (respondToRequests i)"

definition handleUnlock :: "dist_id \<Rightarrow> 'd process \<Rightarrow> fault + 'd process" where
  "handleUnlock i p = and_then (update_mutex i mutex_unlock p) (respondToRequests i)"

definition handleUnlockShared :: "dist_id \<Rightarrow> 'd process \<Rightarrow> fault + 'd process" where
  "handleUnlockShared i p = and_then (update_mutex i mutex_unlockShared p) (respondToRequests i)"

definition notify :: "dist_id \<Rightarrow> 'd process \<Rightarrow> fault + 'd process" where
  "notify i p = and_then (mutex_at i p) (\<lambda>m. respondToRequests i p)"

end
