(* ===== verification/Mutex_Server.thy ===== *)
theory Mutex_Server
  imports Mutex_Sync
begin

text \<open>
  The reception cycles of the mutex server (\<open>mutex_server.h\<close>), its blocking \<open>wait\<close>, the polling loops
  of \<open>server_pack.h\<close>, the client of \<open>mutex_client.h\<close> and the operations of \<open>HardSyncMutex\<close> built on
  them. A blocking loop is driven by a script of ticks: one tick per poll, saying whether the pending
  synchronous send is matched by then and which messages have arrived since the last poll. A script
  that ends before the loop does gives \<open>Blocked\<close>. The reception cycle of the link server, which the
  loops call after that of the mutex server, is the argument \<open>lnk\<close>.
\<close>

section \<open>Reception cycles\<close>

definition deliver :: "'d message list \<Rightarrow> 'd process \<Rightarrow> 'd process" where
  "deliver ms p = p\<lparr>inbox := inbox p @ ms\<rparr>"

text \<open>\<open>Iprobe(MPI_ANY_SOURCE, epoch | tag)\<close> and the \<open>recv\<close> of the reported message.\<close>

definition probe_recv :: "tag \<Rightarrow> 'd process \<Rightarrow> ('d message \<times> 'd process) option" where
  "probe_recv t p =
     map_option (map_prod id (\<lambda>rest. p\<lparr>inbox := rest\<rparr>))
       (take_first (\<lambda>m. wire_tag m = msg_tag (server_epoch p) t) (inbox p))"

definition poll ::
  "tag \<Rightarrow> ('d message \<Rightarrow> 'd process \<Rightarrow> fault + 'd process) \<Rightarrow> 'd process \<Rightarrow> fault + 'd process" where
  "poll t h p = (case probe_recv t p of None \<Rightarrow> Inr p | Some (m, p') \<Rightarrow> h m p')"

definition with_id :: "(dist_id \<Rightarrow> int \<Rightarrow> 'd process \<Rightarrow> fault + 'b)
    \<Rightarrow> 'd message \<Rightarrow> 'd process \<Rightarrow> fault + 'b" where
  "with_id h m p =
     (case msg_payload m of Id_Payload i \<Rightarrow> h i (msg_source m) p | _ \<Rightarrow> Inl Bad_Payload)"

definition with_update :: "(dist_id \<Rightarrow> 'd \<Rightarrow> 'd process \<Rightarrow> fault + 'b)
    \<Rightarrow> 'd message \<Rightarrow> 'd process \<Rightarrow> fault + 'b" where
  "with_update h m p =
     (case msg_payload m of Update_Payload i d \<Rightarrow> h i d p | _ \<Rightarrow> Inl Bad_Payload)"

definition handleIncomingReadAcquireLock :: "'d process \<Rightarrow> fault + 'd process" where
  "handleIncomingReadAcquireLock p =
     and_then (poll READ (with_id handleRead) p) (\<lambda>p1.
     and_then (poll ACQUIRE (with_id handleAcquire) p1) (\<lambda>p2.
     and_then (poll LOCK (with_id handleLock) p2) (\<lambda>p3.
     poll LOCK_SHARED (with_id handleLockShared) p3)))"

definition handleIncomingRequests :: "'d process \<Rightarrow> fault + 'd process" where
  "handleIncomingRequests p =
     and_then (handleIncomingReadAcquireLock p) (\<lambda>p1.
     and_then (poll RELEASE_ACQUIRE (with_update handleReleaseAcquire) p1) (\<lambda>p2.
     and_then (poll UNLOCK (with_id (\<lambda>i s. handleUnlock i)) p2) (\<lambda>p3.
     poll UNLOCK_SHARED (with_id (\<lambda>i s. handleUnlockShared i)) p3)))"

section \<open>Waiting for a local request\<close>

text \<open>
  The loop of the wait variant of \<open>respondToRequests\<close>. The branch of a local request that is not the
  awaited one does not pop the queue, so the loop would inspect the same request for ever.
\<close>

fun respond_until :: "mutex_request \<Rightarrow> mutex_request list \<Rightarrow> 'd process \<Rightarrow> fault + (bool \<times> 'd process)"
where
  "respond_until w [] p = Inr (False, p)"
| "respond_until w (r # rs) p =
     (if req_source r \<noteq> LOCAL_REQUEST then and_then (respond r p) (respond_until w rs)
      else if request_equal r w then Inr (True, p)
      else Inl Diverges)"

definition respondToRequests_wait ::
  "mutex_request \<Rightarrow> dist_id \<Rightarrow> 'd process \<Rightarrow> fault + (bool \<times> 'd process)" where
  "respondToRequests_wait w i p =
     and_then (mutex_at i p) (\<lambda>m.
       let (requests, m') = requestsToProcess m
       in respond_until w requests (manage i m' p))"

definition handleReleaseAcquire_wait ::
  "mutex_request \<Rightarrow> dist_id \<Rightarrow> 'd \<Rightarrow> 'd process \<Rightarrow> fault + (bool \<times> 'd process)" where
  "handleReleaseAcquire_wait w i d p =
     and_then (update_mutex i (\<lambda>m. (mutex_unlock m)\<lparr>node_data := d\<rparr>) p)
       (respondToRequests_wait w i)"

definition handleUnlock_wait ::
  "mutex_request \<Rightarrow> dist_id \<Rightarrow> 'd process \<Rightarrow> fault + (bool \<times> 'd process)" where
  "handleUnlock_wait w i p =
     and_then (update_mutex i mutex_unlock p) (respondToRequests_wait w i)"

definition handleUnlockShared_wait ::
  "mutex_request \<Rightarrow> dist_id \<Rightarrow> 'd process \<Rightarrow> fault + (bool \<times> 'd process)" where
  "handleUnlockShared_wait w i p =
     and_then (update_mutex i mutex_unlockShared p) (respondToRequests_wait w i)"

text \<open>A poll whose handler may complete the awaited request, in which case the cycle returns.\<close>

definition poll_until ::
  "tag \<Rightarrow> ('d message \<Rightarrow> 'd process \<Rightarrow> fault + (bool \<times> 'd process)) \<Rightarrow>
     ('d process \<Rightarrow> fault + (bool \<times> 'd process)) \<Rightarrow> 'd process \<Rightarrow> fault + (bool \<times> 'd process)" where
  "poll_until t h next p =
     (case probe_recv t p of
        None \<Rightarrow> next p
      | Some (m, p') \<Rightarrow> and_then (h m p') (\<lambda>(stop, q). if stop then Inr (True, q) else next q))"

definition handleIncomingRequests_wait ::
  "mutex_request \<Rightarrow> 'd process \<Rightarrow> fault + (bool \<times> 'd process)" where
  "handleIncomingRequests_wait w p =
     and_then (handleIncomingReadAcquireLock p)
       (poll_until RELEASE_ACQUIRE (with_update (handleReleaseAcquire_wait w))
       (poll_until UNLOCK (with_id (\<lambda>i s. handleUnlock_wait w i))
       (poll_until UNLOCK_SHARED (with_id (\<lambda>i s. handleUnlockShared_wait w i))
       (\<lambda>q. Inr (False, q)))))"

record 'd tick =
  send_matched :: bool
  arrived :: "'d message list"

fun server_wait :: "('d process \<Rightarrow> fault + 'd process) \<Rightarrow> mutex_request \<Rightarrow> 'd tick list \<Rightarrow> 'd process
    \<Rightarrow> fault + ('d process \<times> 'd tick list)" where
  "server_wait lnk w [] p = Inl Blocked"
| "server_wait lnk w (t # ts) p =
     and_then (handleIncomingRequests_wait w (deliver (arrived t) p)) (\<lambda>(processed, p1).
     and_then (lnk p1) (\<lambda>p2. if processed then Inr (p2, ts) else server_wait lnk w ts p2))"

section \<open>The server pack\<close>

definition pack_handleIncomingRequests ::
  "('d process \<Rightarrow> fault + 'd process) \<Rightarrow> 'd process \<Rightarrow> fault + 'd process" where
  "pack_handleIncomingRequests lnk p = and_then (handleIncomingRequests p) lnk"

fun waitSendRequest :: "('d process \<Rightarrow> fault + 'd process) \<Rightarrow> 'd tick list \<Rightarrow> 'd process
    \<Rightarrow> fault + ('d process \<times> 'd tick list)" where
  "waitSendRequest lnk [] p = Inl Blocked"
| "waitSendRequest lnk (t # ts) p =
     (if send_matched t then Inr (deliver (arrived t) p, ts)
      else and_then (pack_handleIncomingRequests lnk (deliver (arrived t) p)) (waitSendRequest lnk ts))"

definition probe_from :: "int \<Rightarrow> tag \<Rightarrow> 'd process \<Rightarrow> ('d message \<times> 'd process) option" where
  "probe_from source t p =
     map_option (map_prod id (\<lambda>rest. p\<lparr>inbox := rest\<rparr>))
       (take_first (\<lambda>m. msg_source m = source \<and> wire_tag m = msg_tag (server_epoch p) t) (inbox p))"

text \<open>\<open>waitResponse\<close> (and \<open>waitVoidResponse\<close>, the same loop), then the \<open>recv\<close> of the response.\<close>

fun waitResponse :: "('d process \<Rightarrow> fault + 'd process) \<Rightarrow> int \<Rightarrow> tag \<Rightarrow> 'd tick list \<Rightarrow> 'd process
    \<Rightarrow> fault + ('d message \<times> 'd process \<times> 'd tick list)" where
  "waitResponse lnk source t [] p = Inl Blocked"
| "waitResponse lnk source t (k # ks) p =
     (case probe_from source t (deliver (arrived k) p) of
        Some (m, p') \<Rightarrow> Inr (m, p', ks)
      | None \<Rightarrow> and_then (pack_handleIncomingRequests lnk (deliver (arrived k) p))
                  (waitResponse lnk source t ks))"

end
