(* ===== verification/Mutex_Client.thy ===== *)
theory Mutex_Client
  imports Mutex_Server
begin

text \<open>
  \<open>MutexClient\<close> (\<open>mutex_client.h\<close>) and the public operations of \<open>HardSyncMutex\<close>
  (\<open>hard_sync_mutex.h\<close>). A node in state \<open>LOCAL\<close> is handled by its own mutex, with the server waiting
  when it is not available; for a \<open>DISTANT\<close> node the request is sent to the process that holds it.
  \<open>Issend\<close> puts the message on the wire and \<open>waitSendRequest\<close> waits until it is matched. The epoch of
  the server pack is the epoch of the mutex server, which the pack sets together with its own.
\<close>

section \<open>The client\<close>

type_synonym 'd server_cycle = "'d process \<Rightarrow> fault + 'd process"

text \<open>A request that expects a response: send, wait for the send, wait for the response.\<close>

definition request_response ::
  "'d server_cycle \<Rightarrow> tag \<Rightarrow> tag \<Rightarrow> dist_id \<Rightarrow> int \<Rightarrow> 'd tick list \<Rightarrow> 'd process
     \<Rightarrow> fault + ('d message \<times> 'd process \<times> 'd tick list)" where
  "request_response lnk req resp i location ts p =
     and_then (waitSendRequest lnk ts (send location req (Id_Payload i) p))
       (\<lambda>(p1, ts1). waitResponse lnk location resp ts1 p1)"

definition data_of :: "'d message \<times> 'd process \<times> 'd tick list
    \<Rightarrow> fault + ('d \<times> 'd process \<times> 'd tick list)" where
  "data_of r = (case r of (m, p, ts) \<Rightarrow>
     (case msg_payload m of Data_Payload d \<Rightarrow> Inr (d, p, ts) | _ \<Rightarrow> Inl Bad_Payload))"

definition client_read :: "'d server_cycle \<Rightarrow> dist_id \<Rightarrow> int \<Rightarrow> 'd tick list \<Rightarrow> 'd process
    \<Rightarrow> fault + ('d \<times> 'd process \<times> 'd tick list)" where
  "client_read lnk i location ts p =
     and_then (request_response lnk READ READ_RESPONSE i location ts p) data_of"

definition client_releaseRead :: "'d server_cycle \<Rightarrow> dist_id \<Rightarrow> int \<Rightarrow> 'd tick list \<Rightarrow> 'd process
    \<Rightarrow> fault + ('d process \<times> 'd tick list)" where
  "client_releaseRead lnk i location ts p =
     waitSendRequest lnk ts (send location UNLOCK_SHARED (Id_Payload i) p)"

definition client_acquire :: "'d server_cycle \<Rightarrow> dist_id \<Rightarrow> int \<Rightarrow> 'd tick list \<Rightarrow> 'd process
    \<Rightarrow> fault + ('d \<times> 'd process \<times> 'd tick list)" where
  "client_acquire lnk i location ts p =
     and_then (request_response lnk ACQUIRE ACQUIRE_RESPONSE i location ts p) data_of"

definition client_releaseAcquire :: "'d server_cycle \<Rightarrow> dist_id \<Rightarrow> 'd \<Rightarrow> int \<Rightarrow> 'd tick list
    \<Rightarrow> 'd process \<Rightarrow> fault + ('d process \<times> 'd tick list)" where
  "client_releaseAcquire lnk i d location ts p =
     waitSendRequest lnk ts (send location RELEASE_ACQUIRE (Update_Payload i d) p)"

definition client_lock :: "'d server_cycle \<Rightarrow> dist_id \<Rightarrow> int \<Rightarrow> 'd tick list \<Rightarrow> 'd process
    \<Rightarrow> fault + ('d process \<times> 'd tick list)" where
  "client_lock lnk i location ts p =
     and_then (request_response lnk LOCK LOCK_RESPONSE i location ts p) (\<lambda>(m, q, us). Inr (q, us))"

definition client_unlock :: "'d server_cycle \<Rightarrow> dist_id \<Rightarrow> int \<Rightarrow> 'd tick list \<Rightarrow> 'd process
    \<Rightarrow> fault + ('d process \<times> 'd tick list)" where
  "client_unlock lnk i location ts p =
     waitSendRequest lnk ts (send location UNLOCK (Id_Payload i) p)"

definition client_lockShared :: "'d server_cycle \<Rightarrow> dist_id \<Rightarrow> int \<Rightarrow> 'd tick list \<Rightarrow> 'd process
    \<Rightarrow> fault + ('d process \<times> 'd tick list)" where
  "client_lockShared lnk i location ts p =
     and_then (request_response lnk LOCK_SHARED LOCK_SHARED_RESPONSE i location ts p)
       (\<lambda>(m, q, us). Inr (q, us))"

definition client_unlockShared :: "'d server_cycle \<Rightarrow> dist_id \<Rightarrow> int \<Rightarrow> 'd tick list \<Rightarrow> 'd process
    \<Rightarrow> fault + ('d process \<times> 'd tick list)" where
  "client_unlockShared lnk i location ts p =
     waitSendRequest lnk ts (send location UNLOCK_SHARED (Id_Payload i) p)"

section \<open>The operations of the mutex\<close>

text \<open>
  The local branch of the blocking operations: when the mutex is not available, the local request is
  queued and the server waits for it; then the lock is taken.
\<close>

definition local_take ::
  "'d server_cycle \<Rightarrow> mutex_request_type \<Rightarrow> ('d hs_mutex \<Rightarrow> bool) \<Rightarrow> ('d hs_mutex \<Rightarrow> 'd hs_mutex)
     \<Rightarrow> dist_id \<Rightarrow> 'd tick list \<Rightarrow> 'd process \<Rightarrow> fault + ('d process \<times> 'd tick list)" where
  "local_take lnk rt unavailable take_lock i ts p =
     and_then (mutex_at i p) (\<lambda>m.
     and_then (if unavailable m
               then and_then (update_mutex i (pushRequest (Request i LOCAL_REQUEST rt)) p)
                      (server_wait lnk (Request i LOCAL_REQUEST rt) ts)
               else Inr (p, ts)) (\<lambda>(p1, ts1).
     and_then (update_mutex i take_lock p1) (\<lambda>p2. Inr (p2, ts1))))"

definition with_data :: "dist_id \<Rightarrow> 'd process \<times> 'd tick list
    \<Rightarrow> fault + ('d \<times> 'd process \<times> 'd tick list)" where
  "with_data i r = (case r of (p, ts) \<Rightarrow>
     and_then (mutex_at i p) (\<lambda>m. Inr (node_data m, p, ts)))"

definition store_data :: "dist_id \<Rightarrow> 'd \<times> 'd process \<times> 'd tick list
    \<Rightarrow> fault + ('d \<times> 'd process \<times> 'd tick list)" where
  "store_data i r = (case r of (d, p, ts) \<Rightarrow>
     and_then (update_mutex i (\<lambda>m. m\<lparr>node_data := d\<rparr>) p) (\<lambda>p1. Inr (d, p1, ts)))"

definition mutex_read :: "'d server_cycle \<Rightarrow> dist_id \<Rightarrow> 'd tick list \<Rightarrow> 'd process
    \<Rightarrow> fault + ('d \<times> 'd process \<times> 'd tick list)" where
  "mutex_read lnk i ts p =
     and_then (mutex_at i p) (\<lambda>m.
       if node_state m = LOCAL
       then and_then (local_take lnk RT_READ is_locked mutex_lockShared i ts p) (with_data i)
       else and_then (client_read lnk i (node_location m) ts p) (store_data i))"

definition local_releaseShared :: "dist_id \<Rightarrow> 'd process \<Rightarrow> fault + 'd process" where
  "local_releaseShared i p =
     and_then (update_mutex i mutex_unlockShared p) (\<lambda>p1.
     and_then (mutex_at i p1) (\<lambda>m. if locked_shared m = 0 then notify i p1 else Inr p1))"

definition mutex_releaseRead :: "'d server_cycle \<Rightarrow> dist_id \<Rightarrow> 'd tick list \<Rightarrow> 'd process
    \<Rightarrow> fault + ('d process \<times> 'd tick list)" where
  "mutex_releaseRead lnk i ts p =
     and_then (mutex_at i p) (\<lambda>m.
       if node_state m = LOCAL
       then and_then (local_releaseShared i p) (\<lambda>q. Inr (q, ts))
       else client_releaseRead lnk i (node_location m) ts p)"

definition not_free :: "'d hs_mutex \<Rightarrow> bool" where
  "not_free m \<longleftrightarrow> is_locked m \<or> locked_shared m > 0"

definition mutex_acquire :: "'d server_cycle \<Rightarrow> dist_id \<Rightarrow> 'd tick list \<Rightarrow> 'd process
    \<Rightarrow> fault + ('d \<times> 'd process \<times> 'd tick list)" where
  "mutex_acquire lnk i ts p =
     and_then (mutex_at i p) (\<lambda>m.
       if node_state m = LOCAL
       then and_then (local_take lnk RT_ACQUIRE not_free mutex_lock i ts p) (with_data i)
       else and_then (client_acquire lnk i (node_location m) ts p) (store_data i))"

definition local_release :: "dist_id \<Rightarrow> 'd process \<Rightarrow> fault + 'd process" where
  "local_release i p = and_then (update_mutex i mutex_unlock p) (notify i)"

definition mutex_releaseAcquire :: "'d server_cycle \<Rightarrow> dist_id \<Rightarrow> 'd tick list \<Rightarrow> 'd process
    \<Rightarrow> fault + ('d process \<times> 'd tick list)" where
  "mutex_releaseAcquire lnk i ts p =
     and_then (mutex_at i p) (\<lambda>m.
       if node_state m = LOCAL
       then and_then (local_release i p) (\<lambda>q. Inr (q, ts))
       else client_releaseAcquire lnk i (node_data m) (node_location m) ts p)"

definition mutex_op_lock :: "'d server_cycle \<Rightarrow> dist_id \<Rightarrow> 'd tick list \<Rightarrow> 'd process
    \<Rightarrow> fault + ('d process \<times> 'd tick list)" where
  "mutex_op_lock lnk i ts p =
     and_then (mutex_at i p) (\<lambda>m.
       if node_state m = LOCAL
       then local_take lnk RT_LOCK not_free mutex_lock i ts p
       else client_lock lnk i (node_location m) ts p)"

definition mutex_op_unlock :: "'d server_cycle \<Rightarrow> dist_id \<Rightarrow> 'd tick list \<Rightarrow> 'd process
    \<Rightarrow> fault + ('d process \<times> 'd tick list)" where
  "mutex_op_unlock lnk i ts p =
     and_then (mutex_at i p) (\<lambda>m.
       if node_state m = LOCAL
       then and_then (local_release i p) (\<lambda>q. Inr (q, ts))
       else client_unlock lnk i (node_location m) ts p)"

definition mutex_op_lockShared :: "'d server_cycle \<Rightarrow> dist_id \<Rightarrow> 'd tick list \<Rightarrow> 'd process
    \<Rightarrow> fault + ('d process \<times> 'd tick list)" where
  "mutex_op_lockShared lnk i ts p =
     and_then (mutex_at i p) (\<lambda>m.
       if node_state m = LOCAL
       then local_take lnk RT_LOCK_SHARED is_locked mutex_lockShared i ts p
       else client_lockShared lnk i (node_location m) ts p)"

definition mutex_op_unlockShared :: "'d server_cycle \<Rightarrow> dist_id \<Rightarrow> 'd tick list \<Rightarrow> 'd process
    \<Rightarrow> fault + ('d process \<times> 'd tick list)" where
  "mutex_op_unlockShared lnk i ts p =
     and_then (mutex_at i p) (\<lambda>m.
       if node_state m = LOCAL
       then and_then (local_releaseShared i p) (\<lambda>q. Inr (q, ts))
       else client_unlockShared lnk i (node_location m) ts p)"

end
