(* ===== verification/Mutex_Lemmas.thy ===== *)
theory Mutex_Lemmas
  imports Mutex_Client
begin

text \<open>
  The lemma library of the mutex components: every response and handler in closed form on the mutex
  it serves, the readers-writer vocabulary (\<open>exclusive\<close>, \<open>no_stuck\<close>) and its preservation.
\<close>

section \<open>Tags\<close>

lemma msg_tag_sum: "msg_tag e t = epoch_value e + tag_value t"
  by (cases e; cases t) (simp_all add: msg_tag_def)

lemma tag_value_range: "0 \<le> tag_value t \<and> tag_value t < 16"
  by (cases t) simp_all

lemma tag_value_inject: "tag_value s = tag_value t \<longleftrightarrow> s = t"
  by (cases s; cases t) simp_all

lemma msg_tag_inject: "msg_tag e s = msg_tag f t \<longleftrightarrow> e = f \<and> s = t"
proof
  assume eq: "msg_tag e s = msg_tag f t"
  show "e = f \<and> s = t"
    using eq tag_value_range [of s] tag_value_range [of t]
    by (cases e; cases f) (simp_all add: msg_tag_sum tag_value_inject)
qed simp

section \<open>Closed forms\<close>

lemmas mutex_state_defs =
  mutex_lock_def mutex_lockShared_def mutex_unlock_def mutex_unlockShared_def

lemma mutex_at_Inr [simp]: "mutex_at i p = Inr m \<longleftrightarrow> mutex_map p i = Some m"
  by (auto simp: mutex_at_def split: option.splits)

lemma mutex_at_Some: "mutex_map p i = Some m \<Longrightarrow> mutex_at i p = Inr m"
  by (simp add: mutex_at_def)

lemma mutex_at_manage [simp]: "mutex_at i (manage i m p) = Inr m"
  by (simp add: manage_def)

lemma manage_select [simp]:
  "rank (manage i m p) = rank p" "server_epoch (manage i m p) = server_epoch p"
  "inbox (manage i m p) = inbox p" "outbox (manage i m p) = outbox p"
  "mutex_map (manage i m p) = (mutex_map p)(i \<mapsto> m)"
  by (simp_all add: manage_def)

lemma send_select [simp]:
  "rank (send d t x p) = rank p" "server_epoch (send d t x p) = server_epoch p"
  "inbox (send d t x p) = inbox p" "mutex_map (send d t x p) = mutex_map p"
  by (simp_all add: send_def)

lemma manage_send [simp]: "manage i m (send d t x p) = send d t x (manage i m p)"
  by (simp add: manage_def send_def)

lemma manage_manage [simp]: "manage i m (manage i m' p) = manage i m p"
  by (simp add: manage_def)

lemma update_mutex_eq:
  "mutex_map p i = Some m \<Longrightarrow> update_mutex i f p = Inr (manage i (f m) p)"
  by (simp add: update_mutex_def mutex_at_def)

text \<open>What a response does to the mutex, and the message it sends.\<close>

definition is_shared_type :: "mutex_request_type \<Rightarrow> bool" where
  "is_shared_type t \<longleftrightarrow> t = RT_READ \<or> t = RT_LOCK_SHARED"

definition grant :: "mutex_request \<Rightarrow> 'd hs_mutex \<Rightarrow> 'd hs_mutex" where
  "grant r m = (if is_shared_type (req_type r) then mutex_lockShared m else mutex_lock m)"

definition response_tag :: "mutex_request_type \<Rightarrow> tag" where
  "response_tag t = (case t of RT_READ \<Rightarrow> READ_RESPONSE | RT_LOCK \<Rightarrow> LOCK_RESPONSE
     | RT_ACQUIRE \<Rightarrow> ACQUIRE_RESPONSE | RT_LOCK_SHARED \<Rightarrow> LOCK_SHARED_RESPONSE)"

definition response_payload :: "'d \<Rightarrow> mutex_request_type \<Rightarrow> 'd payload" where
  "response_payload d t = (if t = RT_READ \<or> t = RT_ACQUIRE then Data_Payload d else Void_Payload)"

definition response :: "int \<Rightarrow> epoch_kind \<Rightarrow> 'd \<Rightarrow> mutex_request \<Rightarrow> 'd message" where
  "response me e d r =
     \<lparr>msg_source = me, msg_dest = req_source r, wire_tag = msg_tag e (response_tag (req_type r)),
      msg_payload = response_payload d (req_type r)\<rparr>"

lemma grant_data [simp]: "node_data (grant r m) = node_data m"
  "lock_requests (grant r m) = lock_requests m"
  "lock_shared_requests (grant r m) = lock_shared_requests m"
  "node_state (grant r m) = node_state m"
  by (simp_all add: grant_def mutex_state_defs)

lemma grant_locked:
  "is_locked (grant r m) \<longleftrightarrow> is_locked m \<or> \<not> is_shared_type (req_type r)"
  "locked_shared (grant r m) = locked_shared m + (if is_shared_type (req_type r) then 1 else 0)"
  by (simp_all add: grant_def mutex_state_defs)

lemma respond_eq:
  assumes "mutex_map p (req_id r) = Some m"
  shows "respond r p = Inr (manage (req_id r) (grant r m) p
           \<lparr>outbox := outbox p @ [response (rank p) (server_epoch p) (node_data m) r]\<rparr>)"
  using assms
  by (cases "req_type r")
    (simp_all add: respond_def respondToRead_def respondToLock_def respondToAcquire_def
      respondToLockShared_def update_mutex_eq mutex_at_def grant_def is_shared_type_def
      response_def response_tag_def response_payload_def send_def manage_def mutex_state_defs)

lemma fold_grant_select [simp]:
  "node_data (fold grant rs m) = node_data m"
  "lock_requests (fold grant rs m) = lock_requests m"
  "lock_shared_requests (fold grant rs m) = lock_shared_requests m"
  "node_state (fold grant rs m) = node_state m"
  by (induction rs arbitrary: m) simp_all

text \<open>Granting a list of requests: the count of the shared ones, and whether one is exclusive.\<close>

lemma fold_grant_locked:
  "is_locked (fold grant rs m) \<longleftrightarrow> is_locked m \<or> (\<exists>r\<in>set rs. \<not> is_shared_type (req_type r))"
  by (induction rs arbitrary: m) (auto simp: grant_def mutex_state_defs)

lemma fold_grant_shared:
  "locked_shared (fold grant rs m) =
     locked_shared m + int (length (filter (\<lambda>r. is_shared_type (req_type r)) rs))"
  by (induction rs arbitrary: m) (auto simp: grant_def mutex_state_defs)

lemma run_all_respond:
  assumes "\<forall>r\<in>set rs. req_id r = i" and "mutex_map p i = Some m"
  shows "run_all respond rs p = Inr (manage i (fold grant rs m) p
           \<lparr>outbox := outbox p @ map (response (rank p) (server_epoch p) (node_data m)) rs\<rparr>)"
  using assms
proof (induction rs arbitrary: p m)
  case Nil
  then show ?case by (simp add: manage_def fun_upd_idem)
next
  case (Cons r rs)
  then have "mutex_map p (req_id r) = Some m" by simp
  from respond_eq [OF this] Cons show ?case by (simp add: manage_def)
qed

section \<open>What is served\<close>

definition remote :: "mutex_request list \<Rightarrow> bool" where
  "remote rs \<longleftrightarrow> (\<forall>r\<in>set rs. req_source r \<noteq> LOCAL_REQUEST)"

lemma remote_simps [simp]:
  "remote []" "remote (r # rs) \<longleftrightarrow> req_source r \<noteq> LOCAL_REQUEST \<and> remote rs"
  "remote (rs @ us) \<longleftrightarrow> remote rs \<and> remote us"
  by (auto simp: remote_def)

lemma drain_shared_append:
  "drain_shared rs = (q, rest, stop) \<Longrightarrow> q @ rest = rs"
  by (induction rs arbitrary: q rest stop) (auto split: if_splits prod.splits)

lemma drain_shared_remote: "remote rs \<Longrightarrow> drain_shared rs = (rs, [], False)"
  by (induction rs) (auto split: prod.splits)

lemma drain_shared_local:
  "remote rs \<Longrightarrow> req_source r = LOCAL_REQUEST \<Longrightarrow> drain_shared (rs @ r # us) = (rs @ [r], us, True)"
  by (induction rs) auto

text \<open>The pending requests of a mutex are those it queued under its own id, by the kind of lock.\<close>

definition wf_mutex :: "dist_id \<Rightarrow> 'd hs_mutex \<Rightarrow> bool" where
  "wf_mutex i m \<longleftrightarrow>
     (\<forall>r\<in>set (lock_shared_requests m). req_id r = i \<and> is_shared_type (req_type r)) \<and>
     (\<forall>r\<in>set (lock_requests m). req_id r = i \<and> \<not> is_shared_type (req_type r))"

definition remote_mutex :: "'d hs_mutex \<Rightarrow> bool" where
  "remote_mutex m \<longleftrightarrow> remote (lock_shared_requests m) \<and> remote (lock_requests m)"

lemma requestsToProcess_locked: "is_locked m \<Longrightarrow> requestsToProcess m = ([], m)"
  by (simp add: requestsToProcess_def)

lemma requestsToProcess_remote:
  assumes "\<not> is_locked m" and "remote (lock_shared_requests m)"
  shows "requestsToProcess m =
    (lock_shared_requests m @ take 1 (lock_requests m),
     m\<lparr>lock_shared_requests := [], lock_requests := drop 1 (lock_requests m)\<rparr>)"
  using assms
  by (cases "lock_requests m") (simp_all add: requestsToProcess_def drain_shared_remote)

text \<open>\<open>serve\<close> is the mutex after all the requests that can be processed have been granted.\<close>

definition serve :: "'d hs_mutex \<Rightarrow> 'd hs_mutex" where
  "serve m = (case requestsToProcess m of (q, m') \<Rightarrow> fold grant q m')"

lemma requestsToProcess_ids:
  assumes "wf_mutex i m" and "requestsToProcess m = (q, m')"
  shows "\<forall>r\<in>set q. req_id r = i"
proof -
  obtain q1 rest stop where d: "drain_shared (lock_shared_requests m) = (q1, rest, stop)"
    by (cases "drain_shared (lock_shared_requests m)") auto
  then have "set q1 \<subseteq> set (lock_shared_requests m)"
    by (metis drain_shared_append set_append sup_ge1)
  moreover have "set q \<subseteq> set q1 \<union> set (lock_requests m)"
    using assms(2) d
    by (auto simp: requestsToProcess_def Let_def split: if_splits list.splits)
  ultimately show ?thesis using assms(1) by (fastforce simp: wf_mutex_def)
qed

lemma respondToRequests_eq:
  assumes "mutex_map p i = Some m" and "wf_mutex i m"
  shows "respondToRequests i p = Inr (manage i (serve m) p
     \<lparr>outbox := outbox p @ map (response (rank p) (server_epoch p) (node_data m))
        (fst (requestsToProcess m))\<rparr>)"
proof -
  obtain q m' where q: "requestsToProcess m = (q, m')" by (cases "requestsToProcess m")
  have data: "node_data m' = node_data m"
    using q by (auto simp: requestsToProcess_def Let_def split: if_splits prod.splits list.splits)
  have "mutex_map (manage i m' p) i = Some m'" by simp
  from run_all_respond [OF requestsToProcess_ids [OF assms(2) q] this] show ?thesis
    using assms(1) q data
    by (simp add: respondToRequests_def mutex_at_Some serve_def manage_def)
qed

lemma serve_locked: "is_locked m \<Longrightarrow> serve m = m"
  by (simp add: serve_def requestsToProcess_locked)

lemma filter_all_shared:
  "\<forall>r\<in>set rs. is_shared_type (req_type r) \<Longrightarrow> filter (\<lambda>r. is_shared_type (req_type r)) rs = rs"
  by (simp add: filter_id_conv)

text \<open>The lock state after serving an unlocked mutex with requests of other processes only.\<close>

lemma serve_unlocked:
  assumes "\<not> is_locked m" and "wf_mutex i m" and "remote (lock_shared_requests m)"
  shows "is_locked (serve m) \<longleftrightarrow> lock_requests m \<noteq> []"
    and "locked_shared (serve m) = locked_shared m + int (length (lock_shared_requests m))"
    and "lock_shared_requests (serve m) = []"
    and "lock_requests (serve m) = drop 1 (lock_requests m)"
    and "node_data (serve m) = node_data m"
proof -
  from assms(2) have shared: "\<forall>r\<in>set (lock_shared_requests m). is_shared_type (req_type r)"
    and excl: "\<forall>r\<in>set (take 1 (lock_requests m)). \<not> is_shared_type (req_type r)"
    by (auto simp: wf_mutex_def dest: in_set_takeD)
  have none: "filter (\<lambda>r. is_shared_type (req_type r)) (take 1 (lock_requests m)) = []"
    using excl by (simp add: filter_empty_conv)
  show "is_locked (serve m) \<longleftrightarrow> lock_requests m \<noteq> []"
    using assms(1) shared excl
    by (cases "lock_requests m")
      (auto simp: serve_def requestsToProcess_remote [OF assms(1,3)] fold_grant_locked
        grant_locked)
  show "locked_shared (serve m) = locked_shared m + int (length (lock_shared_requests m))"
    using none
    by (simp add: serve_def requestsToProcess_remote [OF assms(1,3)] fold_grant_shared
        filter_all_shared [OF shared] del: take_Suc_conv_app_nth)
qed (simp_all add: serve_def requestsToProcess_remote [OF assms(1,3)])

end
