(* ===== verification/Mutex_Invariant.thy ===== *)
theory Mutex_Invariant
  imports Mutex_Lemmas
begin

text \<open>
  The contract every request handler of the mutex server fulfils, stated as a locale: it finds the
  mutex, changes only that mutex, appends messages to the outbox, and keeps the mutex good (its
  queues well formed, and no pending request forgotten). The reception cycle is proved against the
  contract, which is then interpreted on each handler.
\<close>

section \<open>Good mutexes\<close>

text \<open>
  No request is stuck: a shared request only waits behind an exclusive lock, an exclusive one only
  behind some lock.
\<close>

definition no_stuck :: "'d hs_mutex \<Rightarrow> bool" where
  "no_stuck m \<longleftrightarrow>
     (lock_shared_requests m \<noteq> [] \<longrightarrow> is_locked m) \<and>
     (lock_requests m \<noteq> [] \<longrightarrow> is_locked m \<or> locked_shared m > 0)"

definition exclusive :: "'d hs_mutex \<Rightarrow> bool" where
  "exclusive m \<longleftrightarrow> \<not> (is_locked m \<and> locked_shared m > 0)"

definition good_mutex :: "dist_id \<Rightarrow> 'd hs_mutex \<Rightarrow> bool" where
  "good_mutex i m \<longleftrightarrow> wf_mutex i m \<and> remote_mutex m \<and> no_stuck m"

lemma good_new_mutex: "good_mutex i (new_mutex st loc d)"
  by (simp add: good_mutex_def new_mutex_def wf_mutex_def remote_mutex_def no_stuck_def)

lemma good_push:
  assumes "good_mutex i m" and "s \<noteq> LOCAL_REQUEST"
    and "is_locked m \<or> \<not> is_shared_type t \<and> locked_shared m > 0"
  shows "good_mutex i (pushRequest (Request i s t) m)"
  using assms
  by (cases t)
    (auto simp: good_mutex_def pushRequest_def wf_mutex_def remote_mutex_def no_stuck_def
      is_shared_type_def)

lemma good_lockShared: "good_mutex i m \<Longrightarrow> good_mutex i (mutex_lockShared m)"
  by (auto simp: good_mutex_def wf_mutex_def remote_mutex_def no_stuck_def mutex_lockShared_def)

lemma good_lock: "good_mutex i m \<Longrightarrow> good_mutex i (mutex_lock m)"
  by (auto simp: good_mutex_def wf_mutex_def remote_mutex_def no_stuck_def mutex_lock_def)

lemma good_serve:
  assumes "wf_mutex i m" "remote_mutex m" "is_locked m \<Longrightarrow> no_stuck m"
  shows "good_mutex i (serve m)"
proof (cases "is_locked m")
  case True
  with assms show ?thesis by (simp add: serve_locked good_mutex_def)
next
  case False
  from assms(2) have r: "remote (lock_shared_requests m)" by (simp add: remote_mutex_def)
  note s = serve_unlocked [OF False assms(1) r]
  have "no_stuck (serve m)"
    using s(1,3,4) by (auto simp: no_stuck_def)
  moreover have "wf_mutex i (serve m)"
    using assms(1) s(3,4) by (auto simp: wf_mutex_def dest: in_set_dropD)
  moreover have "remote_mutex (serve m)"
    using assms(2) s(3,4) by (auto simp: remote_mutex_def remote_def dest: in_set_dropD)
  ultimately show ?thesis by (simp add: good_mutex_def)
qed

text \<open>Releasing a lock and serving the queues.\<close>

lemma good_unlock_serve:
  "good_mutex i m \<Longrightarrow> good_mutex i (serve ((mutex_unlock m)\<lparr>node_data := d\<rparr>))"
  "good_mutex i m \<Longrightarrow> good_mutex i (serve (mutex_unlock m))"
  by (rule good_serve; simp add: good_mutex_def wf_mutex_def remote_mutex_def mutex_unlock_def)+

lemma good_unlockShared_serve:
  "good_mutex i m \<Longrightarrow> good_mutex i (serve (mutex_unlockShared m))"
  by (rule good_serve)
    (auto simp: good_mutex_def wf_mutex_def remote_mutex_def no_stuck_def mutex_unlockShared_def)

section \<open>The server invariant\<close>

definition id_request_tags :: "tag set" where
  "id_request_tags = {READ, ACQUIRE, LOCK, LOCK_SHARED, UNLOCK, UNLOCK_SHARED}"

text \<open>A pending message of the current epoch carries the payload of its tag, for a managed node.\<close>

definition valid_message :: "epoch_kind \<Rightarrow> dist_id set \<Rightarrow> 'd message \<Rightarrow> bool" where
  "valid_message e known m \<longleftrightarrow>
     msg_source m \<noteq> LOCAL_REQUEST \<and>
     (\<forall>t\<in>id_request_tags. wire_tag m = msg_tag e t \<longrightarrow> (\<exists>i\<in>known. msg_payload m = Id_Payload i)) \<and>
     (wire_tag m = msg_tag e RELEASE_ACQUIRE \<longrightarrow> (\<exists>i\<in>known. \<exists>d. msg_payload m = Update_Payload i d))"

definition server_inv :: "'d process \<Rightarrow> bool" where
  "server_inv p \<longleftrightarrow>
     (\<forall>i m. mutex_map p i = Some m \<longrightarrow> good_mutex i m) \<and>
     (\<forall>m\<in>set (inbox p). valid_message (server_epoch p) (dom (mutex_map p)) m)"

text \<open>
  The messages of the other epoch, and those the mutex server does not handle, stay where they are.
\<close>

definition handled_tags :: "epoch_kind \<Rightarrow> int set" where
  "handled_tags e = msg_tag e ` insert RELEASE_ACQUIRE id_request_tags"

definition frame :: "'d process \<Rightarrow> 'd process \<Rightarrow> bool" where
  "frame p p' \<longleftrightarrow>
     rank p' = rank p \<and> server_epoch p' = server_epoch p \<and> dom (mutex_map p') = dom (mutex_map p) \<and>
     filter (\<lambda>m. wire_tag m \<notin> handled_tags (server_epoch p)) (inbox p')
       = filter (\<lambda>m. wire_tag m \<notin> handled_tags (server_epoch p)) (inbox p) \<and>
     set (inbox p') \<subseteq> set (inbox p) \<and>
     (\<exists>out. outbox p' = outbox p @ out)"

lemma frame_refl [simp]: "frame p p"
  by (simp add: frame_def)

lemma frame_trans: "frame p q \<Longrightarrow> frame q r \<Longrightarrow> frame p r"
  by (auto simp: frame_def)

text \<open>The handler contract: a handler applied to a message for a managed node.\<close>

definition serves :: "dist_id \<Rightarrow> 'd process \<Rightarrow> fault + 'd process \<Rightarrow> bool" where
  "serves i p r \<longleftrightarrow>
     (\<exists>m' out. good_mutex i m' \<and> r = Inr (manage i m' p\<lparr>outbox := outbox p @ out\<rparr>))"

lemma servesI:
  "r = Inr (manage i m' p\<lparr>outbox := outbox p @ out\<rparr>) \<Longrightarrow> good_mutex i m' \<Longrightarrow> serves i p r"
  by (auto simp: serves_def)

lemma serves_push: "good_mutex i m' \<Longrightarrow> serves i p (Inr (manage i m' p))"
  by (rule servesI [where out = "[]"]) (simp_all add: manage_def)

lemma serves_inv:
  assumes "serves i p r" and "server_inv p" and "i \<in> dom (mutex_map p)"
  shows "\<exists>p'. r = Inr p' \<and> server_inv p' \<and> frame p p' \<and> inbox p' = inbox p"
proof -
  from assms(1) obtain m' out
    where g: "good_mutex i m'" and r: "r = Inr (manage i m' p\<lparr>outbox := outbox p @ out\<rparr>)"
    by (auto simp: serves_def)
  let ?p' = "manage i m' p\<lparr>outbox := outbox p @ out\<rparr>"
  have "dom (mutex_map ?p') = dom (mutex_map p)"
    using assms(3) by (auto simp: manage_def)
  moreover have "server_inv ?p'"
    using assms(2) g calculation by (auto simp: server_inv_def manage_def)
  ultimately show ?thesis using r by (simp add: frame_def)
qed

locale request_handler =
  fixes handler :: "'d message \<Rightarrow> 'd process \<Rightarrow> fault + 'd process"
    and req_tag :: tag
  assumes handled: "req_tag \<in> insert RELEASE_ACQUIRE id_request_tags"
    and contract: "server_inv p \<Longrightarrow> valid_message (server_epoch p) (dom (mutex_map p)) m \<Longrightarrow>
      wire_tag m = msg_tag (server_epoch p) req_tag \<Longrightarrow>
      \<exists>i\<in>dom (mutex_map p). serves i p (handler m p)"
begin

text \<open>A poll finds at most one message, never faults, and keeps the server invariant.\<close>

lemma poll_keeps:
  assumes "server_inv p"
  shows "\<exists>p'. poll req_tag handler p = Inr p' \<and> server_inv p' \<and> frame p p'"
proof (cases "take_first (\<lambda>m. wire_tag m = msg_tag (server_epoch p) req_tag) (inbox p)")
  case None
  with assms show ?thesis by (simp add: poll_def probe_recv_def)
next
  case (Some mr)
  obtain m rest where mr: "mr = (m, rest)" by (cases mr)
  let ?q = "p\<lparr>inbox := rest\<rparr>"
  have tag: "wire_tag m = msg_tag (server_epoch p) req_tag"
    using take_first_Some [OF Some [unfolded mr]] by auto
  have sub: "set rest \<subseteq> set (inbox p)" "m \<in> set (inbox p)"
    using take_first_subset [OF Some [unfolded mr]] by auto
  have inv_q: "server_inv ?q"
    using assms sub by (auto simp: server_inv_def)
  have vm: "valid_message (server_epoch ?q) (dom (mutex_map ?q)) m"
    using assms sub by (simp add: server_inv_def)
  have "filter (\<lambda>m. wire_tag m \<notin> handled_tags (server_epoch p)) rest
      = filter (\<lambda>m. wire_tag m \<notin> handled_tags (server_epoch p)) (inbox p)"
    by (rule take_first_filter_other [OF Some [unfolded mr]])
      (use handled in \<open>auto simp: handled_tags_def\<close>)
  with sub have fr: "frame p ?q" by (simp add: frame_def)
  from contract [OF inv_q vm] tag
  obtain i where "i \<in> dom (mutex_map ?q)" "serves i ?q (handler m ?q)" by auto
  from serves_inv [OF this(2) inv_q this(1)] obtain p'
    where "handler m ?q = Inr p'" "server_inv p'" "frame ?q p'" by blast
  with Some mr fr show ?thesis
    by (auto simp: poll_def probe_recv_def intro: frame_trans)
qed

end

section \<open>The handlers fulfil the contract\<close>

lemma server_inv_good: "server_inv p \<Longrightarrow> mutex_map p i = Some m \<Longrightarrow> good_mutex i m"
  by (simp add: server_inv_def)

lemma handleRead_serves:
  assumes "mutex_map p i = Some m" "good_mutex i m" "s \<noteq> LOCAL_REQUEST"
  shows "serves i p (handleRead i s p)"
proof (cases "is_locked m")
  case True
  with assms show ?thesis
    by (simp add: handleRead_def mutex_at_Some update_mutex_eq serves_push good_push)
next
  case False
  with assms show ?thesis
    by (intro servesI [where m' = "mutex_lockShared m"])
      (simp_all add: handleRead_def respondToRead_def mutex_at_Some update_mutex_eq send_def
        good_lockShared)
qed

lemma handleLockShared_serves:
  assumes "mutex_map p i = Some m" "good_mutex i m" "s \<noteq> LOCAL_REQUEST"
  shows "serves i p (handleLockShared i s p)"
proof (cases "is_locked m")
  case True
  with assms show ?thesis
    by (simp add: handleLockShared_def mutex_at_Some update_mutex_eq serves_push good_push)
next
  case False
  with assms show ?thesis
    by (intro servesI [where m' = "mutex_lockShared m"])
      (simp_all add: handleLockShared_def respondToLockShared_def mutex_at_Some update_mutex_eq
        send_def good_lockShared)
qed

lemma handleAcquire_serves:
  assumes "mutex_map p i = Some m" "good_mutex i m" "s \<noteq> LOCAL_REQUEST"
  shows "serves i p (handleAcquire i s p)"
proof (cases "is_locked m \<or> locked_shared m > 0")
  case True
  then have "good_mutex i (pushRequest (Request i s RT_ACQUIRE) m)"
    by (intro good_push [OF assms(2,3)]) (auto simp: is_shared_type_def)
  with True assms show ?thesis
    by (simp add: handleAcquire_def mutex_at_Some update_mutex_eq serves_push)
next
  case False
  with assms show ?thesis
    by (intro servesI [where m' = "mutex_lock m"])
      (simp_all add: handleAcquire_def respondToAcquire_def mutex_at_Some update_mutex_eq send_def
        good_lock)
qed

lemma handleLock_serves:
  assumes "mutex_map p i = Some m" "good_mutex i m" "s \<noteq> LOCAL_REQUEST"
  shows "serves i p (handleLock i s p)"
proof (cases "is_locked m \<or> locked_shared m > 0")
  case True
  then have "good_mutex i (pushRequest (Request i s RT_LOCK) m)"
    by (intro good_push [OF assms(2,3)]) (auto simp: is_shared_type_def)
  with True assms show ?thesis
    by (simp add: handleLock_def mutex_at_Some update_mutex_eq serves_push)
next
  case False
  with assms show ?thesis
    by (intro servesI [where m' = "mutex_lock m"])
      (simp_all add: handleLock_def respondToLock_def mutex_at_Some update_mutex_eq send_def
        good_lock)
qed

text \<open>The releasing handlers: update the mutex, then serve it.\<close>

lemma release_eq:
  assumes "mutex_map p i = Some m" "wf_mutex i (f m)"
  shows "and_then (update_mutex i f p) (respondToRequests i)
     = Inr (manage i (serve (f m)) p\<lparr>outbox := outbox p @
         map (response (rank p) (server_epoch p) (node_data (f m))) (fst (requestsToProcess (f m)))\<rparr>)"
  using assms respondToRequests_eq [of "manage i (f m) p" i "f m"]
  by (simp add: update_mutex_eq)

lemma wf_mutex_release [simp]:
  "wf_mutex i (mutex_unlock m) = wf_mutex i m" "wf_mutex i (mutex_unlockShared m) = wf_mutex i m"
  "wf_mutex i (m\<lparr>node_data := d\<rparr>) = wf_mutex i m"
  by (simp_all add: wf_mutex_def mutex_state_defs)

lemma release_serves:
  assumes "mutex_map p i = Some m" "good_mutex i m" "wf_mutex i (f m)" "good_mutex i (serve (f m))"
  shows "serves i p (and_then (update_mutex i f p) (respondToRequests i))"
  using release_eq [of p i m f] assms by (auto intro: servesI)

lemma good_wf: "good_mutex i m \<Longrightarrow> wf_mutex i m"
  by (simp add: good_mutex_def)

lemma handleReleaseAcquire_serves:
  assumes "mutex_map p i = Some m" "good_mutex i m"
  shows "serves i p (handleReleaseAcquire i d p)"
  unfolding handleReleaseAcquire_def
  by (rule release_serves [OF assms])
    (simp_all add: good_wf [OF assms(2)] good_unlock_serve [OF assms(2)])

lemma handleUnlock_serves:
  assumes "mutex_map p i = Some m" "good_mutex i m"
  shows "serves i p (handleUnlock i p)"
  unfolding handleUnlock_def
  by (rule release_serves [OF assms])
    (simp_all add: good_wf [OF assms(2)] good_unlock_serve [OF assms(2)])

lemma handleUnlockShared_serves:
  assumes "mutex_map p i = Some m" "good_mutex i m"
  shows "serves i p (handleUnlockShared i p)"
  unfolding handleUnlockShared_def
  by (rule release_serves [OF assms])
    (simp_all add: good_wf [OF assms(2)] good_unlockShared_serve [OF assms(2)])

lemmas handler_contracts =
  server_inv_good valid_message_def id_request_tags_def with_id_def with_update_def

interpretation read_handler: request_handler "with_id handleRead" READ
  by unfold_locales (auto simp: handler_contracts intro!: handleRead_serves bexI)

interpretation acquire_handler: request_handler "with_id handleAcquire" ACQUIRE
  by unfold_locales (auto simp: handler_contracts intro!: handleAcquire_serves bexI)

interpretation lock_handler: request_handler "with_id handleLock" LOCK
  by unfold_locales (auto simp: handler_contracts intro!: handleLock_serves bexI)

interpretation lock_shared_handler: request_handler "with_id handleLockShared" LOCK_SHARED
  by unfold_locales (auto simp: handler_contracts intro!: handleLockShared_serves bexI)

interpretation release_acquire_handler:
  request_handler "with_update handleReleaseAcquire" RELEASE_ACQUIRE
  by unfold_locales
    (auto simp: handler_contracts intro!: handleReleaseAcquire_serves bexI)

interpretation unlock_handler: request_handler "with_id (\<lambda>i s. handleUnlock i)" UNLOCK
  by unfold_locales
    (auto simp: handler_contracts intro!: handleUnlock_serves bexI)

interpretation unlock_shared_handler:
  request_handler "with_id (\<lambda>i s. handleUnlockShared i)" UNLOCK_SHARED
  by unfold_locales
    (auto simp: handler_contracts intro!: handleUnlockShared_serves bexI)

lemma handleIncomingReadAcquireLock_keeps:
  assumes "server_inv p"
  shows "\<exists>p'. handleIncomingReadAcquireLock p = Inr p' \<and> server_inv p' \<and> frame p p'"
proof -
  obtain p1 where 1: "poll READ (with_id handleRead) p = Inr p1" "server_inv p1" "frame p p1"
    using read_handler.poll_keeps [OF assms] by blast
  obtain p2 where 2: "poll ACQUIRE (with_id handleAcquire) p1 = Inr p2" "server_inv p2" "frame p1 p2"
    using acquire_handler.poll_keeps [OF 1(2)] by blast
  obtain p3 where 3: "poll LOCK (with_id handleLock) p2 = Inr p3" "server_inv p3" "frame p2 p3"
    using lock_handler.poll_keeps [OF 2(2)] by blast
  obtain p4 where 4: "poll LOCK_SHARED (with_id handleLockShared) p3 = Inr p4" "server_inv p4"
      "frame p3 p4"
    using lock_shared_handler.poll_keeps [OF 3(2)] by blast
  from 1 2 3 4 show ?thesis
    by (auto simp: handleIncomingReadAcquireLock_def intro: frame_trans)
qed

lemma handleIncomingRequests_keeps:
  assumes "server_inv p"
  shows "\<exists>p'. handleIncomingRequests p = Inr p' \<and> server_inv p' \<and> frame p p'"
proof -
  obtain p1 where 1: "handleIncomingReadAcquireLock p = Inr p1" "server_inv p1" "frame p p1"
    using handleIncomingReadAcquireLock_keeps [OF assms] by blast
  obtain p2 where 2: "poll RELEASE_ACQUIRE (with_update handleReleaseAcquire) p1 = Inr p2"
      "server_inv p2" "frame p1 p2"
    using release_acquire_handler.poll_keeps [OF 1(2)] by blast
  obtain p3 where 3: "poll UNLOCK (with_id (\<lambda>i s. handleUnlock i)) p2 = Inr p3" "server_inv p3"
      "frame p2 p3"
    using unlock_handler.poll_keeps [OF 2(2)] by blast
  obtain p4 where 4: "poll UNLOCK_SHARED (with_id (\<lambda>i s. handleUnlockShared i)) p3 = Inr p4"
      "server_inv p4" "frame p3 p4"
    using unlock_shared_handler.poll_keeps [OF 3(2)] by blast
  from 1 2 3 4 show ?thesis
    by (auto simp: handleIncomingRequests_def intro: frame_trans)
qed

end
