(* ===== verification/Mutex_Props.thy ===== *)
theory Mutex_Props
  imports Mutex_Invariant
begin

text \<open>
  The properties of the hard synchronization mutexes: the tags on the wire, the reception cycle, the
  readers-writer guarantee with the exact condition under which it holds, the commit of written data,
  the blocking local read and the remote read across two processes.
\<close>

section \<open>Tags\<close>

text \<open>No two pairs of an epoch and a message kind share a tag on the wire, so a probe for
  one kind of message of the current epoch never sees another kind or another epoch.\<close>

theorem wire_tags_distinct: "msg_tag e s = msg_tag f t \<longleftrightarrow> e = f \<and> s = t"
  by (rule msg_tag_inject)

section \<open>The reception cycle\<close>

definition idle_process :: "int \<Rightarrow> dist_id list \<Rightarrow> 'd \<Rightarrow> 'd process" where
  "idle_process r ids d =
     \<lparr>rank = r, server_epoch = EVEN,
      mutex_map = (\<lambda>i. if i \<in> set ids then Some (new_mutex LOCAL r d) else None),
      inbox = [], outbox = []\<rparr>"

abbreviation node0 :: dist_id where
  "node0 \<equiv> DistributedId 0 0"

definition id_message :: "int \<Rightarrow> tag \<Rightarrow> dist_id \<Rightarrow> 'd message" where
  "id_message src t i =
     \<lparr>msg_source = src, msg_dest = 0, wire_tag = msg_tag EVEN t, msg_payload = Id_Payload i\<rparr>"

definition update_message :: "int \<Rightarrow> dist_id \<Rightarrow> 'd \<Rightarrow> 'd message" where
  "update_message src i d =
     \<lparr>msg_source = src, msg_dest = 0, wire_tag = msg_tag EVEN RELEASE_ACQUIRE,
      msg_payload = Update_Payload i d\<rparr>"

lemma server_inv_idle:
  "server_inv (idle_process r ids d)"
  by (simp add: server_inv_def idle_process_def good_new_mutex)

text \<open>Property C15: a reception cycle over any well-formed inbox returns without throwing, and keeps
  the server invariant: every mutex's queues hold only its own requests of the right kind, and no
  pending request is forgotten behind a free lock.\<close>

theorem reception_cycle_invariant:
  assumes "server_inv p"
  shows "\<exists>p'. handleIncomingRequests p = Inr p' \<and> server_inv p'"
  using handleIncomingRequests_keeps [OF assms] by blast

text \<open>Two requests to read and acquire a node, and a message of the other epoch.\<close>

definition odd_message :: "'d message" where
  "odd_message = \<lparr>msg_source = 1, msg_dest = 0, wire_tag = msg_tag ODD READ, msg_payload = Id_Payload node0\<rparr>"

definition busy_process :: "nat process" where
  "busy_process = deliver [odd_message, id_message 1 ACQUIRE node0, id_message 2 READ node0] (idle_process 0 [node0] 7)"

lemma busy_inv: "server_inv busy_process"
proof -
  have "valid_message EVEN {node0} m" if "m \<in> {odd_message, id_message 1 ACQUIRE node0, id_message 2 READ node0}" for m :: "nat message"
    using that
    by (auto simp: valid_message_def odd_message_def id_message_def msg_tag_inject LOCAL_REQUEST_def id_request_tags_def)
  moreover have "dom (mutex_map busy_process) = {node0}" by (auto simp: busy_process_def deliver_def idle_process_def split: if_splits)
  ultimately show ?thesis
    by (auto simp: server_inv_def busy_process_def deliver_def idle_process_def good_new_mutex)
qed

theorem reception_cycle_invariant_witness:
  "\<exists>p'. handleIncomingRequests busy_process = Inr p' \<and> server_inv p'"
  by (rule reception_cycle_invariant [OF busy_inv])

text \<open>Property C30: a reception cycle of one epoch leaves every message of the other epoch in the inbox,
  in order, whatever it carries.\<close>

theorem epoch_isolation:
  assumes "server_inv p" and "handleIncomingRequests p = Inr p'" and "e \<noteq> server_epoch p"
  shows "filter (\<lambda>m. wire_tag m \<in> range (msg_tag e)) (inbox p')
       = filter (\<lambda>m. wire_tag m \<in> range (msg_tag e)) (inbox p)"
proof -
  from handleIncomingRequests_keeps [OF assms(1)] assms(2) have fr: "frame p p'" by auto
  let ?out = "\<lambda>m. wire_tag m \<notin> handled_tags (server_epoch p)"
  let ?old = "\<lambda>m. wire_tag m \<in> range (msg_tag e)"
  have "?old m \<Longrightarrow> ?out m" for m :: "'a message"
    using assms(3) by (auto simp: handled_tags_def msg_tag_inject)
  then have narrow: "filter ?old ms = filter ?old (filter ?out ms)" for ms :: "'a message list"
    by (simp add: filter_filter cong: filter_cong) (metis (no_types, lifting) filter_cong)
  from fr have "filter ?out (inbox p') = filter ?out (inbox p)" by (simp add: frame_def)
  with narrow show ?thesis by metis
qed

theorem epoch_isolation_witness:
  "\<exists>p'. handleIncomingRequests busy_process = Inr p' \<and>
     filter (\<lambda>m. wire_tag m \<in> range (msg_tag ODD)) (inbox p') = [odd_message]"
proof -
  obtain p' where p': "handleIncomingRequests busy_process = Inr p'"
    using handleIncomingRequests_keeps [OF busy_inv] by blast
  have other: "ODD \<noteq> server_epoch busy_process" by (simp add: busy_process_def deliver_def idle_process_def)
  have "filter (\<lambda>m. wire_tag m \<in> range (msg_tag ODD)) (inbox busy_process) = [odd_message]"
    by (auto simp: busy_process_def deliver_def idle_process_def odd_message_def id_message_def msg_tag_inject)
  with epoch_isolation [OF busy_inv p' other] p' show ?thesis by simp
qed

section \<open>Exclusion\<close>

definition all_exclusive :: "'d process \<Rightarrow> bool" where
  "all_exclusive p \<longleftrightarrow> (\<forall>i m. mutex_map p i = Some m \<longrightarrow> exclusive m)"

lemma all_exclusive_manage:
  "all_exclusive p \<Longrightarrow> exclusive m \<Longrightarrow> all_exclusive (manage i m p)"
  by (auto simp: all_exclusive_def)

lemma all_exclusive_send [simp]: "all_exclusive (send d t x p) = all_exclusive p"
  by (simp add: all_exclusive_def)

lemma exclusive_push [simp]: "exclusive (pushRequest r m) = exclusive m"
  by (cases "req_type r") (simp_all add: pushRequest_def exclusive_def)

text \<open>Property C24: granting or queueing a new request keeps the readers-writer guarantee of every mutex:
  none is locked exclusively while a shared lock is held.\<close>

theorem request_handlers_keep_exclusion:
  assumes "all_exclusive p"
    and "h \<in> {handleRead, handleAcquire, handleLock, handleLockShared}"
    and "h i s p = Inr p'"
  shows "all_exclusive p'"
proof -
  obtain m where m: "mutex_map p i = Some m"
    using assms(2,3)
    by (auto simp: handleRead_def handleAcquire_def handleLock_def handleLockShared_def)
  with assms(1) have ex: "exclusive m" by (simp add: all_exclusive_def)
  have lock: "\<not> locked_shared m > 0 \<Longrightarrow> exclusive (mutex_lock m)"
    and shared: "\<not> is_locked m \<Longrightarrow> exclusive (mutex_lockShared m)"
    by (simp_all add: exclusive_def mutex_state_defs)
  show ?thesis
    using assms ex lock shared
    by (auto simp: handleRead_def handleAcquire_def handleLock_def handleLockShared_def
        respondToRead_def respondToAcquire_def respondToLock_def respondToLockShared_def
        mutex_at_Some [OF m] update_mutex_eq [OF m] all_exclusive_manage split: if_splits)
qed

theorem request_handlers_keep_exclusion_witness:
  "all_exclusive (manage node0 (mutex_lockShared (new_mutex LOCAL 0 (7::nat)))
     (idle_process 0 [node0] 7)
     \<lparr>outbox := [\<lparr>msg_source = 0, msg_dest = 1, wire_tag = msg_tag EVEN READ_RESPONSE,
        msg_payload = Data_Payload 7\<rparr>]\<rparr>)"
proof (rule request_handlers_keep_exclusion [where h = handleRead and i = node0 and s = 1])
  show "all_exclusive (idle_process 0 [node0] (7::nat))"
    by (simp add: all_exclusive_def idle_process_def exclusive_def new_mutex_def)
qed (simp_all add: handleRead_def respondToRead_def mutex_at_def update_mutex_def idle_process_def
    new_mutex_def manage_def send_def mutex_lockShared_def)

text \<open>
  The lock state left by the releasing handlers: every waiting shared request is granted, and then the
  first waiting exclusive request as well.
\<close>

definition mutex_after :: "dist_id \<Rightarrow> fault + 'd process \<Rightarrow> 'd hs_mutex option" where
  "mutex_after i r = (case r of Inl e \<Rightarrow> None | Inr p \<Rightarrow> mutex_map p i)"

lemma release_after:
  assumes "mutex_map p i = Some m" "wf_mutex i (f m)"
  shows "mutex_after i (and_then (update_mutex i f p) (respondToRequests i)) = Some (serve (f m))"
  by (simp add: release_eq [where f = f, OF assms] mutex_after_def manage_def)

text \<open>Property C4: the exact condition under which an unlock or a release keeps the readers-writer
  guarantee: no exclusive request is waiting, or no shared lock is held and none is waiting. The
  guarantee is lost in every other case, since both kinds of waiting requests are granted at once.\<close>

theorem release_exclusive_iff:
  assumes "mutex_map p i = Some m" and "good_mutex i m"
  shows "((\<exists>m'. mutex_after i (handleUnlock i p) = Some m' \<and> exclusive m') \<longleftrightarrow>
            lock_requests m = [] \<or> locked_shared m + int (length (lock_shared_requests m)) \<le> 0)
       \<and> ((\<exists>m'. mutex_after i (handleReleaseAcquire i d p) = Some m' \<and> exclusive m') \<longleftrightarrow>
            lock_requests m = [] \<or> locked_shared m + int (length (lock_shared_requests m)) \<le> 0)"
proof -
  have wf: "wf_mutex i m" and r: "remote (lock_shared_requests m)"
    using assms(2) by (simp_all add: good_mutex_def remote_mutex_def)
  have "mutex_after i (handleUnlock i p) = Some (serve (mutex_unlock m))"
    unfolding handleUnlock_def by (rule release_after [OF assms(1)]) (simp add: wf)
  moreover have "mutex_after i (handleReleaseAcquire i d p)
      = Some (serve ((mutex_unlock m)\<lparr>node_data := d\<rparr>))"
    unfolding handleReleaseAcquire_def by (rule release_after [OF assms(1)]) (simp add: wf)
  moreover have "exclusive (serve u) \<longleftrightarrow>
      lock_requests m = [] \<or> locked_shared m + int (length (lock_shared_requests m)) \<le> 0"
    if "u = mutex_unlock m \<or> u = (mutex_unlock m)\<lparr>node_data := d\<rparr>" for u
  proof -
    from that have u: "\<not> is_locked u" "wf_mutex i u" "remote (lock_shared_requests u)"
      "lock_requests u = lock_requests m" "locked_shared u = locked_shared m"
      "lock_shared_requests u = lock_shared_requests m"
      using wf r by (auto simp: mutex_unlock_def wf_mutex_def)
    from serve_unlocked(1,2) [OF u(1-3)] u(4-6) show ?thesis by (auto simp: exclusive_def)
  qed
  ultimately show ?thesis by simp
qed

theorem release_exclusive_iff_witness:
  "(\<exists>m'. mutex_after node0 (handleUnlock node0
       (manage node0 (mutex_lock (new_mutex LOCAL 0 (7::nat))) (idle_process 0 [node0] 7))) = Some m'
     \<and> exclusive m')"
proof -
  let ?m = "mutex_lock (new_mutex LOCAL 0 (7::nat))"
  have "good_mutex node0 ?m" by (rule good_lock [OF good_new_mutex])
  then show ?thesis
    using release_exclusive_iff [of "manage node0 ?m (idle_process 0 [node0] 7)" node0 ?m 8]
    by (simp add: new_mutex_def mutex_lock_def)
qed

text \<open>
  Property C26: the exact effect of the release of a shared lock: the first waiting exclusive request is granted
  at once, however many other readers hold the node, contrary to the comment in the handler that no request is processed
  while a shared lock is left. So the readers-writer guarantee is kept exactly when no exclusive request waits or the last
  reader has released.
\<close>

theorem shared_release_exclusive_iff:
  assumes "mutex_map p i = Some m" "good_mutex i m" "exclusive m" "locked_shared m > 0"
  shows "\<exists>p' m'. handleUnlockShared i p = Inr p' \<and> mutex_map p' i = Some m' \<and>
           outbox p' = outbox p @ map (response (rank p) (server_epoch p) (node_data m)) (take 1 (lock_requests m)) \<and>
           locked_shared m' = locked_shared m - 1 \<and> (is_locked m' \<longleftrightarrow> lock_requests m \<noteq> []) \<and>
           (exclusive m' \<longleftrightarrow> lock_requests m = [] \<or> locked_shared m = 1)"
proof -
  let ?u = "mutex_unlockShared m"
  have free: "\<not> is_locked m" and none: "lock_shared_requests m = []" and wf: "wf_mutex i m"
    using assms(2-4) by (auto simp: good_mutex_def exclusive_def no_stuck_def)
  have u: "\<not> is_locked ?u" "wf_mutex i ?u" "remote (lock_shared_requests ?u)" "lock_shared_requests ?u = []"
    "lock_requests ?u = lock_requests m" "locked_shared ?u = locked_shared m - 1" "node_data ?u = node_data m"
    using free none wf by (simp_all add: mutex_unlockShared_def wf_mutex_def)
  note s = serve_unlocked [OF u(1-3)]
  have "handleUnlockShared i p = Inr (manage i (serve ?u) p\<lparr>outbox := outbox p @
      map (response (rank p) (server_epoch p) (node_data m)) (take 1 (lock_requests m))\<rparr>)"
    unfolding handleUnlockShared_def
    using release_eq [where f = mutex_unlockShared, OF assms(1) u(2)] requestsToProcess_remote [OF u(1,3)] u(4,5,7) by simp
  then show ?thesis using s(1,2) u(4-6) assms(4) by (auto simp: manage_def exclusive_def)
qed

text \<open>Two readers hold the node and process 3 waits to acquire it.\<close>

definition read_twice :: "nat hs_mutex" where
  "read_twice = (new_mutex LOCAL 0 7)\<lparr>locked_shared := 2, lock_requests := [Request node0 3 RT_ACQUIRE]\<rparr>"

theorem shared_release_exclusive_iff_witness:
  "\<exists>p' m'. handleUnlockShared node0 (manage node0 read_twice (idle_process 0 [node0] 7)) = Inr p' \<and>
     mutex_map p' node0 = Some m' \<and> is_locked m' \<and> locked_shared m' = 1 \<and> \<not> exclusive m'"
proof -
  have "good_mutex node0 read_twice" "exclusive read_twice" "locked_shared read_twice > 0"
    by (simp_all add: read_twice_def new_mutex_def good_mutex_def wf_mutex_def remote_mutex_def no_stuck_def is_shared_type_def
        exclusive_def LOCAL_REQUEST_def)
  with shared_release_exclusive_iff [of "manage node0 read_twice (idle_process 0 [node0] 7)" node0 read_twice] show ?thesis
    by (auto simp: read_twice_def)
qed

text \<open>
  Three reception cycles, from any state without pending messages: process \<open>a\<close> acquires a node; while it holds it, \<open>b\<close>
  asks to read and \<open>c\<close> to acquire; then \<open>a\<close> commits \<open>d\<close> and releases.
\<close>

definition request_to :: "'d process \<Rightarrow> int \<Rightarrow> tag \<Rightarrow> 'd payload \<Rightarrow> 'd message" where
  "request_to p src t x =
     \<lparr>msg_source = src, msg_dest = rank p, wire_tag = msg_tag (server_epoch p) t, msg_payload = x\<rparr>"

definition overlap_run :: "int \<Rightarrow> int \<Rightarrow> int \<Rightarrow> dist_id \<Rightarrow> 'd \<Rightarrow> 'd process \<Rightarrow> fault + 'd process" where
  "overlap_run a b c i d p =
     and_then (handleIncomingRequests (deliver [request_to p a ACQUIRE (Id_Payload i)] p)) (\<lambda>p1.
     and_then (handleIncomingRequests
       (deliver [request_to p b READ (Id_Payload i), request_to p c ACQUIRE (Id_Payload i)] p1)) (\<lambda>p2.
       handleIncomingRequests (deliver [request_to p a RELEASE_ACQUIRE (Update_Payload i d)] p2)))"

lemmas run_simps =
  handleIncomingRequests_def handleIncomingReadAcquireLock_def poll_def probe_recv_def deliver_def
  with_id_def with_update_def handleRead_def handleAcquire_def respondToRead_def respondToAcquire_def
  handleReleaseAcquire_def update_mutex_def mutex_at_def manage_def send_def
  respondToRequests_def requestsToProcess_def respond_def pushRequest_def mutex_state_defs

text \<open>Property C25: the readers-writer guarantee does not hold across a release: from any state in which a node is
  free, whichever three processes ask for it, a run of three reception cycles sends \<open>b\<close> a read response and \<open>c\<close> an
  acquire response while neither has released, and the mutex ends exclusively locked with a shared lock held.\<close>

theorem exclusion_lost_on_release:
  assumes "mutex_map p i = Some m" "\<not> is_locked m" "locked_shared m = 0" "lock_requests m = []" "lock_shared_requests m = []"
    and "inbox p = []" "a \<noteq> LOCAL_REQUEST" "b \<noteq> LOCAL_REQUEST" "c \<noteq> LOCAL_REQUEST"
  shows "\<exists>p' m'. overlap_run a b c i d p = Inr p' \<and> mutex_map p' i = Some m' \<and>
           is_locked m' \<and> locked_shared m' = 1 \<and> \<not> exclusive m' \<and>
           map (\<lambda>x. (msg_dest x, wire_tag x, msg_payload x)) (outbox p') =
             map (\<lambda>x. (msg_dest x, wire_tag x, msg_payload x)) (outbox p) @
             [(a, msg_tag (server_epoch p) ACQUIRE_RESPONSE, Data_Payload (node_data m)),
              (b, msg_tag (server_epoch p) READ_RESPONSE, Data_Payload d),
              (c, msg_tag (server_epoch p) ACQUIRE_RESPONSE, Data_Payload d)]"
  using assms by (simp add: overlap_run_def run_simps request_to_def msg_tag_inject exclusive_def)

theorem exclusion_lost_on_release_witness:
  "\<exists>p m. overlap_run 1 2 3 node0 8 (idle_process 0 [node0] (7 :: nat)) = Inr p \<and> mutex_map p node0 = Some m \<and> \<not> exclusive m"
proof -
  let ?p = "idle_process 0 [node0] (7 :: nat)"
  have "mutex_map ?p node0 = Some (new_mutex LOCAL 0 7)" "inbox ?p = []" by (simp_all add: idle_process_def)
  from exclusion_lost_on_release [OF this(1) _ _ _ _ this(2), of 1 2 3 8] show ?thesis
    by (auto simp: new_mutex_def LOCAL_REQUEST_def)
qed

section \<open>Requests are conserved, and answered with the committed data\<close>

definition pending :: "'d hs_mutex \<Rightarrow> mutex_request list" where
  "pending m = lock_shared_requests m @ lock_requests m"

text \<open>Property C11: releasing an acquired node commits the written data and then answers waiting requests:
  all the shared ones in arrival order, then the first exclusive one; each answer carries the committed
  data, and every other request stays in its queue, so none is lost or answered twice.\<close>

theorem release_commits_and_serves:
  assumes "mutex_map p i = Some m" and "good_mutex i m"
  shows "\<exists>p' m' served.
     handleReleaseAcquire i d p = Inr p' \<and> mutex_map p' i = Some m' \<and> node_data m' = d \<and>
     served = lock_shared_requests m @ take 1 (lock_requests m) \<and>
     outbox p' = outbox p @ map (response (rank p) (server_epoch p) d) served \<and>
     mset (pending m) = mset served + mset (pending m')"
proof -
  let ?u = "(mutex_unlock m)\<lparr>node_data := d\<rparr>"
  have wf: "wf_mutex i m" and r: "remote (lock_shared_requests m)"
    using assms(2) by (simp_all add: good_mutex_def remote_mutex_def)
  have u: "\<not> is_locked ?u" "wf_mutex i ?u" "remote (lock_shared_requests ?u)"
    "lock_requests ?u = lock_requests m" "lock_shared_requests ?u = lock_shared_requests m"
    using wf r by (simp_all add: mutex_unlock_def wf_mutex_def)
  note s = serve_unlocked [OF u(1-3)]
  have "handleReleaseAcquire i d p = Inr (manage i (serve ?u) p\<lparr>outbox := outbox p @
      map (response (rank p) (server_epoch p) d) (lock_shared_requests m @ take 1 (lock_requests m))\<rparr>)"
    unfolding handleReleaseAcquire_def
    using release_eq [where f = "\<lambda>m. (mutex_unlock m)\<lparr>node_data := d\<rparr>", OF assms(1) u(2)]
      requestsToProcess_remote [OF u(1,3)] u(4,5) by simp
  moreover have "mset (lock_requests m) = mset (take 1 (lock_requests m)) + mset (drop 1 (lock_requests m))"
    by (metis append_take_drop_id mset_append)
  ultimately show ?thesis
    using s(3,4,5) u(4,5) by (simp add: manage_def pending_def)
qed

text \<open>A node that is held while process 2 waits to read it and the processes 3 and 4 to acquire and to lock it.\<close>

definition contended :: "nat hs_mutex" where
  "contended = (new_mutex LOCAL 0 7)\<lparr>is_locked := True, lock_shared_requests := [Request node0 2 RT_READ],
     lock_requests := [Request node0 3 RT_ACQUIRE, Request node0 4 RT_LOCK]\<rparr>"

theorem release_commits_and_serves_witness:
  "\<exists>p' m'. handleReleaseAcquire node0 9 (manage node0 contended (idle_process 0 [node0] 7)) = Inr p' \<and>
     mutex_map p' node0 = Some m' \<and> node_data m' = 9 \<and>
     map (\<lambda>x. (msg_dest x, msg_payload x)) (outbox p') = [(2, Data_Payload 9), (3, Data_Payload 9)] \<and>
     pending m' = [Request node0 4 RT_LOCK]"
proof -
  have good: "good_mutex node0 contended"
    by (simp add: contended_def new_mutex_def good_mutex_def wf_mutex_def remote_mutex_def no_stuck_def is_shared_type_def
        LOCAL_REQUEST_def)
  obtain p' m' served where run: "handleReleaseAcquire node0 9 (manage node0 contended (idle_process 0 [node0] 7)) = Inr p'"
    "mutex_map p' node0 = Some m'" "node_data m' = 9"
    and served: "served = lock_shared_requests contended @ take 1 (lock_requests contended)"
    and out: "outbox p' = outbox (manage node0 contended (idle_process 0 [node0] 7)) @
      map (response 0 EVEN 9) served" "mset (pending contended) = mset served + mset (pending m')"
    using release_commits_and_serves [OF _ good, of "manage node0 contended (idle_process 0 [node0] 7)" 9]
    by (auto simp: idle_process_def)
  have list: "served = [Request node0 2 RT_READ, Request node0 3 RT_ACQUIRE]"
    and all: "mset (pending contended) = mset served + {#Request node0 4 RT_LOCK#}"
    by (simp_all add: served contended_def pending_def)
  from all out(2) have "mset (pending m') = {#Request node0 4 RT_LOCK#}" by simp
  then have "pending m' = [Request node0 4 RT_LOCK]" by simp
  with run out(1) list show ?thesis
    by (simp add: idle_process_def response_def response_payload_def)
qed

section \<open>The blocking local read\<close>

text \<open>A poll of a process with nothing to receive changes nothing.\<close>

lemma poll_empty [simp]: "inbox p = [] \<Longrightarrow> poll t h p = Inr p"
  by (simp add: poll_def probe_recv_def)

lemma poll_until_empty [simp]: "inbox p = [] \<Longrightarrow> poll_until t h nxt p = nxt p"
  by (simp add: poll_until_def probe_recv_def)

lemma receive_empty [simp]:
  "inbox p = [] \<Longrightarrow> handleIncomingReadAcquireLock p = Inr p"
  "inbox p = [] \<Longrightarrow> handleIncomingRequests p = Inr p"
  "inbox p = [] \<Longrightarrow> handleIncomingRequests_wait w p = Inr (False, p)"
  by (simp_all add: handleIncomingReadAcquireLock_def handleIncomingRequests_def
      handleIncomingRequests_wait_def)

lemma deliver_nothing [simp]: "deliver [] p = p"
  by (simp add: deliver_def)

abbreviation idle_tick :: "'d tick" where
  "idle_tick \<equiv> \<lparr>send_matched = False, arrived = []\<rparr>"

lemma server_wait_idle:
  "inbox p = [] \<Longrightarrow> server_wait Inr w (replicate n idle_tick @ ts) p = server_wait Inr w ts p"
  by (induction n) simp_all

lemma respond_until_local:
  assumes "\<forall>r\<in>set rs. req_id r = i" and "remote rs" and "mutex_map p i = Some m"
    and "req_source w = LOCAL_REQUEST"
  shows "respond_until w (rs @ [w]) p = Inr (True, manage i (fold grant rs m) p
           \<lparr>outbox := outbox p @ map (response (rank p) (server_epoch p) (node_data m)) rs\<rparr>)"
  using assms
proof (induction rs arbitrary: p m)
  case Nil
  then show ?case by (simp add: request_equal_def manage_def fun_upd_idem)
next
  case (Cons r rs)
  then have "mutex_map p (req_id r) = Some m" by simp
  from respond_eq [OF this] Cons show ?case by (simp add: manage_def)
qed

lemma requestsToProcess_local:
  assumes "\<not> is_locked m" "lock_shared_requests m = rs @ [w]" "remote rs"
    "req_source w = LOCAL_REQUEST"
  shows "requestsToProcess m = (rs @ [w], m\<lparr>lock_shared_requests := []\<rparr>)"
  using assms by (simp add: requestsToProcess_def drain_shared_local)

lemma poll_skip:
  "inbox p = [m] \<Longrightarrow> wire_tag m \<noteq> msg_tag (server_epoch p) t \<Longrightarrow> poll t h p = Inr p"
  by (simp add: poll_def probe_recv_def)

lemma poll_until_take:
  "inbox p = [m] \<Longrightarrow> wire_tag m = msg_tag (server_epoch p) t \<Longrightarrow>
     poll_until t h nxt p =
       and_then (h m (p\<lparr>inbox := []\<rparr>)) (\<lambda>(stop, q). if stop then Inr (True, q) else nxt q)"
  by (simp add: poll_until_def probe_recv_def)

text \<open>The reception of a release message by a process whose local read waits behind other readers.\<close>

lemma release_wakes_local_read:
  assumes "mutex_map p i = Some m" and "lock_shared_requests m = rs @ [w]" and "wf_mutex i m"
    and "remote rs" and "req_source w = LOCAL_REQUEST" and "inbox p = [msg]"
    and "wire_tag msg = msg_tag (server_epoch p) RELEASE_ACQUIRE"
    and "msg_payload msg = Update_Payload i d"
  shows "\<exists>p' m'. handleIncomingRequests_wait w p = Inr (True, p') \<and> mutex_map p' i = Some m' \<and>
     node_data m' = d \<and> \<not> is_locked m' \<and> locked_shared m' = locked_shared m + int (length rs) \<and>
     lock_shared_requests m' = [] \<and> lock_requests m' = lock_requests m \<and>
     outbox p' = outbox p @ map (response (rank p) (server_epoch p) d) rs \<and> inbox p' = []"
proof -
  let ?u = "(mutex_unlock m)\<lparr>node_data := d\<rparr>"
  let ?u' = "?u\<lparr>lock_shared_requests := []\<rparr>"
  let ?p = "manage i ?u' (p\<lparr>inbox := []\<rparr>)"
  have rtp: "requestsToProcess ?u = (rs @ [w], ?u')"
    by (rule requestsToProcess_local) (simp_all add: assms mutex_unlock_def)
  have ids: "\<forall>r\<in>set rs. req_id r = i" and sh: "\<forall>r\<in>set rs. is_shared_type (req_type r)"
    using assms(2,3) by (auto simp: wf_mutex_def)
  have "handleIncomingRequests_wait w p
      = Inr (True, manage i (fold grant rs ?u') ?p
          \<lparr>outbox := outbox ?p @ map (response (rank ?p) (server_epoch ?p) (node_data ?u')) rs\<rparr>)"
    using respond_until_local [OF ids assms(4) _ assms(5), of ?p ?u'] assms(1) rtp
    by (simp add: handleIncomingRequests_wait_def handleIncomingReadAcquireLock_def assms(6,7,8)
        poll_skip [OF assms(6)] msg_tag_inject poll_until_take [OF assms(6,7)] with_update_def
        handleReleaseAcquire_wait_def update_mutex_def mutex_at_Some respondToRequests_wait_def)
  moreover have "\<not> is_locked (fold grant rs ?u')"
    using sh by (simp add: fold_grant_locked mutex_unlock_def)
  moreover have "locked_shared (fold grant rs ?u') = locked_shared m + int (length rs)"
    using sh by (simp add: fold_grant_shared filter_all_shared mutex_unlock_def)
  ultimately show ?thesis by (simp add: mutex_unlock_def manage_def)
qed

text \<open>Property C14: a local read of a node that another process has acquired blocks, polls any number of times
  while nothing arrives, and returns as soon as the release arrives, with the committed data and one
  shared lock taken; the readers queued before it are answered first, with the same data.\<close>

theorem local_read_wakes_up:
  assumes "mutex_map p i = Some m" and "node_state m = LOCAL" and "is_locked m"
    and "good_mutex i m" and "inbox p = []"
    and "msg = \<lparr>msg_source = s, msg_dest = rank p,
                wire_tag = msg_tag (server_epoch p) RELEASE_ACQUIRE, msg_payload = Update_Payload i d\<rparr>"
  shows "\<exists>p' m'. mutex_read Inr i
       (replicate n idle_tick @ \<lparr>send_matched = False, arrived = [msg]\<rparr> # ts) p = Inr (d, p', ts) \<and>
     mutex_map p' i = Some m' \<and> node_data m' = d \<and> \<not> is_locked m' \<and>
     locked_shared m' = locked_shared m + int (length (lock_shared_requests m)) + 1 \<and>
     outbox p' = outbox p @ map (response (rank p) (server_epoch p) d) (lock_shared_requests m)"
proof -
  let ?w = "Request i LOCAL_REQUEST RT_READ"
  let ?m1 = "pushRequest ?w m"
  let ?p1 = "manage i ?m1 p"
  let ?p2 = "deliver [msg] ?p1"
  have m1: "lock_shared_requests ?m1 = lock_shared_requests m @ [?w]" "wf_mutex i ?m1"
    "locked_shared ?m1 = locked_shared m" "node_data ?m1 = node_data m"
    using assms(4) by (auto simp: pushRequest_def good_mutex_def wf_mutex_def is_shared_type_def)
  have rem: "remote (lock_shared_requests m)" using assms(4) by (simp add: good_mutex_def remote_mutex_def)
  have "\<exists>p' m'. handleIncomingRequests_wait ?w ?p2 = Inr (True, p') \<and> mutex_map p' i = Some m' \<and>
     node_data m' = d \<and> \<not> is_locked m' \<and>
     locked_shared m' = locked_shared ?m1 + int (length (lock_shared_requests m)) \<and>
     lock_shared_requests m' = [] \<and> lock_requests m' = lock_requests ?m1 \<and>
     outbox p' = outbox ?p2 @ map (response (rank ?p2) (server_epoch ?p2) d) (lock_shared_requests m) \<and>
     inbox p' = []"
    by (rule release_wakes_local_read [where msg = msg and m = ?m1])
      (simp_all add: m1 rem assms(5,6) deliver_def)
  then obtain p' m' where w: "handleIncomingRequests_wait ?w ?p2 = Inr (True, p')"
    "mutex_map p' i = Some m'" "node_data m' = d" "\<not> is_locked m'"
    "locked_shared m' = locked_shared m + int (length (lock_shared_requests m))"
    "outbox p' = outbox p @ map (response (rank p) (server_epoch p) d) (lock_shared_requests m)"
    using m1(3) by (auto simp: deliver_def)
  have "server_wait Inr ?w (replicate n idle_tick @ \<lparr>send_matched = False, arrived = [msg]\<rparr> # ts) ?p1
      = Inr (p', ts)"
    using w(1) assms(5) by (simp add: server_wait_idle)
  with w(2-6) assms(1-3) show ?thesis
    by (simp add: mutex_read_def local_take_def mutex_at_Some update_mutex_eq with_data_def
        mutex_lockShared_def)
qed

theorem local_read_wakes_up_witness:
  "\<exists>p' m'. mutex_read Inr node0
       (replicate 5 idle_tick @ [\<lparr>send_matched = False, arrived = [update_message 1 node0 (9::nat)]\<rparr>])
       (manage node0 (mutex_lock (new_mutex LOCAL 0 7)) (idle_process 0 [node0] 7)) = Inr (9, p', [])
     \<and> mutex_map p' node0 = Some m' \<and> node_data m' = 9 \<and> locked_shared m' = 1"
proof -
  let ?m = "mutex_lock (new_mutex LOCAL 0 (7::nat))"
  have "good_mutex node0 ?m" by (rule good_lock [OF good_new_mutex])
  then show ?thesis
    using local_read_wakes_up [of "manage node0 ?m (idle_process 0 [node0] 7)" node0 ?m
        "update_message 1 node0 9" 1 9 5 "[]"]
    by (auto simp: new_mutex_def mutex_lock_def idle_process_def update_message_def)
qed

section \<open>Remote accesses across two processes\<close>

lemma poll_take:
  "inbox p = [m] \<Longrightarrow> wire_tag m = msg_tag (server_epoch p) t \<Longrightarrow>
     poll t h p = h m (p\<lparr>inbox := []\<rparr>)"
  by (simp add: poll_def probe_recv_def)

definition matched_tick :: "'d tick" where
  "matched_tick = \<lparr>send_matched = True, arrived = []\<rparr>"

definition arrival_tick :: "'d message \<Rightarrow> 'd tick" where
  "arrival_tick m = \<lparr>send_matched = False, arrived = [m]\<rparr>"

text \<open>A request whose send is matched at the first test and whose response has then arrived.\<close>

lemma request_response_eq:
  assumes "inbox p = []" and "msg_source r = l" and "wire_tag r = msg_tag (server_epoch p) resp"
  shows "request_response Inr req resp i l (matched_tick # arrival_tick r # ts) p
       = Inr (r, send l req (Id_Payload i) p, ts)"
  using assms
  by (simp add: request_response_def matched_tick_def arrival_tick_def probe_from_def deliver_def
      send_def)

lemma unlock_idem: "\<not> is_locked m \<Longrightarrow> m\<lparr>is_locked := False\<rparr> = m"
  by (cases m) simp

text \<open>The server's side of an acquire and of the release that commits the data.\<close>

lemma server_acquire:
  assumes "mutex_map b i = Some m" "\<not> is_locked m" "locked_shared m \<le> 0" "inbox b = [msg]"
    and "wire_tag msg = msg_tag (server_epoch b) ACQUIRE" "msg_payload msg = Id_Payload i"
  shows "handleIncomingRequests b
     = Inr (send (msg_source msg) ACQUIRE_RESPONSE (Data_Payload (node_data m))
         (manage i (mutex_lock m) (b\<lparr>inbox := []\<rparr>)))"
proof -
  have "handleIncomingReadAcquireLock b = Inr (send (msg_source msg) ACQUIRE_RESPONSE
      (Data_Payload (node_data m)) (manage i (mutex_lock m) (b\<lparr>inbox := []\<rparr>)))"
    using assms
    by (simp add: handleIncomingReadAcquireLock_def poll_skip [OF assms(4)] msg_tag_inject
        poll_take [OF assms(4,5)] with_id_def handleAcquire_def respondToAcquire_def mutex_at_Some
        update_mutex_def mutex_lock_def)
  then show ?thesis by (simp add: handleIncomingRequests_def)
qed

lemma server_release:
  assumes "mutex_map b i = Some m" "lock_requests m = []" "lock_shared_requests m = []"
    and "inbox b = [msg]" and "wire_tag msg = msg_tag (server_epoch b) RELEASE_ACQUIRE"
    and "msg_payload msg = Update_Payload i d"
  shows "handleIncomingRequests b
     = Inr (manage i ((mutex_unlock m)\<lparr>node_data := d\<rparr>) (b\<lparr>inbox := []\<rparr>))"
proof -
  let ?u = "(mutex_unlock m)\<lparr>node_data := d\<rparr>"
  have u: "requestsToProcess ?u = ([], ?u)"
    using assms(2,3) by (simp add: requestsToProcess_def mutex_unlock_def)
  have "handleIncomingReadAcquireLock b = Inr b"
    using assms(5)
    by (simp add: handleIncomingReadAcquireLock_def poll_skip [OF assms(4)] msg_tag_inject)
  with u assms show ?thesis
    by (simp add: handleIncomingRequests_def poll_take [OF assms(4,5)] with_update_def
        handleReleaseAcquire_def update_mutex_def mutex_at_Some respondToRequests_def)
qed

text \<open>Property C13: a process acquires a node held by another process, writes it and releases it: the data it
  receives is the data of the holder, and after the release message is handled the holder has the
  written data, its mutex free again, and nothing else of the mutex changed.\<close>

theorem remote_write_roundtrip:
  assumes "mutex_map p i = Some mp" "node_state mp = DISTANT" "node_location mp = rank b" "inbox p = []"
    and "mutex_map b i = Some mb" "\<not> is_locked mb" "locked_shared mb = 0" "inbox b = []"
    and "lock_requests mb = []" "lock_shared_requests mb = []" "server_epoch b = server_epoch p"
  shows "\<exists>req resp upd b1 p1 m1 p2 b2.
     outbox (send (rank b) ACQUIRE (Id_Payload i) p) = outbox p @ [req] \<and>
     handleIncomingRequests (deliver [req] b) = Inr b1 \<and> outbox b1 = outbox b @ [resp] \<and>
     msg_dest resp = rank p \<and>
     mutex_acquire Inr i [matched_tick, arrival_tick resp] p = Inr (node_data mb, p1, []) \<and>
     mutex_map p1 i = Some m1 \<and> node_data m1 = node_data mb \<and>
     mutex_releaseAcquire Inr i [matched_tick] (manage i (m1\<lparr>node_data := d\<rparr>) p1) = Inr (p2, []) \<and>
     outbox p2 = outbox p @ [req, upd] \<and>
     handleIncomingRequests (deliver [upd] b1) = Inr b2 \<and> mutex_map b2 i = Some (mb\<lparr>node_data := d\<rparr>)"
proof -
  let ?e = "server_epoch p"
  define req where "req = \<lparr>msg_source = rank p, msg_dest = rank b, wire_tag = msg_tag ?e ACQUIRE,
    msg_payload = (Id_Payload i :: 'a payload)\<rparr>"
  define resp where "resp = \<lparr>msg_source = rank b, msg_dest = rank p,
    wire_tag = msg_tag ?e ACQUIRE_RESPONSE, msg_payload = Data_Payload (node_data mb)\<rparr>"
  define upd where "upd = \<lparr>msg_source = rank p, msg_dest = rank b,
    wire_tag = msg_tag ?e RELEASE_ACQUIRE, msg_payload = Update_Payload i d\<rparr>"
  let ?b1 = "send (rank p) ACQUIRE_RESPONSE (Data_Payload (node_data mb)) (manage i (mutex_lock mb) b)"
  let ?p0 = "send (rank b) ACQUIRE (Id_Payload i) p"
  let ?m1 = "mp\<lparr>node_data := node_data mb\<rparr>"
  have 1: "handleIncomingRequests (deliver [req] b) = Inr ?b1"
    using server_acquire [of "deliver [req] b" i mb req] assms(5-8,11)
    by (simp add: req_def deliver_def manage_def send_def)
  have "request_response Inr ACQUIRE ACQUIRE_RESPONSE i (rank b) [matched_tick, arrival_tick resp] p
      = Inr (resp, ?p0, [])"
    by (rule request_response_eq) (simp_all add: assms(4) resp_def)
  then have 2: "mutex_acquire Inr i [matched_tick, arrival_tick resp] p
      = Inr (node_data mb, manage i ?m1 ?p0, [])"
    using assms(1-3)
    by (simp add: mutex_acquire_def mutex_at_Some client_acquire_def data_of_def store_data_def
        update_mutex_def resp_def)
  have 3: "mutex_releaseAcquire Inr i [matched_tick]
        (manage i (?m1\<lparr>node_data := d\<rparr>) (manage i ?m1 ?p0))
      = Inr (send (rank b) RELEASE_ACQUIRE (Update_Payload i d) (manage i (?m1\<lparr>node_data := d\<rparr>) ?p0), [])"
    using assms(2,3)
    by (simp add: mutex_releaseAcquire_def client_releaseAcquire_def matched_tick_def mutex_at_Some)
  have 4: "handleIncomingRequests (deliver [upd] ?b1)
      = Inr (manage i (mb\<lparr>node_data := d\<rparr>) (?b1\<lparr>inbox := []\<rparr>))"
    using server_release [of "deliver [upd] ?b1" i "mutex_lock mb" upd d] assms(6-11)
    by (simp add: upd_def deliver_def mutex_lock_def mutex_unlock_def unlock_idem)
  have outboxes: "outbox ?p0 = outbox p @ [req]" "outbox ?b1 = outbox b @ [resp]"
      "outbox (send (rank b) RELEASE_ACQUIRE (Update_Payload i d) (manage i (?m1\<lparr>node_data := d\<rparr>) ?p0))
        = outbox p @ [req, upd]" "msg_dest resp = rank p"
    using assms(11) by (simp_all add: req_def resp_def upd_def send_def manage_def)
  have maps: "mutex_map (manage i ?m1 ?p0) i = Some ?m1" "node_data ?m1 = node_data mb"
      "mutex_map (manage i (mb\<lparr>node_data := d\<rparr>) (?b1\<lparr>inbox := []\<rparr>)) i = Some (mb\<lparr>node_data := d\<rparr>)"
    by simp_all
  show ?thesis
    by (intro exI conjI, rule outboxes(1), rule 1, rule outboxes(2), rule outboxes(4), rule 2,
        rule maps(1), rule maps(2), rule 3, rule outboxes(3), rule 4, rule maps(3))
qed

theorem remote_write_roundtrip_witness:
  "\<exists>req resp upd b1 p1 m1 p2 b2.
     outbox (send 0 ACQUIRE (Id_Payload node0)
       (manage node0 (new_mutex DISTANT 0 (0::nat)) (idle_process 1 [] 0))) = [] @ [req] \<and>
     handleIncomingRequests (deliver [req] (idle_process 0 [node0] 7)) = Inr b1 \<and>
     outbox b1 = [] @ [resp] \<and>
     mutex_acquire Inr node0 [matched_tick, arrival_tick resp]
       (manage node0 (new_mutex DISTANT 0 0) (idle_process 1 [] 0)) = Inr (7, p1, []) \<and>
     mutex_releaseAcquire Inr node0 [matched_tick] (manage node0 (m1\<lparr>node_data := 9\<rparr>) p1) = Inr (p2, []) \<and>
     outbox p2 = [] @ [req, upd] \<and>
     handleIncomingRequests (deliver [upd] b1) = Inr b2 \<and>
     mutex_map b2 node0 = Some ((new_mutex LOCAL 0 7)\<lparr>node_data := 9\<rparr>)"
  using remote_write_roundtrip [of "manage node0 (new_mutex DISTANT 0 (0::nat)) (idle_process 1 [] 0)"
      node0 "new_mutex DISTANT 0 0" "idle_process 0 [node0] 7" "new_mutex LOCAL 0 7" 9]
  by (simp add: new_mutex_def idle_process_def) blast

end
