(* ===== verification/Termination.thy ===== *)
theory Termination
  imports Mutex_Invariant
begin

text \<open>
  \<open>src/fpmas/synchro/hard/termination.h\<close> and \<open>.cpp\<close>: the token ring by which the processes agree that
  a synchronization phase is over, run against the \<open>Server\<close> interface of \<open>api/client_server.h\<close>. The
  interface is a locale; the mutex server provides it. \<open>terminate\<close> is split into its entry and one
  iteration of its loop, and a system of \<open>n\<close> processes runs them in any interleaving, for any number
  of successive calls. The messages of the algorithm (tokens and ends) are kept apart from those of the
  server, whose tags are different.
\<close>

section \<open>One process\<close>

record term_msg =
  tm_source :: nat
  tm_tag :: int
  tm_color :: "color option"

record 's term_proc =
  t_rank :: nat
  t_size :: nat
  t_color :: color
  t_server :: 's
  t_inbox :: "term_msg list"

text \<open>The operations of the \<open>Server\<close> the algorithm is given.\<close>

record 's server_api =
  api_setEpoch :: "epoch_kind \<Rightarrow> 's \<Rightarrow> 's"
  api_getEpoch :: "'s \<Rightarrow> epoch_kind"
  api_handle :: "'s \<Rightarrow> fault + 's"

definition toggleEpoch :: "'s server_api \<Rightarrow> 's \<Rightarrow> 's" where
  "toggleEpoch a s =
     (case api_getEpoch a s of EVEN \<Rightarrow> api_setEpoch a ODD s | ODD \<Rightarrow> api_setEpoch a EVEN s)"

definition token_msg :: "nat \<Rightarrow> epoch_kind \<Rightarrow> color \<Rightarrow> term_msg" where
  "token_msg src e c = \<lparr>tm_source = src, tm_tag = msg_tag e TOKEN, tm_color = Some c\<rparr>"

definition end_msg :: "nat \<Rightarrow> epoch_kind \<Rightarrow> term_msg" where
  "end_msg src e = \<lparr>tm_source = src, tm_tag = msg_tag e END, tm_color = None\<rparr>"

text \<open>The code before the loop: process 0 starts a white token at the last process.\<close>

definition terminate_enter ::
  "'s server_api \<Rightarrow> 's term_proc \<Rightarrow> 's term_proc \<times> (nat \<times> term_msg) list" where
  "terminate_enter a p =
     (if t_rank p = 0
      then (p\<lparr>t_color := WHITE\<rparr>,
            [(t_size p - 1, token_msg (t_rank p) (api_getEpoch a (t_server p)) WHITE)])
      else (p, []))"

text \<open>The token check. The last component says that \<open>terminate\<close> returns.\<close>

definition check_token ::
  "'s server_api \<Rightarrow> 's term_proc \<Rightarrow> 's term_proc \<times> (nat \<times> term_msg) list \<times> bool" where
  "check_token a p =
     (let e = api_getEpoch a (t_server p); sup_rank = (t_rank p + 1) mod t_size p
      in case take_first (\<lambda>m. tm_source m = sup_rank \<and> tm_tag m = msg_tag e TOKEN) (t_inbox p) of
           None \<Rightarrow> (p, [], False)
         | Some (m, rest) \<Rightarrow>
             if t_rank p = 0 then
               if tm_color m = Some WHITE \<and> t_color p = WHITE
               then (p\<lparr>t_inbox := rest, t_server := toggleEpoch a (t_server p)\<rparr>,
                     map (\<lambda>i. (i, end_msg (t_rank p) e)) [1..<t_size p], True)
               else (p\<lparr>t_inbox := rest, t_color := WHITE\<rparr>,
                     [(t_size p - 1, token_msg (t_rank p) e WHITE)], False)
             else
               (p\<lparr>t_inbox := rest, t_color := WHITE\<rparr>,
                [(t_rank p - 1, (token_msg (t_rank p) e WHITE)
                    \<lparr>tm_color := if t_color p = BLACK then Some BLACK else tm_color m\<rparr>)], False))"

definition check_end :: "'s server_api \<Rightarrow> 's term_proc \<Rightarrow> 's term_proc \<times> bool" where
  "check_end a p =
     (if t_rank p > 0 then
        case take_first (\<lambda>m. tm_source m = 0 \<and> tm_tag m = msg_tag (api_getEpoch a (t_server p)) END)
               (t_inbox p) of
          None \<Rightarrow> (p, False)
        | Some (m, rest) \<Rightarrow>
            (p\<lparr>t_inbox := rest, t_server := toggleEpoch a (t_server p)\<rparr>, True)
      else (p, False))"

definition terminate_iter ::
  "'s server_api \<Rightarrow> 's term_proc \<Rightarrow> fault + ('s term_proc \<times> (nat \<times> term_msg) list \<times> bool)" where
  "terminate_iter a p =
     (case check_token a p of (p1, out, returned) \<Rightarrow>
        if returned then Inr (p1, out, True)
        else case check_end a p1 of (p2, ended) \<Rightarrow>
          if ended then Inr (p2, out, True)
          else and_then (api_handle a (t_server p2)) (\<lambda>s. Inr (p2\<lparr>t_server := s\<rparr>, out, False)))"

section \<open>The system\<close>

text \<open>\<open>entered\<close> and \<open>completed\<close> count the calls to \<open>terminate\<close> each process has entered and returned
  from; a process is in the loop when it has entered one more than it has completed.\<close>

record 's ring =
  procs :: "nat \<Rightarrow> 's term_proc"
  entered :: "nat \<Rightarrow> nat"
  completed :: "nat \<Rightarrow> nat"

definition post :: "nat \<times> term_msg \<Rightarrow> (nat \<Rightarrow> 's term_proc) \<Rightarrow> (nat \<Rightarrow> 's term_proc)" where
  "post dm ps = ps(fst dm := (ps (fst dm))\<lparr>t_inbox := t_inbox (ps (fst dm)) @ [snd dm]\<rparr>)"

definition enter :: "'s server_api \<Rightarrow> nat \<Rightarrow> 's ring \<Rightarrow> 's ring" where
  "enter a r c =
     (case terminate_enter a (procs c r) of (p, out) \<Rightarrow>
        c\<lparr>procs := fold post out ((procs c)(r := p)), entered := (entered c)(r := entered c r + 1)\<rparr>)"

definition iterate :: "'s server_api \<Rightarrow> nat \<Rightarrow> 's ring \<Rightarrow> fault + 's ring" where
  "iterate a r c =
     and_then (terminate_iter a (procs c r)) (\<lambda>(p, out, returned).
       Inr (c\<lparr>procs := fold post out ((procs c)(r := p)),
              completed := (completed c)(r := completed c r + (if returned then 1 else 0))\<rparr>))"

definition in_loop :: "'s ring \<Rightarrow> nat \<Rightarrow> bool" where
  "in_loop c r \<longleftrightarrow> entered c r = completed c r + 1"

definition ring_start :: "nat \<Rightarrow> (nat \<Rightarrow> 's) \<Rightarrow> 's ring" where
  "ring_start n s =
     \<lparr>procs = (\<lambda>r. \<lparr>t_rank = r, t_size = n, t_color = WHITE, t_server = s r, t_inbox = []\<rparr>),
      entered = (\<lambda>_. 0), completed = (\<lambda>_. 0)\<rparr>"

text \<open>
  Any process moves: it calls \<open>terminate\<close>, makes one iteration of its loop, or (outside or between
  calls) its server works in any way that keeps the epoch and the server's invariant.
\<close>

inductive ring_step :: "'s server_api \<Rightarrow> ('s \<Rightarrow> bool) \<Rightarrow> nat \<Rightarrow> 's ring \<Rightarrow> 's ring \<Rightarrow> bool"
  for a :: "'s server_api" and sinv :: "'s \<Rightarrow> bool" and n :: nat where
  step_enter: "r < n \<Longrightarrow> entered c r = completed c r \<Longrightarrow> ring_step a sinv n c (enter a r c)"
| step_iterate: "r < n \<Longrightarrow> in_loop c r \<Longrightarrow> iterate a r c = Inr c' \<Longrightarrow> ring_step a sinv n c c'"
| step_work: "r < n \<Longrightarrow> sinv s' \<Longrightarrow> api_getEpoch a s' = api_getEpoch a (t_server (procs c r)) \<Longrightarrow>
     ring_step a sinv n c (c\<lparr>procs := (procs c)(r := (procs c r)\<lparr>t_server := s'\<rparr>)\<rparr>)"

inductive ring_reachable :: "'s server_api \<Rightarrow> ('s \<Rightarrow> bool) \<Rightarrow> nat \<Rightarrow> 's ring \<Rightarrow> bool"
  for a :: "'s server_api" and sinv :: "'s \<Rightarrow> bool" and n :: nat where
  reach_start: "(\<And>r. r < n \<Longrightarrow> sinv (s r) \<and> api_getEpoch a (s r) = EVEN) \<Longrightarrow>
     ring_reachable a sinv n (ring_start n s)"
| reach_step: "ring_reachable a sinv n c \<Longrightarrow> ring_step a sinv n c c' \<Longrightarrow> ring_reachable a sinv n c'"

section \<open>The server interface and the invariant of the ring\<close>

definition parity :: "nat \<Rightarrow> epoch_kind" where
  "parity k = (if even k then EVEN else ODD)"

lemma parity_Suc_neq [simp]: "parity (Suc k) \<noteq> parity k" "parity k \<noteq> parity (Suc k)"
  by (simp_all add: parity_def)

text \<open>What is in the inbox of a process: the end of the call it has not completed, then the token.\<close>

definition ring_inbox :: "nat \<Rightarrow> nat \<Rightarrow> nat option \<Rightarrow> nat \<Rightarrow> nat \<Rightarrow> term_msg list" where
  "ring_inbox n k tok r fin =
     (if fin < k then [end_msg 0 (parity fin)] else []) @
     (if tok = Some r then [token_msg ((r + 1) mod n) (parity k) WHITE] else [])"

definition proc_ok :: "'s server_api \<Rightarrow> ('s \<Rightarrow> bool) \<Rightarrow> nat \<Rightarrow> nat \<Rightarrow> nat option \<Rightarrow> nat \<Rightarrow> nat \<Rightarrow> nat
    \<Rightarrow> 's term_proc \<Rightarrow> bool" where
  "proc_ok a sinv n k tok r ent fin p \<longleftrightarrow>
     fin \<le> k \<and> k \<le> ent \<and> fin \<le> ent \<and> ent \<le> fin + 1 \<and>
     t_rank p = r \<and> t_size p = n \<and> t_color p = WHITE \<and> sinv (t_server p) \<and>
     api_getEpoch a (t_server p) = parity fin \<and> t_inbox p = ring_inbox n k tok r fin"

definition ring_ok ::
  "'s server_api \<Rightarrow> ('s \<Rightarrow> bool) \<Rightarrow> nat \<Rightarrow> nat \<Rightarrow> nat option \<Rightarrow> 's ring \<Rightarrow> bool" where
  "ring_ok a sinv n k tok c \<longleftrightarrow>
     completed c 0 = k \<and> (tok = None \<longleftrightarrow> entered c 0 = k) \<and>
     (\<forall>j. tok = Some j \<longrightarrow> j < n \<and> (\<forall>r. j < r \<and> r < n \<longrightarrow> entered c r = k + 1)) \<and>
     (\<forall>r<n. proc_ok a sinv n k tok r (entered c r) (completed c r) (procs c r))"

lemma ring_okI:
  assumes "completed c 0 = k" and "tok = None \<longleftrightarrow> entered c 0 = k"
    and "\<And>j. tok = Some j \<Longrightarrow> j < n"
    and "\<And>j r. tok = Some j \<Longrightarrow> j < r \<Longrightarrow> r < n \<Longrightarrow> entered c r = k + 1"
    and "\<And>r. r < n \<Longrightarrow> proc_ok a sinv n k tok r (entered c r) (completed c r) (procs c r)"
  shows "ring_ok a sinv n k tok c"
  using assms by (simp add: ring_ok_def)

lemma ring_okD:
  assumes "ring_ok a sinv n k tok c"
  shows "completed c 0 = k" "tok = None \<longleftrightarrow> entered c 0 = k" "tok = Some j \<Longrightarrow> j < n"
    "tok = Some j \<Longrightarrow> j < r \<Longrightarrow> r < n \<Longrightarrow> entered c r = k + 1"
    "r < n \<Longrightarrow> proc_ok a sinv n k tok r (entered c r) (completed c r) (procs c r)"
  using assms by (auto simp: ring_ok_def)

text \<open>Moving the token between other processes does not concern a process.\<close>

lemma proc_ok_tok:
  "proc_ok a sinv n k tok r ent fin p \<Longrightarrow> (tok' = Some r \<longleftrightarrow> tok = Some r) \<Longrightarrow>
     proc_ok a sinv n k tok' r ent fin p"
  by (simp add: proc_ok_def ring_inbox_def)

lemma fold_post_select:
  "fold post out ps r = (ps r)\<lparr>t_inbox := t_inbox (ps r) @ map snd (filter (\<lambda>dm. fst dm = r) out)\<rparr>"
  by (induction out arbitrary: ps) (auto simp: post_def)

lemma post_select:
  "post dm ps r = (ps r)\<lparr>t_inbox := t_inbox (ps r) @ (if fst dm = r then [snd dm] else [])\<rparr>"
  by (simp add: post_def)

lemma filter_dest_range:
  "map snd (filter (\<lambda>dm. fst dm = r) (map (\<lambda>i. (i, f i)) [Suc 0..<n])) = (if 0 < r \<and> r < n then [f r] else [])"
proof (induction n)
  case (Suc n)
  then show ?case by (cases "n = r") auto
qed simp

text \<open>The processes that can make progress, and how far the call is from its end.\<close>

definition active :: "nat \<Rightarrow> nat option \<Rightarrow> 's ring \<Rightarrow> nat \<Rightarrow> bool" where
  "active k tok c r \<longleftrightarrow> (if completed c 0 = k then tok = Some r else completed c r = k)"

definition distance :: "nat \<Rightarrow> nat \<Rightarrow> nat option \<Rightarrow> 's ring \<Rightarrow> nat" where
  "distance n k tok c =
     (if completed c 0 = k then n + the tok else card {r. r < n \<and> completed c r = k})"

definition ending :: "'s server_api \<Rightarrow> ('s \<Rightarrow> bool) \<Rightarrow> nat \<Rightarrow> nat \<Rightarrow> nat option \<Rightarrow> 's ring \<Rightarrow> bool" where
  "ending a sinv n k tok c \<longleftrightarrow> ring_ok a sinv n (completed c 0) tok c \<and>
     (completed c 0 = k \<or> completed c 0 = Suc k) \<and> (\<forall>r<n. entered c r = Suc k)"

locale api_server =
  fixes a :: "'s server_api" and sinv :: "'s \<Rightarrow> bool"
  assumes get_set: "api_getEpoch a (api_setEpoch a e s) = e"
    and set_sinv: "sinv s \<Longrightarrow> sinv (api_setEpoch a e s)"
    and handle_total: "sinv s \<Longrightarrow>
      \<exists>s'. api_handle a s = Inr s' \<and> sinv s' \<and> api_getEpoch a s' = api_getEpoch a s"
begin

lemma toggle_epoch:
  "api_getEpoch a s = parity k \<Longrightarrow> api_getEpoch a (toggleEpoch a s) = parity (Suc k)"
  "sinv s \<Longrightarrow> sinv (toggleEpoch a s)"
  by (auto simp: toggleEpoch_def get_set parity_def set_sinv split: epoch_kind.splits if_splits)

lemma start_ok:
  assumes "0 < n" and "\<And>r. r < n \<Longrightarrow> sinv (s r) \<and> api_getEpoch a (s r) = EVEN"
  shows "ring_ok a sinv n 0 None (ring_start n s)"
  by (rule ring_okI)
    (simp_all add: ring_start_def ring_inbox_def parity_def proc_ok_def assms)

lemma ring_ok_proc:
  assumes "ring_ok a sinv n k tok c" and "r < n"
  shows "t_rank (procs c r) = r" "t_size (procs c r) = n" "t_color (procs c r) = WHITE"
    "sinv (t_server (procs c r))" "api_getEpoch a (t_server (procs c r)) = parity (completed c r)"
    "t_inbox (procs c r) = ring_inbox n k tok r (completed c r)"
    "completed c r \<le> k" "k \<le> entered c r" "completed c r \<le> entered c r"
    "entered c r \<le> completed c r + 1"
  using ring_okD(5) [OF assms] by (simp_all add: proc_ok_def)

lemma enter_root:
  assumes ok: "ring_ok a sinv n k tok c" and r: "0 < n" "entered c 0 = completed c 0"
  shows "ring_ok a sinv n k (Some (n - 1)) (enter a 0 c)"
proof -
  note P = ring_ok_proc [OF ok r(1)]
  have tok: "tok = None" and k: "completed c 0 = k" using ring_okD(1,2) [OF ok] r by auto
  let ?p = "(procs c 0)\<lparr>t_color := WHITE\<rparr>"
  let ?out = "[(n - 1, token_msg 0 (parity k) WHITE)]"
  have e: "enter a 0 c = c\<lparr>procs := fold post ?out ((procs c)(0 := ?p)),
      entered := (entered c)(0 := k + 1)\<rparr>"
    using P k r by (simp add: enter_def terminate_enter_def)
  have wrap: "Suc (n - 1) mod n = 0" using r(1) by simp
  show ?thesis
    unfolding e
  proof (rule ring_okI)
    fix j assume "j < n"
    then show "proc_ok a sinv n k (Some (n - 1)) j
      (entered (c\<lparr>procs := fold post ?out ((procs c)(0 := ?p)), entered := (entered c)(0 := k + 1)\<rparr>) j)
      (completed (c\<lparr>procs := fold post ?out ((procs c)(0 := ?p)), entered := (entered c)(0 := k + 1)\<rparr>) j)
      (procs (c\<lparr>procs := fold post ?out ((procs c)(0 := ?p)), entered := (entered c)(0 := k + 1)\<rparr>) j)"
      using ring_ok_proc [OF ok, of j] tok k r wrap
      by (cases "j = 0"; cases "j = n - 1") (simp_all add: proc_ok_def ring_inbox_def post_select)
  qed (use k r in auto)
qed

lemma enter_other:
  assumes ok: "ring_ok a sinv n k tok c" and r: "r < n" "entered c r = completed c r" "r \<noteq> 0"
  shows "ring_ok a sinv n k tok (enter a r c)"
proof -
  note P = ring_ok_proc [OF ok r(1)]
  have e: "enter a r c = c\<lparr>entered := (entered c)(r := k + 1)\<rparr>"
    using P r by (simp add: enter_def terminate_enter_def fun_upd_idem)
  have fin: "completed c r = k" using P(7,8) r(2) by simp
  show ?thesis
    unfolding e
    using ring_okD [OF ok] r fin
    by (intro ring_okI) (auto simp: proc_ok_def)
qed

lemma work_ok:
  assumes ok: "ring_ok a sinv n k tok c" and "r < n" "sinv s'"
    "api_getEpoch a s' = api_getEpoch a (t_server (procs c r))"
  shows "ring_ok a sinv n k tok (c\<lparr>procs := (procs c)(r := (procs c r)\<lparr>t_server := s'\<rparr>)\<rparr>)"
  using ring_okD [OF ok] assms(2-4)
  by (intro ring_okI) (auto simp: proc_ok_def)

text \<open>The four outcomes of an iteration.\<close>

lemma iterate_end:
  assumes ok: "ring_ok a sinv n k tok c" and r: "r < n" "in_loop c r" "completed c r < k"
  shows "\<exists>c'. iterate a r c = Inr c' \<and> ring_ok a sinv n k tok c' \<and> entered c' = entered c \<and>
     completed c' = (completed c)(r := k)"
proof -
  note P = ring_ok_proc [OF ok r(1)]
  let ?p = "procs c r"
  let ?rest = "if tok = Some r then [token_msg ((r + 1) mod n) (parity k) WHITE] else []"
  let ?p' = "?p\<lparr>t_inbox := ?rest, t_server := toggleEpoch a (t_server ?p)\<rparr>"
  have k: "k = Suc (completed c r)" using r P(8,10) by (simp add: in_loop_def)
  have r0: "r \<noteq> 0" using ring_okD(1) [OF ok] r(3) by (metis less_irrefl)
  have inbox: "t_inbox ?p = end_msg 0 (parity (completed c r)) # ?rest"
    using P(6) r(3) by (simp add: ring_inbox_def)
  have "check_token a ?p = (?p, [], False)"
    using P(1,2,3,5) k by (simp add: check_token_def inbox end_msg_def token_msg_def msg_tag_inject)
  moreover have "check_end a ?p = (?p', True)"
    using P(1,5) inbox r0 by (simp add: check_end_def end_msg_def)
  ultimately have it: "iterate a r c
      = Inr (c\<lparr>procs := (procs c)(r := ?p'), completed := (completed c)(r := k)\<rparr>)"
    using k by (simp add: iterate_def terminate_iter_def)
  have "ring_ok a sinv n k tok (c\<lparr>procs := (procs c)(r := ?p'), completed := (completed c)(r := k)\<rparr>)"
  proof (rule ring_okI)
    fix j assume j: "j < n"
    have "entered c r = k" using r(2) k by (simp add: in_loop_def)
    then show "proc_ok a sinv n k tok j (entered (c\<lparr>procs := (procs c)(r := ?p'),
        completed := (completed c)(r := k)\<rparr>) j) (completed (c\<lparr>procs := (procs c)(r := ?p'),
        completed := (completed c)(r := k)\<rparr>) j) (procs (c\<lparr>procs := (procs c)(r := ?p'),
        completed := (completed c)(r := k)\<rparr>) j)"
      using ring_okD(5) [OF ok j] P k toggle_epoch(1) [OF P(5)] toggle_epoch(2) [OF P(4)]
      by (cases "j = r") (simp_all add: proc_ok_def ring_inbox_def)
  qed (use ring_okD(1-4) [OF ok] r0 in auto)
  with it show ?thesis by simp
qed

lemma iterate_root:
  assumes ok: "ring_ok a sinv n k (Some 0) c" and r: "in_loop c 0" "0 < n"
  shows "\<exists>c'. iterate a 0 c = Inr c' \<and> ring_ok a sinv n (Suc k) None c' \<and> entered c' = entered c \<and>
     completed c' = (completed c)(0 := Suc k)"
proof -
  note P = ring_ok_proc [OF ok r(2)]
  let ?p = "procs c 0"
  let ?p' = "?p\<lparr>t_inbox := [], t_server := toggleEpoch a (t_server ?p)\<rparr>"
  let ?out = "map (\<lambda>i. (i, end_msg 0 (parity k))) [1..<n]"
  let ?c' = "c\<lparr>procs := fold post ?out ((procs c)(0 := ?p')), completed := (completed c)(0 := Suc k)\<rparr>"
  have k: "completed c 0 = k" by (rule ring_okD(1) [OF ok])
  have ent: "entered c j = k + 1" if "j < n" for j
    using ring_okD(4) [OF ok refl _ that] r k by (cases j) (auto simp: in_loop_def)
  have fin: "completed c j = k" if "j < n" for j
    using ent [OF that] ring_ok_proc(7,10) [OF ok that] by simp
  have "check_token a ?p = (?p', ?out, True)"
    using P k by (simp add: check_token_def ring_inbox_def token_msg_def)
  then have it: "iterate a 0 c = Inr ?c'"
    using k by (simp add: iterate_def terminate_iter_def)
  have "ring_ok a sinv n (Suc k) None ?c'"
  proof (rule ring_okI)
    fix j assume j: "j < n"
    show "proc_ok a sinv n (Suc k) None j (entered ?c' j) (completed ?c' j) (procs ?c' j)"
    proof (cases "j = 0")
      case True
      with P ent [OF r(2)] toggle_epoch(1) [OF P(5)] toggle_epoch(2) [OF P(4)] k show ?thesis
        by (simp add: proc_ok_def ring_inbox_def fold_post_select filter_dest_range)
    next
      case False
      with ring_ok_proc [OF ok j] ent [OF j] fin [OF j] j show ?thesis
        by (simp add: proc_ok_def ring_inbox_def fold_post_select filter_dest_range)
    qed
  qed (use ent [OF r(2)] in simp_all)
  with it show ?thesis by auto
qed

lemma iterate_forward:
  assumes ok: "ring_ok a sinv n k (Some r) c" and r: "r < n" "in_loop c r" "completed c r = k" "0 < r"
  shows "\<exists>c'. iterate a r c = Inr c' \<and> ring_ok a sinv n k (Some (r - 1)) c' \<and>
     entered c' = entered c \<and> completed c' = completed c"
proof -
  note P = ring_ok_proc [OF ok r(1)]
  let ?p = "procs c r"
  let ?p1 = "?p\<lparr>t_inbox := [], t_color := WHITE\<rparr>"
  let ?out = "[(r - 1, token_msg r (parity k) WHITE)]"
  have inbox: "t_inbox ?p = [token_msg ((r + 1) mod n) (parity k) WHITE]"
    using P(6) r(3) by (simp add: ring_inbox_def)
  have "check_token a ?p = (?p1, ?out, False)"
    using P(1,2,3,5) r(3,4) by (simp add: check_token_def inbox token_msg_def)
  moreover have "check_end a ?p1 = (?p1, False)" by (simp add: check_end_def)
  moreover obtain s' where s': "api_handle a (t_server ?p) = Inr s'" "sinv s'"
      "api_getEpoch a s' = api_getEpoch a (t_server ?p)"
    using handle_total [OF P(4)] by blast
  ultimately have it: "iterate a r c
      = Inr (c\<lparr>procs := fold post ?out ((procs c)(r := ?p1\<lparr>t_server := s'\<rparr>)), completed := completed c\<rparr>)"
    by (simp add: iterate_def terminate_iter_def fun_upd_idem)
  let ?c' = "c\<lparr>procs := fold post ?out ((procs c)(r := ?p1\<lparr>t_server := s'\<rparr>)), completed := completed c\<rparr>"
  have r1: "r - 1 < n" "Suc (r - 1) mod n = r" "r - 1 \<noteq> r" using r(1,4) by auto
  have ent: "r - 1 < j \<Longrightarrow> j < n \<Longrightarrow> entered c j = k + 1" for j
    using ring_okD(4) [OF ok refl, of j] r by (cases "j = r") (auto simp: in_loop_def)
  have "ring_ok a sinv n k (Some (r - 1)) ?c'"
  proof (rule ring_okI)
    fix j assume j: "j < n"
    show "proc_ok a sinv n k (Some (r - 1)) j (entered ?c' j) (completed ?c' j) (procs ?c' j)"
      using ring_ok_proc [OF ok j] r r1 s'(2,3) P(5)
      by (cases "j = r"; cases "j = r - 1") (simp_all add: proc_ok_def ring_inbox_def post_select)
  qed (use ring_okD(1,2) [OF ok] r1 ent in auto)
  with it show ?thesis by auto
qed

lemma iterate_idle:
  assumes ok: "ring_ok a sinv n k tok c" and r: "r < n" "completed c r = k" "tok \<noteq> Some r"
  shows "\<exists>c'. iterate a r c = Inr c' \<and> ring_ok a sinv n k tok c' \<and>
     entered c' = entered c \<and> completed c' = completed c"
proof -
  note P = ring_ok_proc [OF ok r(1)]
  let ?p = "procs c r"
  have inbox: "t_inbox ?p = []" using P(6) r by (simp add: ring_inbox_def)
  have "check_token a ?p = (?p, [], False)" "check_end a ?p = (?p, False)"
    using inbox by (simp_all add: check_token_def check_end_def)
  moreover obtain s' where s': "api_handle a (t_server ?p) = Inr s'" "sinv s'"
      "api_getEpoch a s' = api_getEpoch a (t_server ?p)"
    using handle_total [OF P(4)] by blast
  ultimately have "iterate a r c = Inr (c\<lparr>procs := (procs c)(r := ?p\<lparr>t_server := s'\<rparr>)\<rparr>)"
    by (simp add: iterate_def terminate_iter_def)
  with work_ok [OF ok r(1) s'(2,3)] show ?thesis by simp
qed

lemma iterate_ok:
  assumes ok: "ring_ok a sinv n k tok c" and r: "r < n" "in_loop c r"
  shows "\<exists>c' k' tok'. iterate a r c = Inr c' \<and> ring_ok a sinv n k' tok' c' \<and> entered c' = entered c"
proof -
  have le: "completed c r \<le> k" by (rule ring_ok_proc(7) [OF ok r(1)])
  consider "completed c r < k" | "completed c r = k" "tok = Some 0" "r = 0"
    | "completed c r = k" "tok = Some r" "0 < r" | "completed c r = k" "tok \<noteq> Some r"
    using le by (cases "completed c r < k"; cases "tok = Some r"; cases "r = 0") simp_all
  then show ?thesis
  proof cases
    case 1
    from iterate_end [OF ok r this] show ?thesis by blast
  next
    case 2
    with iterate_root [of n k c] ok r show ?thesis by blast
  next
    case 3
    with iterate_forward [of n k r c] ok r show ?thesis by blast
  next
    case 4
    from iterate_idle [OF ok r(1) this] show ?thesis by blast
  qed
qed

lemma step_ok:
  assumes "ring_step a sinv n c c'" and "ring_ok a sinv n k tok c"
  shows "\<exists>k' tok'. ring_ok a sinv n k' tok' c'"
  using assms
proof (cases rule: ring_step.cases)
  case (step_enter r)
  then show ?thesis
    using enter_root [OF assms(2)] enter_other [OF assms(2)] by (cases "r = 0") blast+
next
  case (step_iterate r)
  then show ?thesis using iterate_ok [OF assms(2) step_iterate(1,2)] by auto
next
  case (step_work r s')
  then show ?thesis using work_ok [OF assms(2)] by blast
qed

lemma reachable_ok:
  assumes "ring_reachable a sinv n c" and "0 < n"
  shows "\<exists>k tok. ring_ok a sinv n k tok c"
  using assms
proof (induction rule: ring_reachable.induct)
  case (reach_start s)
  then show ?case using start_ok by blast
next
  case (reach_step c c')
  then show ?case using step_ok by blast
qed

text \<open>No process has returned from a call that another one has not entered.\<close>

lemma barrier:
  assumes "ring_reachable a sinv n c" and "r < n" and "s < n"
  shows "completed c r \<le> entered c s"
proof -
  from reachable_ok [OF assms(1)] assms(2) obtain k tok where "ring_ok a sinv n k tok c" by auto
  from ring_ok_proc(7) [OF this assms(2)] ring_ok_proc(8) [OF this assms(3)] show ?thesis by simp
qed

lemma ending_completed:
  assumes "ending a sinv n k tok c" "r < n"
  shows "completed c r = k \<or> completed c r = Suc k \<and> completed c 0 = Suc k"
proof -
  from assms have "ring_ok a sinv n (completed c 0) tok c" "entered c r = Suc k"
    "completed c 0 = k \<or> completed c 0 = Suc k" by (auto simp: ending_def)
  with ring_ok_proc(7-10) [OF this(1) assms(2)] show ?thesis by linarith
qed

lemma ending_iterate:
  assumes e: "ending a sinv n k tok c" and r: "r < n" "in_loop c r"
  shows "\<exists>c' tok'. iterate a r c = Inr c' \<and> ending a sinv n k tok' c' \<and>
     (if active k tok c r then distance n k tok' c' < distance n k tok c
      else tok' = tok \<and> completed c' = completed c)"
proof -
  have ok: "ring_ok a sinv n (completed c 0) tok c" and ent: "\<forall>r<n. entered c r = Suc k"
    and c0: "completed c 0 = k \<or> completed c 0 = Suc k" using e by (auto simp: ending_def)
  have rk: "completed c r = k" using r ent by (simp add: in_loop_def)
  have n0: "0 < n" using r(1) by simp
  show ?thesis
  proof (cases "completed c 0 = k")
    case False
    then have lt: "completed c r < completed c 0" using c0 rk by simp
    from iterate_end [OF ok r this] obtain c' where c': "iterate a r c = Inr c'"
      "ring_ok a sinv n (completed c 0) tok c'" "entered c' = entered c"
      "completed c' = (completed c)(r := completed c 0)" by blast
    have "r \<noteq> 0" using rk False by (metis)
    with c' c0 ent False have e': "ending a sinv n k tok c'" by (auto simp: ending_def)
    have "{j. j < n \<and> completed c' j = k} = {j. j < n \<and> completed c j = k} - {r}"
      using c'(4) False by auto
    moreover have "card ({j. j < n \<and> completed c j = k} - {r}) < card {j. j < n \<and> completed c j = k}"
      using r(1) rk by (intro card_Diff1_less) auto
    ultimately have "distance n k tok c' < distance n k tok c"
      using c'(4) False \<open>r \<noteq> 0\<close> by (simp add: distance_def)
    with e' show ?thesis using c'(1) False rk by (auto simp: active_def)
  next
    case True
    note ok' = ok [unfolded True]
    consider "tok = Some r" "r = 0" | "tok = Some r" "0 < r" | "tok \<noteq> Some r" by auto
    then show ?thesis
    proof cases
      case 1
      with iterate_root [of n k c] ok' r n0 obtain c' where c': "iterate a 0 c = Inr c'"
        "ring_ok a sinv n (Suc k) None c'" "entered c' = entered c"
        "completed c' = (completed c)(0 := Suc k)" by blast
      then have "ending a sinv n k None c'" using ent by (simp add: ending_def)
      moreover have "{j. j < n \<and> completed c' j = k} \<subseteq> {1..<n}" using c'(4) by (auto simp: Suc_le_eq)
      then have "card {j. j < n \<and> completed c' j = k} \<le> n - 1"
        using card_mono [of "{1..<n}"] by fastforce
      then have "distance n k None c' < distance n k tok c"
        using c'(4) True n0 1 by (simp add: distance_def)
      ultimately show ?thesis using c'(1) 1 True by (auto simp: active_def)
    next
      case 2
      with iterate_forward [of n k r c] ok' r rk obtain c' where c': "iterate a r c = Inr c'"
        "ring_ok a sinv n k (Some (r - 1)) c'" "entered c' = entered c" "completed c' = completed c"
        by blast
      then have "ending a sinv n k (Some (r - 1)) c'" using ent True by (simp add: ending_def)
      moreover have "distance n k (Some (r - 1)) c' < distance n k tok c"
        using c'(4) True 2 by (simp add: distance_def)
      ultimately show ?thesis using c'(1) 2 True by (auto simp: active_def)
    next
      case 3
      from iterate_idle [OF ok' r(1) rk 3] obtain c' where c': "iterate a r c = Inr c'"
        "ring_ok a sinv n k tok c'" "entered c' = entered c" "completed c' = completed c" by blast
      then have "ending a sinv n k tok c'" using ent True by (simp add: ending_def)
      then show ?thesis using c'(1,4) 3 True by (auto simp: active_def)
    qed
  qed
qed

end

text \<open>One iteration of every process of a list that is still in its loop.\<close>

definition visit :: "'s server_api \<Rightarrow> nat \<Rightarrow> 's ring \<Rightarrow> fault + 's ring" where
  "visit a r c = (if in_loop c r then iterate a r c else Inr c)"

definition sweep :: "'s server_api \<Rightarrow> nat list \<Rightarrow> 's ring \<Rightarrow> fault + 's ring" where
  "sweep a rs c = run_all (visit a) rs c"

definition sweeps :: "'s server_api \<Rightarrow> nat list list \<Rightarrow> 's ring \<Rightarrow> fault + 's ring" where
  "sweeps a rss c = run_all (sweep a) rss c"

context api_server begin

lemma ending_visit:
  assumes e: "ending a sinv n k tok c" and r: "r < n"
  shows "\<exists>c' tok'. visit a r c = Inr c' \<and> ending a sinv n k tok' c' \<and>
     (if active k tok c r then distance n k tok' c' < distance n k tok c
      else tok' = tok \<and> completed c' = completed c)"
proof (cases "in_loop c r")
  case True
  with ending_iterate [OF assms True] show ?thesis by (simp add: visit_def)
next
  case False
  have "entered c r = Suc k" using e r by (simp add: ending_def)
  with False ending_completed [OF e r] have fin: "completed c r = Suc k" "completed c 0 = Suc k"
    by (auto simp: in_loop_def)
  then show ?thesis using False e by (auto simp: visit_def active_def)
qed

lemma sweep_le:
  assumes "ending a sinv n k tok c" and "set rs \<subseteq> {0..<n}"
  shows "\<exists>c' tok'. sweep a rs c = Inr c' \<and> ending a sinv n k tok' c' \<and>
     distance n k tok' c' \<le> distance n k tok c \<and>
     ((\<exists>r\<in>set rs. active k tok c r) \<longrightarrow> distance n k tok' c' < distance n k tok c)"
  using assms
proof (induction rs arbitrary: tok c)
  case Nil
  then show ?case by (auto simp: sweep_def)
next
  case (Cons r rs)
  then have rn: "r < n" by simp
  obtain c1 tok1 where 1: "visit a r c = Inr c1" "ending a sinv n k tok1 c1"
    "if active k tok c r then distance n k tok1 c1 < distance n k tok c
     else tok1 = tok \<and> completed c1 = completed c"
    using ending_visit [OF Cons.prems(1) rn] by blast
  from Cons.IH [OF 1(2)] Cons.prems(2) obtain c2 tok2 where 2: "sweep a rs c1 = Inr c2"
    "ending a sinv n k tok2 c2" "distance n k tok2 c2 \<le> distance n k tok1 c1"
    "(\<exists>r\<in>set rs. active k tok1 c1 r) \<longrightarrow> distance n k tok2 c2 < distance n k tok1 c1" by auto
  have run: "sweep a (r # rs) c = Inr c2" using 1(1) 2(1) by (simp add: sweep_def)
  show ?case
  proof (cases "active k tok c r")
    case True
    with 1 2 run show ?thesis by force
  next
    case False
    then have same: "tok1 = tok" "completed c1 = completed c" using 1(3) by simp_all
    then have "distance n k tok1 c1 = distance n k tok c" "active k tok1 c1 = active k tok c"
      by (simp_all add: distance_def active_def fun_eq_iff)
    with 2 run False show ?thesis by auto
  qed
qed

lemma ending_finished:
  assumes "ending a sinv n k tok c" and "\<forall>r<n. \<not> active k tok c r" and "r < n"
  shows "completed c r = Suc k"
proof -
  have ok: "ring_ok a sinv n (completed c 0) tok c" and "entered c 0 = Suc k"
    using assms(1,3) by (auto simp: ending_def)
  have "completed c 0 = Suc k"
  proof (rule ccontr)
    assume "completed c 0 \<noteq> Suc k"
    then have c0: "completed c 0 = k" using assms(1) by (auto simp: ending_def)
    with ring_okD(2) [OF ok] \<open>entered c 0 = Suc k\<close> obtain j where "tok = Some j" by auto
    with ring_okD(3) [OF ok this] assms(2) c0 show False by (auto simp: active_def)
  qed
  with assms ending_completed [OF assms(1,3)] show ?thesis by (auto simp: active_def)
qed

lemma sweeps_finish:
  assumes "ending a sinv n k tok c" and "\<forall>rs\<in>set rss. set rs = {0..<n}"
    and "distance n k tok c \<le> length rss" and "0 < n"
  shows "\<exists>c'. sweeps a rss c = Inr c' \<and> (\<forall>r<n. completed c' r = Suc k)"
  using assms(1-3)
proof (induction rss arbitrary: tok c)
  case Nil
  then have d: "distance n k tok c = 0" by simp
  have "\<not> active k tok c r" if "r < n" for r
  proof (cases "completed c 0 = k")
    case True
    with d that show ?thesis by (simp add: distance_def)
  next
    case False
    with d have "{r. r < n \<and> completed c r = k} = {}" by (simp add: distance_def)
    with False that show ?thesis by (auto simp: active_def)
  qed
  with ending_finished [OF Nil(1)] show ?case by (auto simp: sweeps_def)
next
  case (Cons rs rss)
  from sweep_le [OF Cons.prems(1), of rs] Cons.prems(2) obtain c1 tok1 where 1:
    "sweep a rs c = Inr c1" "ending a sinv n k tok1 c1" "distance n k tok1 c1 \<le> distance n k tok c"
    "(\<exists>r\<in>set rs. active k tok c r) \<longrightarrow> distance n k tok1 c1 < distance n k tok c" by auto
  have "distance n k tok1 c1 \<le> length rss"
  proof (cases "\<exists>r<n. active k tok c r")
    case True
    with Cons.prems(2) have "\<exists>r\<in>set rs. active k tok c r" by (auto simp: Bex_def)
    with 1(4) Cons.prems(3) show ?thesis by simp
  next
    case False
    then have fin: "\<forall>r<n. completed c r = Suc k" using ending_finished [OF Cons.prems(1)] by blast
    then have "distance n k tok c = 0"
      using fin assms(4) by (auto simp: distance_def)
    with 1(3) show ?thesis by simp
  qed
  with Cons.IH [OF 1(2)] Cons.prems(2) obtain c' where
    "sweeps a rss c1 = Inr c'" "\<forall>r<n. completed c' r = Suc k" by auto
  with 1(1) show ?case by (auto simp: sweeps_def)
qed

text \<open>From any reachable state in which every process is in its loop.\<close>

lemma all_entered_finish:
  assumes "ring_reachable a sinv n c" and "0 < n" and "\<forall>r<n. entered c r = Suc k"
    and "\<forall>rs\<in>set rss. set rs = {0..<n}" and "2 * n \<le> length rss"
  shows "\<exists>c'. sweeps a rss c = Inr c' \<and> (\<forall>r<n. completed c' r = Suc k)"
proof -
  from reachable_ok [OF assms(1,2)] obtain k' tok where ok': "ring_ok a sinv n k' tok c" by blast
  then have ok: "ring_ok a sinv n (completed c 0) tok c" using ring_okD(1) [OF ok'] by simp
  have c0: "completed c 0 = k \<or> completed c 0 = Suc k"
    using ring_ok_proc(9,10) [OF ok assms(2)] assms(2,3) by fastforce
  with ok assms(3) have e: "ending a sinv n k tok c" by (simp add: ending_def)
  have "distance n k tok c \<le> 2 * n"
  proof (cases "completed c 0 = k")
    case True
    with ring_okD(2) [OF ok] assms(2,3) obtain j where "tok = Some j" by auto
    with ring_okD(3) [OF ok this] True show ?thesis by (simp add: distance_def)
  next
    case False
    have "card {r. r < n \<and> completed c r = k} \<le> card {0..<n}" by (rule card_mono) auto
    with False show ?thesis by (simp add: distance_def)
  qed
  with assms(5) sweeps_finish [OF e assms(4) _ assms(2)] show ?thesis by simp
qed

end

end
