(* ===== verification/Termination_Props.thy ===== *)
theory Termination_Props
  imports Termination
begin

text \<open>
  The termination algorithm run by mutex servers: the server interface interpreted on the model of
  \<open>mutex_server.h\<close>, and the properties of the resulting system.
\<close>

section \<open>The mutex server as a server\<close>

definition mutex_server_api :: "'d process server_api" where
  "mutex_server_api =
     \<lparr>api_setEpoch = setEpoch, api_getEpoch = getEpoch, api_handle = handleIncomingRequests\<rparr>"

text \<open>The invariant across epochs: the messages waiting for the next epoch are well formed too.\<close>

definition server_inv_epochs :: "'d process \<Rightarrow> bool" where
  "server_inv_epochs p \<longleftrightarrow> (\<forall>e. server_inv (setEpoch e p))"

lemma server_inv_epochsD: "server_inv_epochs p \<Longrightarrow> server_inv p"
proof -
  assume "server_inv_epochs p"
  then have "server_inv (setEpoch (server_epoch p) p)" by (simp add: server_inv_epochs_def)
  then show ?thesis by (simp add: setEpoch_def)
qed

lemma server_inv_epochs_frame:
  assumes "server_inv_epochs p" "server_inv p'" "frame p p'"
  shows "server_inv_epochs p'"
  using assms by (auto simp: server_inv_epochs_def server_inv_def setEpoch_def frame_def)

interpretation mutex_srv: api_server mutex_server_api server_inv_epochs
proof
  fix e and s :: "'d process"
  show "api_getEpoch mutex_server_api (api_setEpoch mutex_server_api e s) = e"
    by (simp add: mutex_server_api_def setEpoch_def getEpoch_def)
  show "server_inv_epochs s \<Longrightarrow> server_inv_epochs (api_setEpoch mutex_server_api e s)"
    by (simp add: mutex_server_api_def server_inv_epochs_def setEpoch_def)
  assume inv: "server_inv_epochs s"
  from handleIncomingRequests_keeps [OF server_inv_epochsD [OF inv]] obtain s'
    where s': "handleIncomingRequests s = Inr s'" "server_inv s'" "frame s s'" by blast
  with server_inv_epochs_frame [OF inv s'(2,3)]
  show "\<exists>s'. api_handle mutex_server_api s = Inr s' \<and> server_inv_epochs s' \<and>
      api_getEpoch mutex_server_api s' = api_getEpoch mutex_server_api s"
    by (auto simp: mutex_server_api_def getEpoch_def frame_def)
qed

abbreviation mutex_ring :: "nat \<Rightarrow> 'd process ring \<Rightarrow> bool" where
  "mutex_ring \<equiv> ring_reachable mutex_server_api server_inv_epochs"

definition idle_server :: "nat process" where
  "idle_server = \<lparr>rank = 0, server_epoch = EVEN, mutex_map = (\<lambda>i. None), inbox = [], outbox = []\<rparr>"

lemma idle_server_inv: "server_inv_epochs idle_server" "api_getEpoch mutex_server_api idle_server = EVEN"
  by (simp_all add: server_inv_epochs_def server_inv_def setEpoch_def idle_server_def
      mutex_server_api_def getEpoch_def)

text \<open>Two idle processes, and the same after both have entered \<open>terminate\<close>.\<close>

definition idle_ring :: "nat process ring" where
  "idle_ring = ring_start 2 (\<lambda>r. idle_server)"

definition entered_ring :: "nat process ring" where
  "entered_ring = enter mutex_server_api 1 (enter mutex_server_api 0 idle_ring)"

lemma idle_ring_reachable: "mutex_ring 2 idle_ring"
  unfolding idle_ring_def by (rule reach_start) (simp add: idle_server_inv)

lemma entered_enter [simp]: "entered (enter a r c) = (entered c)(r := entered c r + 1)"
  "completed (enter a r c) = completed c"
  by (simp_all add: enter_def split: prod.splits)

lemma entered_ring_reachable: "mutex_ring 2 entered_ring"
proof -
  have "mutex_ring 2 (enter mutex_server_api 0 idle_ring)"
    by (rule reach_step [OF idle_ring_reachable], rule step_enter)
      (simp_all add: idle_ring_def ring_start_def)
  then show ?thesis
    unfolding entered_ring_def
    by (rule reach_step, intro step_enter) (simp_all add: idle_ring_def ring_start_def)
qed

section \<open>Properties\<close>

text \<open>Property C1: \<open>terminate\<close> is a barrier. In every interleaving of any number of calls by any number
  of processes running mutex servers, no process has returned from its k-th call before every process
  has entered its own k-th call.\<close>

theorem termination_barrier:
  assumes "mutex_ring n c" and "r < n" and "s < n"
  shows "completed c r \<le> entered c s"
  by (rule mutex_srv.barrier [OF assms])

theorem termination_barrier_witness: "completed entered_ring 0 \<le> entered entered_ring 1"
  by (rule termination_barrier [OF entered_ring_reachable]) simp_all

text \<open>Property C12: once every process has entered its call, iterating the processes in any order returns
  from all the calls without a fault: with n processes, 2n rounds in which each process iterates at
  least once are enough, whatever requests the servers handle in between.\<close>

theorem termination_finishes:
  assumes "mutex_ring n c" and "0 < n" and "\<forall>r<n. entered c r = Suc k"
    and "\<forall>rs\<in>set rss. set rs = {0..<n}" and "2 * n \<le> length rss"
  shows "\<exists>c'. sweeps mutex_server_api rss c = Inr c' \<and> (\<forall>r<n. completed c' r = Suc k)"
  by (rule mutex_srv.all_entered_finish [OF assms])

theorem termination_finishes_witness:
  "\<exists>c'. sweeps mutex_server_api [[0, 1], [1, 0], [0, 1], [0, 1, 1]] entered_ring = Inr c'
     \<and> completed c' 0 = 1 \<and> completed c' 1 = 1"
proof -
  have "\<forall>rs\<in>set [[0, 1], [1, 0], [0, 1], [0, 1, 1]]. set rs = {0::nat..<2}" by auto
  moreover have "\<forall>r<2. entered entered_ring r = Suc 0"
    by (simp add: less_2_cases_iff entered_ring_def idle_ring_def ring_start_def)
  ultimately obtain c' where "sweeps mutex_server_api [[0, 1], [1, 0], [0, 1], [0, 1, 1]] entered_ring = Inr c'"
    and "\<forall>r<2. completed c' r = Suc 0"
    using termination_finishes [OF entered_ring_reachable, of 0 "[[0, 1], [1, 0], [0, 1], [0, 1, 1]]"]
    by auto
  then show ?thesis by simp
qed

text \<open>
  The epochs of two processes agree whenever they have returned from the same number of
  calls, and differ when one is a call ahead, so requests of the next phase are never taken for
  requests of the current one.\<close>

lemma epochs_follow_calls:
  assumes "mutex_ring n c" and "r < n" and "s < n"
  shows "(server_epoch (t_server (procs c r)) = server_epoch (t_server (procs c s))) \<longleftrightarrow>
         completed c r = completed c s"
proof -
  from mutex_srv.reachable_ok [OF assms(1)] assms(2) obtain k tok
    where ok: "ring_ok mutex_server_api server_inv_epochs n k tok c" by auto
  have ep: "server_epoch (t_server (procs c j)) = parity (completed c j)" if "j < n" for j
    using mutex_srv.ring_ok_proc(5) [OF ok that] by (simp add: mutex_server_api_def getEpoch_def)
  have near: "completed c j = k \<or> Suc (completed c j) = k" if "j < n" for j
    using mutex_srv.ring_ok_proc(7-10) [OF ok that] by linarith
  from near [OF assms(2)] near [OF assms(3)] show ?thesis
    unfolding ep [OF assms(2)] ep [OF assms(3)]
    by (elim disjE) (metis parity_Suc_neq Suc_inject)+
qed

text \<open>
  No process and no token is ever black, so the first token that comes back to process 0
  ends the call: the recolouring of the Dijkstra-Feijen-van Gasteren algorithm named in the class
  documentation is never exercised.\<close>

lemma never_black:
  assumes "mutex_ring n c" and "r < n"
  shows "t_color (procs c r) = WHITE \<and> filter (\<lambda>m. tm_color m = Some BLACK) (t_inbox (procs c r)) = []"
proof -
  from mutex_srv.reachable_ok [OF assms(1)] assms(2) obtain k tok
    where ok: "ring_ok mutex_server_api server_inv_epochs n k tok c" by auto
  from mutex_srv.ring_ok_proc(3,6) [OF ok assms(2)] show ?thesis
    by (auto simp: ring_inbox_def end_msg_def token_msg_def)
qed

end
