(* ===== verification/Job_Scheduler.thy ===== *)
theory Job_Scheduler
  imports Prelude Complex_Main
begin

text \<open>
  \<open>src/fpmas/scheduler/scheduler.h\<close> and \<open>.cpp\<close>, \<open>src/fpmas/api/scheduler/scheduler.cpp\<close>: jobs, epochs and
  the scheduler that builds an epoch for a time step. A \<open>Date\<close> or \<open>SubTimeStep\<close> is a C++ \<open>float\<close>: the
  rational it stands for, with the result of an addition rounded to 24 significant bits, half to even. A
  \<open>TimeStep\<close> or \<open>Period\<close> is an \<open>unsigned long\<close> of 64 bits. Jobs are references; two kinds of undefined
  behaviour of the code, a date that is no \<open>unsigned long\<close> and a period of zero, are faults.
\<close>

section \<open>Dates\<close>

fun log2_floor :: "nat \<Rightarrow> nat" where
  "log2_floor n = (if n < 2 then 0 else Suc (log2_floor (n div 2)))"

declare log2_floor.simps [simp del]

definition round_even :: "rat \<Rightarrow> int" where
  "round_even x =
     (let f = \<lfloor>x\<rfloor>; r = x - of_int f
      in if r < 1/2 then f else if r > 1/2 then f + 1 else if even f then f else f + 1)"

text \<open>Rounding to \<open>float\<close>, without overflow. Below 1 the code only adds zero to a \<open>float\<close>.\<close>

definition to_float :: "rat \<Rightarrow> rat" where
  "to_float x =
     (if x < 1 then x
      else let ulp = 2 ^ log2_floor (nat \<lfloor>x\<rfloor>) / 2 ^ 23 in of_int (round_even (x / ulp)) * ulp)"

type_synonym date = rat
type_synonym tstep = "64 word"

datatype sched_fault = Bad_Date | Zero_Period

text \<open>\<open>std::modf\<close> splits off the integral part towards zero; its conversion to a \<open>TimeStep\<close> is undefined
  when it is negative or too big.\<close>

definition trunc :: "date \<Rightarrow> int" where
  "trunc d = (if 0 \<le> d then \<lfloor>d\<rfloor> else \<lceil>d\<rceil>)"

definition to_time_step :: "int \<Rightarrow> sched_fault + tstep" where
  "to_time_step i = (if 0 \<le> i \<and> i < 2 ^ 64 then Inr (word_of_int i) else Inl Bad_Date)"

definition modf_date :: "date \<Rightarrow> sched_fault + tstep \<times> date" where
  "modf_date d = and_then (to_time_step (trunc d)) (\<lambda>step. Inr (step, d - of_int (trunc d)))"

definition time_step :: "date \<Rightarrow> sched_fault + tstep" where
  "time_step d = to_time_step \<lfloor>d\<rfloor>"

definition sub_time_step :: "date \<Rightarrow> date" where
  "sub_time_step d = d - of_int (trunc d)"

text \<open>\<open>std::nextafter(x, 0)\<close> for a float that is zero or at least 1: below a power of two the floats are
  twice as dense.\<close>

definition float_below :: "date \<Rightarrow> date" where
  "float_below x =
     (if x = 0 then 0
      else let p = 2 ^ log2_floor (nat \<lfloor>x\<rfloor>) in if x = p then x - p / 2 ^ 24 else x - p / 2 ^ 23)"

definition sub_step_end :: "tstep \<Rightarrow> date" where
  "sub_step_end step = float_below (to_float (of_nat (unat (step + 1))))"

section \<open>Jobs\<close>

datatype 't task = VoidTask | Task 't

record 't job =
  job_id :: "64 word"
  job_tasks :: "'t task list"
  job_begin :: "'t task"
  job_end :: "'t task"

text \<open>The constructors take the next id of a counter.\<close>

definition new_job :: "64 word \<Rightarrow> 't job \<times> 64 word" where
  "new_job counter = (\<lparr>job_id = counter, job_tasks = [], job_begin = VoidTask, job_end = VoidTask\<rparr>, counter + 1)"

definition job_add :: "'t task \<Rightarrow> 't job \<Rightarrow> 't job" where
  "job_add t j = j\<lparr>job_tasks := job_tasks j @ [t]\<rparr>"

definition setBeginTask :: "'t task \<Rightarrow> 't job \<Rightarrow> 't job" where
  "setBeginTask t j = j\<lparr>job_begin := t\<rparr>"

definition setEndTask :: "'t task \<Rightarrow> 't job \<Rightarrow> 't job" where
  "setEndTask t j = j\<lparr>job_end := t\<rparr>"

definition job_of_tasks :: "64 word \<Rightarrow> 't task list \<Rightarrow> 't job \<times> 64 word" where
  "job_of_tasks counter ts = (case new_job counter of (j, c) \<Rightarrow> (fold job_add ts j, c))"

definition job_of_begin_tasks :: "64 word \<Rightarrow> 't task \<Rightarrow> 't task list \<Rightarrow> 't job \<times> 64 word" where
  "job_of_begin_tasks counter b ts = (case job_of_tasks counter ts of (j, c) \<Rightarrow> (setBeginTask b j, c))"

definition job_of_tasks_end :: "64 word \<Rightarrow> 't task list \<Rightarrow> 't task \<Rightarrow> 't job \<times> 64 word" where
  "job_of_tasks_end counter ts e = (case job_of_tasks counter ts of (j, c) \<Rightarrow> (setEndTask e j, c))"

definition job_of_begin_tasks_end :: "64 word \<Rightarrow> 't task \<Rightarrow> 't task list \<Rightarrow> 't task \<Rightarrow> 't job \<times> 64 word" where
  "job_of_begin_tasks_end counter b ts e =
     (case job_of_begin_tasks counter b ts of (j, c) \<Rightarrow> (setEndTask e j, c))"

text \<open>\<open>std::remove\<close> moves the other tasks to the front and leaves unspecified pointers, \<open>rest\<close>, behind them:
  as many as there were tasks to remove. \<open>erase\<close> is given one position, so it erases one of them.\<close>

definition left_behind :: "('t task list \<Rightarrow> 't task list) \<Rightarrow> 't task \<Rightarrow> 't task list \<Rightarrow> 't task list" where
  "left_behind rest t ts = take (count_list ts t) (rest ts @ replicate (count_list ts t) t)"

definition job_remove :: "('t task list \<Rightarrow> 't task list) \<Rightarrow> 't task \<Rightarrow> 't job \<Rightarrow> 't job" where
  "job_remove rest t j =
     (let kept = filter (\<lambda>u. u \<noteq> t) (job_tasks j); left = left_behind rest t (job_tasks j)
      in if left \<noteq> [] then j\<lparr>job_tasks := kept @ tl left\<rparr> else j\<lparr>job_tasks := kept\<rparr>)"

section \<open>Epochs\<close>

record 'j epoch =
  ep_jobs :: "'j list"
  ep_ordering :: "date list"

definition empty_epoch :: "'j epoch" where
  "empty_epoch = \<lparr>ep_jobs = [], ep_ordering = []\<rparr>"

fun submit_pos :: "date \<Rightarrow> date list \<Rightarrow> nat" where
  "submit_pos sub_step [] = 0"
| "submit_pos sub_step (o1 # os) = (if sub_step \<ge> o1 then Suc (submit_pos sub_step os) else 0)"

definition epoch_submit :: "'j list \<Rightarrow> date \<Rightarrow> 'j epoch \<Rightarrow> 'j epoch" where
  "epoch_submit js sub_step ep =
     (let n = submit_pos sub_step (ep_ordering ep)
      in \<lparr>ep_jobs = take n (ep_jobs ep) @ js @ drop n (ep_jobs ep),
          ep_ordering = take n (ep_ordering ep) @ replicate (length js) sub_step @ drop n (ep_ordering ep)\<rparr>)"

definition epoch_submit_job :: "'j \<Rightarrow> date \<Rightarrow> 'j epoch \<Rightarrow> 'j epoch" where
  "epoch_submit_job j sub_step ep = epoch_submit [j] sub_step ep"

definition epoch_clear :: "'j epoch \<Rightarrow> 'j epoch" where
  "epoch_clear ep = \<lparr>ep_jobs = [], ep_ordering = []\<rparr>"

definition jobCount :: "'j epoch \<Rightarrow> nat" where
  "jobCount ep = length (ep_jobs ep)"

section \<open>The scheduler\<close>

record 'j sched_item =
  si_sub_step :: date
  si_jobs :: "'j list"

text \<open>The ordered maps are lists of entries with increasing keys; \<open>push_at\<close> is \<open>m[k].push_back(v)\<close>.\<close>

fun push_at :: "tstep \<Rightarrow> 'v \<Rightarrow> (tstep \<times> 'v list) list \<Rightarrow> (tstep \<times> 'v list) list" where
  "push_at k v [] = [(k, [v])]"
| "push_at k v ((k', vs) # m) =
     (if k < k' then (k, [v]) # (k', vs) # m
      else if k = k' then (k', vs @ [v]) # m
      else (k', vs) # push_at k v m)"

record 'j scheduler =
  unique_jobs :: "tstep \<Rightarrow> 'j sched_item list"
  recurring_jobs :: "(tstep \<times> (64 word \<times> 'j sched_item) list) list"
  limited_jobs :: "(tstep \<times> (date \<times> 64 word \<times> 'j sched_item) list) list"

definition new_scheduler :: "'j scheduler" where
  "new_scheduler = \<lparr>unique_jobs = (\<lambda>_. []), recurring_jobs = [], limited_jobs = []\<rparr>"

definition schedule_once :: "date \<Rightarrow> 'j list \<Rightarrow> 'j scheduler \<Rightarrow> sched_fault + 'j scheduler" where
  "schedule_once d js s =
     and_then (modf_date d) (\<lambda>(step, sub_step).
       Inr (s\<lparr>unique_jobs := (unique_jobs s)
             (step := unique_jobs s step @ [\<lparr>si_sub_step = sub_step, si_jobs = js\<rparr>])\<rparr>))"

definition schedule_recurring :: "date \<Rightarrow> 64 word \<Rightarrow> 'j list \<Rightarrow> 'j scheduler \<Rightarrow> sched_fault + 'j scheduler" where
  "schedule_recurring start period js s =
     and_then (modf_date start) (\<lambda>(step, sub_step).
       Inr (s\<lparr>recurring_jobs := push_at step (period, \<lparr>si_sub_step = sub_step, si_jobs = js\<rparr>) (recurring_jobs s)\<rparr>))"

definition schedule_limited ::
  "date \<Rightarrow> date \<Rightarrow> 64 word \<Rightarrow> 'j list \<Rightarrow> 'j scheduler \<Rightarrow> sched_fault + 'j scheduler" where
  "schedule_limited start until period js s =
     and_then (modf_date start) (\<lambda>(step, sub_step).
       Inr (s\<lparr>limited_jobs := push_at step (until, period, \<lparr>si_sub_step = sub_step, si_jobs = js\<rparr>) (limited_jobs s)\<rparr>))"

definition schedule_one :: "date \<Rightarrow> 'j \<Rightarrow> 'j scheduler \<Rightarrow> sched_fault + 'j scheduler" where
  "schedule_one d j s = schedule_once d [j] s"

definition schedule_one_recurring :: "date \<Rightarrow> 64 word \<Rightarrow> 'j \<Rightarrow> 'j scheduler \<Rightarrow> sched_fault + 'j scheduler" where
  "schedule_one_recurring start period j s = schedule_recurring start period [j] s"

definition schedule_one_limited ::
  "date \<Rightarrow> date \<Rightarrow> 64 word \<Rightarrow> 'j \<Rightarrow> 'j scheduler \<Rightarrow> sched_fault + 'j scheduler" where
  "schedule_one_limited start until period j s = schedule_limited start until period [j] s"

text \<open>\<open>n % period == 0\<close>\<close>

definition divides :: "64 word \<Rightarrow> 64 word \<Rightarrow> sched_fault + bool" where
  "divides period n = (if period = 0 then Inl Zero_Period else Inr (n mod period = 0))"

definition submit_item :: "'j sched_item \<Rightarrow> 'j epoch \<Rightarrow> 'j epoch" where
  "submit_item it ep = epoch_submit (si_jobs it) (si_sub_step it) ep"

definition build_recurring ::
  "tstep \<Rightarrow> tstep \<Rightarrow> 64 word \<times> 'j sched_item \<Rightarrow> 'j epoch \<Rightarrow> sched_fault + 'j epoch" where
  "build_recurring step start pit ep =
     and_then (divides (fst pit) (step - start)) (\<lambda>due. Inr (if due then submit_item (snd pit) ep else ep))"

text \<open>\<open>step + sub_step < end\<close>, an addition of floats.\<close>

definition before_end :: "tstep \<Rightarrow> date \<Rightarrow> date \<Rightarrow> bool" where
  "before_end step sub_step until \<longleftrightarrow> to_float (to_float (of_nat (unat step)) + sub_step) < until"

definition build_limited ::
  "tstep \<Rightarrow> tstep \<Rightarrow> date \<times> 64 word \<times> 'j sched_item \<Rightarrow> 'j epoch \<Rightarrow> sched_fault + 'j epoch" where
  "build_limited step start epi ep =
     (case epi of (until, period, it) \<Rightarrow>
        if before_end step (si_sub_step it) until
        then and_then (divides period (step - start)) (\<lambda>due. Inr (if due then submit_item it ep else ep))
        else Inr ep)"

text \<open>The iteration from \<open>begin\<close> to the bound: the entries whose key is not after \<open>step\<close>.\<close>

definition started :: "tstep \<Rightarrow> (tstep \<times> 'v list) list \<Rightarrow> (tstep \<times> 'v list) list" where
  "started step m = takeWhile (\<lambda>e. fst e \<le> step) m"

definition scheduler_build :: "tstep \<Rightarrow> 'j scheduler \<Rightarrow> 'j epoch \<Rightarrow> sched_fault + 'j epoch" where
  "scheduler_build step s ep =
     (let ep0 = epoch_clear ep;
          ep1 = fold submit_item (unique_jobs s step) ep0
      in and_then (run_all (\<lambda>e. run_all (build_recurring step (fst e)) (snd e)) (started step (recurring_jobs s)) ep1)
           (run_all (\<lambda>e. run_all (build_limited step (fst e)) (snd e)) (started step (limited_jobs s))))"

end
