(* ===== verification/Job_Scheduler_Props.thy ===== *)
theory Job_Scheduler_Props
  imports Job_Scheduler "HOL-Library.Product_Lexorder"
begin

text \<open>
  Facts and properties of \<open>Job_Scheduler\<close>: the dates that floats represent exactly, the order of the
  jobs of an epoch, and the epoch that the scheduler builds for a time step as a function of the calls that
  scheduled its jobs.
\<close>

section \<open>Rounding\<close>

lemma log2_floor_bounds: "0 < n \<Longrightarrow> 2 ^ log2_floor n \<le> n \<and> n < 2 ^ Suc (log2_floor n)"
proof (induction n rule: log2_floor.induct)
  case (1 n)
  then show ?case
    by (cases "n < 2") (auto simp: log2_floor.simps [of n])
qed

lemma log2_floor_le: "0 < n \<Longrightarrow> n < 2 ^ Suc k \<Longrightarrow> log2_floor n \<le> k"
  using log2_floor_bounds [of n] power_less_imp_less_exp [of "2::nat" "log2_floor n" "Suc k"] by simp

lemma log2_floor_unique: "2 ^ k \<le> n \<Longrightarrow> n < 2 ^ Suc k \<Longrightarrow> log2_floor n = k"
proof -
  assume k: "2 ^ k \<le> n" "n < 2 ^ Suc k"
  then have "0 < n" by (metis less_le_trans pos2 zero_less_power)
  then have "n < 2 ^ Suc (log2_floor n)" by (simp only: log2_floor_bounds)
  with k(1) have "(2::nat) ^ k < 2 ^ Suc (log2_floor n)" by (rule le_less_trans)
  then have "k \<le> log2_floor n" by (simp add: power_strict_increasing_iff del: power_Suc)
  with log2_floor_le [OF \<open>0 < n\<close> k(2)] show ?thesis by simp
qed

lemma round_even_of_int [simp]: "round_even (of_int i) = i"
  by (simp add: round_even_def)

lemma to_float_exact:
  assumes "x = of_int i * (2 ^ log2_floor (nat \<lfloor>x\<rfloor>) / 2 ^ 23)"
  shows "to_float x = x"
proof -
  let ?ulp = "2 ^ log2_floor (nat \<lfloor>x\<rfloor>) / 2 ^ 23 :: rat"
  have "x / ?ulp = of_int i" by (subst assms) simp
  then show ?thesis unfolding to_float_def Let_def using assms by simp
qed

text \<open>A \<open>float\<close> has 24 significant bits: every natural number up to \<open>2 ^ 24\<close> is one, and the next is not.\<close>

lemma to_float_nat:
  assumes "n \<le> 2 ^ 24"
  shows "to_float (of_nat n) = of_nat n"
proof (cases "n = 0 \<or> n = 2 ^ 24")
  case True
  have "log2_floor (2 ^ 24) = 24" by (rule log2_floor_unique) simp_all
  then have "to_float (of_nat (2 ^ 24)) = of_nat (2 ^ 24)"
    by (intro to_float_exact [of _ "2 ^ 23"]) simp
  with True show ?thesis by (auto simp: to_float_def)
next
  case False
  let ?k = "log2_floor n"
  from False assms have "0 < n" "n < 2 ^ Suc 23" by simp_all
  then have "?k \<le> 23" by (rule log2_floor_le)
  then have "(2::rat) ^ ?k * 2 ^ (23 - ?k) = 2 ^ 23" by (simp flip: power_add)
  then have "of_nat n = of_int (int n * 2 ^ (23 - ?k)) * (2 ^ ?k / 2 ^ 23 :: rat)"
    by (simp add: field_simps)
  then show ?thesis by (intro to_float_exact [of _ "int n * 2 ^ (23 - ?k)"]) simp
qed

lemma to_float_Suc_2_24: "to_float (2 ^ 24 + 1) = 2 ^ 24"
proof -
  have "log2_floor (2 ^ 24 + 1) = 24" by (rule log2_floor_unique) simp_all
  moreover have "\<lfloor>16777217 / 2 :: rat\<rfloor> = 8388608" by (rule floor_unique) simp_all
  ultimately show ?thesis by (simp add: to_float_def round_even_def Let_def)
qed

section \<open>The order of an epoch\<close>

text \<open>An epoch that comes from a list of items with increasing sub steps.\<close>

definition epoch_of :: "'j sched_item list \<Rightarrow> 'j epoch" where
  "epoch_of its =
     \<lparr>ep_jobs = concat (map si_jobs its),
      ep_ordering = concat (map (\<lambda>it. replicate (length (si_jobs it)) (si_sub_step it)) its)\<rparr>"

lemma epoch_of_Nil [simp]: "epoch_of [] = empty_epoch"
  by (simp add: epoch_of_def empty_epoch_def)

lemma submit_pos_append:
  "\<forall>o1\<in>set os. o1 \<le> d \<Longrightarrow> submit_pos d (os @ ps) = length os + submit_pos d ps"
  by (induction os) auto

lemma submit_pos_after: "\<forall>o1\<in>set ps. d < o1 \<Longrightarrow> submit_pos d ps = 0"
  by (cases ps) auto

lemma length_concat_replicate:
  "length (concat (map (\<lambda>it. replicate (length (f it)) (g it)) its)) = length (concat (map f its))"
  by (induction its) auto

lemma submit_item_epoch_of:
  assumes "\<forall>i\<in>set us. si_sub_step i \<le> si_sub_step it" and "\<forall>i\<in>set vs. si_sub_step it < si_sub_step i"
  shows "submit_item it (epoch_of (us @ vs)) = epoch_of (us @ it # vs)"
proof -
  let ?d = "si_sub_step it" and ?rep = "\<lambda>it. replicate (length (si_jobs it)) (si_sub_step it)"
  have "submit_pos ?d (concat (map ?rep us) @ concat (map ?rep vs)) = length (concat (map ?rep us))"
    using assms by (subst submit_pos_append) (auto simp: submit_pos_after)
  then have pos: "submit_pos ?d (concat (map ?rep (us @ vs))) = length (concat (map si_jobs us))"
    by (simp only: length_concat_replicate map_append concat_append)
  show ?thesis
    unfolding submit_item_def epoch_submit_def Let_def epoch_of_def epoch.simps pos
    using length_concat_replicate [of si_jobs si_sub_step us] by simp
qed

lemma submit_items_sort:
  "fold submit_item its empty_epoch = epoch_of (sort_key si_sub_step its)"
proof (induction its rule: rev_induct)
  case (snoc it its)
  let ?s = "sort_key si_sub_step its" and ?le = "\<lambda>i. si_sub_step i \<le> si_sub_step it"
  have "submit_item it (epoch_of (takeWhile ?le ?s @ dropWhile ?le ?s)) = epoch_of (sort_key si_sub_step (its @ [it]))"
    using sorted_dropWhile_greater [of si_sub_step ?s "si_sub_step it"]
    by (subst submit_item_epoch_of) (auto simp: sort_key_snoc dest: set_takeWhileD)
  with snoc show ?case by simp
qed simp

section \<open>The entries of the ordered maps\<close>

definition entries :: "(tstep \<times> 'v list) list \<Rightarrow> (tstep \<times> 'v) list" where
  "entries m = concat (map (\<lambda>(k, vs). map (Pair k) vs) m)"

lemma entries_simps [simp]:
  "entries [] = []" "entries ((k, vs) # m) = map (Pair k) vs @ entries m"
  by (simp_all add: entries_def)

lemma fst_entries: "e \<in> set (entries m) \<Longrightarrow> fst e \<in> fst ` set m"
  by (induction m) (auto simp: entries_def)

lemma entries_below:
  assumes "\<forall>e\<in>set m. k < fst e"
  shows "takeWhile (\<lambda>e. fst e \<le> k) (entries m) = [] \<and> dropWhile (\<lambda>e. fst e \<le> k) (entries m) = entries m"
proof -
  have "\<forall>e\<in>set (entries m). k < fst e" using assms by (auto dest!: fst_entries)
  then show ?thesis by (cases "entries m") (simp_all add: not_le)
qed

lemma keys_push_at [simp]: "fst ` set (push_at k v m) = insert k (fst ` set m)"
  by (induction k v m rule: push_at.induct) (simp_all add: insert_commute)

lemma sorted_push_at:
  "sorted_wrt (<) (map fst m) \<Longrightarrow> sorted_wrt (<) (map fst (push_at k v m))"
proof (induction k v m rule: push_at.induct)
  case (2 k v k' vs m)
  then show ?case by (cases k k' rule: linorder_cases) auto
qed simp

lemma entries_push_at:
  assumes "sorted_wrt (<) (map fst m)"
  shows "entries (push_at k v m) =
           takeWhile (\<lambda>e. fst e \<le> k) (entries m) @ (k, v) # dropWhile (\<lambda>e. fst e \<le> k) (entries m)"
  using assms
proof (induction m)
  case (Cons e m)
  obtain k' vs where e: "e = (k', vs)" by fastforce
  have below: "k \<le> k' \<Longrightarrow> \<forall>e\<in>set m. k < fst e" using Cons.prems e by auto
  have le: "k' \<le> k \<Longrightarrow> takeWhile (\<lambda>e. fst e \<le> k) (map (Pair k') vs @ es) =
                 map (Pair k') vs @ takeWhile (\<lambda>e. fst e \<le> k) es \<and>
               dropWhile (\<lambda>e. fst e \<le> k) (map (Pair k') vs @ es) = dropWhile (\<lambda>e. fst e \<le> k) es" for es
    by (induction vs) auto
  have all: "\<forall>e\<in>set ((k', vs) # m). k < fst e" if "k < k'" using below that by auto
  show ?case
    using entries_below [of m k, OF below] le entries_below [of "(k', vs) # m" k, OF all] Cons e
    by (cases "k < k'") auto
qed simp

lemma entries_fold_push_at:
  "entries (fold (\<lambda>(k, v). push_at k v) es []) = sort_key fst es \<and>
   sorted_wrt (<) (map fst (fold (\<lambda>(k, v). push_at k v) es []))"
proof (induction es rule: rev_induct)
  case (snoc e es)
  obtain k v where "e = (k, v)" by fastforce
  with snoc show ?case by (simp add: entries_push_at sorted_push_at sort_key_snoc)
qed simp

lemma entries_started:
  assumes "sorted_wrt (<) (map fst m)"
  shows "entries (started step m) = filter (\<lambda>e. fst e \<le> step) (entries m)"
  using assms
proof (induction m)
  case (Cons e m)
  obtain k vs where e: "e = (k, vs)" by fastforce
  show ?case
  proof (cases "k \<le> step")
    case True
    with Cons e show ?thesis by (simp add: started_def)
  next
    case False
    with Cons.prems e have "\<forall>e\<in>set m. step < fst e" by auto
    then have "filter (\<lambda>e. fst e \<le> step) (entries m) = []"
      by (fastforce simp: filter_empty_conv not_le dest: fst_entries)
    with False e show ?thesis by (simp add: started_def filter_empty_conv)
  qed
qed (simp add: started_def)

lemma run_all_entries:
  "run_all (\<lambda>e. run_all (f (fst e)) (snd e)) m s = run_all (\<lambda>(k, v). f k v) (entries m) s"
proof (induction m arbitrary: s)
  case (Cons e m)
  obtain k vs where e: "e = (k, vs)" by fastforce
  have "run_all (f k) vs s = run_all (\<lambda>(k, v). f k v) (map (Pair k) vs) s" for s
    by (induction vs arbitrary: s) (simp_all cong: and_then_cong)
  with Cons e show ?case by (simp add: run_all_append cong: and_then_cong)
qed simp

section \<open>What the scheduler promises\<close>

text \<open>The calls that schedule jobs.\<close>

datatype 'j sched_call =
    Once date "'j list"
  | Recurring date "64 word" "'j list"
  | Limited date date "64 word" "'j list"

fun schedule_call :: "'j sched_call \<Rightarrow> 'j scheduler \<Rightarrow> sched_fault + 'j scheduler" where
  "schedule_call (Once d js) s = schedule_once d js s"
| "schedule_call (Recurring start period js) s = schedule_recurring start period js s"
| "schedule_call (Limited start until period js) s = schedule_limited start until period js s"

fun call_date :: "'j sched_call \<Rightarrow> date" where
  "call_date (Once d js) = d"
| "call_date (Recurring start period js) = start"
| "call_date (Limited start until period js) = start"

fun call_jobs :: "'j sched_call \<Rightarrow> 'j list" where
  "call_jobs (Once d js) = js"
| "call_jobs (Recurring start period js) = js"
| "call_jobs (Limited start until period js) = js"

definition call_step :: "'j sched_call \<Rightarrow> nat" where
  "call_step c = nat (trunc (call_date c))"

definition call_item :: "'j sched_call \<Rightarrow> 'j sched_item" where
  "call_item c = \<lparr>si_sub_step = sub_time_step (call_date c), si_jobs = call_jobs c\<rparr>"

text \<open>Whether a call is for a time step, in terms of natural numbers.\<close>

fun call_due :: "nat \<Rightarrow> 'j sched_call \<Rightarrow> bool" where
  "call_due n (Once d js) \<longleftrightarrow> nat (trunc d) = n"
| "call_due n (Recurring start period js) \<longleftrightarrow> (\<exists>i\<le>n. n = nat (trunc start) + i * unat period)"
| "call_due n (Limited start until period js) \<longleftrightarrow>
     (\<exists>i\<le>n. n = nat (trunc start) + i * unat period) \<and> to_float (to_float (of_nat n) + sub_time_step start) < until"

fun call_ok :: "'j sched_call \<Rightarrow> bool" where
  "call_ok (Once d js) \<longleftrightarrow> True"
| "call_ok (Recurring start period js) \<longleftrightarrow> period \<noteq> 0"
| "call_ok (Limited start until period js) \<longleftrightarrow> period \<noteq> 0"

text \<open>
  The jobs of a step: those of the calls that are due, ordered by their sub step; the jobs of one call stay
  together, and among equal sub steps come the single calls first, then the recurring ones and the limited
  ones, each by their start step and in the order of the calls.
\<close>

fun call_rank :: "'j sched_call \<Rightarrow> nat \<times> nat" where
  "call_rank (Once d js) = (0, 0)"
| "call_rank (Recurring start period js) = (1, nat (trunc start))"
| "call_rank (Limited start until period js) = (2, nat (trunc start))"

definition promised_epoch :: "'j sched_call list \<Rightarrow> nat \<Rightarrow> 'j epoch" where
  "promised_epoch calls n =
     epoch_of (sort_key si_sub_step (map call_item (filter (call_due n) (sort_key call_rank calls))))"

fun call_period :: "'j sched_call \<Rightarrow> 64 word" where
  "call_period (Once d js) = 0"
| "call_period (Recurring start period js) = period"
| "call_period (Limited start until period js) = period"

fun call_until :: "'j sched_call \<Rightarrow> date" where
  "call_until (Limited start until period js) = until"
| "call_until _ = 0"

definition call_entry :: "nat \<Rightarrow> ('j sched_call \<Rightarrow> 'v) \<Rightarrow> 'j sched_call \<Rightarrow> (tstep \<times> 'v) list" where
  "call_entry k x c = (if fst (call_rank c) = k then [(word_of_int (trunc (call_date c)), x c)] else [])"

abbreviation recurring_args :: "'j sched_call \<Rightarrow> 64 word \<times> 'j sched_item" where
  "recurring_args c \<equiv> (call_period c, call_item c)"

abbreviation limited_args :: "'j sched_call \<Rightarrow> date \<times> 64 word \<times> 'j sched_item" where
  "limited_args c \<equiv> (call_until c, call_period c, call_item c)"

abbreviation push_all :: "(tstep \<times> 'v) list \<Rightarrow> (tstep \<times> 'v list) list" where
  "push_all es \<equiv> fold (\<lambda>(k, v). push_at k v) es []"

definition call_valid :: "'j sched_call \<Rightarrow> bool" where
  "call_valid c \<longleftrightarrow> 0 \<le> trunc (call_date c) \<and> trunc (call_date c) < 2 ^ 64"

definition once_at :: "tstep \<Rightarrow> 'j sched_call \<Rightarrow> bool" where
  "once_at step c \<longleftrightarrow> fst (call_rank c) = 0 \<and> word_of_int (trunc (call_date c)) = step"

definition schedules :: "'j sched_call list \<Rightarrow> 'j scheduler \<Rightarrow> bool" where
  "schedules calls s \<longleftrightarrow> list_all call_valid calls \<and>
     (\<forall>step. unique_jobs s step = map call_item (filter (once_at step) calls)) \<and>
     recurring_jobs s = push_all (concat (map (call_entry 1 recurring_args) calls)) \<and>
     limited_jobs s = push_all (concat (map (call_entry 2 limited_args) calls))"

lemma modf_date_Inr:
  "modf_date d = Inr (step, sub_step) \<longleftrightarrow>
     0 \<le> trunc d \<and> trunc d < 2 ^ 64 \<and> step = word_of_int (trunc d) \<and> sub_step = sub_time_step d"
  by (auto simp: modf_date_def to_time_step_def sub_time_step_def)

lemma schedules_call:
  assumes "schedules calls s" "schedule_call c s = Inr s'"
  shows "schedules (calls @ [c]) s'"
proof (cases c)
  case (Once d js)
  with assms show ?thesis
    by (auto simp: schedules_def schedule_once_def modf_date_Inr call_valid_def once_at_def call_item_def call_entry_def)
next
  case (Recurring start period js)
  with assms show ?thesis
    by (auto simp: schedules_def schedule_recurring_def modf_date_Inr call_valid_def once_at_def call_item_def call_entry_def)
next
  case (Limited start until period js)
  with assms show ?thesis
    by (auto simp: schedules_def schedule_limited_def modf_date_Inr call_valid_def once_at_def call_item_def call_entry_def)
qed

lemma schedules_calls:
  "run_all schedule_call calls new_scheduler = Inr s \<Longrightarrow> schedules calls s"
proof (induction calls arbitrary: s rule: rev_induct)
  case Nil
  then show ?case by (auto simp: schedules_def new_scheduler_def)
next
  case (snoc c calls)
  then obtain s0 where "run_all schedule_call calls new_scheduler = Inr s0" "schedule_call c s0 = Inr s"
    by (auto simp: run_all_append)
  with snoc.IH schedules_call show ?case by blast
qed

lemma word_of_nat_trunc:
  assumes "call_valid c"
  shows "unat (word_of_int (trunc (call_date c)) :: 64 word) = nat (trunc (call_date c))"
  using assms by (simp add: call_valid_def unat_eq_nat_uint uint_word_of_int)

lemma call_rank_kind: "fst (call_rank c) \<noteq> 0 \<Longrightarrow> call_rank c = (fst (call_rank c), nat (trunc (call_date c)))"
  by (cases c) auto

lemma concat_call_entry:
  "concat (map (call_entry k x) calls) =
     map (\<lambda>c. (word_of_int (trunc (call_date c)), x c)) (filter (\<lambda>c. fst (call_rank c) = k) calls)"
  by (induction calls) (auto simp: call_entry_def)

text \<open>The entries of an ordered map that a step visits, in terms of the calls.\<close>

lemma visited_entries:
  assumes "list_all call_valid calls" and "k \<noteq> 0"
  shows "entries (started step (push_all (concat (map (call_entry k x) calls)))) =
           map (\<lambda>c. (word_of_int (trunc (call_date c)), x c))
             (filter (\<lambda>c. fst (call_rank c) = k \<and> nat (trunc (call_date c)) \<le> unat step) (sort_key call_rank calls))"
proof -
  let ?w = "\<lambda>c. word_of_int (trunc (call_date c)) :: 64 word" and ?K = "\<lambda>c. fst (call_rank c) = k"
  have valid: "call_valid c" if "c \<in> set calls" for c using that assms(1) by (simp add: list_all_iff)
  have "sort_key ?w (filter ?K calls) = sort_key call_rank (filter ?K calls)"
  proof (rule sort_key_iso)
    fix c d assume "c \<in> set (filter ?K calls)" "d \<in> set (filter ?K calls)"
    then show "?w c \<le> ?w d \<longleftrightarrow> call_rank c \<le> call_rank d"
      using assms(2) call_rank_kind [of c] call_rank_kind [of d] valid [of c] valid [of d]
      by (auto simp: word_le_nat_alt word_of_nat_trunc less_eq_prod_def)
  qed
  then have "entries (push_all (concat (map (call_entry k x) calls))) =
               map (\<lambda>c. (?w c, x c)) (filter ?K (sort_key call_rank calls))"
    by (simp add: entries_fold_push_at concat_call_entry sort_key_map filter_sort)
  moreover have "filter (\<lambda>c. ?K c \<and> ?w c \<le> step) (sort_key call_rank calls) =
                 filter (\<lambda>c. ?K c \<and> nat (trunc (call_date c)) \<le> unat step) (sort_key call_rank calls)"
    by (rule filter_cong) (auto simp: word_le_nat_alt word_of_nat_trunc valid)
  ultimately show ?thesis
    by (simp add: entries_started entries_fold_push_at filter_map comp_def conj_commute)
qed

lemma divides_due:
  assumes "p \<noteq> 0" "k \<le> step"
  shows "divides p (step - k) = Inr (\<exists>i\<le>unat step. unat step = unat k + i * unat p)"
proof -
  have "unat p \<noteq> 0" using assms(1) by (simp add: unat_eq_0)
  have "(step - k) mod p = 0 \<longleftrightarrow> (unat step - unat k) mod unat p = 0"
    by (simp add: unat_eq_0 [symmetric] unat_mod_distrib unat_sub assms(2))
  also have "\<dots> \<longleftrightarrow> (\<exists>i. unat step = unat k + i * unat p)"
    using assms(2) by (auto simp: word_le_nat_alt mod_eq_0_iff_dvd dvd_def mult.commute le_add_diff_inverse dest: sym)
       (metis le_add_diff_inverse)
  also have "\<dots> \<longleftrightarrow> (\<exists>i\<le>unat step. unat step = unat k + i * unat p)"
  proof -
    have "i \<le> unat step" if "unat step = unat k + i * unat p" for i
      using that \<open>unat p \<noteq> 0\<close> by (metis le_add2 le_trans mult_le_mono2 nat_mult_1_right neq0_conv One_nat_def Suc_leI)
    then show ?thesis by blast
  qed
  finally show ?thesis using assms(1) by (simp add: divides_def)
qed

lemma run_due:
  assumes "\<And>c ep. c \<in> set cs \<Longrightarrow> f (g c) ep = Inr (if due c then submit_item (call_item c) ep else ep)"
  shows "run_all f (map g cs) ep = Inr (fold submit_item (map call_item (filter due cs)) ep)"
  using assms
proof (induction cs arbitrary: ep)
  case (Cons c cs)
  then show ?case by (cases "due c") simp_all
qed simp

lemma divides_call:
  assumes "call_ok c" "call_valid c" "fst (call_rank c) \<noteq> 0" "nat (trunc (call_date c)) \<le> unat step"
  shows "divides (call_period c) (step - word_of_int (trunc (call_date c))) =
           Inr (\<exists>i\<le>unat step. unat step = nat (trunc (call_date c)) + i * unat (call_period c))"
proof -
  have "call_period c \<noteq> 0" using assms(1,3) by (cases c) auto
  moreover have "word_of_int (trunc (call_date c)) \<le> step"
    using assms(4) by (simp add: word_le_nat_alt word_of_nat_trunc [OF assms(2)])
  ultimately show ?thesis by (simp add: divides_due word_of_nat_trunc [OF assms(2)])
qed

lemma build_recurring_call:
  assumes "call_ok c" "call_valid c" "fst (call_rank c) = 1" "nat (trunc (call_date c)) \<le> unat step"
  shows "build_recurring step (word_of_int (trunc (call_date c))) (recurring_args c) ep =
           Inr (if call_due (unat step) c then submit_item (call_item c) ep else ep)"
proof -
  have "call_due (unat step) c \<longleftrightarrow>
        (\<exists>i\<le>unat step. unat step = nat (trunc (call_date c)) + i * unat (call_period c))"
    using assms(3) by (cases c) simp_all
  with divides_call [OF assms(1,2) _ assms(4)] assms(3) show ?thesis
    by (auto simp: build_recurring_def)
qed

lemma build_limited_call:
  assumes "call_ok c" "call_valid c" "fst (call_rank c) = 2" "nat (trunc (call_date c)) \<le> unat step"
  shows "build_limited step (word_of_int (trunc (call_date c))) (limited_args c) ep =
           Inr (if call_due (unat step) c then submit_item (call_item c) ep else ep)"
proof -
  have "call_due (unat step) c \<longleftrightarrow> before_end step (si_sub_step (call_item c)) (call_until c) \<and>
        (\<exists>i\<le>unat step. unat step = nat (trunc (call_date c)) + i * unat (call_period c))"
    using assms(3) by (cases c) (auto simp: before_end_def call_item_def)
  with divides_call [OF assms(1,2) _ assms(4)] assms(3) show ?thesis
    by (auto simp: build_limited_def)
qed

lemma due_started: "call_due n c \<Longrightarrow> nat (trunc (call_date c)) \<le> n"
  by (cases c) auto

text \<open>Single calls, recurring calls and limited calls come in this order of ranks.\<close>

lemma by_kind:
  fixes kind :: "'a \<Rightarrow> nat"
  assumes "sorted (map kind cs)" and "\<forall>c\<in>set cs. kind c < 3"
  shows "filter P cs = filter (\<lambda>c. kind c = 0 \<and> P c) cs @ filter (\<lambda>c. kind c = 1 \<and> P c) cs @
           filter (\<lambda>c. kind c = 2 \<and> P c) cs"
  using assms
proof (induction cs)
  case (Cons c cs)
  have later: "\<forall>d\<in>set cs. kind c \<le> kind d" using Cons.prems by simp
  have none: "filter (\<lambda>d. kind d = k \<and> P d) cs = []" if "k < kind c" for k
    using later that by (auto simp: filter_empty_conv)
  have IH: "filter P cs = filter (\<lambda>c. kind c = 0 \<and> P c) cs @ filter (\<lambda>c. kind c = 1 \<and> P c) cs @
           filter (\<lambda>c. kind c = 2 \<and> P c) cs" using Cons by simp
  from Cons.prems consider "kind c = 0" | "kind c = 1" | "kind c = 2" by fastforce
  then show ?case
  proof cases
    case 2
    with none [of 0] IH show ?thesis by (cases "P c") auto
  next
    case 3
    with none [of 0] none [of 1] IH show ?thesis by (cases "P c") auto
  qed (use IH in \<open>cases "P c"; auto\<close>)
qed simp

lemma by_rank:
  assumes "sorted (map call_rank cs)"
  shows "filter P cs = filter (\<lambda>c. fst (call_rank c) = 0 \<and> P c) cs @ filter (\<lambda>c. fst (call_rank c) = 1 \<and> P c) cs @
           filter (\<lambda>c. fst (call_rank c) = 2 \<and> P c) cs"
proof (rule by_kind)
  have "sorted (map fst xs)" if "sorted xs" for xs :: "(nat \<times> nat) list"
    using that by (induction xs) (auto simp: less_eq_prod_def)
  from this [OF assms] show "sorted (map (\<lambda>c. fst (call_rank c)) cs)" by (simp add: comp_def)
  have "fst (call_rank c) < 3" for c :: "'a sched_call" by (cases c) auto
  then show "\<forall>c\<in>set cs. fst (call_rank c) < 3" by blast
qed

lemma once_rank: "fst (call_rank c) = 0 \<Longrightarrow> call_rank c = (0, 0)"
  by (cases c) auto

lemma once_sorted:
  fixes calls :: "'j sched_call list"
  shows "filter (\<lambda>c. fst (call_rank c) = 0 \<and> P c) (sort_key call_rank calls) =
         filter (\<lambda>c. fst (call_rank c) = 0 \<and> P c) calls"
proof -
  have "sort_key call_rank (filter (\<lambda>c. fst (call_rank c) = 0 \<and> P c) calls) =
        sort_key (\<lambda>c. 0::nat) (filter (\<lambda>c. fst (call_rank c) = 0 \<and> P c) calls)"
    by (rule sort_key_iso) (simp add: once_rank)
  then show ?thesis by (simp add: filter_sort sort_key_const)
qed

lemma once_due:
  assumes "call_valid c"
  shows "once_at step c \<longleftrightarrow> fst (call_rank c) = 0 \<and> call_due (unat step) c"
proof -
  have "word_of_int (trunc (call_date c)) = step \<longleftrightarrow> nat (trunc (call_date c)) = unat step"
    using word_of_nat_trunc [OF assms] by (metis word_unat_eq_iff)
  then show ?thesis by (cases c) (auto simp: once_at_def)
qed

lemma run_visited:
  assumes "list_all call_valid calls" "list_all call_ok calls" and "k \<noteq> 0"
    and "\<And>c ep. call_ok c \<Longrightarrow> call_valid c \<Longrightarrow> fst (call_rank c) = k \<Longrightarrow> nat (trunc (call_date c)) \<le> unat step \<Longrightarrow>
           f (word_of_int (trunc (call_date c))) (x c) ep =
             Inr (if call_due (unat step) c then submit_item (call_item c) ep else ep)"
  shows "run_all (\<lambda>e. run_all (f (fst e)) (snd e)) (started step (push_all (concat (map (call_entry k x) calls)))) ep =
           Inr (fold submit_item
             (map call_item (filter (\<lambda>c. fst (call_rank c) = k \<and> call_due (unat step) c) (sort_key call_rank calls))) ep)"
proof -
  let ?visited = "filter (\<lambda>c. fst (call_rank c) = k \<and> nat (trunc (call_date c)) \<le> unat step) (sort_key call_rank calls)"
  have "filter (call_due (unat step)) ?visited =
        filter (\<lambda>c. fst (call_rank c) = k \<and> call_due (unat step) c) (sort_key call_rank calls)"
    unfolding filter_filter by (rule filter_cong) (auto dest: due_started)
  moreover have "call_ok c" "call_valid c" if "c \<in> set calls" for c
    using that assms(1,2) by (simp_all add: list_all_iff)
  then have "run_all (\<lambda>(k, v). f k v) (map (\<lambda>c. (word_of_int (trunc (call_date c)), x c)) ?visited) ep =
    Inr (fold submit_item (map call_item (filter (call_due (unat step)) ?visited)) ep)"
    by (intro run_due) (simp add: assms(4))
  ultimately show ?thesis
    unfolding run_all_entries visited_entries [OF assms(1,3)] by simp
qed

text \<open>
  Property C5: whatever calls schedule jobs, the epoch built for a time step holds exactly the jobs of the
  calls that are due in it, ordered by their sub step. Among equal sub steps come the jobs of the single calls, then those
  of the recurring calls and then those of the limited calls; the recurring calls, and so the limited ones, are ordered by
  their start step, and only among equal start steps does the order of the calls decide.
\<close>

theorem scheduler_keeps_promises:
  assumes "run_all schedule_call calls new_scheduler = Inr s" and "list_all call_ok calls"
  shows "scheduler_build step s ep = Inr (promised_epoch calls (unat step))"
proof -
  from schedules_calls [OF assms(1)] have valid: "list_all call_valid calls"
    and s: "\<And>step. unique_jobs s step = map call_item (filter (once_at step) calls)"
      "recurring_jobs s = push_all (concat (map (call_entry 1 recurring_args) calls))"
      "limited_jobs s = push_all (concat (map (call_entry 2 limited_args) calls))"
    by (simp_all add: schedules_def)
  let ?due = "call_due (unat step)" and ?cs = "sort_key call_rank calls"
  let ?part = "\<lambda>k. map call_item (filter (\<lambda>c. fst (call_rank c) = k \<and> ?due c) ?cs)"
  have "filter (once_at step) calls = filter (\<lambda>c. fst (call_rank c) = 0 \<and> ?due c) calls"
    using valid by (intro filter_cong) (auto simp: list_all_iff once_due)
  then have once: "map call_item (filter (once_at step) calls) = ?part 0"
    by (simp add: once_sorted)
  have rec: "run_all (\<lambda>e. run_all (build_recurring step (fst e)) (snd e)) (started step (recurring_jobs s)) ep =
          Inr (fold submit_item (?part 1) ep)" for ep
    unfolding s by (rule run_visited [OF valid assms(2)], simp, rule build_recurring_call; assumption)
  have lim: "run_all (\<lambda>e. run_all (build_limited step (fst e)) (snd e)) (started step (limited_jobs s)) ep =
          Inr (fold submit_item (?part 2) ep)" for ep
    unfolding s by (rule run_visited [OF valid assms(2)], simp, rule build_limited_call; assumption)
  have "scheduler_build step s ep = Inr (fold submit_item (?part 0 @ ?part 1 @ ?part 2) empty_epoch)"
    unfolding scheduler_build_def Let_def rec
    by (simp add: lim s(1) once epoch_clear_def empty_epoch_def)
  also have "?part 0 @ ?part 1 @ ?part 2 = map call_item (filter ?due ?cs)"
    using by_rank [of ?cs ?due] by simp
  finally show ?thesis by (simp add: submit_items_sort promised_epoch_def)
qed

definition sample_calls :: "nat sched_call list" where
  "sample_calls = [Recurring (1/2) 1 [1, 2], Limited 1 4 2 [3], Once 3 [4], Limited 0 3 1 [5]]"

theorem scheduler_keeps_promises_witness:
  "\<exists>s. run_all schedule_call sample_calls new_scheduler = Inr s \<and>
       scheduler_build 3 s empty_epoch = Inr \<lparr>ep_jobs = [4, 3, 1, 2], ep_ordering = [0, 0, 1/2, 1/2]\<rparr>"
proof -
  have half: "\<lfloor>1 / 2 :: rat\<rfloor> = 0" by (rule floor_unique) simp_all
  have "\<exists>s. run_all schedule_call sample_calls new_scheduler = Inr s"
    by (simp add: sample_calls_def schedule_once_def schedule_recurring_def schedule_limited_def
        modf_date_def to_time_step_def trunc_def)
  then obtain s where s: "run_all schedule_call sample_calls new_scheduler = Inr s" ..
  have "scheduler_build 3 s empty_epoch = Inr (promised_epoch sample_calls (unat (3 :: 64 word)))"
    by (rule scheduler_keeps_promises [OF s]) (simp add: sample_calls_def)
  moreover have "promised_epoch sample_calls 3 = \<lparr>ep_jobs = [4, 3, 1, 2], ep_ordering = [0, 0, 1/2, 1/2]\<rparr>"
    using to_float_nat [of 3] half
    by (simp add: promised_epoch_def sample_calls_def trunc_def sub_time_step_def call_item_def epoch_of_def less_eq_prod_def)
  ultimately show ?thesis using s by auto
qed

section \<open>The last date of a time step\<close>

lemma log2_floor_Suc:
  assumes "0 < n"
  shows "log2_floor (Suc n) = (if Suc n = 2 ^ Suc (log2_floor n) then Suc (log2_floor n) else log2_floor n)"
  using log2_floor_bounds [OF assms]
  by (auto intro!: log2_floor_unique)

text \<open>The distance of the floats from \<open>n\<close> to \<open>n + 1\<close>.\<close>

abbreviation spacing :: "nat \<Rightarrow> rat" where
  "spacing n \<equiv> 2 ^ log2_floor n / 2 ^ 23"

lemma sub_step_end_eq:
  assumes "0 < unat step" "unat step < 2 ^ 24"
  shows "sub_step_end step = of_nat (Suc (unat step)) - spacing (unat step)"
proof -
  let ?n = "unat step" let ?k = "log2_floor ?n"
  have "unat (step + 1) = Suc ?n"
    using assms(2) by (simp add: unat_word_ariths)
  then have "sub_step_end step = float_below (of_nat (Suc ?n))"
    using assms(2) to_float_nat [of "Suc ?n"] by (simp add: sub_step_end_def)
  moreover have "of_nat (Suc ?n) = (2 :: rat) ^ j \<longleftrightarrow> Suc ?n = 2 ^ j" for j
    by (metis of_nat_eq_iff of_nat_numeral of_nat_power)
  moreover have "Suc ?n \<noteq> 2 ^ ?k" using log2_floor_bounds [OF assms(1)] by linarith
  ultimately show ?thesis
    by (simp add: float_below_def Let_def log2_floor_Suc [OF assms(1)] del: of_nat_Suc)
qed

lemma multiples_apart:
  fixes u :: rat
  assumes "0 < u" "of_int i * u < of_int j * u"
  shows "of_int i * u \<le> of_int j * u - u"
proof -
  have "i + 1 \<le> j" using assms by (simp add: mult_less_cancel_right)
  then have "of_int (i + 1) * u \<le> of_int j * u" using assms(1) by (intro mult_right_mono) simp_all
  then show ?thesis by (simp add: algebra_simps)
qed

lemma time_step_floor:
  assumes "time_step d = Inr step"
  shows "\<lfloor>d\<rfloor> = int (unat step)"
proof -
  from assms have "0 \<le> \<lfloor>d\<rfloor>" "\<lfloor>d\<rfloor> < 2 ^ 64" "step = word_of_int \<lfloor>d\<rfloor>"
    by (auto simp: time_step_def to_time_step_def split: if_splits)
  moreover from this have "unat step = nat \<lfloor>d\<rfloor>" by (simp add: unat_eq_nat_uint uint_word_of_int)
  ultimately show ?thesis by (simp only: int_nat_eq if_True)
qed

text \<open>The values of a \<open>float\<close>: 24 significant bits and a bounded exponent.\<close>

definition is_float32 :: "rat \<Rightarrow> bool" where
  "is_float32 x \<longleftrightarrow>
     (\<exists>m :: int. \<exists>e. \<bar>m\<bar> < 2 ^ 24 \<and> (e \<le> 104 \<and> x = of_int m * 2 ^ e \<or> e \<le> 149 \<and> x = of_int m / 2 ^ e))"

text \<open>In the units of the last place, \<open>sub_step_end\<close> is one unit below the next step.\<close>

definition unit_bits :: "nat \<Rightarrow> nat" where
  "unit_bits n = (if n = 0 then 24 else 23 - log2_floor n)"

lemma unit_bits_fits:
  assumes "n < 2 ^ 24"
  shows "unit_bits n \<le> 24" "2 ^ 23 / 2 ^ unit_bits n \<le> (of_nat (Suc n) - 1 / 2 ^ unit_bits n :: rat)" "Suc n * 2 ^ unit_bits n \<le> 2 ^ 24"
proof -
  show "unit_bits n \<le> 24" unfolding unit_bits_def by (cases "n = 0") simp_all
  have "2 ^ 23 / 2 ^ unit_bits n \<le> (of_nat (Suc n) - 1 / 2 ^ unit_bits n :: rat) \<and> Suc n * 2 ^ unit_bits n \<le> 2 ^ 24"
  proof (cases "n = 0")
    case False
    then have k: "log2_floor n \<le> 23" "2 ^ log2_floor n \<le> n" "n < 2 ^ Suc (log2_floor n)"
      using log2_floor_le [of n 23] log2_floor_bounds [of n] assms by simp_all
    have split: "(2 :: rat) ^ log2_floor n * 2 ^ unit_bits n = 2 ^ 23"
      using k(1) False by (simp add: unit_bits_def flip: power_add)
    have split_nat: "(2 :: nat) ^ log2_floor n * 2 ^ unit_bits n = 2 ^ 23"
      using k(1) False by (simp add: unit_bits_def flip: power_add)
    have "(2 :: rat) ^ 23 / 2 ^ unit_bits n = 2 ^ log2_floor n" using split by (simp add: field_simps)
    also have "\<dots> \<le> of_nat n" using k(2) by (metis of_nat_le_iff of_nat_numeral of_nat_power)
    also have "\<dots> \<le> of_nat (Suc n) - 1 / 2 ^ unit_bits n" by simp
    finally have "(2 :: rat) ^ 23 / 2 ^ unit_bits n \<le> of_nat (Suc n) - 1 / 2 ^ unit_bits n" .
    moreover have "Suc n * 2 ^ unit_bits n \<le> 2 ^ Suc (log2_floor n) * 2 ^ unit_bits n"
      using k(3) by (intro mult_right_mono) simp_all
    then have "Suc n * 2 ^ unit_bits n \<le> 2 ^ 24" using split_nat by simp
    ultimately show ?thesis by simp
  qed (simp add: unit_bits_def)
  then show "2 ^ 23 / 2 ^ unit_bits n \<le> (of_nat (Suc n) - 1 / 2 ^ unit_bits n :: rat)" "Suc n * 2 ^ unit_bits n \<le> 2 ^ 24" by blast+
qed

lemma sub_step_end_units:
  assumes "unat step < 2 ^ 24"
  shows "sub_step_end step = of_nat (Suc (unat step)) - 1 / 2 ^ unit_bits (unat step)"
proof (cases "unat step = 0")
  case True
  then have "step = 0" by (simp add: unat_eq_0)
  moreover have "log2_floor 1 = 0" by (simp add: log2_floor.simps)
  ultimately show ?thesis using to_float_nat [of 1] by (simp add: sub_step_end_def float_below_def unit_bits_def Let_def)
next
  case False
  then have k: "log2_floor (unat step) \<le> 23" using log2_floor_le [of "unat step" 23] assms by simp
  have "(2 :: rat) ^ log2_floor (unat step) * 2 ^ (23 - log2_floor (unat step)) = 2 ^ 23" using k by (simp flip: power_add)
  then have "spacing (unat step) = 1 / 2 ^ unit_bits (unat step)" using False by (simp add: unit_bits_def field_simps)
  with sub_step_end_eq [of step] False assms show ?thesis by simp
qed

text \<open>A float below the next step lies at least a unit below it.\<close>

lemma float_below_step:
  assumes "is_float32 d" "d < of_nat (Suc n)" "n < 2 ^ 24"
  shows "d \<le> of_nat (Suc n) - 1 / 2 ^ unit_bits n"
proof -
  let ?j = "unit_bits n" let ?u = "1 / 2 ^ ?j :: rat"
  have u: "0 < ?u" by simp
  have top: "(of_nat (Suc n) :: rat) = of_int (int (Suc n) * 2 ^ ?j) * ?u" by simp
  have units: "d \<le> of_nat (Suc n) - ?u" if "d = of_int i * ?u" for i
    using multiples_apart [OF u, of i "int (Suc n) * 2 ^ ?j"] assms(2) unfolding that [symmetric] top [symmetric] .
  from assms(1) obtain m :: int and e where m: "\<bar>m\<bar> < 2 ^ 24" and "d = of_int m * 2 ^ e \<or> d = of_int m / 2 ^ e"
    by (auto simp: is_float32_def)
  then show ?thesis
  proof (elim disjE)
    assume "d = of_int m * 2 ^ e"
    then show ?thesis by (intro units [of "m * 2 ^ e * 2 ^ ?j"]) simp
  next
    assume d: "d = of_int m / 2 ^ e"
    show ?thesis
    proof (cases "e \<le> ?j")
      case True
      then have "(2 :: rat) ^ ?j = 2 ^ e * 2 ^ (?j - e)" by (simp flip: power_add)
      then show ?thesis using d by (intro units [of "m * 2 ^ (?j - e)"]) (simp add: field_simps)
    next
      case False
      then have "(2 :: rat) ^ Suc ?j \<le> 2 ^ e" by (intro power_increasing) simp_all
      moreover have "of_int m \<le> (2 ^ 24 :: rat)" using m by (metis abs_le_D1 less_imp_le of_int_le_iff of_int_numeral of_int_power)
      ultimately have "d \<le> 2 ^ 24 / 2 ^ Suc ?j" unfolding d by (intro frac_le) simp_all
      also have "\<dots> = 2 ^ 23 / 2 ^ ?j" by simp
      finally show ?thesis using unit_bits_fits(2) [OF assms(3)] by linarith
    qed
  qed
qed

lemma abs_pred_less: "0 \<le> x \<Longrightarrow> x \<le> b \<Longrightarrow> 1 < b \<Longrightarrow> \<bar>x - 1\<bar> < (b :: int)"
  by linarith

text \<open>
  Property C40: for the time steps below \<open>2 ^ 24\<close>, step 0 included, \<open>sub_step_end(step)\<close> is a \<open>float\<close> of the time step,
  and it is the greatest one.
\<close>

theorem sub_step_end_greatest:
  assumes "unat step < 2 ^ 24"
  shows "is_float32 (sub_step_end step) \<and> time_step (sub_step_end step) = Inr step \<and>
         (\<forall>d. is_float32 d \<and> time_step d = Inr step \<longrightarrow> d \<le> sub_step_end step)"
proof (intro conjI allI impI)
  let ?n = "unat step" let ?j = "unit_bits ?n"
  note fits = unit_bits_fits [OF assms] and last_date = sub_step_end_units [OF assms]
  have "int (Suc ?n * 2 ^ ?j) \<le> int (2 ^ 24)" using fits(3) by (simp only: of_nat_le_iff)
  then have "int (Suc ?n) * 2 ^ ?j \<le> 2 ^ 24" by (simp add: algebra_simps)
  then have "\<bar>int (Suc ?n) * 2 ^ ?j - 1\<bar> < 2 ^ 24" by (intro abs_pred_less) simp_all
  moreover have "sub_step_end step = of_int (int (Suc ?n) * 2 ^ ?j - 1) / 2 ^ ?j" unfolding last_date by (simp add: field_simps)
  moreover have "?j \<le> 149" using fits(1) by simp
  ultimately show "is_float32 (sub_step_end step)" unfolding is_float32_def by blast
  have "\<lfloor>sub_step_end step\<rfloor> = int ?n" unfolding last_date by (rule floor_unique) simp_all
  moreover have "int ?n < 2 ^ 64"
  proof -
    from assms have "int ?n < int (2 ^ 24)" by (simp only: of_nat_less_iff)
    then show ?thesis by simp
  qed
  ultimately show "time_step (sub_step_end step) = Inr step" by (simp add: time_step_def to_time_step_def)
  fix d assume d: "is_float32 d \<and> time_step d = Inr step"
  then have "\<lfloor>d\<rfloor> = int ?n" by (blast intro: time_step_floor)
  then have "d < of_nat (Suc ?n)" by (simp add: floor_eq_iff)
  with d show "d \<le> sub_step_end step" unfolding last_date by (intro float_below_step) (use assms in simp_all)
qed

theorem sub_step_end_greatest_witness:
  "time_step (sub_step_end 0) = Inr 0 \<and> sub_step_end 0 = 1 - 1 / 2 ^ 24 \<and> is_float32 (sub_step_end 3)"
proof -
  have "sub_step_end 0 = 1 - 1 / 2 ^ 24" using sub_step_end_units [of 0] by (simp add: unit_bits_def)
  moreover have "time_step (sub_step_end 0) = Inr 0" by (rule sub_step_end_greatest [THEN conjunct2, THEN conjunct1]) simp
  moreover have "is_float32 (sub_step_end 3)" by (rule sub_step_end_greatest [THEN conjunct1]) simp
  ultimately show ?thesis by blast
qed

section \<open>Removing a task\<close>

text \<open>
  Removing a task shortens the job by at most one, however often the task was added: the
  other tasks stay in front, and unspecified pointers are left behind them.
\<close>

theorem job_remove_erases_one:
  "take (length (job_tasks j) - count_list (job_tasks j) t) (job_tasks (job_remove rest t j)) =
     filter (\<lambda>u. u \<noteq> t) (job_tasks j) \<and>
   length (job_tasks (job_remove rest t j)) = length (job_tasks j) - (if t \<in> set (job_tasks j) then 1 else 0)"
proof -
  let ?ts = "job_tasks j" and ?left = "left_behind rest t (job_tasks j)"
  have len: "length (filter (\<lambda>u. u \<noteq> t) us) + count_list us t = length us" for us by (induction us) auto
  have left: "length ?left = count_list ?ts t" by (simp add: left_behind_def)
  moreover have "t \<in> set ?ts \<longleftrightarrow> 0 < count_list ?ts t" by (metis count_list_0_iff neq0_conv)
  moreover have "length ?ts - count_list ?ts t = length (filter (\<lambda>u. u \<noteq> t) ?ts)" using len [of ?ts] by simp
  ultimately show ?thesis using len [of ?ts] by (cases "?left = []") (auto simp: job_remove_def Let_def)
qed

end
