(* ===== verification/Job_Runtime.thy ===== *)
theory Job_Runtime
  imports Job_Scheduler_Props
begin

text \<open>
  \<open>src/fpmas/runtime/runtime.h\<close> and \<open>.cpp\<close>: the loop that builds and executes the epoch of each time step.
  The tasks are code of the user, so what they do to the state is an argument; so are the scheduler and the
  jobs, which the tasks can change, and \<open>std::shuffle\<close>. A task that calls \<open>run\<close> again, and so invalidates the
  iterator over the epoch, is not modelled.
\<close>

section \<open>The runtime\<close>

record ('j, 'g, 'w) runtime =
  rt_epoch :: "'j epoch"
  rt_date :: date
  rt_rd :: 'g
  rt_world :: 'w

record ('j, 't, 'g, 'w) host =
  user_task :: "'t \<Rightarrow> ('j, 'g, 'w) runtime \<Rightarrow> ('j, 'g, 'w) runtime"
  job_at :: "'w \<Rightarrow> 'j \<Rightarrow> 't job"
  scheduler_at :: "'w \<Rightarrow> 'j scheduler"
  shuffle :: "'g \<Rightarrow> 't task list \<Rightarrow> 't task list \<times> 'g"

definition new_runtime :: "'g \<Rightarrow> 'w \<Rightarrow> ('j, 'g, 'w) runtime" where
  "new_runtime rd w = \<lparr>rt_epoch = empty_epoch, rt_date = 0, rt_rd = rd, rt_world = w\<rparr>"

fun run_task :: "('j, 't, 'g, 'w) host \<Rightarrow> 't task \<Rightarrow> ('j, 'g, 'w) runtime \<Rightarrow> ('j, 'g, 'w) runtime" where
  "run_task h VoidTask rt = rt"
| "run_task h (Task t) rt = user_task h t rt"

definition shuffle_tasks :: "('j, 't, 'g, 'w) host \<Rightarrow> 't task list \<Rightarrow> ('j, 'g, 'w) runtime \<Rightarrow> 't task list \<times> ('j, 'g, 'w) runtime" where
  "shuffle_tasks h ts rt = (case shuffle h (rt_rd rt) ts of (ts', g) \<Rightarrow> (ts', rt\<lparr>rt_rd := g\<rparr>))"

definition execute :: "('j, 't, 'g, 'w) host \<Rightarrow> 'j \<Rightarrow> ('j, 'g, 'w) runtime \<Rightarrow> ('j, 'g, 'w) runtime" where
  "execute h j rt =
     (let rt1 = run_task h (job_begin (job_at h (rt_world rt) j)) rt
      in case shuffle_tasks h (job_tasks (job_at h (rt_world rt1) j)) rt1 of (ts, rt2) \<Rightarrow>
           let rt3 = fold (run_task h) ts rt2
           in run_task h (job_end (job_at h (rt_world rt3) j)) rt3)"

definition execute_list :: "('j, 't, 'g, 'w) host \<Rightarrow> 'j list \<Rightarrow> ('j, 'g, 'w) runtime \<Rightarrow> ('j, 'g, 'w) runtime" where
  "execute_list h js rt = fold (execute h) js rt"

text \<open>The body of the loop; \<open>scheduler.build(time, epoch)\<close> converts the date to a \<open>TimeStep\<close>.\<close>

definition run_step ::
  "('j, 't, 'g, 'w) host \<Rightarrow> date \<Rightarrow> ('j, 'g, 'w) runtime \<Rightarrow> sched_fault + ('j, 'g, 'w) runtime" where
  "run_step h time rt =
     (let rt1 = rt\<lparr>rt_date := time\<rparr>
      in and_then (to_time_step (trunc time)) (\<lambda>step.
           and_then (scheduler_build step (scheduler_at h (rt_world rt1)) (rt_epoch rt1)) (\<lambda>ep.
             Inr (fold (execute h) (ep_jobs ep) (rt1\<lparr>rt_epoch := ep\<rparr>)))))"

text \<open>The loop adds 1 to a \<open>float\<close>. It may never end, which is \<open>None\<close>.\<close>

partial_function (option) run_from ::
  "('j, 't, 'g, 'w) host \<Rightarrow> date \<Rightarrow> date \<Rightarrow> ('j, 'g, 'w) runtime \<Rightarrow> (sched_fault + ('j, 'g, 'w) runtime) option" where
  "run_from h time stop rt =
     (if time < stop
      then case run_step h time rt of Inl e \<Rightarrow> Some (Inl e) | Inr rt' \<Rightarrow> run_from h (to_float (time + 1)) stop rt'
      else Some (Inr rt))"

definition run_until ::
  "('j, 't, 'g, 'w) host \<Rightarrow> date \<Rightarrow> ('j, 'g, 'w) runtime \<Rightarrow> (sched_fault + ('j, 'g, 'w) runtime) option" where
  "run_until h stop rt = run_from h (rt_date rt) stop rt"

definition setCurrentDate :: "date \<Rightarrow> ('j, 'g, 'w) runtime \<Rightarrow> ('j, 'g, 'w) runtime" where
  "setCurrentDate d rt = rt\<lparr>rt_date := d\<rparr>"

definition currentDate :: "('j, 'g, 'w) runtime \<Rightarrow> date" where
  "currentDate rt = rt_date rt"

section \<open>The loop over dates that floats represent\<close>

lemma run_from_end: "stop \<le> time \<Longrightarrow> run_from h time stop rt = Some (Inr rt)"
  by (subst run_from.simps) simp

lemma run_from_step:
  "time < stop \<Longrightarrow> run_from h time stop rt =
     (case run_step h time rt of Inl e \<Rightarrow> Some (Inl e) | Inr rt' \<Rightarrow> run_from h (to_float (time + 1)) stop rt')"
  by (subst run_from.simps) simp

lemma to_float_Suc: "n < 2 ^ 24 \<Longrightarrow> to_float (of_nat n + 1) = of_nat (Suc n)"
  using to_float_nat [of "Suc n"] by (simp add: add.commute)

lemma run_from_steps:
  assumes "n \<le> m" "m \<le> 2 ^ 24" "of_nat m \<le> stop"
  shows "run_from h (of_nat n) stop rt =
           (case run_all (run_step h) (map of_nat [n..<m]) rt of
              Inl e \<Rightarrow> Some (Inl e) | Inr rt' \<Rightarrow> run_from h (of_nat m) stop rt')"
  using assms
proof (induction "m - n" arbitrary: n rt)
  case (Suc k)
  then have "n < m" "of_nat n < stop" by (auto simp: less_le_trans [of "of_nat n" "of_nat m"])
  with Suc have "run_from h (of_nat (Suc n)) stop rt' =
    (case run_all (run_step h) (map of_nat [Suc n..<m]) rt' of
       Inl e \<Rightarrow> Some (Inl e) | Inr rt' \<Rightarrow> run_from h (of_nat m) stop rt')" for rt'
    by (intro Suc.hyps(1)) simp_all
  with \<open>n < m\<close> \<open>of_nat n < stop\<close> Suc.prems show ?case
    by (simp add: run_from_step to_float_Suc upt_conv_Cons split: sum.split)
qed simp

lemma run_from_nat:
  assumes "m \<le> 2 ^ 24"
  shows "run_from h (of_nat n) (of_nat m) rt = Some (run_all (run_step h) (map of_nat [n..<m]) rt)"
proof (cases "n \<le> m")
  case True
  with assms show ?thesis by (simp add: run_from_steps run_from_end split: sum.split)
next
  case False
  then show ?thesis by (simp add: run_from_end)
qed

text \<open>
  Property C22: from an integer date to an integer end, up to \<open>2 ^ 24\<close>, \<open>run\<close> returns after it has
  executed the epoch of every time step in between once and in order, or stops at the first fault.
\<close>

theorem run_executes_each_step:
  assumes "rt_date rt = of_nat n" "m \<le> 2 ^ 24"
  shows "run_until h (of_nat m) rt = Some (run_all (run_step h) (map of_nat [n..<m]) rt)"
  using assms by (simp add: run_until_def run_from_nat)

lemma run_from_top:
  assumes "run_from h time stop rt = Some r"
  shows "time = 2 ^ 24 \<longrightarrow> 2 ^ 24 < stop \<longrightarrow> (\<exists>rt e. run_step h (2 ^ 24) rt = Inl e)"
  using assms
proof (rule run_from.raw_induct [where P = "\<lambda>h time stop rt r. time = 2 ^ 24 \<longrightarrow> 2 ^ 24 < stop \<longrightarrow> (\<exists>rt e. run_step h (2 ^ 24) rt = Inl e)", rotated])
  fix rf h time stop rt and r :: "sched_fault + ('a, 'b, 'c) runtime"
  assume IH: "\<And>h time stop rt r. rf h time stop rt = Some r \<Longrightarrow>
      time = 2 ^ 24 \<longrightarrow> 2 ^ 24 < stop \<longrightarrow> (\<exists>rt e. run_step h (2 ^ 24) rt = Inl e)"
    and body: "(if time < stop
      then case run_step h time rt of Inl e \<Rightarrow> Some (Inl e) | Inr rt' \<Rightarrow> rf h (to_float (time + 1)) stop rt'
      else Some (Inr rt)) = Some r"
  show "time = 2 ^ 24 \<longrightarrow> 2 ^ 24 < stop \<longrightarrow> (\<exists>rt e. run_step h (2 ^ 24) rt = Inl e)"
  proof (intro impI)
    assume "time = 2 ^ 24" "2 ^ 24 < stop"
    with body IH to_float_Suc_2_24 show "\<exists>rt e. run_step h (2 ^ 24) rt = Inl e" by (cases "run_step h (2 ^ 24) rt") auto
  qed
qed

text \<open>
  Property C39: a run from an integer date of at most \<open>2 ^ 24\<close> to an end after \<open>2 ^ 24\<close> never returns, if no step
  faults: the date stops growing at \<open>2 ^ 24\<close>, which plus 1 is rounded to itself.
\<close>

theorem run_stops_advancing:
  assumes "rt_date rt = of_nat n" "n \<le> 2 ^ 24" "2 ^ 24 < stop"
    and "\<And>k rt. k \<le> 2 ^ 24 \<Longrightarrow> \<exists>rt'. run_step h (of_nat k) rt = Inr rt'"
  shows "run_until h stop rt = None"
proof -
  have "\<exists>rt'. run_all (run_step h) (map of_nat [n..<m]) rt = Inr rt'" if "m \<le> 2 ^ 24" for m rt
  proof -
    have "\<exists>rt'. run_all (run_step h) (map of_nat ks) rt = Inr rt'" if "set ks \<subseteq> {..2 ^ 24}" for ks
      using that
    proof (induction ks arbitrary: rt)
      case (Cons k ks)
      then obtain rt1 where "run_step h (of_nat k) rt = Inr rt1" using assms(4) [of k rt] by auto
      with Cons show ?case by simp
    qed simp
    from this [of "[n..<m]"] that show ?thesis by fastforce
  qed
  from this [of "2 ^ 24" rt] obtain rt1 where "run_all (run_step h) (map of_nat [n..<2 ^ 24]) rt = Inr rt1" by auto
  then have run: "run_until h stop rt = run_from h (2 ^ 24) stop rt1"
    using run_from_steps [OF assms(2) order_refl, of stop h rt] assms(1,3) by (simp add: run_until_def)
  show ?thesis
  proof (cases "run_from h (2 ^ 24) stop rt1")
    case (Some r)
    from run_from_top [OF Some] assms(3) obtain rt2 e where "run_step h (2 ^ 24) rt2 = Inl e" by blast
    with assms(4) [of "2 ^ 24" rt2] show ?thesis by simp
  qed (simp add: run)
qed

section \<open>The date after a run\<close>

lemma fold_keeps_date:
  assumes "\<And>x rt. rt_date (f x rt) = rt_date rt"
  shows "rt_date (fold f xs rt) = rt_date rt"
  by (induction xs arbitrary: rt) (simp_all add: assms)

lemma run_step_date:
  assumes "\<And>t rt. rt_date (user_task h t rt) = rt_date rt" and "run_step h time rt = Inr rt'"
  shows "rt_date rt' = time"
proof -
  have task: "rt_date (run_task h t rt) = rt_date rt" for t rt
    by (cases t) (simp_all add: assms(1))
  have "rt_date (execute h j rt) = rt_date rt" for j rt
    by (simp add: execute_def Let_def task fold_keeps_date shuffle_tasks_def split: prod.split)
  then show ?thesis using assms(2) by (auto simp: run_step_def Let_def fold_keeps_date)
qed

text \<open>
  A run leaves the date of the last step it executed, neither 0 as the interface documents
  nor the end, and so the next run executes that step a second time.
\<close>

lemma next_run_repeats_last_step:
  assumes keep: "\<And>t rt. rt_date (user_task h t rt) = rt_date rt"
    and "rt_date rt = of_nat n" "n < m" "m \<le> 2 ^ 24" "m' \<le> 2 ^ 24"
    and "run_until h (of_nat m) rt = Some (Inr rt1)"
  shows "currentDate rt1 = of_nat (m - 1) \<and>
         run_until h (of_nat m') rt1 = Some (run_all (run_step h) (map of_nat [m - 1..<m']) rt1)"
proof -
  from assms(2,4,6) have "run_all (run_step h) (map of_nat [n..<m]) rt = Inr rt1"
    by (simp add: run_until_def run_from_nat)
  moreover have "[n..<m] = [n..<m - 1] @ [m - 1]"
    using assms(3) by (metis Suc_diff_1 Suc_leI gr_implies_not0 less_Suc_eq_le neq0_conv upt_Suc_append)
  ultimately obtain rt0 where "run_step h (of_nat (m - 1)) rt0 = Inr rt1"
    by (auto simp: run_all_append)
  then have "rt_date rt1 = of_nat (m - 1)" by (rule run_step_date [OF keep])
  with assms(5) show ?thesis
    by (simp add: currentDate_def run_until_def run_from_nat)
qed

section \<open>A concrete run\<close>

text \<open>
  Tasks that log their number, shuffled into the reverse order, and a job 1 with a begin and an end task
  that is executed at each time step from 0.
\<close>

definition logging_host :: "(nat, nat, nat, nat list) host" where
  "logging_host =
     \<lparr>user_task = (\<lambda>t rt. rt\<lparr>rt_world := rt_world rt @ [t]\<rparr>),
      job_at = (\<lambda>w j. \<lparr>job_id = 0, job_tasks = [Task 1, Task 2], job_begin = Task 10, job_end = VoidTask\<rparr>),
      scheduler_at = (\<lambda>w. \<lparr>unique_jobs = (\<lambda>_. []),
        recurring_jobs = [(0, [(1, \<lparr>si_sub_step = 0, si_jobs = [1]\<rparr>)])], limited_jobs = []\<rparr>),
      shuffle = (\<lambda>g ts. (rev ts, Suc g))\<rparr>"

definition first_run :: "(nat, nat, nat list) runtime" where
  "first_run = \<lparr>rt_epoch = \<lparr>ep_jobs = [1], ep_ordering = [0]\<rparr>, rt_date = 1, rt_rd = 2, rt_world = [10, 2, 1, 10, 2, 1]\<rparr>"

lemma logging_step:
  "n = 0 \<or> n = 1 \<Longrightarrow> run_step logging_host n \<lparr>rt_epoch = ep, rt_date = d, rt_rd = g, rt_world = w\<rparr> =
     Inr \<lparr>rt_epoch = \<lparr>ep_jobs = [1], ep_ordering = [0]\<rparr>, rt_date = n, rt_rd = Suc g, rt_world = w @ [10, 2, 1]\<rparr>"
  by (auto simp: run_step_def logging_host_def to_time_step_def trunc_def scheduler_build_def started_def
      build_recurring_def divides_def submit_item_def epoch_submit_def epoch_clear_def execute_def shuffle_tasks_def)

theorem run_executes_each_step_witness:
  "run_until logging_host 2 (new_runtime 0 []) = Some (Inr first_run)"
proof -
  have "run_until logging_host (of_nat 2) (new_runtime 0 []) =
        Some (run_all (run_step logging_host) (map of_nat [0..<2]) (new_runtime 0 []))"
    by (rule run_executes_each_step) (simp_all add: new_runtime_def)
  then show ?thesis
    by (simp add: new_runtime_def logging_step first_run_def upt_rec numeral_2_eq_2 empty_epoch_def)
qed

lemma logging_never_faults:
  assumes "k \<le> 2 ^ 24"
  shows "\<exists>rt'. run_step logging_host (of_nat k) rt = Inr rt'"
proof -
  have "int k \<le> int (2 ^ 24)" using assms by (simp only: of_nat_le_iff)
  then have "to_time_step (trunc (of_nat k)) = Inr (word_of_int (int k))" by (simp add: to_time_step_def trunc_def)
  then show ?thesis
    by (simp add: run_step_def logging_host_def scheduler_build_def started_def build_recurring_def divides_def)
qed

theorem run_stops_advancing_witness:
  "run_until logging_host (2 ^ 25) (new_runtime 0 []) = None"
  by (rule run_stops_advancing [of _ 0]) (simp_all add: new_runtime_def logging_never_faults)

end
