(* ===== verification/Hash_Map.thy ===== *)
theory Hash_Map
  imports Prelude
begin

text \<open>
  The part of \<open>std::unordered_map\<close> that the graph uses, on lists of entries: the list is the content of the
  map in the order of its iterators. The standard leaves that order open; the properties of the graph hold
  for the entries in any order.
\<close>

text \<open>\<open>insert\<close> keeps an existing entry, \<open>operator[]\<close> with an assignment replaces it.\<close>

definition um_insert :: "'k \<Rightarrow> 'v \<Rightarrow> ('k \<times> 'v) list \<Rightarrow> ('k \<times> 'v) list" where
  "um_insert k v m = (if k \<in> fst ` set m then m else m @ [(k, v)])"

fun um_set :: "'k \<Rightarrow> 'v \<Rightarrow> ('k \<times> 'v) list \<Rightarrow> ('k \<times> 'v) list" where
  "um_set k v [] = [(k, v)]"
| "um_set k v (e # m) = (if fst e = k then (k, v) # m else e # um_set k v m)"

definition um_erase :: "'k \<Rightarrow> ('k \<times> 'v) list \<Rightarrow> ('k \<times> 'v) list" where
  "um_erase k m = filter (\<lambda>e. fst e \<noteq> k) m"

text \<open>\<open>m[k]\<close> creates the default value of a missing key.\<close>

definition um_get :: "'v \<Rightarrow> 'k \<Rightarrow> ('k \<times> 'v) list \<Rightarrow> 'v" where
  "um_get dflt k m = (case map_of m k of None \<Rightarrow> dflt | Some v \<Rightarrow> v)"

text \<open>\<open>m[k].push_back(x)\<close>\<close>

definition um_push :: "'k \<Rightarrow> 'x \<Rightarrow> ('k \<times> 'x list) list \<Rightarrow> ('k \<times> 'x list) list" where
  "um_push k x m = um_set k (um_get [] k m @ [x]) m"

abbreviation um_keys :: "('k \<times> 'v) list \<Rightarrow> 'k set" where
  "um_keys m \<equiv> fst ` set m"

abbreviation um_wf :: "('k \<times> 'v) list \<Rightarrow> bool" where
  "um_wf m \<equiv> distinct (map fst m)"

lemma um_insert_wf [simp]: "um_wf m \<Longrightarrow> um_wf (um_insert k v m)"
  by (auto simp: um_insert_def)

lemma um_keys_set [simp]: "um_keys (um_set k v m) = insert k (um_keys m)"
  by (induction m) auto

lemma um_set_wf [simp]: "um_wf m \<Longrightarrow> um_wf (um_set k v m)"
proof (induction m)
  case (Cons e m)
  then show ?case by (cases "fst e = k") simp_all
qed simp

lemma map_of_None [simp]: "k \<notin> um_keys m \<Longrightarrow> map_of m k = None"
  by (simp add: map_of_eq_None_iff)

lemma um_get_None [simp]: "k \<notin> um_keys m \<Longrightarrow> um_get d k m = d"
  by (simp add: um_get_def)

lemma um_erase_wf [simp]: "um_wf m \<Longrightarrow> um_wf (um_erase k m)"
  unfolding um_erase_def by (rule distinct_map_filter)

lemma set_um_erase [simp]: "set (um_erase k m) = {e \<in> set m. fst e \<noteq> k}"
  by (simp add: um_erase_def)

lemma map_of_um_erase [simp]: "map_of (um_erase k m) = (map_of m)(k := None)"
  by (induction m) (auto simp: um_erase_def fun_eq_iff)

lemma map_of_um_set [simp]: "map_of (um_set k v m) = (map_of m)(k \<mapsto> v)"
  by (induction m) (auto simp: fun_eq_iff)

lemma map_of_um_insert [simp]:
  "map_of (um_insert k v m) = (case map_of m k of None \<Rightarrow> (map_of m)(k \<mapsto> v) | Some _ \<Rightarrow> map_of m)"
proof (cases "k \<in> um_keys m")
  case True
  then obtain v' where "map_of m k = Some v'" by (metis map_of_eq_None_iff not_None_eq)
  with True show ?thesis by (simp add: um_insert_def)
next
  case False
  then show ?thesis by (auto simp: um_insert_def map_add_def fun_eq_iff split: option.split)
qed

lemma set_um_insert_new [simp]: "k \<notin> um_keys m \<Longrightarrow> set (um_insert k v m) = insert (k, v) (set m)"
  by (simp add: um_insert_def)

lemma um_insert_old [simp]: "k \<in> um_keys m \<Longrightarrow> um_insert k v m = m"
  by (simp add: um_insert_def)

lemma um_get_set [simp]: "um_get d k' (um_set k v m) = (if k' = k then v else um_get d k' m)"
  by (simp add: um_get_def)

lemma um_get_push [simp]: "um_get [] k' (um_push k x m) = (if k' = k then um_get [] k m @ [x] else um_get [] k' m)"
  by (simp add: um_push_def)

lemma um_push_wf [simp]: "um_wf m \<Longrightarrow> um_wf (um_push k x m)"
  by (simp add: um_push_def)

lemma um_keys_push [simp]: "um_keys (um_push k x m) = insert k (um_keys m)"
  by (simp add: um_push_def)

text \<open>The concatenation of the lists of a map of lists.\<close>

definition um_all :: "('k \<times> 'x list) list \<Rightarrow> 'x list" where
  "um_all m = concat (map snd m)"

lemma set_um_all: "um_wf m \<Longrightarrow> set (um_all m) = (\<Union>k. set (um_get [] k m))"
proof
  assume wf: "um_wf m"
  show "set (um_all m) \<subseteq> (\<Union>k. set (um_get [] k m))"
  proof
    fix x assume "x \<in> set (um_all m)"
    then obtain k xs where "(k, xs) \<in> set m" "x \<in> set xs" by (auto simp: um_all_def)
    with wf have "x \<in> set (um_get [] k m)" by (simp add: um_get_def)
    then show "x \<in> (\<Union>k. set (um_get [] k m))" by blast
  qed
  show "(\<Union>k. set (um_get [] k m)) \<subseteq> set (um_all m)"
  proof
    fix x assume "x \<in> (\<Union>k. set (um_get [] k m))"
    then obtain k where k: "x \<in> set (um_get [] k m)" by blast
    then show "x \<in> set (um_all m)"
      by (cases "map_of m k") (force simp: um_get_def um_all_def dest: map_of_SomeD)+
  qed
qed

lemma distinct_um_all:
  assumes "um_wf m" "\<And>k. distinct (um_get [] k m)"
    and "\<And>k l x. x \<in> set (um_get [] k m) \<Longrightarrow> x \<in> set (um_get [] l m) \<Longrightarrow> k = l"
  shows "distinct (um_all m)"
  using assms
proof (induction m)
  case (Cons e m)
  obtain k xs where e: "e = (k, xs)" by fastforce
  have get: "um_get [] l (e # m) = (if l = k then xs else um_get [] l m)" for l
    by (auto simp: um_get_def e)
  have new: "um_get [] k m = []" using Cons.prems(1) e by simp
  have "distinct (um_all m)"
  proof (rule Cons.IH)
    show "um_wf m" using Cons.prems(1) by simp
    show "distinct (um_get [] l m)" for l using Cons.prems(2) [of l] new by (cases "l = k") (simp_all add: get)
    show "l = l'" if "x \<in> set (um_get [] l m)" "x \<in> set (um_get [] l' m)" for l l' x
    proof -
      from that new have "l \<noteq> k" "l' \<noteq> k" by auto
      with that show "l = l'" using Cons.prems(3) [of x l l'] by (simp add: get)
    qed
  qed
  moreover have "distinct xs" using Cons.prems(2) [of k] by (simp add: get)
  moreover have "set xs \<inter> set (um_all m) = {}"
  proof (rule ccontr)
    assume "set xs \<inter> set (um_all m) \<noteq> {}"
    then obtain x l where "x \<in> set xs" "x \<in> set (um_get [] l m)"
      using Cons.prems(1) by (auto simp: set_um_all)
    moreover from this new have "l \<noteq> k" by auto
    ultimately show False using Cons.prems(3) [of x k l] by (simp add: get)
  qed
  ultimately show ?case by (simp add: um_all_def e)
qed (simp add: um_all_def)

end
