(* ===== verification/Graph_Store.thy ===== *)
theory Graph_Store
  imports Hash_Map Dist_Id Mutex_Sync Complex_Main
begin

text \<open>
  \<open>src/fpmas/graph/\<close>: \<open>node.h\<close>, \<open>edge.h\<close>, \<open>distributed_node.h\<close>, \<open>distributed_edge.h\<close>, \<open>graph.h\<close>,
  \<open>location_manager.h\<close> and \<open>distributed_graph.h\<close>, on the graph of one process. Nodes and edges are objects on a
  heap, reached by pointers: an operation on a deleted object is the fault \<open>Dangling\<close>. The other faults are
  \<open>at\<close> on a missing key, \<open>erase\<close> at the end of a vector, a vector left with an unspecified pointer, and a null
  mutex. Weights are rationals. Callbacks of the user are recorded as events. Log messages are left out.
\<close>

section \<open>Nodes and edges\<close>

datatype graph_fault = Dangling | Out_Of_Range | Erase_End | Unspecified | Null_Mutex

type_synonym ptr = nat
type_synonym layer_id = int

record 'd gnode =
  dn_id :: dist_id
  dn_weight :: rat
  dn_in :: "(layer_id \<times> ptr list) list"
  dn_out :: "(layer_id \<times> ptr list) list"
  dn_state :: location_state
  dn_location :: int
  dn_data :: 'd
  dn_mutex :: bool

record dedge =
  de_id :: dist_id
  de_layer :: layer_id
  de_weight :: rat
  de_src :: ptr
  de_tgt :: ptr
  de_state :: location_state

text \<open>The location is not initialised by the constructor: any value, an argument.\<close>

definition new_node :: "int \<Rightarrow> dist_id \<Rightarrow> 'd \<Rightarrow> 'd gnode" where
  "new_node loc i d =
     \<lparr>dn_id = i, dn_weight = 1, dn_in = [], dn_out = [], dn_state = LOCAL, dn_location = loc, dn_data = d, dn_mutex = False\<rparr>"

definition new_edge :: "ptr \<Rightarrow> ptr \<Rightarrow> dist_id \<Rightarrow> layer_id \<Rightarrow> dedge" where
  "new_edge src tgt i l =
     \<lparr>de_id = i, de_layer = l, de_weight = 1, de_src = src, de_tgt = tgt, de_state = LOCAL\<rparr>"

definition getIncomingEdges :: "'d gnode \<Rightarrow> ptr list" where
  "getIncomingEdges n = um_all (dn_in n)"

definition getOutgoingEdges :: "'d gnode \<Rightarrow> ptr list" where
  "getOutgoingEdges n = um_all (dn_out n)"

definition getIncomingEdges_layer :: "layer_id \<Rightarrow> 'd gnode \<Rightarrow> ptr list" where
  "getIncomingEdges_layer l n = um_get [] l (dn_in n)"

definition getOutgoingEdges_layer :: "layer_id \<Rightarrow> 'd gnode \<Rightarrow> ptr list" where
  "getOutgoingEdges_layer l n = um_get [] l (dn_out n)"

section \<open>The graph of a process\<close>

text \<open>The state of the synchronization mode is a component of the graph, of any type.\<close>

record loc_manager =
  managed :: "(dist_id \<times> int) list"
  local_nodes :: "(dist_id \<times> ptr) list"
  distant_nodes :: "(dist_id \<times> ptr) list"
  new_local_nodes :: "(dist_id \<times> ptr) list"

datatype graph_event =
    Insert_Node ptr | Erase_Node ptr | Insert_Edge ptr | Erase_Edge ptr | Set_Local ptr | Set_Distant ptr

record ('d, 'l) dgraph =
  heap_n :: "ptr \<Rightarrow> 'd gnode option"
  heap_e :: "ptr \<Rightarrow> dedge option"
  next_ptr :: ptr
  g_nodes :: "(dist_id \<times> ptr) list"
  g_edges :: "(dist_id \<times> ptr) list"
  g_rank :: int
  g_loc :: loc_manager
  node_counter :: dist_id
  edge_counter :: dist_id
  g_events :: "graph_event list"
  sync_linker :: 'l

definition empty_locations :: loc_manager where
  "empty_locations = \<lparr>managed = [], local_nodes = [], distant_nodes = [], new_local_nodes = []\<rparr>"

definition new_graph :: "int \<Rightarrow> 'l \<Rightarrow> ('d, 'l) dgraph" where
  "new_graph r linker =
     \<lparr>heap_n = (\<lambda>_. None), heap_e = (\<lambda>_. None), next_ptr = 0, g_nodes = [], g_edges = [], g_rank = r,
      g_loc = empty_locations, node_counter = DistributedId r 0, edge_counter = DistributedId r 0, g_events = [],
      sync_linker = linker\<rparr>"

type_synonym ('d, 'l) graph_op = "('d, 'l) dgraph \<Rightarrow> graph_fault + ('d, 'l) dgraph"

definition deref_n :: "ptr \<Rightarrow> ('d, 'l) dgraph \<Rightarrow> graph_fault + 'd gnode" where
  "deref_n p g = (case heap_n g p of None \<Rightarrow> Inl Dangling | Some n \<Rightarrow> Inr n)"

definition deref_e :: "ptr \<Rightarrow> ('d, 'l) dgraph \<Rightarrow> graph_fault + dedge" where
  "deref_e p g = (case heap_e g p of None \<Rightarrow> Inl Dangling | Some e \<Rightarrow> Inr e)"

definition upd_n :: "ptr \<Rightarrow> ('d gnode \<Rightarrow> 'd gnode) \<Rightarrow> ('d, 'l) graph_op" where
  "upd_n p f g = and_then (deref_n p g) (\<lambda>n. Inr (g\<lparr>heap_n := (heap_n g)(p \<mapsto> f n)\<rparr>))"

definition upd_e :: "ptr \<Rightarrow> (dedge \<Rightarrow> dedge) \<Rightarrow> ('d, 'l) graph_op" where
  "upd_e p f g = and_then (deref_e p g) (\<lambda>e. Inr (g\<lparr>heap_e := (heap_e g)(p \<mapsto> f e)\<rparr>))"

definition alloc_n :: "'d gnode \<Rightarrow> ('d, 'l) dgraph \<Rightarrow> ptr \<times> ('d, 'l) dgraph" where
  "alloc_n n g = (next_ptr g, g\<lparr>heap_n := (heap_n g)(next_ptr g \<mapsto> n), next_ptr := Suc (next_ptr g)\<rparr>)"

definition alloc_e :: "dedge \<Rightarrow> ('d, 'l) dgraph \<Rightarrow> ptr \<times> ('d, 'l) dgraph" where
  "alloc_e e g = (next_ptr g, g\<lparr>heap_e := (heap_e g)(next_ptr g \<mapsto> e), next_ptr := Suc (next_ptr g)\<rparr>)"

definition delete_n :: "ptr \<Rightarrow> ('d, 'l) graph_op" where
  "delete_n p g = and_then (deref_n p g) (\<lambda>n. Inr (g\<lparr>heap_n := (heap_n g)(p := None)\<rparr>))"

definition delete_e :: "ptr \<Rightarrow> ('d, 'l) graph_op" where
  "delete_e p g = and_then (deref_e p g) (\<lambda>e. Inr (g\<lparr>heap_e := (heap_e g)(p := None)\<rparr>))"

definition event :: "graph_event \<Rightarrow> ('d, 'l) dgraph \<Rightarrow> ('d, 'l) dgraph" where
  "event ev g = g\<lparr>g_events := g_events g @ [ev]\<rparr>"

text \<open>The neighbours, in the order of the edges.\<close>

definition neighbors :: "(dedge \<Rightarrow> ptr) \<Rightarrow> ptr list \<Rightarrow> ('d, 'l) dgraph \<Rightarrow> graph_fault + ptr list" where
  "neighbors endpoint es g =
     run_all (\<lambda>e ps. and_then (deref_e e g) (\<lambda>ed. Inr (ps @ [endpoint ed]))) es []"

definition inNeighbors :: "ptr \<Rightarrow> ('d, 'l) dgraph \<Rightarrow> graph_fault + ptr list" where
  "inNeighbors p g = and_then (deref_n p g) (\<lambda>n. neighbors de_src (getIncomingEdges n) g)"

definition inNeighbors_layer :: "layer_id \<Rightarrow> ptr \<Rightarrow> ('d, 'l) dgraph \<Rightarrow> graph_fault + ptr list" where
  "inNeighbors_layer l p g = and_then (deref_n p g) (\<lambda>n. neighbors de_src (getIncomingEdges_layer l n) g)"

definition outNeighbors :: "ptr \<Rightarrow> ('d, 'l) dgraph \<Rightarrow> graph_fault + ptr list" where
  "outNeighbors p g = and_then (deref_n p g) (\<lambda>n. neighbors de_tgt (getOutgoingEdges n) g)"

definition outNeighbors_layer :: "layer_id \<Rightarrow> ptr \<Rightarrow> ('d, 'l) dgraph \<Rightarrow> graph_fault + ptr list" where
  "outNeighbors_layer l p g = and_then (deref_n p g) (\<lambda>n. neighbors de_tgt (getOutgoingEdges_layer l n) g)"

section \<open>Links of a node\<close>

definition linkIn :: "ptr \<Rightarrow> ptr \<Rightarrow> ('d, 'l) graph_op" where
  "linkIn p e g = and_then (deref_e e g) (\<lambda>ed. upd_n p (\<lambda>n. n\<lparr>dn_in := um_push (de_layer ed) e (dn_in n)\<rparr>) g)"

definition linkOut :: "ptr \<Rightarrow> ptr \<Rightarrow> ('d, 'l) graph_op" where
  "linkOut p e g = and_then (deref_e e g) (\<lambda>ed. upd_n p (\<lambda>n. n\<lparr>dn_out := um_push (de_layer ed) e (dn_out n)\<rparr>) g)"

text \<open>
  \<open>edges.erase(std::remove(edges.begin(), edges.end(), edge))\<close> erases one element: there is none to erase
  when the edge is missing, and when it is there more than once the others are left unspecified.
\<close>

definition erase_one :: "'x \<Rightarrow> 'x list \<Rightarrow> graph_fault + 'x list" where
  "erase_one x xs =
     (if x \<notin> set xs then Inl Erase_End
      else if 1 < count_list xs x then Inl Unspecified
      else Inr (filter (\<lambda>y. y \<noteq> x) xs))"

definition unlink_layer :: "layer_id \<Rightarrow> ptr \<Rightarrow> (layer_id \<times> ptr list) list \<Rightarrow> graph_fault + (layer_id \<times> ptr list) list" where
  "unlink_layer l e m =
     (case map_of m l of None \<Rightarrow> Inl Out_Of_Range
      | Some es \<Rightarrow> and_then (erase_one e es) (\<lambda>es'. Inr (um_set l es' m)))"

definition unlinkIn :: "ptr \<Rightarrow> ptr \<Rightarrow> ('d, 'l) graph_op" where
  "unlinkIn p e g =
     and_then (deref_e e g) (\<lambda>ed. and_then (deref_n p g) (\<lambda>n.
       and_then (unlink_layer (de_layer ed) e (dn_in n)) (\<lambda>m. upd_n p (\<lambda>n. n\<lparr>dn_in := m\<rparr>) g)))"

definition unlinkOut :: "ptr \<Rightarrow> ptr \<Rightarrow> ('d, 'l) graph_op" where
  "unlinkOut p e g =
     and_then (deref_e e g) (\<lambda>ed. and_then (deref_n p g) (\<lambda>n.
       and_then (unlink_layer (de_layer ed) e (dn_out n)) (\<lambda>m. upd_n p (\<lambda>n. n\<lparr>dn_out := m\<rparr>) g)))"

end
