(* ===== verification/Graph_Base.thy ===== *)
theory Graph_Base
  imports Graph_Store
begin

text \<open>
  \<open>src/fpmas/graph/location_manager.h\<close>, the lists of local and distant nodes, and \<open>src/fpmas/graph/graph.h\<close>,
  insertion and erasure of nodes and edges. The callback that the constructor of \<open>DistributedGraph\<close> registers
  on the erasure of nodes, \<open>location_manager.remove(node)\<close>, comes first among the callbacks of an erasure.
\<close>

section \<open>The location manager\<close>

definition addManagedNode :: "dist_id \<Rightarrow> int \<Rightarrow> loc_manager \<Rightarrow> loc_manager" where
  "addManagedNode i loc lm = lm\<lparr>managed := um_set i loc (managed lm)\<rparr>"

definition removeManagedNode :: "dist_id \<Rightarrow> loc_manager \<Rightarrow> loc_manager" where
  "removeManagedNode i lm = lm\<lparr>managed := um_erase i (managed lm)\<rparr>"

definition upd_loc :: "(loc_manager \<Rightarrow> loc_manager) \<Rightarrow> ('d, 'l) dgraph \<Rightarrow> ('d, 'l) dgraph" where
  "upd_loc f g = g\<lparr>g_loc := f (g_loc g)\<rparr>"

definition lm_local :: "dist_id \<Rightarrow> ptr \<Rightarrow> loc_manager \<Rightarrow> loc_manager" where
  "lm_local i p lm =
     lm\<lparr>local_nodes := um_insert i p (local_nodes lm), distant_nodes := um_erase i (distant_nodes lm),
        new_local_nodes := um_insert i p (new_local_nodes lm)\<rparr>"

definition lm_setLocal :: "ptr \<Rightarrow> ('d, 'l) graph_op" where
  "lm_setLocal p g =
     and_then (upd_n p (\<lambda>n. n\<lparr>dn_location := g_rank g, dn_state := LOCAL\<rparr>) g) (\<lambda>g.
       and_then (deref_n p g) (\<lambda>n. Inr (upd_loc (lm_local (dn_id n) p) g)))"

definition lm_distant :: "dist_id \<Rightarrow> ptr \<Rightarrow> loc_manager \<Rightarrow> loc_manager" where
  "lm_distant i p lm =
     lm\<lparr>local_nodes := um_erase i (local_nodes lm), distant_nodes := um_insert i p (distant_nodes lm)\<rparr>"

definition edge_distant :: "ptr \<Rightarrow> ('d, 'l) graph_op" where
  "edge_distant e g = upd_e e (\<lambda>ed. ed\<lparr>de_state := DISTANT\<rparr>) g"

definition lm_setDistant :: "ptr \<Rightarrow> ('d, 'l) graph_op" where
  "lm_setDistant p g =
     and_then (upd_n p (\<lambda>n. n\<lparr>dn_state := DISTANT\<rparr>) g) (\<lambda>g.
     and_then (deref_n p g) (\<lambda>n.
     and_then (run_all edge_distant (getOutgoingEdges n) (upd_loc (lm_distant (dn_id n) p) g)) (\<lambda>g.
       run_all edge_distant (getIncomingEdges n) g)))"

definition lm_forget :: "location_state \<Rightarrow> dist_id \<Rightarrow> loc_manager \<Rightarrow> loc_manager" where
  "lm_forget st i lm =
     (case st of LOCAL \<Rightarrow> lm\<lparr>local_nodes := um_erase i (local_nodes lm)\<rparr>
      | DISTANT \<Rightarrow> lm\<lparr>distant_nodes := um_erase i (distant_nodes lm)\<rparr>)"

definition lm_remove :: "ptr \<Rightarrow> ('d, 'l) graph_op" where
  "lm_remove p g = and_then (deref_n p g) (\<lambda>n. Inr (upd_loc (lm_forget (dn_state n) (dn_id n)) g))"

section \<open>Insertion and erasure\<close>

definition insert_node :: "ptr \<Rightarrow> ('d, 'l) graph_op" where
  "insert_node p g =
     and_then (deref_n p g) (\<lambda>n. Inr (event (Insert_Node p) (g\<lparr>g_nodes := um_insert (dn_id n) p (g_nodes g)\<rparr>)))"

definition insert_edge :: "ptr \<Rightarrow> ('d, 'l) graph_op" where
  "insert_edge e g =
     and_then (deref_e e g) (\<lambda>ed. Inr (event (Insert_Edge e) (g\<lparr>g_edges := um_insert (de_id ed) e (g_edges g)\<rparr>)))"

definition erase_edge :: "ptr \<Rightarrow> ('d, 'l) graph_op" where
  "erase_edge e g =
     and_then (deref_e e g) (\<lambda>ed.
     and_then (unlinkOut (de_src ed) e g) (\<lambda>g.
     and_then (unlinkIn (de_tgt ed) e g) (\<lambda>g.
       delete_e e (event (Erase_Edge e) (g\<lparr>g_edges := um_erase (de_id ed) (g_edges g)\<rparr>)))))"

definition erase_node :: "ptr \<Rightarrow> ('d, 'l) graph_op" where
  "erase_node p g =
     and_then (deref_n p g) (\<lambda>n.
     and_then (run_all erase_edge (getIncomingEdges n) g) (\<lambda>g.
     and_then (deref_n p g) (\<lambda>n.
     and_then (run_all erase_edge (getOutgoingEdges n) g) (\<lambda>g.
     and_then (deref_n p g) (\<lambda>n.
     and_then (lm_remove p (g\<lparr>g_nodes := um_erase (dn_id n) (g_nodes g)\<rparr>)) (\<lambda>g.
       delete_n p (event (Erase_Node p) g)))))))"

definition getNode :: "dist_id \<Rightarrow> ('d, 'l) dgraph \<Rightarrow> graph_fault + ptr" where
  "getNode i g = (case map_of (g_nodes g) i of None \<Rightarrow> Inl Out_Of_Range | Some p \<Rightarrow> Inr p)"

definition getEdge :: "dist_id \<Rightarrow> ('d, 'l) dgraph \<Rightarrow> graph_fault + ptr" where
  "getEdge i g = (case map_of (g_edges g) i of None \<Rightarrow> Inl Out_Of_Range | Some e \<Rightarrow> Inr e)"

definition graph_clear :: "('d, 'l) graph_op" where
  "graph_clear g =
     and_then (run_all erase_edge (map snd (g_edges g)) g) (\<lambda>g. run_all erase_node (map snd (g_nodes g)) g)"

end
