(* ===== verification/Dist_Graph.thy ===== *)
theory Dist_Graph
  imports Graph_Base
begin

text \<open>
  \<open>src/fpmas/graph/distributed_graph.h\<close>: the operations of the graph of one process. The links and removals
  that a synchronization mode adds to an operation, its \<open>SyncLinker\<close>, are arguments.
\<close>

section \<open>Locations\<close>

definition setLocal :: "ptr \<Rightarrow> ('d, 'l) graph_op" where
  "setLocal p g = and_then (lm_setLocal p g) (\<lambda>g. Inr (event (Set_Local p) g))"

definition setDistant :: "ptr \<Rightarrow> ('d, 'l) graph_op" where
  "setDistant p g = and_then (lm_setDistant p g) (\<lambda>g. Inr (event (Set_Distant p) g))"

definition setMutex :: "ptr \<Rightarrow> ('d, 'l) graph_op" where
  "setMutex p g = upd_n p (\<lambda>n. n\<lparr>dn_mutex := True\<rparr>) g"

text \<open>\<open>node->mutex()->lockShared()\<close> and its unlock need a mutex.\<close>

definition use_mutex :: "ptr \<Rightarrow> ('d, 'l) graph_op" where
  "use_mutex p g = and_then (deref_n p g) (\<lambda>n. if dn_mutex n then Inr g else Inl Null_Mutex)"

section \<open>Building nodes and edges\<close>

definition build_node_at :: "ptr \<Rightarrow> ('d, 'l) graph_op" where
  "build_node_at p g =
     and_then (insert_node p g) (\<lambda>g.
     and_then (setLocal p g) (\<lambda>g.
     and_then (deref_n p g) (\<lambda>n.
       setMutex p (upd_loc (addManagedNode (dn_id n) (g_rank g)) g))))"

definition buildNode :: "int \<Rightarrow> 'd \<Rightarrow> ('d, 'l) graph_op" where
  "buildNode loc d g =
     (case id_post_inc (node_counter g) of (i, c) \<Rightarrow>
        case alloc_n (new_node loc i d) (g\<lparr>node_counter := c\<rparr>) of (p, g) \<Rightarrow> build_node_at p g)"

definition both_local :: "dedge \<Rightarrow> ('d, 'l) dgraph \<Rightarrow> graph_fault + bool" where
  "both_local ed g =
     and_then (deref_n (de_src ed) g) (\<lambda>s. and_then (deref_n (de_tgt ed) g) (\<lambda>t.
       Inr (dn_state s = LOCAL \<and> dn_state t = LOCAL)))"

definition link_nodes :: "(ptr \<Rightarrow> ('d, 'l) graph_op) \<Rightarrow> ptr \<Rightarrow> ptr \<Rightarrow> layer_id \<Rightarrow> ('d, 'l) graph_op" where
  "link_nodes sync_link src tgt l g =
     and_then (use_mutex src g) (\<lambda>g.
     and_then (use_mutex tgt g) (\<lambda>g.
     case id_post_inc (edge_counter g) of (i, c) \<Rightarrow>
     case alloc_e (new_edge src tgt i l) (g\<lparr>edge_counter := c\<rparr>) of (e, g) \<Rightarrow>
     and_then (linkOut src e g) (\<lambda>g.
     and_then (linkIn tgt e g) (\<lambda>g.
     and_then (both_local (new_edge src tgt i l) g) (\<lambda>local.
     and_then (upd_e e (\<lambda>ed. ed\<lparr>de_state := if local then LOCAL else DISTANT\<rparr>) g) (\<lambda>g.
     and_then (sync_link e g) (\<lambda>g.
     and_then (insert_edge e g) (\<lambda>g.
     and_then (use_mutex src g) (\<lambda>g.
       use_mutex tgt g)))))))))"

definition unlink :: "(ptr \<Rightarrow> ('d, 'l) graph_op) \<Rightarrow> ptr \<Rightarrow> ('d, 'l) graph_op" where
  "unlink sync_unlink e g = and_then (sync_unlink e g) (erase_edge e)"

definition unlink_id :: "(ptr \<Rightarrow> ('d, 'l) graph_op) \<Rightarrow> dist_id \<Rightarrow> ('d, 'l) graph_op" where
  "unlink_id sync_unlink i g = and_then (getEdge i g) (\<lambda>e. unlink sync_unlink e g)"

definition removeNode :: "(ptr \<Rightarrow> ('d, 'l) graph_op) \<Rightarrow> ptr \<Rightarrow> ('d, 'l) graph_op" where
  "removeNode sync_remove p g =
     and_then (use_mutex p g) (\<lambda>g. and_then (sync_remove p g) (use_mutex p))"

definition removeNode_id :: "(ptr \<Rightarrow> ('d, 'l) graph_op) \<Rightarrow> dist_id \<Rightarrow> ('d, 'l) graph_op" where
  "removeNode_id sync_remove i g = and_then (getNode i g) (\<lambda>p. removeNode sync_remove p g)"

section \<open>Imports\<close>

definition importNode :: "ptr \<Rightarrow> ('d, 'l) graph_op" where
  "importNode p g =
     and_then (deref_n p g) (\<lambda>n.
     if dn_id n \<notin> um_keys (g_nodes g)
     then and_then (insert_node p g) (\<lambda>g. and_then (setLocal p g) (setMutex p))
     else and_then (getNode (dn_id n) g) (\<lambda>q.
          and_then (upd_n q (\<lambda>m. m\<lparr>dn_data := dn_data n, dn_weight := dn_weight n\<rparr>) g) (\<lambda>g.
          and_then (setLocal q g) (delete_n p))))"

definition insertDistant :: "ptr \<Rightarrow> ('d, 'l) graph_op" where
  "insertDistant p g =
     and_then (deref_n p g) (\<lambda>n.
     if dn_id n \<notin> um_keys (g_nodes g)
     then and_then (insert_node p g) (\<lambda>g. and_then (setDistant p g) (setMutex p))
     else and_then (delete_n p g) (\<lambda>g. and_then (getNode (dn_id n) g) (\<lambda>_. Inr g)))"

text \<open>
  One end of an imported edge: an existing node takes the place of the temporary one, or else the
  temporary node is inserted as a distant node. The result says whether the end makes the edge distant.
\<close>

definition import_end ::
  "(dedge \<Rightarrow> ptr) \<Rightarrow> (ptr \<Rightarrow> dedge \<Rightarrow> dedge) \<Rightarrow> (ptr \<Rightarrow> ptr \<Rightarrow> ('d, 'l) graph_op) \<Rightarrow> ptr \<Rightarrow> ('d, 'l) dgraph \<Rightarrow>
     graph_fault + bool \<times> ('d, 'l) dgraph" where
  "import_end endpoint set_end link_end e g =
     and_then (deref_e e g) (\<lambda>ed.
     and_then (deref_n (endpoint ed) g) (\<lambda>temp.
     if dn_id temp \<in> um_keys (g_nodes g)
     then and_then (getNode (dn_id temp) g) (\<lambda>p.
          and_then (deref_n p g) (\<lambda>n.
          and_then (delete_n (endpoint ed) g) (\<lambda>g.
          and_then (upd_e e (set_end p) g) (\<lambda>g.
          and_then (link_end p e g) (\<lambda>g. Inr (dn_state n = DISTANT, g))))))
     else and_then (insert_node (endpoint ed) g) (\<lambda>g.
          and_then (setDistant (endpoint ed) g) (\<lambda>g.
          and_then (setMutex (endpoint ed) g) (\<lambda>g. Inr (True, g))))))"

definition import_new_edge :: "ptr \<Rightarrow> ('d, 'l) graph_op" where
  "import_new_edge e g =
     and_then (import_end de_src (\<lambda>p ed. ed\<lparr>de_src := p\<rparr>) linkOut e g) (\<lambda>(src_distant, g).
     and_then (import_end de_tgt (\<lambda>p ed. ed\<lparr>de_tgt := p\<rparr>) linkIn e g) (\<lambda>(tgt_distant, g).
     and_then (upd_e e (\<lambda>ed. ed\<lparr>de_state := if src_distant \<or> tgt_distant then DISTANT else LOCAL\<rparr>) g) (\<lambda>g.
       insert_edge e g)))"

definition import_known_edge :: "ptr \<Rightarrow> ('d, 'l) graph_op" where
  "import_known_edge e g =
     and_then (deref_e e g) (\<lambda>ed.
     and_then (getEdge (de_id ed) g) (\<lambda>f.
     and_then (deref_e f g) (\<lambda>fd.
     and_then (both_local fd g) (\<lambda>local.
     and_then (if local then upd_e f (\<lambda>fd. fd\<lparr>de_state := LOCAL\<rparr>) g else Inr g) (\<lambda>g.
     and_then (delete_n (de_src ed) g) (\<lambda>g.
     and_then (delete_n (de_tgt ed) g) (\<lambda>g.
       delete_e e g)))))))"

definition importEdge :: "ptr \<Rightarrow> ('d, 'l) graph_op" where
  "importEdge e g =
     and_then (deref_e e g) (\<lambda>ed.
       if de_id ed \<notin> um_keys (g_edges g) then import_new_edge e g else import_known_edge e g)"

section \<open>Clearing distant nodes\<close>

definition far_local :: "(dedge \<Rightarrow> ptr) \<Rightarrow> ptr \<Rightarrow> ('d, 'l) dgraph \<Rightarrow> graph_fault + bool" where
  "far_local endpoint e g =
     and_then (deref_e e g) (\<lambda>ed. and_then (deref_n (endpoint ed) g) (\<lambda>n. Inr (dn_state n = LOCAL)))"

text \<open>The edges whose other end is not local, and whether there is none with a local one.\<close>

definition split_edges :: "(dedge \<Rightarrow> ptr) \<Rightarrow> ptr list \<Rightarrow> ('d, 'l) dgraph \<Rightarrow> bool \<times> ptr set \<Rightarrow> graph_fault + bool \<times> ptr set" where
  "split_edges endpoint es g acc =
     run_all (\<lambda>e (erase, obsolete). and_then (far_local endpoint e g) (\<lambda>local.
       Inr (if local then (False, obsolete) else (erase, insert e obsolete)))) es acc"

definition clearNode :: "ptr \<Rightarrow> ('d, 'l) graph_op" where
  "clearNode p g =
     and_then (deref_n p g) (\<lambda>n.
     and_then (split_edges de_src (getIncomingEdges n) g (True, {})) (\<lambda>acc.
     and_then (split_edges de_tgt (getOutgoingEdges n) g acc) (\<lambda>(erase, obsolete).
       if erase then erase_node p g else run_all erase_edge (sorted_list_of_set obsolete) g)))"

definition clearDistantNodes :: "('d, 'l) graph_op" where
  "clearDistantNodes g = run_all clearNode (map snd (distant_nodes (g_loc g))) g"

end
