(* ===== verification/Graph_Invariant.thy ===== *)
theory Graph_Invariant
  imports Dist_Graph
begin

text \<open>
  The invariant of the graph of a process, and what erasures do to it. The incoming and outgoing lists of the
  nodes, the two indexes and the lists of the location manager describe one set of edges and nodes.
\<close>

section \<open>The invariant\<close>

abbreviation nptrs :: "('d, 'l) dgraph \<Rightarrow> ptr set" where
  "nptrs g \<equiv> snd ` set (g_nodes g)"

abbreviation eptrs :: "('d, 'l) dgraph \<Rightarrow> ptr set" where
  "eptrs g \<equiv> snd ` set (g_edges g)"

text \<open>A map from layers to lists enumerates a family of sets.\<close>

definition adj :: "(layer_id \<times> ptr list) list \<Rightarrow> (layer_id \<Rightarrow> ptr set) \<Rightarrow> bool" where
  "adj m S \<longleftrightarrow> um_wf m \<and> (\<forall>l. distinct (um_get [] l m) \<and> set (um_get [] l m) = S l)"

definition incident :: "(dedge \<Rightarrow> ptr) \<Rightarrow> ptr \<Rightarrow> ptr set \<Rightarrow> ('d, 'l) dgraph \<Rightarrow> layer_id \<Rightarrow> ptr set" where
  "incident endpoint p E g l = {e \<in> E. \<exists>ed. heap_e g e = Some ed \<and> endpoint ed = p \<and> de_layer ed = l}"

lemma incident_heap: "heap_e g' = heap_e g \<Longrightarrow> incident endpoint p E g' = incident endpoint p E g"
  by (simp add: incident_def fun_eq_iff)

definition wf_index :: "('d, 'l) dgraph \<Rightarrow> bool" where
  "wf_index g \<longleftrightarrow> um_wf (g_nodes g) \<and> um_wf (g_edges g) \<and>
     (\<forall>i p. (i, p) \<in> set (g_nodes g) \<longrightarrow> (\<exists>n. heap_n g p = Some n \<and> dn_id n = i)) \<and>
     (\<forall>i e. (i, e) \<in> set (g_edges g) \<longrightarrow>
        (\<exists>ed. heap_e g e = Some ed \<and> de_id ed = i \<and> de_src ed \<in> nptrs g \<and> de_tgt ed \<in> nptrs g))"

definition wf_adj :: "ptr set \<Rightarrow> ('d, 'l) dgraph \<Rightarrow> bool" where
  "wf_adj E g \<longleftrightarrow> (\<forall>p n. p \<in> nptrs g \<longrightarrow> heap_n g p = Some n \<longrightarrow>
     adj (dn_in n) (incident de_tgt p E g) \<and> adj (dn_out n) (incident de_src p E g))"

definition nodes_in :: "location_state \<Rightarrow> ('d, 'l) dgraph \<Rightarrow> (dist_id \<times> ptr) set" where
  "nodes_in st g = {(i, p) \<in> set (g_nodes g). \<exists>n. heap_n g p = Some n \<and> dn_state n = st}"

definition wf_loc :: "('d, 'l) dgraph \<Rightarrow> bool" where
  "wf_loc g \<longleftrightarrow> um_wf (local_nodes (g_loc g)) \<and> um_wf (distant_nodes (g_loc g)) \<and>
     set (local_nodes (g_loc g)) = nodes_in LOCAL g \<and> set (distant_nodes (g_loc g)) = nodes_in DISTANT g"

definition end_local :: "ptr \<Rightarrow> ('d, 'l) dgraph \<Rightarrow> bool" where
  "end_local p g \<longleftrightarrow> (\<exists>n. heap_n g p = Some n \<and> dn_state n = LOCAL)"

definition wf_state :: "('d, 'l) dgraph \<Rightarrow> bool" where
  "wf_state g \<longleftrightarrow> (\<forall>e\<in>eptrs g. \<forall>ed. heap_e g e = Some ed \<longrightarrow> de_state ed = LOCAL \<longrightarrow>
     end_local (de_src ed) g \<and> end_local (de_tgt ed) g)"

definition wf_heap :: "('d, 'l) dgraph \<Rightarrow> bool" where
  "wf_heap g \<longleftrightarrow> (\<forall>p. next_ptr g \<le> p \<longrightarrow> heap_n g p = None \<and> heap_e g p = None)"

definition wf_graph :: "('d, 'l) dgraph \<Rightarrow> bool" where
  "wf_graph g \<longleftrightarrow> wf_index g \<and> wf_adj (eptrs g) g \<and> wf_loc g \<and> wf_state g \<and> wf_heap g"

lemma new_graph_wf: "wf_graph (new_graph r linker)"
  by (auto simp: wf_graph_def wf_index_def wf_adj_def wf_loc_def nodes_in_def wf_state_def wf_heap_def
      new_graph_def empty_locations_def)

lemma wf_graph_same:
  assumes "wf_graph g" "heap_n g' = heap_n g" "heap_e g' = heap_e g" "g_nodes g' = g_nodes g" "g_edges g' = g_edges g"
    and "next_ptr g' = next_ptr g" "local_nodes (g_loc g') = local_nodes (g_loc g)"
    and "distant_nodes (g_loc g') = distant_nodes (g_loc g)"
  shows "wf_graph g'"
  using assms(1)
  by (simp add: wf_graph_def wf_index_def wf_adj_def incident_heap [OF assms(3)] wf_loc_def nodes_in_def wf_state_def end_local_def wf_heap_def
      assms(2-8))

lemma deref_n_Inr [simp]: "deref_n p g = Inr n \<longleftrightarrow> heap_n g p = Some n"
  by (simp add: deref_n_def split: option.split)

lemma deref_e_Inr [simp]: "deref_e p g = Inr e \<longleftrightarrow> heap_e g p = Some e"
  by (simp add: deref_e_def split: option.split)

lemma deref_n_some: "heap_n g p = Some n \<Longrightarrow> deref_n p g = Inr n"
  by simp

lemma deref_e_some: "heap_e g p = Some e \<Longrightarrow> deref_e p g = Inr e"
  by simp

lemma upd_n_some: "heap_n g p = Some n \<Longrightarrow> upd_n p f g = Inr (g\<lparr>heap_n := (heap_n g)(p \<mapsto> f n)\<rparr>)"
  by (simp add: upd_n_def)

lemma upd_e_some: "heap_e g p = Some e \<Longrightarrow> upd_e p f g = Inr (g\<lparr>heap_e := (heap_e g)(p \<mapsto> f e)\<rparr>)"
  by (simp add: upd_e_def)

lemma delete_n_some: "heap_n g p = Some n \<Longrightarrow> delete_n p g = Inr (g\<lparr>heap_n := (heap_n g)(p := None)\<rparr>)"
  by (simp add: delete_n_def)

lemma delete_e_some: "heap_e g p = Some e \<Longrightarrow> delete_e p g = Inr (g\<lparr>heap_e := (heap_e g)(p := None)\<rparr>)"
  by (simp add: delete_e_def)

lemmas heap_ops = deref_n_some deref_e_some upd_n_some upd_e_some delete_n_some delete_e_some

lemma event_simps [simp]:
  "heap_n (event ev g) = heap_n g" "heap_e (event ev g) = heap_e g" "next_ptr (event ev g) = next_ptr g"
  "g_nodes (event ev g) = g_nodes g" "g_edges (event ev g) = g_edges g" "g_loc (event ev g) = g_loc g"
  "g_rank (event ev g) = g_rank g" "node_counter (event ev g) = node_counter g"
  "edge_counter (event ev g) = edge_counter g"
  by (simp_all add: event_def)

lemma upd_loc_simps [simp]:
  "heap_n (upd_loc f g) = heap_n g" "heap_e (upd_loc f g) = heap_e g" "next_ptr (upd_loc f g) = next_ptr g"
  "g_nodes (upd_loc f g) = g_nodes g" "g_edges (upd_loc f g) = g_edges g" "g_loc (upd_loc f g) = f (g_loc g)"
  "g_rank (upd_loc f g) = g_rank g" "node_counter (upd_loc f g) = node_counter g"
  "edge_counter (upd_loc f g) = edge_counter g"
  by (simp_all add: upd_loc_def)

lemma wf_indexD:
  assumes "wf_index g"
  shows "um_wf (g_nodes g)" "um_wf (g_edges g)"
    "(i, p) \<in> set (g_nodes g) \<Longrightarrow> \<exists>n. heap_n g p = Some n \<and> dn_id n = i"
    "(i, e) \<in> set (g_edges g) \<Longrightarrow>
       \<exists>ed. heap_e g e = Some ed \<and> de_id ed = i \<and> de_src ed \<in> nptrs g \<and> de_tgt ed \<in> nptrs g"
  using assms by (simp_all add: wf_index_def)

lemma wf_node:
  assumes "wf_index g" "p \<in> nptrs g"
  obtains n where "heap_n g p = Some n" "(dn_id n, p) \<in> set (g_nodes g)"
proof -
  from assms(2) obtain i where "(i, p) \<in> set (g_nodes g)" by force
  with wf_indexD(3) [OF assms(1) this] that show ?thesis by blast
qed

lemma wf_edge:
  assumes "wf_index g" "e \<in> eptrs g"
  obtains ed where "heap_e g e = Some ed" "(de_id ed, e) \<in> set (g_edges g)" "de_src ed \<in> nptrs g" "de_tgt ed \<in> nptrs g"
proof -
  from assms(2) obtain i where "(i, e) \<in> set (g_edges g)" by force
  with wf_indexD(4) [OF assms(1) this] that show ?thesis by blast
qed

lemma wf_adjD:
  assumes "wf_adj E g" "p \<in> nptrs g" "heap_n g p = Some n"
  shows "adj (dn_in n) (incident de_tgt p E g)" "adj (dn_out n) (incident de_src p E g)"
  using assms by (simp_all add: wf_adj_def)

lemma wf_id_unique:
  "um_wf m \<Longrightarrow> (i, p) \<in> set m \<Longrightarrow> (i, q) \<in> set m \<Longrightarrow> p = q"
  by (metis map_of_is_SomeI option.inject)

section \<open>Lists of edges\<close>

definition without :: "layer_id \<Rightarrow> ptr \<Rightarrow> (layer_id \<times> ptr list) list \<Rightarrow> (layer_id \<times> ptr list) list" where
  "without l e m = um_set l (filter (\<lambda>x. x \<noteq> e) (um_get [] l m)) m"

lemma unlink_layer_eq:
  assumes "adj m S" "e \<in> S l"
  shows "unlink_layer l e m = Inr (without l e m)"
proof -
  from assms have in_l: "e \<in> set (um_get [] l m)" and dist: "distinct (um_get [] l m)"
    by (simp_all add: adj_def)
  then obtain es where es: "map_of m l = Some es" by (cases "map_of m l") (simp_all add: um_get_def)
  with in_l dist have "e \<in> set es" "distinct es" by (simp_all add: um_get_def)
  then have "count_list es e = 1"
    by (metis count_list_0_iff distinct_count_atmost_1 count_mset count_list_eq_length_filter count_list_0_iff)
  with \<open>e \<in> set es\<close> es show ?thesis
    by (simp add: unlink_layer_def erase_one_def without_def um_get_def)
qed

lemma adj_without: "adj m S \<Longrightarrow> adj (without l e m) (\<lambda>l'. if l' = l then S l' - {e} else S l')"
  by (auto simp: adj_def without_def)

lemma adj_push: "adj m S \<Longrightarrow> e \<notin> S l \<Longrightarrow> adj (um_push l e m) (\<lambda>l'. if l' = l then insert e (S l') else S l')"
  by (auto simp: adj_def)

lemma adj_cong: "adj m S \<Longrightarrow> (\<And>l. S l = S' l) \<Longrightarrow> adj m S'"
  by (auto simp: adj_def)

lemma adj_all:
  assumes "adj m S" "\<And>k l x. x \<in> S k \<Longrightarrow> x \<in> S l \<Longrightarrow> k = l"
  shows "set (um_all m) = (\<Union>l. S l) \<and> distinct (um_all m)"
  using assms set_um_all [of m] distinct_um_all [of m] by (auto simp: adj_def)

section \<open>Erasing an edge\<close>

definition cut_edge :: "ptr \<Rightarrow> dedge \<Rightarrow> ptr \<Rightarrow> 'd gnode \<Rightarrow> 'd gnode" where
  "cut_edge e ed p n =
     n\<lparr>dn_in := if p = de_tgt ed then without (de_layer ed) e (dn_in n) else dn_in n,
       dn_out := if p = de_src ed then without (de_layer ed) e (dn_out n) else dn_out n\<rparr>"

lemma cut_edge_simps [simp]:
  "dn_id (cut_edge e ed p n) = dn_id n" "dn_state (cut_edge e ed p n) = dn_state n" "dn_data (cut_edge e ed p n) = dn_data n"
  "dn_weight (cut_edge e ed p n) = dn_weight n" "dn_location (cut_edge e ed p n) = dn_location n" "dn_mutex (cut_edge e ed p n) = dn_mutex n"
  by (simp_all add: cut_edge_def)

lemma cut_edge_other [simp]:
  "p \<noteq> de_src ed \<Longrightarrow> p \<noteq> de_tgt ed \<Longrightarrow> map_option (cut_edge e ed p) n = n"
  by (cases n) (simp_all add: cut_edge_def)

definition edge_erased :: "ptr \<Rightarrow> dedge \<Rightarrow> ('d, 'l) dgraph \<Rightarrow> ('d, 'l) dgraph" where
  "edge_erased e ed g =
     event (Erase_Edge e) (g\<lparr>heap_n := \<lambda>p. map_option (cut_edge e ed p) (heap_n g p), heap_e := (heap_e g)(e := None),
       g_edges := um_erase (de_id ed) (g_edges g)\<rparr>)"

lemma erase_edge_eq:
  assumes "wf_adj E g" "e \<in> E" "heap_e g e = Some ed" "de_src ed \<in> nptrs g" "de_tgt ed \<in> nptrs g"
    and "heap_n g (de_src ed) = Some s" "heap_n g (de_tgt ed) = Some t"
  shows "erase_edge e g = Inr (edge_erased e ed g)"
proof -
  let ?l = "de_layer ed"
  have "e \<in> incident de_src (de_src ed) E g ?l" "e \<in> incident de_tgt (de_tgt ed) E g ?l"
    using assms(2,3) by (simp_all add: incident_def)
  then have "unlink_layer ?l e (dn_out s) = Inr (without ?l e (dn_out s))"
    and "unlink_layer ?l e (dn_in t) = Inr (without ?l e (dn_in t))"
    using wf_adjD(2) [OF assms(1,4,6)] wf_adjD(1) [OF assms(1,5,7)] by (simp_all add: unlink_layer_eq)
  with assms(3,6,7) obtain g' where g': "erase_edge e g = Inr g'"
    "heap_n g' = (heap_n g)(de_src ed \<mapsto> s\<lparr>dn_out := without ?l e (dn_out s)\<rparr>,
       de_tgt ed \<mapsto> (if de_src ed = de_tgt ed then s\<lparr>dn_out := without ?l e (dn_out s), dn_in := without ?l e (dn_in s)\<rparr>
                     else t\<lparr>dn_in := without ?l e (dn_in t)\<rparr>))"
    "g' = event (Erase_Edge e) (g\<lparr>heap_n := heap_n g', heap_e := (heap_e g)(e := None), g_edges := um_erase (de_id ed) (g_edges g)\<rparr>)"
    by (cases "de_src ed = de_tgt ed") (auto simp: erase_edge_def unlinkOut_def unlinkIn_def heap_ops event_def)
  from assms(6,7) have "heap_n g' = (\<lambda>p. map_option (cut_edge e ed p) (heap_n g p))"
    unfolding g'(2) by (auto simp: fun_eq_iff cut_edge_def)
  with g'(1,3) show ?thesis by (simp add: edge_erased_def)
qed

lemma edge_erased_simps [simp]:
  "heap_n (edge_erased e ed g) p = map_option (cut_edge e ed p) (heap_n g p)"
  "heap_e (edge_erased e ed g) = (heap_e g)(e := None)"
  "g_nodes (edge_erased e ed g) = g_nodes g" "g_edges (edge_erased e ed g) = um_erase (de_id ed) (g_edges g)"
  "g_loc (edge_erased e ed g) = g_loc g" "next_ptr (edge_erased e ed g) = next_ptr g"
  "g_rank (edge_erased e ed g) = g_rank g"
  by (simp_all add: edge_erased_def)

lemma eptrs_erase:
  assumes "wf_index g" "(i, e) \<in> set (g_edges g)"
  shows "snd ` set (um_erase i (g_edges g)) = eptrs g - {e}"
proof -
  have "f = e \<longleftrightarrow> j = i" if "(j, f) \<in> set (g_edges g)" for j f
    using that assms wf_indexD(4) [OF assms(1)] wf_id_unique [OF wf_indexD(2) [OF assms(1)]]
    by (metis option.inject)
  then show ?thesis by force
qed

lemma edge_erased_states [simp]:
  "nodes_in st (edge_erased e ed g) = nodes_in st g" "end_local p (edge_erased e ed g) \<longleftrightarrow> end_local p g"
  by (auto simp: nodes_in_def end_local_def)

lemma edge_erased_wf:
  assumes "wf_graph g" "(de_id ed, e) \<in> set (g_edges g)" "heap_e g e = Some ed"
  shows "wf_graph (edge_erased e ed g)"
proof -
  let ?g = "edge_erased e ed g"
  from assms(1) have idx: "wf_index g" and adj: "wf_adj (eptrs g) g" and loc: "wf_loc g"
    and st: "wf_state g" and heap: "wf_heap g" by (simp_all add: wf_graph_def)
  have E: "eptrs ?g = eptrs g - {e}" using eptrs_erase [OF idx assms(2)] by simp
  have "wf_index ?g"
    unfolding wf_index_def
  proof (intro conjI allI impI)
    show "um_wf (g_nodes ?g)" "um_wf (g_edges ?g)" using wf_indexD(1,2) [OF idx] by simp_all
    fix i p assume "(i, p) \<in> set (g_nodes ?g)"
    then show "\<exists>n. heap_n ?g p = Some n \<and> dn_id n = i" using wf_indexD(3) [OF idx, of i p] by auto
  next
    fix i f assume "(i, f) \<in> set (g_edges ?g)"
    then have f: "(i, f) \<in> set (g_edges g)" "f \<in> eptrs ?g" by force+
    with E have "f \<noteq> e" by auto
    with wf_indexD(4) [OF idx f(1)]
    show "\<exists>fd. heap_e ?g f = Some fd \<and> de_id fd = i \<and> de_src fd \<in> nptrs ?g \<and> de_tgt fd \<in> nptrs ?g" by simp
  qed
  moreover have "wf_adj (eptrs ?g) ?g"
    unfolding wf_adj_def E
  proof (intro allI impI)
    fix p n assume p: "p \<in> nptrs ?g" "heap_n ?g p = Some n"
    then obtain n0 where n0: "heap_n g p = Some n0" "n = cut_edge e ed p n0" by auto
    have inc: "incident endp p (eptrs g - {e}) ?g l =
               (if p = endp ed \<and> l = de_layer ed then incident endp p (eptrs g) g l - {e} else incident endp p (eptrs g) g l)" for endp l
      using assms(3) by (auto simp: incident_def)
    from p n0 have "adj (dn_in n0) (incident de_tgt p (eptrs g) g)" "adj (dn_out n0) (incident de_src p (eptrs g) g)"
      using wf_adjD [OF adj _ n0(1)] by simp_all
    then show "adj (dn_in n) (incident de_tgt p (eptrs g - {e}) ?g) \<and> adj (dn_out n) (incident de_src p (eptrs g - {e}) ?g)"
      unfolding n0(2) inc [abs_def] cut_edge_def
      by (auto intro: adj_cong adj_without [THEN adj_cong])
  qed
  moreover have "wf_loc ?g" using loc by (simp add: wf_loc_def)
  moreover have "wf_state ?g"
    using st E by (auto simp: wf_state_def)
  moreover have "wf_heap ?g" using heap by (simp add: wf_heap_def)
  ultimately show ?thesis by (simp add: wf_graph_def)
qed

section \<open>Erasing several edges\<close>

definition node_core :: "'d gnode \<Rightarrow> dist_id \<times> location_state \<times> int \<times> 'd \<times> rat \<times> bool" where
  "node_core n = (dn_id n, dn_state n, dn_location n, dn_data n, dn_weight n, dn_mutex n)"

lemma node_core_cut [simp]: "node_core (cut_edge e ed p n) = node_core n"
  by (simp add: node_core_def)

definition edges_gone :: "ptr set \<Rightarrow> ('d, 'l) dgraph \<Rightarrow> ('d, 'l) dgraph \<Rightarrow> bool" where
  "edges_gone es g g' \<longleftrightarrow> wf_graph g' \<and> g_nodes g' = g_nodes g \<and> g_loc g' = g_loc g \<and> g_rank g' = g_rank g \<and>
     set (g_edges g') = {(i, e) \<in> set (g_edges g). e \<notin> es} \<and>
     (\<forall>e. heap_e g' e = (if e \<in> es then None else heap_e g e)) \<and>
     (\<forall>p. map_option node_core (heap_n g' p) = map_option node_core (heap_n g p))"

lemma edges_goneD:
  assumes "edges_gone es g g'"
  shows "wf_graph g'" "g_nodes g' = g_nodes g" "g_loc g' = g_loc g"
    "set (g_edges g') = {(i, e) \<in> set (g_edges g). e \<notin> es}"
    "heap_e g' e = (if e \<in> es then None else heap_e g e)"
    "map_option node_core (heap_n g' p) = map_option node_core (heap_n g p)"
  using assms by (simp_all add: edges_gone_def)

lemma wf_graphD:
  assumes "wf_graph g"
  shows "wf_index g" "wf_adj (eptrs g) g" "wf_loc g" "wf_state g" "wf_heap g"
  using assms by (simp_all add: wf_graph_def)

text \<open>The invariant only depends on the part of the nodes that places them in the graph.\<close>

definition node_shape :: "'d gnode \<Rightarrow> dist_id \<times> location_state \<times> (layer_id \<times> ptr list) list \<times> (layer_id \<times> ptr list) list" where
  "node_shape n = (dn_id n, dn_state n, dn_in n, dn_out n)"

lemma wf_graph_shape:
  assumes "wf_graph g" "\<And>p. p \<in> nptrs g \<Longrightarrow> map_option node_shape (heap_n g' p) = map_option node_shape (heap_n g p)"
    and "heap_e g' = heap_e g" "g_nodes g' = g_nodes g" "g_edges g' = g_edges g"
    and "local_nodes (g_loc g') = local_nodes (g_loc g)" "distant_nodes (g_loc g') = distant_nodes (g_loc g)" "wf_heap g'"
  shows "wf_graph g'"
proof -
  note wf = wf_graphD [OF assms(1)]
  have shape: "\<exists>m. heap_n g' p = Some m \<and> node_shape m = node_shape n" if "p \<in> nptrs g" "heap_n g p = Some n" for p n
    using assms(2) [OF that(1)] that(2) by (cases "heap_n g' p") simp_all
  have states: "(\<exists>m. heap_n g' p = Some m \<and> dn_state m = st) \<longleftrightarrow> (\<exists>n. heap_n g p = Some n \<and> dn_state n = st)"
    if "p \<in> nptrs g" for p st
    using assms(2) [OF that] by (cases "heap_n g p"; cases "heap_n g' p") (auto simp: node_shape_def)
  have "wf_index g'"
    unfolding wf_index_def assms(3-5)
  proof (intro conjI allI impI)
    fix i p assume p: "(i, p) \<in> set (g_nodes g)"
    then have P: "p \<in> nptrs g" by force
    from wf_indexD(3) [OF wf(1) p] shape [OF P] show "\<exists>n. heap_n g' p = Some n \<and> dn_id n = i" by (fastforce simp: node_shape_def)
  qed (use wf_indexD [OF wf(1)] in blast)+
  moreover have "wf_adj (eptrs g') g'"
    unfolding wf_adj_def assms(4,5)
  proof (intro allI impI)
    fix p m assume p: "p \<in> nptrs g" "heap_n g' p = Some m"
    then obtain n where "heap_n g p = Some n" "dn_in m = dn_in n" "dn_out m = dn_out n"
      using assms(2) [OF p(1)] by (cases "heap_n g p") (auto simp: node_shape_def)
    with p wf_adjD [OF wf(2), of p n]
    show "adj (dn_in m) (incident de_tgt p (eptrs g) g') \<and> adj (dn_out m) (incident de_src p (eptrs g) g')"
      by (simp add: incident_heap [OF assms(3)])
  qed
  moreover have "nodes_in st g' = nodes_in st g" for st
    using states by (force simp: nodes_in_def assms(4))
  then have "wf_loc g'" using wf(3) by (simp add: wf_loc_def assms(6,7))
  moreover have "wf_state g'"
    unfolding wf_state_def assms(3,5)
  proof (intro ballI allI impI)
    fix e ed assume e: "e \<in> eptrs g" "heap_e g e = Some ed" "de_state ed = LOCAL"
    obtain fd where fd: "heap_e g e = Some fd" "de_src fd \<in> nptrs g" "de_tgt fd \<in> nptrs g" by (rule wf_edge [OF wf(1) e(1)])
    from wf(4) e have "end_local (de_src ed) g" "end_local (de_tgt ed) g" unfolding wf_state_def by blast+
    with fd e(2) states show "end_local (de_src ed) g' \<and> end_local (de_tgt ed) g'" by (simp add: end_local_def)
  qed
  ultimately show ?thesis using assms(8) by (simp add: wf_graph_def)
qed

lemma erase_edge_gone:
  assumes "wf_graph g" "e \<in> eptrs g"
  shows "\<exists>g'. erase_edge e g = Inr g' \<and> edges_gone {e} g g'"
proof -
  note wf = wf_graphD [OF assms(1)]
  obtain ed where ed: "heap_e g e = Some ed" "(de_id ed, e) \<in> set (g_edges g)" "de_src ed \<in> nptrs g" "de_tgt ed \<in> nptrs g"
    by (rule wf_edge [OF wf(1) assms(2)])
  obtain s where s: "heap_n g (de_src ed) = Some s" by (rule wf_node [OF wf(1) ed(3)])
  obtain t where t: "heap_n g (de_tgt ed) = Some t" by (rule wf_node [OF wf(1) ed(4)])
  have eq: "erase_edge e g = Inr (edge_erased e ed g)"
    by (rule erase_edge_eq [OF wf(2) assms(2) ed(1,3,4) s t])
  have "(i, f) \<in> set (g_edges g) \<Longrightarrow> i \<noteq> de_id ed \<longleftrightarrow> f \<noteq> e" for i f
    using ed(1,2) wf_indexD(4) [OF wf(1)] wf_id_unique [OF wf_indexD(2) [OF wf(1)]] by (metis option.inject)
  then have edges: "{x \<in> set (g_edges g). fst x \<noteq> de_id ed} = {(i, f) \<in> set (g_edges g). f \<noteq> e}" by auto
  show ?thesis
    unfolding eq edges_gone_def
    by (intro exI conjI, rule refl, rule edge_erased_wf [OF assms(1) ed(2,1)])
      (simp_all add: edges option.map_comp comp_def edge_erased_def)
qed

lemma edges_gone_trans:
  "edges_gone es g g' \<Longrightarrow> edges_gone fs g' g'' \<Longrightarrow> edges_gone (es \<union> fs) g g''"
  by (auto simp: edges_gone_def)

lemma edges_gone_refl: "wf_graph g \<Longrightarrow> edges_gone {} g g"
  by (simp add: edges_gone_def)

text \<open>A loop whose step removes one edge removes the edges of its list.\<close>

lemma run_edges_gone:
  assumes "\<And>g e. wf_graph g \<Longrightarrow> e \<in> eptrs g \<Longrightarrow> \<exists>g'. step e g = Inr g' \<and> edges_gone {e} g g'"
    and "wf_graph g" "distinct es" "set es \<subseteq> eptrs g"
  shows "\<exists>g'. run_all step es g = Inr g' \<and> edges_gone (set es) g g'"
  using assms(2-4)
proof (induction es arbitrary: g)
  case Nil
  then show ?case by (simp add: edges_gone_refl)
next
  case (Cons e es)
  then obtain g1 where g1: "step e g = Inr g1" "edges_gone {e} g g1"
    using assms(1) [of g e] by auto
  then have "eptrs g1 = eptrs g - {e}" by (force simp: edges_goneD(4) [OF g1(2)])
  then have "set es \<subseteq> eptrs g1" using Cons.prems by auto
  then obtain g2 where g2: "run_all step es g1 = Inr g2" "edges_gone (set es) g1 g2"
    using Cons.IH [OF edges_goneD(1) [OF g1(2)]] Cons.prems(2) by auto
  with g1 edges_gone_trans [OF g1(2) g2(2)] show ?case by simp
qed

lemma erase_edges_gone:
  "wf_graph g \<Longrightarrow> distinct es \<Longrightarrow> set es \<subseteq> eptrs g \<Longrightarrow> \<exists>g'. run_all erase_edge es g = Inr g' \<and> edges_gone (set es) g g'"
  by (rule run_edges_gone) (rule erase_edge_gone)

section \<open>Erasing a node\<close>

definition ends_at :: "(dedge \<Rightarrow> ptr) \<Rightarrow> ptr \<Rightarrow> ('d, 'l) dgraph \<Rightarrow> ptr set" where
  "ends_at endpoint p g = {e \<in> eptrs g. \<exists>ed. heap_e g e = Some ed \<and> endpoint ed = p}"

lemma node_edges:
  assumes "wf_graph g" "p \<in> nptrs g" "heap_n g p = Some n"
  shows "set (getIncomingEdges n) = ends_at de_tgt p g" "distinct (getIncomingEdges n)"
    "set (getOutgoingEdges n) = ends_at de_src p g" "distinct (getOutgoingEdges n)"
proof -
  have layer: "k = l" if "e \<in> incident endp p (eptrs g) g k" "e \<in> incident endp p (eptrs g) g l" for endp e k l
  proof -
    from that obtain ed fd where "heap_e g e = Some ed" "de_layer ed = k" "heap_e g e = Some fd" "de_layer fd = l"
      unfolding incident_def by blast
    then show "k = l" by simp
  qed
  have all: "(\<Union>l. incident endp p (eptrs g) g l) = ends_at endp p g" for endp
    unfolding incident_def ends_at_def by blast
  note adj = wf_adjD [OF wf_graphD(2) [OF assms(1)] assms(2,3)]
  have "set (um_all (dn_in n)) = ends_at de_tgt p g \<and> distinct (um_all (dn_in n))"
    unfolding all [symmetric] by (rule adj_all [OF adj(1)]) (rule layer)
  moreover have "set (um_all (dn_out n)) = ends_at de_src p g \<and> distinct (um_all (dn_out n))"
    unfolding all [symmetric] by (rule adj_all [OF adj(2)]) (rule layer)
  ultimately show "set (getIncomingEdges n) = ends_at de_tgt p g" "distinct (getIncomingEdges n)"
    "set (getOutgoingEdges n) = ends_at de_src p g" "distinct (getOutgoingEdges n)"
    by (simp_all add: getIncomingEdges_def getOutgoingEdges_def)
qed

definition node_erased :: "ptr \<Rightarrow> 'd gnode \<Rightarrow> ('d, 'l) dgraph \<Rightarrow> ('d, 'l) dgraph" where
  "node_erased p n g =
     event (Erase_Node p) (g\<lparr>heap_n := (heap_n g)(p := None), g_nodes := um_erase (dn_id n) (g_nodes g),
       g_loc := lm_forget (dn_state n) (dn_id n) (g_loc g)\<rparr>)"

lemma node_erased_simps [simp]:
  "heap_n (node_erased p n g) = (heap_n g)(p := None)" "heap_e (node_erased p n g) = heap_e g"
  "g_nodes (node_erased p n g) = um_erase (dn_id n) (g_nodes g)" "g_edges (node_erased p n g) = g_edges g"
  "g_loc (node_erased p n g) = lm_forget (dn_state n) (dn_id n) (g_loc g)"
  "next_ptr (node_erased p n g) = next_ptr g"
  by (simp_all add: node_erased_def)

lemma id_ptr:
  assumes "wf_index g" "(i, p) \<in> set (g_nodes g)" "(j, q) \<in> set (g_nodes g)"
  shows "i = j \<longleftrightarrow> p = q"
  using assms wf_indexD(3) [OF assms(1)] wf_id_unique [OF wf_indexD(1) [OF assms(1)]] by (metis option.inject)

lemma forget_wf:
  assumes "wf_graph g" "(dn_id n, p) \<in> set (g_nodes g)" "heap_n g p = Some n"
  shows "wf_loc (node_erased p n g)"
proof -
  note wf = wf_graphD [OF assms(1)]
  have gone: "nodes_in st (node_erased p n g) = {(i, q) \<in> nodes_in st g. q \<noteq> p}" for st
    using id_ptr [OF wf(1) assms(2)] by (fastforce simp: nodes_in_def)
  have key: "{x \<in> nodes_in st g. fst x \<noteq> dn_id n} = {(i, q) \<in> nodes_in st g. q \<noteq> p}" for st
    using id_ptr [OF wf(1) assms(2)] by (fastforce simp: nodes_in_def)
  have other: "{(i, q) \<in> nodes_in st g. q \<noteq> p} = nodes_in st g" if "st \<noteq> dn_state n" for st
    using that assms(3) by (auto simp: nodes_in_def)
  show ?thesis
    using wf(3) other [of LOCAL] other [of DISTANT]
    by (cases "dn_state n") (simp_all add: wf_loc_def lm_forget_def gone key)
qed

lemma node_erased_wf:
  assumes "wf_graph g" "(dn_id n, p) \<in> set (g_nodes g)" "heap_n g p = Some n"
    and "ends_at de_src p g = {}" "ends_at de_tgt p g = {}"
  shows "wf_graph (node_erased p n g)"
proof -
  let ?g = "node_erased p n g"
  note wf = wf_graphD [OF assms(1)]
  have ptrs: "nptrs ?g = nptrs g - {p}"
    using id_ptr [OF wf(1) assms(2)] by force
  have ends: "de_src ed \<noteq> p \<and> de_tgt ed \<noteq> p" if "(i, e) \<in> set (g_edges g)" "heap_e g e = Some ed" for i e ed
    using that assms(4,5) by (force simp: ends_at_def)
  have "wf_index ?g"
    unfolding wf_index_def
  proof (intro conjI allI impI)
    show "um_wf (g_nodes ?g)" "um_wf (g_edges ?g)" using wf_indexD(1,2) [OF wf(1)] by simp_all
    fix i q assume q: "(i, q) \<in> set (g_nodes ?g)"
    then have "q \<noteq> p" using id_ptr [OF wf(1) assms(2)] by fastforce
    with q show "\<exists>m. heap_n ?g q = Some m \<and> dn_id m = i" using wf_indexD(3) [OF wf(1), of i q] by simp
  next
    fix i e assume "(i, e) \<in> set (g_edges ?g)"
    with wf_indexD(4) [OF wf(1), of i e] ends [of i e]
    show "\<exists>ed. heap_e ?g e = Some ed \<and> de_id ed = i \<and> de_src ed \<in> nptrs ?g \<and> de_tgt ed \<in> nptrs ?g"
      unfolding ptrs by auto
  qed
  moreover have "wf_adj (eptrs ?g) ?g"
    unfolding wf_adj_def ptrs using wf_adjD [OF wf(2)] by (auto simp: incident_heap [of ?g g])
  moreover have "wf_loc ?g" by (rule forget_wf [OF assms(1-3)])
  moreover have "wf_state ?g"
    using wf(4) ends by (force simp: wf_state_def end_local_def)
  moreover have "wf_heap ?g" using wf(5) by (simp add: wf_heap_def)
  ultimately show ?thesis by (simp add: wf_graph_def)
qed

definition node_gone :: "ptr \<Rightarrow> ('d, 'l) dgraph \<Rightarrow> ('d, 'l) dgraph \<Rightarrow> bool" where
  "node_gone p g g' \<longleftrightarrow> wf_graph g' \<and> heap_n g' p = None \<and>
     set (g_nodes g') = {(i, q) \<in> set (g_nodes g). q \<noteq> p} \<and>
     set (g_edges g') = {(i, e) \<in> set (g_edges g). e \<notin> ends_at de_src p g \<union> ends_at de_tgt p g} \<and>
     (\<forall>e. heap_e g' e = (if e \<in> ends_at de_src p g \<union> ends_at de_tgt p g then None else heap_e g e)) \<and>
     (\<forall>q. q \<noteq> p \<longrightarrow> map_option node_core (heap_n g' q) = map_option node_core (heap_n g q))"

lemma node_goneD:
  assumes "node_gone p g g'"
  shows "wf_graph g'" "heap_n g' p = None" "set (g_nodes g') = {(i, q) \<in> set (g_nodes g). q \<noteq> p}"
    "set (g_edges g') = {(i, e) \<in> set (g_edges g). e \<notin> ends_at de_src p g \<union> ends_at de_tgt p g}"
    "heap_e g' e = (if e \<in> ends_at de_src p g \<union> ends_at de_tgt p g then None else heap_e g e)"
    "q \<noteq> p \<Longrightarrow> map_option node_core (heap_n g' q) = map_option node_core (heap_n g q)"
  using assms by (simp_all add: node_gone_def)

lemma ends_at_gone:
  assumes "edges_gone es g g'"
  shows "ends_at endpoint p g' = ends_at endpoint p g - es"
  using edges_goneD(4) [OF assms] edges_goneD(5) [OF assms]
  by (fastforce simp: ends_at_def)

lemma core_some:
  "map_option node_core (heap_n g' p) = map_option node_core (heap_n g p) \<Longrightarrow> heap_n g p = Some n \<Longrightarrow>
     \<exists>m. heap_n g' p = Some m \<and> node_core m = node_core n"
  by (cases "heap_n g' p") simp_all

text \<open>A step that removes one edge, on the edges of one direction of a node, then on those of the other.\<close>

lemma run_edges_of:
  assumes step: "\<And>g e. wf_graph g \<Longrightarrow> e \<in> eptrs g \<Longrightarrow> \<exists>g'. step e g = Inr g' \<and> edges_gone {e} g g'"
    and "wf_graph g" "p \<in> nptrs g"
    and ends: "first = getIncomingEdges \<and> second = getOutgoingEdges \<or> first = getOutgoingEdges \<and> second = getIncomingEdges"
  shows "\<exists>n g1 m g2. heap_n g p = Some n \<and> run_all step (first n) g = Inr g1 \<and> heap_n g1 p = Some m \<and>
           run_all step (second m) g1 = Inr g2 \<and> edges_gone (ends_at de_src p g \<union> ends_at de_tgt p g) g g2"
proof -
  have listed: "distinct (list n)" "set (list n) \<subseteq> eptrs h" "set (getIncomingEdges n) = ends_at de_tgt p h"
      "set (getOutgoingEdges n) = ends_at de_src p h"
    if "wf_graph h" "p \<in> nptrs h" "heap_n h p = Some n" "list = getIncomingEdges \<or> list = getOutgoingEdges" for h n list
  proof -
    note edges = node_edges [OF that(1-3)]
    have "ends_at endpoint p h \<subseteq> eptrs h" for endpoint unfolding ends_at_def by blast
    then show "distinct (list n)" "set (list n) \<subseteq> eptrs h" using that(4) edges by metis+
    show "set (getIncomingEdges n) = ends_at de_tgt p h" "set (getOutgoingEdges n) = ends_at de_src p h" by (rule edges)+
  qed
  have gone: "\<exists>g'. run_all step es h = Inr g' \<and> edges_gone (set es) h g'" if "wf_graph h" "distinct es" "set es \<subseteq> eptrs h" for es h
    by (rule run_edges_gone [OF _ that]) (rule step)
  have dirs: "first = getIncomingEdges \<or> first = getOutgoingEdges" "second = getIncomingEdges \<or> second = getOutgoingEdges"
    using ends by blast+
  obtain n where n: "heap_n g p = Some n" by (rule wf_node [OF wf_graphD(1) [OF assms(2)] assms(3)])
  note l = listed [OF assms(2,3) n]
  obtain g1 where g1: "run_all step (first n) g = Inr g1" "edges_gone (set (first n)) g g1"
    using gone [OF assms(2) l(1,2) [OF dirs(1)]] by blast
  obtain m where m: "heap_n g1 p = Some m" using core_some [OF edges_goneD(6) [OF g1(2)] n] by blast
  have p1: "p \<in> nptrs g1" using assms(3) by (simp add: edges_goneD(2) [OF g1(2)])
  note l1 = listed [OF edges_goneD(1) [OF g1(2)] p1 m]
  obtain g2 where g2: "run_all step (second m) g1 = Inr g2" "edges_gone (set (second m)) g1 g2"
    using gone [OF edges_goneD(1) [OF g1(2)] l1(1,2) [OF dirs(2)]] by blast
  have "set (first n) \<union> set (second m) = ends_at de_src p g \<union> ends_at de_tgt p g"
    using ends l(3,4) [OF dirs(1)] l1(3,4) [OF dirs(2)] by (auto simp: ends_at_gone [OF g1(2)])
  with edges_gone_trans [OF g1(2) g2(2)] n g1(1) m g2(1) show ?thesis by auto
qed

lemma erase_node_gone:
  assumes "wf_graph g" "p \<in> nptrs g"
  shows "\<exists>g'. erase_node p g = Inr g' \<and> node_gone p g g'"
proof -
  note wf = wf_graphD [OF assms(1)]
  let ?gone = "ends_at de_src p g \<union> ends_at de_tgt p g"
  obtain n g1 n1 g2 where run: "heap_n g p = Some n" "run_all erase_edge (getIncomingEdges n) g = Inr g1" "heap_n g1 p = Some n1"
    "run_all erase_edge (getOutgoingEdges n1) g1 = Inr g2" and gone: "edges_gone ?gone g g2"
    using run_edges_of [OF _ assms, where step = erase_edge and first = getIncomingEdges and second = getOutgoingEdges]
      erase_edge_gone by blast
  have node: "(dn_id n, p) \<in> set (g_nodes g)" by (rule wf_node [OF wf(1) assms(2)]) (use run(1) in simp)
  obtain n2 where n2: "heap_n g2 p = Some n2" "node_core n2 = node_core n"
    using core_some [OF edges_goneD(6) [OF gone] run(1)] by blast
  have id: "dn_id n2 = dn_id n" using n2(2) by (simp add: node_core_def)
  have eq: "erase_node p g = Inr (node_erased p n2 g2)"
    using run n2(1)
    by (simp add: erase_node_def heap_ops lm_remove_def node_erased_def event_def upd_loc_def)
  have none: "ends_at de_src p g2 = {}" "ends_at de_tgt p g2 = {}" by (simp_all add: ends_at_gone [OF gone])
  have mem: "(dn_id n2, p) \<in> set (g_nodes g2)" using node by (simp add: id edges_goneD(2) [OF gone])
  have final: "wf_graph (node_erased p n2 g2)"
    by (rule node_erased_wf [OF edges_goneD(1) [OF gone] mem n2(1) none])
  have left: "{e \<in> set (g_nodes g). fst e \<noteq> dn_id n} = {(i, q) \<in> set (g_nodes g). q \<noteq> p}"
    using id_ptr [OF wf(1) node] by fastforce
  show ?thesis
    unfolding eq node_gone_def
    by (intro exI conjI, rule refl, rule final) (simp_all add: edges_goneD(2,4,5,6) [OF gone] id left)
qed

text \<open>Erasing different nodes one after the other.\<close>

lemma erase_nodes_gone:
  assumes "wf_graph g" "distinct ps" "set ps \<subseteq> nptrs g"
  shows "\<exists>g'. run_all erase_node ps g = Inr g' \<and> wf_graph g' \<and> set (g_nodes g') = {(i, q) \<in> set (g_nodes g). q \<notin> set ps}"
  using assms
proof (induction ps arbitrary: g)
  case (Cons p ps)
  then obtain g1 where g1: "erase_node p g = Inr g1" "node_gone p g g1"
    using erase_node_gone [of g p] by auto
  then have "nptrs g1 = nptrs g - {p}" by (force simp: node_goneD(3) [OF g1(2)])
  then have "set ps \<subseteq> nptrs g1" using Cons.prems by auto
  then obtain g2 where "run_all erase_node ps g1 = Inr g2" "wf_graph g2"
    "set (g_nodes g2) = {(i, q) \<in> set (g_nodes g1). q \<notin> set ps}"
    using Cons.IH [OF node_goneD(1) [OF g1(2)]] Cons.prems(2) by auto
  with g1 show ?case by (auto simp: node_goneD(3) [OF g1(2)])
qed simp

section \<open>The graph as sets of nodes and edges\<close>

abbreviation view_nodes :: "('d, 'l) dgraph \<Rightarrow> dist_id set" where
  "view_nodes g \<equiv> um_keys (g_nodes g)"

definition edge_view :: "('d, 'l) dgraph \<Rightarrow> ptr \<Rightarrow> (dist_id \<times> layer_id \<times> dist_id) option" where
  "edge_view g e = (case heap_e g e of None \<Rightarrow> None | Some ed \<Rightarrow>
     (case (map_option dn_id (heap_n g (de_src ed)), map_option dn_id (heap_n g (de_tgt ed))) of
        (Some s, Some t) \<Rightarrow> Some (s, de_layer ed, t) | _ \<Rightarrow> None))"

definition view_edges :: "('d, 'l) dgraph \<Rightarrow> (dist_id \<times> dist_id \<times> layer_id \<times> dist_id) set" where
  "view_edges g = {(i, v). \<exists>e. (i, e) \<in> set (g_edges g) \<and> edge_view g e = Some v}"

lemma edge_view_Some:
  "edge_view g e = Some (s, l, t) \<longleftrightarrow>
     (\<exists>ed ns nt. heap_e g e = Some ed \<and> heap_n g (de_src ed) = Some ns \<and> heap_n g (de_tgt ed) = Some nt \<and>
        s = dn_id ns \<and> l = de_layer ed \<and> t = dn_id nt)"
  by (auto simp: edge_view_def split: option.split)

lemma edge_view_gone:
  assumes "node_gone p g g'" "heap_e g e = Some ed" "e \<in> eptrs g" "e \<notin> ends_at de_src p g \<union> ends_at de_tgt p g"
  shows "edge_view g' e = edge_view g e"
proof -
  from assms(2-4) have "de_src ed \<noteq> p" "de_tgt ed \<noteq> p" by (auto simp: ends_at_def)
  from this [THEN node_goneD(6) [OF assms(1)]]
  have "map_option dn_id (heap_n g' q) = map_option dn_id (heap_n g q)" if "q = de_src ed \<or> q = de_tgt ed" for q
    using that by (cases "heap_n g q"; cases "heap_n g' q") (auto simp: node_core_def)
  from this [of "de_src ed"] this [of "de_tgt ed"] show ?thesis
    using assms(2,4) by (simp add: edge_view_def node_goneD(5) [OF assms(1)])
qed

lemma edge_view_ends:
  assumes "wf_index g" "(i, p) \<in> set (g_nodes g)" "(j, e) \<in> set (g_edges g)" "edge_view g e = Some (s, l, t)"
  shows "e \<notin> ends_at de_src p g \<union> ends_at de_tgt p g \<longleftrightarrow> s \<noteq> i \<and> t \<noteq> i"
proof -
  from assms(4) obtain ed ns nt where ed: "heap_e g e = Some ed" "heap_n g (de_src ed) = Some ns"
    "heap_n g (de_tgt ed) = Some nt" "s = dn_id ns" "t = dn_id nt"
    by (auto simp: edge_view_Some)
  from wf_indexD(4) [OF assms(1,3)] ed(1) obtain a b
    where "(a, de_src ed) \<in> set (g_nodes g)" "(b, de_tgt ed) \<in> set (g_nodes g)" by force
  moreover from this wf_indexD(3) [OF assms(1)] ed have "a = s" "b = t" by force+
  ultimately have "s = i \<longleftrightarrow> de_src ed = p" "t = i \<longleftrightarrow> de_tgt ed = p"
    using id_ptr [OF assms(1) _ assms(2)] by blast+
  moreover have "e \<in> eptrs g" using assms(3) by force
  ultimately show ?thesis using ed(1) by (simp add: ends_at_def)
qed

lemma view_edges_gone:
  assumes "wf_index g" "(i, p) \<in> set (g_nodes g)" "node_gone p g g'"
  shows "(j, s, l, t) \<in> view_edges g' \<longleftrightarrow> (j, s, l, t) \<in> view_edges g \<and> s \<noteq> i \<and> t \<noteq> i"
proof -
  have "(j, e) \<in> set (g_edges g') \<and> edge_view g' e = Some (s, l, t) \<longleftrightarrow>
        (j, e) \<in> set (g_edges g) \<and> edge_view g e = Some (s, l, t) \<and> s \<noteq> i \<and> t \<noteq> i" for e
  proof (cases "(j, e) \<in> set (g_edges g)")
    case True
    then obtain ed where "heap_e g e = Some ed" "e \<in> eptrs g" using wf_indexD(4) [OF assms(1) True] by force
    with edge_view_gone [OF assms(3) this] edge_view_ends [OF assms(1,2) True, of s l t] True show ?thesis
      by (auto simp: node_goneD(4) [OF assms(3)])
  qed (simp add: node_goneD(4) [OF assms(3)])
  then show ?thesis by (auto simp: view_edges_def)
qed

end
