(* ===== verification/Graph_Growth.thy ===== *)
theory Graph_Growth
  imports Graph_Invariant
begin

text \<open>
  What building a node and linking two nodes does to the graph of a process. Linking calls the \<open>SyncLinker\<close>
  of the synchronization mode, an interface with the contract that the client relies on: a linker that
  buffers the operation answers any call on an edge between nodes and only changes its own state.
\<close>

section \<open>Building a node\<close>

lemma event_linker [simp]: "sync_linker (event ev g) = sync_linker g" "sync_linker (upd_loc f g) = sync_linker g"
  by (simp_all add: event_def upd_loc_def)

definition node_added :: "ptr \<Rightarrow> 'd gnode \<Rightarrow> ('d, 'l) dgraph \<Rightarrow> ('d, 'l) dgraph \<Rightarrow> bool" where
  "node_added p n g g' \<longleftrightarrow>
     heap_n g' = (heap_n g)(p \<mapsto> n) \<and> heap_e g' = heap_e g \<and> g_nodes g' = g_nodes g @ [(dn_id n, p)] \<and>
     g_edges g' = g_edges g \<and> p < next_ptr g' \<and> next_ptr g \<le> next_ptr g' \<and>
     local_nodes (g_loc g') =
       (if dn_state n = LOCAL then local_nodes (g_loc g) @ [(dn_id n, p)] else local_nodes (g_loc g)) \<and>
     distant_nodes (g_loc g') =
       (if dn_state n = DISTANT then distant_nodes (g_loc g) @ [(dn_id n, p)] else distant_nodes (g_loc g))"

lemma keys_loc:
  assumes "wf_loc g"
  shows "um_keys (local_nodes (g_loc g)) \<subseteq> um_keys (g_nodes g)" "um_keys (distant_nodes (g_loc g)) \<subseteq> um_keys (g_nodes g)"
  using assms by (auto simp: wf_loc_def nodes_in_def)

lemma adj_empty [simp]: "adj [] (\<lambda>l. {})"
  by (simp add: adj_def)

lemma node_added_wf:
  assumes "wf_graph g" "node_added p n g g'" "dn_id n \<notin> view_nodes g" "p \<notin> nptrs g" "dn_in n = []" "dn_out n = []"
  shows "wf_graph g'"
proof -
  note wf = wf_graphD [OF assms(1)]
  note add = assms(2) [unfolded node_added_def]
  have ptrs: "nptrs g' = insert p (nptrs g)" using add by auto
  have heap: "heap_n g' q = heap_n g q" if "q \<in> nptrs g" for q using add that assms(4) by auto
  have states: "nodes_in st g' = (if dn_state n = st then insert (dn_id n, p) (nodes_in st g) else nodes_in st g)" for st
  proof -
    have "(i, q) \<in> nodes_in st g' \<longleftrightarrow> (i, q) \<in> nodes_in st g \<or> i = dn_id n \<and> q = p \<and> dn_state n = st" for i q
    proof (cases "q = p")
      case True
      then have "(i, q) \<notin> set (g_nodes g)" using assms(4) by force
      with True add show ?thesis by (auto simp: nodes_in_def)
    qed (use add in \<open>auto simp: nodes_in_def\<close>)
    then show ?thesis by auto
  qed
  have ends: "de_src ed \<noteq> p \<and> de_tgt ed \<noteq> p" if "e \<in> eptrs g" "heap_e g e = Some ed" for e ed
    using wf_edge [OF wf(1) that(1)] that(2) assms(4) by (metis option.inject)
  have none: "incident de_src p (eptrs g) g = (\<lambda>l. {})" "incident de_tgt p (eptrs g) g = (\<lambda>l. {})"
    unfolding incident_def fun_eq_iff using ends by blast+
  have "wf_index g'"
    unfolding wf_index_def ptrs
  proof (intro conjI allI impI)
    show "um_wf (g_nodes g')" "um_wf (g_edges g')" using add wf_indexD(1,2) [OF wf(1)] assms(3) by auto
    fix i q assume "(i, q) \<in> set (g_nodes g')"
    then consider "(i, q) \<in> set (g_nodes g)" | "i = dn_id n" "q = p" using add by auto
    then show "\<exists>m. heap_n g' q = Some m \<and> dn_id m = i"
    proof cases
      case 1
      then have "q \<in> nptrs g" by force
      with 1 heap wf_indexD(3) [OF wf(1) 1] show ?thesis by simp
    qed (use add in simp)
  next
    fix i e assume "(i, e) \<in> set (g_edges g')"
    then show "\<exists>ed. heap_e g' e = Some ed \<and> de_id ed = i \<and> de_src ed \<in> insert p (nptrs g) \<and> de_tgt ed \<in> insert p (nptrs g)"
      using add wf_indexD(4) [OF wf(1), of i e] by auto
  qed
  moreover have "wf_adj (eptrs g') g'"
    unfolding wf_adj_def ptrs
  proof (intro allI impI)
    fix q m assume q: "q \<in> insert p (nptrs g)" "heap_n g' q = Some m"
    have inc: "incident endp q (eptrs g') g' = incident endp q (eptrs g) g" for endp
      using add by (simp add: incident_heap [of g' g])
    show "adj (dn_in m) (incident de_tgt q (eptrs g') g') \<and> adj (dn_out m) (incident de_src q (eptrs g') g')"
    proof (cases "q = p")
      case True
      with q add have "m = n" by simp
      with True assms(5,6) show ?thesis by (simp add: inc [unfolded True] none)
    next
      case False
      with q(1) have ptr: "q \<in> nptrs g" by blast
      with heap [OF ptr] q(2) have "heap_n g q = Some m" by simp
      from wf_adjD [OF wf(2) ptr this] show ?thesis by (simp add: inc)
    qed
  qed
  moreover have "wf_loc g'"
    using add wf(3) keys_loc [OF wf(3)] assms(3) states [of LOCAL] states [of DISTANT]
    by (cases "dn_state n") (auto simp: wf_loc_def)
  moreover have "wf_state g'"
    using wf(4) add ends by (fastforce simp: wf_state_def end_local_def)
  moreover have "wf_heap g'" using wf(5) add by (auto simp: wf_heap_def)
  ultimately show ?thesis by (simp add: wf_graph_def)
qed

lemma edge_view_added:
  assumes "wf_graph g" "node_added p n g g'" "p \<notin> nptrs g" "e \<in> eptrs g"
  shows "edge_view g' e = edge_view g e"
proof -
  obtain ed where "heap_e g e = Some ed" "de_src ed \<in> nptrs g" "de_tgt ed \<in> nptrs g"
    by (rule wf_edge [OF wf_graphD(1) [OF assms(1)] assms(4)])
  moreover from this assms(3) have "de_src ed \<noteq> p" "de_tgt ed \<noteq> p" by auto
  ultimately show ?thesis using assms(2) by (simp add: edge_view_def node_added_def)
qed

lemma view_edges_added:
  assumes "wf_graph g" "node_added p n g g'" "p \<notin> nptrs g"
  shows "view_edges g' = view_edges g"
proof -
  have "g_edges g' = g_edges g" using assms(2) by (simp add: node_added_def)
  moreover have "edge_view g' e = edge_view g e" if "(i, e) \<in> set (g_edges g)" for i e
    using edge_view_added [OF assms] that by force
  ultimately show ?thesis by (auto simp: view_edges_def)
qed

lemma fresh_ptr:
  assumes "wf_graph g"
  shows "heap_n g (next_ptr g) = None" "heap_e g (next_ptr g) = None" "next_ptr g \<notin> nptrs g" "next_ptr g \<notin> eptrs g"
proof -
  show none: "heap_n g (next_ptr g) = None" "heap_e g (next_ptr g) = None"
    using wf_graphD(5) [OF assms] by (simp_all add: wf_heap_def)
  show "next_ptr g \<notin> nptrs g" using none(1) wf_node [OF wf_graphD(1) [OF assms]] by (metis option.distinct(1))
  show "next_ptr g \<notin> eptrs g" using none(2) wf_edge [OF wf_graphD(1) [OF assms]] by (metis option.distinct(1))
qed

section \<open>Linking two nodes\<close>

definition join_edge :: "ptr \<Rightarrow> dedge \<Rightarrow> ptr \<Rightarrow> 'd gnode \<Rightarrow> 'd gnode" where
  "join_edge e ed p n =
     n\<lparr>dn_in := if p = de_tgt ed then um_push (de_layer ed) e (dn_in n) else dn_in n,
       dn_out := if p = de_src ed then um_push (de_layer ed) e (dn_out n) else dn_out n\<rparr>"

lemma join_edge_simps [simp]: "dn_id (join_edge e ed p n) = dn_id n" "dn_state (join_edge e ed p n) = dn_state n"
  by (simp_all add: join_edge_def)

lemma join_edge_other [simp]: "p \<noteq> de_src ed \<Longrightarrow> p \<noteq> de_tgt ed \<Longrightarrow> map_option (join_edge e ed p) n = n"
  by (cases n) (simp_all add: join_edge_def)

definition edge_added :: "ptr \<Rightarrow> dedge \<Rightarrow> ('d, 'l) dgraph \<Rightarrow> ('d, 'l) dgraph \<Rightarrow> bool" where
  "edge_added e ed g g' \<longleftrightarrow>
     heap_n g' = (\<lambda>p. map_option (join_edge e ed p) (heap_n g p)) \<and> heap_e g' = (heap_e g)(e \<mapsto> ed) \<and>
     g_nodes g' = g_nodes g \<and> g_edges g' = g_edges g @ [(de_id ed, e)] \<and> g_loc g' = g_loc g \<and>
     e < next_ptr g' \<and> next_ptr g \<le> next_ptr g'"

lemma edge_added_wf:
  assumes "wf_graph g" "edge_added e ed g g'" "de_id ed \<notin> um_keys (g_edges g)" "e \<notin> eptrs g"
    and "de_src ed \<in> nptrs g" "de_tgt ed \<in> nptrs g"
    and "de_state ed = LOCAL \<Longrightarrow> end_local (de_src ed) g \<and> end_local (de_tgt ed) g"
  shows "wf_graph g'"
proof -
  note wf = wf_graphD [OF assms(1)]
  note add = assms(2) [unfolded edge_added_def]
  have E: "eptrs g' = insert e (eptrs g)" using add by auto
  have states: "nodes_in st g' = nodes_in st g" "end_local p g' \<longleftrightarrow> end_local p g" for st p
    using add by (auto simp: nodes_in_def end_local_def)
  have heap: "heap_e g' f = heap_e g f" if "f \<in> eptrs g" for f using that assms(4) add by auto
  have "wf_index g'"
    unfolding wf_index_def
  proof (intro conjI allI impI)
    show "um_wf (g_nodes g')" "um_wf (g_edges g')" using add wf_indexD(1,2) [OF wf(1)] assms(3) by auto
    fix i q assume "(i, q) \<in> set (g_nodes g')"
    then show "\<exists>m. heap_n g' q = Some m \<and> dn_id m = i" using add wf_indexD(3) [OF wf(1), of i q] by auto
  next
    fix i f assume "(i, f) \<in> set (g_edges g')"
    then consider "(i, f) \<in> set (g_edges g)" | "i = de_id ed" "f = e" using add by auto
    then show "\<exists>fd. heap_e g' f = Some fd \<and> de_id fd = i \<and> de_src fd \<in> nptrs g' \<and> de_tgt fd \<in> nptrs g'"
    proof cases
      case 1
      then have "f \<in> eptrs g" by force
      with 1 heap wf_indexD(4) [OF wf(1) 1] add show ?thesis by simp
    qed (use add assms(5,6) in simp)
  qed
  moreover have "wf_adj (eptrs g') g'"
    unfolding wf_adj_def E
  proof (intro allI impI)
    fix p n assume p: "p \<in> nptrs g'" "heap_n g' p = Some n"
    then obtain n0 where n0: "heap_n g p = Some n0" "n = join_edge e ed p n0" using add by auto
    have inc: "incident endp p (insert e (eptrs g)) g' l =
        (if p = endp ed \<and> l = de_layer ed then insert e (incident endp p (eptrs g) g l) else incident endp p (eptrs g) g l)" for endp l
      using add assms(4) by (auto simp: incident_def)
    have new: "e \<notin> incident endp p (eptrs g) g l" for endp l using assms(4) by (simp add: incident_def)
    from p(1) add have "p \<in> nptrs g" by simp
    from wf_adjD [OF wf(2) this n0(1)]
    show "adj (dn_in n) (incident de_tgt p (insert e (eptrs g)) g') \<and> adj (dn_out n) (incident de_src p (insert e (eptrs g)) g')"
      unfolding n0(2) inc [abs_def] join_edge_def
      using new by (auto intro: adj_cong adj_push [THEN adj_cong])
  qed
  moreover have "wf_loc g'" using wf(3) add states by (simp add: wf_loc_def)
  moreover have "wf_state g'"
    unfolding wf_state_def E
  proof (intro ballI allI impI)
    fix f fd assume f: "f \<in> insert e (eptrs g)" "heap_e g' f = Some fd" "de_state fd = LOCAL"
    show "end_local (de_src fd) g' \<and> end_local (de_tgt fd) g'"
    proof (cases "f = e")
      case True
      with f add assms(7) states show ?thesis by auto
    next
      case False
      with f(1) have "f \<in> eptrs g" by blast
      with f heap [OF this] wf(4) states show ?thesis by (auto simp: wf_state_def)
    qed
  qed
  moreover have "wf_heap g'" using wf(5) add by (auto simp: wf_heap_def)
  ultimately show ?thesis by (simp add: wf_graph_def)
qed

lemma edge_view_cong:
  "heap_e g' e = heap_e g e \<Longrightarrow> (\<And>p. map_option dn_id (heap_n g' p) = map_option dn_id (heap_n g p)) \<Longrightarrow>
     edge_view g' e = edge_view g e"
  by (cases "heap_e g e") (simp_all add: edge_view_def)

lemma view_edges_joined:
  assumes "wf_graph g" "edge_added e ed g g'" "e \<notin> eptrs g"
    and "heap_n g (de_src ed) = Some s" "heap_n g (de_tgt ed) = Some t"
  shows "view_edges g' = insert (de_id ed, dn_id s, de_layer ed, dn_id t) (view_edges g)"
proof -
  note add = assms(2) [unfolded edge_added_def]
  have new: "edge_view g' e = Some (dn_id s, de_layer ed, dn_id t)"
    using add assms(4,5) by (simp add: edge_view_def)
  have old: "edge_view g' f = edge_view g f" if "(i, f) \<in> set (g_edges g)" for i f
  proof -
    from that assms(3) have "f \<noteq> e" by force
    with add show ?thesis by (intro edge_view_cong) (simp_all add: option.map_comp comp_def)
  qed
  have "(i, v) \<in> view_edges g' \<longleftrightarrow> (i, v) = (de_id ed, dn_id s, de_layer ed, dn_id t) \<or> (i, v) \<in> view_edges g" for i v
    using add new old by (auto simp: view_edges_def)
  then show ?thesis by auto
qed

lemma view_edges_minus:
  assumes "edges_gone es g g'"
  shows "(j, v) \<in> view_edges g' \<longleftrightarrow> (\<exists>e. (j, e) \<in> set (g_edges g) \<and> e \<notin> es \<and> edge_view g e = Some v)"
proof -
  have ids: "map_option dn_id (heap_n g' p) = map_option dn_id (heap_n g p)" for p
    using edges_goneD(6) [OF assms, of p] by (cases "heap_n g p"; cases "heap_n g' p") (auto simp: node_core_def)
  have "edge_view g' e = edge_view g e" if "e \<notin> es" for e
    using that by (intro edge_view_cong) (simp_all add: ids edges_goneD(5) [OF assms])
  then show ?thesis by (auto simp: view_edges_def edges_goneD(4) [OF assms])
qed

lemma view_edges_less:
  assumes "wf_graph g" "edges_gone {e} g g'"
  shows "view_edges g' = {(i, v). (i, v) \<in> view_edges g \<and> (i, e) \<notin> set (g_edges g)}"
proof -
  have "(i, f) \<in> set (g_edges g) \<and> f \<noteq> e \<longleftrightarrow> (i, f) \<in> set (g_edges g) \<and> (i, e) \<notin> set (g_edges g)" for i f
    using wf_id_unique [OF wf_indexD(2) [OF wf_graphD(1) [OF assms(1)]]] by blast
  then have "(i, v) \<in> view_edges g' \<longleftrightarrow> (i, v) \<in> view_edges g \<and> (i, e) \<notin> set (g_edges g)" for i v
    unfolding view_edges_minus [OF assms(2)] by (auto simp: view_edges_def)
  then show ?thesis by auto
qed

lemma view_edges_cut:
  assumes "wf_graph g" "(i, p) \<in> set (g_nodes g)" "edges_gone (ends_at de_src p g \<union> ends_at de_tgt p g) g g'"
  shows "(j, s, l, t) \<in> view_edges g' \<longleftrightarrow> (j, s, l, t) \<in> view_edges g \<and> s \<noteq> i \<and> t \<noteq> i"
  unfolding view_edges_minus [OF assms(3)]
  using edge_view_ends [OF wf_graphD(1) [OF assms(1)] assms(2)] by (fastforce simp: view_edges_def)

lemma erase_edge_linker: "erase_edge e g = Inr g' \<Longrightarrow> sync_linker g' = sync_linker g"
  by (auto simp: erase_edge_def unlinkOut_def unlinkIn_def upd_n_def delete_e_def event_def)

lemma join_heap:
  assumes "heap_n g (de_src ed) = Some s" "heap_n g (de_tgt ed) = Some t"
  shows "(\<lambda>p. map_option (join_edge e ed p) (heap_n g p)) =
           (if de_src ed = de_tgt ed
            then (heap_n g)(de_tgt ed \<mapsto> s\<lparr>dn_out := um_push (de_layer ed) e (dn_out s),
                                            dn_in := um_push (de_layer ed) e (dn_in s)\<rparr>)
            else (heap_n g)(de_src ed \<mapsto> s\<lparr>dn_out := um_push (de_layer ed) e (dn_out s)\<rparr>,
                            de_tgt ed \<mapsto> t\<lparr>dn_in := um_push (de_layer ed) e (dn_in t)\<rparr>))"
  using assms by (auto simp: fun_eq_iff join_edge_def)

definition linked_edge :: "'d gnode \<Rightarrow> 'd gnode \<Rightarrow> ptr \<Rightarrow> ptr \<Rightarrow> layer_id \<Rightarrow> ('d, 'l) dgraph \<Rightarrow> dedge" where
  "linked_edge s t src tgt layer g = (new_edge src tgt (edge_counter g) layer)
     \<lparr>de_state := if dn_state s = LOCAL \<and> dn_state t = LOCAL then LOCAL else DISTANT\<rparr>"

definition linked :: "dedge \<Rightarrow> ('d, 'l) dgraph \<Rightarrow> ('d, 'l) dgraph" where
  "linked ed g = g\<lparr>edge_counter := snd (id_post_inc (edge_counter g)), next_ptr := Suc (next_ptr g),
     heap_n := (\<lambda>p. map_option (join_edge (next_ptr g) ed p) (heap_n g p)),
     heap_e := (heap_e g)(next_ptr g \<mapsto> ed)\<rparr>"

lemma linked_edge_simps [simp]:
  "de_src (linked_edge s t src tgt layer g) = src" "de_tgt (linked_edge s t src tgt layer g) = tgt"
  "de_layer (linked_edge s t src tgt layer g) = layer" "de_id (linked_edge s t src tgt layer g) = edge_counter g"
  by (simp_all add: linked_edge_def new_edge_def)

lemma use_mutex_some: "heap_n g p = Some n \<Longrightarrow> dn_mutex n \<Longrightarrow> use_mutex p g = Inr g"
  by (simp add: use_mutex_def heap_ops)

lemma link_nodes_eq:
  assumes "heap_n g src = Some s" "heap_n g tgt = Some t" "dn_mutex s" "dn_mutex t"
  shows "link_nodes sync_link src tgt layer g =
           and_then (sync_link (next_ptr g) (linked (linked_edge s t src tgt layer g) g)) (\<lambda>g1.
           and_then (insert_edge (next_ptr g) g1) (\<lambda>g. and_then (use_mutex src g) (use_mutex tgt)))"
  using assms join_heap [of g "linked_edge s t src tgt layer g" s t "next_ptr g"]
  by (cases "src = tgt"; cases "dn_state s = LOCAL"; cases "dn_state t = LOCAL")
    (simp_all add: link_nodes_def use_mutex_some heap_ops id_post_inc_def alloc_e_def linkOut_def linkIn_def
      both_local_def linked_def linked_edge_def new_edge_def)

locale buffering_linker =
  fixes sync_link sync_unlink :: "ptr \<Rightarrow> ('d, 'l) dgraph \<Rightarrow> graph_fault + ('d, 'l) dgraph"
    and link_to unlink_to :: "dedge \<Rightarrow> 'd gnode \<Rightarrow> 'd gnode \<Rightarrow> ptr \<Rightarrow> 'l \<Rightarrow> 'l"
  assumes link_buffers: "heap_e g e = Some ed \<Longrightarrow> heap_n g (de_src ed) = Some s \<Longrightarrow> heap_n g (de_tgt ed) = Some t \<Longrightarrow>
      sync_link e g = Inr (g\<lparr>sync_linker := link_to ed s t e (sync_linker g)\<rparr>)"
    and unlink_buffers: "heap_e g e = Some ed \<Longrightarrow> heap_n g (de_src ed) = Some s \<Longrightarrow> heap_n g (de_tgt ed) = Some t \<Longrightarrow>
      sync_unlink e g = Inr (g\<lparr>sync_linker := unlink_to ed s t e (sync_linker g)\<rparr>)"
begin

lemma link_nodes_added:
  assumes "wf_graph g" "heap_n g src = Some s" "heap_n g tgt = Some t" "dn_mutex s" "dn_mutex t"
    and "edge_counter g \<notin> um_keys (g_edges g)"
  shows "\<exists>g'. link_nodes sync_link src tgt layer g = Inr g' \<and>
           edge_added (next_ptr g) (linked_edge s t src tgt layer g) g g' \<and>
           sync_linker g' = link_to (linked_edge s t src tgt layer g) (join_edge (next_ptr g) (linked_edge s t src tgt layer g) src s)
             (join_edge (next_ptr g) (linked_edge s t src tgt layer g) tgt t) (next_ptr g) (sync_linker g)"
proof -
  let ?ed = "linked_edge s t src tgt layer g" and ?g = "linked (linked_edge s t src tgt layer g) g"
  have e: "heap_e ?g (next_ptr g) = Some ?ed" by (simp add: linked_def)
  have n: "heap_n ?g src = Some (join_edge (next_ptr g) ?ed src s)" "heap_n ?g tgt = Some (join_edge (next_ptr g) ?ed tgt t)"
    using assms(2,3) by (simp_all add: linked_def)
  have l: "sync_link (next_ptr g) ?g = Inr (?g\<lparr>sync_linker :=
      link_to ?ed (join_edge (next_ptr g) ?ed src s) (join_edge (next_ptr g) ?ed tgt t) (next_ptr g) (sync_linker ?g)\<rparr>)"
    by (rule link_buffers [OF e]) (simp_all only: linked_edge_simps n)
  have "dn_mutex (join_edge e' ed' p n) = dn_mutex n" for e' ed' p and n :: "'d gnode" by (simp add: join_edge_def)
  then show ?thesis
    using assms e n
    by (simp add: link_nodes_eq l insert_edge_def use_mutex_some heap_ops um_insert_def)
      (simp add: edge_added_def linked_def event_def)
qed

lemma link_nodes_refines:
  assumes "wf_graph g" "src \<in> nptrs g" "tgt \<in> nptrs g" "heap_n g src = Some s" "heap_n g tgt = Some t"
    and "dn_mutex s" "dn_mutex t" "edge_counter g \<notin> um_keys (g_edges g)"
  shows "\<exists>g' ed s' t'. link_nodes sync_link src tgt layer g = Inr g' \<and> wf_graph g' \<and> view_nodes g' = view_nodes g \<and>
           view_edges g' = insert (edge_counter g, dn_id s, layer, dn_id t) (view_edges g) \<and>
           heap_e g' (next_ptr g) = Some ed \<and> (de_state ed = LOCAL \<longleftrightarrow> dn_state s = LOCAL \<and> dn_state t = LOCAL) \<and>
           sync_linker g' = link_to ed s' t' (next_ptr g) (sync_linker g)"
proof -
  let ?ed = "linked_edge s t src tgt layer g"
  obtain g' s' t' where g': "link_nodes sync_link src tgt layer g = Inr g'" "edge_added (next_ptr g) ?ed g g'"
    "sync_linker g' = link_to ?ed s' t' (next_ptr g) (sync_linker g)"
    using link_nodes_added [OF assms(1,4-8)] by blast
  have state: "de_state ?ed = LOCAL \<longleftrightarrow> dn_state s = LOCAL \<and> dn_state t = LOCAL" by (simp add: linked_edge_def)
  note fresh = fresh_ptr [OF assms(1)]
  have "wf_graph g'"
    by (rule edge_added_wf [OF assms(1) g'(2)]) (use assms fresh state in \<open>auto simp: end_local_def\<close>)
  moreover have "view_edges g' = insert (edge_counter g, dn_id s, layer, dn_id t) (view_edges g)"
    using view_edges_joined [OF assms(1) g'(2) fresh(4), of s t] assms(4,5) by simp
  moreover have "g_nodes g' = g_nodes g" "heap_e g' (next_ptr g) = Some ?ed" using g'(2) by (simp_all add: edge_added_def)
  ultimately show ?thesis using g'(1,3) state by auto
qed

lemma unlink_gone:
  assumes "wf_graph g" "e \<in> eptrs g"
  shows "\<exists>g' ed s t. unlink sync_unlink e g = Inr g' \<and> edges_gone {e} g g' \<and> heap_e g e = Some ed \<and>
           heap_n g (de_src ed) = Some s \<and> heap_n g (de_tgt ed) = Some t \<and> sync_linker g' = unlink_to ed s t e (sync_linker g)"
proof -
  note wf = wf_graphD [OF assms(1)]
  obtain ed where ed: "heap_e g e = Some ed" "de_src ed \<in> nptrs g" "de_tgt ed \<in> nptrs g" by (rule wf_edge [OF wf(1) assms(2)])
  obtain s where s: "heap_n g (de_src ed) = Some s" by (rule wf_node [OF wf(1) ed(2)])
  obtain t where t: "heap_n g (de_tgt ed) = Some t" by (rule wf_node [OF wf(1) ed(3)])
  let ?g = "g\<lparr>sync_linker := unlink_to ed s t e (sync_linker g)\<rparr>"
  have "wf_graph ?g" by (rule wf_graph_same [OF assms(1)]) simp_all
  then obtain g' where g': "erase_edge e ?g = Inr g'" "edges_gone {e} ?g g'"
    using erase_edge_gone [of ?g e] assms(2) by auto
  have "edges_gone {e} g g'" using g'(2) by (simp add: edges_gone_def)
  moreover have "sync_linker g' = sync_linker ?g" by (rule erase_edge_linker [OF g'(1)])
  ultimately show ?thesis using g'(1) unlink_buffers [OF ed(1) s t] ed(1) s t by (simp add: unlink_def)
qed

lemma unlink_refines:
  assumes "wf_graph g" "(i, e) \<in> set (g_edges g)"
  shows "\<exists>g' ed s t. unlink sync_unlink e g = Inr g' \<and> wf_graph g' \<and> view_nodes g' = view_nodes g \<and>
           view_edges g' = {(j, v). (j, v) \<in> view_edges g \<and> j \<noteq> i} \<and> heap_e g e = Some ed \<and>
           heap_n g (de_src ed) = Some s \<and> heap_n g (de_tgt ed) = Some t \<and> sync_linker g' = unlink_to ed s t e (sync_linker g)"
proof -
  from assms(2) have e: "e \<in> eptrs g" by force
  obtain g' ed s t where g': "unlink sync_unlink e g = Inr g'" "edges_gone {e} g g'" "heap_e g e = Some ed"
    "heap_n g (de_src ed) = Some s" "heap_n g (de_tgt ed) = Some t" "sync_linker g' = unlink_to ed s t e (sync_linker g)"
    using unlink_gone [OF assms(1) e] by blast
  have "(j, e) \<in> set (g_edges g) \<longleftrightarrow> j = i" for j
    using assms(2) wf_indexD(4) [OF wf_graphD(1) [OF assms(1)]] by (metis option.inject)
  then have "view_edges g' = {(j, v). (j, v) \<in> view_edges g \<and> j \<noteq> i}"
    using view_edges_less [OF assms(1) g'(2)] by simp
  then show ?thesis using g' edges_goneD(1,2) [OF g'(2)] by auto
qed

lemma unlink_edges_gone:
  assumes "wf_graph g" "p \<in> nptrs g"
  shows "\<exists>n g1 m g2. heap_n g p = Some n \<and> run_all (unlink sync_unlink) (getOutgoingEdges n) g = Inr g1 \<and>
           heap_n g1 p = Some m \<and> run_all (unlink sync_unlink) (getIncomingEdges m) g1 = Inr g2 \<and>
           edges_gone (ends_at de_src p g \<union> ends_at de_tgt p g) g g2"
  by (rule run_edges_of [OF _ assms]) (use unlink_gone in \<open>blast, simp\<close>)

end

end
