(* ===== verification/Graph_Import.thy ===== *)
theory Graph_Import
  imports Graph_Growth
begin

text \<open>
  What changes of location, imports of nodes and the clearing of distant nodes do to the graph of a process.
\<close>

section \<open>Changes of state\<close>

text \<open>A node changes to a state; the edges of a node that becomes distant become distant with it.\<close>

definition restated :: "location_state \<Rightarrow> ptr \<Rightarrow> 'd gnode \<Rightarrow> 'd gnode \<Rightarrow> ('d, 'l) dgraph \<Rightarrow> ('d, 'l) dgraph \<Rightarrow> bool" where
  "restated st q n m g g' \<longleftrightarrow>
     heap_n g q = Some n \<and> heap_n g' q = Some m \<and> dn_id m = dn_id n \<and> dn_in m = dn_in n \<and> dn_out m = dn_out n \<and>
     dn_state m = st \<and> (\<forall>p\<in>nptrs g. p \<noteq> q \<longrightarrow> heap_n g' p = heap_n g p) \<and>
     (\<forall>e\<in>eptrs g. heap_e g' e = map_option
        (\<lambda>ed. if st = DISTANT \<and> (de_src ed = q \<or> de_tgt ed = q) then ed\<lparr>de_state := DISTANT\<rparr> else ed) (heap_e g e)) \<and>
     g_nodes g' = g_nodes g \<and> g_edges g' = g_edges g \<and>
     local_nodes (g_loc g') = (if st = LOCAL then um_insert else (\<lambda>i p. um_erase i)) (dn_id n) q (local_nodes (g_loc g)) \<and>
     distant_nodes (g_loc g') = (if st = DISTANT then um_insert else (\<lambda>i p. um_erase i)) (dn_id n) q (distant_nodes (g_loc g))"

lemma restated_nodes_in:
  assumes "wf_graph g" "restated st q n m g g'" "(dn_id n, q) \<in> set (g_nodes g)"
  shows "nodes_in st' g' = (if st' = st then insert (dn_id n, q) (nodes_in st' g) else {x \<in> nodes_in st' g. fst x \<noteq> dn_id n})"
proof -
  note wf = wf_graphD [OF assms(1)]
  from assms(2) have q: "heap_n g' q = Some m" "dn_state m = st" and nodes: "g_nodes g' = g_nodes g"
    and heap: "\<And>p. p \<in> nptrs g \<Longrightarrow> p \<noteq> q \<Longrightarrow> heap_n g' p = heap_n g p"
    unfolding restated_def by blast+
  have in_nodes: "(i, p) \<in> nodes_in s h \<longleftrightarrow> (i, p) \<in> set (g_nodes h) \<and> (\<exists>n. heap_n h p = Some n \<and> dn_state n = s)"
    for i p s and h :: "('a, 'b) dgraph" by (simp add: nodes_in_def)
  have "(i, p) \<in> nodes_in st' g' \<longleftrightarrow>
      (if st' = st then (i, p) = (dn_id n, q) \<or> (i, p) \<in> nodes_in st' g else (i, p) \<in> nodes_in st' g \<and> i \<noteq> dn_id n)" for i p
  proof (cases "(i, p) \<in> set (g_nodes g)")
    case True
    then have p: "p \<in> nptrs g" by force
    have same: "i = dn_id n \<longleftrightarrow> p = q" by (rule id_ptr [OF wf(1) True assms(3)])
    show ?thesis
    proof (cases "p = q")
      case True
      with same q assms(3) show ?thesis by (simp add: in_nodes nodes)
    next
      case False
      with heap [OF p] same show ?thesis by (simp add: in_nodes nodes)
    qed
  next
    case False
    then have "(i, p) \<noteq> (dn_id n, q)" using assms(3) by auto
    with False show ?thesis by (simp add: in_nodes nodes)
  qed
  then have "x \<in> nodes_in st' g' \<longleftrightarrow>
      x \<in> (if st' = st then insert (dn_id n, q) (nodes_in st' g) else {x \<in> nodes_in st' g. fst x \<noteq> dn_id n})" for x
    by (cases x) simp
  then show ?thesis by blast
qed

lemma restated_wf:
  assumes "wf_graph g" "restated st q n m g g'" "(dn_id n, q) \<in> set (g_nodes g)" "wf_heap g'"
  shows "wf_graph g'"
proof -
  note wf = wf_graphD [OF assms(1)]
  note re = assms(2) [unfolded restated_def]
  from re have q: "heap_n g q = Some n" "heap_n g' q = Some m" "dn_id m = dn_id n" "dn_in m = dn_in n" "dn_out m = dn_out n"
      "dn_state m = st"
    and same: "g_nodes g' = g_nodes g" "g_edges g' = g_edges g" by blast+
  have heap: "heap_n g' p = heap_n g p" if "p \<in> nptrs g" "p \<noteq> q" for p using re that by blast
  have edge: "\<exists>fd. heap_e g' e = Some fd \<and> de_id fd = de_id ed \<and> de_src fd = de_src ed \<and> de_tgt fd = de_tgt ed \<and>
      de_layer fd = de_layer ed \<and> (de_state fd = LOCAL \<longrightarrow> de_state ed = LOCAL \<and> (st = DISTANT \<longrightarrow> de_src ed \<noteq> q \<and> de_tgt ed \<noteq> q))"
    if "e \<in> eptrs g" "heap_e g e = Some ed" for e ed
  proof -
    from re that(1) have "heap_e g' e = map_option
        (\<lambda>ed. if st = DISTANT \<and> (de_src ed = q \<or> de_tgt ed = q) then ed\<lparr>de_state := DISTANT\<rparr> else ed) (heap_e g e)" by blast
    with that(2) show ?thesis by simp
  qed
  have inc: "incident endp p (eptrs g') g' = incident endp p (eptrs g) g" if endp: "endp = de_src \<or> endp = de_tgt" for endp p
  proof -
    have "(\<exists>fd. heap_e g' e = Some fd \<and> endp fd = p \<and> de_layer fd = l) \<longleftrightarrow> (\<exists>ed. heap_e g e = Some ed \<and> endp ed = p \<and> de_layer ed = l)"
      if e: "e \<in> eptrs g" for e l
    proof -
      obtain ed where ed: "heap_e g e = Some ed" by (rule wf_edge [OF wf(1) e])
      with edge [OF e ed] endp show ?thesis by auto
    qed
    then have "{e \<in> eptrs g. \<exists>fd. heap_e g' e = Some fd \<and> endp fd = p \<and> de_layer fd = l} =
        {e \<in> eptrs g. \<exists>ed. heap_e g e = Some ed \<and> endp ed = p \<and> de_layer ed = l}" for l by blast
    then show ?thesis by (simp add: incident_def fun_eq_iff same)
  qed
  have "wf_index g'"
    unfolding wf_index_def same
  proof (intro conjI allI impI)
    show "um_wf (g_nodes g)" "um_wf (g_edges g)" using wf_indexD(1,2) [OF wf(1)] by simp_all
    fix i p assume p: "(i, p) \<in> set (g_nodes g)"
    then have "p \<in> nptrs g" by force
    with id_ptr [OF wf(1) p assms(3)] wf_indexD(3) [OF wf(1) p] q heap
    show "\<exists>n. heap_n g' p = Some n \<and> dn_id n = i" by (cases "p = q") auto
  next
    fix i e assume e: "(i, e) \<in> set (g_edges g)"
    then have E: "e \<in> eptrs g" by force
    obtain ed where ed: "heap_e g e = Some ed" "de_id ed = i" "de_src ed \<in> nptrs g" "de_tgt ed \<in> nptrs g"
      using wf_indexD(4) [OF wf(1) e] by blast
    from edge [OF E ed(1)] ed(2-4)
    show "\<exists>ed. heap_e g' e = Some ed \<and> de_id ed = i \<and> de_src ed \<in> nptrs g \<and> de_tgt ed \<in> nptrs g" by metis
  qed
  moreover have "wf_adj (eptrs g') g'"
    unfolding wf_adj_def
  proof (intro allI impI)
    fix p k assume p: "p \<in> nptrs g'" "heap_n g' p = Some k"
    from p(1) have P: "p \<in> nptrs g" by (simp only: same)
    obtain k0 where "heap_n g p = Some k0" "dn_in k = dn_in k0" "dn_out k = dn_out k0"
      using p(2) q heap [OF P] by (cases "p = q") auto
    with wf_adjD [OF wf(2) P] show "adj (dn_in k) (incident de_tgt p (eptrs g') g') \<and> adj (dn_out k) (incident de_src p (eptrs g') g')"
      by (simp add: inc)
  qed
  moreover have "wf_loc g'"
  proof -
    have node: "(dn_id n, p) \<in> nodes_in s g \<longleftrightarrow> p = q \<and> dn_state n = s" for p s
      using assms(3) q(1) id_ptr [OF wf(1) _ assms(3), of "dn_id n" p] by (auto simp: nodes_in_def)
    have keys: "dn_id n \<in> um_keys (local_nodes (g_loc g)) \<longleftrightarrow> dn_state n = LOCAL"
      "dn_id n \<in> um_keys (distant_nodes (g_loc g)) \<longleftrightarrow> dn_state n = DISTANT"
      using wf(3) node by (force simp: wf_loc_def)+
    have lists: "local_nodes (g_loc g') = (if st = LOCAL then um_insert else (\<lambda>i p. um_erase i)) (dn_id n) q (local_nodes (g_loc g))"
      "distant_nodes (g_loc g') = (if st = DISTANT then um_insert else (\<lambda>i p. um_erase i)) (dn_id n) q (distant_nodes (g_loc g))"
      using re by blast+
    have nodes: "nodes_in s g' = (if s = st then insert (dn_id n, q) (nodes_in s g) else {x \<in> nodes_in s g. fst x \<noteq> dn_id n})" for s
      by (rule restated_nodes_in [OF assms(1-3)])
    have "(dn_id n, q) \<in> nodes_in (dn_state n) g" by (simp add: node)
    then show ?thesis
      using wf(3) keys
      by (cases st; cases "dn_state n") (simp_all add: wf_loc_def lists nodes insert_absorb)
  qed
  moreover have "wf_state g'"
    unfolding wf_state_def
  proof (intro ballI allI impI)
    fix e fd assume e: "e \<in> eptrs g'" "heap_e g' e = Some fd" "de_state fd = LOCAL"
    then have E: "e \<in> eptrs g" by (simp only: same)
    obtain ed where ed: "heap_e g e = Some ed" "de_src ed \<in> nptrs g" "de_tgt ed \<in> nptrs g" by (rule wf_edge [OF wf(1) E])
    from edge [OF E ed(1)] e(2,3) have edge': "de_state ed = LOCAL" "de_src fd = de_src ed" "de_tgt fd = de_tgt ed"
      "st = DISTANT \<Longrightarrow> de_src ed \<noteq> q \<and> de_tgt ed \<noteq> q" by auto
    with wf(4) E ed(1) have "end_local (de_src ed) g" "end_local (de_tgt ed) g" unfolding wf_state_def by blast+
    moreover have "end_local p g'" if "end_local p g" "p \<in> nptrs g" "st = DISTANT \<Longrightarrow> p \<noteq> q" for p
      using that q heap [of p] by (cases "p = q"; cases st) (auto simp: end_local_def)
    ultimately show "end_local (de_src fd) g' \<and> end_local (de_tgt fd) g'" using edge' ed(2,3) by simp
  qed
  ultimately show ?thesis using assms(4) by (simp add: wf_graph_def)
qed

section \<open>Local and distant nodes\<close>

lemma restated_view:
  assumes "wf_graph g" "restated st q n m g g'"
  shows "view_nodes g' = view_nodes g" "view_edges g' = view_edges g"
proof -
  note re = assms(2) [unfolded restated_def]
  from re have q: "heap_n g q = Some n" "heap_n g' q = Some m" "dn_id m = dn_id n"
    and same: "g_nodes g' = g_nodes g" "g_edges g' = g_edges g" by blast+
  show "view_nodes g' = view_nodes g" by (simp add: same)
  have ids: "map_option dn_id (heap_n g' p) = map_option dn_id (heap_n g p)" if "p \<in> nptrs g" for p
    using re q that by (cases "p = q") auto
  have "edge_view g' e = edge_view g e" if e: "e \<in> eptrs g" for e
  proof -
    obtain ed where ed: "heap_e g e = Some ed" "de_src ed \<in> nptrs g" "de_tgt ed \<in> nptrs g"
      by (rule wf_edge [OF wf_graphD(1) [OF assms(1)] e])
    from re e have "heap_e g' e = map_option
        (\<lambda>ed. if st = DISTANT \<and> (de_src ed = q \<or> de_tgt ed = q) then ed\<lparr>de_state := DISTANT\<rparr> else ed) (heap_e g e)" by blast
    then obtain fd where "heap_e g' e = Some fd" "de_src fd = de_src ed" "de_tgt fd = de_tgt ed" "de_layer fd = de_layer ed"
      using ed(1) by auto
    with ed(1) ids [OF ed(2)] ids [OF ed(3)] show ?thesis
      by (cases "heap_n g (de_src ed)"; cases "heap_n g (de_tgt ed)") (simp_all add: edge_view_def del: map_option_eq_Some)
  qed
  moreover have "e \<in> eptrs g" if "(i, e) \<in> set (g_edges g)" for i e using that by force
  ultimately show "view_edges g' = view_edges g" by (auto simp: view_edges_def same)
qed

lemma setLocal_restated:
  assumes "heap_n g q = Some n"
  shows "\<exists>g'. setLocal q g = Inr g' \<and> restated LOCAL q n (n\<lparr>dn_location := g_rank g, dn_state := LOCAL\<rparr>) g g' \<and>
           heap_n g' = (heap_n g)(q \<mapsto> n\<lparr>dn_location := g_rank g, dn_state := LOCAL\<rparr>) \<and>
           heap_e g' = heap_e g \<and> next_ptr g' = next_ptr g"
  using assms
  by (simp add: setLocal_def lm_setLocal_def heap_ops restated_def lm_local_def option.map_ident)

lemma run_edge_distant:
  assumes "\<And>e. e \<in> set es \<Longrightarrow> heap_e g e \<noteq> None"
  shows "run_all edge_distant es g =
           Inr (g\<lparr>heap_e := \<lambda>e. map_option (\<lambda>ed. if e \<in> set es then ed\<lparr>de_state := DISTANT\<rparr> else ed) (heap_e g e)\<rparr>)"
  using assms
proof (induction es arbitrary: g)
  case (Cons e es)
  from Cons.prems [of e] obtain ed where ed: "heap_e g e = Some ed" by auto
  let ?g = "g\<lparr>heap_e := (heap_e g)(e \<mapsto> ed\<lparr>de_state := DISTANT\<rparr>)\<rparr>"
  have "run_all edge_distant es ?g =
      Inr (?g\<lparr>heap_e := \<lambda>f. map_option (\<lambda>ed. if f \<in> set es then ed\<lparr>de_state := DISTANT\<rparr> else ed) (heap_e ?g f)\<rparr>)"
    by (rule Cons.IH) (use Cons.prems in auto)
  moreover have "(\<lambda>f. map_option (\<lambda>ed. if f \<in> set es then ed\<lparr>de_state := DISTANT\<rparr> else ed) (heap_e ?g f)) =
      (\<lambda>f. map_option (\<lambda>ed. if f \<in> set (e # es) then ed\<lparr>de_state := DISTANT\<rparr> else ed) (heap_e g f))"
    using ed by (auto simp: fun_eq_iff)
  moreover have "edge_distant e g = Inr ?g" using ed by (simp add: edge_distant_def heap_ops)
  ultimately show ?case by simp
qed (simp add: option.map_ident)

text \<open>The edges of a list become distant.\<close>

definition marked :: "ptr list \<Rightarrow> (ptr \<Rightarrow> dedge option) \<Rightarrow> ptr \<Rightarrow> dedge option" where
  "marked es h e = map_option (\<lambda>ed. if e \<in> set es then ed\<lparr>de_state := DISTANT\<rparr> else ed) (h e)"

lemma marked_other: "e \<notin> set es \<Longrightarrow> marked es h e = h e"
  by (simp add: marked_def option.map_ident)

lemma setDistant_eq:
  assumes "wf_graph g" "heap_n g q = Some n" "q \<in> nptrs g"
  shows "setDistant q g = Inr (event (Set_Distant q) ((upd_loc (lm_distant (dn_id n) q) (g\<lparr>heap_n := (heap_n g)(q \<mapsto> n\<lparr>dn_state := DISTANT\<rparr>)\<rparr>))
           \<lparr>heap_e := marked (getIncomingEdges n) (marked (getOutgoingEdges n) (heap_e g))\<rparr>))"
proof -
  note edges = node_edges [OF assms(1,3,2)]
  let ?n = "n\<lparr>dn_state := DISTANT\<rparr>"
  let ?g = "upd_loc (lm_distant (dn_id n) q) (g\<lparr>heap_n := (heap_n g)(q \<mapsto> ?n)\<rparr>)"
  have ends: "heap_e g e \<noteq> None" if "e \<in> ends_at endpoint q g" for e endpoint using that by (auto simp: ends_at_def)
  have "run_all edge_distant (getOutgoingEdges n) ?g = Inr (?g\<lparr>heap_e := marked (getOutgoingEdges n) (heap_e g)\<rparr>)"
    by (subst run_edge_distant) (use ends [of _ de_src] in \<open>simp_all add: edges marked_def [abs_def]\<close>)
  moreover have "run_all edge_distant (getIncomingEdges n) (?g\<lparr>heap_e := marked (getOutgoingEdges n) (heap_e g)\<rparr>) =
      Inr (?g\<lparr>heap_e := marked (getIncomingEdges n) (marked (getOutgoingEdges n) (heap_e g))\<rparr>)"
    by (subst run_edge_distant) (use ends [of _ de_tgt] in \<open>simp_all add: edges marked_def [abs_def]\<close>)
  moreover have "getOutgoingEdges ?n = getOutgoingEdges n" "getIncomingEdges ?n = getIncomingEdges n"
    by (simp_all add: getOutgoingEdges_def getIncomingEdges_def)
  ultimately show ?thesis
    using assms(2) by (simp add: setDistant_def lm_setDistant_def heap_ops upd_loc_def)
qed

lemma setDistant_restated:
  assumes "wf_graph g" "heap_n g q = Some n" "q \<in> nptrs g"
  shows "\<exists>g'. setDistant q g = Inr g' \<and> restated DISTANT q n (n\<lparr>dn_state := DISTANT\<rparr>) g g' \<and> wf_heap g' \<and>
           heap_n g' = (heap_n g)(q \<mapsto> n\<lparr>dn_state := DISTANT\<rparr>)"
proof -
  note edges = node_edges [OF assms(1,3,2)]
  let ?mark = "marked (getIncomingEdges n) (marked (getOutgoingEdges n) (heap_e g))"
  have "?mark e = map_option
      (\<lambda>ed. if DISTANT = DISTANT \<and> (de_src ed = q \<or> de_tgt ed = q) then ed\<lparr>de_state := DISTANT\<rparr> else ed) (heap_e g e)"
    if "e \<in> eptrs g" for e
    using that by (cases "heap_e g e") (simp_all add: edges ends_at_def marked_def)
  moreover have "\<not> next_ptr g \<le> q" using assms(2) wf_graphD(5) [OF assms(1)] by (auto simp: wf_heap_def)
  ultimately show ?thesis
    unfolding setDistant_eq [OF assms]
    using assms(2) wf_graphD(5) [OF assms(1)] by (auto simp: restated_def lm_distant_def wf_heap_def marked_def)
qed

lemma setDistant_wf:
  assumes "wf_graph g" "(i, q) \<in> set (g_nodes g)"
  shows "\<exists>g'. setDistant q g = Inr g' \<and> wf_graph g' \<and> view_nodes g' = view_nodes g \<and> view_edges g' = view_edges g \<and>
           nodes_in LOCAL g' = {x \<in> nodes_in LOCAL g. fst x \<noteq> i} \<and> nodes_in DISTANT g' = insert (i, q) (nodes_in DISTANT g)"
proof -
  obtain n where n: "heap_n g q = Some n" "dn_id n = i" using wf_indexD(3) [OF wf_graphD(1) [OF assms(1)] assms(2)] by blast
  from assms(2) have q: "q \<in> nptrs g" by force
  obtain g' where g': "setDistant q g = Inr g'" "restated DISTANT q n (n\<lparr>dn_state := DISTANT\<rparr>) g g'" "wf_heap g'"
    using setDistant_restated [OF assms(1) n(1) q] by blast
  have node: "(dn_id n, q) \<in> set (g_nodes g)" using assms(2) n(2) by simp
  show ?thesis
    using g'(1) restated_wf [OF assms(1) g'(2) node g'(3)] restated_view [OF assms(1) g'(2)]
      restated_nodes_in [OF assms(1) g'(2) node] n(2) by simp
qed

lemma setLocal_wf:
  assumes "wf_graph g" "(i, q) \<in> set (g_nodes g)"
  shows "\<exists>g'. setLocal q g = Inr g' \<and> wf_graph g' \<and> view_nodes g' = view_nodes g \<and> view_edges g' = view_edges g \<and>
           nodes_in LOCAL g' = insert (i, q) (nodes_in LOCAL g) \<and> nodes_in DISTANT g' = {x \<in> nodes_in DISTANT g. fst x \<noteq> i}"
proof -
  obtain n where n: "heap_n g q = Some n" "dn_id n = i" using wf_indexD(3) [OF wf_graphD(1) [OF assms(1)] assms(2)] by blast
  let ?n = "n\<lparr>dn_location := g_rank g, dn_state := LOCAL\<rparr>"
  obtain g' where g': "setLocal q g = Inr g'" "restated LOCAL q n ?n g g'" "heap_n g' = (heap_n g)(q \<mapsto> ?n)"
    "heap_e g' = heap_e g" "next_ptr g' = next_ptr g"
    using setLocal_restated [OF n(1)] by blast
  have node: "(dn_id n, q) \<in> set (g_nodes g)" using assms(2) n(2) by simp
  have "\<not> next_ptr g \<le> q" using n(1) wf_graphD(5) [OF assms(1)] by (auto simp: wf_heap_def)
  then have heap: "wf_heap g'" using wf_graphD(5) [OF assms(1)] g'(3-5) by (auto simp: wf_heap_def)
  show ?thesis
    using g'(1) restated_wf [OF assms(1) g'(2) node heap] restated_view [OF assms(1) g'(2)]
      restated_nodes_in [OF assms(1) g'(2) node] n(2) by simp
qed

section \<open>Importing a node\<close>

lemma import_fresh:
  assumes "wf_graph g" "heap_n g p = Some n" "p \<notin> nptrs g" "dn_id n \<notin> view_nodes g"
  shows "\<exists>g'. importNode p g = Inr g' \<and> node_added p (n\<lparr>dn_location := g_rank g, dn_state := LOCAL, dn_mutex := True\<rparr>) g g'"
proof -
  have "p < next_ptr g" using assms(2) wf_graphD(5) [OF assms(1)] by (metis not_le option.distinct(1) wf_heap_def)
  moreover have loc: "dn_id n \<notin> um_keys (local_nodes (g_loc g))" "dn_id n \<notin> um_keys (distant_nodes (g_loc g))"
    using keys_loc [OF wf_graphD(3) [OF assms(1)]] assms(4) by auto
  moreover from loc(2) have "um_erase (dn_id n) (distant_nodes (g_loc g)) = distant_nodes (g_loc g)"
    by (auto simp: um_erase_def filter_id_conv image_iff)
  ultimately show ?thesis
    using assms(2,4)
    by (simp add: importNode_def insert_node_def setLocal_def lm_setLocal_def setMutex_def heap_ops node_added_def lm_local_def
        um_insert_def)
qed

lemma import_known:
  assumes "wf_graph g" "heap_n g p = Some n" "p \<notin> nptrs g" "dn_id n \<in> view_nodes g"
  shows "\<exists>g' q m. importNode p g = Inr g' \<and> wf_graph g' \<and> view_nodes g' = view_nodes g \<and> view_edges g' = view_edges g \<and>
           (dn_id n, q) \<in> nodes_in LOCAL g' \<and> heap_n g' q = Some m \<and>
           dn_data m = dn_data n \<and> dn_weight m = dn_weight n \<and> dn_location m = g_rank g"
proof -
  note wf = wf_graphD [OF assms(1)]
  from assms(4) obtain q where q: "(dn_id n, q) \<in> set (g_nodes g)" "q \<in> nptrs g" by force
  then have get: "getNode (dn_id n) g = Inr q" using wf_indexD(1) [OF wf(1)] by (simp add: getNode_def)
  from q assms(3) have pq: "p \<noteq> q" by blast
  obtain k where k: "heap_n g q = Some k" "dn_id k = dn_id n" using wf_indexD(3) [OF wf(1) q(1)] by blast
  let ?k = "k\<lparr>dn_data := dn_data n, dn_weight := dn_weight n\<rparr>"
  let ?g = "g\<lparr>heap_n := (heap_n g)(q \<mapsto> ?k)\<rparr>"
  have "\<not> next_ptr g \<le> q" using k(1) wf(5) by (auto simp: wf_heap_def)
  then have heap1: "wf_heap ?g" using wf(5) by (auto simp: wf_heap_def)
  have wf1: "wf_graph ?g"
    by (rule wf_graph_shape [OF assms(1)]) (use k(1) heap1 in \<open>simp_all add: node_shape_def\<close>)
  obtain g2 where g2: "setLocal q ?g = Inr g2" "restated LOCAL q ?k (?k\<lparr>dn_location := g_rank ?g, dn_state := LOCAL\<rparr>) ?g g2"
    "heap_n g2 = (heap_n ?g)(q \<mapsto> ?k\<lparr>dn_location := g_rank ?g, dn_state := LOCAL\<rparr>)" "heap_e g2 = heap_e ?g" "next_ptr g2 = next_ptr ?g"
    using setLocal_restated [of ?g q ?k] by auto
  have node: "(dn_id ?k, q) \<in> set (g_nodes ?g)" using q(1) k(2) by simp
  have heap2: "wf_heap g2" using heap1 g2(3-5) \<open>\<not> next_ptr g \<le> q\<close> by (auto simp: wf_heap_def)
  have wf2: "wf_graph g2" by (rule restated_wf [OF wf1 g2(2) node heap2])
  let ?g' = "g2\<lparr>heap_n := (heap_n g2)(p := None)\<rparr>"
  have same: "g_nodes g2 = g_nodes g" using g2(2) by (simp add: restated_def)
  have heap3: "heap_n ?g' r = heap_n g2 r" if "r \<in> nptrs g2" for r using that assms(3) same by auto
  have wf3: "wf_graph ?g'"
    by (rule wf_graph_shape [OF wf2]) (use heap3 heap2 in \<open>simp_all add: wf_heap_def\<close>)
  have view: "edge_view ?g' e = edge_view g2 e" if E: "e \<in> eptrs g2" for e
  proof -
    obtain ed where ed: "heap_e g2 e = Some ed" "de_src ed \<in> nptrs g2" "de_tgt ed \<in> nptrs g2"
      by (rule wf_edge [OF wf_graphD(1) [OF wf2] E])
    then have "heap_n ?g' (de_src ed) = heap_n g2 (de_src ed)" "heap_n ?g' (de_tgt ed) = heap_n g2 (de_tgt ed)"
      using heap3 by blast+
    with ed show ?thesis by (simp add: edge_view_def del: fun_upd_apply)
  qed
  have "e \<in> eptrs g2" if "(i, e) \<in> set (g_edges g2)" for i e using that by force
  with view have "view_edges ?g' = view_edges g2" by (auto simp: view_edges_def)
  also have "\<dots> = view_edges ?g" by (rule restated_view(2) [OF wf1 g2(2)])
  also have "\<dots> = view_edges g" by (simp add: view_edges_def edge_view_cong [of ?g _ g] k(1))
  finally have edges: "view_edges ?g' = view_edges g" .
  have "(dn_id n, q) \<in> nodes_in LOCAL ?g'" using q(1) same g2(3) pq by (simp add: nodes_in_def)
  moreover have "importNode p g = Inr ?g'"
    using assms(2,4) get k(1) g2(1,3) pq by (simp add: importNode_def heap_ops)
  ultimately show ?thesis using wf3 edges same g2(3) pq by fastforce
qed

end
