(* ===== verification/Graph_Clear.thy ===== *)
theory Graph_Clear
  imports Graph_Invariant
begin

text \<open>
  \<open>clearNode\<close> and \<open>clearDistantNodes\<close> of \<open>src/fpmas/graph/distributed_graph.h\<close>: what is left of the graph of a
  process once the distant nodes that no local node needs are cleared.
\<close>

section \<open>The edges of a node\<close>

definition far :: "(dedge \<Rightarrow> ptr) \<Rightarrow> ptr \<Rightarrow> ('d, 'l) dgraph \<Rightarrow> bool" where
  "far endpoint e g \<longleftrightarrow> (\<exists>ed. heap_e g e = Some ed \<and> end_local (endpoint ed) g)"

lemma far_local_eq:
  assumes "heap_e g e = Some ed" "heap_n g (endpoint ed) = Some n"
  shows "far_local endpoint e g = Inr (far endpoint e g)"
  using assms by (simp add: far_local_def heap_ops far_def end_local_def)

lemma split_edges_eq:
  assumes "\<And>e. e \<in> set es \<Longrightarrow> \<exists>ed n. heap_e g e = Some ed \<and> heap_n g (endpoint ed) = Some n"
  shows "split_edges endpoint es g (b, S) =
           Inr (b \<and> (\<forall>e\<in>set es. \<not> far endpoint e g), S \<union> {e \<in> set es. \<not> far endpoint e g})"
  using assms
proof (induction es arbitrary: b S)
  case (Cons e es)
  from Cons.prems [of e] have "far_local endpoint e g = Inr (far endpoint e g)"
    by (auto intro: far_local_eq)
  moreover have "split_edges endpoint es g (b, S) =
      Inr (b \<and> (\<forall>e\<in>set es. \<not> far endpoint e g), S \<union> {e \<in> set es. \<not> far endpoint e g})" for b S
    by (rule Cons.IH) (use Cons.prems in simp)
  ultimately show ?case by (cases "far endpoint e g") (auto simp: split_edges_def)
qed (simp add: split_edges_def)

text \<open>A node that an edge links to a local node, and the edges of the nodes \<open>P\<close> to other nodes.\<close>

definition linked_local :: "ptr \<Rightarrow> ('d, 'l) dgraph \<Rightarrow> bool" where
  "linked_local p g \<longleftrightarrow> (\<exists>e\<in>ends_at de_tgt p g. far de_src e g) \<or> (\<exists>e\<in>ends_at de_src p g. far de_tgt e g)"

definition obsolete :: "ptr set \<Rightarrow> ('d, 'l) dgraph \<Rightarrow> ptr set" where
  "obsolete P g =
     {e \<in> eptrs g. \<exists>p\<in>P. e \<in> ends_at de_tgt p g \<and> \<not> far de_src e g \<or> e \<in> ends_at de_src p g \<and> \<not> far de_tgt e g}"

definition trimmed :: "ptr set \<Rightarrow> ('d, 'l) dgraph \<Rightarrow> ('d, 'l) dgraph \<Rightarrow> bool" where
  "trimmed P g g' \<longleftrightarrow> wf_graph g' \<and>
     set (g_nodes g') = {(i, q) \<in> set (g_nodes g). q \<in> P \<longrightarrow> linked_local q g} \<and>
     set (g_edges g') = {(i, e) \<in> set (g_edges g). e \<notin> obsolete P g} \<and>
     (\<forall>e\<in>eptrs g'. heap_e g' e = heap_e g e) \<and>
     (\<forall>q\<in>nptrs g'. map_option node_core (heap_n g' q) = map_option node_core (heap_n g q))"

lemma trimmedD:
  assumes "trimmed P g g'"
  shows "wf_graph g'" "set (g_nodes g') = {(i, q) \<in> set (g_nodes g). q \<in> P \<longrightarrow> linked_local q g}"
    "set (g_edges g') = {(i, e) \<in> set (g_edges g). e \<notin> obsolete P g}"
    "e \<in> eptrs g' \<Longrightarrow> heap_e g' e = heap_e g e"
    "q \<in> nptrs g' \<Longrightarrow> map_option node_core (heap_n g' q) = map_option node_core (heap_n g q)"
  using assms unfolding trimmed_def by blast+

lemma edge_ends:
  assumes "wf_graph g" "e \<in> eptrs g"
  obtains ed s t where "heap_e g e = Some ed" "heap_n g (de_src ed) = Some s" "heap_n g (de_tgt ed) = Some t"
proof -
  note idx = wf_graphD(1) [OF assms(1)]
  obtain ed where ed: "heap_e g e = Some ed" "de_src ed \<in> nptrs g" "de_tgt ed \<in> nptrs g" by (rule wf_edge [OF idx assms(2)])
  obtain s where s: "heap_n g (de_src ed) = Some s" by (rule wf_node [OF idx ed(2)])
  obtain t where "heap_n g (de_tgt ed) = Some t" by (rule wf_node [OF idx ed(3)])
  with ed s that show ?thesis by blast
qed

lemma clearNode_eq:
  assumes "wf_graph g" "p \<in> nptrs g"
  shows "clearNode p g =
           (if linked_local p g then run_all erase_edge (sorted_list_of_set (obsolete {p} g)) g else erase_node p g)"
proof -
  obtain n where n: "heap_n g p = Some n" by (rule wf_node [OF wf_graphD(1) [OF assms(1)] assms(2)])
  note edges = node_edges [OF assms n]
  have ends: "\<exists>ed n. heap_e g e = Some ed \<and> heap_n g (endpoint ed) = Some n"
    if "e \<in> ends_at endpoint' p g" "endpoint = de_src \<or> endpoint = de_tgt" for endpoint endpoint' e
  proof -
    from that(1) have "e \<in> eptrs g" unfolding ends_at_def by blast
    then show ?thesis by (rule edge_ends [OF assms(1)]) (use that(2) in auto)
  qed
  have sub: "ends_at endpoint p g \<subseteq> eptrs g" for endpoint unfolding ends_at_def by blast
  have "split_edges de_src (getIncomingEdges n) g (True, {}) =
      Inr (\<forall>e\<in>ends_at de_tgt p g. \<not> far de_src e g, {e \<in> ends_at de_tgt p g. \<not> far de_src e g})"
    by (subst split_edges_eq) (use edges(1,3) ends in \<open>blast, simp add: edges\<close>)
  moreover have "split_edges de_tgt (getOutgoingEdges n) g (b, S) =
      Inr (b \<and> (\<forall>e\<in>ends_at de_src p g. \<not> far de_tgt e g), S \<union> {e \<in> ends_at de_src p g. \<not> far de_tgt e g})" for b S
    by (subst split_edges_eq) (use edges(1,3) ends in \<open>blast, simp add: edges\<close>)
  moreover have "{e \<in> ends_at de_tgt p g. \<not> far de_src e g} \<union> {e \<in> ends_at de_src p g. \<not> far de_tgt e g} = obsolete {p} g"
    unfolding obsolete_def using sub by blast
  moreover have "linked_local p g \<longleftrightarrow>
      \<not> ((\<forall>e\<in>ends_at de_tgt p g. \<not> far de_src e g) \<and> (\<forall>e\<in>ends_at de_src p g. \<not> far de_tgt e g))"
    unfolding linked_local_def by blast
  ultimately show ?thesis using n by (simp add: clearNode_def heap_ops)
qed

lemma clearNode_trimmed:
  assumes "wf_graph g" "p \<in> nptrs g"
  shows "\<exists>g'. clearNode p g = Inr g' \<and> trimmed {p} g g'"
proof (cases "linked_local p g")
  case True
  have "finite (eptrs g)" by simp
  moreover have "obsolete {p} g \<subseteq> eptrs g" unfolding obsolete_def by blast
  ultimately have fin: "finite (obsolete {p} g)" by (rule rev_finite_subset)
  with \<open>obsolete {p} g \<subseteq> eptrs g\<close> obtain g'
    where g': "run_all erase_edge (sorted_list_of_set (obsolete {p} g)) g = Inr g'" "edges_gone (obsolete {p} g) g g'"
    using erase_edges_gone [OF assms(1), of "sorted_list_of_set (obsolete {p} g)"] by auto
  have "heap_e g' e = heap_e g e" if "e \<in> eptrs g'" for e
    using that edges_goneD(5) [OF g'(2), of e] by (force simp: edges_goneD(4) [OF g'(2)])
  moreover have "clearNode p g = Inr g'" using clearNode_eq [OF assms] True g'(1) by simp
  moreover have "set (g_nodes g') = {(i, q) \<in> set (g_nodes g). q \<in> {p} \<longrightarrow> linked_local q g}"
    using True by (auto simp: edges_goneD(2) [OF g'(2)])
  ultimately show ?thesis
    unfolding trimmed_def using edges_goneD(1,4,6) [OF g'(2)] by blast
next
  case False
  obtain g' where g': "erase_node p g = Inr g'" "node_gone p g g'"
    using erase_node_gone [OF assms] by blast
  have ends: "ends_at de_src p g \<union> ends_at de_tgt p g = obsolete {p} g"
    using False unfolding linked_local_def obsolete_def ends_at_def by blast
  note gone = node_goneD [OF g'(2), unfolded ends]
  have "heap_e g' e = heap_e g e" if "e \<in> eptrs g'" for e
    using that gone(5) [of e] by (force simp: gone(4))
  moreover have "map_option node_core (heap_n g' q) = map_option node_core (heap_n g q)" if "q \<in> nptrs g'" for q
    using that gone(6) [of q] by (force simp: gone(3))
  moreover have "clearNode p g = Inr g'" using clearNode_eq [OF assms] False g'(1) by simp
  moreover have "set (g_nodes g') = {(i, q) \<in> set (g_nodes g). q \<in> {p} \<longrightarrow> linked_local q g}"
    using False by (auto simp: gone(3))
  ultimately show ?thesis
    unfolding trimmed_def using gone(1,4) by blast
qed

section \<open>Clearing several nodes\<close>

lemma far_trimmed:
  assumes "trimmed P g g'" "e \<in> eptrs g'" "endpoint = de_src \<or> endpoint = de_tgt"
  shows "far endpoint e g' \<longleftrightarrow> far endpoint e g"
proof -
  note trim = assms(1) [unfolded trimmed_def]
  have wf: "wf_index g'" using trim wf_graphD(1) by blast
  obtain ed where ed: "heap_e g' e = Some ed" "de_src ed \<in> nptrs g'" "de_tgt ed \<in> nptrs g'" by (rule wf_edge [OF wf assms(2)])
  then have "endpoint ed \<in> nptrs g'" using assms(3) by blast
  with trim have "map_option node_core (heap_n g' (endpoint ed)) = map_option node_core (heap_n g (endpoint ed))" by blast
  then have "end_local (endpoint ed) g' \<longleftrightarrow> end_local (endpoint ed) g"
    by (cases "heap_n g (endpoint ed)"; cases "heap_n g' (endpoint ed)") (auto simp: end_local_def node_core_def)
  moreover have "heap_e g e = Some ed" using trim assms(2) ed(1) by metis
  ultimately show ?thesis using ed(1) by (simp add: far_def)
qed

lemma ends_at_trimmed:
  assumes "trimmed P g g'"
  shows "ends_at endpoint p g' = ends_at endpoint p g - obsolete P g"
proof -
  note trim = assms [unfolded trimmed_def]
  have E: "eptrs g' = eptrs g - obsolete P g"
  proof -
    show ?thesis unfolding trimmedD(3) [OF assms(1)] by force
  qed
  moreover have "heap_e g' e = heap_e g e" if "e \<in> eptrs g'" for e using trim that by blast
  ultimately have "e \<in> ends_at endpoint p g' \<longleftrightarrow> e \<in> ends_at endpoint p g - obsolete P g" for e
    unfolding ends_at_def E by (cases "e \<in> eptrs g - obsolete P g") (simp, blast)
  then show ?thesis by blast
qed

text \<open>An edge between a local node and a distant one is never obsolete.\<close>

definition not_local :: "ptr set \<Rightarrow> ('d, 'l) dgraph \<Rightarrow> bool" where
  "not_local P g \<longleftrightarrow> (\<forall>p\<in>P. \<not> end_local p g)"

lemma kept_links:
  assumes "not_local P g"
  shows "e \<in> ends_at de_tgt p g \<Longrightarrow> far de_src e g \<Longrightarrow> p \<in> P \<Longrightarrow> e \<notin> obsolete Q g \<or> \<not> not_local Q g"
    "e \<in> ends_at de_src p g \<Longrightarrow> far de_tgt e g \<Longrightarrow> p \<in> P \<Longrightarrow> e \<notin> obsolete Q g \<or> \<not> not_local Q g"
  by (auto simp: obsolete_def ends_at_def far_def not_local_def)

lemma linked_local_trimmed:
  assumes "trimmed P g g'" "not_local P g" "not_local Q g" "q \<in> Q"
  shows "linked_local q g' \<longleftrightarrow> linked_local q g"
proof -
  note ends = ends_at_trimmed [OF assms(1)]
  have E: "e \<in> eptrs g'" if "e \<in> ends_at endpoint q g'" for e endpoint using that unfolding ends_at_def by blast
  have "far de_src e g' \<longleftrightarrow> far de_src e g" "far de_tgt e g' \<longleftrightarrow> far de_tgt e g" if "e \<in> ends_at endpoint q g'" for e endpoint
    using far_trimmed [OF assms(1) E [OF that]] by simp_all
  then have "linked_local q g' \<longleftrightarrow>
      (\<exists>e\<in>ends_at de_tgt q g'. far de_src e g) \<or> (\<exists>e\<in>ends_at de_src q g'. far de_tgt e g)"
    unfolding linked_local_def by blast
  also have "\<dots> \<longleftrightarrow> linked_local q g"
    unfolding linked_local_def ends using kept_links [OF assms(3), of _ q P] assms(2,4) by blast
  finally show ?thesis .
qed

lemma trimmed_trans:
  assumes "trimmed P g g'" "trimmed Q g' g''" "not_local P g" "not_local Q g" "Q \<subseteq> nptrs g'"
  shows "trimmed (P \<union> Q) g g''"
proof -
  note trim = assms(1) [unfolded trimmed_def] and trim' = assms(2) [unfolded trimmed_def]
  have sub: "nptrs g'' \<subseteq> nptrs g'" "eptrs g'' \<subseteq> eptrs g'"
  proof -
    have "set (g_nodes g'') \<subseteq> set (g_nodes g')" "set (g_edges g'') \<subseteq> set (g_edges g')"
      using trimmedD(2,3) [OF assms(2)] by auto
    then show "nptrs g'' \<subseteq> nptrs g'" "eptrs g'' \<subseteq> eptrs g'" by blast+
  qed
  have link: "linked_local q g' \<longleftrightarrow> linked_local q g" if "q \<in> Q" for q
    by (rule linked_local_trimmed [OF assms(1,3,4) that])
  have nodes: "set (g_nodes g'') = {(i, q) \<in> set (g_nodes g). q \<in> P \<union> Q \<longrightarrow> linked_local q g}"
  proof -
    show ?thesis unfolding trimmedD(2) [OF assms(2)] trimmedD(2) [OF assms(1)] using link by auto
  qed
  have obs: "e \<in> obsolete Q g' \<longleftrightarrow> e \<in> obsolete Q g" if "e \<in> eptrs g'" for e
  proof -
    have far: "far de_src e g' \<longleftrightarrow> far de_src e g" "far de_tgt e g' \<longleftrightarrow> far de_tgt e g"
      using far_trimmed [OF assms(1) that] by simp_all
    from that have "e \<in> eptrs g" "e \<notin> obsolete P g" unfolding trimmedD(3) [OF assms(1)] by auto
    with that far show ?thesis by (simp add: obsolete_def ends_at_trimmed [OF assms(1)])
  qed
  have edges: "set (g_edges g'') = {(i, e) \<in> set (g_edges g). e \<notin> obsolete (P \<union> Q) g}"
  proof -
    have "set (g_edges g'') = {(i, e) \<in> set (g_edges g'). e \<notin> obsolete Q g}"
    proof -
      have "e \<in> eptrs g'" if "(i, e) \<in> set (g_edges g')" for i e using that by force
      with obs show ?thesis unfolding trimmedD(3) [OF assms(2)] by blast
    qed
    moreover have "obsolete (P \<union> Q) g = obsolete P g \<union> obsolete Q g" unfolding obsolete_def by blast
    ultimately show ?thesis unfolding trimmedD(3) [OF assms(1)] by auto
  qed
  have "heap_e g'' e = heap_e g e" if "e \<in> eptrs g''" for e
    using trimmedD(4) [OF assms(2) that] trimmedD(4) [OF assms(1) subsetD [OF sub(2) that]] by simp
  moreover have "map_option node_core (heap_n g'' q) = map_option node_core (heap_n g q)" if "q \<in> nptrs g''" for q
    using trimmedD(5) [OF assms(2) that] trimmedD(5) [OF assms(1) subsetD [OF sub(1) that]] by simp
  ultimately show ?thesis unfolding trimmed_def using nodes edges trimmedD(1) [OF assms(2)] by blast
qed

lemma clear_all:
  assumes "wf_graph g" "distinct ps" "set ps \<subseteq> nptrs g" "not_local (set ps) g"
  shows "\<exists>g'. run_all clearNode ps g = Inr g' \<and> trimmed (set ps) g g'"
  using assms
proof (induction ps arbitrary: g)
  case Nil
  have "trimmed {} g g" using Nil(1) unfolding trimmed_def obsolete_def by simp
  then show ?case by simp
next
  case (Cons p ps)
  from Cons.prems(3) have p: "p \<in> nptrs g" by simp
  obtain g1 where g1: "clearNode p g = Inr g1" "trimmed {p} g g1" using clearNode_trimmed [OF Cons.prems(1) p] by blast
  have nodes: "nptrs g - {p} \<subseteq> nptrs g1" unfolding trimmedD(2) [OF g1(2)] by force
  with Cons.prems(2,3) have sub: "set ps \<subseteq> nptrs g1" by auto
  have nl: "not_local {p} g" "not_local (set ps) g" using Cons.prems(4) by (simp_all add: not_local_def)
  have "\<not> end_local q g1" if "q \<in> set ps" for q
  proof -
    from that sub have "q \<in> nptrs g1" by blast
    from trimmedD(5) [OF g1(2) this] nl(2) that show ?thesis
      by (cases "heap_n g q"; cases "heap_n g1 q") (auto simp: not_local_def end_local_def node_core_def)
  qed
  then have "not_local (set ps) g1" by (simp add: not_local_def)
  then obtain g2 where g2: "run_all clearNode ps g1 = Inr g2" "trimmed (set ps) g1 g2"
    using Cons.IH [OF trimmedD(1) [OF g1(2)] _ sub] Cons.prems(2) by auto
  have "trimmed ({p} \<union> set ps) g g2" by (rule trimmed_trans [OF g1(2) g2(2) nl sub])
  with g1(1) g2(1) show ?case by simp
qed

section \<open>The graph that is left\<close>

text \<open>The identifiers of the nodes in a state.\<close>

definition ids_in :: "location_state \<Rightarrow> ('d, 'l) dgraph \<Rightarrow> dist_id set" where
  "ids_in st g = fst ` nodes_in st g"

lemma local_id:
  assumes "wf_graph g" "e \<in> eptrs g" "heap_e g e = Some ed" "endpoint = de_src \<or> endpoint = de_tgt"
    and "heap_n g (endpoint ed) = Some n"
  shows "(dn_id n, endpoint ed) \<in> set (g_nodes g)" "far endpoint e g \<longleftrightarrow> dn_id n \<in> ids_in LOCAL g"
proof -
  note idx = wf_graphD(1) [OF assms(1)]
  obtain fd where fd: "heap_e g e = Some fd" "de_src fd \<in> nptrs g" "de_tgt fd \<in> nptrs g" by (rule wf_edge [OF idx assms(2)])
  with assms(3,4) have "endpoint ed \<in> nptrs g" by auto
  then show node: "(dn_id n, endpoint ed) \<in> set (g_nodes g)" by (rule wf_node [OF idx]) (use assms(5) in simp)
  have "(dn_id n, p) \<in> set (g_nodes g) \<longleftrightarrow> p = endpoint ed" for p using id_ptr [OF idx _ node, of "dn_id n" p] node by auto
  then show "far endpoint e g \<longleftrightarrow> dn_id n \<in> ids_in LOCAL g"
    using assms(3,5) by (force simp: far_def end_local_def ids_in_def nodes_in_def image_iff)
qed

lemma edge_view_trimmed:
  assumes "trimmed P g g'" "e \<in> eptrs g'"
  shows "edge_view g' e = edge_view g e"
proof -
  obtain ed where ed: "heap_e g' e = Some ed" "de_src ed \<in> nptrs g'" "de_tgt ed \<in> nptrs g'"
    by (rule wf_edge [OF wf_graphD(1) [OF trimmedD(1) [OF assms(1)]] assms(2)])
  have "map_option dn_id (heap_n g' q) = map_option dn_id (heap_n g q)" if "q \<in> nptrs g'" for q
    using trimmedD(5) [OF assms(1) that] by (cases "heap_n g q"; cases "heap_n g' q") (auto simp: node_core_def)
  then show ?thesis using ed trimmedD(4) [OF assms(1,2)] by (simp add: edge_view_def)
qed

definition clear_ptrs :: "('d, 'l) dgraph \<Rightarrow> ptr list" where
  "clear_ptrs g = map snd (distant_nodes (g_loc g))"

lemma clear_ptrs:
  assumes "wf_graph g"
  shows "distinct (clear_ptrs g)" "set (clear_ptrs g) \<subseteq> nptrs g" "not_local (set (clear_ptrs g)) g"
    "p \<in> nptrs g \<Longrightarrow> p \<in> set (clear_ptrs g) \<longleftrightarrow> \<not> end_local p g"
proof -
  note wf = wf_graphD [OF assms]
  have D: "um_wf (distant_nodes (g_loc g))" "set (distant_nodes (g_loc g)) = nodes_in DISTANT g"
    using wf(3) by (simp_all add: wf_loc_def)
  have sub: "nodes_in DISTANT g \<subseteq> set (g_nodes g)" by (auto simp: nodes_in_def)
  then show ptrs: "set (clear_ptrs g) \<subseteq> nptrs g" unfolding clear_ptrs_def set_map D(2) by blast
  have "inj_on snd (set (distant_nodes (g_loc g)))"
  proof (rule inj_onI)
    fix x y assume "x \<in> set (distant_nodes (g_loc g))" "y \<in> set (distant_nodes (g_loc g))" "snd x = snd y"
    with D(2) sub have "x \<in> set (g_nodes g)" "y \<in> set (g_nodes g)" by blast+
    then have "(fst x, snd x) \<in> set (g_nodes g)" "(fst y, snd y) \<in> set (g_nodes g)" by simp_all
    with id_ptr [OF wf(1) this] \<open>snd x = snd y\<close> show "x = y" by (simp add: prod_eq_iff)
  qed
  moreover have "distinct (distant_nodes (g_loc g))" using D(1) by (simp add: distinct_map)
  ultimately show "distinct (clear_ptrs g)" by (simp add: clear_ptrs_def distinct_map)
  show mem: "p \<in> set (clear_ptrs g) \<longleftrightarrow> \<not> end_local p g" if p: "p \<in> nptrs g" for p
  proof -
    obtain n where n: "heap_n g p = Some n" "(dn_id n, p) \<in> set (g_nodes g)" by (rule wf_node [OF wf(1) p])
    have "p \<in> set (clear_ptrs g) \<longleftrightarrow> (\<exists>i. (i, p) \<in> nodes_in DISTANT g)"
      unfolding clear_ptrs_def set_map D(2) by force
    also have "\<dots> \<longleftrightarrow> dn_state n = DISTANT" using n by (auto simp: nodes_in_def)
    finally show ?thesis using n(1) by (cases "dn_state n") (simp_all add: end_local_def)
  qed
  with ptrs show "not_local (set (clear_ptrs g)) g" unfolding not_local_def by blast
qed

text \<open>An edge, its ends, and what the sets of nodes and edges say of it.\<close>

lemma edge_data:
  assumes "wf_graph g" "e \<in> eptrs g"
  obtains j ed s t where "(j, e) \<in> set (g_edges g)" "heap_e g e = Some ed"
    "edge_view g e = Some (s, de_layer ed, t)"
    "(s, de_src ed) \<in> set (g_nodes g)" "(t, de_tgt ed) \<in> set (g_nodes g)"
    "far de_src e g \<longleftrightarrow> s \<in> ids_in LOCAL g" "far de_tgt e g \<longleftrightarrow> t \<in> ids_in LOCAL g"
proof -
  from assms(2) obtain j where j: "(j, e) \<in> set (g_edges g)" by force
  obtain ed ns nt where ed: "heap_e g e = Some ed" "heap_n g (de_src ed) = Some ns" "heap_n g (de_tgt ed) = Some nt"
    by (rule edge_ends [OF assms])
  note src = local_id [OF assms ed(1) disjI1 [OF refl] ed(2)] and tgt = local_id [OF assms ed(1) disjI2 [OF refl] ed(3)]
  have "edge_view g e = Some (dn_id ns, de_layer ed, dn_id nt)" using ed by (simp add: edge_view_def)
  from that [OF j ed(1) this src(1) tgt(1) src(2) tgt(2)] show ?thesis .
qed

lemma in_fst_image: "x \<in> fst ` A \<longleftrightarrow> (\<exists>y. (x, y) \<in> A)"
  by force

lemma linked_view:
  assumes "wf_graph g" "(i, p) \<in> set (g_nodes g)"
  shows "linked_local p g \<longleftrightarrow>
    (\<exists>j l k. ((j, i, l, k) \<in> view_edges g \<or> (j, k, l, i) \<in> view_edges g) \<and> k \<in> ids_in LOCAL g)" (is "_ \<longleftrightarrow> ?view")
proof
  assume "linked_local p g"
  then consider e where "e \<in> ends_at de_tgt p g" "far de_src e g" | e where "e \<in> ends_at de_src p g" "far de_tgt e g"
    unfolding linked_local_def by blast
  then show ?view
  proof cases
    case 1
    then have "e \<in> eptrs g" unfolding ends_at_def by blast
    then obtain j ed s t where ed: "(j, e) \<in> set (g_edges g)" "heap_e g e = Some ed"
      "edge_view g e = Some (s, de_layer ed, t)" "(t, de_tgt ed) \<in> set (g_nodes g)"
      "far de_src e g \<longleftrightarrow> s \<in> ids_in LOCAL g" by (rule edge_data [OF assms(1)])
    from 1(1) ed(2) have "de_tgt ed = p" by (simp add: ends_at_def)
    with id_ptr [OF wf_graphD(1) [OF assms(1)] ed(4) assms(2)] have "t = i" by simp
    with ed(1,3,5) 1(2) have "(j, s, de_layer ed, i) \<in> view_edges g" "s \<in> ids_in LOCAL g" by (auto simp: view_edges_def)
    then show ?view by blast
  next
    case 2
    then have "e \<in> eptrs g" unfolding ends_at_def by blast
    then obtain j ed s t where ed: "(j, e) \<in> set (g_edges g)" "heap_e g e = Some ed"
      "edge_view g e = Some (s, de_layer ed, t)" "(s, de_src ed) \<in> set (g_nodes g)"
      "far de_tgt e g \<longleftrightarrow> t \<in> ids_in LOCAL g" by (rule edge_data [OF assms(1)])
    from 2(1) ed(2) have "de_src ed = p" by (simp add: ends_at_def)
    with id_ptr [OF wf_graphD(1) [OF assms(1)] ed(4) assms(2)] have "s = i" by simp
    with ed(1,3,5) 2(2) have "(j, i, de_layer ed, t) \<in> view_edges g" "t \<in> ids_in LOCAL g" by (auto simp: view_edges_def)
    then show ?view by blast
  qed
next
  assume ?view
  then obtain j e s l t where e: "(j, e) \<in> set (g_edges g)" "edge_view g e = Some (s, l, t)"
    "s = i \<and> t \<in> ids_in LOCAL g \<or> t = i \<and> s \<in> ids_in LOCAL g" by (auto simp: view_edges_def)
  then have E: "e \<in> eptrs g" by force
  then obtain j' ed s' t' where ed: "heap_e g e = Some ed" "edge_view g e = Some (s', de_layer ed, t')"
    "(s', de_src ed) \<in> set (g_nodes g)" "(t', de_tgt ed) \<in> set (g_nodes g)"
    "far de_src e g \<longleftrightarrow> s' \<in> ids_in LOCAL g" "far de_tgt e g \<longleftrightarrow> t' \<in> ids_in LOCAL g"
    by (rule edge_data [OF assms(1)])
  from id_ptr [OF wf_graphD(1) [OF assms(1)] ed(3) assms(2)] id_ptr [OF wf_graphD(1) [OF assms(1)] ed(4) assms(2)]
  show "linked_local p g" using e(2,3) ed(1,2,5,6) E by (auto simp: linked_local_def ends_at_def)
qed

lemma view_ends:
  assumes "wf_graph g" "(j, s, l, t) \<in> view_edges g"
  shows "s \<in> view_nodes g" "t \<in> view_nodes g"
proof -
  from assms(2) obtain e where e: "(j, e) \<in> set (g_edges g)" "edge_view g e = Some (s, l, t)" by (auto simp: view_edges_def)
  then have E: "e \<in> eptrs g" by force
  obtain ed s' t' where "heap_e g e = Some ed" "edge_view g e = Some (s', de_layer ed, t')"
    "(s', de_src ed) \<in> set (g_nodes g)" "(t', de_tgt ed) \<in> set (g_nodes g)" by (rule edge_data [OF assms(1) E])
  with e(2) show "s \<in> view_nodes g" "t \<in> view_nodes g" by force+
qed

lemma clear_obsolete:
  assumes "wf_graph g" "e \<in> eptrs g" "edge_view g e = Some (s, l, t)"
  shows "e \<in> obsolete (set (clear_ptrs g)) g \<longleftrightarrow> s \<notin> ids_in LOCAL g \<and> t \<notin> ids_in LOCAL g"
proof -
  obtain j ed s' t' where ed: "heap_e g e = Some ed" "edge_view g e = Some (s', de_layer ed, t')"
    "(s', de_src ed) \<in> set (g_nodes g)" "(t', de_tgt ed) \<in> set (g_nodes g)"
    "far de_src e g \<longleftrightarrow> s' \<in> ids_in LOCAL g" "far de_tgt e g \<longleftrightarrow> t' \<in> ids_in LOCAL g"
    by (rule edge_data [OF assms(1,2)])
  from ed(3,4) have "de_src ed \<in> nptrs g" "de_tgt ed \<in> nptrs g" by force+
  then have "de_src ed \<in> set (clear_ptrs g) \<longleftrightarrow> \<not> far de_src e g" "de_tgt ed \<in> set (clear_ptrs g) \<longleftrightarrow> \<not> far de_tgt e g"
    using clear_ptrs(4) [OF assms(1)] ed(1) by (auto simp: far_def)
  then have "e \<in> obsolete (set (clear_ptrs g)) g \<longleftrightarrow> \<not> far de_src e g \<and> \<not> far de_tgt e g"
    using assms(2) ed(1) by (auto simp: obsolete_def ends_at_def)
  with ed(2,5,6) assms(3) show ?thesis by simp
qed

end
