(* ===== verification/Graph_Sample.thy ===== *)
theory Graph_Sample
  imports Graph_Invariant
begin

text \<open>
  A small graph of process 0, for the instances of the properties: a local node of this process, a node of
  process 1 that is distant, and the edge from the first to the second, with any state of the linker.
\<close>

definition id_a :: dist_id where
  "id_a = DistributedId 0 0"

definition id_b :: dist_id where
  "id_b = DistributedId 1 0"

definition id_e :: dist_id where
  "id_e = DistributedId 0 0"

definition node_a :: "int gnode" where
  "node_a = \<lparr>dn_id = id_a, dn_weight = 1, dn_in = [], dn_out = [(0, [2])], dn_state = LOCAL, dn_location = 0, dn_data = 7,
     dn_mutex = True\<rparr>"

definition node_b :: "int gnode" where
  "node_b = \<lparr>dn_id = id_b, dn_weight = 1, dn_in = [(0, [2])], dn_out = [], dn_state = DISTANT, dn_location = 1, dn_data = 5,
     dn_mutex = True\<rparr>"

definition edge_ab :: dedge where
  "edge_ab = \<lparr>de_id = id_e, de_layer = 0, de_weight = 1, de_src = 0, de_tgt = 1, de_state = DISTANT\<rparr>"

definition sample :: "'l \<Rightarrow> (int, 'l) dgraph" where
  "sample l =
     \<lparr>heap_n = [0 \<mapsto> node_a, 1 \<mapsto> node_b], heap_e = [2 \<mapsto> edge_ab], next_ptr = 3,
      g_nodes = [(id_a, 0), (id_b, 1)], g_edges = [(id_e, 2)], g_rank = 0,
      g_loc = \<lparr>managed = [(id_a, 0)], local_nodes = [(id_a, 0)], distant_nodes = [(id_b, 1)], new_local_nodes = [(id_a, 0)]\<rparr>,
      node_counter = DistributedId 0 1, edge_counter = DistributedId 0 1, g_events = [], sync_linker = l\<rparr>"

lemmas sample_ids = id_a_def id_b_def id_e_def

lemmas sample_defs = sample_def node_a_def node_b_def edge_ab_def sample_ids

lemma sample_heap [simp]:
  "heap_n (sample l) 0 = Some node_a" "heap_n (sample l) (Suc 0) = Some node_b" "heap_e (sample l) 2 = Some edge_ab"
  "g_nodes (sample l) = [(id_a, 0), (id_b, 1)]" "g_edges (sample l) = [(id_e, 2)]" "next_ptr (sample l) = 3"
  "sync_linker (sample l) = l" "g_rank (sample l) = 0" "edge_counter (sample l) = DistributedId 0 1"
  "node_counter (sample l) = DistributedId 0 1"
  "g_loc (sample l) =
     \<lparr>managed = [(id_a, 0)], local_nodes = [(id_a, 0)], distant_nodes = [(id_b, 1)], new_local_nodes = [(id_a, 0)]\<rparr>"
  by (simp_all add: sample_def)

lemma sample_nodes_in: "nodes_in LOCAL (sample l) = {(id_a, 0)}" "nodes_in DISTANT (sample l) = {(id_b, 1)}"
  by (auto simp: nodes_in_def sample_defs)

lemma sample_incident:
  "incident endpoint p {2} (sample l) k = (if endpoint edge_ab = p \<and> k = 0 then {2} else {})"
  by (auto simp: incident_def edge_ab_def)

lemma sample_wf: "wf_graph (sample l)"
proof -
  have "wf_index (sample l)"
    by (auto simp: wf_index_def sample_defs)
  moreover have "wf_adj (eptrs (sample l)) (sample l)"
    by (auto simp: wf_adj_def adj_def sample_incident um_get_def) (simp_all add: node_a_def node_b_def edge_ab_def)
  moreover have "wf_loc (sample l)"
    by (simp add: wf_loc_def sample_nodes_in)
  moreover have "wf_state (sample l)"
    by (simp add: wf_state_def edge_ab_def)
  moreover have "wf_heap (sample l)"
    by (auto simp: wf_heap_def sample_def)
  ultimately show ?thesis by (simp add: wf_graph_def)
qed

lemma sample_views: "view_nodes (sample l) = {id_a, id_b}" "view_edges (sample l) = {(id_e, id_a, 0, id_b)}"
proof -
  show "view_nodes (sample l) = {id_a, id_b}" by simp
  have "edge_view (sample l) 2 = Some (id_a, 0, id_b)"
    by (simp add: edge_view_def edge_ab_def) (simp add: node_a_def node_b_def)
  then show "view_edges (sample l) = {(id_e, id_a, 0, id_b)}" by (auto simp: view_edges_def)
qed

section \<open>Two processes\<close>

text \<open>The graph of process 1: the same nodes, with the roles swapped and other data, and the same edge.\<close>

definition host_b :: "int gnode" where
  "host_b = node_b\<lparr>dn_state := LOCAL, dn_data := 9\<rparr>"

definition copy_a :: "int gnode" where
  "copy_a = node_a\<lparr>dn_state := DISTANT, dn_data := 0\<rparr>"

definition edge_ba :: dedge where
  "edge_ba = edge_ab\<lparr>de_src := 1, de_tgt := 0\<rparr>"

definition sample_b :: "'l \<Rightarrow> (int, 'l) dgraph" where
  "sample_b l =
     \<lparr>heap_n = [0 \<mapsto> host_b, 1 \<mapsto> copy_a], heap_e = [2 \<mapsto> edge_ba], next_ptr = 3,
      g_nodes = [(id_b, 0), (id_a, 1)], g_edges = [(id_e, 2)], g_rank = 1,
      g_loc = \<lparr>managed = [(id_b, 1)], local_nodes = [(id_b, 0)], distant_nodes = [(id_a, 1)], new_local_nodes = [(id_b, 0)]\<rparr>,
      node_counter = DistributedId 1 1, edge_counter = DistributedId 1 0, g_events = [], sync_linker = l\<rparr>"

lemmas sample_b_defs = sample_b_def host_b_def copy_a_def edge_ba_def node_a_def node_b_def edge_ab_def sample_ids

lemma sample_b_heap [simp]:
  "heap_n (sample_b l) 0 = Some host_b" "heap_n (sample_b l) (Suc 0) = Some copy_a" "heap_e (sample_b l) 2 = Some edge_ba"
  "g_nodes (sample_b l) = [(id_b, 0), (id_a, 1)]" "g_edges (sample_b l) = [(id_e, 2)]" "next_ptr (sample_b l) = 3"
  "sync_linker (sample_b l) = l" "g_rank (sample_b l) = 1"
  "g_loc (sample_b l) =
     \<lparr>managed = [(id_b, 1)], local_nodes = [(id_b, 0)], distant_nodes = [(id_a, 1)], new_local_nodes = [(id_b, 0)]\<rparr>"
  by (simp_all add: sample_b_def)

lemma sample_b_nodes_in: "nodes_in LOCAL (sample_b l) = {(id_b, 0)}" "nodes_in DISTANT (sample_b l) = {(id_a, 1)}"
  by (auto simp: nodes_in_def sample_b_defs)

lemma sample_b_incident:
  "incident endpoint p {2} (sample_b l) k = (if endpoint edge_ba = p \<and> k = 0 then {2} else {})"
  by (auto simp: incident_def edge_ba_def edge_ab_def)

lemma sample_b_wf: "wf_graph (sample_b l)"
proof -
  have "wf_index (sample_b l)"
    by (auto simp: wf_index_def sample_b_defs)
  moreover have "wf_adj (eptrs (sample_b l)) (sample_b l)"
    by (auto simp: wf_adj_def adj_def sample_b_incident um_get_def)
      (simp_all add: host_b_def copy_a_def node_a_def node_b_def edge_ba_def edge_ab_def)
  moreover have "wf_loc (sample_b l)"
    by (simp add: wf_loc_def sample_b_nodes_in)
  moreover have "wf_state (sample_b l)"
    by (simp add: wf_state_def edge_ba_def edge_ab_def)
  moreover have "wf_heap (sample_b l)"
    by (auto simp: wf_heap_def sample_b_def)
  ultimately show ?thesis by (simp add: wf_graph_def)
qed

definition two :: "int \<Rightarrow> (int, unit) dgraph" where
  "two p = (if p = 1 then sample_b () else sample ())"

lemma two_simps [simp]: "two 0 = sample ()" "two 1 = sample_b ()"
  by (simp_all add: two_def)

end
