(* ===== verification/Graph_Props.thy ===== *)
theory Graph_Props
  imports Graph_Import Graph_Clear Graph_Sample
begin

text \<open>
  What the operations of the graph of a process do to its set of nodes and its set of edges.
\<close>

section \<open>Building and importing nodes\<close>

text \<open>
  Building a node never faults and keeps the graph well-formed, as long as the counter has
  not wrapped around to an identifier in use: it adds one local node with the next identifier, located on
  this process and managed by it, and no edge.
\<close>

lemma buildNode_refines:
  assumes "wf_graph g" "node_counter g \<notin> view_nodes g"
  shows "\<exists>g' n. buildNode loc d g = Inr g' \<and> wf_graph g' \<and>
           view_nodes g' = insert (node_counter g) (view_nodes g) \<and> view_edges g' = view_edges g \<and>
           heap_n g' (next_ptr g) = Some n \<and> (node_counter g, next_ptr g) \<in> set (local_nodes (g_loc g')) \<and>
           dn_location n = g_rank g \<and> dn_mutex n \<and> map_of (managed (g_loc g')) (node_counter g) = Some (g_rank g)"
proof -
  let ?p = "next_ptr g" and ?i = "node_counter g"
  let ?n = "(new_node loc ?i d)\<lparr>dn_location := g_rank g, dn_state := LOCAL, dn_mutex := True\<rparr>"
  note fresh = fresh_ptr [OF assms(1)]
  note wf = wf_graphD [OF assms(1)]
  have loc: "?i \<notin> um_keys (local_nodes (g_loc g))" "?i \<notin> um_keys (distant_nodes (g_loc g))"
    using keys_loc [OF wf(3)] assms(2) by auto
  then have same: "um_erase ?i (distant_nodes (g_loc g)) = distant_nodes (g_loc g)"
    by (auto simp: um_erase_def filter_id_conv image_iff)
  obtain g' where g': "buildNode loc d g = Inr g'" "node_added ?p ?n g g'" "managed (g_loc g') = um_set ?i (g_rank g) (managed (g_loc g))"
    using assms(2) loc same
    by (auto simp: buildNode_def id_post_inc_def alloc_n_def build_node_at_def insert_node_def setLocal_def lm_setLocal_def
        setMutex_def heap_ops node_added_def lm_local_def addManagedNode_def new_node_def um_insert_def event_def upd_loc_def)
  have "wf_graph g'"
    by (rule node_added_wf [OF assms(1) g'(2)]) (use assms(2) fresh in \<open>simp_all add: new_node_def\<close>)
  moreover have "view_edges g' = view_edges g" by (rule view_edges_added [OF assms(1) g'(2) fresh(3)])
  ultimately show ?thesis using g' by (auto simp: node_added_def new_node_def)
qed

text \<open>
  Property C21: importing a node object that no other object refers to never faults and keeps the graph
  well-formed: afterwards the identifier is that of a local node, located on this process, with the data and
  the weight of the imported node, whether the process knew the node before or not.
\<close>

theorem importNode_refines:
  assumes "wf_graph g" "heap_n g p = Some n" "p \<notin> nptrs g" "dn_in n = []" "dn_out n = []"
  shows "\<exists>g' q m. importNode p g = Inr g' \<and> wf_graph g' \<and> view_nodes g' = insert (dn_id n) (view_nodes g) \<and>
           view_edges g' = view_edges g \<and> (dn_id n, q) \<in> nodes_in LOCAL g' \<and> heap_n g' q = Some m \<and>
           dn_data m = dn_data n \<and> dn_weight m = dn_weight n \<and> dn_location m = g_rank g"
proof (cases "dn_id n \<in> view_nodes g")
  case True
  with import_known [OF assms(1-3)] show ?thesis by (auto simp: insert_absorb)
next
  case False
  let ?m = "n\<lparr>dn_location := g_rank g, dn_state := LOCAL, dn_mutex := True\<rparr>"
  obtain g' where g': "importNode p g = Inr g'" "node_added p ?m g g'"
    using import_fresh [OF assms(1-3) False] by blast
  have "wf_graph g'" by (rule node_added_wf [OF assms(1) g'(2)]) (use assms(3-5) False in simp_all)
  moreover have "view_edges g' = view_edges g" by (rule view_edges_added [OF assms(1) g'(2) assms(3)])
  moreover have "heap_n g' p = Some ?m" "g_nodes g' = g_nodes g @ [(dn_id n, p)]"
    using g'(2) by (simp_all add: node_added_def)
  moreover from this have "(dn_id n, p) \<in> nodes_in LOCAL g'" by (simp add: nodes_in_def)
  ultimately show ?thesis using g'(1) by (intro exI [of _ g'] exI [of _ p] exI [of _ ?m]) simp
qed

text \<open>A node object that has just been received.\<close>

lemma alloc_n_wf:
  assumes "wf_graph g"
  shows "wf_graph (snd (alloc_n n g))"
proof (rule wf_graph_shape [OF assms])
  show "map_option node_shape (heap_n (snd (alloc_n n g)) p) = map_option node_shape (heap_n g p)" if "p \<in> nptrs g" for p
  proof -
    from that fresh_ptr(3) [OF assms] have "p \<noteq> next_ptr g" by blast
    then show ?thesis by (simp add: alloc_n_def)
  qed
  show "wf_heap (snd (alloc_n n g))" using wf_graphD(5) [OF assms] by (simp add: wf_heap_def alloc_n_def)
qed (simp_all add: alloc_n_def)

theorem importNode_refines_witness:
  "\<exists>g' q m. importNode 3 (snd (alloc_n (new_node 0 id_b 8) (sample ()))) = Inr g' \<and> wf_graph g' \<and>
     (id_b, q) \<in> nodes_in LOCAL g' \<and> heap_n g' q = Some m \<and> dn_data m = 8 \<and> dn_location m = 0"
proof -
  have "heap_n (snd (alloc_n (new_node 0 id_b 8) (sample ()))) 3 = Some (new_node 0 id_b 8)"
    "3 \<notin> nptrs (snd (alloc_n (new_node 0 id_b 8) (sample ())))" "g_rank (snd (alloc_n (new_node 0 id_b 8) (sample ()))) = 0"
    by (simp_all add: alloc_n_def)
  from importNode_refines [OF alloc_n_wf [OF sample_wf] this(1,2)] this(3) show ?thesis
    by (simp add: new_node_def) blast
qed

section \<open>Erasing nodes\<close>

text \<open>
  Property C16: erasing a node of a well-formed graph never faults, keeps the graph well-formed, and
  removes from it exactly the node and the edges that start or end in it.
\<close>

theorem erase_node_refines:
  assumes "wf_graph g" "(i, p) \<in> set (g_nodes g)"
  shows "\<exists>g'. erase_node p g = Inr g' \<and> wf_graph g' \<and> view_nodes g' = view_nodes g - {i} \<and>
           view_edges g' = {(j, s, l, t). (j, s, l, t) \<in> view_edges g \<and> s \<noteq> i \<and> t \<noteq> i}"
proof -
  note wf = wf_graphD [OF assms(1)]
  from assms(2) have "p \<in> nptrs g" by force
  then obtain g' where g': "erase_node p g = Inr g'" "node_gone p g g'"
    using erase_node_gone [OF assms(1)] by blast
  have "view_nodes g' = view_nodes g - {i}"
    using id_ptr [OF wf(1) assms(2)] by (force simp: node_goneD(3) [OF g'(2)])
  moreover have "view_edges g' = {(j, s, l, t). (j, s, l, t) \<in> view_edges g \<and> s \<noteq> i \<and> t \<noteq> i}"
    using view_edges_gone [OF wf(1) assms(2) g'(2)] by auto
  ultimately show ?thesis using g'(1) node_goneD(1) [OF g'(2)] by blast
qed

theorem erase_node_refines_witness:
  "\<exists>g'. erase_node 1 (sample ()) = Inr g' \<and> wf_graph g' \<and> view_nodes g' = {id_a} \<and> view_edges g' = {}"
  using erase_node_refines [OF sample_wf, of id_b 1 "()"] by (force simp: sample_views sample_ids)

text \<open>
  Property C6: the end of a synchronization clears the distant nodes without a fault and leaves a
  well-formed graph: the edges that are left are those with a local end, the nodes that are left are the
  local nodes and the distant nodes that an edge links to a local node.
\<close>

theorem clearDistantNodes_keeps:
  assumes "wf_graph g"
  shows "\<exists>g'. clearDistantNodes g = Inr g' \<and> wf_graph g' \<and>
           view_edges g' = {(j, s, l, t). (j, s, l, t) \<in> view_edges g \<and> (s \<in> ids_in LOCAL g \<or> t \<in> ids_in LOCAL g)} \<and>
           view_nodes g' = ids_in LOCAL g \<union>
             {i. \<exists>j l k. ((j, i, l, k) \<in> view_edges g \<or> (j, k, l, i) \<in> view_edges g) \<and> k \<in> ids_in LOCAL g}"
proof -
  note ptrs = clear_ptrs [OF assms]
  obtain g' where g': "run_all clearNode (clear_ptrs g) g = Inr g'" "trimmed (set (clear_ptrs g)) g g'"
    using clear_all [OF assms ptrs(1-3)] by blast
  note trim = trimmedD [OF g'(2)]
  have "(j, e) \<in> set (g_edges g') \<and> edge_view g' e = Some (s, l, t) \<longleftrightarrow>
      (j, e) \<in> set (g_edges g) \<and> edge_view g e = Some (s, l, t) \<and> (s \<in> ids_in LOCAL g \<or> t \<in> ids_in LOCAL g)" for j e s l t
  proof (cases "(j, e) \<in> set (g_edges g)")
    case True
    then have e: "e \<in> eptrs g" by force
    have "edge_view g' e = edge_view g e" if "(j, e) \<in> set (g_edges g')"
      using edge_view_trimmed [OF g'(2)] that by force
    with True clear_obsolete [OF assms e, of s l t] show ?thesis unfolding trim(3) by auto
  qed (simp add: trim(3))
  then have "(j, s, l, t) \<in> view_edges g' \<longleftrightarrow>
      (j, s, l, t) \<in> view_edges g \<and> (s \<in> ids_in LOCAL g \<or> t \<in> ids_in LOCAL g)" for j s l t
    by (simp add: view_edges_def) blast
  then have edges: "view_edges g' = {(j, s, l, t). (j, s, l, t) \<in> view_edges g \<and> (s \<in> ids_in LOCAL g \<or> t \<in> ids_in LOCAL g)}"
    by auto
  have node: "(i, p) \<in> set (g_nodes g') \<longleftrightarrow> (i, p) \<in> set (g_nodes g) \<and> (i \<in> ids_in LOCAL g \<or> linked_local p g)" for i p
  proof (cases "(i, p) \<in> set (g_nodes g)")
    case True
    then have p: "p \<in> nptrs g" by force
    have "(i, q) \<in> set (g_nodes g) \<longleftrightarrow> q = p" for q
      using id_ptr [OF wf_graphD(1) [OF assms] True, of i q] True by auto
    then have "i \<in> ids_in LOCAL g \<longleftrightarrow> end_local p g"
      by (force simp: ids_in_def nodes_in_def end_local_def image_iff)
    with True ptrs(4) [OF p] show ?thesis unfolding trim(2) by auto
  qed (simp add: trim(2))
  have "i \<in> view_nodes g' \<longleftrightarrow> i \<in> ids_in LOCAL g \<or>
      (\<exists>j l k. ((j, i, l, k) \<in> view_edges g \<or> (j, k, l, i) \<in> view_edges g) \<and> k \<in> ids_in LOCAL g)" for i
  proof (cases "i \<in> view_nodes g")
    case True
    then obtain p where p: "(i, p) \<in> set (g_nodes g)" by force
    have "(i, q) \<in> set (g_nodes g) \<longleftrightarrow> q = p" for q
      using id_ptr [OF wf_graphD(1) [OF assms] p, of i q] p by auto
    then have "(i, q) \<in> set (g_nodes g') \<longleftrightarrow> q = p \<and> (i \<in> ids_in LOCAL g \<or> linked_local p g)" for q
      using node [of i q] by auto
    then have "i \<in> view_nodes g' \<longleftrightarrow> i \<in> ids_in LOCAL g \<or> linked_local p g"
      by (simp add: in_fst_image)
    then show ?thesis using linked_view [OF assms p] by simp
  next
    case False
    then have "i \<notin> view_nodes g'" "i \<notin> ids_in LOCAL g" unfolding ids_in_def nodes_in_def in_fst_image by (simp_all add: node)
    moreover have "(j, i, l, k) \<notin> view_edges g" "(j, k, l, i) \<notin> view_edges g" for j l k
      using False view_ends [OF assms] by blast+
    ultimately show ?thesis by simp
  qed
  then have "view_nodes g' = ids_in LOCAL g \<union>
      {i. \<exists>j l k. ((j, i, l, k) \<in> view_edges g \<or> (j, k, l, i) \<in> view_edges g) \<and> k \<in> ids_in LOCAL g}" by blast
  with edges g'(1) trim(1) show ?thesis by (simp add: clearDistantNodes_def clear_ptrs_def)
qed

theorem clearDistantNodes_keeps_witness:
  "\<exists>g'. clearDistantNodes (sample ()) = Inr g' \<and> view_nodes g' = {id_a, id_b} \<and> view_edges g' = {(id_e, id_a, 0, id_b)}"
proof -
  have "ids_in LOCAL (sample ()) = {id_a}" by (simp add: ids_in_def sample_nodes_in)
  then show ?thesis using clearDistantNodes_keeps [OF sample_wf, of "()"] by (force simp: sample_views)
qed

end
