(* ===== verification/Exchange.thy ===== *)
theory Exchange
  imports Hash_Map
begin

text \<open>
  The collective exchange \<open>TypedMpi::migrate\<close> of \<open>src/fpmas/communication/communication.h\<close> over
  \<open>MpiCommunicatorBase::allToAll\<close>: each process gives a map from ranks to lists and receives a map from the
  ranks that sent it a list. The serialization is left out. All the processes take part in the same exchanges
  in the same order, so a collective algorithm is a sequence of phases over the states of all the processes.
\<close>

type_synonym 'x packs = "(int \<times> 'x list) list"

definition migrate :: "int list \<Rightarrow> (int \<Rightarrow> 'x packs) \<Rightarrow> int \<Rightarrow> 'x packs" where
  "migrate ranks exports p =
     map (\<lambda>q. (q, um_get [] p (exports q))) (filter (\<lambda>q. p \<in> um_keys (exports q)) ranks)"

lemma set_migrate:
  "(q, xs) \<in> set (migrate ranks exports p) \<longleftrightarrow> q \<in> set ranks \<and> p \<in> um_keys (exports q) \<and> xs = um_get [] p (exports q)"
  by (auto simp: migrate_def)

text \<open>The pairs of a sender and an item that a process receives.\<close>

fun received :: "'x packs \<Rightarrow> (int \<times> 'x) list" where
  "received [] = []"
| "received ((q, xs) # packs) = map (Pair q) xs @ received packs"

lemma set_received: "(q, x) \<in> set (received packs) \<longleftrightarrow> (\<exists>xs. (q, xs) \<in> set packs \<and> x \<in> set xs)"
  by (induction packs rule: received.induct) auto

lemma set_received_migrate:
  "(q, x) \<in> set (received (migrate ranks exports p)) \<longleftrightarrow> q \<in> set ranks \<and> x \<in> set (um_get [] p (exports q))"
proof -
  have "x \<in> set (um_get [] p (exports q)) \<Longrightarrow> p \<in> um_keys (exports q)" by (metis empty_iff list.set(1) um_get_None)
  then show ?thesis by (auto simp: set_received set_migrate)
qed

text \<open>A map of lists filled by \<open>m[k].push_back(x)\<close>.\<close>

definition push_pairs :: "('k \<times> 'x) list \<Rightarrow> ('k \<times> 'x list) list" where
  "push_pairs kxs = fold (\<lambda>(k, x). um_push k x) kxs []"

lemma um_get_push_pairs: "um_get [] k (push_pairs kxs) = map snd (filter (\<lambda>kx. fst kx = k) kxs)"
proof -
  have "um_get [] k (fold (\<lambda>(k, x). um_push k x) kxs m) = um_get [] k m @ map snd (filter (\<lambda>kx. fst kx = k) kxs)" for m
    by (induction kxs arbitrary: m) auto
  then show ?thesis by (simp add: push_pairs_def)
qed

lemma set_received_push_pairs:
  "(q, x) \<in> set (received (migrate ranks (\<lambda>q. push_pairs (exports q)) p)) \<longleftrightarrow> q \<in> set ranks \<and> (p, x) \<in> set (exports q)"
  by (force simp: set_received_migrate um_get_push_pairs)

text \<open>A local phase on each process, which may fail.\<close>

definition each_rank :: "int list \<Rightarrow> (int \<Rightarrow> 's \<Rightarrow> 'e + 's) \<Rightarrow> (int \<Rightarrow> 's) \<Rightarrow> 'e + (int \<Rightarrow> 's)" where
  "each_rank ranks f S = run_all (\<lambda>p S. and_then (f p (S p)) (\<lambda>s. Inr (S(p := s)))) ranks S"

lemma each_rank_ok:
  assumes "distinct ranks" "\<And>p. p \<in> set ranks \<Longrightarrow> \<exists>s. f p (S p) = Inr s \<and> P p s"
  shows "\<exists>S'. each_rank ranks f S = Inr S' \<and> (\<forall>p\<in>set ranks. f p (S p) = Inr (S' p) \<and> P p (S' p)) \<and>
           (\<forall>p. p \<notin> set ranks \<longrightarrow> S' p = S p)"
  using assms
proof (induction ranks arbitrary: S)
  case (Cons p ranks)
  from Cons.prems(2) [of p] obtain s where s: "f p (S p) = Inr s" "P p s" by auto
  have "\<exists>S'. each_rank ranks f (S(p := s)) = Inr S' \<and>
      (\<forall>q\<in>set ranks. f q ((S(p := s)) q) = Inr (S' q) \<and> P q (S' q)) \<and> (\<forall>q. q \<notin> set ranks \<longrightarrow> S' q = (S(p := s)) q)"
  proof (rule Cons.IH)
    fix q assume "q \<in> set ranks"
    with Cons.prems(1) have "q \<noteq> p" by auto
    with \<open>q \<in> set ranks\<close> Cons.prems(2) [of q] show "\<exists>t. f q ((S(p := s)) q) = Inr t \<and> P q t" by simp
  qed (use Cons.prems(1) in simp)
  then obtain S' where S': "each_rank ranks f (S(p := s)) = Inr S'"
    "\<forall>q\<in>set ranks. f q ((S(p := s)) q) = Inr (S' q) \<and> P q (S' q)" "\<forall>q. q \<notin> set ranks \<longrightarrow> S' q = (S(p := s)) q"
    by blast
  have "S' p = s" using S'(3) Cons.prems(1) by simp
  moreover have "f q (S q) = Inr (S' q)" "P q (S' q)" if "q \<in> set ranks" for q
  proof -
    from that Cons.prems(1) have "q \<noteq> p" by auto
    with that S'(2) show "f q (S q) = Inr (S' q)" "P q (S' q)" by auto
  qed
  ultimately show ?case
    using s S'(1,3) by (intro exI [of _ S']) (auto simp: each_rank_def)
qed (simp add: each_rank_def)

text \<open>What each process computes for an exchange.\<close>

definition gather :: "'x \<Rightarrow> int list \<Rightarrow> (int \<Rightarrow> 'e + 'x) \<Rightarrow> 'e + (int \<Rightarrow> 'x)" where
  "gather dflt ranks f = run_all (\<lambda>p F. and_then (f p) (\<lambda>x. Inr (F(p := x)))) ranks (\<lambda>_. dflt)"

lemma gather_ok:
  assumes "\<And>p. p \<in> set ranks \<Longrightarrow> f p = Inr (h p)"
  shows "gather dflt ranks f = Inr (\<lambda>p. if p \<in> set ranks then h p else dflt)"
proof -
  have "run_all (\<lambda>p F. and_then (f p) (\<lambda>x. Inr (F(p := x)))) ranks F = Inr (\<lambda>p. if p \<in> set ranks then h p else F p)" for F
    using assms by (induction ranks arbitrary: F) (auto simp: fun_eq_iff)
  then show ?thesis by (simp add: gather_def)
qed

lemma migrate_cong: "(\<And>q. q \<in> set ranks \<Longrightarrow> E q = F q) \<Longrightarrow> migrate ranks E = migrate ranks F"
  by (auto simp: migrate_def fun_eq_iff intro!: map_cong filter_cong)

end
