(* ===== verification/Graph_Messages.thy ===== *)
theory Graph_Messages
  imports Dist_Graph
begin

text \<open>
  The messages that carry nodes and edges between processes: the JSON adapters of
  \<open>src/fpmas/graph/distributed_node.h\<close> and \<open>distributed_edge.h\<close>. The JSON text is left out: a message has the
  fields the adapters write, and unpacking it allocates new objects on the heap of the receiver.
\<close>

section \<open>Nodes\<close>

record 'd node_pack =
  np_id :: dist_id
  np_data :: 'd
  np_weight :: rat

definition pack_node :: "ptr \<Rightarrow> ('d, 'l) dgraph \<Rightarrow> graph_fault + 'd node_pack" where
  "pack_node p g =
     and_then (deref_n p g) (\<lambda>n. Inr \<lparr>np_id = dn_id n, np_data = dn_data n, np_weight = dn_weight n\<rparr>)"

definition unpacked_node :: "int \<Rightarrow> 'd node_pack \<Rightarrow> 'd gnode" where
  "unpacked_node junk m = (new_node junk (np_id m) (np_data m))\<lparr>dn_weight := np_weight m\<rparr>"

fun unpack_nodes :: "int \<Rightarrow> 'd node_pack list \<Rightarrow> ('d, 'l) dgraph \<Rightarrow> ptr list \<times> ('d, 'l) dgraph" where
  "unpack_nodes junk [] g = ([], g)"
| "unpack_nodes junk (m # ms) g =
     (case alloc_n (unpacked_node junk m) g of (p, g) \<Rightarrow>
      case unpack_nodes junk ms g of (ps, g) \<Rightarrow> (p # ps, g))"

section \<open>Edges\<close>

text \<open>\<open>distributed_edge.h\<close>: an edge travels with its ends, each with its location and, in the serialization
  chosen by the user, its data.\<close>

record 'd node_msg =
  em_id :: dist_id
  em_data :: 'd
  em_location :: int

record 'd edge_msg =
  em_edge :: dist_id
  em_layer :: layer_id
  em_weight :: rat
  em_src :: "'d node_msg"
  em_tgt :: "'d node_msg"

definition pack_end :: "('d \<Rightarrow> 'd) \<Rightarrow> 'd gnode \<Rightarrow> 'd node_msg" where
  "pack_end light n = \<lparr>em_id = dn_id n, em_data = light (dn_data n), em_location = dn_location n\<rparr>"

definition pack_edge :: "('d \<Rightarrow> 'd) \<Rightarrow> ptr \<Rightarrow> ('d, 'l) dgraph \<Rightarrow> graph_fault + 'd edge_msg" where
  "pack_edge light e g =
     and_then (deref_e e g) (\<lambda>ed. and_then (deref_n (de_src ed) g) (\<lambda>s. and_then (deref_n (de_tgt ed) g) (\<lambda>t.
       Inr \<lparr>em_edge = de_id ed, em_layer = de_layer ed, em_weight = de_weight ed,
            em_src = pack_end light s, em_tgt = pack_end light t\<rparr>)))"

definition unpack_end :: "int \<Rightarrow> 'd node_msg \<Rightarrow> ('d, 'l) dgraph \<Rightarrow> ptr \<times> ('d, 'l) dgraph" where
  "unpack_end junk m g = alloc_n ((new_node junk (em_id m) (em_data m))\<lparr>dn_location := em_location m\<rparr>) g"

definition unpack_edge :: "int \<Rightarrow> 'd edge_msg \<Rightarrow> ('d, 'l) dgraph \<Rightarrow> graph_fault + ptr \<times> ('d, 'l) dgraph" where
  "unpack_edge junk m g =
     (case unpack_end junk (em_src m) g of (s, g) \<Rightarrow>
      case unpack_end junk (em_tgt m) g of (t, g) \<Rightarrow>
      case alloc_e ((new_edge s t (em_edge m) (em_layer m))\<lparr>de_weight := em_weight m\<rparr>) g of (e, g) \<Rightarrow>
        and_then (linkOut s e g) (\<lambda>g. and_then (linkIn t e g) (\<lambda>g. Inr (e, g))))"

fun unpack_edges :: "int \<Rightarrow> 'd edge_msg list \<Rightarrow> ('d, 'l) dgraph \<Rightarrow> graph_fault + ptr list \<times> ('d, 'l) dgraph" where
  "unpack_edges junk [] g = Inr ([], g)"
| "unpack_edges junk (m # ms) g =
     and_then (unpack_edge junk m g) (\<lambda>(e, g). and_then (unpack_edges junk ms g) (\<lambda>(es, g). Inr (e # es, g)))"

end
