(* ===== verification/Ghost_Mode.thy ===== *)
theory Ghost_Mode
  imports Graph_Growth Exchange Graph_Messages
begin

text \<open>
  \<open>src/fpmas/synchro/ghost/ghost_mode.h\<close>: the links and removals that \<open>GhostSyncLinker\<close> buffers until the next
  synchronization, its \<open>synchronize\<close> and that of \<open>GhostDataSync\<close> as sequences of collective phases. An edge is sent with the light serialization of
  the data of its ends, which the user of the library chooses: the argument \<open>light\<close>. The locations that
  constructors leave uninitialised are the argument \<open>junk\<close>.
\<close>

section \<open>Buffered operations\<close>

record ghost_linker =
  link_buffer :: "ptr list"
  unlink_migration :: "dist_id packs"
  remove_node_buffer :: "dist_id packs"
  local_nodes_to_remove :: "ptr list"

type_synonym 'd ghost_graph = "('d, ghost_linker) dgraph"

definition ghost_linker_new :: ghost_linker where
  "ghost_linker_new = \<lparr>link_buffer = [], unlink_migration = [], remove_node_buffer = [], local_nodes_to_remove = []\<rparr>"

definition upd_linker :: "('l \<Rightarrow> 'l) \<Rightarrow> ('d, 'l) dgraph \<Rightarrow> ('d, 'l) dgraph" where
  "upd_linker f g = g\<lparr>sync_linker := f (sync_linker g)\<rparr>"

definition ghost_link :: "ptr \<Rightarrow> ('d, ghost_linker) graph_op" where
  "ghost_link e g =
     and_then (deref_e e g) (\<lambda>ed.
       Inr (if de_state ed = DISTANT then upd_linker (\<lambda>l. l\<lparr>link_buffer := link_buffer l @ [e]\<rparr>) g else g))"

definition buffer_unlink :: "dist_id \<Rightarrow> 'd gnode \<Rightarrow> ghost_linker \<Rightarrow> ghost_linker" where
  "buffer_unlink i n l =
     (if dn_state n = DISTANT then l\<lparr>unlink_migration := um_push (dn_location n) i (unlink_migration l)\<rparr> else l)"

definition ghost_unlink :: "ptr \<Rightarrow> ('d, ghost_linker) graph_op" where
  "ghost_unlink e g =
     and_then (deref_e e g) (\<lambda>ed.
     if de_state ed = DISTANT
     then and_then (deref_n (de_src ed) g) (\<lambda>s. and_then (deref_n (de_tgt ed) g) (\<lambda>t.
            Inr (upd_linker (\<lambda>l. buffer_unlink (de_id ed) t (buffer_unlink (de_id ed) s
                   (l\<lparr>link_buffer := filter (\<lambda>f. f \<noteq> e) (link_buffer l)\<rparr>))) g)))
     else Inr g)"

definition unlink_edges_of :: "ptr \<Rightarrow> ('d, ghost_linker) graph_op" where
  "unlink_edges_of p g =
     and_then (deref_n p g) (\<lambda>n.
     and_then (run_all (unlink ghost_unlink) (getOutgoingEdges n) g) (\<lambda>g.
     and_then (deref_n p g) (\<lambda>n.
       run_all (unlink ghost_unlink) (getIncomingEdges n) g)))"

definition ghost_removeNode :: "ptr \<Rightarrow> ('d, ghost_linker) graph_op" where
  "ghost_removeNode p g =
     and_then (deref_n p g) (\<lambda>n.
     and_then (if dn_state n = DISTANT
               then Inr (upd_linker (\<lambda>l. l\<lparr>remove_node_buffer := um_push (dn_location n) (dn_id n) (remove_node_buffer l)\<rparr>) g)
               else unlink_edges_of p g) (\<lambda>g.
       Inr (upd_linker (\<lambda>l. l\<lparr>local_nodes_to_remove := local_nodes_to_remove l @ [p]\<rparr>) g)))"

section \<open>Synchronization of the links\<close>

text \<open>The processes that a buffered edge goes to, and whether the edge is then cleared.\<close>

definition edge_exports :: "('d \<Rightarrow> 'd) \<Rightarrow> ptr \<Rightarrow> ('d, 'l) dgraph \<Rightarrow> graph_fault + (int \<times> 'd edge_msg) list" where
  "edge_exports light e g =
     and_then (deref_e e g) (\<lambda>ed. and_then (deref_n (de_src ed) g) (\<lambda>s. and_then (deref_n (de_tgt ed) g) (\<lambda>t.
     and_then (pack_edge light e g) (\<lambda>m.
       Inr ((if dn_state s = DISTANT then [(dn_location s, m)] else []) @
            (if dn_state t = DISTANT then [(dn_location t, m)] else []))))))"

definition link_exports :: "('d \<Rightarrow> 'd) \<Rightarrow> 'd ghost_graph \<Rightarrow> graph_fault + 'd edge_msg packs" where
  "link_exports light g =
     and_then (map_all (\<lambda>e. edge_exports light e g) (link_buffer (sync_linker g))) (\<lambda>pss. Inr (push_pairs (concat pss)))"

definition both_distant :: "ptr \<Rightarrow> ('d, 'l) dgraph \<Rightarrow> graph_fault + ptr list" where
  "both_distant e g =
     and_then (deref_e e g) (\<lambda>ed. and_then (deref_n (de_src ed) g) (\<lambda>s. and_then (deref_n (de_tgt ed) g) (\<lambda>t.
       Inr (if dn_state s = DISTANT \<and> dn_state t = DISTANT then [e] else []))))"

definition edges_to_clear :: "'d ghost_graph \<Rightarrow> graph_fault + ptr list" where
  "edges_to_clear g =
     and_then (map_all (\<lambda>e. both_distant e g) (link_buffer (sync_linker g))) (\<lambda>ess. Inr (concat ess))"

definition import_links :: "int \<Rightarrow> 'd edge_msg packs \<Rightarrow> ('d, ghost_linker) graph_op" where
  "import_links junk packs g =
     and_then (unpack_edges junk (map snd (received packs)) g) (\<lambda>(es, g).
     and_then (run_all importEdge es g) (\<lambda>g. Inr (upd_linker (\<lambda>l. l\<lparr>link_buffer := []\<rparr>) g)))"

definition import_removals :: "dist_id packs \<Rightarrow> ('d, ghost_linker) graph_op" where
  "import_removals packs g =
     run_all (\<lambda>(q, i) g. and_then (getNode i g) (\<lambda>p. unlink_edges_of p g)) (received packs)
       (upd_linker (\<lambda>l. l\<lparr>remove_node_buffer := packs\<rparr>) g)"

definition import_unlinks :: "dist_id packs \<Rightarrow> ('d, ghost_linker) graph_op" where
  "import_unlinks packs g =
     and_then (run_all (\<lambda>(q, i) g. if i \<in> um_keys (g_edges g) then and_then (getEdge i g) (\<lambda>e. erase_edge e g) else Inr g)
       (received packs) g) (\<lambda>g. Inr (upd_linker (\<lambda>l. l\<lparr>unlink_migration := []\<rparr>) g))"

text \<open>The end of the synchronization: the nodes removed by this process, then those removed by others.\<close>

definition register_removals :: "('d, ghost_linker) graph_op" where
  "register_removals g =
     and_then (map_all (\<lambda>(q, i). getNode i g) (received (remove_node_buffer (sync_linker g)))) (\<lambda>ps.
       Inr (upd_linker (\<lambda>l. l\<lparr>local_nodes_to_remove := local_nodes_to_remove l @ ps, remove_node_buffer := []\<rparr>) g))"

definition erase_removed :: "('d, ghost_linker) graph_op" where
  "erase_removed g =
     and_then (run_all erase_node (local_nodes_to_remove (sync_linker g)) g) (\<lambda>g.
       Inr (upd_linker (\<lambda>l. l\<lparr>local_nodes_to_remove := []\<rparr>) g))"

definition finish_links :: "ptr list \<Rightarrow> ('d, ghost_linker) graph_op" where
  "finish_links clear g =
     and_then (run_all erase_edge clear g) (\<lambda>g. and_then (register_removals g) erase_removed)"

definition ghost_links_synchronize ::
  "int \<Rightarrow> ('d \<Rightarrow> 'd) \<Rightarrow> int list \<Rightarrow> (int \<Rightarrow> 'd ghost_graph) \<Rightarrow> graph_fault + (int \<Rightarrow> 'd ghost_graph)" where
  "ghost_links_synchronize junk light ranks S =
     and_then (gather [] ranks (\<lambda>p. edges_to_clear (S p))) (\<lambda>clear.
     and_then (gather [] ranks (\<lambda>p. link_exports light (S p))) (\<lambda>links.
     and_then (each_rank ranks (\<lambda>p. import_links junk (migrate ranks links p)) S) (\<lambda>S.
     and_then (each_rank ranks (\<lambda>p. import_removals (migrate ranks (\<lambda>q. remove_node_buffer (sync_linker (S q))) p)) S) (\<lambda>S.
     and_then (each_rank ranks (\<lambda>p. import_unlinks (migrate ranks (\<lambda>q. unlink_migration (sync_linker (S q))) p)) S) (\<lambda>S.
       each_rank ranks (\<lambda>p. finish_links (clear p)) S)))))"

section \<open>Synchronization of the data\<close>

text \<open>An update carries the identifier of a node, its data and its weight: \<open>NodeUpdatePack\<close>.\<close>

definition data_requests :: "('d, 'l) dgraph \<Rightarrow> graph_fault + dist_id packs" where
  "data_requests g =
     and_then (map_all (\<lambda>(i, p). and_then (deref_n p g) (\<lambda>n. Inr (dn_location n, i))) (distant_nodes (g_loc g))) (\<lambda>reqs.
       Inr (push_pairs reqs))"

definition data_updates :: "dist_id packs \<Rightarrow> ('d, 'l) dgraph \<Rightarrow> graph_fault + (dist_id \<times> 'd \<times> rat) packs" where
  "data_updates packs g =
     and_then (map_all (\<lambda>(q, i). and_then (getNode i g) (\<lambda>p. and_then (deref_n p g) (\<lambda>n.
       Inr (q, i, dn_data n, dn_weight n)))) (received packs)) (\<lambda>ups. Inr (push_pairs ups))"

definition import_data :: "(dist_id \<times> 'd \<times> rat) packs \<Rightarrow> ('d, 'l) graph_op" where
  "import_data packs g =
     run_all (\<lambda>(q, i, d, w) g. and_then (getNode i g) (\<lambda>p. upd_n p (\<lambda>n. n\<lparr>dn_data := d, dn_weight := w\<rparr>) g)) (received packs) g"

definition ghost_data_synchronize :: "int list \<Rightarrow> (int \<Rightarrow> ('d, 'l) dgraph) \<Rightarrow> graph_fault + (int \<Rightarrow> ('d, 'l) dgraph)" where
  "ghost_data_synchronize ranks S =
     and_then (gather [] ranks (\<lambda>p. data_requests (S p))) (\<lambda>requests.
     and_then (gather [] ranks (\<lambda>p. data_updates (migrate ranks requests p) (S p))) (\<lambda>updates.
       each_rank ranks (\<lambda>p. import_data (migrate ranks updates p)) S))"

text \<open>\<open>DistributedGraph::synchronize\<close> in this mode.\<close>

definition ghost_synchronize ::
  "int \<Rightarrow> ('d \<Rightarrow> 'd) \<Rightarrow> int list \<Rightarrow> (int \<Rightarrow> 'd ghost_graph) \<Rightarrow> graph_fault + (int \<Rightarrow> 'd ghost_graph)" where
  "ghost_synchronize junk light ranks S =
     and_then (ghost_links_synchronize junk light ranks S) (\<lambda>S.
     and_then (each_rank ranks (\<lambda>p. clearDistantNodes) S) (ghost_data_synchronize ranks))"

section \<open>The linker buffers\<close>

text \<open>What linking and unlinking add to the buffers, for an edge, its source and its target.\<close>

definition ghost_link_to :: "dedge \<Rightarrow> 'd gnode \<Rightarrow> 'd gnode \<Rightarrow> ptr \<Rightarrow> ghost_linker \<Rightarrow> ghost_linker" where
  "ghost_link_to ed s t e l = (if de_state ed = DISTANT then l\<lparr>link_buffer := link_buffer l @ [e]\<rparr> else l)"

definition ghost_unlink_to :: "dedge \<Rightarrow> 'd gnode \<Rightarrow> 'd gnode \<Rightarrow> ptr \<Rightarrow> ghost_linker \<Rightarrow> ghost_linker" where
  "ghost_unlink_to ed s t e l =
     (if de_state ed = DISTANT
      then buffer_unlink (de_id ed) t (buffer_unlink (de_id ed) s (l\<lparr>link_buffer := filter (\<lambda>f. f \<noteq> e) (link_buffer l)\<rparr>))
      else l)"

interpretation gl: buffering_linker ghost_link ghost_unlink ghost_link_to ghost_unlink_to
  by unfold_locales (simp_all add: ghost_link_def ghost_unlink_def heap_ops upd_linker_def ghost_link_to_def ghost_unlink_to_def)

end
