(* ===== verification/Ghost_Props.thy ===== *)
theory Ghost_Props
  imports Ghost_Mode Graph_Sample
begin

text \<open>
  What the ghost mode promises on one process: links and unlinks take effect at once and are buffered for
  the processes that hold the distant ends, removals keep the node until the synchronization. The facts of the
  linker come from the interpretation \<open>gl\<close> of the interface \<open>buffering_linker\<close>.
\<close>

lemma edge_view_linker: "edge_view (g\<lparr>sync_linker := l\<rparr>) e = edge_view g e"
  by (rule edge_view_cong) simp_all

section \<open>Links\<close>

text \<open>
  Property C17: in ghost mode, linking two nodes of a process never faults and keeps its graph well-formed:
  it adds one edge with the next identifier, local when both ends are, and the edge is buffered for the next
  synchronization when an end is distant.
\<close>

theorem ghost_link_refines:
  fixes g :: "('d, ghost_linker) dgraph"
  assumes "wf_graph g" "src \<in> nptrs g" "tgt \<in> nptrs g" "heap_n g src = Some s" "heap_n g tgt = Some t"
    and "dn_mutex s" "dn_mutex t" "edge_counter g \<notin> um_keys (g_edges g)"
  shows "\<exists>g' ed. link_nodes ghost_link src tgt layer g = Inr g' \<and> wf_graph g' \<and> view_nodes g' = view_nodes g \<and>
           view_edges g' = insert (edge_counter g, dn_id s, layer, dn_id t) (view_edges g) \<and>
           heap_e g' (next_ptr g) = Some ed \<and> (de_state ed = LOCAL \<longleftrightarrow> dn_state s = LOCAL \<and> dn_state t = LOCAL) \<and>
           link_buffer (sync_linker g') = link_buffer (sync_linker g) @
             (if dn_state s = LOCAL \<and> dn_state t = LOCAL then [] else [next_ptr g])"
proof -
  obtain g' ed and s' t' :: "'d gnode" where g': "link_nodes ghost_link src tgt layer g = Inr g'" "wf_graph g'" "view_nodes g' = view_nodes g"
    "view_edges g' = insert (edge_counter g, dn_id s, layer, dn_id t) (view_edges g)" "heap_e g' (next_ptr g) = Some ed"
    "de_state ed = LOCAL \<longleftrightarrow> dn_state s = LOCAL \<and> dn_state t = LOCAL"
    "sync_linker g' = ghost_link_to ed s' t' (next_ptr g) (sync_linker g)"
    using gl.link_nodes_refines [OF assms] by metis
  have "link_buffer (sync_linker g') = link_buffer (sync_linker g) @
      (if dn_state s = LOCAL \<and> dn_state t = LOCAL then [] else [next_ptr g])"
    using g'(6) by (cases "de_state ed") (simp_all add: g'(7) ghost_link_to_def)
  with g' show ?thesis by blast
qed

theorem ghost_link_refines_witness:
  "\<exists>g'. link_nodes ghost_link 0 1 3 (sample ghost_linker_new) = Inr g' \<and> wf_graph g' \<and>
     view_edges g' = {(DistributedId 0 1, id_a, 3, id_b), (id_e, id_a, 0, id_b)} \<and> link_buffer (sync_linker g') = [3]"
  using ghost_link_refines [OF sample_wf, of 0 ghost_linker_new 1 node_a node_b 3]
  by (simp add: sample_views ghost_linker_new_def) (auto simp: node_a_def node_b_def id_e_def)

section \<open>Unlinks\<close>

text \<open>The requests to unlink that a distant end calls for.\<close>

definition unlink_requests :: "dist_id \<Rightarrow> 'd gnode \<Rightarrow> int \<Rightarrow> dist_id list" where
  "unlink_requests i n r = (if dn_state n = DISTANT \<and> dn_location n = r then [i] else [])"

lemma buffer_unlink_requests:
  "um_get [] r (unlink_migration (buffer_unlink i n l)) = um_get [] r (unlink_migration l) @ unlink_requests i n r"
  by (simp add: buffer_unlink_def unlink_requests_def)

lemma buffer_unlink_fields [simp]:
  "link_buffer (buffer_unlink i n l) = link_buffer l" "remove_node_buffer (buffer_unlink i n l) = remove_node_buffer l"
  "local_nodes_to_remove (buffer_unlink i n l) = local_nodes_to_remove l"
  by (simp_all add: buffer_unlink_def)

lemma ghost_unlink_to_requests:
  assumes "de_state ed = LOCAL \<Longrightarrow> dn_state s = LOCAL \<and> dn_state t = LOCAL"
  shows "um_get [] r (unlink_migration (ghost_unlink_to ed s t e l)) =
           um_get [] r (unlink_migration l) @ unlink_requests (de_id ed) s r @ unlink_requests (de_id ed) t r"
  using assms by (cases "de_state ed") (simp_all add: ghost_unlink_to_def buffer_unlink_requests, simp add: unlink_requests_def)

lemma ghost_unlink_to_fields [simp]:
  "remove_node_buffer (ghost_unlink_to ed s t e l) = remove_node_buffer l"
  "local_nodes_to_remove (ghost_unlink_to ed s t e l) = local_nodes_to_remove l"
  by (simp_all add: ghost_unlink_to_def)

text \<open>
  Property C18: in ghost mode, unlinking an edge never faults and keeps the graph of the process well-formed:
  it removes exactly this edge, and the process that holds a distant end is sent a request for each such end.
\<close>

theorem ghost_unlink_refines:
  assumes "wf_graph g" "(i, e) \<in> set (g_edges g)"
  shows "\<exists>g' ed s t. unlink ghost_unlink e g = Inr g' \<and> wf_graph g' \<and> view_nodes g' = view_nodes g \<and>
           view_edges g' = {(j, v). (j, v) \<in> view_edges g \<and> j \<noteq> i} \<and> heap_e g e = Some ed \<and>
           heap_n g (de_src ed) = Some s \<and> heap_n g (de_tgt ed) = Some t \<and>
           (\<forall>r. um_get [] r (unlink_migration (sync_linker g')) =
              um_get [] r (unlink_migration (sync_linker g)) @ unlink_requests i s r @ unlink_requests i t r)"
proof -
  obtain g' ed s t where g': "unlink ghost_unlink e g = Inr g'" "wf_graph g'" "view_nodes g' = view_nodes g"
    "view_edges g' = {(j, v). (j, v) \<in> view_edges g \<and> j \<noteq> i}" "heap_e g e = Some ed"
    "heap_n g (de_src ed) = Some s" "heap_n g (de_tgt ed) = Some t" "sync_linker g' = ghost_unlink_to ed s t e (sync_linker g)"
    using gl.unlink_refines [OF assms] by metis
  have "de_id ed = i" using wf_indexD(4) [OF wf_graphD(1) [OF assms(1)] assms(2)] g'(5) by auto
  moreover have "dn_state s = LOCAL \<and> dn_state t = LOCAL" if "de_state ed = LOCAL"
  proof -
    from assms(2) have "e \<in> eptrs g" by force
    with that g'(5) wf_graphD(4) [OF assms(1)] have "end_local (de_src ed) g" "end_local (de_tgt ed) g"
      unfolding wf_state_def by blast+
    with g'(6,7) show ?thesis by (simp add: end_local_def)
  qed
  ultimately have "um_get [] r (unlink_migration (sync_linker g')) =
      um_get [] r (unlink_migration (sync_linker g)) @ unlink_requests i s r @ unlink_requests i t r" for r
    unfolding g'(8) using ghost_unlink_to_requests [of ed s t] by simp
  with g' show ?thesis by blast
qed

theorem ghost_unlink_refines_witness:
  "\<exists>g'. unlink ghost_unlink 2 (sample ghost_linker_new) = Inr g' \<and> wf_graph g' \<and> view_edges g' = {} \<and>
     um_get [] 1 (unlink_migration (sync_linker g')) = [id_e]"
proof -
  obtain g' ed s t where g': "unlink ghost_unlink 2 (sample ghost_linker_new) = Inr g'" "wf_graph g'"
    "view_edges g' = {(j, v). (j, v) \<in> view_edges (sample ghost_linker_new) \<and> j \<noteq> id_e}"
    "heap_e (sample ghost_linker_new) 2 = Some ed" "heap_n (sample ghost_linker_new) (de_src ed) = Some s"
    "heap_n (sample ghost_linker_new) (de_tgt ed) = Some t"
    "um_get [] 1 (unlink_migration (sync_linker g')) = um_get [] 1 (unlink_migration (sync_linker (sample ghost_linker_new))) @
       unlink_requests id_e s 1 @ unlink_requests id_e t 1"
    using ghost_unlink_refines [OF sample_wf, of id_e 2 ghost_linker_new] by auto
  from g'(4) have "ed = edge_ab" by simp
  then have "de_src ed = 0" "de_tgt ed = Suc 0" by (simp_all add: edge_ab_def)
  with g'(5,6) have "s = node_a" "t = node_b" by simp_all
  with g'(7) have "um_get [] 1 (unlink_migration (sync_linker g')) = [id_e]"
    by (simp add: unlink_requests_def ghost_linker_new_def) (simp add: node_a_def node_b_def)
  moreover have "view_edges g' = {}" unfolding g'(3) by (auto simp: sample_views)
  ultimately show ?thesis using g'(1,2) by blast
qed

section \<open>Removals\<close>

lemma unlink_keeps_removals:
  assumes "unlink ghost_unlink e g = Inr g'"
  shows "local_nodes_to_remove (sync_linker g') = local_nodes_to_remove (sync_linker g)"
proof -
  obtain g1 where g1: "ghost_unlink e g = Inr g1" "erase_edge e g1 = Inr g'" using assms by (auto simp: unlink_def)
  have "local_nodes_to_remove (sync_linker g1) = local_nodes_to_remove (sync_linker g)"
    using g1(1) by (auto simp: ghost_unlink_def upd_linker_def split: if_splits)
  then show ?thesis by (simp add: erase_edge_linker [OF g1(2)])
qed

lemma unlinks_keep_removals:
  "run_all (unlink ghost_unlink) es g = Inr g' \<Longrightarrow> local_nodes_to_remove (sync_linker g') = local_nodes_to_remove (sync_linker g)"
  by (rule run_all_invariant [where P = "\<lambda>h. local_nodes_to_remove (sync_linker h) = local_nodes_to_remove (sync_linker g)"])
    (auto dest: unlink_keeps_removals)

text \<open>
  Property C19: in ghost mode, removing a local node never faults and keeps the graph of the process
  well-formed: it removes the edges of the node and no other, and the node stays until the synchronization,
  for which it is registered.
\<close>

theorem ghost_removeNode_local:
  assumes "wf_graph g" "(i, p) \<in> nodes_in LOCAL g"
  shows "\<exists>g'. ghost_removeNode p g = Inr g' \<and> wf_graph g' \<and> view_nodes g' = view_nodes g \<and>
           view_edges g' = {(j, s, l, t). (j, s, l, t) \<in> view_edges g \<and> s \<noteq> i \<and> t \<noteq> i} \<and>
           local_nodes_to_remove (sync_linker g') = local_nodes_to_remove (sync_linker g) @ [p]"
proof -
  from assms(2) obtain n where n: "(i, p) \<in> set (g_nodes g)" "heap_n g p = Some n" "dn_state n = LOCAL"
    by (auto simp: nodes_in_def)
  then have p: "p \<in> nptrs g" by force
  obtain n' g1 m g2 where run: "heap_n g p = Some n'" "run_all (unlink ghost_unlink) (getOutgoingEdges n') g = Inr g1"
    "heap_n g1 p = Some m" "run_all (unlink ghost_unlink) (getIncomingEdges m) g1 = Inr g2"
    and gone: "edges_gone (ends_at de_src p g \<union> ends_at de_tgt p g) g g2"
    using gl.unlink_edges_gone [OF assms(1) p] by blast
  let ?g = "upd_linker (\<lambda>l. l\<lparr>local_nodes_to_remove := local_nodes_to_remove l @ [p]\<rparr>) g2"
  have "ghost_removeNode p g = Inr ?g"
    using n run by (simp add: ghost_removeNode_def unlink_edges_of_def heap_ops)
  moreover have "wf_graph ?g"
    by (rule wf_graph_same [OF edges_goneD(1) [OF gone]]) (simp_all add: upd_linker_def)
  moreover have "view_edges ?g = {(j, s, l, t). (j, s, l, t) \<in> view_edges g \<and> s \<noteq> i \<and> t \<noteq> i}"
  proof -
    have "view_edges ?g = view_edges g2"
      by (simp add: view_edges_def upd_linker_def edge_view_linker)
    then show ?thesis using view_edges_cut [OF assms(1) n(1) gone] by auto
  qed
  moreover have "local_nodes_to_remove (sync_linker g2) = local_nodes_to_remove (sync_linker g)"
    using unlinks_keep_removals [OF run(2)] unlinks_keep_removals [OF run(4)] by simp
  ultimately show ?thesis using edges_goneD(2) [OF gone] by (simp add: upd_linker_def)
qed

theorem ghost_removeNode_local_witness:
  "\<exists>g'. ghost_removeNode 0 (sample ghost_linker_new) = Inr g' \<and> wf_graph g' \<and> view_nodes g' = {id_a, id_b} \<and>
     view_edges g' = {} \<and> local_nodes_to_remove (sync_linker g') = [0]"
  using ghost_removeNode_local [OF sample_wf, of id_a 0 ghost_linker_new]
  by (auto simp: sample_nodes_in sample_views ghost_linker_new_def)

section \<open>A node removed twice\<close>

text \<open>Erasing a list of nodes some of which are gone or come twice.\<close>

lemma erase_gone_faults:
  assumes "wf_graph g" "set ps \<subseteq> nptrs g \<union> D" "\<And>p. p \<in> D \<Longrightarrow> heap_n g p = None" "\<not> distinct ps \<or> set ps \<inter> D \<noteq> {}"
  shows "run_all erase_node ps g = Inl Dangling"
  using assms
proof (induction ps arbitrary: g D)
  case (Cons p ps)
  show ?case
  proof (cases "p \<in> D")
    case True
    with Cons.prems(3) show ?thesis by (simp add: erase_node_def deref_n_def)
  next
    case False
    with Cons.prems(2) obtain g1 where g1: "erase_node p g = Inr g1" "node_gone p g g1"
      using erase_node_gone [OF Cons.prems(1), of p] by auto
    have "run_all erase_node ps g1 = Inl Dangling"
    proof (rule Cons.IH [of g1 "insert p D"])
      show "wf_graph g1" by (rule node_goneD(1) [OF g1(2)])
      have "nptrs g1 = nptrs g - {p}" by (force simp: node_goneD(3) [OF g1(2)])
      with Cons.prems(2) show "set ps \<subseteq> nptrs g1 \<union> insert p D" by auto
      show "heap_n g1 q = None" if "q \<in> insert p D" for q
        using that node_goneD(2) [OF g1(2)] node_goneD(6) [OF g1(2), of q] Cons.prems(3) [of q] by (cases "q = p") auto
      show "\<not> distinct ps \<or> set ps \<inter> insert p D \<noteq> {}" using Cons.prems(4) False by auto
    qed
    with g1(1) show ?thesis by simp
  qed
qed simp

text \<open>
  Property C20: the end of a ghost synchronization erases the registered nodes, and fails exactly when a node
  is registered twice: then the second erasure uses a deleted node. Otherwise the graph is left well-formed
  without these nodes.
\<close>

theorem erase_removed_distinct:
  assumes "wf_graph g" "set (local_nodes_to_remove (sync_linker g)) \<subseteq> nptrs g"
  shows "if distinct (local_nodes_to_remove (sync_linker g))
         then \<exists>g'. erase_removed g = Inr g' \<and> wf_graph g' \<and> local_nodes_to_remove (sync_linker g') = [] \<and>
                set (g_nodes g') = {(i, q) \<in> set (g_nodes g). q \<notin> set (local_nodes_to_remove (sync_linker g))}
         else erase_removed g = Inl Dangling"
proof (cases "distinct (local_nodes_to_remove (sync_linker g))")
  case True
  obtain g' where g': "run_all erase_node (local_nodes_to_remove (sync_linker g)) g = Inr g'" "wf_graph g'"
    "set (g_nodes g') = {(i, q) \<in> set (g_nodes g). q \<notin> set (local_nodes_to_remove (sync_linker g))}"
    using erase_nodes_gone [OF assms(1) True assms(2)] by blast
  have "wf_graph (upd_linker f g')" for f
    by (rule wf_graph_same [OF g'(2)]) (simp_all add: upd_linker_def)
  with g' True show ?thesis by (simp add: erase_removed_def) (simp add: upd_linker_def)
next
  case False
  with erase_gone_faults [OF assms(1), of _ "{}"] assms(2) show ?thesis
    by (simp add: erase_removed_def)
qed

theorem erase_removed_distinct_witness:
  "erase_removed (sample (ghost_linker_new\<lparr>local_nodes_to_remove := [0, 0]\<rparr>)) = Inl Dangling"
  using erase_removed_distinct [OF sample_wf, of "ghost_linker_new\<lparr>local_nodes_to_remove := [0, 0]\<rparr>"] by simp

end
