(* ===== verification/Node_Stamp.thy ===== *)
theory Node_Stamp
  imports Graph_Invariant
begin

text \<open>
  Loops that write fields of the nodes of a graph, as the imports of locations and of data do: each step
  overwrites the fields of at most one node with values that only depend on the node.
\<close>

definition stamped :: "(ptr \<Rightarrow> 'd gnode \<Rightarrow> 'd gnode) \<Rightarrow> ptr set \<Rightarrow> ('d, 'l) dgraph \<Rightarrow> ('d, 'l) dgraph" where
  "stamped F P g = g\<lparr>heap_n := (\<lambda>p. map_option (\<lambda>n. if p \<in> P then F p n else n) (heap_n g p))\<rparr>"

lemma stamped_simps [simp]:
  "g_loc (stamped F P g) = g_loc g" "g_rank (stamped F P g) = g_rank g" "heap_e (stamped F P g) = heap_e g"
  "g_nodes (stamped F P g) = g_nodes g" "g_edges (stamped F P g) = g_edges g" "next_ptr (stamped F P g) = next_ptr g"
  "heap_n (stamped F P g) p = map_option (\<lambda>n. if p \<in> P then F p n else n) (heap_n g p)"
  by (simp_all add: stamped_def)

lemma stamped_empty [simp]: "stamped F {} g = g"
  by (simp add: stamped_def option.map_ident)

lemma stamped_twice:
  assumes "\<And>p n. F p (F p n) = F p n"
  shows "stamped F P (stamped F Q g) = stamped F (P \<union> Q) g"
proof -
  have "map_option (\<lambda>n. if p \<in> P then F p n else n) (map_option (\<lambda>n. if p \<in> Q then F p n else n) x) =
      map_option (\<lambda>n. if p \<in> P \<union> Q then F p n else n) x" for p x
    using assms by (cases x) simp_all
  then show ?thesis by (simp add: stamped_def)
qed

lemma upd_stamped:
  assumes "heap_n g p = Some n"
  shows "upd_n p (F p) g = Inr (stamped F {p} g)"
proof -
  have "(heap_n g)(p \<mapsto> F p n) = (\<lambda>q. map_option (\<lambda>n. if q \<in> {p} then F q n else n) (heap_n g q))"
    using assms by (auto simp: fun_eq_iff option.map_ident)
  then show ?thesis by (simp add: upd_n_some [OF assms] stamped_def)
qed

lemma run_stamped:
  assumes "\<And>p n. F p (F p n) = F p n"
    and "\<And>x Q. x \<in> set xs \<Longrightarrow>
      act x (stamped F Q g) = (if c x then upd_n (ptr x) (F (ptr x)) (stamped F Q g) else Inr (stamped F Q g))"
    and "\<And>x. x \<in> set xs \<Longrightarrow> heap_n g (ptr x) \<noteq> None"
  shows "run_all act xs g = Inr (stamped F (ptr ` {x \<in> set xs. c x}) g)"
proof -
  have "run_all act xs (stamped F Q g) = Inr (stamped F (ptr ` {x \<in> set xs. c x} \<union> Q) g)" for Q
    using assms(2,3)
  proof (induction xs arbitrary: Q)
    case (Cons x xs)
    obtain n where n: "heap_n g (ptr x) = Some n" using Cons.prems(2) [of x] by auto
    let ?Q = "if c x then insert (ptr x) Q else Q"
    have "act x (stamped F Q g) = Inr (stamped F ?Q g)"
      using Cons.prems(1) [of x Q] n upd_stamped [of "stamped F Q g" "ptr x" _ F] stamped_twice [where F = F and P = "{ptr x}" and Q = Q and g = g, OF assms(1)]
      by simp
    moreover have "run_all act xs (stamped F ?Q g) = Inr (stamped F (ptr ` {x \<in> set xs. c x} \<union> ?Q) g)"
      by (rule Cons.IH) (use Cons.prems in simp_all)
    moreover have "ptr ` {y \<in> set xs. c y} \<union> ?Q = ptr ` {y \<in> set (x # xs). c y} \<union> Q" by auto
    ultimately show ?case by simp
  qed simp
  from this [of "{}"] show ?thesis by simp
qed

lemma wf_graph_stamped:
  assumes "wf_graph g" "\<And>p n. node_shape (F p n) = node_shape n"
  shows "wf_graph (stamped F P g)"
proof (rule wf_graph_shape [OF assms(1)])
  fix p
  show "map_option node_shape (heap_n (stamped F P g) p) = map_option node_shape (heap_n g p)"
    using assms(2) by (cases "heap_n g p") simp_all
  show "wf_heap (stamped F P g)" using wf_graphD(5) [OF assms(1)] by (simp add: wf_heap_def)
qed simp_all

end
