(* ===== verification/Location_Sync.thy ===== *)
theory Location_Sync
  imports Node_Stamp Exchange Graph_Sample
begin

text \<open>
  \<open>LocationManager::updateLocations\<close> of \<open>src/fpmas/graph/location_manager.h\<close>, on all the processes: the
  processes announce their new local nodes to the origins of the nodes, then ask the origins for the
  locations of their distant nodes.
\<close>

section \<open>The phases of a process\<close>

text \<open>\<open>managed_nodes_locations[i]\<close> creates the location 0 of a missing node.\<close>

definition lm_touch :: "dist_id \<Rightarrow> loc_manager \<Rightarrow> int \<times> loc_manager" where
  "lm_touch i lm = (um_get 0 i (managed lm), lm\<lparr>managed := um_insert i 0 (managed lm)\<rparr>)"

definition announce :: "('d, 'l) dgraph \<Rightarrow> dist_id packs" where
  "announce g =
     push_pairs (map (\<lambda>(i, p). (id_rank i, i)) (filter (\<lambda>(i, p). id_rank i \<noteq> g_rank g) (new_local_nodes (g_loc g))))"

definition announce_own :: "('d, 'l) dgraph \<Rightarrow> ('d, 'l) dgraph" where
  "announce_own g =
     upd_loc (fold (\<lambda>(i, p). addManagedNode i (g_rank g))
       (filter (\<lambda>(i, p). id_rank i = g_rank g) (new_local_nodes (g_loc g)))) g"

definition import_announced :: "dist_id packs \<Rightarrow> ('d, 'l) dgraph \<Rightarrow> ('d, 'l) dgraph" where
  "import_announced packs g = upd_loc (fold (\<lambda>(q, i). addManagedNode i q) (received packs)) g"

definition locate_own :: "('d, 'l) graph_op" where
  "locate_own g =
     run_all (\<lambda>(i, p) g.
       if id_rank i = g_rank g
       then case lm_touch i (g_loc g) of (loc, lm) \<Rightarrow>
              upd_n p (\<lambda>n. n\<lparr>dn_location := loc\<rparr>) (upd_loc (\<lambda>_. lm) g)
       else Inr g) (distant_nodes (g_loc g)) g"

definition request :: "('d, 'l) dgraph \<Rightarrow> dist_id packs" where
  "request g =
     push_pairs (map (\<lambda>(i, p). (id_rank i, i)) (filter (\<lambda>(i, p). id_rank i \<noteq> g_rank g) (distant_nodes (g_loc g))))"

text \<open>The answers to the requests, and the entries that answering creates.\<close>

fun respond_all :: "(int \<times> dist_id) list \<Rightarrow> loc_manager \<Rightarrow> (int \<times> dist_id \<times> int) list \<times> loc_manager" where
  "respond_all [] lm = ([], lm)"
| "respond_all ((q, i) # reqs) lm =
     (case lm_touch i lm of (loc, lm) \<Rightarrow>
        case respond_all reqs lm of (answers, lm) \<Rightarrow> ((q, i, loc) # answers, lm))"

definition responses :: "dist_id packs \<Rightarrow> ('d, 'l) dgraph \<Rightarrow> (dist_id \<times> int) packs" where
  "responses packs g = push_pairs (fst (respond_all (received packs) (g_loc g)))"

definition respond_locations :: "dist_id packs \<Rightarrow> ('d, 'l) dgraph \<Rightarrow> ('d, 'l) dgraph" where
  "respond_locations packs g = upd_loc (\<lambda>lm. snd (respond_all (received packs) lm)) g"

definition import_locations :: "(dist_id \<times> int) packs \<Rightarrow> ('d, 'l) graph_op" where
  "import_locations packs g =
     run_all (\<lambda>(q, i, loc) g.
       case map_of (distant_nodes (g_loc g)) i of
         None \<Rightarrow> Inl Out_Of_Range
       | Some p \<Rightarrow> upd_n p (\<lambda>n. n\<lparr>dn_location := loc\<rparr>) g) (received packs) g"

definition clear_new_local :: "('d, 'l) dgraph \<Rightarrow> ('d, 'l) dgraph" where
  "clear_new_local g = upd_loc (\<lambda>lm. lm\<lparr>new_local_nodes := []\<rparr>) g"

section \<open>The collective operation\<close>

definition step_announce :: "int list \<Rightarrow> (int \<Rightarrow> ('d, 'l) dgraph) \<Rightarrow> int \<Rightarrow> ('d, 'l) dgraph" where
  "step_announce ranks S = (\<lambda>p. import_announced (migrate ranks (\<lambda>q. announce (S q)) p) (announce_own (S p)))"

definition step_respond :: "int list \<Rightarrow> (int \<Rightarrow> ('d, 'l) dgraph) \<Rightarrow> graph_fault + (int \<Rightarrow> ('d, 'l) dgraph)" where
  "step_respond ranks S =
     (let requests = migrate ranks (\<lambda>q. request (S q));
          answers = migrate ranks (\<lambda>q. responses (requests q) (S q))
      in each_rank ranks (\<lambda>p g. import_locations (answers p) (respond_locations (requests p) g)) S)"

definition updateLocations :: "int list \<Rightarrow> (int \<Rightarrow> ('d, 'l) dgraph) \<Rightarrow> graph_fault + (int \<Rightarrow> ('d, 'l) dgraph)" where
  "updateLocations ranks S =
     and_then (each_rank ranks (\<lambda>p. locate_own) (step_announce ranks S)) (\<lambda>S.
     and_then (step_respond ranks S) (\<lambda>S. Inr (\<lambda>p. clear_new_local (S p))))"

section \<open>Moving locations\<close>

abbreviation located_at :: "(ptr \<Rightarrow> int) \<Rightarrow> ptr \<Rightarrow> 'd gnode \<Rightarrow> 'd gnode" where
  "located_at f p n \<equiv> n\<lparr>dn_location := f p\<rparr>"

definition relocated :: "(ptr \<Rightarrow> int) \<Rightarrow> ptr set \<Rightarrow> ('d, 'l) dgraph \<Rightarrow> ('d, 'l) dgraph" where
  "relocated f P g = stamped (located_at f) P g"

lemma relocated_simps [simp]:
  "g_loc (relocated f P g) = g_loc g" "g_rank (relocated f P g) = g_rank g" "heap_e (relocated f P g) = heap_e g"
  "g_nodes (relocated f P g) = g_nodes g" "g_edges (relocated f P g) = g_edges g"
  by (simp_all add: relocated_def)

lemma relocated_twice: "relocated f P (relocated f Q g) = relocated f (P \<union> Q) g"
  unfolding relocated_def by (rule stamped_twice) simp

text \<open>A sequence of updates, each of which sets the location of one node as \<open>f\<close> says, if at all.\<close>

lemma run_relocate:
  assumes "\<And>x g'. x \<in> set xs \<Longrightarrow> g_loc g' = g_loc g \<Longrightarrow> g_rank g' = g_rank g \<Longrightarrow>
      F x g' = (if c x then upd_n (ptr x) (\<lambda>n. n\<lparr>dn_location := f (ptr x)\<rparr>) g' else Inr g')"
    and "\<And>x. x \<in> set xs \<Longrightarrow> heap_n g (ptr x) \<noteq> None"
  shows "run_all F xs g = Inr (relocated f (ptr ` {x \<in> set xs. c x}) g)"
  unfolding relocated_def by (rule run_stamped) (use assms in simp_all)

section \<open>Managed locations\<close>

lemma managed_add [simp]: "managed (addManagedNode i q lm) = um_set i q (managed lm)"
  "distant_nodes (addManagedNode i q lm) = distant_nodes lm" "local_nodes (addManagedNode i q lm) = local_nodes lm"
  "new_local_nodes (addManagedNode i q lm) = new_local_nodes lm"
  by (simp_all add: addManagedNode_def)

lemma managed_fold:
  assumes "\<forall>x\<in>set xs. key x = i \<longrightarrow> val x = c"
  shows "map_of (managed (fold (\<lambda>x. addManagedNode (key x) (val x)) xs lm)) i =
           (if i \<in> key ` set xs then Some c else map_of (managed lm) i)"
  using assms by (induction xs arbitrary: lm) auto

lemma fold_add_lists [simp]:
  "distant_nodes (fold (\<lambda>x. addManagedNode (key x) (val x)) xs lm) = distant_nodes lm"
  "local_nodes (fold (\<lambda>x. addManagedNode (key x) (val x)) xs lm) = local_nodes lm"
  "new_local_nodes (fold (\<lambda>x. addManagedNode (key x) (val x)) xs lm) = new_local_nodes lm"
  by (induction xs arbitrary: lm) simp_all

lemma respond_all_known:
  assumes "\<forall>(q, i)\<in>set reqs. map_of (managed lm) i = Some (h i)"
  shows "respond_all reqs lm = (map (\<lambda>(q, i). (q, i, h i)) reqs, lm)"
  using assms
proof (induction reqs)
  case (Cons r reqs)
  obtain q i where r: "r = (q, i)" by fastforce
  with Cons.prems have i: "map_of (managed lm) i = Some (h i)" by simp
  then have "i \<in> um_keys (managed lm)" by (metis map_of_None option.distinct(1))
  with i have "lm_touch i lm = (h i, lm)" by (simp add: lm_touch_def um_get_def)
  with Cons r show ?case by simp
qed simp

section \<open>Holders\<close>

text \<open>
  The nodes \<open>K\<close> in use and the process \<open>h i\<close> that holds each of them: its holder has announced itself to the
  origin of the node, or is about to, and at most the origin itself announces a node it does not hold.
\<close>

definition announced :: "int list \<Rightarrow> dist_id set \<Rightarrow> (dist_id \<Rightarrow> int) \<Rightarrow> (int \<Rightarrow> ('d, 'l) dgraph) \<Rightarrow> bool" where
  "announced ranks K h S \<longleftrightarrow>
     (\<forall>i\<in>K. id_rank i \<in> set ranks \<and> h i \<in> set ranks \<and>
        (\<forall>q\<in>set ranks. i \<in> um_keys (new_local_nodes (g_loc (S q))) \<longrightarrow>
           q = h i \<or> q = id_rank i \<and> i \<in> um_keys (new_local_nodes (g_loc (S (h i))))) \<and>
        (i \<in> um_keys (new_local_nodes (g_loc (S (h i)))) \<or> map_of (managed (g_loc (S (id_rank i)))) i = Some (h i)))"

definition ranked :: "int list \<Rightarrow> dist_id set \<Rightarrow> (int \<Rightarrow> ('d, 'l) dgraph) \<Rightarrow> bool" where
  "ranked ranks K S \<longleftrightarrow> distinct ranks \<and>
     (\<forall>p\<in>set ranks. wf_graph (S p) \<and> g_rank (S p) = p \<and> um_keys (distant_nodes (g_loc (S p))) \<subseteq> K)"

lemma in_snd_image: "x \<in> snd ` A \<longleftrightarrow> (\<exists>q. (q, x) \<in> A)"
  by force

lemma step_announce_managed:
  assumes "ranked ranks K S" "announced ranks K h S" "i \<in> K"
  shows "map_of (managed (g_loc (step_announce ranks S (id_rank i)))) i = Some (h i)"
proof -
  let ?o = "id_rank i" and ?new = "\<lambda>q. um_keys (new_local_nodes (g_loc (S q)))"
  let ?own = "filter (\<lambda>x. id_rank (fst x) = ?o) (new_local_nodes (g_loc (S ?o)))"
  let ?got = "received (migrate ranks (\<lambda>q. announce (S q)) ?o)"
  from assms(2,3) have ranks: "?o \<in> set ranks" "h i \<in> set ranks"
    and A: "\<And>q. q \<in> set ranks \<Longrightarrow> i \<in> ?new q \<Longrightarrow> q = h i \<or> q = ?o \<and> i \<in> ?new (h i)"
    and B: "i \<in> ?new (h i) \<or> map_of (managed (g_loc (S ?o))) i = Some (h i)"
    by (auto simp: announced_def)
  from assms(1) have rank: "g_rank (S q) = q" if "q \<in> set ranks" for q using that by (simp add: ranked_def)
  have got: "(q, i) \<in> set ?got \<longleftrightarrow> q \<in> set ranks \<and> q \<noteq> ?o \<and> i \<in> ?new q" for q
    using rank by (force simp: announce_def set_received_push_pairs)
  have "map_of (managed (g_loc (step_announce ranks S ?o))) i =
        (if i \<in> snd ` set ?got then Some (h i)
         else if i \<in> fst ` set ?own then Some ?o else map_of (managed (g_loc (S ?o))) i)"
  proof -
    have "\<forall>x\<in>set ?got. snd x = i \<longrightarrow> fst x = h i" using got A by (metis prod.collapse)
    then show ?thesis
      using rank [OF ranks(1)]
        managed_fold [of ?got snd i fst "h i"] managed_fold [of ?own fst i "\<lambda>_. ?o" ?o "g_loc (S ?o)"]
      by (simp add: step_announce_def import_announced_def announce_own_def case_prod_unfold)
  qed
  moreover have "i \<in> snd ` set ?got \<longleftrightarrow> (\<exists>q\<in>set ranks. q \<noteq> ?o \<and> i \<in> ?new q)"
    unfolding in_snd_image got by blast
  moreover have "i \<in> fst ` set ?own \<longleftrightarrow> i \<in> ?new ?o" by force
  ultimately have val: "map_of (managed (g_loc (step_announce ranks S ?o))) i =
    (if \<exists>q\<in>set ranks. q \<noteq> ?o \<and> i \<in> ?new q then Some (h i)
     else if i \<in> ?new ?o then Some ?o else map_of (managed (g_loc (S ?o))) i)" by (simp only:)
  show ?thesis
  proof (cases "h i = ?o")
    case True
    then have "\<not> (\<exists>q\<in>set ranks. q \<noteq> ?o \<and> i \<in> ?new q)" using A by blast
    with val True B show ?thesis by auto
  next
    case False
    show ?thesis
    proof (cases "i \<in> ?new (h i)")
      case True
      with val False ranks show ?thesis by auto
    next
      case h: False
      then have "\<not> (\<exists>q\<in>set ranks. i \<in> ?new q)" using A by blast
      with val B h ranks show ?thesis by auto
    qed
  qed
qed

lemma step_announce_simps [simp]:
  "heap_n (step_announce ranks S p) = heap_n (S p)" "heap_e (step_announce ranks S p) = heap_e (S p)"
  "g_nodes (step_announce ranks S p) = g_nodes (S p)" "g_edges (step_announce ranks S p) = g_edges (S p)"
  "g_rank (step_announce ranks S p) = g_rank (S p)"
  "distant_nodes (g_loc (step_announce ranks S p)) = distant_nodes (g_loc (S p))"
  "local_nodes (g_loc (step_announce ranks S p)) = local_nodes (g_loc (S p))"
  by (simp_all add: step_announce_def import_announced_def announce_own_def case_prod_unfold)

section \<open>Locating the distant nodes\<close>

definition known :: "dist_id set \<Rightarrow> (dist_id \<Rightarrow> int) \<Rightarrow> int list \<Rightarrow> (int \<Rightarrow> ('d, 'l) dgraph) \<Rightarrow> bool" where
  "known K h ranks S \<longleftrightarrow> (\<forall>i\<in>K. id_rank i \<in> set ranks \<and> map_of (managed (g_loc (S (id_rank i)))) i = Some (h i))"

text \<open>The holder of the node an object stands for.\<close>

definition holder :: "(dist_id \<Rightarrow> int) \<Rightarrow> ('d, 'l) dgraph \<Rightarrow> ptr \<Rightarrow> int" where
  "holder h g p = (case heap_n g p of None \<Rightarrow> 0 | Some n \<Rightarrow> h (dn_id n))"

lemma distant_wf:
  assumes "wf_graph g" "(i, p) \<in> set (distant_nodes (g_loc g))"
  shows "(i, p) \<in> set (g_nodes g)" "\<exists>n. heap_n g p = Some n \<and> dn_id n = i" "holder h g p = h i"
    "map_of (distant_nodes (g_loc g)) i = Some p"
proof -
  note wf = wf_graphD [OF assms(1)]
  from assms(2) wf(3) show node: "(i, p) \<in> set (g_nodes g)" by (auto simp: wf_loc_def nodes_in_def)
  from wf_indexD(3) [OF wf(1) this] show "\<exists>n. heap_n g p = Some n \<and> dn_id n = i" .
  then show "holder h g p = h i" by (auto simp: holder_def)
  from wf(3) assms(2) show "map_of (distant_nodes (g_loc g)) i = Some p" by (simp add: wf_loc_def)
qed

definition distant_ptrs :: "bool \<Rightarrow> ('d, 'l) dgraph \<Rightarrow> ptr set" where
  "distant_ptrs own g = snd ` {(i, p) \<in> set (distant_nodes (g_loc g)). (id_rank i = g_rank g) = own}"

lemma locate_own_eq:
  assumes "wf_graph g" "\<And>i. i \<in> um_keys (distant_nodes (g_loc g)) \<Longrightarrow> id_rank i = g_rank g \<Longrightarrow>
      map_of (managed (g_loc g)) i = Some (h i)"
  shows "locate_own g = Inr (relocated (holder h g) (distant_ptrs True g) g)"
proof -
  have "locate_own g = Inr (relocated (holder h g)
          (snd ` {x \<in> set (distant_nodes (g_loc g)). id_rank (fst x) = g_rank g}) g)"
    unfolding locate_own_def
  proof (rule run_relocate)
    fix x and g' :: "('a, 'b) dgraph"
    assume x: "x \<in> set (distant_nodes (g_loc g))" and same: "g_loc g' = g_loc g" "g_rank g' = g_rank g"
    obtain i p where xi: "x = (i, p)" by fastforce
    have "lm_touch i (g_loc g') = (holder h g p, g_loc g)" if "id_rank i = g_rank g"
    proof -
      from x xi have "i \<in> um_keys (distant_nodes (g_loc g))" by force
      from assms(2) [OF this that] have m: "map_of (managed (g_loc g)) i = Some (h i)" .
      then have "i \<in> um_keys (managed (g_loc g))" by (metis map_of_None option.distinct(1))
      with m x xi distant_wf(3) [OF assms(1), of i p h] same show ?thesis by (simp add: lm_touch_def um_get_def)
    qed
    moreover have "upd_loc (\<lambda>_. g_loc g) g' = g'" using same by (simp add: upd_loc_def flip: same(1))
    ultimately show "(case x of (i, p) \<Rightarrow> \<lambda>g. if id_rank i = g_rank g
         then case lm_touch i (g_loc g) of (loc, lm) \<Rightarrow> upd_n p (dn_location_update (\<lambda>_. loc)) (upd_loc (\<lambda>_. lm) g)
         else Inr g) g' =
       (if id_rank (fst x) = g_rank g then upd_n (snd x) (dn_location_update (\<lambda>_. holder h g (snd x))) g' else Inr g')"
      using same by (simp add: xi)
  next
    fix x assume "x \<in> set (distant_nodes (g_loc g))"
    then show "heap_n g (snd x) \<noteq> None" using distant_wf(2) [OF assms(1), of "fst x" "snd x"] by auto
  qed
  moreover have "snd ` {x \<in> set (distant_nodes (g_loc g)). id_rank (fst x) = g_rank g} = distant_ptrs True g"
    by (auto simp: distant_ptrs_def case_prod_unfold)
  ultimately show ?thesis by simp
qed

lemma import_locations_eq:
  assumes "wf_graph g"
    and "\<And>q i loc. (q, i, loc) \<in> set (received packs) \<Longrightarrow> i \<in> um_keys (distant_nodes (g_loc g)) \<and> loc = h i"
  shows "import_locations packs g =
           Inr (relocated (holder h g) ((\<lambda>(q, i, loc). the (map_of (distant_nodes (g_loc g)) i)) ` set (received packs)) g)"
proof -
  let ?ptr = "\<lambda>x. the (map_of (distant_nodes (g_loc g)) (fst (snd x)))"
  have mem: "map_of (distant_nodes (g_loc g)) i = Some p \<Longrightarrow> (i, p) \<in> set (distant_nodes (g_loc g))" for i p
    by (rule map_of_SomeD)
  have ptr: "\<exists>p. map_of (distant_nodes (g_loc g)) (fst (snd x)) = Some p \<and> holder h g p = snd (snd x) \<and> heap_n g p \<noteq> None"
    if "x \<in> set (received packs)" for x
  proof -
    obtain q i loc where x: "x = (q, i, loc)" by (cases x) auto
    with that assms(2) [of q i loc] obtain p where "(i, p) \<in> set (distant_nodes (g_loc g))" "loc = h i" by auto
    with x distant_wf [OF assms(1), of i p] show ?thesis by auto
  qed
  have "import_locations packs g = Inr (relocated (holder h g) (?ptr ` {x \<in> set (received packs). True}) g)"
    unfolding import_locations_def
  proof (rule run_relocate)
    fix x and g' :: "('a, 'b) dgraph"
    assume x: "x \<in> set (received packs)" and same: "g_loc g' = g_loc g"
    from ptr [OF x] same
    show "(case x of (q, i, loc) \<Rightarrow> \<lambda>g. case map_of (distant_nodes (g_loc g)) i of None \<Rightarrow> Inl Out_Of_Range
           | Some p \<Rightarrow> upd_n p (dn_location_update (\<lambda>_. loc)) g) g' =
        (if True then upd_n (?ptr x) (dn_location_update (\<lambda>_. holder h g (?ptr x))) g' else Inr g')"
      by (auto simp: case_prod_unfold)
  next
    fix x assume "x \<in> set (received packs)"
    from ptr [OF this] show "heap_n g (?ptr x) \<noteq> None" by auto
  qed
  then show ?thesis by (simp add: case_prod_unfold)
qed

lemma wf_graph_relocated: "wf_graph g \<Longrightarrow> wf_graph (relocated f P g)"
  unfolding relocated_def by (rule wf_graph_stamped) (simp_all add: node_shape_def)

lemma wf_graph_announced: "wf_graph (S p) \<Longrightarrow> wf_graph (step_announce ranks S p)"
  by (rule wf_graph_same) (simp_all add: step_announce_def import_announced_def announce_own_def case_prod_unfold)

lemma request_received:
  assumes "\<And>q. q \<in> set ranks \<Longrightarrow> g_rank (S q) = q"
  shows "(q, i) \<in> set (received (migrate ranks (\<lambda>q. request (S q)) p)) \<longleftrightarrow>
           q \<in> set ranks \<and> q \<noteq> p \<and> id_rank i = p \<and> i \<in> um_keys (distant_nodes (g_loc (S q)))"
  using assms by (force simp: request_def set_received_push_pairs)

lemma step_respond_eq:
  assumes "ranked ranks K S" "known K h ranks S"
  shows "\<exists>S'. step_respond ranks S = Inr S' \<and>
           (\<forall>p\<in>set ranks. S' p = relocated (holder h (S p)) (distant_ptrs False (S p)) (S p))"
proof -
  let ?req = "migrate ranks (\<lambda>q. request (S q))"
  let ?ans = "migrate ranks (\<lambda>q. responses (?req q) (S q))"
  from assms(1) have wf: "wf_graph (S p)" and rank: "g_rank (S p) = p" and K: "um_keys (distant_nodes (g_loc (S p))) \<subseteq> K"
    if "p \<in> set ranks" for p using that by (simp_all add: ranked_def)
  have req: "(q, i) \<in> set (received (?req p)) \<longleftrightarrow>
     q \<in> set ranks \<and> q \<noteq> p \<and> id_rank i = p \<and> i \<in> um_keys (distant_nodes (g_loc (S q)))" for p q i
    by (rule request_received) (rule rank)
  have resp: "respond_all (received (?req p)) (g_loc (S p)) = (map (\<lambda>(q, i). (q, i, h i)) (received (?req p)), g_loc (S p))" for p
  proof (rule respond_all_known, clarify)
    fix q i assume "(q, i) \<in> set (received (?req p))"
    then have "i \<in> K" "id_rank i = p" using req K by blast+
    with assms(2) show "map_of (managed (g_loc (S p))) i = Some (h i)" by (auto simp: known_def)
  qed
  have ans: "(q, i, loc) \<in> set (received (?ans p)) \<longleftrightarrow>
     q \<in> set ranks \<and> p \<in> set ranks \<and> p \<noteq> q \<and> id_rank i = q \<and> i \<in> um_keys (distant_nodes (g_loc (S p))) \<and> loc = h i" for p q i loc
  proof -
    have "(q, i, loc) \<in> set (received (?ans p)) \<longleftrightarrow> q \<in> set ranks \<and> (p, i) \<in> set (received (?req q)) \<and> loc = h i"
      unfolding responses_def resp set_received_push_pairs by auto
    then show ?thesis using req by auto
  qed
  have ptrs: "(\<lambda>(q, i, loc). the (map_of (distant_nodes (g_loc (S p))) i)) ` set (received (?ans p)) = distant_ptrs False (S p)"
    if p: "p \<in> set ranks" for p
  proof -
    have id: "map_of (distant_nodes (g_loc (S p))) i = Some r" if "(i, r) \<in> set (distant_nodes (g_loc (S p)))" for i r
      by (rule distant_wf(4) [OF wf [OF p] that])
    have origin: "id_rank i \<in> set ranks" if "i \<in> um_keys (distant_nodes (g_loc (S p)))" for i
      using that K [OF p] assms(2) by (auto simp: known_def)
    show ?thesis
    proof (intro equalityI subsetI)
      fix r assume "r \<in> (\<lambda>(q, i, loc). the (map_of (distant_nodes (g_loc (S p))) i)) ` set (received (?ans p))"
      then obtain q i loc where "(q, i, loc) \<in> set (received (?ans p))" "r = the (map_of (distant_nodes (g_loc (S p))) i)" by auto
      with ans have "p \<noteq> id_rank i" "i \<in> um_keys (distant_nodes (g_loc (S p)))" by auto
      with id \<open>r = _\<close> rank [OF p] show "r \<in> distant_ptrs False (S p)" by (force simp: distant_ptrs_def)
    next
      fix r assume "r \<in> distant_ptrs False (S p)"
      then obtain i where i: "(i, r) \<in> set (distant_nodes (g_loc (S p)))" "id_rank i \<noteq> p"
        using rank [OF p] by (auto simp: distant_ptrs_def)
      then have "i \<in> um_keys (distant_nodes (g_loc (S p)))" by force
      with i origin p have "(id_rank i, i, h i) \<in> set (received (?ans p))" by (simp add: ans)
      moreover have "r = the (map_of (distant_nodes (g_loc (S p))) i)" using id [OF i(1)] by simp
      ultimately show "r \<in> (\<lambda>(q, i, loc). the (map_of (distant_nodes (g_loc (S p))) i)) ` set (received (?ans p))" by force
    qed
  qed
  have "\<exists>S'. each_rank ranks (\<lambda>p g. import_locations (?ans p) (respond_locations (?req p) g)) S = Inr S' \<and>
      (\<forall>p\<in>set ranks. import_locations (?ans p) (respond_locations (?req p) (S p)) = Inr (S' p) \<and>
         S' p = relocated (holder h (S p)) (distant_ptrs False (S p)) (S p)) \<and> (\<forall>p. p \<notin> set ranks \<longrightarrow> S' p = S p)"
  proof (rule each_rank_ok)
    fix p assume p: "p \<in> set ranks"
    have "respond_locations (?req p) (S p) = S p" by (simp add: respond_locations_def resp upd_loc_def)
    moreover have "import_locations (?ans p) (S p) = Inr (relocated (holder h (S p)) (distant_ptrs False (S p)) (S p))"
      using import_locations_eq [OF wf [OF p], of "?ans p" h] ans ptrs [OF p] by simp
    ultimately show "\<exists>s. import_locations (?ans p) (respond_locations (?req p) (S p)) = Inr s \<and>
      s = relocated (holder h (S p)) (distant_ptrs False (S p)) (S p)" by simp
  qed (use assms(1) in \<open>simp add: ranked_def\<close>)
  then show ?thesis by (auto simp: step_respond_def Let_def)
qed

lemma relocated_ids:
  "heap_n (relocated f P g) p = map_option (\<lambda>n. if p \<in> P then n\<lparr>dn_location := f p\<rparr> else n) (heap_n g p)"
  "holder h (relocated f P g) p = holder h g p" "distant_ptrs own (relocated f P g) = distant_ptrs own g"
  by (auto simp: relocated_def stamped_def holder_def distant_ptrs_def split: option.split)

lemma distant_relocated:
  assumes "wf_graph g" "(i, p) \<in> set (distant_nodes (g_loc g))"
  shows "\<exists>n. heap_n (relocated (holder h g) (distant_ptrs False g) (relocated (holder h g) (distant_ptrs True g) g)) p = Some n \<and>
           dn_location n = h i"
proof -
  have "p \<in> distant_ptrs False g \<union> distant_ptrs True g" using assms(2) by (force simp: distant_ptrs_def)
  with distant_wf(2) [OF assms] distant_wf(3) [OF assms, of h] show ?thesis
    unfolding relocated_twice relocated_ids(1) by auto
qed

definition located :: "(dist_id \<Rightarrow> int) \<Rightarrow> ('d, 'l) dgraph \<Rightarrow> bool" where
  "located h g \<longleftrightarrow> (\<forall>(i, p)\<in>set (distant_nodes (g_loc g)). \<exists>n. heap_n g p = Some n \<and> dn_location n = h i)"

lemma locate_own_all:
  assumes "ranked ranks K S" "known K h ranks S"
  shows "\<exists>S'. each_rank ranks (\<lambda>p. locate_own) S = Inr S' \<and>
           (\<forall>p\<in>set ranks. S' p = relocated (holder h (S p)) (distant_ptrs True (S p)) (S p))"
proof -
  have "\<exists>s. locate_own (S p) = Inr s \<and> s = relocated (holder h (S p)) (distant_ptrs True (S p)) (S p)"
    if p: "p \<in> set ranks" for p
  proof -
    from assms(1) p have "wf_graph (S p)" "g_rank (S p) = p" "um_keys (distant_nodes (g_loc (S p))) \<subseteq> K"
      by (simp_all add: ranked_def)
    with assms(2) have "locate_own (S p) = Inr (relocated (holder h (S p)) (distant_ptrs True (S p)) (S p))"
      by (intro locate_own_eq) (auto simp: known_def)
    then show ?thesis by simp
  qed
  from each_rank_ok [of ranks "\<lambda>p. locate_own" S "\<lambda>p s. s = relocated (holder h (S p)) (distant_ptrs True (S p)) (S p)", OF _ this]
  show ?thesis using assms(1) by (auto simp: ranked_def)
qed

lemma updateLocations_moves:
  assumes "ranked ranks K S" "announced ranks K h S"
  shows "\<exists>S'. updateLocations ranks S = Inr S' \<and> ranked ranks K S' \<and> announced ranks K h S' \<and>
           (\<forall>p\<in>set ranks. located h (S' p) \<and> new_local_nodes (g_loc (S' p)) = [] \<and>
              distant_nodes (g_loc (S' p)) = distant_nodes (g_loc (S p)) \<and>
              local_nodes (g_loc (S' p)) = local_nodes (g_loc (S p)) \<and>
              (\<exists>f P. S' p = clear_new_local (relocated f P (step_announce ranks S p))))"
proof -
  let ?S1 = "step_announce ranks S"
  have r1: "ranked ranks K ?S1" using assms(1) by (simp add: ranked_def wf_graph_announced)
  have in_K: "id_rank i \<in> set ranks \<and> h i \<in> set ranks" if "i \<in> K" for i using that assms(2) by (simp add: announced_def)
  have k1: "known K h ranks ?S1"
    using in_K step_announce_managed [OF assms] by (simp add: known_def)
  obtain S2 where S2: "each_rank ranks (\<lambda>p. locate_own) ?S1 = Inr S2"
    "\<And>p. p \<in> set ranks \<Longrightarrow> S2 p = relocated (holder h (?S1 p)) (distant_ptrs True (?S1 p)) (?S1 p)"
    using locate_own_all [OF r1 k1] by blast
  have r2: "ranked ranks K S2" using r1 S2(2) by (simp add: ranked_def wf_graph_relocated)
  have k2: "known K h ranks S2" using k1 S2(2) by (simp add: known_def)
  obtain S3 where S3: "step_respond ranks S2 = Inr S3"
    "\<And>p. p \<in> set ranks \<Longrightarrow> S3 p = relocated (holder h (S2 p)) (distant_ptrs False (S2 p)) (S2 p)"
    using step_respond_eq [OF r2 k2] by blast
  let ?S' = "\<lambda>p. clear_new_local (S3 p)"
  have run: "updateLocations ranks S = Inr ?S'" by (simp add: updateLocations_def S2(1) S3(1))
  have loc: "located h (?S' p) \<and> new_local_nodes (g_loc (?S' p)) = [] \<and>
      distant_nodes (g_loc (?S' p)) = distant_nodes (g_loc (S p)) \<and> local_nodes (g_loc (?S' p)) = local_nodes (g_loc (S p))"
    if p: "p \<in> set ranks" for p
  proof -
    have "wf_graph (?S1 p)" using r1 p by (simp add: ranked_def)
    from distant_relocated [OF this, of _ _ h] show ?thesis
      using S2(2) [OF p] S3(2) [OF p]
      by (auto simp: located_def clear_new_local_def relocated_ids(2,3) [abs_def])
  qed
  have "managed (g_loc (?S' p)) = managed (g_loc (?S1 p))" if "p \<in> set ranks" for p
    using S2(2) [OF that] S3(2) [OF that] by (simp add: clear_new_local_def)
  then have "announced ranks K h ?S'" using k1 in_K loc by (simp add: announced_def known_def)
  moreover have "ranked ranks K ?S'"
  proof -
    have "wf_graph (?S' p)" if p: "p \<in> set ranks" for p
    proof (rule wf_graph_same)
      show "wf_graph (S3 p)" using S3(2) [OF p] r2 p by (simp add: ranked_def wf_graph_relocated)
    qed (simp_all add: clear_new_local_def)
    moreover have "g_rank (?S' p) = p" if "p \<in> set ranks" for p
      using r1 S2(2) [OF that] S3(2) [OF that] that by (simp add: clear_new_local_def ranked_def)
    ultimately show ?thesis using assms(1) loc by (simp add: ranked_def)
  qed
  moreover have "\<exists>f P. ?S' p = clear_new_local (relocated f P (?S1 p))" if "p \<in> set ranks" for p
  proof -
    have "holder h (S2 p) = holder h (?S1 p)" using S2(2) [OF that] by (simp add: relocated_ids(2) fun_eq_iff)
    then show ?thesis using S2(2) [OF that] S3(2) [OF that] by (auto simp: relocated_twice)
  qed
  ultimately show ?thesis using run loc by blast
qed

text \<open>
  Property C7: after the collective location update every distant node of every process has the rank of
  the process that holds the node as its location, whatever nodes have moved since the last update, as long as
  the holders have announced them or are about to; the update ends in such a state again, with nothing left to
  announce.
\<close>

theorem updateLocations_locates:
  assumes "ranked ranks K S" "announced ranks K h S"
  shows "\<exists>S'. updateLocations ranks S = Inr S' \<and> ranked ranks K S' \<and> announced ranks K h S' \<and>
           (\<forall>p\<in>set ranks. located h (S' p) \<and> new_local_nodes (g_loc (S' p)) = [] \<and>
              distant_nodes (g_loc (S' p)) = distant_nodes (g_loc (S p)) \<and>
              local_nodes (g_loc (S' p)) = local_nodes (g_loc (S p)))"
  using updateLocations_moves [OF assms] by blast

text \<open>Two processes with wrong locations for the distant nodes.\<close>

definition mislaid :: "int \<Rightarrow> (int, unit) dgraph" where
  "mislaid p = relocated (\<lambda>_. 7) {1} (two p)"

theorem updateLocations_locates_witness:
  "\<exists>S' n. updateLocations [0, 1] mislaid = Inr S' \<and> (id_b, 1) \<in> set (distant_nodes (g_loc (S' 0))) \<and>
     heap_n (S' 0) 1 = Some n \<and> dn_location n = 1"
proof -
  have ranked: "ranked [0, 1] {id_a, id_b} mislaid"
    using sample_wf [of "()"] sample_b_wf [of "()"] by (simp add: ranked_def mislaid_def wf_graph_relocated)
  have announced: "announced [0, 1] {id_a, id_b} id_rank mislaid"
    by (simp add: announced_def mislaid_def sample_ids)
  obtain S' where S': "updateLocations [0, 1] mislaid = Inr S'" "located id_rank (S' 0)"
    "distant_nodes (g_loc (S' 0)) = distant_nodes (g_loc (mislaid 0))"
    using updateLocations_locates [OF ranked announced] by auto
  have "(id_b, 1) \<in> set (distant_nodes (g_loc (S' 0)))" by (simp add: S'(3) mislaid_def)
  with S'(1,2) show ?thesis by (auto simp: located_def id_b_def)
qed

end
