(* ===== verification/Ghost_Data.thy ===== *)
theory Ghost_Data
  imports Location_Sync Ghost_Mode Graph_Sample
begin

text \<open>
  \<open>GhostDataSync::synchronize\<close> on all the processes: when the location of each distant node is a process
  that holds the node as a local one, every process ends with the data and the weights of the holders.
\<close>

section \<open>The hosts of the distant nodes\<close>

definition node_at :: "dist_id \<Rightarrow> ('d, 'l) dgraph \<Rightarrow> 'd gnode option" where
  "node_at i g = (case map_of (g_nodes g) i of None \<Rightarrow> None | Some p \<Rightarrow> heap_n g p)"

definition hosted :: "int list \<Rightarrow> (int \<Rightarrow> ('d, 'l) dgraph) \<Rightarrow> bool" where
  "hosted ranks S \<longleftrightarrow> (\<forall>p\<in>set ranks. \<forall>(i, a)\<in>set (distant_nodes (g_loc (S p))). \<exists>n. heap_n (S p) a = Some n \<and>
     dn_location n \<in> set ranks \<and> i \<in> um_keys (local_nodes (g_loc (S (dn_location n)))))"

text \<open>The location a process knows for an object, and the host's object for the same node.\<close>

definition location_of :: "('d, 'l) dgraph \<Rightarrow> ptr \<Rightarrow> int" where
  "location_of g a = dn_location (the (heap_n g a))"

definition host_node :: "(int \<Rightarrow> ('d, 'l) dgraph) \<Rightarrow> int \<Rightarrow> dist_id \<Rightarrow> 'd gnode" where
  "host_node S q i = the (node_at i (S q))"

lemma getNode_some:
  assumes "wf_index g" "(i, a) \<in> set (g_nodes g)"
  shows "getNode i g = Inr a" "node_at i g = heap_n g a"
  using assms wf_indexD(1) [OF assms(1)] by (simp_all add: getNode_def node_at_def)

lemma local_node_at:
  assumes "wf_graph g" "i \<in> um_keys (local_nodes (g_loc g))"
  shows "\<exists>a n. (i, a) \<in> set (g_nodes g) \<and> heap_n g a = Some n \<and> dn_state n = LOCAL \<and> node_at i g = Some n"
proof -
  from assms obtain a where a: "(i, a) \<in> nodes_in LOCAL g"
    using wf_graphD(3) [OF assms(1)] by (force simp: wf_loc_def)
  then obtain n where "(i, a) \<in> set (g_nodes g)" "heap_n g a = Some n" "dn_state n = LOCAL" by (auto simp: nodes_in_def)
  with getNode_some(2) [OF wf_graphD(1) [OF assms(1)]] show ?thesis by auto
qed

section \<open>The phases\<close>

definition reqs :: "('d, 'l) dgraph \<Rightarrow> (int \<times> dist_id) list" where
  "reqs g = map (\<lambda>(i, a). (location_of g a, i)) (distant_nodes (g_loc g))"

lemma data_requests_eq:
  assumes "wf_graph g"
  shows "data_requests g = Inr (push_pairs (reqs g))"
proof -
  have "and_then (deref_n a g) (\<lambda>n. Inr (dn_location n, i)) = Inr (location_of g a, i)"
    if "(i, a) \<in> set (distant_nodes (g_loc g))" for i a
    using distant_wf(2) [OF assms that] by (auto simp: location_of_def heap_ops)
  then have "map_all (\<lambda>(i, a). and_then (deref_n a g) (\<lambda>n. Inr (dn_location n, i))) (distant_nodes (g_loc g)) =
      Inr (map (\<lambda>(i, a). (location_of g a, i)) (distant_nodes (g_loc g)))"
    by (intro map_all_ok) (auto simp del: and_then_Inr_iff)
  then show ?thesis by (simp add: data_requests_def reqs_def)
qed

definition upds :: "dist_id packs \<Rightarrow> (int \<Rightarrow> ('d, 'l) dgraph) \<Rightarrow> int \<Rightarrow> (int \<times> dist_id \<times> 'd \<times> rat) list" where
  "upds packs S q = map (\<lambda>(p, i). (p, i, dn_data (host_node S q i), dn_weight (host_node S q i))) (received packs)"

lemma data_updates_eq:
  assumes "wf_graph (S q)" "\<And>p i. (p, i) \<in> set (received packs) \<Longrightarrow> i \<in> um_keys (local_nodes (g_loc (S q)))"
  shows "data_updates packs (S q) = Inr (push_pairs (upds packs S q))"
proof -
  have "and_then (getNode i (S q)) (\<lambda>a. and_then (deref_n a (S q)) (\<lambda>n. Inr (p, i, dn_data n, dn_weight n))) =
      Inr (p, i, dn_data (host_node S q i), dn_weight (host_node S q i))" if mem: "(p, i) \<in> set (received packs)" for p i
  proof -
    obtain a n where "(i, a) \<in> set (g_nodes (S q))" "heap_n (S q) a = Some n" "node_at i (S q) = Some n"
      using local_node_at [OF assms(1) assms(2) [OF mem]] by blast
    then show ?thesis
      using getNode_some(1) [OF wf_graphD(1) [OF assms(1)]] by (simp add: heap_ops host_node_def)
  qed
  then have "map_all (\<lambda>(p, i). and_then (getNode i (S q)) (\<lambda>a. and_then (deref_n a (S q)) (\<lambda>n.
        Inr (p, i, dn_data n, dn_weight n)))) (received packs) =
      Inr (map (\<lambda>(p, i). (p, i, dn_data (host_node S q i), dn_weight (host_node S q i))) (received packs))"
    by (intro map_all_ok) (auto simp del: and_then_Inr_iff)
  then show ?thesis by (simp add: data_updates_def upds_def)
qed

text \<open>What the import writes in an object: the data and the weight of the host's object.\<close>

definition fetched :: "(int \<Rightarrow> ('d, 'l) dgraph) \<Rightarrow> int \<Rightarrow> ptr \<Rightarrow> 'd gnode \<Rightarrow> 'd gnode" where
  "fetched S p a n =
     (let m = host_node S (location_of (S p) a) (dn_id (the (heap_n (S p) a)))
      in n\<lparr>dn_data := dn_data m, dn_weight := dn_weight m\<rparr>)"

lemma fetched_twice: "fetched S p a (fetched S p a n) = fetched S p a n"
  by (simp add: fetched_def Let_def)

lemma fetched_shape: "node_shape (fetched S p a n) = node_shape n"
  by (simp add: fetched_def Let_def node_shape_def)

lemma import_data_eq:
  assumes "wf_graph (S p)"
    and "\<And>q i d w. (q, i, d, w) \<in> set (received packs) \<Longrightarrow> \<exists>a. (i, a) \<in> set (distant_nodes (g_loc (S p))) \<and>
      q = location_of (S p) a \<and> d = dn_data (host_node S q i) \<and> w = dn_weight (host_node S q i)"
  shows "import_data packs (S p) =
           Inr (stamped (fetched S p) ((\<lambda>x. the (map_of (g_nodes (S p)) (fst (snd x)))) ` set (received packs)) (S p))"
proof -
  let ?g = "S p" and ?ptr = "\<lambda>x. the (map_of (g_nodes (S p)) (fst (snd x)))"
  have x: "getNode i (stamped F Q ?g) = Inr (?ptr (q, i, d, w)) \<and> heap_n ?g (?ptr (q, i, d, w)) \<noteq> None \<and>
      fetched S p (?ptr (q, i, d, w)) = (\<lambda>n. n\<lparr>dn_data := d, dn_weight := w\<rparr>)"
    if mem: "(q, i, d, w) \<in> set (received packs)" for q i d w F Q
  proof -
    obtain a where a: "(i, a) \<in> set (distant_nodes (g_loc ?g))" "q = location_of ?g a"
      "d = dn_data (host_node S q i)" "w = dn_weight (host_node S q i)" using assms(2) [OF mem] by blast
    note node = distant_wf(1,2) [OF assms(1) a(1)]
    then have map: "map_of (g_nodes ?g) i = Some a" using wf_indexD(1) [OF wf_graphD(1) [OF assms(1)]] by simp
    obtain n where "heap_n ?g a = Some n" "dn_id n = i" using node(2) by blast
    with a(2-4) map show ?thesis by (simp add: getNode_def fetched_def Let_def fun_eq_iff)
  qed
  have "import_data packs ?g = Inr (stamped (fetched S p) (?ptr ` {x \<in> set (received packs). True}) ?g)"
    unfolding import_data_def
  proof (rule run_stamped [OF fetched_twice])
    fix x Q assume "x \<in> set (received packs)"
    moreover obtain q i d w where "x = (q, i, d, w)" by (metis prod.collapse)
    ultimately show "(case x of (q, i, d, w) \<Rightarrow> \<lambda>g. and_then (getNode i g) (\<lambda>a. upd_n a (\<lambda>n. n\<lparr>dn_data := d, dn_weight := w\<rparr>) g))
          (stamped (fetched S p) Q ?g) =
        (if True then upd_n (?ptr x) (fetched S p (?ptr x)) (stamped (fetched S p) Q ?g) else Inr (stamped (fetched S p) Q ?g))"
      using x [of q i d w] by (simp only: prod.case and_then.simps if_True)
  next
    fix x assume "x \<in> set (received packs)"
    moreover obtain q i d w where "x = (q, i, d, w)" by (metis prod.collapse)
    ultimately show "heap_n ?g (?ptr x) \<noteq> None" using x [of q i d w] by blast
  qed
  then show ?thesis by simp
qed

section \<open>The synchronization\<close>

definition incoming :: "int list \<Rightarrow> (int \<Rightarrow> ('d, 'l) dgraph) \<Rightarrow> int \<Rightarrow> dist_id packs" where
  "incoming ranks S = migrate ranks (\<lambda>p. push_pairs (reqs (S p)))"

definition answers :: "int list \<Rightarrow> (int \<Rightarrow> ('d, 'l) dgraph) \<Rightarrow> int \<Rightarrow> (dist_id \<times> 'd \<times> rat) packs" where
  "answers ranks S = migrate ranks (\<lambda>q. push_pairs (upds (incoming ranks S q) S q))"

lemma incoming_received:
  "(p, i) \<in> set (received (incoming ranks S q)) \<longleftrightarrow>
     p \<in> set ranks \<and> (\<exists>a. (i, a) \<in> set (distant_nodes (g_loc (S p))) \<and> location_of (S p) a = q)"
  by (force simp: incoming_def set_received_push_pairs reqs_def)

lemma answers_received:
  "(q, i, d, w) \<in> set (received (answers ranks S p)) \<longleftrightarrow>
     q \<in> set ranks \<and> (p, i) \<in> set (received (incoming ranks S q)) \<and>
     d = dn_data (host_node S q i) \<and> w = dn_weight (host_node S q i)"
  by (force simp: answers_def set_received_push_pairs upds_def)

lemma hosted_location:
  assumes "hosted ranks S" "p \<in> set ranks" "(i, a) \<in> set (distant_nodes (g_loc (S p)))"
  shows "location_of (S p) a \<in> set ranks" "i \<in> um_keys (local_nodes (g_loc (S (location_of (S p) a))))"
proof -
  obtain n where "heap_n (S p) a = Some n" "dn_location n \<in> set ranks" "i \<in> um_keys (local_nodes (g_loc (S (dn_location n))))"
    using assms unfolding hosted_def by blast
  then show "location_of (S p) a \<in> set ranks" "i \<in> um_keys (local_nodes (g_loc (S (location_of (S p) a))))"
    by (simp_all add: location_of_def)
qed

lemma ghost_data_synchronize_eq:
  assumes "ranked ranks K S" "hosted ranks S"
  shows "\<exists>S'. ghost_data_synchronize ranks S = Inr S' \<and>
    (\<forall>p\<in>set ranks. S' p = stamped (fetched S p) (snd ` set (distant_nodes (g_loc (S p)))) (S p))"
proof -
  from assms(1) have wf: "wf_graph (S p)" if "p \<in> set ranks" for p using that by (simp add: ranked_def)
  have "gather [] ranks (\<lambda>p. data_requests (S p)) = Inr (\<lambda>p. if p \<in> set ranks then push_pairs (reqs (S p)) else [])"
    by (rule gather_ok) (rule data_requests_eq [OF wf])
  moreover have requests: "migrate ranks (\<lambda>p. if p \<in> set ranks then push_pairs (reqs (S p)) else []) = incoming ranks S"
    unfolding incoming_def by (rule migrate_cong) simp
  moreover have "gather [] ranks (\<lambda>q. data_updates (incoming ranks S q) (S q)) =
      Inr (\<lambda>q. if q \<in> set ranks then push_pairs (upds (incoming ranks S q) S q) else [])"
  proof (rule gather_ok)
    fix q assume q: "q \<in> set ranks"
    show "data_updates (incoming ranks S q) (S q) = Inr (push_pairs (upds (incoming ranks S q) S q))"
      by (rule data_updates_eq [of S q, OF wf [OF q]]) (auto simp: incoming_received dest: hosted_location(2) [OF assms(2)])
  qed
  moreover have "migrate ranks (\<lambda>q. if q \<in> set ranks then push_pairs (upds (incoming ranks S q) S q) else []) = answers ranks S"
    unfolding answers_def by (rule migrate_cong) simp
  moreover have step: "import_data (answers ranks S p) (S p) = Inr (stamped (fetched S p) (snd ` set (distant_nodes (g_loc (S p)))) (S p))"
    if p: "p \<in> set ranks" for p
  proof -
    let ?ptr = "\<lambda>x. the (map_of (g_nodes (S p)) (fst (snd x)))"
    have map: "map_of (g_nodes (S p)) i = Some a" if "(i, a) \<in> set (distant_nodes (g_loc (S p)))" for i a
      using distant_wf(1) [OF wf [OF p] that] wf_indexD(1) [OF wf_graphD(1) [OF wf [OF p]]] by simp
    have "?ptr ` set (received (answers ranks S p)) = snd ` set (distant_nodes (g_loc (S p)))" (is "?L = ?R")
    proof
      show "?L \<subseteq> ?R" using map by (force simp: answers_received incoming_received)
      show "?R \<subseteq> ?L"
      proof
        fix a assume "a \<in> ?R"
        then obtain i where i: "(i, a) \<in> set (distant_nodes (g_loc (S p)))" by force
        let ?q = "location_of (S p) a"
        have "(?q, i, dn_data (host_node S ?q i), dn_weight (host_node S ?q i)) \<in> set (received (answers ranks S p))"
          using i p hosted_location(1) [OF assms(2) p i] by (auto simp: answers_received incoming_received)
        then show "a \<in> ?L" using map [OF i] by force
      qed
    qed
    moreover have "import_data (answers ranks S p) (S p) = Inr (stamped (fetched S p) (?ptr ` set (received (answers ranks S p))) (S p))"
      by (rule import_data_eq [of S p, OF wf [OF p]]) (auto simp: answers_received incoming_received)
    ultimately show ?thesis by simp
  qed
  moreover obtain S' where "each_rank ranks (\<lambda>p. import_data (answers ranks S p)) S = Inr S'"
    "\<forall>p\<in>set ranks. import_data (answers ranks S p) (S p) = Inr (S' p)"
    using each_rank_ok [of ranks "\<lambda>p. import_data (answers ranks S p)" S "\<lambda>_ _. True"] step assms(1)
    by (auto simp: ranked_def)
  ultimately show ?thesis by (intro exI [of _ S']) (simp add: ghost_data_synchronize_def)
qed

lemma data_fetched:
  assumes "ranked ranks K S" "hosted ranks S"
  shows "\<exists>S'. ghost_data_synchronize ranks S = Inr S' \<and> (\<forall>p\<in>set ranks.
      wf_graph (S' p) \<and> g_nodes (S' p) = g_nodes (S p) \<and> heap_e (S' p) = heap_e (S p) \<and> g_loc (S' p) = g_loc (S p) \<and>
      (\<forall>i\<in>um_keys (local_nodes (g_loc (S p))). node_at i (S' p) = node_at i (S p)) \<and>
      (\<forall>(i, a)\<in>set (distant_nodes (g_loc (S p))). \<exists>n m. heap_n (S' p) a = Some n \<and> dn_location n = location_of (S p) a \<and>
         node_at i (S' (dn_location n)) = Some m \<and> dn_state m = LOCAL \<and> dn_data n = dn_data m \<and> dn_weight n = dn_weight m))"
proof -
  from assms(1) have wf: "wf_graph (S p)" if "p \<in> set ranks" for p using that by (simp add: ranked_def)
  obtain S' where S': "ghost_data_synchronize ranks S = Inr S'"
    "\<And>p. p \<in> set ranks \<Longrightarrow> S' p = stamped (fetched S p) (snd ` set (distant_nodes (g_loc (S p)))) (S p)"
    using ghost_data_synchronize_eq [OF assms] by blast
  have own: "\<exists>n. node_at i (S' p) = Some n \<and> node_at i (S p) = Some n \<and> dn_state n = LOCAL"
    if p: "p \<in> set ranks" and i: "i \<in> um_keys (local_nodes (g_loc (S p)))" for p i
  proof -
    obtain a n where a: "(i, a) \<in> set (g_nodes (S p))" "heap_n (S p) a = Some n" "dn_state n = LOCAL" "node_at i (S p) = Some n"
      using local_node_at [OF wf [OF p] i] by blast
    have "a \<notin> snd ` set (distant_nodes (g_loc (S p)))"
      using a(2,3) wf_graphD(3) [OF wf [OF p]] by (auto simp: wf_loc_def nodes_in_def)
    with a have "heap_n (S' p) a = Some n" by (simp add: S'(2) [OF p])
    moreover have "map_of (g_nodes (S' p)) i = Some a"
      using a(1) wf_indexD(1) [OF wf_graphD(1) [OF wf [OF p]]] by (simp add: S'(2) [OF p])
    ultimately show ?thesis using a(3,4) by (simp add: node_at_def)
  qed
  have got: "\<exists>n m. heap_n (S' p) a = Some n \<and> dn_location n = location_of (S p) a \<and>
         node_at i (S' (dn_location n)) = Some m \<and> dn_state m = LOCAL \<and> dn_data n = dn_data m \<and> dn_weight n = dn_weight m"
    if p: "p \<in> set ranks" and i: "(i, a) \<in> set (distant_nodes (g_loc (S p)))" for p i a
  proof -
    let ?q = "location_of (S p) a"
    obtain n where n: "heap_n (S p) a = Some n" "dn_id n = i" using distant_wf(2) [OF wf [OF p] i] by blast
    note host = hosted_location [OF assms(2) p i]
    obtain m where m: "node_at i (S' ?q) = Some m" "node_at i (S ?q) = Some m" "dn_state m = LOCAL" using own [OF host] by blast
    have "a \<in> snd ` set (distant_nodes (g_loc (S p)))" using i by force
    with n m(2) have "heap_n (S' p) a = Some (n\<lparr>dn_data := dn_data m, dn_weight := dn_weight m\<rparr>)"
      by (simp add: S'(2) [OF p] fetched_def host_node_def)
    moreover have "dn_location n = ?q" using n(1) by (simp add: location_of_def)
    ultimately show ?thesis using m(1,3) by simp
  qed
  have "wf_graph (S' p)" if "p \<in> set ranks" for p
    unfolding S'(2) [OF that] by (rule wf_graph_stamped [OF wf [OF that] fetched_shape])
  then show ?thesis using S' own got by (intro exI [of _ S']) (fastforce simp: S'(2))
qed

text \<open>
  Property C8: when each process knows the host of its distant nodes, a synchronization of the data in ghost
  mode never faults: afterwards the data and the weight of every distant node are those of the local node of
  its host, and no process has changed its local nodes, its edges or its locations.
\<close>

theorem ghost_data_synchronize_fetches:
  assumes "ranked ranks K S" "hosted ranks S"
  shows "\<exists>S'. ghost_data_synchronize ranks S = Inr S' \<and> (\<forall>p\<in>set ranks.
      wf_graph (S' p) \<and> g_nodes (S' p) = g_nodes (S p) \<and> heap_e (S' p) = heap_e (S p) \<and> g_loc (S' p) = g_loc (S p) \<and>
      (\<forall>i\<in>um_keys (local_nodes (g_loc (S p))). node_at i (S' p) = node_at i (S p)) \<and>
      (\<forall>(i, a)\<in>set (distant_nodes (g_loc (S p))). \<exists>n m. heap_n (S' p) a = Some n \<and> dn_location n = location_of (S p) a \<and>
         node_at i (S' (dn_location n)) = Some m \<and> dn_state m = LOCAL \<and> dn_data n = dn_data m \<and> dn_weight n = dn_weight m))"
  by (rule data_fetched [OF assms])

theorem ghost_data_synchronize_fetches_witness:
  "\<exists>S' n. ghost_data_synchronize [0, 1] two = Inr S' \<and> heap_n (S' 0) 1 = Some n \<and> dn_data n = 9"
proof -
  have ranked: "ranked [0, 1] {id_a, id_b} two"
    using sample_wf [of "()"] sample_b_wf [of "()"] by (simp add: ranked_def)
  have hosted: "hosted [0, 1] two"
    by (simp add: hosted_def) (simp add: node_b_def copy_a_def node_a_def)
  obtain S' n m where S': "ghost_data_synchronize [0, 1] two = Inr S'" "heap_n (S' 0) 1 = Some n"
    "dn_location n = location_of (two 0) 1" "node_at id_b (S' (dn_location n)) = Some m" "dn_data n = dn_data m"
    "node_at id_b (S' 1) = node_at id_b (two 1)"
    using ghost_data_synchronize_fetches [OF ranked hosted] by auto
  have "dn_location n = 1" unfolding S'(3) by (simp add: location_of_def) (simp add: node_b_def)
  with S'(4,6) have "m = host_b" by (simp add: node_at_def)
  with S'(1,2,5) show ?thesis by (auto simp: host_b_def)
qed

end
