(* ===== verification/Distribution.thy ===== *)
theory Distribution
  imports Graph_Messages Location_Sync
begin

text \<open>
  \<open>DistributedGraph::_distribute\<close> of \<open>src/fpmas/graph/distributed_graph.h\<close>: each process exports the nodes that its
  partition sends elsewhere, with their edges; the processes exchange and import them, the exported nodes become
  distant, the locations are updated and the exported nodes that no local node needs are cleared.
\<close>

type_synonym partition = "(dist_id \<times> int) list"

section \<open>The exports of a process\<close>

definition to_export :: "partition \<Rightarrow> ('d, 'l) dgraph \<Rightarrow> partition" where
  "to_export part g = filter (\<lambda>(i, r). i \<in> um_keys (g_nodes g) \<and> r \<noteq> g_rank g) part"

definition exported_nodes :: "partition \<Rightarrow> ('d, 'l) dgraph \<Rightarrow> graph_fault + (int \<times> ptr) list" where
  "exported_nodes part g = map_all (\<lambda>(i, r). and_then (getNode i g) (\<lambda>p. Inr (r, p))) (to_export part g)"

text \<open>\<open>edge_ids_to_export[r].insert(id)\<close>: the identifiers of the edges to each rank, each once and in order.\<close>

definition edge_ids :: "ptr list \<Rightarrow> ('d, 'l) dgraph \<Rightarrow> graph_fault + dist_id list" where
  "edge_ids es g = map_all (\<lambda>e. and_then (deref_e e g) (\<lambda>ed. Inr (de_id ed))) es"

definition node_edge_ids :: "int \<times> ptr \<Rightarrow> ('d, 'l) dgraph \<Rightarrow> graph_fault + (int \<times> dist_id) list" where
  "node_edge_ids rp g =
     and_then (deref_n (snd rp) g) (\<lambda>n.
     and_then (edge_ids (getIncomingEdges n @ getOutgoingEdges n) g) (\<lambda>is. Inr (map (Pair (fst rp)) is)))"

definition insert_ids :: "(int \<times> dist_id) list \<Rightarrow> dist_id packs" where
  "insert_ids ris = map (\<lambda>(r, is). (r, sort (remdups is))) (push_pairs ris)"

definition edge_ids_to_export :: "(int \<times> ptr) list \<Rightarrow> ('d, 'l) dgraph \<Rightarrow> graph_fault + dist_id packs" where
  "edge_ids_to_export rps g =
     and_then (map_all (\<lambda>rp. node_edge_ids rp g) rps) (\<lambda>riss. Inr (insert_ids (concat riss)))"

definition node_export_map :: "(int \<times> ptr) list \<Rightarrow> ('d, 'l) dgraph \<Rightarrow> graph_fault + 'd node_pack packs" where
  "node_export_map rps g =
     and_then (map_all (\<lambda>(r, p). and_then (pack_node p g) (\<lambda>m. Inr (r, m))) rps) (\<lambda>rms. Inr (push_pairs rms))"

definition edge_export_map :: "('d \<Rightarrow> 'd) \<Rightarrow> dist_id packs \<Rightarrow> ('d, 'l) dgraph \<Rightarrow> graph_fault + 'd edge_msg packs" where
  "edge_export_map light ids g =
     and_then (map_all (\<lambda>(r, i). and_then (getEdge i g) (\<lambda>e. and_then (pack_edge light e g) (\<lambda>m. Inr (r, m)))) (received ids)) (\<lambda>rms.
       Inr (push_pairs rms))"

record 'd exports =
  ex_nodes :: "ptr list"
  ex_node_map :: "'d node_pack packs"
  ex_edge_map :: "'d edge_msg packs"

definition build_exports :: "('d \<Rightarrow> 'd) \<Rightarrow> partition \<Rightarrow> ('d, 'l) dgraph \<Rightarrow> graph_fault + 'd exports" where
  "build_exports light part g =
     and_then (exported_nodes part g) (\<lambda>rps.
     and_then (edge_ids_to_export rps g) (\<lambda>ids.
     and_then (node_export_map rps g) (\<lambda>nodes.
     and_then (edge_export_map light ids g) (\<lambda>edges.
       Inr \<lparr>ex_nodes = map snd rps, ex_node_map = nodes, ex_edge_map = edges\<rparr>))))"

section \<open>The collective operation\<close>

definition import_all ::
  "int \<Rightarrow> 'd node_pack packs \<Rightarrow> 'd edge_msg packs \<Rightarrow> ptr list \<Rightarrow> ('d, 'l) graph_op" where
  "import_all junk node_import edge_import exported g =
     (case unpack_nodes junk (map snd (received node_import)) g of (ps, g) \<Rightarrow>
      and_then (unpack_edges junk (map snd (received edge_import)) g) (\<lambda>(es, g).
      and_then (run_all importNode ps g) (\<lambda>g.
      and_then (run_all importEdge es g) (\<lambda>g.
        run_all setDistant exported g))))"

definition distribute_nodes ::
  "int \<Rightarrow> ('d \<Rightarrow> 'd) \<Rightarrow> int list \<Rightarrow> (int \<Rightarrow> partition) \<Rightarrow> (int \<Rightarrow> ('d, 'l) dgraph) \<Rightarrow> graph_fault + (int \<Rightarrow> ('d, 'l) dgraph)" where
  "distribute_nodes junk light ranks part S =
     and_then (gather \<lparr>ex_nodes = [], ex_node_map = [], ex_edge_map = []\<rparr> ranks (\<lambda>p. build_exports light (part p) (S p))) (\<lambda>X.
     and_then (each_rank ranks (\<lambda>p. import_all junk (migrate ranks (\<lambda>q. ex_node_map (X q)) p)
         (migrate ranks (\<lambda>q. ex_edge_map (X q)) p) (ex_nodes (X p))) S) (\<lambda>S.
     and_then (updateLocations ranks S) (\<lambda>S.
       each_rank ranks (\<lambda>p. run_all clearNode (ex_nodes (X p))) S)))"

text \<open>\<open>distribute\<close> around it, for a synchronization mode given by what its linker and its data do collectively.\<close>

definition distribute ::
  "((int \<Rightarrow> ('d, 'l) dgraph) \<Rightarrow> graph_fault + (int \<Rightarrow> ('d, 'l) dgraph)) \<Rightarrow>
   ((int \<Rightarrow> ('d, 'l) dgraph) \<Rightarrow> graph_fault + (int \<Rightarrow> ('d, 'l) dgraph)) \<Rightarrow>
   int \<Rightarrow> ('d \<Rightarrow> 'd) \<Rightarrow> int list \<Rightarrow> (int \<Rightarrow> partition) \<Rightarrow> (int \<Rightarrow> ('d, 'l) dgraph) \<Rightarrow> graph_fault + (int \<Rightarrow> ('d, 'l) dgraph)" where
  "distribute sync_links sync_data junk light ranks part S =
     and_then (sync_links S) (\<lambda>S. and_then (distribute_nodes junk light ranks part S) sync_data)"

end
