(* ===== verification/Edge_Import.thy ===== *)
theory Edge_Import
  imports Graph_Import Graph_Clear
begin

text \<open>
  \<open>importEdge\<close> of \<open>src/fpmas/graph/distributed_graph.h\<close>. A received edge is an object with two temporary nodes as its
  ends: the import replaces each temporary node by the node of the graph, or makes it a distant node of the graph.
\<close>

section \<open>Received edges\<close>

definition temp_edge :: "ptr \<Rightarrow> dedge \<Rightarrow> 'd gnode \<Rightarrow> 'd gnode \<Rightarrow> ('d, 'l) dgraph \<Rightarrow> bool" where
  "temp_edge e ed s t g \<longleftrightarrow>
     heap_e g e = Some ed \<and> heap_n g (de_src ed) = Some s \<and> heap_n g (de_tgt ed) = Some t \<and>
     de_src ed \<noteq> de_tgt ed \<and> de_src ed \<notin> nptrs g \<and> de_tgt ed \<notin> nptrs g \<and> e \<notin> eptrs g \<and>
     dn_in s = [] \<and> dn_out s = [(de_layer ed, [e])] \<and> dn_in t = [(de_layer ed, [e])] \<and> dn_out t = []"

text \<open>What is left of an end: nothing if the graph has the node, or else a new distant node.\<close>

definition distant_end :: "'d gnode \<Rightarrow> 'd gnode" where
  "distant_end n = n\<lparr>dn_in := [], dn_out := [], dn_state := DISTANT, dn_mutex := True\<rparr>"

definition end_ready :: "ptr \<Rightarrow> 'd gnode \<Rightarrow> ('d, 'l) dgraph \<Rightarrow> ('d, 'l) dgraph" where
  "end_ready p n g =
     (if dn_id n \<in> view_nodes g then g\<lparr>heap_n := (heap_n g)(p := None)\<rparr>
      else g\<lparr>heap_n := (heap_n g)(p \<mapsto> distant_end n), g_nodes := g_nodes g @ [(dn_id n, p)],
             g_loc := (g_loc g)\<lparr>distant_nodes := distant_nodes (g_loc g) @ [(dn_id n, p)]\<rparr>\<rparr>)"

definition end_ptr :: "ptr \<Rightarrow> 'd gnode \<Rightarrow> ('d, 'l) dgraph \<Rightarrow> ptr" where
  "end_ptr p n g = (case map_of (g_nodes g) (dn_id n) of None \<Rightarrow> p | Some q \<Rightarrow> q)"

lemma end_ready_wf:
  assumes "wf_graph g" "p \<notin> nptrs g" "heap_n g p = Some n"
  shows "wf_graph (end_ready p n g)" "view_nodes (end_ready p n g) = insert (dn_id n) (view_nodes g)"
    "view_edges (end_ready p n g) = view_edges g" "nodes_in LOCAL (end_ready p n g) = nodes_in LOCAL g"
    "(dn_id n, end_ptr p n g) \<in> set (g_nodes (end_ready p n g))"
    "g_edges (end_ready p n g) = g_edges g" "heap_e (end_ready p n g) = heap_e g"
    "set (g_nodes g) \<subseteq> set (g_nodes (end_ready p n g))" "nptrs (end_ready p n g) \<subseteq> insert p (nptrs g)"
proof -
  note wf = wf_graphD [OF assms(1)]
  have "wf_graph (end_ready p n g) \<and> view_edges (end_ready p n g) = view_edges g \<and>
      nodes_in LOCAL (end_ready p n g) = nodes_in LOCAL g"
  proof (cases "dn_id n \<in> view_nodes g")
    case True
    let ?g = "g\<lparr>heap_n := (heap_n g)(p := None)\<rparr>"
    have heap: "heap_n ?g q = heap_n g q" if "q \<in> nptrs g" for q using that assms(2) by auto
    have "wf_graph ?g" by (rule wf_graph_shape [OF assms(1)]) (use heap wf(5) in \<open>simp_all add: wf_heap_def\<close>)
    moreover have "edge_view ?g e = edge_view g e" if E: "e \<in> eptrs g" for e
    proof -
      obtain ed where ed: "heap_e g e = Some ed" "de_src ed \<in> nptrs g" "de_tgt ed \<in> nptrs g" by (rule wf_edge [OF wf(1) E])
      then show ?thesis using heap by (simp add: edge_view_def del: fun_upd_apply)
    qed
    then have "view_edges ?g = view_edges g" by (fastforce simp: view_edges_def)
    moreover have "nodes_in LOCAL ?g = nodes_in LOCAL g" using heap by (force simp: nodes_in_def)
    ultimately show ?thesis using True by (simp add: end_ready_def)
  next
    case False
    have lt: "p < next_ptr g" using assms(3) wf(5) by (metis not_le option.distinct(1) wf_heap_def)
    have add: "node_added p (distant_end n) g (end_ready p n g)"
      using False lt by (simp add: node_added_def end_ready_def distant_end_def)
    have id: "dn_id (distant_end n) = dn_id n" by (simp add: distant_end_def)
    have "wf_graph (end_ready p n g)"
      by (rule node_added_wf [OF assms(1) add]) (use False assms(2) in \<open>simp_all add: distant_end_def\<close>)
    moreover have "view_edges (end_ready p n g) = view_edges g" by (rule view_edges_added [OF assms(1) add assms(2)])
    moreover have "nodes_in LOCAL (end_ready p n g) = nodes_in LOCAL g"
    proof -
      have "(i, q) \<in> nodes_in LOCAL (end_ready p n g) \<longleftrightarrow> (i, q) \<in> nodes_in LOCAL g" for i q
      proof (cases "q = p")
        case True
        then have "(i, q) \<notin> set (g_nodes g)" using assms(2) by force
        with True False show ?thesis by (simp add: nodes_in_def end_ready_def distant_end_def)
      qed (use False in \<open>auto simp: nodes_in_def end_ready_def\<close>)
      then show ?thesis by auto
    qed
    ultimately show ?thesis by blast
  qed
  then show "wf_graph (end_ready p n g)" "view_edges (end_ready p n g) = view_edges g"
    "nodes_in LOCAL (end_ready p n g) = nodes_in LOCAL g" by blast+
  show "view_nodes (end_ready p n g) = insert (dn_id n) (view_nodes g)"
    by (auto simp: end_ready_def)
  show "(dn_id n, end_ptr p n g) \<in> set (g_nodes (end_ready p n g))"
  proof (cases "dn_id n \<in> view_nodes g")
    case True
    then obtain q where "(dn_id n, q) \<in> set (g_nodes g)" by force
    then have "map_of (g_nodes g) (dn_id n) = Some q" using wf_indexD(1) [OF wf(1)] by simp
    with True \<open>(dn_id n, q) \<in> set (g_nodes g)\<close> show ?thesis by (simp add: end_ptr_def end_ready_def)
  qed (simp add: end_ptr_def end_ready_def)
  show "g_edges (end_ready p n g) = g_edges g" "heap_e (end_ready p n g) = heap_e g"
    "set (g_nodes g) \<subseteq> set (g_nodes (end_ready p n g))" "nptrs (end_ready p n g) \<subseteq> insert p (nptrs g)"
    by (auto simp: end_ready_def)
qed

section \<open>A new edge\<close>

text \<open>The states before the edge itself is inserted, and the edge that is.\<close>

definition ends_ready :: "dedge \<Rightarrow> 'd gnode \<Rightarrow> 'd gnode \<Rightarrow> ('d, 'l) dgraph \<Rightarrow> ('d, 'l) dgraph" where
  "ends_ready ed s t g = end_ready (de_tgt ed) t (end_ready (de_src ed) s g)"

definition imported_edge :: "dedge \<Rightarrow> 'd gnode \<Rightarrow> 'd gnode \<Rightarrow> ('d, 'l) dgraph \<Rightarrow> dedge" where
  "imported_edge ed s t g =
     (let src = end_ptr (de_src ed) s g; g1 = end_ready (de_src ed) s g; tgt = end_ptr (de_tgt ed) t g1
      in ed\<lparr>de_src := src, de_tgt := tgt,
            de_state := if end_local src g1 \<and> end_local tgt (ends_ready ed s t g) then LOCAL else DISTANT\<rparr>)"

lemma um_push_empty [simp]: "um_push l e [] = [(l, [e])]"
  by (simp add: um_push_def um_get_def)

text \<open>One end, whichever it is.\<close>

lemma import_end_eq:
  fixes endpoint :: "dedge \<Rightarrow> ptr" and g :: "('d, 'l) dgraph"
  assumes ed: "heap_e g e = Some ed" "heap_n g (endpoint ed) = Some n"
    and known: "\<And>q. map_of (g_nodes g) (dn_id n) = Some q \<Longrightarrow> heap_n g q \<noteq> None \<and> q \<noteq> endpoint ed"
    and loc: "dn_id n \<notin> view_nodes g \<Longrightarrow> dn_id n \<notin> um_keys (local_nodes (g_loc g)) \<and> dn_id n \<notin> um_keys (distant_nodes (g_loc g))"
    and edges: "set (getOutgoingEdges n) \<subseteq> {e}" "set (getIncomingEdges n) \<subseteq> {e}"
    and link: "\<And>(h :: ('d, 'l) dgraph) fd p m. heap_e h e = Some fd \<Longrightarrow> de_layer fd = de_layer ed \<Longrightarrow> heap_n h p = Some m \<Longrightarrow>
      link_end p e h = Inr (h\<lparr>heap_n := (heap_n h)(p \<mapsto> push m)\<rparr>)"
    and push: "push (distant_end n) = n\<lparr>dn_state := DISTANT, dn_mutex := True\<rparr>"
    and set_end: "\<And>p. de_layer (set_end p ed) = de_layer ed" "set_end (endpoint ed) ed = ed"
  defines "q \<equiv> end_ptr (endpoint ed) n g" and "g1 \<equiv> end_ready (endpoint ed) n g"
  shows "\<exists>g' fd. import_end endpoint set_end link_end e g = Inr (\<not> end_local q g1, g') \<and>
           heap_n g' = (heap_n g1)(q := map_option push (heap_n g1 q)) \<and>
           heap_e g' = (heap_e g)(e \<mapsto> fd) \<and> fd\<lparr>de_state := LOCAL\<rparr> = (set_end q ed)\<lparr>de_state := LOCAL\<rparr> \<and>
           g_nodes g' = g_nodes g1 \<and> g_edges g' = g_edges g \<and> g_loc g' = g_loc g1 \<and> next_ptr g' = next_ptr g \<and>
           g_rank g' = g_rank g \<and> sync_linker g' = sync_linker g"
proof (cases "dn_id n \<in> view_nodes g")
  case True
  then obtain r where r: "map_of (g_nodes g) (dn_id n) = Some r" by (metis map_of_eq_None_iff not_None_eq)
  with known obtain m where m: "heap_n g r = Some m" "r \<noteq> endpoint ed" by blast
  let ?h = "g\<lparr>heap_n := (heap_n g)(endpoint ed := None), heap_e := (heap_e g)(e \<mapsto> set_end r ed)\<rparr>"
  have l: "link_end r e ?h = Inr (?h\<lparr>heap_n := (heap_n ?h)(r \<mapsto> push m)\<rparr>)"
    by (rule link [of _ "set_end r ed"]) (use m in \<open>simp_all add: set_end\<close>)
  have q: "q = r" using r by (simp add: q_def end_ptr_def)
  have local: "\<not> end_local q g1 \<longleftrightarrow> dn_state m = DISTANT"
    using m True by (cases "dn_state m") (simp_all add: q end_local_def g1_def end_ready_def)
  have "import_end endpoint set_end link_end e g = Inr (\<not> end_local q g1, ?h\<lparr>heap_n := (heap_n ?h)(r \<mapsto> push m)\<rparr>)"
    unfolding local using True r m ed l by (simp add: import_end_def heap_ops getNode_def)
  then show ?thesis
    using True m by (intro exI [of _ "?h\<lparr>heap_n := (heap_n ?h)(r \<mapsto> push m)\<rparr>"] exI [of _ "set_end r ed"])
      (simp add: g1_def q end_ready_def)
next
  case False
  let ?p = "endpoint ed" and ?n = "n\<lparr>dn_state := DISTANT\<rparr>"
  let ?h0 = "event (Insert_Node ?p) (g\<lparr>g_nodes := g_nodes g @ [(dn_id n, ?p)]\<rparr>)"
  let ?h1 = "upd_loc (lm_distant (dn_id n) ?p) (?h0\<lparr>heap_n := (heap_n g)(?p \<mapsto> ?n)\<rparr>)"
  let ?mark = "\<lambda>es (h :: ptr \<Rightarrow> dedge option) f. map_option (\<lambda>ed. if f \<in> set es then ed\<lparr>de_state := DISTANT\<rparr> else ed) (h f)"
  let ?es = "getOutgoingEdges n" and ?fs = "getIncomingEdges n"
  have same: "getOutgoingEdges ?n = ?es" "getIncomingEdges ?n = ?fs"
    by (simp_all add: getOutgoingEdges_def getIncomingEdges_def)
  have out: "run_all edge_distant ?es ?h1 = Inr (?h1\<lparr>heap_e := ?mark ?es (heap_e g)\<rparr>)"
    by (subst run_edge_distant) (use edges ed in auto)
  have inn: "run_all edge_distant ?fs (?h1\<lparr>heap_e := ?mark ?es (heap_e g)\<rparr>) = Inr (?h1\<lparr>heap_e := ?mark ?fs (?mark ?es (heap_e g))\<rparr>)"
    by (subst run_edge_distant) (use edges ed in auto)
  let ?h2 = "event (Set_Distant ?p) (?h1\<lparr>heap_e := ?mark ?fs (?mark ?es (heap_e g))\<rparr>)"
  have set: "setDistant ?p ?h0 = Inr ?h2"
    using ed(2) out inn by (simp add: setDistant_def lm_setDistant_def heap_ops same)
  let ?g' = "?h2\<lparr>heap_n := (heap_n ?h2)(?p \<mapsto> ?n\<lparr>dn_mutex := True\<rparr>)\<rparr>"
  have mutex: "setMutex ?p ?h2 = Inr ?g'" by (simp add: setMutex_def heap_ops)
  have q: "q = ?p" using False by (simp add: q_def end_ptr_def)
  have local: "\<not> end_local q g1" using False by (simp add: q end_local_def g1_def end_ready_def distant_end_def)
  have run: "import_end endpoint set_end link_end e g = Inr (True, ?g')"
    using False ed set mutex by (simp add: import_end_def heap_ops insert_node_def um_insert_def)
  let ?fd = "if e \<in> set ?es \<union> set ?fs then ed\<lparr>de_state := DISTANT\<rparr> else ed"
  have heap: "?mark ?fs (?mark ?es (heap_e g)) = (heap_e g)(e \<mapsto> ?fd)"
  proof
    fix f
    show "?mark ?fs (?mark ?es (heap_e g)) f = ((heap_e g)(e \<mapsto> ?fd)) f"
    proof (cases "f = e")
      case False
      then have "f \<notin> set ?es" "f \<notin> set ?fs" using edges by auto
      with False show ?thesis by (simp add: option.map_ident)
    qed (use ed(1) in simp)
  qed
  have lm: "lm_distant (dn_id n) ?p (g_loc g) = (g_loc g)\<lparr>distant_nodes := distant_nodes (g_loc g) @ [(dn_id n, ?p)]\<rparr>"
  proof -
    have "filter (\<lambda>e. fst e \<noteq> dn_id n) (local_nodes (g_loc g)) = local_nodes (g_loc g)"
      by (rule filter_True) (use loc [OF False] in force)
    with loc [OF False] show ?thesis by (cases "g_loc g") (simp add: lm_distant_def um_erase_def um_insert_def)
  qed
  show ?thesis
    unfolding run
    using False local heap lm push
    by (intro exI [of _ ?g'] exI [of _ ?fd]) (simp add: g1_def q end_ready_def set_end)
qed

lemma import_new_edge_added:
  assumes "wf_graph g" "temp_edge e ed s t g"
  shows "\<exists>g'. import_new_edge e g = and_then (Inr g') (insert_edge e) \<and>
           heap_n g' = (\<lambda>p. map_option (join_edge e (imported_edge ed s t g) p) (heap_n (ends_ready ed s t g) p)) \<and>
           heap_e g' = (heap_e g)(e \<mapsto> imported_edge ed s t g) \<and> g_nodes g' = g_nodes (ends_ready ed s t g) \<and>
           g_edges g' = g_edges g \<and> g_loc g' = g_loc (ends_ready ed s t g) \<and> next_ptr g' = next_ptr g \<and>
           g_rank g' = g_rank g \<and> sync_linker g' = sync_linker g"
proof -
  let ?p1 = "de_src ed" and ?p2 = "de_tgt ed" and ?l = "de_layer ed"
  let ?g1 = "end_ready ?p1 s g" and ?q1 = "end_ptr ?p1 s g"
  let ?g2 = "ends_ready ed s t g" and ?q2 = "end_ptr ?p2 t ?g1"
  let ?out = "\<lambda>n :: 'a gnode. n\<lparr>dn_out := um_push ?l e (dn_out n)\<rparr>" and ?in = "\<lambda>n :: 'a gnode. n\<lparr>dn_in := um_push ?l e (dn_in n)\<rparr>"
  note wf = wf_graphD [OF assms(1)]
  note temp = assms(2) [unfolded temp_edge_def]
  from temp have ed: "heap_e g e = Some ed" "heap_n g ?p1 = Some s" "heap_n g ?p2 = Some t" "?p1 \<noteq> ?p2"
    "?p1 \<notin> nptrs g" "?p2 \<notin> nptrs g" "e \<notin> eptrs g" by blast+
  note r1 = end_ready_wf [OF assms(1) ed(5,2)]
  have known: "heap_n h q \<noteq> None" "q \<in> nptrs h" if "wf_graph h" "map_of (g_nodes h) i = Some q" for h :: "('a, 'b) dgraph" and i q
  proof -
    from map_of_SomeD [OF that(2)] show "q \<in> nptrs h" by force
    then show "heap_n h q \<noteq> None" using wf_node [OF wf_graphD(1) [OF that(1)]] by blast
  qed
  have loc: "i \<notin> um_keys (local_nodes (g_loc h)) \<and> i \<notin> um_keys (distant_nodes (g_loc h))"
    if "wf_graph h" "i \<notin> view_nodes h" for h :: "('a, 'b) dgraph" and i
    using keys_loc [OF wf_graphD(3) [OF that(1)]] that(2) by blast
  have "\<exists>g' fd. import_end de_src (\<lambda>p ed. ed\<lparr>de_src := p\<rparr>) linkOut e g = Inr (\<not> end_local ?q1 ?g1, g') \<and>
           heap_n g' = (heap_n ?g1)(?q1 := map_option ?out (heap_n ?g1 ?q1)) \<and>
           heap_e g' = (heap_e g)(e \<mapsto> fd) \<and> fd\<lparr>de_state := LOCAL\<rparr> = (ed\<lparr>de_src := ?q1\<rparr>)\<lparr>de_state := LOCAL\<rparr> \<and>
           g_nodes g' = g_nodes ?g1 \<and> g_edges g' = g_edges g \<and> g_loc g' = g_loc ?g1 \<and> next_ptr g' = next_ptr g \<and>
           g_rank g' = g_rank g \<and> sync_linker g' = sync_linker g"
  proof (rule import_end_eq)
    show "heap_n g q \<noteq> None \<and> q \<noteq> ?p1" if "map_of (g_nodes g) (dn_id s) = Some q" for q
      using known [OF assms(1) that] ed(5) by blast
    show "set (getOutgoingEdges s) \<subseteq> {e}" "set (getIncomingEdges s) \<subseteq> {e}"
      using temp by (simp_all add: getOutgoingEdges_def getIncomingEdges_def um_all_def)
    show "?out (distant_end s) = s\<lparr>dn_state := DISTANT, dn_mutex := True\<rparr>"
      using temp by (simp add: distant_end_def)
  qed (use ed loc [OF assms(1)] in \<open>simp_all add: linkOut_def heap_ops\<close>)
  then obtain h fd where h: "import_end de_src (\<lambda>p ed. ed\<lparr>de_src := p\<rparr>) linkOut e g = Inr (\<not> end_local ?q1 ?g1, h)"
    "heap_n h = (heap_n ?g1)(?q1 := map_option ?out (heap_n ?g1 ?q1))" "heap_e h = (heap_e g)(e \<mapsto> fd)"
    "fd\<lparr>de_state := LOCAL\<rparr> = (ed\<lparr>de_src := ?q1\<rparr>)\<lparr>de_state := LOCAL\<rparr>"
    "g_nodes h = g_nodes ?g1" "g_edges h = g_edges g" "g_loc h = g_loc ?g1" "next_ptr h = next_ptr g"
    "g_rank h = g_rank g" "sync_linker h = sync_linker g" by blast
  have fd: "de_tgt fd = ?p2" "de_layer fd = ?l" "de_src fd = ?q1"
    using h(4) by (metis dedge.select_convs dedge.surjective dedge.update_convs)+
  have r2: "heap_n ?g1 ?p2 = Some t" using ed(3,4) by (simp add: end_ready_def)
  have p2: "?p2 \<notin> nptrs ?g1" using subsetD [OF r1(9), of ?p2] ed(4,6) by (metis insert_iff)
  have "?q1 \<in> nptrs ?g1" using r1(5) by force
  with p2 have q1: "?q1 \<noteq> ?p2" by metis
  have "\<exists>g' gd. import_end de_tgt (\<lambda>p ed. ed\<lparr>de_tgt := p\<rparr>) linkIn e h = Inr (\<not> end_local (end_ptr (de_tgt fd) t h) (end_ready (de_tgt fd) t h), g') \<and>
           heap_n g' = (heap_n (end_ready (de_tgt fd) t h))(end_ptr (de_tgt fd) t h := map_option ?in (heap_n (end_ready (de_tgt fd) t h) (end_ptr (de_tgt fd) t h))) \<and>
           heap_e g' = (heap_e h)(e \<mapsto> gd) \<and> gd\<lparr>de_state := LOCAL\<rparr> = (fd\<lparr>de_tgt := end_ptr (de_tgt fd) t h\<rparr>)\<lparr>de_state := LOCAL\<rparr> \<and>
           g_nodes g' = g_nodes (end_ready (de_tgt fd) t h) \<and> g_edges g' = g_edges h \<and> g_loc g' = g_loc (end_ready (de_tgt fd) t h) \<and>
           next_ptr g' = next_ptr h \<and> g_rank g' = g_rank h \<and> sync_linker g' = sync_linker h"
  proof (rule import_end_eq)
    show "heap_e h e = Some fd" by (simp add: h(3))
    show "heap_n h (de_tgt fd) = Some t" using r2 q1 by (simp add: h(2) fd(1))
    show "heap_n h q \<noteq> None \<and> q \<noteq> de_tgt fd" if "map_of (g_nodes h) (dn_id t) = Some q" for q
    proof -
      from that have m: "map_of (g_nodes ?g1) (dn_id t) = Some q" by (simp add: h(5))
      from known(2) [OF r1(1) m] p2 have "q \<noteq> ?p2" by metis
      moreover have "heap_n h q \<noteq> None" using known(1) [OF r1(1) m] by (cases "q = ?q1") (simp_all add: h(2))
      ultimately show ?thesis by (simp add: fd(1))
    qed
    show "dn_id t \<notin> um_keys (local_nodes (g_loc h)) \<and> dn_id t \<notin> um_keys (distant_nodes (g_loc h))" if "dn_id t \<notin> view_nodes h"
      using loc [OF r1(1), of "dn_id t"] that by (simp add: h(5,7))
    show "set (getOutgoingEdges t) \<subseteq> {e}" "set (getIncomingEdges t) \<subseteq> {e}"
      using temp by (simp_all add: getOutgoingEdges_def getIncomingEdges_def um_all_def)
    show "?in (distant_end t) = t\<lparr>dn_state := DISTANT, dn_mutex := True\<rparr>"
      using temp by (simp add: distant_end_def)
    show "linkIn p e h' = Inr (h'\<lparr>heap_n := (heap_n h')(p \<mapsto> ?in m)\<rparr>)"
      if "heap_e h' e = Some fd'" "de_layer fd' = de_layer fd" "heap_n h' p = Some m" for h' :: "('a, 'b) dgraph" and fd' p m
      using that by (simp add: linkIn_def heap_ops fd(2))
  qed simp_all
  moreover have ready: "end_ptr ?p2 t h = ?q2" "g_nodes (end_ready ?p2 t h) = g_nodes ?g2" "g_loc (end_ready ?p2 t h) = g_loc ?g2"
    "heap_n (end_ready ?p2 t h) = (heap_n ?g2)(?q1 := map_option ?out (heap_n ?g2 ?q1))"
    using q1 by (simp_all add: end_ptr_def end_ready_def ends_ready_def h(2,5,7) fun_upd_twist)
  moreover have "end_local ?q2 (end_ready ?p2 t h) \<longleftrightarrow> end_local ?q2 ?g2"
    by (auto simp: end_local_def ready(4))
  ultimately obtain g' gd where g': "import_end de_tgt (\<lambda>p ed. ed\<lparr>de_tgt := p\<rparr>) linkIn e h = Inr (\<not> end_local ?q2 ?g2, g')"
    "heap_n g' = (heap_n (end_ready ?p2 t h))(?q2 := map_option ?in (heap_n (end_ready ?p2 t h) ?q2))"
    "heap_e g' = (heap_e h)(e \<mapsto> gd)" "gd\<lparr>de_state := LOCAL\<rparr> = (fd\<lparr>de_tgt := ?q2\<rparr>)\<lparr>de_state := LOCAL\<rparr>"
    "g_nodes g' = g_nodes ?g2" "g_edges g' = g_edges h" "g_loc g' = g_loc ?g2" "next_ptr g' = next_ptr h"
    "g_rank g' = g_rank h" "sync_linker g' = sync_linker h"
    unfolding fd(1) by auto
  have same: "gd\<lparr>de_state := st\<rparr> = ed\<lparr>de_src := ?q1, de_tgt := ?q2, de_state := st\<rparr>" for st
    using h(4) g'(4) by (cases ed; cases fd; cases gd) simp
  let ?ed = "imported_edge ed s t g"
  have edge: "?ed = gd\<lparr>de_state := if \<not> end_local ?q1 ?g1 \<or> \<not> end_local ?q2 ?g2 then DISTANT else LOCAL\<rparr>"
    unfolding same by (simp add: imported_edge_def Let_def)
  have ends: "de_src ?ed = ?q1" "de_tgt ?ed = ?q2" "de_layer ?ed = ?l" by (simp_all add: imported_edge_def Let_def)
  have heap: "heap_n g' = (\<lambda>p. map_option (join_edge e ?ed p) (heap_n ?g2 p))"
  proof
    fix p
    show "heap_n g' p = map_option (join_edge e ?ed p) (heap_n ?g2 p)"
      by (cases "heap_n ?g2 p") (auto simp: g'(2) ready(4) join_edge_def ends)
  qed
  let ?g' = "g'\<lparr>heap_e := (heap_e g)(e \<mapsto> ?ed)\<rparr>"
  have "import_new_edge e g = and_then (Inr ?g') (insert_edge e)"
    using h(1,3) g'(1,3) by (simp add: import_new_edge_def heap_ops edge)
  then show ?thesis
    by (intro exI [of _ ?g']) (simp add: heap g'(5-10) h)
qed

section \<open>An edge that is known\<close>

definition edge_shape :: "dedge \<Rightarrow> dedge" where
  "edge_shape ed = ed\<lparr>de_state := LOCAL\<rparr>"

lemma edge_shape_eq: "edge_shape ed = edge_shape fd \<Longrightarrow> de_id ed = de_id fd \<and> de_layer ed = de_layer fd \<and>
    de_src ed = de_src fd \<and> de_tgt ed = de_tgt fd"
  by (cases ed; cases fd) (simp add: edge_shape_def)

lemma wf_graph_edges:
  assumes "wf_graph g" "\<And>p. p \<in> nptrs g \<Longrightarrow> heap_n g' p = heap_n g p"
    and "\<And>e. e \<in> eptrs g \<Longrightarrow> map_option edge_shape (heap_e g' e) = map_option edge_shape (heap_e g e)"
    and "g_nodes g' = g_nodes g" "g_edges g' = g_edges g" "g_loc g' = g_loc g" "wf_state g'" "wf_heap g'"
  shows "wf_graph g'" "view_edges g' = view_edges g" "nodes_in st g' = nodes_in st g"
proof -
  note wf = wf_graphD [OF assms(1)]
  have edge: "\<exists>fd. heap_e g' e = Some fd \<and> de_id fd = de_id ed \<and> de_layer fd = de_layer ed \<and> de_src fd = de_src ed \<and> de_tgt fd = de_tgt ed"
    if "e \<in> eptrs g" "heap_e g e = Some ed" for e ed
  proof (cases "heap_e g' e")
    case (Some fd)
    with assms(3) [OF that(1)] that(2) have "edge_shape fd = edge_shape ed" by simp
    then show ?thesis using edge_shape_eq [of fd ed] Some by auto
  qed (use assms(3) [OF that(1)] that(2) in simp)
  have inc: "incident endp p (eptrs g) g' = incident endp p (eptrs g) g" if "endp = de_src \<or> endp = de_tgt" for endp p
  proof -
    have "(\<exists>ed. heap_e g' e = Some ed \<and> endp ed = p \<and> de_layer ed = l) \<longleftrightarrow> (\<exists>ed. heap_e g e = Some ed \<and> endp ed = p \<and> de_layer ed = l)"
      if e: "e \<in> eptrs g" for e l
    proof -
      obtain ed where ed: "heap_e g e = Some ed" by (rule wf_edge [OF wf(1) e])
      from edge [OF e ed] \<open>endp = _ \<or> _\<close> ed show ?thesis by auto
    qed
    then show ?thesis unfolding incident_def by (intro ext Collect_cong conj_cong refl)
  qed
  show nodes: "nodes_in st g' = nodes_in st g" for st
    using assms(2) by (force simp: nodes_in_def assms(4))
  have "wf_index g'"
    unfolding wf_index_def assms(4,5)
  proof (intro conjI allI impI)
    fix i p assume p: "(i, p) \<in> set (g_nodes g)"
    then have "p \<in> nptrs g" by force
    with wf_indexD(3) [OF wf(1) p] assms(2) show "\<exists>n. heap_n g' p = Some n \<and> dn_id n = i" by simp
  next
    fix i e assume e: "(i, e) \<in> set (g_edges g)"
    then have "e \<in> eptrs g" by force
    from wf_indexD(4) [OF wf(1) e] edge [OF this]
    show "\<exists>ed. heap_e g' e = Some ed \<and> de_id ed = i \<and> de_src ed \<in> nptrs g \<and> de_tgt ed \<in> nptrs g" by metis
  qed (use wf_indexD(1,2) [OF wf(1)] in simp_all)
  moreover have "wf_adj (eptrs g') g'"
    unfolding wf_adj_def assms(4,5)
  proof (intro allI impI)
    fix p m assume p: "p \<in> nptrs g" "heap_n g' p = Some m"
    with assms(2) have "heap_n g p = Some m" by simp
    from wf_adjD [OF wf(2) p(1) this]
    show "adj (dn_in m) (incident de_tgt p (eptrs g) g') \<and> adj (dn_out m) (incident de_src p (eptrs g) g')"
      by (simp add: inc)
  qed
  moreover have "wf_loc g'" using wf(3) by (simp add: wf_loc_def nodes assms(6))
  ultimately show "wf_graph g'" using assms(7,8) by (simp add: wf_graph_def)
  have "edge_view g' e = edge_view g e" if e: "(i, e) \<in> set (g_edges g)" for i e
  proof -
    from e have E: "e \<in> eptrs g" by force
    obtain ed where ed: "heap_e g e = Some ed" "de_src ed \<in> nptrs g" "de_tgt ed \<in> nptrs g" by (rule wf_edge [OF wf(1) E])
    from edge [OF E ed(1)] obtain fd where "heap_e g' e = Some fd" "de_layer fd = de_layer ed" "de_src fd = de_src ed" "de_tgt fd = de_tgt ed"
      by blast
    with ed assms(2) show ?thesis by (cases "heap_n g (de_src ed)"; cases "heap_n g (de_tgt ed)") (simp_all add: edge_view_def)
  qed
  then show "view_edges g' = view_edges g" by (auto simp: view_edges_def assms(5))
qed

section \<open>What an operation leaves alone\<close>

text \<open>
  The local nodes with their data and weight, the objects outside of the graph and the rank: an import only
  touches the graph and the objects it is given.
\<close>

definition held :: "('d, 'l) dgraph \<Rightarrow> (dist_id \<times> 'd \<times> rat) set" where
  "held g = {(i, d, w). \<exists>p n. (i, p) \<in> nodes_in LOCAL g \<and> heap_n g p = Some n \<and> d = dn_data n \<and> w = dn_weight n}"

lemma held_cong:
  assumes "nodes_in LOCAL g' = nodes_in LOCAL g"
    and "\<And>p n. p \<in> nptrs g \<Longrightarrow> heap_n g p = Some n \<Longrightarrow> \<exists>m. heap_n g' p = Some m \<and> dn_data m = dn_data n \<and> dn_weight m = dn_weight n"
  shows "held g' = held g"
proof -
  have "(\<exists>n. heap_n g' p = Some n \<and> d = dn_data n \<and> w = dn_weight n) \<longleftrightarrow> (\<exists>n. heap_n g p = Some n \<and> d = dn_data n \<and> w = dn_weight n)"
    if "(i, p) \<in> nodes_in LOCAL g" for i p d w
  proof -
    from that have p: "p \<in> nptrs g" by (force simp: nodes_in_def)
    from that obtain n where "heap_n g p = Some n" by (auto simp: nodes_in_def)
    with assms(2) [OF p this] show ?thesis by auto
  qed
  then show ?thesis unfolding held_def assms(1) by blast
qed

definition untouched :: "ptr set \<Rightarrow> ptr set \<Rightarrow> ('d, 'l) dgraph \<Rightarrow> ('d, 'l) dgraph \<Rightarrow> bool" where
  "untouched P E g g' \<longleftrightarrow>
     (\<forall>p. p \<notin> nptrs g \<longrightarrow> p \<notin> P \<longrightarrow> p \<notin> nptrs g' \<and> heap_n g' p = heap_n g p) \<and>
     (\<forall>e. e \<notin> eptrs g \<longrightarrow> e \<notin> E \<longrightarrow> e \<notin> eptrs g' \<and> heap_e g' e = heap_e g e) \<and>
     g_rank g' = g_rank g \<and> managed (g_loc g') = managed (g_loc g) \<and> sync_linker g' = sync_linker g"

lemma untouched_refl: "untouched P E g g"
  by (simp add: untouched_def)

lemma untouched_trans: "untouched P E g g' \<Longrightarrow> untouched Q F g' g'' \<Longrightarrow> untouched (P \<union> Q) (E \<union> F) g g''"
  by (simp add: untouched_def)

lemma ends_ready_wf:
  assumes "wf_graph g" "temp_edge e ed s t g"
  shows "wf_graph (ends_ready ed s t g)" "view_nodes (ends_ready ed s t g) = {dn_id s, dn_id t} \<union> view_nodes g"
    "view_edges (ends_ready ed s t g) = view_edges g" "nodes_in LOCAL (ends_ready ed s t g) = nodes_in LOCAL g"
    "(dn_id s, de_src (imported_edge ed s t g)) \<in> set (g_nodes (ends_ready ed s t g))"
    "(dn_id t, de_tgt (imported_edge ed s t g)) \<in> set (g_nodes (ends_ready ed s t g))"
    "g_edges (ends_ready ed s t g) = g_edges g"
    "p \<notin> nptrs g \<Longrightarrow> p \<notin> {de_src ed, de_tgt ed} \<Longrightarrow>
       p \<notin> nptrs (ends_ready ed s t g) \<and> heap_n (ends_ready ed s t g) p = heap_n g p"
    "p \<in> nptrs g \<Longrightarrow> heap_n (ends_ready ed s t g) p = heap_n g p"
    "end_local (de_src (imported_edge ed s t g)) (end_ready (de_src ed) s g) \<Longrightarrow>
       end_local (de_src (imported_edge ed s t g)) (ends_ready ed s t g)"
    "set (g_nodes g) \<subseteq> set (g_nodes (ends_ready ed s t g))"
proof -
  let ?g1 = "end_ready (de_src ed) s g"
  from assms(2) have ed: "heap_n g (de_src ed) = Some s" "heap_n g (de_tgt ed) = Some t" "de_src ed \<noteq> de_tgt ed"
    "de_src ed \<notin> nptrs g" "de_tgt ed \<notin> nptrs g" unfolding temp_edge_def by blast+
  note r1 = end_ready_wf [OF assms(1) ed(4,1)]
  have tgt: "de_tgt ed \<notin> nptrs ?g1" using subsetD [OF r1(9), of "de_tgt ed"] ed(3,5) by (metis insert_iff)
  have "heap_n ?g1 (de_tgt ed) = Some t" using ed(2,3) by (simp add: end_ready_def)
  note r2 = end_ready_wf [OF r1(1) tgt this]
  show "wf_graph (ends_ready ed s t g)" "view_edges (ends_ready ed s t g) = view_edges g"
    "nodes_in LOCAL (ends_ready ed s t g) = nodes_in LOCAL g" "g_edges (ends_ready ed s t g) = g_edges g"
    using r1 r2 by (simp_all add: ends_ready_def)
  show "view_nodes (ends_ready ed s t g) = {dn_id s, dn_id t} \<union> view_nodes g"
    unfolding ends_ready_def r2(2) r1(2) by blast
  have src: "de_src (imported_edge ed s t g) = end_ptr (de_src ed) s g" "de_tgt (imported_edge ed s t g) = end_ptr (de_tgt ed) t ?g1"
    by (simp_all add: imported_edge_def Let_def)
  show node: "(dn_id s, de_src (imported_edge ed s t g)) \<in> set (g_nodes (ends_ready ed s t g))"
    "(dn_id t, de_tgt (imported_edge ed s t g)) \<in> set (g_nodes (ends_ready ed s t g))"
    using r1(5) r2(5,8) by (auto simp: src ends_ready_def)
  show "set (g_nodes g) \<subseteq> set (g_nodes (ends_ready ed s t g))" using r1(8) r2(8) unfolding ends_ready_def by (rule subset_trans)
  show "p \<notin> nptrs (ends_ready ed s t g) \<and> heap_n (ends_ready ed s t g) p = heap_n g p"
    if "p \<notin> nptrs g" "p \<notin> {de_src ed, de_tgt ed}"
  proof -
    have "p \<notin> nptrs (ends_ready ed s t g)"
      using subsetD [OF r1(9), of p] subsetD [OF r2(9), of p] that unfolding ends_ready_def by (metis insert_iff)
    with that(2) show ?thesis by (simp add: ends_ready_def end_ready_def)
  qed
  show "heap_n (ends_ready ed s t g) p = heap_n g p" if "p \<in> nptrs g"
  proof -
    from that ed(4,5) have "p \<noteq> de_src ed" "p \<noteq> de_tgt ed" by metis+
    then show ?thesis by (simp add: ends_ready_def end_ready_def)
  qed
  assume local: "end_local (de_src (imported_edge ed s t g)) ?g1"
  have "de_src (imported_edge ed s t g) \<in> nptrs ?g1" using r1(5) by (force simp: src)
  with tgt have "de_src (imported_edge ed s t g) \<noteq> de_tgt ed" by metis
  with local show "end_local (de_src (imported_edge ed s t g)) (ends_ready ed s t g)"
    by (simp add: ends_ready_def end_ready_def [of "de_tgt ed"] end_local_def)
qed

section \<open>The import of an edge\<close>

definition edge_imported :: "ptr \<Rightarrow> dedge \<Rightarrow> 'd gnode \<Rightarrow> 'd gnode \<Rightarrow> ('d, 'l) dgraph \<Rightarrow> ('d, 'l) dgraph \<Rightarrow> bool" where
  "edge_imported e ed s t g g' \<longleftrightarrow>
     wf_graph g' \<and> held g' = held g \<and> untouched {de_src ed, de_tgt ed} {e} g g' \<and>
     nodes_in LOCAL g' = nodes_in LOCAL g \<and> new_local_nodes (g_loc g') = new_local_nodes (g_loc g) \<and>
     set (g_nodes g) \<subseteq> set (g_nodes g') \<and>
     (if de_id ed \<in> um_keys (g_edges g) then view_nodes g' = view_nodes g \<and> view_edges g' = view_edges g
      else view_nodes g' = {dn_id s, dn_id t} \<union> view_nodes g \<and>
           view_edges g' = insert (de_id ed, dn_id s, de_layer ed, dn_id t) (view_edges g))"

lemma importEdge_new:
  assumes "wf_graph g" "temp_edge e ed s t g" "de_id ed \<notin> um_keys (g_edges g)"
  shows "\<exists>g'. importEdge e g = Inr g' \<and> edge_imported e ed s t g g'"
proof -
  let ?ed = "imported_edge ed s t g" and ?g2 = "ends_ready ed s t g"
  note wf = wf_graphD [OF assms(1)]
  from assms(2) have ed: "heap_e g e = Some ed" "e \<notin> eptrs g" unfolding temp_edge_def by blast+
  note r = ends_ready_wf [OF assms(1,2)]
  obtain g1 where g1: "import_new_edge e g = and_then (Inr g1) (insert_edge e)"
    "heap_n g1 = (\<lambda>p. map_option (join_edge e ?ed p) (heap_n ?g2 p))" "heap_e g1 = (heap_e g)(e \<mapsto> ?ed)"
    "g_nodes g1 = g_nodes ?g2" "g_edges g1 = g_edges g" "g_loc g1 = g_loc ?g2" "next_ptr g1 = next_ptr g"
    "g_rank g1 = g_rank g" "sync_linker g1 = sync_linker g"
    using import_new_edge_added [OF assms(1,2)] by blast
  have ids: "de_id ?ed = de_id ed" "de_layer ?ed = de_layer ed" by (simp_all add: imported_edge_def Let_def)
  let ?g' = "event (Insert_Edge e) (g1\<lparr>g_edges := g_edges g @ [(de_id ed, e)]\<rparr>)"
  have run: "importEdge e g = Inr ?g'"
    using ed assms(3) by (simp add: importEdge_def heap_ops g1(1) insert_edge_def g1(3,5) ids um_insert_def)
  have same: "heap_e ?g2 = heap_e g" "managed (g_loc ?g2) = managed (g_loc g)" "new_local_nodes (g_loc ?g2) = new_local_nodes (g_loc g)"
    "next_ptr ?g2 = next_ptr g"
    by (simp_all add: ends_ready_def end_ready_def)
  have "e < next_ptr g" using ed(1) wf(5) by (metis not_le option.distinct(1) wf_heap_def)
  then have add: "edge_added e ?ed ?g2 ?g'"
    by (simp add: edge_added_def g1 ids r(7) same)
  have new: "de_id ?ed \<notin> um_keys (g_edges ?g2)" "e \<notin> eptrs ?g2" using assms(3) ed(2) by (simp_all add: ids r(7))
  have ends: "de_src ?ed \<in> nptrs ?g2" "de_tgt ?ed \<in> nptrs ?g2" using r(5,6) by force+
  have local: "end_local (de_src ?ed) ?g2 \<and> end_local (de_tgt ?ed) ?g2" if "de_state ?ed = LOCAL"
  proof -
    from that have "end_local (de_src ?ed) (end_ready (de_src ed) s g) \<and> end_local (de_tgt ?ed) ?g2"
      by (simp add: imported_edge_def Let_def split: if_splits)
    with r(10) show ?thesis by blast
  qed
  obtain ns where ns: "heap_n ?g2 (de_src ?ed) = Some ns" "dn_id ns = dn_id s" using wf_indexD(3) [OF wf_graphD(1) [OF r(1)] r(5)] by blast
  obtain nt where nt: "heap_n ?g2 (de_tgt ?ed) = Some nt" "dn_id nt = dn_id t" using wf_indexD(3) [OF wf_graphD(1) [OF r(1)] r(6)] by blast
  have wf': "wf_graph ?g'" by (rule edge_added_wf [OF r(1) add new ends local])
  have edges: "view_edges ?g' = insert (de_id ed, dn_id s, de_layer ed, dn_id t) (view_edges g)"
    using view_edges_joined [OF r(1) add new(2) ns(1) nt(1)] by (simp add: ids ns(2) nt(2) r(3))
  have states: "nodes_in LOCAL ?g' = nodes_in LOCAL g"
    unfolding r(4) [symmetric] by (auto simp: nodes_in_def g1)
  have "held ?g' = held g"
  proof (rule held_cong [OF states])
    fix p n assume "p \<in> nptrs g" "heap_n g p = Some n"
    then show "\<exists>m. heap_n ?g' p = Some m \<and> dn_data m = dn_data n \<and> dn_weight m = dn_weight n"
      using r(9) by (simp add: g1(2) join_edge_def)
  qed
  moreover have "untouched {de_src ed, de_tgt ed} {e} g ?g'"
  proof -
    have "p \<notin> nptrs ?g' \<and> heap_n ?g' p = heap_n g p" if p: "p \<notin> nptrs g" "p \<notin> {de_src ed, de_tgt ed}" for p
    proof -
      note out = r(8) [OF p]
      then have "p \<noteq> de_src ?ed" "p \<noteq> de_tgt ?ed" using ends by metis+
      with out show ?thesis by (simp add: g1)
    qed
    then show ?thesis by (simp add: untouched_def g1 same)
  qed
  ultimately have "edge_imported e ed s t g ?g'"
    using wf' edges states r(2,11) assms(3) by (simp add: edge_imported_def g1 same)
  with run show ?thesis by blast
qed

lemma importEdge_known:
  assumes "wf_graph g" "temp_edge e ed s t g" "de_id ed \<in> um_keys (g_edges g)"
  shows "\<exists>g'. importEdge e g = Inr g' \<and> edge_imported e ed s t g g'"
proof -
  note wf = wf_graphD [OF assms(1)]
  from assms(2) have ed: "heap_e g e = Some ed" "heap_n g (de_src ed) = Some s" "heap_n g (de_tgt ed) = Some t"
    "de_src ed \<noteq> de_tgt ed" "de_src ed \<notin> nptrs g" "de_tgt ed \<notin> nptrs g" "e \<notin> eptrs g"
    unfolding temp_edge_def by blast+
  obtain f where f: "(de_id ed, f) \<in> set (g_edges g)" using assms(3) by force
  then have F: "f \<in> eptrs g" by force
  from f have get: "getEdge (de_id ed) g = Inr f" using wf_indexD(2) [OF wf(1)] by (simp add: getEdge_def)
  obtain fd where fd: "heap_e g f = Some fd" "de_src fd \<in> nptrs g" "de_tgt fd \<in> nptrs g" by (rule wf_edge [OF wf(1) F])
  obtain ns where ns: "heap_n g (de_src fd) = Some ns" by (rule wf_node [OF wf(1) fd(2)])
  obtain nt where nt: "heap_n g (de_tgt fd) = Some nt" by (rule wf_node [OF wf(1) fd(3)])
  from F ed(7) have ef: "e \<noteq> f" by metis
  let ?l = "dn_state ns = LOCAL \<and> dn_state nt = LOCAL"
  let ?fd = "if ?l then fd\<lparr>de_state := LOCAL\<rparr> else fd"
  let ?g' = "g\<lparr>heap_n := ((heap_n g)(de_src ed := None))(de_tgt ed := None), heap_e := ((heap_e g)(f \<mapsto> ?fd))(e := None)\<rparr>"
  have id: "(heap_e g)(f \<mapsto> fd) = heap_e g" using fd(1) by (simp add: fun_upd_idem)
  have run: "importEdge e g = Inr ?g'"
    using assms(3) ed fd(1) ns nt get ef id
    by (cases "dn_state ns"; cases "dn_state nt")
      (simp_all add: importEdge_def import_known_edge_def heap_ops both_local_def)
  have nodes: "heap_n ?g' p = heap_n g p" if "p \<in> nptrs g" for p
  proof -
    from that ed(5,6) have "p \<noteq> de_src ed" "p \<noteq> de_tgt ed" by metis+
    then show ?thesis by simp
  qed
  have shape: "map_option edge_shape (heap_e ?g' d) = map_option edge_shape (heap_e g d)" if "d \<in> eptrs g" for d
  proof -
    from that ed(7) have "d \<noteq> e" by metis
    then show ?thesis using fd(1) by (simp add: edge_shape_def)
  qed
  have state: "wf_state ?g'"
    unfolding wf_state_def
  proof (intro ballI allI impI)
    fix d dd assume d: "d \<in> eptrs ?g'" "heap_e ?g' d = Some dd" "de_state dd = LOCAL"
    then have D: "d \<in> eptrs g" "d \<noteq> e" by (auto split: if_splits)
    have locals: "end_local p ?g' \<longleftrightarrow> end_local p g" if "p \<in> nptrs g" for p using nodes [OF that] by (simp add: end_local_def)
    show "end_local (de_src dd) ?g' \<and> end_local (de_tgt dd) ?g'"
    proof (cases "d = f \<and> ?l")
      case True
      with d(2) D(2) have same: "de_src dd = de_src fd" "de_tgt dd = de_tgt fd" by auto
      have "end_local (de_src fd) g" "end_local (de_tgt fd) g" using True ns nt by (simp_all add: end_local_def)
      with locals [OF fd(2)] locals [OF fd(3)] show ?thesis unfolding same by blast
    next
      case False
      with d(2) D(2) fd(1) have dd: "heap_e g d = Some dd" by (auto split: if_splits)
      obtain cd where "heap_e g d = Some cd" "de_src cd \<in> nptrs g" "de_tgt cd \<in> nptrs g" by (rule wf_edge [OF wf(1) D(1)])
      with dd have "de_src dd \<in> nptrs g" "de_tgt dd \<in> nptrs g" by simp_all
      with wf(4) D(1) dd d(3) show ?thesis unfolding wf_state_def by (simp only: locals)
    qed
  qed
  have heap: "wf_heap ?g'" using wf(5) fd(1) by (auto simp: wf_heap_def)
  note same = wf_graph_edges [OF assms(1) nodes shape _ _ _ state heap]
  have wf': "wf_graph ?g'" by (rule same(1)) simp_all
  have edges: "view_edges ?g' = view_edges g" by (rule same(2)) simp_all
  have states: "nodes_in LOCAL ?g' = nodes_in LOCAL g" by (rule same(3)) simp_all
  have "held ?g' = held g"
  proof (rule held_cong [OF states])
    fix p n assume p: "p \<in> nptrs g" "heap_n g p = Some n"
    show "\<exists>m. heap_n ?g' p = Some m \<and> dn_data m = dn_data n \<and> dn_weight m = dn_weight n"
      unfolding nodes [OF p(1)] using p(2) by simp
  qed
  moreover have "d \<notin> eptrs g \<Longrightarrow> d \<noteq> f" for d using F by metis
  then have "untouched {de_src ed, de_tgt ed} {e} g ?g'" by (simp add: untouched_def)
  ultimately have "edge_imported e ed s t g ?g'" using wf' edges states assms(3) by (simp add: edge_imported_def)
  with run show ?thesis by blast
qed

lemma importEdge_imported:
  assumes "wf_graph g" "temp_edge e ed s t g"
  shows "\<exists>g'. importEdge e g = Inr g' \<and> edge_imported e ed s t g g'"
  using importEdge_new [OF assms] importEdge_known [OF assms] by blast

end
