(* ===== verification/Graph_Effects.thy ===== *)
theory Graph_Effects
  imports Edge_Import Node_Stamp
begin

text \<open>
  What imports, changes of location and clearing do to the local nodes a process holds, and that they leave
  every other object alone. The steps of a distribution are composed from these facts.
\<close>

section \<open>Importing a node\<close>

lemma setLocal_eq:
  assumes "heap_n g q = Some n"
  shows "setLocal q g = Inr (event (Set_Local q) (upd_loc (lm_local (dn_id n) q)
           (g\<lparr>heap_n := (heap_n g)(q \<mapsto> n\<lparr>dn_location := g_rank g, dn_state := LOCAL\<rparr>)\<rparr>)))"
  using assms by (simp add: setLocal_def lm_setLocal_def heap_ops)

definition node_imported :: "ptr \<Rightarrow> 'd gnode \<Rightarrow> ('d, 'l) dgraph \<Rightarrow> ('d, 'l) dgraph \<Rightarrow> bool" where
  "node_imported p n g g' \<longleftrightarrow>
     wf_graph g' \<and> view_nodes g' = insert (dn_id n) (view_nodes g) \<and> view_edges g' = view_edges g \<and>
     held g' = insert (dn_id n, dn_data n, dn_weight n) {x \<in> held g. fst x \<noteq> dn_id n} \<and> untouched {p} {} g g' \<and>
     um_keys (new_local_nodes (g_loc g')) = insert (dn_id n) (um_keys (new_local_nodes (g_loc g))) \<and>
     g_edges g' = g_edges g \<and> set (g_nodes g) \<subseteq> set (g_nodes g')"

lemma um_keys_insert: "um_keys (um_insert k v m) = insert k (um_keys m)"
  by (auto simp: um_insert_def)

lemma held_id:
  assumes "wf_graph g" "(i, q) \<in> set (g_nodes g)" "heap_n g q = Some n"
  shows "(i, d, w) \<in> held g \<longleftrightarrow> dn_state n = LOCAL \<and> d = dn_data n \<and> w = dn_weight n"
proof -
  have "(i, p) \<in> set (g_nodes g) \<longleftrightarrow> p = q" for p
    using id_ptr [OF wf_graphD(1) [OF assms(1)] _ assms(2), of i p] assms(2) by auto
  then show ?thesis using assms(3) by (auto simp: held_def nodes_in_def)
qed

lemma importNode_imported:
  assumes "wf_graph g" "heap_n g p = Some n" "p \<notin> nptrs g" "dn_in n = []" "dn_out n = []"
  shows "\<exists>g'. importNode p g = Inr g' \<and> node_imported p n g g'"
proof (cases "dn_id n \<in> view_nodes g")
  case False
  let ?m = "n\<lparr>dn_location := g_rank g, dn_state := LOCAL, dn_mutex := True\<rparr>"
  obtain g' where g': "importNode p g = Inr g'" "node_added p ?m g g'"
    using import_fresh [OF assms(1-3) False] by blast
  note add = g'(2) [unfolded node_added_def]
  have eq: "managed (g_loc g') = managed (g_loc g)" "g_rank g' = g_rank g" "sync_linker g' = sync_linker g"
    "new_local_nodes (g_loc g') = um_insert (dn_id n) p (new_local_nodes (g_loc g))"
    using g'(1) assms(2) False
    by (auto simp: importNode_def insert_node_def setLocal_eq setMutex_def heap_ops lm_local_def)
  have wf: "wf_graph g'" by (rule node_added_wf [OF assms(1) g'(2)]) (use assms(3-5) False in simp_all)
  have edges: "view_edges g' = view_edges g" by (rule view_edges_added [OF assms(1) g'(2) assms(3)])
  have node: "(dn_id n, p) \<in> set (g_nodes g')" "heap_n g' p = Some ?m" using add by simp_all
  have ids: "q \<noteq> p" "i \<noteq> dn_id n" if "(i, q) \<in> set (g_nodes g)" for i q
    using that assms(3) False by force+
  have "(i, d, w) \<in> held g' \<longleftrightarrow> (i, d, w) = (dn_id n, dn_data n, dn_weight n) \<or> (i, d, w) \<in> held g \<and> i \<noteq> dn_id n" for i d w
  proof (cases "i = dn_id n")
    case True
    with held_id [OF wf node] show ?thesis by simp
  next
    case False
    then have "(i, q) \<in> set (g_nodes g') \<longleftrightarrow> (i, q) \<in> set (g_nodes g)" for q using add by auto
    with False ids(1) show ?thesis by (auto simp: held_def nodes_in_def add)
  qed
  then have "held g' = insert (dn_id n, dn_data n, dn_weight n) {x \<in> held g. fst x \<noteq> dn_id n}" by auto
  moreover have "untouched {p} {} g g'" using add eq by (simp add: untouched_def)
  moreover have "view_nodes g' = insert (dn_id n) (view_nodes g)" using add by auto
  ultimately have "node_imported p n g g'"
    using wf edges add by (simp add: node_imported_def eq um_keys_insert subset_insertI)
  with g'(1) show ?thesis by blast
next
  case True
  note wf = wf_graphD [OF assms(1)]
  from True obtain q where q: "(dn_id n, q) \<in> set (g_nodes g)" "q \<in> nptrs g" by force
  then have get: "getNode (dn_id n) g = Inr q" using wf_indexD(1) [OF wf(1)] by (simp add: getNode_def)
  from q(2) assms(3) have pq: "p \<noteq> q" by metis
  obtain k where k: "heap_n g q = Some k" "dn_id k = dn_id n" using wf_indexD(3) [OF wf(1) q(1)] by blast
  let ?k = "k\<lparr>dn_data := dn_data n, dn_weight := dn_weight n, dn_location := g_rank g, dn_state := LOCAL\<rparr>"
  let ?g' = "(event (Set_Local q) (upd_loc (lm_local (dn_id n) q) g))\<lparr>heap_n := ((heap_n g)(q \<mapsto> ?k))(p := None)\<rparr>"
  have run: "importNode p g = Inr ?g'"
    using True assms(2) get k pq by (simp add: importNode_def heap_ops setLocal_eq event_def upd_loc_def)
  with import_known [OF assms(1-3) True] have wf': "wf_graph ?g'" and edges: "view_edges ?g' = view_edges g" by auto
  have node: "(dn_id n, q) \<in> set (g_nodes ?g')" "heap_n ?g' q = Some ?k" using q(1) pq by simp_all
  have "(i, d, w) \<in> held ?g' \<longleftrightarrow> (i, d, w) = (dn_id n, dn_data n, dn_weight n) \<or> (i, d, w) \<in> held g \<and> i \<noteq> dn_id n" for i d w
  proof (cases "i = dn_id n")
    case True
    with held_id [OF wf' node] show ?thesis by simp
  next
    case False
    have "r \<noteq> q \<and> r \<noteq> p" if r: "(i, r) \<in> set (g_nodes g)" for r
    proof
      show "r \<noteq> q" using id_ptr [OF wf(1) r q(1)] False by blast
      have "r \<in> nptrs g" using r by force
      with assms(3) show "r \<noteq> p" by metis
    qed
    with False show ?thesis by (auto simp: held_def nodes_in_def)
  qed
  then have "held ?g' = insert (dn_id n, dn_data n, dn_weight n) {x \<in> held g. fst x \<noteq> dn_id n}" by auto
  moreover have "r \<noteq> q" if "r \<notin> nptrs g" for r using that q(2) by metis
  then have "untouched {p} {} g ?g'" by (simp add: untouched_def lm_local_def)
  ultimately have "node_imported p n g ?g'"
    using wf' edges True by (simp add: node_imported_def lm_local_def um_keys_insert insert_absorb)
  with run show ?thesis by blast
qed

section \<open>Leaving a node to another process\<close>

definition node_left :: "dist_id \<Rightarrow> ('d, 'l) dgraph \<Rightarrow> ('d, 'l) dgraph \<Rightarrow> bool" where
  "node_left i g g' \<longleftrightarrow>
     wf_graph g' \<and> g_nodes g' = g_nodes g \<and> g_edges g' = g_edges g \<and> view_edges g' = view_edges g \<and>
     held g' = {x \<in> held g. fst x \<noteq> i} \<and> untouched {} {} g g' \<and> new_local_nodes (g_loc g') = new_local_nodes (g_loc g) \<and>
     nodes_in LOCAL g' = {x \<in> nodes_in LOCAL g. fst x \<noteq> i}"

lemma setDistant_left:
  assumes "wf_graph g" "(i, q) \<in> set (g_nodes g)"
  shows "\<exists>g'. setDistant q g = Inr g' \<and> node_left i g g'"
proof -
  note wf = wf_graphD [OF assms(1)]
  obtain n where n: "heap_n g q = Some n" "dn_id n = i" using wf_indexD(3) [OF wf(1) assms(2)] by blast
  from assms(2) have q: "q \<in> nptrs g" by force
  obtain g' where g': "setDistant q g = Inr g'" "wf_graph g'" "view_edges g' = view_edges g"
    "nodes_in LOCAL g' = {x \<in> nodes_in LOCAL g. fst x \<noteq> i}"
    using setDistant_wf [OF assms] by blast
  have eq: "g' = event (Set_Distant q) ((upd_loc (lm_distant (dn_id n) q) (g\<lparr>heap_n := (heap_n g)(q \<mapsto> n\<lparr>dn_state := DISTANT\<rparr>)\<rparr>))
           \<lparr>heap_e := marked (getIncomingEdges n) (marked (getOutgoingEdges n) (heap_e g))\<rparr>)"
    using g'(1) setDistant_eq [OF assms(1) n(1) q] by simp
  have nodes: "g_nodes g' = g_nodes g" "g_edges g' = g_edges g" by (simp_all add: eq)
  have heap: "p \<noteq> q \<Longrightarrow> heap_n g' p = heap_n g p" for p by (simp add: eq)
  have "(j, d, w) \<in> held g' \<longleftrightarrow> (j, d, w) \<in> held g \<and> j \<noteq> i" for j d w
  proof (cases "j = i")
    case True
    with g'(4) show ?thesis by (simp add: held_def)
  next
    case False
    have "r \<noteq> q" if "(j, r) \<in> set (g_nodes g)" for r using id_ptr [OF wf(1) that assms(2)] False by blast
    with False heap show ?thesis by (auto simp: held_def nodes_in_def nodes)
  qed
  then have "held g' = {x \<in> held g. fst x \<noteq> i}" by auto
  moreover have "untouched {} {} g g'"
  proof -
    have "heap_n g' p = heap_n g p" if "p \<notin> nptrs g" for p
    proof (rule heap)
      from that q show "p \<noteq> q" by metis
    qed
    moreover have "heap_e g' e = heap_e g e" if "e \<notin> eptrs g" for e
    proof -
      have "e \<notin> ends_at endpoint q g" for endpoint using that by (simp add: ends_at_def)
      then show ?thesis by (simp add: eq node_edges [OF assms(1) q n(1)] marked_other)
    qed
    ultimately show ?thesis by (simp add: untouched_def nodes) (simp add: eq lm_distant_def)
  qed
  ultimately have "node_left i g g'" using g' nodes by (simp add: node_left_def) (simp add: eq lm_distant_def)
  with g'(1) show ?thesis by blast
qed

end
