(* ===== verification/Distribution_Exports.thy ===== *)
theory Distribution_Exports
  imports Distribution Graph_Effects
begin

text \<open>
  What a process exports, what unpacking puts on the heap of a receiver, and what the imports make of it.
\<close>

section \<open>Exports\<close>

definition node_ptr :: "('d, 'l) dgraph \<Rightarrow> dist_id \<Rightarrow> ptr" where
  "node_ptr g i = the (map_of (g_nodes g) i)"

lemma node_ptr:
  assumes "wf_graph g" "i \<in> view_nodes g"
  shows "(i, node_ptr g i) \<in> set (g_nodes g)" "getNode i g = Inr (node_ptr g i)" "node_ptr g i \<in> nptrs g"
    "\<exists>n. heap_n g (node_ptr g i) = Some n \<and> dn_id n = i"
proof -
  from assms(2) obtain p where p: "(i, p) \<in> set (g_nodes g)" by force
  then have "map_of (g_nodes g) i = Some p" using wf_indexD(1) [OF wf_graphD(1) [OF assms(1)]] by simp
  with p show "(i, node_ptr g i) \<in> set (g_nodes g)" "getNode i g = Inr (node_ptr g i)" "node_ptr g i \<in> nptrs g"
    by (force simp: node_ptr_def getNode_def)+
  with wf_indexD(3) [OF wf_graphD(1) [OF assms(1)]] show "\<exists>n. heap_n g (node_ptr g i) = Some n \<and> dn_id n = i" by blast
qed

lemma node_ptr_unique: "wf_graph g \<Longrightarrow> (i, p) \<in> set (g_nodes g) \<Longrightarrow> node_ptr g i = p"
  using wf_indexD(1) [OF wf_graphD(1), of g] by (simp add: node_ptr_def)

lemma in_to_export: "(i, r) \<in> set (to_export part g) \<longleftrightarrow> (i, r) \<in> set part \<and> i \<in> view_nodes g \<and> r \<noteq> g_rank g"
  by (auto simp: to_export_def)

lemma exported_nodes_eq:
  assumes "wf_graph g"
  shows "exported_nodes part g = Inr (map (\<lambda>(i, r). (r, node_ptr g i)) (to_export part g))"
  unfolding exported_nodes_def
  by (rule map_all_ok) (auto simp: in_to_export node_ptr(2) [OF assms])

definition edge_at :: "('d, 'l) dgraph \<Rightarrow> ptr \<Rightarrow> dedge" where
  "edge_at g e = the (heap_e g e)"

lemma edge_at:
  assumes "wf_graph g" "(j, e) \<in> set (g_edges g)"
  shows "heap_e g e = Some (edge_at g e)" "de_id (edge_at g e) = j"
  using wf_indexD(4) [OF wf_graphD(1) [OF assms(1)] assms(2)] by (auto simp: edge_at_def)

text \<open>The edges with an end in a node, by their identifiers.\<close>

definition ids_at :: "dist_id \<Rightarrow> ('d, 'l) dgraph \<Rightarrow> dist_id set" where
  "ids_at i g = {j. \<exists>s l t. (j, s, l, t) \<in> view_edges g \<and> (s = i \<or> t = i)}"

lemma ids_at_ends:
  assumes "wf_graph g" "(i, p) \<in> set (g_nodes g)"
  shows "de_id ` edge_at g ` (ends_at de_src p g \<union> ends_at de_tgt p g) = ids_at i g"
proof -
  note idx = wf_graphD(1) [OF assms(1)]
  have "e \<in> ends_at de_src p g \<union> ends_at de_tgt p g \<longleftrightarrow>
      (\<exists>j s l t. (j, e) \<in> set (g_edges g) \<and> edge_view g e = Some (s, l, t) \<and> (s = i \<or> t = i))" (is "_ \<longleftrightarrow> ?view e") for e
  proof
    assume e: "e \<in> ends_at de_src p g \<union> ends_at de_tgt p g"
    then have "e \<in> eptrs g" unfolding ends_at_def by blast
    then obtain j ed s t where "(j, e) \<in> set (g_edges g)" "heap_e g e = Some ed" "edge_view g e = Some (s, de_layer ed, t)"
      by (rule edge_data [OF assms(1)])
    with e edge_view_ends [OF idx assms(2) this(1,3)] show "?view e" by blast
  next
    assume "?view e"
    then obtain j s l t where "(j, e) \<in> set (g_edges g)" "edge_view g e = Some (s, l, t)" "s = i \<or> t = i" by blast
    with edge_view_ends [OF idx assms(2) this(1,2)] show "e \<in> ends_at de_src p g \<union> ends_at de_tgt p g" by blast
  qed
  moreover have "de_id (edge_at g e) = j" if "(j, e) \<in> set (g_edges g)" for j e by (rule edge_at(2) [OF assms(1) that])
  ultimately have "j \<in> de_id ` edge_at g ` (ends_at de_src p g \<union> ends_at de_tgt p g) \<longleftrightarrow> j \<in> ids_at i g" for j
    unfolding ids_at_def view_edges_def by (auto simp: image_iff) blast+
  then show ?thesis by blast
qed

lemma node_edge_ids_eq:
  assumes "wf_graph g" "i \<in> view_nodes g"
  shows "\<exists>is. node_edge_ids (r, node_ptr g i) g = Inr (map (Pair r) is) \<and> set is = ids_at i g"
proof -
  note p = node_ptr [OF assms]
  obtain n where n: "heap_n g (node_ptr g i) = Some n" using p(4) by blast
  note edges = node_edges [OF assms(1) p(3) n]
  have mem: "set (getIncomingEdges n @ getOutgoingEdges n) = ends_at de_src (node_ptr g i) g \<union> ends_at de_tgt (node_ptr g i) g"
    by (auto simp: edges)
  have "edge_ids (getIncomingEdges n @ getOutgoingEdges n) g =
      Inr (map (\<lambda>e. de_id (edge_at g e)) (getIncomingEdges n @ getOutgoingEdges n))"
    unfolding edge_ids_def
  proof (rule map_all_ok)
    fix e assume "e \<in> set (getIncomingEdges n @ getOutgoingEdges n)"
    then have "e \<in> eptrs g" unfolding mem ends_at_def by blast
    then obtain j where "(j, e) \<in> set (g_edges g)" by force
    from edge_at(1) [OF assms(1) this] show "and_then (deref_e e g) (\<lambda>ed. Inr (de_id ed)) = Inr (de_id (edge_at g e))"
      by (simp add: heap_ops)
  qed
  moreover have "set (map (\<lambda>e. de_id (edge_at g e)) (getIncomingEdges n @ getOutgoingEdges n)) = ids_at i g"
    unfolding set_map mem ids_at_ends [OF assms(1) p(1), symmetric] by (simp only: image_image)
  ultimately show ?thesis using n
    by (intro exI [of _ "map (\<lambda>e. de_id (edge_at g e)) (getIncomingEdges n @ getOutgoingEdges n)"])
      (simp add: node_edge_ids_def heap_ops del: map_append)
qed

definition msg_view :: "'d edge_msg \<Rightarrow> dist_id \<times> dist_id \<times> layer_id \<times> dist_id" where
  "msg_view m = (em_edge m, em_id (em_src m), em_layer m, em_id (em_tgt m))"

definition edge_ptr :: "('d, 'l) dgraph \<Rightarrow> dist_id \<Rightarrow> ptr" where
  "edge_ptr g j = the (map_of (g_edges g) j)"

lemma pack_edge_view:
  assumes "wf_graph g" "(j, s, l, t) \<in> view_edges g"
  shows "\<exists>m. and_then (getEdge j g) (\<lambda>e. pack_edge light e g) = Inr m \<and> msg_view m = (j, s, l, t)"
proof -
  from assms(2) obtain e where e: "(j, e) \<in> set (g_edges g)" "edge_view g e = Some (s, l, t)" by (auto simp: view_edges_def)
  from e(1) have "getEdge j g = Inr e" using wf_indexD(2) [OF wf_graphD(1) [OF assms(1)]] by (simp add: getEdge_def)
  moreover from e(2) obtain ed ns nt where "heap_e g e = Some ed" "heap_n g (de_src ed) = Some ns" "heap_n g (de_tgt ed) = Some nt"
    "s = dn_id ns" "l = de_layer ed" "t = dn_id nt" by (auto simp: edge_view_Some)
  moreover from this edge_at [OF assms(1) e(1)] have "de_id ed = j" by simp
  ultimately show ?thesis by (simp add: pack_edge_def heap_ops msg_view_def pack_end_def)
qed

lemma received_received: "map snd (received packs) = concat (map snd packs)"
  by (induction packs rule: received.induct) (simp_all add: comp_def)

lemma received_insert_ids:
  "(r, j) \<in> set (received (insert_ids ris)) \<longleftrightarrow> (r, j) \<in> set ris"
proof -
  have fold: "set (received (fold (\<lambda>(k, x). um_push k x) kxs m)) = set (received m) \<union> set kxs"
    if "um_wf m" for kxs m
    using that
  proof (induction kxs arbitrary: m)
    case (Cons kx kxs)
    have "set (received (um_push k x m)) = insert (k, x) (set (received m))" if "um_wf m" for k x
      unfolding um_push_def
    proof -
      from that show "set (received (um_set k (um_get [] k m @ [x]) m)) = insert (k, x) (set (received m))"
        by (induction m) (auto simp: um_get_def image_iff)
    qed
    moreover have "um_wf (um_push k x m)" if "um_wf m" for k x using that by (simp add: um_push_def)
    ultimately show ?case using Cons by (cases kx) simp
  qed simp
  have "set (received (map (\<lambda>(r, is). (r, sort (remdups is))) packs)) = set (received packs)" for packs :: "dist_id packs"
    by (induction packs rule: received.induct) simp_all
  then show ?thesis using fold [of "[]" ris] by (simp add: insert_ids_def push_pairs_def)
qed

text \<open>A process that only exports local nodes sends each of them, with its edges, to the rank of the partition.\<close>

definition np_triple :: "'d node_pack \<Rightarrow> dist_id \<times> 'd \<times> rat" where
  "np_triple m = (np_id m, np_data m, np_weight m)"

definition sends_own :: "partition \<Rightarrow> ('d, 'l) dgraph \<Rightarrow> bool" where
  "sends_own part g \<longleftrightarrow> distinct (map fst part) \<and> fst ` set (to_export part g) \<subseteq> ids_in LOCAL g"

definition exports_of :: "partition \<Rightarrow> ('d, 'l) dgraph \<Rightarrow> 'd exports \<Rightarrow> bool" where
  "exports_of part g X \<longleftrightarrow>
     ex_nodes X = map (\<lambda>(i, r). node_ptr g i) (to_export part g) \<and>
     (\<forall>r. np_triple ` set (um_get [] r (ex_node_map X)) = {x \<in> held g. (fst x, r) \<in> set (to_export part g)}) \<and>
     (\<forall>r. msg_view ` set (um_get [] r (ex_edge_map X)) =
        {(j, s, l, t). (j, s, l, t) \<in> view_edges g \<and> ((s, r) \<in> set (to_export part g) \<or> (t, r) \<in> set (to_export part g))})"

lemma exports_ofD:
  assumes "exports_of part g X"
  shows "ex_nodes X = map (\<lambda>(i, r). node_ptr g i) (to_export part g)"
    "np_triple ` set (um_get [] r (ex_node_map X)) = {x \<in> held g. (fst x, r) \<in> set (to_export part g)}"
    "msg_view ` set (um_get [] r (ex_edge_map X)) =
        {(j, s, l, t). (j, s, l, t) \<in> view_edges g \<and> ((s, r) \<in> set (to_export part g) \<or> (t, r) \<in> set (to_export part g))}"
  using assms unfolding exports_of_def by - (elim conjE, assumption | elim conjE, erule spec)+

lemma held_ptr:
  assumes "wf_graph g" "i \<in> ids_in LOCAL g"
  shows "\<exists>n. heap_n g (node_ptr g i) = Some n \<and> dn_id n = i \<and> (\<forall>d w. (i, d, w) \<in> held g \<longleftrightarrow> d = dn_data n \<and> w = dn_weight n)"
proof -
  from assms(2) obtain p n where p: "(i, p) \<in> set (g_nodes g)" "heap_n g p = Some n" "dn_state n = LOCAL"
    by (auto simp: ids_in_def nodes_in_def)
  moreover have "node_ptr g i = p" by (rule node_ptr_unique [OF assms(1) p(1)])
  moreover have "dn_id n = i" using wf_indexD(3) [OF wf_graphD(1) [OF assms(1)] p(1)] p(2) by simp
  ultimately show ?thesis using held_id [OF assms(1) p(1,2)] by auto
qed

lemma set_push_map:
  "f ` set (um_get [] r (push_pairs (map (\<lambda>x. (k x, v x)) xs))) = (\<lambda>x. f (v x)) ` {x \<in> set xs. k x = r}"
  unfolding um_get_push_pairs by (force simp: image_iff)

lemma build_exports_ok:
  fixes g :: "('d, 'l) dgraph"
  assumes "wf_graph g" "sends_own part g"
  shows "\<exists>X. build_exports light part g = Inr X \<and> exports_of part g X"
proof -
  let ?ex = "to_export part g" and ?rps = "map (\<lambda>(i, r). (r, node_ptr g i)) (to_export part g)"
  have known: "i \<in> view_nodes g" "i \<in> ids_in LOCAL g" if "(i, r) \<in> set ?ex" for i r
    using that assms(2) unfolding sends_own_def by (simp add: in_to_export, metis fst_conv image_eqI subsetD)
  have "\<exists>is. node_edge_ids (snd x, node_ptr g (fst x)) g = Inr (map (Pair (snd x)) is) \<and> set is = ids_at (fst x) g"
    if "x \<in> set ?ex" for x
    by (rule node_edge_ids_eq [OF assms(1)]) (use known(1) [of "fst x" "snd x"] that in simp)
  then obtain IS where IS: "\<And>x. x \<in> set ?ex \<Longrightarrow>
      node_edge_ids (snd x, node_ptr g (fst x)) g = Inr (map (Pair (snd x)) (IS x)) \<and> set (IS x) = ids_at (fst x) g"
    by metis
  have ids: "map_all (\<lambda>rp. node_edge_ids rp g) ?rps = Inr (map (\<lambda>(i, r). map (Pair r) (IS (i, r))) ?ex)"
  proof -
    have "map_all (\<lambda>rp. node_edge_ids rp g) (map (\<lambda>(i, r). (r, node_ptr g i)) xs) = Inr (map (\<lambda>(i, r). map (Pair r) (IS (i, r))) xs)"
      if "set xs \<subseteq> set ?ex" for xs
      using that by (induction xs) (use IS in auto)
    then show ?thesis by simp
  qed
  let ?ris = "concat (map (\<lambda>(i, r). map (Pair r) (IS (i, r))) ?ex)"
  have ris: "(r, j) \<in> set ?ris \<longleftrightarrow> (\<exists>i. (i, r) \<in> set ?ex \<and> j \<in> ids_at i g)" for r j
    using IS by fastforce
  let ?sent = "received (insert_ids ?ris)"
  have sent: "(r, j) \<in> set ?sent \<longleftrightarrow>
      (\<exists>s l t. (j, s, l, t) \<in> view_edges g \<and> ((s, r) \<in> set ?ex \<or> (t, r) \<in> set ?ex))" for r j
    unfolding received_insert_ids ris by (auto simp: ids_at_def)
  have "\<forall>n\<in>set ?ex. \<exists>m. pack_node (node_ptr g (fst n)) g = Inr m \<and> np_id m = fst n \<and> np_triple m \<in> held g"
  proof
    fix n assume "n \<in> set ?ex"
    then have "fst n \<in> ids_in LOCAL g" using known(2) [of "fst n" "snd n"] by simp
    from held_ptr [OF assms(1) this] show "\<exists>m. pack_node (node_ptr g (fst n)) g = Inr m \<and> np_id m = fst n \<and> np_triple m \<in> held g"
      by (auto simp: pack_node_def heap_ops np_triple_def)
  qed
  then obtain NM where NM: "\<And>n. n \<in> set ?ex \<Longrightarrow> pack_node (node_ptr g (fst n)) g = Inr (NM n) \<and> np_id (NM n) = fst n \<and> np_triple (NM n) \<in> held g"
    by metis
  have nodes: "map_all (\<lambda>(r, p). and_then (pack_node p g) (\<lambda>m. Inr (r, m))) ?rps = Inr (map (\<lambda>x. (snd x, NM x)) ?ex)"
  proof -
    have "map_all (\<lambda>(r, p). and_then (pack_node p g) (\<lambda>m. Inr (r, m))) (map (\<lambda>(i, r). (r, node_ptr g i)) xs) = Inr (map (\<lambda>x. (snd x, NM x)) xs)"
      if "set xs \<subseteq> set ?ex" for xs
      using that by (induction xs) (use NM in \<open>auto simp: split_beta\<close>)
    then show ?thesis by simp
  qed
  have view: "(j, s, l, t) = v" if vv: "(j, s, l, t) \<in> view_edges g" "v \<in> view_edges g" "fst v = j" for j s l t v
  proof -
    obtain s' l' t' where v: "v = (j, s', l', t')" using vv(3) by (cases v) auto
    with vv(1,2) obtain e e' where "(j, e) \<in> set (g_edges g)" "edge_view g e = Some (s, l, t)"
      "(j, e') \<in> set (g_edges g)" "edge_view g e' = Some (s', l', t')" by (auto simp: view_edges_def)
    moreover from this wf_id_unique [OF wf_indexD(2) [OF wf_graphD(1) [OF assms(1)]]] have "e = e'" by blast
    ultimately show ?thesis using v by simp
  qed
  have "\<forall>rj\<in>set ?sent. \<exists>m. and_then (getEdge (snd rj) g) (\<lambda>e. pack_edge light e g) = Inr m \<and>
      msg_view m \<in> view_edges g \<and> em_edge m = snd rj"
  proof
    fix rj assume "rj \<in> set ?sent"
    with sent [of "fst rj" "snd rj"] obtain s l t where v: "(snd rj, s, l, t) \<in> view_edges g" by auto
    from pack_edge_view [OF assms(1) v, of light] obtain m
      where m: "and_then (getEdge (snd rj) g) (\<lambda>e. pack_edge light e g) = Inr m" "msg_view m = (snd rj, s, l, t)" by blast
    from m(2) have "em_edge m = snd rj" by (simp add: msg_view_def)
    with m v show "\<exists>m. and_then (getEdge (snd rj) g) (\<lambda>e. pack_edge light e g) = Inr m \<and> msg_view m \<in> view_edges g \<and> em_edge m = snd rj"
      by (intro exI [of _ m]) simp
  qed
  from bchoice [OF this] obtain EM where "\<forall>rj\<in>set ?sent. and_then (getEdge (snd rj) g) (\<lambda>e. pack_edge light e g) = Inr (EM rj) \<and>
      msg_view (EM rj) \<in> view_edges g \<and> em_edge (EM rj) = snd rj" by (rule exE)
  note EM = bspec [OF this]
  have edges: "map_all (\<lambda>(r, i). and_then (getEdge i g) (\<lambda>e. and_then (pack_edge light e g) (\<lambda>m. Inr (r, m)))) ?sent =
      Inr (map (\<lambda>rj. (fst rj, EM rj)) ?sent)"
  proof (rule map_all_ok)
    fix rj assume rj: "rj \<in> set ?sent"
    have "and_then (getEdge i g) (\<lambda>e. and_then (pack_edge light e g) (\<lambda>m. Inr (r, m))) =
        and_then (and_then (getEdge i g) (\<lambda>e. pack_edge light e g)) (\<lambda>m. Inr (r, m))" for i r
      by (cases "getEdge i g") simp_all
    with EM [OF rj] show "(\<lambda>(r, i). and_then (getEdge i g) (\<lambda>e. and_then (pack_edge light e g) (\<lambda>m. Inr (r, m)))) rj = Inr (fst rj, EM rj)"
      by (simp add: split_beta)
  qed
  let ?X = "\<lparr>ex_nodes = map snd ?rps, ex_node_map = push_pairs (map (\<lambda>x. (snd x, NM x)) ?ex),
             ex_edge_map = push_pairs (map (\<lambda>rj. (fst rj, EM rj)) ?sent)\<rparr>"
  have run: "build_exports light part g = Inr ?X"
    using ids nodes edges
    by (simp add: build_exports_def exported_nodes_eq [OF assms(1)] edge_ids_to_export_def node_export_map_def edge_export_map_def
        split_beta comp_def)
  have "np_triple ` set (um_get [] r (ex_node_map ?X)) = {x \<in> held g. (fst x, r) \<in> set ?ex}" for r
  proof -
    have n1: "x \<in> np_triple ` set (um_get [] r (ex_node_map ?X)) \<longleftrightarrow> (\<exists>i. (i, r) \<in> set ?ex \<and> x = np_triple (NM (i, r)))" for x
      by (force simp: set_push_map)
    have n2: "x = np_triple (NM (i, r)) \<longleftrightarrow> x \<in> held g \<and> fst x = i" if mem: "(i, r) \<in> set ?ex" for x i
    proof -
      have "np_triple (NM (i, r)) \<in> held g" "fst (np_triple (NM (i, r))) = i" using NM [OF mem] by (auto simp: np_triple_def)
      moreover obtain n :: "'d gnode" where "\<forall>d w. (i, d, w) \<in> held g \<longleftrightarrow> d = dn_data n \<and> w = dn_weight n"
        using held_ptr [OF assms(1) known(2) [OF mem]] by blast
      ultimately show ?thesis by (cases x; cases "np_triple (NM (i, r))") auto
    qed
    have "x \<in> np_triple ` set (um_get [] r (ex_node_map ?X)) \<longleftrightarrow> x \<in> held g \<and> (fst x, r) \<in> set ?ex" for x
      unfolding n1 using n2 [of _ x] by metis
    then show ?thesis by (simp only: set_eq_iff mem_Collect_eq simp_thms)
  qed
  moreover have "msg_view ` set (um_get [] r (ex_edge_map ?X)) =
      {(j, s, l, t). (j, s, l, t) \<in> view_edges g \<and> ((s, r) \<in> set ?ex \<or> (t, r) \<in> set ?ex)}" for r
  proof -
    have v1: "v \<in> msg_view ` set (um_get [] r (ex_edge_map ?X)) \<longleftrightarrow> (\<exists>j. (r, j) \<in> set ?sent \<and> v = msg_view (EM (r, j)))" for v
      by (force simp: set_push_map)
    have v2: "v = msg_view (EM (r, j)) \<longleftrightarrow> v \<in> view_edges g \<and> fst v = j" if "(r, j) \<in> set ?sent" for v j
    proof -
      have e: "msg_view (EM (r, j)) \<in> view_edges g" "fst (msg_view (EM (r, j))) = j"
        using EM [OF that] by (auto simp: msg_view_def)
      show ?thesis
      proof
        assume v: "v \<in> view_edges g \<and> fst v = j"
        then obtain s l t where "v = (j, s, l, t)" by (cases v) auto
        with view [of j s l t "msg_view (EM (r, j))"] v e show "v = msg_view (EM (r, j))" by simp
      qed (use e in simp)
    qed
    have v3: "v \<in> msg_view ` set (um_get [] r (ex_edge_map ?X)) \<longleftrightarrow> v \<in> view_edges g \<and> (r, fst v) \<in> set ?sent" for v
    proof
      assume "v \<in> msg_view ` set (um_get [] r (ex_edge_map ?X))"
      then obtain j where "(r, j) \<in> set ?sent" "v = msg_view (EM (r, j))" unfolding v1 by (elim exE conjE)
      with v2 [of j v] show "v \<in> view_edges g \<and> (r, fst v) \<in> set ?sent" by simp
    next
      assume "v \<in> view_edges g \<and> (r, fst v) \<in> set ?sent"
      with v2 [of "fst v" v] show "v \<in> msg_view ` set (um_get [] r (ex_edge_map ?X))" unfolding v1 by (intro exI [of _ "fst v"]) simp
    qed
    have v4: "(r, j) \<in> set ?sent \<longleftrightarrow> (s, r) \<in> set ?ex \<or> (t, r) \<in> set ?ex" if v: "(j, s, l, t) \<in> view_edges g" for j s l t
    proof -
      have "(j, s', l', t') \<in> view_edges g \<longleftrightarrow> s' = s \<and> l' = l \<and> t' = t" for s' l' t'
        using view [OF v, of "(j, s', l', t')"] v by auto
      then show ?thesis unfolding sent by auto
    qed
    have "(j, s, l, t) \<in> msg_view ` set (um_get [] r (ex_edge_map ?X)) \<longleftrightarrow>
        (j, s, l, t) \<in> view_edges g \<and> ((s, r) \<in> set ?ex \<or> (t, r) \<in> set ?ex)" for j s l t
      unfolding v3 fst_conv by (rule conj_cong [OF refl v4])
    then show ?thesis by (simp only: set_eq_iff mem_Collect_eq split_paired_All prod.case simp_thms)
  qed
  ultimately have "exports_of part g ?X" by (simp add: exports_of_def split_beta comp_def)
  with run show ?thesis by blast
qed

end
