(* ===== verification/Distribution_Imports.thy ===== *)
theory Distribution_Imports
  imports Distribution_Exports
begin

text \<open>
  What a process makes of the nodes and edges it receives: unpacking puts new objects on its heap, and the imports
  add the received nodes to those it holds and the received edges to its graph.
\<close>

section \<open>Unpacking\<close>

definition extended :: "('d, 'l) dgraph \<Rightarrow> ('d, 'l) dgraph \<Rightarrow> bool" where
  "extended g g' \<longleftrightarrow>
     g' = g\<lparr>heap_n := heap_n g', heap_e := heap_e g', next_ptr := next_ptr g'\<rparr> \<and> next_ptr g \<le> next_ptr g' \<and>
     (\<forall>p<next_ptr g. heap_n g' p = heap_n g p \<and> heap_e g' p = heap_e g p) \<and> wf_heap g'"

lemma extended_simps:
  assumes "extended g g'"
  shows "g_nodes g' = g_nodes g" "g_edges g' = g_edges g" "g_rank g' = g_rank g" "g_loc g' = g_loc g"
    "sync_linker g' = sync_linker g" "next_ptr g \<le> next_ptr g'" "wf_heap g'"
    "p < next_ptr g \<Longrightarrow> heap_n g' p = heap_n g p" "p < next_ptr g \<Longrightarrow> heap_e g' p = heap_e g p"
proof -
  from assms have g': "g' = g\<lparr>heap_n := heap_n g', heap_e := heap_e g', next_ptr := next_ptr g'\<rparr>" by (simp add: extended_def)
  show "g_nodes g' = g_nodes g" "g_edges g' = g_edges g" "g_rank g' = g_rank g" "g_loc g' = g_loc g" "sync_linker g' = sync_linker g"
    by (subst g', simp)+
qed (use assms in \<open>simp_all add: extended_def\<close>)

lemma extended_refl: "wf_graph g \<Longrightarrow> extended g g"
  by (simp add: extended_def wf_graphD(5))

lemma extended_trans: "extended g g' \<Longrightarrow> extended g' g'' \<Longrightarrow> extended g g''"
  by (cases g; cases g'; cases g'') (auto simp: extended_def)

lemma old_ptrs:
  assumes "wf_graph g"
  shows "p \<in> nptrs g \<Longrightarrow> p < next_ptr g" "e \<in> eptrs g \<Longrightarrow> e < next_ptr g"
proof -
  note wf = wf_graphD [OF assms]
  show "p < next_ptr g" if "p \<in> nptrs g"
    using wf_node [OF wf(1) that] wf(5) by (metis not_le option.distinct(1) wf_heap_def)
  show "e < next_ptr g" if "e \<in> eptrs g"
    using wf_edge [OF wf(1) that] wf(5) by (metis not_le option.distinct(1) wf_heap_def)
qed

lemma extended_wf:
  assumes "wf_graph g" "extended g g'"
  shows "wf_graph g'" "view_edges g' = view_edges g" "nodes_in LOCAL g' = nodes_in LOCAL g" "held g' = held g"
proof -
  note ext = extended_simps [OF assms(2)]
  have nodes: "heap_n g' p = heap_n g p" if "p \<in> nptrs g" for p using old_ptrs(1) [OF assms(1) that] ext(8) by blast
  have edges: "heap_e g' e = heap_e g e" if "e \<in> eptrs g" for e using old_ptrs(2) [OF assms(1) that] ext(9) by blast
  have local: "end_local p g' \<longleftrightarrow> end_local p g" if "p \<in> nptrs g" for p using nodes [OF that] by (simp add: end_local_def)
  have state: "wf_state g'"
    unfolding wf_state_def ext(2)
  proof (intro ballI allI impI)
    fix e ed assume e: "e \<in> eptrs g" "heap_e g' e = Some ed" "de_state ed = LOCAL"
    with edges have ed: "heap_e g e = Some ed" by simp
    obtain fd where "heap_e g e = Some fd" "de_src fd \<in> nptrs g" "de_tgt fd \<in> nptrs g"
      by (rule wf_edge [OF wf_graphD(1) [OF assms(1)] e(1)])
    with ed have "de_src ed \<in> nptrs g" "de_tgt ed \<in> nptrs g" by simp_all
    with wf_graphD(4) [OF assms(1)] e(1,3) ed show "end_local (de_src ed) g' \<and> end_local (de_tgt ed) g'"
      unfolding wf_state_def by (simp only: local)
  qed
  note same = wf_graph_edges [OF assms(1) nodes _ ext(1,2,4) state ext(7)]
  show "wf_graph g'" "view_edges g' = view_edges g" "nodes_in LOCAL g' = nodes_in LOCAL g"
    by (rule same; simp add: edges)+
  then show "held g' = held g" by (intro held_cong) (use nodes in simp_all)
qed

lemma alloc_extended:
  assumes "wf_heap g"
  shows "extended g (snd (alloc_n n g))" "extended g (snd (alloc_e ed g))"
  using assms by (auto simp: extended_def alloc_n_def alloc_e_def wf_heap_def)

text \<open>The temporary nodes.\<close>

definition temp_nodes :: "int \<Rightarrow> ptr list \<Rightarrow> 'd node_pack list \<Rightarrow> ('d, 'l) dgraph \<Rightarrow> bool" where
  "temp_nodes junk ps ms g \<longleftrightarrow>
     list_all2 (\<lambda>p m. heap_n g p = Some (unpacked_node junk m) \<and> p \<notin> nptrs g) ps ms \<and> distinct ps"

lemma unpack_nodes_ok:
  assumes "wf_graph g"
  shows "\<exists>ps g'. unpack_nodes junk ms g = (ps, g') \<and> temp_nodes junk ps ms g' \<and> extended g g' \<and>
           (\<forall>p\<in>set ps. next_ptr g \<le> p \<and> p < next_ptr g')"
  using assms
proof (induction ms arbitrary: g)
  case Nil
  then show ?case by (simp add: temp_nodes_def extended_refl)
next
  case (Cons m ms)
  let ?g1 = "snd (alloc_n (unpacked_node junk m) g)"
  have g1: "extended g ?g1" by (rule alloc_extended(1) [OF wf_graphD(5) [OF Cons.prems]])
  have new: "heap_n ?g1 (next_ptr g) = Some (unpacked_node junk m)" "next_ptr ?g1 = Suc (next_ptr g)" by (simp_all add: alloc_n_def)
  obtain ps g' where g': "unpack_nodes junk ms ?g1 = (ps, g')" "temp_nodes junk ps ms g'" "extended ?g1 g'"
    "\<forall>p\<in>set ps. next_ptr ?g1 \<le> p \<and> p < next_ptr g'"
    using Cons.IH [OF extended_wf(1) [OF Cons.prems g1]] by blast
  have ext: "extended g g'" by (rule extended_trans [OF g1 g'(3)])
  have p: "heap_n g' (next_ptr g) = Some (unpacked_node junk m)"
    using extended_simps(8) [OF g'(3), of "next_ptr g"] new by simp
  have "next_ptr g \<notin> nptrs g'" using fresh_ptr(3) [OF Cons.prems] extended_simps(1) [OF ext] by simp
  moreover have "next_ptr g \<notin> set ps" using g'(4) new(2) by auto
  ultimately have "temp_nodes junk (next_ptr g # ps) (m # ms) g'" using g'(2) p by (simp add: temp_nodes_def)
  moreover have "unpack_nodes junk (m # ms) g = (next_ptr g # ps, g')"
    using g'(1) by (simp add: alloc_n_def)
  moreover have "\<forall>p\<in>set (next_ptr g # ps). next_ptr g \<le> p \<and> p < next_ptr g'"
    using g'(4) new(2) extended_simps(6) [OF g'(3)] by auto
  ultimately show ?case using ext by blast
qed

text \<open>The temporary edges, each an edge object and its two ends.\<close>

definition edge_temp :: "('d, 'l) dgraph \<Rightarrow> ptr \<times> ptr \<times> ptr \<Rightarrow> 'd edge_msg \<Rightarrow> bool" where
  "edge_temp g x m \<longleftrightarrow> (\<exists>ed s t. temp_edge (fst x) ed s t g \<and> de_src ed = fst (snd x) \<and> de_tgt ed = snd (snd x) \<and>
     msg_view m = (de_id ed, dn_id s, de_layer ed, dn_id t))"

definition ends_of :: "ptr \<times> ptr \<times> ptr \<Rightarrow> ptr set" where
  "ends_of x = {fst (snd x), snd (snd x)}"

fun apart :: "(ptr \<times> ptr \<times> ptr) list \<Rightarrow> bool" where
  "apart [] = True"
| "apart (x # xs) = ((\<forall>y\<in>set xs. fst x \<noteq> fst y \<and> ends_of x \<inter> ends_of y = {}) \<and> apart xs)"

lemma unpack_edge_ok:
  assumes "wf_graph g"
  defines "n \<equiv> next_ptr g"
  shows "\<exists>g'. unpack_edge junk m g = Inr (n + 2, g') \<and> edge_temp g' (n + 2, n, n + 1) m \<and> extended g g' \<and> next_ptr g' = n + 3"
proof -
  let ?s = "(new_node junk (em_id (em_src m)) (em_data (em_src m)))\<lparr>dn_location := em_location (em_src m)\<rparr>"
  let ?t = "(new_node junk (em_id (em_tgt m)) (em_data (em_tgt m)))\<lparr>dn_location := em_location (em_tgt m)\<rparr>"
  let ?ed = "(new_edge n (n + 1) (em_edge m) (em_layer m))\<lparr>de_weight := em_weight m\<rparr>"
  let ?s' = "?s\<lparr>dn_out := [(em_layer m, [n + 2])]\<rparr>" and ?t' = "?t\<lparr>dn_in := [(em_layer m, [n + 2])]\<rparr>"
  let ?g' = "g\<lparr>heap_n := (heap_n g)(n \<mapsto> ?s', n + 1 \<mapsto> ?t'), next_ptr := n + 3, heap_e := (heap_e g)(n + 2 \<mapsto> ?ed)\<rparr>"
  have run: "unpack_edge junk m g = Inr (n + 2, ?g')"
    by (simp add: unpack_edge_def unpack_end_def alloc_n_def alloc_e_def n_def linkOut_def linkIn_def heap_ops new_edge_def new_node_def
        fun_upd_twist numeral_eq_Suc)
  have out: "p \<notin> nptrs g" "p \<notin> eptrs g" if "n \<le> p" for p
    using old_ptrs [OF assms(1), of p] that by (metis n_def not_le)+
  have "temp_edge (n + 2) ?ed ?s' ?t' ?g'"
    using out [of n] out [of "n + 1"] out [of "n + 2"] by (simp add: temp_edge_def new_edge_def new_node_def del: image_iff)
  then have "edge_temp ?g' (n + 2, n, n + 1) m"
    unfolding edge_temp_def by (intro exI [of _ ?ed] exI [of _ ?s'] exI [of _ ?t']) (simp add: new_edge_def new_node_def msg_view_def)
  moreover have "extended g ?g'"
    using wf_graphD(5) [OF assms(1)] by (auto simp: extended_def wf_heap_def n_def)
  ultimately show ?thesis using run by simp
qed

text \<open>Objects that are not in the graph stay as they are while others are allocated or imported.\<close>

lemma temp_edge_moves:
  assumes "temp_edge e ed s t g" "heap_e g' e = heap_e g e" "heap_n g' (de_src ed) = heap_n g (de_src ed)"
    "heap_n g' (de_tgt ed) = heap_n g (de_tgt ed)" "de_src ed \<notin> nptrs g'" "de_tgt ed \<notin> nptrs g'" "e \<notin> eptrs g'"
  shows "temp_edge e ed s t g'"
  using assms unfolding temp_edge_def by (simp only: not_False_eq_True simp_thms)

lemma edge_temp_extended:
  assumes "edge_temp g x m" "extended g g'" "fst x < next_ptr g" "\<forall>p\<in>ends_of x. p < next_ptr g"
  shows "edge_temp g' x m"
proof -
  note ext = extended_simps [OF assms(2)]
  from assms(1) obtain ed s t where ed: "temp_edge (fst x) ed s t g" "de_src ed = fst (snd x)" "de_tgt ed = snd (snd x)"
    "msg_view m = (de_id ed, dn_id s, de_layer ed, dn_id t)" unfolding edge_temp_def by blast
  have "temp_edge (fst x) ed s t g'"
  proof (rule temp_edge_moves [OF ed(1)])
    show "heap_e g' (fst x) = heap_e g (fst x)" by (rule ext(9) [OF assms(3)])
    show "heap_n g' (de_src ed) = heap_n g (de_src ed)" "heap_n g' (de_tgt ed) = heap_n g (de_tgt ed)"
      using assms(4) ed(2,3) ext(8) by (simp_all add: ends_of_def)
    show "de_src ed \<notin> nptrs g'" "de_tgt ed \<notin> nptrs g'" "fst x \<notin> eptrs g'"
      using ed(1) unfolding ext(1,2) temp_edge_def by blast+
  qed
  with ed(2-4) show ?thesis unfolding edge_temp_def by blast
qed

lemma unpack_edges_ok:
  assumes "wf_graph g"
  shows "\<exists>xs g'. unpack_edges junk ms g = Inr (map fst xs, g') \<and> list_all2 (edge_temp g') xs ms \<and> apart xs \<and> extended g g' \<and>
           (\<forall>x\<in>set xs. next_ptr g \<le> fst x \<and> (\<forall>p\<in>ends_of x. next_ptr g \<le> p))"
  using assms
proof (induction ms arbitrary: g)
  case Nil
  then show ?case by (intro exI [of _ "[]"]) (simp add: extended_refl)
next
  case (Cons m ms)
  let ?n = "next_ptr g" and ?x = "(next_ptr g + 2, next_ptr g, next_ptr g + 1)"
  obtain g1 where g1: "unpack_edge junk m g = Inr (?n + 2, g1)" "edge_temp g1 ?x m" "extended g g1" "next_ptr g1 = ?n + 3"
    using unpack_edge_ok [OF Cons.prems] by blast
  obtain xs g' where g': "unpack_edges junk ms g1 = Inr (map fst xs, g')" "list_all2 (edge_temp g') xs ms" "apart xs"
    "extended g1 g'" "\<forall>x\<in>set xs. next_ptr g1 \<le> fst x \<and> (\<forall>p\<in>ends_of x. next_ptr g1 \<le> p)"
    using Cons.IH [OF extended_wf(1) [OF Cons.prems g1(3)]] by blast
  have "edge_temp g' ?x m" by (rule edge_temp_extended [OF g1(2) g'(4)]) (simp_all add: g1(4) ends_of_def)
  moreover have "apart (?x # xs)"
  proof -
    have "fst ?x \<noteq> fst y \<and> ends_of ?x \<inter> ends_of y = {}" if "y \<in> set xs" for y
      using g'(5) that g1(4) by (fastforce simp: ends_of_def)
    with g'(3) show ?thesis by simp
  qed
  moreover have "\<forall>x\<in>set (?x # xs). ?n \<le> fst x \<and> (\<forall>p\<in>ends_of x. ?n \<le> p)"
    using g'(5) g1(4) by (fastforce simp: ends_of_def)
  moreover have "unpack_edges junk (m # ms) g = Inr (map fst (?x # xs), g')" by (simp add: g1(1) g'(1))
  ultimately show ?case using g'(2) extended_trans [OF g1(3) g'(4)]
    by (intro exI [of _ "?x # xs"] exI [of _ g']) simp
qed

section \<open>The imports\<close>

lemma untouchedD:
  assumes "untouched P E g g'"
  shows "p \<notin> nptrs g \<Longrightarrow> p \<notin> P \<Longrightarrow> p \<notin> nptrs g'" "p \<notin> nptrs g \<Longrightarrow> p \<notin> P \<Longrightarrow> heap_n g' p = heap_n g p"
    "e \<notin> eptrs g \<Longrightarrow> e \<notin> E \<Longrightarrow> e \<notin> eptrs g'" "e \<notin> eptrs g \<Longrightarrow> e \<notin> E \<Longrightarrow> heap_e g' e = heap_e g e"
    "g_rank g' = g_rank g" "managed (g_loc g') = managed (g_loc g)"
  using assms unfolding untouched_def by blast+

definition single_valued :: "('k \<times> 'v) set \<Rightarrow> bool" where
  "single_valued R \<longleftrightarrow> (\<forall>k v w. (k, v) \<in> R \<longrightarrow> (k, w) \<in> R \<longrightarrow> v = w)"

lemma single_valued_mono: "single_valued S \<Longrightarrow> R \<subseteq> S \<Longrightarrow> single_valued R"
  unfolding single_valued_def by (meson subsetD)

definition nodes_received :: "'d node_pack list \<Rightarrow> ('d, 'l) dgraph \<Rightarrow> ('d, 'l) dgraph \<Rightarrow> bool" where
  "nodes_received ms g g' \<longleftrightarrow>
     wf_graph g' \<and> view_nodes g' = np_id ` set ms \<union> view_nodes g \<and> view_edges g' = view_edges g \<and> g_edges g' = g_edges g \<and>
     held g' = np_triple ` set ms \<union> {x \<in> held g. fst x \<notin> np_id ` set ms} \<and>
     um_keys (new_local_nodes (g_loc g')) = np_id ` set ms \<union> um_keys (new_local_nodes (g_loc g)) \<and>
     set (g_nodes g) \<subseteq> set (g_nodes g')"

lemma nodes_receivedD:
  assumes "nodes_received ms g g'"
  shows "wf_graph g'" "view_nodes g' = np_id ` set ms \<union> view_nodes g" "view_edges g' = view_edges g" "g_edges g' = g_edges g"
    "held g' = np_triple ` set ms \<union> {x \<in> held g. fst x \<notin> np_id ` set ms}"
    "um_keys (new_local_nodes (g_loc g')) = np_id ` set ms \<union> um_keys (new_local_nodes (g_loc g))"
    "set (g_nodes g) \<subseteq> set (g_nodes g')"
  using assms unfolding nodes_received_def by - (elim conjE, assumption)+

lemma run_importNode:
  assumes "wf_graph g" "temp_nodes junk ps ms g" "single_valued (np_triple ` set ms)"
  shows "\<exists>g'. run_all importNode ps g = Inr g' \<and> nodes_received ms g g' \<and> untouched (set ps) {} g g'"
  using assms
proof (induction ps arbitrary: ms g)
  case Nil
  then show ?case by (simp add: temp_nodes_def nodes_received_def untouched_refl)
next
  case (Cons p ps)
  then obtain m ms' where ms: "ms = m # ms'" by (cases ms) (auto simp: temp_nodes_def)
  let ?n = "unpacked_node junk m"
  from Cons.prems(2) have p: "heap_n g p = Some ?n" "p \<notin> nptrs g" "p \<notin> set ps" and rest: "temp_nodes junk ps ms' g"
    by (simp_all add: temp_nodes_def ms)
  have n: "dn_id ?n = np_id m" "dn_in ?n = []" "dn_out ?n = []" "(dn_id ?n, dn_data ?n, dn_weight ?n) = np_triple m"
    by (simp_all add: unpacked_node_def new_node_def np_triple_def)
  obtain g1 where g1: "importNode p g = Inr g1" "node_imported p ?n g g1"
    using importNode_imported [OF Cons.prems(1) p(1,2) n(2,3)] by blast
  note imp = g1(2) [unfolded node_imported_def n(4)]
  then have un: "untouched {p} {} g g1" by blast
  from imp have wf1: "wf_graph g1" by blast
  have rest1: "temp_nodes junk ps ms' g1"
  proof -
    have "heap_n g1 q = heap_n g q \<and> q \<notin> nptrs g1" if "q \<in> set ps" "q \<notin> nptrs g" for q
    proof -
      from that p(3) have "q \<notin> {p}" by auto
      with untouchedD(1,2) [OF un that(2)] show ?thesis by blast
    qed
    moreover have "list_all2 (\<lambda>p m. heap_n g p = Some (unpacked_node junk m) \<and> p \<notin> nptrs g) ps ms'"
      using rest by (simp add: temp_nodes_def)
    ultimately have "list_all2 (\<lambda>p m. heap_n g1 p = Some (unpacked_node junk m) \<and> p \<notin> nptrs g1) ps ms'"
      by (elim list.rel_mono_strong) (simp del: image_iff)
    with rest show ?thesis by (simp add: temp_nodes_def)
  qed
  have single: "single_valued (np_triple ` set ms')" using Cons.prems(3) by (auto simp: single_valued_def ms)
  obtain g' where g': "run_all importNode ps g1 = Inr g'" "nodes_received ms' g1 g'" "untouched (set ps) {} g1 g'"
    using Cons.IH [OF wf1 rest1 single] by blast
  note rec = g'(2) [unfolded nodes_received_def]
  have "held g' = np_triple ` set ms \<union> {x \<in> held g. fst x \<notin> np_id ` set ms}"
  proof -
    have "np_triple m \<in> np_triple ` set ms'" if mem: "np_id m \<in> np_id ` set ms'"
    proof -
      from mem obtain m' where m': "np_id m = np_id m'" "m' \<in> set ms'" by (rule imageE)
      have "(np_id m, np_data m, np_weight m) \<in> np_triple ` set ms" "(np_id m, np_data m', np_weight m') \<in> np_triple ` set ms"
        using m' by (auto simp: ms np_triple_def)
      with Cons.prems(3) have "(np_data m, np_weight m) = (np_data m', np_weight m')" unfolding single_valued_def by blast
      with m' show ?thesis by (auto simp: np_triple_def)
    qed
    moreover have "held g' = np_triple ` set ms' \<union> {x \<in> held g1. fst x \<notin> np_id ` set ms'}" using rec by blast
    moreover have "held g1 = insert (np_triple m) {x \<in> held g. fst x \<noteq> np_id m}" using imp n(1) by simp
    moreover have "fst (np_triple m) = np_id m" by (simp add: np_triple_def)
    ultimately show ?thesis by (auto simp: ms)
  qed
  moreover have "set (g_nodes g) \<subseteq> set (g_nodes g')" using rec imp by (meson subset_trans)
  ultimately have "nodes_received ms g g'" using rec imp n(1) by (simp add: nodes_received_def ms)
  moreover have "untouched (set (p # ps)) {} g g'" using untouched_trans [OF un g'(3)] by simp
  ultimately show ?case using g1(1) g'(1) by auto
qed

definition msg_ends :: "'d edge_msg \<Rightarrow> dist_id set" where
  "msg_ends m = {em_id (em_src m), em_id (em_tgt m)}"

definition edges_received :: "'d edge_msg list \<Rightarrow> ('d, 'l) dgraph \<Rightarrow> ('d, 'l) dgraph \<Rightarrow> bool" where
  "edges_received ms g g' \<longleftrightarrow>
     wf_graph g' \<and> view_nodes g' = (\<Union>m\<in>set ms. msg_ends m) \<union> view_nodes g \<and>
     view_edges g' = msg_view ` set ms \<union> view_edges g \<and> held g' = held g \<and> nodes_in LOCAL g' = nodes_in LOCAL g \<and>
     new_local_nodes (g_loc g') = new_local_nodes (g_loc g) \<and> set (g_nodes g) \<subseteq> set (g_nodes g')"

lemma edges_receivedD:
  assumes "edges_received ms g g'"
  shows "wf_graph g'" "view_nodes g' = (\<Union>m\<in>set ms. msg_ends m) \<union> view_nodes g"
    "view_edges g' = msg_view ` set ms \<union> view_edges g" "held g' = held g"
    "new_local_nodes (g_loc g') = new_local_nodes (g_loc g)" "set (g_nodes g) \<subseteq> set (g_nodes g')"
  using assms unfolding edges_received_def by - (elim conjE, assumption)+

lemma key_view:
  assumes "wf_graph g" "j \<in> um_keys (g_edges g)"
  shows "\<exists>v. (j, v) \<in> view_edges g"
proof -
  from assms(2) obtain e where e: "(j, e) \<in> set (g_edges g)" by force
  then have E: "e \<in> eptrs g" by force
  obtain ed s t where "heap_e g e = Some ed" "heap_n g (de_src ed) = Some s" "heap_n g (de_tgt ed) = Some t"
    by (rule edge_ends [OF assms(1) E])
  then have "edge_view g e = Some (dn_id s, de_layer ed, dn_id t)" by (simp add: edge_view_def)
  with e show ?thesis unfolding view_edges_def by blast
qed

lemma importEdge_received:
  assumes "wf_graph g" "edge_temp g x m" "single_valued (insert (msg_view m) (view_edges g))"
  shows "\<exists>g'. importEdge (fst x) g = Inr g' \<and> edges_received [m] g g' \<and> untouched (ends_of x) {fst x} g g'"
proof -
  from assms(2) obtain ed s t where ed: "temp_edge (fst x) ed s t g" "de_src ed = fst (snd x)" "de_tgt ed = snd (snd x)"
    "msg_view m = (de_id ed, dn_id s, de_layer ed, dn_id t)" unfolding edge_temp_def by blast
  from ed(4) have ends: "msg_ends m = {dn_id s, dn_id t}" by (simp add: msg_view_def msg_ends_def)
  obtain g' where g': "importEdge (fst x) g = Inr g'" "edge_imported (fst x) ed s t g g'"
    using importEdge_imported [OF assms(1) ed(1)] by blast
  note imp = g'(2) [unfolded edge_imported_def ed(2,3)]
  have "view_nodes g' = msg_ends m \<union> view_nodes g \<and> view_edges g' = insert (msg_view m) (view_edges g)"
  proof (cases "de_id ed \<in> um_keys (g_edges g)")
    case True
    obtain v where "(de_id ed, v) \<in> view_edges g" using key_view [OF assms(1) True] by blast
    with assms(3) ed(4) have known: "msg_view m \<in> view_edges g" unfolding single_valued_def by (metis insertCI)
    with ed(4) view_ends [OF assms(1), of "de_id ed" "dn_id s" "de_layer ed" "dn_id t"]
    have "msg_ends m \<subseteq> view_nodes g" by (simp add: ends)
    with known True imp show ?thesis by (simp add: insert_absorb Un_absorb1)
  next
    case False
    with imp show ?thesis by (simp add: ends ed(4))
  qed
  with imp have "edges_received [m] g g'" by (simp add: edges_received_def)
  moreover have "untouched (ends_of x) {fst x} g g'" using imp by (simp add: ends_of_def)
  ultimately show ?thesis using g'(1) by blast
qed

lemma edge_temp_untouched:
  assumes "edge_temp g y m" "untouched P E g g'" "fst y \<notin> E" "P \<inter> ends_of y = {}"
  shows "edge_temp g' y m"
proof -
  from assms(1) obtain ed s t where ed: "temp_edge (fst y) ed s t g" "de_src ed = fst (snd y)" "de_tgt ed = snd (snd y)"
    "msg_view m = (de_id ed, dn_id s, de_layer ed, dn_id t)" unfolding edge_temp_def by blast
  have out: "de_src ed \<notin> nptrs g" "de_tgt ed \<notin> nptrs g" "fst y \<notin> eptrs g" using ed(1) unfolding temp_edge_def by blast+
  have other: "de_src ed \<notin> P" "de_tgt ed \<notin> P" using assms(4) unfolding ed(2,3) ends_of_def by blast+
  note un = untouchedD [OF assms(2)]
  have "temp_edge (fst y) ed s t g'"
    by (rule temp_edge_moves [OF ed(1)]) (use out other assms(3) un in blast)+
  with ed(2-4) show ?thesis unfolding edge_temp_def by blast
qed

lemma run_importEdge:
  assumes "wf_graph g" "list_all2 (edge_temp g) xs ms" "apart xs" "single_valued (msg_view ` set ms \<union> view_edges g)"
  shows "\<exists>g'. run_all importEdge (map fst xs) g = Inr g' \<and> edges_received ms g g' \<and>
           untouched (\<Union>x\<in>set xs. ends_of x) (fst ` set xs) g g'"
  using assms
proof (induction xs arbitrary: ms g)
  case Nil
  then show ?case by (simp add: edges_received_def untouched_refl)
next
  case (Cons x xs)
  then obtain m ms' where ms: "ms = m # ms'" by (cases ms) auto
  from Cons.prems(2,3) have x: "edge_temp g x m" and rest: "list_all2 (edge_temp g) xs ms'" and ap: "apart xs"
    "\<And>y. y \<in> set xs \<Longrightarrow> fst x \<noteq> fst y \<and> ends_of x \<inter> ends_of y = {}" by (simp_all add: ms)
  have one: "single_valued (insert (msg_view m) (view_edges g))"
    by (rule single_valued_mono [OF Cons.prems(4)]) (simp add: ms subset_insertI2)
  obtain g1 where g1: "importEdge (fst x) g = Inr g1" "edges_received [m] g g1" "untouched (ends_of x) {fst x} g g1"
    using importEdge_received [OF Cons.prems(1) x one] by blast
  note imp = g1(2) [unfolded edges_received_def]
  from imp have wf1: "wf_graph g1" by blast
  have rest1: "list_all2 (edge_temp g1) xs ms'"
    using rest
  proof (rule list.rel_mono_strong)
    fix y n assume y: "y \<in> set xs" "edge_temp g y n"
    from ap(2) [OF y(1)] have "fst y \<notin> {fst x}" "ends_of x \<inter> ends_of y = {}" by auto
    then show "edge_temp g1 y n" by (rule edge_temp_untouched [OF y(2) g1(3)])
  qed
  have single: "single_valued (msg_view ` set ms' \<union> view_edges g1)"
  proof -
    have "msg_view ` set ms' \<union> view_edges g1 = msg_view ` set ms \<union> view_edges g" using imp by (auto simp: ms)
    with Cons.prems(4) show ?thesis by (simp only:)
  qed
  obtain g' where g': "run_all importEdge (map fst xs) g1 = Inr g'" "edges_received ms' g1 g'"
    "untouched (\<Union>x\<in>set xs. ends_of x) (fst ` set xs) g1 g'"
    using Cons.IH [OF wf1 rest1 ap(1) single] by blast
  have "edges_received ms g g'" using g'(2) imp by (auto simp: edges_received_def ms)
  moreover have "untouched (\<Union>y\<in>set (x # xs). ends_of y) (fst ` set (x # xs)) g g'"
    using untouched_trans [OF g1(3) g'(3)] by simp
  ultimately show ?case using g1(1) g'(1) by auto
qed

definition nodes_left :: "dist_id set \<Rightarrow> ('d, 'l) dgraph \<Rightarrow> ('d, 'l) dgraph \<Rightarrow> bool" where
  "nodes_left I g g' \<longleftrightarrow>
     wf_graph g' \<and> g_nodes g' = g_nodes g \<and> view_edges g' = view_edges g \<and> held g' = {x \<in> held g. fst x \<notin> I} \<and>
     new_local_nodes (g_loc g') = new_local_nodes (g_loc g) \<and> nodes_in LOCAL g' = {x \<in> nodes_in LOCAL g. fst x \<notin> I} \<and>
     untouched {} {} g g'"

lemma nodes_leftD:
  assumes "nodes_left I g g'"
  shows "wf_graph g'" "g_nodes g' = g_nodes g" "view_edges g' = view_edges g" "held g' = {x \<in> held g. fst x \<notin> I}"
    "new_local_nodes (g_loc g') = new_local_nodes (g_loc g)" "untouched {} {} g g'"
  using assms unfolding nodes_left_def by - (elim conjE, assumption)+

lemma run_setDistant:
  assumes "wf_graph g" "set ips \<subseteq> set (g_nodes g)"
  shows "\<exists>g'. run_all setDistant (map snd ips) g = Inr g' \<and> nodes_left (fst ` set ips) g g'"
  using assms
proof (induction ips arbitrary: g)
  case Nil
  then show ?case by (simp add: nodes_left_def untouched_refl)
next
  case (Cons ip ips)
  obtain i p where ip: "ip = (i, p)" by (cases ip)
  with Cons.prems(2) have node: "(i, p) \<in> set (g_nodes g)" by simp
  obtain g1 where g1: "setDistant p g = Inr g1" "node_left i g g1" using setDistant_left [OF Cons.prems(1) node] by blast
  note left = g1(2) [unfolded node_left_def]
  then obtain g' where g': "run_all setDistant (map snd ips) g1 = Inr g'" "nodes_left (fst ` set ips) g1 g'"
    using Cons.IH [of g1] Cons.prems(2) by auto
  have "untouched {} {} g g'" using untouched_trans [of "{}" "{}" g g1 "{}" "{}" g'] left g'(2) by (simp add: nodes_left_def)
  then have "nodes_left (fst ` set (ip # ips)) g g'"
    using left g'(2) by (auto simp: nodes_left_def ip)
  with g1(1) g'(1) show ?case by (auto simp: ip)
qed

section \<open>All the imports of a process\<close>

definition relayed :: "'d node_pack list \<Rightarrow> 'd edge_msg list \<Rightarrow> dist_id set \<Rightarrow> ('d, 'l) dgraph \<Rightarrow> ('d, 'l) dgraph \<Rightarrow> bool" where
  "relayed nm em I g g' \<longleftrightarrow>
     wf_graph g' \<and> view_nodes g' = np_id ` set nm \<union> (\<Union>m\<in>set em. msg_ends m) \<union> view_nodes g \<and>
     view_edges g' = msg_view ` set em \<union> view_edges g \<and>
     held g' = {x. (x \<in> np_triple ` set nm \<or> x \<in> held g \<and> fst x \<notin> np_id ` set nm) \<and> fst x \<notin> I} \<and>
     um_keys (new_local_nodes (g_loc g')) = np_id ` set nm \<union> um_keys (new_local_nodes (g_loc g)) \<and>
     set (g_nodes g) \<subseteq> set (g_nodes g') \<and> g_rank g' = g_rank g \<and> managed (g_loc g') = managed (g_loc g)"

lemma relayedD:
  assumes "relayed nm em I g g'"
  shows "wf_graph g'" "view_nodes g' = np_id ` set nm \<union> (\<Union>m\<in>set em. msg_ends m) \<union> view_nodes g"
    "view_edges g' = msg_view ` set em \<union> view_edges g"
    "held g' = {x. (x \<in> np_triple ` set nm \<or> x \<in> held g \<and> fst x \<notin> np_id ` set nm) \<and> fst x \<notin> I}"
    "um_keys (new_local_nodes (g_loc g')) = np_id ` set nm \<union> um_keys (new_local_nodes (g_loc g))"
    "set (g_nodes g) \<subseteq> set (g_nodes g')" "g_rank g' = g_rank g" "managed (g_loc g') = managed (g_loc g)"
  using assms unfolding relayed_def by - (elim conjE, assumption)+

lemma edge_temps_untouched:
  assumes "list_all2 (edge_temp g) xs ms" "\<And>x. x \<in> set xs \<Longrightarrow> P \<inter> ends_of x = {}" "untouched P {} g g'"
  shows "list_all2 (edge_temp g') xs ms"
  using assms(1)
proof (rule list.rel_mono_strong)
  fix x m assume x: "x \<in> set xs" "edge_temp g x m"
  show "edge_temp g' x m" by (rule edge_temp_untouched [OF x(2) assms(3) _ assms(2) [OF x(1)]]) simp
qed

lemma temp_nodes_extended:
  assumes "temp_nodes junk ps ms g" "extended g g'" "\<forall>p\<in>set ps. p < next_ptr g"
  shows "temp_nodes junk ps ms g'"
  using assms(1) unfolding temp_nodes_def extended_simps(1) [OF assms(2)]
proof (elim conjE, intro conjI)
  assume "list_all2 (\<lambda>p m. heap_n g p = Some (unpacked_node junk m) \<and> p \<notin> nptrs g) ps ms"
  then show "list_all2 (\<lambda>p m. heap_n g' p = Some (unpacked_node junk m) \<and> p \<notin> nptrs g) ps ms"
    by (rule list.rel_mono_strong) (use assms(3) in \<open>simp add: extended_simps(8) [OF assms(2)] del: image_iff\<close>)
qed

lemma import_all_relayed:
  fixes g :: "('d, 'l) dgraph"
  assumes "wf_graph g" "set ips \<subseteq> set (g_nodes g)"
    and "single_valued (np_triple ` set (map snd (received node_import)))"
    and "single_valued (msg_view ` set (map snd (received edge_import)) \<union> view_edges g)"
  shows "\<exists>g'. import_all junk node_import edge_import (map snd ips) g = Inr g' \<and>
           relayed (map snd (received node_import)) (map snd (received edge_import)) (fst ` set ips) g g'"
proof -
  let ?nm = "map snd (received node_import)" and ?em = "map snd (received edge_import)"
  obtain ps and g1 :: "('d, 'l) dgraph" where g1: "unpack_nodes junk ?nm g = (ps, g1)" "temp_nodes junk ps ?nm g1" "extended g g1"
    "\<forall>p\<in>set ps. next_ptr g \<le> p \<and> p < next_ptr g1"
    using unpack_nodes_ok [OF assms(1)] by blast
  note wf1 = extended_wf [OF assms(1) g1(3)]
  obtain xs and g2 :: "('d, 'l) dgraph" where g2: "unpack_edges junk ?em g1 = Inr (map fst xs, g2)" "list_all2 (edge_temp g2) xs ?em" "apart xs"
    "extended g1 g2" "\<forall>x\<in>set xs. next_ptr g1 \<le> fst x \<and> (\<forall>p\<in>ends_of x. next_ptr g1 \<le> p)"
    using unpack_edges_ok [OF wf1(1)] by blast
  note wf2 = extended_wf [OF wf1(1) g2(4)]
  note ext1 = extended_simps [OF g1(3)] and ext2 = extended_simps [OF g2(4)]
  have temp2: "temp_nodes junk ps ?nm g2"
    by (rule temp_nodes_extended [OF g1(2) g2(4)]) (use g1(4) in blast)
  obtain g3 :: "('d, 'l) dgraph" where g3: "run_all importNode ps g2 = Inr g3" "nodes_received ?nm g2 g3" "untouched (set ps) {} g2 g3"
    using run_importNode [OF wf2(1) temp2 assms(3)] by blast
  note nodes = nodes_receivedD [OF g3(2)]
  have apart: "set ps \<inter> ends_of x = {}" if "x \<in> set xs" for x
  proof -
    have "q < next_ptr g1" if "q \<in> set ps" for q using g1(4) that by blast
    moreover have "next_ptr g1 \<le> q" if "q \<in> ends_of x" for q using g2(5) \<open>x \<in> set xs\<close> that by blast
    ultimately show ?thesis by (meson disjoint_iff not_le)
  qed
  have temp3: "list_all2 (edge_temp g3) xs ?em" by (rule edge_temps_untouched [OF g2(2) apart g3(3)])
  have views: "view_edges g3 = view_edges g" by (simp only: nodes(3) wf1(2) wf2(2))
  have single: "single_valued (msg_view ` set ?em \<union> view_edges g3)" unfolding views by (rule assms(4))
  obtain g4 :: "('d, 'l) dgraph" where g4: "run_all importEdge (map fst xs) g3 = Inr g4" "edges_received ?em g3 g4"
    "untouched (\<Union>x\<in>set xs. ends_of x) (fst ` set xs) g3 g4"
    using run_importEdge [OF nodes(1) temp3 g2(3) single] by blast
  note edges = edges_receivedD [OF g4(2)]
  have sub: "set (g_nodes g) \<subseteq> set (g_nodes g4)"
    by (rule subset_trans [OF _ edges(6)], rule subset_trans [OF _ nodes(7)]) (simp only: ext1(1) ext2(1) subset_refl)
  obtain g' :: "('d, 'l) dgraph" where g': "run_all setDistant (map snd ips) g4 = Inr g'" "nodes_left (fst ` set ips) g4 g'"
    using run_setDistant [OF edges(1) subset_trans [OF assms(2) sub]] by blast
  note left = nodes_leftD [OF g'(2)]
  have run: "import_all junk node_import edge_import (map snd ips) g = Inr g'"
    by (simp add: import_all_def g1(1) g2(1) g3(1) g4(1) g'(1))
  have "relayed ?nm ?em (fst ` set ips) g g'"
    unfolding relayed_def
  proof (intro conjI)
    show "wf_graph g'" by (rule left(1))
    show "view_nodes g' = np_id ` set ?nm \<union> (\<Union>m\<in>set ?em. msg_ends m) \<union> view_nodes g"
      unfolding left(2) edges(2) nodes(2) ext1(1) ext2(1) by (simp only: Un_ac)
    show "view_edges g' = msg_view ` set ?em \<union> view_edges g" unfolding left(3) edges(3) views by (rule refl)
    have "held g4 = np_triple ` set ?nm \<union> {x \<in> held g. fst x \<notin> np_id ` set ?nm}"
      unfolding edges(4) nodes(5) wf1(4) wf2(4) by (rule refl)
    then show "held g' = {x. (x \<in> np_triple ` set ?nm \<or> x \<in> held g \<and> fst x \<notin> np_id ` set ?nm) \<and> fst x \<notin> fst ` set ips}"
      unfolding left(4) by (simp only: set_eq_iff Un_iff mem_Collect_eq simp_thms)
    show "um_keys (new_local_nodes (g_loc g')) = np_id ` set ?nm \<union> um_keys (new_local_nodes (g_loc g))"
      unfolding left(5) edges(5) nodes(6) ext1(4) ext2(4) by (rule refl)
    show "set (g_nodes g) \<subseteq> set (g_nodes g')" unfolding left(2) by (rule sub)
    show "g_rank g' = g_rank g"
      using untouchedD(5) [OF left(6)] untouchedD(5) [OF g4(3)] untouchedD(5) [OF g3(3)] ext1(3) ext2(3) by simp
    show "managed (g_loc g') = managed (g_loc g)"
      using untouchedD(6) [OF left(6)] untouchedD(6) [OF g4(3)] untouchedD(6) [OF g3(3)] ext1(4) ext2(4) by simp
  qed
  with run show ?thesis by blast
qed

text \<open>The nodes a process holds are its local nodes.\<close>

lemma ids_in_held:
  assumes "wf_graph g"
  shows "ids_in LOCAL g = fst ` held g"
proof -
  have "i \<in> ids_in LOCAL g \<longleftrightarrow> (\<exists>d w. (i, d, w) \<in> held g)" for i by (auto simp: ids_in_def held_def nodes_in_def image_iff)
  then show ?thesis by (force simp: image_iff)
qed

end
