(* ===== verification/Distribution_Props.thy ===== *)
theory Distribution_Props
  imports Distribution_Imports
begin

text \<open>
  The distribution of a graph over processes: every node moves to the process its holder's partition gives, with its
  data and its edges, and all processes end with the true locations.
\<close>

section \<open>Clearing\<close>

text \<open>What an erasure leaves alone: the rank of the process and what its location manager remembers.\<close>

definition memory :: "('d, 'l) dgraph \<Rightarrow> int \<times> (dist_id \<times> int) list \<times> (dist_id \<times> ptr) list" where
  "memory g = (g_rank g, managed (g_loc g), new_local_nodes (g_loc g))"

lemma memory_erase_edge: "erase_edge e g = Inr g' \<Longrightarrow> memory g' = memory g"
  by (auto simp: memory_def erase_edge_def heap_ops unlinkOut_def unlinkIn_def upd_n_def event_def split: option.splits if_splits)

lemma memory_run:
  assumes "run_all step xs g = Inr g'" "\<And>x g g'. step x g = Inr g' \<Longrightarrow> memory g' = memory g"
  shows "memory g' = memory g"
  by (rule run_all_invariant [where P = "\<lambda>h. memory h = memory g", OF _ refl assms(1)]) (use assms(2) in auto)

lemma memory_forget: "memory (upd_loc (lm_forget st i) g) = memory g"
  by (cases st) (simp_all add: memory_def lm_forget_def)

lemma memory_remove:
  fixes g :: "('d, 'l) dgraph"
  assumes "lm_remove p (g\<lparr>g_nodes := ns\<rparr>) = Inr h" "delete_n p (event ev h) = Inr g'"
  shows "memory g' = memory g"
proof -
  from assms(1) obtain n :: "'d gnode" where "h = upd_loc (lm_forget (dn_state n) (dn_id n)) (g\<lparr>g_nodes := ns\<rparr>)" by (auto simp: lm_remove_def)
  then have "memory h = memory g" by (simp add: memory_forget) (simp add: memory_def)
  moreover from assms(2) have "memory g' = memory h" by (auto simp: delete_n_def memory_def event_def)
  ultimately show ?thesis by simp
qed

lemma memory_erase_node:
  fixes g :: "('d, 'l) dgraph"
  assumes "erase_node p g = Inr g'"
  shows "memory g' = memory g"
proof -
  from assms obtain n m k :: "'d gnode" and g1 g2 h :: "('d, 'l) dgraph" where run: "run_all erase_edge (getIncomingEdges n) g = Inr g1"
    "run_all erase_edge (getOutgoingEdges m) g1 = Inr g2"
    "lm_remove p (g2\<lparr>g_nodes := um_erase (dn_id k) (g_nodes g2)\<rparr>) = Inr h" "delete_n p (event (Erase_Node p) h) = Inr g'"
    unfolding erase_node_def and_then_Inr_iff by (elim exE conjE) (rule that, assumption+)
  show ?thesis
    using memory_run [OF run(1) memory_erase_edge] memory_run [OF run(2) memory_erase_edge] memory_remove [OF run(3,4)] by simp
qed

lemma memory_clear: "clearNode p g = Inr g' \<Longrightarrow> memory g' = memory g"
  using memory_run [OF _ memory_erase_edge] memory_erase_node
  by (auto simp: clearNode_def split: if_splits)

lemma clear_trimmed:
  fixes g :: "('d, 'l) dgraph"
  assumes "wf_graph g" "distinct ps" "set ps \<subseteq> nptrs g" "not_local (set ps) g"
  shows "\<exists>g'. run_all clearNode ps g = Inr g' \<and> trimmed (set ps) g g' \<and> memory g' = memory g"
proof -
  obtain g' :: "('d, 'l) dgraph" where g': "run_all clearNode ps g = Inr g'" "trimmed (set ps) g g'" using clear_all [OF assms] by blast
  have "memory g' = memory g" by (rule memory_run [OF g'(1)]) (rule memory_clear)
  with g' show ?thesis by blast
qed

text \<open>Clearing nodes that are not local keeps what the process holds and every edge with a local end.\<close>

lemma trimmed_held:
  assumes "wf_graph g" "trimmed P g g'" "not_local P g"
  shows "held g' = held g"
proof -
  note trim = trimmedD [OF assms(2)]
  have core: "\<exists>m. heap_n g' q = Some m \<and> dn_state m = dn_state n \<and> dn_data m = dn_data n \<and> dn_weight m = dn_weight n"
    if "q \<in> nptrs g'" "heap_n g q = Some n" for q n
    using trim(5) [OF that(1)] that(2) by (auto simp: node_core_def)
  have "(i, q) \<in> nodes_in LOCAL g' \<longleftrightarrow> (i, q) \<in> nodes_in LOCAL g" for i q
  proof
    assume "(i, q) \<in> nodes_in LOCAL g'"
    then have mem: "(i, q) \<in> set (g_nodes g')" and st: "\<exists>m. heap_n g' q = Some m \<and> dn_state m = LOCAL" by (auto simp: nodes_in_def)
    from mem have old: "(i, q) \<in> set (g_nodes g)" unfolding trim(2) by blast
    obtain n where n: "heap_n g q = Some n" using wf_indexD(3) [OF wf_graphD(1) [OF assms(1)] old] by blast
    from mem have "q \<in> nptrs g'" by force
    from core [OF this n] st n old show "(i, q) \<in> nodes_in LOCAL g" by (auto simp: nodes_in_def)
  next
    assume "(i, q) \<in> nodes_in LOCAL g"
    then obtain n where n: "(i, q) \<in> set (g_nodes g)" "heap_n g q = Some n" "dn_state n = LOCAL" by (auto simp: nodes_in_def)
    then have "q \<notin> P" using assms(3) by (auto simp: not_local_def end_local_def)
    with n(1) have mem: "(i, q) \<in> set (g_nodes g')" unfolding trim(2) by blast
    then have "q \<in> nptrs g'" by force
    from core [OF this n(2)] mem n(3) show "(i, q) \<in> nodes_in LOCAL g'" by (auto simp: nodes_in_def)
  qed
  then have same: "nodes_in LOCAL g' = nodes_in LOCAL g" by auto
  have "(\<exists>n. heap_n g' p = Some n \<and> d = dn_data n \<and> w = dn_weight n) \<longleftrightarrow> (\<exists>n. heap_n g p = Some n \<and> d = dn_data n \<and> w = dn_weight n)"
    if mem: "(i, p) \<in> nodes_in LOCAL g" for i p d w
  proof -
    from mem obtain n where n: "heap_n g p = Some n" by (auto simp: nodes_in_def)
    have "(i, p) \<in> nodes_in LOCAL g'" using mem same by simp
    then have "p \<in> nptrs g'" by (force simp: nodes_in_def)
    from core [OF this n] n show ?thesis by auto
  qed
  then show ?thesis unfolding held_def same by blast
qed

lemma trimmed_views:
  assumes "wf_graph g" "trimmed P g g'" "not_local P g"
  shows "view_nodes g' \<subseteq> view_nodes g" "view_edges g' \<subseteq> view_edges g"
    "(j, s, l, t) \<in> view_edges g \<Longrightarrow> s \<in> ids_in LOCAL g \<or> t \<in> ids_in LOCAL g \<Longrightarrow> (j, s, l, t) \<in> view_edges g'"
proof -
  note trim = trimmedD [OF assms(2)]
  show "view_nodes g' \<subseteq> view_nodes g" unfolding trim(2) by blast
  show "view_edges g' \<subseteq> view_edges g"
  proof
    fix v assume "v \<in> view_edges g'"
    then obtain e where e: "(fst v, e) \<in> set (g_edges g')" "edge_view g' e = Some (snd v)" by (auto simp: view_edges_def)
    then have "e \<in> eptrs g'" by force
    from edge_view_trimmed [OF assms(2) this] e show "v \<in> view_edges g" unfolding trim(3) by (cases v) (auto simp: view_edges_def)
  qed
  assume v: "(j, s, l, t) \<in> view_edges g" and loc: "s \<in> ids_in LOCAL g \<or> t \<in> ids_in LOCAL g"
  then obtain e where e: "(j, e) \<in> set (g_edges g)" "edge_view g e = Some (s, l, t)" by (auto simp: view_edges_def)
  then have E: "e \<in> eptrs g" by force
  obtain ed s' t' where ed: "heap_e g e = Some ed" "edge_view g e = Some (s', de_layer ed, t')"
    "far de_src e g \<longleftrightarrow> s' \<in> ids_in LOCAL g" "far de_tgt e g \<longleftrightarrow> t' \<in> ids_in LOCAL g"
    by (rule edge_data [OF assms(1) E]) blast
  have one: "far de_src e g \<or> far de_tgt e g" using loc ed(2-4) e(2) by auto
  have P: "\<not> end_local p g" if "p \<in> P" for p using assms(3) that unfolding not_local_def by blast
  have "e \<notin> obsolete P g"
  proof
    assume "e \<in> obsolete P g"
    then consider p where "p \<in> P" "e \<in> ends_at de_tgt p g" "\<not> far de_src e g"
      | p where "p \<in> P" "e \<in> ends_at de_src p g" "\<not> far de_tgt e g" unfolding obsolete_def by blast
    then show False
    proof cases
      case 1
      then have "de_tgt ed = p" using ed(1) by (auto simp: ends_at_def)
      with one 1 P ed(1) show False by (auto simp: far_def)
    next
      case 2
      then have "de_src ed = p" using ed(1) by (auto simp: ends_at_def)
      with one 2 P ed(1) show False by (auto simp: far_def)
    qed
  qed
  with e(1) have mem: "(j, e) \<in> set (g_edges g')" unfolding trim(3) by blast
  then have "e \<in> eptrs g'" by force
  from edge_view_trimmed [OF assms(2) this] mem e(2) show "(j, s, l, t) \<in> view_edges g'" by (auto simp: view_edges_def)
qed

section \<open>The invariant\<close>

text \<open>
  The nodes \<open>K\<close> of the whole graph and the process \<open>h i\<close> that holds each of them. The origin of a node knows its
  holder, the holders of the ends of an edge have the edge, and the processes agree on what an edge links.
\<close>

definition all_edges :: "int list \<Rightarrow> (int \<Rightarrow> ('d, 'l) dgraph) \<Rightarrow> (dist_id \<times> dist_id \<times> layer_id \<times> dist_id) set" where
  "all_edges ranks S = (\<Union>p\<in>set ranks. view_edges (S p))"

definition contents :: "int list \<Rightarrow> (int \<Rightarrow> ('d, 'l) dgraph) \<Rightarrow> (dist_id \<times> 'd \<times> rat) set" where
  "contents ranks S = (\<Union>p\<in>set ranks. held (S p))"

definition in_place :: "dist_id set \<Rightarrow> (dist_id \<Rightarrow> int) \<Rightarrow> (dist_id \<times> dist_id \<times> layer_id \<times> dist_id) set \<Rightarrow> int \<Rightarrow> ('d, 'l) dgraph \<Rightarrow> bool" where
  "in_place K h E p g \<longleftrightarrow>
     wf_graph g \<and> g_rank g = p \<and> view_nodes g \<subseteq> K \<and> ids_in LOCAL g = {i \<in> K. h i = p} \<and>
     (\<forall>i\<in>K. i \<in> um_keys (new_local_nodes (g_loc g)) \<longrightarrow> h i = p \<and> id_rank i = p) \<and>
     {(j, s, l, t) \<in> E. h s = p \<or> h t = p} \<subseteq> view_edges g"

definition distributed :: "int list \<Rightarrow> dist_id set \<Rightarrow> (dist_id \<Rightarrow> int) \<Rightarrow> (int \<Rightarrow> ('d, 'l) dgraph) \<Rightarrow> bool" where
  "distributed ranks K h S \<longleftrightarrow>
     distinct ranks \<and> single_valued (all_edges ranks S) \<and>
     (\<forall>i\<in>K. h i \<in> set ranks \<and> id_rank i \<in> set ranks \<and> map_of (managed (g_loc (S (id_rank i)))) i = Some (h i)) \<and>
     (\<forall>p\<in>set ranks. in_place K h (all_edges ranks S) p (S p))"

text \<open>Where the partitions of the holders send the nodes.\<close>

definition moved :: "(int \<Rightarrow> partition) \<Rightarrow> (dist_id \<Rightarrow> int) \<Rightarrow> dist_id \<Rightarrow> int" where
  "moved part h i = um_get (h i) i (part (h i))"

definition valid_parts :: "int list \<Rightarrow> (int \<Rightarrow> partition) \<Rightarrow> (int \<Rightarrow> ('d, 'l) dgraph) \<Rightarrow> bool" where
  "valid_parts ranks part S \<longleftrightarrow>
     (\<forall>p\<in>set ranks. sends_own (part p) (S p) \<and> snd ` set (to_export (part p) (S p)) \<subseteq> set ranks)"

lemma distributedD:
  assumes "distributed ranks K h S"
  shows "distinct ranks" "single_valued (all_edges ranks S)"
    "i \<in> K \<Longrightarrow> h i \<in> set ranks" "i \<in> K \<Longrightarrow> id_rank i \<in> set ranks"
    "i \<in> K \<Longrightarrow> map_of (managed (g_loc (S (id_rank i)))) i = Some (h i)"
    "p \<in> set ranks \<Longrightarrow> in_place K h (all_edges ranks S) p (S p)"
  using assms by (simp_all add: distributed_def)

lemma in_placeD:
  assumes "in_place K h E p g"
  shows "wf_graph g" "g_rank g = p" "view_nodes g \<subseteq> K" "ids_in LOCAL g = {i \<in> K. h i = p}"
    "i \<in> K \<Longrightarrow> i \<in> um_keys (new_local_nodes (g_loc g)) \<Longrightarrow> h i = p \<and> id_rank i = p"
    "(j, s, l, t) \<in> E \<Longrightarrow> h s = p \<or> h t = p \<Longrightarrow> (j, s, l, t) \<in> view_edges g"
  using assms unfolding in_place_def by blast+

lemma holder_held:
  assumes "distributed ranks K h S" "p \<in> set ranks" "(i, x) \<in> held (S p)"
  shows "i \<in> K" "h i = p"
proof -
  note D = in_placeD [OF distributedD(6) [OF assms(1,2)]]
  have "i \<in> ids_in LOCAL (S p)" unfolding ids_in_held [OF D(1)] using assms(3) by force
  then show "i \<in> K" "h i = p" using D(4) by auto
qed

lemma edge_nodes:
  assumes "distributed ranks K h S" "(j, s, l, t) \<in> all_edges ranks S"
  shows "s \<in> K" "t \<in> K"
proof -
  from assms(2) obtain p where p: "p \<in> set ranks" "(j, s, l, t) \<in> view_edges (S p)" by (auto simp: all_edges_def)
  note D = in_placeD [OF distributedD(6) [OF assms(1) p(1)]]
  from view_ends [OF D(1) p(2)] show "s \<in> K" "t \<in> K" using D(3) by auto
qed

text \<open>A process exports the nodes it holds that its partition moves.\<close>

lemma exported_moved:
  assumes "distributed ranks K h S" "valid_parts ranks part S" "p \<in> set ranks"
  shows "(i, r) \<in> set (to_export (part p) (S p)) \<longleftrightarrow> i \<in> K \<and> h i = p \<and> moved part h i = r \<and> r \<noteq> p"
proof -
  note D = in_placeD [OF distributedD(6) [OF assms(1,3)]]
  have own: "distinct (map fst (part p))" "fst ` set (to_export (part p) (S p)) \<subseteq> ids_in LOCAL (S p)"
    using assms(2,3) by (simp_all add: valid_parts_def sends_own_def)
  show ?thesis
  proof
    assume mem: "(i, r) \<in> set (to_export (part p) (S p))"
    then have "i \<in> ids_in LOCAL (S p)" using own(2) by force
    moreover from mem have "(i, r) \<in> set (part p)" "r \<noteq> p" by (simp_all add: in_to_export D(2))
    moreover from this own(1) have "map_of (part p) i = Some r" by simp
    ultimately show "i \<in> K \<and> h i = p \<and> moved part h i = r \<and> r \<noteq> p" by (simp add: D(4) moved_def um_get_def)
  next
    assume i: "i \<in> K \<and> h i = p \<and> moved part h i = r \<and> r \<noteq> p"
    then have "map_of (part p) i = Some r" by (auto simp: moved_def um_get_def split: option.splits)
    moreover have "i \<in> ids_in LOCAL (S p)" using i D(4) by simp
    then have "i \<in> view_nodes (S p)" by (force simp: ids_in_def nodes_in_def)
    ultimately show "(i, r) \<in> set (to_export (part p) (S p))" using i by (simp add: in_to_export D(2) map_of_SomeD)
  qed
qed

section \<open>The exchange\<close>

definition arrived :: "int list \<Rightarrow> dist_id set \<Rightarrow> (dist_id \<Rightarrow> int) \<Rightarrow> (dist_id \<Rightarrow> int) \<Rightarrow> (int \<Rightarrow> ('d, 'l) dgraph) \<Rightarrow> int \<Rightarrow> ('d, 'l) dgraph \<Rightarrow> bool" where
  "arrived ranks K h h' S p g \<longleftrightarrow>
     wf_graph g \<and> g_rank g = p \<and> managed (g_loc g) = managed (g_loc (S p)) \<and> set (g_nodes (S p)) \<subseteq> set (g_nodes g) \<and>
     view_nodes g \<subseteq> K \<and> held g = {x \<in> contents ranks S. h' (fst x) = p} \<and>
     view_edges g \<subseteq> all_edges ranks S \<and> {(j, s, l, t) \<in> all_edges ranks S. h' s = p \<or> h' t = p} \<subseteq> view_edges g \<and>
     um_keys (new_local_nodes (g_loc g)) = {i \<in> K. h' i = p \<and> h i \<noteq> p} \<union> um_keys (new_local_nodes (g_loc (S p)))"

lemma in_contents: "x \<in> contents ranks S \<longleftrightarrow> (\<exists>p\<in>set ranks. x \<in> held (S p))"
  by (simp add: contents_def)

lemma contents_unique:
  assumes "distributed ranks K h S" "(i, x) \<in> contents ranks S" "(i, y) \<in> contents ranks S"
  shows "x = y"
proof -
  from assms(2,3) obtain p q where p: "p \<in> set ranks" "(i, x) \<in> held (S p)" and q: "q \<in> set ranks" "(i, y) \<in> held (S q)"
    by (auto simp: in_contents)
  have "q = p" using holder_held(2) [OF assms(1) p] holder_held(2) [OF assms(1) q] by simp
  with q have y: "(i, y) \<in> held (S p)" by simp
  note wf = in_placeD(1) [OF distributedD(6) [OF assms(1) p(1)]]
  have "i \<in> ids_in LOCAL (S p)" unfolding ids_in_held [OF wf] using p(2) by force
  from held_ptr [OF wf this] p(2) y show ?thesis by (cases x; cases y) auto
qed

lemma import_sets:
  assumes "distributed ranks K h S" "valid_parts ranks part S" "p \<in> set ranks"
    and X: "\<forall>q\<in>set ranks. exports_of (part q) (S q) (X q)"
  shows "np_triple ` set (map snd (received (migrate ranks (\<lambda>q. ex_node_map (X q)) p))) =
      {x \<in> contents ranks S. moved part h (fst x) = p \<and> h (fst x) \<noteq> p}" (is "np_triple ` set ?nm = ?N")
    and "msg_view ` set (map snd (received (migrate ranks (\<lambda>q. ex_edge_map (X q)) p))) =
      {(j, s, l, t) \<in> all_edges ranks S. moved part h s = p \<and> h s \<noteq> p \<or> moved part h t = p \<and> h t \<noteq> p}"
      (is "msg_view ` set ?em = ?E")
proof -
  note out = exported_moved [OF assms(1,2)]
  have nm: "m \<in> set ?nm \<longleftrightarrow> (\<exists>q\<in>set ranks. m \<in> set (um_get [] p (ex_node_map (X q))))" for m
    unfolding set_map in_snd_image set_received_migrate by blast
  have em: "m \<in> set ?em \<longleftrightarrow> (\<exists>q\<in>set ranks. m \<in> set (um_get [] p (ex_edge_map (X q))))" for m
    unfolding set_map in_snd_image set_received_migrate by blast
  note nX = exports_ofD(2) [OF bspec [OF X]] and eX = exports_ofD(3) [OF bspec [OF X]]
  have "np_triple ` set ?nm = (\<Union>q\<in>set ranks. np_triple ` set (um_get [] p (ex_node_map (X q))))"
    using nm by blast
  also have "\<dots> = (\<Union>q\<in>set ranks. {x \<in> held (S q). moved part h (fst x) = p \<and> h (fst x) \<noteq> p})"
  proof (rule SUP_cong [OF refl])
    fix q assume q: "q \<in> set ranks"
    have "fst x \<in> K" "h (fst x) = q" if "x \<in> held (S q)" for x
      using holder_held [OF assms(1) q, of "fst x" "snd x"] that by simp_all
    then show "np_triple ` set (um_get [] p (ex_node_map (X q))) = {x \<in> held (S q). moved part h (fst x) = p \<and> h (fst x) \<noteq> p}"
      unfolding nX [OF q] out [OF q] by auto
  qed
  finally show "np_triple ` set ?nm = ?N" by (auto simp: contents_def)
  have "msg_view ` set ?em = (\<Union>q\<in>set ranks. msg_view ` set (um_get [] p (ex_edge_map (X q))))"
    using em by blast
  also have "\<dots> = ?E"
  proof (intro equalityI subsetI)
    fix v assume "v \<in> (\<Union>q\<in>set ranks. msg_view ` set (um_get [] p (ex_edge_map (X q))))"
    then obtain q where q: "q \<in> set ranks" "v \<in> msg_view ` set (um_get [] p (ex_edge_map (X q)))" by blast
    obtain j s l t where v: "v = (j, s, l, t)" by (cases v) blast
    have e: "(j, s, l, t) \<in> view_edges (S q)" "moved part h s = p \<and> h s = q \<and> p \<noteq> q \<or> moved part h t = p \<and> h t = q \<and> p \<noteq> q"
      using q(2) unfolding eX [OF q(1)] out [OF q(1)] v mem_Collect_eq prod.case by blast+
    from e(1) q(1) have "(j, s, l, t) \<in> all_edges ranks S" unfolding all_edges_def by blast
    with e(2) show "v \<in> ?E" unfolding v mem_Collect_eq prod.case by (elim disjE conjE; simp)
  next
    fix v assume v: "v \<in> ?E"
    obtain j s l t where v1: "v = (j, s, l, t)" by (cases v) blast
    with v have v': "v = (j, s, l, t)" "(j, s, l, t) \<in> all_edges ranks S"
      "moved part h s = p \<and> h s \<noteq> p \<or> moved part h t = p \<and> h t \<noteq> p" unfolding mem_Collect_eq prod.case by blast+
    note K = edge_nodes [OF assms(1) v'(2)]
    from v'(3) obtain i where i: "i = s \<or> i = t" "moved part h i = p" "h i \<noteq> p" by blast
    with K have iK: "i \<in> K" by blast
    note q = distributedD(3) [OF assms(1) iK]
    have "(j, s, l, t) \<in> view_edges (S (h i))" by (rule in_placeD(6) [OF distributedD(6) [OF assms(1) q] v'(2)]) (use i(1) in blast)
    moreover have "(i, p) \<in> set (to_export (part (h i)) (S (h i)))" unfolding out [OF q] using iK i by simp
    ultimately have "v \<in> msg_view ` set (um_get [] p (ex_edge_map (X (h i))))"
      unfolding eX [OF q] v'(1) mem_Collect_eq prod.case using i(1) by blast
    with q show "v \<in> (\<Union>q\<in>set ranks. msg_view ` set (um_get [] p (ex_edge_map (X q))))" by blast
  qed
  finally show "msg_view ` set ?em = ?E" .
qed

text \<open>What a process exports and holds, by the processes the nodes go to.\<close>

lemma in_fst_iff: "(\<exists>r. (i, r) \<in> A) \<longleftrightarrow> i \<in> fst ` A"
  by force

lemma np_ids: "np_id ` A = fst ` np_triple ` A"
  by (simp add: image_image np_triple_def)

lemma contents_nodes:
  assumes "distributed ranks K h S"
  shows "fst ` contents ranks S = K"
proof -
  have "fst ` held (S p) = {i \<in> K. h i = p}" if "p \<in> set ranks" for p
    using in_placeD(1,4) [OF distributedD(6) [OF assms that]] ids_in_held by metis
  then have "fst ` contents ranks S = (\<Union>p\<in>set ranks. {i \<in> K. h i = p})" unfolding contents_def image_UN by (rule SUP_cong [OF refl])
  with distributedD(3) [OF assms] show ?thesis by blast
qed

lemma own_contents:
  assumes "distributed ranks K h S" "p \<in> set ranks"
  shows "held (S p) = {x \<in> contents ranks S. h (fst x) = p}"
proof -
  have "x \<in> held (S p) \<longleftrightarrow> x \<in> contents ranks S \<and> h (fst x) = p" for x
  proof
    assume x: "x \<in> held (S p)"
    with holder_held(2) [OF assms, of "fst x" "snd x"] assms(2) show "x \<in> contents ranks S \<and> h (fst x) = p"
      unfolding in_contents by auto
  next
    assume x: "x \<in> contents ranks S \<and> h (fst x) = p"
    then obtain q where q: "q \<in> set ranks" "x \<in> held (S q)" unfolding in_contents by blast
    with holder_held(2) [OF assms(1) q(1), of "fst x" "snd x"] x show "x \<in> held (S p)" by simp
  qed
  then show ?thesis by (simp only: set_eq_iff mem_Collect_eq simp_thms)
qed

lemma edges_sub: "{(j, s, l, t) \<in> A. Q s t} \<subseteq> A"
  by auto

lemma exchange_arrived:
  assumes "distributed ranks K h S" "valid_parts ranks part S" "p \<in> set ranks"
    and X: "\<forall>q\<in>set ranks. exports_of (part q) (S q) (X q)"
  shows "\<exists>g. import_all junk (migrate ranks (\<lambda>q. ex_node_map (X q)) p) (migrate ranks (\<lambda>q. ex_edge_map (X q)) p)
             (ex_nodes (X p)) (S p) = Inr g \<and> arrived ranks K h (moved part h) S p g"
proof -
  let ?h' = "moved part h"
  let ?ni = "migrate ranks (\<lambda>q. ex_node_map (X q)) p" and ?ei = "migrate ranks (\<lambda>q. ex_edge_map (X q)) p"
  let ?nm = "map snd (received ?ni)" and ?em = "map snd (received ?ei)"
  let ?ips = "map (\<lambda>(i, r). (i, node_ptr (S p) i)) (to_export (part p) (S p))"
  note D = in_placeD [OF distributedD(6) [OF assms(1,3)]]
  note N = import_sets(1) [OF assms(1-3) X] and E = import_sets(2) [OF assms(1-3) X]
  note out = exported_moved [OF assms(1-3)]
  have own: "view_edges (S p) \<subseteq> all_edges ranks S" using assms(3) by (auto simp: all_edges_def)
  have ids: "fst ` set ?ips = {i \<in> K. h i = p \<and> ?h' i \<noteq> p}"
  proof -
    have "fst ` set ?ips = fst ` set (to_export (part p) (S p))" by (force simp: image_iff)
    also have "\<dots> = {i. \<exists>r. (i, r) \<in> set (to_export (part p) (S p))}" by force
    finally show ?thesis unfolding out by auto
  qed
  have ptrs: "set ?ips \<subseteq> set (g_nodes (S p))"
  proof
    fix x assume "x \<in> set ?ips"
    then obtain i r where i: "(i, r) \<in> set (to_export (part p) (S p))" "x = (i, node_ptr (S p) i)" by auto
    then have "i \<in> view_nodes (S p)" unfolding in_to_export by blast
    from node_ptr(1) [OF D(1) this] i(2) show "x \<in> set (g_nodes (S p))" by simp
  qed
  have nodes: "single_valued (np_triple ` set ?nm)"
  proof -
    have "np_triple ` set ?nm \<subseteq> contents ranks S" unfolding N by blast
    with contents_unique [OF assms(1)] show ?thesis unfolding single_valued_def by blast
  qed
  have new_edges: "msg_view ` set ?em \<subseteq> all_edges ranks S" unfolding E by (rule edges_sub)
  have edges: "single_valued (msg_view ` set ?em \<union> view_edges (S p))"
    by (rule single_valued_mono [OF distributedD(2) [OF assms(1)]]) (rule Un_least [OF new_edges own])
  have exp: "ex_nodes (X p) = map snd ?ips" unfolding exports_ofD(1) [OF bspec [OF X assms(3)]] by (auto simp: split_beta)
  obtain g where run: "import_all junk ?ni ?ei (map snd ?ips) (S p) = Inr g" and rel: "relayed ?nm ?em (fst ` set ?ips) (S p) g"
    using import_all_relayed [OF D(1) ptrs nodes edges] by blast
  have new: "np_id ` set ?nm = {i \<in> K. ?h' i = p \<and> h i \<noteq> p}"
    unfolding np_ids N contents_nodes [OF assms(1), symmetric] by force
  note R = relayedD [OF rel]
  have "arrived ranks K h ?h' S p g"
    unfolding arrived_def
  proof (intro conjI)
    show "wf_graph g" "set (g_nodes (S p)) \<subseteq> set (g_nodes g)" "managed (g_loc g) = managed (g_loc (S p))" by (rule R)+
    show "g_rank g = p" using R(7) D(2) by simp
    show "view_nodes g \<subseteq> K"
    proof -
      have "msg_ends m \<subseteq> K" if "m \<in> set ?em" for m
      proof -
        have "msg_view m \<in> all_edges ranks S" by (rule subsetD [OF new_edges imageI [OF that]])
        then have "(em_edge m, em_id (em_src m), em_layer m, em_id (em_tgt m)) \<in> all_edges ranks S" by (simp add: msg_view_def)
        from edge_nodes [OF assms(1) this] show ?thesis by (simp add: msg_ends_def)
      qed
      then show ?thesis unfolding R(2) new using D(3) by blast
    qed
    show "held g = {x \<in> contents ranks S. ?h' (fst x) = p}"
    proof -
      have K: "fst x \<in> K" if "x \<in> contents ranks S" for x using that contents_nodes [OF assms(1)] by blast
      show ?thesis unfolding R(4) N new ids own_contents [OF assms(1,3)] using K by auto
    qed
    show "view_edges g \<subseteq> all_edges ranks S" unfolding R(3) by (rule Un_least [OF new_edges own])
    show "{(j, s, l, t) \<in> all_edges ranks S. ?h' s = p \<or> ?h' t = p} \<subseteq> view_edges g"
    proof
      fix v assume v: "v \<in> {(j, s, l, t) \<in> all_edges ranks S. ?h' s = p \<or> ?h' t = p}"
      obtain j s l t where v1: "v = (j, s, l, t)" by (cases v) blast
      with v have e: "(j, s, l, t) \<in> all_edges ranks S" "?h' s = p \<or> ?h' t = p" by simp_all
      have "(j, s, l, t) \<in> view_edges (S p)" if "h s = p \<or> h t = p" by (rule D(6) [OF e(1) that])
      then show "v \<in> view_edges g" unfolding R(3) E v1 Un_iff mem_Collect_eq prod.case using e by blast
    qed
    show "um_keys (new_local_nodes (g_loc g)) = {i \<in> K. ?h' i = p \<and> h i \<noteq> p} \<union> um_keys (new_local_nodes (g_loc (S p)))"
      unfolding R(5) new by (rule refl)
  qed
  with run show ?thesis unfolding exp by blast
qed

lemma arrivedD:
  assumes "arrived ranks K h h' S p g"
  shows "wf_graph g" "g_rank g = p" "managed (g_loc g) = managed (g_loc (S p))" "set (g_nodes (S p)) \<subseteq> set (g_nodes g)"
    "view_nodes g \<subseteq> K" "held g = {x \<in> contents ranks S. h' (fst x) = p}" "view_edges g \<subseteq> all_edges ranks S"
    "{(j, s, l, t) \<in> all_edges ranks S. h' s = p \<or> h' t = p} \<subseteq> view_edges g"
    "um_keys (new_local_nodes (g_loc g)) = {i \<in> K. h' i = p \<and> h i \<noteq> p} \<union> um_keys (new_local_nodes (g_loc (S p)))"
  using assms unfolding arrived_def by - (elim conjE, assumption)+

section \<open>Locations after the exchange\<close>

lemma moved_rank:
  assumes "distributed ranks K h S" "valid_parts ranks part S" "i \<in> K"
  shows "moved part h i \<in> set ranks"
proof (cases "moved part h i = h i")
  case False
  note p = distributedD(3) [OF assms(1,3)]
  have "(i, moved part h i) \<in> set (to_export (part (h i)) (S (h i)))"
    unfolding exported_moved [OF assms(1,2) p] using assms(3) False by simp
  then have "moved part h i \<in> snd ` set (to_export (part (h i)) (S (h i)))" by force
  with assms(2) p show ?thesis unfolding valid_parts_def by blast
qed (use distributedD(3) [OF assms(1,3)] in simp)

lemma arrived_announced:
  assumes "distributed ranks K h S" "valid_parts ranks part S"
    and S1: "\<And>p. p \<in> set ranks \<Longrightarrow> arrived ranks K h (moved part h) S p (S1 p)"
  shows "ranked ranks K S1" "announced ranks K (moved part h) S1"
proof -
  have "um_keys (distant_nodes (g_loc (S1 p))) \<subseteq> K" if p: "p \<in> set ranks" for p
  proof
    fix i assume "i \<in> um_keys (distant_nodes (g_loc (S1 p)))"
    then obtain a where "(i, a) \<in> set (distant_nodes (g_loc (S1 p)))" by force
    from distant_wf(1) [OF arrivedD(1) [OF S1 [OF p]] this] have "i \<in> view_nodes (S1 p)" by force
    with arrivedD(5) [OF S1 [OF p]] show "i \<in> K" by blast
  qed
  then show "ranked ranks K S1" unfolding ranked_def using distributedD(1) [OF assms(1)] arrivedD(1,2) [OF S1] by blast
  show "announced ranks K (moved part h) S1"
    unfolding announced_def
  proof (intro ballI conjI impI)
    fix i assume i: "i \<in> K"
    let ?q = "moved part h i"
    note in_ranks = moved_rank [OF assms(1,2) i] and origin = distributedD(4) [OF assms(1) i]
    show "id_rank i \<in> set ranks" "?q \<in> set ranks" by (rule origin, rule in_ranks)
    have gone: "i \<in> um_keys (new_local_nodes (g_loc (S1 ?q)))" if "?q \<noteq> h i"
      unfolding arrivedD(9) [OF S1 [OF in_ranks]] using i that by auto
    show "i \<in> um_keys (new_local_nodes (g_loc (S1 ?q))) \<or> map_of (managed (g_loc (S1 (id_rank i)))) i = Some ?q"
      using gone distributedD(5) [OF assms(1) i] unfolding arrivedD(3) [OF S1 [OF origin]] by auto
    fix q assume q: "q \<in> set ranks" "i \<in> um_keys (new_local_nodes (g_loc (S1 q)))"
    show "q = ?q \<or> q = id_rank i \<and> i \<in> um_keys (new_local_nodes (g_loc (S1 ?q)))"
    proof (cases "i \<in> um_keys (new_local_nodes (g_loc (S q)))")
      case True
      have "h i = q \<and> id_rank i = q" by (rule in_placeD(5) [OF distributedD(6) [OF assms(1) q(1)] i True])
      with gone show ?thesis by (cases "?q = h i") auto
    next
      case False
      with q(2) show ?thesis unfolding arrivedD(9) [OF S1 [OF q(1)]] by auto
    qed
  qed
qed

text \<open>The update of the locations leaves the graph as it is.\<close>

lemma relocation_keeps:
  fixes S :: "int \<Rightarrow> ('d, 'l) dgraph"
  assumes "g = clear_new_local (relocated f P (step_announce ranks S p))"
  shows "g_nodes g = g_nodes (S p)" "view_edges g = view_edges (S p)" "nodes_in LOCAL g = nodes_in LOCAL (S p)" "held g = held (S p)"
proof -
  show nodes: "g_nodes g = g_nodes (S p)" by (simp add: assms clear_new_local_def)
  have heap: "heap_n g q = map_option (\<lambda>n. if q \<in> P then n\<lparr>dn_location := f q\<rparr> else n) (heap_n (S p) q)" for q
    by (simp add: assms clear_new_local_def relocated_ids(1))
  have "edge_view g e = edge_view (S p) e" for e
  proof -
    have "map_option dn_id (heap_n g q) = map_option dn_id (heap_n (S p) q)" for q
      unfolding heap by (cases "heap_n (S p) q") simp_all
    moreover have "heap_e g = heap_e (S p)" by (simp add: assms clear_new_local_def)
    ultimately show ?thesis by (cases "heap_e (S p) e") (simp_all add: edge_view_def)
  qed
  moreover have "g_edges g = g_edges (S p)" by (simp add: assms clear_new_local_def)
  ultimately show "view_edges g = view_edges (S p)" by (simp add: view_edges_def)
  show local: "nodes_in LOCAL g = nodes_in LOCAL (S p)"
  proof -
    have "(\<exists>n. heap_n g q = Some n \<and> dn_state n = LOCAL) \<longleftrightarrow> (\<exists>n. heap_n (S p) q = Some n \<and> dn_state n = LOCAL)" for q
      unfolding heap by (cases "heap_n (S p) q") auto
    then show ?thesis unfolding nodes_in_def nodes by simp
  qed
  show "held g = held (S p)"
    by (rule held_cong [OF local]) (simp add: heap)
qed

section \<open>Clearing the exported nodes\<close>

lemma located_memory:
  assumes "wf_graph g'" "trimmed P g g'" "wf_graph g" "located h g"
  shows "located h g'"
  unfolding located_def
proof (intro ballI, unfold split_paired_all prod.case)
  fix i q assume mem: "(i, q) \<in> set (distant_nodes (g_loc g'))"
  note trim = trimmedD [OF assms(2)]
  note D = distant_wf [OF assms(1) mem]
  from D(2) obtain m where m: "heap_n g' q = Some m" "dn_id m = i" by blast
  from D(1) have Q: "q \<in> nptrs g'" by force
  have node: "(i, q) \<in> set (g_nodes g)" using D(1) unfolding trim(2) by blast
  have core: "map_option node_core (heap_n g q) = Some (node_core m)" using trim(5) [OF Q] m(1) by simp
  then obtain n where n: "heap_n g q = Some n" "node_core n = node_core m" by (cases "heap_n g q") auto
  have "(i, q) \<in> nodes_in DISTANT g'" using wf_graphD(3) [OF assms(1)] mem by (simp add: wf_loc_def)
  then have "dn_state m = DISTANT" using m(1) by (simp add: nodes_in_def)
  then have "(i, q) \<in> nodes_in DISTANT g" using node n by (simp add: nodes_in_def node_core_def)
  then have "(i, q) \<in> set (distant_nodes (g_loc g))" using wf_graphD(3) [OF assms(3)] by (simp add: wf_loc_def)
  with assms(4) n have "dn_location n = h i" by (auto simp: located_def)
  with n(2) m(1) show "\<exists>m. heap_n g' q = Some m \<and> dn_location m = h i" by (simp add: node_core_def)
qed

lemma exported_ptrs:
  assumes "distributed ranks K h S" "valid_parts ranks part S" "p \<in> set ranks" "exports_of (part p) (S p) X"
    and "wf_graph g" "set (g_nodes (S p)) \<subseteq> set (g_nodes g)" "ids_in LOCAL g = {i \<in> K. moved part h i = p}"
  shows "distinct (ex_nodes X)" "set (ex_nodes X) \<subseteq> nptrs g" "not_local (set (ex_nodes X)) g"
proof -
  note D = in_placeD [OF distributedD(6) [OF assms(1,3)]]
  note idx = wf_graphD(1) [OF assms(5)]
  let ?xs = "to_export (part p) (S p)"
  have ex: "ex_nodes X = map (node_ptr (S p)) (map fst ?xs)" unfolding exports_ofD(1) [OF assms(4)] by (auto simp: split_beta)
  have node: "(i, node_ptr (S p) i) \<in> set (g_nodes g)" if "i \<in> set (map fst ?xs)" for i
  proof -
    from that obtain r where "(i, r) \<in> set ?xs" by auto
    then have "i \<in> view_nodes (S p)" unfolding in_to_export by blast
    from subsetD [OF assms(6) node_ptr(1) [OF D(1) this]] show ?thesis .
  qed
  have "distinct (map fst ?xs)"
    using assms(2,3) by (simp add: valid_parts_def sends_own_def to_export_def distinct_map_filter)
  moreover have "inj_on (node_ptr (S p)) (set (map fst ?xs))"
    by (rule inj_onI) (metis id_ptr [OF idx node node])
  ultimately show "distinct (ex_nodes X)" unfolding ex distinct_map by blast
  show "set (ex_nodes X) \<subseteq> nptrs g"
  proof
    fix a assume "a \<in> set (ex_nodes X)"
    then obtain i where i: "i \<in> set (map fst ?xs)" "a = node_ptr (S p) i" unfolding ex set_map [of "node_ptr (S p)"] by blast
    show "a \<in> nptrs g" unfolding i(2) by (rule image_eqI [OF _ node [OF i(1)]]) simp
  qed
  show "not_local (set (ex_nodes X)) g"
    unfolding not_local_def
  proof (intro ballI notI)
    fix a assume "a \<in> set (ex_nodes X)" and loc: "end_local a g"
    then obtain i where i: "i \<in> set (map fst ?xs)" "a = node_ptr (S p) i" unfolding ex set_map [of "node_ptr (S p)"] by blast
    then obtain r where "(i, r) \<in> set ?xs" by auto
    then have "moved part h i \<noteq> p" unfolding exported_moved [OF assms(1-3)] by simp
    moreover have "(i, a) \<in> nodes_in LOCAL g" using node [OF i(1)] loc i(2) by (auto simp: nodes_in_def end_local_def)
    then have "i \<in> ids_in LOCAL g" by (force simp: ids_in_def)
    ultimately show False unfolding assms(7) by simp
  qed
qed

section \<open>The distribution\<close>

text \<open>What a process holds after the distribution.\<close>

definition settled :: "int list \<Rightarrow> (dist_id \<Rightarrow> int) \<Rightarrow> (int \<Rightarrow> ('d, 'l) dgraph) \<Rightarrow> int \<Rightarrow> ('d, 'l) dgraph \<Rightarrow> bool" where
  "settled ranks h S p g \<longleftrightarrow> held g = {x \<in> contents ranks S. h (fst x) = p} \<and> located h g"

definition final :: "int list \<Rightarrow> dist_id set \<Rightarrow> (dist_id \<Rightarrow> int) \<Rightarrow> (int \<Rightarrow> ('d, 'l) dgraph) \<Rightarrow> (dist_id \<times> int) list \<Rightarrow> int \<Rightarrow> ('d, 'l) dgraph \<Rightarrow> bool" where
  "final ranks K h S m p g \<longleftrightarrow>
     settled ranks h S p g \<and> in_place K h (all_edges ranks S) p g \<and> view_edges g \<subseteq> all_edges ranks S \<and>
     managed (g_loc g) = m"

lemma local_ids:
  assumes "distributed ranks K h S" "wf_graph g" "held g = {x \<in> contents ranks S. h' (fst x) = p}"
  shows "ids_in LOCAL g = {i \<in> K. h' i = p}"
  unfolding ids_in_held [OF assms(2)] assms(3) contents_nodes [OF assms(1), symmetric] by force

lemma clear_final:
  assumes "distributed ranks K h S" "valid_parts ranks part S" "p \<in> set ranks" "exports_of (part p) (S p) X"
    and "arrived ranks K h (moved part h) S p g1" "located (moved part h) g2" "wf_graph g2" "g_rank g2 = p" "new_local_nodes (g_loc g2) = []"
    and same: "g_nodes g2 = g_nodes g1" "view_edges g2 = view_edges g1" "held g2 = held g1" and g2: "managed (g_loc g2) = m"
  shows "\<exists>g. run_all clearNode (ex_nodes X) g2 = Inr g \<and> final ranks K (moved part h) S m p g"
proof -
  note A = arrivedD [OF assms(5)]
  have hold: "held g2 = {x \<in> contents ranks S. moved part h (fst x) = p}" unfolding same(3) by (rule A(6))
  note ids = local_ids [OF assms(1,7) hold]
  have sub: "set (g_nodes (S p)) \<subseteq> set (g_nodes g2)" unfolding same(1) by (rule A(4))
  note ptrs = exported_ptrs [OF assms(1-4,7) sub ids]
  obtain g where g: "run_all clearNode (ex_nodes X) g2 = Inr g" "trimmed (set (ex_nodes X)) g2 g" "memory g = memory g2"
    using clear_trimmed [OF assms(7) ptrs] by blast
  have wf: "wf_graph g" by (rule trimmedD(1) [OF g(2)])
  have hold': "held g = {x \<in> contents ranks S. moved part h (fst x) = p}" unfolding trimmed_held [OF assms(7) g(2) ptrs(3)] by (rule hold)
  note views = trimmed_views [OF assms(7) g(2) ptrs(3)]
  have mem: "g_rank g = p" "managed (g_loc g) = managed (g_loc g2)" "new_local_nodes (g_loc g) = []"
    using g(3) assms(8,9) by (simp_all add: memory_def)
  have edges: "view_edges g \<subseteq> all_edges ranks S" by (rule subset_trans [OF views(2)]) (unfold same(2), rule A(7))
  have "in_place K (moved part h) (all_edges ranks S) p g"
    unfolding in_place_def
  proof (intro conjI)
    show "wf_graph g" "g_rank g = p" by (rule wf mem)+
    show "view_nodes g \<subseteq> K" by (rule subset_trans [OF views(1)]) (unfold same(1), rule A(5))
    show "ids_in LOCAL g = {i \<in> K. moved part h i = p}" by (rule local_ids [OF assms(1) wf hold'])
    show "\<forall>i\<in>K. i \<in> um_keys (new_local_nodes (g_loc g)) \<longrightarrow> moved part h i = p \<and> id_rank i = p" by (simp add: mem(3))
    show "{(j, s, l, t) \<in> all_edges ranks S. moved part h s = p \<or> moved part h t = p} \<subseteq> view_edges g"
    proof
      fix v assume v: "v \<in> {(j, s, l, t) \<in> all_edges ranks S. moved part h s = p \<or> moved part h t = p}"
      obtain j s l t where v1: "v = (j, s, l, t)" by (cases v) blast
      with v have e: "(j, s, l, t) \<in> all_edges ranks S" "moved part h s = p \<or> moved part h t = p" by simp_all
      from subsetD [OF A(8) v] have "(j, s, l, t) \<in> view_edges g2" unfolding same(2) v1 .
      moreover have "s \<in> ids_in LOCAL g2 \<or> t \<in> ids_in LOCAL g2" unfolding ids using e(2) edge_nodes [OF assms(1) e(1)] by blast
      ultimately show "v \<in> view_edges g" unfolding v1 by (rule views(3))
    qed
  qed
  moreover have "settled ranks (moved part h) S p g"
    unfolding settled_def using hold' located_memory [OF wf g(2) assms(7,6)] by blast
  ultimately have "final ranks K (moved part h) S m p g" unfolding final_def using edges mem(2) g2 by simp
  with g(1) show ?thesis by blast
qed

lemma each_rank_all:
  assumes "distinct ranks" "\<And>p. p \<in> set ranks \<Longrightarrow> \<exists>s. f p (S p) = Inr s \<and> P p s"
  shows "\<exists>S'. each_rank ranks f S = Inr S' \<and> (\<forall>p\<in>set ranks. P p (S' p))"
  using each_rank_ok [where f = f and P = P and S = S, OF assms] by blast

lemma distribute_nodes_final:
  fixes S :: "int \<Rightarrow> ('d, 'l) dgraph"
  assumes "distributed ranks K h S" "valid_parts ranks part S"
  shows "\<exists>S' S2 :: int \<Rightarrow> ('d, 'l) dgraph. distribute_nodes junk light ranks part S = Inr S' \<and> announced ranks K (moved part h) S2 \<and>
           (\<forall>p\<in>set ranks. new_local_nodes (g_loc (S2 p)) = [] \<and> final ranks K (moved part h) S (managed (g_loc (S2 p))) p (S' p))"
proof -
  note ranks = distributedD(1) [OF assms(1)]
  have "\<exists>X. build_exports light (part p) (S p) = Inr X \<and> exports_of (part p) (S p) X" if "p \<in> set ranks" for p
    by (rule build_exports_ok) (use assms that in \<open>auto simp: valid_parts_def dest: distributedD(6) [OF assms(1)] in_placeD(1)\<close>)
  then have "\<forall>p\<in>set ranks. \<exists>X. build_exports light (part p) (S p) = Inr X \<and> exports_of (part p) (S p) X" by blast
  from bchoice [OF this] obtain Y where
    Y: "\<forall>p\<in>set ranks. build_exports light (part p) (S p) = Inr (Y p) \<and> exports_of (part p) (S p) (Y p)" by (rule exE)
  let ?X = "\<lambda>p. if p \<in> set ranks then Y p else \<lparr>ex_nodes = [], ex_node_map = [], ex_edge_map = []\<rparr>"
  have gather: "gather \<lparr>ex_nodes = [], ex_node_map = [], ex_edge_map = []\<rparr> ranks (\<lambda>p. build_exports light (part p) (S p)) = Inr ?X"
    by (rule gather_ok) (use Y in blast)
  have X: "\<forall>q\<in>set ranks. exports_of (part q) (S q) (?X q)" using Y by simp
  have "\<exists>S1. each_rank ranks (\<lambda>p. import_all junk (migrate ranks (\<lambda>q. ex_node_map (?X q)) p)
       (migrate ranks (\<lambda>q. ex_edge_map (?X q)) p) (ex_nodes (?X p))) S = Inr S1 \<and>
       (\<forall>p\<in>set ranks. arrived ranks K h (moved part h) S p (S1 p))"
    by (rule each_rank_all [OF ranks], rule exchange_arrived [OF assms _ X])
  then obtain S1 where S1: "each_rank ranks (\<lambda>p. import_all junk (migrate ranks (\<lambda>q. ex_node_map (?X q)) p)
       (migrate ranks (\<lambda>q. ex_edge_map (?X q)) p) (ex_nodes (?X p))) S = Inr S1"
    "\<And>p. p \<in> set ranks \<Longrightarrow> arrived ranks K h (moved part h) S p (S1 p)" by blast
  note ready = arrived_announced [OF assms S1(2)]
  obtain S2 where S2: "updateLocations ranks S1 = Inr S2" "ranked ranks K S2" "announced ranks K (moved part h) S2"
    and moves: "\<forall>p\<in>set ranks. located (moved part h) (S2 p) \<and> new_local_nodes (g_loc (S2 p)) = [] \<and>
      (\<exists>f P. S2 p = clear_new_local (relocated f P (step_announce ranks S1 p)))"
    using updateLocations_moves [OF ready] by blast
  have "\<exists>g. run_all clearNode (ex_nodes (?X p)) (S2 p) = Inr g \<and>
      final ranks K (moved part h) S (managed (g_loc (S2 p))) p g" if p: "p \<in> set ranks" for p
  proof -
    from moves p obtain f P where loc: "located (moved part h) (S2 p)" "new_local_nodes (g_loc (S2 p)) = []"
      and eq: "S2 p = clear_new_local (relocated f P (step_announce ranks S1 p))" by blast
    note keeps = relocation_keeps [OF eq]
    from S2(2) p have wf: "wf_graph (S2 p)" "g_rank (S2 p) = p" by (simp_all add: ranked_def)
    show ?thesis
      by (rule clear_final [OF assms p bspec [OF X p] S1(2) [OF p] loc(1) wf loc(2) keeps(1,2,4) refl])
  qed
  then have "\<exists>S'. each_rank ranks (\<lambda>p. run_all clearNode (ex_nodes (?X p))) S2 = Inr S' \<and>
      (\<forall>p\<in>set ranks. final ranks K (moved part h) S (managed (g_loc (S2 p))) p (S' p))" by (rule each_rank_all [OF ranks])
  then obtain S' where S': "each_rank ranks (\<lambda>p. run_all clearNode (ex_nodes (?X p))) S2 = Inr S'"
    "\<forall>p\<in>set ranks. final ranks K (moved part h) S (managed (g_loc (S2 p))) p (S' p)" by blast
  have "distribute_nodes junk light ranks part S = Inr S'"
    by (simp only: distribute_nodes_def gather and_then.simps S1(1) S2(1) S'(1))
  with S2(3) S'(2) moves show ?thesis by (intro exI [of _ S'] exI [of _ S2]) simp
qed

lemma distribution_moves:
  fixes S :: "int \<Rightarrow> ('d, 'l) dgraph"
  assumes "distributed ranks K h S" "valid_parts ranks part S"
  shows "\<exists>S'. distribute_nodes junk light ranks part S = Inr S' \<and> distributed ranks K (moved part h) S' \<and>
           all_edges ranks S' = all_edges ranks S \<and> (\<forall>p\<in>set ranks. settled ranks (moved part h) S p (S' p))"
proof -
  obtain S' S2 :: "int \<Rightarrow> ('d, 'l) dgraph" where run: "distribute_nodes junk light ranks part S = Inr S'"
    and ann: "announced ranks K (moved part h) S2"
    and fin: "\<forall>p\<in>set ranks. new_local_nodes (g_loc (S2 p)) = [] \<and>
      final ranks K (moved part h) S (managed (g_loc (S2 p))) p (S' p)"
    using distribute_nodes_final [OF assms] by blast
  have F: "settled ranks (moved part h) S p (S' p)" "in_place K (moved part h) (all_edges ranks S) p (S' p)"
    "view_edges (S' p) \<subseteq> all_edges ranks S" "managed (g_loc (S' p)) = managed (g_loc (S2 p))" if "p \<in> set ranks" for p
    using bspec [OF fin that] by (simp_all add: final_def)
  have edges: "all_edges ranks S' = all_edges ranks S"
  proof (rule equalityI)
    show "all_edges ranks S' \<subseteq> all_edges ranks S" unfolding all_edges_def [of ranks S'] using F(3) by blast
    show "all_edges ranks S \<subseteq> all_edges ranks S'"
    proof
      fix v assume v: "v \<in> all_edges ranks S"
      obtain j s l t where v1: "v = (j, s, l, t)" by (cases v) blast
      have "moved part h s \<in> set ranks" by (rule moved_rank [OF assms edge_nodes(1) [OF assms(1) v [unfolded v1]]])
      moreover from this have "v \<in> view_edges (S' (moved part h s))"
        unfolding v1 by (rule in_placeD(6) [OF F(2) v [unfolded v1]]) simp
      ultimately show "v \<in> all_edges ranks S'" unfolding all_edges_def by blast
    qed
  qed
  have "map_of (managed (g_loc (S' (id_rank i)))) i = Some (moved part h i)" if i: "i \<in> K" for i
  proof -
    note origin = distributedD(4) [OF assms(1) i] and rank = moved_rank [OF assms i]
    from ann i fin rank have "map_of (managed (g_loc (S2 (id_rank i)))) i = Some (moved part h i)" by (auto simp: announced_def)
    then show ?thesis by (simp add: F(4) [OF origin])
  qed
  then have "distributed ranks K (moved part h) S'"
    unfolding distributed_def edges
    using distributedD(1,2) [OF assms(1)] moved_rank [OF assms] distributedD(4) [OF assms(1)] F(2) by blast
  with run edges F(1) show ?thesis by blast
qed

text \<open>
  Property C2: after \<open>_distribute\<close>, for partitions in which each process moves nodes it holds to processes of the
  communicator, every process holds exactly the nodes the partitions give it, each with the data and the weight it
  had; no edge is lost or added, the holders of the ends of an edge have it, the origin of each node knows its new
  holder, and every distant node has the rank of the holder as its location.
\<close>

theorem distribute_moves_nodes:
  fixes S :: "int \<Rightarrow> ('d, 'l) dgraph"
  assumes "distributed ranks K h S" "valid_parts ranks part S"
  shows "\<exists>S'. distribute_nodes junk light ranks part S = Inr S' \<and> distributed ranks K (moved part h) S' \<and>
           all_edges ranks S' = all_edges ranks S \<and> (\<forall>p\<in>set ranks. settled ranks (moved part h) S p (S' p))"
  by (rule distribution_moves [OF assms])

text \<open>Process 0 of the two sample graphs gives its node to process 1.\<close>

definition gives :: "int \<Rightarrow> partition" where
  "gives p = (if p = 0 then [(id_a, 1)] else [])"

lemma two_held: "held (sample l) = {(id_a, 7, 1)}" "held (sample_b l) = {(id_b, 9, 1)}"
  by (simp_all add: held_def sample_nodes_in sample_b_nodes_in) (simp_all add: node_a_def host_b_def node_b_def)

lemma sample_b_views: "view_edges (sample_b l) = {(id_e, id_a, 0, id_b)}"
proof -
  have "edge_view (sample_b l) 2 = Some (id_a, 0, id_b)"
    by (simp add: edge_view_def edge_ba_def edge_ab_def) (simp add: host_b_def copy_a_def node_a_def node_b_def)
  then show ?thesis by (auto simp: view_edges_def)
qed

lemma pair_distributed:
  assumes S: "S 0 = sample l" "S 1 = sample_b l"
  shows "distributed [0, 1] {id_a, id_b} id_rank S"
proof -
  have edges: "all_edges [0, 1] S = {(id_e, id_a, 0, id_b)}" by (simp add: all_edges_def S sample_views sample_b_views)
  have "in_place {id_a, id_b} id_rank {(id_e, id_a, 0, id_b)} 0 (S 0)" unfolding S
    by (auto simp: in_place_def sample_wf sample_views ids_in_def sample_nodes_in) (simp_all add: id_a_def id_b_def)
  moreover have "in_place {id_a, id_b} id_rank {(id_e, id_a, 0, id_b)} 1 (S 1)" unfolding S
    by (auto simp: in_place_def sample_b_wf sample_b_views ids_in_def sample_b_nodes_in) (simp_all add: id_a_def id_b_def)
  moreover have "single_valued {(id_e, id_a, 0 :: layer_id, id_b)}" by (auto simp: single_valued_def)
  moreover have "\<forall>i\<in>{id_a, id_b}. id_rank i \<in> set [0, 1] \<and> map_of (managed (g_loc (S (id_rank i)))) i = Some (id_rank i)"
    by (simp add: sample_ids S)
  ultimately show ?thesis unfolding distributed_def edges by simp
qed

lemma two_distributed: "distributed [0, 1] {id_a, id_b} id_rank two"
  by (rule pair_distributed) simp_all

lemma gives_valid: "valid_parts [0, 1] gives two"
  by (auto simp: valid_parts_def sends_own_def gives_def to_export_def ids_in_def sample_nodes_in)

theorem distribute_moves_nodes_witness:
  "\<exists>S'. distribute_nodes 3 id [0, 1] gives two = Inr S' \<and> held (S' 0) = {} \<and> held (S' 1) = {(id_a, 7, 1), (id_b, 9, 1)}"
proof -
  obtain S' where run: "distribute_nodes 3 id [0, 1] gives two = Inr S'"
    "settled [0, 1] (moved gives id_rank) two 0 (S' 0)" "settled [0, 1] (moved gives id_rank) two 1 (S' 1)"
    using distribute_moves_nodes [OF two_distributed gives_valid, of 3 id] by auto
  have "contents [0, 1] two = {(id_a, 7, 1), (id_b, 9, 1)}" by (auto simp: contents_def two_held)
  moreover have "moved gives id_rank id_a = 1" "moved gives id_rank id_b = 1" by (simp_all add: moved_def gives_def sample_ids um_get_def)
  ultimately show ?thesis using run by (auto simp: settled_def)
qed

section \<open>Copies in a partition\<close>

text \<open>The export of one node does not look at its state.\<close>

lemma export_one:
  assumes "wf_graph k" "(i, a) \<in> set (g_nodes k)" "heap_n k a = Some n" "r \<noteq> g_rank k"
  shows "\<exists>X. build_exports light [(i, r)] k = Inr X \<and>
           um_get [] r (ex_node_map X) = [\<lparr>np_id = i, np_data = dn_data n, np_weight = dn_weight n\<rparr>]"
proof -
  let ?m = "\<lparr>np_id = i, np_data = dn_data n, np_weight = dn_weight n\<rparr>"
  have view: "i \<in> view_nodes k" using assms(2) by force
  have ptr: "node_ptr k i = a" by (rule node_ptr_unique [OF assms(1,2)])
  have id: "dn_id n = i" using wf_indexD(3) [OF wf_graphD(1) [OF assms(1)] assms(2)] assms(3) by simp
  have ex: "to_export [(i, r)] k = [(i, r)]" using view assms(4) by (simp add: to_export_def)
  obtain js where js: "node_edge_ids (r, a) k = Inr (map (Pair r) js)" "set js = ids_at i k"
    using node_edge_ids_eq [OF assms(1) view, of r] ptr by auto
  let ?ids = "insert_ids (map (Pair r) js)"
  have "\<forall>x\<in>set (received ?ids). \<exists>m. and_then (getEdge (snd x) k) (\<lambda>e. and_then (pack_edge light e k) (\<lambda>m. Inr (fst x, m))) = Inr m"
  proof
    fix x assume "x \<in> set (received ?ids)"
    then have "snd x \<in> ids_at i k" using received_insert_ids [of "fst x" "snd x"] js(2) by auto
    then obtain s l t where "(snd x, s, l, t) \<in> view_edges k" by (auto simp: ids_at_def)
    from pack_edge_view [OF assms(1) this, of light]
    show "\<exists>m. and_then (getEdge (snd x) k) (\<lambda>e. and_then (pack_edge light e k) (\<lambda>m. Inr (fst x, m))) = Inr m" by auto
  qed
  from bchoice [OF this] obtain EM where
    EM: "\<forall>x\<in>set (received ?ids). and_then (getEdge (snd x) k) (\<lambda>e. and_then (pack_edge light e k) (\<lambda>m. Inr (fst x, m))) = Inr (EM x)"
    by (rule exE)
  have "map_all (\<lambda>(r, i). and_then (getEdge i k) (\<lambda>e. and_then (pack_edge light e k) (\<lambda>m. Inr (r, m)))) (received ?ids) =
      Inr (map EM (received ?ids))"
    by (rule map_all_ok) (use EM in \<open>simp add: split_beta del: and_then_Inr_iff\<close>)
  then have edges: "edge_export_map light ?ids k = Inr (push_pairs (map EM (received ?ids)))" by (simp add: edge_export_map_def)
  have nodes: "node_export_map [(r, a)] k = Inr [(r, [?m])]"
    by (simp add: node_export_map_def pack_node_def heap_ops assms(3) id push_pairs_def um_push_def um_get_def)
  have "exported_nodes [(i, r)] k = Inr [(r, a)]" unfolding exported_nodes_eq [OF assms(1)] ex by (simp add: ptr)
  then have "build_exports light [(i, r)] k =
      Inr \<lparr>ex_nodes = [a], ex_node_map = [(r, [?m])], ex_edge_map = push_pairs (map EM (received ?ids))\<rparr>"
    by (simp add: build_exports_def edge_ids_to_export_def js(1) edges nodes)
  then show ?thesis by (simp add: um_get_def)
qed

lemma view_edges_single:
  assumes "wf_graph g"
  shows "single_valued (view_edges g)"
  unfolding single_valued_def
proof (intro allI impI)
  fix j v w assume "(j, v) \<in> view_edges g" "(j, w) \<in> view_edges g"
  then obtain e f where "(j, e) \<in> set (g_edges g)" "edge_view g e = Some v" "(j, f) \<in> set (g_edges g)" "edge_view g f = Some w"
    by (auto simp: view_edges_def)
  moreover from this wf_id_unique [OF wf_indexD(2) [OF wf_graphD(1) [OF assms]]] have "e = f" by blast
  ultimately show "v = w" by simp
qed

text \<open>
  Property C27: a partition with an entry for a distant node is not ignored. The process sends its copy of
  the node like a node it holds, and the receiver takes the data of the copy: when the receiver holds the node, what
  it held is replaced by the data of the copy.
\<close>

theorem distant_copy_overwrites:
  assumes "wf_graph k" "(i, a) \<in> set (distant_nodes (g_loc k))" "heap_n k a = Some n" "r \<noteq> g_rank k"
    and "wf_graph g" "i \<in> ids_in LOCAL g"
  shows "\<exists>X g'. build_exports light [(i, r)] k = Inr X \<and>
           import_all junk [(g_rank k, um_get [] r (ex_node_map X))] [] [] g = Inr g' \<and>
           held g' = insert (i, dn_data n, dn_weight n) {x \<in> held g. fst x \<noteq> i}"
proof -
  let ?m = "\<lparr>np_id = i, np_data = dn_data n, np_weight = dn_weight n\<rparr>"
  obtain X where X: "build_exports light [(i, r)] k = Inr X" "um_get [] r (ex_node_map X) = [?m]"
    using export_one [OF assms(1) distant_wf(1) [OF assms(1,2)] assms(3,4)] by blast
  have "single_valued (np_triple ` set (map snd (received [(g_rank k, [?m])])))" by (auto simp: single_valued_def np_triple_def)
  moreover have "single_valued (msg_view ` set (map snd (received [])) \<union> view_edges g)"
    using view_edges_single [OF assms(5)] by simp
  ultimately obtain g' where "import_all junk [(g_rank k, [?m])] [] (map snd []) g = Inr g'"
    "relayed (map snd (received [(g_rank k, [?m])])) (map snd (received [])) (fst ` set []) g g'"
    using import_all_relayed [OF assms(5), of "[]" "[(g_rank k, [?m])]" "[]" junk] by auto
  then have "import_all junk [(g_rank k, [?m])] [] [] g = Inr g'" "held g' = insert (i, dn_data n, dn_weight n) {x \<in> held g. fst x \<noteq> i}"
    by (auto simp: relayed_def np_triple_def)
  with X show ?thesis by auto
qed

theorem distant_copy_overwrites_witness:
  "\<exists>X g. build_exports id [(id_a, 0)] (two 1) = Inr X \<and> import_all 3 [(1, um_get [] 0 (ex_node_map X))] [] [] (two 0) = Inr g \<and>
     held g = {(id_a, 0, 1)}"
proof -
  have "{x \<in> held (sample ()). fst x \<noteq> id_a} = {}" by (auto simp: two_held)
  with distant_copy_overwrites [of "two 1" id_a 1 copy_a 0 "two 0" id 3] show ?thesis
    by (simp add: sample_wf sample_b_wf ids_in_def sample_nodes_in) (simp add: copy_a_def node_a_def)
qed

section \<open>Imports\<close>

text \<open>
  Property C10: a process that imports nodes and edges which agree with each other and with the edges it has keeps
  a well-formed graph and never faults. Its nodes are those it had, the imported ones and the ends of the imported
  edges, its edges are those it had and the imported ones, and it holds the imported nodes with the imported data
  beside the nodes it held.
\<close>

theorem imports_keep_wf:
  fixes g :: "('d, 'l) dgraph"
  assumes "wf_graph g" "single_valued (np_triple ` set (map snd (received node_import)))"
    and "single_valued (msg_view ` set (map snd (received edge_import)) \<union> view_edges g)"
  shows "\<exists>g'. import_all junk node_import edge_import [] g = Inr g' \<and> wf_graph g' \<and>
           view_nodes g' = np_id ` set (map snd (received node_import)) \<union> (\<Union>m\<in>set (map snd (received edge_import)). msg_ends m) \<union> view_nodes g \<and>
           view_edges g' = msg_view ` set (map snd (received edge_import)) \<union> view_edges g \<and>
           held g' = np_triple ` set (map snd (received node_import)) \<union> {x \<in> held g. fst x \<notin> np_id ` set (map snd (received node_import))}"
proof -
  obtain g' :: "('d, 'l) dgraph" where g': "import_all junk node_import edge_import (map snd []) g = Inr g'"
    "relayed (map snd (received node_import)) (map snd (received edge_import)) (fst ` set []) g g'"
    using import_all_relayed [OF assms(1) _ assms(2,3), of "[]" junk] by auto
  note R = relayedD [OF g'(2)]
  have "held g' = np_triple ` set (map snd (received node_import)) \<union> {x \<in> held g. fst x \<notin> np_id ` set (map snd (received node_import))}"
    unfolding R(4) by auto
  with g'(1) R(1-3) show ?thesis by (simp only: list.map) blast
qed

text \<open>Process 0 receives the node of process 1 and an edge between the two nodes.\<close>

definition got_b :: "int node_pack" where
  "got_b = \<lparr>np_id = id_b, np_data = 9, np_weight = 1\<rparr>"

definition got_edge :: "int edge_msg" where
  "got_edge = \<lparr>em_edge = DistributedId 1 0, em_layer = 2, em_weight = 1,
     em_src = \<lparr>em_id = id_b, em_data = 9, em_location = 1\<rparr>, em_tgt = \<lparr>em_id = id_a, em_data = 0, em_location = 0\<rparr>\<rparr>"

theorem imports_keep_wf_witness:
  "\<exists>g. import_all 3 [(1, [got_b])] [(1, [got_edge])] [] (two 0) = Inr g \<and> wf_graph g \<and>
     view_edges g = {(DistributedId 1 0, id_b, 2, id_a), (id_e, id_a, 0, id_b)} \<and> held g = {(id_b, 9, 1), (id_a, 7, 1)}"
proof -
  have edge: "msg_view got_edge = (DistributedId 1 0, id_b, 2, id_a)" by (simp add: msg_view_def got_edge_def)
  have node: "np_triple got_b = (id_b, 9, 1)" "np_id got_b = id_b" by (simp_all add: np_triple_def got_b_def)
  have "single_valued {np_triple got_b}" by (simp add: single_valued_def node)
  moreover have "single_valued {msg_view got_edge, (id_e, id_a, 0, id_b)}" unfolding edge by (auto simp: single_valued_def id_e_def)
  moreover have "{x \<in> held (sample ()). fst x \<notin> {id_b}} = {(id_a, 7, 1)}" unfolding two_held by (auto simp: sample_ids)
  ultimately obtain g where "import_all 3 [(1, [got_b])] [(1, [got_edge])] [] (two 0) = Inr g" "wf_graph g"
    "view_edges g = {msg_view got_edge, (id_e, id_a, 0, id_b)}" "held g = {np_triple got_b, (id_a, 7, 1)}"
    using imports_keep_wf [of "two 0" "[(1, [got_b])]" "[(1, [got_edge])]" 3]
    by (auto simp: sample_wf sample_views node(2) insert_commute)
  then show ?thesis by (simp add: edge node)
qed

end
