(* ===== verification/Mpi_Buffers.thy ===== *)
theory Mpi_Buffers
  imports Exchange "HOL-Library.Word"
begin

text \<open>
  The collective operations of \<open>MpiCommunicatorBase\<close> in \<open>src/fpmas/communication/communication.cpp\<close> on buffers of bytes,
  and the typed operations of \<open>communication.h\<close> over them. MPI itself and the JSON library are arguments; the
  operations only see the buffers, the counts and the displacements the code hands to MPI. Memory that \<open>malloc\<close>
  returns holds the byte \<open>junk\<close>, and a copy outside of a buffer is a fault. Sizes, counts and displacements are C
  integers of 32 bits: a conversion keeps the low bits, an addition or a product that does not fit is undefined and a
  fault, and so is an allocation of a negative size, which no \<open>malloc\<close> can serve. No negative value outlives its
  conversion, so the values are naturals below 2^31.
\<close>

section \<open>Buffers\<close>

type_synonym byte = "8 word"

datatype mem_fault = Out_Of_Bounds | Bad_Alloc | Int_Overflow

text \<open>The conversion of a \<open>size_t\<close> to \<open>int\<close>, for a value that is then allocated, and the result of an \<open>int\<close> operation.\<close>

definition as_int :: "nat \<Rightarrow> mem_fault + nat" where
  "as_int n = (let low = n mod 2 ^ 32 in if low < 2 ^ 31 then Inr low else Inl Bad_Alloc)"

definition int_result :: "nat \<Rightarrow> mem_fault + nat" where
  "int_result n = (if n < 2 ^ 31 then Inr n else Inl Int_Overflow)"

definition mem_read :: "byte list \<Rightarrow> nat \<Rightarrow> nat \<Rightarrow> mem_fault + byte list" where
  "mem_read src off n = (if off + n \<le> length src then Inr (take n (drop off src)) else Inl Out_Of_Bounds)"

definition mem_write :: "nat \<Rightarrow> byte list \<Rightarrow> byte list \<Rightarrow> mem_fault + byte list" where
  "mem_write off src dst =
     (if off + length src \<le> length dst then Inr (take off dst @ src @ drop (off + length src) dst) else Inl Out_Of_Bounds)"

record data_pack =
  dp_size :: nat
  dp_count :: nat
  dp_buffer :: "byte list"

definition new_pack :: "byte \<Rightarrow> nat \<Rightarrow> nat \<Rightarrow> mem_fault + data_pack" where
  "new_pack junk items data_size =
     and_then (as_int (data_size * items)) (\<lambda>size.
       Inr \<lparr>dp_size = size, dp_count = items, dp_buffer = replicate size junk\<rparr>)"

definition void_pack :: data_pack where
  "void_pack = \<lparr>dp_size = 0, dp_count = 0, dp_buffer = []\<rparr>"

type_synonym pack_map = "(int \<times> data_pack) list"

definition pack_equal :: "data_pack \<Rightarrow> data_pack \<Rightarrow> bool" where
  "pack_equal d1 d2 \<longleftrightarrow>
     dp_count d1 = dp_count d2 \<and> dp_size d1 = dp_size d2 \<and> (\<forall>i<dp_size d1. dp_buffer d1 ! i = dp_buffer d2 ! i)"

text \<open>\<open>memcpy(pack.buffer, src + off, pack.size)\<close> into a new pack.\<close>

definition read_pack :: "byte \<Rightarrow> nat \<Rightarrow> byte list \<Rightarrow> nat \<Rightarrow> nat \<Rightarrow> mem_fault + data_pack" where
  "read_pack junk type_size src off items =
     and_then (new_pack junk items type_size) (\<lambda>pack.
     and_then (mem_read src off (dp_size pack)) (\<lambda>bytes.
     and_then (mem_write 0 bytes (dp_buffer pack)) (\<lambda>buffer. Inr (pack\<lparr>dp_buffer := buffer\<rparr>))))"

text \<open>The displacement of each block, the sum of the counts before it, and the sum of all counts.\<close>

fun displs :: "nat \<Rightarrow> nat list \<Rightarrow> mem_fault + nat list \<times> nat" where
  "displs current [] = Inr ([], current)"
| "displs current (c # cs) =
     and_then (int_result (current + c)) (\<lambda>next_displs.
     and_then (displs next_displs cs) (\<lambda>(ds, total). Inr (current # ds, total)))"

text \<open>The arguments of MPI for the blocks of a buffer: the buffer, the counts and the displacements in units of the
  datatype.\<close>

type_synonym blocks = "byte list \<times> nat list \<times> nat list"

definition alloc_blocks :: "byte \<Rightarrow> nat \<Rightarrow> nat list \<Rightarrow> mem_fault + blocks" where
  "alloc_blocks junk type_size counts =
     and_then (displs 0 counts) (\<lambda>(ds, total).
     and_then (int_result (total * type_size)) (\<lambda>size. Inr (replicate size junk, counts, ds)))"

section \<open>The exchange between all processes\<close>

definition send_counts :: "nat \<Rightarrow> pack_map \<Rightarrow> nat list" where
  "send_counts n packs = map (\<lambda>i. dp_count (um_get void_pack (int i) packs)) [0..<n]"

definition fill_send :: "byte \<Rightarrow> nat \<Rightarrow> nat \<Rightarrow> pack_map \<Rightarrow> mem_fault + blocks" where
  "fill_send junk type_size n packs =
     and_then (alloc_blocks junk type_size (send_counts n packs)) (\<lambda>(buffer, sendcounts, sdispls).
     and_then (run_all (\<lambda>i buffer. let pack = um_get void_pack (int i) packs in
             and_then (mem_read (dp_buffer pack) 0 (dp_size pack)) (\<lambda>bytes. mem_write (sdispls ! i) bytes buffer))
           [0..<n] buffer) (\<lambda>buffer. Inr (buffer, sendcounts, sdispls)))"

definition import_packs :: "byte \<Rightarrow> nat \<Rightarrow> nat \<Rightarrow> nat list \<Rightarrow> nat list \<Rightarrow> byte list \<Rightarrow> mem_fault + pack_map" where
  "import_packs junk type_size n recvcounts rdispls recv_buffer =
     map_all (\<lambda>i. and_then (read_pack junk type_size recv_buffer (rdispls ! i) (recvcounts ! i)) (\<lambda>pack. Inr (int i, pack)))
       (filter (\<lambda>i. recvcounts ! i > 0) [0..<n])"

text \<open>
  \<open>MPI_Alltoall\<close> of one integer and \<open>MPI_Alltoallv\<close>: what the processes pass and what a process receives. The call of
  one process returns only if all of them reach it.
\<close>

type_synonym alltoall = "(nat \<Rightarrow> nat list) \<Rightarrow> nat \<Rightarrow> nat list"

type_synonym alltoallv = "nat \<Rightarrow> (nat \<Rightarrow> blocks) \<Rightarrow> (nat \<Rightarrow> blocks) \<Rightarrow> nat \<Rightarrow> byte list"

definition allToAll :: "alltoall \<Rightarrow> alltoallv \<Rightarrow> byte \<Rightarrow> nat \<Rightarrow> nat \<Rightarrow> (nat \<Rightarrow> pack_map) \<Rightarrow> nat \<Rightarrow> mem_fault + pack_map" where
  "allToAll mpi_alltoall mpi_alltoallv junk type_size n packs p =
     and_then (map_all (\<lambda>q. fill_send junk type_size n (packs q)) [0..<n]) (\<lambda>sends.
       (let recvcounts = mpi_alltoall (\<lambda>q. send_counts n (packs q))
        in and_then (map_all (\<lambda>q. alloc_blocks junk type_size (recvcounts q)) [0..<n]) (\<lambda>recvs.
             (let recv_buffer = mpi_alltoallv type_size (\<lambda>q. sends ! q) (\<lambda>q. recvs ! q) p
              in import_packs junk type_size n (recvcounts p) (snd (snd (recvs ! p))) recv_buffer))))"

text \<open>
  What the MPI standard says of the two calls, for a communicator of \<open>n\<close> processes. The block from \<open>q\<close> is the one \<open>q\<close>
  describes for \<open>p\<close>, if both give it the same length and every process lays out its blocks one after the other in a buffer
  of the size of all of them.
\<close>

definition block :: "nat \<Rightarrow> blocks \<Rightarrow> nat \<Rightarrow> byte list" where
  "block type_size b i = (case b of (buffer, counts, ds) \<Rightarrow> take (type_size * counts ! i) (drop (type_size * ds ! i) buffer))"

definition alltoall_spec :: "nat \<Rightarrow> alltoall \<Rightarrow> bool" where
  "alltoall_spec n mpi \<longleftrightarrow> (\<forall>S. \<forall>p<n. mpi S p = map (\<lambda>q. S q ! p) [0..<n])"

fun offsets :: "nat \<Rightarrow> nat list \<Rightarrow> nat list" where
  "offsets current [] = []"
| "offsets current (c # cs) = current # offsets (current + c) cs"

definition laid_out :: "nat \<Rightarrow> nat \<Rightarrow> blocks \<Rightarrow> bool" where
  "laid_out n type_size b \<longleftrightarrow>
     (case b of (buffer, counts, ds) \<Rightarrow> length counts = n \<and> length buffer = type_size * sum_list counts \<and> ds = offsets 0 counts)"

definition alltoallv_spec :: "nat \<Rightarrow> nat \<Rightarrow> alltoallv \<Rightarrow> bool" where
  "alltoallv_spec n type_size mpi \<longleftrightarrow>
     (\<forall>S R. \<forall>p<n. (\<forall>q<n. laid_out n type_size (S q) \<and> fst (snd (R p)) ! q = fst (snd (S q)) ! p) \<longrightarrow> laid_out n type_size (R p) \<longrightarrow>
        length (mpi type_size S R p) = length (fst (R p)) \<and>
        (\<forall>q<n. block type_size (mpi type_size S R p, snd (R p)) q = block type_size (S q) p))"

section \<open>Gathering\<close>

text \<open>\<open>MPI_Gather\<close> of one integer and \<open>MPI_Gatherv\<close>, at the process that receives.\<close>

type_synonym gather_ints = "(nat \<Rightarrow> nat) \<Rightarrow> nat list"

type_synonym gatherv = "nat \<Rightarrow> (nat \<Rightarrow> byte list \<times> nat) \<Rightarrow> blocks \<Rightarrow> byte list"

definition send_copy :: "byte \<Rightarrow> nat \<Rightarrow> data_pack \<Rightarrow> mem_fault + byte list" where
  "send_copy junk type_size pack =
     and_then (int_result (dp_count pack * type_size)) (\<lambda>size.
     and_then (mem_read (dp_buffer pack) 0 (dp_size pack)) (\<lambda>bytes. mem_write 0 bytes (replicate size junk)))"

definition gathered ::
  "gatherv \<Rightarrow> byte \<Rightarrow> nat \<Rightarrow> nat \<Rightarrow> (nat \<Rightarrow> data_pack) \<Rightarrow> byte list list \<Rightarrow> nat list \<Rightarrow> mem_fault + data_pack list" where
  "gathered mpi_gatherv junk type_size n data send_buffers recvcounts =
     and_then (alloc_blocks junk type_size recvcounts) (\<lambda>recv.
       (let recv_buffer = mpi_gatherv type_size (\<lambda>q. (send_buffers ! q, dp_count (data q))) recv
        in map_all (\<lambda>i. read_pack junk type_size recv_buffer (snd (snd recv) ! i) (recvcounts ! i)) [0..<n]))"

definition gather_packs ::
  "gather_ints \<Rightarrow> gatherv \<Rightarrow> byte \<Rightarrow> nat \<Rightarrow> nat \<Rightarrow> nat \<Rightarrow> (nat \<Rightarrow> data_pack) \<Rightarrow> nat \<Rightarrow> mem_fault + data_pack list" where
  "gather_packs mpi_gather mpi_gatherv junk type_size n root data p =
     and_then (map_all (\<lambda>q. send_copy junk type_size (data q)) [0..<n]) (\<lambda>send_buffers.
       if p = root then gathered mpi_gatherv junk type_size n data send_buffers (mpi_gather (\<lambda>q. dp_count (data q))) else Inr [])"

text \<open>\<open>allGather\<close> sends the sizes of the packs where \<open>gather\<close> sends their counts.\<close>

definition allGather :: "gather_ints \<Rightarrow> gatherv \<Rightarrow> byte \<Rightarrow> nat \<Rightarrow> nat \<Rightarrow> (nat \<Rightarrow> data_pack) \<Rightarrow> mem_fault + data_pack list" where
  "allGather mpi_allgather mpi_allgatherv junk type_size n data =
     and_then (map_all (\<lambda>q. send_copy junk type_size (data q)) [0..<n]) (\<lambda>send_buffers.
       gathered mpi_allgatherv junk type_size n data send_buffers (mpi_allgather (\<lambda>q. dp_size (data q))))"

definition gather_spec :: "nat \<Rightarrow> gather_ints \<Rightarrow> bool" where
  "gather_spec n mpi \<longleftrightarrow> (\<forall>c. mpi c = map c [0..<n])"

definition gatherv_spec :: "nat \<Rightarrow> nat \<Rightarrow> gatherv \<Rightarrow> bool" where
  "gatherv_spec n type_size mpi \<longleftrightarrow>
     (\<forall>S R. (\<forall>q<n. length (fst (S q)) = type_size * snd (S q) \<and> fst (snd R) ! q = snd (S q)) \<longrightarrow> laid_out n type_size R \<longrightarrow>
        length (mpi type_size S R) = length (fst R) \<and> (\<forall>q<n. block type_size (mpi type_size S R, snd R) q = fst (S q)))"

text \<open>\<open>bcast\<close>: the count of the root first, then its buffer; the copy of the data into the buffer only happens at the root.\<close>

definition bcast :: "(nat \<Rightarrow> nat) \<Rightarrow> (nat \<Rightarrow> byte list) \<Rightarrow> byte \<Rightarrow> nat \<Rightarrow> nat \<Rightarrow> data_pack \<Rightarrow> nat \<Rightarrow> mem_fault + data_pack" where
  "bcast mpi_count mpi_bytes junk type_size root data p =
     and_then (new_pack junk (mpi_count p) type_size) (\<lambda>pack.
     and_then (if p = root then and_then (mem_read (dp_buffer data) 0 (dp_size data)) (\<lambda>bytes. mem_write 0 bytes (dp_buffer pack))
               else Inr (dp_buffer pack)) (\<lambda>_. Inr (pack\<lparr>dp_buffer := mpi_bytes p\<rparr>)))"

section \<open>The typed exchange\<close>

text \<open>\<open>TypedMpi::migrate\<close>: the lists travel as the text that the JSON library prints.\<close>

definition pack_text :: "byte \<Rightarrow> byte list \<Rightarrow> mem_fault + data_pack" where
  "pack_text junk str =
     and_then (as_int (length str)) (\<lambda>count.
     and_then (new_pack junk count 1) (\<lambda>pack.
     and_then (mem_write 0 str (dp_buffer pack)) (\<lambda>buffer. Inr (pack\<lparr>dp_buffer := buffer\<rparr>))))"

definition export_texts :: "byte \<Rightarrow> ('x list \<Rightarrow> byte list) \<Rightarrow> 'x packs \<Rightarrow> mem_fault + pack_map" where
  "export_texts junk dump packs =
     map_all (\<lambda>(r, xs). and_then (pack_text junk (dump xs)) (\<lambda>pack. Inr (r, pack))) packs"

definition import_texts :: "(byte list \<Rightarrow> 'x list) \<Rightarrow> pack_map \<Rightarrow> 'x packs" where
  "import_texts parse packs = map (\<lambda>(r, pack). (r, parse (take (dp_count pack) (dp_buffer pack)))) packs"

definition typed_migrate ::
  "alltoall \<Rightarrow> alltoallv \<Rightarrow> byte \<Rightarrow> ('x list \<Rightarrow> byte list) \<Rightarrow> (byte list \<Rightarrow> 'x list) \<Rightarrow> nat \<Rightarrow> (nat \<Rightarrow> 'x packs) \<Rightarrow> nat \<Rightarrow> mem_fault + 'x packs" where
  "typed_migrate mpi_alltoall mpi_alltoallv junk dump parse n exports p =
     and_then (map_all (\<lambda>q. export_texts junk dump (exports q)) [0..<n]) (\<lambda>texts.
     and_then (allToAll mpi_alltoall mpi_alltoallv junk 1 n (\<lambda>q. texts ! q) p) (\<lambda>packs. Inr (import_texts parse packs)))"

section \<open>Typed gathering\<close>

definition text_value :: "(byte list \<Rightarrow> 'x) \<Rightarrow> data_pack \<Rightarrow> 'x" where
  "text_value parse pack = parse (take (dp_count pack) (dp_buffer pack))"

definition typed_gather ::
  "gather_ints \<Rightarrow> gatherv \<Rightarrow> byte \<Rightarrow> ('x \<Rightarrow> byte list) \<Rightarrow> (byte list \<Rightarrow> 'x) \<Rightarrow> nat \<Rightarrow> nat \<Rightarrow> (nat \<Rightarrow> 'x) \<Rightarrow> nat \<Rightarrow> mem_fault + 'x list" where
  "typed_gather mpi_gather mpi_gatherv junk dump parse n root data p =
     and_then (map_all (\<lambda>q. pack_text junk (dump (data q))) [0..<n]) (\<lambda>texts.
     and_then (gather_packs mpi_gather mpi_gatherv junk 1 n root (\<lambda>q. texts ! q) p) (\<lambda>packs. Inr (map (text_value parse) packs)))"

definition typed_allGather ::
  "gather_ints \<Rightarrow> gatherv \<Rightarrow> byte \<Rightarrow> ('x \<Rightarrow> byte list) \<Rightarrow> (byte list \<Rightarrow> 'x) \<Rightarrow> nat \<Rightarrow> (nat \<Rightarrow> 'x) \<Rightarrow> mem_fault + 'x list" where
  "typed_allGather mpi_allgather mpi_allgatherv junk dump parse n data =
     and_then (map_all (\<lambda>q. pack_text junk (dump (data q))) [0..<n]) (\<lambda>texts.
     and_then (allGather mpi_allgather mpi_allgatherv junk 1 n (\<lambda>q. texts ! q)) (\<lambda>packs. Inr (map (text_value parse) packs)))"

text \<open>\<open>reduce\<close> and \<open>all_reduce\<close>: \<open>std::accumulate\<close> over the gathered values, from the first one.\<close>

definition accumulate :: "('x \<Rightarrow> 'x \<Rightarrow> 'x) \<Rightarrow> 'x list \<Rightarrow> 'x" where
  "accumulate binary_op xs = foldl binary_op (hd xs) (tl xs)"

definition reduce :: "('x \<Rightarrow> 'x \<Rightarrow> 'x) \<Rightarrow> 'x list \<Rightarrow> 'x \<Rightarrow> 'x" where
  "reduce binary_op data_vec data = (if length data_vec > 0 then accumulate binary_op data_vec else data)"

definition all_reduce :: "('x \<Rightarrow> 'x \<Rightarrow> 'x) \<Rightarrow> 'x list \<Rightarrow> 'x" where
  "all_reduce binary_op data_vec = accumulate binary_op data_vec"

end
