(* ===== verification/Mpi_Props.thy ===== *)
theory Mpi_Props
  imports Mpi_Buffers
begin

text \<open>
  The exchange of bytes delivers every pack, and the typed exchange is the exchange of lists that the rest of the
  development uses. Both hold exactly as long as
  the sizes fit into C integers.
\<close>

section \<open>Displacements\<close>

lemma offsets_length [simp]: "length (offsets c cs) = length cs"
  by (induction c cs rule: offsets.induct) simp_all

lemma offsets_nth: "i < length cs \<Longrightarrow> offsets c cs ! i = c + sum_list (take i cs)"
proof (induction c cs arbitrary: i rule: offsets.induct)
  case (2 c d ds)
  then show ?case by (cases i) simp_all
qed simp

lemma block_concat:
  assumes "length bs = n" "i < n"
  shows "take (length (bs ! i)) (drop (offsets 0 (map length bs) ! i) (concat bs)) = bs ! i"
proof -
  have "offsets 0 (map length bs) ! i = length (concat (take i bs))"
    using assms by (simp add: offsets_nth take_map length_concat)
  moreover have "concat bs = concat (take i bs) @ bs ! i @ concat (drop (Suc i) bs)"
    using assms by (metis append_take_drop_id concat.simps(2) concat_append Cons_nth_drop_Suc)
  ultimately show ?thesis by simp
qed

text \<open>The sums of the code are the offsets as long as they fit into an \<open>int\<close>.\<close>

lemma displs_fits: "c + sum_list cs < 2 ^ 31 \<Longrightarrow> displs c cs = Inr (offsets c cs, c + sum_list cs)"
proof (induction c cs rule: offsets.induct)
  case (2 c d ds)
  have "c + d + sum_list ds < 2 ^ 31" "c + d < 2 ^ 31" using 2(2) by simp_all
  with 2(1) show ?case by (simp add: int_result_def add.assoc)
qed simp

lemma displs_overflow: "c < 2 ^ 31 \<Longrightarrow> 2 ^ 31 \<le> c + sum_list cs \<Longrightarrow> displs c cs = Inl Int_Overflow"
proof (induction c cs rule: offsets.induct)
  case (2 c d ds)
  then show ?case by (cases "c + d < 2 ^ 31") (simp_all add: int_result_def add.assoc)
qed simp

lemma alloc_blocks_bytes:
  "alloc_blocks junk 1 cs =
     (if sum_list cs < 2 ^ 31 then Inr (replicate (sum_list cs) junk, cs, offsets 0 cs) else Inl Int_Overflow)"
proof (cases "sum_list cs < 2 ^ 31")
  case True
  then show ?thesis using displs_fits [of 0 cs] by (simp add: alloc_blocks_def int_result_def)
next
  case False
  then show ?thesis using displs_overflow [of 0 cs] by (simp add: alloc_blocks_def)
qed

lemmas alloc_blocks_Suc = alloc_blocks_bytes [unfolded One_nat_def]

lemma as_int_fits: "n < 2 ^ 31 \<Longrightarrow> as_int n = Inr n"
  by (simp add: as_int_def)

lemma map_all_fails: "x \<in> set xs \<Longrightarrow> f x = Inl e \<Longrightarrow> \<exists>e. map_all f xs = Inl e"
proof (induction xs)
  case (Cons y ys)
  show ?case
  proof (cases "f y")
    case (Inr z)
    with Cons.prems have "x \<in> set ys" by auto
    with Cons.IH Cons.prems(2) obtain e' where "map_all f ys = Inl e'" by blast
    with Inr show ?thesis by simp
  qed simp
qed simp

section \<open>Packs of bytes\<close>

definition byte_pack :: "data_pack \<Rightarrow> bool" where
  "byte_pack pack \<longleftrightarrow> dp_size pack = dp_count pack \<and> length (dp_buffer pack) = dp_size pack"

definition byte_packs :: "nat \<Rightarrow> pack_map \<Rightarrow> bool" where
  "byte_packs n packs \<longleftrightarrow> (\<forall>i<n. byte_pack (um_get void_pack (int i) packs))"

abbreviation pack_bytes :: "pack_map \<Rightarrow> nat \<Rightarrow> byte list" where
  "pack_bytes packs i \<equiv> dp_buffer (um_get void_pack (int i) packs)"

lemma send_counts_bytes:
  "byte_packs n packs \<Longrightarrow> send_counts n packs = map length (map (pack_bytes packs) [0..<n])"
  by (simp add: send_counts_def byte_packs_def byte_pack_def)

lemma fill_send_bytes:
  assumes "byte_packs n packs" "sum_list (send_counts n packs) < 2 ^ 31"
  shows "fill_send junk 1 n packs =
           Inr (concat (map (pack_bytes packs) [0..<n]), send_counts n packs, offsets 0 (send_counts n packs))"
proof -
  let ?bs = "map (pack_bytes packs) [0..<n]" and ?step = "\<lambda>i buffer. let pack = um_get void_pack (int i) packs in
    and_then (mem_read (dp_buffer pack) 0 (dp_size pack)) (\<lambda>bytes. mem_write (offsets 0 (map length (map (pack_bytes packs) [0..<n])) ! i) bytes buffer)"
  have "run_all ?step [0..<k] (replicate (length (concat ?bs)) junk) =
      Inr (concat (take k ?bs) @ replicate (length (concat (drop k ?bs))) junk)" if "k \<le> n" for k
    using that
  proof (induction k)
    case (Suc k)
    let ?b = "pack_bytes packs k"
    have k: "?bs ! k = ?b" "k < length ?bs" using Suc.prems by simp_all
    have rd: "mem_read ?b 0 (dp_size (um_get void_pack (int k) packs)) = Inr ?b"
      using assms(1) Suc.prems by (simp add: mem_read_def byte_packs_def byte_pack_def)
    have off: "offsets 0 (map length ?bs) ! k = length (concat (take k ?bs))"
      using Suc.prems by (simp add: offsets_nth take_map length_concat)
    have rest: "drop k ?bs = ?b # drop (Suc k) ?bs" using k by (metis Cons_nth_drop_Suc)
    have wr: "mem_write (length (concat (take k ?bs))) ?b (concat (take k ?bs) @ replicate (length (concat (drop k ?bs))) junk) =
        Inr (concat (take (Suc k) ?bs) @ replicate (length (concat (drop (Suc k) ?bs))) junk)"
      unfolding rest using k by (simp add: mem_write_def take_Suc_conv_app_nth)
    show ?case using Suc rd wr by (simp add: run_all_append Let_def off del: take_map drop_map map_map)
  qed simp
  from this [of n] show ?thesis
    unfolding fill_send_def alloc_blocks_bytes using assms(2) send_counts_bytes [OF assms(1)]
    by (simp add: Let_def length_concat comp_def)
qed

lemma fill_send_overflow:
  "\<not> sum_list (send_counts n packs) < 2 ^ 31 \<Longrightarrow> fill_send junk 1 n packs = Inl Int_Overflow"
  by (simp add: fill_send_def alloc_blocks_Suc)

text \<open>What process \<open>p\<close> receives: the pack of each process that gives it one that is not empty.\<close>

definition delivered :: "nat \<Rightarrow> (nat \<Rightarrow> pack_map) \<Rightarrow> nat \<Rightarrow> pack_map" where
  "delivered n packs p =
     map (\<lambda>q. (int q, um_get void_pack (int p) (packs q))) (filter (\<lambda>q. dp_count (um_get void_pack (int p) (packs q)) > 0) [0..<n])"

lemma read_pack_bytes:
  assumes "byte_pack pack" "items = dp_count pack" "off + items \<le> length src" "take items (drop off src) = dp_buffer pack"
    and "items < 2 ^ 31"
  shows "read_pack junk 1 src off items = Inr pack"
  using assms by (cases pack) (simp add: read_pack_def new_pack_def as_int_fits mem_read_def mem_write_def byte_pack_def)

lemma read_block:
  assumes "q < length got" "length buf = sum_list (map length got)"
    "take (map length got ! q) (drop (offsets 0 (map length got) ! q) buf) = got ! q" "byte_pack pack" "dp_buffer pack = got ! q"
    and small: "length buf < 2 ^ 31"
  shows "read_pack junk 1 buf (offsets 0 (map length got) ! q) (map length got ! q) = Inr pack"
proof (rule read_pack_bytes [OF assms(4)])
  show "map length got ! q = dp_count pack" using assms(1,4,5) by (simp add: byte_pack_def)
  have "sum_list (take (Suc q) (map length got)) \<le> sum_list (map length got)"
    by (metis append_take_drop_id le_add1 sum_list_append)
  then show in_buf: "offsets 0 (map length got) ! q + map length got ! q \<le> length buf"
    using assms(1,2) by (simp add: offsets_nth take_Suc_conv_app_nth)
  with small show "map length got ! q < 2 ^ 31" by simp
  show "take (map length got ! q) (drop (offsets 0 (map length got) ! q) buf) = dp_buffer pack"
    using assms(3,5) by simp
qed

lemma alltoallv_specD:
  assumes "alltoallv_spec n ts V" "p < n" "laid_out n ts (R p)"
    and "\<forall>q<n. laid_out n ts (S q)" "\<forall>q<n. fst (snd (R p)) ! q = fst (snd (S q)) ! p"
  shows "length (V ts S R p) = length (fst (R p))"
    "q < n \<Longrightarrow> block ts (V ts S R p, snd (R p)) q = block ts (S q) p"
  using assms unfolding alltoallv_spec_def by blast+

definition recv_counts :: "nat \<Rightarrow> (nat \<Rightarrow> pack_map) \<Rightarrow> nat \<Rightarrow> nat list" where
  "recv_counts n packs p = map (\<lambda>q. dp_count (um_get void_pack (int p) (packs q))) [0..<n]"

lemma recv_counts_eq:
  assumes "alltoall_spec n A" "p < n"
  shows "A (\<lambda>q. send_counts n (packs q)) p = recv_counts n packs p"
  using assms by (simp add: alltoall_spec_def send_counts_def recv_counts_def)

lemma allToAll_delivered:
  assumes "alltoall_spec n A" "alltoallv_spec n 1 V" "\<forall>q<n. byte_packs n (packs q)" "p < n"
    and "\<forall>q<n. sum_list (send_counts n (packs q)) < 2 ^ 31 \<and> sum_list (recv_counts n packs q) < 2 ^ 31"
  shows "allToAll A V junk 1 n packs p = Inr (delivered n packs p)"
proof -
  let ?sent = "\<lambda>q. map (pack_bytes (packs q)) [0..<n]" and ?got = "map (\<lambda>q. pack_bytes (packs q) p) [0..<n]"
  let ?counts = "\<lambda>q. send_counts n (packs q)"
  let ?sends = "map (\<lambda>q. (concat (?sent q), ?counts q, offsets 0 (?counts q))) [0..<n]"
  let ?recvs = "map (\<lambda>q. (replicate (sum_list (recv_counts n packs q)) junk, recv_counts n packs q, offsets 0 (recv_counts n packs q))) [0..<n]"
  let ?S = "\<lambda>q. ?sends ! q" and ?R = "\<lambda>q. ?recvs ! q"
  have fill: "map_all (\<lambda>q. fill_send junk 1 n (packs q)) [0..<n] = Inr ?sends"
    by (rule map_all_ok) (use assms(3,5) fill_send_bytes in simp)
  have alloc: "map_all (\<lambda>q. alloc_blocks junk 1 (A ?counts q)) [0..<n] = Inr ?recvs"
    by (rule map_all_ok) (use assms(5) in \<open>simp add: alloc_blocks_Suc recv_counts_eq [OF assms(1)]\<close>)
  have counts: "?counts q = map length (?sent q)" if "q < n" for q using send_counts_bytes assms(3) that by blast
  have got_counts: "recv_counts n packs p = map length ?got"
    using assms(3,4) by (simp add: recv_counts_def byte_packs_def byte_pack_def)
  have recv: "A ?counts p = map length ?got" using recv_counts_eq [OF assms(1,4), of packs] got_counts by simp
  have send: "\<forall>q<n. laid_out n 1 (?S q)" "\<forall>q<n. fst (snd (?R p)) ! q = fst (snd (?S q)) ! p"
    using assms(4) by (simp_all add: laid_out_def counts length_concat got_counts comp_def)
  have rec: "laid_out n 1 (?R p)" using assms(4) by (simp add: laid_out_def got_counts)
  note V = alltoallv_specD [where S = ?S and R = ?R, OF assms(2,4) rec send]
  let ?buf = "V 1 ?S ?R p"
  have got: "take (map length ?got ! q) (drop (offsets 0 (map length ?got) ! q) ?buf) = ?got ! q" if q: "q < n" for q
  proof -
    have "block 1 (?S q) p = pack_bytes (packs q) p"
      using block_concat [of "?sent q" n p] q assms(4) by (simp add: block_def counts)
    moreover have "block 1 (?buf, snd (?R p)) q = take (map length ?got ! q) (drop (offsets 0 (map length ?got) ! q) ?buf)"
      using assms(4) by (simp add: block_def got_counts)
    ultimately show ?thesis using V(2) [OF q] q by simp
  qed
  have len: "length ?buf = sum_list (map length ?got)" using V(1) assms(4) by (simp add: got_counts)
  have small: "length ?buf < 2 ^ 31" using assms(4,5) unfolding len got_counts [symmetric] by blast
  have pack: "read_pack junk 1 ?buf (offsets 0 (map length ?got) ! q) (map length ?got ! q) = Inr (um_get void_pack (int p) (packs q))"
    if q: "q < n" for q
    by (rule read_block [OF _ len got [OF q] _ _ small]) (use assms(3,4) q in \<open>simp_all add: byte_packs_def\<close>)
  have "filter (\<lambda>i. map length ?got ! i > 0) [0..<n] = filter (\<lambda>q. dp_count (um_get void_pack (int p) (packs q)) > 0) [0..<n]"
    by (rule filter_cong [OF refl]) (use assms(3,4) in \<open>auto simp: byte_packs_def byte_pack_def\<close>)
  then have imported: "import_packs junk 1 n (map length ?got) (offsets 0 (map length ?got)) ?buf = Inr (delivered n packs p)"
    unfolding import_packs_def delivered_def by (simp only:) (rule map_all_ok, use pack in auto)
  have layout: "snd (snd (?R p)) = offsets 0 (map length ?got)" using assms(4) by (simp add: got_counts)
  show ?thesis
    unfolding allToAll_def fill and_then.simps Let_def alloc recv layout by (rule imported)
qed

lemma allToAll_overflow:
  assumes "alltoall_spec n A" "q < n" "\<not> (sum_list (send_counts n (packs q)) < 2 ^ 31 \<and> sum_list (recv_counts n packs q) < 2 ^ 31)"
  shows "\<exists>e. allToAll A V junk 1 n packs p = Inl e"
proof (cases "map_all (\<lambda>q. fill_send junk 1 n (packs q)) [0..<n]")
  case (Inl e)
  then show ?thesis by (simp add: allToAll_def)
next
  case (Inr sends)
  have "sum_list (send_counts n (packs q)) < 2 ^ 31"
  proof (rule ccontr)
    assume "\<not> sum_list (send_counts n (packs q)) < 2 ^ 31"
    from fill_send_overflow [OF this, of junk] assms(2)
    obtain e where "map_all (\<lambda>q. fill_send junk 1 n (packs q)) [0..<n] = Inl e"
      using map_all_fails [of q "[0..<n]" "\<lambda>q. fill_send junk 1 n (packs q)" Int_Overflow] by auto
    with Inr show False by simp
  qed
  with assms(3) have "alloc_blocks junk 1 (A (\<lambda>q. send_counts n (packs q)) q) = Inl Int_Overflow"
    by (simp add: alloc_blocks_Suc recv_counts_eq [OF assms(1,2)])
  with assms(2) obtain e where "map_all (\<lambda>q'. alloc_blocks junk 1 (A (\<lambda>q. send_counts n (packs q)) q')) [0..<n] = Inl e"
    using map_all_fails [of q "[0..<n]" "\<lambda>q'. alloc_blocks junk 1 (A (\<lambda>q. send_counts n (packs q)) q')" Int_Overflow] by auto
  then show ?thesis unfolding allToAll_def Inr and_then.simps Let_def by simp
qed

section \<open>The typed exchange\<close>

definition text_pack :: "byte list \<Rightarrow> data_pack" where
  "text_pack str = \<lparr>dp_size = length str, dp_count = length str, dp_buffer = str\<rparr>"

lemma pack_text_eq: "length str < 2 ^ 31 \<Longrightarrow> pack_text junk str = Inr (text_pack str)"
  by (simp add: pack_text_def new_pack_def as_int_fits mem_write_def text_pack_def)

text \<open>The pack of a longer text is not allocated, or it is too small for the copy.\<close>

lemma pack_text_fails:
  assumes "\<not> length str < 2 ^ 31"
  shows "\<exists>e. pack_text junk str = Inl e"
proof (cases "length str mod 2 ^ 32 < 2 ^ 31")
  case True
  then have "length str mod 2 ^ 32 < length str" using assms by linarith
  with True show ?thesis by (simp add: pack_text_def new_pack_def as_int_def mem_write_def Let_def)
qed (simp add: pack_text_def as_int_def Let_def)

lemma export_texts_eq:
  assumes "\<forall>(r, xs)\<in>set packs. length (dump xs) < 2 ^ 31"
  shows "export_texts junk dump packs = Inr (map (\<lambda>(r, xs). (r, text_pack (dump xs))) packs)"
  unfolding export_texts_def by (rule map_all_ok) (use assms in \<open>auto simp: pack_text_eq simp del: and_then_Inr_iff\<close>)

lemma um_get_text:
  "um_get void_pack r (map (\<lambda>(r, xs). (r, text_pack (dump xs))) packs) =
     (case map_of packs r of None \<Rightarrow> void_pack | Some xs \<Rightarrow> text_pack (dump xs))"
  by (induction packs) (auto simp: um_get_def)

text \<open>
  The texts fit: each of them, and what a process sends and receives together, has less than 2^31 bytes.
\<close>

definition text_size :: "('x list \<Rightarrow> byte list) \<Rightarrow> 'x packs \<Rightarrow> nat \<Rightarrow> nat" where
  "text_size dump packs r = (case map_of packs (int r) of None \<Rightarrow> 0 | Some xs \<Rightarrow> length (dump xs))"

definition texts_fit :: "('x list \<Rightarrow> byte list) \<Rightarrow> nat \<Rightarrow> (nat \<Rightarrow> 'x packs) \<Rightarrow> bool" where
  "texts_fit dump n exports \<longleftrightarrow>
     (\<forall>q<n. (\<forall>(r, xs)\<in>set (exports q). length (dump xs) < 2 ^ 31) \<and>
        sum_list (map (text_size dump (exports q)) [0..<n]) < 2 ^ 31 \<and>
        sum_list (map (\<lambda>s. text_size dump (exports s) q) [0..<n]) < 2 ^ 31)"

abbreviation text_packs_of :: "('x list \<Rightarrow> byte list) \<Rightarrow> 'x packs \<Rightarrow> pack_map" where
  "text_packs_of dump packs \<equiv> map (\<lambda>(r, xs). (r, text_pack (dump xs))) packs"

lemma text_count: "dp_count (um_get void_pack (int r) (text_packs_of dump packs)) = text_size dump packs r"
  unfolding um_get_text by (simp add: void_pack_def text_pack_def text_size_def split: option.split)

lemma text_counts:
  "send_counts n (text_packs_of dump packs) = map (text_size dump packs) [0..<n]"
  "recv_counts n (\<lambda>q. map (\<lambda>q. text_packs_of dump (exports q)) [0..<n] ! q) p = map (\<lambda>s. text_size dump (exports s) p) [0..<n]"
  by (simp_all add: send_counts_def recv_counts_def text_count)

lemma text_byte_packs: "byte_packs n (text_packs_of dump packs)"
  unfolding byte_packs_def um_get_text by (simp add: byte_pack_def void_pack_def text_pack_def split: option.split)

lemma texts_exported:
  assumes "texts_fit dump n exports"
  shows "map_all (\<lambda>q. export_texts junk dump (exports q)) [0..<n] = Inr (map (\<lambda>q. text_packs_of dump (exports q)) [0..<n])"
  by (rule map_all_ok, rule export_texts_eq) (use assms in \<open>simp add: texts_fit_def\<close>)

lemma texts_delivered:
  assumes "alltoall_spec n A" "alltoallv_spec n 1 V" "texts_fit dump n exports" "p < n"
  shows "allToAll A V junk 1 n (\<lambda>q. map (\<lambda>q. text_packs_of dump (exports q)) [0..<n] ! q) p =
           Inr (delivered n (\<lambda>q. map (\<lambda>q. text_packs_of dump (exports q)) [0..<n] ! q) p)"
  by (rule allToAll_delivered [OF assms(1,2) _ assms(4)])
    (use assms(3) in \<open>simp_all add: text_byte_packs text_counts texts_fit_def\<close>)

text \<open>
  Property C9: over an MPI that does what its standard says, and a JSON library that reads back what it printed and
  never prints the empty text, \<open>TypedMpi::migrate\<close> delivers exactly the lists that the processes export to each other,
  each under the rank of its sender, without any access outside of a buffer, if the texts fit into the
  \<open>int\<close> counts of MPI: each text, and the texts a process sends or receives together, have less than 2^31 bytes.
\<close>

theorem typed_migrate_refines:
  assumes "alltoall_spec n A" "alltoallv_spec n 1 V" "\<And>xs. dump xs \<noteq> []" "\<And>xs. parse (dump xs) = xs" "p < n"
    and "texts_fit dump n exports"
  shows "typed_migrate A V junk dump parse n exports p =
           Inr (migrate (map int [0..<n]) (\<lambda>q. exports (nat q)) (int p))"
proof -
  let ?text = "\<lambda>q. text_packs_of dump (exports q)"
  let ?texts = "map ?text [0..<n]"
  note texts = texts_exported [OF assms(6)] and run = texts_delivered [OF assms(1,2,6,5), of junk]
  have "import_texts parse (delivered n (\<lambda>q. ?texts ! q) p) = migrate (map int [0..<n]) (\<lambda>q. exports (nat q)) (int p)"
  proof -
    have key: "dp_count (um_get void_pack (int p) (?text q)) > 0 \<longleftrightarrow> int p \<in> um_keys (exports q)" for q
    proof (cases "map_of (exports q) (int p)")
      case None
      then show ?thesis unfolding um_get_text by (simp add: void_pack_def map_of_eq_None_iff)
    next
      case (Some xs)
      then have "int p \<in> um_keys (exports q)" by (metis map_of_None option.distinct(1))
      with Some assms(3) show ?thesis unfolding um_get_text by (simp add: text_pack_def)
    qed
    have val: "parse (take (dp_count k) (dp_buffer k)) = um_get [] (int p) (exports q)"
      if "k = um_get void_pack (int p) (?text q)" "int p \<in> um_keys (exports q)" for q k
    proof -
      from that(2) obtain xs where "map_of (exports q) (int p) = Some xs" by (metis map_of_eq_None_iff option.exhaust)
      with assms(4) show ?thesis unfolding that(1) um_get_text by (simp add: text_pack_def um_get_def)
    qed
    have ranks: "filter (\<lambda>q. int p \<in> um_keys (exports (nat q))) (map int [0..<n]) = map int (filter (\<lambda>q. int p \<in> um_keys (exports q)) [0..<n])"
      by (simp add: filter_map comp_def)
    have "filter (\<lambda>q. dp_count (um_get void_pack (int p) (?texts ! q)) > 0) [0..<n] = filter (\<lambda>q. int p \<in> um_keys (exports q)) [0..<n]"
      by (rule filter_cong [OF refl]) (simp add: key)
    then show ?thesis
      unfolding import_texts_def delivered_def migrate_def ranks by (auto simp: val)
  qed
  with run show ?thesis unfolding typed_migrate_def texts by simp
qed

text \<open>A communicator that moves the blocks as the standard says.\<close>

definition transposed :: "nat \<Rightarrow> alltoall" where
  "transposed n S p = map (\<lambda>q. S q ! p) [0..<n]"

definition exchanged :: "nat \<Rightarrow> alltoallv" where
  "exchanged n type_size S R p = concat (map (\<lambda>q. block type_size (S q) p) [0..<n])"

lemma transposed_spec: "alltoall_spec n (transposed n)"
  by (simp add: alltoall_spec_def transposed_def)

lemma offsets_scaled: "offsets (k * c) (map ((*) k) cs) = map ((*) k) (offsets c cs)"
  by (induction c cs rule: offsets.induct) (simp_all flip: distrib_left)

lemma block_length:
  assumes "laid_out n ts b" "i < n"
  shows "length (block ts b i) = ts * fst (snd b) ! i"
proof -
  obtain buffer cs ds where b: "b = (buffer, cs, ds)" by (cases b)
  have "ts * sum_list (take (Suc i) cs) \<le> ts * sum_list cs"
    by (metis append_take_drop_id le_add1 mult_le_mono2 sum_list_append)
  with assms show ?thesis by (simp add: b block_def laid_out_def offsets_nth take_Suc_conv_app_nth distrib_left)
qed

lemma exchanged_spec: "alltoallv_spec n ts (exchanged n)"
  unfolding alltoallv_spec_def
proof (intro allI impI)
  fix S R :: "nat \<Rightarrow> blocks" and p
  assume p: "p < n" and S: "\<forall>q<n. laid_out n ts (S q) \<and> fst (snd (R p)) ! q = fst (snd (S q)) ! p" and R: "laid_out n ts (R p)"
  let ?bs = "map (\<lambda>q. block ts (S q) p) [0..<n]"
  obtain buffer cs ds where r: "R p = (buffer, cs, ds)" by (cases "R p")
  have cs: "length cs = n" "ds = offsets 0 cs" "length buffer = ts * sum_list cs" using R by (simp_all add: r laid_out_def)
  have "length (block ts (S q) p) = ts * cs ! q" if "q < n" for q using block_length [of n ts "S q" p] S p that by (simp add: r)
  then have lens: "map length ?bs = map ((*) ts) cs" by (intro nth_equalityI) (simp_all add: cs(1))
  have "length (concat ?bs) = ts * sum_list cs" unfolding length_concat lens by (simp add: sum_list_const_mult)
  moreover have "block ts (concat ?bs, snd (R p)) q = block ts (S q) p" if q: "q < n" for q
  proof -
    have "ts * ds ! q = offsets 0 (map length ?bs) ! q" unfolding lens cs(2) using offsets_scaled [of ts 0 cs] q cs(1) by simp
    moreover have "ts * cs ! q = length (?bs ! q)" using arg_cong [OF lens, of "\<lambda>xs. xs ! q"] q cs(1) by simp
    moreover have "block ts (concat ?bs, snd (R p)) q = take (ts * cs ! q) (drop (ts * ds ! q) (concat ?bs))"
      by (simp add: block_def r)
    ultimately show ?thesis using block_concat [of ?bs n q] q by simp
  qed
  ultimately show "length (exchanged n ts S R p) = length (fst (R p)) \<and>
      (\<forall>q<n. block ts (exchanged n ts S R p, snd (R p)) q = block ts (S q) p)"
    by (simp add: exchanged_def r cs(3))
qed

theorem typed_migrate_refines_witness:
  "typed_migrate (transposed 2) (exchanged 2) 5 (\<lambda>xs. 0 # xs) tl 2 (\<lambda>q. if q = 0 then [(1, [7, 8])] else [(1, []), (0, [9])]) 1 =
     Inr [(0, [7, 8]), (1, [])]"
proof -
  let ?exports = "\<lambda>q. if q = 0 then [(1, [7, 8])] else [(1, []), (0, [9])]"
  have "texts_fit (\<lambda>xs. 0 # xs) 2 ?exports" by (simp add: texts_fit_def text_size_def less_2_cases_iff upt_rec)
  from typed_migrate_refines [OF transposed_spec exchanged_spec _ _ _ this, of tl 1 5]
  show ?thesis by (simp add: migrate_def um_get_def upt_rec)
qed

text \<open>
  Property C29: the bound on the texts is exact. If one text has 2^31 bytes or more, or if the texts that one process
  sends or receives together have, then \<open>TypedMpi::migrate\<close> does not return normally on any process: a pack is too small for
  the text that is copied into it or cannot be allocated, or a sum of counts overflows; otherwise it returns.
\<close>

theorem typed_migrate_limit:
  assumes "alltoall_spec n A" "alltoallv_spec n 1 V" "p < n"
  shows "(\<exists>packs. typed_migrate A V junk dump parse n exports p = Inr packs) \<longleftrightarrow> texts_fit dump n exports"
proof
  assume fit: "texts_fit dump n exports"
  show "\<exists>packs. typed_migrate A V junk dump parse n exports p = Inr packs"
    unfolding typed_migrate_def texts_exported [OF fit] and_then.simps texts_delivered [OF assms(1,2) fit assms(3)] by blast
next
  assume "\<exists>packs. typed_migrate A V junk dump parse n exports p = Inr packs"
  then obtain texts packs where texts: "map_all (\<lambda>q. export_texts junk dump (exports q)) [0..<n] = Inr texts"
    and packs: "allToAll A V junk 1 n (\<lambda>q. texts ! q) p = Inr packs" by (auto simp: typed_migrate_def)
  have short: "\<forall>(r, xs)\<in>set (exports q). length (dump xs) < 2 ^ 31" if q: "q < n" for q
  proof (rule ccontr)
    assume "\<not> ?thesis"
    then obtain r xs where xs: "(r, xs) \<in> set (exports q)" "\<not> length (dump xs) < 2 ^ 31" by blast
    obtain e where "pack_text junk (dump xs) = Inl e" using pack_text_fails [OF xs(2)] by blast
    then obtain e where "export_texts junk dump (exports q) = Inl e"
      using map_all_fails [OF xs(1), of "\<lambda>(r, xs). and_then (pack_text junk (dump xs)) (\<lambda>pack. Inr (r, pack))" e]
      by (auto simp: export_texts_def)
    then show False
      using map_all_fails [of q "[0..<n]" "\<lambda>q. export_texts junk dump (exports q)" e] texts q by auto
  qed
  have "map_all (\<lambda>q. export_texts junk dump (exports q)) [0..<n] = Inr (map (\<lambda>q. text_packs_of dump (exports q)) [0..<n])"
    by (rule map_all_ok, rule export_texts_eq) (use short in simp)
  with texts have eq: "texts = map (\<lambda>q. text_packs_of dump (exports q)) [0..<n]" by simp
  have "sum_list (send_counts n (texts ! q)) < 2 ^ 31 \<and> sum_list (recv_counts n (\<lambda>q. texts ! q) q) < 2 ^ 31" if "q < n" for q
    using allToAll_overflow [OF assms(1) that, of "\<lambda>q. texts ! q" V junk p] packs by auto
  then show "texts_fit dump n exports" using short unfolding texts_fit_def eq by (simp add: text_counts)
qed

theorem typed_migrate_limit_witness:
  "\<not> (\<exists>packs. typed_migrate (transposed 1) (exchanged 1) 5 (\<lambda>x. replicate (2 ^ 31) 7) (\<lambda>_. []) 1 (\<lambda>q. [(0, [True])]) 0 = Inr packs)"
  unfolding typed_migrate_limit [OF transposed_spec exchanged_spec zero_less_one] by (simp add: texts_fit_def)

section \<open>Gathering\<close>

lemma gatherv_specD:
  assumes "gatherv_spec n ts V" "laid_out n ts R" "\<forall>q<n. length (fst (S q)) = ts * snd (S q)" "\<forall>q<n. fst (snd R) ! q = snd (S q)"
  shows "length (V ts S R) = length (fst R)" "q < n \<Longrightarrow> block ts (V ts S R, snd R) q = fst (S q)"
  using assms unfolding gatherv_spec_def by blast+

lemma gathered_bytes:
  assumes "gatherv_spec n 1 V" "\<forall>q<n. byte_pack (data q)" "counts = map (\<lambda>q. dp_count (data q)) [0..<n]" "sum_list counts < 2 ^ 31"
  shows "gathered V junk 1 n data (map (\<lambda>q. dp_buffer (data q)) [0..<n]) counts = Inr (map data [0..<n])"
proof -
  let ?got = "map (\<lambda>q. dp_buffer (data q)) [0..<n]"
  have counts: "counts = map length ?got" using assms(2,3) by (simp add: byte_pack_def)
  let ?S = "\<lambda>q. (?got ! q, dp_count (data q))" and ?R = "(replicate (sum_list counts) junk, counts, offsets 0 counts)"
  have rec: "laid_out n 1 ?R" by (simp add: laid_out_def counts)
  have out: "\<forall>q<n. length (fst (?S q)) = 1 * snd (?S q)" "\<forall>q<n. fst (snd ?R) ! q = snd (?S q)"
    using assms(2,3) by (simp_all add: byte_pack_def)
  note V = gatherv_specD [OF assms(1) rec out]
  let ?buf = "V 1 ?S ?R"
  have got: "take (map length ?got ! q) (drop (offsets 0 (map length ?got) ! q) ?buf) = ?got ! q" if q: "q < n" for q
  proof -
    have "block 1 (?buf, snd ?R) q = take (map length ?got ! q) (drop (offsets 0 (map length ?got) ! q) ?buf)"
      by (simp add: block_def counts)
    with V(2) [OF q] show ?thesis by simp
  qed
  have len: "length ?buf = sum_list (map length ?got)" using V(1) by (simp add: counts)
  have small: "length ?buf < 2 ^ 31" using assms(4) unfolding len counts [symmetric] .
  have "map_all (\<lambda>i. read_pack junk 1 ?buf (offsets 0 (map length ?got) ! i) (map length ?got ! i)) [0..<n] = Inr (map data [0..<n])"
  proof (rule map_all_ok)
    fix q assume "q \<in> set [0..<n]"
    then have q: "q < n" by simp
    show "read_pack junk 1 ?buf (offsets 0 (map length ?got) ! q) (map length ?got ! q) = Inr (data q)"
      by (rule read_block [OF _ len got [OF q] _ _ small]) (use assms(2) q in simp_all)
  qed
  then show ?thesis using assms(4) unfolding gathered_def alloc_blocks_bytes by (simp add: Let_def counts)
qed

lemma send_copies:
  assumes "\<forall>q<n. byte_pack (data q) \<and> dp_count (data q) < 2 ^ 31"
  shows "map_all (\<lambda>q. send_copy junk 1 (data q)) [0..<n] = Inr (map (\<lambda>q. dp_buffer (data q)) [0..<n])"
  by (rule map_all_ok) (use assms in \<open>simp add: send_copy_def int_result_def mem_read_def mem_write_def byte_pack_def\<close>)

lemma text_packs:
  assumes "\<forall>q<n. length (dump (data q)) < 2 ^ 31"
  shows "map_all (\<lambda>q. pack_text junk (dump (data q))) [0..<n] = Inr (map (\<lambda>q. text_pack (dump (data q))) [0..<n])"
  by (rule map_all_ok) (use assms in \<open>simp add: pack_text_eq\<close>)

lemma text_pack_byte: "byte_pack (text_pack str)"
  by (simp add: byte_pack_def text_pack_def)

text \<open>
  Property C28: every process receives the values of all the processes in the order of their ranks from the
  typed \<open>allGather\<close>, and only the root receives them from the typed \<open>gather\<close>, the others an empty vector, if the printed
  values have less than 2^31 bytes together.
\<close>

theorem typed_gather_all:
  assumes "gather_spec n G" "gatherv_spec n 1 V" "\<And>x. parse (dump x) = x"
    and "sum_list (map (\<lambda>q. length (dump (data q))) [0..<n]) < 2 ^ 31"
  shows "typed_allGather G V junk dump parse n data = Inr (map data [0..<n]) \<and>
         typed_gather G V junk dump parse n root data p = Inr (if p = root then map data [0..<n] else [])"
proof -
  let ?texts = "map (\<lambda>q. text_pack (dump (data q))) [0..<n]" and ?counts = "map (\<lambda>q. length (dump (data q))) [0..<n]"
  have each: "\<forall>q<n. length (dump (data q)) < 2 ^ 31"
  proof (intro allI impI)
    fix q assume "q < n"
    then have "length (dump (data q)) \<in> set ?counts" by simp
    then have "length (dump (data q)) \<le> sum_list ?counts" by (rule member_le_sum_list) simp
    with assms(4) show "length (dump (data q)) < 2 ^ 31" by simp
  qed
  note texts = text_packs [where dump = dump and data = data and junk = junk, OF each]
  have copies: "map_all (\<lambda>q. send_copy junk 1 (?texts ! q)) [0..<n] = Inr (map (\<lambda>q. dp_buffer (?texts ! q)) [0..<n])"
    by (rule send_copies) (use each in \<open>simp add: byte_pack_def text_pack_def\<close>)
  have "gathered V junk 1 n (\<lambda>q. ?texts ! q) (map (\<lambda>q. dp_buffer (?texts ! q)) [0..<n]) ?counts = Inr (map (\<lambda>q. ?texts ! q) [0..<n])"
    by (rule gathered_bytes [OF assms(2)]) (use assms(4) in \<open>simp_all add: byte_pack_def text_pack_def\<close>)
  moreover have "G (\<lambda>q. dp_count (?texts ! q)) = ?counts" "G (\<lambda>q. dp_size (?texts ! q)) = ?counts"
    using assms(1) by (simp_all add: gather_spec_def text_pack_def)
  moreover have "map (text_value parse) (map (\<lambda>q. ?texts ! q) [0..<n]) = map data [0..<n]"
    using assms(3) by (simp add: text_value_def text_pack_def)
  ultimately show ?thesis
    unfolding typed_allGather_def typed_gather_def allGather_def gather_packs_def texts and_then.simps copies by simp
qed

text \<open>A process that receives the blocks one after the other.\<close>

definition in_order :: "nat \<Rightarrow> gatherv" where
  "in_order n type_size S R = concat (map (\<lambda>q. fst (S q)) [0..<n])"

lemma in_order_spec: "gatherv_spec n 1 (in_order n)"
  unfolding gatherv_spec_def
proof (intro allI impI)
  fix S :: "nat \<Rightarrow> byte list \<times> nat" and R :: blocks
  assume S: "\<forall>q<n. length (fst (S q)) = 1 * snd (S q) \<and> fst (snd R) ! q = snd (S q)" and R: "laid_out n 1 R"
  let ?bs = "map (\<lambda>q. fst (S q)) [0..<n]"
  obtain buffer cs ds where r: "R = (buffer, cs, ds)" by (cases R)
  have cs: "length cs = n" "ds = offsets 0 cs" "length buffer = sum_list cs" using R by (simp_all add: r laid_out_def)
  have lens: "map length ?bs = cs" by (rule nth_equalityI) (use S cs(1) in \<open>auto simp: r\<close>)
  have "length (concat ?bs) = sum_list cs" unfolding length_concat lens ..
  moreover have "block 1 (concat ?bs, snd R) q = fst (S q)" if q: "q < n" for q
  proof -
    have "block 1 (concat ?bs, snd R) q = take (cs ! q) (drop (ds ! q) (concat ?bs))" by (simp add: block_def r)
    moreover have "cs ! q = length (?bs ! q)" using S q by (simp add: r)
    ultimately show ?thesis using block_concat [of ?bs n q] q unfolding lens cs(2) by simp
  qed
  ultimately show "length (in_order n 1 S R) = length (fst R) \<and> (\<forall>q<n. block 1 (in_order n 1 S R, snd R) q = fst (S q))"
    by (simp add: in_order_def r cs(3))
qed

theorem typed_gather_all_witness:
  "typed_allGather (\<lambda>c. map c [0..<2]) (in_order 2) 5 (\<lambda>x. [x, x]) hd 2 (\<lambda>q. of_nat q + 7) = Inr [7, 8]"
proof -
  have "gather_spec 2 (\<lambda>c. map c [0..<2])" by (simp add: gather_spec_def)
  from typed_gather_all [OF this in_order_spec, of hd "\<lambda>x. [x, x]" "\<lambda>q. of_nat q + 7" 5]
  show ?thesis by (simp add: upt_rec)
qed

end
