(* ===== verification/Load_Balancing.thy ===== *)
theory Load_Balancing
  imports Distribution_Props Job_Scheduler_Props
begin

text \<open>
  The load balancers that the library implements itself, \<open>src/fpmas/graph/random_load_balancing.h\<close> and
  \<open>scheduled_load_balancing.h\<close>, and \<open>DistributedGraph::balance\<close>. The random generator and the distribution of the
  standard library are the argument \<open>draw\<close>, which returns a value and the next state of the generator.
\<close>

section \<open>The balancers\<close>

type_synonym 'n node_map = "(dist_id \<times> 'n) list"

type_synonym ('n, 'g) balancer = "'n node_map \<Rightarrow> partition \<Rightarrow> 'g \<Rightarrow> partition \<times> 'g"

text \<open>\<open>RandomLoadBalancing::balance\<close>: a value is drawn for every node, also for the fixed ones.\<close>

fun random_insert :: "('g \<Rightarrow> int \<times> 'g) \<Rightarrow> 'n node_map \<Rightarrow> partition \<Rightarrow> 'g \<Rightarrow> partition \<times> 'g" where
  "random_insert draw [] part g = (part, g)"
| "random_insert draw (node # nodes) part g =
     (case draw g of (r, g) \<Rightarrow> random_insert draw nodes (um_insert (fst node) r part) g)"

definition random_balance :: "('g \<Rightarrow> int \<times> 'g) \<Rightarrow> ('n, 'g) balancer" where
  "random_balance draw nodes fixed_vertices g = random_insert draw nodes fixed_vertices g"

definition random_balance_all :: "('g \<Rightarrow> int \<times> 'g) \<Rightarrow> 'n node_map \<Rightarrow> 'g \<Rightarrow> partition \<times> 'g" where
  "random_balance_all draw nodes g = random_balance draw nodes [] g"

text \<open>
  \<open>ScheduledLoadBalancing::balance\<close>. \<open>job_of\<close> is the job behind a reference, and \<open>node_of\<close> the node of a task that is a
  \<open>NodeTask\<close>.
\<close>

definition add_task_node :: "('t \<Rightarrow> (dist_id \<times> 'n) option) \<Rightarrow> 't task \<Rightarrow> 'n node_map \<Rightarrow> 'n node_map" where
  "add_task_node node_of t nodes =
     (case t of VoidTask \<Rightarrow> nodes
      | Task u \<Rightarrow> (case node_of u of None \<Rightarrow> nodes | Some node \<Rightarrow> um_set (fst node) (snd node) nodes))"

fun balance_jobs ::
  "('n, 'g) balancer \<Rightarrow> ('t \<Rightarrow> (dist_id \<times> 'n) option) \<Rightarrow> 't job list \<Rightarrow> 'n node_map \<Rightarrow> partition \<Rightarrow> 'g \<Rightarrow> partition \<times> 'g" where
  "balance_jobs lb node_of [] nodes fixed_nodes g = (fixed_nodes, g)"
| "balance_jobs lb node_of (job # jobs) nodes fixed_nodes g =
     (let nodes = fold (add_task_node node_of) (job_tasks job) nodes
      in case lb nodes fixed_nodes g of (fixed_nodes, g) \<Rightarrow> balance_jobs lb node_of jobs nodes fixed_nodes g)"

definition scheduled_balance ::
  "('n, 'g) balancer \<Rightarrow> ('t \<Rightarrow> (dist_id \<times> 'n) option) \<Rightarrow> ('j \<Rightarrow> 't job) \<Rightarrow> 'j scheduler \<Rightarrow> date \<Rightarrow> 'n node_map \<Rightarrow> 'g \<Rightarrow>
   sched_fault + partition \<times> 'g" where
  "scheduled_balance lb node_of job_of sched current nodes g =
     and_then (to_time_step (trunc (to_float (current + 1)))) (\<lambda>step.
     and_then (scheduler_build step sched empty_epoch) (\<lambda>epoch.
       case balance_jobs lb node_of (map job_of (ep_jobs epoch)) [] [] g of (fixed_nodes, g) \<Rightarrow>
         Inr (lb nodes fixed_nodes g)))"

text \<open>\<open>DistributedGraph::balance\<close>, with the partition that the balancer of each process returns for its local nodes.\<close>

definition balance_graph ::
  "((int \<Rightarrow> ('d, 'l) dgraph) \<Rightarrow> graph_fault + (int \<Rightarrow> ('d, 'l) dgraph)) \<Rightarrow>
   ((int \<Rightarrow> ('d, 'l) dgraph) \<Rightarrow> graph_fault + (int \<Rightarrow> ('d, 'l) dgraph)) \<Rightarrow>
   int \<Rightarrow> ('d \<Rightarrow> 'd) \<Rightarrow> int list \<Rightarrow> (int \<Rightarrow> ptr node_map \<Rightarrow> partition) \<Rightarrow> (int \<Rightarrow> ('d, 'l) dgraph) \<Rightarrow> graph_fault + (int \<Rightarrow> ('d, 'l) dgraph)" where
  "balance_graph sync_links sync_data junk light ranks lb S =
     and_then (sync_links S) (\<lambda>S.
     and_then (distribute_nodes junk light ranks (\<lambda>p. lb p (local_nodes (g_loc (S p)))) S) sync_data)"

section \<open>The contract of a balancer\<close>

text \<open>A balancer gives a process to every node and keeps the fixed ones where they are.\<close>

locale fixed_vertices_lb =
  fixes lb :: "('n, 'g) balancer"
  assumes covers: "um_keys (fst (lb nodes fixed g)) = um_keys fixed \<union> um_keys nodes"
    and keeps: "i \<in> um_keys fixed \<Longrightarrow> map_of (fst (lb nodes fixed g)) i = map_of fixed i"
    and unique: "um_wf fixed \<Longrightarrow> um_wf (fst (lb nodes fixed g))"

definition task_nodes :: "('t \<Rightarrow> (dist_id \<times> 'n) option) \<Rightarrow> 't task list \<Rightarrow> dist_id set" where
  "task_nodes node_of ts = {i. \<exists>t n. Task t \<in> set ts \<and> node_of t = Some (i, n)}"

lemma keys_task_nodes: "um_keys (fold (add_task_node node_of) ts nodes) = task_nodes node_of ts \<union> um_keys nodes"
proof (induction ts arbitrary: nodes)
  case (Cons t ts)
  have "um_keys (add_task_node node_of t nodes) = task_nodes node_of [t] \<union> um_keys nodes"
    by (auto simp: add_task_node_def task_nodes_def split: task.split option.split)
  moreover have "task_nodes node_of (t # ts) = task_nodes node_of [t] \<union> task_nodes node_of ts" by (auto simp: task_nodes_def)
  ultimately show ?case using Cons by auto
qed (simp add: task_nodes_def)

lemma balance_jobs_append:
  "balance_jobs lb node_of (xs @ ys) nodes fixed g =
     (case balance_jobs lb node_of xs nodes fixed g of (fixed, g) \<Rightarrow>
        balance_jobs lb node_of ys (fold (add_task_node node_of) (concat (map job_tasks xs)) nodes) fixed g)"
  by (induction xs arbitrary: nodes fixed g) (simp_all add: Let_def split: prod.split)

lemma task_nodes_concat: "task_nodes node_of (concat (map job_tasks jobs)) = (\<Union>job\<in>set jobs. task_nodes node_of (job_tasks job))"
  by (auto simp: task_nodes_def)

context fixed_vertices_lb
begin

text \<open>Balancing the jobs one after the other covers their nodes, and what a job fixed stays.\<close>

lemma jobs_partition:
  assumes "balance_jobs lb node_of jobs nodes fixed g = (part, g')" "um_wf fixed" "um_keys nodes \<subseteq> um_keys fixed"
  shows "um_keys part = um_keys fixed \<union> (\<Union>job\<in>set jobs. task_nodes node_of (job_tasks job)) \<and> um_wf part \<and>
         (\<forall>i\<in>um_keys fixed. map_of part i = map_of fixed i)"
  using assms
proof (induction jobs arbitrary: nodes fixed g)
  case (Cons job jobs)
  let ?nodes = "fold (add_task_node node_of) (job_tasks job) nodes"
  obtain p1 g1 where p1: "lb ?nodes fixed g = (p1, g1)" by (cases "lb ?nodes fixed g")
  have keys: "um_keys p1 = um_keys fixed \<union> task_nodes node_of (job_tasks job)"
    using covers [of ?nodes fixed g] Cons.prems(3) by (auto simp: p1 keys_task_nodes)
  have step: "balance_jobs lb node_of jobs ?nodes p1 g1 = (part, g')" using Cons.prems(1) by (simp add: p1 Let_def)
  have wf: "um_wf p1" using unique [of fixed ?nodes g] Cons.prems(2) by (simp add: p1)
  have sub: "um_keys ?nodes \<subseteq> um_keys p1" unfolding keys keys_task_nodes using Cons.prems(3) by blast
  have same: "map_of p1 i = map_of fixed i" if "i \<in> um_keys fixed" for i using keeps [OF that, of ?nodes g] by (simp add: p1)
  from Cons.IH [OF step wf sub] show ?case unfolding keys using same by auto
qed simp

text \<open>What some jobs got is not changed by the jobs after them.\<close>

lemma jobs_extend:
  assumes "balance_jobs lb node_of xs [] [] g = (mid, g1)" "balance_jobs lb node_of (xs @ ys) [] [] g = (part, g')"
    and "i \<in> um_keys mid"
  shows "map_of part i = map_of mid i"
proof -
  let ?nodes = "fold (add_task_node node_of) (concat (map job_tasks xs)) []"
  note J = jobs_partition [OF assms(1)]
  have "balance_jobs lb node_of ys ?nodes mid g1 = (part, g')" using assms(2) by (simp add: balance_jobs_append assms(1))
  from jobs_partition [OF this] J assms(3) show ?thesis by (auto simp: keys_task_nodes task_nodes_concat)
qed

lemma scheduled_partition:
  assumes "to_time_step (trunc (to_float (current + 1))) = Inr step" "scheduler_build step sched empty_epoch = Inr epoch"
    and "ep_jobs epoch = before @ after" "balance_jobs lb node_of (map job_of before) [] [] g = (mid, g1)"
  shows "um_keys mid = (\<Union>j\<in>set before. task_nodes node_of (job_tasks (job_of j))) \<and>
         (\<exists>part g'. scheduled_balance lb node_of job_of sched current nodes g = Inr (part, g') \<and> um_wf part \<and>
           um_keys part = (\<Union>j\<in>set (ep_jobs epoch). task_nodes node_of (job_tasks (job_of j))) \<union> um_keys nodes \<and>
           (\<forall>i\<in>um_keys mid. map_of part i = map_of mid i))"
proof -
  obtain fixed g2 where jobs: "balance_jobs lb node_of (map job_of (ep_jobs epoch)) [] [] g = (fixed, g2)"
    by (cases "balance_jobs lb node_of (map job_of (ep_jobs epoch)) [] [] g")
  obtain part g' where part: "lb nodes fixed g2 = (part, g')" by (cases "lb nodes fixed g2")
  have mid: "um_keys mid = (\<Union>j\<in>set before. task_nodes node_of (job_tasks (job_of j)))"
    using jobs_partition [OF assms(4)] by simp
  have all: "um_keys fixed = (\<Union>j\<in>set (ep_jobs epoch). task_nodes node_of (job_tasks (job_of j)))" "um_wf fixed"
    using jobs_partition [OF jobs] by simp_all
  have keep: "map_of part i = map_of mid i" if i: "i \<in> um_keys mid" for i
  proof -
    have "map_of fixed i = map_of mid i"
      by (rule jobs_extend [OF assms(4) _ i]) (use jobs assms(3) in simp)
    moreover have "i \<in> um_keys fixed" using i unfolding mid all assms(3) by auto
    then have "map_of part i = map_of fixed i" using keeps [of i fixed nodes g2] by (simp add: part)
    ultimately show ?thesis by simp
  qed
  have "scheduled_balance lb node_of job_of sched current nodes g = Inr (part, g')"
    by (simp add: scheduled_balance_def assms(1,2) jobs part)
  moreover have "um_wf part" using unique [OF all(2), of nodes g2] by (simp add: part)
  moreover have "um_keys part = um_keys fixed \<union> um_keys nodes" using covers [of nodes fixed g2] by (simp add: part)
  moreover have "\<forall>i\<in>um_keys mid. map_of part i = map_of mid i" using keep by simp
  ultimately show ?thesis unfolding all(1) [symmetric] using mid by (intro conjI exI [of _ part] exI [of _ g']) assumption+
qed

end

section \<open>The random balancer\<close>

lemma um_keys_um_insert [simp]: "um_keys (um_insert k v m) = insert k (um_keys m)"
  by (auto simp: um_insert_def)

lemma random_insert_keys: "um_keys (fst (random_insert draw nodes part g)) = um_keys part \<union> um_keys nodes"
  by (induction draw nodes part g rule: random_insert.induct) (auto split: prod.split)

lemma random_insert_keeps: "i \<in> um_keys part \<Longrightarrow> map_of (fst (random_insert draw nodes part g)) i = map_of part i"
proof (induction draw nodes part g rule: random_insert.induct)
  case (2 draw node nodes part g)
  obtain r g1 where r: "draw g = (r, g1)" by (cases "draw g")
  have "map_of (um_insert (fst node) r part) i = map_of part i"
  proof (cases "fst node \<in> um_keys part")
    case False
    with 2(2) have "i \<noteq> fst node" by blast
    with False show ?thesis by simp
  qed simp
  with 2 show ?case by (simp add: r)
qed simp

lemma random_insert_wf: "um_wf part \<Longrightarrow> um_wf (fst (random_insert draw nodes part g))"
  by (induction draw nodes part g rule: random_insert.induct) (auto split: prod.split)

lemma random_insert_ranks:
  assumes "\<And>g. fst (draw g) \<in> R" "snd ` set part \<subseteq> R"
  shows "snd ` set (fst (random_insert draw nodes part g)) \<subseteq> R"
  using assms(2)
proof (induction nodes arbitrary: part g)
  case (Cons node nodes)
  obtain r g1 where r: "draw g = (r, g1)" by (cases "draw g")
  have "r \<in> R" using assms(1) [of g] by (simp add: r)
  with Cons.prems have "snd ` set (um_insert (fst node) r part) \<subseteq> R" by (auto simp: um_insert_def)
  from Cons.IH [OF this, of g1] show ?case by (simp add: r)
qed simp

interpretation random_lb: fixed_vertices_lb "random_balance draw" for draw
  by unfold_locales (simp_all add: random_balance_def random_insert_keys random_insert_keeps random_insert_wf)

section \<open>The scheduled balancer over the random one\<close>

text \<open>
  Property C23: when the epoch of the next time step can be built, the scheduled load balancing over the random one
  gives exactly one process to every node of the graph and to every node with a task in the epoch; whatever the
  position in the epoch, the nodes of the jobs before it keep the processes that balancing those jobs alone gave them.
\<close>

theorem scheduled_balance_fixes:
  assumes "to_time_step (trunc (to_float (current + 1))) = Inr step" "scheduler_build step sched empty_epoch = Inr epoch"
    and "ep_jobs epoch = before @ after" "balance_jobs (random_balance draw) node_of (map job_of before) [] [] g = (mid, g1)"
  shows "um_keys mid = (\<Union>j\<in>set before. task_nodes node_of (job_tasks (job_of j))) \<and>
         (\<exists>part g'. scheduled_balance (random_balance draw) node_of job_of sched current nodes g = Inr (part, g') \<and> um_wf part \<and>
           um_keys part = (\<Union>j\<in>set (ep_jobs epoch). task_nodes node_of (job_tasks (job_of j))) \<union> um_keys nodes \<and>
           (\<forall>i\<in>um_keys mid. map_of part i = map_of mid i))"
  by (rule random_lb.scheduled_partition [OF assms])

text \<open>Two jobs at step 3, with the nodes 1 and 2 in the first and 2 and 3 in the second, and a fourth node without a task.\<close>

definition task_lists :: "nat \<Rightarrow> nat task list" where
  "task_lists j = (if j = 0 then [Task 1, VoidTask, Task 2] else [Task 2, Task 3])"

definition sample_job :: "nat \<Rightarrow> nat job" where
  "sample_job j = \<lparr>job_id = of_nat j, job_tasks = task_lists j, job_begin = VoidTask, job_end = VoidTask\<rparr>"

definition sample_node :: "nat \<Rightarrow> (dist_id \<times> nat) option" where
  "sample_node t = Some (DistributedId 0 (of_nat t), t)"

definition next_step :: "nat scheduler" where
  "next_step = new_scheduler\<lparr>unique_jobs := (\<lambda>_. [])(3 := [\<lparr>si_sub_step = 0, si_jobs = [0, 1]\<rparr>])\<rparr>"

definition count_up :: "int \<Rightarrow> int \<times> int" where
  "count_up n = (n, n + 1)"

theorem scheduled_balance_fixes_witness:
  "\<exists>part g. scheduled_balance (random_balance count_up) sample_node sample_job next_step 2 [(DistributedId 0 4, 4)] 0 = Inr (part, g) \<and>
     map_of part (DistributedId 0 1) = Some 0 \<and> map_of part (DistributedId 0 2) = Some 1 \<and> DistributedId 0 4 \<in> um_keys part"
proof -
  have step: "to_time_step (trunc (to_float (2 + 1))) = Inr 3" using to_float_nat [of 3] by (simp add: to_time_step_def trunc_def)
  have build: "scheduler_build 3 next_step empty_epoch = Inr \<lparr>ep_jobs = [0, 1], ep_ordering = [0, 0]\<rparr>"
    by (simp add: scheduler_build_def next_step_def new_scheduler_def submit_item_def epoch_submit_def epoch_clear_def started_def)
  have first: "balance_jobs (random_balance count_up) sample_node (map sample_job [0]) [] [] 0 =
      ([(DistributedId 0 1, 0), (DistributedId 0 2, 1)], 2)"
    by (simp add: sample_job_def task_lists_def add_task_node_def sample_node_def random_balance_def count_up_def um_insert_def)
  show ?thesis
    using scheduled_balance_fixes [OF step build _ first, of "[1]" "[(DistributedId 0 4, 4)]"] by (auto simp: task_nodes_def)
qed

end
