(* ===== verification/Graph_Balance.thy ===== *)
theory Graph_Balance
  imports Load_Balancing Ghost_Data
begin

text \<open>
  \<open>DistributedGraph::balance\<close> in ghost mode: the synchronization of the links, the distribution of the nodes and
  the synchronization of the data, one after the other on all the processes.
\<close>

section \<open>Phases that change nothing\<close>

lemma each_rank_id:
  assumes "\<And>p. p \<in> set ranks \<Longrightarrow> f p (S p) = Inr (S p)"
  shows "each_rank ranks f S = Inr S"
  using assms by (induction ranks) (simp_all add: each_rank_def)

lemma no_packs: "(\<And>q. q \<in> set ranks \<Longrightarrow> exports q = []) \<Longrightarrow> migrate ranks exports p = []"
  by (simp add: migrate_def filter_empty_conv)

text \<open>Without buffered operations the synchronization of the links exchanges empty messages.\<close>

lemma links_idle:
  assumes "\<forall>p\<in>set ranks. sync_linker (S p) = ghost_linker_new"
  shows "ghost_links_synchronize junk light ranks S = Inr S"
proof -
  have clear: "gather [] ranks (\<lambda>p. edges_to_clear (S p)) = Inr (\<lambda>p. if p \<in> set ranks then [] else [])"
    by (rule gather_ok) (use assms in \<open>simp add: edges_to_clear_def ghost_linker_new_def\<close>)
  have links: "gather [] ranks (\<lambda>p. link_exports light (S p)) = Inr (\<lambda>p. if p \<in> set ranks then [] else [])"
    by (rule gather_ok) (use assms in \<open>simp add: link_exports_def ghost_linker_new_def push_pairs_def\<close>)
  have imported: "each_rank ranks (\<lambda>p. import_links junk (migrate ranks (\<lambda>q. []) p)) S = Inr S"
    by (rule each_rank_id) (use assms in \<open>simp add: import_links_def no_packs upd_linker_def ghost_linker_new_def\<close>)
  have removals: "each_rank ranks (\<lambda>p. import_removals (migrate ranks (\<lambda>q. remove_node_buffer (sync_linker (S q))) p)) S = Inr S"
    by (rule each_rank_id) (use assms in \<open>simp add: import_removals_def no_packs upd_linker_def ghost_linker_new_def\<close>)
  have unlinks: "each_rank ranks (\<lambda>p. import_unlinks (migrate ranks (\<lambda>q. unlink_migration (sync_linker (S q))) p)) S = Inr S"
    by (rule each_rank_id) (use assms in \<open>simp add: import_unlinks_def no_packs upd_linker_def ghost_linker_new_def\<close>)
  have finish: "each_rank ranks (\<lambda>p. finish_links []) S = Inr S"
    by (rule each_rank_id)
      (use assms in \<open>simp add: finish_links_def register_removals_def erase_removed_def upd_linker_def ghost_linker_new_def\<close>)
  show ?thesis unfolding ghost_links_synchronize_def clear links by (simp add: imported removals unlinks finish)
qed

section \<open>The synchronization of the data keeps the distribution\<close>

lemma stamped_view:
  assumes "\<And>p n. node_shape (F p n) = node_shape n"
  shows "view_edges (stamped F P g) = view_edges g" "nodes_in st (stamped F P g) = nodes_in st g"
proof -
  have shape: "map_option node_shape (heap_n (stamped F P g) q) = map_option node_shape (heap_n g q)" for q
    using assms by (cases "heap_n g q") simp_all
  have ids: "map_option dn_id (heap_n (stamped F P g) q) = map_option dn_id (heap_n g q)" for q
    using shape [of q] by (cases "heap_n g q") (auto simp: node_shape_def split: if_splits)
  then have "edge_view (stamped F P g) e = edge_view g e" for e
    by (cases "heap_e g e") (simp_all add: edge_view_def del: stamped_simps(7))
  then show "view_edges (stamped F P g) = view_edges g" by (simp add: view_edges_def)
  have "(\<exists>n. heap_n (stamped F P g) q = Some n \<and> dn_state n = st) \<longleftrightarrow> (\<exists>n. heap_n g q = Some n \<and> dn_state n = st)" for q
    using shape [of q] by (cases "heap_n g q") (auto simp: node_shape_def split: if_splits)
  then show "nodes_in st (stamped F P g) = nodes_in st g" by (simp add: nodes_in_def del: stamped_simps(7))
qed

lemma located_hosted:
  assumes "distributed ranks K h S" "\<And>p. p \<in> set ranks \<Longrightarrow> located h (S p)"
  shows "ranked ranks K S" "hosted ranks S"
proof -
  have dist: "(i, a) \<in> nodes_in DISTANT (S p)" "i \<in> K"
    if p: "p \<in> set ranks" and i: "(i, a) \<in> set (distant_nodes (g_loc (S p)))" for p i a
  proof -
    note P = in_placeD [OF distributedD(6) [OF assms(1) p]]
    show mem: "(i, a) \<in> nodes_in DISTANT (S p)" using wf_graphD(3) [OF P(1)] i by (simp add: wf_loc_def)
    then show "i \<in> K" using P(3) by (force simp: nodes_in_def)
  qed
  then show "ranked ranks K S"
    unfolding ranked_def using distributedD(1) [OF assms(1)] in_placeD(1,2) [OF distributedD(6) [OF assms(1)]] by force
  have "\<exists>n. heap_n (S p) a = Some n \<and> dn_location n \<in> set ranks \<and> i \<in> um_keys (local_nodes (g_loc (S (dn_location n))))"
    if p: "p \<in> set ranks" and i: "(i, a) \<in> set (distant_nodes (g_loc (S p)))" for p i a
  proof -
    obtain n where n: "heap_n (S p) a = Some n" "dn_location n = h i" using assms(2) [OF p] i by (force simp: located_def)
    note K = dist(2) [OF p i]
    note Q = in_placeD [OF distributedD(6) [OF assms(1) distributedD(3) [OF assms(1) K]]]
    have "i \<in> ids_in LOCAL (S (h i))" unfolding Q(4) using K by simp
    then have "i \<in> um_keys (local_nodes (g_loc (S (h i))))" using wf_graphD(3) [OF Q(1)] by (simp add: ids_in_def wf_loc_def)
    with n distributedD(3) [OF assms(1) K] show ?thesis by simp
  qed
  then show "hosted ranks S" unfolding hosted_def by blast
qed

section \<open>Balancing\<close>

text \<open>Every copy has the data and the weight of the node at its holder.\<close>

definition up_to_date :: "int list \<Rightarrow> (int \<Rightarrow> ('d, 'l) dgraph) \<Rightarrow> bool" where
  "up_to_date ranks S \<longleftrightarrow> (\<forall>p\<in>set ranks. \<forall>(i, a)\<in>set (distant_nodes (g_loc (S p))).
     \<exists>n. heap_n (S p) a = Some n \<and> (i, dn_data n, dn_weight n) \<in> held (S (dn_location n)))"

lemma node_at_mem:
  assumes "node_at i g = Some m"
  shows "\<exists>b. (i, b) \<in> set (g_nodes g) \<and> heap_n g b = Some m"
proof (cases "map_of (g_nodes g) i")
  case (Some b)
  with assms show ?thesis by (auto simp: node_at_def dest: map_of_SomeD)
qed (use assms in \<open>simp add: node_at_def\<close>)

lemma data_fetched_at:
  fixes S S' :: "int \<Rightarrow> ('d, 'l) dgraph"
  assumes "ranked ranks K S" "hosted ranks S" and run: "ghost_data_synchronize ranks S = Inr S'"
    and p: "p \<in> set ranks" and i: "(i, a) \<in> set (distant_nodes (g_loc (S p)))"
  shows "\<exists>n m. heap_n (S' p) a = Some n \<and> dn_location n = location_of (S p) a \<and>
           node_at i (S' (dn_location n)) = Some m \<and> dn_state m = LOCAL \<and> dn_data n = dn_data m \<and> dn_weight n = dn_weight m"
proof -
  note all = data_fetched [OF assms(1,2), unfolded run sum.inject ex_simps simp_thms]
  from bspec [OF all p] have "\<forall>(i, a)\<in>set (distant_nodes (g_loc (S p))). \<exists>n. heap_n (S' p) a = Some n \<and> dn_location n = location_of (S p) a \<and>
         (\<exists>m. node_at i (S' (dn_location n)) = Some m \<and> dn_state m = LOCAL \<and> dn_data n = dn_data m \<and> dn_weight n = dn_weight m)"
    by - (elim conjE, assumption)
  from bspec [OF this i] show ?thesis unfolding prod.case ex_simps .
qed

lemma data_distributed:
  fixes S :: "int \<Rightarrow> ('d, 'l) dgraph"
  assumes "distributed ranks K h S" "\<And>p. p \<in> set ranks \<Longrightarrow> located h (S p)"
  shows "\<exists>S' :: int \<Rightarrow> ('d, 'l) dgraph. ghost_data_synchronize ranks S = Inr S' \<and> distributed ranks K h S' \<and> up_to_date ranks S' \<and>
           (\<forall>p\<in>set ranks. held (S' p) = held (S p) \<and> view_edges (S' p) = view_edges (S p))"
proof -
  note ready = located_hosted [OF assms]
  obtain S' :: "int \<Rightarrow> ('d, 'l) dgraph" where S': "ghost_data_synchronize ranks S = Inr S'"
    "\<forall>p\<in>set ranks. S' p = stamped (fetched S p) (snd ` set (distant_nodes (g_loc (S p)))) (S p)"
    using ghost_data_synchronize_eq [OF ready] by blast
  have view: "view_edges (S' p) = view_edges (S p)" "nodes_in st (S' p) = nodes_in st (S p)" "g_nodes (S' p) = g_nodes (S p)"
    "g_loc (S' p) = g_loc (S p)" "g_rank (S' p) = g_rank (S p)" "wf_graph (S p) \<Longrightarrow> wf_graph (S' p)" if "p \<in> set ranks" for p st
    unfolding bspec [OF S'(2) that] using stamped_view [OF fetched_shape] wf_graph_stamped [OF _ fetched_shape] by simp_all
  have edges: "all_edges ranks S' = all_edges ranks S" unfolding all_edges_def by (rule SUP_cong) (simp_all add: view)
  have place: "in_place K h (all_edges ranks S) p (S' p)" if p: "p \<in> set ranks" for p
    using distributedD(6) [OF assms(1) p] unfolding in_place_def ids_in_def view [OF p] using view(6) [OF p] by blast
  have dist: "distributed ranks K h S'"
    unfolding distributed_def edges
    using distributedD(1,2,3,4,5) [OF assms(1)] place by (simp add: view)
  have own: "heap_n (S' p) a = heap_n (S p) a" if p: "p \<in> set ranks" and a: "(i, a) \<in> nodes_in LOCAL (S p)" for p i a
  proof -
    have wf: "wf_loc (S p)" by (rule wf_graphD(3) [OF in_placeD(1) [OF distributedD(6) [OF assms(1) p]]])
    have "a \<notin> snd ` set (distant_nodes (g_loc (S p)))" using wf a by (auto simp: wf_loc_def nodes_in_def)
    then show ?thesis unfolding bspec [OF S'(2) p] by (simp add: option.map_ident)
  qed
  have held: "held (S' p) = held (S p)" if p: "p \<in> set ranks" for p
    unfolding held_def view(2) [OF p] using own [OF p] by auto
  have "\<exists>n. heap_n (S' p) a = Some n \<and> (i, dn_data n, dn_weight n) \<in> held (S' (dn_location n))"
    if p: "p \<in> set ranks" and i: "(i, a) \<in> set (distant_nodes (g_loc (S p)))" for p i a
  proof -
    obtain n m where n: "heap_n (S' p) a = Some n" "dn_location n = location_of (S p) a"
      "node_at i (S' (dn_location n)) = Some m" "dn_state m = LOCAL" "dn_data n = dn_data m" "dn_weight n = dn_weight m"
      using data_fetched_at [OF ready S'(1) p i] by blast
    obtain b where b: "(i, b) \<in> set (g_nodes (S' (dn_location n)))" "heap_n (S' (dn_location n)) b = Some m"
      using n(3) node_at_mem by blast
    then have "(i, b) \<in> nodes_in LOCAL (S' (dn_location n))" using n(4) by (auto simp: nodes_in_def)
    with b(2) n(5,6) have "(i, dn_data n, dn_weight n) \<in> held (S' (dn_location n))" by (auto simp: held_def)
    with n(1) show ?thesis by blast
  qed
  then have "up_to_date ranks S'" unfolding up_to_date_def by (auto simp: view(4))
  with S'(1) dist held view(1) show ?thesis by blast
qed

lemma balance_settles:
  fixes S :: "int \<Rightarrow> 'd ghost_graph"
  assumes "distributed ranks K h S" "\<forall>p\<in>set ranks. sync_linker (S p) = ghost_linker_new"
    and "valid_parts ranks (\<lambda>p. lb p (local_nodes (g_loc (S p)))) S"
  shows "\<exists>S'. balance_graph (ghost_links_synchronize junk light ranks) (ghost_data_synchronize ranks) junk light ranks lb S = Inr S' \<and>
           distributed ranks K (moved (\<lambda>p. lb p (local_nodes (g_loc (S p)))) h) S' \<and> up_to_date ranks S' \<and>
           all_edges ranks S' = all_edges ranks S \<and> (\<forall>p\<in>set ranks.
             held (S' p) = {x \<in> contents ranks S. moved (\<lambda>p. lb p (local_nodes (g_loc (S p)))) h (fst x) = p})"
proof -
  let ?part = "\<lambda>p. lb p (local_nodes (g_loc (S p)))"
  obtain S1 :: "int \<Rightarrow> 'd ghost_graph" where S1: "distribute_nodes junk light ranks ?part S = Inr S1"
    "distributed ranks K (moved ?part h) S1" "all_edges ranks S1 = all_edges ranks S"
    "\<forall>p\<in>set ranks. settled ranks (moved ?part h) S p (S1 p)"
    using distribution_moves [OF assms(1,3)] by blast
  have loc: "located (moved ?part h) (S1 p)" if "p \<in> set ranks" for p using S1(4) that by (simp add: settled_def)
  obtain S' :: "int \<Rightarrow> 'd ghost_graph" where S': "ghost_data_synchronize ranks S1 = Inr S'" "distributed ranks K (moved ?part h) S'"
    "up_to_date ranks S'" "\<forall>p\<in>set ranks. held (S' p) = held (S1 p) \<and> view_edges (S' p) = view_edges (S1 p)"
    using data_distributed [OF S1(2) loc] by blast
  have "all_edges ranks S' = all_edges ranks S1" unfolding all_edges_def by (rule SUP_cong) (simp_all add: S'(4))
  moreover have "balance_graph (ghost_links_synchronize junk light ranks) (ghost_data_synchronize ranks) junk light ranks lb S = Inr S'"
    by (simp only: balance_graph_def links_idle [OF assms(2)] and_then.simps S1(1) S'(1))
  ultimately show ?thesis using S'(2-4) S1(3,4) by (intro exI [of _ S']) (simp add: settled_def)
qed

section \<open>Balancing with the balancers of the library\<close>

text \<open>
  What \<open>RandomLoadBalancing\<close> gives to process \<open>p\<close>, with the generator of \<open>p\<close>.
\<close>

definition random_parts :: "(int \<Rightarrow> 'g \<Rightarrow> int \<times> 'g) \<Rightarrow> (int \<Rightarrow> 'g) \<Rightarrow> int \<Rightarrow> 'n node_map \<Rightarrow> partition" where
  "random_parts draw gen p nodes = fst (random_balance_all (draw p) nodes (gen p))"

lemma random_parts_valid:
  assumes "distributed ranks K h S" "\<forall>p g. fst (draw p g) \<in> set ranks"
  shows "valid_parts ranks (\<lambda>p. random_parts draw gen p (local_nodes (g_loc (S p)))) S"
proof -
  have "sends_own (random_parts draw gen p (local_nodes (g_loc (S p)))) (S p) \<and>
      snd ` set (to_export (random_parts draw gen p (local_nodes (g_loc (S p)))) (S p)) \<subseteq> set ranks" if p: "p \<in> set ranks" for p
  proof -
    let ?nodes = "local_nodes (g_loc (S p))" and ?part = "random_parts draw gen p (local_nodes (g_loc (S p)))"
    have keys: "um_keys ?part = um_keys ?nodes" by (simp add: random_parts_def random_balance_all_def random_balance_def random_insert_keys)
    have wf: "um_wf ?part" by (simp add: random_parts_def random_balance_all_def random_balance_def random_insert_wf)
    have ranks: "snd ` set ?part \<subseteq> set ranks"
      unfolding random_parts_def random_balance_all_def random_balance_def by (rule random_insert_ranks) (use assms(2) in simp_all)
    have own: "um_keys ?nodes = ids_in LOCAL (S p)"
      using wf_graphD(3) [OF in_placeD(1) [OF distributedD(6) [OF assms(1) p]]] by (simp add: wf_loc_def ids_in_def)
    have sub: "set (to_export ?part (S p)) \<subseteq> set ?part" by (auto simp: in_to_export)
    then have "fst ` set (to_export ?part (S p)) \<subseteq> ids_in LOCAL (S p)" unfolding own [symmetric] keys [symmetric] by (rule image_mono)
    with wf have "sends_own ?part (S p)" by (simp add: sends_own_def)
    with subset_trans [OF image_mono [OF sub] ranks] show ?thesis by blast
  qed
  then show ?thesis unfolding valid_parts_def by blast
qed

text \<open>
  Property C3: balancing a graph in ghost mode with the random load balancing, with no operation buffered and draws
  that are ranks of the communicator, never faults. Every node ends on exactly the process that was drawn for it, with
  its data and its weight; no edge is lost or added, the invariant of a distributed graph holds again for the new
  holders, and every copy of a node has the data and the weight that its holder has.
\<close>

theorem random_balance_settles:
  fixes S :: "int \<Rightarrow> 'd ghost_graph"
  assumes "distributed ranks K h S" "\<forall>p\<in>set ranks. sync_linker (S p) = ghost_linker_new" "\<forall>p g. fst (draw p g) \<in> set ranks"
  shows "\<exists>S'. balance_graph (ghost_links_synchronize junk light ranks) (ghost_data_synchronize ranks) junk light ranks
             (random_parts draw gen) S = Inr S' \<and>
           distributed ranks K (moved (\<lambda>p. random_parts draw gen p (local_nodes (g_loc (S p)))) h) S' \<and> up_to_date ranks S' \<and>
           all_edges ranks S' = all_edges ranks S \<and> (\<forall>p\<in>set ranks. held (S' p) =
             {x \<in> contents ranks S. moved (\<lambda>p. random_parts draw gen p (local_nodes (g_loc (S p)))) h (fst x) = p})"
  by (rule balance_settles [where lb = "random_parts draw gen", OF assms(1,2) random_parts_valid [OF assms(1,3)]])

text \<open>Two processes that both draw 0.\<close>

definition two_ghost :: "int \<Rightarrow> int ghost_graph" where
  "two_ghost p = (if p = 1 then sample_b ghost_linker_new else sample ghost_linker_new)"

lemma two_ghost_simps [simp]: "two_ghost 0 = sample ghost_linker_new" "two_ghost 1 = sample_b ghost_linker_new"
  by (simp_all add: two_ghost_def)

theorem random_balance_settles_witness:
  "\<exists>S'. balance_graph (ghost_links_synchronize 3 id [0, 1]) (ghost_data_synchronize [0, 1]) 3 id [0, 1]
      (random_parts (\<lambda>p g. (0, g)) (\<lambda>p. ())) two_ghost = Inr S' \<and> held (S' 0) = {(id_a, 7, 1), (id_b, 9, 1)} \<and> held (S' 1) = {}"
proof -
  let ?h = "moved (\<lambda>p. random_parts (\<lambda>p g. (0, g)) (\<lambda>p. ()) p (local_nodes (g_loc (two_ghost p)))) id_rank"
  have "distributed [0, 1] {id_a, id_b} id_rank two_ghost" by (rule pair_distributed) simp_all
  then obtain S' where S': "balance_graph (ghost_links_synchronize 3 id [0, 1]) (ghost_data_synchronize [0, 1]) 3 id [0, 1]
      (random_parts (\<lambda>p g. (0, g)) (\<lambda>p. ())) two_ghost = Inr S'"
    "\<forall>p\<in>set [0, 1]. held (S' p) = {x \<in> contents [0, 1] two_ghost. ?h (fst x) = p}"
    using random_balance_settles [of "[0, 1]" "{id_a, id_b}" id_rank two_ghost "\<lambda>p g. (0, g)" 3 id "\<lambda>p. ()"] by auto
  have "contents [0, 1] two_ghost = {(id_a, 7, 1), (id_b, 9, 1)}" by (auto simp: contents_def two_held)
  moreover have "?h id_a = 0" "?h id_b = 0"
    by (simp_all add: moved_def sample_ids random_parts_def random_balance_all_def random_balance_def um_get_def)
  ultimately show ?thesis using S' by auto
qed

end
