(* ===== verification/Dox_Ids.thy ===== *)
theory Dox_Ids
  imports Prelude "HOL-Library.Sublist"
begin

text \<open>
  Strings of the documentation front end (\<open>docs/search/search.js\<close>, \<open>docs/dynsections.js\<close>,
  \<open>docs/menu.js\<close>) and the function \<open>convertToId\<close> that turns a symbol into an element id.
  A JavaScript string is its list of UTF-16 code units. \<open>toLowerCase\<close> is the only library function
  whose result depends on the Unicode tables: it is a parameter where it is used.
\<close>

section \<open>Strings\<close>

type_synonym jstr = "16 word list"

definition js :: "string \<Rightarrow> jstr" where
  "js s = map (\<lambda>c. of_nat (of_char c)) s"

lemma js_simps [simp]: "js [] = []" "js (c # s) = of_nat (of_char c) # js s" "js (s @ t) = js s @ js t"
  "length (js s) = length s"
  by (simp_all add: js_def)

lemma unat_code_unit: "unat (of_nat (of_char c) :: 16 word) = of_char c"
proof -
  have "of_char c < (65536::nat)" using nat_of_char_less_256 [of c] by linarith
  then show ?thesis by (simp add: unat_of_nat)
qed

lemma code_unit_inject: "(of_nat (of_char c) :: 16 word) = of_nat (of_char d) \<longleftrightarrow> c = d"
proof
  assume "(of_nat (of_char c) :: 16 word) = of_nat (of_char d)"
  then have "of_char c = (of_char d :: nat)" by (metis unat_code_unit)
  then show "c = d" by simp
qed simp

lemma js_inject [simp]: "js s = js t \<longleftrightarrow> s = t"
  by (induction s arbitrary: t; case_tac t) (auto simp: code_unit_inject)

text \<open>\<open>/^ +/\<close>, \<open>/ +$/\<close> and \<open>/ +/g\<close>, each replaced by the empty string.\<close>

definition space :: "16 word" where
  "space = 0x20"

definition strip_left :: "jstr \<Rightarrow> jstr" where
  "strip_left s = dropWhile (\<lambda>c. c = space) s"

definition strip_right :: "jstr \<Rightarrow> jstr" where
  "strip_right s = rev (dropWhile (\<lambda>c. c = space) (rev s))"

definition strip_all :: "jstr \<Rightarrow> jstr" where
  "strip_all s = filter (\<lambda>c. c \<noteq> space) s"

section \<open>Element ids\<close>

text \<open>The class \<open>[a-z0-9\u0080-\uFFFF]\<close>.\<close>

definition id_char :: "16 word \<Rightarrow> bool" where
  "id_char c \<longleftrightarrow> 0x61 \<le> c \<and> c \<le> 0x7A \<or> 0x30 \<le> c \<and> c \<le> 0x39 \<or> 0x80 \<le> c"

definition escape_unit :: "16 word \<Rightarrow> jstr" where
  "escape_unit c =
     (if id_char c then [c]
      else if c < 16 then js (''_0'' @ show_nat 16 (unat c))
      else js (''_'' @ show_nat 16 (unat c)))"

definition convertToId :: "jstr \<Rightarrow> jstr" where
  "convertToId search = foldl (\<lambda>result c. result @ escape_unit c) [] search"

lemma convertToId_concat: "convertToId s = concat (map escape_unit s)"
proof -
  have "foldl (\<lambda>result c. result @ escape_unit c) r s = r @ concat (map escape_unit s)" for r
    by (induction s arbitrary: r) simp_all
  then show ?thesis by (simp add: convertToId_def)
qed

lemma convertToId_simps [simp]: "convertToId [] = []" "convertToId (c # s) = escape_unit c @ convertToId s"
  "convertToId (s @ t) = convertToId s @ convertToId t"
  by (simp_all add: convertToId_concat)

text \<open>An escape is an underscore and two hexadecimal digits.\<close>

definition hex_unit :: "nat \<Rightarrow> 16 word" where
  "hex_unit d = of_nat (of_char (digit_char d))"

lemma show_hex_digit: "n < 16 \<Longrightarrow> js (show_nat 16 n) = [hex_unit n]"
  by (simp add: show_nat_def digits_of.simps [of 16 n] hex_unit_def)

lemma show_hex_byte:
  assumes "16 \<le> n" and "n < 256"
  shows "js (show_nat 16 n) = [hex_unit (n div 16), hex_unit (n mod 16)]"
proof -
  have "n div 16 < 16" using assms by simp
  then show ?thesis using assms
    by (simp add: show_nat_def digits_of.simps [of 16 n] digits_of.simps [of 16 "n div 16"] hex_unit_def)
qed

lemma hex_unit_inject: "d < 16 \<Longrightarrow> e < 16 \<Longrightarrow> hex_unit d = hex_unit e \<longleftrightarrow> d = e"
  by (simp add: hex_unit_def code_unit_inject digit_char_inject)

lemma escape_special:
  assumes "\<not> id_char c"
  shows "escape_unit c = [0x5F, hex_unit (unat c div 16), hex_unit (unat c mod 16)]" "unat c < 128"
proof -
  show small: "unat c < 128" using assms by (simp add: id_char_def word_le_nat_alt)
  have zero: "hex_unit 0 = 0x30" by (simp add: hex_unit_def digit_char_def)
  show "escape_unit c = [0x5F, hex_unit (unat c div 16), hex_unit (unat c mod 16)]"
  proof (cases "c < 16")
    case True
    then have "unat c < 16" by (simp add: word_less_nat_alt)
    with assms True zero show ?thesis by (simp add: escape_unit_def show_hex_digit)
  next
    case False
    then have "16 \<le> unat c" by (simp add: word_less_nat_alt)
    with assms False small show ?thesis by (simp add: escape_unit_def show_hex_byte)
  qed
qed

lemma escape_plain: "id_char c \<Longrightarrow> escape_unit c = [c]"
  by (simp add: escape_unit_def)

lemma underscore_special: "\<not> id_char 0x5F"
  by (simp add: id_char_def)

lemma escape_nonempty [simp]: "escape_unit c \<noteq> []"
  by (cases "id_char c") (simp_all add: escape_special escape_plain)

text \<open>The code is prefix free, so ids compare as the symbols do.\<close>

lemma escape_prefix:
  "prefix (escape_unit c @ s) (escape_unit d @ t) \<longleftrightarrow> c = d \<and> prefix s t"
proof (cases "id_char c"; cases "id_char d")
  assume "\<not> id_char c" "\<not> id_char d"
  moreover have "unat c div 16 = unat d div 16 \<and> unat c mod 16 = unat d mod 16 \<longleftrightarrow> c = d"
    by (metis div_mult_mod_eq word_unat_eq_iff)
  moreover have "hex_unit (unat c div 16) = hex_unit (unat d div 16) \<longleftrightarrow> unat c div 16 = unat d div 16"
    using calculation escape_special(2) [of c] escape_special(2) [of d] by (simp add: hex_unit_inject)
  ultimately show ?thesis by (auto simp: escape_special hex_unit_inject)
qed (use underscore_special in \<open>auto simp: escape_special escape_plain\<close>)

lemma convertToId_prefix: "prefix (convertToId s) (convertToId t) \<longleftrightarrow> prefix s t"
proof (induction s arbitrary: t)
  case (Cons c s)
  show ?case
  proof (cases t)
    case Nil
    then show ?thesis by simp
  next
    case (Cons d t')
    with Cons.IH show ?thesis by (simp add: escape_prefix)
  qed
qed simp

lemma convertToId_inject: "convertToId s = convertToId t \<longleftrightarrow> s = t"
  by (metis convertToId_prefix prefix_order.order_antisym prefix_order.order_refl)

lemma hex_unit_id_char: "d < 16 \<Longrightarrow> id_char (hex_unit d)"
proof -
  assume "d < 16"
  then have "of_char (digit_char d) = (if d < 10 then 48 + d else 87 + d :: nat)"
    by (simp add: of_char_digit_char)
  with \<open>d < 16\<close> show ?thesis
    by (auto simp: hex_unit_def id_char_def word_le_nat_alt unat_of_nat)
qed

lemma convertToId_chars: "c \<in> set (convertToId s) \<Longrightarrow> id_char c \<or> c = 0x5F"
proof (induction s)
  case (Cons d s)
  then show ?case
    by (cases "id_char d") (auto simp: escape_plain escape_special hex_unit_id_char dest: escape_special(2))
qed simp

end
