(* ===== verification/Dox_Dom.thy ===== *)
theory Dox_Dom
  imports Dox_Ids "HOL-Library.AList"
begin

text \<open>
  The part of the document object model the documentation scripts use: a document is a rose tree and a
  reference to an element is its path from the root. \<open>nodeName\<close> is kept in lower case; \<open>style.display\<close>
  is the only style property the results page uses. An assigned \<open>innerHTML\<close> is kept as text: the
  scripts never look inside the elements they assign it to.
\<close>

section \<open>Documents\<close>

datatype dnode = Node
  (node_name: string)
  (node_attrs: "(string \<times> jstr) list")
  (node_display: string)
  (node_html: jstr)
  (node_kids: "dnode list")

type_synonym path = "nat list"

datatype js_fault = Type_Error | No_Return

definition getAttribute :: "string \<Rightarrow> dnode \<Rightarrow> jstr" where
  "getAttribute k n = (case map_of (node_attrs n) k of None \<Rightarrow> [] | Some v \<Rightarrow> v)"

abbreviation el_id :: "dnode \<Rightarrow> jstr" where
  "el_id n \<equiv> getAttribute ''id'' n"

abbreviation className :: "dnode \<Rightarrow> jstr" where
  "className n \<equiv> getAttribute ''class'' n"

definition setAttribute :: "string \<Rightarrow> jstr \<Rightarrow> dnode \<Rightarrow> dnode" where
  "setAttribute k v n =
     Node (node_name n) (AList.update k v (node_attrs n)) (node_display n) (node_html n) (node_kids n)"

definition set_display :: "string \<Rightarrow> dnode \<Rightarrow> dnode" where
  "set_display s n = Node (node_name n) (node_attrs n) s (node_html n) (node_kids n)"

definition set_html :: "jstr \<Rightarrow> dnode \<Rightarrow> dnode" where
  "set_html h n = Node (node_name n) (node_attrs n) (node_display n) h (node_kids n)"

definition appendChild :: "dnode \<Rightarrow> dnode \<Rightarrow> dnode" where
  "appendChild c n =
     Node (node_name n) (node_attrs n) (node_display n) (node_html n) (node_kids n @ [c])"

definition createElement :: "string \<Rightarrow> dnode" where
  "createElement nm = Node nm [] '''' [] []"

section \<open>References\<close>

fun at :: "dnode \<Rightarrow> path \<Rightarrow> dnode option" where
  "at n [] = Some n"
| "at n (i # p) = (if i < length (node_kids n) then at (node_kids n ! i) p else None)"

fun update_at :: "path \<Rightarrow> (dnode \<Rightarrow> dnode) \<Rightarrow> dnode \<Rightarrow> dnode" where
  "update_at [] f n = f n"
| "update_at (i # p) f (Node nm as st h ks) =
     Node nm as st h (if i < length ks then ks[i := update_at p f (ks ! i)] else ks)"

definition firstChild :: "dnode \<Rightarrow> path \<Rightarrow> path option" where
  "firstChild d p = (case at d (p @ [0]) of None \<Rightarrow> None | Some _ \<Rightarrow> Some (p @ [0]))"

definition parentNode :: "path \<Rightarrow> path option" where
  "parentNode p = (if p = [] then None else Some (butlast p))"

definition nextSibling :: "dnode \<Rightarrow> path \<Rightarrow> path option" where
  "nextSibling d p =
     (if p = [] then None
      else let q = butlast p @ [Suc (last p)]
           in case at d q of None \<Rightarrow> None | Some _ \<Rightarrow> Some q)"

text \<open>The elements in document order, with their paths.\<close>

fun preorder :: "path \<Rightarrow> dnode \<Rightarrow> (path \<times> dnode) list"
  and preorders :: "path \<Rightarrow> nat \<Rightarrow> dnode list \<Rightarrow> (path \<times> dnode) list" where
  "preorder p (Node nm as st h ks) = (p, Node nm as st h ks) # preorders p 0 ks"
| "preorders p i [] = []"
| "preorders p i (n # ns) = preorder (p @ [i]) n @ preorders p (Suc i) ns"

definition has_id :: "jstr \<Rightarrow> dnode \<Rightarrow> bool" where
  "has_id i n \<longleftrightarrow> i \<noteq> [] \<and> map_of (node_attrs n) ''id'' = Some i"

definition getElementById :: "dnode \<Rightarrow> jstr \<Rightarrow> path option" where
  "getElementById d i = map_option fst (find (\<lambda>pn. has_id i (snd pn)) (preorder [] d))"

definition has_display :: "dnode \<Rightarrow> path \<Rightarrow> string \<Rightarrow> bool" where
  "has_display d p s \<longleftrightarrow> map_option node_display (at d p) = Some s"

section \<open>Lemmas on paths\<close>

lemma set_display_simps [simp]: "node_name (set_display s n) = node_name n"
  "node_attrs (set_display s n) = node_attrs n" "node_display (set_display s n) = s"
  "node_kids (set_display s n) = node_kids n" "node_html (set_display s n) = node_html n"
  by (simp_all add: set_display_def)

lemma at_append: "at d (p @ q) = Option.bind (at d p) (\<lambda>n. at n q)"
  by (induction d p rule: at.induct) simp_all

lemma at_snoc: "at d p = Some n \<Longrightarrow> at d (p @ [i]) = (if i < length (node_kids n) then Some (node_kids n ! i) else None)"
  by (simp add: at_append)

lemma nextSibling_snoc:
  "at d p = Some n \<Longrightarrow> nextSibling d (p @ [i]) = (if Suc i < length (node_kids n) then Some (p @ [Suc i]) else None)"
  by (simp add: nextSibling_def at_snoc)

lemma firstChild_at:
  "at d p = Some n \<Longrightarrow> firstChild d p = (if node_kids n = [] then None else Some (p @ [0]))"
  by (simp add: firstChild_def at_snoc)

lemma node_kids_update: "node_kids (update_at (i # p) f n) =
    (if i < length (node_kids n) then (node_kids n)[i := update_at p f (node_kids n ! i)] else node_kids n)"
  by (cases n) simp

lemma at_update_same: "at d p = Some n \<Longrightarrow> at (update_at p f d) p = Some (f n)"
proof (induction d p rule: at.induct)
  case (2 d i p)
  then show ?case by (simp add: node_kids_update split: if_splits)
qed simp

lemma at_update_other:
  assumes "\<not> prefix p q" and "\<not> prefix q p"
  shows "at (update_at p f d) q = at d q"
  using assms
proof (induction p f d arbitrary: q rule: update_at.induct)
  case (2 i p f nm as st h ks)
  then obtain j q' where "q = j # q'" by (cases q) auto
  with 2 show ?case by (cases "j = i") (auto simp: node_kids_update)
qed simp

text \<open>An indexed family of ids occurs only finitely often in a document.\<close>

lemma getElementById_has: "getElementById d i \<noteq> None \<longleftrightarrow> (\<exists>pn\<in>set (preorder [] d). has_id i (snd pn))"
  unfolding getElementById_def option.map_disc_iff find_None_iff by blast

lemma finite_ids: "inj f \<Longrightarrow> finite {j. getElementById d (f j) \<noteq> None}"
proof -
  assume "inj f"
  let ?I = "\<Union>pn\<in>set (preorder [] d). {i. has_id i (snd pn)}"
  have "finite {i. has_id i n}" for n
    by (rule finite_subset [of _ "{the (map_of (node_attrs n) ''id'')}"]) (auto simp: has_id_def)
  then have "finite ?I" by blast
  then have "finite (f -` ?I)" by (rule finite_vimageI [OF _ \<open>inj f\<close>])
  moreover have "{j. getElementById d (f j) \<noteq> None} = f -` ?I"
    unfolding getElementById_has by auto
  ultimately show ?thesis by simp
qed

lemma scan_up_measure:
  assumes "inj f" and "getElementById d (f i) \<noteq> None"
  shows "card {j. (i::int) + 1 \<le> j \<and> getElementById d (f j) \<noteq> None}
       < card {j. i \<le> j \<and> getElementById d (f j) \<noteq> None}"
proof (rule psubset_card_mono)
  show "finite {j. i \<le> j \<and> getElementById d (f j) \<noteq> None}"
    by (rule finite_subset [OF _ finite_ids [OF assms(1)]]) auto
  have "i \<in> {j. i \<le> j \<and> getElementById d (f j) \<noteq> None}" "i \<notin> {j. i + 1 \<le> j \<and> getElementById d (f j) \<noteq> None}" "{j. i + 1 \<le> j \<and> getElementById d (f j) \<noteq> None} \<subseteq> {j. i \<le> j \<and> getElementById d (f j) \<noteq> None}"
    using assms(2) by auto
  then show "{j. i + 1 \<le> j \<and> getElementById d (f j) \<noteq> None} \<subset> {j. i \<le> j \<and> getElementById d (f j) \<noteq> None}" by blast
qed

lemma scan_down_measure:
  assumes "inj f" and "getElementById d (f i) \<noteq> None"
  shows "card {j. j \<le> (i::int) - 1 \<and> getElementById d (f j) \<noteq> None}
       < card {j. j \<le> i \<and> getElementById d (f j) \<noteq> None}"
proof (rule psubset_card_mono)
  show "finite {j. j \<le> i \<and> getElementById d (f j) \<noteq> None}"
    by (rule finite_subset [OF _ finite_ids [OF assms(1)]]) auto
  have "i \<in> {j. j \<le> i \<and> getElementById d (f j) \<noteq> None}" "i \<notin> {j. j \<le> i - 1 \<and> getElementById d (f j) \<noteq> None}" "{j. j \<le> i - 1 \<and> getElementById d (f j) \<noteq> None} \<subseteq> {j. j \<le> i \<and> getElementById d (f j) \<noteq> None}"
    using assms(2) by auto
  then show "{j. j \<le> i - 1 \<and> getElementById d (f j) \<noteq> None} \<subset> {j. j \<le> i \<and> getElementById d (f j) \<noteq> None}" by blast
qed

end
