(* ===== verification/Dox_Results.thy ===== *)
theory Dox_Results
  imports Dox_Dom Dist_Id
begin

text \<open>
  The results page of the documentation (\<open>docs/search/search.js\<close>, from \<open>SearchResults\<close> to
  \<open>createResults\<close>), which is loaded in a frame: the rows built from the index file, the filter, the
  children of a row and the keyboard navigation. \<open>toLowerCase\<close> is the argument \<open>lower\<close> of the
  definitions that use it. What the page asks of its parent window is recorded in order.
\<close>

section \<open>Building the rows\<close>

text \<open>An entry of \<open>searchData\<close>: the id, and an array of the name and of one triple (url, whether it
  opens in the parent, scope) per symbol of that name.\<close>

type_synonym search_entry = "jstr \<times> jstr \<times> (jstr \<times> nat \<times> jstr) list"

definition setKeyActions :: "jstr \<Rightarrow> dnode \<Rightarrow> dnode" where
  "setKeyActions action elem =
     setAttribute ''onkeyup'' action (setAttribute ''onkeypress'' action (setAttribute ''onkeydown'' action elem))"

definition setClassAttr :: "string \<Rightarrow> dnode \<Rightarrow> dnode" where
  "setClassAttr attr elem = setAttribute ''classname'' (js attr) (setAttribute ''class'' (js attr) elem)"

definition item_id :: "int \<Rightarrow> jstr" where
  "item_id e = js (''Item'' @ show_int e)"

definition child_id :: "int \<Rightarrow> int \<Rightarrow> jstr" where
  "child_id e c = js (''Item'' @ show_int e @ ''_c'' @ show_int c)"

definition row_id :: "jstr \<Rightarrow> jstr" where
  "row_id i = js ''SR_'' @ i"

definition set_target :: "nat \<Rightarrow> dnode \<Rightarrow> dnode" where
  "set_target flag n = (if flag \<noteq> 0 then setAttribute ''target'' (js ''_parent'') n else n)"

definition sr_child :: "nat \<Rightarrow> nat \<Rightarrow> jstr \<times> nat \<times> jstr \<Rightarrow> dnode" where
  "sr_child e c symbol =
     (case symbol of (url, flag, scope) \<Rightarrow>
        set_html scope (set_target flag (setAttribute ''href'' url (setClassAttr ''SRScope''
          (setKeyActions (js (''return searchResults.NavChild(event,'' @ show_int (int e) @ '','' @ show_int (int c) @ '')''))
             (setAttribute ''id'' (child_id (int e) (int c)) (createElement ''a'')))))))"

definition sr_link :: "nat \<Rightarrow> jstr \<Rightarrow> dnode" where
  "sr_link e name =
     set_html name (setClassAttr ''SRSymbol''
       (setKeyActions (js (''return searchResults.Nav(event,'' @ show_int (int e) @ '')''))
          (setAttribute ''id'' (item_id (int e)) (createElement ''a''))))"

definition sr_entry :: "nat \<Rightarrow> search_entry \<Rightarrow> dnode" where
  "sr_entry e entry =
     (case entry of (i, name, syms) \<Rightarrow>
        let srEntry = setClassAttr ''SREntry'' (createElement ''div'') in
        (case syms of
           [(url, flag, scope)] \<Rightarrow>
             appendChild (set_html scope (setClassAttr ''SRScope'' (createElement ''span'')))
               (appendChild (set_target flag (setAttribute ''href'' url (sr_link e name))) srEntry)
         | _ \<Rightarrow>
             appendChild
               (foldl (\<lambda>ch c. appendChild (sr_child e c (syms ! c)) ch)
                  (setClassAttr ''SRChildren'' (createElement ''div'')) [0..<length syms])
               (appendChild
                  (setAttribute ''href'' (js ''javascript:searchResults.Toggle('' @ [0x22] @ js ''SR_'' @ i @ [0x22] @ js '')'') (sr_link e name))
                  srEntry)))"

definition sr_result :: "nat \<Rightarrow> search_entry \<Rightarrow> dnode" where
  "sr_result e entry =
     appendChild (sr_entry e entry)
       (setClassAttr ''SRResult'' (setAttribute ''id'' (row_id (fst entry)) (createElement ''div'')))"

definition createResults :: "search_entry list \<Rightarrow> dnode \<Rightarrow> dnode" where
  "createResults searchData results =
     foldl (\<lambda>r e. appendChild (sr_result e (searchData ! e)) r) results [0..<length searchData]"

text \<open>The body of a results page (\<open>search/files_0.html\<close> and its siblings).\<close>

definition status_div :: "string \<Rightarrow> dnode" where
  "status_div i = Node ''div'' [(''class'', js ''SRStatus''), (''id'', js i)] '''' [] []"

definition results_div :: dnode where
  "results_div = Node ''div'' [(''id'', js ''SRResults'')] '''' [] []"

definition results_body :: "search_entry list \<Rightarrow> dnode" where
  "results_body searchData =
     Node ''body'' [(''class'', js ''SRPage'')] '''' []
       [Node ''div'' [(''id'', js ''SRIndex'')] '''' []
          [set_display ''none'' (status_div ''Loading''), createResults searchData results_div,
           status_div ''Searching'', set_display ''none'' (status_div ''NoMatches'')]]"

section \<open>The page and its parent\<close>

datatype parent_call = CloseResultsWindow_call | Focus_search_field

record results_page =
  rp_doc :: dnode
  rp_lastMatchCount :: nat
  rp_lastKey :: nat
  rp_repeatOn :: bool
  rp_focus :: "path option"
  rp_parent :: "parent_call list"

definition new_results_page :: "dnode \<Rightarrow> results_page" where
  "new_results_page d = \<lparr>rp_doc = d, rp_lastMatchCount = 0, rp_lastKey = 0, rp_repeatOn = False,
     rp_focus = None, rp_parent = []\<rparr>"

definition focus_on :: "path \<Rightarrow> results_page \<Rightarrow> results_page" where
  "focus_on p s = s\<lparr>rp_focus := Some p\<rparr>"

definition call_parent :: "parent_call \<Rightarrow> results_page \<Rightarrow> results_page" where
  "call_parent c s = s\<lparr>rp_parent := rp_parent s @ [c]\<rparr>"

definition set_display_at :: "path \<Rightarrow> string \<Rightarrow> results_page \<Rightarrow> results_page" where
  "set_display_at p v s = s\<lparr>rp_doc := update_at p (set_display v) (rp_doc s)\<rparr>"

section \<open>The children of a row\<close>

definition is_children :: "dnode \<Rightarrow> bool" where
  "is_children n \<longleftrightarrow> node_name n = ''div'' \<and> className n = js ''SRChildren''"

text \<open>The \<open>do ... while\<close> that climbs to an ancestor with a next sibling, and the step to that sibling.\<close>

function climb :: "dnode \<Rightarrow> path \<Rightarrow> path \<Rightarrow> path option" where
  "climb d parentElement element =
     (case parentNode element of
        None \<Rightarrow> None
      | Some q \<Rightarrow>
          if q = parentElement then Some q
          else case nextSibling d q of
                 Some r \<Rightarrow> Some r
               | None \<Rightarrow> climb d parentElement q)"
  by pat_completeness auto
termination
  by (relation "measure (\<lambda>(d, p, q). length q)") (auto simp: parentNode_def split: if_splits)

declare climb.simps [simp del]

partial_function (option) find_child_loop :: "dnode \<Rightarrow> path \<Rightarrow> path option \<Rightarrow> path option option" where
  "find_child_loop d parentElement element =
     (case element of
        None \<Rightarrow> Some None
      | Some p \<Rightarrow>
          if p = parentElement then Some None
          else case at d p of
            None \<Rightarrow> Some None
          | Some n \<Rightarrow>
              if is_children n then Some (Some p)
              else if node_name n = ''div'' \<and> node_kids n \<noteq> [] then
                find_child_loop d parentElement (firstChild d p)
              else case nextSibling d p of
                Some q \<Rightarrow> find_child_loop d parentElement (Some q)
              | None \<Rightarrow> find_child_loop d parentElement (climb d parentElement p))"

definition FindChildElement :: "jstr \<Rightarrow> dnode \<Rightarrow> js_fault + path option" where
  "FindChildElement i d =
     (case getElementById d i of
        None \<Rightarrow> Inl Type_Error
      | Some parentElement \<Rightarrow>
          (case find_child_loop d parentElement (firstChild d parentElement) of
             None \<Rightarrow> Inl No_Return
           | Some r \<Rightarrow> Inr r))"

definition Toggle :: "jstr \<Rightarrow> results_page \<Rightarrow> js_fault + results_page" where
  "Toggle i s =
     and_then (FindChildElement i (rp_doc s)) (\<lambda>element.
       case element of
         None \<Rightarrow> Inr s
       | Some p \<Rightarrow>
           if has_display (rp_doc s) p ''block'' then Inr (set_display_at p ''none'' s)
           else Inr (set_display_at p ''block'' s))"

section \<open>The filter\<close>

text \<open>\<open>/^sr\d*_/\<close>, removed from the id of a row.\<close>

definition strip_sr :: "jstr \<Rightarrow> jstr" where
  "strip_sr s =
     (if take 2 s = js ''sr'' then
        (case dropWhile (\<lambda>c. 0x30 \<le> c \<and> c \<le> 0x39) (drop 2 s) of
           [] \<Rightarrow> s
         | c # r \<Rightarrow> if c = 0x5F then r else s)
      else s)"

definition row_match :: "(jstr \<Rightarrow> jstr) \<Rightarrow> jstr \<Rightarrow> dnode \<Rightarrow> bool" where
  "row_match lower search row =
     (let rowMatchName = strip_sr (lower (el_id row))
      in length search \<le> length rowMatchName \<and> take (length search) rowMatchName = search)"

definition search_row :: "(jstr \<Rightarrow> jstr) \<Rightarrow> jstr \<Rightarrow> path \<Rightarrow> results_page \<times> nat \<Rightarrow> results_page \<times> nat" where
  "search_row lower search p sm =
     (case at (rp_doc (fst sm)) p of
        None \<Rightarrow> sm
      | Some row \<Rightarrow>
          if className row = js ''SRResult'' then
            if row_match lower search row then (set_display_at p ''block'' (fst sm), snd sm + 1)
            else (set_display_at p ''none'' (fst sm), snd sm)
          else sm)"

definition getElementsByTagName :: "string \<Rightarrow> dnode \<Rightarrow> path list" where
  "getElementsByTagName tag d = map fst (filter (\<lambda>pn. node_name (snd pn) = tag) (preorder [] d))"

definition set_status :: "string \<Rightarrow> string \<Rightarrow> results_page \<Rightarrow> js_fault + results_page" where
  "set_status i v s =
     (case getElementById (rp_doc s) (js i) of
        None \<Rightarrow> Inl Type_Error
      | Some p \<Rightarrow> Inr (set_display_at p v s))"

text \<open>The argument is the search word (from the URL, already unescaped, when the caller gives none).\<close>

definition search_key :: "(jstr \<Rightarrow> jstr) \<Rightarrow> jstr \<Rightarrow> jstr" where
  "search_key lower search = convertToId (lower (strip_right (strip_left search)))"

definition results_Search :: "(jstr \<Rightarrow> jstr) \<Rightarrow> jstr \<Rightarrow> results_page \<Rightarrow> js_fault + results_page" where
  "results_Search lower search s =
     (case fold (search_row lower (search_key lower search)) (getElementsByTagName ''div'' (rp_doc s)) (s, 0) of
        (s1, matches) \<Rightarrow>
          and_then (set_status ''Searching'' ''none'' s1) (\<lambda>s2.
          and_then (set_status ''NoMatches'' (if matches = 0 then ''block'' else ''none'') s2) (\<lambda>s3.
            Inr (s3\<lparr>rp_lastMatchCount := matches\<rparr>))))"

text \<open>\<open>window.location.search\<close> of a page: the query of its URL with the question mark, or nothing when there
  is no query or it is empty.\<close>

definition location_search :: "jstr \<Rightarrow> jstr" where
  "location_search url =
     (let query = dropWhile (\<lambda>c. c \<noteq> 0x3F) (takeWhile (\<lambda>c. c \<noteq> 0x23) url)
      in if length query \<le> 1 then [] else query)"

text \<open>The word of a page that is opened by the search box: the query of its URL.\<close>

definition search_word :: "(jstr \<Rightarrow> jstr) \<Rightarrow> jstr \<Rightarrow> jstr \<Rightarrow> jstr" where
  "search_word unescape url_search search = (if search = [] then unescape (drop 1 url_search) else search)"

section \<open>Keyboard navigation\<close>

lemma inj_item_id: "inj item_id"
  by (rule injI) (simp add: item_id_def show_int_inject)

lemma inj_child_id: "inj (child_id e)"
  by (rule injI) (simp add: child_id_def show_int_inject)

definition grandparent :: "path \<Rightarrow> path option" where
  "grandparent p = Option.bind (parentNode p) parentNode"

text \<open>Whether the row of an item is displayed; the item of a detached element has no row.\<close>

definition item_shown :: "dnode \<Rightarrow> path \<Rightarrow> js_fault + bool" where
  "item_shown d p =
     (case grandparent p of None \<Rightarrow> Inl Type_Error | Some row \<Rightarrow> Inr (has_display d row ''block''))"

function NavNext :: "dnode \<Rightarrow> int \<Rightarrow> js_fault + path option" where
  "NavNext d index =
     (case getElementById d (item_id index) of
        None \<Rightarrow> Inr None
      | Some focusItem \<Rightarrow>
          and_then (item_shown d focusItem) (\<lambda>shown.
            if shown then Inr (Some focusItem) else NavNext d (index + 1)))"
  by pat_completeness auto
termination
proof (relation "measure (\<lambda>(d, i). card {j. i \<le> j \<and> getElementById d (item_id j) \<noteq> None})")
  fix d index p shown
  assume "getElementById d (item_id index) = Some p"
  then show "((d, index + 1), d, index) \<in> measure (\<lambda>(d, i). card {j. i \<le> j \<and> getElementById d (item_id j) \<noteq> None})"
    using scan_up_measure [OF inj_item_id, of d index] by simp
qed simp

function NavPrev :: "dnode \<Rightarrow> int \<Rightarrow> js_fault + path option" where
  "NavPrev d index =
     (case getElementById d (item_id index) of
        None \<Rightarrow> Inr None
      | Some focusItem \<Rightarrow>
          and_then (item_shown d focusItem) (\<lambda>shown.
            if shown then Inr (Some focusItem) else NavPrev d (index - 1)))"
  by pat_completeness auto
termination
proof (relation "measure (\<lambda>(d, i). card {j. j \<le> i \<and> getElementById d (item_id j) \<noteq> None})")
  fix d index p shown
  assume "getElementById d (item_id index) = Some p"
  then show "((d, index - 1), d, index) \<in> measure (\<lambda>(d, i). card {j. j \<le> i \<and> getElementById d (item_id j) \<noteq> None})"
    using scan_down_measure [OF inj_item_id, of d index] by simp
qed simp

text \<open>The last child of an item, from its n-th child on: the loop of the Up key.\<close>

function last_child :: "dnode \<Rightarrow> int \<Rightarrow> int \<Rightarrow> path \<Rightarrow> path" where
  "last_child d e n focusItem =
     (case getElementById d (child_id e n) of
        None \<Rightarrow> focusItem
      | Some tmpElem \<Rightarrow> last_child d e (n + 1) tmpElem)"
  by pat_completeness auto
termination
proof (relation "measure (\<lambda>(d, e, n, p). card {j. n \<le> j \<and> getElementById d (child_id e j) \<noteq> None})")
  fix d e n focusItem tmpElem
  assume "getElementById d (child_id e n) = Some tmpElem"
  then show "((d, e, n + 1, tmpElem), d, e, n, focusItem)
      \<in> measure (\<lambda>(d, e, n, p). card {j. n \<le> j \<and> getElementById d (child_id e j) \<noteq> None})"
    using scan_up_measure [OF inj_child_id, of d e n] by simp
qed simp

declare NavNext.simps [simp del] NavPrev.simps [simp del] last_child.simps [simp del]

datatype event_type = Keydown | Keypress | Keyup | Other_event

record key_event =
  ev_type :: event_type
  ev_keyCode :: nat

definition ProcessKeys :: "key_event \<Rightarrow> results_page \<Rightarrow> bool \<times> results_page" where
  "ProcessKeys e s =
     (if ev_type e = Keydown then
        let s1 = s\<lparr>rp_repeatOn := False, rp_lastKey := ev_keyCode e\<rparr> in (rp_lastKey s1 \<noteq> 0, s1)
      else if ev_type e = Keypress then
        if \<not> rp_repeatOn s then (False, if rp_lastKey s \<noteq> 0 then s\<lparr>rp_repeatOn := True\<rparr> else s)
        else (rp_lastKey s \<noteq> 0, s)
      else if ev_type e = Keyup then
        let s1 = s\<lparr>rp_lastKey := 0, rp_repeatOn := False\<rparr> in (rp_lastKey s1 \<noteq> 0, s1)
      else (rp_lastKey s \<noteq> 0, s))"

text \<open>The children of the row of an item: the item, then \<open>parentNode.parentNode.id\<close>, then the search.\<close>

definition row_children :: "dnode \<Rightarrow> path \<Rightarrow> js_fault + path option" where
  "row_children d item =
     (case Option.bind (grandparent item) (at d) of
        None \<Rightarrow> Inl Type_Error
      | Some row \<Rightarrow> FindChildElement (el_id row) d)"

definition item_children :: "dnode \<Rightarrow> int \<Rightarrow> js_fault + path option" where
  "item_children d itemIndex =
     (case getElementById d (item_id itemIndex) of
        None \<Rightarrow> Inl Type_Error
      | Some item \<Rightarrow> row_children d item)"

definition shown_children :: "dnode \<Rightarrow> path option \<Rightarrow> bool" where
  "shown_children d child = (case child of None \<Rightarrow> False | Some p \<Rightarrow> has_display d p ''block'')"

definition nav_up :: "int \<Rightarrow> results_page \<Rightarrow> js_fault + results_page" where
  "nav_up itemIndex s =
     and_then (NavPrev (rp_doc s) (itemIndex - 1)) (\<lambda>focusItem.
       case focusItem of
         None \<Rightarrow> Inr (call_parent Focus_search_field s)
       | Some p \<Rightarrow>
           and_then (row_children (rp_doc s) p) (\<lambda>child.
             Inr (focus_on (if shown_children (rp_doc s) child
                            then last_child (rp_doc s) (itemIndex - 1) 0 p else p) s)))"

definition nav_down :: "int \<Rightarrow> results_page \<Rightarrow> js_fault + results_page" where
  "nav_down itemIndex s =
     and_then (item_children (rp_doc s) itemIndex) (\<lambda>elem.
     and_then (case (if shown_children (rp_doc s) elem
                     then getElementById (rp_doc s) (child_id itemIndex 0) else None) of
                 Some p \<Rightarrow> Inr (Some p)
               | None \<Rightarrow> NavNext (rp_doc s) (itemIndex + 1)) (\<lambda>focusItem.
       Inr (case focusItem of None \<Rightarrow> s | Some p \<Rightarrow> focus_on p s)))"

definition nav_display :: "string \<Rightarrow> int \<Rightarrow> results_page \<Rightarrow> js_fault + results_page" where
  "nav_display v itemIndex s =
     and_then (item_children (rp_doc s) itemIndex) (\<lambda>elem.
       Inr (case elem of None \<Rightarrow> s | Some p \<Rightarrow> set_display_at p v s))"

definition nav_escape :: "results_page \<Rightarrow> results_page" where
  "nav_escape s = call_parent Focus_search_field (call_parent CloseResultsWindow_call s)"

definition Nav :: "key_event \<Rightarrow> int \<Rightarrow> results_page \<Rightarrow> js_fault + bool \<times> results_page" where
  "Nav e itemIndex s =
     (if ev_keyCode e = 13 then Inr (True, s)
      else case ProcessKeys e s of (go, s1) \<Rightarrow>
        let stay = (\<lambda>s'. Inr (False, s')) in
        if \<not> go then Inr (False, s1)
        else if rp_lastKey s1 = 38 then and_then (nav_up itemIndex s1) stay
        else if rp_lastKey s1 = 40 then and_then (nav_down itemIndex s1) stay
        else if rp_lastKey s1 = 39 then and_then (nav_display ''block'' itemIndex s1) stay
        else if rp_lastKey s1 = 37 then and_then (nav_display ''none'' itemIndex s1) stay
        else if rp_lastKey s1 = 27 then Inr (False, nav_escape s1)
        else if rp_lastKey s1 = 13 then Inr (True, s1)
        else Inr (False, s1))"

definition focus_id :: "jstr \<Rightarrow> results_page \<Rightarrow> js_fault + results_page" where
  "focus_id i s = (case getElementById (rp_doc s) i of None \<Rightarrow> Inl Type_Error | Some p \<Rightarrow> Inr (focus_on p s))"

definition NavChild :: "key_event \<Rightarrow> int \<Rightarrow> int \<Rightarrow> results_page \<Rightarrow> js_fault + bool \<times> results_page" where
  "NavChild e itemIndex childIndex s =
     (if ev_keyCode e = 13 then Inr (True, s)
      else case ProcessKeys e s of (go, s1) \<Rightarrow>
        let stay = (\<lambda>s'. Inr (False, s')) in
        if \<not> go then Inr (False, s1)
        else if rp_lastKey s1 = 38 then
          if childIndex > 0 then and_then (focus_id (child_id itemIndex (childIndex - 1)) s1) stay
          else and_then (focus_id (item_id itemIndex) s1) stay
        else if rp_lastKey s1 = 40 then
          and_then (case getElementById (rp_doc s1) (child_id itemIndex (childIndex + 1)) of
                      Some p \<Rightarrow> Inr (Some p)
                    | None \<Rightarrow> NavNext (rp_doc s1) (itemIndex + 1)) (\<lambda>elem.
            Inr (False, case elem of None \<Rightarrow> s1 | Some p \<Rightarrow> focus_on p s1))
        else if rp_lastKey s1 = 27 then Inr (False, nav_escape s1)
        else if rp_lastKey s1 = 13 then Inr (True, s1)
        else Inr (False, s1))"

end
