(* ===== verification/Dox_Tree.thy ===== *)
theory Dox_Tree
  imports Dox_Results
begin

text \<open>
  Lemmas on the results page: the search for the children of a row against a recursive definition over
  the tree, and the elements of the page that \<open>createResults\<close> builds, which no operation of the page
  changes except for their \<open>style.display\<close>.
\<close>

section \<open>The children of a row, recursively\<close>

text \<open>The first \<open>SRChildren\<close> div in document order that is reached through divs only.\<close>

fun sr_find :: "nat \<Rightarrow> dnode list \<Rightarrow> path option" where
  "sr_find i [] = None"
| "sr_find i (Node nm as st h ks # ns) =
     (if is_children (Node nm as st h ks) then Some [i]
      else case (if nm = ''div'' then sr_find 0 ks else None) of
             Some q \<Rightarrow> Some (i # q)
           | None \<Rightarrow> sr_find (Suc i) ns)"

text \<open>Where the loop goes on when it has seen everything below \<open>p\<close>.\<close>

definition beyond :: "dnode \<Rightarrow> path \<Rightarrow> path \<Rightarrow> path option" where
  "beyond d pp p = (if p = pp then Some pp
     else case nextSibling d p of Some r \<Rightarrow> Some r | None \<Rightarrow> climb d pp p)"

lemma climb_snoc: "climb d pp (p @ [i]) = beyond d pp p"
  by (subst climb.simps) (simp add: parentNode_def beyond_def)

lemma find_child_loop_siblings:
  assumes "at d b = Some m" and "node_kids m = us @ ns" and "length us = i" and "ns \<noteq> []"
    and "b = pp @ r"
  shows "find_child_loop d pp (Some (b @ [i])) =
    (case sr_find i ns of
       Some q \<Rightarrow> Some (Some (b @ q))
     | None \<Rightarrow> find_child_loop d pp (beyond d pp b))"
  using assms
proof (induction i ns arbitrary: b m us r rule: sr_find.induct)
  case (1 i)
  then show ?case by simp
next
  case (2 i nm as st h ks ns)
  let ?n = "Node nm as st h ks"
  have n: "at d (b @ [i]) = Some ?n" using 2(3,4) nth_append_length [of us ?n ns] 2(5)
    by (auto simp: at_snoc)
  have "b @ [i] \<noteq> pp" using 2(7) by simp
  note unfold = find_child_loop.simps [of d pp "Some (b @ [i])"]
  have rest: "find_child_loop d pp (beyond d pp (b @ [i])) =
      (case sr_find (Suc i) ns of Some q \<Rightarrow> Some (Some (b @ q)) | None \<Rightarrow> find_child_loop d pp (beyond d pp b))"
    if "\<not> is_children ?n" "(if nm = ''div'' then sr_find 0 ks else None) = None"
  proof (cases ns)
    case Nil
    then have "nextSibling d (b @ [i]) = None" using 2(3-5) by (simp add: nextSibling_snoc)
    with Nil \<open>b @ [i] \<noteq> pp\<close> show ?thesis by (simp add: beyond_def climb_snoc)
  next
    case (Cons n' ns')
    then have "nextSibling d (b @ [i]) = Some (b @ [Suc i])" using 2(3-5) by (simp add: nextSibling_snoc)
    with \<open>b @ [i] \<noteq> pp\<close> have "beyond d pp (b @ [i]) = Some (b @ [Suc i])" by (simp add: beyond_def)
    with 2(2) [OF that 2(3), of "us @ [?n]"] 2(4,5,7) Cons show ?thesis by simp
  qed
  show ?case
  proof (cases "is_children ?n")
    case True
    with n \<open>b @ [i] \<noteq> pp\<close> show ?thesis by (subst unfold) simp
  next
    case no: False
    show ?thesis
    proof (cases "nm = ''div'' \<and> ks \<noteq> []")
      case True
      have "find_child_loop d pp (Some (b @ [i])) = find_child_loop d pp (Some (b @ [i] @ [0]))"
        using n \<open>b @ [i] \<noteq> pp\<close> no True by (subst unfold) (simp add: firstChild_at)
      with 2(1) [OF no _ n, of "[]" "r @ [i]"] True 2(7) no rest show ?thesis
        by (auto split: option.splits)
    next
      case False
      then have none: "(if nm = ''div'' then sr_find 0 ks else None) = None" by auto
      have "find_child_loop d pp (Some (b @ [i])) = find_child_loop d pp (beyond d pp (b @ [i]))"
        using n \<open>b @ [i] \<noteq> pp\<close> no False
        by (subst unfold) (auto simp: beyond_def split: option.splits)
      with rest [OF no none] no none show ?thesis by simp
    qed
  qed
qed

lemma find_child_loop_eq:
  assumes "at d pp = Some m"
  shows "find_child_loop d pp (firstChild d pp) = Some (map_option ((@) pp) (sr_find 0 (node_kids m)))"
proof (cases "node_kids m = []")
  case True
  with assms have "firstChild d pp = None" by (simp add: firstChild_at)
  with True show ?thesis by (simp add: find_child_loop.simps)
next
  case False
  have finish: "find_child_loop d pp (beyond d pp pp) = Some None"
    by (subst find_child_loop.simps) (simp add: beyond_def)
  from False assms have "firstChild d pp = Some (pp @ [0])" by (simp add: firstChild_at)
  with find_child_loop_siblings [OF assms, of "[]" "node_kids m" 0 pp "[]"] False finish
  show ?thesis by (auto split: option.splits)
qed

lemma preorder_at: "(q, n) \<in> set (preorder p d) \<Longrightarrow> \<exists>r. q = p @ r \<and> at d r = Some n"
  and preorders_at: "(q, n) \<in> set (preorders p i ns) \<Longrightarrow> \<exists>j r. q = p @ (i + j) # r \<and> j < length ns \<and> at (ns ! j) r = Some n"
proof (induction p d and p i ns rule: preorder_preorders.induct)
  case (1 p nm as st h ks)
  show ?case
  proof (cases "(q, n) = (p, Node nm as st h ks)")
    case False
    with 1 obtain j r where "q = p @ j # r" "j < length ks" "at (ks ! j) r = Some n" by auto
    then show ?thesis by (intro exI [of _ "j # r"]) simp
  qed simp
next
  case (3 p i m ns)
  then consider "(q, n) \<in> set (preorder (p @ [i]) m)" | "(q, n) \<in> set (preorders p (Suc i) ns)" by auto
  then show ?case
  proof cases
    case 1
    with 3(1) obtain r where "q = p @ i # r" "at m r = Some n" by auto
    then show ?thesis by (intro exI [of _ 0]) auto
  next
    case 2
    with 3(2) obtain j r where "q = p @ (Suc i + j) # r" "j < length ns" "at (ns ! j) r = Some n" by auto
    then show ?thesis by (intro exI [of _ "Suc j"]) auto
  qed
qed simp_all

lemma getElementById_at:
  "getElementById d i = Some p \<Longrightarrow> \<exists>n. at d p = Some n \<and> has_id i n"
proof -
  assume "getElementById d i = Some p"
  then obtain n where "find (\<lambda>pn. has_id i (snd pn)) (preorder [] d) = Some (p, n)"
    by (auto simp: getElementById_def)
  then have "(p, n) \<in> set (preorder [] d)" "has_id i n"
    by (auto simp: find_Some_iff in_set_conv_nth) (metis snd_conv)
  with preorder_at [of p n "[]" d] show ?thesis by auto
qed

lemma FindChildElement_eq:
  "FindChildElement i d =
     (case getElementById d i of
        None \<Rightarrow> Inl Type_Error
      | Some p \<Rightarrow> Inr (map_option ((@) p) (sr_find 0 (node_kids (the (at d p))))))"
  using find_child_loop_eq
  by (auto simp: FindChildElement_def split: option.splits dest!: getElementById_at)

section \<open>What no operation of the page changes\<close>

text \<open>A document without its displays.\<close>

fun undisplay :: "dnode \<Rightarrow> dnode" where
  "undisplay (Node nm as st h ks) = Node nm as '''' h (map undisplay ks)"

lemma undisplay_simps [simp]: "node_name (undisplay n) = node_name n" "node_attrs (undisplay n) = node_attrs n"
  "node_html (undisplay n) = node_html n" "node_kids (undisplay n) = map undisplay (node_kids n)"
  "undisplay (set_display v n) = undisplay n"
  by (cases n; simp add: set_display_def)+

lemma undisplay_at: "at (undisplay d) p = map_option undisplay (at d p)"
  by (induction d p rule: at.induct) simp_all

lemma undisplay_preorder: "preorder p (undisplay n) = map (apsnd undisplay) (preorder p n)"
  and undisplay_preorders: "preorders p i (map undisplay ns) = map (apsnd undisplay) (preorders p i ns)"
  by (induction p n and p i ns rule: preorder_preorders.induct) simp_all

lemma undisplay_update: "undisplay (update_at p (set_display v) d) = undisplay d"
proof (induction p "set_display v" d rule: update_at.induct)
  case (1 n)
  then show ?case by simp
next
  case (2 i p nm as st h ks)
  then show ?case by (simp add: map_update [symmetric]) (metis list_update_id map_update)
qed

lemma find_map: "find P (map f xs) = map_option f (find (P \<circ> f) xs)"
  by (induction xs) simp_all

lemma undisplay_getElementById: "getElementById (undisplay d) i = getElementById d i"
proof -
  have "(\<lambda>pn. has_id i (snd pn)) \<circ> apsnd undisplay = (\<lambda>pn :: path \<times> dnode. has_id i (snd pn))"
    by (auto simp: has_id_def)
  then show ?thesis
    by (simp add: getElementById_def undisplay_preorder find_map option.map_comp comp_def apsnd_def map_prod_def
          split_beta)
qed

lemma undisplay_sr_find: "sr_find i (map undisplay ns) = sr_find i ns"
proof (induction i ns rule: sr_find.induct)
  case (2 i nm as st h ks ns)
  have "is_children (Node nm as x h ys) = is_children (Node nm as st h ks)" for x ys
    by (simp add: is_children_def getAttribute_def)
  with 2 show ?case by (auto split: option.splits)
qed simp

lemma undisplay_FindChildElement: "FindChildElement i (undisplay d) = FindChildElement i d"
  using getElementById_at [of d i]
  by (auto simp: FindChildElement_eq undisplay_getElementById undisplay_at undisplay_sr_find split: option.splits)

lemma same_getElementById: "undisplay d = undisplay d' \<Longrightarrow> getElementById d i = getElementById d' i"
  by (metis undisplay_getElementById)

lemma same_FindChildElement: "undisplay d = undisplay d' \<Longrightarrow> FindChildElement i d = FindChildElement i d'"
  by (metis undisplay_FindChildElement)

lemma same_at:
  "undisplay d = undisplay d' \<Longrightarrow> map_option undisplay (at d p) = map_option undisplay (at d' p)"
  by (metis undisplay_at)

section \<open>Lookups by id\<close>

definition lookup :: "jstr \<Rightarrow> path \<Rightarrow> dnode \<Rightarrow> path option" where
  "lookup i p n = map_option fst (find (\<lambda>pn. has_id i (snd pn)) (preorder p n))"

definition lookups :: "jstr \<Rightarrow> path \<Rightarrow> nat \<Rightarrow> dnode list \<Rightarrow> path option" where
  "lookups i p k ns = map_option fst (find (\<lambda>pn. has_id i (snd pn)) (preorders p k ns))"

lemma getElementById_lookup: "getElementById d i = lookup i [] d"
  by (simp add: getElementById_def lookup_def)

lemma find_append: "find P (xs @ ys) = (case find P xs of None \<Rightarrow> find P ys | Some x \<Rightarrow> Some x)"
  by (induction xs) simp_all

lemma lookup_eq: "lookup i p n = (if has_id i n then Some p else lookups i p 0 (node_kids n))"
  by (cases n) (simp add: lookup_def lookups_def)

lemma lookups_Nil [simp]: "lookups i p k [] = None"
  by (simp add: lookups_def)

lemma lookups_Cons [simp]:
  "lookups i p k (n # ns) = (case lookup i (p @ [k]) n of None \<Rightarrow> lookups i p (Suc k) ns | Some q \<Rightarrow> Some q)"
  by (simp add: lookups_def lookup_def find_append split: option.splits)

lemma lookups_None:
  "(\<And>j. j < length ns \<Longrightarrow> lookup i (p @ [k + j]) (ns ! j) = None) \<Longrightarrow> lookups i p k ns = None"
proof (induction ns arbitrary: k)
  case (Cons n ns)
  have "lookup i (p @ [Suc k + j]) (ns ! j) = None" if "j < length ns" for j
    using Cons.prems [of "Suc j"] that by simp
  with Cons.IH [of "Suc k"] Cons.prems [of 0] show ?case by simp
qed simp

lemma lookups_Some:
  assumes "j < length ns" and "\<And>j'. j' < j \<Longrightarrow> lookup i (p @ [k + j']) (ns ! j') = None"
    and "lookup i (p @ [k + j]) (ns ! j) = Some q"
  shows "lookups i p k ns = Some q"
  using assms
proof (induction ns arbitrary: k j)
  case (Cons n ns)
  show ?case
  proof (cases j)
    case 0
    with Cons.prems show ?thesis by simp
  next
    case (Suc j')
    have "lookup i (p @ [Suc k + l]) (ns ! l) = None" if "l < j'" for l
      using Cons.prems(2) [of "Suc l"] Suc that by simp
    with Cons.IH [of j' "Suc k"] Cons.prems Suc show ?thesis by force
  qed
qed simp

text \<open>At most one element of a family has the id.\<close>

lemma lookups_unique:
  assumes "\<And>j. j < length ns \<Longrightarrow> lookup i (p @ [k + j]) (ns ! j) = (if P j then Some (f j) else None)"
    and "\<And>j l. j < length ns \<Longrightarrow> l < length ns \<Longrightarrow> P j \<Longrightarrow> P l \<Longrightarrow> j = l"
  shows "lookups i p k ns = (if \<exists>j<length ns. P j then Some (f (THE j. j < length ns \<and> P j)) else None)"
proof (cases "\<exists>j<length ns. P j")
  case True
  then obtain j where j: "j < length ns" "P j" by auto
  then have "(THE j. j < length ns \<and> P j) = j" using assms(2) by (intro the_equality) auto
  moreover have "lookups i p k ns = Some (f j)"
  proof (rule lookups_Some [OF j(1)])
    fix l assume "l < j"
    then show "lookup i (p @ [k + l]) (ns ! l) = None"
      using assms(1) [of l] assms(2) [of l j] j by auto
  qed (use assms(1) j in simp)
  ultimately show ?thesis using True by simp
next
  case False
  then show ?thesis using assms(1) by (auto intro: lookups_None)
qed

lemma attr_simps [simp]: "node_kids (setAttribute k v n) = node_kids n" "node_kids (set_html h n) = node_kids n"
  "node_kids (createElement nm) = []" "node_kids (appendChild c n) = node_kids n @ [c]"
  "node_name (setAttribute k v n) = node_name n" "node_name (set_html h n) = node_name n"
  "node_name (appendChild c n) = node_name n" "node_name (createElement nm) = nm"
  by (simp_all add: setAttribute_def set_html_def createElement_def appendChild_def)

lemma has_id_simps [simp]: "has_id i (setAttribute k v n) = (if k = ''id'' then i \<noteq> [] \<and> v = i else has_id i n)"
  "has_id i (set_html h n) = has_id i n" "has_id i (appendChild c n) = has_id i n"
  "\<not> has_id i (createElement nm)" "has_id i (set_display w n) = has_id i n"
  by (auto simp: has_id_def setAttribute_def set_html_def appendChild_def createElement_def update_conv'
      set_display_def)

lemma getAttribute_simps [simp]: "getAttribute k' (setAttribute k v n) = (if k = k' then v else getAttribute k' n)"
  "getAttribute k' (set_html h n) = getAttribute k' n" "getAttribute k' (appendChild c n) = getAttribute k' n"
  "getAttribute k' (createElement nm) = []" "getAttribute k' (set_display w n) = getAttribute k' n"
  by (auto simp: getAttribute_def setAttribute_def set_html_def appendChild_def createElement_def update_conv'
      set_display_def)

lemma class_key_simps [simp]:
  "node_kids (setClassAttr a n) = node_kids n" "node_kids (setKeyActions k n) = node_kids n"
  "node_kids (set_target f n) = node_kids n" "node_name (setClassAttr a n) = node_name n"
  "node_name (setKeyActions k n) = node_name n" "node_name (set_target f n) = node_name n"
  "has_id i (setClassAttr a n) = has_id i n" "has_id i (setKeyActions k n) = has_id i n"
  "has_id i (set_target f n) = has_id i n" "className (setClassAttr a n) = js a"
  "el_id (setClassAttr a n) = el_id n" "className (setKeyActions k n) = className n"
  "className (set_target f n) = className n"
  by (simp_all add: setClassAttr_def setKeyActions_def set_target_def)

section \<open>The rows of the page\<close>

lemma foldl_appendChild:
  "foldl (\<lambda>n e. appendChild (f e) n) r es =
     Node (node_name r) (node_attrs r) (node_display r) (node_html r) (node_kids r @ map f es)"
  by (induction es arbitrary: r) (simp_all add: appendChild_def)

definition multiple :: "search_entry \<Rightarrow> bool" where
  "multiple entry \<longleftrightarrow> length (snd (snd entry)) \<noteq> 1"

definition symbols :: "search_entry \<Rightarrow> (jstr \<times> nat \<times> jstr) list" where
  "symbols entry = snd (snd entry)"

text \<open>The second element of an entry: the scope of the only symbol, or the children.\<close>

definition sr_second :: "nat \<Rightarrow> search_entry \<Rightarrow> dnode" where
  "sr_second e entry =
     (if multiple entry
      then foldl (\<lambda>ch c. appendChild (sr_child e c (symbols entry ! c)) ch)
             (setClassAttr ''SRChildren'' (createElement ''div'')) [0..<length (symbols entry)]
      else set_html (snd (snd (hd (symbols entry)))) (setClassAttr ''SRScope'' (createElement ''span'')))"

lemma sr_entry_cases:
  obtains link where "node_kids (sr_entry e entry) = [link, sr_second e entry]" "node_name link = ''a''"
    "node_kids link = []" "\<And>i. has_id i link \<longleftrightarrow> i = item_id (int e)" "className link = js ''SRSymbol''"
    "\<And>i. \<not> has_id i (sr_entry e entry)" "className (sr_entry e entry) = js ''SREntry''"
    "node_name (sr_entry e entry) = ''div''"
proof (cases entry)
  case (fields i name syms)
  show ?thesis
  proof (cases syms)
    case Nil
    then show ?thesis using fields that
      by (auto simp: sr_entry_def sr_second_def multiple_def symbols_def sr_link_def item_id_def)
  next
    case (Cons s ss)
    then show ?thesis using fields that
      by (cases ss; cases s)
        (auto simp: sr_entry_def sr_second_def multiple_def symbols_def sr_link_def item_id_def)
  qed
qed

lemma sr_result_simps [simp]: "node_kids (sr_result e entry) = [sr_entry e entry]"
  "node_name (sr_result e entry) = ''div''" "has_id i (sr_result e entry) \<longleftrightarrow> i = row_id (fst entry)"
  "className (sr_result e entry) = js ''SRResult''" "el_id (sr_result e entry) = row_id (fst entry)"
  by (auto simp: sr_result_def setClassAttr_def row_id_def)

lemma show_int_chars: "c \<in> set (show_int i) \<Longrightarrow> c \<noteq> CHR ''_''"
proof -
  have digit: "digit_char d \<noteq> CHR ''_''" if "d < 10" for d
  proof -
    have "of_char (digit_char d) = (48 + d :: nat)" using that by (simp add: of_char_digit_char)
    with that show ?thesis by auto
  qed
  assume "c \<in> set (show_int i)"
  then have "c = CHR ''-'' \<or> (\<exists>n. c \<in> digit_char ` set (digits_of 10 n))"
    by (auto simp: show_int_def show_nat_def split: if_splits)
  then show ?thesis
    using digit digits_of_less [of 10] by fastforce
qed

lemma js_append_inject: "js (s @ t) = js (s @ u) \<longleftrightarrow> t = u"
  by (simp del: js_simps(3))

lemma js_eq_iff: "js s = js t \<longleftrightarrow> s = t"
  by simp

lemma item_not_child: "item_id k \<noteq> child_id e c" "child_id e c \<noteq> item_id k"
proof -
  have "show_int k \<noteq> show_int e @ ''_c'' @ show_int c"
  proof
    assume "show_int k = show_int e @ ''_c'' @ show_int c"
    then have "CHR ''_'' \<in> set (show_int k)" by simp
    with show_int_chars show False by blast
  qed
  then show "item_id k \<noteq> child_id e c" "child_id e c \<noteq> item_id k"
    unfolding item_id_def child_id_def js_append_inject by auto
qed

lemma child_id_inject: "child_id e c = child_id e' c' \<longleftrightarrow> e = e' \<and> c = c'"
proof
  assume "child_id e c = child_id e' c'"
  then have "show_int e @ CHR ''_'' # (CHR ''c'' # show_int c) = show_int e' @ CHR ''_'' # (CHR ''c'' # show_int c')"
    unfolding child_id_def js_append_inject by simp
  then have "show_int e = show_int e' \<and> CHR ''c'' # show_int c = CHR ''c'' # show_int c'"
    by (rule append_sep_inject) (auto dest: show_int_chars)
  then show "e = e' \<and> c = c'" by (simp add: show_int_inject)
qed simp

lemma item_id_inject: "item_id e = item_id e' \<longleftrightarrow> e = e'"
  using inj_item_id by (auto dest: injD)

lemma id_heads [simp]: "item_id k \<noteq> []" "child_id k c \<noteq> []" "row_id x \<noteq> []"
  "item_id k \<noteq> row_id x" "child_id k c \<noteq> row_id x" "row_id x \<noteq> item_id k" "row_id x \<noteq> child_id k c"
  "row_id x = row_id y \<longleftrightarrow> x = y"
  by (simp_all add: item_id_def child_id_def row_id_def)

lemma lookup_second:
  "lookup i p (sr_second e entry) =
     (if multiple entry
      then lookups i p 0 (map (\<lambda>c. sr_child e c (symbols entry ! c)) [0..<length (symbols entry)]) else None)"
  by (auto simp: lookup_eq sr_second_def foldl_appendChild has_id_def [of i "Node _ _ _ _ _"]
        setClassAttr_def createElement_def setAttribute_def)

lemma sr_child_simps [simp]: "has_id i (sr_child e c s) \<longleftrightarrow> i = child_id (int e) (int c)"
  "node_kids (sr_child e c s) = []" "node_name (sr_child e c s) = ''a''"
  by (auto simp: sr_child_def split: prod.splits)

lemma lookup_second_other: "(\<And>c. i \<noteq> child_id (int e) c) \<Longrightarrow> lookup i p (sr_second e entry) = None"
  unfolding lookup_second by (auto simp: lookup_eq [of _ _ "sr_child _ _ _"] intro!: lookups_None)

lemma lookup_second_child:
  "lookup (child_id k c) p (sr_second e entry) =
     (if k = int e \<and> multiple entry \<and> 0 \<le> c \<and> c < int (length (symbols entry)) then Some (p @ [nat c]) else None)"
proof (cases "k = int e \<and> 0 \<le> c \<and> c < int (length (symbols entry))")
  case True
  then obtain j where j: "c = int j" "j < length (symbols entry)" by (metis nonneg_int_cases of_nat_less_iff)
  have "lookups (child_id k c) p 0 (map (\<lambda>c. sr_child e c (symbols entry ! c)) [0..<length (symbols entry)])
      = Some (p @ [j])"
    by (rule lookups_Some [of j]) (use True j in \<open>auto simp: lookup_eq child_id_inject\<close>)
  with True j show ?thesis by (simp add: lookup_second)
next
  case False
  have "lookup (child_id k c) q (sr_child e j s) = None" if "j < length (symbols entry)" for q j s
    using False that by (auto simp: lookup_eq child_id_inject)
  then have "lookups (child_id k c) p 0 (map (\<lambda>c. sr_child e c (symbols entry ! c)) [0..<length (symbols entry)]) = None"
    by (intro lookups_None) simp
  with False show ?thesis by (auto simp: lookup_second)
qed

lemma lookup_row:
  "lookup (item_id k) p (sr_result e entry) = (if k = int e then Some (p @ [0, 0]) else None)"
  "lookup (row_id x) p (sr_result e entry) = (if x = fst entry then Some p else None)"
  "lookup (child_id k c) p (sr_result e entry) =
     (if k = int e \<and> multiple entry \<and> 0 \<le> c \<and> c < int (length (symbols entry))
      then Some (p @ [0, 1, nat c]) else None)"
proof -
  obtain link where L: "node_kids (sr_entry e entry) = [link, sr_second e entry]" "node_kids link = []"
      "\<And>i. has_id i link \<longleftrightarrow> i = item_id (int e)" "\<And>i. \<not> has_id i (sr_entry e entry)"
    using sr_entry_cases [of e entry] by metis
  note L' = lookup_eq [of _ _ "sr_result e entry"] lookup_eq [of _ _ "sr_entry e entry"]
    lookup_eq [of _ _ link] L
  show "lookup (item_id k) p (sr_result e entry) = (if k = int e then Some (p @ [0, 0]) else None)"
    by (simp add: L' lookup_second_other item_not_child item_id_inject)
  show "lookup (row_id x) p (sr_result e entry) = (if x = fst entry then Some p else None)"
    by (simp add: L' lookup_second_other)
  show "lookup (child_id k c) p (sr_result e entry) =
     (if k = int e \<and> multiple entry \<and> 0 \<le> c \<and> c < int (length (symbols entry))
      then Some (p @ [0, 1, nat c]) else None)"
    by (simp add: L' lookup_second_child item_not_child)
qed

section \<open>The page\<close>

definition rows :: "search_entry list \<Rightarrow> dnode list" where
  "rows data = map (\<lambda>e. sr_result e (data ! e)) [0..<length data]"

text \<open>The pages reached from the initial one: only displays differ.\<close>

definition page_of :: "search_entry list \<Rightarrow> dnode \<Rightarrow> bool" where
  "page_of data d \<longleftrightarrow> undisplay d = undisplay (results_body data)"

lemma page_of_body: "page_of data (results_body data)"
  by (simp add: page_of_def)

lemma page_of_update: "page_of data (update_at p (set_display v) d) = page_of data d"
  by (simp add: page_of_def undisplay_update)

lemma createResults_eq:
  "createResults data r = Node (node_name r) (node_attrs r) (node_display r) (node_html r) (node_kids r @ rows data)"
  by (simp add: createResults_def foldl_appendChild rows_def)

lemma nth_rows: "e < length data \<Longrightarrow> rows data ! e = sr_result e (data ! e)" "length (rows data) = length data"
  by (simp_all add: rows_def)

text \<open>The fixed divs have none of the generated ids.\<close>

definition generated :: "jstr \<Rightarrow> bool" where
  "generated i \<longleftrightarrow> (\<exists>k. i = item_id k) \<or> (\<exists>k c. i = child_id k c) \<or> (\<exists>x. i = row_id x)"

lemma generated_simps [simp]: "generated (item_id k)" "generated (child_id k c)" "generated (row_id x)"
  by (auto simp: generated_def)

lemma fixed_ids: "generated i \<Longrightarrow> i \<notin> {js ''SRIndex'', js ''Loading'', js ''SRResults'', js ''Searching'', js ''NoMatches''}"
  by (auto simp: generated_def item_id_def child_id_def row_id_def)

lemma body_lookup:
  assumes "generated i"
  shows "getElementById (results_body data) i = lookups i [0, 1] 0 (rows data)"
proof -
  have "js ''SRIndex'' \<noteq> i" "js ''Loading'' \<noteq> i" "js ''SRResults'' \<noteq> i" "js ''Searching'' \<noteq> i"
    "js ''NoMatches'' \<noteq> i"
    using fixed_ids [OF assms] by auto
  then show ?thesis
    by (simp add: getElementById_lookup results_body_def lookup_eq [of _ _ "Node _ _ _ _ _"] createResults_eq
        results_div_def status_div_def lookup_eq [of _ _ "set_display _ _"] has_id_def [of i "Node _ _ _ _ _"]
        del: js_simps split: option.split)
qed

lemma page_lookup:
  assumes "page_of data d"
  shows "getElementById d (item_id k) = (if 0 \<le> k \<and> k < int (length data) then Some [0, 1, nat k, 0, 0] else None)"
    "getElementById d (child_id k c) =
      (if 0 \<le> k \<and> k < int (length data) \<and> multiple (data ! nat k) \<and> 0 \<le> c \<and> c < int (length (symbols (data ! nat k)))
       then Some [0, 1, nat k, 0, 1, nat c] else None)"
    "distinct (map fst data) \<Longrightarrow> e < length data \<Longrightarrow> getElementById d (row_id (fst (data ! e))) = Some [0, 1, e]"
proof -
  have same: "getElementById d i = lookups i [0, 1] 0 (rows data)" if "generated i" for i
    using body_lookup [OF that, of data] same_getElementById [of d "results_body data" i] assms
    by (simp add: page_of_def)
  show "getElementById d (item_id k) = (if 0 \<le> k \<and> k < int (length data) then Some [0, 1, nat k, 0, 0] else None)"
  proof (cases "0 \<le> k \<and> k < int (length data)")
    case True
    have "lookups (item_id k) [0, 1] 0 (rows data) = Some ([0, 1, nat k] @ [0, 0])"
      by (rule lookups_Some [of "nat k"]) (use True in \<open>auto simp: nth_rows lookup_row\<close>)
    with True same [of "item_id k"] show ?thesis by simp
  next
    case False
    then have "lookups (item_id k) [0, 1] 0 (rows data) = None"
      by (intro lookups_None) (auto simp: nth_rows lookup_row)
    with False same [of "item_id k"] show ?thesis by auto
  qed
  show "getElementById d (child_id k c) =
      (if 0 \<le> k \<and> k < int (length data) \<and> multiple (data ! nat k) \<and> 0 \<le> c \<and> c < int (length (symbols (data ! nat k)))
       then Some [0, 1, nat k, 0, 1, nat c] else None)"
  proof (cases "0 \<le> k \<and> k < int (length data) \<and> multiple (data ! nat k) \<and> 0 \<le> c \<and> c < int (length (symbols (data ! nat k)))")
    case True
    have "lookups (child_id k c) [0, 1] 0 (rows data) = Some ([0, 1, nat k] @ [0, 1, nat c])"
      by (rule lookups_Some [of "nat k"]) (use True in \<open>auto simp: nth_rows lookup_row\<close>)
    with True same [of "child_id k c"] show ?thesis by simp
  next
    case False
    then have "lookups (child_id k c) [0, 1] 0 (rows data) = None"
      by (intro lookups_None) (auto simp: nth_rows lookup_row)
    with False same [of "child_id k c"] show ?thesis by auto
  qed
  assume dist: "distinct (map fst data)" and e: "e < length data"
  have "lookups (row_id (fst (data ! e))) [0, 1] 0 (rows data) = Some ([0, 1] @ [0 + e])"
  proof (rule lookups_Some)
    fix j assume "j < e"
    with dist e have "fst (data ! e) \<noteq> fst (data ! j)" by (auto simp: distinct_conv_nth)
    with \<open>j < e\<close> e show "lookup (row_id (fst (data ! e))) ([0, 1] @ [0 + j]) (rows data ! j) = None"
      by (simp add: nth_rows lookup_row)
  qed (use e in \<open>simp_all add: nth_rows lookup_row\<close>)
  with same [of "row_id (fst (data ! e))"] show "getElementById d (row_id (fst (data ! e))) = Some [0, 1, e]" by simp
qed

lemma not_generated: "\<not> generated (js ''Searching'')" "\<not> generated (js ''NoMatches'')"
  using fixed_ids [of "js ''Searching''"] fixed_ids [of "js ''NoMatches''"] by blast+

lemma lookup_row_generated:
  assumes "\<not> generated i"
  shows "lookup i p (sr_result e entry) = None"
proof -
  have i: "i \<noteq> item_id k" "i \<noteq> child_id k c" "i \<noteq> row_id x" for k c x
    using assms by auto
  obtain link where L: "node_kids (sr_entry e entry) = [link, sr_second e entry]" "node_kids link = []"
      "\<And>i. has_id i link \<longleftrightarrow> i = item_id (int e)" "\<And>i. \<not> has_id i (sr_entry e entry)"
    using sr_entry_cases [of e entry] by metis
  show ?thesis
    by (simp add: lookup_eq [of _ _ "sr_result e entry"] lookup_eq [of _ _ "sr_entry e entry"]
        lookup_eq [of _ _ link] L lookup_second_other i)
qed

lemma body_status: "getElementById (results_body data) (js ''Searching'') = Some [0, 2]"
  "getElementById (results_body data) (js ''NoMatches'') = Some [0, 3]"
proof -
  have none: "lookups i [0, 1] 0 (rows data) = None" if "\<not> generated i" for i
    using that by (intro lookups_None) (simp add: nth_rows lookup_row_generated)
  note none [OF not_generated(1)] none [OF not_generated(2)]
  then show "getElementById (results_body data) (js ''Searching'') = Some [0, 2]"
    "getElementById (results_body data) (js ''NoMatches'') = Some [0, 3]"
    by (simp_all add: getElementById_lookup results_body_def lookup_eq [of _ _ "Node _ _ _ _ _"] createResults_eq
        results_div_def status_div_def lookup_eq [of _ _ "set_display _ _"] has_id_def [of _ "Node _ _ _ _ _"])
qed

text \<open>The element at a path of the page, up to displays.\<close>

lemma body_at: "at (results_body data) [0, 1, e] = (if e < length data then Some (sr_result e (data ! e)) else None)"
  by (simp add: results_body_def createResults_eq results_div_def nth_rows)

lemma page_row:
  assumes "page_of data d" and "e < length data"
  shows "\<exists>n. at d [0, 1, e] = Some n \<and> el_id n = row_id (fst (data ! e)) \<and> className n = js ''SRResult''
      \<and> node_name n = ''div'' \<and> undisplay n = undisplay (sr_result e (data ! e))"
proof -
  have "map_option undisplay (at d [0, 1, e]) = Some (undisplay (sr_result e (data ! e)))"
    using same_at [of d "results_body data" "[0, 1, e]"] assms body_at [of data e] by (simp add: page_of_def)
  then obtain n where n: "at d [0, 1, e] = Some n" "undisplay n = undisplay (sr_result e (data ! e))" by auto
  have "getAttribute k n = getAttribute k (undisplay n)" for k by (simp add: getAttribute_def)
  then have "getAttribute k n = getAttribute k (sr_result e (data ! e))" for k
    using n(2) by (simp add: getAttribute_def)
  moreover have "node_name n = node_name (undisplay n)" by simp
  ultimately show ?thesis using n by simp
qed

lemma sr_find_row: "sr_find 0 (node_kids (sr_result e entry)) = (if multiple entry then Some [0, 1] else None)"
proof -
  obtain link where L: "node_kids (sr_entry e entry) = [link, sr_second e entry]" "node_name link = ''a''"
      "className link = js ''SRSymbol''" "className (sr_entry e entry) = js ''SREntry''"
      "node_name (sr_entry e entry) = ''div''"
    using sr_entry_cases [of e entry] by metis
  obtain nm1 as1 st1 h1 ks1 where E: "sr_entry e entry = Node nm1 as1 st1 h1 ks1" by (cases "sr_entry e entry")
  obtain nm2 as2 st2 h2 ks2 where N: "link = Node nm2 as2 st2 h2 ks2" by (cases link)
  obtain nm3 as3 st3 h3 ks3 where S: "sr_second e entry = Node nm3 as3 st3 h3 ks3" by (cases "sr_second e entry")
  have sec: "is_children (sr_second e entry) \<longleftrightarrow> multiple entry" "\<not> multiple entry \<Longrightarrow> node_name (sr_second e entry) = ''span''"
    by (auto simp: sr_second_def is_children_def foldl_appendChild setClassAttr_def createElement_def
        setAttribute_def getAttribute_def set_html_def)
  have "\<not> is_children (sr_entry e entry)" "\<not> is_children link"
    using L by (simp_all add: is_children_def del: js_simps)
  then show ?thesis using L E N S sec by auto
qed

lemma page_children:
  assumes "page_of data d" and "distinct (map fst data)" and "e < length data"
  shows "FindChildElement (row_id (fst (data ! e))) d = Inr (if multiple (data ! e) then Some [0, 1, e, 0, 1] else None)"
proof -
  obtain n where n: "at d [0, 1, e] = Some n" "undisplay n = undisplay (sr_result e (data ! e))"
    using page_row [OF assms(1,3)] by blast
  have "map undisplay (node_kids n) = map undisplay (node_kids (sr_result e (data ! e)))"
    using n(2) undisplay_simps(4) [of n] undisplay_simps(4) [of "sr_result e (data ! e)"] by metis
  then have "sr_find 0 (node_kids n) = sr_find 0 (node_kids (sr_result e (data ! e)))"
    by (metis undisplay_sr_find)
  then show ?thesis
    using page_lookup(3) [OF assms] n(1) sr_find_row [of e "data ! e"]
    by (simp add: FindChildElement_eq)
qed

end
