(* ===== verification/Dox_Results_Props.thy ===== *)
theory Dox_Results_Props
  imports Dox_Tree
begin

text \<open>
  What the results page does: the filter of the rows, the search for children, and the keyboard
  navigation between the rows that are displayed.
\<close>

section \<open>Displays\<close>

definition disp :: "dnode \<Rightarrow> path \<Rightarrow> string option" where
  "disp d p = map_option node_display (at d p)"

lemma has_display_disp: "has_display d p v \<longleftrightarrow> disp d p = Some v"
  by (simp add: has_display_def disp_def)

lemma disp_update:
  "disp (update_at p (set_display v) d) q = (if q = p \<and> at d p \<noteq> None then Some v else disp d q)"
proof (induction p "set_display v" d arbitrary: q rule: update_at.induct)
  case (1 n)
  show ?case by (cases q) (simp_all add: disp_def)
next
  case (2 i p nm as st h ks)
  show ?case
  proof (cases q)
    case Nil
    then show ?thesis by (simp add: disp_def)
  next
    case (Cons j q')
    with 2 show ?thesis by (cases "i < length ks"; cases "i = j") (auto simp: disp_def)
  qed
qed

lemma distinct_preorder: "distinct (map fst (preorder p n))"
  and distinct_preorders: "distinct (map fst (preorders p i ns))"
proof (induction p n and p i ns rule: preorder_preorders.induct)
  case (1 p nm as st h ks)
  then show ?case by (auto dest: preorders_at)
next
  case (3 p i n ns)
  then show ?case by (fastforce dest: preorder_at preorders_at)
qed simp

lemma preorder_mem: "at d r = Some n \<Longrightarrow> (p @ r, n) \<in> set (preorder p d)"
  and preorders_mem: "j < length ns \<Longrightarrow> at (ns ! j) r = Some n \<Longrightarrow> (p @ (i + j) # r, n) \<in> set (preorders p i ns)"
proof (induction p d and p i ns arbitrary: r and j r rule: preorder_preorders.induct)
  case (1 p nm as st h ks)
  then show ?case by (cases r) (auto split: if_splits)
next
  case (3 p i m ns)
  then show ?case
  proof (cases j)
    case 0
    with 3(1) [of r] 3(4) show ?thesis by simp
  next
    case (Suc j')
    with 3(2) [of j' r] 3(3,4) show ?thesis by simp
  qed
qed simp

lemma set_tags: "set (getElementsByTagName t d) = {p. \<exists>n. at d p = Some n \<and> node_name n = t}"
proof -
  have "(p, n) \<in> set (preorder [] d) \<longleftrightarrow> at d p = Some n" for p n
    using preorder_at [of p n "[]" d] preorder_mem [of d p n "[]"] by auto
  then show ?thesis by (force simp: getElementsByTagName_def)
qed

lemma distinct_tags: "distinct (getElementsByTagName t d)"
  by (simp add: getElementsByTagName_def distinct_map_filter distinct_preorder)

section \<open>The filter\<close>

definition result_row :: "dnode \<Rightarrow> path \<Rightarrow> bool" where
  "result_row d p \<longleftrightarrow> (\<exists>n. at d p = Some n \<and> className n = js ''SRResult'')"

definition matching_row :: "(jstr \<Rightarrow> jstr) \<Rightarrow> jstr \<Rightarrow> dnode \<Rightarrow> path \<Rightarrow> bool" where
  "matching_row lower key d p \<longleftrightarrow> (\<exists>n. at d p = Some n \<and> className n = js ''SRResult'' \<and> row_match lower key n)"

lemma undisplay_getAttribute: "getAttribute k (undisplay n) = getAttribute k n"
  by (simp add: getAttribute_def)

lemma same_attributes:
  assumes "undisplay d = undisplay d'" and "at d p = Some n"
  shows "\<exists>n'. at d' p = Some n' \<and> (\<forall>k. getAttribute k n' = getAttribute k n)"
proof -
  from same_at [OF assms(1), of p] assms(2) obtain n' where "at d' p = Some n'" "undisplay n = undisplay n'"
    by (cases "at d' p") auto
  then show ?thesis by (metis undisplay_getAttribute)
qed

lemma same_rows:
  assumes "undisplay d = undisplay d'"
  shows "result_row d p = result_row d' p" "matching_row lower key d p = matching_row lower key d' p"
  using same_attributes [OF assms] same_attributes [OF assms [symmetric]]
  unfolding result_row_def matching_row_def row_match_def by metis+

lemma search_row_eq:
  "search_row lower key p (s, m) =
     (if matching_row lower key (rp_doc s) p then (set_display_at p ''block'' s, m + 1)
      else if result_row (rp_doc s) p then (set_display_at p ''none'' s, m) else (s, m))"
  by (auto simp: search_row_def matching_row_def result_row_def split: option.splits)

lemma fold_search:
  assumes "fold (search_row lower key) ps (s, m) = (s', m')" and "distinct ps"
  shows "undisplay (rp_doc s') = undisplay (rp_doc s)
    \<and> (\<forall>p. disp (rp_doc s') p =
        (if p \<in> set ps \<and> result_row (rp_doc s) p
         then Some (if matching_row lower key (rp_doc s) p then ''block'' else ''none'') else disp (rp_doc s) p))
    \<and> m' = m + card {p \<in> set ps. matching_row lower key (rp_doc s) p}"
  using assms
proof (induction ps arbitrary: s m)
  case (Cons q ps)
  let ?M = "matching_row lower key"
  obtain s1 m1 where step: "search_row lower key q (s, m) = (s1, m1)" by (cases "search_row lower key q (s, m)")
  have u: "undisplay (rp_doc s1) = undisplay (rp_doc s)"
    using step by (auto simp: search_row_eq set_display_at_def undisplay_update split: if_splits)
  have d1: "disp (rp_doc s1) p = (if p = q \<and> result_row (rp_doc s) p
      then Some (if ?M (rp_doc s) p then ''block'' else ''none'') else disp (rp_doc s) p)" for p
    using step by (auto simp: search_row_eq set_display_at_def disp_update result_row_def matching_row_def
        split: if_splits)
  have "{p. (p = q \<or> p \<in> set ps) \<and> ?M (rp_doc s) p} =
      (if ?M (rp_doc s) q then insert q {p \<in> set ps. ?M (rp_doc s) p} else {p \<in> set ps. ?M (rp_doc s) p})"
    by auto
  then have "m1 + card {p \<in> set ps. ?M (rp_doc s) p} = m + card {p. (p = q \<or> p \<in> set ps) \<and> ?M (rp_doc s) p}"
    using step Cons.prems(2) by (auto simp: search_row_eq split: if_splits)
  with Cons.IH [of s1 m1] Cons.prems step u d1 same_rows(1) [OF u] same_rows(2) [OF u] show ?case by simp
qed simp

text \<open>The rows of the page are its only elements of class \<open>SRResult\<close>.\<close>

lemma at_Node: "at (Node nm as st h ks) p =
    (case p of [] \<Rightarrow> Some (Node nm as st h ks) | i # q \<Rightarrow> if i < length ks then at (ks ! i) q else None)"
  by (cases p) simp_all

lemma row_only: "at (sr_result e entry) q = Some n \<Longrightarrow> className n = js ''SRResult'' \<Longrightarrow> q = []"
proof (cases q)
  case (Cons i q1)
  assume at: "at (sr_result e entry) q = Some n" and cls: "className n = js ''SRResult''"
  obtain link where L: "node_kids (sr_entry e entry) = [link, sr_second e entry]" "node_kids link = []"
      "className link = js ''SRSymbol''" "className (sr_entry e entry) = js ''SREntry''"
    using sr_entry_cases [of e entry] by metis
  have second: "className m \<noteq> js ''SRResult''" if "at (sr_second e entry) r = Some m" for r m
  proof (cases r)
    case Nil
    with that show ?thesis
      by (cases "multiple entry")
        (auto simp: sr_second_def foldl_appendChild setClassAttr_def createElement_def setAttribute_def
          getAttribute_def set_html_def)
  next
    case (Cons c r1)
    have "className (sr_child e c (symbols entry ! c)) = js ''SRScope''"
      by (simp add: sr_child_def set_target_def setClassAttr_def split: prod.splits)
    with that Cons show ?thesis
      by (cases r1) (auto simp: sr_second_def foldl_appendChild split: if_splits)
  qed
  from at Cons have q1: "at (sr_entry e entry) q1 = Some n" by (simp split: if_splits)
  show ?thesis
  proof (cases q1)
    case Nil
    with q1 L cls show ?thesis by auto
  next
    case (Cons j q2)
    with q1 L cls second [of q2 n] show ?thesis
      by (cases j; cases q2) (auto split: if_splits)
  qed
qed simp

lemma page_rows:
  assumes "page_of data d"
  shows "result_row d p \<longleftrightarrow> (\<exists>e<length data. p = [0, 1, e])"
proof -
  have "result_row (results_body data) p \<longleftrightarrow> (\<exists>e<length data. p = [0, 1, e])"
  proof
    assume "result_row (results_body data) p"
    then obtain n where n: "at (results_body data) p = Some n" "className n = js ''SRResult''"
      by (auto simp: result_row_def)
    have leaf: "at (Node nm as st h []) q = (if q = [] then Some (Node nm as st h []) else None)" for nm as st h q
      by (cases q) simp_all
    show "\<exists>e<length data. p = [0, 1, e]"
    proof (cases p)
      case Nil
      with n show ?thesis by (auto simp: results_body_def getAttribute_def)
    next
      case (Cons i q)
      show ?thesis
      proof (cases q)
        case Nil
        with n Cons show ?thesis by (auto simp: results_body_def getAttribute_def split: if_splits)
      next
        case (Cons j r)
        have i0: "i = 0" "j < 4" using n \<open>p = i # q\<close> Cons by (auto simp: results_body_def split: if_splits)
        then consider "j = 0" | "j = 1" | "j = 2" | "j = 3" by linarith
        then show ?thesis
        proof cases
          case 2
          show ?thesis
          proof (cases r)
            case Nil
            with n \<open>p = i # q\<close> Cons i0 2 show ?thesis
              by (auto simp: results_body_def createResults_eq results_div_def getAttribute_def)
          next
            case (Cons e r1)
            with n \<open>p = i # q\<close> \<open>q = j # r\<close> i0 2 have "e < length data" "at (sr_result e (data ! e)) r1 = Some n"
              by (auto simp: results_body_def createResults_eq results_div_def nth_rows split: if_splits)
            with row_only n Cons \<open>p = i # q\<close> \<open>q = j # r\<close> i0 2 show ?thesis by auto
          qed
        qed (use n \<open>p = i # q\<close> Cons i0 in
            \<open>auto simp: results_body_def status_div_def set_display_def leaf getAttribute_def split: if_splits\<close>)
      qed
    qed
  qed (elim exE conjE, simp only: result_row_def body_at, simp del: js_simps)
  then show ?thesis using same_rows(1) [of d "results_body data"] assms by (simp add: page_of_def)
qed

text \<open>The ids of the index files are in lower case.\<close>

definition lower_ids :: "(jstr \<Rightarrow> jstr) \<Rightarrow> search_entry list \<Rightarrow> bool" where
  "lower_ids lower data \<longleftrightarrow> (\<forall>entry\<in>set data. lower (row_id (fst entry)) = js ''sr_'' @ fst entry)"

lemma strip_sr_row: "strip_sr (js ''sr_'' @ i) = i"
  by (simp add: strip_sr_def)

lemma take_prefix: "length k \<le> length i \<and> take (length k) i = k \<longleftrightarrow> prefix k i"
  by (metis append_eq_conv_conj le_add1 length_append prefix_def take_all_iff append_take_drop_id prefix_length_le)

lemma page_matches:
  assumes "page_of data d" and "lower_ids lower data"
  shows "matching_row lower key d p \<longleftrightarrow> (\<exists>e<length data. p = [0, 1, e] \<and> prefix key (fst (data ! e)))"
proof -
  have "row_match lower key n \<longleftrightarrow> prefix key (fst (data ! e))"
    if "e < length data" "el_id n = row_id (fst (data ! e))" for e n
  proof -
    have "strip_sr (lower (el_id n)) = fst (data ! e)"
      using that assms(2) strip_sr_row [of "fst (data ! e)"] by (simp add: lower_ids_def del: js_simps)
    then show ?thesis using take_prefix [of key "fst (data ! e)"] by (simp add: row_match_def)
  qed
  moreover have "matching_row lower key d p \<Longrightarrow> result_row d p"
    by (auto simp: matching_row_def result_row_def)
  ultimately show ?thesis
    using page_row [OF assms(1)] page_rows [OF assms(1), of p] unfolding matching_row_def by (metis option.inject)
qed

lemma page_status:
  assumes "page_of data d"
  shows "getElementById d (js ''Searching'') = Some [0, 2]" "getElementById d (js ''NoMatches'') = Some [0, 3]"
    "at d [0, 2] \<noteq> None" "at d [0, 3] \<noteq> None"
proof -
  have same: "getElementById d i = getElementById (results_body data) i" for i
    using same_getElementById [of d "results_body data"] assms by (simp add: page_of_def)
  show S: "getElementById d (js ''Searching'') = Some [0, 2]" "getElementById d (js ''NoMatches'') = Some [0, 3]"
    unfolding same by (rule body_status)+
  from getElementById_at [OF S(1)] getElementById_at [OF S(2)]
  show "at d [0, 2] \<noteq> None" "at d [0, 3] \<noteq> None" by (blast intro: option.distinct(2) elim: option.discI)+
qed

definition matches :: "(jstr \<Rightarrow> bool) \<Rightarrow> search_entry list \<Rightarrow> nat \<Rightarrow> bool" where
  "matches P data e \<longleftrightarrow> e < length data \<and> P (fst (data ! e))"

lemma card_rows: "card {p. \<exists>e. matches P data e \<and> p = [0, 1, e]} = card {e. matches P data e}"
proof -
  have "{p. \<exists>e. matches P data e \<and> p = [0, 1, e]} = (\<lambda>e. [0, 1, e]) ` {e. matches P data e}" by auto
  then show ?thesis by (simp add: card_image inj_on_def)
qed

lemma results_Search_eq:
  assumes page: "page_of data (rp_doc s)" and low: "lower_ids lower data"
  shows "\<exists>s'. results_Search lower w s = Inr s' \<and> page_of data (rp_doc s') \<and>
     (\<forall>e<length data. disp (rp_doc s') [0, 1, e] =
        Some (if prefix (search_key lower w) (fst (data ! e)) then ''block'' else ''none'')) \<and>
     (\<forall>p. (\<forall>e<length data. p \<noteq> [0, 1, e]) \<and> p \<noteq> [0, 2] \<and> p \<noteq> [0, 3] \<longrightarrow> disp (rp_doc s') p = disp (rp_doc s) p) \<and>
     rp_lastMatchCount s' = card {e. matches (prefix (search_key lower w)) data e} \<and>
     disp (rp_doc s') [0, 3] = Some (if rp_lastMatchCount s' = 0 then ''block'' else ''none'')"
proof -
  let ?key = "search_key lower w" and ?ps = "getElementsByTagName ''div'' (rp_doc s)"
  obtain s1 m where fold: "fold (search_row lower ?key) ?ps (s, 0) = (s1, m)"
    by (cases "fold (search_row lower ?key) ?ps (s, 0)")
  note F = fold_search [OF fold distinct_tags]
  have page1: "page_of data (rp_doc s1)" using F page by (simp add: page_of_def)
  have div: "p \<in> set ?ps" if "result_row (rp_doc s) p" for p
  proof -
    from that page_rows [OF page] obtain e where e: "e < length data" "p = [0, 1, e]" by blast
    with page_row [OF page e(1)] show ?thesis unfolding set_tags by blast
  qed
  have "{p \<in> set ?ps. matching_row lower ?key (rp_doc s) p} = {p. \<exists>e. matches (prefix ?key) data e \<and> p = [0, 1, e]}"
  proof -
    have "matching_row lower ?key (rp_doc s) p \<Longrightarrow> p \<in> set ?ps" for p
      using div by (auto simp: matching_row_def result_row_def)
    then have "{p \<in> set ?ps. matching_row lower ?key (rp_doc s) p} = {p. matching_row lower ?key (rp_doc s) p}"
      by blast
    then show ?thesis by (auto simp: page_matches [OF page low] matches_def)
  qed
  then have m: "m = card {e. matches (prefix ?key) data e}" using F card_rows by simp
  let ?s2 = "set_display_at [0, 2] ''none'' s1"
  obtain s3 where s3: "s3 = set_display_at [0, 3] (if m = 0 then ''block'' else ''none'') ?s2" by simp
  have page2: "page_of data (rp_doc ?s2)" using page1 by (simp add: set_display_at_def page_of_update)
  have page3: "page_of data (rp_doc s3)" using page2 unfolding s3 by (simp add: set_display_at_def page_of_update)
  have run: "results_Search lower w s = Inr (s3\<lparr>rp_lastMatchCount := m\<rparr>)"
    using fold page_status(1) [OF page1] page_status(2) [OF page2]
    by (simp add: results_Search_def set_status_def s3 del: js_simps)
  have d3: "disp (rp_doc s3) p = (if p = [0, 3] then Some (if m = 0 then ''block'' else ''none'')
      else if p = [0, 2] then Some ''none'' else disp (rp_doc s1) p)" for p
    using page_status(3) [OF page1] page_status(4) [OF page2] unfolding s3
    by (auto simp: set_display_at_def disp_update)
  have d1: "disp (rp_doc s1) p = (if \<exists>e<length data. p = [0, 1, e]
      then Some (if matching_row lower ?key (rp_doc s) p then ''block'' else ''none'') else disp (rp_doc s) p)" for p
    using F div page_rows [OF page] by auto
  have rows: "disp (rp_doc s3) [0, 1, e] = Some (if prefix ?key (fst (data ! e)) then ''block'' else ''none'')"
    if "e < length data" for e
  proof -
    have "matching_row lower ?key (rp_doc s) [0, 1, e] \<longleftrightarrow> prefix ?key (fst (data ! e))"
      using that page_matches [OF page low, of ?key "[0, 1, e]"] by auto
    with that show ?thesis by (simp add: d3 d1)
  qed
  have others: "disp (rp_doc s3) p = disp (rp_doc s) p"
    if "\<forall>e<length data. p \<noteq> [0, 1, e]" "p \<noteq> [0, 2]" "p \<noteq> [0, 3]" for p
    using that by (auto simp: d3 d1)
  have status: "disp (rp_doc s3) [0, 3] = Some (if m = 0 then ''block'' else ''none'')" by (simp add: d3)
  show ?thesis
    by (rule exI [of _ "s3\<lparr>rp_lastMatchCount := m\<rparr>"]) (use run m rows others status page3 in simp)
qed

section \<open>Navigation\<close>

definition shown :: "dnode \<Rightarrow> nat \<Rightarrow> bool" where
  "shown d e \<longleftrightarrow> disp d [0, 1, e] = Some ''block''"

definition item_path :: "nat \<Rightarrow> path" where
  "item_path e = [0, 1, e, 0, 0]"

lemma item_shown_page: "item_shown d [0, Suc 0, e, 0, 0] = Inr (shown d e)"
  by (simp add: item_shown_def grandparent_def parentNode_def has_display_disp shown_def)

lemma NavNext_page:
  assumes "page_of data d"
  shows "NavNext d (int k) = Inr (map_option item_path (find (shown d) [k..<length data]))"
proof (induction "length data - k" arbitrary: k)
  case 0
  then show ?case using page_lookup(1) [OF assms, of "int k"] by (simp add: NavNext.simps)
next
  case (Suc m)
  then have k: "k < length data" by simp
  then have "[k..<length data] = k # [Suc k..<length data]" by (rule upt_conv_Cons)
  with Suc(1) [of "Suc k"] Suc(2) k page_lookup(1) [OF assms, of "int k"] show ?case
    by (subst NavNext.simps) (simp add: item_shown_page item_path_def add.commute)
qed

lemma NavPrev_page:
  assumes "page_of data d" and "k \<le> length data"
  shows "NavPrev d (int k - 1) = Inr (map_option item_path (find (shown d) (rev [0..<k])))"
  using assms(2)
proof (induction k)
  case 0
  then show ?case using page_lookup(1) [OF assms(1), of "-1"] by (simp add: NavPrev.simps)
next
  case (Suc k)
  with page_lookup(1) [OF assms(1), of "int k"] show ?case
    by (subst NavPrev.simps) (simp add: item_shown_page item_path_def [abs_def])
qed

lemma page_item_children:
  assumes "page_of data d" and "distinct (map fst data)" and "e < length data"
  shows "item_children d (int e) = Inr (if multiple (data ! e) then Some [0, 1, e, 0, 1] else None)"
    "row_children d (item_path e) = Inr (if multiple (data ! e) then Some [0, 1, e, 0, 1] else None)"
proof -
  obtain n where n: "at d [0, 1, e] = Some n" "el_id n = row_id (fst (data ! e))"
    using page_row [OF assms(1,3)] by blast
  then show "row_children d (item_path e) = Inr (if multiple (data ! e) then Some [0, 1, e, 0, 1] else None)"
    using page_children [OF assms]
    by (simp add: row_children_def item_path_def grandparent_def parentNode_def del: at.simps)
  then show "item_children d (int e) = Inr (if multiple (data ! e) then Some [0, 1, e, 0, 1] else None)"
    using page_lookup(1) [OF assms(1), of "int e"] assms(3) by (simp add: item_children_def item_path_def)
qed

text \<open>The row whose children are open.\<close>

definition open_row :: "search_entry list \<Rightarrow> dnode \<Rightarrow> nat \<Rightarrow> bool" where
  "open_row data d e \<longleftrightarrow> multiple (data ! e) \<and> disp d [0, 1, e, 0, 1] = Some ''block''"

lemma shown_children_page:
  "shown_children d (if multiple (data ! e) then Some [0, 1, e, 0, 1] else None) = open_row data d e"
  by (simp add: shown_children_def open_row_def has_display_disp)

lemma nav_down_page:
  assumes "page_of data (rp_doc s)" and "distinct (map fst data)" and "e < length data"
  shows "nav_down (int e) s = Inr
    (if open_row data (rp_doc s) e \<and> symbols (data ! e) \<noteq> [] then focus_on [0, 1, e, 0, 1, 0] s
     else case find (shown (rp_doc s)) [Suc e..<length data] of
            None \<Rightarrow> s | Some j \<Rightarrow> focus_on (item_path j) s)"
proof -
  have "multiple (data ! e)" if "open_row data (rp_doc s) e" using that by (simp add: open_row_def)
  then show ?thesis
    using page_item_children(1) [OF assms] page_lookup(2) [OF assms(1), of "int e" 0] assms(3)
      NavNext_page [OF assms(1), of "Suc e"] shown_children_page [of "rp_doc s" data e]
    by (auto simp: nav_down_def add.commute split: option.splits)
qed

lemma last_child_page:
  assumes "page_of data d" and "e < length data" and "multiple (data ! e)" and "c \<le> length (symbols (data ! e))"
  shows "last_child d (int e) (int c) p =
    (if c = length (symbols (data ! e)) then p else [0, 1, e, 0, 1, length (symbols (data ! e)) - 1])"
  using assms(4)
proof (induction "length (symbols (data ! e)) - c" arbitrary: c p)
  case 0
  then show ?case using page_lookup(2) [OF assms(1), of "int e" "int c"] by (simp add: last_child.simps)
next
  case (Suc m)
  then have "c < length (symbols (data ! e))" by simp
  with Suc(1) [of "Suc c" "[0, 1, e, 0, 1, c]"] Suc(2) page_lookup(2) [OF assms(1), of "int e" "int c"] assms(2,3)
  show ?case by (subst last_child.simps) (auto simp: add.commute)
qed

lemma nav_up_page:
  assumes "page_of data (rp_doc s)" and "distinct (map fst data)" and "e < length data"
  shows "nav_up (int e) s = Inr
    (case find (shown (rp_doc s)) (rev [0..<e]) of
       None \<Rightarrow> call_parent Focus_search_field s
     | Some j \<Rightarrow>
         focus_on (if open_row data (rp_doc s) j
                   then last_child (rp_doc s) (int e - 1) 0 (item_path j) else item_path j) s)"
proof (cases "find (shown (rp_doc s)) (rev [0..<e])")
  case None
  then show ?thesis using NavPrev_page [OF assms(1), of e] assms(3) by (simp add: nav_up_def)
next
  case (Some j)
  then have "j \<in> set (rev [0..<e])" by (metis find_Some_iff nth_mem)
  then have "j < length data" using assms(3) by simp
  then show ?thesis
    using Some NavPrev_page [OF assms(1), of e] assms(3) page_item_children(2) [OF assms(1,2), of j]
      shown_children_page [of "rp_doc s" data j]
    by (simp add: nav_up_def)
qed

section \<open>Ids and names\<close>

lemma convertToId_suffix:
  "prefix (convertToId t) (convertToId nm @ x) \<longleftrightarrow> prefix t nm \<or> (\<exists>u. t = nm @ u \<and> prefix (convertToId u) x)"
proof (induction nm arbitrary: t)
  case Nil
  then show ?case by auto
next
  case (Cons c nm)
  show ?case
  proof (cases t)
    case Nil
    then show ?thesis by simp
  next
    case (Cons d t')
    then show ?thesis using Cons.IH [of t'] by (auto simp: escape_prefix)
  qed
qed

text \<open>The name that a row displays, in lower case: \<open>text\<close> is what the browser shows of the \<open>innerHTML\<close> of
  its link, where \<open>&lt;\<close>, say, is one character.\<close>

definition row_name :: "(jstr \<Rightarrow> jstr) \<Rightarrow> (jstr \<Rightarrow> jstr) \<Rightarrow> search_entry \<Rightarrow> jstr" where
  "row_name lower text entry = lower (text (fst (snd entry)))"

text \<open>A row id is the id of this name, an underscore and the number of the entry in the whole index.\<close>

definition indexed :: "(jstr \<Rightarrow> jstr) \<Rightarrow> (jstr \<Rightarrow> jstr) \<Rightarrow> nat list \<Rightarrow> search_entry list \<Rightarrow> bool" where
  "indexed lower text numbers data \<longleftrightarrow> length numbers = length data \<and>
     (\<forall>e<length data. fst (data ! e) = convertToId (row_name lower text (data ! e)) @ js (''_'' @ show_nat 10 (numbers ! e)))"

lemma plain_word_match:
  assumes "\<forall>c\<in>set t. id_char c"
  shows "prefix (convertToId t) (convertToId nm @ js (''_'' @ s)) \<longleftrightarrow> prefix t nm"
proof -
  have "\<not> prefix (convertToId u) (js (''_'' @ s))" if tu: "t = nm @ u" "u \<noteq> []" for u
  proof -
    obtain c u' where u: "u = c # u'" using tu(2) by (cases u) auto
    then have "id_char c" using assms tu(1) by auto
    then have "c \<noteq> 0x5F" using underscore_special by blast
    with \<open>id_char c\<close> u show ?thesis by (simp add: escape_plain)
  qed
  then show ?thesis unfolding convertToId_suffix by (metis append.right_neutral prefix_order.order_refl)
qed

section \<open>Properties\<close>

text \<open>Property C33: the traversal for the children of a row, a loop over \<open>firstChild\<close>, \<open>nextSibling\<close> and
  \<open>parentNode\<close>, returns on every document, and finds the first \<open>SRChildren\<close> div in document order that
  is nested in divs only.\<close>

theorem find_child_total:
  "FindChildElement i d =
     (case getElementById d i of
        None \<Rightarrow> Inl Type_Error
      | Some p \<Rightarrow> Inr (map_option ((@) p) (sr_find 0 (node_kids (the (at d p))))))"
  by (rule FindChildElement_eq)

text \<open>Property C31: on a page built by \<open>createResults\<close> from entries whose ids are made of their names, in any
  state its operations leave it, \<open>Search\<close> of a word that, stripped and in lower case, has only
  characters that are not escaped in an id (lower-case letters, digits and the characters from U+0080)
  displays exactly the rows whose displayed name, in lower case, starts with it; it counts them, and says so when
  there is none.\<close>

theorem search_by_prefix:
  assumes "page_of data (rp_doc s)" and "lower_ids lower data" and "indexed lower text numbers data"
    and "\<forall>c\<in>set (lower (strip_right (strip_left w))). id_char c"
  shows "\<exists>s'. results_Search lower w s = Inr s' \<and> page_of data (rp_doc s') \<and>
     (\<forall>e<length data. has_display (rp_doc s') [0, 1, e]
        (if prefix (lower (strip_right (strip_left w))) (row_name lower text (data ! e)) then ''block'' else ''none'')) \<and>
     rp_lastMatchCount s' =
       card {e. e < length data \<and> prefix (lower (strip_right (strip_left w))) (row_name lower text (data ! e))} \<and>
     has_display (rp_doc s') [0, 3] (if rp_lastMatchCount s' = 0 then ''block'' else ''none'')"
proof -
  let ?t = "lower (strip_right (strip_left w))" and ?name = "\<lambda>e. row_name lower text (data ! e)"
  have m: "prefix (search_key lower w) (fst (data ! e)) \<longleftrightarrow> prefix ?t (?name e)" if "e < length data" for e
    using that assms(3) plain_word_match [OF assms(4), of "?name e"] by (simp add: indexed_def search_key_def)
  then have "{e. matches (prefix (search_key lower w)) data e} = {e. e < length data \<and> prefix ?t (?name e)}"
    by (auto simp: matches_def)
  then have n: "card {e. matches (prefix (search_key lower w)) data e} = card {e. e < length data \<and> prefix ?t (?name e)}"
    by simp
  from results_Search_eq [OF assms(1,2), of w] obtain s' where S: "results_Search lower w s = Inr s'"
    "page_of data (rp_doc s')"
    "\<forall>e<length data. disp (rp_doc s') [0, 1, e] =
        Some (if prefix (search_key lower w) (fst (data ! e)) then ''block'' else ''none'')"
    "rp_lastMatchCount s' = card {e. matches (prefix (search_key lower w)) data e}"
    "disp (rp_doc s') [0, 3] = Some (if rp_lastMatchCount s' = 0 then ''block'' else ''none'')"
    by blast
  show ?thesis
    unfolding has_display_disp by (rule exI [of _ s']) (use S m n in simp)
qed

text \<open>An extract of the index: a name with two symbols and two names with one.\<close>

definition ascii_lower :: "16 word \<Rightarrow> 16 word" where
  "ascii_lower c = (if 0x41 \<le> c \<and> c \<le> 0x5A then c + 0x20 else c)"

definition sample_index :: "search_entry list" where
  "sample_index =
     [(js ''getedge_282'', js ''getEdge'', [(js ''a.html'', 1, js ''A''), (js ''b.html'', 1, js ''B'')]),
      (js ''getepoch_286'', js ''getEpoch'', [(js ''c.html'', 1, js ''C'')]),
      (js ''globaldata_301'', js ''globalData'', [(js ''d.html'', 1, js ''D'')])]"

definition sample_page :: results_page where
  "sample_page = new_results_page (results_body sample_index)"

lemma sample_page_of: "page_of sample_index (rp_doc sample_page)"
  by (simp add: sample_page_def new_results_page_def page_of_body)

lemma all_less_3: "(\<forall>e<3. P e) \<longleftrightarrow> P 0 \<and> P 1 \<and> P (2::nat)"
  by (auto simp: numeral_3_eq_3 numeral_2_eq_2 less_Suc_eq)

lemma less_3: "e < 3 \<longleftrightarrow> e = 0 \<or> e = 1 \<or> e = (2::nat)"
  by auto

lemma sample_length: "length sample_index = 3"
  by (simp add: sample_index_def)

lemma sample_nth: "fst (sample_index ! 0) = js ''getedge_282''" "fst (sample_index ! Suc 0) = js ''getepoch_286''"
  "fst (sample_index ! 2) = js ''globaldata_301''"
  by (simp_all add: sample_index_def del: js_simps)

lemma sample_matches: "matches P sample_index e \<longleftrightarrow>
    e = 0 \<and> P (js ''getedge_282'') \<or> e = 1 \<and> P (js ''getepoch_286'') \<or> e = 2 \<and> P (js ''globaldata_301'')"
  unfolding matches_def sample_length less_3 using sample_nth by auto

lemma sample_lower: "lower_ids (map ascii_lower) sample_index"
  by (simp add: lower_ids_def sample_index_def row_id_def ascii_lower_def)

lemma sample_names: "row_name (map ascii_lower) id (sample_index ! 0) = js ''getedge''"
  "row_name (map ascii_lower) id (sample_index ! Suc 0) = js ''getepoch''"
  "row_name (map ascii_lower) id (sample_index ! 2) = js ''globaldata''"
  by (simp_all add: sample_index_def row_name_def ascii_lower_def)

lemma sample_indexed: "indexed (map ascii_lower) id [282, 286, 301] sample_index"
proof -
  have "show_nat 10 282 = ''282''" "show_nat 10 286 = ''286''" "show_nat 10 301 = ''301''"
    by (simp_all add: show_nat_def digits_of.simps digit_char_def char_of_def bit_Suc_0_iff)
  then show ?thesis
    unfolding indexed_def sample_length all_less_3
    by (simp add: sample_nth sample_names escape_unit_def id_char_def)
qed

lemma sample_distinct: "distinct (map fst sample_index)"
  by (simp add: sample_index_def)

theorem search_by_prefix_witness:
  "\<exists>s'. results_Search (map ascii_lower) (js '' GetE '') sample_page = Inr s' \<and>
     has_display (rp_doc s') [0, 1, 0] ''block'' \<and> has_display (rp_doc s') [0, 1, 1] ''block'' \<and>
     has_display (rp_doc s') [0, 1, 2] ''none''"
proof -
  have w: "map ascii_lower (strip_right (strip_left (js '' GetE ''))) = js ''gete''"
    by (simp add: strip_left_def strip_right_def space_def ascii_lower_def)
  have "\<forall>c\<in>set (js ''gete''). id_char c" by (simp add: id_char_def)
  with w have c: "\<forall>c\<in>set (map ascii_lower (strip_right (strip_left (js '' GetE '')))). id_char c" by simp
  from search_by_prefix [OF sample_page_of sample_lower sample_indexed c] obtain s' where
    "results_Search (map ascii_lower) (js '' GetE '') sample_page = Inr s'" and
    s': "\<forall>e<length sample_index. has_display (rp_doc s') [0, 1, e]
        (if prefix (js ''gete'') (row_name (map ascii_lower) id (sample_index ! e)) then ''block'' else ''none'')"
    unfolding w by blast
  moreover have "has_display (rp_doc s') [0, 1, 0] ''block'' \<and> has_display (rp_doc s') [0, 1, 1] ''block'' \<and>
     has_display (rp_doc s') [0, 1, 2] ''none''"
    using s' unfolding sample_length all_less_3 by (simp add: sample_names)
  ultimately show ?thesis by blast
qed

text \<open>For a word that ends in a character that is escaped, the number at the end of the id is
  taken for a part of the name: searching \<open>getEpoch(\<close> displays the row of \<open>getEpoch\<close>, whose number starts
  with 28, and searching \<open>globalData(\<close> displays nothing.\<close>

theorem search_takes_number_for_name:
  "(\<exists>s'. results_Search (map ascii_lower) (js ''getEpoch('') sample_page = Inr s' \<and>
      has_display (rp_doc s') [0, 1, 1] ''block'' \<and> rp_lastMatchCount s' = 1) \<and>
   (\<exists>s'. results_Search (map ascii_lower) (js ''globalData('') sample_page = Inr s' \<and>
      has_display (rp_doc s') [0, 1, 2] ''none'' \<and> rp_lastMatchCount s' = 0)"
proof -
  have len: "length sample_index = 3" by (simp add: sample_index_def)
  have k: "search_key (map ascii_lower) (js ''getEpoch('') = js ''getepoch_28''"
    "search_key (map ascii_lower) (js ''globalData('') = js ''globaldata_28''"
    by (simp_all add: search_key_def strip_left_def strip_right_def space_def ascii_lower_def escape_unit_def
        id_char_def show_nat_def digits_of.simps digit_char_def char_of_def bit_Suc_0_iff)
  have "{e. matches (prefix (js ''getepoch_28'')) sample_index e} = {1}"
    "{e. matches (prefix (js ''globaldata_28'')) sample_index e} = {}"
    unfolding sample_matches by auto
  then have c: "card {e. matches (prefix (js ''getepoch_28'')) sample_index e} = 1"
    "card {e. matches (prefix (js ''globaldata_28'')) sample_index e} = 0" by (simp_all del: js_simps)
  from results_Search_eq [OF sample_page_of sample_lower, of "js ''getEpoch(''"] obtain s1 where 1:
    "results_Search (map ascii_lower) (js ''getEpoch('') sample_page = Inr s1"
    "\<forall>e<3. disp (rp_doc s1) [0, 1, e] = Some (if prefix (js ''getepoch_28'') (fst (sample_index ! e)) then ''block'' else ''none'')"
    "rp_lastMatchCount s1 = 1"
    unfolding k sample_length c by blast
  from results_Search_eq [OF sample_page_of sample_lower, of "js ''globalData(''"] obtain s2 where 2:
    "results_Search (map ascii_lower) (js ''globalData('') sample_page = Inr s2"
    "\<forall>e<3. disp (rp_doc s2) [0, 1, e] = Some (if prefix (js ''globaldata_28'') (fst (sample_index ! e)) then ''block'' else ''none'')"
    "rp_lastMatchCount s2 = 0"
    unfolding k sample_length c by blast
  have "disp (rp_doc s1) [0, 1, 1] = Some ''block''" "disp (rp_doc s2) [0, 1, 2] = Some ''none''"
    using 1(2) 2(2) by (simp_all add: all_less_3 sample_nth)
  with 1 2 show ?thesis unfolding has_display_disp by blast
qed

text \<open>Property C34: when no row has its children open, Down from a displayed row focuses the next displayed row,
  and Up from there comes back; \<open>ProcessKeys\<close> lets both key presses through.\<close>

lemma find_rev_between:
  assumes "find P [Suc e..<n] = Some j" and "P e"
  shows "find P (rev [0..<j]) = Some e"
proof -
  from assms(1) obtain i where i: "i < length [Suc e..<n]" "P ([Suc e..<n] ! i)" "j = [Suc e..<n] ! i"
    "\<forall>k<i. \<not> P ([Suc e..<n] ! k)" by (auto simp: find_Some_iff)
  then have j: "j = Suc e + i" "P j" by auto
  have none: "\<not> P k" if "e < k" "k < j" for k
  proof -
    have "k - Suc e < i" using that j by simp
    with i(4) have "\<not> P ([Suc e..<n] ! (k - Suc e))" by blast
    moreover have "[Suc e..<n] ! (k - Suc e) = k" using that j i(1) by simp
    ultimately show ?thesis by simp
  qed
  have up: "find P (rev [0..<k]) = Some e" if "e < k" "k \<le> j" for k
    using that
  proof (induction k)
    case (Suc k)
    show ?case
    proof (cases "k = e")
      case False
      then have "\<not> P k" "find P (rev [0..<k]) = Some e" using Suc none [of k] by simp_all
      then show ?thesis by simp
    qed (use assms(2) in simp)
  qed simp
  show ?thesis by (rule up) (use j in simp_all)
qed

lemma Nav_keydown:
  "Nav \<lparr>ev_type = Keydown, ev_keyCode = 40\<rparr> e s =
     and_then (nav_down e (s\<lparr>rp_repeatOn := False, rp_lastKey := 40\<rparr>)) (\<lambda>s'. Inr (False, s'))"
  "Nav \<lparr>ev_type = Keydown, ev_keyCode = 38\<rparr> e s =
     and_then (nav_up e (s\<lparr>rp_repeatOn := False, rp_lastKey := 38\<rparr>)) (\<lambda>s'. Inr (False, s'))"
  by (simp_all add: Nav_def ProcessKeys_def)

theorem down_then_up:
  assumes "page_of data (rp_doc s)" and "distinct (map fst data)" and "e < length data" and "shown (rp_doc s) e"
    and "\<forall>j<length data. \<not> open_row data (rp_doc s) j" and "find (shown (rp_doc s)) [Suc e..<length data] = Some j"
  shows "\<exists>s1 s2. Nav \<lparr>ev_type = Keydown, ev_keyCode = 40\<rparr> (int e) s = Inr (False, s1) \<and>
     rp_focus s1 = Some (item_path j) \<and> Nav \<lparr>ev_type = Keydown, ev_keyCode = 38\<rparr> (int j) s1 = Inr (False, s2) \<and>
     rp_focus s2 = Some (item_path e)"
proof -
  let ?s = "s\<lparr>rp_repeatOn := False, rp_lastKey := 40\<rparr>"
  let ?s1 = "focus_on (item_path j) ?s"
  let ?t = "?s1\<lparr>rp_repeatOn := False, rp_lastKey := 38\<rparr>"
  have doc: "rp_doc ?s = rp_doc s" "rp_doc ?t = rp_doc s" by (simp_all add: focus_on_def)
  have j: "j < length data" using assms(6) by (auto simp: find_Some_iff)
  have "nav_down (int e) ?s = Inr ?s1"
    using nav_down_page [of data ?s e] assms(1-3,5,6) unfolding doc by simp
  moreover have "nav_up (int j) ?t = Inr (focus_on (item_path e) ?t)"
    using nav_up_page [of data ?t j] assms(1-3,5) j find_rev_between [OF assms(6,4)] unfolding doc by simp
  ultimately show ?thesis
    by (intro exI [of _ ?s1] exI [of _ "focus_on (item_path e) ?t"]) (simp add: Nav_keydown focus_on_def)
qed

lemma initially_closed: "e < length data \<Longrightarrow> \<not> open_row data (results_body data) e"
proof -
  assume e: "e < length data"
  obtain link where L: "node_kids (sr_entry e (data ! e)) = [link, sr_second e (data ! e)]"
    using sr_entry_cases [of e "data ! e"] by metis
  have "at (results_body data) ([0, 1, e] @ [0, 1]) = Some (sr_second e (data ! e))"
    unfolding at_append body_at using e L by simp
  moreover have "node_display (sr_second e (data ! e)) = []"
    by (simp add: sr_second_def foldl_appendChild set_html_def setClassAttr_def setAttribute_def createElement_def)
  ultimately show ?thesis by (simp add: open_row_def disp_def)
qed

theorem down_then_up_witness:
  "\<exists>s s1 s2. results_Search (map ascii_lower) (js ''gete'') sample_page = Inr s \<and>
     Nav \<lparr>ev_type = Keydown, ev_keyCode = 40\<rparr> 0 s = Inr (False, s1) \<and> rp_focus s1 = Some (item_path 1) \<and>
     Nav \<lparr>ev_type = Keydown, ev_keyCode = 38\<rparr> 1 s1 = Inr (False, s2) \<and> rp_focus s2 = Some (item_path 0)"
proof -
  have len: "length sample_index = 3" by (simp add: sample_index_def)
  have k: "search_key (map ascii_lower) (js ''gete'') = js ''gete''"
    by (simp add: search_key_def strip_left_def strip_right_def space_def ascii_lower_def escape_unit_def id_char_def)
  from results_Search_eq [OF sample_page_of sample_lower, of "js ''gete''"] obtain s where
    s: "results_Search (map ascii_lower) (js ''gete'') sample_page = Inr s" "page_of sample_index (rp_doc s)"
      "\<forall>e<3. disp (rp_doc s) [0, 1, e] = Some (if prefix (js ''gete'') (fst (sample_index ! e)) then ''block'' else ''none'')"
      "\<forall>p. (\<forall>e<3. p \<noteq> [0, 1, e]) \<and> p \<noteq> [0, 2] \<and> p \<noteq> [0, 3] \<longrightarrow> disp (rp_doc s) p = disp (rp_doc sample_page) p"
    unfolding k len by blast
  have shown: "shown (rp_doc s) 0" "shown (rp_doc s) 1"
    using s(3) by (simp_all add: all_less_3 shown_def sample_index_def)
  have "disp (rp_doc s) [0, 1, e, 0, 1] = disp (results_body sample_index) [0, 1, e, 0, 1]" for e
    using s(4) by (simp add: sample_page_def new_results_page_def)
  then have closed: "\<forall>j<length sample_index. \<not> open_row sample_index (rp_doc s) j"
    using initially_closed [of _ sample_index] by (simp add: open_row_def)
  have "find (shown (rp_doc s)) [Suc 0..<length sample_index] = Some 1"
    using shown(2) by (simp add: len upt_conv_Cons)
  from down_then_up [OF s(2) sample_distinct _ shown(1) closed this] s(1) len show ?thesis by auto
qed

text \<open>
  \<open>Toggle\<close> of a row with several symbols changes whether its children are displayed and
  nothing else, and leaves the page one built by \<open>createResults\<close>; on a row with one symbol it does
  nothing.\<close>

lemma toggle_children:
  assumes "page_of data (rp_doc s)" and "distinct (map fst data)" and "e < length data"
  shows "\<exists>s'. Toggle (row_id (fst (data ! e))) s = Inr s' \<and> page_of data (rp_doc s') \<and>
     (open_row data (rp_doc s') e \<longleftrightarrow> multiple (data ! e) \<and> \<not> open_row data (rp_doc s) e) \<and>
     (\<forall>p. p \<noteq> [0, 1, e, 0, 1] \<longrightarrow> has_display (rp_doc s') p = has_display (rp_doc s) p)"
proof -
  let ?p = "[0, 1, e, 0, 1]"
  note F = page_children [OF assms]
  show ?thesis
  proof (cases "multiple (data ! e)")
    case False
    then have "Toggle (row_id (fst (data ! e))) s = Inr s" using F by (simp add: Toggle_def)
    with False assms(1) show ?thesis by (simp add: open_row_def)
  next
    case True
    have "find_child_loop (rp_doc s) [0, 1, e] (firstChild (rp_doc s) [0, 1, e]) = Some (Some ?p)"
      using F True page_lookup(3) [OF assms] by (simp add: FindChildElement_def split: option.splits)
    have "at (rp_doc s) ?p \<noteq> None"
    proof -
      obtain link where L: "node_kids (sr_entry e (data ! e)) = [link, sr_second e (data ! e)]"
        using sr_entry_cases [of e "data ! e"] by metis
      have "at (results_body data) ([0, 1, e] @ [0, 1]) = Some (sr_second e (data ! e))"
        unfolding at_append body_at using assms(3) L by simp
      with same_at [of "rp_doc s" "results_body data" ?p] assms(1) show ?thesis
        by (auto simp: page_of_def simp del: at.simps)
    qed
    then have d: "disp (rp_doc (set_display_at ?p v s)) q = (if q = ?p then Some v else disp (rp_doc s) q)" for v q
      by (simp add: set_display_at_def disp_update)
    let ?v = "if has_display (rp_doc s) ?p ''block'' then ''none'' else ''block''"
    have "Toggle (row_id (fst (data ! e))) s = Inr (set_display_at ?p ?v s)"
      using F True by (simp add: Toggle_def)
    moreover have "page_of data (rp_doc (set_display_at ?p ?v s))"
      using assms(1) by (simp add: set_display_at_def page_of_update)
    moreover have "open_row data (rp_doc (set_display_at ?p ?v s)) e \<longleftrightarrow> \<not> open_row data (rp_doc s) e"
      unfolding open_row_def d using True by (simp add: has_display_disp)
    moreover have "has_display (rp_doc (set_display_at ?p ?v s)) q = has_display (rp_doc s) q" if "q \<noteq> ?p" for q
      unfolding fun_eq_iff has_display_disp d using that by simp
    ultimately show ?thesis using True by blast
  qed
qed

text \<open>A key that is held sends a keydown, keypresses and a keyup; \<open>ProcessKeys\<close> lets the
  keydown through and every keypress but the first, and ends as it began.\<close>

fun key_results :: "key_event list \<Rightarrow> results_page \<Rightarrow> bool list \<times> results_page" where
  "key_results [] s = ([], s)"
| "key_results (e # es) s =
     (case ProcessKeys e s of (r, s1) \<Rightarrow> case key_results es s1 of (rs, s2) \<Rightarrow> (r # rs, s2))"

lemma key_results_repeat:
  assumes "rp_repeatOn s" and "rp_lastKey s \<noteq> 0"
  shows "key_results (replicate n \<lparr>ev_type = Keypress, ev_keyCode = k'\<rparr> @ es) s =
    (replicate n True @ fst (key_results es s), snd (key_results es s))"
proof (induction n)
  case (Suc n)
  have "ProcessKeys \<lparr>ev_type = Keypress, ev_keyCode = k'\<rparr> s = (True, s)"
    using assms by (simp add: ProcessKeys_def)
  with Suc show ?case by simp
qed simp

theorem held_key:
  assumes "k \<noteq> 0"
  shows "fst (key_results (\<lparr>ev_type = Keydown, ev_keyCode = k\<rparr> #
           replicate (Suc n) \<lparr>ev_type = Keypress, ev_keyCode = k'\<rparr> @ [\<lparr>ev_type = Keyup, ev_keyCode = k\<rparr>]) s)
         = True # False # replicate n True @ [False] \<and>
    snd (key_results (\<lparr>ev_type = Keydown, ev_keyCode = k\<rparr> #
           replicate (Suc n) \<lparr>ev_type = Keypress, ev_keyCode = k'\<rparr> @ [\<lparr>ev_type = Keyup, ev_keyCode = k\<rparr>]) s)
         = s\<lparr>rp_lastKey := 0, rp_repeatOn := False\<rparr>"
proof -
  have "ProcessKeys \<lparr>ev_type = Keydown, ev_keyCode = k\<rparr> s = (True, s\<lparr>rp_repeatOn := False, rp_lastKey := k\<rparr>)"
    "ProcessKeys \<lparr>ev_type = Keypress, ev_keyCode = k'\<rparr> (s\<lparr>rp_repeatOn := False, rp_lastKey := k\<rparr>)
       = (False, s\<lparr>rp_lastKey := k, rp_repeatOn := True\<rparr>)"
    using assms by (simp_all add: ProcessKeys_def)
  then show ?thesis
    using assms by (simp add: key_results_repeat) (simp add: ProcessKeys_def)
qed

theorem held_key_witness:
  "fst (key_results [\<lparr>ev_type = Keydown, ev_keyCode = 40\<rparr>, \<lparr>ev_type = Keypress, ev_keyCode = 40\<rparr>,
      \<lparr>ev_type = Keypress, ev_keyCode = 40\<rparr>, \<lparr>ev_type = Keyup, ev_keyCode = 40\<rparr>] sample_page) = [True, False, True, False]"
  using held_key [of 40 1 40 sample_page] by simp

end
