(* ===== verification/Dox_Box.thy ===== *)
theory Dox_Box
  imports Dox_Ids
begin

text \<open>
  The search box of the documentation pages (\<open>docs/search/search.js\<close>, \<open>SearchBox\<close> and \<open>init_search\<close>)
  with the tables of \<open>docs/search/searchdata.js\<close>. The state is the object, the elements it reads and
  writes, and the timers of the window. The geometry of the page and \<open>toLowerCase\<close> come from the browser
  and are parameters; so is the comparison of a string with 1, which the code makes on a search value that
  starts with a surrogate. A call to \<open>focus\<close> or \<open>blur\<close> is recorded; the events it raises are not chained.
\<close>

section \<open>\<open>escape\<close> and \<open>unescape\<close>\<close>

definition upper_digit :: "nat \<Rightarrow> 16 word" where
  "upper_digit d = (if d < 10 then of_nat (48 + d) else of_nat (55 + d))"

definition url_char :: "16 word \<Rightarrow> bool" where
  "url_char c \<longleftrightarrow> 0x41 \<le> c \<and> c \<le> 0x5A \<or> 0x61 \<le> c \<and> c \<le> 0x7A \<or> 0x30 \<le> c \<and> c \<le> 0x39 \<or> c \<in> set (js ''@*_+-./'')"

definition hex_units :: "nat \<Rightarrow> nat \<Rightarrow> jstr" where
  "hex_units k n = map (\<lambda>i. upper_digit (n div 16 ^ i mod 16)) (rev [0..<k])"

definition js_escape :: "jstr \<Rightarrow> jstr" where
  "js_escape s = concat (map (\<lambda>c.
     if url_char c then [c]
     else if unat c < 256 then js ''%'' @ hex_units 2 (unat c)
     else js ''%u'' @ hex_units 4 (unat c)) s)"

definition hex_value :: "16 word \<Rightarrow> nat option" where
  "hex_value c =
     (if 0x30 \<le> c \<and> c \<le> 0x39 then Some (unat c - 48)
      else if 0x41 \<le> c \<and> c \<le> 0x46 then Some (unat c - 55)
      else if 0x61 \<le> c \<and> c \<le> 0x66 then Some (unat c - 87) else None)"

fun hex_number :: "nat \<Rightarrow> jstr \<Rightarrow> nat option" where
  "hex_number acc [] = Some acc"
| "hex_number acc (c # s) =
     (case hex_value c of None \<Rightarrow> None | Some d \<Rightarrow> hex_number (16 * acc + d) s)"

text \<open>A malformed escape is copied.\<close>

function js_unescape :: "jstr \<Rightarrow> jstr" where
  "js_unescape [] = []"
| "js_unescape (c # s) =
     (if c = 0x25 then
        (if length s \<ge> 5 \<and> hd s = 0x75 \<and> hex_number 0 (take 4 (tl s)) \<noteq> None then
           of_nat (the (hex_number 0 (take 4 (tl s)))) # js_unescape (drop 5 s)
         else if length s \<ge> 2 \<and> hex_number 0 (take 2 s) \<noteq> None then
           of_nat (the (hex_number 0 (take 2 s))) # js_unescape (drop 2 s)
         else c # js_unescape s)
      else c # js_unescape s)"
  by pat_completeness auto
termination by (relation "measure length") auto

section \<open>Geometry\<close>

text \<open>An element with its \<open>offsetParent\<close>.\<close>

datatype layout_box = Box
  (offsetLeft: int) (offsetTop: int) (offsetWidth: int) (offsetHeight: int)
  (is_body: bool) (offsetParent: "layout_box option")

fun sum_offsets :: "(layout_box \<Rightarrow> int) \<Rightarrow> layout_box \<Rightarrow> int" where
  "sum_offsets f (Box l t w h body parent) =
     (if body then 0
      else f (Box l t w h body parent) + (case parent of None \<Rightarrow> 0 | Some p \<Rightarrow> sum_offsets f p))"

definition getXPos :: "layout_box \<Rightarrow> int" where
  "getXPos item = (if offsetWidth item \<noteq> 0 then sum_offsets offsetLeft item else 0)"

definition getYPos :: "layout_box \<Rightarrow> int" where
  "getYPos item = (if offsetWidth item \<noteq> 0 then sum_offsets offsetTop item else 0)"

record browser =
  br_select :: layout_box
  br_box :: layout_box
  br_select_window_width :: int
  br_results_width :: int
  br_client_width :: int
  br_lower :: "jstr \<Rightarrow> jstr"
  br_gt_1 :: "jstr \<Rightarrow> bool"

section \<open>The search box and its page\<close>

datatype box_fault = Box_Type_Error

record win_style =
  ws_display :: string
  ws_position :: string
  ws_left :: "int option"
  ws_top :: "int option"
  ws_width :: "int option"

record select_child =
  sc_class :: string
  sc_mark :: string
  sc_onclick :: jstr
  sc_label :: jstr

datatype timer_action = Run_Search | Run_CloseSelectionWindow

datatype box_focus = No_focus | Field_focus | Item_focus nat

record search_box =
  sb_resultsPath :: jstr
  sb_insideFrame :: bool
  sb_searchLabel :: jstr
  sb_extension :: jstr
  sb_keyTimeout :: nat
  sb_hideTimeout :: nat
  sb_keyTimeoutLength :: nat
  sb_closeSelectionTimeout :: nat
  sb_lastSearchValue :: jstr
  sb_lastResultsPage :: jstr
  sb_searchIndex :: nat
  sb_searchActive :: bool
  dom_field_value :: jstr
  dom_box_class :: string
  dom_close_display :: string
  dom_select_window :: win_style
  dom_select_children :: "select_child list"
  dom_results_window :: win_style
  dom_results_width :: "int option"
  frame_location :: jstr
  frame_messages :: "string list"
  dom_focus :: box_focus
  timers :: "(nat \<times> timer_action \<times> nat) list"
  next_timer :: nat

definition no_style :: win_style where
  "no_style = \<lparr>ws_display = [], ws_position = [], ws_left = None, ws_top = None, ws_width = None\<rparr>"

text \<open>The constructor, on a page whose field shows the label.\<close>

definition SearchBox :: "jstr \<Rightarrow> bool \<Rightarrow> jstr \<Rightarrow> jstr \<Rightarrow> search_box" where
  "SearchBox resultsPath inFrame label extension =
     \<lparr>sb_resultsPath = resultsPath, sb_insideFrame = inFrame, sb_searchLabel = label,
      sb_extension = (if extension = [] then js ''.html'' else extension),
      sb_keyTimeout = 0, sb_hideTimeout = 0, sb_keyTimeoutLength = 500, sb_closeSelectionTimeout = 300,
      sb_lastSearchValue = [], sb_lastResultsPage = [], sb_searchIndex = 0, sb_searchActive = False,
      dom_field_value = label, dom_box_class = ''MSearchBoxInactive'', dom_close_display = [],
      dom_select_window = no_style, dom_select_children = [], dom_results_window = no_style,
      dom_results_width = None, frame_location = [], frame_messages = [], dom_focus = No_focus,
      timers = [], next_timer = 1\<rparr>"

definition setTimeout :: "timer_action \<Rightarrow> nat \<Rightarrow> search_box \<Rightarrow> nat \<times> search_box" where
  "setTimeout act delay s =
     (next_timer s, s\<lparr>timers := timers s @ [(next_timer s, act, delay)], next_timer := next_timer s + 1\<rparr>)"

definition clearTimeout :: "nat \<Rightarrow> search_box \<Rightarrow> search_box" where
  "clearTimeout i s = s\<lparr>timers := filter (\<lambda>t. fst t \<noteq> i) (timers s)\<rparr>"

section \<open>Tables\<close>

text \<open>A section of the index: the characters that start a symbol, the file name and the label.\<close>

definition indexSectionsWithContent :: "jstr list" where
  "indexSectionsWithContent = map js
     [''_abcdefghijlmnoprstuvwxyz~'', ''abcdefghijlmnoprstuvz'', ''fn'', ''bcdefghijlmnoprstvz'',
      ''_abcdefghijlmnoprstuvwz~'', ''_bcdeghilmnoprstuwxy'', ''abcdefgijlmnprstuvwz'', ''celmst'',
      ''dl'', ''fm'', ''df'']"

definition indexSectionNames :: "jstr list" where
  "indexSectionNames = map js
     [''all'', ''classes'', ''namespaces'', ''files'', ''functions'', ''variables'', ''typedefs'',
      ''enums'', ''enumvalues'', ''defines'', ''pages'']"

definition indexSectionLabels :: "jstr list" where
  "indexSectionLabels = map js
     [''All'', ''Classes'', ''Namespaces'', ''Files'', ''Functions'', ''Variables'', ''Typedefs'',
      ''Enumerations'', ''Enumerator'', ''Macros'', ''Pages'']"

text \<open>\<open>String.prototype.indexOf\<close>: the first position of a substring, \<open>None\<close> for -1.\<close>

fun indexOf :: "jstr \<Rightarrow> jstr \<Rightarrow> nat option" where
  "indexOf t [] = (if t = [] then Some 0 else None)"
| "indexOf t (c # s) =
     (if take (length t) (c # s) = t then Some 0 else map_option Suc (indexOf t s))"

section \<open>Operations\<close>

definition CloseSelectionWindow :: "search_box \<Rightarrow> search_box" where
  "CloseSelectionWindow s = s\<lparr>dom_select_window := (dom_select_window s)\<lparr>ws_display := ''none''\<rparr>\<rparr>"

definition Activate :: "bool \<Rightarrow> search_box \<Rightarrow> search_box" where
  "Activate isActive s =
     (if isActive \<or> ws_display (dom_results_window s) = ''block'' then
        let s1 = s\<lparr>dom_box_class := ''MSearchBoxActive''\<rparr> in
        if dom_field_value s1 = sb_searchLabel s1
        then s1\<lparr>dom_field_value := [], sb_searchActive := True\<rparr> else s1
      else
        s\<lparr>dom_box_class := ''MSearchBoxInactive'', dom_field_value := sb_searchLabel s,
          sb_searchActive := False, sb_lastSearchValue := [], sb_lastResultsPage := []\<rparr>)"

definition OnSearchFieldFocus :: "bool \<Rightarrow> search_box \<Rightarrow> search_box" where
  "OnSearchFieldFocus isActive s = Activate isActive s"

definition hide_results :: "search_box \<Rightarrow> search_box" where
  "hide_results s = s\<lparr>dom_results_window := (dom_results_window s)\<lparr>ws_display := ''none''\<rparr>,
     dom_close_display := ''none''\<rparr>"

definition CloseResultsWindow :: "search_box \<Rightarrow> search_box" where
  "CloseResultsWindow s = Activate False (hide_results s)"

definition OnSearchSelectShow :: "browser \<Rightarrow> search_box \<Rightarrow> search_box" where
  "OnSearchSelectShow br s =
     (let left = (if sb_insideFrame s
                  then getXPos (br_select br) + (offsetWidth (br_select br) + 6) - br_select_window_width br
                  else getXPos (br_select br));
          top = getYPos (br_select br) + offsetHeight (br_select br);
          s1 = s\<lparr>dom_select_window := (dom_select_window s)
                   \<lparr>ws_display := ''block'', ws_left := Some left, ws_top := Some top\<rparr>\<rparr>
      in if sb_hideTimeout s1 \<noteq> 0 then (clearTimeout (sb_hideTimeout s1) s1)\<lparr>sb_hideTimeout := 0\<rparr> else s1)"

definition OnSearchSelectHide :: "search_box \<Rightarrow> search_box" where
  "OnSearchSelectHide s =
     (case setTimeout Run_CloseSelectionWindow (sb_closeSelectionTimeout s) s of
        (i, s1) \<Rightarrow> s1\<lparr>sb_hideTimeout := i\<rparr>)"

text \<open>The results page of a search value: the file of the section and the letter.\<close>

definition idx_char :: "browser \<Rightarrow> jstr \<Rightarrow> jstr" where
  "idx_char br searchValue =
     (let lowered = br_lower br searchValue
      in if lowered \<noteq> [] \<and> 0xD800 \<le> hd lowered \<and> hd lowered \<le> 0xDBFF \<and> br_gt_1 br searchValue
         then take 2 searchValue
         else br_lower br (take 1 searchValue))"

definition results_page_for :: "browser \<Rightarrow> jstr \<Rightarrow> search_box \<Rightarrow> box_fault + jstr \<times> jstr" where
  "results_page_for br searchValue s =
     (if sb_searchIndex s < length indexSectionsWithContent then
        (case indexOf (idx_char br searchValue) (indexSectionsWithContent ! sb_searchIndex s) of
           Some idx \<Rightarrow>
             let resultsPage = sb_resultsPath s @ js ''/'' @ (indexSectionNames ! sb_searchIndex s) @ js ''_''
                   @ js (show_nat 16 idx) @ sb_extension s
             in Inr (resultsPage, resultsPage @ js ''?'' @ js_escape searchValue)
         | None \<Rightarrow>
             let resultsPage = sb_resultsPath s @ js ''/nomatches'' @ sb_extension s
             in Inr (resultsPage, resultsPage))
      else Inl Box_Type_Error)"

definition show_results :: "browser \<Rightarrow> search_box \<Rightarrow> search_box" where
  "show_results br s =
     (if ws_display (dom_results_window s) = ''block'' then s
      else
        let s1 = s\<lparr>dom_close_display := ''inline-block''\<rparr> in
        if sb_insideFrame s1 then
          let width = br_client_width br - 8 in
          s1\<lparr>dom_results_window := (dom_results_window s1)
               \<lparr>ws_position := ''relative'', ws_display := ''block'', ws_width := Some width\<rparr>,
             dom_results_width := Some width\<rparr>
        else
          let left = getXPos (br_box br) + 150 - br_results_width br; top = getYPos (br_box br) + 20 in
          s1\<lparr>dom_results_window := (dom_results_window s1)
               \<lparr>ws_display := ''block'', ws_top := Some top, ws_left := Some left\<rparr>\<rparr>)"

definition box_Search :: "browser \<Rightarrow> search_box \<Rightarrow> box_fault + search_box" where
  "box_Search br s =
     (let s0 = s\<lparr>sb_keyTimeout := 0\<rparr>; searchValue = strip_left (dom_field_value s0) in
      and_then (results_page_for br searchValue s0) (\<lambda>(resultsPage, resultsPageWithSearch).
        let s1 = show_results br (s0\<lparr>frame_location := resultsPageWithSearch\<rparr>) in
        Inr (s1\<lparr>sb_lastSearchValue := searchValue, sb_lastResultsPage := resultsPage\<rparr>)))"

section \<open>The search field\<close>

record box_event =
  be_keyCode :: nat
  be_shiftKey :: bool

definition is_select_item :: "select_child \<Rightarrow> bool" where
  "is_select_item c \<longleftrightarrow> sc_class c = ''SelectItem''"

fun first_select_item :: "nat \<Rightarrow> select_child list \<Rightarrow> nat option" where
  "first_select_item i [] = None"
| "first_select_item i (c # cs) = (if is_select_item c then Some i else first_select_item (Suc i) cs)"

text \<open>The end of the handler: the value of the field, without blanks, against the last search.\<close>

definition field_changed :: "search_box \<Rightarrow> search_box" where
  "field_changed s =
     (let searchValue = strip_all (dom_field_value s) in
      if searchValue \<noteq> sb_lastSearchValue s then
        if searchValue \<noteq> [] then
          case setTimeout Run_Search (sb_keyTimeoutLength s) s of (i, s1) \<Rightarrow> s1\<lparr>sb_keyTimeout := i\<rparr>
        else (hide_results s)\<lparr>sb_lastSearchValue := []\<rparr>
      else s)"

definition kill_key_timer :: "search_box \<Rightarrow> search_box" where
  "kill_key_timer s =
     (if sb_keyTimeout s \<noteq> 0 then (clearTimeout (sb_keyTimeout s) s)\<lparr>sb_keyTimeout := 0\<rparr> else s)"

definition OnSearchFieldChange :: "browser \<Rightarrow> box_event \<Rightarrow> search_box \<Rightarrow> search_box" where
  "OnSearchFieldChange br e s =
     (let s0 = kill_key_timer s in
      if be_keyCode e = 40 \<or> be_keyCode e = 13 then
        if be_shiftKey e then
          let s1 = OnSearchSelectShow br s0 in
          (case first_select_item 0 (dom_select_children s1) of
             Some i \<Rightarrow> s1\<lparr>dom_focus := Item_focus i\<rparr>
           | None \<Rightarrow> s1)
        else field_changed (s0\<lparr>frame_messages := frame_messages s0 @ [''take_focus'']\<rparr>)
      else if be_keyCode e = 27 then
        Activate False ((hide_results (s0\<lparr>dom_focus := No_focus\<rparr>))\<lparr>sb_lastSearchValue := []\<rparr>)
      else field_changed s0)"

section \<open>The filter\<close>

definition SelectItemCount :: "search_box \<Rightarrow> nat" where
  "SelectItemCount s = length (filter is_select_item (dom_select_children s))"

fun mark_items :: "nat \<Rightarrow> nat \<Rightarrow> select_child list \<Rightarrow> select_child list" where
  "mark_items i j [] = []"
| "mark_items i j (c # cs) =
     (if is_select_item c
      then c\<lparr>sc_mark := if j = i then ''&#8226;'' else ''&#160;''\<rparr> # mark_items i (Suc j) cs
      else c # mark_items i j cs)"

definition SelectItemSet :: "nat \<Rightarrow> search_box \<Rightarrow> search_box" where
  "SelectItemSet i s = s\<lparr>dom_select_children := mark_items i 0 (dom_select_children s)\<rparr>"

definition OnSelectItem :: "browser \<Rightarrow> nat \<Rightarrow> search_box \<Rightarrow> box_fault + search_box" where
  "OnSelectItem br i s =
     (let s1 = SelectItemSet i (s\<lparr>sb_searchIndex := i\<rparr>) in
      if strip_all (dom_field_value s1) \<noteq> [] \<and> sb_searchActive s1 then box_Search br s1 else Inr s1)"

definition OnSearchSelectKey :: "browser \<Rightarrow> box_event \<Rightarrow> search_box \<Rightarrow> box_fault + search_box" where
  "OnSearchSelectKey br e s =
     (if be_keyCode e = 40 \<and> sb_searchIndex s < SelectItemCount s then OnSelectItem br (sb_searchIndex s + 1) s
      else if be_keyCode e = 38 \<and> sb_searchIndex s > 0 then OnSelectItem br (sb_searchIndex s - 1) s
      else if be_keyCode e = 13 \<or> be_keyCode e = 27 then
        and_then (OnSelectItem br (sb_searchIndex s) s) (\<lambda>s1.
          Inr ((CloseSelectionWindow s1)\<lparr>dom_focus := Field_focus\<rparr>))
      else Inr s)"

definition select_link :: "nat \<Rightarrow> jstr \<Rightarrow> select_child" where
  "select_link key label =
     \<lparr>sc_class = ''SelectItem'', sc_mark = ''&#160;'',
      sc_onclick = js (''searchBox.OnSelectItem('' @ show_nat 10 key @ '')''), sc_label = label\<rparr>"

definition init_search :: "browser \<Rightarrow> search_box \<Rightarrow> box_fault + search_box" where
  "init_search br s =
     OnSelectItem br 0
       (s\<lparr>dom_select_children := dom_select_children s
            @ map (\<lambda>key. select_link key (indexSectionLabels ! key)) [0..<length indexSectionLabels]\<rparr>)"

text \<open>A timer fires: it is removed and its action runs.\<close>

definition fire :: "browser \<Rightarrow> nat \<Rightarrow> search_box \<Rightarrow> box_fault + search_box" where
  "fire br i s =
     (case find (\<lambda>t. fst t = i) (timers s) of
        None \<Rightarrow> Inr s
      | Some (_, Run_Search, _) \<Rightarrow> box_Search br (clearTimeout i s)
      | Some (_, Run_CloseSelectionWindow, _) \<Rightarrow> Inr (CloseSelectionWindow (clearTimeout i s)))"

end
