(* ===== verification/Dox_Box_Props.thy ===== *)
theory Dox_Box_Props
  imports Dox_Box
begin

text \<open>
  What the search box does: \<open>unescape\<close> undoes \<open>escape\<close>, the results page is the one of the section and the letter,
  and how many searches are pending at a time.
\<close>

section \<open>The URL\<close>

lemma upper_digit_unat: "d < 16 \<Longrightarrow> unat (upper_digit d) = (if d < 10 then 48 + d else 55 + d)"
proof -
  assume "d < 16"
  have "unat (of_nat n :: 16 word) = n" if "n < 100" for n using that by (simp add: unat_of_nat)
  with \<open>d < 16\<close> show ?thesis by (simp add: upper_digit_def del: of_nat_add)
qed

lemma hex_value_upper: "d < 16 \<Longrightarrow> hex_value (upper_digit d) = Some d"
  using upper_digit_unat [of d] by (auto simp: hex_value_def word_le_nat_alt)

lemma upper_digit_not_u: "d < 16 \<Longrightarrow> upper_digit d \<noteq> 0x75"
  using upper_digit_unat [of d] by (auto split: if_splits)

lemma hex_units_2: "hex_units 2 n = [upper_digit (n div 16 mod 16), upper_digit (n mod 16)]"
  by (simp add: hex_units_def numeral_2_eq_2)

lemma hex_units_4:
  "hex_units 4 n = [upper_digit (n div 4096 mod 16), upper_digit (n div 256 mod 16),
     upper_digit (n div 16 mod 16), upper_digit (n mod 16)]"
proof -
  have "rev [0..<4] = [3, 2, 1, 0::nat]" by (simp add: upt_rec)
  then show ?thesis by (simp add: hex_units_def)
qed

lemma js_escape_simps [simp]: "js_escape [] = []"
  "js_escape (c # s) = (if url_char c then [c]
     else if unat c < 256 then js ''%'' @ hex_units 2 (unat c)
     else js ''%u'' @ hex_units 4 (unat c)) @ js_escape s"
  by (simp_all add: js_escape_def)

lemma hex_number_2:
  "n < 256 \<Longrightarrow> hex_number 0 [upper_digit (n div 16 mod 16), upper_digit (n mod 16)] = Some n"
  by (simp add: hex_value_upper)

lemma hex_number_4:
  assumes "n < 65536"
  shows "hex_number 0 [upper_digit (n div 4096 mod 16), upper_digit (n div 256 mod 16),
     upper_digit (n div 16 mod 16), upper_digit (n mod 16)] = Some n"
proof -
  have m: "n div 4096 mod 16 = n div 4096" using assms by simp
  have "16 * (n div 16) + n mod 16 = n" "16 * (n div 256) + n div 16 mod 16 = n div 16"
    "16 * (n div 4096) + n div 256 mod 16 = n div 256"
    using mult_div_mod_eq [of 16 n] mult_div_mod_eq [of 16 "n div 16"] mult_div_mod_eq [of 16 "n div 256"]
    by (simp_all add: div_mult2_eq [symmetric])
  then have "16 * (16 * (16 * (n div 4096) + n div 256 mod 16) + n div 16 mod 16) + n mod 16 = n"
    by (simp only:)
  moreover have "hex_value (upper_digit (n div 4096)) = Some (n div 4096)"
    using assms by (intro hex_value_upper) simp
  ultimately show ?thesis by (simp add: hex_value_upper m)
qed

lemma unescape_escape: "js_unescape (js_escape s) = s"
proof (induction s)
  case (Cons c s)
  show ?case
  proof (cases "url_char c")
    case True
    then have "c \<noteq> 0x25" by (auto simp: url_char_def)
    with True Cons show ?thesis by simp
  next
    case False
    show ?thesis
    proof (cases "unat c < 256")
      case True
      with False Cons hex_number_2 [OF True] upper_digit_not_u [of "unat c div 16 mod 16"] show ?thesis
        by (simp add: hex_units_2 del: hex_number.simps)
    next
      case large: False
      have "unat c < 65536" using unsigned_less [of c, where 'a = nat] by simp
      with False large Cons hex_number_4 [of "unat c"] show ?thesis
        by (simp add: hex_units_4 del: hex_number.simps)
    qed
  qed
qed simp

section \<open>Pages\<close>

lemma indexOf_single: "indexOf [c] s = Some i \<longleftrightarrow> i < length s \<and> s ! i = c \<and> (\<forall>j<i. s ! j \<noteq> c)"
proof (induction s arbitrary: i)
  case (Cons d s)
  show ?case
  proof (cases i)
    case 0
    then show ?thesis by auto
  next
    case (Suc k)
    have "(\<forall>j<Suc k. (d # s) ! j \<noteq> c) \<longleftrightarrow> d \<noteq> c \<and> (\<forall>j<k. s ! j \<noteq> c)"
      by (auto simp: less_Suc_eq_0_disj)
    with Cons.IH [of k] Suc show ?thesis by auto
  qed
qed simp

lemma indexOf_mem: "indexOf [c] s \<noteq> None \<longleftrightarrow> c \<in> set s"
  by (induction s) auto

lemma sections: "length indexSectionsWithContent = 11" "length indexSectionNames = 11" "length indexSectionLabels = 11"
  by (simp_all add: indexSectionsWithContent_def indexSectionNames_def indexSectionLabels_def)

lemma names_distinct: "distinct indexSectionNames"
  by (simp add: indexSectionNames_def)

lemma names_no_underscore: "n \<in> set indexSectionNames \<Longrightarrow> 0x5F \<notin> set n"
  by (auto simp: indexSectionNames_def)

lemma page_inject:
  assumes "m \<in> set indexSectionNames" and "n \<in> set indexSectionNames"
    and "m @ js ''_'' @ js (show_nat 16 i) @ ext = n @ js ''_'' @ js (show_nat 16 j) @ ext"
  shows "m = n \<and> i = j"
proof -
  have sep: "us = us' \<and> vs = vs'" if "us @ c # vs = us' @ c # vs'" "c \<notin> set us" "c \<notin> set us'"
    for us us' vs vs' :: jstr and c
    using that
  proof (induction us arbitrary: us')
    case Nil
    then show ?case by (cases us') auto
  next
    case (Cons u us)
    then show ?case by (cases us') auto
  qed
  from sep [of m "0x5F" "js (show_nat 16 i) @ ext" n "js (show_nat 16 j) @ ext"] assms names_no_underscore
  have "m = n" "js (show_nat 16 i) = js (show_nat 16 j)" by auto
  then show ?thesis by (simp add: show_nat_inject)
qed

section \<open>Timers\<close>

definition search_timers :: "search_box \<Rightarrow> (nat \<times> timer_action \<times> nat) list" where
  "search_timers s = filter (\<lambda>t. fst (snd t) = Run_Search) (timers s)"

definition search_ids :: "search_box \<Rightarrow> nat set" where
  "search_ids s = fst ` set (search_timers s)"

lemma search_ids_iff: "i \<in> search_ids s \<longleftrightarrow> (\<exists>d. (i, Run_Search, d) \<in> set (timers s))"
  by (force simp: search_ids_def search_timers_def)

text \<open>What holds after \<open>n\<close> selections that forgot a pending search: \<open>keyTimeout\<close> is 0 or refers to
  a pending search, the others are at most \<open>n\<close>, and \<open>hideTimeout\<close> refers to none of them.\<close>

definition searches_ok :: "nat \<Rightarrow> search_box \<Rightarrow> bool" where
  "searches_ok n s \<longleftrightarrow>
     length (search_timers s) \<le> n + (if sb_keyTimeout s = 0 then 0 else 1) \<and>
     (n = 0 \<longrightarrow> search_ids s \<subseteq> {sb_keyTimeout s}) \<and>
     (sb_keyTimeout s \<noteq> 0 \<longrightarrow> sb_keyTimeout s \<in> search_ids s) \<and>
     sb_hideTimeout s \<notin> search_ids s \<and>
     (\<forall>t\<in>set (timers s). 0 < fst t \<and> fst t < next_timer s) \<and> 0 < next_timer s \<and> distinct (map fst (timers s)) \<and>
     sb_hideTimeout s < next_timer s \<and> sb_keyTimeout s < next_timer s"

lemma searches_ok_cong:
  assumes "timers s' = timers s" "next_timer s' = next_timer s" "sb_keyTimeout s' = sb_keyTimeout s"
    "sb_hideTimeout s' = sb_hideTimeout s"
  shows "searches_ok n s' = searches_ok n s"
  using assms by (simp add: searches_ok_def search_ids_def search_timers_def)

text \<open>What the user does in the search box, the filters apart: editing the field with any key, opening and leaving
  the list of filters, entering or leaving the field, closing the results; and the timers. A handler that raises an error
  ends the page's script and has no step.\<close>

inductive box_step :: "browser \<Rightarrow> search_box \<Rightarrow> search_box \<Rightarrow> bool" for br :: browser where
  step_change: "box_step br s (OnSearchFieldChange br e (s\<lparr>dom_field_value := v\<rparr>))"
| step_show: "box_step br s (OnSearchSelectShow br s)"
| step_hide: "box_step br s (OnSearchSelectHide s)"
| step_focus: "box_step br s (OnSearchFieldFocus b s)"
| step_close: "box_step br s (CloseResultsWindow s)"
| step_fire: "t \<in> set (timers s) \<Longrightarrow> fire br (fst t) s = Inr s' \<Longrightarrow> box_step br s s'"

text \<open>The filters: a click on one, the keys in their list, and the initialisation, which selects the first.\<close>

inductive select_step :: "browser \<Rightarrow> search_box \<Rightarrow> search_box \<Rightarrow> bool" for br :: browser where
  select_item: "OnSelectItem br i s = Inr s' \<Longrightarrow> select_step br s s'"
| select_key: "OnSearchSelectKey br e s = Inr s' \<Longrightarrow> select_step br s s'"
| select_init: "init_search br s = Inr s' \<Longrightarrow> select_step br s s'"

text \<open>Sequences of steps, with the number of the selections made while \<open>keyTimeout\<close> was set that reset it.\<close>

inductive box_steps :: "browser \<Rightarrow> search_box \<Rightarrow> nat \<Rightarrow> search_box \<Rightarrow> bool" for br :: browser and s :: search_box where
  steps_refl: "box_steps br s 0 s"
| steps_step: "box_steps br s n s' \<Longrightarrow> box_step br s' s'' \<Longrightarrow> box_steps br s n s''"
| steps_select: "box_steps br s n s' \<Longrightarrow> select_step br s' s'' \<Longrightarrow>
    box_steps br s (if sb_keyTimeout s' \<noteq> 0 \<and> sb_keyTimeout s'' = 0 then Suc n else n) s''"

lemma hide_results_simps [simp]: "timers (hide_results s) = timers s" "next_timer (hide_results s) = next_timer s"
  "sb_keyTimeout (hide_results s) = sb_keyTimeout s" "sb_hideTimeout (hide_results s) = sb_hideTimeout s"
  by (simp_all add: hide_results_def)

lemma Activate_simps [simp]: "timers (Activate b s) = timers s" "next_timer (Activate b s) = next_timer s"
  "sb_keyTimeout (Activate b s) = sb_keyTimeout s" "sb_hideTimeout (Activate b s) = sb_hideTimeout s"
  by (simp_all add: Activate_def Let_def)

lemma show_results_simps [simp]: "timers (show_results br s) = timers s"
  "next_timer (show_results br s) = next_timer s" "sb_keyTimeout (show_results br s) = sb_keyTimeout s"
  "sb_hideTimeout (show_results br s) = sb_hideTimeout s"
  by (simp_all add: show_results_def Let_def)

lemma search_timers_clear:
  "timers s' = filter (\<lambda>t. fst t \<noteq> i) (timers s) \<Longrightarrow> search_timers s' = filter (\<lambda>t. fst t \<noteq> i) (search_timers s)"
  by (simp add: search_timers_def conj_commute)

lemma distinct_search_timers: "distinct (map fst (timers s)) \<Longrightarrow> distinct (map fst (search_timers s))"
  by (simp add: search_timers_def distinct_map_filter)

lemma length_clear_search:
  assumes "distinct (map fst ts)" and "i \<in> set (map fst ts)"
  shows "length ts = Suc (length (filter (\<lambda>t. fst t \<noteq> i) ts))"
  using assms
proof (induction ts)
  case (Cons t ts)
  show ?case
  proof (cases "fst t = i")
    case True
    with Cons.prems(1) have "i \<notin> fst ` set ts" by simp
    then have "filter (\<lambda>t. fst t \<noteq> i) ts = ts" by (intro filter_True) blast
    with True show ?thesis by simp
  qed (use Cons in auto)
qed simp

text \<open>A pending search is removed and \<open>keyTimeout\<close> reset.\<close>

lemma searches_ok_remove:
  assumes s: "searches_ok n s" and i: "i \<in> search_ids s"
    and s': "timers s' = filter (\<lambda>t. fst t \<noteq> i) (timers s)" "next_timer s' = next_timer s" "sb_keyTimeout s' = 0"
      "sb_hideTimeout s' = sb_hideTimeout s"
  shows "searches_ok n s'"
proof -
  have d: "distinct (map fst (timers s))" using s by (simp add: searches_ok_def)
  have "i \<in> set (map fst (search_timers s))" using i by (simp add: search_ids_def)
  note len = length_clear_search [OF distinct_search_timers [OF d] this]
  have "length (search_timers s) \<le> Suc n" using s by (simp add: searches_ok_def split: if_splits)
  with len have short: "length (search_timers s') \<le> n" by (simp add: search_timers_clear [OF s'(1)])
  have sub: "search_ids s' \<subseteq> search_ids s"
    by (auto simp: search_ids_iff s'(1))
  then have hide: "sb_hideTimeout s' \<notin> search_ids s'"
    using s s'(4) unfolding searches_ok_def by (metis subsetD)
  show ?thesis unfolding searches_ok_def
  proof (intro conjI impI)
    assume "n = 0"
    with short show "search_ids s' \<subseteq> {sb_keyTimeout s'}" by (simp add: search_ids_def)
  qed (use short hide s s' in \<open>auto simp: searches_ok_def distinct_map_filter\<close>)
qed

text \<open>A timer that is no search, or no timer, is removed.\<close>

lemma searches_ok_other:
  assumes s: "searches_ok n s" and i: "i \<notin> search_ids s"
    and s': "timers s' = filter (\<lambda>t. fst t \<noteq> i) (timers s)" "next_timer s' = next_timer s"
      "sb_keyTimeout s' = sb_keyTimeout s" "sb_hideTimeout s' = sb_hideTimeout s \<or> sb_hideTimeout s' = 0"
  shows "searches_ok n s'"
proof -
  have "filter (\<lambda>t. fst t \<noteq> i) (search_timers s) = search_timers s"
    using i by (auto simp: filter_id_conv search_ids_def)
  then have same: "search_timers s' = search_timers s" by (simp add: search_timers_clear [OF s'(1)])
  then have ids: "search_ids s' = search_ids s" by (simp add: search_ids_def)
  have "0 \<notin> search_ids s" using s by (auto simp: searches_ok_def search_ids_iff)
  with s s'(4) have "sb_hideTimeout s' \<notin> search_ids s \<and> sb_hideTimeout s' < next_timer s"
    by (auto simp: searches_ok_def)
  with s s'(1-3) show ?thesis by (auto simp: searches_ok_def same ids distinct_map_filter)
qed

lemma searches_ok_kill:
  assumes "searches_ok n s"
  shows "searches_ok n (kill_key_timer s)" "sb_keyTimeout (kill_key_timer s) = 0"
proof -
  show "sb_keyTimeout (kill_key_timer s) = 0" by (simp add: kill_key_timer_def clearTimeout_def)
  show "searches_ok n (kill_key_timer s)"
  proof (cases "sb_keyTimeout s = 0")
    case False
    with assms have "sb_keyTimeout s \<in> search_ids s" by (simp add: searches_ok_def)
    from searches_ok_remove [OF assms this] False show ?thesis by (simp add: kill_key_timer_def clearTimeout_def)
  qed (use assms in \<open>simp add: kill_key_timer_def\<close>)
qed

lemma setTimeout_searches:
  assumes "timers s' = timers (snd (setTimeout act d s))"
  shows "search_timers s' = search_timers s @ (if act = Run_Search then [(next_timer s, act, d)] else [])"
    "search_ids s' = (if act = Run_Search then insert (next_timer s) (search_ids s) else search_ids s)"
  using assms by (simp_all add: setTimeout_def search_timers_def search_ids_def)

lemma timer_ids:
  assumes "searches_ok n s" and "t \<in> set (timers s)"
  shows "fst t < Suc (next_timer s)" "fst t \<noteq> next_timer s"
  using assms by (auto simp: searches_ok_def)

lemma searches_ok_set_search:
  assumes s: "searches_ok n s" "sb_keyTimeout s = 0"
  shows "searches_ok n ((snd (setTimeout Run_Search d s))\<lparr>sb_keyTimeout := fst (setTimeout Run_Search d s)\<rparr>)"
    (is "searches_ok n ?s")
proof -
  note ids = setTimeout_searches [of ?s Run_Search d s, simplified]
  have "sb_hideTimeout s \<noteq> next_timer s" "sb_hideTimeout s \<notin> search_ids s" "length (search_timers s) \<le> n"
    using s by (simp_all add: searches_ok_def)
  moreover have "search_ids s \<subseteq> {next_timer s}" if "n = 0"
    using that s calculation(3) by (simp add: search_ids_def)
  moreover have "timers ?s = timers s @ [(next_timer s, Run_Search, d)]" "next_timer ?s = Suc (next_timer s)"
    "sb_hideTimeout ?s = sb_hideTimeout s" "sb_keyTimeout ?s = next_timer s" by (simp_all add: setTimeout_def)
  ultimately show ?thesis
    using s timer_ids [OF s(1)] unfolding searches_ok_def ids by auto
qed

lemma searches_ok_field_changed:
  assumes "searches_ok n s" and "sb_keyTimeout s = 0"
  shows "searches_ok n (field_changed s)"
proof -
  have "searches_ok n ((hide_results s)\<lparr>sb_lastSearchValue := v\<rparr>)" for v
    using assms(1) by (simp add: searches_ok_cong [of "(hide_results s)\<lparr>sb_lastSearchValue := v\<rparr>" s])
  with assms(1) searches_ok_set_search [OF assms] show ?thesis by (simp add: field_changed_def Let_def split_beta)
qed

lemma searches_ok_show: "searches_ok n s \<Longrightarrow> searches_ok n (OnSearchSelectShow br s)"
proof (cases "sb_hideTimeout s = 0")
  case True
  assume "searches_ok n s"
  with True show ?thesis by (subst searches_ok_cong [of _ s]) (simp_all add: OnSearchSelectShow_def Let_def)
next
  case False
  assume s: "searches_ok n s"
  then have "sb_hideTimeout s \<notin> search_ids s" by (simp add: searches_ok_def)
  from searches_ok_other [OF s this] False show ?thesis
    by (simp add: OnSearchSelectShow_def clearTimeout_def Let_def)
qed

lemma searches_ok_change: "searches_ok n s \<Longrightarrow> searches_ok n (OnSearchFieldChange br e s)"
proof -
  assume s: "searches_ok n s"
  note k = searches_ok_kill [OF s]
  have "searches_ok n ((OnSearchSelectShow br (kill_key_timer s))\<lparr>dom_focus := f\<rparr>)" for f
    using searches_ok_show [OF k(1), of br] by (simp add: searches_ok_cong [of "_\<lparr>dom_focus := f\<rparr>"])
  moreover have "searches_ok n (field_changed ((kill_key_timer s)\<lparr>frame_messages := m\<rparr>))" for m
    by (rule searches_ok_field_changed) (use k in \<open>simp_all add: searches_ok_cong [of "_\<lparr>frame_messages := m\<rparr>"]\<close>)
  moreover have "searches_ok n (Activate False ((hide_results ((kill_key_timer s)\<lparr>dom_focus := No_focus\<rparr>))
      \<lparr>sb_lastSearchValue := []\<rparr>))"
    using k(1) by (subst searches_ok_cong [of _ "kill_key_timer s"]) simp_all
  ultimately show ?thesis
    using k searches_ok_show [OF k(1)] searches_ok_field_changed [OF k]
    by (auto simp: OnSearchFieldChange_def Let_def split: option.split)
qed

text \<open>\<open>Search\<close> resets \<open>keyTimeout\<close> and leaves the timers as they are.\<close>

lemma box_Search_timers:
  assumes "box_Search br s = Inr s'"
  shows "timers s' = timers s \<and> next_timer s' = next_timer s \<and> sb_keyTimeout s' = 0 \<and> sb_hideTimeout s' = sb_hideTimeout s"
proof -
  from assms obtain p q where "s' = (show_results br (s\<lparr>sb_keyTimeout := 0, frame_location := q\<rparr>))
      \<lparr>sb_lastSearchValue := strip_left (dom_field_value s), sb_lastResultsPage := p\<rparr>"
    by (auto simp: box_Search_def Let_def)
  then show ?thesis by simp
qed

lemma searches_ok_fire:
  assumes s: "searches_ok n s" and "t \<in> set (timers s)" and fire: "fire br (fst t) s = Inr s'"
  shows "searches_ok n s'"
proof -
  obtain i act d where t: "t = (i, act, d)" by (cases t)
  have dist: "distinct (map fst (timers s))" using s by (simp add: searches_ok_def)
  have found: "find (\<lambda>t'. fst t' = i) (timers s) = Some (i, act, d)"
  proof -
    obtain u where u: "find (\<lambda>t'. fst t' = i) (timers s) = Some u"
      using assms(2) t by (cases "find (\<lambda>t'. fst t' = i) (timers s)") (auto simp: find_None_iff)
    then have "u \<in> set (timers s)" "fst u = i" by (auto simp: find_Some_iff)
    then have v: "u = (i, snd u)" "(i, snd u) \<in> set (timers s)" by (metis prod.collapse)+
    then have "u = t" using dist assms(2) t eq_key_imp_eq_value [of "timers s" i "snd u" "(act, d)"] by simp
    with u t show ?thesis by simp
  qed
  show ?thesis
  proof (cases act)
    case Run_Search
    then have i: "i \<in> search_ids s" using assms(2) t by (auto simp: search_ids_iff)
    from found fire t Run_Search have "box_Search br (clearTimeout i s) = Inr s'" by (simp add: fire_def)
    from searches_ok_remove [OF s i] box_Search_timers [OF this] show ?thesis by (simp add: clearTimeout_def)
  next
    case Run_CloseSelectionWindow
    have i: "i \<notin> search_ids s"
    proof
      assume "i \<in> search_ids s"
      then obtain d' where "(i, Run_Search, d') \<in> set (timers s)" by (auto simp: search_ids_iff)
      with dist assms(2) t Run_CloseSelectionWindow show False by (auto dest: eq_key_imp_eq_value)
    qed
    from found fire t Run_CloseSelectionWindow have "s' = CloseSelectionWindow (clearTimeout i s)"
      by (simp add: fire_def)
    with searches_ok_other [OF s i, of s'] show ?thesis by (simp add: CloseSelectionWindow_def clearTimeout_def)
  qed
qed

lemma searches_ok_hide: "searches_ok n s \<Longrightarrow> searches_ok n (OnSearchSelectHide s)"
proof -
  let ?s = "OnSearchSelectHide s" and ?d = "sb_closeSelectionTimeout s"
  assume s: "searches_ok n s"
  have "timers ?s = timers (snd (setTimeout Run_CloseSelectionWindow ?d s))"
    by (simp add: OnSearchSelectHide_def setTimeout_def)
  note ids = setTimeout_searches [OF this, simplified]
  have "next_timer s \<notin> search_ids s" using s by (auto simp: searches_ok_def search_ids_iff)
  moreover have "timers ?s = timers s @ [(next_timer s, Run_CloseSelectionWindow, ?d)]"
    "next_timer ?s = Suc (next_timer s)" "sb_hideTimeout ?s = next_timer s" "sb_keyTimeout ?s = sb_keyTimeout s"
    by (simp_all add: OnSearchSelectHide_def setTimeout_def)
  ultimately show ?thesis
    using s timer_ids [OF s] unfolding searches_ok_def ids by auto
qed

lemma searches_ok_step: "box_step br s s' \<Longrightarrow> searches_ok n s \<Longrightarrow> searches_ok n s'"
proof (induction rule: box_step.induct)
  case (step_change s e v)
  then show ?case by (intro searches_ok_change) (simp add: searches_ok_cong [of "_\<lparr>dom_field_value := v\<rparr>"])
next
  case (step_focus s b)
  then show ?case by (simp add: OnSearchFieldFocus_def searches_ok_cong [of "Activate b s" s])
next
  case (step_close s)
  then show ?case by (simp add: CloseResultsWindow_def searches_ok_cong [of "Activate False (hide_results s)" s])
qed (auto intro: searches_ok_show searches_ok_hide searches_ok_fire)

text \<open>A selection leaves the timers as they are, and \<open>keyTimeout\<close> too, or resets it.\<close>

lemma OnSelectItem_timers:
  assumes "OnSelectItem br i s = Inr s'"
  shows "timers s' = timers s \<and> next_timer s' = next_timer s \<and> sb_hideTimeout s' = sb_hideTimeout s
    \<and> (sb_keyTimeout s' = sb_keyTimeout s \<or> sb_keyTimeout s' = 0)"
  using assms by (auto simp: OnSelectItem_def SelectItemSet_def Let_def split: if_splits dest!: box_Search_timers)

lemma select_timers:
  assumes "select_step br s s'"
  shows "timers s' = timers s \<and> next_timer s' = next_timer s \<and> sb_hideTimeout s' = sb_hideTimeout s
    \<and> (sb_keyTimeout s' = sb_keyTimeout s \<or> sb_keyTimeout s' = 0)"
  using assms
proof cases
  case (select_key e)
  then show ?thesis
    by (auto simp: OnSearchSelectKey_def CloseSelectionWindow_def split: if_splits sum.splits dest!: OnSelectItem_timers)
next
  case select_init
  then show ?thesis by (auto simp: init_search_def dest!: OnSelectItem_timers)
qed (rule OnSelectItem_timers)

lemma searches_ok_select:
  assumes s: "searches_ok n s" and "select_step br s s'"
  shows "searches_ok (if sb_keyTimeout s \<noteq> 0 \<and> sb_keyTimeout s' = 0 then Suc n else n) s'"
proof (cases "sb_keyTimeout s' = sb_keyTimeout s")
  case True
  with select_timers [OF assms(2)] s show ?thesis by (auto simp: searches_ok_cong [of s' s])
next
  case False
  with select_timers [OF assms(2)] have t: "timers s' = timers s" "next_timer s' = next_timer s"
    "sb_hideTimeout s' = sb_hideTimeout s" "sb_keyTimeout s' = 0" "sb_keyTimeout s \<noteq> 0" by auto
  then have "search_timers s' = search_timers s" "search_ids s' = search_ids s"
    by (simp_all add: search_timers_def search_ids_def)
  with s t show ?thesis by (simp add: searches_ok_def)
qed

lemma searches_ok_init: "searches_ok 0 (SearchBox path frame label ext)"
  by (simp add: searches_ok_def search_ids_def search_timers_def SearchBox_def)

section \<open>Properties\<close>

text \<open>
  Two searches load the same results file exactly when they are made in the same section
  for the same first letter, so each letter of each section has a file of its own.\<close>

lemma one_file_per_letter:
  assumes "results_page_for br v s = Inr (p, p')" and "results_page_for br w t = Inr (q, q')"
    and "idx_char br v = [c]" and "idx_char br w = [d]"
    and "c \<in> set (indexSectionsWithContent ! sb_searchIndex s)" and "d \<in> set (indexSectionsWithContent ! sb_searchIndex t)"
    and "sb_resultsPath s = sb_resultsPath t" and "sb_extension s = sb_extension t"
  shows "p = q \<longleftrightarrow> sb_searchIndex s = sb_searchIndex t \<and> c = d"
proof -
  let ?i = "sb_searchIndex s" and ?j = "sb_searchIndex t"
  have r: "?i < 11" "?j < 11"
    using assms(1,2) by (auto simp: results_page_for_def sections split: if_splits)
  obtain k where k: "indexOf [c] (indexSectionsWithContent ! ?i) = Some k" using assms(5) indexOf_mem by blast
  obtain l where l: "indexOf [d] (indexSectionsWithContent ! ?j) = Some l" using assms(6) indexOf_mem by blast
  let ?page = "\<lambda>i k. indexSectionNames ! i @ js ''_'' @ js (show_nat 16 k) @ sb_extension t"
  have loc: "P = sb_resultsPath b @ js ''/'' @ (indexSectionNames ! sb_searchIndex b) @ js ''_'' @ js (show_nat 16 n)
      @ sb_extension b"
    if "results_page_for br x b = Inr (P, P')" "idx_char br x = [u]" "sb_searchIndex b < 11"
      "indexOf [u] (indexSectionsWithContent ! sb_searchIndex b) = Some n" for P P' x b u n
    using that(1) unfolding results_page_for_def that(2,4) sections Let_def using that(3) by (simp del: js_simps)
  have "p = sb_resultsPath t @ js ''/'' @ ?page ?i k"
    using loc [OF assms(1,3) r(1) k] unfolding assms(7,8) .
  moreover have "q = sb_resultsPath t @ js ''/'' @ ?page ?j l" by (rule loc [OF assms(2,4) r(2) l])
  ultimately have "p = q \<longleftrightarrow> ?page ?i k = ?page ?j l" by simp
  also have "\<dots> \<longleftrightarrow> ?i = ?j \<and> k = l"
  proof
    assume eq: "?page ?i k = ?page ?j l"
    have mem: "indexSectionNames ! ?i \<in> set indexSectionNames" "indexSectionNames ! ?j \<in> set indexSectionNames"
      using r by (simp_all add: sections)
    from page_inject [OF mem eq] names_distinct r show "?i = ?j \<and> k = l"
      by (simp add: nth_eq_iff_index_eq sections)
  qed simp
  also have "\<dots> \<longleftrightarrow> ?i = ?j \<and> c = d"
    using k l indexOf_single by (metis option.inject)
  finally show ?thesis .
qed

definition plain_browser :: browser where
  "plain_browser = \<lparr>br_select = Box 0 0 20 20 False None, br_box = Box 0 0 100 20 False None,
     br_select_window_width = 80, br_results_width = 300, br_client_width = 800,
     br_lower = map (\<lambda>c. if 0x41 \<le> c \<and> c \<le> 0x5A then c + 0x20 else c), br_gt_1 = (\<lambda>_. False)\<rparr>"

definition fresh_box :: search_box where
  "fresh_box = SearchBox (js ''search'') False (js ''Search'') (js ''.html'')"

lemma fresh_page:
  "results_page_for plain_browser (js ''Node'') fresh_box = Inr (js ''search/all_d.html'', js ''search/all_d.html?Node'')"
  "results_page_for plain_browser (js ''edge'') fresh_box = Inr (js ''search/all_5.html'', js ''search/all_5.html?edge'')"
  by (simp_all add: results_page_for_def fresh_box_def SearchBox_def idx_char_def plain_browser_def
      indexSectionsWithContent_def indexSectionNames_def show_nat_def digits_of.simps digit_char_def char_of_def
      bit_Suc_0_iff url_char_def)

text \<open>Property C35: whatever the user does in the field, the filters and the results window, and whenever the timers
  fire, the searches that are pending are at most the one \<open>keyTimeout\<close> refers to and one more for each selection of
  a filter that searched while a search was pending: \<open>Search\<close> resets \<open>keyTimeout\<close> without cancelling the
  timer. Without such a selection the only search pending is the one the next key cancels.\<close>

theorem one_pending_search:
  assumes "box_steps br (SearchBox path frame label ext) n s"
  shows "length (search_timers s) \<le> n + (if sb_keyTimeout s = 0 then 0 else 1) \<and>
    (n = 0 \<longrightarrow> search_ids s \<subseteq> {sb_keyTimeout s})"
proof -
  have "searches_ok n s" using assms
  proof (induction n s rule: box_steps.induct)
    case steps_refl
    show ?case by (rule searches_ok_init)
  next
    case (steps_step n s' s'')
    then show ?case by (blast intro: searches_ok_step)
  next
    case (steps_select n s' s'')
    then show ?case by (blast intro: searches_ok_select)
  qed
  then show ?thesis unfolding searches_ok_def by blast
qed

definition typed :: "string \<Rightarrow> search_box \<Rightarrow> search_box" where
  "typed v s = OnSearchFieldChange plain_browser \<lparr>be_keyCode = 65, be_shiftKey = False\<rparr> (s\<lparr>dom_field_value := js v\<rparr>)"

lemma typed_word:
  assumes "strip_all (js v) \<noteq> []" and "strip_all (js v) \<noteq> sb_lastSearchValue s"
  shows "timers (typed v s) = filter (\<lambda>t. sb_keyTimeout s = 0 \<or> fst t \<noteq> sb_keyTimeout s) (timers s)
      @ [(next_timer s, Run_Search, sb_keyTimeoutLength s)]"
    "next_timer (typed v s) = Suc (next_timer s)" "sb_keyTimeout (typed v s) = next_timer s"
    "sb_lastSearchValue (typed v s) = sb_lastSearchValue s" "sb_searchActive (typed v s) = sb_searchActive s"
    "dom_field_value (typed v s) = js v" "sb_keyTimeoutLength (typed v s) = sb_keyTimeoutLength s"
  using assms
  by (simp_all add: typed_def OnSearchFieldChange_def field_changed_def kill_key_timer_def clearTimeout_def
      setTimeout_def Let_def)

lemma results_page_total: "sb_searchIndex s < 11 \<Longrightarrow> \<exists>p q. results_page_for br w s = Inr (p, q)"
  by (cases "indexOf (idx_char br w) (indexSectionsWithContent ! sb_searchIndex s)")
    (simp_all add: results_page_for_def sections Let_def)

lemma select_searches:
  assumes "i < 11" and "strip_all (dom_field_value s) \<noteq> []" and "sb_searchActive s"
  shows "\<exists>s'. OnSelectItem br i s = Inr s' \<and> timers s' = timers s \<and> next_timer s' = next_timer s \<and>
    sb_keyTimeout s' = 0 \<and> sb_lastSearchValue s' = strip_left (dom_field_value s)"
proof -
  let ?s = "SelectItemSet i (s\<lparr>sb_searchIndex := i\<rparr>)"
  obtain p q where "results_page_for br (strip_left (dom_field_value ?s)) (?s\<lparr>sb_keyTimeout := 0\<rparr>) = Inr (p, q)"
    using results_page_total [of "?s\<lparr>sb_keyTimeout := 0\<rparr>" br "strip_left (dom_field_value ?s)"] assms(1)
    by (auto simp: SelectItemSet_def)
  then have "\<exists>s'. box_Search br ?s = Inr s' \<and> timers s' = timers s \<and> next_timer s' = next_timer s \<and>
      sb_keyTimeout s' = 0 \<and> sb_lastSearchValue s' = strip_left (dom_field_value s)"
    by (simp add: box_Search_def SelectItemSet_def)
  then show ?thesis using assms(2,3) by (simp add: OnSelectItem_def SelectItemSet_def Let_def)
qed

text \<open>Selecting a filter searches at once and forgets the pending search: typing, selecting and typing
  again leaves two searches pending, as many as the bound allows.\<close>

lemma selection_forgets_timer:
  "sb_keyTimeout (typed ''n'' (OnSearchFieldFocus True fresh_box)) = 1 \<and>
   (\<exists>s. OnSelectItem plain_browser 1 (typed ''n'' (OnSearchFieldFocus True fresh_box)) = Inr s \<and> sb_keyTimeout s = 0 \<and>
     sb_keyTimeout (typed ''no'' s) = 2 \<and> map fst (search_timers (typed ''no'' s)) = [1, 2])"
proof -
  let ?a = "OnSearchFieldFocus True fresh_box"
  have a: "timers ?a = []" "next_timer ?a = 1" "sb_keyTimeout ?a = 0" "sb_lastSearchValue ?a = []" "sb_searchActive ?a"
    by (simp_all add: OnSearchFieldFocus_def fresh_box_def SearchBox_def Activate_def no_style_def)
  have n: "strip_all (js ''n'') = js ''n''" "strip_left (js ''n'') = js ''n''" "strip_all (js ''no'') = js ''no''"
    by (simp_all add: strip_all_def strip_left_def space_def)
  have t: "timers (typed ''n'' ?a) = [(1, Run_Search, sb_keyTimeoutLength ?a)]" "next_timer (typed ''n'' ?a) = 2"
    "sb_searchActive (typed ''n'' ?a)" "dom_field_value (typed ''n'' ?a) = js ''n''"
    "sb_keyTimeout (typed ''n'' ?a) = 1"
    using typed_word [of "''n''" ?a] a n by simp_all
  from select_searches [of 1 "typed ''n'' ?a" plain_browser] t n obtain s where
    s: "OnSelectItem plain_browser 1 (typed ''n'' ?a) = Inr s" "timers s = timers (typed ''n'' ?a)" "next_timer s = 2"
      "sb_keyTimeout s = 0" "sb_lastSearchValue s = js ''n''" by auto
  then show ?thesis using typed_word [of "''no''" s] n t by (simp add: search_timers_def)
qed

theorem one_pending_search_witness:
  "\<exists>s. OnSelectItem plain_browser 1 (typed ''n'' (OnSearchFieldFocus True fresh_box)) = Inr s \<and>
     box_steps plain_browser fresh_box 1 (typed ''no'' s) \<and> map fst (search_timers (typed ''no'' s)) = [1, 2] \<and>
     length (search_timers (typed ''no'' s)) \<le> 1 + 1"
proof -
  let ?s = "typed ''n'' (OnSearchFieldFocus True fresh_box)"
  note forgets = selection_forgets_timer
  have kt: "sb_keyTimeout ?s = 1" by (rule forgets [THEN conjunct1])
  from forgets [THEN conjunct2] obtain s where s: "OnSelectItem plain_browser 1 ?s = Inr s" "sb_keyTimeout s = 0"
    "sb_keyTimeout (typed ''no'' s) = 2" "map fst (search_timers (typed ''no'' s)) = [1, 2]"
    by (elim exE conjE) (rule that; assumption)
  have "box_steps plain_browser fresh_box 0 ?s"
    unfolding typed_def by (rule steps_step [OF steps_step [OF steps_refl step_focus] step_change])
  from steps_select [OF this select_item [OF s(1)]] kt s(2) have "box_steps plain_browser fresh_box 1 s" by simp
  then have run: "box_steps plain_browser fresh_box 1 (typed ''no'' s)"
    unfolding typed_def by (rule steps_step) (rule step_change)
  from one_pending_search [OF run [unfolded fresh_box_def]] s(3)
  have "length (search_timers (typed ''no'' s)) \<le> 1 + 1" by simp
  with s(1,4) run show ?thesis by (intro exI conjI)
qed

text \<open>The Down key of the filter list does not stop at the last filter: it selects an index
  past the tables, and with a word in the active field the search it starts raises an error.\<close>

definition initialised_box :: search_box where
  "initialised_box = (case init_search plain_browser fresh_box of Inr s \<Rightarrow> s)"

theorem down_past_last_filter:
  "SelectItemCount initialised_box = length indexSectionsWithContent \<and>
   (\<exists>s. OnSearchSelectKey plain_browser \<lparr>be_keyCode = 40, be_shiftKey = False\<rparr>
          (initialised_box\<lparr>sb_searchIndex := 10\<rparr>) = Inr s \<and> sb_searchIndex s = 11) \<and>
   OnSearchSelectKey plain_browser \<lparr>be_keyCode = 40, be_shiftKey = False\<rparr>
     (initialised_box\<lparr>sb_searchIndex := 10, dom_field_value := js ''n'', sb_searchActive := True\<rparr>) = Inl Box_Type_Error"
proof -
  have "sb_searchActive fresh_box = False" by (simp add: fresh_box_def SearchBox_def)
  then have b: "initialised_box = SelectItemSet 0 (fresh_box\<lparr>dom_select_children :=
      map (\<lambda>key. select_link key (indexSectionLabels ! key)) [0..<11], sb_searchIndex := 0\<rparr>)"
    by (simp add: initialised_box_def init_search_def OnSelectItem_def sections)
      (simp add: fresh_box_def SearchBox_def SelectItemSet_def)
  have marks: "length (filter is_select_item (mark_items i j cs)) = length (filter is_select_item cs)" for i j cs
    by (induction i j cs rule: mark_items.induct) (auto simp: is_select_item_def)
  have count: "SelectItemCount (initialised_box\<lparr>sb_searchIndex := i, dom_field_value := v, sb_searchActive := a\<rparr>) = 11"
    for i v a
    unfolding b by (simp add: SelectItemCount_def SelectItemSet_def marks is_select_item_def select_link_def)
  have "initialised_box = initialised_box\<lparr>sb_searchIndex := 0, dom_field_value := dom_field_value initialised_box, sb_searchActive := False\<rparr>"
    unfolding b by (simp add: SelectItemSet_def fresh_box_def SearchBox_def)
  then have "SelectItemCount initialised_box = 11" by (metis count)
  moreover have "SelectItemCount (initialised_box\<lparr>sb_searchIndex := 10\<rparr>) = 11"
    unfolding b by (simp add: SelectItemCount_def SelectItemSet_def marks is_select_item_def select_link_def)
  moreover have "sb_searchActive initialised_box = False"
    unfolding b by (simp add: SelectItemSet_def fresh_box_def SearchBox_def)
  ultimately show ?thesis using count [where i = 10 and v = "js ''n''" and a = True]
    by (simp add: OnSearchSelectKey_def OnSelectItem_def SelectItemSet_def sections strip_all_def space_def
        box_Search_def results_page_for_def Let_def)
qed

text \<open>A word that starts with a surrogate pair never finds its file: the test that would take
  the pair as the first letter compares the word itself with 1, a comparison that is false of every string
  that is not a number, so half a character is looked up.\<close>

theorem surrogate_pair_not_found:
  assumes "0xD800 \<le> c" and "c \<le> 0xDBFF" and "sb_searchIndex s < length indexSectionsWithContent"
    and lone: "br_lower br [c] = [c]" and not_numeric: "\<forall>x. \<not> br_gt_1 br (c # x)"
  shows "results_page_for br (c # w) s =
    Inr (sb_resultsPath s @ js ''/nomatches'' @ sb_extension s, sb_resultsPath s @ js ''/nomatches'' @ sb_extension s)"
proof -
  have "\<forall>t\<in>set indexSectionsWithContent. \<forall>d\<in>set t. d < 0xD800"
    by (simp add: indexSectionsWithContent_def)
  with assms(1,3) have "c \<notin> set (indexSectionsWithContent ! sb_searchIndex s)"
    by (meson leD nth_mem)
  then have "indexOf [c] (indexSectionsWithContent ! sb_searchIndex s) = None" using indexOf_mem by blast
  moreover have "idx_char br (c # w) = [c]" using lone not_numeric by (simp add: idx_char_def Let_def)
  ultimately show ?thesis using assms(3) by (simp add: results_page_for_def Let_def)
qed

theorem surrogate_pair_not_found_witness:
  "results_page_for plain_browser [0xD83D, 0xDE00] fresh_box =
     Inr (js ''search'' @ js ''/nomatches'' @ js ''.html'', js ''search'' @ js ''/nomatches'' @ js ''.html'')"
proof -
  have "0 < length indexSectionsWithContent" by (simp add: sections)
  then show ?thesis
    using surrogate_pair_not_found [of "0xD83D" fresh_box plain_browser "[0xDE00]"]
    by (simp add: plain_browser_def fresh_box_def SearchBox_def del: js_simps)
qed

end
