(* ===== verification/Dox_Entries.thy ===== *)
theory Dox_Entries
  imports Dox_Box Dox_Results_Props
begin

text \<open>
  The shape of the index files of the documentation (\<open>docs/search/*_*.js\<close>): each file assigns
  \<open>searchData\<close>, the argument of \<open>createResults\<close> on its results page. The checks a file has to pass to be
  found by the search box and filtered by the results page.
\<close>

type_synonym raw_entry = "string \<times> string \<times> (string \<times> nat \<times> string) list"

definition to_search_entry :: "raw_entry \<Rightarrow> search_entry" where
  "to_search_entry e =
     (case e of (i, name, syms) \<Rightarrow> (js i, js name, map (\<lambda>(url, flag, scope). (js url, flag, js scope)) syms))"

section \<open>Well-formed files\<close>

text \<open>The prefix that the results page looks for when a single letter is typed.\<close>

definition letter_id :: "char \<Rightarrow> string" where
  "letter_id c =
     (let n = of_char c :: nat
      in if 48 \<le> n \<and> n \<le> 57 \<or> 97 \<le> n \<and> n \<le> 122 then [c] else ''_'' @ show_nat 16 n)"

lemma letter_id_convert: "16 \<le> (of_char c :: nat) \<Longrightarrow> (of_char c :: nat) < 128 \<Longrightarrow> convertToId (js [c]) = js (letter_id c)"
  by (simp add: letter_id_def escape_unit_def id_char_def word_le_nat_alt word_less_nat_alt unat_code_unit Let_def)

definition id_unit :: "char \<Rightarrow> bool" where
  "id_unit c \<longleftrightarrow> digit5 c \<or> c = CHR ''_''"

definition file_ok :: "string list \<Rightarrow> bool" where
  "file_ok ids \<longleftrightarrow> list_all (\<lambda>i. i \<noteq> [] \<and> list_all id_unit i) ids \<and> distinct ids \<and> ids \<noteq> []"

definition misfiled :: "char \<Rightarrow> string list \<Rightarrow> string list" where
  "misfiled c ids = filter (\<lambda>i. \<not> prefix (letter_id c) i) ids"

text \<open>The files of a section, one for each letter, and the ids that are not found under their letter.\<close>

definition files_ok :: "string \<Rightarrow> raw_entry list list \<Rightarrow> string list \<Rightarrow> bool" where
  "files_ok letters files out \<longleftrightarrow>
     length letters = length files \<and> list_all (\<lambda>f. file_ok (map fst f)) files \<and>
     concat (map2 (\<lambda>c f. misfiled c (map fst f)) letters files) = out"

definition file_in :: "char \<Rightarrow> raw_entry list \<Rightarrow> string list \<Rightarrow> bool" where
  "file_in c f out \<longleftrightarrow> file_ok (map fst f) \<and> misfiled c (map fst f) = out"

text \<open>The ids end in different numbers, so their last characters tell them apart.\<close>

fun turned :: "string \<Rightarrow> string" where
  "turned (a # b # c # d # e # i) = turned (b # c # d # e # i)"
| "turned i = i"

definition turned_num :: "string \<Rightarrow> nat" where
  "turned_num i = foldr (\<lambda>c n. of_char c + 128 * n) (turned i) 0"


lemma file_inI:
  assumes "list_all (\<lambda>i. i \<noteq> [] \<and> list_all id_unit i) (map fst f)" "map fst f \<noteq> []"
    and "distinct (map turned_num (map fst f))" "misfiled c (map fst f) = out"
  shows "file_in c f out"
proof -
  have "distinct (map fst f)" using assms(3) by (simp only: distinct_map)
  with assms show ?thesis by (simp add: file_in_def file_ok_def)
qed

lemma letter_ids:
  "letter_id CHR ''a'' = ''a''" "letter_id CHR ''b'' = ''b''" "letter_id CHR ''c'' = ''c''" "letter_id CHR ''d''
  = ''d''" "letter_id CHR ''e'' = ''e''" "letter_id CHR ''f'' = ''f''" "letter_id CHR ''g'' = ''g''" "letter_id
  CHR ''h'' = ''h''" "letter_id CHR ''i'' = ''i''" "letter_id CHR ''j'' = ''j''" "letter_id CHR ''l'' = ''l''"
  "letter_id CHR ''m'' = ''m''" "letter_id CHR ''n'' = ''n''" "letter_id CHR ''o'' = ''o''" "letter_id CHR ''p''
  = ''p''" "letter_id CHR ''r'' = ''r''" "letter_id CHR ''s'' = ''s''" "letter_id CHR ''t'' = ''t''" "letter_id
  CHR ''u'' = ''u''" "letter_id CHR ''v'' = ''v''" "letter_id CHR ''w'' = ''w''" "letter_id CHR ''x'' = ''x''"
  "letter_id CHR ''y'' = ''y''" "letter_id CHR ''z'' = ''z''"
  "letter_id CHR ''_'' = ''_5f''" "letter_id CHR ''~'' = ''_7e''"
  by code_simp+

lemmas file_check = id_unit_def turned_num_def misfiled_def letter_ids

text \<open>Such a file meets the hypotheses under which the results page filters by prefix.\<close>

lemma id_unit_lower: "id_unit c \<Longrightarrow> ascii_lower (of_nat (of_char c)) = of_nat (of_char c)"
proof -
  assume "id_unit c"
  then have "\<not> (65 \<le> (of_char c :: nat) \<and> (of_char c :: nat) \<le> 90)"
    by (cases c) (auto simp: id_unit_def of_char_def)
  then show ?thesis by (simp add: ascii_lower_def word_le_nat_alt unat_code_unit)
qed

lemma file_page:
  assumes "file_ok (map fst f)"
  shows "lower_ids (map ascii_lower) (map to_search_entry f) \<and> distinct (map fst (map to_search_entry f))"
proof -
  have fst: "fst (to_search_entry e) = js (fst e)" for e by (simp add: to_search_entry_def split: prod.splits)
  have "map ascii_lower (js i) = js i" if "list_all id_unit i" for i
    using that by (induction i) (simp_all add: id_unit_lower)
  moreover have "ascii_lower 83 = 115" "ascii_lower 82 = 114" "ascii_lower 95 = 95" by (simp_all add: ascii_lower_def)
  ultimately have "lower_ids (map ascii_lower) (map to_search_entry f)"
    using assms by (auto simp: lower_ids_def file_ok_def list_all_iff fst row_id_def)
  moreover have "map fst (map to_search_entry f) = map js (map fst f)" by (simp add: fst)
  then have "distinct (map fst (map to_search_entry f))"
    using assms unfolding file_ok_def by (simp add: distinct_map inj_on_def)
  ultimately show ?thesis by blast
qed

lemma files_page:
  "files_ok letters fs out \<Longrightarrow>
     list_all (\<lambda>f. lower_ids (map ascii_lower) (map to_search_entry f) \<and> distinct (map fst (map to_search_entry f))) fs"
  using file_page by (auto simp: files_ok_def list_all_iff)

end
