(* ===== verification/Dox_Search.thy ===== *)
theory Dox_Search
  imports Dox_Box_Props Dox_Entries
begin

text \<open>
  The search box and the results page together: the word that the page reads from the URL is the word of
  the field, and the rows that the page displays for it, when it is built from the files of a section, one for each
  of its letters.
\<close>

section \<open>The URL\<close>

text \<open>Characters that leave the query of a URL where it is.\<close>

definition url_safe :: "jstr \<Rightarrow> bool" where
  "url_safe s \<longleftrightarrow> 0x3F \<notin> set s \<and> 0x23 \<notin> set s"

lemma url_safe_simps [simp]: "url_safe []" "url_safe (c # s) \<longleftrightarrow> c \<noteq> 0x3F \<and> c \<noteq> 0x23 \<and> url_safe s"
  "url_safe (s @ t) \<longleftrightarrow> url_safe s \<and> url_safe t"
  by (auto simp: url_safe_def)

lemma upper_digit_safe: "d < 16 \<Longrightarrow> upper_digit d \<noteq> 0x3F \<and> upper_digit d \<noteq> 0x23"
  using upper_digit_unat [of d] by (auto split: if_splits)

lemma escape_safe: "url_safe (js_escape w)"
proof (induction w)
  case (Cons c w)
  have "url_safe (hex_units k n)" for k n
    using upper_digit_safe by (force simp: hex_units_def url_safe_def)
  with Cons show ?case by (auto simp: url_char_def)
qed simp

lemma hex_safe: "url_safe (js (show_nat 16 n))"
proof -
  have "url_safe (js (map digit_char ds))" if "\<forall>d\<in>set ds. d < 16" for ds
    using that
  proof (induction ds)
    case (Cons d ds)
    then have "of_char (digit_char d) \<noteq> (63 :: nat) \<and> of_char (digit_char d) \<noteq> (35 :: nat)"
      by (simp add: of_char_digit_char)
    then have "(of_nat (of_char (digit_char d)) :: 16 word) \<noteq> 0x3F \<and> (of_nat (of_char (digit_char d)) :: 16 word) \<noteq> 0x23"
      using unat_code_unit [of "digit_char d"] by (auto dest: arg_cong [of _ _ unat])
    with Cons show ?case by simp
  qed simp
  then show ?thesis using digits_of_less [of 16 _ n] by (simp add: show_nat_def)
qed

lemma section_name_safe: "i < 11 \<Longrightarrow> url_safe (indexSectionNames ! i)"
proof -
  have "\<forall>n\<in>set indexSectionNames. url_safe n" by (simp add: indexSectionNames_def)
  moreover assume "i < 11"
  ultimately show ?thesis by (simp add: sections)
qed

lemma location_search_query: "url_safe p \<Longrightarrow> url_safe q \<Longrightarrow> location_search (p @ js ''?'' @ q) = (if q = [] then [] else js ''?'' @ q)"
proof -
  assume safe: "url_safe p" "url_safe q"
  have "takeWhile (\<lambda>c. c \<noteq> 0x23) (p @ js ''?'' @ q) = p @ js ''?'' @ q"
    using safe by (auto simp: takeWhile_eq_all_conv url_safe_def)
  moreover have "dropWhile (\<lambda>c. c \<noteq> 0x3F) (p @ js ''?'' @ q) = js ''?'' @ q"
    using safe by (auto simp: dropWhile_append url_safe_def)
  ultimately show ?thesis unfolding location_search_def Let_def by (simp only:) simp
qed

lemma location_search_none: "url_safe p \<Longrightarrow> location_search p = []"
proof -
  assume "url_safe p"
  then have "dropWhile (\<lambda>c. c \<noteq> 0x3F) (takeWhile (\<lambda>c. c \<noteq> 0x23) p) = []"
    by (auto simp: dropWhile_eq_Nil_conv url_safe_def dest: set_takeWhileD)
  then show ?thesis unfolding location_search_def by (simp only:) simp
qed

section \<open>The word of the URL\<close>

lemma results_page_found:
  assumes "sb_searchIndex s < 11" and "indexOf (idx_char br w) (indexSectionsWithContent ! sb_searchIndex s) = Some k"
  shows "results_page_for br w s =
    (let page = sb_resultsPath s @ js ''/'' @ (indexSectionNames ! sb_searchIndex s) @ js ''_'' @ js (show_nat 16 k) @ sb_extension s
     in Inr (page, page @ js ''?'' @ js_escape w))"
  using assms by (simp add: results_page_for_def sections Let_def)

lemma results_page_reset: "results_page_for br w (s\<lparr>sb_keyTimeout := 0\<rparr>) = results_page_for br w s"
  by (simp add: results_page_for_def Let_def cong: option.case_cong)

lemma search_word_reads:
  assumes "box_Search br s = Inr s'" and "url_safe (sb_resultsPath s)" and "url_safe (sb_extension s)"
  shows "search_word js_unescape (location_search (frame_location s')) [] =
     (if indexOf (idx_char br (strip_left (dom_field_value s))) (indexSectionsWithContent ! sb_searchIndex s) = None
      then [] else strip_left (dom_field_value s)) \<and>
    takeWhile (\<lambda>c. c \<noteq> 0x3F) (frame_location s') = sb_lastResultsPage s'"
proof -
  let ?w = "strip_left (dom_field_value s)"
  let ?idx = "indexOf (idx_char br ?w) (indexSectionsWithContent ! sb_searchIndex s)"
  from assms(1) obtain p q where pq: "results_page_for br ?w (s\<lparr>sb_keyTimeout := 0\<rparr>) = Inr (p, q)"
    "frame_location s' = q" "sb_lastResultsPage s' = p"
    by (auto simp: box_Search_def Let_def show_results_def)
  then have i: "sb_searchIndex s < 11" by (simp add: results_page_for_def sections split: if_splits)
  have keep: "takeWhile (\<lambda>c. c \<noteq> 0x3F) (r @ t) = r" if "url_safe r" "t = [] \<or> hd t = 0x3F" for r t
  proof -
    have "takeWhile (\<lambda>c. c \<noteq> 0x3F) (r @ t) = r @ takeWhile (\<lambda>c. c \<noteq> 0x3F) t"
      using that(1) by (intro takeWhile_append2) (auto simp: url_safe_def)
    with that(2) show ?thesis by (cases t) simp_all
  qed
  show ?thesis
  proof (cases ?idx)
    case None
    with pq i have "p = sb_resultsPath s @ js ''/nomatches'' @ sb_extension s" "q = p"
      by (auto simp: results_page_for_def sections Let_def)
    with assms(2,3) have "url_safe p" "q = p" by simp_all
    with None pq keep [of p "[]"] show ?thesis by (simp add: location_search_none search_word_def js_unescape.simps(1))
  next
    case (Some k)
    note page = results_page_found [OF i Some, unfolded Let_def]
    have "p = sb_resultsPath s @ js ''/'' @ (indexSectionNames ! sb_searchIndex s) @ js ''_'' @ js (show_nat 16 k) @ sb_extension s"
      "q = p @ js ''?'' @ js_escape ?w"
      using pq(1) unfolding results_page_reset page by auto
    with assms(2,3) section_name_safe [OF i] hex_safe have safe: "url_safe p" and q: "q = p @ js ''?'' @ js_escape ?w"
      by simp_all
    have "drop 1 (location_search q) = js_escape ?w"
      unfolding q using location_search_query [OF safe escape_safe] by simp
    with Some pq keep [OF safe, of "js ''?'' @ js_escape ?w"] q show ?thesis
      by (simp add: search_word_def unescape_escape)
  qed
qed

section \<open>The file of a word\<close>

lemma plain_id: "\<forall>c\<in>set t. id_char c \<Longrightarrow> convertToId t = t"
  by (induction t) (simp_all add: escape_plain)

lemma letter_id_first:
  assumes "prefix (js (letter_id d)) (js i)" and "prefix (c # t) (js i)" and "id_char c"
  shows "c = of_nat (of_char d)"
proof -
  have "hd (js (letter_id d)) \<in> {of_nat (of_char d), 0x5F}" by (simp add: letter_id_def Let_def)
  moreover have "hd (js i) = c" using assms(2) by (cases "js i") auto
  moreover have "hd (js (letter_id d)) = hd (js i)"
    using assms(1) by (cases "js (letter_id d)"; cases "js i") (auto simp: letter_id_def Let_def split: if_splits)
  ultimately show ?thesis using assms(3) underscore_special by auto
qed

lemma js_prefix: "prefix s t \<Longrightarrow> prefix (js s) (js t)"
  by (auto simp: prefix_def)

text \<open>The entries of a section that start with a word are in the file of its first letter, but for those
  that are filed elsewhere.\<close>

lemma files_ok_word:
  assumes ok: "files_ok letters files out" and dist: "distinct (js letters)"
    and k: "k < length letters" "js letters ! k = c" and c: "id_char c"
    and entry: "entry \<in> set (concat files)" "prefix (c # t) (js (fst entry))" "fst entry \<notin> set out"
  shows "entry \<in> set (files ! k)"
proof -
  have len: "length letters = length files" using ok by (simp add: files_ok_def)
  from entry(1) obtain f where f: "f \<in> set files" "entry \<in> set f" by auto
  from f(1) obtain j where "j < length files" "files ! j = f" unfolding in_set_conv_nth by blast
  with f(2) have j: "j < length files" "entry \<in> set (files ! j)" by simp_all
  have "fst entry \<notin> set (misfiled (letters ! j) (map fst (files ! j)))"
  proof
    assume "fst entry \<in> set (misfiled (letters ! j) (map fst (files ! j)))"
    moreover have "misfiled (letters ! j) (map fst (files ! j)) \<in> set (map2 (\<lambda>c f. misfiled c (map fst f)) letters files)"
    proof -
      have "(letters ! j, files ! j) \<in> set (zip letters files)" using j(1) len by (auto simp: in_set_zip)
      then show ?thesis by force
    qed
    ultimately have "fst entry \<in> set (concat (map2 (\<lambda>c f. misfiled c (map fst f)) letters files))"
      unfolding set_concat by (rule UN_I [rotated])
    with entry(3) ok show False by (simp add: files_ok_def)
  qed
  with j(2) have "prefix (letter_id (letters ! j)) (fst entry)" by (auto simp: misfiled_def)
  from letter_id_first [OF js_prefix [OF this] entry(2) c] have "js letters ! j = c"
    using j(1) len by (simp add: js_def)
  then have "js letters ! j = js letters ! k" using k by simp
  with dist k(1) j(1) len have "j = k" by (subst (asm) nth_eq_iff_index_eq) simp_all
  with j show ?thesis by simp
qed

lemma first_letter:
  assumes "map ascii_lower (strip_right v) = c # t"
  shows "v \<noteq> []" "ascii_lower (hd v) = c"
proof -
  from assms obtain d u where d: "strip_right v = d # u" "ascii_lower d = c" by auto
  have "prefix (strip_right v) v"
    unfolding strip_right_def by (metis rev_rev_ident suffix_dropWhile suffix_to_prefix)
  with d show "v \<noteq> []" "ascii_lower (hd v) = c" by (auto simp: prefix_def)
qed

text \<open>A search of a word of plain characters, from the field to the rows.\<close>

lemma search_files:
  assumes lower: "br_lower br = map ascii_lower"
    and section_ok: "sb_searchIndex s < 11" "indexSectionsWithContent ! sb_searchIndex s = js letters"
      "distinct (js letters)" "list_all (\<lambda>u. u < 0x80) (js letters)" "files_ok letters files out"
      "list_all (\<lambda>f. lower_ids (map ascii_lower) (map to_search_entry f)) files"
    and path: "url_safe (sb_resultsPath s)" "url_safe (sb_extension s)"
    and word: "map ascii_lower (strip_right (strip_left (dom_field_value s))) = c # t" "\<forall>d\<in>set (c # t). id_char d"
      "c \<in> set (js letters)"
  shows "\<exists>k s' r. k < length files \<and> js letters ! k = c \<and> box_Search br s = Inr s' \<and>
    sb_lastResultsPage s' = sb_resultsPath s @ js ''/'' @ (indexSectionNames ! sb_searchIndex s) @ js ''_''
      @ js (show_nat 16 k) @ sb_extension s \<and>
    results_Search (map ascii_lower) (search_word js_unescape (location_search (frame_location s')) [])
      (new_results_page (results_body (map to_search_entry (files ! k)))) = Inr r \<and>
    (\<forall>e<length (files ! k). has_display (rp_doc r) [0, 1, e]
      (if prefix (c # t) (js (fst (files ! k ! e))) then ''block'' else ''none'')) \<and>
    (\<forall>entry\<in>set (concat files). prefix (c # t) (js (fst entry)) \<and> fst entry \<notin> set out \<longrightarrow> entry \<in> set (files ! k))"
proof -
  let ?v = "strip_left (dom_field_value s)"
  note first = first_letter [OF word(1)]
  have small: "c < 0x80" using section_ok(4) word(3) by (auto simp: list_all_iff)
  have idx: "idx_char br ?v = [c]"
  proof -
    have "\<not> 0xD800 \<le> c" using small by (simp add: word_le_nat_alt word_less_nat_alt)
    then show ?thesis using first lower by (cases ?v) (simp_all add: idx_char_def Let_def)
  qed
  obtain k where k: "indexOf [c] (js letters) = Some k" using word(3) indexOf_mem by blast
  then have kc: "k < length letters" "js letters ! k = c" unfolding indexOf_single by simp_all
  have len: "length letters = length files" using section_ok(5) by (simp add: files_ok_def)
  let ?p = "sb_resultsPath s @ js ''/'' @ (indexSectionNames ! sb_searchIndex s) @ js ''_'' @ js (show_nat 16 k) @ sb_extension s"
  have "results_page_for br ?v (s\<lparr>sb_keyTimeout := 0\<rparr>) = Inr (?p, ?p @ js ''?'' @ js_escape ?v)"
    using section_ok(1) unfolding results_page_for_def by (simp add: sections section_ok(2) idx k Let_def)
  then obtain s' where s': "box_Search br s = Inr s'" "sb_lastResultsPage s' = ?p"
    by (simp add: box_Search_def Let_def)
  have travels: "search_word js_unescape (location_search (frame_location s')) [] = ?v"
    using search_word_reads [OF s'(1) path] by (simp add: section_ok(2) idx k)
  let ?data = "map to_search_entry (files ! k)"
  have low: "lower_ids (map ascii_lower) ?data" using section_ok(6) kc(1) len by (simp add: list_all_length)
  have "strip_left ?v = ?v" by (simp add: strip_left_def)
  with word(1,2) have key: "search_key (map ascii_lower) ?v = c # t"
    unfolding search_key_def by (simp only: plain_id)
  have page: "page_of ?data (rp_doc (new_results_page (results_body ?data)))"
    by (simp add: new_results_page_def page_of_body)
  have ids: "fst (?data ! e) = js (fst (files ! k ! e))" if "e < length (files ! k)" for e
    using that by (simp add: to_search_entry_def split: prod.splits)
  from results_Search_eq [OF page low, of ?v] obtain r where r:
    "results_Search (map ascii_lower) ?v (new_results_page (results_body ?data)) = Inr r"
    "\<forall>e<length ?data. disp (rp_doc r) [0, 1, e] = Some (if prefix (c # t) (fst (?data ! e)) then ''block'' else ''none'')"
    unfolding key by blast
  have "has_display (rp_doc r) [0, 1, e] (if prefix (c # t) (js (fst (files ! k ! e))) then ''block'' else ''none'')"
    if "e < length (files ! k)" for e
    using r(2) that ids [OF that] unfolding has_display_disp by simp
  moreover have "entry \<in> set (files ! k)"
    if "entry \<in> set (concat files)" "prefix (c # t) (js (fst entry)) \<and> fst entry \<notin> set out" for entry
    using files_ok_word [OF section_ok(5,3) kc _ that(1)] that(2) word(2) by auto
  ultimately show ?thesis using s' travels r(1) kc len by (intro exI [of _ k] exI [of _ s'] exI [of _ r]) auto
qed

section \<open>Properties\<close>

text \<open>Property C32: when the section has a file for the first character of the field, the word that the results page reads
  from its URL is the value of the field without leading blanks, whatever its characters; when it has none, the page
  opened is the one without matches and carries no word. The path and the extension of the results pages are to
  have no question mark and no number sign.\<close>

theorem search_word_travels:
  assumes "box_Search br s = Inr s'" and "url_safe (sb_resultsPath s)" and "url_safe (sb_extension s)"
  shows "search_word js_unescape (location_search (frame_location s')) [] =
     (if indexOf (idx_char br (strip_left (dom_field_value s))) (indexSectionsWithContent ! sb_searchIndex s) = None
      then [] else strip_left (dom_field_value s)) \<and>
    takeWhile (\<lambda>c. c \<noteq> 0x3F) (frame_location s') = sb_lastResultsPage s'"
  by (rule search_word_reads [OF assms])

theorem search_word_travels_witness:
  "\<exists>s'. box_Search plain_browser (fresh_box\<lparr>dom_field_value := js ''  Node<int>''\<rparr>) = Inr s' \<and>
     search_word js_unescape (location_search (frame_location s')) [] = js ''Node<int>''"
proof -
  let ?s = "fresh_box\<lparr>dom_field_value := js ''  Node<int>''\<rparr>"
  have w: "strip_left (dom_field_value ?s) = js ''Node<int>''" by (simp add: strip_left_def space_def)
  have s: "url_safe (sb_resultsPath ?s)" "url_safe (sb_extension ?s)" "sb_searchIndex ?s = 0"
    by (simp_all add: fresh_box_def SearchBox_def)
  obtain p q where "results_page_for plain_browser (js ''Node<int>'') (?s\<lparr>sb_keyTimeout := 0\<rparr>) = Inr (p, q)"
    using results_page_total [of "?s\<lparr>sb_keyTimeout := 0\<rparr>" plain_browser "js ''Node<int>''"] s(3) by auto
  then obtain s' where s': "box_Search plain_browser ?s = Inr s'"
    using w by (simp add: box_Search_def del: js_simps)
  have "indexOf (idx_char plain_browser (js ''Node<int>'')) (indexSectionsWithContent ! 0) = Some 13"
    by (simp add: idx_char_def plain_browser_def indexSectionsWithContent_def)
  with search_word_travels [OF s' s(1,2)] s' w s(3) show ?thesis by (simp del: js_simps)
qed

end
