(* ===== verification/Dox_Menu.thy ===== *)
theory Dox_Menu
  imports Prelude
begin

text \<open>
  The menu of the documentation pages: the tree of \<open>docs/menudata.js\<close>, the list \<open>docs/menu.js\<close> builds from
  it and the search box it adds. The jQuery plugin that makes the list a menu is not modelled.
\<close>

section \<open>The menu tree\<close>

text \<open>The root has children only; its text and url are never read.\<close>

datatype menu_entry = Entry (menu_text: string) (menu_url: string) (menu_children: "menu_entry list option")

definition menudata :: menu_entry where
  "menudata = Entry '''' '''' (Some [
    Entry ''Main Page'' ''index.html'' None,
    Entry ''Related Pages'' ''pages.html'' None,
    Entry ''Namespaces'' ''namespaces.html'' (Some [
     Entry ''Namespace List'' ''namespaces.html'' None,
     Entry ''Namespace Members'' ''namespacemembers.html'' (Some [
      Entry ''All'' ''namespacemembers.html'' (Some [
       Entry ''a'' ''namespacemembers.html#index_a'' None,
       Entry ''b'' ''namespacemembers.html#index_b'' None,
       Entry ''c'' ''namespacemembers.html#index_c'' None,
       Entry ''d'' ''namespacemembers.html#index_d'' None,
       Entry ''e'' ''namespacemembers.html#index_e'' None,
       Entry ''f'' ''namespacemembers.html#index_f'' None,
       Entry ''g'' ''namespacemembers.html#index_g'' None,
       Entry ''i'' ''namespacemembers.html#index_i'' None,
       Entry ''j'' ''namespacemembers.html#index_j'' None,
       Entry ''l'' ''namespacemembers.html#index_l'' None,
       Entry ''m'' ''namespacemembers.html#index_m'' None,
       Entry ''n'' ''namespacemembers.html#index_n'' None,
       Entry ''o'' ''namespacemembers.html#index_o'' None,
       Entry ''p'' ''namespacemembers.html#index_p'' None,
       Entry ''r'' ''namespacemembers.html#index_r'' None,
       Entry ''s'' ''namespacemembers.html#index_s'' None,
       Entry ''t'' ''namespacemembers.html#index_t'' None,
       Entry ''u'' ''namespacemembers.html#index_u'' None,
       Entry ''v'' ''namespacemembers.html#index_v'' None,
       Entry ''w'' ''namespacemembers.html#index_w'' None,
       Entry ''z'' ''namespacemembers.html#index_z'' None]),
      Entry ''Functions'' ''namespacemembers_func.html'' None,
      Entry ''Variables'' ''namespacemembers_vars.html'' None,
      Entry ''Typedefs'' ''namespacemembers_type.html'' (Some [
       Entry ''a'' ''namespacemembers_type.html#index_a'' None,
       Entry ''b'' ''namespacemembers_type.html#index_b'' None,
       Entry ''c'' ''namespacemembers_type.html#index_c'' None,
       Entry ''d'' ''namespacemembers_type.html#index_d'' None,
       Entry ''e'' ''namespacemembers_type.html#index_e'' None,
       Entry ''g'' ''namespacemembers_type.html#index_g'' None,
       Entry ''j'' ''namespacemembers_type.html#index_j'' None,
       Entry ''l'' ''namespacemembers_type.html#index_l'' None,
       Entry ''m'' ''namespacemembers_type.html#index_m'' None,
       Entry ''n'' ''namespacemembers_type.html#index_n'' None,
       Entry ''p'' ''namespacemembers_type.html#index_p'' None,
       Entry ''r'' ''namespacemembers_type.html#index_r'' None,
       Entry ''s'' ''namespacemembers_type.html#index_s'' None,
       Entry ''t'' ''namespacemembers_type.html#index_t'' None,
       Entry ''u'' ''namespacemembers_type.html#index_u'' None,
       Entry ''v'' ''namespacemembers_type.html#index_v'' None,
       Entry ''w'' ''namespacemembers_type.html#index_w'' None,
       Entry ''z'' ''namespacemembers_type.html#index_z'' None]),
      Entry ''Enumerations'' ''namespacemembers_enum.html'' None,
      Entry ''Enumerator'' ''namespacemembers_eval.html'' None])]),
    Entry ''Classes'' ''annotated.html'' (Some [
     Entry ''Class List'' ''annotated.html'' None,
     Entry ''Class Index'' ''classes.html'' None,
     Entry ''Class Hierarchy'' ''inherits.html'' None,
     Entry ''Class Members'' ''functions.html'' (Some [
      Entry ''All'' ''functions.html'' (Some [
       Entry ''_'' ''functions.html#index__5F'' None,
       Entry ''a'' ''functions_a.html#index_a'' None,
       Entry ''b'' ''functions_b.html#index_b'' None,
       Entry ''c'' ''functions_c.html#index_c'' None,
       Entry ''d'' ''functions_d.html#index_d'' None,
       Entry ''e'' ''functions_e.html#index_e'' None,
       Entry ''f'' ''functions_f.html#index_f'' None,
       Entry ''g'' ''functions_g.html#index_g'' None,
       Entry ''h'' ''functions_h.html#index_h'' None,
       Entry ''i'' ''functions_i.html#index_i'' None,
       Entry ''j'' ''functions_j.html#index_j'' None,
       Entry ''l'' ''functions_l.html#index_l'' None,
       Entry ''m'' ''functions_m.html#index_m'' None,
       Entry ''n'' ''functions_n.html#index_n'' None,
       Entry ''o'' ''functions_o.html#index_o'' None,
       Entry ''p'' ''functions_p.html#index_p'' None,
       Entry ''r'' ''functions_r.html#index_r'' None,
       Entry ''s'' ''functions_s.html#index_s'' None,
       Entry ''t'' ''functions_t.html#index_t'' None,
       Entry ''u'' ''functions_u.html#index_u'' None,
       Entry ''v'' ''functions_v.html#index_v'' None,
       Entry ''w'' ''functions_w.html#index_w'' None,
       Entry ''x'' ''functions_x.html#index_x'' None,
       Entry ''y'' ''functions_y.html#index_y'' None,
       Entry ''z'' ''functions_z.html#index_z'' None,
       Entry ''~'' ''functions_~.html#index__7E'' None]),
      Entry ''Functions'' ''functions_func.html'' (Some [
       Entry ''_'' ''functions_func.html#index__5F'' None,
       Entry ''a'' ''functions_func_a.html#index_a'' None,
       Entry ''b'' ''functions_func_b.html#index_b'' None,
       Entry ''c'' ''functions_func_c.html#index_c'' None,
       Entry ''d'' ''functions_func_d.html#index_d'' None,
       Entry ''e'' ''functions_func_e.html#index_e'' None,
       Entry ''f'' ''functions_func_f.html#index_f'' None,
       Entry ''g'' ''functions_func_g.html#index_g'' None,
       Entry ''h'' ''functions_func_h.html#index_h'' None,
       Entry ''i'' ''functions_func_i.html#index_i'' None,
       Entry ''j'' ''functions_func_j.html#index_j'' None,
       Entry ''l'' ''functions_func_l.html#index_l'' None,
       Entry ''m'' ''functions_func_m.html#index_m'' None,
       Entry ''n'' ''functions_func_n.html#index_n'' None,
       Entry ''o'' ''functions_func_o.html#index_o'' None,
       Entry ''p'' ''functions_func_p.html#index_p'' None,
       Entry ''r'' ''functions_func_r.html#index_r'' None,
       Entry ''s'' ''functions_func_s.html#index_s'' None,
       Entry ''t'' ''functions_func_t.html#index_t'' None,
       Entry ''u'' ''functions_func_u.html#index_u'' None,
       Entry ''v'' ''functions_func_v.html#index_v'' None,
       Entry ''w'' ''functions_func_w.html#index_w'' None,
       Entry ''z'' ''functions_func_z.html#index_z'' None,
       Entry ''~'' ''functions_func_~.html#index__7E'' None]),
      Entry ''Variables'' ''functions_vars.html'' (Some [
       Entry ''_'' ''functions_vars.html#index__5F'' None,
       Entry ''b'' ''functions_vars.html#index_b'' None,
       Entry ''c'' ''functions_vars.html#index_c'' None,
       Entry ''d'' ''functions_vars.html#index_d'' None,
       Entry ''e'' ''functions_vars.html#index_e'' None,
       Entry ''g'' ''functions_vars.html#index_g'' None,
       Entry ''h'' ''functions_vars.html#index_h'' None,
       Entry ''i'' ''functions_vars.html#index_i'' None,
       Entry ''l'' ''functions_vars.html#index_l'' None,
       Entry ''m'' ''functions_vars.html#index_m'' None,
       Entry ''n'' ''functions_vars.html#index_n'' None,
       Entry ''o'' ''functions_vars.html#index_o'' None,
       Entry ''p'' ''functions_vars.html#index_p'' None,
       Entry ''r'' ''functions_vars.html#index_r'' None,
       Entry ''s'' ''functions_vars.html#index_s'' None,
       Entry ''t'' ''functions_vars.html#index_t'' None,
       Entry ''u'' ''functions_vars.html#index_u'' None,
       Entry ''x'' ''functions_vars.html#index_x'' None,
       Entry ''y'' ''functions_vars.html#index_y'' None]),
      Entry ''Typedefs'' ''functions_type.html'' (Some [
       Entry ''b'' ''functions_type.html#index_b'' None,
       Entry ''c'' ''functions_type.html#index_c'' None,
       Entry ''d'' ''functions_type.html#index_d'' None,
       Entry ''e'' ''functions_type.html#index_e'' None,
       Entry ''f'' ''functions_type.html#index_f'' None,
       Entry ''i'' ''functions_type.html#index_i'' None,
       Entry ''j'' ''functions_type.html#index_j'' None,
       Entry ''l'' ''functions_type.html#index_l'' None,
       Entry ''n'' ''functions_type.html#index_n'' None,
       Entry ''p'' ''functions_type.html#index_p'' None,
       Entry ''r'' ''functions_type.html#index_r'' None,
       Entry ''t'' ''functions_type.html#index_t'' None])])]),
    Entry ''Files'' ''files.html'' (Some [
     Entry ''File List'' ''files.html'' None,
     Entry ''File Members'' ''globals.html'' (Some [
      Entry ''All'' ''globals.html'' None,
      Entry ''Macros'' ''globals_defs.html'' None])]),
    Entry ''Examples'' ''examples.html'' None])"

section \<open>The list\<close>

fun makeTree :: "string \<Rightarrow> menu_entry \<Rightarrow> string" where
  \<open>makeTree relPath (Entry t u None) = []\<close>
| \<open>makeTree relPath (Entry t u (Some children)) =
     ''<ul>''
     @ concat (map (\<lambda>c. ''<li><a href="'' @ relPath @ menu_url c @ ''">'' @ menu_text c @ ''</a>''
                       @ makeTree relPath c @ ''</li>'') children)
     @ ''</ul>''\<close>

definition static_search_item :: "string \<Rightarrow> string \<Rightarrow> string" where
  \<open>static_search_item relPath search =
     ''<li style="float:right"><div id="MSearchBox" class="MSearchBoxInactive"><span class="left"><img id="MSearchSelect" src="''
     @ relPath @ ''search/mag_sel.svg" onmouseover="return searchBox.OnSearchSelectShow()" onmouseout="return searchBox.OnSearchSelectHide()" alt=""/><input type="text" id="MSearchField" value="''
     @ search @ ''" accesskey="S" onfocus="searchBox.OnSearchFieldFocus(true)" onblur="searchBox.OnSearchFieldFocus(false)" onkeyup="searchBox.OnSearchFieldChange(event)"/></span><span class="right"><a id="MSearchClose" href="javascript:searchBox.CloseResultsWindow()"><img id="MSearchCloseImg" border="0" src="''
     @ relPath @ ''search/close.svg" alt=""/></a></span></div></li>''\<close>

definition server_search_item :: "string \<Rightarrow> string \<Rightarrow> string \<Rightarrow> string" where
  \<open>server_search_item relPath searchPage search =
     ''<li style="float:right"><div id="MSearchBox" class="MSearchBoxInactive"><div class="left"><form id="FSearchBox" action="''
     @ relPath @ searchPage @ ''" method="get"><img id="MSearchSelect" src="'' @ relPath
     @ ''search/mag.svg" alt=""/><input type="text" id="MSearchField" name="query" value="''
     @ search @ ''" size="20" accesskey="S" onfocus="searchBox.OnSearchFieldFocus(true)" onblur="searchBox.OnSearchFieldFocus(false)"></form></div><div class="right"></div></div></li>''\<close>

text \<open>The navigation bar: the html appended to \<open>#main-nav\<close>, the attributes of its first child, and the items
  appended to that child once it is \<open>#main-menu\<close>.\<close>

record main_nav =
  nav_html :: string
  nav_class :: string
  nav_id :: string
  nav_items :: "string list"

definition initMenu :: "string \<Rightarrow> bool \<Rightarrow> bool \<Rightarrow> string \<Rightarrow> string \<Rightarrow> main_nav" where
  "initMenu relPath searchEnabled serverSide searchPage search =
     \<lparr>nav_html = makeTree relPath menudata, nav_class = ''sm sm-dox'', nav_id = ''main-menu'',
      nav_items =
        (if searchEnabled then
           if serverSide then [server_search_item relPath searchPage search]
           else [static_search_item relPath search]
         else [])\<rparr>"

section \<open>The list as tags\<close>

datatype menu_tag = Open_list | Close_list | Open_item string string | Close_item

text \<open>The tags of a tree, depth first, and how a tag is written.\<close>

fun menu_tags :: "menu_entry \<Rightarrow> menu_tag list" where
  "menu_tags (Entry t u None) = []"
| "menu_tags (Entry t u (Some children)) =
     Open_list
     # concat (map (\<lambda>c. Open_item (menu_url c) (menu_text c) # menu_tags c @ [Close_item]) children)
     @ [Close_list]"

fun show_tag :: "string \<Rightarrow> menu_tag \<Rightarrow> string" where
  \<open>show_tag relPath Open_list = ''<ul>''\<close>
| \<open>show_tag relPath Close_list = ''</ul>''\<close>
| \<open>show_tag relPath (Open_item u t) = ''<li><a href="'' @ relPath @ u @ ''">'' @ t @ ''</a>''\<close>
| \<open>show_tag relPath Close_item = ''</li>''\<close>

text \<open>A tag sequence is well nested when every closing tag closes the last open one, and items stand
  directly in lists.\<close>

fun nested :: "menu_tag list \<Rightarrow> menu_tag list \<Rightarrow> bool" where
  "nested stack [] \<longleftrightarrow> stack = []"
| "nested stack (Open_list # ts) \<longleftrightarrow> (case stack of Open_list # _ \<Rightarrow> False | _ \<Rightarrow> nested (Open_list # stack) ts)"
| "nested stack (Open_item u t # ts) \<longleftrightarrow>
     (case stack of Open_list # _ \<Rightarrow> nested (Open_item u t # stack) ts | _ \<Rightarrow> False)"
| "nested stack (Close_list # ts) \<longleftrightarrow> (case stack of Open_list # st \<Rightarrow> nested st ts | _ \<Rightarrow> False)"
| "nested stack (Close_item # ts) \<longleftrightarrow> (case stack of Open_item _ _ # st \<Rightarrow> nested st ts | _ \<Rightarrow> False)"

text \<open>The entries below the root, depth first.\<close>

fun menu_links :: "menu_entry \<Rightarrow> (string \<times> string) list" where
  "menu_links (Entry t u None) = []"
| "menu_links (Entry t u (Some children)) =
     concat (map (\<lambda>c. (menu_url c, menu_text c) # menu_links c) children)"

fun tag_links :: "menu_tag list \<Rightarrow> (string \<times> string) list" where
  "tag_links [] = []"
| "tag_links (Open_item u t # ts) = (u, t) # tag_links ts"
| "tag_links (_ # ts) = tag_links ts"

lemma tag_links_append [simp]: "tag_links (ts @ us) = tag_links ts @ tag_links us"
  by (induction ts rule: tag_links.induct) simp_all

lemma makeTree_tags: "makeTree p e = concat (map (show_tag p) (menu_tags e))"
proof (induction p e rule: makeTree.induct)
  case (2 p t u children)
  have "concat (map (\<lambda>c. ''<li><a href='' @ [CHR 0x22] @ p @ menu_url c @ [CHR 0x22] @ ''>'' @ menu_text c @ ''</a>''
        @ makeTree p c @ ''</li>'') cs)
      = concat (map (show_tag p) (concat (map (\<lambda>c. Open_item (menu_url c) (menu_text c) # menu_tags c @ [Close_item]) cs)))"
    if "set cs \<subseteq> set children" for cs
    using that 2 by (induction cs) simp_all
  from this [of children] show ?case by simp
qed simp

lemma menu_tags_links: "tag_links (menu_tags e) = menu_links e"
proof (induction e rule: menu_tags.induct)
  case (2 t u children)
  have "tag_links (concat (map (\<lambda>c. Open_item (menu_url c) (menu_text c) # menu_tags c @ [Close_item]) cs))
      = concat (map (\<lambda>c. (menu_url c, menu_text c) # menu_links c) cs)" if "set cs \<subseteq> set children" for cs
    using that 2 by (induction cs) simp_all
  then show ?case by simp
qed simp

lemma nested_tags:
  "(case stack of Open_list # _ \<Rightarrow> False | _ \<Rightarrow> True) \<Longrightarrow> nested stack (menu_tags e @ ts) = nested stack ts"
proof (induction e arbitrary: stack ts rule: menu_tags.induct)
  case (2 t u children)
  have items: "nested (Open_list # stack)
      (concat (map (\<lambda>c. Open_item (menu_url c) (menu_text c) # menu_tags c @ [Close_item]) cs) @ rest)
      = nested (Open_list # stack) rest" if "set cs \<subseteq> set children" for cs rest
    using that
  proof (induction cs)
    case (Cons c cs)
    then show ?case using "2.IH" [of c] by simp
  qed simp
  from 2(2) items [of children "Close_list # ts"] show ?case
    by (cases stack; cases "hd stack") auto
qed simp

section \<open>Properties\<close>

text \<open>
  The html of a menu is a well nested sequence of list and item tags that links every
  entry of the tree once, in depth first order, with its url below the given path.\<close>

lemma menu_html:
  "\<exists>tags. makeTree relPath e = concat (map (show_tag relPath) tags) \<and> nested [] tags \<and> tag_links tags = menu_links e"
  using nested_tags [of "[]" e "[]"] makeTree_tags menu_tags_links by (intro exI [of _ "menu_tags e"]) simp

end
