(* ===== verification/Dox_Sections.thy ===== *)
theory Dox_Sections
  imports Prelude "HOL-Library.Sublist"
begin

text \<open>
  \<open>docs/dynsections.js\<close>: the sections that open and close, the inherited members, and the directory
  tables whose rows are a tree. The jQuery selections become the records and lists they select; the
  visibility of an element is a field, as its ancestors are always visible on these pages.
\<close>

section \<open>Sections\<close>

record dyn_section =
  ds_content_visible :: bool
  ds_summary_visible :: bool
  ds_opened :: bool
  ds_closed :: bool
  ds_src :: string

text \<open>\<open>substring(0, length - n)\<close>\<close>

definition drop_last :: "nat \<Rightarrow> 'a list \<Rightarrow> 'a list" where
  "drop_last n s = take (length s - n) s"

definition toggleVisibility :: "dyn_section \<Rightarrow> dyn_section" where
  "toggleVisibility s =
     (if ds_content_visible s
      then s\<lparr>ds_content_visible := False, ds_summary_visible := True, ds_closed := True, ds_opened := False,
             ds_src := drop_last 8 (ds_src s) @ ''closed.png''\<rparr>
      else s\<lparr>ds_content_visible := True, ds_summary_visible := False, ds_closed := False, ds_opened := True,
             ds_src := drop_last 10 (ds_src s) @ ''open.png''\<rparr>)"

text \<open>The rows of the inherited members of a class and the image of their header.\<close>

record inherit_group =
  ig_rows :: "bool list"
  ig_src :: string

definition toggleInherit :: "inherit_group \<Rightarrow> inherit_group" where
  "toggleInherit g =
     (if ig_rows g \<noteq> [] \<and> hd (ig_rows g)
      then g\<lparr>ig_rows := map (\<lambda>_. False) (ig_rows g), ig_src := drop_last 8 (ig_src g) @ ''closed.png''\<rparr>
      else g\<lparr>ig_rows := map (\<lambda>_. True) (ig_rows g), ig_src := drop_last 10 (ig_src g) @ ''open.png''\<rparr>)"

section \<open>Directory tables\<close>

text \<open>A row, with the icon and the arrow of a folder; a file has neither.\<close>

datatype folder_icon = iconfopen | iconfclosed

record dir_row =
  dr_id :: string
  dr_visible :: bool
  dr_even :: bool
  dr_icon :: "folder_icon option"
  dr_arrow :: "string option"

fun stripe :: "bool \<Rightarrow> dir_row list \<Rightarrow> dir_row list" where
  "stripe ev [] = []"
| "stripe ev (r # rs) =
     (if dr_visible r then r\<lparr>dr_even := ev\<rparr> # stripe (\<not> ev) rs
      else r\<lparr>dr_even := False\<rparr> # stripe ev rs)"

definition updateStripes :: "dir_row list \<Rightarrow> dir_row list" where
  "updateStripes rows = stripe True rows"

text \<open>\<open>this.id.split('_').length-1\<close>: the number of underscores.\<close>

definition row_level :: "dir_row \<Rightarrow> nat" where
  "row_level r = length (filter (\<lambda>c. c = CHR ''_'') (dr_id r))"

definition set_folder :: "folder_icon \<Rightarrow> string \<Rightarrow> dir_row \<Rightarrow> dir_row" where
  "set_folder icon arrow r =
     r\<lparr>dr_icon := map_option (\<lambda>_. icon) (dr_icon r), dr_arrow := map_option (\<lambda>_. arrow) (dr_arrow r)\<rparr>"

definition arrow_down :: string where
  "arrow_down = ''&#9660;''"

definition arrow_right :: string where
  "arrow_right = ''&#9658;''"

definition toggleLevel :: "nat \<Rightarrow> dir_row list \<Rightarrow> dir_row list" where
  "toggleLevel level rows =
     updateStripes (map (\<lambda>r.
       let l = row_level r in
       if l < level + 1 then (set_folder iconfopen arrow_down r)\<lparr>dr_visible := True\<rparr>
       else if l = level + 1 then (set_folder iconfclosed arrow_right r)\<lparr>dr_visible := True\<rparr>
       else r\<lparr>dr_visible := False\<rparr>) rows)"

text \<open>The regular expression \<open>^row_<id>\d+_$\<close>, which ignores case, and the prefix selector.\<close>

definition ascii_lower_char :: "char \<Rightarrow> char" where
  "ascii_lower_char c = (if (65::nat) \<le> of_char c \<and> of_char c \<le> (90::nat) then char_of (of_char c + (32::nat)) else c)"

definition is_digit :: "char \<Rightarrow> bool" where
  "is_digit c \<longleftrightarrow> (48::nat) \<le> of_char c \<and> of_char c \<le> (57::nat)"

definition child_id_match :: "string \<Rightarrow> string \<Rightarrow> bool" where
  "child_id_match i rid =
     (let p = ''row_'' @ i; rest = drop (length p) rid
      in map ascii_lower_char (take (length p) rid) = map ascii_lower_char p
         \<and> rest \<noteq> [] \<and> last rest = CHR ''_'' \<and> butlast rest \<noteq> [] \<and> list_all is_digit (butlast rest))"

definition below_id :: "string \<Rightarrow> dir_row \<Rightarrow> bool" where
  "below_id i r \<longleftrightarrow> prefix (''row_'' @ i) (dr_id r)"

text \<open>The current row is changed through its spans: an icon of the class that is filtered, and the arrow.\<close>

definition switch_icon :: "folder_icon \<Rightarrow> folder_icon \<Rightarrow> string \<Rightarrow> dir_row \<Rightarrow> dir_row" where
  "switch_icon old new arrow r =
     r\<lparr>dr_icon := (if dr_icon r = Some old then Some new else dr_icon r),
       dr_arrow := map_option (\<lambda>_. arrow) (dr_arrow r)\<rparr>"

definition toggle_from :: "string \<Rightarrow> dir_row \<Rightarrow> dir_row list \<Rightarrow> dir_row list" where
  "toggle_from i current rows =
     (case find (\<lambda>r. child_id_match i (dr_id r)) rows of
        Some r \<Rightarrow>
          if dr_visible r then
            switch_icon iconfopen iconfclosed arrow_right current
            # map (\<lambda>r. if below_id i r then r\<lparr>dr_visible := False\<rparr> else r) rows
          else
            switch_icon iconfclosed iconfopen arrow_down current
            # map (\<lambda>r. if child_id_match i (dr_id r)
                       then (switch_icon iconfopen iconfclosed arrow_right r)\<lparr>dr_visible := True\<rparr> else r) rows
      | None \<Rightarrow> switch_icon iconfclosed iconfopen arrow_down current # rows)"

fun toggle_rows :: "string \<Rightarrow> dir_row list \<Rightarrow> dir_row list" where
  "toggle_rows i [] = []"
| "toggle_rows i (r # rs) = (if dr_id r = ''row_'' @ i then toggle_from i r rs else r # toggle_rows i rs)"

definition toggleFolder :: "string \<Rightarrow> dir_row list \<Rightarrow> dir_row list" where
  "toggleFolder i rows = updateStripes (toggle_rows i rows)"

section \<open>The tree of rows\<close>

text \<open>A row is the parent of the rows whose id adds one number to its own.\<close>

definition parent_of :: "dir_row \<Rightarrow> dir_row \<Rightarrow> bool" where
  "parent_of p r \<longleftrightarrow> (\<exists>ds. ds \<noteq> [] \<and> list_all is_digit ds \<and> dr_id r = dr_id p @ ds @ ''_'')"

text \<open>The tables of the pages: ids in lower case that start with \<open>row_\<close> and end with an underscore, distinct, a row after the rows its
  id extends.\<close>

definition table_ok :: "dir_row list \<Rightarrow> bool" where
  "table_ok rows \<longleftrightarrow> distinct (map dr_id rows) \<and>
     (\<forall>r\<in>set rows. map ascii_lower_char (dr_id r) = dr_id r \<and> prefix ''row_'' (dr_id r)
        \<and> last (dr_id r) = CHR ''_'') \<and>
     (\<forall>i j. i < j \<longrightarrow> j < length rows \<longrightarrow> \<not> prefix (dr_id (rows ! j)) (dr_id (rows ! i)))"

text \<open>No row is visible below a hidden parent.\<close>

definition tree_visible :: "dir_row list \<Rightarrow> bool" where
  "tree_visible rows \<longleftrightarrow> (\<forall>p\<in>set rows. \<forall>r\<in>set rows. parent_of p r \<longrightarrow> dr_visible r \<longrightarrow> dr_visible p)"

section \<open>Lemmas\<close>

definition vis :: "dir_row list \<Rightarrow> (string \<times> bool) list" where
  "vis rows = map (\<lambda>r. (dr_id r, dr_visible r)) rows"

definition id_parent :: "string \<Rightarrow> string \<Rightarrow> bool" where
  "id_parent a b \<longleftrightarrow> (\<exists>ds. ds \<noteq> [] \<and> list_all is_digit ds \<and> b = a @ ds @ ''_'')"

lemma id_parent_irrefl [simp]: "\<not> id_parent a a"
  by (simp add: id_parent_def)

lemma id_parent_prefix: "id_parent a b \<Longrightarrow> prefix a b \<and> a \<noteq> b"
  by (auto simp: id_parent_def)

lemma tree_visible_vis:
  "tree_visible rows \<longleftrightarrow> (\<forall>(a, x)\<in>set (vis rows). \<forall>(b, y)\<in>set (vis rows). id_parent a b \<longrightarrow> y \<longrightarrow> x)"
  by (auto simp: tree_visible_def vis_def parent_of_def id_parent_def)

lemma vis_stripe [simp]: "vis (stripe ev rows) = vis rows"
  by (induction ev rows rule: stripe.induct) (simp_all add: vis_def)

lemma vis_updateStripes [simp]: "vis (updateStripes rows) = vis rows"
  by (simp add: updateStripes_def)

lemma vis_ids: "map fst (vis rows) = map dr_id rows"
  by (simp add: vis_def comp_def)

lemma table_ok_cong: "map dr_id rows = map dr_id rows' \<Longrightarrow> table_ok rows = table_ok rows'"
proof -
  assume eq: "map dr_id rows = map dr_id rows'"
  have ok: "table_ok rs \<longleftrightarrow> distinct (map dr_id rs) \<and>
     (\<forall>a\<in>set (map dr_id rs). map ascii_lower_char a = a \<and> prefix ''row_'' a \<and> last a = CHR ''_'') \<and>
     (\<forall>i j. i < j \<longrightarrow> j < length (map dr_id rs) \<longrightarrow> \<not> prefix (map dr_id rs ! j) (map dr_id rs ! i))" for rs
    by (auto simp: table_ok_def)
  show ?thesis unfolding ok eq ..
qed

lemma child_id_match_iff:
  assumes "map ascii_lower_char rid = rid" and "map ascii_lower_char (''row_'' @ i) = ''row_'' @ i"
  shows "child_id_match i rid \<longleftrightarrow> id_parent (''row_'' @ i) rid"
proof
  let ?p = "''row_'' @ i"
  assume m: "child_id_match i rid"
  then obtain ds where ds: "drop (length ?p) rid = ds @ ''_''" "ds \<noteq> []" "list_all is_digit ds"
    unfolding child_id_match_def Let_def by (metis append_butlast_last_id)
  have "map ascii_lower_char (take (length ?p) rid) = take (length ?p) rid"
    using assms(1) by (metis take_map)
  with m assms(2) have "take (length ?p) rid = ?p" unfolding child_id_match_def Let_def by metis
  then have "rid = ?p @ ds @ ''_''" using ds(1) append_take_drop_id [of "length ?p" rid] by simp
  with ds show "id_parent ?p rid" by (auto simp: id_parent_def)
next
  assume "id_parent (''row_'' @ i) rid"
  then show "child_id_match i rid" by (auto simp: id_parent_def child_id_match_def)
qed

lemma is_digit_underscore: "\<not> is_digit CHR ''_''"
  by (simp add: is_digit_def)

text \<open>Rows whose ids end with an underscore have one parent.\<close>

lemma id_parent_unique:
  assumes "id_parent a c" and "id_parent b c" and "last a = CHR ''_''" and "last b = CHR ''_''" and "a \<noteq> []" and "b \<noteq> []"
  shows "a = b"
proof -
  obtain ds es where ds: "list_all is_digit ds" "list_all is_digit es" "a @ ds = b @ es"
    using assms(1,2) by (auto simp: id_parent_def)
  from assms(3,5) obtain a' where a: "a = a' @ ''_''" by (metis append_butlast_last_id)
  from assms(4,6) obtain b' where b: "b = b' @ ''_''" by (metis append_butlast_last_id)
  from ds(3) consider us where "a = b @ us" "us @ ds = es" | us where "a @ us = b" "ds = us @ es"
    by (auto simp: append_eq_append_conv2)
  then show ?thesis
  proof cases
    case 1
    then show ?thesis using ds(2) a is_digit_underscore by (cases us rule: rev_cases) auto
  next
    case 2
    then show ?thesis using ds(1) b is_digit_underscore by (cases us rule: rev_cases) auto
  qed
qed

text \<open>The visibility of a row after the folder of id \<open>i\<close> is closed or opened.\<close>

definition new_visible :: "bool \<Rightarrow> string \<Rightarrow> dir_row \<Rightarrow> bool" where
  "new_visible closing i r =
     (if closing then dr_visible r \<and> (dr_id r = ''row_'' @ i \<or> \<not> below_id i r)
      else dr_visible r \<or> id_parent (''row_'' @ i) (dr_id r))"

definition folder_open :: "string \<Rightarrow> dir_row list \<Rightarrow> bool" where
  "folder_open i rows =
     (case find (\<lambda>r. child_id_match i (dr_id r)) (tl (dropWhile (\<lambda>r. dr_id r \<noteq> ''row_'' @ i) rows)) of
        Some r \<Rightarrow> dr_visible r | None \<Rightarrow> False)"

lemma toggle_rows_split:
  "(\<forall>r\<in>set pre. dr_id r \<noteq> ''row_'' @ i) \<Longrightarrow> dr_id cur = ''row_'' @ i \<Longrightarrow>
     toggle_rows i (pre @ cur # post) = pre @ toggle_from i cur post"
  by (induction pre) auto

lemma vis_toggle_from:
  assumes "\<forall>r\<in>set (cur # post). map ascii_lower_char (dr_id r) = dr_id r" and "dr_id cur = ''row_'' @ i"
    and "\<forall>r\<in>set post. dr_id r \<noteq> ''row_'' @ i"
  shows "vis (toggle_from i cur post) =
    map (\<lambda>r. (dr_id r, new_visible (folder_open i (cur # post)) i r)) (cur # post)"
proof -
  have match: "child_id_match i (dr_id r) \<longleftrightarrow> id_parent (''row_'' @ i) (dr_id r)" if "r \<in> set post" for r
    using child_id_match_iff assms(1,2) that by (metis list.set_intros(1,2))
  have cur: "new_visible b i cur = dr_visible cur" for b
    using assms(2) by (auto simp: new_visible_def id_parent_def)
  show ?thesis
  proof (cases "find (\<lambda>r. child_id_match i (dr_id r)) post")
    case None
    then have "\<forall>r\<in>set post. \<not> id_parent (''row_'' @ i) (dr_id r)" using match by (auto simp: find_None_iff)
    with None cur assms(2) show ?thesis
      by (simp add: toggle_from_def folder_open_def vis_def new_visible_def switch_icon_def)
  next
    case (Some r)
    with cur assms(2,3) match show ?thesis
      by (auto simp: toggle_from_def folder_open_def vis_def new_visible_def switch_icon_def)
  qed
qed

lemma toggleFolder_vis:
  assumes ok: "table_ok rows" and cur: "\<exists>r\<in>set rows. dr_id r = ''row_'' @ i"
  shows "vis (toggleFolder i rows) = map (\<lambda>r. (dr_id r, new_visible (folder_open i rows) i r)) rows"
proof -
  from cur obtain pre c post where rows: "rows = pre @ c # post" "dr_id c = ''row_'' @ i"
      "\<forall>r\<in>set pre. dr_id r \<noteq> ''row_'' @ i"
    using split_list_first_prop [of rows "\<lambda>r. dr_id r = ''row_'' @ i"] by auto
  have post: "\<forall>r\<in>set post. dr_id r \<noteq> ''row_'' @ i"
  proof -
    have "distinct (map dr_id (pre @ c # post))" using ok unfolding rows(1) table_ok_def by blast
    then have "dr_id c \<notin> dr_id ` set post" by simp
    then show ?thesis unfolding rows(2) by (metis imageI)
  qed
  have "\<not> prefix (''row_'' @ i) (dr_id r)" if mem: "r \<in> set pre" for r
  proof -
    obtain k where k: "k < length pre" "r = pre ! k" using mem by (metis in_set_conv_nth)
    have "length pre < length rows" "rows ! length pre = c" "rows ! k = r"
      using rows(1) k by (simp_all add: nth_append)
    moreover have "k < j \<Longrightarrow> j < length rows \<Longrightarrow> \<not> prefix (dr_id (rows ! j)) (dr_id (rows ! k))" for j
      using ok unfolding table_ok_def by blast
    ultimately show ?thesis unfolding rows(2) [symmetric] using k(1) by blast
  qed
  then have pre: "new_visible b i r = dr_visible r" if "r \<in> set pre" for b r
    using that id_parent_prefix unfolding new_visible_def below_id_def by metis
  have "dropWhile (\<lambda>r. dr_id r \<noteq> ''row_'' @ i) rows = c # post" using rows by (simp add: dropWhile_append2)
  then have fo: "folder_open i rows = folder_open i (c # post)" using rows(2) by (simp add: folder_open_def)
  have "vis (toggleFolder i rows) = vis pre @ vis (toggle_from i c post)"
    using toggle_rows_split [OF rows(3,2)] rows(1) by (simp add: toggleFolder_def) (simp add: vis_def)
  also have "vis (toggle_from i c post) = map (\<lambda>r. (dr_id r, new_visible (folder_open i rows) i r)) (c # post)"
    unfolding fo by (rule vis_toggle_from [OF _ rows(2) post]) (use ok rows(1) in \<open>auto simp: table_ok_def\<close>)
  also have "vis pre = map (\<lambda>r. (dr_id r, new_visible (folder_open i rows) i r)) pre"
    using pre by (simp add: vis_def)
  finally show ?thesis using rows(1) by simp
qed

lemma toggleFolder_tree:
  assumes ok: "table_ok rows" and tree: "tree_visible rows"
    and cur: "\<exists>r\<in>set rows. dr_id r = ''row_'' @ i \<and> dr_visible r"
  shows "table_ok (toggleFolder i rows) \<and> tree_visible (toggleFolder i rows)"
proof -
  let ?b = "folder_open i rows"
  from cur obtain c where c: "c \<in> set rows" "dr_id c = ''row_'' @ i" "dr_visible c" by blast
  have V: "vis (toggleFolder i rows) = map (\<lambda>r. (dr_id r, new_visible ?b i r)) rows"
    using toggleFolder_vis [OF ok] cur by blast
  then have "map dr_id (toggleFolder i rows) = map dr_id rows"
    unfolding vis_ids [symmetric] by (simp add: vis_def comp_def)
  then have ok': "table_ok (toggleFolder i rows)" using ok table_ok_cong by blast
  have "new_visible ?b i p" if pr: "p \<in> set rows" "r \<in> set rows" "id_parent (dr_id p) (dr_id r)" "new_visible ?b i r" for p r
  proof (cases ?b)
    case True
    then have r: "dr_visible r" "dr_id r = ''row_'' @ i \<or> \<not> below_id i r" using pr(4) by (auto simp: new_visible_def)
    have "dr_visible p" using tree pr r(1) by (auto simp: tree_visible_def parent_of_def id_parent_def)
    moreover have "\<not> below_id i p \<or> dr_id p = ''row_'' @ i"
    proof (rule ccontr)
      assume "\<not> ?thesis"
      then have "prefix (''row_'' @ i) (dr_id p)" by (simp add: below_id_def)
      with id_parent_prefix [OF pr(3)] have "below_id i r" "dr_id r \<noteq> ''row_'' @ i"
        unfolding below_id_def by (auto dest: prefix_order.order_antisym prefix_order.order_trans)
      with r(2) show False by simp
    qed
    ultimately show ?thesis using True by (auto simp: new_visible_def)
  next
    case False
    then have "dr_visible r \<or> id_parent (dr_id c) (dr_id r)" using pr(4) c(2) by (simp add: new_visible_def)
    then show ?thesis
    proof
      assume "dr_visible r"
      then have "dr_visible p" using tree pr by (auto simp: tree_visible_def parent_of_def id_parent_def)
      then show ?thesis using False by (simp add: new_visible_def)
    next
      assume "id_parent (dr_id c) (dr_id r)"
      moreover have "last (dr_id q) = CHR ''_'' \<and> dr_id q \<noteq> []" if "q \<in> set rows" for q
        using ok that by (auto simp: table_ok_def)
      ultimately have "dr_id p = dr_id c" using id_parent_unique [OF pr(3)] pr(1) c(1) by blast
      then have "p = c" using ok pr(1) c(1) by (auto simp: table_ok_def distinct_map inj_on_def)
      then show ?thesis using False c(3) by (simp add: new_visible_def)
    qed
  qed
  then have "tree_visible (toggleFolder i rows)" unfolding tree_visible_vis V by auto
  with ok' show ?thesis by simp
qed

lemma toggleLevel_vis: "vis (toggleLevel n rows) = map (\<lambda>r. (dr_id r, row_level r \<le> n + 1)) rows"
  by (auto simp: toggleLevel_def vis_def [of "map _ _"] Let_def set_folder_def)

lemma level_parent: "id_parent (dr_id p) (dr_id r) \<Longrightarrow> row_level r = row_level p + 1"
proof -
  have "filter (\<lambda>c. c = CHR ''_'') ds = []" if "list_all is_digit ds" for ds
    using that is_digit_underscore by (induction ds) auto
  then show "id_parent (dr_id p) (dr_id r) \<Longrightarrow> row_level r = row_level p + 1"
    by (auto simp: id_parent_def row_level_def)
qed

lemma toggleLevel_tree: "table_ok rows \<Longrightarrow> table_ok (toggleLevel n rows) \<and> tree_visible (toggleLevel n rows)"
proof
  assume ok: "table_ok rows"
  have "map dr_id (toggleLevel n rows) = map dr_id rows"
    unfolding vis_ids [symmetric] toggleLevel_vis by (simp add: vis_def comp_def)
  then show "table_ok (toggleLevel n rows)" using ok table_ok_cong by blast
  show "tree_visible (toggleLevel n rows)"
    unfolding tree_visible_vis toggleLevel_vis using level_parent by fastforce
qed

section \<open>Properties\<close>

text \<open>A click on the level selector or on the arrow of a folder that can be seen.\<close>

inductive dir_click :: "dir_row list \<Rightarrow> dir_row list \<Rightarrow> bool" where
  click_level: "dir_click rows (toggleLevel n rows)"
| click_folder: "r \<in> set rows \<Longrightarrow> dr_id r = ''row_'' @ i \<Longrightarrow> dr_visible r \<Longrightarrow> dir_click rows (toggleFolder i rows)"

inductive dir_clicks :: "dir_row list \<Rightarrow> dir_row list \<Rightarrow> bool" where
  no_click: "dir_clicks rows rows"
| more_clicks: "dir_clicks rows rows' \<Longrightarrow> dir_click rows' rows'' \<Longrightarrow> dir_clicks rows rows''"

text \<open>Property C36: whatever is clicked, no row of a directory table is ever visible below a hidden parent.\<close>

theorem directory_visibility:
  assumes "table_ok rows" and "tree_visible rows" and "dir_clicks rows rows'"
  shows "tree_visible rows'"
proof -
  have "table_ok rows' \<and> tree_visible rows'" using assms(3,1,2)
  proof (induction rule: dir_clicks.induct)
    case (more_clicks rows rows' rows'')
    then have IH: "table_ok rows'" "tree_visible rows'" by blast+
    from more_clicks(2) show ?case
    proof (cases rule: dir_click.cases)
      case (click_level n)
      then show ?thesis using toggleLevel_tree [OF IH(1)] by simp
    next
      case (click_folder r i)
      then show ?thesis using toggleFolder_tree [OF IH, of i] by blast
    qed
  qed simp
  then show ?thesis by simp
qed

definition sample_table :: "dir_row list" where
  "sample_table = map (\<lambda>(i, v). \<lparr>dr_id = i, dr_visible = v, dr_even = False, dr_icon = Some iconfopen, dr_arrow = Some arrow_down\<rparr>)
     [(''row_0_'', True), (''row_0_0_'', True), (''row_0_1_'', True), (''row_1_'', True)]"

theorem directory_visibility_witness:
  "tree_visible (toggleLevel 1 (toggleFolder ''0_'' sample_table))"
proof -
  have ids: "map dr_id sample_table = [''row_0_'', ''row_0_0_'', ''row_0_1_'', ''row_1_'']" by (simp add: sample_table_def)
  have "length sample_table = 4" by (simp add: sample_table_def)
  then have order: "\<not> prefix (dr_id (sample_table ! j)) (dr_id (sample_table ! i))" if "i < j" "j < 4" for i j
    using that by (auto simp: sample_table_def numeral_eq_Suc less_Suc_eq)
  have ok: "table_ok sample_table"
    unfolding table_ok_def ids using order \<open>length sample_table = 4\<close>
    by (auto simp: sample_table_def ascii_lower_char_def)
  have tree: "tree_visible sample_table" by (auto simp: tree_visible_def sample_table_def)
  have "dir_clicks sample_table (toggleLevel 1 (toggleFolder ''0_'' sample_table))"
    by (rule more_clicks [OF more_clicks [OF no_click click_folder] click_level, of "sample_table ! 0"])
      (simp_all add: sample_table_def)
  with ok tree show ?thesis by (rule directory_visibility)
qed

lemma stripe_pattern:
  "map dr_even (filter dr_visible (stripe ev rows)) = map (\<lambda>k. even k = ev) [0..<length (filter dr_visible rows)]
   \<and> (\<forall>r\<in>set (stripe ev rows). \<not> dr_visible r \<longrightarrow> \<not> dr_even r)
   \<and> map (dr_even_update (\<lambda>_. False)) (stripe ev rows) = map (dr_even_update (\<lambda>_. False)) rows"
proof (induction ev rows rule: stripe.induct)
  case (2 ev r rs)
  show ?case
  proof (cases "dr_visible r")
    case True
    with 2 show ?thesis by (auto simp: upt_conv_Cons map_Suc_upt [symmetric] simp del: upt_Suc map_Suc_upt)
  qed (use 2 in simp)
qed simp

text \<open>\<open>updateStripes\<close>, which ends every click, shades the visible rows alternately, the first
  one included, and no hidden row, and changes nothing else.\<close>

theorem stripes_alternate:
  "map dr_even (filter dr_visible (updateStripes rows)) = map even [0..<length (filter dr_visible rows)]
   \<and> filter (\<lambda>r. \<not> dr_visible r \<and> dr_even r) (updateStripes rows) = []
   \<and> map (dr_even_update (\<lambda>_. False)) (updateStripes rows) = map (dr_even_update (\<lambda>_. False)) rows"
  using stripe_pattern [of True rows] by (auto simp: updateStripes_def filter_empty_conv)

end
