(* ===== verification/Dox_Classes.thy ===== *)
theory Dox_Classes
  imports Dox_Entries
begin

text \<open>The index files of the classes and of the files of the documentation (\<open>docs/search/classes_*.js\<close>, \<open>files_*.js\<close>).\<close>

section \<open>The files of the classes\<close>

definition classes_0 :: "raw_entry list" where
  "classes_0 = [
      (''acquireguard_786'', ''AcquireGuard'', [(''../classfpmas_1_1model_1_1AcquireGuard.html'', 1, ''fpmas::model::AcquireGuard''),
        (''../classfpmas_1_1synchro_1_1AcquireGuard.html'', 1, ''fpmas::synchro::AcquireGuard&lt; T &gt;'')]),
      (''acquireguard_3c_20fpmas_3a_3aapi_3a_3amodel_3a_3aagentptr_20_3e_787'', ''AcquireGuard&lt; fpmas::api::model::AgentPtr &gt;'', [(''../classfpmas_1_1synchro_1_1AcquireGuard.html'', 1, ''fpmas::synchro'')]),
      (''adl_5fserializer_3c_20dataupdatepack_3c_20t_20_3e_20_3e_788'', ''adl_serializer&lt; DataUpdatePack&lt; T &gt; &gt;'', [(''../structnlohmann_1_1adl__serializer_3_01DataUpdatePack_3_01T_01_4_01_4.html'', 1, ''nlohmann'')]),
      (''adl_5fserializer_3c_20distributedid_20_3e_789'', ''adl_serializer&lt; DistributedId &gt;'', [(''../structnlohmann_1_1adl__serializer_3_01DistributedId_01_4.html'', 1, ''nlohmann'')]),
      (''adl_5fserializer_3c_20edgeptrwrapper_3c_20t_20_3e_20_3e_790'', ''adl_serializer&lt; EdgePtrWrapper&lt; T &gt; &gt;'', [(''../structnlohmann_1_1adl__serializer_3_01EdgePtrWrapper_3_01T_01_4_01_4.html'', 1, ''nlohmann'')]),
      (''adl_5fserializer_3c_20fpmas_3a_3aapi_3a_3agraph_3a_3adistributedgraph_3c_20t_20_3e_20_3e_791'', ''adl_serializer&lt; fpmas::api::graph::DistributedGraph&lt; T &gt; &gt;'', [(''../structnlohmann_1_1adl__serializer_3_01fpmas_1_1api_1_1graph_1_1DistributedGraph_3_01T_01_4_01_4.html'', 1, ''nlohmann'')]),
      (''adl_5fserializer_3c_20fpmas_3a_3aapi_3a_3agraph_3a_3alocationmanager_3c_20t_20_3e_20_3e_792'', ''adl_serializer&lt; fpmas::api::graph::LocationManager&lt; T &gt; &gt;'', [(''../structnlohmann_1_1adl__serializer_3_01fpmas_1_1api_1_1graph_1_1LocationManager_3_01T_01_4_01_4.html'', 1, ''nlohmann'')]),
      (''adl_5fserializer_3c_20fpmas_3a_3aapi_3a_3amodel_3a_3aagentptr_20_3e_793'', ''adl_serializer&lt; fpmas::api::model::AgentPtr &gt;'', [(''../structnlohmann_1_1adl__serializer_3_01fpmas_1_1api_1_1model_1_1AgentPtr_01_4.html'', 1, ''nlohmann'')]),
      (''adl_5fserializer_3c_20fpmas_3a_3aapi_3a_3amodel_3a_3adiscretepoint_20_3e_794'', ''adl_serializer&lt; fpmas::api::model::DiscretePoint &gt;'', [(''../structnlohmann_1_1adl__serializer_3_01fpmas_1_1api_1_1model_1_1DiscretePoint_01_4.html'', 1, ''nlohmann'')]),
      (''adl_5fserializer_3c_20fpmas_3a_3aapi_3a_3amodel_3a_3amodel_20_3e_795'', ''adl_serializer&lt; fpmas::api::model::Model &gt;'', [(''../structnlohmann_1_1adl__serializer_3_01fpmas_1_1api_1_1model_1_1Model_01_4.html'', 1, ''nlohmann'')]),
      (''adl_5fserializer_3c_20fpmas_3a_3aapi_3a_3autils_3a_3aptrwrapper_3c_20agenttype_20_3e_20_3e_796'', ''adl_serializer&lt; fpmas::api::utils::PtrWrapper&lt; AgentType &gt; &gt;'', [(''../structnlohmann_1_1adl__serializer_3_01fpmas_1_1api_1_1utils_1_1PtrWrapper_3_01AgentType_01_4_01_4.html'', 1, ''nlohmann'')]),
      (''adl_5fserializer_3c_20fpmas_3a_3aapi_3a_3autils_3a_3aptrwrapper_3c_20fpmas_3a_3amodel_3a_3agraphcellbase_3c_20agenttype_2c_20derived_20_3e_20_3e_20_3e_797'', ''adl_serializer&lt; fpmas::api::utils::PtrWrapper&lt; fpmas::model::GraphCellBase&lt; AgentType, Derived &gt; &gt; &gt;'', [(''../structnlohmann_1_1adl__serializer_3_01fpmas_1_1api_1_1utils_1_1PtrWrapper_3_01fpmas_1_1model_1_189f18958e721d64cf9081bb53023a6a1.html'', 1, ''nlohmann'')]),
      (''adl_5fserializer_3c_20fpmas_3a_3aapi_3a_3autils_3a_3aptrwrapper_3c_20fpmas_3a_3amodel_3a_3agridagent_3c_20agenttype_2c_20celltype_2c_20derived_20_3e_20_3e_20_3e_798'', ''adl_serializer&lt; fpmas::api::utils::PtrWrapper&lt; fpmas::model::GridAgent&lt; AgentType, CellType, Derived &gt; &gt; &gt;'', [(''../structnlohmann_1_1adl__serializer_3_01fpmas_1_1api_1_1utils_1_1PtrWrapper_3_01fpmas_1_1model_1_136032a46204f163d868560f92634ba90.html'', 1, ''nlohmann'')]),
      (''adl_5fserializer_3c_20fpmas_3a_3aapi_3a_3autils_3a_3aptrwrapper_3c_20fpmas_3a_3amodel_3a_3agridcellbase_3c_20gridcelltype_2c_20derived_20_3e_20_3e_20_3e_799'', ''adl_serializer&lt; fpmas::api::utils::PtrWrapper&lt; fpmas::model::GridCellBase&lt; GridCellType, Derived &gt; &gt; &gt;'', [(''../structnlohmann_1_1adl__serializer_3_01fpmas_1_1api_1_1utils_1_1PtrWrapper_3_01fpmas_1_1model_1_1784f1e1360367771d11e7adbddb7008f.html'', 1, ''nlohmann'')]),
      (''adl_5fserializer_3c_20fpmas_3a_3aapi_3a_3autils_3a_3aptrwrapper_3c_20fpmas_3a_3amodel_3a_3aspatialagentbase_3c_20agenttype_2c_20celltype_2c_20derived_20_3e_20_3e_20_3e_800'', ''adl_serializer&lt; fpmas::api::utils::PtrWrapper&lt; fpmas::model::SpatialAgentBase&lt; AgentType, CellType, Derived &gt; &gt; &gt;'', [(''../structnlohmann_1_1adl__serializer_3_01fpmas_1_1api_1_1utils_1_1PtrWrapper_3_01fpmas_1_1model_1_15c21a6b0ad54d23aaa2f84ed15f8db9e.html'', 1, ''nlohmann'')]),
      (''adl_5fserializer_3c_20fpmas_3a_3agraph_3a_3adetail_3a_3alocalizednodeview_3c_20t_20_3e_20_3e_801'', ''adl_serializer&lt; fpmas::graph::detail::LocalizedNodeView&lt; T &gt; &gt;'', [(''../structnlohmann_1_1adl__serializer_3_01fpmas_1_1graph_1_1detail_1_1LocalizedNodeView_3_01T_01_4_01_4.html'', 1, ''nlohmann'')]),
      (''adl_5fserializer_3c_20fpmas_3a_3amodel_3a_3areachablecell_20_3e_802'', ''adl_serializer&lt; fpmas::model::ReachableCell &gt;'', [(''../structnlohmann_1_1adl__serializer_3_01fpmas_1_1model_1_1ReachableCell_01_4.html'', 1, ''nlohmann'')]),
      (''adl_5fserializer_3c_20nodeptrwrapper_3c_20t_20_3e_20_3e_803'', ''adl_serializer&lt; NodePtrWrapper&lt; T &gt; &gt;'', [(''../structnlohmann_1_1adl__serializer_3_01NodePtrWrapper_3_01T_01_4_01_4.html'', 1, ''nlohmann'')]),
      (''adl_5fserializer_3c_20nodeupdatepack_3c_20t_20_3e_20_3e_804'', ''adl_serializer&lt; NodeUpdatePack&lt; T &gt; &gt;'', [(''../structnlohmann_1_1adl__serializer_3_01NodeUpdatePack_3_01T_01_4_01_4.html'', 1, ''nlohmann'')]),
      (''adl_5fserializer_3c_20std_3a_3achrono_3a_3aduration_3c_20rep_2c_20ratio_20_3e_20_3e_805'', ''adl_serializer&lt; std::chrono::duration&lt; Rep, Ratio &gt; &gt;'', [(''../structnlohmann_1_1adl__serializer_3_01std_1_1chrono_1_1duration_3_01Rep_00_01Ratio_01_4_01_4.html'', 1, ''nlohmann'')]),
      (''adl_5fserializer_3c_20std_3a_3atype_5findex_20_3e_806'', ''adl_serializer&lt; std::type_index &gt;'', [(''../structnlohmann_1_1adl__serializer_3_01std_1_1type__index_01_4.html'', 1, ''nlohmann'')]),
      (''agent_807'', ''Agent'', [(''../classfpmas_1_1api_1_1model_1_1Agent.html'', 1, ''fpmas::api::model'')]),
      (''agentbase_808'', ''AgentBase'', [(''../classfpmas_1_1model_1_1AgentBase.html'', 1, ''fpmas::model'')]),
      (''agentbase_3c_20agenttype_2c_20spatialagentbase_3c_20agenttype_2c_20api_3a_3amodel_3a_3acell_2c_20agenttype_20_3e_20_3e_809'', ''AgentBase&lt; AgentType, SpatialAgentBase&lt; AgentType, api::model::Cell, AgentType &gt; &gt;'', [(''../classfpmas_1_1model_1_1AgentBase.html'', 1, ''fpmas::model'')]),
      (''agentbase_3c_20agenttype_2c_20spatialagentbase_3c_20agenttype_2c_20api_3a_3amodel_3a_3agridcell_2c_20gridagent_3c_20agenttype_2c_20api_3a_3amodel_3a_3agridcell_2c_20agenttype_20_3e_20_3e_20_3e_810'', ''AgentBase&lt; AgentType, SpatialAgentBase&lt; AgentType, api::model::GridCell, GridAgent&lt; AgentType, api::model::GridCell, AgentType &gt; &gt; &gt;'', [(''../classfpmas_1_1model_1_1AgentBase.html'', 1, ''fpmas::model'')]),
      (''agentbase_3c_20agenttype_2c_20spatialagentbase_3c_20agenttype_2c_20celltype_2c_20agenttype_20_3e_20_3e_811'', ''AgentBase&lt; AgentType, SpatialAgentBase&lt; AgentType, CellType, AgentType &gt; &gt;'', [(''../classfpmas_1_1model_1_1AgentBase.html'', 1, ''fpmas::model'')]),
      (''agentbase_3c_20celltype_2c_20celltype_20_3e_812'', ''AgentBase&lt; CellType, CellType &gt;'', [(''../classfpmas_1_1model_1_1AgentBase.html'', 1, ''fpmas::model'')]),
      (''agentbase_3c_20exampleagent_20_3e_813'', ''AgentBase&lt; ExampleAgent &gt;'', [(''../classfpmas_1_1model_1_1AgentBase.html'', 1, ''fpmas::model'')]),
      (''agentbehaviortask_814'', ''AgentBehaviorTask'', [(''../classfpmas_1_1model_1_1detail_1_1AgentBehaviorTask.html'', 1, ''fpmas::model::detail'')]),
      (''agentgroup_815'', ''AgentGroup'', [(''../classfpmas_1_1api_1_1model_1_1AgentGroup.html'', 1, ''fpmas::api::model::AgentGroup''),
        (''../classfpmas_1_1model_1_1detail_1_1AgentGroup.html'', 1, ''fpmas::model::detail::AgentGroup'')]),
      (''agentgroupbase_816'', ''AgentGroupBase'', [(''../classfpmas_1_1model_1_1detail_1_1AgentGroupBase.html'', 1, ''fpmas::model::detail'')]),
      (''agentnodebuilder_817'', ''AgentNodeBuilder'', [(''../classfpmas_1_1model_1_1AgentNodeBuilder.html'', 1, ''fpmas::model'')]),
      (''agentptr_818'', ''AgentPtr'', [(''../classfpmas_1_1api_1_1model_1_1AgentPtr.html'', 1, ''fpmas::api::model'')]),
      (''agentptrserializer_819'', ''AgentPtrSerializer'', [(''../structfpmas_1_1model_1_1AgentPtrSerializer.html'', 1, ''fpmas::model'')]),
      (''agentptrserializer_3c_20jsontype_2c_20void_20_3e_820'', ''AgentPtrSerializer&lt; JsonType, void &gt;'', [(''../structfpmas_1_1model_1_1AgentPtrSerializer_3_01JsonType_00_01void_01_4.html'', 1, ''fpmas::model'')]),
      (''agenttask_821'', ''AgentTask'', [(''../classfpmas_1_1api_1_1model_1_1AgentTask.html'', 1, ''fpmas::api::model::AgentTask''),
        (''../classfpmas_1_1model_1_1detail_1_1AgentTask.html'', 1, ''fpmas::model::detail::AgentTask'')]),
      (''agenttaskbase_822'', ''AgentTaskBase'', [(''../classfpmas_1_1model_1_1detail_1_1AgentTaskBase.html'', 1, ''fpmas::model::detail'')]),
      (''all_823'', ''All'', [(''../classfpmas_1_1io_1_1Local_1_1All.html'', 1, ''fpmas::io::Local&lt; T &gt;::All''),
        (''../classfpmas_1_1io_1_1Reduce_1_1All.html'', 1, ''fpmas::io::Reduce&lt; T, BinaryOp, Mpi &gt;::All'')]),
      (''autobreakpoint_824'', ''AutoBreakpoint'', [(''../classfpmas_1_1model_1_1AutoBreakpoint.html'', 1, ''fpmas::model'')])]"

definition classes_1 :: "raw_entry list" where
  "classes_1 = [
      (''badidexception_825'', ''BadIdException'', [(''../classfpmas_1_1exceptions_1_1BadIdException.html'', 1, ''fpmas::exceptions'')]),
      (''badtypeexception_826'', ''BadTypeException'', [(''../classfpmas_1_1exceptions_1_1BadTypeException.html'', 1, ''fpmas::exceptions'')]),
      (''behavior_827'', ''Behavior'', [(''../classfpmas_1_1api_1_1model_1_1Behavior.html'', 1, ''fpmas::api::model::Behavior''),
        (''../classfpmas_1_1model_1_1Behavior.html'', 1, ''fpmas::model::Behavior&lt; AgentType &gt;'')]),
      (''behavior_3c_20fpmas_3a_3aapi_3a_3amodel_3a_3acellbehavior_20_3e_828'', ''Behavior&lt; fpmas::api::model::CellBehavior &gt;'', [(''../classfpmas_1_1model_1_1Behavior.html'', 1, ''fpmas::model'')]),
      (''behavior_3c_20fpmas_3a_3aapi_3a_3amodel_3a_3aspatialagentbehavior_20_3e_829'', ''Behavior&lt; fpmas::api::model::SpatialAgentBehavior &gt;'', [(''../classfpmas_1_1model_1_1Behavior.html'', 1, ''fpmas::model'')]),
      (''behaviorwithargs_830'', ''BehaviorWithArgs'', [(''../classfpmas_1_1model_1_1BehaviorWithArgs.html'', 1, ''fpmas::model'')]),
      (''behaviorwithargs_3c_20fpmas_3a_3aapi_3a_3amodel_3a_3acellbehavior_2c_20fpmas_3a_3aapi_3a_3amodel_3a_3aagentgroup_20_26_20_3e_831'', ''BehaviorWithArgs&lt; fpmas::api::model::CellBehavior, fpmas::api::model::AgentGroup &amp; &gt;'', [(''../classfpmas_1_1model_1_1BehaviorWithArgs.html'', 1, ''fpmas::model'')]),
      (''bipartitegraphbuilder_832'', ''BipartiteGraphBuilder'', [(''../classfpmas_1_1graph_1_1BipartiteGraphBuilder.html'', 1, ''fpmas::graph'')]),
      (''breakpoint_833'', ''Breakpoint'', [(''../classfpmas_1_1api_1_1io_1_1Breakpoint.html'', 1, ''fpmas::api::io::Breakpoint&lt; T &gt;''),
        (''../classfpmas_1_1io_1_1Breakpoint.html'', 1, ''fpmas::io::Breakpoint&lt; T &gt;'')]),
      (''breakpoint_3c_20fpmas_3a_3aapi_3a_3amodel_3a_3amodel_20_3e_834'', ''Breakpoint&lt; fpmas::api::model::Model &gt;'', [(''../classfpmas_1_1api_1_1io_1_1Breakpoint.html'', 1, ''fpmas::api::io'')])]"

definition classes_2 :: "raw_entry list" where
  "classes_2 = [
      (''callback_835'', ''Callback'', [(''../classfpmas_1_1api_1_1utils_1_1Callback.html'', 1, ''fpmas::api::utils'')]),
      (''callback_3c_20agentnode_20_2a_20_3e_836'', ''Callback&lt; AgentNode * &gt;'', [(''../classfpmas_1_1api_1_1utils_1_1Callback.html'', 1, ''fpmas::api::utils'')]),
      (''callback_3c_20args_2e_2e_2e_20_3e_837'', ''Callback&lt; Args... &gt;'', [(''../classfpmas_1_1api_1_1utils_1_1Callback.html'', 1, ''fpmas::api::utils'')]),
      (''callback_3c_20nodetype_20_2a_20_3e_838'', ''Callback&lt; NodeType * &gt;'', [(''../classfpmas_1_1api_1_1utils_1_1Callback.html'', 1, ''fpmas::api::utils'')]),
      (''cell_839'', ''Cell'', [(''../classfpmas_1_1api_1_1model_1_1Cell.html'', 1, ''fpmas::api::model::Cell''),
        (''../classfpmas_1_1model_1_1Cell.html'', 1, ''fpmas::model::Cell&lt; CellType, TypeIdBase &gt;'')]),
      (''cell_3c_20graphcelltype_2c_20graphcellbase_3c_20graphcelltype_2c_20graphcelltype_20_3e_20_3e_840'', ''Cell&lt; GraphCellType, GraphCellBase&lt; GraphCellType, GraphCellType &gt; &gt;'', [(''../classfpmas_1_1model_1_1Cell.html'', 1, ''fpmas::model'')]),
      (''cell_3c_20gridcelltype_2c_20gridcellbase_3c_20gridcelltype_2c_20gridcelltype_20_3e_20_3e_841'', ''Cell&lt; GridCellType, GridCellBase&lt; GridCellType, GridCellType &gt; &gt;'', [(''../classfpmas_1_1model_1_1Cell.html'', 1, ''fpmas::model'')]),
      (''cellbase_842'', ''CellBase'', [(''../classfpmas_1_1model_1_1CellBase.html'', 1, ''fpmas::model'')]),
      (''cellbehavior_843'', ''CellBehavior'', [(''../classfpmas_1_1api_1_1model_1_1CellBehavior.html'', 1, ''fpmas::api::model'')]),
      (''cellnetworkbuilder_844'', ''CellNetworkBuilder'', [(''../classfpmas_1_1api_1_1model_1_1CellNetworkBuilder.html'', 1, ''fpmas::api::model'')]),
      (''cellnetworkbuilder_3c_20api_3a_3amodel_3a_3agridcell_20_3e_845'', ''CellNetworkBuilder&lt; api::model::GridCell &gt;'', [(''../classfpmas_1_1api_1_1model_1_1CellNetworkBuilder.html'', 1, ''fpmas::api::model'')]),
      (''chebyshevdistance_846'', ''ChebyshevDistance'', [(''../classfpmas_1_1model_1_1ChebyshevDistance.html'', 1, ''fpmas::model'')]),
      (''clusteredgraphbuilder_847'', ''ClusteredGraphBuilder'', [(''../classfpmas_1_1graph_1_1ClusteredGraphBuilder.html'', 1, ''fpmas::graph'')]),
      (''concat_848'', ''Concat'', [(''../structfpmas_1_1utils_1_1Concat.html'', 1, ''fpmas::utils'')]),
      (''constrainedgridagentmapping_849'', ''ConstrainedGridAgentMapping'', [(''../classfpmas_1_1model_1_1ConstrainedGridAgentMapping.html'', 1, ''fpmas::model'')]),
      (''csvoutput_850'', ''CsvOutput'', [(''../classfpmas_1_1io_1_1CsvOutput.html'', 1, ''fpmas::io'')]),
      (''csvoutputbase_851'', ''CsvOutputBase'', [(''../classfpmas_1_1io_1_1CsvOutputBase.html'', 1, ''fpmas::io'')]),
      (''csvoutputbase_3c_20datafield_2e_2e_2e_20_3e_852'', ''CsvOutputBase&lt; DataField... &gt;'', [(''../classfpmas_1_1io_1_1CsvOutputBase.html'', 1, ''fpmas::io'')]),
      (''csvoutputbase_3c_20datafieldoperation_3a_3atype_2e_2e_2e_20_3e_853'', ''CsvOutputBase&lt; DataFieldOperation::Type... &gt;'', [(''../classfpmas_1_1io_1_1CsvOutputBase.html'', 1, ''fpmas::io'')]),
      (''csvserial_854'', ''CsvSerial'', [(''../structfpmas_1_1io_1_1CsvSerial.html'', 1, ''fpmas::io'')]),
      (''csvserial_3c_20std_3a_3achrono_3a_3aduration_3c_20rep_2c_20ratio_20_3e_20_3e_855'', ''CsvSerial&lt; std::chrono::duration&lt; Rep, Ratio &gt; &gt;'', [(''../structfpmas_1_1io_1_1CsvSerial_3_01std_1_1chrono_1_1duration_3_01Rep_00_01Ratio_01_4_01_4.html'', 1, ''fpmas::io'')])]"

definition classes_3 :: "raw_entry list" where
  "classes_3 = [
      (''datapack_856'', ''DataPack'', [(''../classfpmas_1_1api_1_1communication_1_1DataPack.html'', 1, ''fpmas::api::communication'')]),
      (''datasync_857'', ''DataSync'', [(''../classfpmas_1_1api_1_1synchro_1_1DataSync.html'', 1, ''fpmas::api::synchro'')]),
      (''dataupdatepack_858'', ''DataUpdatePack'', [(''../structfpmas_1_1synchro_1_1DataUpdatePack.html'', 1, ''fpmas::synchro'')]),
      (''defaultbehavior_859'', ''DefaultBehavior'', [(''../classfpmas_1_1model_1_1DefaultBehavior.html'', 1, ''fpmas::model'')]),
      (''defaultmodel_860'', ''DefaultModel'', [(''../classfpmas_1_1model_1_1detail_1_1DefaultModel.html'', 1, ''fpmas::model::detail'')]),
      (''defaultmodelconfig_861'', ''DefaultModelConfig'', [(''../classfpmas_1_1model_1_1detail_1_1DefaultModelConfig.html'', 1, ''fpmas::model::detail'')]),
      (''defaultspatialagentfactory_862'', ''DefaultSpatialAgentFactory'', [(''../classfpmas_1_1model_1_1DefaultSpatialAgentFactory.html'', 1, ''fpmas::model'')]),
      (''discretepoint_863'', ''DiscretePoint'', [(''../structfpmas_1_1api_1_1model_1_1DiscretePoint.html'', 1, ''fpmas::api::model'')]),
      (''distancecomparator_864'', ''DistanceComparator'', [(''../classfpmas_1_1graph_1_1detail_1_1DistanceComparator.html'', 1, ''fpmas::graph::detail'')]),
      (''distributedagentnodebuilder_865'', ''DistributedAgentNodeBuilder'', [(''../classfpmas_1_1model_1_1DistributedAgentNodeBuilder.html'', 1, ''fpmas::model'')]),
      (''distributedclusteredgraphbuilder_866'', ''DistributedClusteredGraphBuilder'', [(''../classfpmas_1_1graph_1_1DistributedClusteredGraphBuilder.html'', 1, ''fpmas::graph'')]),
      (''distributedcsvfield_867'', ''DistributedCsvField'', [(''../structfpmas_1_1io_1_1DistributedCsvField.html'', 1, ''fpmas::io'')]),
      (''distributedcsvoutput_868'', ''DistributedCsvOutput'', [(''../classfpmas_1_1io_1_1DistributedCsvOutput.html'', 1, ''fpmas::io'')]),
      (''distributededge_869'', ''DistributedEdge'', [(''../classfpmas_1_1api_1_1graph_1_1DistributedEdge.html'', 1, ''fpmas::api::graph::DistributedEdge&lt; T &gt;''),
        (''../classfpmas_1_1graph_1_1DistributedEdge.html'', 1, ''fpmas::graph::DistributedEdge&lt; T &gt;'')]),
      (''distributedgenerator_870'', ''DistributedGenerator'', [(''../classfpmas_1_1random_1_1DistributedGenerator.html'', 1, ''fpmas::random'')]),
      (''distributedgenerator_3c_20random_5fdevice_20_3e_871'', ''DistributedGenerator&lt; random_device &gt;'', [(''../classfpmas_1_1random_1_1DistributedGenerator_3_01random__device_01_4.html'', 1, ''fpmas::random'')]),
      (''distributedgraph_872'', ''DistributedGraph'', [(''../classfpmas_1_1api_1_1graph_1_1DistributedGraph.html'', 1, ''fpmas::api::graph::DistributedGraph&lt; T &gt;''),
        (''../classfpmas_1_1graph_1_1detail_1_1DistributedGraph.html'', 1, ''fpmas::graph::detail::DistributedGraph&lt; DIST_GRAPH_PARAMS &gt;'')]),
      (''distributedgraph_3c_20dist_5fgraph_5fparams_5fspec_20_3e_873'', ''DistributedGraph&lt; DIST_GRAPH_PARAMS_SPEC &gt;'', [(''../classfpmas_1_1graph_1_1detail_1_1DistributedGraph.html'', 1, ''fpmas::graph::detail'')]),
      (''distributedgraph_3c_20syncmode_20_3e_874'', ''DistributedGraph&lt; SyncMode &gt;'', [(''../classfpmas_1_1graph_1_1detail_1_1DistributedGraph.html'', 1, ''fpmas::graph::detail'')]),
      (''distributedgraphbuilder_875'', ''DistributedGraphBuilder'', [(''../classfpmas_1_1api_1_1graph_1_1DistributedGraphBuilder.html'', 1, ''fpmas::api::graph'')]),
      (''distributedid_876'', ''DistributedId'', [(''../classfpmas_1_1api_1_1graph_1_1DistributedId.html'', 1, ''fpmas::api::graph'')]),
      (''distributedmovealgorithm_877'', ''DistributedMoveAlgorithm'', [(''../classfpmas_1_1api_1_1model_1_1DistributedMoveAlgorithm.html'', 1, ''fpmas::api::model::DistributedMoveAlgorithm&lt; CellType &gt;''),
        (''../classfpmas_1_1model_1_1DistributedMoveAlgorithm.html'', 1, ''fpmas::model::DistributedMoveAlgorithm&lt; CellType &gt;'')]),
      (''distributednode_878'', ''DistributedNode'', [(''../classfpmas_1_1api_1_1graph_1_1DistributedNode.html'', 1, ''fpmas::api::graph::DistributedNode&lt; T &gt;''),
        (''../classfpmas_1_1graph_1_1DistributedNode.html'', 1, ''fpmas::graph::DistributedNode&lt; T &gt;'')]),
      (''distributednodebuilder_879'', ''DistributedNodeBuilder'', [(''../classfpmas_1_1api_1_1graph_1_1DistributedNodeBuilder.html'', 1, ''fpmas::api::graph::DistributedNodeBuilder&lt; T &gt;''),
        (''../classfpmas_1_1graph_1_1DistributedNodeBuilder.html'', 1, ''fpmas::graph::DistributedNodeBuilder&lt; T &gt;'')]),
      (''distributednodebuilder_3c_20agentptr_20_3e_880'', ''DistributedNodeBuilder&lt; AgentPtr &gt;'', [(''../classfpmas_1_1graph_1_1DistributedNodeBuilder.html'', 1, ''fpmas::graph'')]),
      (''distributeduniformgraphbuilder_881'', ''DistributedUniformGraphBuilder'', [(''../classfpmas_1_1graph_1_1DistributedUniformGraphBuilder.html'', 1, ''fpmas::graph'')]),
      (''distribution_882'', ''Distribution'', [(''../classfpmas_1_1api_1_1random_1_1Distribution.html'', 1, ''fpmas::api::random::Distribution&lt; T &gt;''),
        (''../classfpmas_1_1random_1_1Distribution.html'', 1, ''fpmas::random::Distribution&lt; Distribution_t &gt;'')]),
      (''distribution_3c_20distribution_5ft_3a_3aresult_5ftype_20_3e_883'', ''Distribution&lt; Distribution_t::result_type &gt;'', [(''../classfpmas_1_1api_1_1random_1_1Distribution.html'', 1, ''fpmas::api::random'')]),
      (''distribution_3c_20double_20_3e_884'', ''Distribution&lt; double &gt;'', [(''../classfpmas_1_1random_1_1Distribution.html'', 1, ''fpmas::random'')]),
      (''distribution_3c_20int_20_3e_885'', ''Distribution&lt; int &gt;'', [(''../classfpmas_1_1random_1_1Distribution.html'', 1, ''fpmas::random'')]),
      (''dynamicendcondition_886'', ''DynamicEndCondition'', [(''../classfpmas_1_1model_1_1DynamicEndCondition.html'', 1, ''fpmas::model'')]),
      (''dynamicendcondition_3c_20api_3a_3amodel_3a_3acell_20_3e_887'', ''DynamicEndCondition&lt; api::model::Cell &gt;'', [(''../classfpmas_1_1model_1_1DynamicEndCondition.html'', 1, ''fpmas::model'')]),
      (''dynamicfileoutput_888'', ''DynamicFileOutput'', [(''../classfpmas_1_1io_1_1DynamicFileOutput.html'', 1, ''fpmas::io'')])]"

definition classes_4 :: "raw_entry list" where
  "classes_4 = [
      (''edge_889'', ''Edge'', [(''../classfpmas_1_1api_1_1graph_1_1Edge.html'', 1, ''fpmas::api::graph::Edge&lt; _IdType, _NodeType &gt;''),
        (''../classfpmas_1_1graph_1_1Edge.html'', 1, ''fpmas::graph::Edge&lt; _IdType, _NodeType &gt;'')]),
      (''edge_3c_20distributedid_2c_20api_3a_3agraph_3a_3adistributednode_3c_20t_20_3e_20_3e_890'', ''Edge&lt; DistributedId, api::graph::DistributedNode&lt; T &gt; &gt;'', [(''../classfpmas_1_1graph_1_1Edge.html'', 1, ''fpmas::graph'')]),
      (''edge_3c_20distributedid_2c_20distributednode_3c_20t_20_3e_20_3e_891'', ''Edge&lt; DistributedId, DistributedNode&lt; T &gt; &gt;'', [(''../classfpmas_1_1api_1_1graph_1_1Edge.html'', 1, ''fpmas::api::graph'')]),
      (''endcondition_892'', ''EndCondition'', [(''../classfpmas_1_1api_1_1model_1_1EndCondition.html'', 1, ''fpmas::api::model'')]),
      (''epoch_893'', ''Epoch'', [(''../classfpmas_1_1api_1_1scheduler_1_1Epoch.html'', 1, ''fpmas::api::scheduler::Epoch''),
        (''../classfpmas_1_1scheduler_1_1Epoch.html'', 1, ''fpmas::scheduler::Epoch'')]),
      (''eraseagentnodecallback_894'', ''EraseAgentNodeCallback'', [(''../classfpmas_1_1model_1_1detail_1_1EraseAgentNodeCallback.html'', 1, ''fpmas::model::detail'')])]"

definition classes_5 :: "raw_entry list" where
  "classes_5 = [
      (''fileoutput_895'', ''FileOutput'', [(''../classfpmas_1_1io_1_1FileOutput.html'', 1, ''fpmas::io'')]),
      (''fixedverticesloadbalancing_896'', ''FixedVerticesLoadBalancing'', [(''../classfpmas_1_1api_1_1graph_1_1FixedVerticesLoadBalancing.html'', 1, ''fpmas::api::graph'')]),
      (''fixedverticesloadbalancing_3c_20agentptr_20_3e_897'', ''FixedVerticesLoadBalancing&lt; AgentPtr &gt;'', [(''../classfpmas_1_1api_1_1graph_1_1FixedVerticesLoadBalancing.html'', 1, ''fpmas::api::graph'')])]"

definition classes_6 :: "raw_entry list" where
  "classes_6 = [
      (''generator_898'', ''Generator'', [(''../classfpmas_1_1api_1_1random_1_1Generator.html'', 1, ''fpmas::api::random::Generator&lt; T &gt;''),
        (''../classfpmas_1_1random_1_1Generator.html'', 1, ''fpmas::random::Generator&lt; Generator_t &gt;'')]),
      (''generator_3c_20generator_5ft_3a_3aresult_5ftype_20_3e_899'', ''Generator&lt; Generator_t::result_type &gt;'', [(''../classfpmas_1_1api_1_1random_1_1Generator.html'', 1, ''fpmas::api::random'')]),
      (''ghostdatasync_900'', ''GhostDataSync'', [(''../classfpmas_1_1synchro_1_1ghost_1_1GhostDataSync.html'', 1, ''fpmas::synchro::ghost'')]),
      (''ghostmode_901'', ''GhostMode'', [(''../classfpmas_1_1synchro_1_1ghost_1_1GhostMode.html'', 1, ''fpmas::synchro::ghost'')]),
      (''ghostsynclinker_902'', ''GhostSyncLinker'', [(''../classfpmas_1_1synchro_1_1ghost_1_1GhostSyncLinker.html'', 1, ''fpmas::synchro::ghost'')]),
      (''graph_903'', ''Graph'', [(''../classfpmas_1_1api_1_1graph_1_1Graph.html'', 1, ''fpmas::api::graph::Graph&lt; NodeType, EdgeType &gt;''),
        (''../classfpmas_1_1graph_1_1Graph.html'', 1, ''fpmas::graph::Graph&lt; NodeType, EdgeType &gt;'')]),
      (''graph_3c_20api_3a_3agraph_3a_3adistributednode_3c_20t_20_3e_2c_20api_3a_3agraph_3a_3adistributededge_3c_20t_20_3e_20_3e_904'', ''Graph&lt; api::graph::DistributedNode&lt; T &gt;, api::graph::DistributedEdge&lt; T &gt; &gt;'', [(''../classfpmas_1_1graph_1_1Graph.html'', 1, ''fpmas::graph'')]),
      (''graph_3c_20distributednode_3c_20t_20_3e_2c_20distributededge_3c_20t_20_3e_20_3e_905'', ''Graph&lt; DistributedNode&lt; T &gt;, DistributedEdge&lt; T &gt; &gt;'', [(''../classfpmas_1_1api_1_1graph_1_1Graph.html'', 1, ''fpmas::api::graph'')]),
      (''graphbuilder_906'', ''GraphBuilder'', [(''../classfpmas_1_1api_1_1graph_1_1GraphBuilder.html'', 1, ''fpmas::api::graph'')]),
      (''graphcell_907'', ''GraphCell'', [(''../structfpmas_1_1model_1_1GraphCell.html'', 1, ''fpmas::model'')]),
      (''graphcellbase_908'', ''GraphCellBase'', [(''../classfpmas_1_1model_1_1GraphCellBase.html'', 1, ''fpmas::model'')]),
      (''graphcellbase_3c_20graphcell_20_3e_909'', ''GraphCellBase&lt; GraphCell &gt;'', [(''../classfpmas_1_1model_1_1GraphCellBase.html'', 1, ''fpmas::model'')]),
      (''graphrange_910'', ''GraphRange'', [(''../classfpmas_1_1model_1_1GraphRange.html'', 1, ''fpmas::model'')]),
      (''gridagent_911'', ''GridAgent'', [(''../classfpmas_1_1api_1_1model_1_1GridAgent.html'', 1, ''fpmas::api::model::GridAgent&lt; GridCellType &gt;''),
        (''../classfpmas_1_1model_1_1GridAgent.html'', 1, ''fpmas::model::GridAgent&lt; AgentType, GridCellType, Derived &gt;'')]),
      (''gridagent_3c_20api_3a_3amodel_3a_3agridcell_20_3e_912'', ''GridAgent&lt; api::model::GridCell &gt;'', [(''../classfpmas_1_1api_1_1model_1_1GridAgent.html'', 1, ''fpmas::api::model'')]),
      (''gridcell_913'', ''GridCell'', [(''../classfpmas_1_1api_1_1model_1_1GridCell.html'', 1, ''fpmas::api::model::GridCell''),
        (''../classfpmas_1_1model_1_1GridCell.html'', 1, ''fpmas::model::GridCell'')]),
      (''gridcellbase_914'', ''GridCellBase'', [(''../classfpmas_1_1model_1_1GridCellBase.html'', 1, ''fpmas::model'')]),
      (''gridcellbase_3c_20gridcell_20_3e_915'', ''GridCellBase&lt; GridCell &gt;'', [(''../classfpmas_1_1model_1_1GridCellBase.html'', 1, ''fpmas::model'')]),
      (''gridcellfactory_916'', ''GridCellFactory'', [(''../classfpmas_1_1api_1_1model_1_1GridCellFactory.html'', 1, ''fpmas::api::model::GridCellFactory&lt; CellType &gt;''),
        (''../classfpmas_1_1model_1_1GridCellFactory.html'', 1, ''fpmas::model::GridCellFactory&lt; GridCellType &gt;'')]),
      (''gridcellfactory_3c_20api_3a_3amodel_3a_3agridcell_20_3e_917'', ''GridCellFactory&lt; api::model::GridCell &gt;'', [(''../classfpmas_1_1model_1_1GridCellFactory_3_01api_1_1model_1_1GridCell_01_4.html'', 1, ''fpmas::model::GridCellFactory&lt; api::model::GridCell &gt;''),
        (''../classfpmas_1_1api_1_1model_1_1GridCellFactory.html'', 1, ''fpmas::api::model::GridCellFactory&lt; api::model::GridCell &gt;'')]),
      (''gridcellfactory_3c_20gridcell_20_3e_918'', ''GridCellFactory&lt; GridCell &gt;'', [(''../classfpmas_1_1api_1_1model_1_1GridCellFactory.html'', 1, ''fpmas::api::model'')]),
      (''gridconfig_919'', ''GridConfig'', [(''../structfpmas_1_1model_1_1GridConfig.html'', 1, ''fpmas::model'')]),
      (''gridrange_920'', ''GridRange'', [(''../classfpmas_1_1model_1_1GridRange.html'', 1, ''fpmas::model'')]),
      (''gridrangeconfig_921'', ''GridRangeConfig'', [(''../structfpmas_1_1model_1_1GridRangeConfig.html'', 1, ''fpmas::model'')]),
      (''guard_922'', ''Guard'', [(''../classfpmas_1_1synchro_1_1Guard.html'', 1, ''fpmas::synchro'')])]"

definition classes_7 :: "raw_entry list" where
  "classes_7 = [
      (''harddatasync_923'', ''HardDataSync'', [(''../classfpmas_1_1synchro_1_1hard_1_1HardDataSync.html'', 1, ''fpmas::synchro::hard'')]),
      (''hardsynclinker_924'', ''HardSyncLinker'', [(''../classfpmas_1_1synchro_1_1hard_1_1api_1_1HardSyncLinker.html'', 1, ''fpmas::synchro::hard::api::HardSyncLinker&lt; T &gt;''),
        (''../classfpmas_1_1synchro_1_1hard_1_1HardSyncLinker.html'', 1, ''fpmas::synchro::hard::HardSyncLinker&lt; T &gt;'')]),
      (''hardsyncmode_925'', ''HardSyncMode'', [(''../classfpmas_1_1synchro_1_1hard_1_1HardSyncMode.html'', 1, ''fpmas::synchro::hard'')]),
      (''hardsyncmutex_926'', ''HardSyncMutex'', [(''../classfpmas_1_1synchro_1_1hard_1_1api_1_1HardSyncMutex.html'', 1, ''fpmas::synchro::hard::api::HardSyncMutex&lt; T &gt;''),
        (''../classfpmas_1_1synchro_1_1hard_1_1HardSyncMutex.html'', 1, ''fpmas::synchro::hard::HardSyncMutex&lt; T &gt;'')]),
      (''hash_3c_20distributedid_20_3e_927'', ''hash&lt; DistributedId &gt;'', [(''../structstd_1_1hash_3_01DistributedId_01_4.html'', 1, ''std'')]),
      (''hash_3c_20fpmas_3a_3amodel_3a_3adiscretepoint_20_3e_928'', ''hash&lt; fpmas::model::DiscretePoint &gt;'', [(''../structstd_1_1hash_3_01fpmas_1_1model_1_1DiscretePoint_01_4.html'', 1, ''std'')])]"

definition classes_8 :: "raw_entry list" where
  "classes_8 = [
      (''id_929'', ''Id'', [(''../classfpmas_1_1api_1_1graph_1_1Id.html'', 1, ''fpmas::api::graph'')]),
      (''idhash_930'', ''IdHash'', [(''../structfpmas_1_1api_1_1graph_1_1IdHash.html'', 1, ''fpmas::api::graph'')]),
      (''idlebehavior_931'', ''IdleBehavior'', [(''../classfpmas_1_1model_1_1IdleBehavior.html'', 1, ''fpmas::model'')]),
      (''insertagentnodecallback_932'', ''InsertAgentNodeCallback'', [(''../classfpmas_1_1model_1_1detail_1_1InsertAgentNodeCallback.html'', 1, ''fpmas::model::detail'')])]"

definition classes_9 :: "raw_entry list" where
  "classes_9 = [
      (''job_933'', ''Job'', [(''../classfpmas_1_1api_1_1scheduler_1_1Job.html'', 1, ''fpmas::api::scheduler::Job''),
        (''../classfpmas_1_1scheduler_1_1Job.html'', 1, ''fpmas::scheduler::Job'')]),
      (''jsonoutput_934'', ''JsonOutput'', [(''../classfpmas_1_1io_1_1JsonOutput.html'', 1, ''fpmas::io'')])]"

definition classes_a :: "raw_entry list" where
  "classes_a = [
      (''lambdatask_935'', ''LambdaTask'', [(''../classfpmas_1_1scheduler_1_1detail_1_1LambdaTask.html'', 1, ''fpmas::scheduler::detail::LambdaTask''),
        (''../classfpmas_1_1scheduler_1_1LambdaTask.html'', 1, ''fpmas::scheduler::LambdaTask&lt; T &gt;'')]),
      (''light_5fserializer_936'', ''light_serializer'', [(''../structfpmas_1_1io_1_1json_1_1light__serializer.html'', 1, ''fpmas::io::json'')]),
      (''light_5fserializer_3c_20fpmas_3a_3aapi_3a_3amodel_3a_3aagentptr_20_3e_937'', ''light_serializer&lt; fpmas::api::model::AgentPtr &gt;'', [(''../structfpmas_1_1io_1_1json_1_1light__serializer_3_01fpmas_1_1api_1_1model_1_1AgentPtr_01_4.html'', 1, ''fpmas::io::json'')]),
      (''light_5fserializer_3c_20fpmas_3a_3aapi_3a_3autils_3a_3aptrwrapper_3c_20agenttype_20_3e_2c_20typename_20std_3a_3aenable_5fif_3c_20std_3a_3ais_5fbase_5fof_3c_20fpmas_3a_3aapi_3a_3amodel_3a_3aagent_2c_20agenttype_20_3e_3a_3avalue_20_26_26_21std_3a_3ais_5fdefault_5fconstructible_3c_20agenttype_20_3e_3a_3avalue_20_26_26std_3a_3ais_5fsame_3c_20agenttype_2c_20typename_20agenttype_3a_3afinalagenttype_20_3e_3a_3avalue_20_3e_3a_3atype_20_3e_938'', ''light_serializer&lt; fpmas::api::utils::PtrWrapper&lt; AgentType &gt;, typename std::enable_if&lt; std::is_base_of&lt; fpmas::api::model::Agent, AgentType &gt;::value &amp;&amp;!std::is_default_constructible&lt; AgentType &gt;::value &amp;&amp;std::is_same&lt; AgentType, typename AgentType::FinalAgentType &gt;::value &gt;::type &gt;'', [(''../structfpmas_1_1io_1_1json_1_1light__serializer_3_01fpmas_1_1api_1_1utils_1_1PtrWrapper_3_01Agent1166da05b8eb25f2bd231c13fb984d35.html'', 1, ''fpmas::io::json'')]),
      (''light_5fserializer_3c_20fpmas_3a_3aapi_3a_3autils_3a_3aptrwrapper_3c_20agenttype_20_3e_2c_20typename_20std_3a_3aenable_5fif_3c_20std_3a_3ais_5fbase_5fof_3c_20fpmas_3a_3aapi_3a_3amodel_3a_3aagent_2c_20agenttype_20_3e_3a_3avalue_20_26_26std_3a_3ais_5fdefault_5fconstructible_3c_20agenttype_20_3e_3a_3avalue_20_26_26std_3a_3ais_5fsame_3c_20agenttype_2c_20typename_20agenttype_3a_3afinalagenttype_20_3e_3a_3avalue_20_3e_3a_3atype_20_3e_939'', ''light_serializer&lt; fpmas::api::utils::PtrWrapper&lt; AgentType &gt;, typename std::enable_if&lt; std::is_base_of&lt; fpmas::api::model::Agent, AgentType &gt;::value &amp;&amp;std::is_default_constructible&lt; AgentType &gt;::value &amp;&amp;std::is_same&lt; AgentType, typename AgentType::FinalAgentType &gt;::value &gt;::type &gt;'', [(''../structfpmas_1_1io_1_1json_1_1light__serializer_3_01fpmas_1_1api_1_1utils_1_1PtrWrapper_3_01Agent897a43c8e174bcaded636be4611a9868.html'', 1, ''fpmas::io::json'')]),
      (''light_5fserializer_3c_20fpmas_3a_3aapi_3a_3autils_3a_3aptrwrapper_3c_20fpmas_3a_3amodel_3a_3agraphcellbase_3c_20agenttype_2c_20derived_20_3e_20_3e_20_3e_940'', ''light_serializer&lt; fpmas::api::utils::PtrWrapper&lt; fpmas::model::GraphCellBase&lt; AgentType, Derived &gt; &gt; &gt;'', [(''../structfpmas_1_1io_1_1json_1_1light__serializer_3_01fpmas_1_1api_1_1utils_1_1PtrWrapper_3_01fpmasa66c0aec42b8e119b4cc9e7da5cc5a4c.html'', 1, ''fpmas::io::json'')]),
      (''light_5fserializer_3c_20fpmas_3a_3aapi_3a_3autils_3a_3aptrwrapper_3c_20fpmas_3a_3amodel_3a_3agridagent_3c_20agenttype_2c_20celltype_2c_20derived_20_3e_20_3e_20_3e_941'', ''light_serializer&lt; fpmas::api::utils::PtrWrapper&lt; fpmas::model::GridAgent&lt; AgentType, CellType, Derived &gt; &gt; &gt;'', [(''../structfpmas_1_1io_1_1json_1_1light__serializer_3_01fpmas_1_1api_1_1utils_1_1PtrWrapper_3_01fpmas6514cec9ffaf9ddc3a05c9b72f5062b9.html'', 1, ''fpmas::io::json'')]),
      (''light_5fserializer_3c_20fpmas_3a_3aapi_3a_3autils_3a_3aptrwrapper_3c_20fpmas_3a_3amodel_3a_3agridcellbase_3c_20gridcelltype_2c_20derived_20_3e_20_3e_20_3e_942'', ''light_serializer&lt; fpmas::api::utils::PtrWrapper&lt; fpmas::model::GridCellBase&lt; GridCellType, Derived &gt; &gt; &gt;'', [(''../structfpmas_1_1io_1_1json_1_1light__serializer_3_01fpmas_1_1api_1_1utils_1_1PtrWrapper_3_01fpmas087459d4f5dfa9eac727b48e6313447e.html'', 1, ''fpmas::io::json'')]),
      (''light_5fserializer_3c_20fpmas_3a_3aapi_3a_3autils_3a_3aptrwrapper_3c_20fpmas_3a_3amodel_3a_3aspatialagentbase_3c_20agenttype_2c_20celltype_2c_20derived_20_3e_20_3e_20_3e_943'', ''light_serializer&lt; fpmas::api::utils::PtrWrapper&lt; fpmas::model::SpatialAgentBase&lt; AgentType, CellType, Derived &gt; &gt; &gt;'', [(''../structfpmas_1_1io_1_1json_1_1light__serializer_3_01fpmas_1_1api_1_1utils_1_1PtrWrapper_3_01fpmasc84e89e520a4a0cda5345fc83f0b8125.html'', 1, ''fpmas::io::json'')]),
      (''light_5fserializer_3c_20nodeptrwrapper_3c_20t_20_3e_20_3e_944'', ''light_serializer&lt; NodePtrWrapper&lt; T &gt; &gt;'', [(''../structfpmas_1_1io_1_1json_1_1light__serializer_3_01NodePtrWrapper_3_01T_01_4_01_4.html'', 1, ''fpmas::io::json'')]),
      (''light_5fserializer_3c_20t_2c_20typename_20std_3a_3aenable_5fif_3c_21std_3a_3ais_5fdefault_5fconstructible_3c_20t_20_3e_3a_3avalue_20_3e_3a_3atype_20_3e_945'', ''light_serializer&lt; T, typename std::enable_if&lt;!std::is_default_constructible&lt; T &gt;::value &gt;::type &gt;'', [(''../structfpmas_1_1io_1_1json_1_1light__serializer_3_01T_00_01typename_01std_1_1enable__if_3_9std_1_5b712814e422b4c73c9fd9f49be13323.html'', 1, ''fpmas::io::json'')]),
      (''linkclient_946'', ''LinkClient'', [(''../classfpmas_1_1synchro_1_1hard_1_1api_1_1LinkClient.html'', 1, ''fpmas::synchro::hard::api::LinkClient&lt; T &gt;''),
        (''../classfpmas_1_1synchro_1_1hard_1_1LinkClient.html'', 1, ''fpmas::synchro::hard::LinkClient&lt; T &gt;'')]),
      (''linkserver_947'', ''LinkServer'', [(''../classfpmas_1_1synchro_1_1hard_1_1api_1_1LinkServer.html'', 1, ''fpmas::synchro::hard::api::LinkServer''),
        (''../classfpmas_1_1synchro_1_1hard_1_1LinkServer.html'', 1, ''fpmas::synchro::hard::LinkServer&lt; T &gt;'')]),
      (''loadbalancing_948'', ''LoadBalancing'', [(''../classfpmas_1_1api_1_1graph_1_1LoadBalancing.html'', 1, ''fpmas::api::graph'')]),
      (''loadbalancing_3c_20agentptr_20_3e_949'', ''LoadBalancing&lt; AgentPtr &gt;'', [(''../classfpmas_1_1api_1_1graph_1_1LoadBalancing.html'', 1, ''fpmas::api::graph'')]),
      (''loadbalancingtask_950'', ''LoadBalancingTask'', [(''../classfpmas_1_1model_1_1detail_1_1LoadBalancingTask.html'', 1, ''fpmas::model::detail'')]),
      (''local_951'', ''Local'', [(''../structfpmas_1_1io_1_1Local.html'', 1, ''fpmas::io'')]),
      (''localizednode_952'', ''LocalizedNode'', [(''../structfpmas_1_1graph_1_1detail_1_1LocalizedNode.html'', 1, ''fpmas::graph::detail'')]),
      (''localizednodeview_953'', ''LocalizedNodeView'', [(''../structfpmas_1_1graph_1_1detail_1_1LocalizedNodeView.html'', 1, ''fpmas::graph::detail'')]),
      (''locationmanager_954'', ''LocationManager'', [(''../classfpmas_1_1api_1_1graph_1_1LocationManager.html'', 1, ''fpmas::api::graph::LocationManager&lt; T &gt;''),
        (''../classfpmas_1_1graph_1_1LocationManager.html'', 1, ''fpmas::graph::LocationManager&lt; T &gt;'')]),
      (''lockguard_955'', ''LockGuard'', [(''../classfpmas_1_1model_1_1LockGuard.html'', 1, ''fpmas::model::LockGuard''),
        (''../classfpmas_1_1synchro_1_1LockGuard.html'', 1, ''fpmas::synchro::LockGuard&lt; T &gt;'')]),
      (''lockguard_3c_20fpmas_3a_3aapi_3a_3amodel_3a_3aagentptr_20_3e_956'', ''LockGuard&lt; fpmas::api::model::AgentPtr &gt;'', [(''../classfpmas_1_1synchro_1_1LockGuard.html'', 1, ''fpmas::synchro'')])]"

definition classes_b :: "raw_entry list" where
  "classes_b = [
      (''manhattandistance_957'', ''ManhattanDistance'', [(''../classfpmas_1_1model_1_1ManhattanDistance.html'', 1, ''fpmas::model'')]),
      (''model_958'', ''Model'', [(''../classfpmas_1_1api_1_1model_1_1Model.html'', 1, ''fpmas::api::model::Model''),
        (''../classfpmas_1_1model_1_1detail_1_1Model.html'', 1, ''fpmas::model::detail::Model'')]),
      (''monitor_959'', ''Monitor'', [(''../classfpmas_1_1api_1_1utils_1_1perf_1_1Monitor.html'', 1, ''fpmas::api::utils::perf::Monitor''),
        (''../classfpmas_1_1utils_1_1perf_1_1Monitor.html'', 1, ''fpmas::utils::perf::Monitor'')]),
      (''moorerangeperimeter_960'', ''MooreRangePerimeter'', [(''../structfpmas_1_1model_1_1MooreRangePerimeter.html'', 1, ''fpmas::model'')]),
      (''moorerangeperimeter_3c_20vonneumanngrid_3c_20celltype_20_3e_20_3e_961'', ''MooreRangePerimeter&lt; VonNeumannGrid&lt; CellType &gt; &gt;'', [(''../structfpmas_1_1model_1_1MooreRangePerimeter_3_01VonNeumannGrid_3_01CellType_01_4_01_4.html'', 1, ''fpmas::model'')]),
      (''moveagentgroup_962'', ''MoveAgentGroup'', [(''../classfpmas_1_1api_1_1model_1_1MoveAgentGroup.html'', 1, ''fpmas::api::model::MoveAgentGroup&lt; CellType &gt;''),
        (''../classfpmas_1_1model_1_1MoveAgentGroup.html'', 1, ''fpmas::model::MoveAgentGroup&lt; CellType &gt;'')]),
      (''mpicommunicator_963'', ''MpiCommunicator'', [(''../classfpmas_1_1api_1_1communication_1_1MpiCommunicator.html'', 1, ''fpmas::api::communication::MpiCommunicator''),
        (''../classfpmas_1_1communication_1_1MpiCommunicator.html'', 1, ''fpmas::communication::MpiCommunicator'')]),
      (''mpicommunicatorbase_964'', ''MpiCommunicatorBase'', [(''../classfpmas_1_1communication_1_1MpiCommunicatorBase.html'', 1, ''fpmas::communication'')]),
      (''mpicommworld_965'', ''MpiCommWorld'', [(''../classfpmas_1_1communication_1_1MpiCommWorld.html'', 1, ''fpmas::communication'')]),
      (''mpidistributedid_966'', ''MpiDistributedId'', [(''../structfpmas_1_1api_1_1communication_1_1MpiDistributedId.html'', 1, ''fpmas::api::communication'')]),
      (''mutex_967'', ''Mutex'', [(''../classfpmas_1_1api_1_1synchro_1_1Mutex.html'', 1, ''fpmas::api::synchro'')]),
      (''mutexclient_968'', ''MutexClient'', [(''../classfpmas_1_1synchro_1_1hard_1_1api_1_1MutexClient.html'', 1, ''fpmas::synchro::hard::api::MutexClient&lt; T &gt;''),
        (''../classfpmas_1_1synchro_1_1hard_1_1MutexClient.html'', 1, ''fpmas::synchro::hard::MutexClient&lt; T &gt;'')]),
      (''mutexrequest_969'', ''MutexRequest'', [(''../structfpmas_1_1synchro_1_1hard_1_1api_1_1MutexRequest.html'', 1, ''fpmas::synchro::hard::api'')]),
      (''mutexserver_970'', ''MutexServer'', [(''../classfpmas_1_1synchro_1_1hard_1_1api_1_1MutexServer.html'', 1, ''fpmas::synchro::hard::api::MutexServer&lt; T &gt;''),
        (''../classfpmas_1_1synchro_1_1hard_1_1MutexServer.html'', 1, ''fpmas::synchro::hard::MutexServer&lt; T &gt;'')])]"

definition classes_c :: "raw_entry list" where
  "classes_c = [
      (''neighbor_971'', ''Neighbor'', [(''../classfpmas_1_1model_1_1Neighbor.html'', 1, ''fpmas::model'')]),
      (''neighbors_972'', ''Neighbors'', [(''../classfpmas_1_1model_1_1Neighbors.html'', 1, ''fpmas::model'')]),
      (''neighborsaccess_973'', ''NeighborsAccess'', [(''../classfpmas_1_1model_1_1NeighborsAccess.html'', 1, ''fpmas::model'')]),
      (''node_974'', ''Node'', [(''../classfpmas_1_1api_1_1graph_1_1Node.html'', 1, ''fpmas::api::graph::Node&lt; _IdType, _EdgeType &gt;''),
        (''../classfpmas_1_1graph_1_1Node.html'', 1, ''fpmas::graph::Node&lt; _IdType, _EdgeType &gt;'')]),
      (''node_3c_20distributedid_2c_20api_3a_3agraph_3a_3adistributededge_3c_20t_20_3e_20_3e_975'', ''Node&lt; DistributedId, api::graph::DistributedEdge&lt; T &gt; &gt;'', [(''../classfpmas_1_1graph_1_1Node.html'', 1, ''fpmas::graph'')]),
      (''node_3c_20distributedid_2c_20distributededge_3c_20t_20_3e_20_3e_976'', ''Node&lt; DistributedId, DistributedEdge&lt; T &gt; &gt;'', [(''../classfpmas_1_1api_1_1graph_1_1Node.html'', 1, ''fpmas::api::graph'')]),
      (''nodebuilder_977'', ''NodeBuilder'', [(''../classfpmas_1_1api_1_1graph_1_1NodeBuilder.html'', 1, ''fpmas::api::graph'')]),
      (''nodebuilder_3c_20agentptr_20_3e_978'', ''NodeBuilder&lt; AgentPtr &gt;'', [(''../classfpmas_1_1api_1_1graph_1_1NodeBuilder.html'', 1, ''fpmas::api::graph'')]),
      (''nodetask_979'', ''NodeTask'', [(''../classfpmas_1_1api_1_1scheduler_1_1NodeTask.html'', 1, ''fpmas::api::scheduler'')]),
      (''nodetask_3c_20agentptr_20_3e_980'', ''NodeTask&lt; AgentPtr &gt;'', [(''../classfpmas_1_1api_1_1scheduler_1_1NodeTask.html'', 1, ''fpmas::api::scheduler'')]),
      (''nodeupdatepack_981'', ''NodeUpdatePack'', [(''../structfpmas_1_1synchro_1_1NodeUpdatePack.html'', 1, ''fpmas::synchro'')])]"

definition classes_d :: "raw_entry list" where
  "classes_d = [
      (''outoffieldexception_982'', ''OutOfFieldException'', [(''../classfpmas_1_1api_1_1model_1_1OutOfFieldException.html'', 1, ''fpmas::api::model'')]),
      (''outofmobilityfieldexception_983'', ''OutOfMobilityFieldException'', [(''../classfpmas_1_1api_1_1model_1_1OutOfMobilityFieldException.html'', 1, ''fpmas::api::model'')]),
      (''output_984'', ''Output'', [(''../classfpmas_1_1api_1_1io_1_1Output.html'', 1, ''fpmas::api::io'')]),
      (''outputbase_985'', ''OutputBase'', [(''../classfpmas_1_1io_1_1OutputBase.html'', 1, ''fpmas::io'')]),
      (''outputstream_986'', ''OutputStream'', [(''../structfpmas_1_1api_1_1io_1_1OutputStream.html'', 1, ''fpmas::api::io'')]),
      (''outputtask_987'', ''OutputTask'', [(''../classfpmas_1_1io_1_1OutputTask.html'', 1, ''fpmas::io'')])]"

definition classes_e :: "raw_entry list" where
  "classes_e = [
      (''point_988'', ''Point'', [(''../structfpmas_1_1graph_1_1detail_1_1Point.html'', 1, ''fpmas::graph::detail'')]),
      (''pointhash_989'', ''PointHash'', [(''../structfpmas_1_1model_1_1PointHash.html'', 1, ''fpmas::model'')]),
      (''probe_990'', ''Probe'', [(''../classfpmas_1_1api_1_1utils_1_1perf_1_1Probe.html'', 1, ''fpmas::api::utils::perf::Probe''),
        (''../classfpmas_1_1utils_1_1perf_1_1Probe.html'', 1, ''fpmas::utils::perf::Probe'')]),
      (''ptrwrapper_991'', ''PtrWrapper'', [(''../classfpmas_1_1api_1_1utils_1_1PtrWrapper.html'', 1, ''fpmas::api::utils'')]),
      (''ptrwrapper_3c_20api_3a_3amodel_3a_3aagent_20_3e_992'', ''PtrWrapper&lt; api::model::Agent &gt;'', [(''../classfpmas_1_1api_1_1utils_1_1PtrWrapper.html'', 1, ''fpmas::api::utils'')])]"

definition classes_f :: "raw_entry list" where
  "classes_f = [
      (''randomgraphbuilder_993'', ''RandomGraphBuilder'', [(''../classfpmas_1_1graph_1_1RandomGraphBuilder.html'', 1, ''fpmas::graph'')]),
      (''randomgridagentmapping_994'', ''RandomGridAgentMapping'', [(''../classfpmas_1_1model_1_1RandomGridAgentMapping.html'', 1, ''fpmas::model'')]),
      (''randomloadbalancing_995'', ''RandomLoadBalancing'', [(''../classfpmas_1_1graph_1_1RandomLoadBalancing.html'', 1, ''fpmas::graph'')]),
      (''randomneighbors_996'', ''RandomNeighbors'', [(''../structfpmas_1_1model_1_1RandomNeighbors.html'', 1, ''fpmas::model'')]),
      (''range_997'', ''Range'', [(''../classfpmas_1_1api_1_1model_1_1Range.html'', 1, ''fpmas::api::model'')]),
      (''range_3c_20api_3a_3amodel_3a_3acell_20_3e_998'', ''Range&lt; api::model::Cell &gt;'', [(''../classfpmas_1_1api_1_1model_1_1Range.html'', 1, ''fpmas::api::model'')]),
      (''range_3c_20api_3a_3amodel_3a_3agridcell_20_3e_999'', ''Range&lt; api::model::GridCell &gt;'', [(''../classfpmas_1_1api_1_1model_1_1Range.html'', 1, ''fpmas::api::model'')]),
      (''range_3c_20graphcell_20_3e_1000'', ''Range&lt; GraphCell &gt;'', [(''../classfpmas_1_1api_1_1model_1_1Range.html'', 1, ''fpmas::api::model'')]),
      (''range_3c_20gridconfig_3a_3acelltype_20_3e_1001'', ''Range&lt; GridConfig::CellType &gt;'', [(''../classfpmas_1_1api_1_1model_1_1Range.html'', 1, ''fpmas::api::model'')]),
      (''reachablecell_1002'', ''ReachableCell'', [(''../classfpmas_1_1model_1_1ReachableCell.html'', 1, ''fpmas::model'')]),
      (''readguard_1003'', ''ReadGuard'', [(''../classfpmas_1_1model_1_1ReadGuard.html'', 1, ''fpmas::model::ReadGuard''),
        (''../classfpmas_1_1synchro_1_1ReadGuard.html'', 1, ''fpmas::synchro::ReadGuard&lt; T &gt;'')]),
      (''readguard_3c_20fpmas_3a_3aapi_3a_3amodel_3a_3aagentptr_20_3e_1004'', ''ReadGuard&lt; fpmas::api::model::AgentPtr &gt;'', [(''../classfpmas_1_1synchro_1_1ReadGuard.html'', 1, ''fpmas::synchro'')]),
      (''reduce_1005'', ''Reduce'', [(''../structfpmas_1_1io_1_1Reduce.html'', 1, ''fpmas::io'')]),
      (''request_1006'', ''Request'', [(''../structfpmas_1_1api_1_1communication_1_1Request.html'', 1, ''fpmas::api::communication'')]),
      (''runtime_1007'', ''Runtime'', [(''../classfpmas_1_1api_1_1runtime_1_1Runtime.html'', 1, ''fpmas::api::runtime::Runtime''),
        (''../classfpmas_1_1runtime_1_1Runtime.html'', 1, ''fpmas::runtime::Runtime'')])]"

definition classes_10 :: "raw_entry list" where
  "classes_10 = [
      (''scheduledloadbalancing_1008'', ''ScheduledLoadBalancing'', [(''../classfpmas_1_1graph_1_1ScheduledLoadBalancing.html'', 1, ''fpmas::graph'')]),
      (''scheduledloadbalancing_3c_20agentptr_20_3e_1009'', ''ScheduledLoadBalancing&lt; AgentPtr &gt;'', [(''../classfpmas_1_1graph_1_1ScheduledLoadBalancing.html'', 1, ''fpmas::graph'')]),
      (''scheduler_1010'', ''Scheduler'', [(''../classfpmas_1_1api_1_1scheduler_1_1Scheduler.html'', 1, ''fpmas::api::scheduler::Scheduler''),
        (''../classfpmas_1_1scheduler_1_1Scheduler.html'', 1, ''fpmas::scheduler::Scheduler'')]),
      (''server_1011'', ''Server'', [(''../classfpmas_1_1synchro_1_1hard_1_1api_1_1Server.html'', 1, ''fpmas::synchro::hard::api'')]),
      (''serverpack_1012'', ''ServerPack'', [(''../classfpmas_1_1synchro_1_1hard_1_1ServerPack.html'', 1, ''fpmas::synchro::hard'')]),
      (''setagentdistantcallback_1013'', ''SetAgentDistantCallback'', [(''../classfpmas_1_1model_1_1detail_1_1SetAgentDistantCallback.html'', 1, ''fpmas::model::detail'')]),
      (''setagentlocalcallback_1014'', ''SetAgentLocalCallback'', [(''../classfpmas_1_1model_1_1detail_1_1SetAgentLocalCallback.html'', 1, ''fpmas::model::detail'')]),
      (''sharedlockguard_1015'', ''SharedLockGuard'', [(''../classfpmas_1_1model_1_1SharedLockGuard.html'', 1, ''fpmas::model::SharedLockGuard''),
        (''../classfpmas_1_1synchro_1_1SharedLockGuard.html'', 1, ''fpmas::synchro::SharedLockGuard&lt; T &gt;'')]),
      (''sharedlockguard_3c_20fpmas_3a_3aapi_3a_3amodel_3a_3aagentptr_20_3e_1016'', ''SharedLockGuard&lt; fpmas::api::model::AgentPtr &gt;'', [(''../classfpmas_1_1synchro_1_1SharedLockGuard.html'', 1, ''fpmas::synchro'')]),
      (''single_1017'', ''Single'', [(''../classfpmas_1_1io_1_1Local_1_1Single.html'', 1, ''fpmas::io::Local&lt; T &gt;::Single''),
        (''../classfpmas_1_1io_1_1Reduce_1_1Single.html'', 1, ''fpmas::io::Reduce&lt; T, BinaryOp, Mpi &gt;::Single'')]),
      (''singlethreadmutex_1018'', ''SingleThreadMutex'', [(''../classfpmas_1_1synchro_1_1ghost_1_1SingleThreadMutex.html'', 1, ''fpmas::synchro::ghost'')]),
      (''spatialagent_1019'', ''SpatialAgent'', [(''../classfpmas_1_1api_1_1model_1_1SpatialAgent.html'', 1, ''fpmas::api::model::SpatialAgent&lt; CellType &gt;''),
        (''../classfpmas_1_1model_1_1SpatialAgent.html'', 1, ''fpmas::model::SpatialAgent&lt; AgentType, CellType, Derived &gt;'')]),
      (''spatialagent_3c_20api_3a_3amodel_3a_3acell_20_3e_1020'', ''SpatialAgent&lt; api::model::Cell &gt;'', [(''../classfpmas_1_1api_1_1model_1_1SpatialAgent.html'', 1, ''fpmas::api::model'')]),
      (''spatialagent_3c_20api_3a_3amodel_3a_3agridcell_20_3e_1021'', ''SpatialAgent&lt; api::model::GridCell &gt;'', [(''../classfpmas_1_1api_1_1model_1_1SpatialAgent.html'', 1, ''fpmas::api::model'')]),
      (''spatialagent_3c_20gridcelltype_20_3e_1022'', ''SpatialAgent&lt; GridCellType &gt;'', [(''../classfpmas_1_1api_1_1model_1_1SpatialAgent.html'', 1, ''fpmas::api::model'')]),
      (''spatialagentbase_1023'', ''SpatialAgentBase'', [(''../classfpmas_1_1model_1_1SpatialAgentBase.html'', 1, ''fpmas::model'')]),
      (''spatialagentbase_3c_20agenttype_2c_20api_3a_3amodel_3a_3acell_2c_20agenttype_20_3e_1024'', ''SpatialAgentBase&lt; AgentType, api::model::Cell, AgentType &gt;'', [(''../classfpmas_1_1model_1_1SpatialAgentBase.html'', 1, ''fpmas::model'')]),
      (''spatialagentbase_3c_20agenttype_2c_20api_3a_3amodel_3a_3agridcell_2c_20gridagent_3c_20agenttype_2c_20api_3a_3amodel_3a_3agridcell_2c_20agenttype_20_3e_20_3e_1025'', ''SpatialAgentBase&lt; AgentType, api::model::GridCell, GridAgent&lt; AgentType, api::model::GridCell, AgentType &gt; &gt;'', [(''../classfpmas_1_1model_1_1SpatialAgentBase.html'', 1, ''fpmas::model'')]),
      (''spatialagentbehavior_1026'', ''SpatialAgentBehavior'', [(''../classfpmas_1_1api_1_1model_1_1SpatialAgentBehavior.html'', 1, ''fpmas::api::model'')]),
      (''spatialagentbuilder_1027'', ''SpatialAgentBuilder'', [(''../classfpmas_1_1api_1_1model_1_1SpatialAgentBuilder.html'', 1, ''fpmas::api::model::SpatialAgentBuilder&lt; CellType, MappingCellType &gt;''),
        (''../classfpmas_1_1model_1_1SpatialAgentBuilder.html'', 1, ''fpmas::model::SpatialAgentBuilder&lt; CellType, MappingCellType &gt;'')]),
      (''spatialagentbuilder_3c_20celltype_2c_20api_3a_3amodel_3a_3acell_20_3e_1028'', ''SpatialAgentBuilder&lt; CellType, api::model::Cell &gt;'', [(''../classfpmas_1_1api_1_1model_1_1SpatialAgentBuilder.html'', 1, ''fpmas::api::model'')]),
      (''spatialagentfactory_1029'', ''SpatialAgentFactory'', [(''../classfpmas_1_1api_1_1model_1_1SpatialAgentFactory.html'', 1, ''fpmas::api::model'')]),
      (''spatialagentfactory_3c_20agenttype_3a_3acell_20_3e_1030'', ''SpatialAgentFactory&lt; AgentType::Cell &gt;'', [(''../classfpmas_1_1api_1_1model_1_1SpatialAgentFactory.html'', 1, ''fpmas::api::model'')]),
      (''spatialagentmapping_1031'', ''SpatialAgentMapping'', [(''../classfpmas_1_1api_1_1model_1_1SpatialAgentMapping.html'', 1, ''fpmas::api::model'')]),
      (''spatialagentmapping_3c_20api_3a_3amodel_3a_3acell_20_3e_1032'', ''SpatialAgentMapping&lt; api::model::Cell &gt;'', [(''../classfpmas_1_1api_1_1model_1_1SpatialAgentMapping.html'', 1, ''fpmas::api::model'')]),
      (''spatialagentmapping_3c_20api_3a_3amodel_3a_3agridcell_20_3e_1033'', ''SpatialAgentMapping&lt; api::model::GridCell &gt;'', [(''../classfpmas_1_1api_1_1model_1_1SpatialAgentMapping.html'', 1, ''fpmas::api::model'')]),
      (''spatialmodel_1034'', ''SpatialModel'', [(''../classfpmas_1_1api_1_1model_1_1SpatialModel.html'', 1, ''fpmas::api::model::SpatialModel&lt; CellType &gt;''),
        (''../classfpmas_1_1model_1_1SpatialModel.html'', 1, ''fpmas::model::SpatialModel&lt; SyncMode, CellType, EndCondition &gt;'')]),
      (''spatialmodel_3c_20api_3a_3amodel_3a_3acell_20_3e_1035'', ''SpatialModel&lt; api::model::Cell &gt;'', [(''../classfpmas_1_1api_1_1model_1_1SpatialModel.html'', 1, ''fpmas::api::model'')]),
      (''staticendcondition_1036'', ''StaticEndCondition'', [(''../classfpmas_1_1model_1_1StaticEndCondition.html'', 1, ''fpmas::model'')]),
      (''status_1037'', ''Status'', [(''../structfpmas_1_1api_1_1communication_1_1Status.html'', 1, ''fpmas::api::communication'')]),
      (''stringoutput_1038'', ''StringOutput'', [(''../classfpmas_1_1io_1_1StringOutput.html'', 1, ''fpmas::io'')]),
      (''synchronizegraphtask_1039'', ''SynchronizeGraphTask'', [(''../classfpmas_1_1model_1_1detail_1_1SynchronizeGraphTask.html'', 1, ''fpmas::model::detail'')]),
      (''synclinker_1040'', ''SyncLinker'', [(''../classfpmas_1_1api_1_1synchro_1_1SyncLinker.html'', 1, ''fpmas::api::synchro'')]),
      (''syncmode_1041'', ''SyncMode'', [(''../classfpmas_1_1api_1_1synchro_1_1SyncMode.html'', 1, ''fpmas::api::synchro'')])]"

definition classes_11 :: "raw_entry list" where
  "classes_11 = [
      (''task_1042'', ''Task'', [(''../classfpmas_1_1api_1_1scheduler_1_1Task.html'', 1, ''fpmas::api::scheduler'')]),
      (''terminationalgorithm_1043'', ''TerminationAlgorithm'', [(''../classfpmas_1_1synchro_1_1hard_1_1api_1_1TerminationAlgorithm.html'', 1, ''fpmas::synchro::hard::api::TerminationAlgorithm''),
        (''../classfpmas_1_1synchro_1_1hard_1_1TerminationAlgorithm.html'', 1, ''fpmas::synchro::hard::TerminationAlgorithm'')]),
      (''typedmpi_1044'', ''TypedMpi'', [(''../classfpmas_1_1api_1_1communication_1_1TypedMpi.html'', 1, ''fpmas::api::communication::TypedMpi&lt; T &gt;''),
        (''../classfpmas_1_1communication_1_1detail_1_1TypedMpi.html'', 1, ''fpmas::communication::detail::TypedMpi&lt; T, JsonType &gt;''),
        (''../structfpmas_1_1communication_1_1TypedMpi.html'', 1, ''fpmas::communication::TypedMpi&lt; T &gt;'')]),
      (''typedmpi_3c_20color_20_3e_1045'', ''TypedMpi&lt; Color &gt;'', [(''../structfpmas_1_1communication_1_1TypedMpi.html'', 1, ''fpmas::communication'')]),
      (''typedmpi_3c_20distributedid_20_3e_1046'', ''TypedMpi&lt; DistributedId &gt;'', [(''../structfpmas_1_1communication_1_1TypedMpi.html'', 1, ''fpmas::communication'')]),
      (''typedmpi_3c_20fpmas_3a_3aapi_3a_3autils_3a_3aptrwrapper_3c_20t_20_3e_20_3e_1047'', ''TypedMpi&lt; fpmas::api::utils::PtrWrapper&lt; T &gt; &gt;'', [(''../structfpmas_1_1communication_1_1TypedMpi.html'', 1, ''fpmas::communication'')]),
      (''typedmpi_3c_20fpmas_3a_3agraph_3a_3aedgeptrwrapper_3c_20t_20_3e_20_3e_1048'', ''TypedMpi&lt; fpmas::graph::EdgePtrWrapper&lt; T &gt; &gt;'', [(''../structfpmas_1_1communication_1_1TypedMpi_3_01fpmas_1_1graph_1_1EdgePtrWrapper_3_01T_01_4_01_4.html'', 1, ''fpmas::communication'')]),
      (''typedmpi_3c_20fpmas_3a_3agraph_3a_3aedgeptrwrapper_3c_20t_20_3e_2c_20fpmas_3a_3aio_3a_3ajson_3a_3alight_5fjson_20_3e_1049'', ''TypedMpi&lt; fpmas::graph::EdgePtrWrapper&lt; T &gt;, fpmas::io::json::light_json &gt;'', [(''../classfpmas_1_1communication_1_1detail_1_1TypedMpi.html'', 1, ''fpmas::communication::detail'')]),
      (''typedmpi_3c_20fpmas_3a_3asynchro_3a_3adataupdatepack_3c_20t_20_3e_20_3e_1050'', ''TypedMpi&lt; fpmas::synchro::DataUpdatePack&lt; T &gt; &gt;'', [(''../structfpmas_1_1communication_1_1TypedMpi.html'', 1, ''fpmas::communication'')]),
      (''typedmpi_3c_20fpmas_3a_3asynchro_3a_3anodeupdatepack_3c_20t_20_3e_20_3e_1051'', ''TypedMpi&lt; fpmas::synchro::NodeUpdatePack&lt; T &gt; &gt;'', [(''../structfpmas_1_1communication_1_1TypedMpi.html'', 1, ''fpmas::communication'')]),
      (''typedmpi_3c_20std_3a_3aset_3c_20fpmas_3a_3aapi_3a_3agraph_3a_3adistributedid_20_3e_20_3e_1052'', ''TypedMpi&lt; std::set&lt; fpmas::api::graph::DistributedId &gt; &gt;'', [(''../structfpmas_1_1communication_1_1TypedMpi.html'', 1, ''fpmas::communication'')]),
      (''typedmpi_3c_20t_2c_20nlohmann_3a_3ajson_20_3e_1053'', ''TypedMpi&lt; T, nlohmann::json &gt;'', [(''../classfpmas_1_1communication_1_1detail_1_1TypedMpi.html'', 1, ''fpmas::communication::detail'')])]"

definition classes_12 :: "raw_entry list" where
  "classes_12 = [
      (''uniformagentmapping_1054'', ''UniformAgentMapping'', [(''../classfpmas_1_1model_1_1UniformAgentMapping.html'', 1, ''fpmas::model'')]),
      (''uniformgraphbuilder_1055'', ''UniformGraphBuilder'', [(''../classfpmas_1_1graph_1_1UniformGraphBuilder.html'', 1, ''fpmas::graph'')]),
      (''uniformgridagentmapping_1056'', ''UniformGridAgentMapping'', [(''../classfpmas_1_1model_1_1UniformGridAgentMapping.html'', 1, ''fpmas::model'')])]"

definition classes_13 :: "raw_entry list" where
  "classes_13 = [
      (''void_1057'', ''Void'', [(''../structfpmas_1_1io_1_1Void.html'', 1, ''fpmas::io'')]),
      (''voidcallback_1058'', ''VoidCallback'', [(''../classfpmas_1_1utils_1_1VoidCallback.html'', 1, ''fpmas::utils'')]),
      (''voidtask_1059'', ''VoidTask'', [(''../classfpmas_1_1scheduler_1_1VoidTask.html'', 1, ''fpmas::scheduler'')]),
      (''vonneumanngridbuilder_1060'', ''VonNeumannGridBuilder'', [(''../classfpmas_1_1model_1_1VonNeumannGridBuilder.html'', 1, ''fpmas::model'')]),
      (''vonneumannrangeperimeter_1061'', ''VonNeumannRangePerimeter'', [(''../structfpmas_1_1model_1_1VonNeumannRangePerimeter.html'', 1, ''fpmas::model'')]),
      (''vonneumannrangeperimeter_3c_20vonneumanngrid_3c_20celltype_20_3e_20_3e_1062'', ''VonNeumannRangePerimeter&lt; VonNeumannGrid&lt; CellType &gt; &gt;'', [(''../structfpmas_1_1model_1_1VonNeumannRangePerimeter_3_01VonNeumannGrid_3_01CellType_01_4_01_4.html'', 1, ''fpmas::model'')])]"

definition classes_14 :: "raw_entry list" where
  "classes_14 = [
      (''zoltandata_1063'', ''ZoltanData'', [(''../structfpmas_1_1graph_1_1zoltan_1_1ZoltanData.html'', 1, ''fpmas::graph::zoltan'')]),
      (''zoltandata_3c_20agentptr_20_3e_1064'', ''ZoltanData&lt; AgentPtr &gt;'', [(''../structfpmas_1_1graph_1_1zoltan_1_1ZoltanData.html'', 1, ''fpmas::graph::zoltan'')]),
      (''zoltanloadbalancing_1065'', ''ZoltanLoadBalancing'', [(''../classfpmas_1_1graph_1_1ZoltanLoadBalancing.html'', 1, ''fpmas::graph'')]),
      (''zoltanloadbalancing_3c_20agentptr_20_3e_1066'', ''ZoltanLoadBalancing&lt; AgentPtr &gt;'', [(''../classfpmas_1_1graph_1_1ZoltanLoadBalancing.html'', 1, ''fpmas::graph'')])]"

section \<open>The files of the files\<close>

definition files_0 :: "raw_entry list" where
  "files_0 = [
      (''breakpoint_2eh_1087'', ''breakpoint.h'', [(''../api_2io_2breakpoint_8h.html'', 1, ''(Global Namespace)''),
        (''../io_2breakpoint_8h.html'', 1, ''(Global Namespace)'')])]"

definition files_1 :: "raw_entry list" where
  "files_1 = [
      (''callback_2eh_1088'', ''callback.h'', [(''../api_2utils_2callback_8h.html'', 1, ''(Global Namespace)''),
        (''../utils_2callback_8h.html'', 1, ''(Global Namespace)'')]),
      (''client_5fserver_2eh_1089'', ''client_server.h'', [(''../client__server_8h.html'', 1, '''')]),
      (''communication_2eh_1090'', ''communication.h'', [(''../api_2communication_2communication_8h.html'', 1, ''(Global Namespace)''),
        (''../communication_2communication_8h.html'', 1, ''(Global Namespace)'')]),
      (''csv_5foutput_2eh_1091'', ''csv_output.h'', [(''../csv__output_8h.html'', 1, '''')])]"

definition files_2 :: "raw_entry list" where
  "files_2 = [
      (''data_5fupdate_5fpack_2eh_1092'', ''data_update_pack.h'', [(''../data__update__pack_8h.html'', 1, '''')]),
      (''dist_5fmove_5falgo_2eh_1093'', ''dist_move_algo.h'', [(''../dist__move__algo_8h.html'', 1, '''')]),
      (''distributed_5fedge_2eh_1094'', ''distributed_edge.h'', [(''../api_2graph_2distributed__edge_8h.html'', 1, ''(Global Namespace)''),
        (''../graph_2distributed__edge_8h.html'', 1, ''(Global Namespace)'')]),
      (''distributed_5fgraph_2eh_1095'', ''distributed_graph.h'', [(''../api_2graph_2distributed__graph_8h.html'', 1, ''(Global Namespace)''),
        (''../graph_2distributed__graph_8h.html'', 1, ''(Global Namespace)'')]),
      (''distributed_5fid_2eh_1096'', ''distributed_id.h'', [(''../distributed__id_8h.html'', 1, '''')]),
      (''distributed_5fnode_2eh_1097'', ''distributed_node.h'', [(''../api_2graph_2distributed__node_8h.html'', 1, ''(Global Namespace)''),
        (''../graph_2distributed__node_8h.html'', 1, ''(Global Namespace)'')]),
      (''distribution_2eh_1098'', ''distribution.h'', [(''../api_2random_2distribution_8h.html'', 1, ''(Global Namespace)''),
        (''../random_2distribution_8h.html'', 1, ''(Global Namespace)'')])]"

definition files_3 :: "raw_entry list" where
  "files_3 = [
      (''edge_2eh_1099'', ''edge.h'', [(''../api_2graph_2edge_8h.html'', 1, ''(Global Namespace)''),
        (''../graph_2edge_8h.html'', 1, ''(Global Namespace)'')]),
      (''enums_2eh_1100'', ''enums.h'', [(''../enums_8h.html'', 1, '''')]),
      (''exceptions_2eh_1101'', ''exceptions.h'', [(''../exceptions_8h.html'', 1, '''')])]"

definition files_4 :: "raw_entry list" where
  "files_4 = [
      (''format_2eh_1102'', ''format.h'', [(''../format_8h.html'', 1, '''')]),
      (''fpmas_2eh_1103'', ''fpmas.h'', [(''../fpmas_8h.html'', 1, '''')])]"

definition files_5 :: "raw_entry list" where
  "files_5 = [
      (''generator_2eh_1104'', ''generator.h'', [(''../api_2random_2generator_8h.html'', 1, ''(Global Namespace)''),
        (''../random_2generator_8h.html'', 1, ''(Global Namespace)'')]),
      (''ghost_5fmode_2eh_1105'', ''ghost_mode.h'', [(''../ghost__mode_8h.html'', 1, '''')]),
      (''graph_2eh_1106'', ''graph.h'', [(''../api_2graph_2graph_8h.html'', 1, ''(Global Namespace)''),
        (''../graph_2graph_8h.html'', 1, ''(Global Namespace)'')]),
      (''graph_5fbuilder_2eh_1107'', ''graph_builder.h'', [(''../api_2graph_2graph__builder_8h.html'', 1, ''(Global Namespace)''),
        (''../graph_2graph__builder_8h.html'', 1, ''(Global Namespace)'')]),
      (''grid_2eh_1108'', ''grid.h'', [(''../api_2model_2spatial_2grid_8h.html'', 1, ''(Global Namespace)''),
        (''../model_2spatial_2grid_8h.html'', 1, ''(Global Namespace)'')]),
      (''grid_5fagent_5fmapping_2eh_1109'', ''grid_agent_mapping.h'', [(''../grid__agent__mapping_8h.html'', 1, '''')]),
      (''guards_2eh_1110'', ''guards.h'', [(''../model_2guards_8h.html'', 1, ''(Global Namespace)''),
        (''../synchro_2guards_8h.html'', 1, ''(Global Namespace)'')])]"

definition files_6 :: "raw_entry list" where
  "files_6 = [
      (''hard_5fdata_5fsync_2eh_1111'', ''hard_data_sync.h'', [(''../hard__data__sync_8h.html'', 1, '''')]),
      (''hard_5fsync_5flinker_2eh_1112'', ''hard_sync_linker.h'', [(''../hard__sync__linker_8h.html'', 1, '''')]),
      (''hard_5fsync_5fmode_2eh_1113'', ''hard_sync_mode.h'', [(''../api_2hard__sync__mode_8h.html'', 1, ''(Global Namespace)''),
        (''../hard__sync__mode_8h.html'', 1, ''(Global Namespace)'')]),
      (''hard_5fsync_5fmutex_2eh_1114'', ''hard_sync_mutex.h'', [(''../hard__sync__mutex_8h.html'', 1, '''')])]"

definition files_7 :: "raw_entry list" where
  "files_7 = [
      (''id_2eh_1115'', ''id.h'', [(''../id_8h.html'', 1, '''')])]"

definition files_8 :: "raw_entry list" where
  "files_8 = [
      (''json_2eh_1116'', ''json.h'', [(''../json_8h.html'', 1, '''')])]"

definition files_9 :: "raw_entry list" where
  "files_9 = [
      (''load_5fbalancing_2eh_1117'', ''load_balancing.h'', [(''../load__balancing_8h.html'', 1, '''')]),
      (''location_5fmanager_2eh_1118'', ''location_manager.h'', [(''../api_2graph_2location__manager_8h.html'', 1, ''(Global Namespace)''),
        (''../graph_2location__manager_8h.html'', 1, ''(Global Namespace)'')]),
      (''location_5fstate_2eh_1119'', ''location_state.h'', [(''../location__state_8h.html'', 1, '''')])]"

definition files_a :: "raw_entry list" where
  "files_a = [
      (''macros_2eh_1120'', ''macros.h'', [(''../macros_8h.html'', 1, '''')]),
      (''model_2eh_1121'', ''model.h'', [(''../api_2model_2model_8h.html'', 1, ''(Global Namespace)''),
        (''../model_2detail_2model_8h.html'', 1, ''(Global Namespace)''),
        (''../model_2model_8h.html'', 1, ''(Global Namespace)'')]),
      (''moore_2eh_1122'', ''moore.h'', [(''../moore_8h.html'', 1, '''')]),
      (''mutex_2eh_1123'', ''mutex.h'', [(''../mutex_8h.html'', 1, '''')]),
      (''mutex_5fclient_2eh_1124'', ''mutex_client.h'', [(''../mutex__client_8h.html'', 1, '''')]),
      (''mutex_5fserver_2eh_1125'', ''mutex_server.h'', [(''../mutex__server_8h.html'', 1, '''')])]"

definition files_b :: "raw_entry list" where
  "files_b = [
      (''node_2eh_1126'', ''node.h'', [(''../api_2graph_2node_8h.html'', 1, ''(Global Namespace)''),
        (''../graph_2node_8h.html'', 1, ''(Global Namespace)'')])]"

definition files_c :: "raw_entry list" where
  "files_c = [
      (''output_2eh_1127'', ''output.h'', [(''../api_2io_2output_8h.html'', 1, ''(Global Namespace)''),
        (''../io_2output_8h.html'', 1, ''(Global Namespace)'')])]"

definition files_d :: "raw_entry list" where
  "files_d = [
      (''perf_2eh_1128'', ''perf.h'', [(''../api_2utils_2perf_8h.html'', 1, ''(Global Namespace)''),
        (''../utils_2perf_8h.html'', 1, ''(Global Namespace)'')]),
      (''ptr_5fwrapper_2eh_1129'', ''ptr_wrapper.h'', [(''../ptr__wrapper_8h.html'', 1, '''')])]"

definition files_e :: "raw_entry list" where
  "files_e = [
      (''runtime_2eh_1130'', ''runtime.h'', [(''../api_2runtime_2runtime_8h.html'', 1, ''(Global Namespace)''),
        (''../runtime_2runtime_8h.html'', 1, ''(Global Namespace)'')])]"

definition files_f :: "raw_entry list" where
  "files_f = [
      (''scheduled_5fload_5fbalancing_2eh_1131'', ''scheduled_load_balancing.h'', [(''../scheduled__load__balancing_8h.html'', 1, '''')]),
      (''scheduler_2eh_1132'', ''scheduler.h'', [(''../api_2scheduler_2scheduler_8h.html'', 1, ''(Global Namespace)''),
        (''../scheduler_2scheduler_8h.html'', 1, ''(Global Namespace)'')]),
      (''serializer_2eh_1133'', ''serializer.h'', [(''../serializer_8h.html'', 1, '''')]),
      (''server_5fpack_2eh_1134'', ''server_pack.h'', [(''../server__pack_8h.html'', 1, '''')]),
      (''spatial_5fmodel_2eh_1135'', ''spatial_model.h'', [(''../api_2model_2spatial_2spatial__model_8h.html'', 1, ''(Global Namespace)''),
        (''../model_2spatial_2spatial__model_8h.html'', 1, ''(Global Namespace)'')]),
      (''sync_5fmode_2eh_1136'', ''sync_mode.h'', [(''../sync__mode_8h.html'', 1, '''')])]"

definition files_10 :: "raw_entry list" where
  "files_10 = [
      (''termination_2eh_1137'', ''termination.h'', [(''../termination_8h.html'', 1, '''')])]"

definition files_11 :: "raw_entry list" where
  "files_11 = [
      (''von_5fneumann_2eh_1138'', ''von_neumann.h'', [(''../von__neumann_8h.html'', 1, '''')])]"

definition files_12 :: "raw_entry list" where
  "files_12 = [
      (''zoltan_5fload_5fbalancing_2eh_1139'', ''zoltan_load_balancing.h'', [(''../zoltan__load__balancing_8h.html'', 1, '''')])]"

section \<open>The letters\<close>

definition classes_files :: "raw_entry list list" where
  "classes_files = [classes_0, classes_1, classes_2, classes_3, classes_4, classes_5, classes_6, classes_7, classes_8,
     classes_9, classes_a, classes_b, classes_c, classes_d, classes_e, classes_f, classes_10, classes_11,
     classes_12, classes_13, classes_14]"

definition files_files :: "raw_entry list list" where
  "files_files = [files_0, files_1, files_2, files_3, files_4, files_5, files_6, files_7, files_8, files_9, files_a,
     files_b, files_c, files_d, files_e, files_f, files_10, files_11, files_12]"

lemma classes_0_in: "file_in CHR ''a'' classes_0 []"
  by (rule file_inI; unfold classes_0_def list.map fst_conv) (simp_all add: file_check)

lemma classes_1_in: "file_in CHR ''b'' classes_1 []"
  by (rule file_inI; unfold classes_1_def list.map fst_conv) (simp_all add: file_check)

lemma classes_2_in: "file_in CHR ''c'' classes_2 []"
  by (rule file_inI; unfold classes_2_def list.map fst_conv) (simp_all add: file_check)

lemma classes_3_in: "file_in CHR ''d'' classes_3 []"
  by (rule file_inI; unfold classes_3_def list.map fst_conv) (simp_all add: file_check)

lemma classes_4_in: "file_in CHR ''e'' classes_4 []"
  by (rule file_inI; unfold classes_4_def list.map fst_conv) (simp_all add: file_check)

lemma classes_5_in: "file_in CHR ''f'' classes_5 []"
  by (rule file_inI; unfold classes_5_def list.map fst_conv) (simp_all add: file_check)

lemma classes_6_in: "file_in CHR ''g'' classes_6 []"
  by (rule file_inI; unfold classes_6_def list.map fst_conv) (simp_all add: file_check)

lemma classes_7_in: "file_in CHR ''h'' classes_7 []"
  by (rule file_inI; unfold classes_7_def list.map fst_conv) (simp_all add: file_check)

lemma classes_8_in: "file_in CHR ''i'' classes_8 []"
  by (rule file_inI; unfold classes_8_def list.map fst_conv) (simp_all add: file_check)

lemma classes_9_in: "file_in CHR ''j'' classes_9 []"
  by (rule file_inI; unfold classes_9_def list.map fst_conv) (simp_all add: file_check)

lemma classes_a_in: "file_in CHR ''l'' classes_a []"
  by (rule file_inI; unfold classes_a_def list.map fst_conv) (simp_all add: file_check)

lemma classes_b_in: "file_in CHR ''m'' classes_b []"
  by (rule file_inI; unfold classes_b_def list.map fst_conv) (simp_all add: file_check)

lemma classes_c_in: "file_in CHR ''n'' classes_c []"
  by (rule file_inI; unfold classes_c_def list.map fst_conv) (simp_all add: file_check)

lemma classes_d_in: "file_in CHR ''o'' classes_d []"
  by (rule file_inI; unfold classes_d_def list.map fst_conv) (simp_all add: file_check)

lemma classes_e_in: "file_in CHR ''p'' classes_e []"
  by (rule file_inI; unfold classes_e_def list.map fst_conv) (simp_all add: file_check)

lemma classes_f_in: "file_in CHR ''r'' classes_f []"
  by (rule file_inI; unfold classes_f_def list.map fst_conv) (simp_all add: file_check)

lemma classes_10_in: "file_in CHR ''s'' classes_10 []"
  by (rule file_inI; unfold classes_10_def list.map fst_conv) (simp_all add: file_check)

lemma classes_11_in: "file_in CHR ''t'' classes_11 []"
  by (rule file_inI; unfold classes_11_def list.map fst_conv) (simp_all add: file_check)

lemma classes_12_in: "file_in CHR ''u'' classes_12 []"
  by (rule file_inI; unfold classes_12_def list.map fst_conv) (simp_all add: file_check)

lemma classes_13_in: "file_in CHR ''v'' classes_13 []"
  by (rule file_inI; unfold classes_13_def list.map fst_conv) (simp_all add: file_check)

lemma classes_14_in: "file_in CHR ''z'' classes_14 []"
  by (rule file_inI; unfold classes_14_def list.map fst_conv) (simp_all add: file_check)

lemma classes_letters: "files_ok ''abcdefghijlmnoprstuvz'' classes_files []"
  using classes_0_in classes_1_in classes_2_in classes_3_in classes_4_in classes_5_in classes_6_in classes_7_in classes_8_in classes_9_in classes_a_in classes_b_in classes_c_in classes_d_in classes_e_in classes_f_in classes_10_in classes_11_in classes_12_in classes_13_in classes_14_in
  by (simp add: files_ok_def classes_files_def file_in_def)

lemma files_0_in: "file_in CHR ''b'' files_0 []"
  by (rule file_inI; unfold files_0_def list.map fst_conv) (simp_all add: file_check)

lemma files_1_in: "file_in CHR ''c'' files_1 []"
  by (rule file_inI; unfold files_1_def list.map fst_conv) (simp_all add: file_check)

lemma files_2_in: "file_in CHR ''d'' files_2 []"
  by (rule file_inI; unfold files_2_def list.map fst_conv) (simp_all add: file_check)

lemma files_3_in: "file_in CHR ''e'' files_3 []"
  by (rule file_inI; unfold files_3_def list.map fst_conv) (simp_all add: file_check)

lemma files_4_in: "file_in CHR ''f'' files_4 []"
  by (rule file_inI; unfold files_4_def list.map fst_conv) (simp_all add: file_check)

lemma files_5_in: "file_in CHR ''g'' files_5 []"
  by (rule file_inI; unfold files_5_def list.map fst_conv) (simp_all add: file_check)

lemma files_6_in: "file_in CHR ''h'' files_6 []"
  by (rule file_inI; unfold files_6_def list.map fst_conv) (simp_all add: file_check)

lemma files_7_in: "file_in CHR ''i'' files_7 []"
  by (rule file_inI; unfold files_7_def list.map fst_conv) (simp_all add: file_check)

lemma files_8_in: "file_in CHR ''j'' files_8 []"
  by (rule file_inI; unfold files_8_def list.map fst_conv) (simp_all add: file_check)

lemma files_9_in: "file_in CHR ''l'' files_9 []"
  by (rule file_inI; unfold files_9_def list.map fst_conv) (simp_all add: file_check)

lemma files_a_in: "file_in CHR ''m'' files_a []"
  by (rule file_inI; unfold files_a_def list.map fst_conv) (simp_all add: file_check)

lemma files_b_in: "file_in CHR ''n'' files_b []"
  by (rule file_inI; unfold files_b_def list.map fst_conv) (simp_all add: file_check)

lemma files_c_in: "file_in CHR ''o'' files_c []"
  by (rule file_inI; unfold files_c_def list.map fst_conv) (simp_all add: file_check)

lemma files_d_in: "file_in CHR ''p'' files_d []"
  by (rule file_inI; unfold files_d_def list.map fst_conv) (simp_all add: file_check)

lemma files_e_in: "file_in CHR ''r'' files_e []"
  by (rule file_inI; unfold files_e_def list.map fst_conv) (simp_all add: file_check)

lemma files_f_in: "file_in CHR ''s'' files_f []"
  by (rule file_inI; unfold files_f_def list.map fst_conv) (simp_all add: file_check)

lemma files_10_in: "file_in CHR ''t'' files_10 []"
  by (rule file_inI; unfold files_10_def list.map fst_conv) (simp_all add: file_check)

lemma files_11_in: "file_in CHR ''v'' files_11 []"
  by (rule file_inI; unfold files_11_def list.map fst_conv) (simp_all add: file_check)

lemma files_12_in: "file_in CHR ''z'' files_12 []"
  by (rule file_inI; unfold files_12_def list.map fst_conv) (simp_all add: file_check)

lemma files_letters: "files_ok ''bcdefghijlmnoprstvz'' files_files []"
  using files_0_in files_1_in files_2_in files_3_in files_4_in files_5_in files_6_in files_7_in files_8_in files_9_in files_a_in files_b_in files_c_in files_d_in files_e_in files_f_in files_10_in files_11_in files_12_in
  by (simp add: files_ok_def files_files_def file_in_def)

end
