(* ===== verification/Dox_Functions.thy ===== *)
theory Dox_Functions
  imports Dox_Entries
begin

text \<open>The index files of the functions (\<open>docs/search/functions_*.js\<close>).\<close>

section \<open>The files of the functions\<close>

definition functions_0 :: "raw_entry list" where
  "functions_0 = [
      (''_5flock_1140'', ''_lock'', [(''../classfpmas_1_1api_1_1synchro_1_1Mutex.html#a75e37a2c88c78c41fc6be404e0b3a5f0'', 1, ''fpmas::api::synchro::Mutex'')]),
      (''_5flockshared_1141'', ''_lockShared'', [(''../classfpmas_1_1api_1_1synchro_1_1Mutex.html#aa440bb94c0d053f118cbc3399ac5be2b'', 1, ''fpmas::api::synchro::Mutex'')]),
      (''_5funlock_1142'', ''_unlock'', [(''../classfpmas_1_1api_1_1synchro_1_1Mutex.html#a4ff8857a28c7d25f3aab656cbb01c433'', 1, ''fpmas::api::synchro::Mutex'')]),
      (''_5funlockshared_1143'', ''_unlockShared'', [(''../classfpmas_1_1api_1_1synchro_1_1Mutex.html#a45d59d7152f823738efa962136dc5f95'', 1, ''fpmas::api::synchro::Mutex'')])]"

definition functions_1 :: "raw_entry list" where
  "functions_1 = [
      (''acquire_1144'', ''acquire'', [(''../classfpmas_1_1synchro_1_1ghost_1_1SingleThreadMutex.html#ac475f913c29429c70623166165cb2a51'', 1, ''fpmas::synchro::ghost::SingleThreadMutex::acquire()''),
        (''../classfpmas_1_1api_1_1synchro_1_1Mutex.html#a68bf2e4a527aac09ce552eb875112821'', 1, ''fpmas::api::synchro::Mutex::acquire()''),
        (''../classfpmas_1_1synchro_1_1hard_1_1MutexClient.html#a227505e34526434ae134b429dfe251f2'', 1, ''fpmas::synchro::hard::MutexClient::acquire()''),
        (''../classfpmas_1_1synchro_1_1hard_1_1api_1_1MutexClient.html#a109875b5b019aec1833c0073e6a86be4'', 1, ''fpmas::synchro::hard::api::MutexClient::acquire()''),
        (''../classfpmas_1_1synchro_1_1hard_1_1HardSyncMutex.html#afab89307ce8409e7ed80d5aa90be31b2'', 1, ''fpmas::synchro::hard::HardSyncMutex::acquire()'')]),
      (''acquireguard_1145'', ''AcquireGuard'', [(''../classfpmas_1_1model_1_1AcquireGuard.html#a9944acd136c8eced5719aa46ffedad0a'', 1, ''fpmas::model::AcquireGuard::AcquireGuard()''),
        (''../classfpmas_1_1synchro_1_1AcquireGuard.html#ae586ed5431c0384cbc355cc9ec4bdfe7'', 1, ''fpmas::synchro::AcquireGuard::AcquireGuard()'')]),
      (''act_1146'', ''act'', [(''../classfpmas_1_1api_1_1model_1_1Agent.html#a038600989efe7ceb1fc5afce1c87de45'', 1, ''fpmas::api::model::Agent::act()''),
        (''../classfpmas_1_1model_1_1AgentBase.html#a4eda23f5e8fb6db1c97126349a67410a'', 1, ''fpmas::model::AgentBase::act()'')]),
      (''add_1147'', ''add'', [(''../classfpmas_1_1api_1_1scheduler_1_1Job.html#a3a1175ed0ece04cc7f0ed78e6d0e521d'', 1, ''fpmas::api::scheduler::Job::add()''),
        (''../classfpmas_1_1scheduler_1_1Job.html#a5e28ab793a1e349e8b0b18cffdbadf17'', 1, ''fpmas::scheduler::Job::add()''),
        (''../classfpmas_1_1model_1_1SpatialModel.html#a95673fcbc7959f4ac512a6795d217b2b'', 1, ''fpmas::model::SpatialModel::add()''),
        (''../classfpmas_1_1model_1_1detail_1_1AgentGroupBase.html#ac226e2eb63a7f2e2a0e1138a325b1ee8'', 1, ''fpmas::model::detail::AgentGroupBase::add()''),
        (''../classfpmas_1_1api_1_1model_1_1SpatialModel.html#a7c9a708d6bae6bf5e860306baed5598c'', 1, ''fpmas::api::model::SpatialModel::add()''),
        (''../classfpmas_1_1api_1_1model_1_1AgentGroup.html#a8b05cfc77d52c34c85121793df15b5fb'', 1, ''fpmas::api::model::AgentGroup::add()'')]),
      (''addcalloneraseedge_1148'', ''addCallOnEraseEdge'', [(''../classfpmas_1_1api_1_1graph_1_1Graph.html#afac094429ea44cfdf781f1d1fdedf629'', 1, ''fpmas::api::graph::Graph::addCallOnEraseEdge()''),
        (''../classfpmas_1_1graph_1_1Graph.html#a1edb6d42eba7841d071604a4e0898458'', 1, ''fpmas::graph::Graph::addCallOnEraseEdge()'')]),
      (''addcallonerasenode_1149'', ''addCallOnEraseNode'', [(''../classfpmas_1_1api_1_1graph_1_1Graph.html#a00c750c1fd84eb755547b0f851e229fd'', 1, ''fpmas::api::graph::Graph::addCallOnEraseNode()''),
        (''../classfpmas_1_1graph_1_1Graph.html#a45ace538ed2d9c037dce1a743039173b'', 1, ''fpmas::graph::Graph::addCallOnEraseNode()'')]),
      (''addcalloninsertedge_1150'', ''addCallOnInsertEdge'', [(''../classfpmas_1_1api_1_1graph_1_1Graph.html#ad67b1bb8ba0d83adb66f78ff8ee8d2d0'', 1, ''fpmas::api::graph::Graph::addCallOnInsertEdge()''),
        (''../classfpmas_1_1graph_1_1Graph.html#af6ca183ef662d87198e3991e11baf26c'', 1, ''fpmas::graph::Graph::addCallOnInsertEdge()'')]),
      (''addcalloninsertnode_1151'', ''addCallOnInsertNode'', [(''../classfpmas_1_1api_1_1graph_1_1Graph.html#a50add3d4a23575f3f337a31a385b3175'', 1, ''fpmas::api::graph::Graph::addCallOnInsertNode()''),
        (''../classfpmas_1_1graph_1_1Graph.html#a9220e20bc66310cea8fb7ac9c331d4a5'', 1, ''fpmas::graph::Graph::addCallOnInsertNode()'')]),
      (''addcallonsetdistant_1152'', ''addCallOnSetDistant'', [(''../classfpmas_1_1api_1_1graph_1_1DistributedGraph.html#a2dd0a1dd7932f5dfd49f40f41eda3603'', 1, ''fpmas::api::graph::DistributedGraph::addCallOnSetDistant()''),
        (''../classfpmas_1_1graph_1_1detail_1_1DistributedGraph.html#a5dbb4ac59c423ca44f3830f14f3b82cb'', 1, ''fpmas::graph::detail::DistributedGraph::addCallOnSetDistant()'')]),
      (''addcallonsetlocal_1153'', ''addCallOnSetLocal'', [(''../classfpmas_1_1api_1_1graph_1_1DistributedGraph.html#a24255b155585d63e1bddacb9980e7937'', 1, ''fpmas::api::graph::DistributedGraph::addCallOnSetLocal()''),
        (''../classfpmas_1_1graph_1_1detail_1_1DistributedGraph.html#a9c92d38fc28bd565c90fbd06fd8cd59e'', 1, ''fpmas::graph::detail::DistributedGraph::addCallOnSetLocal()'')]),
      (''addgroup_1154'', ''addGroup'', [(''../classfpmas_1_1api_1_1model_1_1Agent.html#a4db07da12347b7f169a7dfc38c8e8e8b'', 1, ''fpmas::api::model::Agent::addGroup()''),
        (''../classfpmas_1_1model_1_1AgentBase.html#af91cf49000ce97f4005f1d1193a08284'', 1, ''fpmas::model::AgentBase::addGroup()'')]),
      (''addgroupid_1155'', ''addGroupId'', [(''../classfpmas_1_1api_1_1model_1_1Agent.html#a6701f779c3af1d2e43d297342e02a1e6'', 1, ''fpmas::api::model::Agent::addGroupId()''),
        (''../classfpmas_1_1model_1_1AgentBase.html#a692628e2e0ce7acd4e0f56337334c6a0'', 1, ''fpmas::model::AgentBase::addGroupId()'')]),
      (''addmanagednode_1156'', ''addManagedNode'', [(''../classfpmas_1_1api_1_1graph_1_1LocationManager.html#a2d7cf8872ef4d923b8f70e3c0c21776d'', 1, ''fpmas::api::graph::LocationManager::addManagedNode(DistributedNode&lt; T &gt; *node, int initial_location)=0''),
        (''../classfpmas_1_1api_1_1graph_1_1LocationManager.html#aeae2b4438b0fba4c019b487c566a6807'', 1, ''fpmas::api::graph::LocationManager::addManagedNode(DistributedId id, int initial_location)=0''),
        (''../classfpmas_1_1graph_1_1LocationManager.html#a131d441c3aec19c41e4ae865731b8458'', 1, ''fpmas::graph::LocationManager::addManagedNode(api::graph::DistributedNode&lt; T &gt; *node, int initial_location) override''),
        (''../classfpmas_1_1graph_1_1LocationManager.html#a2af1c173ced82d117b406a4cf34dac33'', 1, ''fpmas::graph::LocationManager::addManagedNode(DistributedId id, int initial_location) override'')]),
      (''addreachablecell_1157'', ''addReachableCell'', [(''../classfpmas_1_1model_1_1ReachableCell.html#a48da7daa3d01ce415a3b3550c4417003'', 1, ''fpmas::model::ReachableCell'')]),
      (''agent_1158'', ''agent'', [(''../classfpmas_1_1api_1_1model_1_1AgentTask.html#a6a09b79475fd5fdc62291c9f2c12bfb7'', 1, ''fpmas::api::model::AgentTask::agent()''),
        (''../classfpmas_1_1model_1_1Neighbor.html#a04c638dfc724724f0d9e705539ec75a6'', 1, ''fpmas::model::Neighbor::agent()''),
        (''../classfpmas_1_1model_1_1detail_1_1AgentTaskBase.html#a09724834224f8b9196070825114de75d'', 1, ''fpmas::model::detail::AgentTaskBase::agent()'')]),
      (''agentbehaviortask_1159'', ''AgentBehaviorTask'', [(''../classfpmas_1_1model_1_1detail_1_1AgentBehaviorTask.html#aeddb45f425bc3d920ade47270533fdf7'', 1, ''fpmas::model::detail::AgentBehaviorTask'')]),
      (''agentexecutionjob_1160'', ''agentExecutionJob'', [(''../classfpmas_1_1api_1_1model_1_1AgentGroup.html#ab53a4adc2e99116e76d873ce59e82e73'', 1, ''fpmas::api::model::AgentGroup::agentExecutionJob()=0''),
        (''../classfpmas_1_1api_1_1model_1_1AgentGroup.html#a3e680b5266ea8f4279073323a891730c'', 1, ''fpmas::api::model::AgentGroup::agentExecutionJob() const =0''),
        (''../classfpmas_1_1model_1_1detail_1_1AgentGroupBase.html#a057d75f9badca09069c068d2c6142cc9'', 1, ''fpmas::model::detail::AgentGroupBase::agentExecutionJob() override''),
        (''../classfpmas_1_1model_1_1detail_1_1AgentGroupBase.html#aa0222dc4708d42cb5339a2cc032a6acf'', 1, ''fpmas::model::detail::AgentGroupBase::agentExecutionJob() const override'')]),
      (''agentgroupbase_1161'', ''AgentGroupBase'', [(''../classfpmas_1_1model_1_1detail_1_1AgentGroupBase.html#aca39883f1c932ec586150ae14dc09fbd'', 1, ''fpmas::model::detail::AgentGroupBase::AgentGroupBase(GroupId group_id, api::model::AgentGraph &amp;agent_graph)''),
        (''../classfpmas_1_1model_1_1detail_1_1AgentGroupBase.html#a5bb386086817c02177da5c6fca234aa3'', 1, ''fpmas::model::detail::AgentGroupBase::AgentGroupBase(const AgentGroupBase &amp;)=delete''),
        (''../classfpmas_1_1model_1_1detail_1_1AgentGroupBase.html#a649869b23c90b4e8aec4f73b82700f09'', 1, ''fpmas::model::detail::AgentGroupBase::AgentGroupBase(GroupId group_id, api::model::AgentGraph &amp;agent_graph, const api::model::Behavior &amp;behavior)''),
        (''../classfpmas_1_1model_1_1detail_1_1AgentGroup.html#aca39883f1c932ec586150ae14dc09fbd'', 1, ''fpmas::model::detail::AgentGroup::AgentGroupBase(GroupId group_id, api::model::AgentGraph &amp;agent_graph)''),
        (''../classfpmas_1_1model_1_1detail_1_1AgentGroup.html#a5bb386086817c02177da5c6fca234aa3'', 1, ''fpmas::model::detail::AgentGroup::AgentGroupBase(const AgentGroupBase &amp;)=delete''),
        (''../classfpmas_1_1model_1_1detail_1_1AgentGroup.html#a649869b23c90b4e8aec4f73b82700f09'', 1, ''fpmas::model::detail::AgentGroup::AgentGroupBase(GroupId group_id, api::model::AgentGraph &amp;agent_graph, const api::model::Behavior &amp;behavior)'')]),
      (''agentnodebuilder_1162'', ''AgentNodeBuilder'', [(''../classfpmas_1_1model_1_1AgentNodeBuilder.html#aa5f019402f2be859f52f475d458375f2'', 1, ''fpmas::model::AgentNodeBuilder'')]),
      (''agentptr_1163'', ''AgentPtr'', [(''../classfpmas_1_1api_1_1model_1_1AgentPtr.html#a729635f9839ae4882c10eb0506f5eb1d'', 1, ''fpmas::api::model::AgentPtr::AgentPtr()''),
        (''../classfpmas_1_1api_1_1model_1_1AgentPtr.html#a9316add3e557134e276e677b553406bf'', 1, ''fpmas::api::model::AgentPtr::AgentPtr(api::model::Agent *agent)''),
        (''../classfpmas_1_1api_1_1model_1_1AgentPtr.html#a5346b2b47db43303e51e87ba5dd2d828'', 1, ''fpmas::api::model::AgentPtr::AgentPtr(AgentPtr &amp;&amp;other)''),
        (''../classfpmas_1_1api_1_1model_1_1AgentPtr.html#af03451ede19a182ea8b6f25861416318'', 1, ''fpmas::api::model::AgentPtr::AgentPtr(const AgentPtr &amp;other)'')]),
      (''agents_1164'', ''agents'', [(''../classfpmas_1_1api_1_1model_1_1AgentGroup.html#a881d09c82488623a8668db11d992e602'', 1, ''fpmas::api::model::AgentGroup::agents()''),
        (''../classfpmas_1_1model_1_1detail_1_1AgentGroupBase.html#ad8a906980290895e705a85abaa0fd480'', 1, ''fpmas::model::detail::AgentGroupBase::agents()'')]),
      (''agenttask_1165'', ''AgentTask'', [(''../classfpmas_1_1model_1_1detail_1_1AgentTask.html#aa4658eaa5ec59ee8932b7a1eaf58f625'', 1, ''fpmas::model::detail::AgentTask'')]),
      (''agenttaskbase_1166'', ''AgentTaskBase'', [(''../classfpmas_1_1model_1_1detail_1_1AgentTaskBase.html#a0aa693728c326ad3669e59de994c1b46'', 1, ''fpmas::model::detail::AgentTaskBase'')]),
      (''all_1167'', ''All'', [(''../classfpmas_1_1io_1_1Local_1_1All.html#a72feb8718b593f0e37f4c2b9f6667fa4'', 1, ''fpmas::io::Local::All::All()''),
        (''../classfpmas_1_1io_1_1Reduce_1_1All.html#a0952bbd2d7bc86daaa2cedc1349afcc3'', 1, ''fpmas::io::Reduce::All::All()'')]),
      (''all_5freduce_1168'', ''all_reduce'', [(''../namespacefpmas_1_1communication.html#a995d226e4db6370704028965091c62ec'', 1, ''fpmas::communication'')]),
      (''allgather_1169'', ''allGather'', [(''../classfpmas_1_1api_1_1communication_1_1TypedMpi.html#a4467468344561d45cb5b7c9152909755'', 1, ''fpmas::api::communication::TypedMpi::allGather()''),
        (''../classfpmas_1_1communication_1_1MpiCommunicatorBase.html#a7a8af076f6d3f3a8ab12f3ae74e16607'', 1, ''fpmas::communication::MpiCommunicatorBase::allGather()''),
        (''../classfpmas_1_1communication_1_1detail_1_1TypedMpi.html#acc214ca22edfe3f99740465abfe6cdc5'', 1, ''fpmas::communication::detail::TypedMpi::allGather()''),
        (''../classfpmas_1_1api_1_1communication_1_1MpiCommunicator.html#a101d849fe127ed2d5a817ab717b4fb36'', 1, ''fpmas::api::communication::MpiCommunicator::allGather(DataPack data, MPI_Datatype datatype)=0'')]),
      (''alltoall_1170'', ''allToAll'', [(''../classfpmas_1_1api_1_1communication_1_1MpiCommunicator.html#a5f9b367a6b43c83d03aac44f7a132416'', 1, ''fpmas::api::communication::MpiCommunicator::allToAll()''),
        (''../classfpmas_1_1api_1_1communication_1_1TypedMpi.html#a5b328687c58688caa0c5ccb9f248d692'', 1, ''fpmas::api::communication::TypedMpi::allToAll()''),
        (''../classfpmas_1_1communication_1_1MpiCommunicatorBase.html#a8b15906a98da7a6b7abda750bc565b27'', 1, ''fpmas::communication::MpiCommunicatorBase::allToAll()''),
        (''../classfpmas_1_1communication_1_1detail_1_1TypedMpi.html#ac9d4043ee728fa56fbd62a9c8d6b9c9a'', 1, ''fpmas::communication::detail::TypedMpi::allToAll()'')]),
      (''at_1171'', ''at'', [(''../classfpmas_1_1model_1_1Neighbors.html#a70a4e60e1b587f83222fbcd28252d6b1'', 1, ''fpmas::model::Neighbors::at(std::size_t i)''),
        (''../classfpmas_1_1model_1_1Neighbors.html#a457b80946dd1b440bcf50cb704f63767'', 1, ''fpmas::model::Neighbors::at(std::size_t i) const'')]),
      (''autobreakpoint_1172'', ''AutoBreakpoint'', [(''../classfpmas_1_1model_1_1AutoBreakpoint.html#a79e50730ae2f622ad2d9e631f1e3b0aa'', 1, ''fpmas::model::AutoBreakpoint'')])]"

definition functions_2 :: "raw_entry list" where
  "functions_2 = [
      (''badidexception_1173'', ''BadIdException'', [(''../classfpmas_1_1exceptions_1_1BadIdException.html#a8134407be576c78f678ee34e2ec5278c'', 1, ''fpmas::exceptions::BadIdException'')]),
      (''badtypeexception_1174'', ''BadTypeException'', [(''../classfpmas_1_1exceptions_1_1BadTypeException.html#acadb20f90c99b8b3d3db250889757596'', 1, ''fpmas::exceptions::BadTypeException'')]),
      (''balance_1175'', ''balance'', [(''../classfpmas_1_1graph_1_1ZoltanLoadBalancing.html#a8ab28c34273f2d9c0da6443249ef5e7d'', 1, ''fpmas::graph::ZoltanLoadBalancing::balance(NodeMap&lt; T &gt; nodes, PartitionMap fixed_vertices) override''),
        (''../classfpmas_1_1graph_1_1ZoltanLoadBalancing.html#aef65a29932d06a728fbd45433e62b3e8'', 1, ''fpmas::graph::ZoltanLoadBalancing::balance(NodeMap&lt; T &gt; nodes) override''),
        (''../classfpmas_1_1graph_1_1ScheduledLoadBalancing.html#af42206d6d8beee9cdd1f64b3f2edc407'', 1, ''fpmas::graph::ScheduledLoadBalancing::balance()''),
        (''../classfpmas_1_1graph_1_1RandomLoadBalancing.html#a1211c1c4d2e8c3b4bbd27259478cb086'', 1, ''fpmas::graph::RandomLoadBalancing::balance(NodeMap&lt; T &gt; nodes, PartitionMap fixed_vertices) override''),
        (''../classfpmas_1_1graph_1_1RandomLoadBalancing.html#aa08a3348235b625f964bb05436f55c9e'', 1, ''fpmas::graph::RandomLoadBalancing::balance(NodeMap&lt; T &gt; nodes) override''),
        (''../classfpmas_1_1graph_1_1detail_1_1DistributedGraph.html#a2b37285e80423e400ec15a65b7f31af7'', 1, ''fpmas::graph::detail::DistributedGraph::balance(api::graph::FixedVerticesLoadBalancing&lt; T &gt; &amp;load_balancing, api::graph::PartitionMap fixed_vertices) override''),
        (''../classfpmas_1_1graph_1_1detail_1_1DistributedGraph.html#a02960142da8c4dc27095a13d1036e64e'', 1, ''fpmas::graph::detail::DistributedGraph::balance(api::graph::LoadBalancing&lt; T &gt; &amp;load_balancing) override''),
        (''../classfpmas_1_1api_1_1graph_1_1LoadBalancing.html#a1629c45867e061d72cefe1cc4b08aaa5'', 1, ''fpmas::api::graph::LoadBalancing::balance()''),
        (''../classfpmas_1_1api_1_1graph_1_1FixedVerticesLoadBalancing.html#a1f32907993058e2631a94ffc2e9b0136'', 1, ''fpmas::api::graph::FixedVerticesLoadBalancing::balance()''),
        (''../classfpmas_1_1api_1_1graph_1_1DistributedGraph.html#afa7aad6eaf0bd863cb5c26d9ec234588'', 1, ''fpmas::api::graph::DistributedGraph::balance(FixedVerticesLoadBalancing&lt; T &gt; &amp;lb, PartitionMap fixed_vertices)=0''),
        (''../classfpmas_1_1api_1_1graph_1_1DistributedGraph.html#ac0b0cfdab2d75e42a1364218fa98c949'', 1, ''fpmas::api::graph::DistributedGraph::balance(LoadBalancing&lt; T &gt; &amp;lb)=0'')]),
      (''barrier_1176'', ''barrier'', [(''../classfpmas_1_1api_1_1communication_1_1MpiCommunicator.html#ae37f7f1125a1b4d64b6532cde80c2af2'', 1, ''fpmas::api::communication::MpiCommunicator::barrier()''),
        (''../classfpmas_1_1communication_1_1MpiCommunicatorBase.html#ac0a7461172a712c13dbb3c58508468e0'', 1, ''fpmas::communication::MpiCommunicatorBase::barrier()'')]),
      (''bcast_1177'', ''bcast'', [(''../classfpmas_1_1api_1_1communication_1_1MpiCommunicator.html#af11cae5d82b403b8cfbb5f5b90954f24'', 1, ''fpmas::api::communication::MpiCommunicator::bcast()''),
        (''../classfpmas_1_1api_1_1communication_1_1TypedMpi.html#a8bd4875ef936980432f29608d44fbeaa'', 1, ''fpmas::api::communication::TypedMpi::bcast()''),
        (''../classfpmas_1_1communication_1_1MpiCommunicatorBase.html#adc9095a346c7a6714e4d85cf7a506665'', 1, ''fpmas::communication::MpiCommunicatorBase::bcast()''),
        (''../classfpmas_1_1communication_1_1detail_1_1TypedMpi.html#a44f063191045fad24846bcdaacdaae38'', 1, ''fpmas::communication::detail::TypedMpi::bcast()'')]),
      (''begin_1178'', ''begin'', [(''../classfpmas_1_1api_1_1scheduler_1_1Epoch.html#a798100d076fc1c51e7525b6a37c4cded'', 1, ''fpmas::api::scheduler::Epoch::begin()''),
        (''../classfpmas_1_1scheduler_1_1Epoch.html#a6a3fdc978c82fefee96f32d9706225df'', 1, ''fpmas::scheduler::Epoch::begin()''),
        (''../classfpmas_1_1scheduler_1_1Job.html#add3295b55deaef3c3af728f24f62f1c5'', 1, ''fpmas::scheduler::Job::begin()''),
        (''../classfpmas_1_1model_1_1Neighbors.html#a56c818e79c4f719ec93fba54803b28a9'', 1, ''fpmas::model::Neighbors::begin()''),
        (''../classfpmas_1_1model_1_1Neighbors.html#afc071896e3ffb674f432c1980374258d'', 1, ''fpmas::model::Neighbors::begin() const''),
        (''../classfpmas_1_1api_1_1scheduler_1_1Job.html#af97bd2f0a0fcecd53f0d80870722dcd3'', 1, ''fpmas::api::scheduler::Job::begin()'')]),
      (''behavior_1179'', ''behavior'', [(''../classfpmas_1_1api_1_1model_1_1AgentGroup.html#a180c86e59f53b0f09645cdf2746a7a93'', 1, ''fpmas::api::model::AgentGroup::behavior()''),
        (''../classfpmas_1_1model_1_1detail_1_1AgentGroupBase.html#af98ac509397bfaad074c0b885ace53b0'', 1, ''fpmas::model::detail::AgentGroupBase::behavior()'')]),
      (''behavior_1180'', ''Behavior'', [(''../classfpmas_1_1model_1_1Behavior.html#a9f1a78fcf300629763c3c3f8d3dc3243'', 1, ''fpmas::model::Behavior'')]),
      (''behaviorwithargs_1181'', ''BehaviorWithArgs'', [(''../classfpmas_1_1model_1_1BehaviorWithArgs.html#ae32c5437bcba19a888e11819d498b726'', 1, ''fpmas::model::BehaviorWithArgs'')]),
      (''bipartitegraphbuilder_1182'', ''BipartiteGraphBuilder'', [(''../classfpmas_1_1graph_1_1BipartiteGraphBuilder.html#aa8903f7e915e580f17f5d2280c5aa1aa'', 1, ''fpmas::graph::BipartiteGraphBuilder'')]),
      (''build_1183'', ''build'', [(''../classfpmas_1_1graph_1_1ClusteredGraphBuilder.html#ac55b80abb4cbbf5ccb65ebd302fdf462'', 1, ''fpmas::graph::ClusteredGraphBuilder::build()''),
        (''../classfpmas_1_1graph_1_1DistributedClusteredGraphBuilder.html#aa6a2b6e8a5b86b89dfbf3e7cd58aa390'', 1, ''fpmas::graph::DistributedClusteredGraphBuilder::build()''),
        (''../classfpmas_1_1graph_1_1BipartiteGraphBuilder.html#a41ff0977a203fb5ca90d79abe4ebc8e7'', 1, ''fpmas::graph::BipartiteGraphBuilder::build()''),
        (''../classfpmas_1_1model_1_1GridCellFactory.html#a93111bf960653da5015283822c876132'', 1, ''fpmas::model::GridCellFactory::build()''),
        (''../classfpmas_1_1model_1_1DefaultSpatialAgentFactory.html#a67f44b6c81a762d68d3e24093d025e74'', 1, ''fpmas::model::DefaultSpatialAgentFactory::build()''),
        (''../classfpmas_1_1model_1_1SpatialAgentBuilder.html#a7b2e69b833e00b58ecc13283db0f688f'', 1, ''fpmas::model::SpatialAgentBuilder::build()''),
        (''../classfpmas_1_1model_1_1VonNeumannGridBuilder.html#a19f29c5c0c034be136021e4647882c53'', 1, ''fpmas::model::VonNeumannGridBuilder::build(api::model::SpatialModel&lt; CellType &gt; &amp;spatial_model) const override''),
        (''../classfpmas_1_1model_1_1VonNeumannGridBuilder.html#ad67b8ad123711fb639efda811e916a55'', 1, ''fpmas::model::VonNeumannGridBuilder::build(api::model::SpatialModel&lt; CellType &gt; &amp;spatial_model, api::model::GroupList groups) const override''),
        (''../classfpmas_1_1scheduler_1_1Scheduler.html#a7b75e2cc25be7fdd0fa2e509f7d04f86'', 1, ''fpmas::scheduler::Scheduler::build()''),
        (''../classfpmas_1_1api_1_1model_1_1CellNetworkBuilder.html#a9ddeff6e5b704df3ee92c8d79c008074'', 1, ''fpmas::api::model::CellNetworkBuilder::build()''),
        (''../classfpmas_1_1graph_1_1UniformGraphBuilder.html#a23519d18f87f2d566363b160ed269dbd'', 1, ''fpmas::graph::UniformGraphBuilder::build()''),
        (''../classfpmas_1_1api_1_1scheduler_1_1Scheduler.html#ae4784aa2e370b7f372a8491eff1f6eb8'', 1, ''fpmas::api::scheduler::Scheduler::build()''),
        (''../classfpmas_1_1api_1_1model_1_1SpatialAgentBuilder.html#a9c4f3bec1dc913589b87b41211c8331d'', 1, ''fpmas::api::model::SpatialAgentBuilder::build()''),
        (''../classfpmas_1_1api_1_1model_1_1SpatialAgentFactory.html#a05da330d86d31d78f7bbad31abea13bb'', 1, ''fpmas::api::model::SpatialAgentFactory::build()''),
        (''../classfpmas_1_1api_1_1model_1_1CellNetworkBuilder.html#adb8b3824a438f9b5e19d0a2332dd11b6'', 1, ''fpmas::api::model::CellNetworkBuilder::build()''),
        (''../classfpmas_1_1api_1_1model_1_1GridCellFactory.html#ae1eeb790a9d2ca1f3c3cc7b1dab7eca1'', 1, ''fpmas::api::model::GridCellFactory::build()''),
        (''../classfpmas_1_1api_1_1graph_1_1DistributedGraphBuilder.html#add1dc8b412ac88c926cdc623da104bb0'', 1, ''fpmas::api::graph::DistributedGraphBuilder::build()''),
        (''../classfpmas_1_1api_1_1graph_1_1GraphBuilder.html#a2d2ec86d834bc22e0390154af5190c64'', 1, ''fpmas::api::graph::GraphBuilder::build()''),
        (''../classfpmas_1_1graph_1_1DistributedUniformGraphBuilder.html#a4ee44db24429b2e520aa20dccdc4eb4e'', 1, ''fpmas::graph::DistributedUniformGraphBuilder::build()'')]),
      (''builddistantnode_1184'', ''buildDistantNode'', [(''../classfpmas_1_1api_1_1graph_1_1DistributedNodeBuilder.html#a6c59bd293d7d5fdebc6b33e1f41b2c1d'', 1, ''fpmas::api::graph::DistributedNodeBuilder::buildDistantNode()''),
        (''../classfpmas_1_1model_1_1DistributedAgentNodeBuilder.html#a5e8b29e5bf3df3481ce25fd10492130f'', 1, ''fpmas::model::DistributedAgentNodeBuilder::buildDistantNode()'')]),
      (''buildgroup_1185'', ''buildGroup'', [(''../classfpmas_1_1model_1_1detail_1_1Model.html#a11ee6be6c0571436bce373fe424435fe'', 1, ''fpmas::model::detail::Model::buildGroup(api::model::GroupId id) override''),
        (''../classfpmas_1_1model_1_1detail_1_1Model.html#a769940403906b13e6901bd3a082d179b'', 1, ''fpmas::model::detail::Model::buildGroup(api::model::GroupId id, const api::model::Behavior &amp;behavior) override''),
        (''../classfpmas_1_1api_1_1model_1_1Model.html#a8bce9454391541e06fd4e7de67492009'', 1, ''fpmas::api::model::Model::buildGroup(GroupId id, const Behavior &amp;behavior)=0''),
        (''../classfpmas_1_1api_1_1model_1_1Model.html#a1d8b68afd855c58f023253debf25b476'', 1, ''fpmas::api::model::Model::buildGroup(GroupId id)=0'')]),
      (''buildmovegroup_1186'', ''buildMoveGroup'', [(''../classfpmas_1_1api_1_1model_1_1SpatialModel.html#a4f2536b755ae8fca7ae0c5078cd4c613'', 1, ''fpmas::api::model::SpatialModel::buildMoveGroup()''),
        (''../classfpmas_1_1model_1_1SpatialModel.html#aaf48758e06bf0a959a7303cdda801d58'', 1, ''fpmas::model::SpatialModel::buildMoveGroup()'')]),
      (''buildmutex_1187'', ''buildMutex'', [(''../classfpmas_1_1api_1_1synchro_1_1SyncMode.html#a17006734be2eaf69ad26cf26c629f4d4'', 1, ''fpmas::api::synchro::SyncMode::buildMutex()''),
        (''../classfpmas_1_1synchro_1_1ghost_1_1GhostMode.html#a8645799020069856c2738f5e14599cba'', 1, ''fpmas::synchro::ghost::GhostMode::buildMutex()''),
        (''../classfpmas_1_1synchro_1_1hard_1_1HardSyncMode.html#a93c8a5797911553133e29511deefd9bf'', 1, ''fpmas::synchro::hard::HardSyncMode::buildMutex()'')]),
      (''buildnode_1188'', ''buildNode'', [(''../classfpmas_1_1api_1_1graph_1_1DistributedGraph.html#ad9a7ca58d53e04a42d3a977f3c30e7ac'', 1, ''fpmas::api::graph::DistributedGraph::buildNode(T &amp;&amp;data)=0''),
        (''../classfpmas_1_1api_1_1graph_1_1DistributedGraph.html#a6b50a15bcd495829c2afccaebb514075'', 1, ''fpmas::api::graph::DistributedGraph::buildNode(const T &amp;data)=0''),
        (''../classfpmas_1_1api_1_1graph_1_1NodeBuilder.html#a7d5aa5165064ec74c221e543338336c7'', 1, ''fpmas::api::graph::NodeBuilder::buildNode()''),
        (''../classfpmas_1_1graph_1_1detail_1_1DistributedGraph.html#ab54c86b9d2861ac12f92860487b10255'', 1, ''fpmas::graph::detail::DistributedGraph::buildNode(T &amp;&amp;=std::move(T())) override''),
        (''../classfpmas_1_1graph_1_1detail_1_1DistributedGraph.html#a324f9664d9aae4938330bfb55285152c'', 1, ''fpmas::graph::detail::DistributedGraph::buildNode(const T &amp;) override''),
        (''../classfpmas_1_1model_1_1AgentNodeBuilder.html#af212180249f6119221dedfca65a36647'', 1, ''fpmas::model::AgentNodeBuilder::buildNode()''),
        (''../classfpmas_1_1model_1_1DistributedAgentNodeBuilder.html#ad12dfe2670c80d18e04165ac8160099d'', 1, ''fpmas::model::DistributedAgentNodeBuilder::buildNode()'')])]"

definition functions_3 :: "raw_entry list" where
  "functions_3 = [
      (''call_1189'', ''call'', [(''../classfpmas_1_1model_1_1detail_1_1InsertAgentNodeCallback.html#a8b32ed2b4785db61f25a93f9c0b0db80'', 1, ''fpmas::model::detail::InsertAgentNodeCallback::call()''),
        (''../classfpmas_1_1api_1_1utils_1_1Callback.html#a88976cea6d42ec35565aa077cbc84ecc'', 1, ''fpmas::api::utils::Callback::call()''),
        (''../classfpmas_1_1utils_1_1VoidCallback.html#a2b2fba181f46dec9ad430d7801945461'', 1, ''fpmas::utils::VoidCallback::call()''),
        (''../classfpmas_1_1model_1_1detail_1_1SetAgentDistantCallback.html#ad07f35feff79f9ce9461092b5977f3d0'', 1, ''fpmas::model::detail::SetAgentDistantCallback::call()''),
        (''../classfpmas_1_1model_1_1detail_1_1EraseAgentNodeCallback.html#ad0a233ecd206addde64deae04caef0ce'', 1, ''fpmas::model::detail::EraseAgentNodeCallback::call()''),
        (''../classfpmas_1_1model_1_1detail_1_1SetAgentLocalCallback.html#aaa4d7f4653d55f1b6f7bc09755c4aebf'', 1, ''fpmas::model::detail::SetAgentLocalCallback::call()'')]),
      (''callcount_1190'', ''callCount'', [(''../classfpmas_1_1api_1_1utils_1_1perf_1_1Monitor.html#afe6cf985b0f9f2527955f41dc58e0c46'', 1, ''fpmas::api::utils::perf::Monitor::callCount()''),
        (''../classfpmas_1_1utils_1_1perf_1_1Monitor.html#a891d14ad88e25a9d4d4858178de1f1c5'', 1, ''fpmas::utils::perf::Monitor::callCount()'')]),
      (''cellgroup_1191'', ''cellGroup'', [(''../classfpmas_1_1api_1_1model_1_1SpatialModel.html#acf469434297a67605add55df898f846c'', 1, ''fpmas::api::model::SpatialModel::cellGroup()''),
        (''../classfpmas_1_1model_1_1SpatialModel.html#a56b2804653450545a436eca738b26d7e'', 1, ''fpmas::model::SpatialModel::cellGroup()'')]),
      (''cells_1192'', ''cells'', [(''../classfpmas_1_1api_1_1model_1_1SpatialModel.html#ad9ddb3a685e4016ca6f7e809e3eb7470'', 1, ''fpmas::api::model::SpatialModel::cells()''),
        (''../classfpmas_1_1model_1_1SpatialModel.html#aafd3cff1eb0b642291b94652950df909'', 1, ''fpmas::model::SpatialModel::cells()'')]),
      (''clear_1193'', ''clear'', [(''../classfpmas_1_1api_1_1model_1_1Model.html#a0fc2aacb27a79625e27847ccdb266c1a'', 1, ''fpmas::api::model::Model::clear()''),
        (''../classfpmas_1_1scheduler_1_1Epoch.html#ac73a8ffa943581eaf98cb20193c027b1'', 1, ''fpmas::scheduler::Epoch::clear()''),
        (''../classfpmas_1_1model_1_1detail_1_1Model.html#a05329bcadff3ecdb9be26ff38cf7ceae'', 1, ''fpmas::model::detail::Model::clear()''),
        (''../classfpmas_1_1model_1_1detail_1_1AgentGroupBase.html#a9a3e62b2793d98b3f47ecbda79b8a4d0'', 1, ''fpmas::model::detail::AgentGroupBase::clear()''),
        (''../classfpmas_1_1graph_1_1Graph.html#aafc4a1d95717c75826573e956a43f9e6'', 1, ''fpmas::graph::Graph::clear()''),
        (''../classfpmas_1_1api_1_1scheduler_1_1Epoch.html#a9bf0feab827f0d94f19bd575b3728752'', 1, ''fpmas::api::scheduler::Epoch::clear()''),
        (''../classfpmas_1_1api_1_1model_1_1AgentGroup.html#a4b1291454e7fede2b78c068d480f8ca3'', 1, ''fpmas::api::model::AgentGroup::clear()''),
        (''../classfpmas_1_1api_1_1graph_1_1Graph.html#a1af6fa1d78d3be3139bab03de3c14761'', 1, ''fpmas::api::graph::Graph::clear()'')]),
      (''clearreachablecells_1194'', ''clearReachableCells'', [(''../classfpmas_1_1model_1_1ReachableCell.html#ab05b5ad39cea96e754f89b10f8c829e7'', 1, ''fpmas::model::ReachableCell'')]),
      (''clusteredgraphbuilder_1195'', ''ClusteredGraphBuilder'', [(''../classfpmas_1_1graph_1_1ClusteredGraphBuilder.html#aa7a94f7ee42cd49ebe9b1801d423bc2c'', 1, ''fpmas::graph::ClusteredGraphBuilder::ClusteredGraphBuilder(Generator_t &amp;generator, EdgeDist &amp;edge_distribution, X_Dist &amp;x_distribution, Y_Dist &amp;y_distribution)''),
        (''../classfpmas_1_1graph_1_1ClusteredGraphBuilder.html#a07b21f07b11c904ee889eda7fbc0e456'', 1, ''fpmas::graph::ClusteredGraphBuilder::ClusteredGraphBuilder(Generator_t &amp;generator, Distribution_t &amp;edge_distribution)'')]),
      (''commit_1196'', ''commit'', [(''../classfpmas_1_1api_1_1utils_1_1perf_1_1Monitor.html#a34e1f2299ed671d9f762c68b653a1edf'', 1, ''fpmas::api::utils::perf::Monitor::commit()''),
        (''../classfpmas_1_1utils_1_1perf_1_1Monitor.html#a8d844ee381ba58b48bc72c712dbcb863'', 1, ''fpmas::utils::perf::Monitor::commit()'')]),
      (''constrainedgridagentmapping_1197'', ''ConstrainedGridAgentMapping'', [(''../classfpmas_1_1model_1_1ConstrainedGridAgentMapping.html#a3ce45fdc5eb149472288bf2436182afe'', 1, ''fpmas::model::ConstrainedGridAgentMapping'')]),
      (''contains_1198'', ''contains'', [(''../classfpmas_1_1api_1_1model_1_1Range.html#a43c4a503c7555c5fd5209a7f5ff8cbaf'', 1, ''fpmas::api::model::Range::contains()''),
        (''../classfpmas_1_1model_1_1GraphRange.html#a204ca1e95f5c46c361cdf0ee7295f4d9'', 1, ''fpmas::model::GraphRange::contains()''),
        (''../classfpmas_1_1model_1_1GridRange.html#a6343d917bf0e73a0963a7c5884586247'', 1, ''fpmas::model::GridRange::contains()'')]),
      (''copy_1199'', ''copy'', [(''../classfpmas_1_1api_1_1model_1_1Agent.html#ad59c0cbb0ae1e679d73f6f1461111956'', 1, ''fpmas::api::model::Agent::copy()''),
        (''../classfpmas_1_1model_1_1AgentBase.html#aef7eb3a6e742edac7a87896b743399c5'', 1, ''fpmas::model::AgentBase::copy()'')]),
      (''copyassign_1200'', ''copyAssign'', [(''../classfpmas_1_1api_1_1model_1_1Agent.html#a1c0f5ae0694d053a6b4516e807accbfe'', 1, ''fpmas::api::model::Agent::copyAssign()''),
        (''../classfpmas_1_1model_1_1AgentBase.html#a761c00e5cc0ae3757dc883cabf765904'', 1, ''fpmas::model::AgentBase::copyAssign()'')]),
      (''count_1201'', ''count'', [(''../classfpmas_1_1model_1_1Neighbors.html#ac50d0dc8883bf182e29e6a19405a2593'', 1, ''fpmas::model::Neighbors'')]),
      (''countat_1202'', ''countAt'', [(''../classfpmas_1_1model_1_1RandomGridAgentMapping.html#a9feca01c4145acf812d3a56745e5e07a'', 1, ''fpmas::model::RandomGridAgentMapping::countAt()''),
        (''../classfpmas_1_1model_1_1UniformAgentMapping.html#ad3f4c836a73e06c61e61c663c65d2a01'', 1, ''fpmas::model::UniformAgentMapping::countAt()''),
        (''../classfpmas_1_1model_1_1ConstrainedGridAgentMapping.html#a82c4b4600ad8c7ce7a5fd81ef23dfe7b'', 1, ''fpmas::model::ConstrainedGridAgentMapping::countAt()''),
        (''../classfpmas_1_1api_1_1model_1_1SpatialAgentMapping.html#a71bc05abd502139fea93e8964bbd7b2f'', 1, ''fpmas::api::model::SpatialAgentMapping::countAt()'')]),
      (''csvoutput_1203'', ''CsvOutput'', [(''../classfpmas_1_1io_1_1CsvOutput.html#a965dc2e2281b3cea581f41a0b72523ed'', 1, ''fpmas::io::CsvOutput'')]),
      (''csvoutputbase_1204'', ''CsvOutputBase'', [(''../classfpmas_1_1io_1_1CsvOutputBase.html#a322eba604b23d08bdaf8268d74181402'', 1, ''fpmas::io::CsvOutputBase'')]),
      (''currentdate_1205'', ''currentDate'', [(''../classfpmas_1_1api_1_1runtime_1_1Runtime.html#a7264a42ca0256668394d58c500445ad0'', 1, ''fpmas::api::runtime::Runtime::currentDate()''),
        (''../classfpmas_1_1runtime_1_1Runtime.html#ae80edd27565b8b1cbcf0233aaa061119'', 1, ''fpmas::runtime::Runtime::currentDate()'')]),
      (''currentedgeid_1206'', ''currentEdgeId'', [(''../classfpmas_1_1api_1_1graph_1_1DistributedGraph.html#a7a04cae4697d27e7e7a71f8a115705a2'', 1, ''fpmas::api::graph::DistributedGraph::currentEdgeId()''),
        (''../classfpmas_1_1graph_1_1detail_1_1DistributedGraph.html#ae06631520004ad1056437d5fbb8debc3'', 1, ''fpmas::graph::detail::DistributedGraph::currentEdgeId()'')]),
      (''currentnodeid_1207'', ''currentNodeId'', [(''../classfpmas_1_1api_1_1graph_1_1DistributedGraph.html#a869e1d9294aa6d1e4e9ca4b35a3547f3'', 1, ''fpmas::api::graph::DistributedGraph::currentNodeId()''),
        (''../classfpmas_1_1graph_1_1detail_1_1DistributedGraph.html#ae038a51dca2e5f957e93c56e80b827cc'', 1, ''fpmas::graph::detail::DistributedGraph::currentNodeId()'')])]"

definition functions_4 :: "raw_entry list" where
  "functions_4 = [
      (''data_1208'', ''data'', [(''../classfpmas_1_1api_1_1graph_1_1DistributedNode.html#ad9d35e5aef703945a2a789a0c2349c3e'', 1, ''fpmas::api::graph::DistributedNode::data() const =0''),
        (''../classfpmas_1_1api_1_1graph_1_1DistributedNode.html#ab2bc02a3e06cfd758161013039a84cee'', 1, ''fpmas::api::graph::DistributedNode::data()=0''),
        (''../classfpmas_1_1synchro_1_1hard_1_1HardSyncMutex.html#a90bea0ebea315589a5722d41d3d82dd5'', 1, ''fpmas::synchro::hard::HardSyncMutex::data() const override''),
        (''../classfpmas_1_1synchro_1_1hard_1_1HardSyncMutex.html#a84c0227e62d47c8e0b45c3423ae3fab6'', 1, ''fpmas::synchro::hard::HardSyncMutex::data() override''),
        (''../classfpmas_1_1synchro_1_1ghost_1_1SingleThreadMutex.html#a03a86b7d078e0f6813d1b5ad883c4d1f'', 1, ''fpmas::synchro::ghost::SingleThreadMutex::data() const override''),
        (''../classfpmas_1_1synchro_1_1ghost_1_1SingleThreadMutex.html#a6fcea91dd28c91d5a631b23d2f42e16f'', 1, ''fpmas::synchro::ghost::SingleThreadMutex::data() override''),
        (''../classfpmas_1_1graph_1_1DistributedNode.html#ad191c830c7919b7c8ed4265983af8016'', 1, ''fpmas::graph::DistributedNode::data()''),
        (''../classfpmas_1_1api_1_1synchro_1_1Mutex.html#afce2f32658849db02cb145147bf4be27'', 1, ''fpmas::api::synchro::Mutex::data() const =0''),
        (''../classfpmas_1_1api_1_1synchro_1_1Mutex.html#a0336feaf53f0e90bac930896b4500320'', 1, ''fpmas::api::synchro::Mutex::data()=0''),
        (''../classfpmas_1_1graph_1_1DistributedNode.html#a8f2a12b8b289cfa22dd0f63afab9545b'', 1, ''fpmas::graph::DistributedNode::data()'')]),
      (''datapack_1209'', ''DataPack'', [(''../classfpmas_1_1api_1_1communication_1_1DataPack.html#af6668237263b5c34770661052b3512ad'', 1, ''fpmas::api::communication::DataPack::DataPack(int count, size_t data_size)''),
        (''../classfpmas_1_1api_1_1communication_1_1DataPack.html#a78fcdfd042fbcc8280890acc3051d63f'', 1, ''fpmas::api::communication::DataPack::DataPack()''),
        (''../classfpmas_1_1api_1_1communication_1_1DataPack.html#af9409fb3a8afc3f497431e1367a6e64a'', 1, ''fpmas::api::communication::DataPack::DataPack(const DataPack &amp;other)''),
        (''../classfpmas_1_1api_1_1communication_1_1DataPack.html#a27c701df159c117021cf8e65f779bc97'', 1, ''fpmas::api::communication::DataPack::DataPack(DataPack &amp;&amp;other)'')]),
      (''dataupdatepack_1210'', ''DataUpdatePack'', [(''../structfpmas_1_1synchro_1_1DataUpdatePack.html#ae08e98fac562aa2ee7c0390a668bc213'', 1, ''fpmas::synchro::DataUpdatePack'')]),
      (''discretepoint_1211'', ''DiscretePoint'', [(''../structfpmas_1_1api_1_1model_1_1DiscretePoint.html#af82cb16467d7540b28995325ac1f9585'', 1, ''fpmas::api::model::DiscretePoint::DiscretePoint()''),
        (''../structfpmas_1_1api_1_1model_1_1DiscretePoint.html#a3c7a8b585b06facfa6edcc599913d156'', 1, ''fpmas::api::model::DiscretePoint::DiscretePoint(DiscreteCoordinate x, DiscreteCoordinate y)'')]),
      (''distance_1212'', ''distance'', [(''../structfpmas_1_1graph_1_1detail_1_1Point.html#a0a523ee493b89bb0cf94974ab2291cb9'', 1, ''fpmas::graph::detail::Point'')]),
      (''distancecomparator_1213'', ''DistanceComparator'', [(''../classfpmas_1_1graph_1_1detail_1_1DistanceComparator.html#accc29d4aade606b519af3df92a565948'', 1, ''fpmas::graph::detail::DistanceComparator'')]),
      (''distribute_1214'', ''distribute'', [(''../classfpmas_1_1api_1_1graph_1_1DistributedGraph.html#a63f19151be3a12d5cd4f996e161353ee'', 1, ''fpmas::api::graph::DistributedGraph::distribute()''),
        (''../classfpmas_1_1graph_1_1detail_1_1DistributedGraph.html#ae1474c6efdd1cee5345bedea3dfa93d6'', 1, ''fpmas::graph::detail::DistributedGraph::distribute()'')]),
      (''distributedagentnodebuilder_1215'', ''DistributedAgentNodeBuilder'', [(''../classfpmas_1_1model_1_1DistributedAgentNodeBuilder.html#ad1f2f6d01dc9d476a3a8d79ec7b0c6c4'', 1, ''fpmas::model::DistributedAgentNodeBuilder::DistributedAgentNodeBuilder(api::model::AgentGroup &amp;group, std::size_t agent_count, std::function&lt; api::model::Agent *()&gt; allocator, api::communication::MpiCommunicator &amp;comm)''),
        (''../classfpmas_1_1model_1_1DistributedAgentNodeBuilder.html#a6c4365b77836de7b442be37b2864ecd7'', 1, ''fpmas::model::DistributedAgentNodeBuilder::DistributedAgentNodeBuilder(api::model::AgentGroup &amp;group, std::size_t agent_count, std::function&lt; api::model::Agent *()&gt; allocator, std::function&lt; api::model::Agent *()&gt; distant_allocator, api::communication::MpiCommunicator &amp;comm)'')]),
      (''distributedclusteredgraphbuilder_1216'', ''DistributedClusteredGraphBuilder'', [(''../classfpmas_1_1graph_1_1DistributedClusteredGraphBuilder.html#a698a1d6f5b67d1387a0018431cf01282'', 1, ''fpmas::graph::DistributedClusteredGraphBuilder::DistributedClusteredGraphBuilder(random::DistributedGenerator&lt;&gt; &amp;generator, EdgeDist &amp;edge_distribution, X_Dist &amp;x_distribution, Y_Dist &amp;y_distribution)''),
        (''../classfpmas_1_1graph_1_1DistributedClusteredGraphBuilder.html#adcf2274c543698f869618dc14683b781'', 1, ''fpmas::graph::DistributedClusteredGraphBuilder::DistributedClusteredGraphBuilder(random::DistributedGenerator&lt;&gt; &amp;generator, EdgeDist &amp;edge_distribution)'')]),
      (''distributedcsvfield_1217'', ''DistributedCsvField'', [(''../structfpmas_1_1io_1_1DistributedCsvField.html#a177ec8404f2b74f7aab604af02b662ca'', 1, ''fpmas::io::DistributedCsvField'')]),
      (''distributedcsvoutput_1218'', ''DistributedCsvOutput'', [(''../classfpmas_1_1io_1_1DistributedCsvOutput.html#aefea98f84504f3d4966e59ebf5ede315'', 1, ''fpmas::io::DistributedCsvOutput::DistributedCsvOutput(api::communication::MpiCommunicator &amp;comm, int root, api::io::OutputStream &amp;output_stream, DistributedCsvField&lt; DataFieldOperation &gt;... csv_fields)''),
        (''../classfpmas_1_1io_1_1DistributedCsvOutput.html#a53665bf3635a455e2232ff247d04cd68'', 1, ''fpmas::io::DistributedCsvOutput::DistributedCsvOutput(api::communication::MpiCommunicator &amp;comm, api::io::OutputStream &amp;output_stream, DistributedCsvField&lt; DataFieldOperation &gt;... csv_fields)'')]),
      (''distributededge_1219'', ''DistributedEdge'', [(''../classfpmas_1_1graph_1_1DistributedEdge.html#a9e108d8f1f746715683f00d117968148'', 1, ''fpmas::graph::DistributedEdge'')]),
      (''distributedgenerator_1220'', ''DistributedGenerator'', [(''../classfpmas_1_1random_1_1DistributedGenerator.html#a285207a7b74869a40576423d4c323fd2'', 1, ''fpmas::random::DistributedGenerator::DistributedGenerator()''),
        (''../classfpmas_1_1random_1_1DistributedGenerator.html#a0c14b8645eb1570dcf9b98afa343abd9'', 1, ''fpmas::random::DistributedGenerator::DistributedGenerator(result_type seed)'')]),
      (''distributedgraph_1221'', ''DistributedGraph'', [(''../classfpmas_1_1graph_1_1detail_1_1DistributedGraph.html#a786bec7024a4fb6a9640cbf9fea1daba'', 1, ''fpmas::graph::detail::DistributedGraph::DistributedGraph(DistributedGraph&lt; DIST_GRAPH_PARAMS_SPEC &gt; &amp;&amp;graph)''),
        (''../classfpmas_1_1graph_1_1detail_1_1DistributedGraph.html#a1c4bb7866d8bbbd4b1b84eed69775404'', 1, ''fpmas::graph::detail::DistributedGraph::DistributedGraph(api::communication::MpiCommunicator &amp;comm)'')]),
      (''distributedid_1222'', ''DistributedId'', [(''../classfpmas_1_1api_1_1graph_1_1DistributedId.html#a773bf9124de180c4c4a5b22ec858a052'', 1, ''fpmas::api::graph::DistributedId::DistributedId(const MpiDistributedId &amp;mpi_id)''),
        (''../classfpmas_1_1api_1_1graph_1_1DistributedId.html#a413336d079c79aeec4e77f75966b9ea6'', 1, ''fpmas::api::graph::DistributedId::DistributedId()''),
        (''../classfpmas_1_1api_1_1graph_1_1DistributedId.html#a1d887c7dede86c1e5f84315558a2fe34'', 1, ''fpmas::api::graph::DistributedId::DistributedId(int rank)''),
        (''../classfpmas_1_1api_1_1graph_1_1DistributedId.html#a128b591c7f1b8a14fba5ec1fbdae7ff6'', 1, ''fpmas::api::graph::DistributedId::DistributedId(int rank, FPMAS_ID_TYPE id)'')]),
      (''distributedmovealgorithm_1223'', ''DistributedMoveAlgorithm'', [(''../classfpmas_1_1model_1_1DistributedMoveAlgorithm.html#a1d77ecb6a58f6788296753705fdaf36f'', 1, ''fpmas::model::DistributedMoveAlgorithm'')]),
      (''distributedmovealgorithm_1224'', ''distributedMoveAlgorithm'', [(''../classfpmas_1_1api_1_1model_1_1MoveAgentGroup.html#a64876ccbf75cbaf3750f72092dcdf2fe'', 1, ''fpmas::api::model::MoveAgentGroup::distributedMoveAlgorithm()''),
        (''../classfpmas_1_1model_1_1MoveAgentGroup.html#ae6e71f002490c5dfc9ccc3b9e38cbc15'', 1, ''fpmas::model::MoveAgentGroup::distributedMoveAlgorithm()'')]),
      (''distributednode_1225'', ''DistributedNode'', [(''../classfpmas_1_1graph_1_1DistributedNode.html#aef053fcb8f8e80802df145806bfac0a0'', 1, ''fpmas::graph::DistributedNode::DistributedNode(const DistributedId &amp;id, const T &amp;data)''),
        (''../classfpmas_1_1graph_1_1DistributedNode.html#a80c606e453afcf275570772af2394f87'', 1, ''fpmas::graph::DistributedNode::DistributedNode(const DistributedId &amp;id, T &amp;&amp;data)'')]),
      (''distributednodebuilder_1226'', ''DistributedNodeBuilder'', [(''../classfpmas_1_1graph_1_1DistributedNodeBuilder.html#a8539443b7c62b37f93e78ebc93cbafb7'', 1, ''fpmas::graph::DistributedNodeBuilder'')]),
      (''distributeduniformgraphbuilder_1227'', ''DistributedUniformGraphBuilder'', [(''../classfpmas_1_1graph_1_1DistributedUniformGraphBuilder.html#ac427398cbc238820174c2c7e65edb5b1'', 1, ''fpmas::graph::DistributedUniformGraphBuilder'')]),
      (''distribution_1228'', ''Distribution'', [(''../classfpmas_1_1random_1_1Distribution.html#a14d7cf56f2ed22e1ece047faeabdc264'', 1, ''fpmas::random::Distribution'')]),
      (''dump_1229'', ''dump'', [(''../classfpmas_1_1api_1_1io_1_1Breakpoint.html#a725fda5d778dfebf3d5a989a39839b63'', 1, ''fpmas::api::io::Breakpoint::dump()''),
        (''../classfpmas_1_1api_1_1io_1_1Output.html#a8e0704b42bb274d7a9b35a6c27b3e691'', 1, ''fpmas::api::io::Output::dump()''),
        (''../classfpmas_1_1io_1_1Breakpoint.html#a5faae863a64c6c8c5f20aff0b0cf3b80'', 1, ''fpmas::io::Breakpoint::dump()''),
        (''../classfpmas_1_1io_1_1CsvOutput.html#a58b087420bc2301c0594eb6a7352cd1e'', 1, ''fpmas::io::CsvOutput::dump()''),
        (''../classfpmas_1_1io_1_1DistributedCsvOutput.html#a4c157888ea663ecf58c30cd344b0be68'', 1, ''fpmas::io::DistributedCsvOutput::dump()''),
        (''../classfpmas_1_1io_1_1JsonOutput.html#a42f437357f992c41b50483b31107a7c3'', 1, ''fpmas::io::JsonOutput::dump()'')]),
      (''dump_5fcsv_1230'', ''dump_csv'', [(''../classfpmas_1_1io_1_1CsvOutputBase.html#a853082805fda1c9fa9c202a47c584d75'', 1, ''fpmas::io::CsvOutputBase'')]),
      (''dump_5ffields_1231'', ''dump_fields'', [(''../classfpmas_1_1io_1_1CsvOutputBase.html#a5f6dbc9427cadeab1d01af9802fd6ad1'', 1, ''fpmas::io::CsvOutputBase'')]),
      (''durations_1232'', ''durations'', [(''../classfpmas_1_1api_1_1utils_1_1perf_1_1Probe.html#a36b0c21a4f149a69061f0c5927d3b38b'', 1, ''fpmas::api::utils::perf::Probe::durations()=0''),
        (''../classfpmas_1_1api_1_1utils_1_1perf_1_1Probe.html#aafa876c74be2dd772d28f610449bd9d7'', 1, ''fpmas::api::utils::perf::Probe::durations() const =0''),
        (''../classfpmas_1_1utils_1_1perf_1_1Probe.html#a1ab5a4ba053e15b2fdabb9bcb310b58e'', 1, ''fpmas::utils::perf::Probe::durations() override''),
        (''../classfpmas_1_1utils_1_1perf_1_1Probe.html#a01c1059f8b40eaa6b5f28811f2ab64d8'', 1, ''fpmas::utils::perf::Probe::durations() const override'')]),
      (''dynamicfileoutput_1233'', ''DynamicFileOutput'', [(''../classfpmas_1_1io_1_1DynamicFileOutput.html#a0909faf52ec9fa45b200bd29c5ce3f82'', 1, ''fpmas::io::DynamicFileOutput'')])]"

definition functions_5 :: "raw_entry list" where
  "functions_5 = [
      (''edge_1234'', ''edge'', [(''../classfpmas_1_1model_1_1Neighbor.html#a95f54fa18df4bbe525b896fb9edf5e7d'', 1, ''fpmas::model::Neighbor'')]),
      (''edge_1235'', ''Edge'', [(''../classfpmas_1_1graph_1_1Edge.html#a2c1fc18e1d531cdde775ac749bea1771'', 1, ''fpmas::graph::Edge'')]),
      (''edge_5flist_5fmulti_5ffn_1236'', ''edge_list_multi_fn'', [(''../namespacefpmas_1_1graph_1_1zoltan.html#a86a5f07e18ce5f952fffd692edb0fe9c'', 1, ''fpmas::graph::zoltan'')]),
      (''empty_1237'', ''empty'', [(''../classfpmas_1_1model_1_1Neighbors.html#a40664699c17b1779c7f22272b71be904'', 1, ''fpmas::model::Neighbors'')]),
      (''end_1238'', ''end'', [(''../classfpmas_1_1api_1_1scheduler_1_1Job.html#a27b5adc38325a9f84b8e2782a8413259'', 1, ''fpmas::api::scheduler::Job::end()''),
        (''../classfpmas_1_1scheduler_1_1Epoch.html#a32779cb10e05ad37236d6eff64e4d80d'', 1, ''fpmas::scheduler::Epoch::end()''),
        (''../classfpmas_1_1scheduler_1_1Job.html#a7c57b793ec609a05bdf3629f3d67a050'', 1, ''fpmas::scheduler::Job::end()''),
        (''../classfpmas_1_1model_1_1DynamicEndCondition.html#a28c8bf32e6ac83a8f4767987b83b5652'', 1, ''fpmas::model::DynamicEndCondition::end()''),
        (''../classfpmas_1_1model_1_1Neighbors.html#a4906c16100a6723564ff76f473b3ca40'', 1, ''fpmas::model::Neighbors::end()''),
        (''../classfpmas_1_1api_1_1model_1_1EndCondition.html#a54925f9791bde68eb023560a262f6a7e'', 1, ''fpmas::api::model::EndCondition::end()''),
        (''../classfpmas_1_1api_1_1scheduler_1_1Epoch.html#a73de9e1e61fe671e1bbcf3394bf6c99d'', 1, ''fpmas::api::scheduler::Epoch::end()''),
        (''../classfpmas_1_1model_1_1Neighbors.html#aef64cb7e387c460d10749c5854cbed26'', 1, ''fpmas::model::Neighbors::end()''),
        (''../classfpmas_1_1model_1_1StaticEndCondition.html#aa6090405b8565c7386d45d351daa9f6f'', 1, ''fpmas::model::StaticEndCondition::end()'')]),
      (''erase_1239'', ''erase'', [(''../classfpmas_1_1api_1_1graph_1_1Graph.html#a27ee97fe167715eda7e45943d329ed02'', 1, ''fpmas::api::graph::Graph::erase()''),
        (''../classfpmas_1_1model_1_1detail_1_1AgentGroupBase.html#a1d256769ad4288132d4215adf3613014'', 1, ''fpmas::model::detail::AgentGroupBase::erase()''),
        (''../classfpmas_1_1graph_1_1Graph.html#acef1a514dac770a2494e94eee1be3e20'', 1, ''fpmas::graph::Graph::erase(EdgeType *) override''),
        (''../classfpmas_1_1graph_1_1Graph.html#ac77c74d7ccdf20a9e08815466f38a62e'', 1, ''fpmas::graph::Graph::erase(NodeType *) override''),
        (''../classfpmas_1_1api_1_1model_1_1AgentGroup.html#ade0515102b7fd5ff17703608ddfd158a'', 1, ''fpmas::api::model::AgentGroup::erase()''),
        (''../classfpmas_1_1api_1_1graph_1_1Graph.html#ab2515d9d081cdc68a2f5217a1871ba4e'', 1, ''fpmas::api::graph::Graph::erase()'')]),
      (''eraseagentnodecallback_1240'', ''EraseAgentNodeCallback'', [(''../classfpmas_1_1model_1_1detail_1_1EraseAgentNodeCallback.html#a3e91fffad7eba7003aa2727bbd236d14'', 1, ''fpmas::model::detail::EraseAgentNodeCallback'')]),
      (''execute_1241'', ''execute'', [(''../classfpmas_1_1api_1_1model_1_1Behavior.html#a1677e967983fff4d3dac7e0bcbefaf55'', 1, ''fpmas::api::model::Behavior::execute()''),
        (''../classfpmas_1_1api_1_1runtime_1_1Runtime.html#ad277b979ed5d3716d41894a3760fca93'', 1, ''fpmas::api::runtime::Runtime::execute(const scheduler::Job &amp;job)=0''),
        (''../classfpmas_1_1api_1_1runtime_1_1Runtime.html#a546cf719da1bea5b2a4b48709cde2a93'', 1, ''fpmas::api::runtime::Runtime::execute(const scheduler::JobList &amp;job_list)=0''),
        (''../classfpmas_1_1model_1_1DefaultBehavior.html#a3fda6a152298ae8b93d7539546ca0f8d'', 1, ''fpmas::model::DefaultBehavior::execute()''),
        (''../classfpmas_1_1model_1_1Behavior.html#afe76cfa1490b15108479cd8b25443c72'', 1, ''fpmas::model::Behavior::execute()''),
        (''../classfpmas_1_1model_1_1BehaviorWithArgs.html#ac66225aa76f6fefe1e27469555004bfd'', 1, ''fpmas::model::BehaviorWithArgs::execute()''),
        (''../classfpmas_1_1runtime_1_1Runtime.html#a46a5c44419eed5ad05464187a0ae8cd5'', 1, ''fpmas::runtime::Runtime::execute(const api::scheduler::Job &amp;job) override''),
        (''../classfpmas_1_1runtime_1_1Runtime.html#a023e3e08f333e599f9863a135efae5fb'', 1, ''fpmas::runtime::Runtime::execute(const api::scheduler::JobList &amp;job_list) override'')])]"

definition functions_6 :: "raw_entry list" where
  "functions_6 = [
      (''fileoutput_1242'', ''FileOutput'', [(''../classfpmas_1_1io_1_1FileOutput.html#a863abdd25c3fc618f02ab1b53596ed97'', 1, ''fpmas::io::FileOutput::FileOutput(std::string filename, std::ios::openmode mode=std::ios::out)''),
        (''../classfpmas_1_1io_1_1FileOutput.html#afe197096b0e468f613b5eb5db5a78ee6'', 1, ''fpmas::io::FileOutput::FileOutput(std::string file_format, int rank, std::ios::openmode mode=std::ios::out)''),
        (''../classfpmas_1_1io_1_1FileOutput.html#aee50c5aec0d3a2043c4e2745f451309f'', 1, ''fpmas::io::FileOutput::FileOutput(std::string file_format, api::scheduler::TimeStep step, std::ios::openmode mode=std::ios::out)''),
        (''../classfpmas_1_1io_1_1FileOutput.html#ac777160dbebb043ce931fa67d4456da4'', 1, ''fpmas::io::FileOutput::FileOutput(std::string file_format, int rank, api::scheduler::TimeStep step, std::ios::openmode mode=std::ios::out)''),
        (''../classfpmas_1_1io_1_1FileOutput.html#a71c510229609a3d2cc6e95f32a19f143'', 1, ''fpmas::io::FileOutput::FileOutput()'')]),
      (''filter_1243'', ''filter'', [(''../classfpmas_1_1model_1_1Neighbors.html#abcfecd08d071a23e1f64369e0c18dad1'', 1, ''fpmas::model::Neighbors'')]),
      (''finalize_1244'', ''finalize'', [(''../namespacefpmas.html#a025034ef544117c0d20c51eb567ab474'', 1, ''fpmas'')]),
      (''fixed_5fobj_5flist_5ffn_1245'', ''fixed_obj_list_fn'', [(''../namespacefpmas_1_1graph_1_1zoltan.html#a22c3da93e68bacd4f4f7cf423fe1db4a'', 1, ''fpmas::graph::zoltan'')]),
      (''format_1246'', ''format'', [(''../namespacefpmas_1_1utils.html#a414bdc13edbb2dfc5b949173ab52285d'', 1, ''fpmas::utils::format(std::string input, std::string replace, T arg)''),
        (''../namespacefpmas_1_1utils.html#a6a808792486e2c8c3ace478d4cdca4e5'', 1, ''fpmas::utils::format(std::string input, int rank, api::scheduler::TimeStep time)''),
        (''../namespacefpmas_1_1utils.html#ace94ed60e981b54a1d1ec21fa0e4b38d'', 1, ''fpmas::utils::format(std::string input, api::scheduler::TimeStep time)''),
        (''../namespacefpmas_1_1utils.html#aba0e8aca26eb8d19f110653e192f5764'', 1, ''fpmas::utils::format(std::string input, int rank)'')]),
      (''free_1247'', ''free'', [(''../structfpmas_1_1api_1_1communication_1_1Request.html#a74c7a550dce7c3b50f91913e377f780f'', 1, ''fpmas::api::communication::Request'')]),
      (''from_5fjson_1248'', ''from_json'', [(''../structnlohmann_1_1adl__serializer_3_01fpmas_1_1api_1_1model_1_1DiscretePoint_01_4.html#ae41e36cc0a64abf50a9992e7951c0431'', 1, ''nlohmann::adl_serializer&lt; fpmas::api::model::DiscretePoint &gt;::from_json()''),
        (''../structnlohmann_1_1adl__serializer_3_01DistributedId_01_4.html#a5afb97598d6db56d9462b2052df73484'', 1, ''nlohmann::adl_serializer&lt; DistributedId &gt;::from_json()''),
        (''../structnlohmann_1_1adl__serializer_3_01EdgePtrWrapper_3_01T_01_4_01_4.html#af64885446c226fff9eee3b04043341b4'', 1, ''nlohmann::adl_serializer&lt; EdgePtrWrapper&lt; T &gt; &gt;::from_json()''),
        (''../structnlohmann_1_1adl__serializer_3_01fpmas_1_1api_1_1graph_1_1DistributedGraph_3_01T_01_4_01_4.html#abae7981ae9cbbe5203891b37b3bb6ac3'', 1, ''nlohmann::adl_serializer&lt; fpmas::api::graph::DistributedGraph&lt; T &gt; &gt;::from_json()''),
        (''../structnlohmann_1_1adl__serializer_3_01NodePtrWrapper_3_01T_01_4_01_4.html#a87156fe9bf5712edfd1aeba70a57cacd'', 1, ''nlohmann::adl_serializer&lt; NodePtrWrapper&lt; T &gt; &gt;::from_json()''),
        (''../structfpmas_1_1io_1_1json_1_1light__serializer_3_01NodePtrWrapper_3_01T_01_4_01_4.html#ae671656ba5dbc55c1b7857c4b0d2d185'', 1, ''fpmas::io::json::light_serializer&lt; NodePtrWrapper&lt; T &gt; &gt;::from_json()''),
        (''../structnlohmann_1_1adl__serializer_3_01std_1_1chrono_1_1duration_3_01Rep_00_01Ratio_01_4_01_4.html#a2d773eedb766d171c3a6f0f269952fd4'', 1, ''nlohmann::adl_serializer&lt; std::chrono::duration&lt; Rep, Ratio &gt; &gt;::from_json()''),
        (''../structnlohmann_1_1adl__serializer_3_01NodeUpdatePack_3_01T_01_4_01_4.html#a4fafe9fa542f8a2b0b9071f72f732209'', 1, ''nlohmann::adl_serializer&lt; NodeUpdatePack&lt; T &gt; &gt;::from_json()''),
        (''../structnlohmann_1_1adl__serializer_3_01DataUpdatePack_3_01T_01_4_01_4.html#a4b579181ff1619ad591ec079f426d96f'', 1, ''nlohmann::adl_serializer&lt; DataUpdatePack&lt; T &gt; &gt;::from_json()''),
        (''../structfpmas_1_1io_1_1json_1_1light__serializer_3_01fpmas_1_1api_1_1utils_1_1PtrWrapper_3_01fpmasc84e89e520a4a0cda5345fc83f0b8125.html#a47730b94ceface75953b2c28184b0b05'', 1, ''fpmas::io::json::light_serializer&lt; fpmas::api::utils::PtrWrapper&lt; fpmas::model::SpatialAgentBase&lt; AgentType, CellType, Derived &gt; &gt; &gt;::from_json()''),
        (''../structnlohmann_1_1adl__serializer_3_01fpmas_1_1api_1_1utils_1_1PtrWrapper_3_01fpmas_1_1model_1_15c21a6b0ad54d23aaa2f84ed15f8db9e.html#a990f4e1815cc034d8b6be12a10a2a173'', 1, ''nlohmann::adl_serializer&lt; fpmas::api::utils::PtrWrapper&lt; fpmas::model::SpatialAgentBase&lt; AgentType, CellType, Derived &gt; &gt; &gt;::from_json()''),
        (''../structfpmas_1_1io_1_1json_1_1light__serializer_3_01fpmas_1_1api_1_1utils_1_1PtrWrapper_3_01fpmas6514cec9ffaf9ddc3a05c9b72f5062b9.html#af109687cbd7d713fb6c5789f943b7008'', 1, ''fpmas::io::json::light_serializer&lt; fpmas::api::utils::PtrWrapper&lt; fpmas::model::GridAgent&lt; AgentType, CellType, Derived &gt; &gt; &gt;::from_json()''),
        (''../structfpmas_1_1io_1_1json_1_1light__serializer_3_01fpmas_1_1api_1_1utils_1_1PtrWrapper_3_01fpmas087459d4f5dfa9eac727b48e6313447e.html#a36052b9828696a3a276e21e070d83bb5'', 1, ''fpmas::io::json::light_serializer&lt; fpmas::api::utils::PtrWrapper&lt; fpmas::model::GridCellBase&lt; GridCellType, Derived &gt; &gt; &gt;::from_json()''),
        (''../structnlohmann_1_1adl__serializer_3_01fpmas_1_1api_1_1utils_1_1PtrWrapper_3_01fpmas_1_1model_1_136032a46204f163d868560f92634ba90.html#a4e6274c9abee768196e3b49e34275886'', 1, ''nlohmann::adl_serializer&lt; fpmas::api::utils::PtrWrapper&lt; fpmas::model::GridAgent&lt; AgentType, CellType, Derived &gt; &gt; &gt;::from_json()''),
        (''../structnlohmann_1_1adl__serializer_3_01fpmas_1_1api_1_1utils_1_1PtrWrapper_3_01fpmas_1_1model_1_1784f1e1360367771d11e7adbddb7008f.html#a4c80e7f4814077454e8f7d8620cf9cd4'', 1, ''nlohmann::adl_serializer&lt; fpmas::api::utils::PtrWrapper&lt; fpmas::model::GridCellBase&lt; GridCellType, Derived &gt; &gt; &gt;::from_json()''),
        (''../structnlohmann_1_1adl__serializer_3_01fpmas_1_1graph_1_1detail_1_1LocalizedNodeView_3_01T_01_4_01_4.html#ab3d65dcd60b741e29402fdf713ec5a23'', 1, ''nlohmann::adl_serializer&lt; fpmas::graph::detail::LocalizedNodeView&lt; T &gt; &gt;::from_json()''),
        (''../structfpmas_1_1io_1_1json_1_1light__serializer_3_01fpmas_1_1api_1_1utils_1_1PtrWrapper_3_01fpmasa66c0aec42b8e119b4cc9e7da5cc5a4c.html#aa5112b672539b381fc864c456585c777'', 1, ''fpmas::io::json::light_serializer&lt; fpmas::api::utils::PtrWrapper&lt; fpmas::model::GraphCellBase&lt; AgentType, Derived &gt; &gt; &gt;::from_json()''),
        (''../structnlohmann_1_1adl__serializer_3_01fpmas_1_1api_1_1utils_1_1PtrWrapper_3_01fpmas_1_1model_1_189f18958e721d64cf9081bb53023a6a1.html#a786664503b398155a51df8c8958c77b3'', 1, ''nlohmann::adl_serializer&lt; fpmas::api::utils::PtrWrapper&lt; fpmas::model::GraphCellBase&lt; AgentType, Derived &gt; &gt; &gt;::from_json()''),
        (''../structnlohmann_1_1adl__serializer_3_01fpmas_1_1model_1_1ReachableCell_01_4.html#af0f8bd00ac3ceaf3bfa138365c1f2ce5'', 1, ''nlohmann::adl_serializer&lt; fpmas::model::ReachableCell &gt;::from_json()''),
        (''../structfpmas_1_1model_1_1AgentPtrSerializer.html#a1d485ed561edba4a86dfa718cf7bb1ae'', 1, ''fpmas::model::AgentPtrSerializer::from_json()''),
        (''../structfpmas_1_1model_1_1AgentPtrSerializer_3_01JsonType_00_01void_01_4.html#aa5a444e296711d9d3825f5f0dab325d0'', 1, ''fpmas::model::AgentPtrSerializer&lt; JsonType, void &gt;::from_json()''),
        (''../structfpmas_1_1io_1_1json_1_1light__serializer_3_01fpmas_1_1api_1_1utils_1_1PtrWrapper_3_01Agent897a43c8e174bcaded636be4611a9868.html#abb0983524921e92b3804108bf0f71796'', 1, ''fpmas::io::json::light_serializer&lt; fpmas::api::utils::PtrWrapper&lt; AgentType &gt;, typename std::enable_if&lt; std::is_base_of&lt; fpmas::api::model::Agent, AgentType &gt;::value &amp;&amp;std::is_default_constructible&lt; AgentType &gt;::value &amp;&amp;std::is_same&lt; AgentType, typename AgentType::FinalAgentType &gt;::value &gt;::type &gt;::from_json()''),
        (''../structfpmas_1_1io_1_1json_1_1light__serializer_3_01fpmas_1_1api_1_1utils_1_1PtrWrapper_3_01Agent1166da05b8eb25f2bd231c13fb984d35.html#a05b3b85eb62dbfc9055fdf93de0695fc'', 1, ''fpmas::io::json::light_serializer&lt; fpmas::api::utils::PtrWrapper&lt; AgentType &gt;, typename std::enable_if&lt; std::is_base_of&lt; fpmas::api::model::Agent, AgentType &gt;::value &amp;&amp;!std::is_default_constructible&lt; AgentType &gt;::value &amp;&amp;std::is_same&lt; AgentType, typename AgentType::FinalAgentType &gt;::value &gt;::type &gt;::from_json()''),
        (''../structnlohmann_1_1adl__serializer_3_01fpmas_1_1api_1_1utils_1_1PtrWrapper_3_01AgentType_01_4_01_4.html#a1766e6d3759b0bb8f9fd39bec6107ffa'', 1, ''nlohmann::adl_serializer&lt; fpmas::api::utils::PtrWrapper&lt; AgentType &gt; &gt;::from_json()''),
        (''../structnlohmann_1_1adl__serializer_3_01std_1_1type__index_01_4.html#a18ceee305ca2c17b6f54e42097c16146'', 1, ''nlohmann::adl_serializer&lt; std::type_index &gt;::from_json()''),
        (''../structnlohmann_1_1adl__serializer_3_01fpmas_1_1api_1_1model_1_1Model_01_4.html#a39b173eb9ca79bc43a8b46e9d153874e'', 1, ''nlohmann::adl_serializer&lt; fpmas::api::model::Model &gt;::from_json()''),
        (''../structnlohmann_1_1adl__serializer_3_01fpmas_1_1api_1_1model_1_1AgentPtr_01_4.html#aa4b662d79cccb1be1af04ed39c2b732c'', 1, ''nlohmann::adl_serializer&lt; fpmas::api::model::AgentPtr &gt;::from_json()''),
        (''../structfpmas_1_1io_1_1json_1_1light__serializer_3_01fpmas_1_1api_1_1model_1_1AgentPtr_01_4.html#aeb49c4169f534079018c4b4440384693'', 1, ''fpmas::io::json::light_serializer&lt; fpmas::api::model::AgentPtr &gt;::from_json()''),
        (''../structfpmas_1_1io_1_1json_1_1light__serializer_3_01T_00_01typename_01std_1_1enable__if_3_9std_1_5b712814e422b4c73c9fd9f49be13323.html#ac4de6327ecbedc4e2beb759b78864800'', 1, ''fpmas::io::json::light_serializer&lt; T, typename std::enable_if&lt;!std::is_default_constructible&lt; T &gt;::value &gt;::type &gt;::from_json()''),
        (''../structfpmas_1_1io_1_1json_1_1light__serializer.html#a395dcb3f599f344c6a32483b4a61cbc9'', 1, ''fpmas::io::json::light_serializer::from_json()''),
        (''../structnlohmann_1_1adl__serializer_3_01fpmas_1_1api_1_1graph_1_1LocationManager_3_01T_01_4_01_4.html#aac68c5d50ac25c25b03947c3495cb0d5'', 1, ''nlohmann::adl_serializer&lt; fpmas::api::graph::LocationManager&lt; T &gt; &gt;::from_json()'')])]"

definition functions_7 :: "raw_entry list" where
  "functions_7 = [
      (''gather_1249'', ''gather'', [(''../classfpmas_1_1api_1_1communication_1_1TypedMpi.html#ac60bb4256dace14742298ad9beccbfc3'', 1, ''fpmas::api::communication::TypedMpi::gather()''),
        (''../classfpmas_1_1api_1_1communication_1_1MpiCommunicator.html#ace830771424539c6e093d14e21910ee8'', 1, ''fpmas::api::communication::MpiCommunicator::gather()''),
        (''../classfpmas_1_1communication_1_1detail_1_1TypedMpi.html#a1c3f34033a707a136cf05763f56c20a0'', 1, ''fpmas::communication::detail::TypedMpi::gather()''),
        (''../classfpmas_1_1communication_1_1MpiCommunicatorBase.html#abaef46c07d5e06a9d674c144b5faab1a'', 1, ''fpmas::communication::MpiCommunicatorBase::gather()'')]),
      (''generator_1250'', ''Generator'', [(''../classfpmas_1_1random_1_1Generator.html#a16d397f593de99e4f25f22a78feada7e'', 1, ''fpmas::random::Generator::Generator()''),
        (''../classfpmas_1_1random_1_1Generator.html#aaff8f6da0cef2de39d32edcc700e0807'', 1, ''fpmas::random::Generator::Generator(result_type seed)'')]),
      (''get_1251'', ''get'', [(''../structfpmas_1_1api_1_1io_1_1OutputStream.html#a155300296b7784faf48a4a4f56c964d6'', 1, ''fpmas::api::io::OutputStream::get()''),
        (''../classfpmas_1_1api_1_1utils_1_1PtrWrapper.html#a8355d9085f63f88acb7a712f5482d65b'', 1, ''fpmas::api::utils::PtrWrapper::get()''),
        (''../classfpmas_1_1api_1_1utils_1_1PtrWrapper.html#a0ea599badd3413817e05e14e034bd912'', 1, ''fpmas::api::utils::PtrWrapper::get() const''),
        (''../classfpmas_1_1io_1_1StringOutput.html#a961ed7a8d5fbf2f9b1a27df122316a85'', 1, ''fpmas::io::StringOutput::get()''),
        (''../classfpmas_1_1io_1_1FileOutput.html#aaca28fca0cb7c038d4e98fdbb7247f68'', 1, ''fpmas::io::FileOutput::get()''),
        (''../classfpmas_1_1io_1_1DynamicFileOutput.html#a1557e66d84d79e1b0879c455f6bbc414'', 1, ''fpmas::io::DynamicFileOutput::get()'')]),
      (''getbegintask_1252'', ''getBeginTask'', [(''../classfpmas_1_1api_1_1scheduler_1_1Job.html#a81262247fdff54210268dd9e58d722ea'', 1, ''fpmas::api::scheduler::Job::getBeginTask()''),
        (''../classfpmas_1_1scheduler_1_1Job.html#a8bf2d271af5b763b73387b0175eed794'', 1, ''fpmas::scheduler::Job::getBeginTask()'')]),
      (''getcurrentlocations_1253'', ''getCurrentLocations'', [(''../classfpmas_1_1api_1_1graph_1_1LocationManager.html#a167993a0b2de0b0831eae69ec47bc2fb'', 1, ''fpmas::api::graph::LocationManager::getCurrentLocations()''),
        (''../classfpmas_1_1graph_1_1LocationManager.html#a99f91dbe3f238f09bf9013ae79c53f6f'', 1, ''fpmas::graph::LocationManager::getCurrentLocations()'')]),
      (''getdatasync_1254'', ''getDataSync'', [(''../classfpmas_1_1api_1_1synchro_1_1SyncMode.html#ad6db7b3aa725079d62e76a67447dde9d'', 1, ''fpmas::api::synchro::SyncMode::getDataSync()''),
        (''../classfpmas_1_1synchro_1_1hard_1_1HardSyncMode.html#a307e0c9ce0538d42b114ab5d5bed4e0b'', 1, ''fpmas::synchro::hard::HardSyncMode::getDataSync()''),
        (''../classfpmas_1_1synchro_1_1ghost_1_1GhostMode.html#a46554aaafc04544190e6e001d0fb5674'', 1, ''fpmas::synchro::ghost::GhostMode::getDataSync()'')]),
      (''getdistantnodes_1255'', ''getDistantNodes'', [(''../classfpmas_1_1api_1_1graph_1_1LocationManager.html#a994da161df945297cd64b7fa6afdaf21'', 1, ''fpmas::api::graph::LocationManager::getDistantNodes()''),
        (''../classfpmas_1_1graph_1_1LocationManager.html#a9f33487685185ef3aa410f73c83575a9'', 1, ''fpmas::graph::LocationManager::getDistantNodes()'')]),
      (''getedge_1256'', ''getEdge'', [(''../classfpmas_1_1api_1_1graph_1_1Graph.html#a88929eaa162f730d385afe6c2ea4173d'', 1, ''fpmas::api::graph::Graph::getEdge(EdgeIdType id)=0''),
        (''../classfpmas_1_1api_1_1graph_1_1Graph.html#ad44f2a827f2a4eda7c68fc0bed8aa510'', 1, ''fpmas::api::graph::Graph::getEdge(EdgeIdType) const =0''),
        (''../classfpmas_1_1graph_1_1Graph.html#a8b5eefaff964502d98640e1b1b3752b1'', 1, ''fpmas::graph::Graph::getEdge(EdgeIdType) override''),
        (''../classfpmas_1_1graph_1_1Graph.html#a2fb6a2884739946bd0900e335e1a184c'', 1, ''fpmas::graph::Graph::getEdge(EdgeIdType) const override'')]),
      (''getedgempi_1257'', ''getEdgeMpi'', [(''../classfpmas_1_1graph_1_1detail_1_1DistributedGraph.html#a70492e420fb9ff1d6c79b341c4d63573'', 1, ''fpmas::graph::detail::DistributedGraph'')]),
      (''getedges_1258'', ''getEdges'', [(''../classfpmas_1_1api_1_1graph_1_1Graph.html#ac2f167255bd606a932823a0051953ef7'', 1, ''fpmas::api::graph::Graph::getEdges()''),
        (''../classfpmas_1_1graph_1_1Graph.html#a34b8a27880b87e0be00a6e23116d8a44'', 1, ''fpmas::graph::Graph::getEdges()'')]),
      (''getendtask_1259'', ''getEndTask'', [(''../classfpmas_1_1scheduler_1_1Job.html#a766a08eede71d88931fd2d090a983521'', 1, ''fpmas::scheduler::Job::getEndTask()''),
        (''../classfpmas_1_1api_1_1scheduler_1_1Job.html#afff7988be84b18b8c2d1692da63d6cd8'', 1, ''fpmas::api::scheduler::Job::getEndTask()'')]),
      (''getepoch_1260'', ''getEpoch'', [(''../classfpmas_1_1synchro_1_1hard_1_1api_1_1Server.html#a68e3d04343a8bd775d0f0843d8d78308'', 1, ''fpmas::synchro::hard::api::Server::getEpoch()''),
        (''../classfpmas_1_1synchro_1_1hard_1_1LinkServer.html#ab29716935537c5abacb5c06d5b75f5fe'', 1, ''fpmas::synchro::hard::LinkServer::getEpoch()''),
        (''../classfpmas_1_1synchro_1_1hard_1_1MutexServer.html#a319dfa824e2ef1c71a1703f22c2dddf0'', 1, ''fpmas::synchro::hard::MutexServer::getEpoch()''),
        (''../classfpmas_1_1synchro_1_1hard_1_1ServerPack.html#a2758e3431b2516be297ed1c9ce0bb8c1'', 1, ''fpmas::synchro::hard::ServerPack::getEpoch()'')]),
      (''getgroup_1261'', ''getGroup'', [(''../classfpmas_1_1api_1_1model_1_1Model.html#ae3ae97089e71d688cef7b4beb7fc32f6'', 1, ''fpmas::api::model::Model::getGroup()''),
        (''../classfpmas_1_1model_1_1detail_1_1Model.html#afd42654a1e088c06c97ee439e9694163'', 1, ''fpmas::model::detail::Model::getGroup()'')]),
      (''getid_1262'', ''getId'', [(''../classfpmas_1_1api_1_1graph_1_1Edge.html#a01b45b55bdc925c460eb4533eca33deb'', 1, ''fpmas::api::graph::Edge::getId()''),
        (''../classfpmas_1_1api_1_1graph_1_1Node.html#aa78c8556e95a84b8b324d0722cf4deb7'', 1, ''fpmas::api::graph::Node::getId()''),
        (''../classfpmas_1_1graph_1_1Edge.html#ac9f88e59417d658e595ccec5a730109c'', 1, ''fpmas::graph::Edge::getId()''),
        (''../classfpmas_1_1graph_1_1Node.html#acd62b9ebd3041c13f97b9541f72de168'', 1, ''fpmas::graph::Node::getId() const override'')]),
      (''getincomingedges_1263'', ''getIncomingEdges'', [(''../classfpmas_1_1graph_1_1Node.html#a3d18c7add89efdae0d682f8d9327ab61'', 1, ''fpmas::graph::Node::getIncomingEdges(api::graph::LayerId layer) const override''),
        (''../classfpmas_1_1graph_1_1Node.html#a608f60dd48cc97a739fa7fc22b71df6c'', 1, ''fpmas::graph::Node::getIncomingEdges() const override''),
        (''../classfpmas_1_1api_1_1graph_1_1Node.html#a8816bc5dc1e545e2d589fd5d2c0f97a7'', 1, ''fpmas::api::graph::Node::getIncomingEdges(LayerId layer_id) const =0''),
        (''../classfpmas_1_1api_1_1graph_1_1Node.html#abfeb653bff18ab0f69b3fd11a18f9138'', 1, ''fpmas::api::graph::Node::getIncomingEdges() const =0'')]),
      (''getlayer_1264'', ''getLayer'', [(''../classfpmas_1_1api_1_1graph_1_1Edge.html#a034367372164e34d04cc56fb65836925'', 1, ''fpmas::api::graph::Edge::getLayer()''),
        (''../classfpmas_1_1graph_1_1Edge.html#a7462835d9fb1afeefa83991ab0a3d393'', 1, ''fpmas::graph::Edge::getLayer()'')]),
      (''getlocalnodes_1265'', ''getLocalNodes'', [(''../classfpmas_1_1api_1_1graph_1_1LocationManager.html#a9342847510a87ab934ee9ef84e33f8a6'', 1, ''fpmas::api::graph::LocationManager::getLocalNodes()''),
        (''../classfpmas_1_1graph_1_1LocationManager.html#aa20aab2e29bfcb9944eddf1ddba91f31'', 1, ''fpmas::graph::LocationManager::getLocalNodes()'')]),
      (''getlocationmanager_1266'', ''getLocationManager'', [(''../classfpmas_1_1api_1_1graph_1_1DistributedGraph.html#aac4225b449bb41a9013b14ce13df2116'', 1, ''fpmas::api::graph::DistributedGraph::getLocationManager()=0''),
        (''../classfpmas_1_1api_1_1graph_1_1DistributedGraph.html#a3edfe79909a52a50e9aa230ed62ccc63'', 1, ''fpmas::api::graph::DistributedGraph::getLocationManager() const =0''),
        (''../classfpmas_1_1graph_1_1detail_1_1DistributedGraph.html#ad68922964ff846fd0d243ebfae84ab26'', 1, ''fpmas::graph::detail::DistributedGraph::getLocationManager() const override''),
        (''../classfpmas_1_1graph_1_1detail_1_1DistributedGraph.html#ae4e9f7a3d70b39d8610088be71caa5c5'', 1, ''fpmas::graph::detail::DistributedGraph::getLocationManager() override'')]),
      (''getmanagedmutexes_1267'', ''getManagedMutexes'', [(''../classfpmas_1_1synchro_1_1hard_1_1MutexServer.html#adfe5c79b662c67ba83523f423f7bb2a0'', 1, ''fpmas::synchro::hard::MutexServer'')]),
      (''getmpicomm_1268'', ''getMpiComm'', [(''../classfpmas_1_1communication_1_1MpiCommunicatorBase.html#a209a92302fdd143dd8b339688ebfba62'', 1, ''fpmas::communication::MpiCommunicatorBase'')]),
      (''getmpicommunicator_1269'', ''getMpiCommunicator'', [(''../classfpmas_1_1model_1_1detail_1_1Model.html#a6f9245081c3e42560294587486f4ec2a'', 1, ''fpmas::model::detail::Model::getMpiCommunicator() const override''),
        (''../classfpmas_1_1model_1_1detail_1_1Model.html#a9f2a06b546588833dca968737849df22'', 1, ''fpmas::model::detail::Model::getMpiCommunicator() override''),
        (''../classfpmas_1_1graph_1_1detail_1_1DistributedGraph.html#a1c9c449af6f4459469b8bed90b848840'', 1, ''fpmas::graph::detail::DistributedGraph::getMpiCommunicator() const override''),
        (''../classfpmas_1_1graph_1_1detail_1_1DistributedGraph.html#a17980ac564fa7cb269d1db70bd79a617'', 1, ''fpmas::graph::detail::DistributedGraph::getMpiCommunicator() override''),
        (''../classfpmas_1_1api_1_1model_1_1Model.html#ab895d5a0523bc20c394098fea309b67c'', 1, ''fpmas::api::model::Model::getMpiCommunicator()''),
        (''../classfpmas_1_1api_1_1graph_1_1DistributedGraph.html#a3df877f59f5b33570e3b5c12dd216a27'', 1, ''fpmas::api::graph::DistributedGraph::getMpiCommunicator() const =0''),
        (''../classfpmas_1_1api_1_1graph_1_1DistributedGraph.html#a70367a18594a05467350529b48e9be6d'', 1, ''fpmas::api::graph::DistributedGraph::getMpiCommunicator()=0''),
        (''../classfpmas_1_1api_1_1model_1_1Model.html#aa25176b21c9efb6daa1ab0a29d179d5f'', 1, ''fpmas::api::model::Model::getMpiCommunicator()'')]),
      (''getmpigroup_1270'', ''getMpiGroup'', [(''../classfpmas_1_1communication_1_1MpiCommunicatorBase.html#a53b72f17e094ba5e9e1c5eb873553d4d'', 1, ''fpmas::communication::MpiCommunicatorBase'')]),
      (''getnode_1271'', ''getNode'', [(''../classfpmas_1_1api_1_1graph_1_1Graph.html#a61501e99ee00b6b7444ad50cba4fb656'', 1, ''fpmas::api::graph::Graph::getNode(NodeIdType id)=0''),
        (''../classfpmas_1_1api_1_1graph_1_1Graph.html#aa80206b87b398bcded81a2f8ca13affd'', 1, ''fpmas::api::graph::Graph::getNode(NodeIdType id) const =0''),
        (''../classfpmas_1_1graph_1_1Graph.html#a9a4539ff472500757bb0a5a674b7d821'', 1, ''fpmas::graph::Graph::getNode(NodeIdType) override''),
        (''../classfpmas_1_1graph_1_1Graph.html#a1494027671ee2aa451a78209eee9c620'', 1, ''fpmas::graph::Graph::getNode(NodeIdType) const override'')]),
      (''getnodempi_1272'', ''getNodeMpi'', [(''../classfpmas_1_1graph_1_1detail_1_1DistributedGraph.html#ae23cadb2bd16858c2b8370a9a41f720f'', 1, ''fpmas::graph::detail::DistributedGraph'')]),
      (''getnodes_1273'', ''getNodes'', [(''../classfpmas_1_1api_1_1graph_1_1Graph.html#ada2efbce22b3deab22818abcd6fd1d52'', 1, ''fpmas::api::graph::Graph::getNodes()''),
        (''../classfpmas_1_1graph_1_1Graph.html#a428775fd3f71ce9c24d19752e5a385e1'', 1, ''fpmas::graph::Graph::getNodes()'')]),
      (''getoutgoingedges_1274'', ''getOutgoingEdges'', [(''../classfpmas_1_1graph_1_1Node.html#a3d575c53d17b7f2e8644c02e8071609e'', 1, ''fpmas::graph::Node::getOutgoingEdges(api::graph::LayerId layer) const override''),
        (''../classfpmas_1_1graph_1_1Node.html#ac4c8fc6dcb1473ece5cedcd8b66952a0'', 1, ''fpmas::graph::Node::getOutgoingEdges() const override''),
        (''../classfpmas_1_1api_1_1graph_1_1Node.html#aafbeca54045bda9a0b5e066d7f887544'', 1, ''fpmas::api::graph::Node::getOutgoingEdges(LayerId layer_id) const =0''),
        (''../classfpmas_1_1api_1_1graph_1_1Node.html#a9686c2e06df3f4a8866bb521fb238ece'', 1, ''fpmas::api::graph::Node::getOutgoingEdges() const =0'')]),
      (''getrank_1275'', ''getRank'', [(''../classfpmas_1_1api_1_1communication_1_1MpiCommunicator.html#a5d0a8ba6389d11dda81add366f6fc9b9'', 1, ''fpmas::api::communication::MpiCommunicator::getRank()''),
        (''../classfpmas_1_1communication_1_1MpiCommunicatorBase.html#aae73f8131cc4bba64ad8aa47b051cec4'', 1, ''fpmas::communication::MpiCommunicatorBase::getRank()'')]),
      (''getsize_1276'', ''getSize'', [(''../classfpmas_1_1api_1_1communication_1_1MpiCommunicator.html#adaa99abca527281fe2b7993a524c31c4'', 1, ''fpmas::api::communication::MpiCommunicator::getSize()''),
        (''../classfpmas_1_1communication_1_1MpiCommunicatorBase.html#a0cee9bce6524b3b9f8988c28c7f1c9a5'', 1, ''fpmas::communication::MpiCommunicatorBase::getSize()''),
        (''../classfpmas_1_1model_1_1GridRange.html#a5150632df3142125c96e5267f29dc448'', 1, ''fpmas::model::GridRange::getSize()'')]),
      (''getsourcenode_1277'', ''getSourceNode'', [(''../classfpmas_1_1api_1_1graph_1_1Edge.html#af5ad87e804df2008dfe291987686a0fa'', 1, ''fpmas::api::graph::Edge::getSourceNode()''),
        (''../classfpmas_1_1graph_1_1Edge.html#aaf04f5edcb21bf4b6ecddfd67bbbcabe'', 1, ''fpmas::graph::Edge::getSourceNode()'')]),
      (''getsynclinker_1278'', ''getSyncLinker'', [(''../classfpmas_1_1api_1_1synchro_1_1SyncMode.html#a02cf7ca982560ae120fe8cc0e9fc9dc9'', 1, ''fpmas::api::synchro::SyncMode::getSyncLinker()''),
        (''../classfpmas_1_1synchro_1_1ghost_1_1GhostMode.html#a6bd0a7a89ad3f0267599f08c1c0d1a06'', 1, ''fpmas::synchro::ghost::GhostMode::getSyncLinker()''),
        (''../classfpmas_1_1synchro_1_1hard_1_1HardSyncMode.html#af84aeeb9bd8a410cb85c9bc28b382f00'', 1, ''fpmas::synchro::hard::HardSyncMode::getSyncLinker()'')]),
      (''getsyncmode_1279'', ''getSyncMode'', [(''../classfpmas_1_1graph_1_1detail_1_1DistributedGraph.html#a16503aedfd56b6e2a4cd9e2af38533b6'', 1, ''fpmas::graph::detail::DistributedGraph'')]),
      (''gettargetnode_1280'', ''getTargetNode'', [(''../classfpmas_1_1api_1_1graph_1_1Edge.html#a9f3bac493647ce30937782ff40e51381'', 1, ''fpmas::api::graph::Edge::getTargetNode()''),
        (''../classfpmas_1_1graph_1_1Edge.html#a144d2d3ba09bd284da3f2cc5b219f46f'', 1, ''fpmas::graph::Edge::getTargetNode() const override'')]),
      (''getweight_1281'', ''getWeight'', [(''../classfpmas_1_1graph_1_1Edge.html#af101a1615307035e6972e4bbc5d3c552'', 1, ''fpmas::graph::Edge::getWeight()''),
        (''../classfpmas_1_1graph_1_1Node.html#a0d2c363c881b87af919af5c5eb75892a'', 1, ''fpmas::graph::Node::getWeight()''),
        (''../classfpmas_1_1api_1_1graph_1_1Edge.html#aff73770c43ab756722d88fcc46d0de65'', 1, ''fpmas::api::graph::Edge::getWeight()''),
        (''../classfpmas_1_1api_1_1graph_1_1Node.html#a62d1c0934c0b8f364b96a776ee9d2008'', 1, ''fpmas::api::graph::Node::getWeight()'')]),
      (''ghostdatasync_1282'', ''GhostDataSync'', [(''../classfpmas_1_1synchro_1_1ghost_1_1GhostDataSync.html#add800f1bc34138bcfd270bf7f4f4620e'', 1, ''fpmas::synchro::ghost::GhostDataSync'')]),
      (''ghostmode_1283'', ''GhostMode'', [(''../classfpmas_1_1synchro_1_1ghost_1_1GhostMode.html#a60d134ced49d241df951e2d537e0a80a'', 1, ''fpmas::synchro::ghost::GhostMode'')]),
      (''ghostsynclinker_1284'', ''GhostSyncLinker'', [(''../classfpmas_1_1synchro_1_1ghost_1_1GhostSyncLinker.html#a84dd995b58701b4fe0101508d9179448'', 1, ''fpmas::synchro::ghost::GhostSyncLinker'')]),
      (''graph_1285'', ''Graph'', [(''../classfpmas_1_1graph_1_1Graph.html#a106c75214b335eaa0e22df7db1ad0e2f'', 1, ''fpmas::graph::Graph::Graph()''),
        (''../classfpmas_1_1graph_1_1Graph.html#a7df951298b9037f734d432341d033fa4'', 1, ''fpmas::graph::Graph::Graph(Graph&lt; NodeType, EdgeType &gt; &amp;&amp;graph)'')]),
      (''graph_1286'', ''graph'', [(''../classfpmas_1_1model_1_1detail_1_1Model.html#aefd9e9f48daf05ca25a721a00701b4dc'', 1, ''fpmas::model::detail::Model::graph() const override''),
        (''../classfpmas_1_1model_1_1detail_1_1Model.html#a1d91d4bfb887a41b058fa72ddbaa0163'', 1, ''fpmas::model::detail::Model::graph() override''),
        (''../classfpmas_1_1api_1_1model_1_1Model.html#a6e311b6af42074838aff221f45ba545d'', 1, ''fpmas::api::model::Model::graph() const =0''),
        (''../classfpmas_1_1api_1_1model_1_1Model.html#a59b8312f1570e1a3cc0af36baf03f679'', 1, ''fpmas::api::model::Model::graph()=0'')]),
      (''graphrange_1287'', ''GraphRange'', [(''../classfpmas_1_1model_1_1GraphRange.html#acb5cf4d25c25331648f88e841b9ddaed'', 1, ''fpmas::model::GraphRange'')]),
      (''gridagent_1288'', ''GridAgent'', [(''../classfpmas_1_1model_1_1GridAgent.html#a754b557eb8468872fa0d0a6e395fec7f'', 1, ''fpmas::model::GridAgent'')]),
      (''gridcellbase_1289'', ''GridCellBase'', [(''../classfpmas_1_1model_1_1GridCellBase.html#a17c0873e131a0b42abbf39157ff278df'', 1, ''fpmas::model::GridCellBase::GridCellBase()''),
        (''../classfpmas_1_1model_1_1GridCellBase.html#ae600a15304ed38784f1dcb383b872a7f'', 1, ''fpmas::model::GridCellBase::GridCellBase(DiscretePoint location)'')]),
      (''gridrange_1290'', ''GridRange'', [(''../classfpmas_1_1model_1_1GridRange.html#a56f6b611a251b88e8e4124ef80da98ee'', 1, ''fpmas::model::GridRange'')]),
      (''group_1291'', ''group'', [(''../classfpmas_1_1api_1_1model_1_1Agent.html#a46ea84f58fb1b430f05312ba61b06639'', 1, ''fpmas::api::model::Agent::group()''),
        (''../classfpmas_1_1model_1_1AgentBase.html#af381fb37cf9202c032581435136ac421'', 1, ''fpmas::model::AgentBase::group() const override''),
        (''../classfpmas_1_1model_1_1AgentBase.html#adc1328799e6a37f1c6b0f9044705b583'', 1, ''fpmas::model::AgentBase::group() override''),
        (''../classfpmas_1_1api_1_1model_1_1Agent.html#ae5374eb2b87f1b6c338f0547aab600f3'', 1, ''fpmas::api::model::Agent::group() const =0'')]),
      (''groupid_1292'', ''groupId'', [(''../classfpmas_1_1api_1_1model_1_1Agent.html#af7df85262a65329202070747bd152c83'', 1, ''fpmas::api::model::Agent::groupId()''),
        (''../classfpmas_1_1api_1_1model_1_1AgentGroup.html#a2d16a5243fec7f30ac2e78e21f8b19df'', 1, ''fpmas::api::model::AgentGroup::groupId()''),
        (''../classfpmas_1_1model_1_1detail_1_1AgentGroupBase.html#abf975bf2e2fa51ee3b1349a5270fd3cf'', 1, ''fpmas::model::detail::AgentGroupBase::groupId()''),
        (''../classfpmas_1_1model_1_1AgentBase.html#a5b2b0173ee2d5283f1fd52a2bb75cbec'', 1, ''fpmas::model::AgentBase::groupId()'')]),
      (''groupids_1293'', ''groupIds'', [(''../classfpmas_1_1api_1_1model_1_1Agent.html#a33b14774c578bda05ba61abc308cc123'', 1, ''fpmas::api::model::Agent::groupIds()''),
        (''../classfpmas_1_1model_1_1AgentBase.html#a2251313022c0be755aef6528613fbc55'', 1, ''fpmas::model::AgentBase::groupIds()'')]),
      (''groups_1294'', ''groups'', [(''../classfpmas_1_1api_1_1model_1_1Agent.html#a11e6bb6db81b851129d22140dffb582e'', 1, ''fpmas::api::model::Agent::groups()=0''),
        (''../classfpmas_1_1api_1_1model_1_1Agent.html#a3eae89634fe06826b79dd71677c19a9d'', 1, ''fpmas::api::model::Agent::groups() const =0''),
        (''../classfpmas_1_1api_1_1model_1_1Model.html#ab81a61fe901dace453f31268feb9be99'', 1, ''fpmas::api::model::Model::groups()''),
        (''../classfpmas_1_1model_1_1detail_1_1Model.html#af142cc2c64ab193c439fac54fa26b65f'', 1, ''fpmas::model::detail::Model::groups()''),
        (''../classfpmas_1_1model_1_1AgentBase.html#afa08301209cde4d8f0898b22b9fc9bcb'', 1, ''fpmas::model::AgentBase::groups() const override''),
        (''../classfpmas_1_1model_1_1AgentBase.html#aa9f0b9efbea7f06af08051746268e37f'', 1, ''fpmas::model::AgentBase::groups() override'')]),
      (''guard_1295'', ''Guard'', [(''../classfpmas_1_1synchro_1_1Guard.html#a8f10ed1da7b65068cf4b0cac10a9a3fc'', 1, ''fpmas::synchro::Guard'')])]"

definition functions_8 :: "raw_entry list" where
  "functions_8 = [
      (''handleincomingrequests_1296'', ''handleIncomingRequests'', [(''../classfpmas_1_1synchro_1_1hard_1_1LinkServer.html#a7b72b3c68d9e228aea47891ace999d1f'', 1, ''fpmas::synchro::hard::LinkServer::handleIncomingRequests()''),
        (''../classfpmas_1_1synchro_1_1hard_1_1MutexServer.html#ad3bf18aa77d944e4810b2e16d1b5f5f0'', 1, ''fpmas::synchro::hard::MutexServer::handleIncomingRequests()''),
        (''../classfpmas_1_1synchro_1_1hard_1_1ServerPack.html#aa73b37b26aba354af5bbe0d6d6e1c05e'', 1, ''fpmas::synchro::hard::ServerPack::handleIncomingRequests()''),
        (''../classfpmas_1_1synchro_1_1hard_1_1api_1_1Server.html#a13e0c29890b8ea594d865a632da43a88'', 1, ''fpmas::synchro::hard::api::Server::handleIncomingRequests()'')]),
      (''handlemove_1297'', ''handleMove'', [(''../classfpmas_1_1api_1_1model_1_1CellBehavior.html#ae5c5cb2cb992488bd5ff4888f6aa2e87'', 1, ''fpmas::api::model::CellBehavior::handleMove()''),
        (''../classfpmas_1_1model_1_1CellBase.html#a8e245107ceb975dfa5c2d3864d2f9fdf'', 1, ''fpmas::model::CellBase::handleMove()'')]),
      (''handlenewlocation_1298'', ''handleNewLocation'', [(''../classfpmas_1_1api_1_1model_1_1CellBehavior.html#a44ba9609363ce5baa1793c069cb427c3'', 1, ''fpmas::api::model::CellBehavior::handleNewLocation()''),
        (''../classfpmas_1_1model_1_1CellBase.html#aaf7649d1322244915e241d3291d4fe0a'', 1, ''fpmas::model::CellBase::handleNewLocation()'')]),
      (''handlenewmove_1299'', ''handleNewMove'', [(''../classfpmas_1_1api_1_1model_1_1SpatialAgentBehavior.html#ab130ba9b8820a568fd11f326a23e012e'', 1, ''fpmas::api::model::SpatialAgentBehavior::handleNewMove()''),
        (''../classfpmas_1_1model_1_1SpatialAgentBase.html#a374d952610f6e20d06fad158f7779412'', 1, ''fpmas::model::SpatialAgentBase::handleNewMove() override'')]),
      (''handlenewperceive_1300'', ''handleNewPerceive'', [(''../classfpmas_1_1model_1_1SpatialAgentBase.html#a06fa94554a53dc404544dff5c747997b'', 1, ''fpmas::model::SpatialAgentBase::handleNewPerceive()''),
        (''../classfpmas_1_1api_1_1model_1_1SpatialAgentBehavior.html#aaf7a8ebf72a49ceebebdb869b4f373ae'', 1, ''fpmas::api::model::SpatialAgentBehavior::handleNewPerceive()'')]),
      (''handleperceive_1301'', ''handlePerceive'', [(''../classfpmas_1_1api_1_1model_1_1CellBehavior.html#a60fe96879582e41e2b55c95d996aa161'', 1, ''fpmas::api::model::CellBehavior::handlePerceive()''),
        (''../classfpmas_1_1model_1_1CellBase.html#afbeb8f021e9cbd1a59946cfd10ddf6d5'', 1, ''fpmas::model::CellBase::handlePerceive()'')]),
      (''harddatasync_1302'', ''HardDataSync'', [(''../classfpmas_1_1synchro_1_1hard_1_1HardDataSync.html#a0152b2f985fd854e2da41761d7837b48'', 1, ''fpmas::synchro::hard::HardDataSync'')]),
      (''hardsynclinker_1303'', ''HardSyncLinker'', [(''../classfpmas_1_1synchro_1_1hard_1_1HardSyncLinker.html#ac90c95cd1d70f9c0acf78b488495321c'', 1, ''fpmas::synchro::hard::HardSyncLinker'')]),
      (''hardsyncmode_1304'', ''HardSyncMode'', [(''../classfpmas_1_1synchro_1_1hard_1_1HardSyncMode.html#a0ca008844a9600404d2367ed88dceb4a'', 1, ''fpmas::synchro::hard::HardSyncMode'')]),
      (''hardsyncmutex_1305'', ''HardSyncMutex'', [(''../classfpmas_1_1synchro_1_1hard_1_1HardSyncMutex.html#a123b7e6abfc367b1614b14d567273333'', 1, ''fpmas::synchro::hard::HardSyncMutex'')]),
      (''hash_1306'', ''hash'', [(''../classfpmas_1_1api_1_1graph_1_1DistributedId.html#a45a147e90dae6a0dc154caadc4cc1483'', 1, ''fpmas::api::graph::DistributedId::hash()''),
        (''../classfpmas_1_1api_1_1graph_1_1Id.html#a5d054ce3e8551c1da5dac37b60583b74'', 1, ''fpmas::api::graph::Id::hash()'')]),
      (''headers_1307'', ''headers'', [(''../classfpmas_1_1io_1_1CsvOutputBase.html#a1358f8c08c55ff3582d90642862db80a'', 1, ''fpmas::io::CsvOutputBase'')]),
      (''height_1308'', ''height'', [(''../classfpmas_1_1model_1_1VonNeumannGridBuilder.html#abc2ec692e49814e68d3a27f6833bbb8f'', 1, ''fpmas::model::VonNeumannGridBuilder'')])]"

definition functions_9 :: "raw_entry list" where
  "functions_9 = [
      (''id_1309'', ''id'', [(''../classfpmas_1_1api_1_1scheduler_1_1Job.html#a0fabef3daf5ac4f47d05b3bbea423564'', 1, ''fpmas::api::scheduler::Job::id()''),
        (''../classfpmas_1_1scheduler_1_1Job.html#a16bcb01e5a51e3fec655ffaa5bce1a52'', 1, ''fpmas::scheduler::Job::id()''),
        (''../classfpmas_1_1api_1_1graph_1_1DistributedId.html#a336bd3e5c515f230d3de1968de6d5964'', 1, ''fpmas::api::graph::DistributedId::id()'')]),
      (''importedge_1310'', ''importEdge'', [(''../classfpmas_1_1api_1_1graph_1_1DistributedGraph.html#a8e286c4a21751597957e3b689e372457'', 1, ''fpmas::api::graph::DistributedGraph::importEdge()''),
        (''../classfpmas_1_1graph_1_1detail_1_1DistributedGraph.html#a3f1bdcba3290e49518f407de39f1f523'', 1, ''fpmas::graph::detail::DistributedGraph::importEdge()'')]),
      (''importnode_1311'', ''importNode'', [(''../classfpmas_1_1api_1_1graph_1_1DistributedGraph.html#a7c8863184625a319f1329a14eab71b46'', 1, ''fpmas::api::graph::DistributedGraph::importNode()''),
        (''../classfpmas_1_1graph_1_1detail_1_1DistributedGraph.html#a51da03813aef91aeea680552a5eedfde'', 1, ''fpmas::graph::detail::DistributedGraph::importNode()'')]),
      (''init_1312'', ''init'', [(''../namespacefpmas.html#a685b5a9916d27bffb1d0d4a9bf9f08a2'', 1, ''fpmas::init()''),
        (''../classfpmas_1_1model_1_1DynamicEndCondition.html#a43a728b94249b059ede79d7a1239ab2d'', 1, ''fpmas::model::DynamicEndCondition::init()''),
        (''../classfpmas_1_1communication_1_1MpiCommWorld.html#af67e76aef8f0d452fedf839928a9c5ea'', 1, ''fpmas::communication::MpiCommWorld::init()''),
        (''../classfpmas_1_1api_1_1model_1_1EndCondition.html#a8a33e83e4483cce4f440a8b787daf0b1'', 1, ''fpmas::api::model::EndCondition::init()''),
        (''../classfpmas_1_1model_1_1StaticEndCondition.html#a027438d41818090beaa1450123e95313'', 1, ''fpmas::model::StaticEndCondition::init()'')]),
      (''initlocation_1313'', ''initLocation'', [(''../classfpmas_1_1model_1_1SpatialAgentBase.html#ac459900a3c1ffa9e5e6ec7067049d454'', 1, ''fpmas::model::SpatialAgentBase::initLocation()''),
        (''../classfpmas_1_1api_1_1model_1_1SpatialAgent.html#a6b2f3fc960bcad217e16796b0e032041'', 1, ''fpmas::api::model::SpatialAgent::initLocation()'')]),
      (''inneighbors_1314'', ''inNeighbors'', [(''../classfpmas_1_1api_1_1graph_1_1Node.html#a87acf4a8a81c45dcb6e79fe15595c5cc'', 1, ''fpmas::api::graph::Node::inNeighbors()''),
        (''../classfpmas_1_1model_1_1NeighborsAccess.html#aa0f21ad5e74c69d624f4382562c3e818'', 1, ''fpmas::model::NeighborsAccess::inNeighbors(api::graph::LayerId layer) const''),
        (''../classfpmas_1_1model_1_1NeighborsAccess.html#a4b8234fd04e848153acecb83c37a1406'', 1, ''fpmas::model::NeighborsAccess::inNeighbors() const''),
        (''../classfpmas_1_1graph_1_1Node.html#a20302aa8c09176be66198de45bf121b7'', 1, ''fpmas::graph::Node::inNeighbors()''),
        (''../classfpmas_1_1api_1_1graph_1_1Node.html#ad9d7a7ba92769f753c043a07545b2aaa'', 1, ''fpmas::api::graph::Node::inNeighbors()''),
        (''../classfpmas_1_1graph_1_1Node.html#a277625de7a695aebce0e2966b0b2796e'', 1, ''fpmas::graph::Node::inNeighbors()'')]),
      (''insert_1315'', ''insert'', [(''../classfpmas_1_1api_1_1graph_1_1Graph.html#acbcb25f4af600a3d3fba0bd7fd60280d'', 1, ''fpmas::api::graph::Graph::insert()''),
        (''../classfpmas_1_1model_1_1detail_1_1Model.html#ab495b603f6d6726adb58bf4063dcedc6'', 1, ''fpmas::model::detail::Model::insert()''),
        (''../classfpmas_1_1model_1_1detail_1_1AgentGroupBase.html#a8dd58298f1ae198313bb15a51ebc8641'', 1, ''fpmas::model::detail::AgentGroupBase::insert()''),
        (''../classfpmas_1_1graph_1_1Graph.html#a6ea579fada474c4c094646dae5f31668'', 1, ''fpmas::graph::Graph::insert()''),
        (''../classfpmas_1_1api_1_1model_1_1Model.html#a1fafbc0a12416582439682629ab3a534'', 1, ''fpmas::api::model::Model::insert()''),
        (''../classfpmas_1_1api_1_1graph_1_1Graph.html#a92df198937356ee94158f3982245078b'', 1, ''fpmas::api::graph::Graph::insert()''),
        (''../classfpmas_1_1api_1_1model_1_1AgentGroup.html#a4cd3d73f3c5be59a55fcad342702bf46'', 1, ''fpmas::api::model::AgentGroup::insert()''),
        (''../classfpmas_1_1graph_1_1Graph.html#aa9ddeefa71508445bd27e9a6ae42f7e8'', 1, ''fpmas::graph::Graph::insert()'')]),
      (''insertagentnodecallback_1316'', ''InsertAgentNodeCallback'', [(''../classfpmas_1_1model_1_1detail_1_1InsertAgentNodeCallback.html#a482fde2d500f64a650505be3d0ae3359'', 1, ''fpmas::model::detail::InsertAgentNodeCallback'')]),
      (''insertdistant_1317'', ''insertDistant'', [(''../classfpmas_1_1graph_1_1detail_1_1DistributedGraph.html#a3fb2ab70771e0dd6982edfd79e941518'', 1, ''fpmas::graph::detail::DistributedGraph::insertDistant()''),
        (''../classfpmas_1_1api_1_1graph_1_1DistributedGraph.html#a10fb5863c0ea1fbe6aa8829aa81d154a'', 1, ''fpmas::api::graph::DistributedGraph::insertDistant()'')]),
      (''iprobe_1318'', ''Iprobe'', [(''../classfpmas_1_1api_1_1communication_1_1MpiCommunicator.html#a975cfd8d3c5707c92cc67d263a32cdd4'', 1, ''fpmas::api::communication::MpiCommunicator::Iprobe()''),
        (''../classfpmas_1_1api_1_1communication_1_1TypedMpi.html#a1fb1748db117c0f4d9fc0b82f2329ba3'', 1, ''fpmas::api::communication::TypedMpi::Iprobe()''),
        (''../classfpmas_1_1communication_1_1MpiCommunicatorBase.html#a76369334ed74db26dbeae49053c9575e'', 1, ''fpmas::communication::MpiCommunicatorBase::Iprobe()''),
        (''../classfpmas_1_1communication_1_1detail_1_1TypedMpi.html#ad57c144357e18569b6dc3de89a65d3ce'', 1, ''fpmas::communication::detail::TypedMpi::Iprobe()'')]),
      (''islockedremovenode_1319'', ''isLockedRemoveNode'', [(''../classfpmas_1_1synchro_1_1hard_1_1api_1_1LinkServer.html#a8ff1fc541356c939b6f00bd28b358f2e'', 1, ''fpmas::synchro::hard::api::LinkServer::isLockedRemoveNode()''),
        (''../classfpmas_1_1synchro_1_1hard_1_1LinkServer.html#afa67cedaca96b4a167de36896273d876'', 1, ''fpmas::synchro::hard::LinkServer::isLockedRemoveNode()'')]),
      (''islockedunlink_1320'', ''isLockedUnlink'', [(''../classfpmas_1_1synchro_1_1hard_1_1api_1_1LinkServer.html#a3b4d27e33bad4323b8e4ce30179923fc'', 1, ''fpmas::synchro::hard::api::LinkServer::isLockedUnlink()''),
        (''../classfpmas_1_1synchro_1_1hard_1_1LinkServer.html#ab991e8add47eb0e6f9786273614f16db'', 1, ''fpmas::synchro::hard::LinkServer::isLockedUnlink()'')]),
      (''issend_1321'', ''Issend'', [(''../classfpmas_1_1api_1_1communication_1_1MpiCommunicator.html#a44a9779fbe5e79225615a4d464902ede'', 1, ''fpmas::api::communication::MpiCommunicator::Issend(const void *data, int count, MPI_Datatype datatype, int destination, int tag, Request &amp;request)=0''),
        (''../classfpmas_1_1api_1_1communication_1_1MpiCommunicator.html#a74045416f735eda2a04f9422f1a65cef'', 1, ''fpmas::api::communication::MpiCommunicator::Issend(int destination, int tag, Request &amp;request)=0''),
        (''../classfpmas_1_1api_1_1communication_1_1TypedMpi.html#a1b0737291a2077a0d3f14c20021309af'', 1, ''fpmas::api::communication::TypedMpi::Issend()''),
        (''../classfpmas_1_1communication_1_1MpiCommunicatorBase.html#ad7992533967068813029be32e49046e7'', 1, ''fpmas::communication::MpiCommunicatorBase::Issend(const void *data, int count, MPI_Datatype datatype, int destination, int tag, Request &amp;req) override''),
        (''../classfpmas_1_1communication_1_1MpiCommunicatorBase.html#a5f1402fd70fe5f608035ae755af98d5d'', 1, ''fpmas::communication::MpiCommunicatorBase::Issend(int destination, int tag, Request &amp;req) override''),
        (''../classfpmas_1_1communication_1_1detail_1_1TypedMpi.html#a59445e177f36d20acce02687218dedf9'', 1, ''fpmas::communication::detail::TypedMpi::Issend()'')])]"

definition functions_a :: "raw_entry list" where
  "functions_a = [
      (''job_1322'', ''job'', [(''../classfpmas_1_1api_1_1model_1_1AgentGroup.html#a305224b1bdb3d29821412d154ee4d316'', 1, ''fpmas::api::model::AgentGroup'')]),
      (''job_1323'', ''Job'', [(''../classfpmas_1_1scheduler_1_1Job.html#a86cf492fcf597079c3e9762ae6f749b8'', 1, ''fpmas::scheduler::Job::Job(std::initializer_list&lt; std::reference_wrapper&lt; api::scheduler::Task &gt;&gt; tasks, api::scheduler::Task &amp;end)''),
        (''../classfpmas_1_1scheduler_1_1Job.html#af4e914a72aad082576600e4ab30be1ba'', 1, ''fpmas::scheduler::Job::Job(api::scheduler::Task &amp;begin, std::initializer_list&lt; std::reference_wrapper&lt; api::scheduler::Task &gt;&gt; tasks, api::scheduler::Task &amp;end)''),
        (''../classfpmas_1_1scheduler_1_1Job.html#a49fed048d271c0cfb6605edac2f1ea5b'', 1, ''fpmas::scheduler::Job::Job(api::scheduler::Task &amp;begin, std::initializer_list&lt; std::reference_wrapper&lt; api::scheduler::Task &gt;&gt; tasks)''),
        (''../classfpmas_1_1scheduler_1_1Job.html#a8c5a66ddfa0e3cf6e90926596bf83cba'', 1, ''fpmas::scheduler::Job::Job(std::initializer_list&lt; std::reference_wrapper&lt; api::scheduler::Task &gt;&gt; tasks)''),
        (''../classfpmas_1_1scheduler_1_1Job.html#a285f5658eebffa25ca25561fa0029e36'', 1, ''fpmas::scheduler::Job::Job()'')]),
      (''job_1324'', ''job'', [(''../classfpmas_1_1model_1_1AutoBreakpoint.html#a4e492bc9cbc923d1b06e750b2344fb48'', 1, ''fpmas::model::AutoBreakpoint::job()''),
        (''../classfpmas_1_1model_1_1detail_1_1AgentGroupBase.html#a2b485d248a8e2e65692557d6bbbea7f6'', 1, ''fpmas::model::detail::AgentGroupBase::job() const override''),
        (''../classfpmas_1_1model_1_1detail_1_1AgentGroupBase.html#a5d726030a0bcf58a85af7e0ced02d937'', 1, ''fpmas::model::detail::AgentGroupBase::job() override''),
        (''../classfpmas_1_1io_1_1OutputBase.html#a70f426a3c786d295783e86270b053b81'', 1, ''fpmas::io::OutputBase::job()''),
        (''../classfpmas_1_1api_1_1model_1_1AgentGroup.html#ae62d2bdce9b702dda19f66efc3812b24'', 1, ''fpmas::api::model::AgentGroup::job()''),
        (''../classfpmas_1_1api_1_1io_1_1Output.html#a59becf32e05e39169fcda84c2bf5b200'', 1, ''fpmas::api::io::Output::job()'')]),
      (''jobcount_1325'', ''jobCount'', [(''../classfpmas_1_1api_1_1scheduler_1_1Epoch.html#a0d7387950558a0672c3f447acae8a735'', 1, ''fpmas::api::scheduler::Epoch::jobCount()''),
        (''../classfpmas_1_1scheduler_1_1Epoch.html#a511ab0a4ce36ce4b20c883dd7e949711'', 1, ''fpmas::scheduler::Epoch::jobCount()'')]),
      (''jobs_1326'', ''jobs'', [(''../classfpmas_1_1api_1_1model_1_1AgentGroup.html#a38be689a0b96dbb9e25feca3c962a6d9'', 1, ''fpmas::api::model::AgentGroup::jobs()''),
        (''../classfpmas_1_1api_1_1model_1_1DistributedMoveAlgorithm.html#a06d7fcbb128d61291844d0d7ee1410b7'', 1, ''fpmas::api::model::DistributedMoveAlgorithm::jobs()''),
        (''../classfpmas_1_1api_1_1scheduler_1_1Epoch.html#a66fc5aefc81d2d0527d15a5ba6e84587'', 1, ''fpmas::api::scheduler::Epoch::jobs()''),
        (''../classfpmas_1_1model_1_1detail_1_1AgentGroup.html#ab8c7f358078b2859dff05fd5387385d8'', 1, ''fpmas::model::detail::AgentGroup::jobs()''),
        (''../classfpmas_1_1model_1_1DistributedMoveAlgorithm.html#a7375e91f040c1d5ffc8f206d46d0282c'', 1, ''fpmas::model::DistributedMoveAlgorithm::jobs()''),
        (''../classfpmas_1_1model_1_1MoveAgentGroup.html#ae8878decaf3bad1f1ae0e86506d9300d'', 1, ''fpmas::model::MoveAgentGroup::jobs()''),
        (''../classfpmas_1_1scheduler_1_1Epoch.html#a2b90695c61a86a8d72e8950603ab75bf'', 1, ''fpmas::scheduler::Epoch::jobs()'')]),
      (''jsonoutput_1327'', ''JsonOutput'', [(''../classfpmas_1_1io_1_1JsonOutput.html#a820e323b76e94dceba52678e5e3a8836'', 1, ''fpmas::io::JsonOutput'')])]"

definition functions_b :: "raw_entry list" where
  "functions_b = [
      (''label_1328'', ''label'', [(''../classfpmas_1_1utils_1_1perf_1_1Probe.html#aa93bf0061181d02e241012ad0251db81'', 1, ''fpmas::utils::perf::Probe::label()''),
        (''../classfpmas_1_1api_1_1utils_1_1perf_1_1Probe.html#a47ee538581fe2a7d71700f359d1e725c'', 1, ''fpmas::api::utils::perf::Probe::label()'')]),
      (''lambdatask_1329'', ''LambdaTask'', [(''../classfpmas_1_1scheduler_1_1detail_1_1LambdaTask.html#a41d793f3bcc38360d904353bc3125575'', 1, ''fpmas::scheduler::detail::LambdaTask::LambdaTask()''),
        (''../classfpmas_1_1scheduler_1_1LambdaTask.html#a1844f6bad4b18d4a6811f52dd24f55ab'', 1, ''fpmas::scheduler::LambdaTask::LambdaTask()'')]),
      (''link_1330'', ''link'', [(''../classfpmas_1_1api_1_1graph_1_1DistributedGraph.html#aef8d1101909c65ef27ce861ff9dd1907'', 1, ''fpmas::api::graph::DistributedGraph::link()''),
        (''../classfpmas_1_1api_1_1model_1_1Model.html#a6427014c6c05c44bd7fd97fb002a5889'', 1, ''fpmas::api::model::Model::link()''),
        (''../classfpmas_1_1api_1_1synchro_1_1SyncLinker.html#a7e96590183889c625de55fcd28b8d412'', 1, ''fpmas::api::synchro::SyncLinker::link()''),
        (''../classfpmas_1_1graph_1_1detail_1_1DistributedGraph.html#a8e0bd7495705459f24e363f6e512eaa4'', 1, ''fpmas::graph::detail::DistributedGraph::link()''),
        (''../classfpmas_1_1model_1_1detail_1_1Model.html#a2b8b34698640ac3387675fa056d4eaeb'', 1, ''fpmas::model::detail::Model::link()''),
        (''../classfpmas_1_1synchro_1_1ghost_1_1GhostSyncLinker.html#a35f856a3f5285d91e9a15e0e68766502'', 1, ''fpmas::synchro::ghost::GhostSyncLinker::link()''),
        (''../classfpmas_1_1synchro_1_1hard_1_1api_1_1LinkClient.html#aeceb623d3d5e72851adea3179f7d4941'', 1, ''fpmas::synchro::hard::api::LinkClient::link()''),
        (''../classfpmas_1_1synchro_1_1hard_1_1LinkClient.html#a7ce2f9b08ab490e4c1904bcca841bab4'', 1, ''fpmas::synchro::hard::LinkClient::link()''),
        (''../classfpmas_1_1synchro_1_1hard_1_1HardSyncLinker.html#a84b5aca269c02ad85d57e3ed8f422b1b'', 1, ''fpmas::synchro::hard::HardSyncLinker::link()'')]),
      (''linkclient_1331'', ''LinkClient'', [(''../classfpmas_1_1synchro_1_1hard_1_1LinkClient.html#a9673a3f55ca1f8a37b60ea6f8f6df714'', 1, ''fpmas::synchro::hard::LinkClient'')]),
      (''linkin_1332'', ''linkIn'', [(''../classfpmas_1_1api_1_1graph_1_1Node.html#a62274d50d14a13a140522c48b59c5870'', 1, ''fpmas::api::graph::Node::linkIn()''),
        (''../classfpmas_1_1graph_1_1Node.html#ad5a591f477dd47be0c4211527ce71e53'', 1, ''fpmas::graph::Node::linkIn()'')]),
      (''linkout_1333'', ''linkOut'', [(''../classfpmas_1_1api_1_1graph_1_1Node.html#ac1a4abf794607f885dabf23a475d2c33'', 1, ''fpmas::api::graph::Node::linkOut()''),
        (''../classfpmas_1_1graph_1_1Node.html#ab740cbe8dac62ae82afb6d48a376cb33'', 1, ''fpmas::graph::Node::linkOut()'')]),
      (''linkserver_1334'', ''linkServer'', [(''../classfpmas_1_1synchro_1_1hard_1_1ServerPack.html#aa0c7126648e43ad00355877ba1634723'', 1, ''fpmas::synchro::hard::ServerPack'')]),
      (''linkserver_1335'', ''LinkServer'', [(''../classfpmas_1_1synchro_1_1hard_1_1LinkServer.html#a1a4ec6b1d7ca660e3815167ee4f30dcf'', 1, ''fpmas::synchro::hard::LinkServer'')]),
      (''load_1336'', ''load'', [(''../classfpmas_1_1api_1_1io_1_1Breakpoint.html#a3ebf38430500bad9ee5ed2557195491f'', 1, ''fpmas::api::io::Breakpoint::load()''),
        (''../classfpmas_1_1io_1_1Breakpoint.html#ad727a74902d79270242057bcfc7d62fd'', 1, ''fpmas::io::Breakpoint::load()'')]),
      (''loadbalancingjob_1337'', ''loadBalancingJob'', [(''../classfpmas_1_1api_1_1model_1_1Model.html#a573a9ec4c44a91984ea7e54069f50585'', 1, ''fpmas::api::model::Model::loadBalancingJob()''),
        (''../classfpmas_1_1model_1_1detail_1_1Model.html#aca1a0805ca1e1cdaad37f60fc8d3a9eb'', 1, ''fpmas::model::detail::Model::loadBalancingJob()'')]),
      (''loadbalancingtask_1338'', ''LoadBalancingTask'', [(''../classfpmas_1_1model_1_1detail_1_1LoadBalancingTask.html#af7fd918dec1626b1f7d56dba25bbd139'', 1, ''fpmas::model::detail::LoadBalancingTask'')]),
      (''localagents_1339'', ''localAgents'', [(''../classfpmas_1_1api_1_1model_1_1AgentGroup.html#a847a43eca5667ed69d424738f6177dbf'', 1, ''fpmas::api::model::AgentGroup::localAgents()''),
        (''../classfpmas_1_1model_1_1detail_1_1AgentGroupBase.html#a554320e700d4ab0b318cd53396e4101b'', 1, ''fpmas::model::detail::AgentGroupBase::localAgents()'')]),
      (''localizednode_1340'', ''LocalizedNode'', [(''../structfpmas_1_1graph_1_1detail_1_1LocalizedNode.html#a980442c3693b0cd243faca2200831865'', 1, ''fpmas::graph::detail::LocalizedNode'')]),
      (''localizednodeview_1341'', ''LocalizedNodeView'', [(''../structfpmas_1_1graph_1_1detail_1_1LocalizedNodeView.html#a1d763f64347cb79a57d276e685a93edf'', 1, ''fpmas::graph::detail::LocalizedNodeView'')]),
      (''localnodecount_1342'', ''localNodeCount'', [(''../classfpmas_1_1api_1_1graph_1_1DistributedNodeBuilder.html#a5a7d5c780fd08380fe4c022763181f2f'', 1, ''fpmas::api::graph::DistributedNodeBuilder::localNodeCount()''),
        (''../classfpmas_1_1graph_1_1DistributedNodeBuilder.html#a8602465a1f6cb347dd0f8b6b3b30ac14'', 1, ''fpmas::graph::DistributedNodeBuilder::localNodeCount()'')]),
      (''location_1343'', ''location'', [(''../classfpmas_1_1api_1_1graph_1_1DistributedNode.html#a54a0655fdc97496cd1f5a78bc7209fbd'', 1, ''fpmas::api::graph::DistributedNode::location()''),
        (''../classfpmas_1_1model_1_1GridCellBase.html#a517352ccff263f88196223a29dffc981'', 1, ''fpmas::model::GridCellBase::location()''),
        (''../classfpmas_1_1api_1_1model_1_1GridCell.html#ad793049809a549738bc7942495d5210a'', 1, ''fpmas::api::model::GridCell::location()''),
        (''../classfpmas_1_1graph_1_1DistributedNode.html#a9f39ed8fdb95fa3f25ec027bfc79e7e3'', 1, ''fpmas::graph::DistributedNode::location()'')]),
      (''locationcell_1344'', ''locationCell'', [(''../classfpmas_1_1api_1_1model_1_1SpatialAgent.html#a710835cc3b3e28dfebaa834003b4363d'', 1, ''fpmas::api::model::SpatialAgent::locationCell()''),
        (''../classfpmas_1_1model_1_1SpatialAgentBase.html#a58aac637cb24e6722024bd5208efa998'', 1, ''fpmas::model::SpatialAgentBase::locationCell()'')]),
      (''locationid_1345'', ''locationId'', [(''../classfpmas_1_1api_1_1model_1_1SpatialAgent.html#acce9e122bb6da9ed2b284c6dcf831553'', 1, ''fpmas::api::model::SpatialAgent::locationId()''),
        (''../classfpmas_1_1model_1_1SpatialAgentBase.html#a4210fa6392f62bcdb327fba980095070'', 1, ''fpmas::model::SpatialAgentBase::locationId()'')]),
      (''locationmanager_1346'', ''LocationManager'', [(''../classfpmas_1_1graph_1_1LocationManager.html#ae1da66baeee3bfcdf91eb2234184d802'', 1, ''fpmas::graph::LocationManager'')]),
      (''locationpoint_1347'', ''locationPoint'', [(''../classfpmas_1_1model_1_1GridAgent.html#accfa102f0b53b7a10ac3d4ac95befb0a'', 1, ''fpmas::model::GridAgent::locationPoint()''),
        (''../classfpmas_1_1api_1_1model_1_1GridAgent.html#ae388414b50d57ebec0d8bb2ba8c2c24c'', 1, ''fpmas::api::model::GridAgent::locationPoint()'')]),
      (''lock_1348'', ''lock'', [(''../classfpmas_1_1api_1_1synchro_1_1Mutex.html#aa48f90b41a1587487dce13b543daef14'', 1, ''fpmas::api::synchro::Mutex::lock()''),
        (''../classfpmas_1_1synchro_1_1ghost_1_1SingleThreadMutex.html#a31ca5036d0e17772e83e4d6897eee16d'', 1, ''fpmas::synchro::ghost::SingleThreadMutex::lock()''),
        (''../classfpmas_1_1synchro_1_1hard_1_1api_1_1MutexClient.html#ad63d29ffb9a38821f2834e12a8c539b1'', 1, ''fpmas::synchro::hard::api::MutexClient::lock()''),
        (''../classfpmas_1_1synchro_1_1hard_1_1api_1_1MutexServer.html#ae0e3f9df35aee4bba60e9e7c69eeefa7'', 1, ''fpmas::synchro::hard::api::MutexServer::lock()''),
        (''../classfpmas_1_1synchro_1_1hard_1_1HardSyncMutex.html#a431b07a69e94c64b9c51d1cbb2f764f8'', 1, ''fpmas::synchro::hard::HardSyncMutex::lock()''),
        (''../classfpmas_1_1synchro_1_1hard_1_1MutexClient.html#a8a466d84900c0d8ec67853b316b2ba9f'', 1, ''fpmas::synchro::hard::MutexClient::lock()'')]),
      (''locked_1349'', ''locked'', [(''../classfpmas_1_1api_1_1synchro_1_1Mutex.html#ad0a034f31ef9c1e846690d152aa9a18d'', 1, ''fpmas::api::synchro::Mutex::locked()''),
        (''../classfpmas_1_1synchro_1_1hard_1_1HardSyncMutex.html#aa42c3254302c44d3117a3a79f6748a95'', 1, ''fpmas::synchro::hard::HardSyncMutex::locked()''),
        (''../classfpmas_1_1synchro_1_1ghost_1_1SingleThreadMutex.html#a638b9476f1eee4fd3fd1bb4e76b51e04'', 1, ''fpmas::synchro::ghost::SingleThreadMutex::locked()'')]),
      (''lockguard_1350'', ''LockGuard'', [(''../classfpmas_1_1model_1_1LockGuard.html#ad1270a6e8106df3640da573685daa52c'', 1, ''fpmas::model::LockGuard::LockGuard()''),
        (''../classfpmas_1_1synchro_1_1LockGuard.html#a249007229432521881b3cefb5d08add5'', 1, ''fpmas::synchro::LockGuard::LockGuard()'')]),
      (''lockremovenode_1351'', ''lockRemoveNode'', [(''../classfpmas_1_1synchro_1_1hard_1_1api_1_1LinkServer.html#af0c8c6ad5112fc95b54c28844657e455'', 1, ''fpmas::synchro::hard::api::LinkServer::lockRemoveNode()''),
        (''../classfpmas_1_1synchro_1_1hard_1_1LinkServer.html#a67284317f609ed87a7db36dd860773fd'', 1, ''fpmas::synchro::hard::LinkServer::lockRemoveNode()'')]),
      (''lockshared_1352'', ''lockShared'', [(''../classfpmas_1_1api_1_1synchro_1_1Mutex.html#a1287fadba68dc72afc5a348535aebd65'', 1, ''fpmas::api::synchro::Mutex::lockShared()''),
        (''../classfpmas_1_1synchro_1_1ghost_1_1SingleThreadMutex.html#ad2d1f3b93c180ff37395fd9c1b020108'', 1, ''fpmas::synchro::ghost::SingleThreadMutex::lockShared()''),
        (''../classfpmas_1_1synchro_1_1hard_1_1api_1_1MutexClient.html#a209aed9af594b74ed1a569c4bafcad62'', 1, ''fpmas::synchro::hard::api::MutexClient::lockShared()''),
        (''../classfpmas_1_1synchro_1_1hard_1_1api_1_1MutexServer.html#aa5330b30680f557816dc549bcff9a2eb'', 1, ''fpmas::synchro::hard::api::MutexServer::lockShared()''),
        (''../classfpmas_1_1synchro_1_1hard_1_1HardSyncMutex.html#a19a5556f3720b3a2c75a0e48f7ce668a'', 1, ''fpmas::synchro::hard::HardSyncMutex::lockShared()''),
        (''../classfpmas_1_1synchro_1_1hard_1_1MutexClient.html#a5047f081d52471c968d7fc34779e2bc8'', 1, ''fpmas::synchro::hard::MutexClient::lockShared()'')]),
      (''lockunlink_1353'', ''lockUnlink'', [(''../classfpmas_1_1synchro_1_1hard_1_1api_1_1LinkServer.html#a1a2ca7079f337a93547ada0ccd2e0ef0'', 1, ''fpmas::synchro::hard::api::LinkServer::lockUnlink()''),
        (''../classfpmas_1_1synchro_1_1hard_1_1LinkServer.html#a85fe2ac9644b70484f73ac252bd416ff'', 1, ''fpmas::synchro::hard::LinkServer::lockUnlink()'')])]"

definition functions_c :: "raw_entry list" where
  "functions_c = [
      (''manage_1354'', ''manage'', [(''../classfpmas_1_1synchro_1_1hard_1_1MutexServer.html#a878014fbdda6563116bb51c0439a0e45'', 1, ''fpmas::synchro::hard::MutexServer::manage()''),
        (''../classfpmas_1_1synchro_1_1hard_1_1api_1_1MutexServer.html#a0cf5839fb3e5d2e59eea02f731ca1cc5'', 1, ''fpmas::synchro::hard::api::MutexServer::manage()'')]),
      (''max_1355'', ''max'', [(''../classfpmas_1_1api_1_1random_1_1Distribution.html#a5b25db265c7a818ae5674e42175dd801'', 1, ''fpmas::api::random::Distribution::max()''),
        (''../classfpmas_1_1random_1_1Distribution.html#afb9c599c5eb646719118ec9f75a34d73'', 1, ''fpmas::random::Distribution::max()''),
        (''../classfpmas_1_1random_1_1Generator.html#a07a797de873e8990d6194875acfa9bdf'', 1, ''fpmas::random::Generator::max()''),
        (''../classfpmas_1_1random_1_1DistributedGenerator.html#aadf72e393fc04f8b64b89648818b539b'', 1, ''fpmas::random::DistributedGenerator::max()'')]),
      (''migrate_1356'', ''migrate'', [(''../classfpmas_1_1api_1_1communication_1_1TypedMpi.html#a6550b59def1df2ff4570debf69164cbb'', 1, ''fpmas::api::communication::TypedMpi::migrate()''),
        (''../classfpmas_1_1communication_1_1detail_1_1TypedMpi.html#a26b7042265852578e7c8e83ac8d08b81'', 1, ''fpmas::communication::detail::TypedMpi::migrate()'')]),
      (''min_1357'', ''min'', [(''../classfpmas_1_1api_1_1random_1_1Distribution.html#a6be8f2f682ac30ba47a646dc7ba5ae95'', 1, ''fpmas::api::random::Distribution::min()''),
        (''../classfpmas_1_1random_1_1DistributedGenerator.html#a54fa9dc05dc5b1bae74322d969dca7eb'', 1, ''fpmas::random::DistributedGenerator::min()''),
        (''../classfpmas_1_1random_1_1Generator.html#a2f4a899aec90416e202d429bc9d422ab'', 1, ''fpmas::random::Generator::min()''),
        (''../classfpmas_1_1random_1_1Distribution.html#ac15bab73579b77b1f4d1d33c1bff82af'', 1, ''fpmas::random::Distribution::min()'')]),
      (''mobilityfield_1358'', ''mobilityField'', [(''../classfpmas_1_1model_1_1SpatialAgentBase.html#ab250f88fe03847729f9cbfd54cb6418a'', 1, ''fpmas::model::SpatialAgentBase'')]),
      (''mobilityrange_1359'', ''mobilityRange'', [(''../classfpmas_1_1api_1_1model_1_1SpatialAgent.html#af0b5c8d4f351c9d1ca22247db4ba7911'', 1, ''fpmas::api::model::SpatialAgent::mobilityRange()''),
        (''../classfpmas_1_1model_1_1SpatialAgentBase.html#abfd681d02357c416b4eda2be4101377e'', 1, ''fpmas::model::SpatialAgentBase::mobilityRange()'')]),
      (''model_1360'', ''Model'', [(''../classfpmas_1_1model_1_1detail_1_1Model.html#a7bf0a51e12adef065c5417b339bc6272'', 1, ''fpmas::model::detail::Model'')]),
      (''model_1361'', ''model'', [(''../classfpmas_1_1model_1_1AgentBase.html#a38c0da5ab8c9467ea383dfc813077cc1'', 1, ''fpmas::model::AgentBase::model()''),
        (''../classfpmas_1_1api_1_1model_1_1Agent.html#a109e978f560ff376679066e07372dee7'', 1, ''fpmas::api::model::Agent::model() const =0''),
        (''../classfpmas_1_1api_1_1model_1_1Agent.html#ae6794887a1eec21b29534b5612e1f60d'', 1, ''fpmas::api::model::Agent::model()=0''),
        (''../classfpmas_1_1model_1_1AgentBase.html#a4149099bc92fef542a8c14d062655a27'', 1, ''fpmas::model::AgentBase::model()'')]),
      (''moveagentgroup_1362'', ''MoveAgentGroup'', [(''../classfpmas_1_1model_1_1MoveAgentGroup.html#a149eff11b17eae02c30c47b7a2b8321c'', 1, ''fpmas::model::MoveAgentGroup'')]),
      (''moveassign_1363'', ''moveAssign'', [(''../classfpmas_1_1api_1_1model_1_1Agent.html#acf5e675efc2b0a5d634afbcb9dd9d98d'', 1, ''fpmas::api::model::Agent::moveAssign()''),
        (''../classfpmas_1_1model_1_1AgentBase.html#aa4d9af0b20d9310fe764ae00142ef8be'', 1, ''fpmas::model::AgentBase::moveAssign()'')]),
      (''moveto_1364'', ''moveTo'', [(''../classfpmas_1_1model_1_1SpatialAgentBase.html#a0c1a2e3bf455891a6187142b9ae67e32'', 1, ''fpmas::model::SpatialAgentBase::moveTo()''),
        (''../classfpmas_1_1model_1_1SpatialAgent.html#a0e2d10191115349a31dddf76b1dd3061'', 1, ''fpmas::model::SpatialAgent::moveTo()''),
        (''../classfpmas_1_1model_1_1GridAgent.html#ac4850609356482bbc3052d6cf71cc938'', 1, ''fpmas::model::GridAgent::moveTo(DiscretePoint point) override''),
        (''../classfpmas_1_1model_1_1GridAgent.html#a2da3a11cddb3178a04bdf6ab06fd0c85'', 1, ''fpmas::model::GridAgent::moveTo(GridCellType *cell) override''),
        (''../classfpmas_1_1api_1_1model_1_1SpatialAgent.html#ac119bd703acb668dd20ca7dc97deab24'', 1, ''fpmas::api::model::SpatialAgent::moveTo(Cell *cell)=0''),
        (''../classfpmas_1_1api_1_1model_1_1SpatialAgent.html#a05227b8b6e46c6c6b698ec532a326712'', 1, ''fpmas::api::model::SpatialAgent::moveTo(DistributedId id)=0''),
        (''../classfpmas_1_1api_1_1model_1_1GridAgent.html#a4d8ffe0ed3d4bf1256d5e7310eeaf8d8'', 1, ''fpmas::api::model::GridAgent::moveTo()'')]),
      (''mpicommunicator_1365'', ''MpiCommunicator'', [(''../classfpmas_1_1communication_1_1MpiCommunicator.html#a42eb9726161eaef0864433d57c1153e6'', 1, ''fpmas::communication::MpiCommunicator'')]),
      (''mutex_1366'', ''mutex'', [(''../classfpmas_1_1api_1_1graph_1_1DistributedNode.html#aa0e98df57f3a60863e96cde279e88941'', 1, ''fpmas::api::graph::DistributedNode::mutex()=0''),
        (''../classfpmas_1_1api_1_1graph_1_1DistributedNode.html#ab317f38259f5465264141f2ebc514bbb'', 1, ''fpmas::api::graph::DistributedNode::mutex() const =0''),
        (''../classfpmas_1_1graph_1_1DistributedNode.html#a334488e333d1f91d57f9512a9fa1b87c'', 1, ''fpmas::graph::DistributedNode::mutex() override''),
        (''../classfpmas_1_1graph_1_1DistributedNode.html#a576c620cde3e2926710a5ec85ad0e498'', 1, ''fpmas::graph::DistributedNode::mutex() const override'')]),
      (''mutexclient_1367'', ''MutexClient'', [(''../classfpmas_1_1synchro_1_1hard_1_1MutexClient.html#a7aaf2df0eb269e18cc227c1212780dd7'', 1, ''fpmas::synchro::hard::MutexClient'')]),
      (''mutexrequest_1368'', ''MutexRequest'', [(''../structfpmas_1_1synchro_1_1hard_1_1api_1_1MutexRequest.html#aeb6be710b3dd255c41603e1c761560d7'', 1, ''fpmas::synchro::hard::api::MutexRequest'')]),
      (''mutexserver_1369'', ''mutexServer'', [(''../classfpmas_1_1synchro_1_1hard_1_1ServerPack.html#a23bfe2ed85783cb88d4a7cc645deb258'', 1, ''fpmas::synchro::hard::ServerPack'')]),
      (''mutexserver_1370'', ''MutexServer'', [(''../classfpmas_1_1synchro_1_1hard_1_1MutexServer.html#a6d4e91b0ef7d55e6867a24e1685e8b98'', 1, ''fpmas::synchro::hard::MutexServer'')])]"

definition functions_d :: "raw_entry list" where
  "functions_d = [
      (''neighbor_1371'', ''Neighbor'', [(''../classfpmas_1_1model_1_1Neighbor.html#a31cf6f5a16eb9391dba73c196a62419b'', 1, ''fpmas::model::Neighbor::Neighbor(AgentPtr *agent)''),
        (''../classfpmas_1_1model_1_1Neighbor.html#a0304884c6668454b744a45ed3253a489'', 1, ''fpmas::model::Neighbor::Neighbor(AgentPtr *agent, AgentEdge *edge)''),
        (''../classfpmas_1_1model_1_1Neighbor.html#af1f07083dd75ce75abb86bc8a4891216'', 1, ''fpmas::model::Neighbor::Neighbor()'')]),
      (''neighbors_1372'', ''Neighbors'', [(''../classfpmas_1_1model_1_1Neighbors.html#a82c25e671de601fe865fa8d820f9e6e5'', 1, ''fpmas::model::Neighbors'')]),
      (''node_1373'', ''node'', [(''../classfpmas_1_1scheduler_1_1LambdaTask.html#a57f52c647a52a747909566e4ad1403f7'', 1, ''fpmas::scheduler::LambdaTask'')]),
      (''node_1374'', ''Node'', [(''../classfpmas_1_1graph_1_1Node.html#a6c38aaa3de49d5c38a1a58ab234e63c6'', 1, ''fpmas::graph::Node'')]),
      (''node_1375'', ''node'', [(''../classfpmas_1_1model_1_1AgentBase.html#aac87eb1c094637a4f830055a82591e13'', 1, ''fpmas::model::AgentBase::node() const override''),
        (''../classfpmas_1_1model_1_1AgentBase.html#abf848511e4e9d9d6c8494506b815576c'', 1, ''fpmas::model::AgentBase::node() override''),
        (''../classfpmas_1_1model_1_1detail_1_1AgentTaskBase.html#a0f50d279f2f45435eb9f3f0cd5610994'', 1, ''fpmas::model::detail::AgentTaskBase::node()''),
        (''../classfpmas_1_1api_1_1scheduler_1_1NodeTask.html#a0a99b586a6c4f89ffbb4ecc1697aa8d4'', 1, ''fpmas::api::scheduler::NodeTask::node()''),
        (''../classfpmas_1_1api_1_1model_1_1Agent.html#a7c9746b6c12e2120f5f9d5aaac39316e'', 1, ''fpmas::api::model::Agent::node() const =0''),
        (''../classfpmas_1_1api_1_1model_1_1Agent.html#aa0946e489e1679844800c1bb591ded85'', 1, ''fpmas::api::model::Agent::node()=0'')]),
      (''nodecount_1376'', ''nodeCount'', [(''../classfpmas_1_1api_1_1graph_1_1NodeBuilder.html#a68c7d29ebd39b4d5210803e98350c1b3'', 1, ''fpmas::api::graph::NodeBuilder::nodeCount()''),
        (''../classfpmas_1_1graph_1_1DistributedNodeBuilder.html#a38aaf44d9280a784f8167a1af064df48'', 1, ''fpmas::graph::DistributedNodeBuilder::nodeCount()''),
        (''../classfpmas_1_1model_1_1AgentNodeBuilder.html#a3a49a4df3712a668e3ca37b6a20a8dcc'', 1, ''fpmas::model::AgentNodeBuilder::nodeCount()'')]),
      (''nodeupdatepack_1377'', ''NodeUpdatePack'', [(''../structfpmas_1_1synchro_1_1NodeUpdatePack.html#a605cd7233d25674c6df55675250fc6dc'', 1, ''fpmas::synchro::NodeUpdatePack'')]),
      (''notify_1378'', ''notify'', [(''../classfpmas_1_1synchro_1_1hard_1_1api_1_1MutexServer.html#aac00224db9287acfc0ff0d5841451538'', 1, ''fpmas::synchro::hard::api::MutexServer::notify()''),
        (''../classfpmas_1_1synchro_1_1hard_1_1MutexServer.html#a808685ba1edaaf2767339d61babb0670'', 1, ''fpmas::synchro::hard::MutexServer::notify()'')]),
      (''num_5fedges_5fmulti_5ffn_1379'', ''num_edges_multi_fn'', [(''../namespacefpmas_1_1graph_1_1zoltan.html#a8ceb1dee71273121b43fb532e84ca6f1'', 1, ''fpmas::graph::zoltan'')]),
      (''num_5ffixed_5fobj_5ffn_1380'', ''num_fixed_obj_fn'', [(''../namespacefpmas_1_1graph_1_1zoltan.html#afc8d8a027ec5122418a777805ced56b2'', 1, ''fpmas::graph::zoltan'')]),
      (''num_5fobj_1381'', ''num_obj'', [(''../namespacefpmas_1_1graph_1_1zoltan.html#a4622954269c2bc2645ac99eaaa54edbd'', 1, ''fpmas::graph::zoltan'')])]"

definition functions_e :: "raw_entry list" where
  "functions_e = [
      (''obj_5flist_1382'', ''obj_list'', [(''../namespacefpmas_1_1graph_1_1zoltan.html#adba89d9607e5718874270d2bcf31f873'', 1, ''fpmas::graph::zoltan'')]),
      (''oneraseedgecallbacks_1383'', ''onEraseEdgeCallbacks'', [(''../classfpmas_1_1graph_1_1Graph.html#ac11ed85a4792734a6fa023fdd32eff56'', 1, ''fpmas::graph::Graph::onEraseEdgeCallbacks()''),
        (''../classfpmas_1_1api_1_1graph_1_1Graph.html#a09f2ddf34df400d82d1b4da3330f8921'', 1, ''fpmas::api::graph::Graph::onEraseEdgeCallbacks()'')]),
      (''onerasenodecallbacks_1384'', ''onEraseNodeCallbacks'', [(''../classfpmas_1_1graph_1_1Graph.html#a34d5a980f9e62830b6c3ef8b99f2aeee'', 1, ''fpmas::graph::Graph::onEraseNodeCallbacks()''),
        (''../classfpmas_1_1api_1_1graph_1_1Graph.html#abe6acc8d3eeaddaa066db48d126ef531'', 1, ''fpmas::api::graph::Graph::onEraseNodeCallbacks() const =0'')]),
      (''oninsertedgecallbacks_1385'', ''onInsertEdgeCallbacks'', [(''../classfpmas_1_1api_1_1graph_1_1Graph.html#a891b12b6e3d0a2d8302680d53fcd7871'', 1, ''fpmas::api::graph::Graph::onInsertEdgeCallbacks()''),
        (''../classfpmas_1_1graph_1_1Graph.html#ad219152a3c8894f49c9357dbdb8a4a73'', 1, ''fpmas::graph::Graph::onInsertEdgeCallbacks()'')]),
      (''oninsertnodecallbacks_1386'', ''onInsertNodeCallbacks'', [(''../classfpmas_1_1api_1_1graph_1_1Graph.html#aca9cd9a8a849a36c2db504a6db6502c1'', 1, ''fpmas::api::graph::Graph::onInsertNodeCallbacks()''),
        (''../classfpmas_1_1graph_1_1Graph.html#a666ffbeb3d0904c7b7cccc3f3f0ed6f2'', 1, ''fpmas::graph::Graph::onInsertNodeCallbacks()'')]),
      (''onsetdistantcallbacks_1387'', ''onSetDistantCallbacks'', [(''../classfpmas_1_1api_1_1graph_1_1DistributedGraph.html#ab4899ff35c411748480e427b8efd0af9'', 1, ''fpmas::api::graph::DistributedGraph::onSetDistantCallbacks()''),
        (''../classfpmas_1_1graph_1_1detail_1_1DistributedGraph.html#ab78b2cb2005d17808aca6988d2d892a5'', 1, ''fpmas::graph::detail::DistributedGraph::onSetDistantCallbacks()'')]),
      (''onsetlocalcallbacks_1388'', ''onSetLocalCallbacks'', [(''../classfpmas_1_1api_1_1graph_1_1DistributedGraph.html#af3edf2b3e4368c13c14fa991f6daa74f'', 1, ''fpmas::api::graph::DistributedGraph::onSetLocalCallbacks()''),
        (''../classfpmas_1_1graph_1_1detail_1_1DistributedGraph.html#a7888600e46477335aa752c9c3dc77678'', 1, ''fpmas::graph::detail::DistributedGraph::onSetLocalCallbacks()'')]),
      (''operator_20agenttype_20_2a_1389'', ''operator AgentType *'', [(''../classfpmas_1_1model_1_1Neighbor.html#a649a9450ca879b99d27a9a627418bcdc'', 1, ''fpmas::model::Neighbor'')]),
      (''operator_20const_20t_20_2a_1390'', ''operator const T *'', [(''../classfpmas_1_1api_1_1utils_1_1PtrWrapper.html#acaf17a3071b237d58978ca3df3409c41'', 1, ''fpmas::api::utils::PtrWrapper'')]),
      (''operator_20t_2a_1391'', ''operator T*'', [(''../classfpmas_1_1api_1_1utils_1_1PtrWrapper.html#a8b5fd0670ce17dbc1bf35a8887e84d48'', 1, ''fpmas::api::utils::PtrWrapper'')]),
      (''operator_21_3d_1392'', ''operator!='', [(''../classfpmas_1_1api_1_1graph_1_1DistributedId.html#a6dd1527b19d4aaf29705f0f5f1d3c944'', 1, ''fpmas::api::graph::DistributedId'')]),
      (''operator_28_29_1393'', ''operator()'', [(''../classfpmas_1_1api_1_1random_1_1Generator.html#a6ee526b5d7080fd554ab3a1b289e2a6b'', 1, ''fpmas::api::random::Generator::operator()()''),
        (''../classfpmas_1_1model_1_1ChebyshevDistance.html#af59d9a47483c33dd17215f857d3906d5'', 1, ''fpmas::model::ChebyshevDistance::operator()()''),
        (''../structfpmas_1_1model_1_1MooreRangePerimeter_3_01VonNeumannGrid_3_01CellType_01_4_01_4.html#a1cb856cb3b8061a2a999c49f9b7a80af'', 1, ''fpmas::model::MooreRangePerimeter&lt; VonNeumannGrid&lt; CellType &gt; &gt;::operator()()''),
        (''../structstd_1_1hash_3_01fpmas_1_1model_1_1DiscretePoint_01_4.html#a7c02c2285a81324e143ac00b7b8db269'', 1, ''std::hash&lt; fpmas::model::DiscretePoint &gt;::operator()()''),
        (''../classfpmas_1_1model_1_1ManhattanDistance.html#ad69615e2eb3741ab9757364675fa53e8'', 1, ''fpmas::model::ManhattanDistance::operator()()''),
        (''../structfpmas_1_1model_1_1VonNeumannRangePerimeter_3_01VonNeumannGrid_3_01CellType_01_4_01_4.html#a9de7f58983b1893e751bed26964a4b2d'', 1, ''fpmas::model::VonNeumannRangePerimeter&lt; VonNeumannGrid&lt; CellType &gt; &gt;::operator()()''),
        (''../classfpmas_1_1random_1_1Distribution.html#a93b8db5c90a92f9b366e83aeea19c4b2'', 1, ''fpmas::random::Distribution::operator()()''),
        (''../classfpmas_1_1random_1_1Generator.html#aee2767771d5c027c103bc5d80401e5a0'', 1, ''fpmas::random::Generator::operator()()''),
        (''../classfpmas_1_1random_1_1DistributedGenerator.html#ace59c13f208ae1806962d9911375c956'', 1, ''fpmas::random::DistributedGenerator::operator()()''),
        (''../structfpmas_1_1utils_1_1Concat.html#ab042296c4ddf66eba9bef7be34c1af9f'', 1, ''fpmas::utils::Concat::operator()()''),
        (''../structfpmas_1_1model_1_1PointHash.html#a842599ef8402f419619e04d42097fe9e'', 1, ''fpmas::model::PointHash::operator()()''),
        (''../classfpmas_1_1io_1_1Reduce_1_1All.html#af7495b766611fe3fdde44f110f057d61'', 1, ''fpmas::io::Reduce::All::operator()()''),
        (''../classfpmas_1_1io_1_1Reduce_1_1Single.html#a5f83d65dbec9fa1a1f21bdb12d21ca22'', 1, ''fpmas::io::Reduce::Single::operator()()''),
        (''../classfpmas_1_1io_1_1Local_1_1All.html#a701c63b46e40584c9cc685ef934695a8'', 1, ''fpmas::io::Local::All::operator()()''),
        (''../classfpmas_1_1io_1_1Local_1_1Single.html#a539e50a6dd6eaef4a2e5d0f5d840a573'', 1, ''fpmas::io::Local::Single::operator()()''),
        (''../classfpmas_1_1graph_1_1detail_1_1DistanceComparator.html#a0d066595f7904e2d31feb78b0aade7a6'', 1, ''fpmas::graph::detail::DistanceComparator::operator()()''),
        (''../structfpmas_1_1api_1_1graph_1_1IdHash.html#a3366edfd3ec91842e3e3850e934d0261'', 1, ''fpmas::api::graph::IdHash::operator()()''),
        (''../structstd_1_1hash_3_01DistributedId_01_4.html#ac27f43a045e9588d77c5bbf3c2ae363e'', 1, ''std::hash&lt; DistributedId &gt;::operator()()'')]),
      (''operator_2a_1394'', ''operator*'', [(''../classfpmas_1_1model_1_1Neighbor.html#adfa67afc88d6bedeb440405dd7506c84'', 1, ''fpmas::model::Neighbor::operator*()''),
        (''../classfpmas_1_1api_1_1utils_1_1PtrWrapper.html#a88aa8031412234cc55e53c2b86aaf9ab'', 1, ''fpmas::api::utils::PtrWrapper::operator*() const''),
        (''../classfpmas_1_1api_1_1utils_1_1PtrWrapper.html#a6216685c98ab6df4d1a2a4a46043dbd4'', 1, ''fpmas::api::utils::PtrWrapper::operator*()'')]),
      (''operator_2b_2b_1395'', ''operator++'', [(''../classfpmas_1_1api_1_1graph_1_1DistributedId.html#a1948ef62f00cb4e9951faa92e57d9b7f'', 1, ''fpmas::api::graph::DistributedId::operator++()''),
        (''../classfpmas_1_1api_1_1graph_1_1Id.html#ad1a57f4341e09cbfc40c82946550edcb'', 1, ''fpmas::api::graph::Id::operator++()'')]),
      (''operator_2d_3e_1396'', ''operator-&gt;'', [(''../classfpmas_1_1api_1_1utils_1_1PtrWrapper.html#a405a80c514cf572530d979ec563146e6'', 1, ''fpmas::api::utils::PtrWrapper::operator-&gt;()''),
        (''../classfpmas_1_1api_1_1utils_1_1PtrWrapper.html#a3d1226d3486d2f8a80541ec3eb118881'', 1, ''fpmas::api::utils::PtrWrapper::operator-&gt;() const''),
        (''../classfpmas_1_1model_1_1Neighbor.html#a873c043dafa06fc95093b924aeda92bb'', 1, ''fpmas::model::Neighbor::operator-&gt;()'')]),
      (''operator_3c_1397'', ''operator&lt;'', [(''../classfpmas_1_1api_1_1graph_1_1DistributedId.html#a044cc6d16e097b0ff87df3b390e78068'', 1, ''fpmas::api::graph::DistributedId'')]),
      (''operator_3c_3c_1398'', ''operator&lt;&lt;'', [(''../namespacefpmas_1_1api_1_1graph.html#abe5521f3ef478eb4bba78b8cf5e2a6a4'', 1, ''fpmas::api::graph::operator&lt;&lt;(std::ostream &amp;os, const DistributedId &amp;id)''),
        (''../namespacefpmas_1_1api_1_1graph.html#a131b1b921a1f3636426e6a8ebcf10722'', 1, ''fpmas::api::graph::operator&lt;&lt;(std::ostream &amp;os, const LocationState &amp;loc)''),
        (''../namespacefpmas_1_1api_1_1model.html#a789eb79b1637abcadd080ec44394ff8d'', 1, ''fpmas::api::model::operator&lt;&lt;()'')]),
      (''operator_3d_1399'', ''operator='', [(''../classfpmas_1_1api_1_1model_1_1AgentPtr.html#a6425a7cf25850aa5c091ff4c3988ba77'', 1, ''fpmas::api::model::AgentPtr::operator=()''),
        (''../classfpmas_1_1model_1_1detail_1_1AgentGroupBase.html#a879251be90fc8954021cd0f57517696a'', 1, ''fpmas::model::detail::AgentGroupBase::operator=()''),
        (''../classfpmas_1_1graph_1_1Graph.html#a32e2720851052ab1996facb63c00a068'', 1, ''fpmas::graph::Graph::operator=()''),
        (''../classfpmas_1_1graph_1_1detail_1_1DistributedGraph.html#a0112f4a68bad13afc46e09f0997c1dfe'', 1, ''fpmas::graph::detail::DistributedGraph::operator=()''),
        (''../classfpmas_1_1api_1_1model_1_1AgentPtr.html#a975c6a0284722c533a4dd947f22b5843'', 1, ''fpmas::api::model::AgentPtr::operator=()''),
        (''../structfpmas_1_1api_1_1communication_1_1Request.html#a5bd93a3865c8118f1f920dc3921ad833'', 1, ''fpmas::api::communication::Request::operator=()''),
        (''../classfpmas_1_1api_1_1communication_1_1DataPack.html#a1a885aac8266c8f036e24e2ae11b4201'', 1, ''fpmas::api::communication::DataPack::operator=(DataPack &amp;&amp;other)''),
        (''../classfpmas_1_1api_1_1communication_1_1DataPack.html#aac75575d4cf73ffaa41735e4ce257e03'', 1, ''fpmas::api::communication::DataPack::operator=(const DataPack &amp;other)'')]),
      (''operator_3d_3d_1400'', ''operator=='', [(''../classfpmas_1_1api_1_1graph_1_1DistributedId.html#abb2a1130a07b9bce785c8882c722a0b3'', 1, ''fpmas::api::graph::DistributedId::operator==()''),
        (''../classfpmas_1_1api_1_1graph_1_1Id.html#a91c47fa6f34308f568ffcc50174fa223'', 1, ''fpmas::api::graph::Id::operator==()''),
        (''../structfpmas_1_1synchro_1_1hard_1_1api_1_1MutexRequest.html#a188359b9d19a52e3bbf09e7a84587657'', 1, ''fpmas::synchro::hard::api::MutexRequest::operator==()''),
        (''../namespacefpmas_1_1api_1_1communication.html#af9cdbe40e4ee988dc3d0b9123b972ca2'', 1, ''fpmas::api::communication::operator==()''),
        (''../namespacefpmas_1_1api_1_1model.html#a2edae9b216b491380a80b2f3e42d78b3'', 1, ''fpmas::api::model::operator==()'')]),
      (''operator_5b_5d_1401'', ''operator[]'', [(''../classfpmas_1_1model_1_1Neighbors.html#abf1492a8a051d3b15ee5a5fdffdb7b8a'', 1, ''fpmas::model::Neighbors::operator[](std::size_t i)''),
        (''../classfpmas_1_1model_1_1Neighbors.html#ac92b1e3c73fd47f218988d9daa708833'', 1, ''fpmas::model::Neighbors::operator[](std::size_t i) const'')]),
      (''outneighbors_1402'', ''outNeighbors'', [(''../classfpmas_1_1graph_1_1Node.html#a8168dd4eb18249100aadb9e5252907c2'', 1, ''fpmas::graph::Node::outNeighbors()''),
        (''../classfpmas_1_1model_1_1NeighborsAccess.html#a5ee662fa0bce76b54fb44cf3877b0e04'', 1, ''fpmas::model::NeighborsAccess::outNeighbors() const''),
        (''../classfpmas_1_1model_1_1NeighborsAccess.html#a6bada5c25bddac3caa77a97c88966334'', 1, ''fpmas::model::NeighborsAccess::outNeighbors(api::graph::LayerId layer) const''),
        (''../classfpmas_1_1graph_1_1Node.html#a44717e8ca69112422ba4e6147e11b247'', 1, ''fpmas::graph::Node::outNeighbors()''),
        (''../classfpmas_1_1api_1_1graph_1_1Node.html#afe764c113721a3d31fa9aa6d700fe3c6'', 1, ''fpmas::api::graph::Node::outNeighbors(LayerId layer_id) const =0''),
        (''../classfpmas_1_1api_1_1graph_1_1Node.html#a190df8c997cbef3d37c7bb9bc440eff0'', 1, ''fpmas::api::graph::Node::outNeighbors() const =0'')]),
      (''outoffieldexception_1403'', ''OutOfFieldException'', [(''../classfpmas_1_1api_1_1model_1_1OutOfFieldException.html#a9998b91b35ccc3033bd41b91461d7e85'', 1, ''fpmas::api::model::OutOfFieldException'')]),
      (''outofmobilityfieldexception_1404'', ''OutOfMobilityFieldException'', [(''../classfpmas_1_1api_1_1model_1_1OutOfMobilityFieldException.html#a51e02031da3777c89b3813cf6b058c81'', 1, ''fpmas::api::model::OutOfMobilityFieldException::OutOfMobilityFieldException(fpmas::api::graph::DistributedId agent_id, fpmas::api::graph::DistributedId cell_id)''),
        (''../classfpmas_1_1api_1_1model_1_1OutOfMobilityFieldException.html#a09b350f13e28a08d87b9e39e519708cf'', 1, ''fpmas::api::model::OutOfMobilityFieldException::OutOfMobilityFieldException(fpmas::api::graph::DistributedId agent_id, fpmas::api::model::DiscretePoint agent_location, fpmas::api::model::DiscretePoint cell_point)'')]),
      (''outputbase_1405'', ''OutputBase'', [(''../classfpmas_1_1io_1_1OutputBase.html#a2ea2e49aa07949866524464d806264f0'', 1, ''fpmas::io::OutputBase'')]),
      (''outputtask_1406'', ''OutputTask'', [(''../classfpmas_1_1io_1_1OutputTask.html#a8d25b0cfff8c10b276af62a67c972eed'', 1, ''fpmas::io::OutputTask'')]),
      (''string_1407'', ''string'', [(''../classfpmas_1_1api_1_1graph_1_1DistributedId.html#a626f433c58d6b254b20b72f0f00f0d3c'', 1, ''fpmas::api::graph::DistributedId::string()''),
        (''../classfpmas_1_1api_1_1graph_1_1Id.html#a7bc968e18c41cf2322be8d4d219b25f8'', 1, ''fpmas::api::graph::Id::string()'')])]"

definition functions_f :: "raw_entry list" where
  "functions_f = [
      (''perceptionrange_1408'', ''perceptionRange'', [(''../classfpmas_1_1api_1_1model_1_1SpatialAgent.html#a1544209c531ed943b5e2cba0eb87736d'', 1, ''fpmas::api::model::SpatialAgent::perceptionRange()''),
        (''../classfpmas_1_1model_1_1SpatialAgentBase.html#aa114a59eacb17ca4f24bf465acd58a27'', 1, ''fpmas::model::SpatialAgentBase::perceptionRange() const override'')]),
      (''perceptions_1409'', ''perceptions'', [(''../classfpmas_1_1model_1_1SpatialAgentBase.html#a61da76c0d3e47fc209aaabbb2d55845b'', 1, ''fpmas::model::SpatialAgentBase'')]),
      (''point_1410'', ''Point'', [(''../structfpmas_1_1graph_1_1detail_1_1Point.html#ab262273bdb7d8724e83dd88044919964'', 1, ''fpmas::graph::detail::Point'')]),
      (''probe_1411'', ''Probe'', [(''../classfpmas_1_1utils_1_1perf_1_1Probe.html#a8553661239f307f739c61eab99c7ab8d'', 1, ''fpmas::utils::perf::Probe::Probe(std::string label)''),
        (''../classfpmas_1_1utils_1_1perf_1_1Probe.html#a1d36fd273f219f118ac4b0f6f7816cb4'', 1, ''fpmas::utils::perf::Probe::Probe(std::string label, std::function&lt; bool()&gt; condition)'')]),
      (''probe_1412'', ''probe'', [(''../classfpmas_1_1api_1_1communication_1_1MpiCommunicator.html#a5dbf8bcbe25f3ec56a90e0640e5d2a3b'', 1, ''fpmas::api::communication::MpiCommunicator::probe()''),
        (''../classfpmas_1_1api_1_1communication_1_1TypedMpi.html#ac0b47b6e02f6457960a711b3ca2372cd'', 1, ''fpmas::api::communication::TypedMpi::probe()''),
        (''../classfpmas_1_1communication_1_1MpiCommunicatorBase.html#ab3e5b2caaa24391b5e0a32e1a4279a68'', 1, ''fpmas::communication::MpiCommunicatorBase::probe()''),
        (''../classfpmas_1_1communication_1_1detail_1_1TypedMpi.html#aa8cab487526f65d535d2ab3df7546be0'', 1, ''fpmas::communication::detail::TypedMpi::probe()'')]),
      (''ptrwrapper_1413'', ''PtrWrapper'', [(''../classfpmas_1_1api_1_1utils_1_1PtrWrapper.html#ab73e879af5ad12ba5b5e6739cffaa866'', 1, ''fpmas::api::utils::PtrWrapper::PtrWrapper()''),
        (''../classfpmas_1_1api_1_1utils_1_1PtrWrapper.html#a457ce5f8a61c4f454b92fd3b6bee0f9a'', 1, ''fpmas::api::utils::PtrWrapper::PtrWrapper(T *ptr)'')]),
      (''push_1414'', ''push'', [(''../classfpmas_1_1model_1_1AgentNodeBuilder.html#ae9897ac96d1826471e8c62e7cc60c480'', 1, ''fpmas::model::AgentNodeBuilder'')]),
      (''pushrequest_1415'', ''pushRequest'', [(''../classfpmas_1_1synchro_1_1hard_1_1api_1_1HardSyncMutex.html#a0ab06fe23e238b08a97768f771ff6013'', 1, ''fpmas::synchro::hard::api::HardSyncMutex::pushRequest()''),
        (''../classfpmas_1_1synchro_1_1hard_1_1HardSyncMutex.html#a4579865be13a280c345198e353695688'', 1, ''fpmas::synchro::hard::HardSyncMutex::pushRequest()'')])]"

definition functions_10 :: "raw_entry list" where
  "functions_10 = [
      (''radius_1416'', ''radius'', [(''../classfpmas_1_1model_1_1GraphRange.html#ae8082f8f11692fe7b6824f4efd3b67f4'', 1, ''fpmas::model::GraphRange::radius()''),
        (''../classfpmas_1_1model_1_1GridRange.html#a4f3e6a640485e4fd4ac3aba2fc1facb4'', 1, ''fpmas::model::GridRange::radius()''),
        (''../classfpmas_1_1api_1_1model_1_1Range.html#a6dc423fc1d7ea52bdd5c640c868d9b91'', 1, ''fpmas::api::model::Range::radius()'')]),
      (''random_1417'', ''random'', [(''../classfpmas_1_1model_1_1Neighbors.html#aa21a92f8804a4661fd11996a4ad4146f'', 1, ''fpmas::model::Neighbors'')]),
      (''randomgraphbuilder_1418'', ''RandomGraphBuilder'', [(''../classfpmas_1_1graph_1_1RandomGraphBuilder.html#a8edc644b6705759a0e108ad2480f9274'', 1, ''fpmas::graph::RandomGraphBuilder'')]),
      (''randomgridagentmapping_1419'', ''RandomGridAgentMapping'', [(''../classfpmas_1_1model_1_1RandomGridAgentMapping.html#a4b73f99360660092ad9be7311b098941'', 1, ''fpmas::model::RandomGridAgentMapping'')]),
      (''randomloadbalancing_1420'', ''RandomLoadBalancing'', [(''../classfpmas_1_1graph_1_1RandomLoadBalancing.html#a52978fc1f0bece78e8ec2eeb759a7b8b'', 1, ''fpmas::graph::RandomLoadBalancing'')]),
      (''rank_1421'', ''rank'', [(''../classfpmas_1_1api_1_1graph_1_1DistributedId.html#a57f698a2639f24de0a019e1c9902d5fb'', 1, ''fpmas::api::graph::DistributedId'')]),
      (''reachablecells_1422'', ''reachableCells'', [(''../classfpmas_1_1model_1_1ReachableCell.html#a18accb5e31f626a57bc84d6d0b673987'', 1, ''fpmas::model::ReachableCell'')]),
      (''read_1423'', ''read'', [(''../classfpmas_1_1synchro_1_1hard_1_1MutexClient.html#a4fecada560fa399757ca9b2f1d8043cf'', 1, ''fpmas::synchro::hard::MutexClient::read()''),
        (''../classfpmas_1_1synchro_1_1hard_1_1HardSyncMutex.html#a9f7e4e56fe216e7026c087833abde061'', 1, ''fpmas::synchro::hard::HardSyncMutex::read()''),
        (''../classfpmas_1_1synchro_1_1hard_1_1api_1_1MutexClient.html#a605d6428958a7addecf549f37d35cc94'', 1, ''fpmas::synchro::hard::api::MutexClient::read()''),
        (''../classfpmas_1_1synchro_1_1ghost_1_1SingleThreadMutex.html#aaa291fea997434b327336e01ea916a43'', 1, ''fpmas::synchro::ghost::SingleThreadMutex::read()''),
        (''../classfpmas_1_1api_1_1synchro_1_1Mutex.html#abbbbdffc747bd45c448ec26d064aedbe'', 1, ''fpmas::api::synchro::Mutex::read()'')]),
      (''read_5fzoltan_5fid_1424'', ''read_zoltan_id'', [(''../namespacefpmas_1_1graph_1_1zoltan.html#a1f1f85ebf5a206d380910c9becb6613b'', 1, ''fpmas::graph::zoltan'')]),
      (''readguard_1425'', ''ReadGuard'', [(''../classfpmas_1_1model_1_1ReadGuard.html#a22ff408d4e0378199c366317a0db5616'', 1, ''fpmas::model::ReadGuard::ReadGuard()''),
        (''../classfpmas_1_1synchro_1_1ReadGuard.html#a4ea091e6a83f9775b71fe41ad8658d44'', 1, ''fpmas::synchro::ReadGuard::ReadGuard()'')]),
      (''recv_1426'', ''recv'', [(''../classfpmas_1_1api_1_1communication_1_1MpiCommunicator.html#a90c9f239f2f895b6e180f6107524df4e'', 1, ''fpmas::api::communication::MpiCommunicator::recv(int source, int tag, Status &amp;status=Status::IGNORE)=0''),
        (''../classfpmas_1_1api_1_1communication_1_1MpiCommunicator.html#a754227599d2c1eca07793a76bc19dc34'', 1, ''fpmas::api::communication::MpiCommunicator::recv(void *buffer, int count, MPI_Datatype datatype, int source, int tag, Status &amp;status)=0''),
        (''../classfpmas_1_1api_1_1communication_1_1TypedMpi.html#a6f4203cc8ae67f7d58f0c5e230105b78'', 1, ''fpmas::api::communication::TypedMpi::recv()''),
        (''../classfpmas_1_1communication_1_1MpiCommunicatorBase.html#ad9e7e173a844ec2867d32b1448875452'', 1, ''fpmas::communication::MpiCommunicatorBase::recv(int source, int tag, Status &amp;status=Status::IGNORE) override''),
        (''../classfpmas_1_1communication_1_1MpiCommunicatorBase.html#a74e52958fa42ffcf2c9daa4da8ea716f'', 1, ''fpmas::communication::MpiCommunicatorBase::recv(void *buffer, int count, MPI_Datatype datatype, int source, int tag, Status &amp;status=Status::IGNORE) override''),
        (''../classfpmas_1_1communication_1_1detail_1_1TypedMpi.html#a9e766db76a83e042c79debf37208ddc6'', 1, ''fpmas::communication::detail::TypedMpi::recv()'')]),
      (''reduce_1427'', ''reduce'', [(''../namespacefpmas_1_1communication.html#ade0613a10cab382e02936abe67237433'', 1, ''fpmas::communication'')]),
      (''register_5ftype_1428'', ''register_type'', [(''../structnlohmann_1_1adl__serializer_3_01std_1_1type__index_01_4.html#a2ef35756346c86be964534f48e339bc9'', 1, ''nlohmann::adl_serializer&lt; std::type_index &gt;'')]),
      (''register_5ftypes_1429'', ''register_types'', [(''../namespacefpmas.html#ad687ae462a5b1dd2d5d1df39c41aa920'', 1, ''fpmas'')]),
      (''register_5ftypes_3c_20void_20_3e_1430'', ''register_types&lt; void &gt;'', [(''../namespacefpmas.html#a4634331ddaec9c6fc199c12eab4c5094'', 1, ''fpmas'')]),
      (''registernodetoremove_1431'', ''registerNodeToRemove'', [(''../classfpmas_1_1synchro_1_1hard_1_1api_1_1HardSyncLinker.html#a3a735d290b05294bf87d7aba2beb9222'', 1, ''fpmas::synchro::hard::api::HardSyncLinker::registerNodeToRemove()''),
        (''../classfpmas_1_1synchro_1_1hard_1_1HardSyncLinker.html#af4b801b9423b6725681340d963976ce9'', 1, ''fpmas::synchro::hard::HardSyncLinker::registerNodeToRemove()'')]),
      (''release_1432'', ''release'', [(''../classfpmas_1_1api_1_1utils_1_1PtrWrapper.html#acca3dd736b3b8004433e47305529879b'', 1, ''fpmas::api::utils::PtrWrapper'')]),
      (''releaseacquire_1433'', ''releaseAcquire'', [(''../classfpmas_1_1synchro_1_1hard_1_1api_1_1MutexClient.html#a4d42fba165d97353139334f6ff5af9b1'', 1, ''fpmas::synchro::hard::api::MutexClient::releaseAcquire()''),
        (''../classfpmas_1_1api_1_1synchro_1_1Mutex.html#a7ac55e46ce06c0507f5375d69a8287d3'', 1, ''fpmas::api::synchro::Mutex::releaseAcquire()''),
        (''../classfpmas_1_1synchro_1_1ghost_1_1SingleThreadMutex.html#a3e3fadf9a47046e3e62d35dfd46099d9'', 1, ''fpmas::synchro::ghost::SingleThreadMutex::releaseAcquire()''),
        (''../classfpmas_1_1synchro_1_1hard_1_1HardSyncMutex.html#a9ad4c7aa5084dbabe4ecb3f7ecff65c5'', 1, ''fpmas::synchro::hard::HardSyncMutex::releaseAcquire()''),
        (''../classfpmas_1_1synchro_1_1hard_1_1MutexClient.html#a6884009cc4203e7886893bb3da8d6004'', 1, ''fpmas::synchro::hard::MutexClient::releaseAcquire()'')]),
      (''releaseread_1434'', ''releaseRead'', [(''../classfpmas_1_1synchro_1_1hard_1_1api_1_1MutexClient.html#a701f8279e4fca49c15f2e8c249d3e248'', 1, ''fpmas::synchro::hard::api::MutexClient::releaseRead()''),
        (''../classfpmas_1_1api_1_1synchro_1_1Mutex.html#afa57d005c8c3e804d8658d997da2802a'', 1, ''fpmas::api::synchro::Mutex::releaseRead()''),
        (''../classfpmas_1_1synchro_1_1ghost_1_1SingleThreadMutex.html#a8ce5578e81c0cb8d38943d3524deb119'', 1, ''fpmas::synchro::ghost::SingleThreadMutex::releaseRead()''),
        (''../classfpmas_1_1synchro_1_1hard_1_1HardSyncMutex.html#a6823d6a49c493ef3234531514fd0573e'', 1, ''fpmas::synchro::hard::HardSyncMutex::releaseRead()''),
        (''../classfpmas_1_1synchro_1_1hard_1_1MutexClient.html#a3efb3d5378b0ad640c71881c730ee844'', 1, ''fpmas::synchro::hard::MutexClient::releaseRead()'')]),
      (''remove_1435'', ''remove'', [(''../classfpmas_1_1api_1_1scheduler_1_1Job.html#a1700a72e63f3488cc2ddd33c423fd990'', 1, ''fpmas::api::scheduler::Job::remove()''),
        (''../classfpmas_1_1api_1_1graph_1_1LocationManager.html#af55879979ae7c0011225efba57eaa59f'', 1, ''fpmas::api::graph::LocationManager::remove()''),
        (''../classfpmas_1_1synchro_1_1hard_1_1MutexServer.html#a59e59dd9c65a297a492ac21c7c197747'', 1, ''fpmas::synchro::hard::MutexServer::remove()''),
        (''../classfpmas_1_1synchro_1_1hard_1_1api_1_1MutexServer.html#a44bd2668c0f1a8e9df5a6eeb3bf82dd8'', 1, ''fpmas::synchro::hard::api::MutexServer::remove()''),
        (''../classfpmas_1_1api_1_1model_1_1AgentGroup.html#a26fcdced435645d94157555677bb72d0'', 1, ''fpmas::api::model::AgentGroup::remove()''),
        (''../classfpmas_1_1graph_1_1LocationManager.html#a5992a6bfba46f45ff059386ab0664fa9'', 1, ''fpmas::graph::LocationManager::remove()''),
        (''../classfpmas_1_1model_1_1detail_1_1AgentGroupBase.html#a6ab7b85ed29da686d3f97b3b838ca873'', 1, ''fpmas::model::detail::AgentGroupBase::remove()''),
        (''../classfpmas_1_1scheduler_1_1Job.html#a9946cf6a9930f5a5a40489e16b365770'', 1, ''fpmas::scheduler::Job::remove()'')]),
      (''removegroup_1436'', ''removeGroup'', [(''../classfpmas_1_1api_1_1model_1_1Agent.html#aa327b8d0ab033b95a635cf0131d1fd35'', 1, ''fpmas::api::model::Agent::removeGroup()''),
        (''../classfpmas_1_1api_1_1model_1_1Model.html#a268cd0238ce1883c3e99aae8e4734cc1'', 1, ''fpmas::api::model::Model::removeGroup()''),
        (''../classfpmas_1_1model_1_1detail_1_1Model.html#aa60b5d12d78c81e891d1d918dbded7a9'', 1, ''fpmas::model::detail::Model::removeGroup()''),
        (''../classfpmas_1_1model_1_1AgentBase.html#ab9744582c9bbcb8eb186465fd233323c'', 1, ''fpmas::model::AgentBase::removeGroup(api::model::AgentGroup *group) override'')]),
      (''removegroupid_1437'', ''removeGroupId'', [(''../classfpmas_1_1model_1_1AgentBase.html#a4dc0eeb87807264cfb4593e9ea03e662'', 1, ''fpmas::model::AgentBase::removeGroupId()''),
        (''../classfpmas_1_1api_1_1model_1_1Agent.html#affebf9145d5a77e16d60bfb384c6d4f3'', 1, ''fpmas::api::model::Agent::removeGroupId()'')]),
      (''removemanagednode_1438'', ''removeManagedNode'', [(''../classfpmas_1_1api_1_1graph_1_1LocationManager.html#a83a6b1b24c9d1c5fbc7a33f80f27486c'', 1, ''fpmas::api::graph::LocationManager::removeManagedNode(DistributedNode&lt; T &gt; *node)=0''),
        (''../classfpmas_1_1api_1_1graph_1_1LocationManager.html#a191b8045b2592aa84ba0f66dbd9ad758'', 1, ''fpmas::api::graph::LocationManager::removeManagedNode(DistributedId id)=0''),
        (''../classfpmas_1_1graph_1_1LocationManager.html#a1f4a031fdde206f663783b572ffb9679'', 1, ''fpmas::graph::LocationManager::removeManagedNode(api::graph::DistributedNode&lt; T &gt; *node) override''),
        (''../classfpmas_1_1graph_1_1LocationManager.html#a954e199562bfeb67819b140b3b1d5bd2'', 1, ''fpmas::graph::LocationManager::removeManagedNode(DistributedId id) override'')]),
      (''removenode_1439'', ''removeNode'', [(''../classfpmas_1_1api_1_1synchro_1_1SyncLinker.html#a3ae8b8e347dec6748fa6c0d0496794d5'', 1, ''fpmas::api::synchro::SyncLinker::removeNode()''),
        (''../classfpmas_1_1api_1_1graph_1_1DistributedGraph.html#a0a20e27bc1434cee36d760278aa79b27'', 1, ''fpmas::api::graph::DistributedGraph::removeNode()''),
        (''../classfpmas_1_1synchro_1_1hard_1_1HardSyncLinker.html#a88b17a787e9491c66a27499b6ab66ee2'', 1, ''fpmas::synchro::hard::HardSyncLinker::removeNode()''),
        (''../classfpmas_1_1synchro_1_1hard_1_1api_1_1LinkClient.html#a42332e5927a431050c2bcc5a30aa3eef'', 1, ''fpmas::synchro::hard::api::LinkClient::removeNode()''),
        (''../classfpmas_1_1api_1_1graph_1_1DistributedGraph.html#ab02cae2fa16324954d02fcc497d1f400'', 1, ''fpmas::api::graph::DistributedGraph::removeNode()''),
        (''../classfpmas_1_1graph_1_1detail_1_1DistributedGraph.html#a8b79d869a2fb4aa169c12a58b6183cf4'', 1, ''fpmas::graph::detail::DistributedGraph::removeNode(api::graph::DistributedNode&lt; T &gt; *) override''),
        (''../classfpmas_1_1graph_1_1detail_1_1DistributedGraph.html#aa2d9e506866dee48646a37dcca28e6fc'', 1, ''fpmas::graph::detail::DistributedGraph::removeNode(DistributedId id) override''),
        (''../classfpmas_1_1synchro_1_1ghost_1_1GhostSyncLinker.html#a64538d6f25270780b6b0d276d97d43ef'', 1, ''fpmas::synchro::ghost::GhostSyncLinker::removeNode()''),
        (''../classfpmas_1_1synchro_1_1hard_1_1LinkClient.html#a2d723e36db7a2061f8323c90f9d12881'', 1, ''fpmas::synchro::hard::LinkClient::removeNode()'')]),
      (''removereachablecell_1440'', ''removeReachableCell'', [(''../classfpmas_1_1model_1_1ReachableCell.html#ae2af60865b959660c557e9bdeaaea316'', 1, ''fpmas::model::ReachableCell'')]),
      (''request_1441'', ''Request'', [(''../structfpmas_1_1api_1_1communication_1_1Request.html#ad0b572d239afd699ef5e09ca348be5cc'', 1, ''fpmas::api::communication::Request'')]),
      (''requeststoprocess_1442'', ''requestsToProcess'', [(''../classfpmas_1_1synchro_1_1hard_1_1api_1_1HardSyncMutex.html#ac4264110df61a3acbabaea1cadc993bd'', 1, ''fpmas::synchro::hard::api::HardSyncMutex::requestsToProcess()''),
        (''../classfpmas_1_1synchro_1_1hard_1_1HardSyncMutex.html#a282953de4470f76242060dc281d85eba'', 1, ''fpmas::synchro::hard::HardSyncMutex::requestsToProcess()'')]),
      (''run_1443'', ''run'', [(''../classfpmas_1_1scheduler_1_1VoidTask.html#a983475529c0dea92428d054ff395da73'', 1, ''fpmas::scheduler::VoidTask::run()''),
        (''../classfpmas_1_1scheduler_1_1LambdaTask.html#ac692db5e4260b38ad07a4cdad1286101'', 1, ''fpmas::scheduler::LambdaTask::run()''),
        (''../classfpmas_1_1scheduler_1_1detail_1_1LambdaTask.html#ae39fb347b182eba21f0ec3291b4ff700'', 1, ''fpmas::scheduler::detail::LambdaTask::run()''),
        (''../classfpmas_1_1runtime_1_1Runtime.html#a82621c12507a8bf0b205e60fec9a4d84'', 1, ''fpmas::runtime::Runtime::run(Date start, Date end) override''),
        (''../classfpmas_1_1runtime_1_1Runtime.html#a257c7abf301188d04b23248c84a8dbae'', 1, ''fpmas::runtime::Runtime::run(Date end) override''),
        (''../classfpmas_1_1model_1_1detail_1_1LoadBalancingTask.html#a569312a0cd3f4a00e989d9dc96cde143'', 1, ''fpmas::model::detail::LoadBalancingTask::run()''),
        (''../classfpmas_1_1model_1_1detail_1_1SynchronizeGraphTask.html#a83d7efc6f34afbada6121f5b44d213b1'', 1, ''fpmas::model::detail::SynchronizeGraphTask::run()''),
        (''../classfpmas_1_1model_1_1detail_1_1AgentBehaviorTask.html#aede4f22957f83a18d7042a9a006370d4'', 1, ''fpmas::model::detail::AgentBehaviorTask::run()''),
        (''../classfpmas_1_1model_1_1detail_1_1AgentTask.html#a18b55e14265602f552f63da78111011b'', 1, ''fpmas::model::detail::AgentTask::run()''),
        (''../classfpmas_1_1io_1_1OutputTask.html#a83449a38add080b0c684ee65c836910a'', 1, ''fpmas::io::OutputTask::run()''),
        (''../classfpmas_1_1api_1_1scheduler_1_1Task.html#acf925d631a63900965ea96688ea93061'', 1, ''fpmas::api::scheduler::Task::run()''),
        (''../classfpmas_1_1api_1_1runtime_1_1Runtime.html#a47d4954c8da167dab75612e6fbee3047'', 1, ''fpmas::api::runtime::Runtime::run(Date end)=0''),
        (''../classfpmas_1_1api_1_1runtime_1_1Runtime.html#aee78977a5c01e161e6fcf1d94815779c'', 1, ''fpmas::api::runtime::Runtime::run(Date start, Date end)=0'')]),
      (''runtime_1444'', ''Runtime'', [(''../classfpmas_1_1runtime_1_1Runtime.html#a6ef98f90954665ed270e406a3acd841f'', 1, ''fpmas::runtime::Runtime'')]),
      (''runtime_1445'', ''runtime'', [(''../classfpmas_1_1api_1_1model_1_1Model.html#a8dd560c85966165dde31ed518296603a'', 1, ''fpmas::api::model::Model::runtime()=0''),
        (''../classfpmas_1_1api_1_1model_1_1Model.html#a4b9094b3f1fdb1da10d016aa3c0a15d9'', 1, ''fpmas::api::model::Model::runtime() const =0''),
        (''../classfpmas_1_1model_1_1detail_1_1Model.html#a4f8c28c690c4d5003abb7733a421fa28'', 1, ''fpmas::model::detail::Model::runtime() override''),
        (''../classfpmas_1_1model_1_1detail_1_1Model.html#a26dea4de82e1723eda8234f70b35ee72'', 1, ''fpmas::model::detail::Model::runtime() const override'')])]"

definition functions_11 :: "raw_entry list" where
  "functions_11 = [
      (''schedule_1446'', ''schedule'', [(''../classfpmas_1_1api_1_1scheduler_1_1Scheduler.html#abaae483dc256c7044cadba31ac394cd1'', 1, ''fpmas::api::scheduler::Scheduler::schedule(Date date, Period period, const Job &amp;job)=0''),
        (''../classfpmas_1_1api_1_1scheduler_1_1Scheduler.html#a16247c43544f6ef7cda66150e13c8955'', 1, ''fpmas::api::scheduler::Scheduler::schedule(Date date, const Job &amp;job)=0''),
        (''../classfpmas_1_1scheduler_1_1Scheduler.html#a5d00946349c5f25d574ec0f0272dc0d0'', 1, ''fpmas::scheduler::Scheduler::schedule(api::scheduler::Date date, api::scheduler::Date end, api::scheduler::Period period, api::scheduler::JobList) override''),
        (''../classfpmas_1_1scheduler_1_1Scheduler.html#a8221d452fd1698e6233eadcaada54f9c'', 1, ''fpmas::scheduler::Scheduler::schedule(api::scheduler::Date date, api::scheduler::Period period, api::scheduler::JobList) override''),
        (''../classfpmas_1_1scheduler_1_1Scheduler.html#af0f67339c712dc964beb2a854b8a9a15'', 1, ''fpmas::scheduler::Scheduler::schedule(api::scheduler::Date date, api::scheduler::JobList) override''),
        (''../classfpmas_1_1scheduler_1_1Scheduler.html#add01ea9c9e1a0d8531889c11b5a1c064'', 1, ''fpmas::scheduler::Scheduler::schedule(api::scheduler::Date date, api::scheduler::Date end, api::scheduler::Period period, const api::scheduler::Job &amp;) override''),
        (''../classfpmas_1_1scheduler_1_1Scheduler.html#ae12c76f293c214c7960bc94f61582c7a'', 1, ''fpmas::scheduler::Scheduler::schedule(api::scheduler::Date date, api::scheduler::Period period, const api::scheduler::Job &amp;) override''),
        (''../classfpmas_1_1api_1_1scheduler_1_1Scheduler.html#a45201b358583893ce785f1c917ef825c'', 1, ''fpmas::api::scheduler::Scheduler::schedule()''),
        (''../classfpmas_1_1scheduler_1_1Scheduler.html#ac83415e23eb4b7db6bbade20036ed3f6'', 1, ''fpmas::scheduler::Scheduler::schedule()''),
        (''../classfpmas_1_1api_1_1scheduler_1_1Scheduler.html#a998d61f9ff277420fcead131be688992'', 1, ''fpmas::api::scheduler::Scheduler::schedule(Date date, Date end, Period period, const Job &amp;job)=0''),
        (''../classfpmas_1_1api_1_1scheduler_1_1Scheduler.html#ae7ba3f8278068ab8d97381c2c233272b'', 1, ''fpmas::api::scheduler::Scheduler::schedule(Date date, Period period, JobList job)=0''),
        (''../classfpmas_1_1api_1_1scheduler_1_1Scheduler.html#ae4ed8c532ae91ee23c49a539a01857bb'', 1, ''fpmas::api::scheduler::Scheduler::schedule(Date date, JobList job)=0'')]),
      (''scheduledloadbalancing_1447'', ''ScheduledLoadBalancing'', [(''../classfpmas_1_1graph_1_1ScheduledLoadBalancing.html#a9fa0c10d87cac51e7c3df234d8241cdc'', 1, ''fpmas::graph::ScheduledLoadBalancing'')]),
      (''scheduler_1448'', ''scheduler'', [(''../classfpmas_1_1api_1_1model_1_1Model.html#a845cd1a69f86ab69c1fd55e763bdea12'', 1, ''fpmas::api::model::Model::scheduler()=0''),
        (''../classfpmas_1_1api_1_1model_1_1Model.html#a4a7496ca25e117735384210fce6c9c82'', 1, ''fpmas::api::model::Model::scheduler() const =0''),
        (''../classfpmas_1_1model_1_1detail_1_1Model.html#a204b904321d90859829cba8ef1474ba2'', 1, ''fpmas::model::detail::Model::scheduler() override''),
        (''../classfpmas_1_1model_1_1detail_1_1Model.html#ae72dce34baf5a53d88d6a64b09fb03c0'', 1, ''fpmas::model::detail::Model::scheduler() const override'')]),
      (''seed_1449'', ''seed'', [(''../structfpmas_1_1model_1_1RandomNeighbors.html#a6a6d99902e9a5467e454df9cb30d282d'', 1, ''fpmas::model::RandomNeighbors'')]),
      (''send_1450'', ''send'', [(''../classfpmas_1_1communication_1_1MpiCommunicatorBase.html#ae4fc1c74dc7610e06e156f16c980f587'', 1, ''fpmas::communication::MpiCommunicatorBase::send()''),
        (''../classfpmas_1_1communication_1_1detail_1_1TypedMpi.html#a51663a12f03882c046ad7e5434e13bd4'', 1, ''fpmas::communication::detail::TypedMpi::send()''),
        (''../classfpmas_1_1communication_1_1MpiCommunicatorBase.html#a01b806ace945a7c44746ddb2ff53d046'', 1, ''fpmas::communication::MpiCommunicatorBase::send()''),
        (''../classfpmas_1_1api_1_1communication_1_1TypedMpi.html#af231bbb7a249117dc731ed1e6ac64e7a'', 1, ''fpmas::api::communication::TypedMpi::send()''),
        (''../classfpmas_1_1api_1_1communication_1_1MpiCommunicator.html#a34b01eebabd8d004bfb08ddd369204b8'', 1, ''fpmas::api::communication::MpiCommunicator::send(int destination, int tag)=0''),
        (''../classfpmas_1_1api_1_1communication_1_1MpiCommunicator.html#afeb4b62ff2e052f4cd3583811fb58318'', 1, ''fpmas::api::communication::MpiCommunicator::send(const void *data, int count, MPI_Datatype datatype, int destination, int tag)=0'')]),
      (''serverpack_1451'', ''ServerPack'', [(''../classfpmas_1_1synchro_1_1hard_1_1ServerPack.html#a9023b8c88358157379f5c5d1f96568cb'', 1, ''fpmas::synchro::hard::ServerPack'')]),
      (''setagentdistantcallback_1452'', ''SetAgentDistantCallback'', [(''../classfpmas_1_1model_1_1detail_1_1SetAgentDistantCallback.html#a1ef91d1b0b13e72b6e0813f4437f0afa'', 1, ''fpmas::model::detail::SetAgentDistantCallback'')]),
      (''setagentlocalcallback_1453'', ''SetAgentLocalCallback'', [(''../classfpmas_1_1model_1_1detail_1_1SetAgentLocalCallback.html#a9c35e07e00e592f8fffa4817513a2bcf'', 1, ''fpmas::model::detail::SetAgentLocalCallback'')]),
      (''setbegintask_1454'', ''setBeginTask'', [(''../classfpmas_1_1api_1_1scheduler_1_1Job.html#a39a362553c50e8a25c874d9b411410a8'', 1, ''fpmas::api::scheduler::Job::setBeginTask()''),
        (''../classfpmas_1_1scheduler_1_1Job.html#ae8051a2b516865d43e15131d7b50077e'', 1, ''fpmas::scheduler::Job::setBeginTask()'')]),
      (''setcurrentdate_1455'', ''setCurrentDate'', [(''../classfpmas_1_1api_1_1runtime_1_1Runtime.html#a6ce196e0d98a348fa473129b632273b5'', 1, ''fpmas::api::runtime::Runtime::setCurrentDate()''),
        (''../classfpmas_1_1runtime_1_1Runtime.html#a6ffc12923b412f17d9045ae0b0a20a8c'', 1, ''fpmas::runtime::Runtime::setCurrentDate()'')]),
      (''setcurrentedgeid_1456'', ''setCurrentEdgeId'', [(''../classfpmas_1_1api_1_1graph_1_1DistributedGraph.html#aea61510c7f39f69c795188f33a92f1a6'', 1, ''fpmas::api::graph::DistributedGraph::setCurrentEdgeId()''),
        (''../classfpmas_1_1graph_1_1detail_1_1DistributedGraph.html#a278c1bfa845491b829901000574589bd'', 1, ''fpmas::graph::detail::DistributedGraph::setCurrentEdgeId()'')]),
      (''setcurrentnodeid_1457'', ''setCurrentNodeId'', [(''../classfpmas_1_1api_1_1graph_1_1DistributedGraph.html#a895e677b29acca3b9c9192c294ffe408'', 1, ''fpmas::api::graph::DistributedGraph::setCurrentNodeId()''),
        (''../classfpmas_1_1graph_1_1detail_1_1DistributedGraph.html#a57c2b67f282cf459418da7d0b92664f6'', 1, ''fpmas::graph::detail::DistributedGraph::setCurrentNodeId()'')]),
      (''setdistant_1458'', ''setDistant'', [(''../classfpmas_1_1api_1_1graph_1_1LocationManager.html#a831cbb48cac025537db4020808562c13'', 1, ''fpmas::api::graph::LocationManager::setDistant()''),
        (''../classfpmas_1_1graph_1_1LocationManager.html#a6ac45717c48660ab12a8cd31bd1bdeeb'', 1, ''fpmas::graph::LocationManager::setDistant()'')]),
      (''setendtask_1459'', ''setEndTask'', [(''../classfpmas_1_1api_1_1scheduler_1_1Job.html#ab21131808e8f1faeb04247aaf55693f1'', 1, ''fpmas::api::scheduler::Job::setEndTask()''),
        (''../classfpmas_1_1scheduler_1_1Job.html#a9c7b12b33140d205ff74bfa853fc7d27'', 1, ''fpmas::scheduler::Job::setEndTask()'')]),
      (''setepoch_1460'', ''setEpoch'', [(''../classfpmas_1_1synchro_1_1hard_1_1api_1_1Server.html#a996904b20a0a057b52226831079968c9'', 1, ''fpmas::synchro::hard::api::Server::setEpoch()''),
        (''../classfpmas_1_1synchro_1_1hard_1_1LinkServer.html#a45cb18f6c72dcb1032868edbe8a8a079'', 1, ''fpmas::synchro::hard::LinkServer::setEpoch()''),
        (''../classfpmas_1_1synchro_1_1hard_1_1MutexServer.html#a12623213ea8163c1543a26c170a672bd'', 1, ''fpmas::synchro::hard::MutexServer::setEpoch()''),
        (''../classfpmas_1_1synchro_1_1hard_1_1ServerPack.html#a26a78ff176397b4d44ee15b0861abf58'', 1, ''fpmas::synchro::hard::ServerPack::setEpoch()'')]),
      (''setgroup_1461'', ''setGroup'', [(''../classfpmas_1_1api_1_1model_1_1Agent.html#ae99d995f47d7ace0c267d1a6233b4886'', 1, ''fpmas::api::model::Agent::setGroup()''),
        (''../classfpmas_1_1model_1_1AgentBase.html#a045afad06d462bba8f1a82b8aa974c1e'', 1, ''fpmas::model::AgentBase::setGroup(api::model::AgentGroup *group) override'')]),
      (''setgroupid_1462'', ''setGroupId'', [(''../classfpmas_1_1model_1_1AgentBase.html#aaf86c1637019f5ac8bc359c95b4a92e7'', 1, ''fpmas::model::AgentBase::setGroupId()''),
        (''../classfpmas_1_1api_1_1model_1_1Agent.html#a803e97bb1657a3db3110d7f499c3c878'', 1, ''fpmas::api::model::Agent::setGroupId()'')]),
      (''setlocal_1463'', ''setLocal'', [(''../classfpmas_1_1api_1_1graph_1_1LocationManager.html#a1ae4b47cff8f987d9d1abe05937ffdda'', 1, ''fpmas::api::graph::LocationManager::setLocal()''),
        (''../classfpmas_1_1graph_1_1LocationManager.html#aa522d5e7b87007bfc1fd5a3222e67c7b'', 1, ''fpmas::graph::LocationManager::setLocal()'')]),
      (''setlocation_1464'', ''setLocation'', [(''../classfpmas_1_1api_1_1graph_1_1DistributedNode.html#abf9349f578ce3d2e6e1d9b4127de2373'', 1, ''fpmas::api::graph::DistributedNode::setLocation()''),
        (''../classfpmas_1_1graph_1_1DistributedNode.html#a3e480ac25cf8ab08add81b73afe5cb78'', 1, ''fpmas::graph::DistributedNode::setLocation()'')]),
      (''setmodel_1465'', ''setModel'', [(''../classfpmas_1_1api_1_1model_1_1Agent.html#a6d5b6cac63060d2399b230aa074f9723'', 1, ''fpmas::api::model::Agent::setModel()''),
        (''../classfpmas_1_1model_1_1AgentBase.html#a2a49054032879d5a8f41f7a0d575f69a'', 1, ''fpmas::model::AgentBase::setModel()'')]),
      (''setmutex_1466'', ''setMutex'', [(''../classfpmas_1_1api_1_1graph_1_1DistributedNode.html#a4d1b901cb0cae83c2e419ca94bb12597'', 1, ''fpmas::api::graph::DistributedNode::setMutex()''),
        (''../classfpmas_1_1graph_1_1DistributedNode.html#a6b74f6135ccf6da8b452b7c9b0b442e1'', 1, ''fpmas::graph::DistributedNode::setMutex()'')]),
      (''setnode_1467'', ''setNode'', [(''../classfpmas_1_1api_1_1model_1_1Agent.html#a2290eaafa3cff2c7ab82ec41367c93ce'', 1, ''fpmas::api::model::Agent::setNode()''),
        (''../classfpmas_1_1model_1_1AgentBase.html#a5ae0e1fbbf134eb074193897927df518'', 1, ''fpmas::model::AgentBase::setNode()'')]),
      (''setsize_1468'', ''setSize'', [(''../classfpmas_1_1model_1_1GridRange.html#a931143098fa4d11112bd0512e4ec8ccc'', 1, ''fpmas::model::GridRange'')]),
      (''setsourcenode_1469'', ''setSourceNode'', [(''../classfpmas_1_1graph_1_1Edge.html#a82678894af76a48c25892460233ee0fe'', 1, ''fpmas::graph::Edge::setSourceNode()''),
        (''../classfpmas_1_1api_1_1graph_1_1Edge.html#a4afd2966e10d39d93ec3f9aebe3ae267'', 1, ''fpmas::api::graph::Edge::setSourceNode()'')]),
      (''setstate_1470'', ''setState'', [(''../classfpmas_1_1api_1_1graph_1_1DistributedEdge.html#a28d4e5d75fe9352509fb8a7c978a9b9c'', 1, ''fpmas::api::graph::DistributedEdge::setState()''),
        (''../classfpmas_1_1graph_1_1DistributedNode.html#a06f7affab08e09a3eea858812ecf637d'', 1, ''fpmas::graph::DistributedNode::setState()''),
        (''../classfpmas_1_1api_1_1graph_1_1DistributedNode.html#ad9251c911b800a01d9f859c5cdb6021e'', 1, ''fpmas::api::graph::DistributedNode::setState()''),
        (''../classfpmas_1_1graph_1_1DistributedEdge.html#a5d6b6f1a4e789666e2f4417fbc7830d2'', 1, ''fpmas::graph::DistributedEdge::setState()'')]),
      (''settargetnode_1471'', ''setTargetNode'', [(''../classfpmas_1_1api_1_1graph_1_1Edge.html#a118171acfb3a9802f852e30c41c54668'', 1, ''fpmas::api::graph::Edge::setTargetNode()''),
        (''../classfpmas_1_1graph_1_1Edge.html#a26e798af279ac4b25dce4c0dc9c12768'', 1, ''fpmas::graph::Edge::setTargetNode()'')]),
      (''settask_1472'', ''setTask'', [(''../classfpmas_1_1api_1_1model_1_1Agent.html#a4b58fcc33d6e1569d791413ac009a497'', 1, ''fpmas::api::model::Agent::setTask(AgentTask *task)=0''),
        (''../classfpmas_1_1api_1_1model_1_1Agent.html#a7b39628166c00090a41dd8fada6c05d2'', 1, ''fpmas::api::model::Agent::setTask(GroupId id, AgentTask *task)=0''),
        (''../classfpmas_1_1model_1_1AgentBase.html#adfecc1e9011fd4473a72b6235132a8bf'', 1, ''fpmas::model::AgentBase::setTask(api::model::AgentTask *task) override''),
        (''../classfpmas_1_1model_1_1AgentBase.html#a74980b32bbf286f63f58a448571d563a'', 1, ''fpmas::model::AgentBase::setTask(api::model::GroupId id, api::model::AgentTask *task) override'')]),
      (''setweight_1473'', ''setWeight'', [(''../classfpmas_1_1api_1_1graph_1_1Edge.html#ab67d88ab59fa041c8bd8e1320b57e124'', 1, ''fpmas::api::graph::Edge::setWeight()''),
        (''../classfpmas_1_1api_1_1graph_1_1Node.html#a38478627243ff2f95ad86cf2eeeae24a'', 1, ''fpmas::api::graph::Node::setWeight()''),
        (''../classfpmas_1_1graph_1_1Edge.html#a45822d116615b27fe5df4017283e8c7d'', 1, ''fpmas::graph::Edge::setWeight()''),
        (''../classfpmas_1_1graph_1_1Node.html#a09872ef06bfd20e639891ae8e120027d'', 1, ''fpmas::graph::Node::setWeight()'')]),
      (''sharedlockcount_1474'', ''sharedLockCount'', [(''../classfpmas_1_1synchro_1_1ghost_1_1SingleThreadMutex.html#a784977c35b52d3a6cd60b4c9bdcbde32'', 1, ''fpmas::synchro::ghost::SingleThreadMutex::sharedLockCount()''),
        (''../classfpmas_1_1synchro_1_1hard_1_1HardSyncMutex.html#a503a488a7bb794289e67a0107e5c051e'', 1, ''fpmas::synchro::hard::HardSyncMutex::sharedLockCount()''),
        (''../classfpmas_1_1api_1_1synchro_1_1Mutex.html#a88eb37a3a4cda19240ec05fc6280c7db'', 1, ''fpmas::api::synchro::Mutex::sharedLockCount()'')]),
      (''sharedlockguard_1475'', ''SharedLockGuard'', [(''../classfpmas_1_1model_1_1SharedLockGuard.html#ab2969a420b99e9ba7892d93a10bf6634'', 1, ''fpmas::model::SharedLockGuard::SharedLockGuard()''),
        (''../classfpmas_1_1synchro_1_1SharedLockGuard.html#a62c1489ae226d2594f1447e5b6453f7a'', 1, ''fpmas::synchro::SharedLockGuard::SharedLockGuard()'')]),
      (''shuffle_1476'', ''shuffle'', [(''../classfpmas_1_1model_1_1Neighbors.html#afa5d351d629ea1c87352df4eb4b8a196'', 1, ''fpmas::model::Neighbors'')]),
      (''single_1477'', ''Single'', [(''../classfpmas_1_1io_1_1Local_1_1Single.html#a9a44aea0e4e65ba44ab875578b1d7f6d'', 1, ''fpmas::io::Local::Single::Single()''),
        (''../classfpmas_1_1io_1_1Reduce_1_1Single.html#a6e4a4e746f8926809a25916a3cdc5451'', 1, ''fpmas::io::Reduce::Single::Single()'')]),
      (''singlethreadmutex_1478'', ''SingleThreadMutex'', [(''../classfpmas_1_1synchro_1_1ghost_1_1SingleThreadMutex.html#afbebfb957fc05f42864ca864f756a0e1'', 1, ''fpmas::synchro::ghost::SingleThreadMutex'')]),
      (''spatialagentbase_1479'', ''SpatialAgentBase'', [(''../classfpmas_1_1model_1_1SpatialAgentBase.html#a64471d5cb6df79793703597081ad85ea'', 1, ''fpmas::model::SpatialAgentBase'')]),
      (''spatialmodel_1480'', ''SpatialModel'', [(''../classfpmas_1_1model_1_1SpatialModel.html#abe3abb3af5ef0eb3c76fe585553ea375'', 1, ''fpmas::model::SpatialModel'')]),
      (''start_1481'', ''start'', [(''../classfpmas_1_1api_1_1utils_1_1perf_1_1Probe.html#afa16d073966abf9aa53ff1729ec42513'', 1, ''fpmas::api::utils::perf::Probe::start()''),
        (''../classfpmas_1_1utils_1_1perf_1_1Probe.html#a0e667882b5bcf92f0471d8ab854949f0'', 1, ''fpmas::utils::perf::Probe::start()'')]),
      (''state_1482'', ''state'', [(''../classfpmas_1_1graph_1_1DistributedNode.html#aec35c6b25bb1f640fc44679308290209'', 1, ''fpmas::graph::DistributedNode::state()''),
        (''../classfpmas_1_1api_1_1graph_1_1DistributedNode.html#a3bbad9ecc09a033de17d3457964a9783'', 1, ''fpmas::api::graph::DistributedNode::state()''),
        (''../classfpmas_1_1api_1_1graph_1_1DistributedEdge.html#a82477d497010f9398f2527234b745695'', 1, ''fpmas::api::graph::DistributedEdge::state()''),
        (''../classfpmas_1_1graph_1_1DistributedEdge.html#a8547dd0a19e0aad902ee36d580009dc8'', 1, ''fpmas::graph::DistributedEdge::state()'')]),
      (''staticendcondition_1483'', ''StaticEndCondition'', [(''../classfpmas_1_1model_1_1StaticEndCondition.html#a2f91ef814898dc78242a52a2e400bcc9'', 1, ''fpmas::model::StaticEndCondition'')]),
      (''step_1484'', ''step'', [(''../classfpmas_1_1api_1_1model_1_1EndCondition.html#affc81891d0e5cafa8def7ab1de794050'', 1, ''fpmas::api::model::EndCondition::step()''),
        (''../classfpmas_1_1model_1_1StaticEndCondition.html#aa798031930003e3ee011b1e106ed5667'', 1, ''fpmas::model::StaticEndCondition::step()''),
        (''../classfpmas_1_1model_1_1DynamicEndCondition.html#a2d268ec7ea1023ca9f68fdb26124ec3f'', 1, ''fpmas::model::DynamicEndCondition::step()'')]),
      (''stop_1485'', ''stop'', [(''../classfpmas_1_1api_1_1utils_1_1perf_1_1Probe.html#a2bf0e19538660ce18397d54da1e200ad'', 1, ''fpmas::api::utils::perf::Probe::stop()''),
        (''../classfpmas_1_1utils_1_1perf_1_1Probe.html#a54d257d98b55c3582fa066fbd2c3da59'', 1, ''fpmas::utils::perf::Probe::stop()'')]),
      (''str_1486'', ''str'', [(''../classfpmas_1_1io_1_1StringOutput.html#a853b0fa1ebd77b4a65dcfd7413481b44'', 1, ''fpmas::io::StringOutput'')]),
      (''sub_5fstep_5fend_1487'', ''sub_step_end'', [(''../namespacefpmas_1_1api_1_1scheduler.html#a5307289f802aab9ba49f2fbd80015069'', 1, ''fpmas::api::scheduler'')]),
      (''sub_5ftime_5fstep_1488'', ''sub_time_step'', [(''../namespacefpmas_1_1api_1_1scheduler.html#a4338c78f37b052ffbab5cc4e2b1392c2'', 1, ''fpmas::api::scheduler'')]),
      (''submit_1489'', ''submit'', [(''../classfpmas_1_1scheduler_1_1Epoch.html#a9e19ee9053af5786cdec0f8af9115123'', 1, ''fpmas::scheduler::Epoch::submit()''),
        (''../classfpmas_1_1api_1_1scheduler_1_1Epoch.html#ae47cd7df1f404ebf18ecf1e7eb5c1221'', 1, ''fpmas::api::scheduler::Epoch::submit(const Job &amp;job, SubTimeStep sub_time_step)=0''),
        (''../classfpmas_1_1api_1_1scheduler_1_1Epoch.html#a06b1d118d348e2f2fa38b9a4b5359ffd'', 1, ''fpmas::api::scheduler::Epoch::submit(JobList job_list, SubTimeStep sub_time_step)=0''),
        (''../classfpmas_1_1scheduler_1_1Epoch.html#aa8c5675a5ae2834ebb6ffd84c4905444'', 1, ''fpmas::scheduler::Epoch::submit()'')]),
      (''successors_1490'', ''successors'', [(''../classfpmas_1_1model_1_1CellBase.html#a16ed9973dcf9da54710b43ed495d4ea3'', 1, ''fpmas::model::CellBase::successors()''),
        (''../classfpmas_1_1api_1_1model_1_1Cell.html#a8fb19e195c393d83e289da838b8f3391'', 1, ''fpmas::api::model::Cell::successors()'')]),
      (''synchronizationmode_1491'', ''synchronizationMode'', [(''../classfpmas_1_1api_1_1graph_1_1DistributedGraph.html#a9b8c4aa878f481b81c025c03e5f14be6'', 1, ''fpmas::api::graph::DistributedGraph::synchronizationMode()''),
        (''../classfpmas_1_1graph_1_1detail_1_1DistributedGraph.html#ad561fe9e8021d1d6506f14a038521fb2'', 1, ''fpmas::graph::detail::DistributedGraph::synchronizationMode()'')]),
      (''synchronize_1492'', ''synchronize'', [(''../classfpmas_1_1api_1_1graph_1_1DistributedGraph.html#acf23a48ac7af373c0d92b7dd50764da9'', 1, ''fpmas::api::graph::DistributedGraph::synchronize()''),
        (''../classfpmas_1_1api_1_1synchro_1_1DataSync.html#a0bec0beaff6ec61fbb5c19c060c7d470'', 1, ''fpmas::api::synchro::DataSync::synchronize()''),
        (''../classfpmas_1_1api_1_1synchro_1_1SyncLinker.html#a82048e7e48cba49d8242df2aaa2d26be'', 1, ''fpmas::api::synchro::SyncLinker::synchronize()''),
        (''../classfpmas_1_1graph_1_1detail_1_1DistributedGraph.html#a8feb8a3a21c40a734e2d3b3593114e37'', 1, ''fpmas::graph::detail::DistributedGraph::synchronize()''),
        (''../classfpmas_1_1model_1_1GraphRange.html#a6c4934305d1eea785dddd3f24a5a6364'', 1, ''fpmas::model::GraphRange::synchronize()''),
        (''../classfpmas_1_1synchro_1_1ghost_1_1GhostDataSync.html#a643124d03fa8af849051469a8a7290d8'', 1, ''fpmas::synchro::ghost::GhostDataSync::synchronize()''),
        (''../classfpmas_1_1synchro_1_1ghost_1_1GhostSyncLinker.html#a33187466eb861c1e977e07068ae67d32'', 1, ''fpmas::synchro::ghost::GhostSyncLinker::synchronize()''),
        (''../classfpmas_1_1synchro_1_1hard_1_1HardDataSync.html#a0eb71e13088fcd1e898fd82fe6b2e5c2'', 1, ''fpmas::synchro::hard::HardDataSync::synchronize()''),
        (''../classfpmas_1_1synchro_1_1hard_1_1HardSyncLinker.html#a1cc71ff0bbe698fc7114081197561bb2'', 1, ''fpmas::synchro::hard::HardSyncLinker::synchronize()'')]),
      (''synchronizegraphtask_1493'', ''SynchronizeGraphTask'', [(''../classfpmas_1_1model_1_1detail_1_1SynchronizeGraphTask.html#a9b4ab8b89821589c7a16d0db0b35a6be'', 1, ''fpmas::model::detail::SynchronizeGraphTask'')])]"

definition functions_12 :: "raw_entry list" where
  "functions_12 = [
      (''task_1494'', ''task'', [(''../classfpmas_1_1api_1_1model_1_1Agent.html#a3e635c3ee12b226056a270dd21825816'', 1, ''fpmas::api::model::Agent::task() const =0''),
        (''../classfpmas_1_1api_1_1model_1_1Agent.html#af6288ad4a6b343807c13ede7f1e98bbd'', 1, ''fpmas::api::model::Agent::task(GroupId id)=0''),
        (''../classfpmas_1_1api_1_1model_1_1Agent.html#a33ce2c6ccad92c42cfa76f7cb54d8470'', 1, ''fpmas::api::model::Agent::task(GroupId id) const =0''),
        (''../classfpmas_1_1model_1_1AgentBase.html#a6cfdc386c9794c6c469e8c4619ee3941'', 1, ''fpmas::model::AgentBase::task() override''),
        (''../classfpmas_1_1model_1_1AgentBase.html#a253d2291a3e22bc0f74df17adfc3e6e9'', 1, ''fpmas::model::AgentBase::task() const override''),
        (''../classfpmas_1_1model_1_1AgentBase.html#a0eee6c69333e02b8802030cddb86aca6'', 1, ''fpmas::model::AgentBase::task(api::model::GroupId id) override''),
        (''../classfpmas_1_1model_1_1AgentBase.html#aabfeefe9f1c23ae97ded6dae23d4d214'', 1, ''fpmas::model::AgentBase::task(api::model::GroupId id) const override''),
        (''../classfpmas_1_1api_1_1model_1_1Agent.html#a67db390e324f864aed535a18339a124e'', 1, ''fpmas::api::model::Agent::task()'')]),
      (''tasks_1495'', ''tasks'', [(''../classfpmas_1_1model_1_1AgentBase.html#a088d25931e55b74ca34752a4317a988a'', 1, ''fpmas::model::AgentBase::tasks()''),
        (''../classfpmas_1_1scheduler_1_1Job.html#a64457ed4997c9c4d7cb57ce0d8c7ae0d'', 1, ''fpmas::scheduler::Job::tasks()''),
        (''../classfpmas_1_1api_1_1scheduler_1_1Job.html#adf65c26924db62ae0adc8ae812b0a891'', 1, ''fpmas::api::scheduler::Job::tasks()''),
        (''../classfpmas_1_1api_1_1model_1_1Agent.html#abdd1c49e6ec9696bf0d8a42aa3b15768'', 1, ''fpmas::api::model::Agent::tasks()'')]),
      (''terminate_1496'', ''terminate'', [(''../classfpmas_1_1synchro_1_1hard_1_1api_1_1TerminationAlgorithm.html#a39c03976945f0087bfeb75fdcc312055'', 1, ''fpmas::synchro::hard::api::TerminationAlgorithm::terminate()''),
        (''../classfpmas_1_1synchro_1_1hard_1_1ServerPack.html#a29290c0b789b4fb1fbbc046f910483ad'', 1, ''fpmas::synchro::hard::ServerPack::terminate()''),
        (''../classfpmas_1_1synchro_1_1hard_1_1TerminationAlgorithm.html#a028641fe7a270c218391e43e26c84d4b'', 1, ''fpmas::synchro::hard::TerminationAlgorithm::terminate(api::Server &amp;server) override'')]),
      (''terminationalgorithm_1497'', ''TerminationAlgorithm'', [(''../classfpmas_1_1synchro_1_1hard_1_1TerminationAlgorithm.html#a5584e7b1b819c9b2cef6fe91698fd19d'', 1, ''fpmas::synchro::hard::TerminationAlgorithm'')]),
      (''test_1498'', ''test'', [(''../classfpmas_1_1api_1_1communication_1_1MpiCommunicator.html#a0caebcfc6fb644898553ca0bc507c4f6'', 1, ''fpmas::api::communication::MpiCommunicator::test()''),
        (''../classfpmas_1_1communication_1_1MpiCommunicatorBase.html#ad0af13c5b293e5dc32d60ceedc26df4d'', 1, ''fpmas::communication::MpiCommunicatorBase::test()'')]),
      (''time_5fstep_1499'', ''time_step'', [(''../namespacefpmas_1_1api_1_1scheduler.html#a4019ccd09789098c4330d9763150adfa'', 1, ''fpmas::api::scheduler'')]),
      (''to_5fcsv_1500'', ''to_csv'', [(''../structfpmas_1_1io_1_1CsvSerial.html#a24d88f30b4a8007e3ec2e8877d7a6abc'', 1, ''fpmas::io::CsvSerial::to_csv()''),
        (''../structfpmas_1_1io_1_1CsvSerial_3_01std_1_1chrono_1_1duration_3_01Rep_00_01Ratio_01_4_01_4.html#a0f915c4f8cfa6c5c33ad3aa813fa8e7c'', 1, ''fpmas::io::CsvSerial&lt; std::chrono::duration&lt; Rep, Ratio &gt; &gt;::to_csv()'')]),
      (''to_5fjson_1501'', ''to_json'', [(''../structnlohmann_1_1adl__serializer_3_01std_1_1chrono_1_1duration_3_01Rep_00_01Ratio_01_4_01_4.html#ae1c7cff0d6cfa2a86126f48a8a88a3df'', 1, ''nlohmann::adl_serializer&lt; std::chrono::duration&lt; Rep, Ratio &gt; &gt;::to_json()''),
        (''../structnlohmann_1_1adl__serializer_3_01NodeUpdatePack_3_01T_01_4_01_4.html#a0f385a3ee53a1a04ecd3bb745250430e'', 1, ''nlohmann::adl_serializer&lt; NodeUpdatePack&lt; T &gt; &gt;::to_json()''),
        (''../structnlohmann_1_1adl__serializer_3_01DataUpdatePack_3_01T_01_4_01_4.html#ab8cb02a39c04e68fb4c8df2d7842b389'', 1, ''nlohmann::adl_serializer&lt; DataUpdatePack&lt; T &gt; &gt;::to_json()''),
        (''../structfpmas_1_1io_1_1json_1_1light__serializer_3_01fpmas_1_1api_1_1utils_1_1PtrWrapper_3_01fpmasc84e89e520a4a0cda5345fc83f0b8125.html#a81ef6b37d83ecdc47452a449dbc33953'', 1, ''fpmas::io::json::light_serializer&lt; fpmas::api::utils::PtrWrapper&lt; fpmas::model::SpatialAgentBase&lt; AgentType, CellType, Derived &gt; &gt; &gt;::to_json()''),
        (''../structnlohmann_1_1adl__serializer_3_01fpmas_1_1api_1_1utils_1_1PtrWrapper_3_01fpmas_1_1model_1_15c21a6b0ad54d23aaa2f84ed15f8db9e.html#ae8e095bade2162a3959f3ef3cee339b3'', 1, ''nlohmann::adl_serializer&lt; fpmas::api::utils::PtrWrapper&lt; fpmas::model::SpatialAgentBase&lt; AgentType, CellType, Derived &gt; &gt; &gt;::to_json()''),
        (''../structfpmas_1_1io_1_1json_1_1light__serializer_3_01fpmas_1_1api_1_1utils_1_1PtrWrapper_3_01fpmas6514cec9ffaf9ddc3a05c9b72f5062b9.html#a46542f7fdc3fea287d0973ee03fade95'', 1, ''fpmas::io::json::light_serializer&lt; fpmas::api::utils::PtrWrapper&lt; fpmas::model::GridAgent&lt; AgentType, CellType, Derived &gt; &gt; &gt;::to_json()''),
        (''../structfpmas_1_1io_1_1json_1_1light__serializer_3_01fpmas_1_1api_1_1utils_1_1PtrWrapper_3_01fpmas087459d4f5dfa9eac727b48e6313447e.html#ab757655ed846b28739122191f311afe1'', 1, ''fpmas::io::json::light_serializer&lt; fpmas::api::utils::PtrWrapper&lt; fpmas::model::GridCellBase&lt; GridCellType, Derived &gt; &gt; &gt;::to_json()''),
        (''../structnlohmann_1_1adl__serializer_3_01fpmas_1_1api_1_1utils_1_1PtrWrapper_3_01fpmas_1_1model_1_136032a46204f163d868560f92634ba90.html#a5493520712a1338a1722ef9d99b39587'', 1, ''nlohmann::adl_serializer&lt; fpmas::api::utils::PtrWrapper&lt; fpmas::model::GridAgent&lt; AgentType, CellType, Derived &gt; &gt; &gt;::to_json()''),
        (''../structfpmas_1_1io_1_1json_1_1light__serializer_3_01fpmas_1_1api_1_1model_1_1AgentPtr_01_4.html#a9cb8d08cf539e6e25a75adc4633ad5dd'', 1, ''fpmas::io::json::light_serializer&lt; fpmas::api::model::AgentPtr &gt;::to_json()''),
        (''../structnlohmann_1_1adl__serializer_3_01fpmas_1_1api_1_1utils_1_1PtrWrapper_3_01fpmas_1_1model_1_1784f1e1360367771d11e7adbddb7008f.html#ad96f9ccac8ad879d954770956ad3fe8f'', 1, ''nlohmann::adl_serializer&lt; fpmas::api::utils::PtrWrapper&lt; fpmas::model::GridCellBase&lt; GridCellType, Derived &gt; &gt; &gt;::to_json()''),
        (''../structnlohmann_1_1adl__serializer_3_01fpmas_1_1api_1_1model_1_1DiscretePoint_01_4.html#ab4dd2a0f200472b4b96aab3d14e3e4e7'', 1, ''nlohmann::adl_serializer&lt; fpmas::api::model::DiscretePoint &gt;::to_json()''),
        (''../structfpmas_1_1io_1_1json_1_1light__serializer_3_01fpmas_1_1api_1_1utils_1_1PtrWrapper_3_01fpmasa66c0aec42b8e119b4cc9e7da5cc5a4c.html#ab356fc7402d9ab66f4a97233f92b7791'', 1, ''fpmas::io::json::light_serializer&lt; fpmas::api::utils::PtrWrapper&lt; fpmas::model::GraphCellBase&lt; AgentType, Derived &gt; &gt; &gt;::to_json()''),
        (''../structnlohmann_1_1adl__serializer_3_01fpmas_1_1api_1_1utils_1_1PtrWrapper_3_01fpmas_1_1model_1_189f18958e721d64cf9081bb53023a6a1.html#af238639f73cf42a659ce71caa4ccdf20'', 1, ''nlohmann::adl_serializer&lt; fpmas::api::utils::PtrWrapper&lt; fpmas::model::GraphCellBase&lt; AgentType, Derived &gt; &gt; &gt;::to_json()''),
        (''../structnlohmann_1_1adl__serializer_3_01fpmas_1_1model_1_1ReachableCell_01_4.html#ad3a66dc21d01421d94eaadf888c3859b'', 1, ''nlohmann::adl_serializer&lt; fpmas::model::ReachableCell &gt;::to_json()''),
        (''../structfpmas_1_1model_1_1AgentPtrSerializer.html#ae4803fbd043d62e8da187eecc0202150'', 1, ''fpmas::model::AgentPtrSerializer::to_json()''),
        (''../structfpmas_1_1io_1_1json_1_1light__serializer_3_01fpmas_1_1api_1_1utils_1_1PtrWrapper_3_01Agent897a43c8e174bcaded636be4611a9868.html#a572e62f598b316f09cd3d0f123f5851f'', 1, ''fpmas::io::json::light_serializer&lt; fpmas::api::utils::PtrWrapper&lt; AgentType &gt;, typename std::enable_if&lt; std::is_base_of&lt; fpmas::api::model::Agent, AgentType &gt;::value &amp;&amp;std::is_default_constructible&lt; AgentType &gt;::value &amp;&amp;std::is_same&lt; AgentType, typename AgentType::FinalAgentType &gt;::value &gt;::type &gt;::to_json()''),
        (''../structnlohmann_1_1adl__serializer_3_01DistributedId_01_4.html#ac940522a325bac9acfceb5985b523de2'', 1, ''nlohmann::adl_serializer&lt; DistributedId &gt;::to_json()''),
        (''../structnlohmann_1_1adl__serializer_3_01EdgePtrWrapper_3_01T_01_4_01_4.html#a0b5b70ba9113d0aa45ff4306e780ad24'', 1, ''nlohmann::adl_serializer&lt; EdgePtrWrapper&lt; T &gt; &gt;::to_json()''),
        (''../structnlohmann_1_1adl__serializer_3_01fpmas_1_1api_1_1graph_1_1DistributedGraph_3_01T_01_4_01_4.html#a91c8e1060603e1722ec42b3c0c16fd56'', 1, ''nlohmann::adl_serializer&lt; fpmas::api::graph::DistributedGraph&lt; T &gt; &gt;::to_json()''),
        (''../structnlohmann_1_1adl__serializer_3_01NodePtrWrapper_3_01T_01_4_01_4.html#a6b906506ca7bd554501fc2f939855182'', 1, ''nlohmann::adl_serializer&lt; NodePtrWrapper&lt; T &gt; &gt;::to_json()''),
        (''../structfpmas_1_1io_1_1json_1_1light__serializer_3_01NodePtrWrapper_3_01T_01_4_01_4.html#af7cdf14526508971dda78259dc9d64a2'', 1, ''fpmas::io::json::light_serializer&lt; NodePtrWrapper&lt; T &gt; &gt;::to_json()''),
        (''../structnlohmann_1_1adl__serializer_3_01fpmas_1_1graph_1_1detail_1_1LocalizedNodeView_3_01T_01_4_01_4.html#a4fe8ab7c7170007b71bb796d784964a6'', 1, ''nlohmann::adl_serializer&lt; fpmas::graph::detail::LocalizedNodeView&lt; T &gt; &gt;::to_json()''),
        (''../structnlohmann_1_1adl__serializer_3_01fpmas_1_1api_1_1graph_1_1LocationManager_3_01T_01_4_01_4.html#a9a0e97381ed8800d8bd9e9317112c30e'', 1, ''nlohmann::adl_serializer&lt; fpmas::api::graph::LocationManager&lt; T &gt; &gt;::to_json()''),
        (''../structfpmas_1_1io_1_1json_1_1light__serializer.html#a6d92f744dabdfb57ddd3f68f6bab3dd8'', 1, ''fpmas::io::json::light_serializer::to_json()''),
        (''../structfpmas_1_1io_1_1json_1_1light__serializer_3_01T_00_01typename_01std_1_1enable__if_3_9std_1_5b712814e422b4c73c9fd9f49be13323.html#a7089659b1a01771edf73fcef2a6536b7'', 1, ''fpmas::io::json::light_serializer&lt; T, typename std::enable_if&lt;!std::is_default_constructible&lt; T &gt;::value &gt;::type &gt;::to_json()''),
        (''../structnlohmann_1_1adl__serializer_3_01fpmas_1_1api_1_1model_1_1AgentPtr_01_4.html#ade937b52afe3ee0b25f8ca0a816e5f9e'', 1, ''nlohmann::adl_serializer&lt; fpmas::api::model::AgentPtr &gt;::to_json()''),
        (''../structnlohmann_1_1adl__serializer_3_01fpmas_1_1api_1_1model_1_1Model_01_4.html#a3aefa6225128c57688131fd8068884e2'', 1, ''nlohmann::adl_serializer&lt; fpmas::api::model::Model &gt;::to_json()''),
        (''../structnlohmann_1_1adl__serializer_3_01std_1_1type__index_01_4.html#ab749767dafdfbefc5004d58eb20fc3da'', 1, ''nlohmann::adl_serializer&lt; std::type_index &gt;::to_json()''),
        (''../structnlohmann_1_1adl__serializer_3_01fpmas_1_1api_1_1utils_1_1PtrWrapper_3_01AgentType_01_4_01_4.html#aafc696e6ab69798d024ba9d97210aa35'', 1, ''nlohmann::adl_serializer&lt; fpmas::api::utils::PtrWrapper&lt; AgentType &gt; &gt;::to_json()''),
        (''../structfpmas_1_1io_1_1json_1_1light__serializer_3_01fpmas_1_1api_1_1utils_1_1PtrWrapper_3_01Agent1166da05b8eb25f2bd231c13fb984d35.html#a46ef7c930f888202d3c9eb3512d60d51'', 1, ''fpmas::io::json::light_serializer&lt; fpmas::api::utils::PtrWrapper&lt; AgentType &gt;, typename std::enable_if&lt; std::is_base_of&lt; fpmas::api::model::Agent, AgentType &gt;::value &amp;&amp;!std::is_default_constructible&lt; AgentType &gt;::value &amp;&amp;std::is_same&lt; AgentType, typename AgentType::FinalAgentType &gt;::value &gt;::type &gt;::to_json()''),
        (''../structfpmas_1_1model_1_1AgentPtrSerializer_3_01JsonType_00_01void_01_4.html#a3931559f7449c70806cab05d6e773b97'', 1, ''fpmas::model::AgentPtrSerializer&lt; JsonType, void &gt;::to_json()'')]),
      (''to_5fstring_1502'', ''to_string'', [(''../namespacefpmas.html#ae25eaa27642d79622104b01cb51e8cc9'', 1, ''fpmas::to_string(const api::graph::DistributedId &amp;id)''),
        (''../namespacefpmas.html#ac32091fe107997df840770b6b4d28bcf'', 1, ''fpmas::to_string(const api::model::DiscretePoint &amp;point)'')]),
      (''totalduration_1503'', ''totalDuration'', [(''../classfpmas_1_1api_1_1utils_1_1perf_1_1Monitor.html#a0effd9301ff52ae2b4ad1bfdceda915b'', 1, ''fpmas::api::utils::perf::Monitor::totalDuration()''),
        (''../classfpmas_1_1utils_1_1perf_1_1Monitor.html#a6e3a3765d7d426aaec7cf921193ae90b'', 1, ''fpmas::utils::perf::Monitor::totalDuration()'')]),
      (''typedmpi_1504'', ''TypedMpi'', [(''../classfpmas_1_1communication_1_1detail_1_1TypedMpi.html#a1a89ccdd7a951f2b9a671410ff5dafc5'', 1, ''fpmas::communication::detail::TypedMpi'')]),
      (''typeid_1505'', ''typeId'', [(''../classfpmas_1_1api_1_1model_1_1Agent.html#a1a6b51d0a175f47b878f27af5937277f'', 1, ''fpmas::api::model::Agent::typeId()''),
        (''../classfpmas_1_1model_1_1AgentBase.html#a3367b0ed8599e6d69f8ead4deef72411'', 1, ''fpmas::model::AgentBase::typeId()'')])]"

definition functions_13 :: "raw_entry list" where
  "functions_13 = [
      (''uniformagentmapping_1506'', ''UniformAgentMapping'', [(''../classfpmas_1_1model_1_1UniformAgentMapping.html#a52eb355fc3fed9e7859223a982946478'', 1, ''fpmas::model::UniformAgentMapping'')]),
      (''uniformgraphbuilder_1507'', ''UniformGraphBuilder'', [(''../classfpmas_1_1graph_1_1UniformGraphBuilder.html#a3ba7028de1b209e9e5c8ba353b8d3dd3'', 1, ''fpmas::graph::UniformGraphBuilder'')]),
      (''uniformgridagentmapping_1508'', ''UniformGridAgentMapping'', [(''../classfpmas_1_1model_1_1UniformGridAgentMapping.html#a71d9334e58ba2c38cf7f882f6659bd7b'', 1, ''fpmas::model::UniformGridAgentMapping'')]),
      (''unlink_1509'', ''unlink'', [(''../classfpmas_1_1synchro_1_1ghost_1_1GhostSyncLinker.html#a8c0abc09482cc454269caf60e333187b'', 1, ''fpmas::synchro::ghost::GhostSyncLinker::unlink()''),
        (''../classfpmas_1_1synchro_1_1hard_1_1HardSyncLinker.html#a7895d2eb89d37bfc79b4b9430e990408'', 1, ''fpmas::synchro::hard::HardSyncLinker::unlink()''),
        (''../classfpmas_1_1synchro_1_1hard_1_1LinkClient.html#ac85d2127005c68ae4ab31af821817b2a'', 1, ''fpmas::synchro::hard::LinkClient::unlink()''),
        (''../classfpmas_1_1synchro_1_1hard_1_1api_1_1LinkClient.html#a1671171b923adbee5780dd5bbad36cbf'', 1, ''fpmas::synchro::hard::api::LinkClient::unlink()''),
        (''../classfpmas_1_1model_1_1detail_1_1Model.html#a4b1c5a8bc582e1253fa4d4be16110939'', 1, ''fpmas::model::detail::Model::unlink()''),
        (''../classfpmas_1_1graph_1_1detail_1_1DistributedGraph.html#aaf1bf4c3654ced9a22672cf95da802fe'', 1, ''fpmas::graph::detail::DistributedGraph::unlink(DistributedId id) override''),
        (''../classfpmas_1_1graph_1_1detail_1_1DistributedGraph.html#ab5590e41ba5066e0fc30961486963c5d'', 1, ''fpmas::graph::detail::DistributedGraph::unlink(EdgeType *) override''),
        (''../classfpmas_1_1api_1_1synchro_1_1SyncLinker.html#acdacbab4cc836434fd459e2caa4e5d28'', 1, ''fpmas::api::synchro::SyncLinker::unlink()''),
        (''../classfpmas_1_1api_1_1model_1_1Model.html#a4663840cf39443f1f0a8809393fb2394'', 1, ''fpmas::api::model::Model::unlink()''),
        (''../classfpmas_1_1api_1_1graph_1_1DistributedGraph.html#ac480db15a103f51edfadb75cbc63f91a'', 1, ''fpmas::api::graph::DistributedGraph::unlink(DistributedId id)=0''),
        (''../classfpmas_1_1api_1_1graph_1_1DistributedGraph.html#adbd6818d91cea7a3a4856aed08a42527'', 1, ''fpmas::api::graph::DistributedGraph::unlink(DistributedEdge&lt; T &gt; *edge)=0'')]),
      (''unlinkin_1510'', ''unlinkIn'', [(''../classfpmas_1_1api_1_1graph_1_1Node.html#a897418a706e39920e91a06c150a2d0b9'', 1, ''fpmas::api::graph::Node::unlinkIn()''),
        (''../classfpmas_1_1graph_1_1Node.html#a66997e71a7c8f7b35d8e7af53d2e3627'', 1, ''fpmas::graph::Node::unlinkIn()'')]),
      (''unlinkout_1511'', ''unlinkOut'', [(''../classfpmas_1_1api_1_1graph_1_1Node.html#a0f8d4adbc10082dcc6591675a5c320c8'', 1, ''fpmas::api::graph::Node::unlinkOut()''),
        (''../classfpmas_1_1graph_1_1Node.html#a84a55ed24509fa83a6d5bd79844459bf'', 1, ''fpmas::graph::Node::unlinkOut()'')]),
      (''unlock_1512'', ''unlock'', [(''../classfpmas_1_1synchro_1_1ghost_1_1SingleThreadMutex.html#ab18e7f97c66f752d32eac2a39a5271ce'', 1, ''fpmas::synchro::ghost::SingleThreadMutex::unlock()''),
        (''../classfpmas_1_1synchro_1_1hard_1_1MutexClient.html#a801a381b416481d0fd995c9df9d9230a'', 1, ''fpmas::synchro::hard::MutexClient::unlock()''),
        (''../classfpmas_1_1synchro_1_1hard_1_1HardSyncMutex.html#a779bf74609da05bdb0bfd57e7cd30503'', 1, ''fpmas::synchro::hard::HardSyncMutex::unlock()''),
        (''../classfpmas_1_1synchro_1_1hard_1_1api_1_1MutexClient.html#a3180606ab5c782480cf3397aef0c2cc6'', 1, ''fpmas::synchro::hard::api::MutexClient::unlock()''),
        (''../classfpmas_1_1api_1_1synchro_1_1Mutex.html#a6de01ac85ec7a43a6d07591a1f642e9f'', 1, ''fpmas::api::synchro::Mutex::unlock()''),
        (''../classfpmas_1_1synchro_1_1hard_1_1api_1_1MutexServer.html#a5c19cc2c3f23c3944be951cedfc72326'', 1, ''fpmas::synchro::hard::api::MutexServer::unlock()'')]),
      (''unlockremovenode_1513'', ''unlockRemoveNode'', [(''../classfpmas_1_1synchro_1_1hard_1_1api_1_1LinkServer.html#ac6bcf4c2e08376acb52dae90622ddf16'', 1, ''fpmas::synchro::hard::api::LinkServer::unlockRemoveNode()''),
        (''../classfpmas_1_1synchro_1_1hard_1_1LinkServer.html#a81120007d120c4cdccb1f38801d6c340'', 1, ''fpmas::synchro::hard::LinkServer::unlockRemoveNode()'')]),
      (''unlockshared_1514'', ''unlockShared'', [(''../classfpmas_1_1synchro_1_1hard_1_1HardSyncMutex.html#a9f57903eeb12f2bfd6787b2eccbcf396'', 1, ''fpmas::synchro::hard::HardSyncMutex::unlockShared()''),
        (''../classfpmas_1_1synchro_1_1hard_1_1MutexClient.html#ae6ee388e29e9904b2b3d5b5a33e9046c'', 1, ''fpmas::synchro::hard::MutexClient::unlockShared()''),
        (''../classfpmas_1_1synchro_1_1hard_1_1api_1_1MutexServer.html#a64671efe19887de20305886d67f3029a'', 1, ''fpmas::synchro::hard::api::MutexServer::unlockShared()''),
        (''../classfpmas_1_1synchro_1_1hard_1_1api_1_1MutexClient.html#a05432541afd3fdf1422e1c436cb12ad5'', 1, ''fpmas::synchro::hard::api::MutexClient::unlockShared()''),
        (''../classfpmas_1_1synchro_1_1ghost_1_1SingleThreadMutex.html#a696778c007534cb867037b806cc1e5e7'', 1, ''fpmas::synchro::ghost::SingleThreadMutex::unlockShared()''),
        (''../classfpmas_1_1api_1_1synchro_1_1Mutex.html#a76fa230afbc2d5f837fd336fac7d8640'', 1, ''fpmas::api::synchro::Mutex::unlockShared()'')]),
      (''unlockunlink_1515'', ''unlockUnlink'', [(''../classfpmas_1_1synchro_1_1hard_1_1api_1_1LinkServer.html#a93d76c0d9aa8a1346d0b41fd7b05a286'', 1, ''fpmas::synchro::hard::api::LinkServer::unlockUnlink()''),
        (''../classfpmas_1_1synchro_1_1hard_1_1LinkServer.html#ad5f8bdb0a5dcb8192cc13022cb8dd13a'', 1, ''fpmas::synchro::hard::LinkServer::unlockUnlink()'')]),
      (''updatelocation_1516'', ''updateLocation'', [(''../classfpmas_1_1model_1_1SpatialAgentBase.html#a15eb737af355d5be560b078207fb0d09'', 1, ''fpmas::model::SpatialAgentBase'')]),
      (''updatelocations_1517'', ''updateLocations'', [(''../classfpmas_1_1api_1_1graph_1_1LocationManager.html#a0dde25d0084892a7a23ed76729582bc9'', 1, ''fpmas::api::graph::LocationManager::updateLocations()''),
        (''../classfpmas_1_1graph_1_1LocationManager.html#abf49a203e8cef844e6766c632a684ade'', 1, ''fpmas::graph::LocationManager::updateLocations()'')]),
      (''updateperceptions_1518'', ''updatePerceptions'', [(''../classfpmas_1_1api_1_1model_1_1CellBehavior.html#a04e4be9bdf95203ad2811e2a70359139'', 1, ''fpmas::api::model::CellBehavior::updatePerceptions()''),
        (''../classfpmas_1_1model_1_1CellBase.html#a4f18eee837f5bbd29dfc7554fdee1dd6'', 1, ''fpmas::model::CellBase::updatePerceptions()'')])]"

definition functions_14 :: "raw_entry list" where
  "functions_14 = [
      (''vonneumanngridbuilder_1519'', ''VonNeumannGridBuilder'', [(''../classfpmas_1_1model_1_1VonNeumannGridBuilder.html#a499e851d7a0dac997cef60964cc80a2b'', 1, ''fpmas::model::VonNeumannGridBuilder::VonNeumannGridBuilder(api::model::GridCellFactory&lt; CellType &gt; &amp;cell_factory, DiscreteCoordinate width, DiscreteCoordinate height)''),
        (''../classfpmas_1_1model_1_1VonNeumannGridBuilder.html#aa2b32fb1b5e2327ce166b84d84d7c52d'', 1, ''fpmas::model::VonNeumannGridBuilder::VonNeumannGridBuilder(DiscreteCoordinate width, DiscreteCoordinate height)'')])]"

definition functions_15 :: "raw_entry list" where
  "functions_15 = [
      (''wait_1520'', ''wait'', [(''../classfpmas_1_1api_1_1communication_1_1MpiCommunicator.html#a449c57e68384cf6f3cbed21f1132f483'', 1, ''fpmas::api::communication::MpiCommunicator::wait()''),
        (''../classfpmas_1_1communication_1_1MpiCommunicatorBase.html#a646e833f057cb4c05759e3f8c87a60bb'', 1, ''fpmas::communication::MpiCommunicatorBase::wait()''),
        (''../classfpmas_1_1synchro_1_1hard_1_1api_1_1MutexServer.html#a1e1dacfe9083a453ca067eaaa2b8f3b0'', 1, ''fpmas::synchro::hard::api::MutexServer::wait()''),
        (''../classfpmas_1_1synchro_1_1hard_1_1MutexServer.html#a60ce47ea6c65266b5d1d12450cecb03b'', 1, ''fpmas::synchro::hard::MutexServer::wait()'')]),
      (''waitresponse_1521'', ''waitResponse'', [(''../classfpmas_1_1synchro_1_1hard_1_1ServerPack.html#a7071ef560602f1031aed2bd0a6d9d4b7'', 1, ''fpmas::synchro::hard::ServerPack'')]),
      (''waitsendrequest_1522'', ''waitSendRequest'', [(''../classfpmas_1_1synchro_1_1hard_1_1ServerPack.html#a1d6d1ca5a8f395111f84d19eb5575e83'', 1, ''fpmas::synchro::hard::ServerPack'')]),
      (''waitvoidresponse_1523'', ''waitVoidResponse'', [(''../classfpmas_1_1synchro_1_1hard_1_1ServerPack.html#aa59215f1c506be7b36488bb3d99b4379'', 1, ''fpmas::synchro::hard::ServerPack'')]),
      (''what_1524'', ''what'', [(''../classfpmas_1_1exceptions_1_1BadIdException.html#a015a8a3b33cc56243da7efb4747ba7b9'', 1, ''fpmas::exceptions::BadIdException::what()''),
        (''../classfpmas_1_1exceptions_1_1BadTypeException.html#a8d31453dd73149baedb207278f99d1d1'', 1, ''fpmas::exceptions::BadTypeException::what()'')]),
      (''width_1525'', ''width'', [(''../classfpmas_1_1model_1_1VonNeumannGridBuilder.html#afdc029c6bae41c0a15fb378f40397474'', 1, ''fpmas::model::VonNeumannGridBuilder'')]),
      (''write_5fzoltan_5fid_1526'', ''write_zoltan_id'', [(''../namespacefpmas_1_1graph_1_1zoltan.html#a05b68727c104f62f3c2f516b949a3e54'', 1, ''fpmas::graph::zoltan'')])]"

definition functions_16 :: "raw_entry list" where
  "functions_16 = [
      (''zoltan_5fconfig_1527'', ''zoltan_config'', [(''../namespacefpmas_1_1graph_1_1zoltan.html#a5dba3e09b1c68378547b22a77e78431f'', 1, ''fpmas::graph::zoltan'')]),
      (''zoltanloadbalancing_1528'', ''ZoltanLoadBalancing'', [(''../classfpmas_1_1graph_1_1ZoltanLoadBalancing.html#a8baaa58631744d67268d6846e191232c'', 1, ''fpmas::graph::ZoltanLoadBalancing'')])]"

definition functions_17 :: "raw_entry list" where
  "functions_17 = [
      (''_7eacquireguard_1529'', ''~AcquireGuard'', [(''../classfpmas_1_1synchro_1_1AcquireGuard.html#a12321632d16e1b3caa73447b09978f91'', 1, ''fpmas::synchro::AcquireGuard'')]),
      (''_7eagentptr_1530'', ''~AgentPtr'', [(''../classfpmas_1_1api_1_1model_1_1AgentPtr.html#ab48b92b86aeca4f7b6bcb273a34323b5'', 1, ''fpmas::api::model::AgentPtr'')]),
      (''_7edatapack_1531'', ''~DataPack'', [(''../classfpmas_1_1api_1_1communication_1_1DataPack.html#a6de0888fc740e85083c807cdafb54ec3'', 1, ''fpmas::api::communication::DataPack'')]),
      (''_7elockguard_1532'', ''~LockGuard'', [(''../classfpmas_1_1synchro_1_1LockGuard.html#a1c7b5eafaf36cf1c5b3b5b6d1a356bd0'', 1, ''fpmas::synchro::LockGuard'')]),
      (''_7empicommunicator_1533'', ''~MpiCommunicator'', [(''../classfpmas_1_1communication_1_1MpiCommunicator.html#a868d5f7039acbde8aaf33f658fbd0bef'', 1, ''fpmas::communication::MpiCommunicator'')]),
      (''_7ereadguard_1534'', ''~ReadGuard'', [(''../classfpmas_1_1synchro_1_1ReadGuard.html#a0b74a565a0d34989c83bf03a63b14525'', 1, ''fpmas::synchro::ReadGuard'')]),
      (''_7esharedlockguard_1535'', ''~SharedLockGuard'', [(''../classfpmas_1_1synchro_1_1SharedLockGuard.html#aa5f9c48aa27d75941d0470316a67d0d1'', 1, ''fpmas::synchro::SharedLockGuard'')])]"

section \<open>The letters\<close>

definition functions_files :: "raw_entry list list" where
  "functions_files = [functions_0, functions_1, functions_2, functions_3, functions_4, functions_5, functions_6,
     functions_7, functions_8, functions_9, functions_a, functions_b, functions_c, functions_d,
     functions_e, functions_f, functions_10, functions_11, functions_12, functions_13, functions_14,
     functions_15, functions_16, functions_17]"

lemma functions_0_in: "file_in CHR ''_'' functions_0 []"
  by (rule file_inI; unfold functions_0_def list.map fst_conv) (simp_all add: file_check)

lemma functions_1_in: "file_in CHR ''a'' functions_1 []"
  by (rule file_inI; unfold functions_1_def list.map fst_conv) (simp_all add: file_check)

lemma functions_2_in: "file_in CHR ''b'' functions_2 []"
  by (rule file_inI; unfold functions_2_def list.map fst_conv) (simp_all add: file_check)

lemma functions_3_in: "file_in CHR ''c'' functions_3 []"
  by (rule file_inI; unfold functions_3_def list.map fst_conv) (simp_all add: file_check)

lemma functions_4_in: "file_in CHR ''d'' functions_4 []"
  by (rule file_inI; unfold functions_4_def list.map fst_conv) (simp_all add: file_check)

lemma functions_5_in: "file_in CHR ''e'' functions_5 []"
  by (rule file_inI; unfold functions_5_def list.map fst_conv) (simp_all add: file_check)

lemma functions_6_in: "file_in CHR ''f'' functions_6 []"
  by (rule file_inI; unfold functions_6_def list.map fst_conv) (simp_all add: file_check)

lemma functions_7_in: "file_in CHR ''g'' functions_7 []"
  by (rule file_inI; unfold functions_7_def list.map fst_conv) (simp_all add: file_check)

lemma functions_8_in: "file_in CHR ''h'' functions_8 []"
  by (rule file_inI; unfold functions_8_def list.map fst_conv) (simp_all add: file_check)

lemma functions_9_in: "file_in CHR ''i'' functions_9 []"
  by (rule file_inI; unfold functions_9_def list.map fst_conv) (simp_all add: file_check)

lemma functions_a_in: "file_in CHR ''j'' functions_a []"
  by (rule file_inI; unfold functions_a_def list.map fst_conv) (simp_all add: file_check)

lemma functions_b_in: "file_in CHR ''l'' functions_b []"
  by (rule file_inI; unfold functions_b_def list.map fst_conv) (simp_all add: file_check)

lemma functions_c_in: "file_in CHR ''m'' functions_c []"
  by (rule file_inI; unfold functions_c_def list.map fst_conv) (simp_all add: file_check)

lemma functions_d_in: "file_in CHR ''n'' functions_d []"
  by (rule file_inI; unfold functions_d_def list.map fst_conv) (simp_all add: file_check)

lemma functions_e_in: "file_in CHR ''o'' functions_e [''string_1407'']"
  by (rule file_inI; unfold functions_e_def list.map fst_conv) (simp_all add: file_check)

lemma functions_f_in: "file_in CHR ''p'' functions_f []"
  by (rule file_inI; unfold functions_f_def list.map fst_conv) (simp_all add: file_check)

lemma functions_10_in: "file_in CHR ''r'' functions_10 []"
  by (rule file_inI; unfold functions_10_def list.map fst_conv) (simp_all add: file_check)

lemma functions_11_in: "file_in CHR ''s'' functions_11 []"
  by (rule file_inI; unfold functions_11_def list.map fst_conv) (simp_all add: file_check)

lemma functions_12_in: "file_in CHR ''t'' functions_12 []"
  by (rule file_inI; unfold functions_12_def list.map fst_conv) (simp_all add: file_check)

lemma functions_13_in: "file_in CHR ''u'' functions_13 []"
  by (rule file_inI; unfold functions_13_def list.map fst_conv) (simp_all add: file_check)

lemma functions_14_in: "file_in CHR ''v'' functions_14 []"
  by (rule file_inI; unfold functions_14_def list.map fst_conv) (simp_all add: file_check)

lemma functions_15_in: "file_in CHR ''w'' functions_15 []"
  by (rule file_inI; unfold functions_15_def list.map fst_conv) (simp_all add: file_check)

lemma functions_16_in: "file_in CHR ''z'' functions_16 []"
  by (rule file_inI; unfold functions_16_def list.map fst_conv) (simp_all add: file_check)

lemma functions_17_in: "file_in CHR ''~'' functions_17 []"
  by (rule file_inI; unfold functions_17_def list.map fst_conv) (simp_all add: file_check)

lemma functions_letters: "files_ok ''_abcdefghijlmnoprstuvwz~'' functions_files [''string_1407'']"
  using functions_0_in functions_1_in functions_2_in functions_3_in functions_4_in functions_5_in functions_6_in functions_7_in functions_8_in functions_9_in functions_a_in functions_b_in functions_c_in functions_d_in functions_e_in functions_f_in functions_10_in functions_11_in functions_12_in functions_13_in functions_14_in functions_15_in functions_16_in functions_17_in
  by (simp add: files_ok_def functions_files_def file_in_def)

end
