(* ===== verification/Dox_All_A.thy ===== *)
theory Dox_All_A
  imports Dox_Entries
begin

text \<open>The index files of all entries (\<open>docs/search/all_*.js\<close>), for the letters up to m.\<close>

definition all_0 :: "raw_entry list" where
  "all_0 = [
      (''_5f_5fdata_0'', ''__data'', [(''../structfpmas_1_1api_1_1communication_1_1Request.html#aee432cace6f04a2e9899862d6d96f88a'', 1, ''fpmas::api::communication::Request'')]),
      (''_5f_5fgraph_1'', ''__graph'', [(''../classfpmas_1_1model_1_1detail_1_1DefaultModelConfig.html#a8f78707e8eaac81edc8aebf22d25a8ca'', 1, ''fpmas::model::detail::DefaultModelConfig'')]),
      (''_5f_5fload_5fbalancing_2'', ''__load_balancing'', [(''../classfpmas_1_1model_1_1detail_1_1DefaultModelConfig.html#a9f64a33f175d20303378c7d980ce5f90'', 1, ''fpmas::model::detail::DefaultModelConfig'')]),
      (''_5f_5fmpi_5frequest_3'', ''__mpi_request'', [(''../structfpmas_1_1api_1_1communication_1_1Request.html#a95b15e64c904c2b8f536181252ddbf0d'', 1, ''fpmas::api::communication::Request'')]),
      (''_5f_5fruntime_4'', ''__runtime'', [(''../classfpmas_1_1model_1_1detail_1_1DefaultModelConfig.html#af15a75261e05a6ec455c43456e0db9c5'', 1, ''fpmas::model::detail::DefaultModelConfig'')]),
      (''_5f_5fscheduler_5'', ''__scheduler'', [(''../classfpmas_1_1model_1_1detail_1_1DefaultModelConfig.html#a98a813125572fce555ac6c578a7ea0b9'', 1, ''fpmas::model::detail::DefaultModelConfig'')]),
      (''_5f_5fzoltan_5flb_6'', ''__zoltan_lb'', [(''../classfpmas_1_1model_1_1detail_1_1DefaultModelConfig.html#a238363beba4f88a8705d05e39f018b6a'', 1, ''fpmas::model::detail::DefaultModelConfig'')]),
      (''_5fagent_7'', ''_agent'', [(''../classfpmas_1_1model_1_1detail_1_1AgentTaskBase.html#ab925c4b502d5a1c2defed0d17dbf0511'', 1, ''fpmas::model::detail::AgentTaskBase'')]),
      (''_5flock_8'', ''_lock'', [(''../classfpmas_1_1api_1_1synchro_1_1Mutex.html#a75e37a2c88c78c41fc6be404e0b3a5f0'', 1, ''fpmas::api::synchro::Mutex'')]),
      (''_5flockshared_9'', ''_lockShared'', [(''../classfpmas_1_1api_1_1synchro_1_1Mutex.html#aa440bb94c0d053f118cbc3399ac5be2b'', 1, ''fpmas::api::synchro::Mutex'')]),
      (''_5funlock_10'', ''_unlock'', [(''../classfpmas_1_1api_1_1synchro_1_1Mutex.html#a4ff8857a28c7d25f3aab656cbb01c433'', 1, ''fpmas::api::synchro::Mutex'')]),
      (''_5funlockshared_11'', ''_unlockShared'', [(''../classfpmas_1_1api_1_1synchro_1_1Mutex.html#a45d59d7152f823738efa962136dc5f95'', 1, ''fpmas::api::synchro::Mutex'')])]"

definition all_1 :: "raw_entry list" where
  "all_1 = [
      (''acquire_12'', ''acquire'', [(''../classfpmas_1_1api_1_1synchro_1_1Mutex.html#a68bf2e4a527aac09ce552eb875112821'', 1, ''fpmas::api::synchro::Mutex::acquire()''),
        (''../classfpmas_1_1synchro_1_1ghost_1_1SingleThreadMutex.html#ac475f913c29429c70623166165cb2a51'', 1, ''fpmas::synchro::ghost::SingleThreadMutex::acquire()''),
        (''../classfpmas_1_1synchro_1_1hard_1_1api_1_1MutexClient.html#a109875b5b019aec1833c0073e6a86be4'', 1, ''fpmas::synchro::hard::api::MutexClient::acquire()''),
        (''../classfpmas_1_1synchro_1_1hard_1_1HardSyncMutex.html#afab89307ce8409e7ed80d5aa90be31b2'', 1, ''fpmas::synchro::hard::HardSyncMutex::acquire()''),
        (''../classfpmas_1_1synchro_1_1hard_1_1MutexClient.html#a227505e34526434ae134b429dfe251f2'', 1, ''fpmas::synchro::hard::MutexClient::acquire()'')]),
      (''acquireguard_13'', ''AcquireGuard'', [(''../classfpmas_1_1model_1_1AcquireGuard.html#a9944acd136c8eced5719aa46ffedad0a'', 1, ''fpmas::model::AcquireGuard::AcquireGuard()''),
        (''../classfpmas_1_1synchro_1_1AcquireGuard.html#ae586ed5431c0384cbc355cc9ec4bdfe7'', 1, ''fpmas::synchro::AcquireGuard::AcquireGuard()''),
        (''../classfpmas_1_1model_1_1AcquireGuard.html'', 1, ''fpmas::model::AcquireGuard''),
        (''../classfpmas_1_1synchro_1_1AcquireGuard.html'', 1, ''fpmas::synchro::AcquireGuard&lt; T &gt;'')]),
      (''acquireguard_3c_20fpmas_3a_3aapi_3a_3amodel_3a_3aagentptr_20_3e_14'', ''AcquireGuard&lt; fpmas::api::model::AgentPtr &gt;'', [(''../classfpmas_1_1synchro_1_1AcquireGuard.html'', 1, ''fpmas::synchro'')]),
      (''act_15'', ''act'', [(''../classfpmas_1_1model_1_1AgentBase.html#a4eda23f5e8fb6db1c97126349a67410a'', 1, ''fpmas::model::AgentBase::act()''),
        (''../classfpmas_1_1api_1_1model_1_1Agent.html#a038600989efe7ceb1fc5afce1c87de45'', 1, ''fpmas::api::model::Agent::act()'')]),
      (''add_16'', ''add'', [(''../classfpmas_1_1model_1_1detail_1_1AgentGroupBase.html#ac226e2eb63a7f2e2a0e1138a325b1ee8'', 1, ''fpmas::model::detail::AgentGroupBase::add()''),
        (''../classfpmas_1_1api_1_1scheduler_1_1Job.html#a3a1175ed0ece04cc7f0ed78e6d0e521d'', 1, ''fpmas::api::scheduler::Job::add()''),
        (''../classfpmas_1_1api_1_1model_1_1SpatialModel.html#a7c9a708d6bae6bf5e860306baed5598c'', 1, ''fpmas::api::model::SpatialModel::add()''),
        (''../classfpmas_1_1api_1_1model_1_1AgentGroup.html#a8b05cfc77d52c34c85121793df15b5fb'', 1, ''fpmas::api::model::AgentGroup::add()''),
        (''../classfpmas_1_1model_1_1SpatialModel.html#a95673fcbc7959f4ac512a6795d217b2b'', 1, ''fpmas::model::SpatialModel::add()''),
        (''../classfpmas_1_1scheduler_1_1Job.html#a5e28ab793a1e349e8b0b18cffdbadf17'', 1, ''fpmas::scheduler::Job::add()'')]),
      (''addcalloneraseedge_17'', ''addCallOnEraseEdge'', [(''../classfpmas_1_1api_1_1graph_1_1Graph.html#afac094429ea44cfdf781f1d1fdedf629'', 1, ''fpmas::api::graph::Graph::addCallOnEraseEdge()''),
        (''../classfpmas_1_1graph_1_1Graph.html#a1edb6d42eba7841d071604a4e0898458'', 1, ''fpmas::graph::Graph::addCallOnEraseEdge(api::utils::Callback&lt; EdgeType * &gt; *callback) override'')]),
      (''addcallonerasenode_18'', ''addCallOnEraseNode'', [(''../classfpmas_1_1graph_1_1Graph.html#a45ace538ed2d9c037dce1a743039173b'', 1, ''fpmas::graph::Graph::addCallOnEraseNode()''),
        (''../classfpmas_1_1api_1_1graph_1_1Graph.html#a00c750c1fd84eb755547b0f851e229fd'', 1, ''fpmas::api::graph::Graph::addCallOnEraseNode()'')]),
      (''addcalloninsertedge_19'', ''addCallOnInsertEdge'', [(''../classfpmas_1_1graph_1_1Graph.html#af6ca183ef662d87198e3991e11baf26c'', 1, ''fpmas::graph::Graph::addCallOnInsertEdge()''),
        (''../classfpmas_1_1api_1_1graph_1_1Graph.html#ad67b1bb8ba0d83adb66f78ff8ee8d2d0'', 1, ''fpmas::api::graph::Graph::addCallOnInsertEdge(api::utils::Callback&lt; EdgeType * &gt; *callback)=0'')]),
      (''addcalloninsertnode_20'', ''addCallOnInsertNode'', [(''../classfpmas_1_1api_1_1graph_1_1Graph.html#a50add3d4a23575f3f337a31a385b3175'', 1, ''fpmas::api::graph::Graph::addCallOnInsertNode()''),
        (''../classfpmas_1_1graph_1_1Graph.html#a9220e20bc66310cea8fb7ac9c331d4a5'', 1, ''fpmas::graph::Graph::addCallOnInsertNode()'')]),
      (''addcallonsetdistant_21'', ''addCallOnSetDistant'', [(''../classfpmas_1_1graph_1_1detail_1_1DistributedGraph.html#a5dbb4ac59c423ca44f3830f14f3b82cb'', 1, ''fpmas::graph::detail::DistributedGraph::addCallOnSetDistant()''),
        (''../classfpmas_1_1api_1_1graph_1_1DistributedGraph.html#a2dd0a1dd7932f5dfd49f40f41eda3603'', 1, ''fpmas::api::graph::DistributedGraph::addCallOnSetDistant()'')]),
      (''addcallonsetlocal_22'', ''addCallOnSetLocal'', [(''../classfpmas_1_1graph_1_1detail_1_1DistributedGraph.html#a9c92d38fc28bd565c90fbd06fd8cd59e'', 1, ''fpmas::graph::detail::DistributedGraph::addCallOnSetLocal()''),
        (''../classfpmas_1_1api_1_1graph_1_1DistributedGraph.html#a24255b155585d63e1bddacb9980e7937'', 1, ''fpmas::api::graph::DistributedGraph::addCallOnSetLocal()'')]),
      (''addgroup_23'', ''addGroup'', [(''../classfpmas_1_1model_1_1AgentBase.html#af91cf49000ce97f4005f1d1193a08284'', 1, ''fpmas::model::AgentBase::addGroup()''),
        (''../classfpmas_1_1api_1_1model_1_1Agent.html#a4db07da12347b7f169a7dfc38c8e8e8b'', 1, ''fpmas::api::model::Agent::addGroup()'')]),
      (''addgroupid_24'', ''addGroupId'', [(''../classfpmas_1_1model_1_1AgentBase.html#a692628e2e0ce7acd4e0f56337334c6a0'', 1, ''fpmas::model::AgentBase::addGroupId()''),
        (''../classfpmas_1_1api_1_1model_1_1Agent.html#a6701f779c3af1d2e43d297342e02a1e6'', 1, ''fpmas::api::model::Agent::addGroupId()'')]),
      (''addmanagednode_25'', ''addManagedNode'', [(''../classfpmas_1_1graph_1_1LocationManager.html#a2af1c173ced82d117b406a4cf34dac33'', 1, ''fpmas::graph::LocationManager::addManagedNode(DistributedId id, int initial_location) override''),
        (''../classfpmas_1_1graph_1_1LocationManager.html#a131d441c3aec19c41e4ae865731b8458'', 1, ''fpmas::graph::LocationManager::addManagedNode(api::graph::DistributedNode&lt; T &gt; *node, int initial_location) override''),
        (''../classfpmas_1_1api_1_1graph_1_1LocationManager.html#aeae2b4438b0fba4c019b487c566a6807'', 1, ''fpmas::api::graph::LocationManager::addManagedNode(DistributedId id, int initial_location)=0''),
        (''../classfpmas_1_1api_1_1graph_1_1LocationManager.html#a2d7cf8872ef4d923b8f70e3c0c21776d'', 1, ''fpmas::api::graph::LocationManager::addManagedNode(DistributedNode&lt; T &gt; *node, int initial_location)=0'')]),
      (''addreachablecell_26'', ''addReachableCell'', [(''../classfpmas_1_1model_1_1ReachableCell.html#a48da7daa3d01ce415a3b3550c4417003'', 1, ''fpmas::model::ReachableCell'')]),
      (''adl_5fserializer_3c_20dataupdatepack_3c_20t_20_3e_20_3e_27'', ''adl_serializer&lt; DataUpdatePack&lt; T &gt; &gt;'', [(''../structnlohmann_1_1adl__serializer_3_01DataUpdatePack_3_01T_01_4_01_4.html'', 1, ''nlohmann'')]),
      (''adl_5fserializer_3c_20distributedid_20_3e_28'', ''adl_serializer&lt; DistributedId &gt;'', [(''../structnlohmann_1_1adl__serializer_3_01DistributedId_01_4.html'', 1, ''nlohmann'')]),
      (''adl_5fserializer_3c_20edgeptrwrapper_3c_20t_20_3e_20_3e_29'', ''adl_serializer&lt; EdgePtrWrapper&lt; T &gt; &gt;'', [(''../structnlohmann_1_1adl__serializer_3_01EdgePtrWrapper_3_01T_01_4_01_4.html'', 1, ''nlohmann'')]),
      (''adl_5fserializer_3c_20fpmas_3a_3aapi_3a_3agraph_3a_3adistributedgraph_3c_20t_20_3e_20_3e_30'', ''adl_serializer&lt; fpmas::api::graph::DistributedGraph&lt; T &gt; &gt;'', [(''../structnlohmann_1_1adl__serializer_3_01fpmas_1_1api_1_1graph_1_1DistributedGraph_3_01T_01_4_01_4.html'', 1, ''nlohmann'')]),
      (''adl_5fserializer_3c_20fpmas_3a_3aapi_3a_3agraph_3a_3alocationmanager_3c_20t_20_3e_20_3e_31'', ''adl_serializer&lt; fpmas::api::graph::LocationManager&lt; T &gt; &gt;'', [(''../structnlohmann_1_1adl__serializer_3_01fpmas_1_1api_1_1graph_1_1LocationManager_3_01T_01_4_01_4.html'', 1, ''nlohmann'')]),
      (''adl_5fserializer_3c_20fpmas_3a_3aapi_3a_3amodel_3a_3aagentptr_20_3e_32'', ''adl_serializer&lt; fpmas::api::model::AgentPtr &gt;'', [(''../structnlohmann_1_1adl__serializer_3_01fpmas_1_1api_1_1model_1_1AgentPtr_01_4.html'', 1, ''nlohmann'')]),
      (''adl_5fserializer_3c_20fpmas_3a_3aapi_3a_3amodel_3a_3adiscretepoint_20_3e_33'', ''adl_serializer&lt; fpmas::api::model::DiscretePoint &gt;'', [(''../structnlohmann_1_1adl__serializer_3_01fpmas_1_1api_1_1model_1_1DiscretePoint_01_4.html'', 1, ''nlohmann'')]),
      (''adl_5fserializer_3c_20fpmas_3a_3aapi_3a_3amodel_3a_3amodel_20_3e_34'', ''adl_serializer&lt; fpmas::api::model::Model &gt;'', [(''../structnlohmann_1_1adl__serializer_3_01fpmas_1_1api_1_1model_1_1Model_01_4.html'', 1, ''nlohmann'')]),
      (''adl_5fserializer_3c_20fpmas_3a_3aapi_3a_3autils_3a_3aptrwrapper_3c_20agenttype_20_3e_20_3e_35'', ''adl_serializer&lt; fpmas::api::utils::PtrWrapper&lt; AgentType &gt; &gt;'', [(''../structnlohmann_1_1adl__serializer_3_01fpmas_1_1api_1_1utils_1_1PtrWrapper_3_01AgentType_01_4_01_4.html'', 1, ''nlohmann'')]),
      (''adl_5fserializer_3c_20fpmas_3a_3aapi_3a_3autils_3a_3aptrwrapper_3c_20fpmas_3a_3amodel_3a_3agraphcellbase_3c_20agenttype_2c_20derived_20_3e_20_3e_20_3e_36'', ''adl_serializer&lt; fpmas::api::utils::PtrWrapper&lt; fpmas::model::GraphCellBase&lt; AgentType, Derived &gt; &gt; &gt;'', [(''../structnlohmann_1_1adl__serializer_3_01fpmas_1_1api_1_1utils_1_1PtrWrapper_3_01fpmas_1_1model_1_189f18958e721d64cf9081bb53023a6a1.html'', 1, ''nlohmann'')]),
      (''adl_5fserializer_3c_20fpmas_3a_3aapi_3a_3autils_3a_3aptrwrapper_3c_20fpmas_3a_3amodel_3a_3agridagent_3c_20agenttype_2c_20celltype_2c_20derived_20_3e_20_3e_20_3e_37'', ''adl_serializer&lt; fpmas::api::utils::PtrWrapper&lt; fpmas::model::GridAgent&lt; AgentType, CellType, Derived &gt; &gt; &gt;'', [(''../structnlohmann_1_1adl__serializer_3_01fpmas_1_1api_1_1utils_1_1PtrWrapper_3_01fpmas_1_1model_1_136032a46204f163d868560f92634ba90.html'', 1, ''nlohmann'')]),
      (''adl_5fserializer_3c_20fpmas_3a_3aapi_3a_3autils_3a_3aptrwrapper_3c_20fpmas_3a_3amodel_3a_3agridcellbase_3c_20gridcelltype_2c_20derived_20_3e_20_3e_20_3e_38'', ''adl_serializer&lt; fpmas::api::utils::PtrWrapper&lt; fpmas::model::GridCellBase&lt; GridCellType, Derived &gt; &gt; &gt;'', [(''../structnlohmann_1_1adl__serializer_3_01fpmas_1_1api_1_1utils_1_1PtrWrapper_3_01fpmas_1_1model_1_1784f1e1360367771d11e7adbddb7008f.html'', 1, ''nlohmann'')]),
      (''adl_5fserializer_3c_20fpmas_3a_3aapi_3a_3autils_3a_3aptrwrapper_3c_20fpmas_3a_3amodel_3a_3aspatialagentbase_3c_20agenttype_2c_20celltype_2c_20derived_20_3e_20_3e_20_3e_39'', ''adl_serializer&lt; fpmas::api::utils::PtrWrapper&lt; fpmas::model::SpatialAgentBase&lt; AgentType, CellType, Derived &gt; &gt; &gt;'', [(''../structnlohmann_1_1adl__serializer_3_01fpmas_1_1api_1_1utils_1_1PtrWrapper_3_01fpmas_1_1model_1_15c21a6b0ad54d23aaa2f84ed15f8db9e.html'', 1, ''nlohmann'')]),
      (''adl_5fserializer_3c_20fpmas_3a_3agraph_3a_3adetail_3a_3alocalizednodeview_3c_20t_20_3e_20_3e_40'', ''adl_serializer&lt; fpmas::graph::detail::LocalizedNodeView&lt; T &gt; &gt;'', [(''../structnlohmann_1_1adl__serializer_3_01fpmas_1_1graph_1_1detail_1_1LocalizedNodeView_3_01T_01_4_01_4.html'', 1, ''nlohmann'')]),
      (''adl_5fserializer_3c_20fpmas_3a_3amodel_3a_3areachablecell_20_3e_41'', ''adl_serializer&lt; fpmas::model::ReachableCell &gt;'', [(''../structnlohmann_1_1adl__serializer_3_01fpmas_1_1model_1_1ReachableCell_01_4.html'', 1, ''nlohmann'')]),
      (''adl_5fserializer_3c_20nodeptrwrapper_3c_20t_20_3e_20_3e_42'', ''adl_serializer&lt; NodePtrWrapper&lt; T &gt; &gt;'', [(''../structnlohmann_1_1adl__serializer_3_01NodePtrWrapper_3_01T_01_4_01_4.html'', 1, ''nlohmann'')]),
      (''adl_5fserializer_3c_20nodeupdatepack_3c_20t_20_3e_20_3e_43'', ''adl_serializer&lt; NodeUpdatePack&lt; T &gt; &gt;'', [(''../structnlohmann_1_1adl__serializer_3_01NodeUpdatePack_3_01T_01_4_01_4.html'', 1, ''nlohmann'')]),
      (''adl_5fserializer_3c_20std_3a_3achrono_3a_3aduration_3c_20rep_2c_20ratio_20_3e_20_3e_44'', ''adl_serializer&lt; std::chrono::duration&lt; Rep, Ratio &gt; &gt;'', [(''../structnlohmann_1_1adl__serializer_3_01std_1_1chrono_1_1duration_3_01Rep_00_01Ratio_01_4_01_4.html'', 1, ''nlohmann'')]),
      (''adl_5fserializer_3c_20std_3a_3atype_5findex_20_3e_45'', ''adl_serializer&lt; std::type_index &gt;'', [(''../structnlohmann_1_1adl__serializer_3_01std_1_1type__index_01_4.html'', 1, ''nlohmann'')]),
      (''agent_46'', ''agent'', [(''../classfpmas_1_1model_1_1detail_1_1AgentTaskBase.html#a09724834224f8b9196070825114de75d'', 1, ''fpmas::model::detail::AgentTaskBase::agent()''),
        (''../classfpmas_1_1api_1_1model_1_1AgentTask.html#a6a09b79475fd5fdc62291c9f2c12bfb7'', 1, ''fpmas::api::model::AgentTask::agent()''),
        (''../classfpmas_1_1model_1_1Neighbor.html#a04c638dfc724724f0d9e705539ec75a6'', 1, ''fpmas::model::Neighbor::agent()'')]),
      (''agent_47'', ''Agent'', [(''../classfpmas_1_1api_1_1model_1_1Agent.html'', 1, ''fpmas::api::model'')]),
      (''agentbase_48'', ''AgentBase'', [(''../classfpmas_1_1model_1_1AgentBase.html'', 1, ''fpmas::model'')]),
      (''agentbase_3c_20agenttype_2c_20spatialagentbase_3c_20agenttype_2c_20api_3a_3amodel_3a_3acell_2c_20agenttype_20_3e_20_3e_49'', ''AgentBase&lt; AgentType, SpatialAgentBase&lt; AgentType, api::model::Cell, AgentType &gt; &gt;'', [(''../classfpmas_1_1model_1_1AgentBase.html'', 1, ''fpmas::model'')]),
      (''agentbase_3c_20agenttype_2c_20spatialagentbase_3c_20agenttype_2c_20api_3a_3amodel_3a_3agridcell_2c_20gridagent_3c_20agenttype_2c_20api_3a_3amodel_3a_3agridcell_2c_20agenttype_20_3e_20_3e_20_3e_50'', ''AgentBase&lt; AgentType, SpatialAgentBase&lt; AgentType, api::model::GridCell, GridAgent&lt; AgentType, api::model::GridCell, AgentType &gt; &gt; &gt;'', [(''../classfpmas_1_1model_1_1AgentBase.html'', 1, ''fpmas::model'')]),
      (''agentbase_3c_20agenttype_2c_20spatialagentbase_3c_20agenttype_2c_20celltype_2c_20agenttype_20_3e_20_3e_51'', ''AgentBase&lt; AgentType, SpatialAgentBase&lt; AgentType, CellType, AgentType &gt; &gt;'', [(''../classfpmas_1_1model_1_1AgentBase.html'', 1, ''fpmas::model'')]),
      (''agentbase_3c_20celltype_2c_20celltype_20_3e_52'', ''AgentBase&lt; CellType, CellType &gt;'', [(''../classfpmas_1_1model_1_1AgentBase.html'', 1, ''fpmas::model'')]),
      (''agentbase_3c_20exampleagent_20_3e_53'', ''AgentBase&lt; ExampleAgent &gt;'', [(''../classfpmas_1_1model_1_1AgentBase.html'', 1, ''fpmas::model'')]),
      (''agentbehaviortask_54'', ''AgentBehaviorTask'', [(''../classfpmas_1_1model_1_1detail_1_1AgentBehaviorTask.html#aeddb45f425bc3d920ade47270533fdf7'', 1, ''fpmas::model::detail::AgentBehaviorTask::AgentBehaviorTask()''),
        (''../classfpmas_1_1model_1_1detail_1_1AgentBehaviorTask.html'', 1, ''fpmas::model::detail::AgentBehaviorTask'')]),
      (''agentedge_55'', ''AgentEdge'', [(''../namespacefpmas_1_1api_1_1model.html#ad5477de8442103a77a5d09703fbe1366'', 1, ''fpmas::api::model'')]),
      (''agentexecutionjob_56'', ''agentExecutionJob'', [(''../classfpmas_1_1model_1_1detail_1_1AgentGroupBase.html#a057d75f9badca09069c068d2c6142cc9'', 1, ''fpmas::model::detail::AgentGroupBase::agentExecutionJob() override''),
        (''../classfpmas_1_1model_1_1detail_1_1AgentGroupBase.html#aa0222dc4708d42cb5339a2cc032a6acf'', 1, ''fpmas::model::detail::AgentGroupBase::agentExecutionJob() const override''),
        (''../classfpmas_1_1api_1_1model_1_1AgentGroup.html#a3e680b5266ea8f4279073323a891730c'', 1, ''fpmas::api::model::AgentGroup::agentExecutionJob() const =0''),
        (''../classfpmas_1_1api_1_1model_1_1AgentGroup.html#ab53a4adc2e99116e76d873ce59e82e73'', 1, ''fpmas::api::model::AgentGroup::agentExecutionJob()=0'')]),
      (''agentgraph_57'', ''AgentGraph'', [(''../namespacefpmas_1_1api_1_1model.html#acf7ec99f5c6cefadbfe4942abff58a5f'', 1, ''fpmas::api::model::AgentGraph()''),
        (''../namespacefpmas_1_1model_1_1detail.html#ae1fc630622cc0feb44b73de78cc7a24b'', 1, ''fpmas::model::detail::AgentGraph()'')]),
      (''agentgroup_58'', ''AgentGroup'', [(''../classfpmas_1_1api_1_1model_1_1AgentGroup.html'', 1, ''fpmas::api::model::AgentGroup''),
        (''../classfpmas_1_1model_1_1detail_1_1AgentGroup.html'', 1, ''fpmas::model::detail::AgentGroup'')]),
      (''agentgroupbase_59'', ''AgentGroupBase'', [(''../classfpmas_1_1model_1_1detail_1_1AgentGroup.html#a5bb386086817c02177da5c6fca234aa3'', 1, ''fpmas::model::detail::AgentGroup::AgentGroupBase(const AgentGroupBase &amp;)=delete''),
        (''../classfpmas_1_1model_1_1detail_1_1AgentGroup.html#a649869b23c90b4e8aec4f73b82700f09'', 1, ''fpmas::model::detail::AgentGroup::AgentGroupBase(GroupId group_id, api::model::AgentGraph &amp;agent_graph, const api::model::Behavior &amp;behavior)''),
        (''../classfpmas_1_1model_1_1detail_1_1AgentGroup.html#aca39883f1c932ec586150ae14dc09fbd'', 1, ''fpmas::model::detail::AgentGroup::AgentGroupBase(GroupId group_id, api::model::AgentGraph &amp;agent_graph)''),
        (''../classfpmas_1_1model_1_1detail_1_1AgentGroupBase.html#a649869b23c90b4e8aec4f73b82700f09'', 1, ''fpmas::model::detail::AgentGroupBase::AgentGroupBase(GroupId group_id, api::model::AgentGraph &amp;agent_graph, const api::model::Behavior &amp;behavior)''),
        (''../classfpmas_1_1model_1_1detail_1_1AgentGroupBase.html#a5bb386086817c02177da5c6fca234aa3'', 1, ''fpmas::model::detail::AgentGroupBase::AgentGroupBase(const AgentGroupBase &amp;)=delete''),
        (''../classfpmas_1_1model_1_1detail_1_1AgentGroupBase.html#aca39883f1c932ec586150ae14dc09fbd'', 1, ''fpmas::model::detail::AgentGroupBase::AgentGroupBase(GroupId group_id, api::model::AgentGraph &amp;agent_graph)''),
        (''../classfpmas_1_1model_1_1detail_1_1AgentGroupBase.html'', 1, ''fpmas::model::detail::AgentGroupBase'')]),
      (''agentnode_60'', ''AgentNode'', [(''../namespacefpmas_1_1api_1_1model.html#a30d59218cc71aa4332700b0cf150d98a'', 1, ''fpmas::api::model'')]),
      (''agentnodebuilder_61'', ''AgentNodeBuilder'', [(''../classfpmas_1_1model_1_1AgentNodeBuilder.html#aa5f019402f2be859f52f475d458375f2'', 1, ''fpmas::model::AgentNodeBuilder::AgentNodeBuilder()''),
        (''../classfpmas_1_1model_1_1AgentNodeBuilder.html'', 1, ''fpmas::model::AgentNodeBuilder'')]),
      (''agentnodecallback_62'', ''AgentNodeCallback'', [(''../namespacefpmas_1_1model.html#a36bc24876d38e87a9e9471f7ae153ab4'', 1, ''fpmas::model'')]),
      (''agentptr_63'', ''AgentPtr'', [(''../classfpmas_1_1api_1_1model_1_1AgentPtr.html#a5346b2b47db43303e51e87ba5dd2d828'', 1, ''fpmas::api::model::AgentPtr::AgentPtr(AgentPtr &amp;&amp;other)''),
        (''../classfpmas_1_1api_1_1model_1_1AgentPtr.html#af03451ede19a182ea8b6f25861416318'', 1, ''fpmas::api::model::AgentPtr::AgentPtr(const AgentPtr &amp;other)''),
        (''../classfpmas_1_1api_1_1model_1_1AgentPtr.html#a9316add3e557134e276e677b553406bf'', 1, ''fpmas::api::model::AgentPtr::AgentPtr(api::model::Agent *agent)''),
        (''../classfpmas_1_1api_1_1model_1_1AgentPtr.html#a729635f9839ae4882c10eb0506f5eb1d'', 1, ''fpmas::api::model::AgentPtr::AgentPtr()''),
        (''../classfpmas_1_1api_1_1model_1_1AgentPtr.html'', 1, ''fpmas::api::model::AgentPtr'')]),
      (''agentptrserializer_64'', ''AgentPtrSerializer'', [(''../structfpmas_1_1model_1_1AgentPtrSerializer.html'', 1, ''fpmas::model'')]),
      (''agentptrserializer_3c_20jsontype_2c_20void_20_3e_65'', ''AgentPtrSerializer&lt; JsonType, void &gt;'', [(''../structfpmas_1_1model_1_1AgentPtrSerializer_3_01JsonType_00_01void_01_4.html'', 1, ''fpmas::model'')]),
      (''agents_66'', ''agents'', [(''../classfpmas_1_1api_1_1model_1_1AgentGroup.html#a881d09c82488623a8668db11d992e602'', 1, ''fpmas::api::model::AgentGroup::agents()''),
        (''../classfpmas_1_1model_1_1detail_1_1AgentGroupBase.html#ad8a906980290895e705a85abaa0fd480'', 1, ''fpmas::model::detail::AgentGroupBase::agents()'')]),
      (''agenttask_67'', ''AgentTask'', [(''../classfpmas_1_1model_1_1detail_1_1AgentTask.html#aa4658eaa5ec59ee8932b7a1eaf58f625'', 1, ''fpmas::model::detail::AgentTask::AgentTask()''),
        (''../classfpmas_1_1api_1_1model_1_1AgentTask.html'', 1, ''fpmas::api::model::AgentTask''),
        (''../classfpmas_1_1model_1_1detail_1_1AgentTask.html'', 1, ''fpmas::model::detail::AgentTask'')]),
      (''agenttaskbase_68'', ''AgentTaskBase'', [(''../classfpmas_1_1model_1_1detail_1_1AgentTaskBase.html#a0aa693728c326ad3669e59de994c1b46'', 1, ''fpmas::model::detail::AgentTaskBase::AgentTaskBase()''),
        (''../classfpmas_1_1model_1_1detail_1_1AgentTaskBase.html'', 1, ''fpmas::model::detail::AgentTaskBase'')]),
      (''all_69'', ''All'', [(''../classfpmas_1_1io_1_1Local_1_1All.html#a72feb8718b593f0e37f4c2b9f6667fa4'', 1, ''fpmas::io::Local::All::All()''),
        (''../classfpmas_1_1io_1_1Reduce_1_1All.html#a0952bbd2d7bc86daaa2cedc1349afcc3'', 1, ''fpmas::io::Reduce::All::All()''),
        (''../classfpmas_1_1io_1_1Local_1_1All.html'', 1, ''fpmas::io::Local&lt; T &gt;::All''),
        (''../classfpmas_1_1io_1_1Reduce_1_1All.html'', 1, ''fpmas::io::Reduce&lt; T, BinaryOp, Mpi &gt;::All'')]),
      (''all_5freduce_70'', ''all_reduce'', [(''../namespacefpmas_1_1communication.html#a995d226e4db6370704028965091c62ec'', 1, ''fpmas::communication'')]),
      (''allgather_71'', ''allGather'', [(''../classfpmas_1_1communication_1_1detail_1_1TypedMpi.html#acc214ca22edfe3f99740465abfe6cdc5'', 1, ''fpmas::communication::detail::TypedMpi::allGather()''),
        (''../classfpmas_1_1communication_1_1MpiCommunicatorBase.html#a7a8af076f6d3f3a8ab12f3ae74e16607'', 1, ''fpmas::communication::MpiCommunicatorBase::allGather()''),
        (''../classfpmas_1_1api_1_1communication_1_1TypedMpi.html#a4467468344561d45cb5b7c9152909755'', 1, ''fpmas::api::communication::TypedMpi::allGather()''),
        (''../classfpmas_1_1api_1_1communication_1_1MpiCommunicator.html#a101d849fe127ed2d5a817ab717b4fb36'', 1, ''fpmas::api::communication::MpiCommunicator::allGather(DataPack data, MPI_Datatype datatype)=0'')]),
      (''alltoall_72'', ''allToAll'', [(''../classfpmas_1_1api_1_1communication_1_1MpiCommunicator.html#a5f9b367a6b43c83d03aac44f7a132416'', 1, ''fpmas::api::communication::MpiCommunicator::allToAll()''),
        (''../classfpmas_1_1api_1_1communication_1_1TypedMpi.html#a5b328687c58688caa0c5ccb9f248d692'', 1, ''fpmas::api::communication::TypedMpi::allToAll()''),
        (''../classfpmas_1_1communication_1_1MpiCommunicatorBase.html#a8b15906a98da7a6b7abda750bc565b27'', 1, ''fpmas::communication::MpiCommunicatorBase::allToAll()''),
        (''../classfpmas_1_1communication_1_1detail_1_1TypedMpi.html#ac9d4043ee728fa56fbd62a9c8d6b9c9a'', 1, ''fpmas::communication::detail::TypedMpi::allToAll()'')]),
      (''at_73'', ''at'', [(''../classfpmas_1_1model_1_1Neighbors.html#a70a4e60e1b587f83222fbcd28252d6b1'', 1, ''fpmas::model::Neighbors::at(std::size_t i)''),
        (''../classfpmas_1_1model_1_1Neighbors.html#a457b80946dd1b440bcf50cb704f63767'', 1, ''fpmas::model::Neighbors::at(std::size_t i) const'')]),
      (''autobreakpoint_74'', ''AutoBreakpoint'', [(''../classfpmas_1_1model_1_1AutoBreakpoint.html#a79e50730ae2f622ad2d9e631f1e3b0aa'', 1, ''fpmas::model::AutoBreakpoint::AutoBreakpoint()''),
        (''../classfpmas_1_1model_1_1AutoBreakpoint.html'', 1, ''fpmas::model::AutoBreakpoint'')])]"

definition all_2 :: "raw_entry list" where
  "all_2 = [
      (''badidexception_75'', ''BadIdException'', [(''../classfpmas_1_1exceptions_1_1BadIdException.html#a8134407be576c78f678ee34e2ec5278c'', 1, ''fpmas::exceptions::BadIdException::BadIdException()''),
        (''../classfpmas_1_1exceptions_1_1BadIdException.html'', 1, ''fpmas::exceptions::BadIdException'')]),
      (''badtypeexception_76'', ''BadTypeException'', [(''../classfpmas_1_1exceptions_1_1BadTypeException.html#acadb20f90c99b8b3d3db250889757596'', 1, ''fpmas::exceptions::BadTypeException::BadTypeException()''),
        (''../classfpmas_1_1exceptions_1_1BadTypeException.html'', 1, ''fpmas::exceptions::BadTypeException'')]),
      (''balance_77'', ''balance'', [(''../classfpmas_1_1api_1_1graph_1_1DistributedGraph.html#afa7aad6eaf0bd863cb5c26d9ec234588'', 1, ''fpmas::api::graph::DistributedGraph::balance()''),
        (''../classfpmas_1_1graph_1_1ZoltanLoadBalancing.html#aef65a29932d06a728fbd45433e62b3e8'', 1, ''fpmas::graph::ZoltanLoadBalancing::balance(NodeMap&lt; T &gt; nodes) override''),
        (''../classfpmas_1_1graph_1_1ZoltanLoadBalancing.html#a8ab28c34273f2d9c0da6443249ef5e7d'', 1, ''fpmas::graph::ZoltanLoadBalancing::balance(NodeMap&lt; T &gt; nodes, PartitionMap fixed_vertices) override''),
        (''../classfpmas_1_1graph_1_1ScheduledLoadBalancing.html#af42206d6d8beee9cdd1f64b3f2edc407'', 1, ''fpmas::graph::ScheduledLoadBalancing::balance()''),
        (''../classfpmas_1_1graph_1_1RandomLoadBalancing.html#a1211c1c4d2e8c3b4bbd27259478cb086'', 1, ''fpmas::graph::RandomLoadBalancing::balance(NodeMap&lt; T &gt; nodes, PartitionMap fixed_vertices) override''),
        (''../classfpmas_1_1graph_1_1RandomLoadBalancing.html#aa08a3348235b625f964bb05436f55c9e'', 1, ''fpmas::graph::RandomLoadBalancing::balance(NodeMap&lt; T &gt; nodes) override''),
        (''../classfpmas_1_1graph_1_1detail_1_1DistributedGraph.html#a2b37285e80423e400ec15a65b7f31af7'', 1, ''fpmas::graph::detail::DistributedGraph::balance(api::graph::FixedVerticesLoadBalancing&lt; T &gt; &amp;load_balancing, api::graph::PartitionMap fixed_vertices) override''),
        (''../classfpmas_1_1graph_1_1detail_1_1DistributedGraph.html#a02960142da8c4dc27095a13d1036e64e'', 1, ''fpmas::graph::detail::DistributedGraph::balance(api::graph::LoadBalancing&lt; T &gt; &amp;load_balancing) override''),
        (''../classfpmas_1_1api_1_1graph_1_1LoadBalancing.html#a1629c45867e061d72cefe1cc4b08aaa5'', 1, ''fpmas::api::graph::LoadBalancing::balance()''),
        (''../classfpmas_1_1api_1_1graph_1_1FixedVerticesLoadBalancing.html#a1f32907993058e2631a94ffc2e9b0136'', 1, ''fpmas::api::graph::FixedVerticesLoadBalancing::balance()''),
        (''../classfpmas_1_1api_1_1graph_1_1DistributedGraph.html#ac0b0cfdab2d75e42a1364218fa98c949'', 1, ''fpmas::api::graph::DistributedGraph::balance()'')]),
      (''barrier_78'', ''barrier'', [(''../classfpmas_1_1communication_1_1MpiCommunicatorBase.html#ac0a7461172a712c13dbb3c58508468e0'', 1, ''fpmas::communication::MpiCommunicatorBase::barrier()''),
        (''../classfpmas_1_1api_1_1communication_1_1MpiCommunicator.html#ae37f7f1125a1b4d64b6532cde80c2af2'', 1, ''fpmas::api::communication::MpiCommunicator::barrier()'')]),
      (''bcast_79'', ''bcast'', [(''../classfpmas_1_1communication_1_1detail_1_1TypedMpi.html#a44f063191045fad24846bcdaacdaae38'', 1, ''fpmas::communication::detail::TypedMpi::bcast()''),
        (''../classfpmas_1_1communication_1_1MpiCommunicatorBase.html#adc9095a346c7a6714e4d85cf7a506665'', 1, ''fpmas::communication::MpiCommunicatorBase::bcast()''),
        (''../classfpmas_1_1api_1_1communication_1_1TypedMpi.html#a8bd4875ef936980432f29608d44fbeaa'', 1, ''fpmas::api::communication::TypedMpi::bcast()''),
        (''../classfpmas_1_1api_1_1communication_1_1MpiCommunicator.html#af11cae5d82b403b8cfbb5f5b90954f24'', 1, ''fpmas::api::communication::MpiCommunicator::bcast()'')]),
      (''begin_80'', ''begin'', [(''../classfpmas_1_1model_1_1Neighbors.html#afc071896e3ffb674f432c1980374258d'', 1, ''fpmas::model::Neighbors::begin()''),
        (''../classfpmas_1_1api_1_1scheduler_1_1Epoch.html#a798100d076fc1c51e7525b6a37c4cded'', 1, ''fpmas::api::scheduler::Epoch::begin()''),
        (''../classfpmas_1_1api_1_1scheduler_1_1Job.html#af97bd2f0a0fcecd53f0d80870722dcd3'', 1, ''fpmas::api::scheduler::Job::begin()''),
        (''../classfpmas_1_1scheduler_1_1Epoch.html#a6a3fdc978c82fefee96f32d9706225df'', 1, ''fpmas::scheduler::Epoch::begin()''),
        (''../classfpmas_1_1scheduler_1_1Job.html#add3295b55deaef3c3af728f24f62f1c5'', 1, ''fpmas::scheduler::Job::begin()''),
        (''../classfpmas_1_1model_1_1Neighbors.html#a56c818e79c4f719ec93fba54803b28a9'', 1, ''fpmas::model::Neighbors::begin()'')]),
      (''behavior_81'', ''Behavior'', [(''../classfpmas_1_1model_1_1Behavior.html#a9f1a78fcf300629763c3c3f8d3dc3243'', 1, ''fpmas::model::Behavior'')]),
      (''behavior_82'', ''behavior'', [(''../classfpmas_1_1model_1_1detail_1_1AgentGroupBase.html#af98ac509397bfaad074c0b885ace53b0'', 1, ''fpmas::model::detail::AgentGroupBase::behavior()''),
        (''../classfpmas_1_1api_1_1model_1_1AgentGroup.html#a180c86e59f53b0f09645cdf2746a7a93'', 1, ''fpmas::api::model::AgentGroup::behavior()'')]),
      (''behavior_83'', ''Behavior'', [(''../classfpmas_1_1api_1_1model_1_1Behavior.html'', 1, ''fpmas::api::model::Behavior''),
        (''../classfpmas_1_1model_1_1Behavior.html'', 1, ''fpmas::model::Behavior&lt; AgentType &gt;'')]),
      (''behavior_3c_20fpmas_3a_3aapi_3a_3amodel_3a_3acellbehavior_20_3e_84'', ''Behavior&lt; fpmas::api::model::CellBehavior &gt;'', [(''../classfpmas_1_1model_1_1Behavior.html'', 1, ''fpmas::model'')]),
      (''behavior_3c_20fpmas_3a_3aapi_3a_3amodel_3a_3aspatialagentbehavior_20_3e_85'', ''Behavior&lt; fpmas::api::model::SpatialAgentBehavior &gt;'', [(''../classfpmas_1_1model_1_1Behavior.html'', 1, ''fpmas::model'')]),
      (''behaviorwithargs_86'', ''BehaviorWithArgs'', [(''../classfpmas_1_1model_1_1BehaviorWithArgs.html#ae32c5437bcba19a888e11819d498b726'', 1, ''fpmas::model::BehaviorWithArgs::BehaviorWithArgs()''),
        (''../classfpmas_1_1model_1_1BehaviorWithArgs.html'', 1, ''fpmas::model::BehaviorWithArgs&lt; AgentType, Args &gt;'')]),
      (''behaviorwithargs_3c_20fpmas_3a_3aapi_3a_3amodel_3a_3acellbehavior_2c_20fpmas_3a_3aapi_3a_3amodel_3a_3aagentgroup_20_26_20_3e_87'', ''BehaviorWithArgs&lt; fpmas::api::model::CellBehavior, fpmas::api::model::AgentGroup &amp; &gt;'', [(''../classfpmas_1_1model_1_1BehaviorWithArgs.html'', 1, ''fpmas::model'')]),
      (''bipartitegraphbuilder_88'', ''BipartiteGraphBuilder'', [(''../classfpmas_1_1graph_1_1BipartiteGraphBuilder.html#aa8903f7e915e580f17f5d2280c5aa1aa'', 1, ''fpmas::graph::BipartiteGraphBuilder::BipartiteGraphBuilder()''),
        (''../classfpmas_1_1graph_1_1BipartiteGraphBuilder.html'', 1, ''fpmas::graph::BipartiteGraphBuilder&lt; T &gt;'')]),
      (''breakpoint_89'', ''Breakpoint'', [(''../namespacefpmas_1_1model.html#a27645259f09d2f3d29223e8a410e5712'', 1, ''fpmas::model::Breakpoint()''),
        (''../classfpmas_1_1api_1_1io_1_1Breakpoint.html'', 1, ''fpmas::api::io::Breakpoint&lt; T &gt;''),
        (''../classfpmas_1_1io_1_1Breakpoint.html'', 1, ''fpmas::io::Breakpoint&lt; T &gt;'')]),
      (''breakpoint_2eh_90'', ''breakpoint.h'', [(''../api_2io_2breakpoint_8h.html'', 1, ''(Global Namespace)''),
        (''../io_2breakpoint_8h.html'', 1, ''(Global Namespace)'')]),
      (''breakpoint_3c_20fpmas_3a_3aapi_3a_3amodel_3a_3amodel_20_3e_91'', ''Breakpoint&lt; fpmas::api::model::Model &gt;'', [(''../classfpmas_1_1api_1_1io_1_1Breakpoint.html'', 1, ''fpmas::api::io'')]),
      (''buffer_92'', ''buffer'', [(''../classfpmas_1_1api_1_1communication_1_1DataPack.html#a11c47710cc89f0dd6c7b8343a0749560'', 1, ''fpmas::api::communication::DataPack'')]),
      (''build_93'', ''build'', [(''../classfpmas_1_1api_1_1model_1_1GridCellFactory.html#ae1eeb790a9d2ca1f3c3cc7b1dab7eca1'', 1, ''fpmas::api::model::GridCellFactory::build()''),
        (''../classfpmas_1_1api_1_1graph_1_1GraphBuilder.html#a2d2ec86d834bc22e0390154af5190c64'', 1, ''fpmas::api::graph::GraphBuilder::build()''),
        (''../classfpmas_1_1scheduler_1_1Scheduler.html#a7b75e2cc25be7fdd0fa2e509f7d04f86'', 1, ''fpmas::scheduler::Scheduler::build()''),
        (''../classfpmas_1_1model_1_1VonNeumannGridBuilder.html#ad67b8ad123711fb639efda811e916a55'', 1, ''fpmas::model::VonNeumannGridBuilder::build(api::model::SpatialModel&lt; CellType &gt; &amp;spatial_model, api::model::GroupList groups) const override''),
        (''../classfpmas_1_1model_1_1VonNeumannGridBuilder.html#a19f29c5c0c034be136021e4647882c53'', 1, ''fpmas::model::VonNeumannGridBuilder::build(api::model::SpatialModel&lt; CellType &gt; &amp;spatial_model) const override''),
        (''../classfpmas_1_1model_1_1SpatialAgentBuilder.html#a7b2e69b833e00b58ecc13283db0f688f'', 1, ''fpmas::model::SpatialAgentBuilder::build()''),
        (''../classfpmas_1_1model_1_1DefaultSpatialAgentFactory.html#a67f44b6c81a762d68d3e24093d025e74'', 1, ''fpmas::model::DefaultSpatialAgentFactory::build()''),
        (''../classfpmas_1_1model_1_1GridCellFactory.html#a93111bf960653da5015283822c876132'', 1, ''fpmas::model::GridCellFactory::build()''),
        (''../classfpmas_1_1graph_1_1BipartiteGraphBuilder.html#a41ff0977a203fb5ca90d79abe4ebc8e7'', 1, ''fpmas::graph::BipartiteGraphBuilder::build()''),
        (''../classfpmas_1_1graph_1_1DistributedClusteredGraphBuilder.html#aa6a2b6e8a5b86b89dfbf3e7cd58aa390'', 1, ''fpmas::graph::DistributedClusteredGraphBuilder::build()''),
        (''../classfpmas_1_1graph_1_1DistributedUniformGraphBuilder.html#a4ee44db24429b2e520aa20dccdc4eb4e'', 1, ''fpmas::graph::DistributedUniformGraphBuilder::build()''),
        (''../classfpmas_1_1api_1_1graph_1_1DistributedGraphBuilder.html#add1dc8b412ac88c926cdc623da104bb0'', 1, ''fpmas::api::graph::DistributedGraphBuilder::build()''),
        (''../classfpmas_1_1api_1_1model_1_1CellNetworkBuilder.html#a9ddeff6e5b704df3ee92c8d79c008074'', 1, ''fpmas::api::model::CellNetworkBuilder::build(SpatialModel&lt; CellType &gt; &amp;spatial_model) const =0''),
        (''../classfpmas_1_1api_1_1model_1_1CellNetworkBuilder.html#adb8b3824a438f9b5e19d0a2332dd11b6'', 1, ''fpmas::api::model::CellNetworkBuilder::build(SpatialModel&lt; CellType &gt; &amp;spatial_model, GroupList groups) const =0''),
        (''../classfpmas_1_1api_1_1model_1_1SpatialAgentFactory.html#a05da330d86d31d78f7bbad31abea13bb'', 1, ''fpmas::api::model::SpatialAgentFactory::build()''),
        (''../classfpmas_1_1api_1_1scheduler_1_1Scheduler.html#ae4784aa2e370b7f372a8491eff1f6eb8'', 1, ''fpmas::api::scheduler::Scheduler::build()''),
        (''../classfpmas_1_1graph_1_1ClusteredGraphBuilder.html#ac55b80abb4cbbf5ccb65ebd302fdf462'', 1, ''fpmas::graph::ClusteredGraphBuilder::build()''),
        (''../classfpmas_1_1graph_1_1UniformGraphBuilder.html#a23519d18f87f2d566363b160ed269dbd'', 1, ''fpmas::graph::UniformGraphBuilder::build()''),
        (''../classfpmas_1_1api_1_1model_1_1SpatialAgentBuilder.html#a9c4f3bec1dc913589b87b41211c8331d'', 1, ''fpmas::api::model::SpatialAgentBuilder::build()'')]),
      (''builddistantnode_94'', ''buildDistantNode'', [(''../classfpmas_1_1api_1_1graph_1_1DistributedNodeBuilder.html#a6c59bd293d7d5fdebc6b33e1f41b2c1d'', 1, ''fpmas::api::graph::DistributedNodeBuilder::buildDistantNode()''),
        (''../classfpmas_1_1model_1_1DistributedAgentNodeBuilder.html#a5e8b29e5bf3df3481ce25fd10492130f'', 1, ''fpmas::model::DistributedAgentNodeBuilder::buildDistantNode()'')]),
      (''builder_95'', ''Builder'', [(''../structfpmas_1_1model_1_1GridConfig.html#a9454bb7f4e85a5c4bad9949edf9d1183'', 1, ''fpmas::model::GridConfig'')]),
      (''buildgroup_96'', ''buildGroup'', [(''../classfpmas_1_1api_1_1model_1_1Model.html#a1d8b68afd855c58f023253debf25b476'', 1, ''fpmas::api::model::Model::buildGroup()''),
        (''../classfpmas_1_1model_1_1detail_1_1Model.html#a769940403906b13e6901bd3a082d179b'', 1, ''fpmas::model::detail::Model::buildGroup(api::model::GroupId id, const api::model::Behavior &amp;behavior) override''),
        (''../classfpmas_1_1model_1_1detail_1_1Model.html#a11ee6be6c0571436bce373fe424435fe'', 1, ''fpmas::model::detail::Model::buildGroup(api::model::GroupId id) override''),
        (''../classfpmas_1_1api_1_1model_1_1Model.html#a8bce9454391541e06fd4e7de67492009'', 1, ''fpmas::api::model::Model::buildGroup()'')]),
      (''buildmovegroup_97'', ''buildMoveGroup'', [(''../classfpmas_1_1api_1_1model_1_1SpatialModel.html#a4f2536b755ae8fca7ae0c5078cd4c613'', 1, ''fpmas::api::model::SpatialModel::buildMoveGroup()''),
        (''../classfpmas_1_1model_1_1SpatialModel.html#aaf48758e06bf0a959a7303cdda801d58'', 1, ''fpmas::model::SpatialModel::buildMoveGroup()'')]),
      (''buildmutex_98'', ''buildMutex'', [(''../classfpmas_1_1api_1_1synchro_1_1SyncMode.html#a17006734be2eaf69ad26cf26c629f4d4'', 1, ''fpmas::api::synchro::SyncMode::buildMutex()''),
        (''../classfpmas_1_1synchro_1_1ghost_1_1GhostMode.html#a8645799020069856c2738f5e14599cba'', 1, ''fpmas::synchro::ghost::GhostMode::buildMutex()''),
        (''../classfpmas_1_1synchro_1_1hard_1_1HardSyncMode.html#a93c8a5797911553133e29511deefd9bf'', 1, ''fpmas::synchro::hard::HardSyncMode::buildMutex()'')]),
      (''buildnode_99'', ''buildNode'', [(''../classfpmas_1_1api_1_1graph_1_1DistributedGraph.html#ad9a7ca58d53e04a42d3a977f3c30e7ac'', 1, ''fpmas::api::graph::DistributedGraph::buildNode(T &amp;&amp;data)=0''),
        (''../classfpmas_1_1api_1_1graph_1_1DistributedGraph.html#a6b50a15bcd495829c2afccaebb514075'', 1, ''fpmas::api::graph::DistributedGraph::buildNode(const T &amp;data)=0''),
        (''../classfpmas_1_1api_1_1graph_1_1NodeBuilder.html#a7d5aa5165064ec74c221e543338336c7'', 1, ''fpmas::api::graph::NodeBuilder::buildNode()''),
        (''../classfpmas_1_1graph_1_1detail_1_1DistributedGraph.html#ab54c86b9d2861ac12f92860487b10255'', 1, ''fpmas::graph::detail::DistributedGraph::buildNode(T &amp;&amp;=std::move(T())) override''),
        (''../classfpmas_1_1graph_1_1detail_1_1DistributedGraph.html#a324f9664d9aae4938330bfb55285152c'', 1, ''fpmas::graph::detail::DistributedGraph::buildNode(const T &amp;) override''),
        (''../classfpmas_1_1model_1_1AgentNodeBuilder.html#af212180249f6119221dedfca65a36647'', 1, ''fpmas::model::AgentNodeBuilder::buildNode()''),
        (''../classfpmas_1_1model_1_1DistributedAgentNodeBuilder.html#ad12dfe2670c80d18e04165ac8160099d'', 1, ''fpmas::model::DistributedAgentNodeBuilder::buildNode()'')])]"

definition all_3 :: "raw_entry list" where
  "all_3 = [
      (''call_100'', ''call'', [(''../classfpmas_1_1api_1_1utils_1_1Callback.html#a88976cea6d42ec35565aa077cbc84ecc'', 1, ''fpmas::api::utils::Callback::call()''),
        (''../classfpmas_1_1model_1_1detail_1_1InsertAgentNodeCallback.html#a8b32ed2b4785db61f25a93f9c0b0db80'', 1, ''fpmas::model::detail::InsertAgentNodeCallback::call()''),
        (''../classfpmas_1_1model_1_1detail_1_1EraseAgentNodeCallback.html#ad0a233ecd206addde64deae04caef0ce'', 1, ''fpmas::model::detail::EraseAgentNodeCallback::call()''),
        (''../classfpmas_1_1model_1_1detail_1_1SetAgentLocalCallback.html#aaa4d7f4653d55f1b6f7bc09755c4aebf'', 1, ''fpmas::model::detail::SetAgentLocalCallback::call()''),
        (''../classfpmas_1_1model_1_1detail_1_1SetAgentDistantCallback.html#ad07f35feff79f9ce9461092b5977f3d0'', 1, ''fpmas::model::detail::SetAgentDistantCallback::call()''),
        (''../classfpmas_1_1utils_1_1VoidCallback.html#a2b2fba181f46dec9ad430d7801945461'', 1, ''fpmas::utils::VoidCallback::call()'')]),
      (''callback_101'', ''Callback'', [(''../classfpmas_1_1api_1_1utils_1_1Callback.html'', 1, ''fpmas::api::utils'')]),
      (''callback_2eh_102'', ''callback.h'', [(''../utils_2callback_8h.html'', 1, ''(Global Namespace)''),
        (''../api_2utils_2callback_8h.html'', 1, ''(Global Namespace)'')]),
      (''callback_3c_20agentnode_20_2a_20_3e_103'', ''Callback&lt; AgentNode * &gt;'', [(''../classfpmas_1_1api_1_1utils_1_1Callback.html'', 1, ''fpmas::api::utils'')]),
      (''callback_3c_20args_2e_2e_2e_20_3e_104'', ''Callback&lt; Args... &gt;'', [(''../classfpmas_1_1api_1_1utils_1_1Callback.html'', 1, ''fpmas::api::utils'')]),
      (''callback_3c_20nodetype_20_2a_20_3e_105'', ''Callback&lt; NodeType * &gt;'', [(''../classfpmas_1_1api_1_1utils_1_1Callback.html'', 1, ''fpmas::api::utils'')]),
      (''callcount_106'', ''callCount'', [(''../classfpmas_1_1utils_1_1perf_1_1Monitor.html#a891d14ad88e25a9d4d4858178de1f1c5'', 1, ''fpmas::utils::perf::Monitor::callCount()''),
        (''../classfpmas_1_1api_1_1utils_1_1perf_1_1Monitor.html#afe6cf985b0f9f2527955f41dc58e0c46'', 1, ''fpmas::api::utils::perf::Monitor::callCount()'')]),
      (''cell_107'', ''Cell'', [(''../classfpmas_1_1api_1_1model_1_1SpatialAgent.html#abf0a276b2503f729442c5b9811eb326d'', 1, ''fpmas::api::model::SpatialAgent::Cell()''),
        (''../classfpmas_1_1api_1_1model_1_1Cell.html'', 1, ''fpmas::api::model::Cell''),
        (''../classfpmas_1_1model_1_1Cell.html'', 1, ''fpmas::model::Cell&lt; CellType, TypeIdBase &gt;'')]),
      (''cell_3c_20graphcelltype_2c_20graphcellbase_3c_20graphcelltype_2c_20graphcelltype_20_3e_20_3e_108'', ''Cell&lt; GraphCellType, GraphCellBase&lt; GraphCellType, GraphCellType &gt; &gt;'', [(''../classfpmas_1_1model_1_1Cell.html'', 1, ''fpmas::model'')]),
      (''cell_3c_20gridcelltype_2c_20gridcellbase_3c_20gridcelltype_2c_20gridcelltype_20_3e_20_3e_109'', ''Cell&lt; GridCellType, GridCellBase&lt; GridCellType, GridCellType &gt; &gt;'', [(''../classfpmas_1_1model_1_1Cell.html'', 1, ''fpmas::model'')]),
      (''cellbase_110'', ''CellBase'', [(''../classfpmas_1_1model_1_1CellBase.html'', 1, ''fpmas::model'')]),
      (''cellbehavior_111'', ''CellBehavior'', [(''../classfpmas_1_1api_1_1model_1_1CellBehavior.html'', 1, ''fpmas::api::model'')]),
      (''cellgroup_112'', ''cellGroup'', [(''../classfpmas_1_1model_1_1SpatialModel.html#a56b2804653450545a436eca738b26d7e'', 1, ''fpmas::model::SpatialModel::cellGroup()''),
        (''../classfpmas_1_1api_1_1model_1_1SpatialModel.html#acf469434297a67605add55df898f846c'', 1, ''fpmas::api::model::SpatialModel::cellGroup()'')]),
      (''cellnetworkbuilder_113'', ''CellNetworkBuilder'', [(''../classfpmas_1_1api_1_1model_1_1CellNetworkBuilder.html'', 1, ''fpmas::api::model'')]),
      (''cellnetworkbuilder_3c_20api_3a_3amodel_3a_3agridcell_20_3e_114'', ''CellNetworkBuilder&lt; api::model::GridCell &gt;'', [(''../classfpmas_1_1api_1_1model_1_1CellNetworkBuilder.html'', 1, ''fpmas::api::model'')]),
      (''cells_115'', ''cells'', [(''../classfpmas_1_1api_1_1model_1_1SpatialModel.html#ad9ddb3a685e4016ca6f7e809e3eb7470'', 1, ''fpmas::api::model::SpatialModel::cells()''),
        (''../classfpmas_1_1model_1_1SpatialModel.html#aafd3cff1eb0b642291b94652950df909'', 1, ''fpmas::model::SpatialModel::cells()'')]),
      (''celltype_116'', ''CellType'', [(''../structfpmas_1_1model_1_1GridConfig.html#a77d25613c703c274126081c6fa3e4b9f'', 1, ''fpmas::model::GridConfig'')]),
      (''chebyshevdistance_117'', ''ChebyshevDistance'', [(''../classfpmas_1_1model_1_1ChebyshevDistance.html'', 1, ''fpmas::model'')]),
      (''clear_118'', ''clear'', [(''../classfpmas_1_1model_1_1detail_1_1Model.html#a05329bcadff3ecdb9be26ff38cf7ceae'', 1, ''fpmas::model::detail::Model::clear()''),
        (''../classfpmas_1_1model_1_1detail_1_1AgentGroupBase.html#a9a3e62b2793d98b3f47ecbda79b8a4d0'', 1, ''fpmas::model::detail::AgentGroupBase::clear()''),
        (''../classfpmas_1_1graph_1_1Graph.html#aafc4a1d95717c75826573e956a43f9e6'', 1, ''fpmas::graph::Graph::clear()''),
        (''../classfpmas_1_1api_1_1scheduler_1_1Epoch.html#a9bf0feab827f0d94f19bd575b3728752'', 1, ''fpmas::api::scheduler::Epoch::clear()''),
        (''../classfpmas_1_1api_1_1model_1_1Model.html#a0fc2aacb27a79625e27847ccdb266c1a'', 1, ''fpmas::api::model::Model::clear()''),
        (''../classfpmas_1_1api_1_1model_1_1AgentGroup.html#a4b1291454e7fede2b78c068d480f8ca3'', 1, ''fpmas::api::model::AgentGroup::clear()''),
        (''../classfpmas_1_1api_1_1graph_1_1Graph.html#a1af6fa1d78d3be3139bab03de3c14761'', 1, ''fpmas::api::graph::Graph::clear()''),
        (''../classfpmas_1_1scheduler_1_1Epoch.html#ac73a8ffa943581eaf98cb20193c027b1'', 1, ''fpmas::scheduler::Epoch::clear()'')]),
      (''clearreachablecells_119'', ''clearReachableCells'', [(''../classfpmas_1_1model_1_1ReachableCell.html#ab05b5ad39cea96e754f89b10f8c829e7'', 1, ''fpmas::model::ReachableCell'')]),
      (''client_5fserver_2eh_120'', ''client_server.h'', [(''../client__server_8h.html'', 1, '''')]),
      (''clock_121'', ''Clock'', [(''../namespacefpmas_1_1api_1_1utils_1_1perf.html#a126ebf6b23629efe06bfee44d9ea4b77'', 1, ''fpmas::api::utils::perf'')]),
      (''clocktime_122'', ''ClockTime'', [(''../namespacefpmas_1_1api_1_1utils_1_1perf.html#aafb99a0a2e2c516e7aa6c2dfa6871d78'', 1, ''fpmas::api::utils::perf'')]),
      (''clusteredgraphbuilder_123'', ''ClusteredGraphBuilder'', [(''../classfpmas_1_1graph_1_1ClusteredGraphBuilder.html#aa7a94f7ee42cd49ebe9b1801d423bc2c'', 1, ''fpmas::graph::ClusteredGraphBuilder::ClusteredGraphBuilder(Generator_t &amp;generator, EdgeDist &amp;edge_distribution, X_Dist &amp;x_distribution, Y_Dist &amp;y_distribution)''),
        (''../classfpmas_1_1graph_1_1ClusteredGraphBuilder.html#a07b21f07b11c904ee889eda7fbc0e456'', 1, ''fpmas::graph::ClusteredGraphBuilder::ClusteredGraphBuilder(Generator_t &amp;generator, Distribution_t &amp;edge_distribution)''),
        (''../classfpmas_1_1graph_1_1ClusteredGraphBuilder.html'', 1, ''fpmas::graph::ClusteredGraphBuilder&lt; T &gt;'')]),
      (''color_124'', ''Color'', [(''../namespacefpmas_1_1synchro_1_1hard_1_1api.html#a2564dc813466b9b61c9a3fe3af0acef4'', 1, ''fpmas::synchro::hard::api'')]),
      (''comm_125'', ''comm'', [(''../classfpmas_1_1communication_1_1MpiCommunicatorBase.html#a666e0fb90d54c60a50a5e35bd58e2624'', 1, ''fpmas::communication::MpiCommunicatorBase::comm()''),
        (''../classfpmas_1_1model_1_1detail_1_1DefaultModelConfig.html#a97c98eb4a1b4d88f8dc19a40b57aaf11'', 1, ''fpmas::model::detail::DefaultModelConfig::comm()'')]),
      (''commit_126'', ''commit'', [(''../classfpmas_1_1api_1_1utils_1_1perf_1_1Monitor.html#a34e1f2299ed671d9f762c68b653a1edf'', 1, ''fpmas::api::utils::perf::Monitor::commit()''),
        (''../classfpmas_1_1utils_1_1perf_1_1Monitor.html#a8d844ee381ba58b48bc72c712dbcb863'', 1, ''fpmas::utils::perf::Monitor::commit()'')]),
      (''communication_2eh_127'', ''communication.h'', [(''../communication_2communication_8h.html'', 1, ''(Global Namespace)''),
        (''../api_2communication_2communication_8h.html'', 1, ''(Global Namespace)'')]),
      (''concat_128'', ''Concat'', [(''../structfpmas_1_1utils_1_1Concat.html'', 1, ''fpmas::utils'')]),
      (''constrainedgridagentmapping_129'', ''ConstrainedGridAgentMapping'', [(''../classfpmas_1_1model_1_1ConstrainedGridAgentMapping.html#a3ce45fdc5eb149472288bf2436182afe'', 1, ''fpmas::model::ConstrainedGridAgentMapping::ConstrainedGridAgentMapping()''),
        (''../classfpmas_1_1model_1_1ConstrainedGridAgentMapping.html'', 1, ''fpmas::model::ConstrainedGridAgentMapping'')]),
      (''contains_130'', ''contains'', [(''../classfpmas_1_1api_1_1model_1_1Range.html#a43c4a503c7555c5fd5209a7f5ff8cbaf'', 1, ''fpmas::api::model::Range::contains()''),
        (''../classfpmas_1_1model_1_1GraphRange.html#a204ca1e95f5c46c361cdf0ee7295f4d9'', 1, ''fpmas::model::GraphRange::contains()''),
        (''../classfpmas_1_1model_1_1GridRange.html#a6343d917bf0e73a0963a7c5884586247'', 1, ''fpmas::model::GridRange::contains()'')]),
      (''copy_131'', ''copy'', [(''../classfpmas_1_1api_1_1model_1_1Agent.html#ad59c0cbb0ae1e679d73f6f1461111956'', 1, ''fpmas::api::model::Agent::copy()''),
        (''../classfpmas_1_1model_1_1AgentBase.html#aef7eb3a6e742edac7a87896b743399c5'', 1, ''fpmas::model::AgentBase::copy() const override'')]),
      (''copyassign_132'', ''copyAssign'', [(''../classfpmas_1_1model_1_1AgentBase.html#a761c00e5cc0ae3757dc883cabf765904'', 1, ''fpmas::model::AgentBase::copyAssign()''),
        (''../classfpmas_1_1api_1_1model_1_1Agent.html#a1c0f5ae0694d053a6b4516e807accbfe'', 1, ''fpmas::api::model::Agent::copyAssign()'')]),
      (''count_133'', ''count'', [(''../classfpmas_1_1api_1_1communication_1_1DataPack.html#a2142f9784dfe9fcb5f6e86f7280852c4'', 1, ''fpmas::api::communication::DataPack::count()''),
        (''../classfpmas_1_1model_1_1Neighbors.html#ac50d0dc8883bf182e29e6a19405a2593'', 1, ''fpmas::model::Neighbors::count()'')]),
      (''countat_134'', ''countAt'', [(''../classfpmas_1_1api_1_1model_1_1SpatialAgentMapping.html#a71bc05abd502139fea93e8964bbd7b2f'', 1, ''fpmas::api::model::SpatialAgentMapping::countAt()''),
        (''../classfpmas_1_1model_1_1RandomGridAgentMapping.html#a9feca01c4145acf812d3a56745e5e07a'', 1, ''fpmas::model::RandomGridAgentMapping::countAt()''),
        (''../classfpmas_1_1model_1_1ConstrainedGridAgentMapping.html#a82c4b4600ad8c7ce7a5fd81ef23dfe7b'', 1, ''fpmas::model::ConstrainedGridAgentMapping::countAt()''),
        (''../classfpmas_1_1model_1_1UniformAgentMapping.html#ad3f4c836a73e06c61e61c663c65d2a01'', 1, ''fpmas::model::UniformAgentMapping::countAt()'')]),
      (''csv_5foutput_2eh_135'', ''csv_output.h'', [(''../csv__output_8h.html'', 1, '''')]),
      (''csvoutput_136'', ''CsvOutput'', [(''../classfpmas_1_1io_1_1CsvOutput.html#a965dc2e2281b3cea581f41a0b72523ed'', 1, ''fpmas::io::CsvOutput::CsvOutput()''),
        (''../classfpmas_1_1io_1_1CsvOutput.html'', 1, ''fpmas::io::CsvOutput&lt; DataField &gt;'')]),
      (''csvoutputbase_137'', ''CsvOutputBase'', [(''../classfpmas_1_1io_1_1CsvOutputBase.html#a322eba604b23d08bdaf8268d74181402'', 1, ''fpmas::io::CsvOutputBase::CsvOutputBase()''),
        (''../classfpmas_1_1io_1_1CsvOutputBase.html'', 1, ''fpmas::io::CsvOutputBase&lt; DataField &gt;'')]),
      (''csvoutputbase_3c_20datafield_2e_2e_2e_20_3e_138'', ''CsvOutputBase&lt; DataField... &gt;'', [(''../classfpmas_1_1io_1_1CsvOutputBase.html'', 1, ''fpmas::io'')]),
      (''csvoutputbase_3c_20datafieldoperation_3a_3atype_2e_2e_2e_20_3e_139'', ''CsvOutputBase&lt; DataFieldOperation::Type... &gt;'', [(''../classfpmas_1_1io_1_1CsvOutputBase.html'', 1, ''fpmas::io'')]),
      (''csvserial_140'', ''CsvSerial'', [(''../structfpmas_1_1io_1_1CsvSerial.html'', 1, ''fpmas::io'')]),
      (''csvserial_3c_20std_3a_3achrono_3a_3aduration_3c_20rep_2c_20ratio_20_3e_20_3e_141'', ''CsvSerial&lt; std::chrono::duration&lt; Rep, Ratio &gt; &gt;'', [(''../structfpmas_1_1io_1_1CsvSerial_3_01std_1_1chrono_1_1duration_3_01Rep_00_01Ratio_01_4_01_4.html'', 1, ''fpmas::io'')]),
      (''currentdate_142'', ''currentDate'', [(''../classfpmas_1_1api_1_1runtime_1_1Runtime.html#a7264a42ca0256668394d58c500445ad0'', 1, ''fpmas::api::runtime::Runtime::currentDate()''),
        (''../classfpmas_1_1runtime_1_1Runtime.html#ae80edd27565b8b1cbcf0233aaa061119'', 1, ''fpmas::runtime::Runtime::currentDate()'')]),
      (''currentedgeid_143'', ''currentEdgeId'', [(''../classfpmas_1_1api_1_1graph_1_1DistributedGraph.html#a7a04cae4697d27e7e7a71f8a115705a2'', 1, ''fpmas::api::graph::DistributedGraph::currentEdgeId()''),
        (''../classfpmas_1_1graph_1_1detail_1_1DistributedGraph.html#ae06631520004ad1056437d5fbb8debc3'', 1, ''fpmas::graph::detail::DistributedGraph::currentEdgeId()'')]),
      (''currentnodeid_144'', ''currentNodeId'', [(''../classfpmas_1_1api_1_1graph_1_1DistributedGraph.html#a869e1d9294aa6d1e4e9ca4b35a3547f3'', 1, ''fpmas::api::graph::DistributedGraph::currentNodeId()''),
        (''../classfpmas_1_1graph_1_1detail_1_1DistributedGraph.html#ae038a51dca2e5f957e93c56e80b827cc'', 1, ''fpmas::graph::detail::DistributedGraph::currentNodeId()'')])]"

definition all_4 :: "raw_entry list" where
  "all_4 = [
      (''data_145'', ''data'', [(''../classfpmas_1_1api_1_1graph_1_1DistributedNode.html#ab2bc02a3e06cfd758161013039a84cee'', 1, ''fpmas::api::graph::DistributedNode::data()=0''),
        (''../classfpmas_1_1api_1_1graph_1_1DistributedNode.html#ad9d35e5aef703945a2a789a0c2349c3e'', 1, ''fpmas::api::graph::DistributedNode::data() const =0''),
        (''../classfpmas_1_1api_1_1synchro_1_1Mutex.html#a0336feaf53f0e90bac930896b4500320'', 1, ''fpmas::api::synchro::Mutex::data()=0''),
        (''../classfpmas_1_1api_1_1synchro_1_1Mutex.html#afce2f32658849db02cb145147bf4be27'', 1, ''fpmas::api::synchro::Mutex::data() const =0''),
        (''../classfpmas_1_1graph_1_1DistributedNode.html#ad191c830c7919b7c8ed4265983af8016'', 1, ''fpmas::graph::DistributedNode::data() override''),
        (''../classfpmas_1_1graph_1_1DistributedNode.html#a8f2a12b8b289cfa22dd0f63afab9545b'', 1, ''fpmas::graph::DistributedNode::data() const override''),
        (''../classfpmas_1_1synchro_1_1hard_1_1HardSyncMutex.html#a90bea0ebea315589a5722d41d3d82dd5'', 1, ''fpmas::synchro::hard::HardSyncMutex::data() const override''),
        (''../classfpmas_1_1synchro_1_1hard_1_1HardSyncMutex.html#a84c0227e62d47c8e0b45c3423ae3fab6'', 1, ''fpmas::synchro::hard::HardSyncMutex::data() override''),
        (''../classfpmas_1_1synchro_1_1ghost_1_1SingleThreadMutex.html#a03a86b7d078e0f6813d1b5ad883c4d1f'', 1, ''fpmas::synchro::ghost::SingleThreadMutex::data() const override''),
        (''../classfpmas_1_1synchro_1_1ghost_1_1SingleThreadMutex.html#a6fcea91dd28c91d5a631b23d2f42e16f'', 1, ''fpmas::synchro::ghost::SingleThreadMutex::data() override'')]),
      (''data_5ftype_146'', ''data_type'', [(''../classfpmas_1_1api_1_1graph_1_1DistributedNode.html#ad0d2934e1abcbbe6251016b48ecfb395'', 1, ''fpmas::api::graph::DistributedNode'')]),
      (''data_5fupdate_5fpack_2eh_147'', ''data_update_pack.h'', [(''../data__update__pack_8h.html'', 1, '''')]),
      (''datampi_148'', ''DataMpi'', [(''../classfpmas_1_1synchro_1_1ghost_1_1GhostDataSync.html#aff06f48c44e56f387154f27a42ab5ecb'', 1, ''fpmas::synchro::ghost::GhostDataSync'')]),
      (''datapack_149'', ''DataPack'', [(''../classfpmas_1_1api_1_1communication_1_1DataPack.html#af6668237263b5c34770661052b3512ad'', 1, ''fpmas::api::communication::DataPack::DataPack(int count, size_t data_size)''),
        (''../classfpmas_1_1api_1_1communication_1_1DataPack.html#a78fcdfd042fbcc8280890acc3051d63f'', 1, ''fpmas::api::communication::DataPack::DataPack()''),
        (''../classfpmas_1_1api_1_1communication_1_1DataPack.html#af9409fb3a8afc3f497431e1367a6e64a'', 1, ''fpmas::api::communication::DataPack::DataPack(const DataPack &amp;other)''),
        (''../classfpmas_1_1api_1_1communication_1_1DataPack.html#a27c701df159c117021cf8e65f779bc97'', 1, ''fpmas::api::communication::DataPack::DataPack(DataPack &amp;&amp;other)''),
        (''../classfpmas_1_1api_1_1communication_1_1DataPack.html'', 1, ''fpmas::api::communication::DataPack'')]),
      (''datasync_150'', ''DataSync'', [(''../classfpmas_1_1api_1_1synchro_1_1DataSync.html'', 1, ''fpmas::api::synchro'')]),
      (''dataupdatepack_151'', ''DataUpdatePack'', [(''../structfpmas_1_1synchro_1_1DataUpdatePack.html#ae08e98fac562aa2ee7c0390a668bc213'', 1, ''fpmas::synchro::DataUpdatePack::DataUpdatePack()''),
        (''../structfpmas_1_1synchro_1_1DataUpdatePack.html'', 1, ''fpmas::synchro::DataUpdatePack&lt; T &gt;'')]),
      (''date_152'', ''Date'', [(''../namespacefpmas_1_1api_1_1scheduler.html#a01d03432a682d5e46feacd771f756266'', 1, ''fpmas::api::scheduler'')]),
      (''default_5fcell_5ffactory_153'', ''default_cell_factory'', [(''../classfpmas_1_1model_1_1VonNeumannGridBuilder.html#a9b182bccf5cdaf1c8a08b35aa074d97e'', 1, ''fpmas::model::VonNeumannGridBuilder'')]),
      (''defaultbehavior_154'', ''DefaultBehavior'', [(''../classfpmas_1_1model_1_1DefaultBehavior.html'', 1, ''fpmas::model'')]),
      (''defaultmodel_155'', ''DefaultModel'', [(''../classfpmas_1_1model_1_1detail_1_1DefaultModel.html'', 1, ''fpmas::model::detail'')]),
      (''defaultmodelconfig_156'', ''DefaultModelConfig'', [(''../classfpmas_1_1model_1_1detail_1_1DefaultModelConfig.html'', 1, ''fpmas::model::detail'')]),
      (''defaultspatialagentfactory_157'', ''DefaultSpatialAgentFactory'', [(''../classfpmas_1_1model_1_1DefaultSpatialAgentFactory.html'', 1, ''fpmas::model'')]),
      (''deprecated_20list_158'', ''Deprecated List'', [(''../deprecated.html'', 1, '''')]),
      (''discretecoordinate_159'', ''DiscreteCoordinate'', [(''../namespacefpmas_1_1api_1_1model.html#af79ffd5419e5a965079b2aa37b548bac'', 1, ''fpmas::api::model'')]),
      (''discretepoint_160'', ''DiscretePoint'', [(''../structfpmas_1_1api_1_1model_1_1DiscretePoint.html#af82cb16467d7540b28995325ac1f9585'', 1, ''fpmas::api::model::DiscretePoint::DiscretePoint()''),
        (''../structfpmas_1_1api_1_1model_1_1DiscretePoint.html#a3c7a8b585b06facfa6edcc599913d156'', 1, ''fpmas::api::model::DiscretePoint::DiscretePoint(DiscreteCoordinate x, DiscreteCoordinate y)''),
        (''../structfpmas_1_1api_1_1model_1_1DiscretePoint.html'', 1, ''fpmas::api::model::DiscretePoint'')]),
      (''dist_5fmove_5falgo_2eh_161'', ''dist_move_algo.h'', [(''../dist__move__algo_8h.html'', 1, '''')]),
      (''distance_162'', ''Distance'', [(''../structfpmas_1_1model_1_1GridConfig.html#a8533b83a9ee2498885fdf4afd3856531'', 1, ''fpmas::model::GridConfig::Distance()''),
        (''../structfpmas_1_1model_1_1GridRangeConfig.html#a28b470e6071210f6ac31f7255e88868b'', 1, ''fpmas::model::GridRangeConfig::Distance()'')]),
      (''distance_163'', ''distance'', [(''../structfpmas_1_1graph_1_1detail_1_1Point.html#a0a523ee493b89bb0cf94974ab2291cb9'', 1, ''fpmas::graph::detail::Point'')]),
      (''distancecomparator_164'', ''DistanceComparator'', [(''../classfpmas_1_1graph_1_1detail_1_1DistanceComparator.html#accc29d4aade606b519af3df92a565948'', 1, ''fpmas::graph::detail::DistanceComparator::DistanceComparator()''),
        (''../classfpmas_1_1graph_1_1detail_1_1DistanceComparator.html'', 1, ''fpmas::graph::detail::DistanceComparator'')]),
      (''distant_165'', ''DISTANT'', [(''../namespacefpmas_1_1api_1_1graph.html#a3436e2c1520417414ff6059c45d9e02fa5f6df4aaed961263dac8b13311f22c73'', 1, ''fpmas::api::graph'')]),
      (''distribute_166'', ''distribute'', [(''../classfpmas_1_1api_1_1graph_1_1DistributedGraph.html#a63f19151be3a12d5cd4f996e161353ee'', 1, ''fpmas::api::graph::DistributedGraph::distribute()''),
        (''../classfpmas_1_1graph_1_1detail_1_1DistributedGraph.html#ae1474c6efdd1cee5345bedea3dfa93d6'', 1, ''fpmas::graph::detail::DistributedGraph::distribute()'')]),
      (''distributed_5fedge_2eh_167'', ''distributed_edge.h'', [(''../graph_2distributed__edge_8h.html'', 1, ''(Global Namespace)''),
        (''../api_2graph_2distributed__edge_8h.html'', 1, ''(Global Namespace)'')]),
      (''distributed_5fgraph_2eh_168'', ''distributed_graph.h'', [(''../graph_2distributed__graph_8h.html'', 1, ''(Global Namespace)''),
        (''../api_2graph_2distributed__graph_8h.html'', 1, ''(Global Namespace)'')]),
      (''distributed_5fid_2eh_169'', ''distributed_id.h'', [(''../distributed__id_8h.html'', 1, '''')]),
      (''distributed_5fnode_2eh_170'', ''distributed_node.h'', [(''../api_2graph_2distributed__node_8h.html'', 1, ''(Global Namespace)''),
        (''../graph_2distributed__node_8h.html'', 1, ''(Global Namespace)'')]),
      (''distributed_5fnode_5fids_171'', ''distributed_node_ids'', [(''../structfpmas_1_1graph_1_1zoltan_1_1ZoltanData.html#a0b510f71d6b149c21b1378051585e25e'', 1, ''fpmas::graph::zoltan::ZoltanData'')]),
      (''distributedagentnodebuilder_172'', ''DistributedAgentNodeBuilder'', [(''../classfpmas_1_1model_1_1DistributedAgentNodeBuilder.html#a6c4365b77836de7b442be37b2864ecd7'', 1, ''fpmas::model::DistributedAgentNodeBuilder::DistributedAgentNodeBuilder(api::model::AgentGroup &amp;group, std::size_t agent_count, std::function&lt; api::model::Agent *()&gt; allocator, std::function&lt; api::model::Agent *()&gt; distant_allocator, api::communication::MpiCommunicator &amp;comm)''),
        (''../classfpmas_1_1model_1_1DistributedAgentNodeBuilder.html#ad1f2f6d01dc9d476a3a8d79ec7b0c6c4'', 1, ''fpmas::model::DistributedAgentNodeBuilder::DistributedAgentNodeBuilder(api::model::AgentGroup &amp;group, std::size_t agent_count, std::function&lt; api::model::Agent *()&gt; allocator, api::communication::MpiCommunicator &amp;comm)''),
        (''../classfpmas_1_1model_1_1DistributedAgentNodeBuilder.html'', 1, ''fpmas::model::DistributedAgentNodeBuilder'')]),
      (''distributedclusteredgraphbuilder_173'', ''DistributedClusteredGraphBuilder'', [(''../namespacefpmas_1_1model.html#a25303e05d67fadfb5fa7bafafc5e21df'', 1, ''fpmas::model::DistributedClusteredGraphBuilder()''),
        (''../classfpmas_1_1graph_1_1DistributedClusteredGraphBuilder.html#a698a1d6f5b67d1387a0018431cf01282'', 1, ''fpmas::graph::DistributedClusteredGraphBuilder::DistributedClusteredGraphBuilder(random::DistributedGenerator&lt;&gt; &amp;generator, EdgeDist &amp;edge_distribution, X_Dist &amp;x_distribution, Y_Dist &amp;y_distribution)''),
        (''../classfpmas_1_1graph_1_1DistributedClusteredGraphBuilder.html#adcf2274c543698f869618dc14683b781'', 1, ''fpmas::graph::DistributedClusteredGraphBuilder::DistributedClusteredGraphBuilder(random::DistributedGenerator&lt;&gt; &amp;generator, EdgeDist &amp;edge_distribution)''),
        (''../classfpmas_1_1graph_1_1DistributedClusteredGraphBuilder.html'', 1, ''fpmas::graph::DistributedClusteredGraphBuilder&lt; T &gt;'')]),
      (''distributedcsvfield_174'', ''DistributedCsvField'', [(''../structfpmas_1_1io_1_1DistributedCsvField.html#a177ec8404f2b74f7aab604af02b662ca'', 1, ''fpmas::io::DistributedCsvField::DistributedCsvField()''),
        (''../structfpmas_1_1io_1_1DistributedCsvField.html'', 1, ''fpmas::io::DistributedCsvField&lt; Operation &gt;'')]),
      (''distributedcsvoutput_175'', ''DistributedCsvOutput'', [(''../classfpmas_1_1io_1_1DistributedCsvOutput.html#aefea98f84504f3d4966e59ebf5ede315'', 1, ''fpmas::io::DistributedCsvOutput::DistributedCsvOutput(api::communication::MpiCommunicator &amp;comm, int root, api::io::OutputStream &amp;output_stream, DistributedCsvField&lt; DataFieldOperation &gt;... csv_fields)''),
        (''../classfpmas_1_1io_1_1DistributedCsvOutput.html#a53665bf3635a455e2232ff247d04cd68'', 1, ''fpmas::io::DistributedCsvOutput::DistributedCsvOutput(api::communication::MpiCommunicator &amp;comm, api::io::OutputStream &amp;output_stream, DistributedCsvField&lt; DataFieldOperation &gt;... csv_fields)''),
        (''../classfpmas_1_1io_1_1DistributedCsvOutput.html'', 1, ''fpmas::io::DistributedCsvOutput&lt; DataFieldOperation &gt;'')]),
      (''distributededge_176'', ''DistributedEdge'', [(''../classfpmas_1_1graph_1_1DistributedEdge.html#a9e108d8f1f746715683f00d117968148'', 1, ''fpmas::graph::DistributedEdge::DistributedEdge()''),
        (''../classfpmas_1_1api_1_1graph_1_1DistributedEdge.html'', 1, ''fpmas::api::graph::DistributedEdge&lt; T &gt;''),
        (''../classfpmas_1_1graph_1_1DistributedEdge.html'', 1, ''fpmas::graph::DistributedEdge&lt; T &gt;'')]),
      (''distributedgenerator_177'', ''DistributedGenerator'', [(''../classfpmas_1_1random_1_1DistributedGenerator.html#a285207a7b74869a40576423d4c323fd2'', 1, ''fpmas::random::DistributedGenerator::DistributedGenerator()''),
        (''../classfpmas_1_1random_1_1DistributedGenerator.html#a0c14b8645eb1570dcf9b98afa343abd9'', 1, ''fpmas::random::DistributedGenerator::DistributedGenerator(result_type seed)''),
        (''../classfpmas_1_1random_1_1DistributedGenerator.html'', 1, ''fpmas::random::DistributedGenerator&lt; Generator_t &gt;'')]),
      (''distributedgenerator_3c_20random_5fdevice_20_3e_178'', ''DistributedGenerator&lt; random_device &gt;'', [(''../classfpmas_1_1random_1_1DistributedGenerator_3_01random__device_01_4.html'', 1, ''fpmas::random'')]),
      (''distributedgraph_179'', ''DistributedGraph'', [(''../classfpmas_1_1graph_1_1detail_1_1DistributedGraph.html#a786bec7024a4fb6a9640cbf9fea1daba'', 1, ''fpmas::graph::detail::DistributedGraph::DistributedGraph(DistributedGraph&lt; DIST_GRAPH_PARAMS_SPEC &gt; &amp;&amp;graph)''),
        (''../classfpmas_1_1graph_1_1detail_1_1DistributedGraph.html#a1c4bb7866d8bbbd4b1b84eed69775404'', 1, ''fpmas::graph::detail::DistributedGraph::DistributedGraph(api::communication::MpiCommunicator &amp;comm)''),
        (''../namespacefpmas_1_1graph.html#adf6379dbff231d9b0bd9b9bb7ad65028'', 1, ''fpmas::graph::DistributedGraph()''),
        (''../classfpmas_1_1api_1_1graph_1_1DistributedGraph.html'', 1, ''fpmas::api::graph::DistributedGraph&lt; T &gt;''),
        (''../classfpmas_1_1graph_1_1detail_1_1DistributedGraph.html'', 1, ''fpmas::graph::detail::DistributedGraph&lt; DIST_GRAPH_PARAMS &gt;'')]),
      (''distributedgraph_3c_20dist_5fgraph_5fparams_5fspec_20_3e_180'', ''DistributedGraph&lt; DIST_GRAPH_PARAMS_SPEC &gt;'', [(''../classfpmas_1_1graph_1_1detail_1_1DistributedGraph.html'', 1, ''fpmas::graph::detail'')]),
      (''distributedgraph_3c_20syncmode_20_3e_181'', ''DistributedGraph&lt; SyncMode &gt;'', [(''../classfpmas_1_1graph_1_1detail_1_1DistributedGraph.html'', 1, ''fpmas::graph::detail'')]),
      (''distributedgraphbuilder_182'', ''DistributedGraphBuilder'', [(''../classfpmas_1_1api_1_1graph_1_1DistributedGraphBuilder.html'', 1, ''fpmas::api::graph'')]),
      (''distributedid_183'', ''DistributedId'', [(''../classfpmas_1_1api_1_1graph_1_1DistributedId.html#a128b591c7f1b8a14fba5ec1fbdae7ff6'', 1, ''fpmas::api::graph::DistributedId::DistributedId(int rank, FPMAS_ID_TYPE id)''),
        (''../classfpmas_1_1api_1_1graph_1_1DistributedId.html#a1d887c7dede86c1e5f84315558a2fe34'', 1, ''fpmas::api::graph::DistributedId::DistributedId(int rank)''),
        (''../classfpmas_1_1api_1_1graph_1_1DistributedId.html#a773bf9124de180c4c4a5b22ec858a052'', 1, ''fpmas::api::graph::DistributedId::DistributedId(const MpiDistributedId &amp;mpi_id)''),
        (''../classfpmas_1_1api_1_1graph_1_1DistributedId.html#a413336d079c79aeec4e77f75966b9ea6'', 1, ''fpmas::api::graph::DistributedId::DistributedId()''),
        (''../classfpmas_1_1api_1_1graph_1_1DistributedId.html'', 1, ''fpmas::api::graph::DistributedId'')]),
      (''distributedmovealgorithm_184'', ''distributedMoveAlgorithm'', [(''../classfpmas_1_1model_1_1MoveAgentGroup.html#ae6e71f002490c5dfc9ccc3b9e38cbc15'', 1, ''fpmas::model::MoveAgentGroup::distributedMoveAlgorithm()''),
        (''../classfpmas_1_1api_1_1model_1_1MoveAgentGroup.html#a64876ccbf75cbaf3750f72092dcdf2fe'', 1, ''fpmas::api::model::MoveAgentGroup::distributedMoveAlgorithm()'')]),
      (''distributedmovealgorithm_185'', ''DistributedMoveAlgorithm'', [(''../classfpmas_1_1model_1_1DistributedMoveAlgorithm.html#a1d77ecb6a58f6788296753705fdaf36f'', 1, ''fpmas::model::DistributedMoveAlgorithm::DistributedMoveAlgorithm()''),
        (''../classfpmas_1_1api_1_1model_1_1DistributedMoveAlgorithm.html'', 1, ''fpmas::api::model::DistributedMoveAlgorithm&lt; CellType &gt;''),
        (''../classfpmas_1_1model_1_1DistributedMoveAlgorithm.html'', 1, ''fpmas::model::DistributedMoveAlgorithm&lt; CellType &gt;'')]),
      (''distributednode_186'', ''DistributedNode'', [(''../classfpmas_1_1graph_1_1DistributedNode.html#a80c606e453afcf275570772af2394f87'', 1, ''fpmas::graph::DistributedNode::DistributedNode(const DistributedId &amp;id, T &amp;&amp;data)''),
        (''../classfpmas_1_1graph_1_1DistributedNode.html#aef053fcb8f8e80802df145806bfac0a0'', 1, ''fpmas::graph::DistributedNode::DistributedNode(const DistributedId &amp;id, const T &amp;data)''),
        (''../classfpmas_1_1api_1_1graph_1_1DistributedNode.html'', 1, ''fpmas::api::graph::DistributedNode&lt; T &gt;''),
        (''../classfpmas_1_1graph_1_1DistributedNode.html'', 1, ''fpmas::graph::DistributedNode&lt; T &gt;'')]),
      (''distributednodebuilder_187'', ''DistributedNodeBuilder'', [(''../classfpmas_1_1graph_1_1DistributedNodeBuilder.html#a8539443b7c62b37f93e78ebc93cbafb7'', 1, ''fpmas::graph::DistributedNodeBuilder::DistributedNodeBuilder()''),
        (''../classfpmas_1_1api_1_1graph_1_1DistributedNodeBuilder.html'', 1, ''fpmas::api::graph::DistributedNodeBuilder&lt; T &gt;''),
        (''../classfpmas_1_1graph_1_1DistributedNodeBuilder.html'', 1, ''fpmas::graph::DistributedNodeBuilder&lt; T &gt;'')]),
      (''distributednodebuilder_3c_20agentptr_20_3e_188'', ''DistributedNodeBuilder&lt; AgentPtr &gt;'', [(''../classfpmas_1_1graph_1_1DistributedNodeBuilder.html'', 1, ''fpmas::graph'')]),
      (''distributeduniformgraphbuilder_189'', ''DistributedUniformGraphBuilder'', [(''../classfpmas_1_1graph_1_1DistributedUniformGraphBuilder.html#ac427398cbc238820174c2c7e65edb5b1'', 1, ''fpmas::graph::DistributedUniformGraphBuilder::DistributedUniformGraphBuilder()''),
        (''../namespacefpmas_1_1model.html#aeff89c16ae317dd8cb63f271bb959ea2'', 1, ''fpmas::model::DistributedUniformGraphBuilder()''),
        (''../classfpmas_1_1graph_1_1DistributedUniformGraphBuilder.html'', 1, ''fpmas::graph::DistributedUniformGraphBuilder&lt; T &gt;'')]),
      (''distribution_190'', ''Distribution'', [(''../classfpmas_1_1random_1_1Distribution.html#a14d7cf56f2ed22e1ece047faeabdc264'', 1, ''fpmas::random::Distribution::Distribution()''),
        (''../classfpmas_1_1api_1_1random_1_1Distribution.html'', 1, ''fpmas::api::random::Distribution&lt; T &gt;''),
        (''../classfpmas_1_1random_1_1Distribution.html'', 1, ''fpmas::random::Distribution&lt; Distribution_t &gt;'')]),
      (''distribution_2eh_191'', ''distribution.h'', [(''../api_2random_2distribution_8h.html'', 1, ''(Global Namespace)''),
        (''../random_2distribution_8h.html'', 1, ''(Global Namespace)'')]),
      (''distribution_3c_20distribution_5ft_3a_3aresult_5ftype_20_3e_192'', ''Distribution&lt; Distribution_t::result_type &gt;'', [(''../classfpmas_1_1api_1_1random_1_1Distribution.html'', 1, ''fpmas::api::random'')]),
      (''distribution_3c_20double_20_3e_193'', ''Distribution&lt; double &gt;'', [(''../classfpmas_1_1random_1_1Distribution.html'', 1, ''fpmas::random'')]),
      (''distribution_3c_20int_20_3e_194'', ''Distribution&lt; int &gt;'', [(''../classfpmas_1_1random_1_1Distribution.html'', 1, ''fpmas::random'')]),
      (''dump_195'', ''dump'', [(''../classfpmas_1_1io_1_1JsonOutput.html#a42f437357f992c41b50483b31107a7c3'', 1, ''fpmas::io::JsonOutput::dump()''),
        (''../classfpmas_1_1io_1_1DistributedCsvOutput.html#a4c157888ea663ecf58c30cd344b0be68'', 1, ''fpmas::io::DistributedCsvOutput::dump()''),
        (''../classfpmas_1_1io_1_1CsvOutput.html#a58b087420bc2301c0594eb6a7352cd1e'', 1, ''fpmas::io::CsvOutput::dump()''),
        (''../classfpmas_1_1io_1_1Breakpoint.html#a5faae863a64c6c8c5f20aff0b0cf3b80'', 1, ''fpmas::io::Breakpoint::dump()''),
        (''../classfpmas_1_1api_1_1io_1_1Output.html#a8e0704b42bb274d7a9b35a6c27b3e691'', 1, ''fpmas::api::io::Output::dump()''),
        (''../classfpmas_1_1api_1_1io_1_1Breakpoint.html#a725fda5d778dfebf3d5a989a39839b63'', 1, ''fpmas::api::io::Breakpoint::dump()'')]),
      (''dump_5fcsv_196'', ''dump_csv'', [(''../classfpmas_1_1io_1_1CsvOutputBase.html#a853082805fda1c9fa9c202a47c584d75'', 1, ''fpmas::io::CsvOutputBase'')]),
      (''dump_5ffields_197'', ''dump_fields'', [(''../classfpmas_1_1io_1_1CsvOutputBase.html#a5f6dbc9427cadeab1d01af9802fd6ad1'', 1, ''fpmas::io::CsvOutputBase'')]),
      (''duration_198'', ''Duration'', [(''../namespacefpmas_1_1api_1_1utils_1_1perf.html#a4c66a59dd3013154b1d13a6cad737a46'', 1, ''fpmas::api::utils::perf'')]),
      (''durations_199'', ''durations'', [(''../classfpmas_1_1api_1_1utils_1_1perf_1_1Probe.html#a36b0c21a4f149a69061f0c5927d3b38b'', 1, ''fpmas::api::utils::perf::Probe::durations()=0''),
        (''../classfpmas_1_1api_1_1utils_1_1perf_1_1Probe.html#aafa876c74be2dd772d28f610449bd9d7'', 1, ''fpmas::api::utils::perf::Probe::durations() const =0''),
        (''../classfpmas_1_1utils_1_1perf_1_1Probe.html#a1ab5a4ba053e15b2fdabb9bcb310b58e'', 1, ''fpmas::utils::perf::Probe::durations() override''),
        (''../classfpmas_1_1utils_1_1perf_1_1Probe.html#a01c1059f8b40eaa6b5f28811f2ab64d8'', 1, ''fpmas::utils::perf::Probe::durations() const override'')]),
      (''dynamicendcondition_200'', ''DynamicEndCondition'', [(''../classfpmas_1_1model_1_1DynamicEndCondition.html'', 1, ''fpmas::model'')]),
      (''dynamicendcondition_3c_20api_3a_3amodel_3a_3acell_20_3e_201'', ''DynamicEndCondition&lt; api::model::Cell &gt;'', [(''../classfpmas_1_1model_1_1DynamicEndCondition.html'', 1, ''fpmas::model'')]),
      (''dynamicfileoutput_202'', ''DynamicFileOutput'', [(''../classfpmas_1_1io_1_1DynamicFileOutput.html#a0909faf52ec9fa45b200bd29c5ce3f82'', 1, ''fpmas::io::DynamicFileOutput::DynamicFileOutput()''),
        (''../classfpmas_1_1io_1_1DynamicFileOutput.html'', 1, ''fpmas::io::DynamicFileOutput'')])]"

definition all_5 :: "raw_entry list" where
  "all_5 = [
      (''edge_203'', ''edge'', [(''../classfpmas_1_1model_1_1Neighbor.html#a95f54fa18df4bbe525b896fb9edf5e7d'', 1, ''fpmas::model::Neighbor'')]),
      (''edge_204'', ''Edge'', [(''../classfpmas_1_1graph_1_1Edge.html#a2c1fc18e1d531cdde775ac749bea1771'', 1, ''fpmas::graph::Edge::Edge()''),
        (''../classfpmas_1_1api_1_1graph_1_1Edge.html'', 1, ''fpmas::api::graph::Edge&lt; _IdType, _NodeType &gt;''),
        (''../classfpmas_1_1graph_1_1Edge.html'', 1, ''fpmas::graph::Edge&lt; _IdType, _NodeType &gt;'')]),
      (''edge_2eh_205'', ''edge.h'', [(''../api_2graph_2edge_8h.html'', 1, ''(Global Namespace)''),
        (''../graph_2edge_8h.html'', 1, ''(Global Namespace)'')]),
      (''edge_3c_20distributedid_2c_20api_3a_3agraph_3a_3adistributednode_3c_20t_20_3e_20_3e_206'', ''Edge&lt; DistributedId, api::graph::DistributedNode&lt; T &gt; &gt;'', [(''../classfpmas_1_1graph_1_1Edge.html'', 1, ''fpmas::graph'')]),
      (''edge_3c_20distributedid_2c_20distributednode_3c_20t_20_3e_20_3e_207'', ''Edge&lt; DistributedId, DistributedNode&lt; T &gt; &gt;'', [(''../classfpmas_1_1api_1_1graph_1_1Edge.html'', 1, ''fpmas::api::graph'')]),
      (''edge_5flist_5fmulti_5ffn_208'', ''edge_list_multi_fn'', [(''../namespacefpmas_1_1graph_1_1zoltan.html#a86a5f07e18ce5f952fffd692edb0fe9c'', 1, ''fpmas::graph::zoltan'')]),
      (''edgeapi_209'', ''EdgeApi'', [(''../classfpmas_1_1synchro_1_1ghost_1_1GhostSyncLinker.html#ae064b19ca0ad660c5dc1ef7cc947c5d9'', 1, ''fpmas::synchro::ghost::GhostSyncLinker::EdgeApi()''),
        (''../classfpmas_1_1synchro_1_1hard_1_1HardSyncLinker.html#a1c062e17123ccd12e73fa1c6b6eec482'', 1, ''fpmas::synchro::hard::HardSyncLinker::EdgeApi()''),
        (''../classfpmas_1_1synchro_1_1hard_1_1LinkClient.html#a4b5ebaace9cd6363a0c605359db4e9ef'', 1, ''fpmas::synchro::hard::LinkClient::EdgeApi()''),
        (''../classfpmas_1_1synchro_1_1hard_1_1LinkServer.html#ac48b291800c0e6ff0c9798ca65229ddb'', 1, ''fpmas::synchro::hard::LinkServer::EdgeApi()'')]),
      (''edgeidhash_210'', ''EdgeIdHash'', [(''../classfpmas_1_1api_1_1graph_1_1Graph.html#a7c2232a886453eee9932c4023b96bb5c'', 1, ''fpmas::api::graph::Graph'')]),
      (''edgeidtype_211'', ''EdgeIdType'', [(''../classfpmas_1_1api_1_1graph_1_1Graph.html#ace4182051c68558b00dfa1b57f86eb6b'', 1, ''fpmas::api::graph::Graph'')]),
      (''edgemap_212'', ''EdgeMap'', [(''../classfpmas_1_1api_1_1graph_1_1Graph.html#a254989187dd47a7a5e2afd9647d13cf2'', 1, ''fpmas::api::graph::Graph'')]),
      (''edgempi_213'', ''EdgeMpi'', [(''../classfpmas_1_1synchro_1_1ghost_1_1GhostSyncLinker.html#ab9cdf857e28c32691df1b3f8ccedf80f'', 1, ''fpmas::synchro::ghost::GhostSyncLinker::EdgeMpi()''),
        (''../classfpmas_1_1synchro_1_1hard_1_1LinkServer.html#ae257bd2db24e9f7364e73cc1ec67ac0d'', 1, ''fpmas::synchro::hard::LinkServer::EdgeMpi()''),
        (''../classfpmas_1_1synchro_1_1hard_1_1LinkClient.html#a4cc060168ed9f441e9f1a78602b31eb2'', 1, ''fpmas::synchro::hard::LinkClient::EdgeMpi()'')]),
      (''edgeptr_214'', ''EdgePtr'', [(''../classfpmas_1_1synchro_1_1ghost_1_1GhostSyncLinker.html#a7431063e2ac3a7cfe145e0166006c01c'', 1, ''fpmas::synchro::ghost::GhostSyncLinker'')]),
      (''edgeptrwrapper_215'', ''EdgePtrWrapper'', [(''../namespacefpmas_1_1graph.html#aa824a675374017e941f1f4f780c7e95a'', 1, ''fpmas::graph'')]),
      (''edges_216'', ''edges'', [(''../structfpmas_1_1graph_1_1zoltan_1_1ZoltanData.html#acb3a1521e70ba0e92cf3762bac46fdfb'', 1, ''fpmas::graph::zoltan::ZoltanData'')]),
      (''edgetype_217'', ''EdgeType'', [(''../classfpmas_1_1api_1_1graph_1_1Node.html#adf0b743e9cdb4f37b5292e2f7dc8c746'', 1, ''fpmas::api::graph::Node::EdgeType()''),
        (''../classfpmas_1_1graph_1_1detail_1_1DistributedGraph.html#ad3d19ef6778e899d7ccd8549648232aa'', 1, ''fpmas::graph::detail::DistributedGraph::EdgeType()'')]),
      (''empty_218'', ''empty'', [(''../classfpmas_1_1model_1_1Neighbors.html#a40664699c17b1779c7f22272b71be904'', 1, ''fpmas::model::Neighbors'')]),
      (''end_219'', ''end'', [(''../classfpmas_1_1scheduler_1_1Epoch.html#a32779cb10e05ad37236d6eff64e4d80d'', 1, ''fpmas::scheduler::Epoch::end()''),
        (''../classfpmas_1_1api_1_1model_1_1EndCondition.html#a54925f9791bde68eb023560a262f6a7e'', 1, ''fpmas::api::model::EndCondition::end()''),
        (''../classfpmas_1_1api_1_1scheduler_1_1Job.html#a27b5adc38325a9f84b8e2782a8413259'', 1, ''fpmas::api::scheduler::Job::end()''),
        (''../classfpmas_1_1api_1_1scheduler_1_1Epoch.html#a73de9e1e61fe671e1bbcf3394bf6c99d'', 1, ''fpmas::api::scheduler::Epoch::end()''),
        (''../classfpmas_1_1model_1_1Neighbors.html#aef64cb7e387c460d10749c5854cbed26'', 1, ''fpmas::model::Neighbors::end()''),
        (''../classfpmas_1_1model_1_1Neighbors.html#a4906c16100a6723564ff76f473b3ca40'', 1, ''fpmas::model::Neighbors::end() const''),
        (''../classfpmas_1_1model_1_1StaticEndCondition.html#aa6090405b8565c7386d45d351daa9f6f'', 1, ''fpmas::model::StaticEndCondition::end()''),
        (''../classfpmas_1_1model_1_1DynamicEndCondition.html#a28c8bf32e6ac83a8f4767987b83b5652'', 1, ''fpmas::model::DynamicEndCondition::end()''),
        (''../classfpmas_1_1scheduler_1_1Job.html#a7c57b793ec609a05bdf3629f3d67a050'', 1, ''fpmas::scheduler::Job::end()'')]),
      (''endcondition_220'', ''EndCondition'', [(''../classfpmas_1_1api_1_1model_1_1EndCondition.html'', 1, ''fpmas::api::model'')]),
      (''enums_2eh_221'', ''enums.h'', [(''../enums_8h.html'', 1, '''')]),
      (''epoch_222'', ''Epoch'', [(''../namespacefpmas_1_1synchro_1_1hard_1_1api.html#ab613c5f2c0ff9f5646a028383496d812'', 1, ''fpmas::synchro::hard::api::Epoch()''),
        (''../classfpmas_1_1api_1_1scheduler_1_1Epoch.html'', 1, ''fpmas::api::scheduler::Epoch''),
        (''../classfpmas_1_1scheduler_1_1Epoch.html'', 1, ''fpmas::scheduler::Epoch'')]),
      (''erase_223'', ''erase'', [(''../classfpmas_1_1model_1_1detail_1_1AgentGroupBase.html#a1d256769ad4288132d4215adf3613014'', 1, ''fpmas::model::detail::AgentGroupBase::erase()''),
        (''../classfpmas_1_1api_1_1model_1_1AgentGroup.html#ade0515102b7fd5ff17703608ddfd158a'', 1, ''fpmas::api::model::AgentGroup::erase()''),
        (''../classfpmas_1_1graph_1_1Graph.html#acef1a514dac770a2494e94eee1be3e20'', 1, ''fpmas::graph::Graph::erase(EdgeType *) override''),
        (''../classfpmas_1_1graph_1_1Graph.html#ac77c74d7ccdf20a9e08815466f38a62e'', 1, ''fpmas::graph::Graph::erase(NodeType *) override''),
        (''../classfpmas_1_1api_1_1graph_1_1Graph.html#ab2515d9d081cdc68a2f5217a1871ba4e'', 1, ''fpmas::api::graph::Graph::erase(EdgeType *edge)=0''),
        (''../classfpmas_1_1api_1_1graph_1_1Graph.html#a27ee97fe167715eda7e45943d329ed02'', 1, ''fpmas::api::graph::Graph::erase(NodeType *node)=0'')]),
      (''eraseagentnodecallback_224'', ''EraseAgentNodeCallback'', [(''../classfpmas_1_1model_1_1detail_1_1EraseAgentNodeCallback.html#a3e91fffad7eba7003aa2727bbd236d14'', 1, ''fpmas::model::detail::EraseAgentNodeCallback::EraseAgentNodeCallback()''),
        (''../classfpmas_1_1model_1_1detail_1_1EraseAgentNodeCallback.html'', 1, ''fpmas::model::detail::EraseAgentNodeCallback'')]),
      (''exceptions_2eh_225'', ''exceptions.h'', [(''../exceptions_8h.html'', 1, '''')]),
      (''execute_226'', ''execute'', [(''../classfpmas_1_1api_1_1model_1_1Behavior.html#a1677e967983fff4d3dac7e0bcbefaf55'', 1, ''fpmas::api::model::Behavior::execute()''),
        (''../classfpmas_1_1api_1_1runtime_1_1Runtime.html#ad277b979ed5d3716d41894a3760fca93'', 1, ''fpmas::api::runtime::Runtime::execute(const scheduler::Job &amp;job)=0''),
        (''../classfpmas_1_1api_1_1runtime_1_1Runtime.html#a546cf719da1bea5b2a4b48709cde2a93'', 1, ''fpmas::api::runtime::Runtime::execute(const scheduler::JobList &amp;job_list)=0''),
        (''../classfpmas_1_1model_1_1DefaultBehavior.html#a3fda6a152298ae8b93d7539546ca0f8d'', 1, ''fpmas::model::DefaultBehavior::execute()''),
        (''../classfpmas_1_1model_1_1Behavior.html#afe76cfa1490b15108479cd8b25443c72'', 1, ''fpmas::model::Behavior::execute()''),
        (''../classfpmas_1_1model_1_1BehaviorWithArgs.html#ac66225aa76f6fefe1e27469555004bfd'', 1, ''fpmas::model::BehaviorWithArgs::execute()''),
        (''../classfpmas_1_1runtime_1_1Runtime.html#a46a5c44419eed5ad05464187a0ae8cd5'', 1, ''fpmas::runtime::Runtime::execute(const api::scheduler::Job &amp;job) override''),
        (''../classfpmas_1_1runtime_1_1Runtime.html#a023e3e08f333e599f9863a135efae5fb'', 1, ''fpmas::runtime::Runtime::execute(const api::scheduler::JobList &amp;job_list) override'')])]"

definition all_6 :: "raw_entry list" where
  "all_6 = [
      (''api_227'', ''api'', [(''../namespacefpmas_1_1api.html'', 1, ''fpmas::api''),
        (''../namespacefpmas_1_1synchro_1_1hard_1_1api.html'', 1, ''fpmas::synchro::hard::api'')]),
      (''communication_228'', ''communication'', [(''../namespacefpmas_1_1api_1_1communication.html'', 1, ''fpmas::api::communication''),
        (''../namespacefpmas_1_1communication.html'', 1, ''fpmas::communication'')]),
      (''detail_229'', ''detail'', [(''../namespacefpmas_1_1graph_1_1detail.html'', 1, ''fpmas::graph::detail''),
        (''../namespacefpmas_1_1model_1_1detail.html'', 1, ''fpmas::model::detail'')]),
      (''exceptions_230'', ''exceptions'', [(''../namespacefpmas_1_1exceptions.html'', 1, ''fpmas'')]),
      (''fileoutput_231'', ''FileOutput'', [(''../classfpmas_1_1io_1_1FileOutput.html#a71c510229609a3d2cc6e95f32a19f143'', 1, ''fpmas::io::FileOutput::FileOutput()''),
        (''../classfpmas_1_1io_1_1FileOutput.html#a863abdd25c3fc618f02ab1b53596ed97'', 1, ''fpmas::io::FileOutput::FileOutput(std::string filename, std::ios::openmode mode=std::ios::out)''),
        (''../classfpmas_1_1io_1_1FileOutput.html#afe197096b0e468f613b5eb5db5a78ee6'', 1, ''fpmas::io::FileOutput::FileOutput(std::string file_format, int rank, std::ios::openmode mode=std::ios::out)''),
        (''../classfpmas_1_1io_1_1FileOutput.html#aee50c5aec0d3a2043c4e2745f451309f'', 1, ''fpmas::io::FileOutput::FileOutput(std::string file_format, api::scheduler::TimeStep step, std::ios::openmode mode=std::ios::out)''),
        (''../classfpmas_1_1io_1_1FileOutput.html#ac777160dbebb043ce931fa67d4456da4'', 1, ''fpmas::io::FileOutput::FileOutput(std::string file_format, int rank, api::scheduler::TimeStep step, std::ios::openmode mode=std::ios::out)''),
        (''../classfpmas_1_1io_1_1FileOutput.html'', 1, ''fpmas::io::FileOutput'')]),
      (''filter_232'', ''filter'', [(''../classfpmas_1_1model_1_1Neighbors.html#abcfecd08d071a23e1f64369e0c18dad1'', 1, ''fpmas::model::Neighbors'')]),
      (''finalagenttype_233'', ''FinalAgentType'', [(''../classfpmas_1_1model_1_1AgentBase.html#ad9369ec706397ed04b361deb2b381eb5'', 1, ''fpmas::model::AgentBase'')]),
      (''finalize_234'', ''finalize'', [(''../namespacefpmas.html#a025034ef544117c0d20c51eb567ab474'', 1, ''fpmas'')]),
      (''fixed_5fobj_5flist_5ffn_235'', ''fixed_obj_list_fn'', [(''../namespacefpmas_1_1graph_1_1zoltan.html#a22c3da93e68bacd4f4f7cf423fe1db4a'', 1, ''fpmas::graph::zoltan'')]),
      (''fixedverticesloadbalancing_236'', ''FixedVerticesLoadBalancing'', [(''../classfpmas_1_1api_1_1graph_1_1FixedVerticesLoadBalancing.html'', 1, ''fpmas::api::graph'')]),
      (''fixedverticesloadbalancing_3c_20agentptr_20_3e_237'', ''FixedVerticesLoadBalancing&lt; AgentPtr &gt;'', [(''../classfpmas_1_1api_1_1graph_1_1FixedVerticesLoadBalancing.html'', 1, ''fpmas::api::graph'')]),
      (''format_238'', ''format'', [(''../namespacefpmas_1_1utils.html#aba0e8aca26eb8d19f110653e192f5764'', 1, ''fpmas::utils::format(std::string input, int rank)''),
        (''../namespacefpmas_1_1utils.html#ace94ed60e981b54a1d1ec21fa0e4b38d'', 1, ''fpmas::utils::format(std::string input, api::scheduler::TimeStep time)''),
        (''../namespacefpmas_1_1utils.html#a6a808792486e2c8c3ace478d4cdca4e5'', 1, ''fpmas::utils::format(std::string input, int rank, api::scheduler::TimeStep time)''),
        (''../namespacefpmas_1_1utils.html#a414bdc13edbb2dfc5b949173ab52285d'', 1, ''fpmas::utils::format(std::string input, std::string replace, T arg)'')]),
      (''format_2eh_239'', ''format.h'', [(''../format_8h.html'', 1, '''')]),
      (''fpmas_240'', ''fpmas'', [(''../namespacefpmas.html'', 1, '''')]),
      (''fpmas_20api_20reference_241'', ''FPMAS API reference'', [(''../index.html'', 1, '''')]),
      (''fpmas_2eh_242'', ''fpmas.h'', [(''../fpmas_8h.html'', 1, '''')]),
      (''fpmas_5fc_5fstr_243'', ''FPMAS_C_STR'', [(''../macros_8h.html#a32ab2caf321ac613cabb47d79541d9c9'', 1, ''macros.h'')]),
      (''fpmas_5fdefault_5fjson_244'', ''FPMAS_DEFAULT_JSON'', [(''../serializer_8h.html#a2540dd16aee93cd7779411153980ffb9'', 1, ''serializer.h'')]),
      (''fpmas_5fdefine_5fgroups_245'', ''FPMAS_DEFINE_GROUPS'', [(''../macros_8h.html#a0f51f358990224f4edba2a7290118cbf'', 1, ''macros.h'')]),
      (''fpmas_5fdefine_5flayers_246'', ''FPMAS_DEFINE_LAYERS'', [(''../macros_8h.html#a5df4bc2a01aa1877da64b5fbd4fe502a'', 1, ''macros.h'')]),
      (''fpmas_5fid_5ftype_247'', ''FPMAS_ID_TYPE'', [(''../distributed__id_8h.html#af1f79f0ccd7aab198c60b5f7aa431322'', 1, ''distributed_id.h'')]),
      (''fpmas_5fjson_5fset_5fup_248'', ''FPMAS_JSON_SET_UP'', [(''../serializer_8h.html#a4722b5fd6cdf04855fb40935583a8dcf'', 1, ''serializer.h'')]),
      (''fpmas_5fnode_5ftask_249'', ''FPMAS_NODE_TASK'', [(''../macros_8h.html#a18036fdf3569b649695ce2c03e3e381b'', 1, ''macros.h'')]),
      (''fpmas_5fon_5fproc_250'', ''FPMAS_ON_PROC'', [(''../macros_8h.html#a2868889724c6490a488852f9fc535bf3'', 1, ''macros.h'')]),
      (''fpmas_5fregister_5fagent_5ftypes_251'', ''FPMAS_REGISTER_AGENT_TYPES'', [(''../serializer_8h.html#aa1f4073e73128e2a9af8cc819f677b89'', 1, ''serializer.h'')]),
      (''fpmas_5fversion_252'', ''FPMAS_VERSION'', [(''../fpmas_8h.html#a4766d5892b769bcff0480917a85b921e'', 1, ''fpmas.h'')]),
      (''fpmas_5fversion_5fmajor_253'', ''FPMAS_VERSION_MAJOR'', [(''../fpmas_8h.html#a85f66e8572844ae65b978c34ff6c6d1b'', 1, ''fpmas.h'')]),
      (''fpmas_5fversion_5fminor_254'', ''FPMAS_VERSION_MINOR'', [(''../fpmas_8h.html#ada8b8c2730e77e4e60c63af56a2add74'', 1, ''fpmas.h'')]),
      (''fpmas_5fversion_5fpatch_255'', ''FPMAS_VERSION_PATCH'', [(''../fpmas_8h.html#ad074e4937a67e81ef92268273d2b0313'', 1, ''fpmas.h'')]),
      (''free_256'', ''free'', [(''../structfpmas_1_1api_1_1communication_1_1Request.html#a74c7a550dce7c3b50f91913e377f780f'', 1, ''fpmas::api::communication::Request'')]),
      (''from_5fjson_257'', ''from_json'', [(''../structfpmas_1_1io_1_1json_1_1light__serializer_3_01fpmas_1_1api_1_1utils_1_1PtrWrapper_3_01fpmasa66c0aec42b8e119b4cc9e7da5cc5a4c.html#aa5112b672539b381fc864c456585c777'', 1, ''fpmas::io::json::light_serializer&lt; fpmas::api::utils::PtrWrapper&lt; fpmas::model::GraphCellBase&lt; AgentType, Derived &gt; &gt; &gt;::from_json()''),
        (''../structnlohmann_1_1adl__serializer_3_01std_1_1type__index_01_4.html#a18ceee305ca2c17b6f54e42097c16146'', 1, ''nlohmann::adl_serializer&lt; std::type_index &gt;::from_json()''),
        (''../structnlohmann_1_1adl__serializer_3_01fpmas_1_1api_1_1utils_1_1PtrWrapper_3_01AgentType_01_4_01_4.html#a1766e6d3759b0bb8f9fd39bec6107ffa'', 1, ''nlohmann::adl_serializer&lt; fpmas::api::utils::PtrWrapper&lt; AgentType &gt; &gt;::from_json()''),
        (''../structfpmas_1_1io_1_1json_1_1light__serializer_3_01fpmas_1_1api_1_1utils_1_1PtrWrapper_3_01Agent1166da05b8eb25f2bd231c13fb984d35.html#a05b3b85eb62dbfc9055fdf93de0695fc'', 1, ''fpmas::io::json::light_serializer&lt; fpmas::api::utils::PtrWrapper&lt; AgentType &gt;, typename std::enable_if&lt; std::is_base_of&lt; fpmas::api::model::Agent, AgentType &gt;::value &amp;&amp;!std::is_default_constructible&lt; AgentType &gt;::value &amp;&amp;std::is_same&lt; AgentType, typename AgentType::FinalAgentType &gt;::value &gt;::type &gt;::from_json()''),
        (''../structfpmas_1_1io_1_1json_1_1light__serializer_3_01fpmas_1_1api_1_1utils_1_1PtrWrapper_3_01Agent897a43c8e174bcaded636be4611a9868.html#abb0983524921e92b3804108bf0f71796'', 1, ''fpmas::io::json::light_serializer&lt; fpmas::api::utils::PtrWrapper&lt; AgentType &gt;, typename std::enable_if&lt; std::is_base_of&lt; fpmas::api::model::Agent, AgentType &gt;::value &amp;&amp;std::is_default_constructible&lt; AgentType &gt;::value &amp;&amp;std::is_same&lt; AgentType, typename AgentType::FinalAgentType &gt;::value &gt;::type &gt;::from_json()''),
        (''../structfpmas_1_1model_1_1AgentPtrSerializer_3_01JsonType_00_01void_01_4.html#aa5a444e296711d9d3825f5f0dab325d0'', 1, ''fpmas::model::AgentPtrSerializer&lt; JsonType, void &gt;::from_json()''),
        (''../structfpmas_1_1model_1_1AgentPtrSerializer.html#a1d485ed561edba4a86dfa718cf7bb1ae'', 1, ''fpmas::model::AgentPtrSerializer::from_json()''),
        (''../structnlohmann_1_1adl__serializer_3_01fpmas_1_1model_1_1ReachableCell_01_4.html#af0f8bd00ac3ceaf3bfa138365c1f2ce5'', 1, ''nlohmann::adl_serializer&lt; fpmas::model::ReachableCell &gt;::from_json()''),
        (''../structnlohmann_1_1adl__serializer_3_01fpmas_1_1api_1_1utils_1_1PtrWrapper_3_01fpmas_1_1model_1_189f18958e721d64cf9081bb53023a6a1.html#a786664503b398155a51df8c8958c77b3'', 1, ''nlohmann::adl_serializer&lt; fpmas::api::utils::PtrWrapper&lt; fpmas::model::GraphCellBase&lt; AgentType, Derived &gt; &gt; &gt;::from_json()''),
        (''../structnlohmann_1_1adl__serializer_3_01fpmas_1_1api_1_1utils_1_1PtrWrapper_3_01fpmas_1_1model_1_15c21a6b0ad54d23aaa2f84ed15f8db9e.html#a990f4e1815cc034d8b6be12a10a2a173'', 1, ''nlohmann::adl_serializer&lt; fpmas::api::utils::PtrWrapper&lt; fpmas::model::SpatialAgentBase&lt; AgentType, CellType, Derived &gt; &gt; &gt;::from_json()''),
        (''../structnlohmann_1_1adl__serializer_3_01fpmas_1_1api_1_1model_1_1DiscretePoint_01_4.html#ae41e36cc0a64abf50a9992e7951c0431'', 1, ''nlohmann::adl_serializer&lt; fpmas::api::model::DiscretePoint &gt;::from_json()''),
        (''../structnlohmann_1_1adl__serializer_3_01fpmas_1_1api_1_1utils_1_1PtrWrapper_3_01fpmas_1_1model_1_1784f1e1360367771d11e7adbddb7008f.html#a4c80e7f4814077454e8f7d8620cf9cd4'', 1, ''nlohmann::adl_serializer&lt; fpmas::api::utils::PtrWrapper&lt; fpmas::model::GridCellBase&lt; GridCellType, Derived &gt; &gt; &gt;::from_json()''),
        (''../structnlohmann_1_1adl__serializer_3_01fpmas_1_1api_1_1utils_1_1PtrWrapper_3_01fpmas_1_1model_1_136032a46204f163d868560f92634ba90.html#a4e6274c9abee768196e3b49e34275886'', 1, ''nlohmann::adl_serializer&lt; fpmas::api::utils::PtrWrapper&lt; fpmas::model::GridAgent&lt; AgentType, CellType, Derived &gt; &gt; &gt;::from_json()''),
        (''../structfpmas_1_1io_1_1json_1_1light__serializer_3_01fpmas_1_1api_1_1utils_1_1PtrWrapper_3_01fpmas087459d4f5dfa9eac727b48e6313447e.html#a36052b9828696a3a276e21e070d83bb5'', 1, ''fpmas::io::json::light_serializer&lt; fpmas::api::utils::PtrWrapper&lt; fpmas::model::GridCellBase&lt; GridCellType, Derived &gt; &gt; &gt;::from_json()''),
        (''../structfpmas_1_1io_1_1json_1_1light__serializer_3_01fpmas_1_1api_1_1utils_1_1PtrWrapper_3_01fpmas6514cec9ffaf9ddc3a05c9b72f5062b9.html#af109687cbd7d713fb6c5789f943b7008'', 1, ''fpmas::io::json::light_serializer&lt; fpmas::api::utils::PtrWrapper&lt; fpmas::model::GridAgent&lt; AgentType, CellType, Derived &gt; &gt; &gt;::from_json()''),
        (''../structfpmas_1_1io_1_1json_1_1light__serializer_3_01fpmas_1_1api_1_1utils_1_1PtrWrapper_3_01fpmasc84e89e520a4a0cda5345fc83f0b8125.html#a47730b94ceface75953b2c28184b0b05'', 1, ''fpmas::io::json::light_serializer&lt; fpmas::api::utils::PtrWrapper&lt; fpmas::model::SpatialAgentBase&lt; AgentType, CellType, Derived &gt; &gt; &gt;::from_json()''),
        (''../structnlohmann_1_1adl__serializer_3_01fpmas_1_1api_1_1model_1_1AgentPtr_01_4.html#aa4b662d79cccb1be1af04ed39c2b732c'', 1, ''nlohmann::adl_serializer&lt; fpmas::api::model::AgentPtr &gt;::from_json()''),
        (''../structnlohmann_1_1adl__serializer_3_01std_1_1chrono_1_1duration_3_01Rep_00_01Ratio_01_4_01_4.html#a2d773eedb766d171c3a6f0f269952fd4'', 1, ''nlohmann::adl_serializer&lt; std::chrono::duration&lt; Rep, Ratio &gt; &gt;::from_json()''),
        (''../structnlohmann_1_1adl__serializer_3_01NodeUpdatePack_3_01T_01_4_01_4.html#a4fafe9fa542f8a2b0b9071f72f732209'', 1, ''nlohmann::adl_serializer&lt; NodeUpdatePack&lt; T &gt; &gt;::from_json()''),
        (''../structnlohmann_1_1adl__serializer_3_01DataUpdatePack_3_01T_01_4_01_4.html#a4b579181ff1619ad591ec079f426d96f'', 1, ''nlohmann::adl_serializer&lt; DataUpdatePack&lt; T &gt; &gt;::from_json()''),
        (''../structnlohmann_1_1adl__serializer_3_01DistributedId_01_4.html#a5afb97598d6db56d9462b2052df73484'', 1, ''nlohmann::adl_serializer&lt; DistributedId &gt;::from_json()''),
        (''../structnlohmann_1_1adl__serializer_3_01EdgePtrWrapper_3_01T_01_4_01_4.html#af64885446c226fff9eee3b04043341b4'', 1, ''nlohmann::adl_serializer&lt; EdgePtrWrapper&lt; T &gt; &gt;::from_json()''),
        (''../structnlohmann_1_1adl__serializer_3_01fpmas_1_1api_1_1graph_1_1DistributedGraph_3_01T_01_4_01_4.html#abae7981ae9cbbe5203891b37b3bb6ac3'', 1, ''nlohmann::adl_serializer&lt; fpmas::api::graph::DistributedGraph&lt; T &gt; &gt;::from_json()''),
        (''../structnlohmann_1_1adl__serializer_3_01NodePtrWrapper_3_01T_01_4_01_4.html#a87156fe9bf5712edfd1aeba70a57cacd'', 1, ''nlohmann::adl_serializer&lt; NodePtrWrapper&lt; T &gt; &gt;::from_json()''),
        (''../structfpmas_1_1io_1_1json_1_1light__serializer_3_01NodePtrWrapper_3_01T_01_4_01_4.html#ae671656ba5dbc55c1b7857c4b0d2d185'', 1, ''fpmas::io::json::light_serializer&lt; NodePtrWrapper&lt; T &gt; &gt;::from_json()''),
        (''../structnlohmann_1_1adl__serializer_3_01fpmas_1_1graph_1_1detail_1_1LocalizedNodeView_3_01T_01_4_01_4.html#ab3d65dcd60b741e29402fdf713ec5a23'', 1, ''nlohmann::adl_serializer&lt; fpmas::graph::detail::LocalizedNodeView&lt; T &gt; &gt;::from_json()''),
        (''../structnlohmann_1_1adl__serializer_3_01fpmas_1_1api_1_1graph_1_1LocationManager_3_01T_01_4_01_4.html#aac68c5d50ac25c25b03947c3495cb0d5'', 1, ''nlohmann::adl_serializer&lt; fpmas::api::graph::LocationManager&lt; T &gt; &gt;::from_json()''),
        (''../structfpmas_1_1io_1_1json_1_1light__serializer.html#a395dcb3f599f344c6a32483b4a61cbc9'', 1, ''fpmas::io::json::light_serializer::from_json()''),
        (''../structfpmas_1_1io_1_1json_1_1light__serializer_3_01T_00_01typename_01std_1_1enable__if_3_9std_1_5b712814e422b4c73c9fd9f49be13323.html#ac4de6327ecbedc4e2beb759b78864800'', 1, ''fpmas::io::json::light_serializer&lt; T, typename std::enable_if&lt;!std::is_default_constructible&lt; T &gt;::value &gt;::type &gt;::from_json()''),
        (''../structfpmas_1_1io_1_1json_1_1light__serializer_3_01fpmas_1_1api_1_1model_1_1AgentPtr_01_4.html#aeb49c4169f534079018c4b4440384693'', 1, ''fpmas::io::json::light_serializer&lt; fpmas::api::model::AgentPtr &gt;::from_json()''),
        (''../structnlohmann_1_1adl__serializer_3_01fpmas_1_1api_1_1model_1_1Model_01_4.html#a39b173eb9ca79bc43a8b46e9d153874e'', 1, ''nlohmann::adl_serializer&lt; fpmas::api::model::Model &gt;::from_json()'')]),
      (''ghost_258'', ''ghost'', [(''../namespacefpmas_1_1synchro_1_1ghost.html'', 1, ''fpmas::synchro'')]),
      (''graph_259'', ''graph'', [(''../namespacefpmas_1_1api_1_1graph.html'', 1, ''fpmas::api::graph''),
        (''../namespacefpmas_1_1graph.html'', 1, ''fpmas::graph'')]),
      (''hard_260'', ''hard'', [(''../namespacefpmas_1_1synchro_1_1hard.html'', 1, ''fpmas::synchro'')]),
      (''io_261'', ''io'', [(''../namespacefpmas_1_1api_1_1io.html'', 1, ''fpmas::api::io''),
        (''../namespacefpmas_1_1io.html'', 1, ''fpmas::io'')]),
      (''json_262'', ''json'', [(''../namespacefpmas_1_1io_1_1json.html'', 1, ''fpmas::io'')]),
      (''load_5fbalancing_263'', ''load_balancing'', [(''../namespacefpmas_1_1api_1_1load__balancing.html'', 1, ''fpmas::api::load_balancing''),
        (''../namespacefpmas_1_1load__balancing.html'', 1, ''fpmas::load_balancing'')]),
      (''model_264'', ''model'', [(''../namespacefpmas_1_1api_1_1model.html'', 1, ''fpmas::api::model''),
        (''../namespacefpmas_1_1model.html'', 1, ''fpmas::model'')]),
      (''perf_265'', ''perf'', [(''../namespacefpmas_1_1api_1_1utils_1_1perf.html'', 1, ''fpmas::api::utils::perf''),
        (''../namespacefpmas_1_1utils_1_1perf.html'', 1, ''fpmas::utils::perf'')]),
      (''random_266'', ''random'', [(''../namespacefpmas_1_1api_1_1random.html'', 1, ''fpmas::api::random''),
        (''../namespacefpmas_1_1random.html'', 1, ''fpmas::random'')]),
      (''runtime_267'', ''runtime'', [(''../namespacefpmas_1_1api_1_1runtime.html'', 1, ''fpmas::api::runtime''),
        (''../namespacefpmas_1_1runtime.html'', 1, ''fpmas::runtime'')]),
      (''scheduler_268'', ''scheduler'', [(''../namespacefpmas_1_1api_1_1scheduler.html'', 1, ''fpmas::api::scheduler''),
        (''../namespacefpmas_1_1scheduler.html'', 1, ''fpmas::scheduler'')]),
      (''synchro_269'', ''synchro'', [(''../namespacefpmas_1_1api_1_1synchro.html'', 1, ''fpmas::api::synchro''),
        (''../namespacefpmas_1_1synchro.html'', 1, ''fpmas::synchro'')]),
      (''utils_270'', ''utils'', [(''../namespacefpmas_1_1api_1_1utils.html'', 1, ''fpmas::api::utils''),
        (''../namespacefpmas_1_1utils.html'', 1, ''fpmas::utils'')]),
      (''zoltan_271'', ''zoltan'', [(''../namespacefpmas_1_1graph_1_1zoltan.html'', 1, ''fpmas::graph::zoltan''),
        (''../namespacefpmas_1_1load__balancing_1_1zoltan.html'', 1, ''fpmas::load_balancing::zoltan'')])]"

definition all_7 :: "raw_entry list" where
  "all_7 = [
      (''gather_272'', ''gather'', [(''../classfpmas_1_1communication_1_1detail_1_1TypedMpi.html#a1c3f34033a707a136cf05763f56c20a0'', 1, ''fpmas::communication::detail::TypedMpi::gather()''),
        (''../classfpmas_1_1communication_1_1MpiCommunicatorBase.html#abaef46c07d5e06a9d674c144b5faab1a'', 1, ''fpmas::communication::MpiCommunicatorBase::gather()''),
        (''../classfpmas_1_1api_1_1communication_1_1TypedMpi.html#ac60bb4256dace14742298ad9beccbfc3'', 1, ''fpmas::api::communication::TypedMpi::gather()''),
        (''../classfpmas_1_1api_1_1communication_1_1MpiCommunicator.html#ace830771424539c6e093d14e21910ee8'', 1, ''fpmas::api::communication::MpiCommunicator::gather()'')]),
      (''gen_273'', ''gen'', [(''../classfpmas_1_1random_1_1Generator.html#a0a6c638d792d1d0bd1b179579bf3c8ce'', 1, ''fpmas::random::Generator'')]),
      (''generator_274'', ''Generator'', [(''../classfpmas_1_1api_1_1random_1_1Generator.html'', 1, ''fpmas::api::random::Generator&lt; T &gt;''),
        (''../classfpmas_1_1random_1_1Generator.html'', 1, ''fpmas::random::Generator&lt; Generator_t &gt;''),
        (''../classfpmas_1_1random_1_1Generator.html#aaff8f6da0cef2de39d32edcc700e0807'', 1, ''fpmas::random::Generator::Generator(result_type seed)''),
        (''../classfpmas_1_1random_1_1Generator.html#a16d397f593de99e4f25f22a78feada7e'', 1, ''fpmas::random::Generator::Generator()'')]),
      (''generator_2eh_275'', ''generator.h'', [(''../api_2random_2generator_8h.html'', 1, ''(Global Namespace)''),
        (''../random_2generator_8h.html'', 1, ''(Global Namespace)'')]),
      (''generator_3c_20generator_5ft_3a_3aresult_5ftype_20_3e_276'', ''Generator&lt; Generator_t::result_type &gt;'', [(''../classfpmas_1_1api_1_1random_1_1Generator.html'', 1, ''fpmas::api::random'')]),
      (''get_277'', ''get'', [(''../classfpmas_1_1io_1_1DynamicFileOutput.html#a1557e66d84d79e1b0879c455f6bbc414'', 1, ''fpmas::io::DynamicFileOutput::get()''),
        (''../classfpmas_1_1io_1_1FileOutput.html#aaca28fca0cb7c038d4e98fdbb7247f68'', 1, ''fpmas::io::FileOutput::get()''),
        (''../classfpmas_1_1io_1_1StringOutput.html#a961ed7a8d5fbf2f9b1a27df122316a85'', 1, ''fpmas::io::StringOutput::get()''),
        (''../classfpmas_1_1api_1_1utils_1_1PtrWrapper.html#a0ea599badd3413817e05e14e034bd912'', 1, ''fpmas::api::utils::PtrWrapper::get() const''),
        (''../classfpmas_1_1api_1_1utils_1_1PtrWrapper.html#a8355d9085f63f88acb7a712f5482d65b'', 1, ''fpmas::api::utils::PtrWrapper::get()''),
        (''../structfpmas_1_1api_1_1io_1_1OutputStream.html#a155300296b7784faf48a4a4f56c964d6'', 1, ''fpmas::api::io::OutputStream::get()'')]),
      (''getbegintask_278'', ''getBeginTask'', [(''../classfpmas_1_1api_1_1scheduler_1_1Job.html#a81262247fdff54210268dd9e58d722ea'', 1, ''fpmas::api::scheduler::Job::getBeginTask()''),
        (''../classfpmas_1_1scheduler_1_1Job.html#a8bf2d271af5b763b73387b0175eed794'', 1, ''fpmas::scheduler::Job::getBeginTask()'')]),
      (''getcurrentlocations_279'', ''getCurrentLocations'', [(''../classfpmas_1_1api_1_1graph_1_1LocationManager.html#a167993a0b2de0b0831eae69ec47bc2fb'', 1, ''fpmas::api::graph::LocationManager::getCurrentLocations()''),
        (''../classfpmas_1_1graph_1_1LocationManager.html#a99f91dbe3f238f09bf9013ae79c53f6f'', 1, ''fpmas::graph::LocationManager::getCurrentLocations()'')]),
      (''getdatasync_280'', ''getDataSync'', [(''../classfpmas_1_1api_1_1synchro_1_1SyncMode.html#ad6db7b3aa725079d62e76a67447dde9d'', 1, ''fpmas::api::synchro::SyncMode::getDataSync()''),
        (''../classfpmas_1_1synchro_1_1ghost_1_1GhostMode.html#a46554aaafc04544190e6e001d0fb5674'', 1, ''fpmas::synchro::ghost::GhostMode::getDataSync()''),
        (''../classfpmas_1_1synchro_1_1hard_1_1HardSyncMode.html#a307e0c9ce0538d42b114ab5d5bed4e0b'', 1, ''fpmas::synchro::hard::HardSyncMode::getDataSync()'')]),
      (''getdistantnodes_281'', ''getDistantNodes'', [(''../classfpmas_1_1graph_1_1LocationManager.html#a9f33487685185ef3aa410f73c83575a9'', 1, ''fpmas::graph::LocationManager::getDistantNodes()''),
        (''../classfpmas_1_1api_1_1graph_1_1LocationManager.html#a994da161df945297cd64b7fa6afdaf21'', 1, ''fpmas::api::graph::LocationManager::getDistantNodes()'')]),
      (''getedge_282'', ''getEdge'', [(''../classfpmas_1_1api_1_1graph_1_1Graph.html#a88929eaa162f730d385afe6c2ea4173d'', 1, ''fpmas::api::graph::Graph::getEdge(EdgeIdType id)=0''),
        (''../classfpmas_1_1api_1_1graph_1_1Graph.html#ad44f2a827f2a4eda7c68fc0bed8aa510'', 1, ''fpmas::api::graph::Graph::getEdge(EdgeIdType) const =0''),
        (''../classfpmas_1_1graph_1_1Graph.html#a8b5eefaff964502d98640e1b1b3752b1'', 1, ''fpmas::graph::Graph::getEdge(EdgeIdType) override''),
        (''../classfpmas_1_1graph_1_1Graph.html#a2fb6a2884739946bd0900e335e1a184c'', 1, ''fpmas::graph::Graph::getEdge(EdgeIdType) const override'')]),
      (''getedgempi_283'', ''getEdgeMpi'', [(''../classfpmas_1_1graph_1_1detail_1_1DistributedGraph.html#a70492e420fb9ff1d6c79b341c4d63573'', 1, ''fpmas::graph::detail::DistributedGraph'')]),
      (''getedges_284'', ''getEdges'', [(''../classfpmas_1_1api_1_1graph_1_1Graph.html#ac2f167255bd606a932823a0051953ef7'', 1, ''fpmas::api::graph::Graph::getEdges()''),
        (''../classfpmas_1_1graph_1_1Graph.html#a34b8a27880b87e0be00a6e23116d8a44'', 1, ''fpmas::graph::Graph::getEdges()'')]),
      (''getendtask_285'', ''getEndTask'', [(''../classfpmas_1_1api_1_1scheduler_1_1Job.html#afff7988be84b18b8c2d1692da63d6cd8'', 1, ''fpmas::api::scheduler::Job::getEndTask()''),
        (''../classfpmas_1_1scheduler_1_1Job.html#a766a08eede71d88931fd2d090a983521'', 1, ''fpmas::scheduler::Job::getEndTask()'')]),
      (''getepoch_286'', ''getEpoch'', [(''../classfpmas_1_1synchro_1_1hard_1_1api_1_1Server.html#a68e3d04343a8bd775d0f0843d8d78308'', 1, ''fpmas::synchro::hard::api::Server::getEpoch()''),
        (''../classfpmas_1_1synchro_1_1hard_1_1LinkServer.html#ab29716935537c5abacb5c06d5b75f5fe'', 1, ''fpmas::synchro::hard::LinkServer::getEpoch()''),
        (''../classfpmas_1_1synchro_1_1hard_1_1MutexServer.html#a319dfa824e2ef1c71a1703f22c2dddf0'', 1, ''fpmas::synchro::hard::MutexServer::getEpoch()''),
        (''../classfpmas_1_1synchro_1_1hard_1_1ServerPack.html#a2758e3431b2516be297ed1c9ce0bb8c1'', 1, ''fpmas::synchro::hard::ServerPack::getEpoch()'')]),
      (''getgroup_287'', ''getGroup'', [(''../classfpmas_1_1api_1_1model_1_1Model.html#ae3ae97089e71d688cef7b4beb7fc32f6'', 1, ''fpmas::api::model::Model::getGroup()''),
        (''../classfpmas_1_1model_1_1detail_1_1Model.html#afd42654a1e088c06c97ee439e9694163'', 1, ''fpmas::model::detail::Model::getGroup()'')]),
      (''getid_288'', ''getId'', [(''../classfpmas_1_1api_1_1graph_1_1Edge.html#a01b45b55bdc925c460eb4533eca33deb'', 1, ''fpmas::api::graph::Edge::getId()''),
        (''../classfpmas_1_1graph_1_1Node.html#acd62b9ebd3041c13f97b9541f72de168'', 1, ''fpmas::graph::Node::getId()''),
        (''../classfpmas_1_1graph_1_1Edge.html#ac9f88e59417d658e595ccec5a730109c'', 1, ''fpmas::graph::Edge::getId()''),
        (''../classfpmas_1_1api_1_1graph_1_1Node.html#aa78c8556e95a84b8b324d0722cf4deb7'', 1, ''fpmas::api::graph::Node::getId() const =0'')]),
      (''getincomingedges_289'', ''getIncomingEdges'', [(''../classfpmas_1_1api_1_1graph_1_1Node.html#abfeb653bff18ab0f69b3fd11a18f9138'', 1, ''fpmas::api::graph::Node::getIncomingEdges() const =0''),
        (''../classfpmas_1_1api_1_1graph_1_1Node.html#a8816bc5dc1e545e2d589fd5d2c0f97a7'', 1, ''fpmas::api::graph::Node::getIncomingEdges(LayerId layer_id) const =0''),
        (''../classfpmas_1_1graph_1_1Node.html#a3d18c7add89efdae0d682f8d9327ab61'', 1, ''fpmas::graph::Node::getIncomingEdges(api::graph::LayerId layer) const override''),
        (''../classfpmas_1_1graph_1_1Node.html#a608f60dd48cc97a739fa7fc22b71df6c'', 1, ''fpmas::graph::Node::getIncomingEdges() const override'')]),
      (''getlayer_290'', ''getLayer'', [(''../classfpmas_1_1api_1_1graph_1_1Edge.html#a034367372164e34d04cc56fb65836925'', 1, ''fpmas::api::graph::Edge::getLayer()''),
        (''../classfpmas_1_1graph_1_1Edge.html#a7462835d9fb1afeefa83991ab0a3d393'', 1, ''fpmas::graph::Edge::getLayer()'')]),
      (''getlocalnodes_291'', ''getLocalNodes'', [(''../classfpmas_1_1api_1_1graph_1_1LocationManager.html#a9342847510a87ab934ee9ef84e33f8a6'', 1, ''fpmas::api::graph::LocationManager::getLocalNodes()''),
        (''../classfpmas_1_1graph_1_1LocationManager.html#aa20aab2e29bfcb9944eddf1ddba91f31'', 1, ''fpmas::graph::LocationManager::getLocalNodes()'')]),
      (''getlocationmanager_292'', ''getLocationManager'', [(''../classfpmas_1_1api_1_1graph_1_1DistributedGraph.html#aac4225b449bb41a9013b14ce13df2116'', 1, ''fpmas::api::graph::DistributedGraph::getLocationManager()=0''),
        (''../classfpmas_1_1api_1_1graph_1_1DistributedGraph.html#a3edfe79909a52a50e9aa230ed62ccc63'', 1, ''fpmas::api::graph::DistributedGraph::getLocationManager() const =0''),
        (''../classfpmas_1_1graph_1_1detail_1_1DistributedGraph.html#ad68922964ff846fd0d243ebfae84ab26'', 1, ''fpmas::graph::detail::DistributedGraph::getLocationManager() const override''),
        (''../classfpmas_1_1graph_1_1detail_1_1DistributedGraph.html#ae4e9f7a3d70b39d8610088be71caa5c5'', 1, ''fpmas::graph::detail::DistributedGraph::getLocationManager() override'')]),
      (''getmanagedmutexes_293'', ''getManagedMutexes'', [(''../classfpmas_1_1synchro_1_1hard_1_1MutexServer.html#adfe5c79b662c67ba83523f423f7bb2a0'', 1, ''fpmas::synchro::hard::MutexServer'')]),
      (''getmpicomm_294'', ''getMpiComm'', [(''../classfpmas_1_1communication_1_1MpiCommunicatorBase.html#a209a92302fdd143dd8b339688ebfba62'', 1, ''fpmas::communication::MpiCommunicatorBase'')]),
      (''getmpicommunicator_295'', ''getMpiCommunicator'', [(''../classfpmas_1_1api_1_1graph_1_1DistributedGraph.html#a70367a18594a05467350529b48e9be6d'', 1, ''fpmas::api::graph::DistributedGraph::getMpiCommunicator()=0''),
        (''../classfpmas_1_1api_1_1graph_1_1DistributedGraph.html#a3df877f59f5b33570e3b5c12dd216a27'', 1, ''fpmas::api::graph::DistributedGraph::getMpiCommunicator() const =0''),
        (''../classfpmas_1_1api_1_1model_1_1Model.html#ab895d5a0523bc20c394098fea309b67c'', 1, ''fpmas::api::model::Model::getMpiCommunicator()=0''),
        (''../classfpmas_1_1api_1_1model_1_1Model.html#aa25176b21c9efb6daa1ab0a29d179d5f'', 1, ''fpmas::api::model::Model::getMpiCommunicator() const =0''),
        (''../classfpmas_1_1graph_1_1detail_1_1DistributedGraph.html#a17980ac564fa7cb269d1db70bd79a617'', 1, ''fpmas::graph::detail::DistributedGraph::getMpiCommunicator() override''),
        (''../classfpmas_1_1graph_1_1detail_1_1DistributedGraph.html#a1c9c449af6f4459469b8bed90b848840'', 1, ''fpmas::graph::detail::DistributedGraph::getMpiCommunicator() const override''),
        (''../classfpmas_1_1model_1_1detail_1_1Model.html#a9f2a06b546588833dca968737849df22'', 1, ''fpmas::model::detail::Model::getMpiCommunicator() override''),
        (''../classfpmas_1_1model_1_1detail_1_1Model.html#a6f9245081c3e42560294587486f4ec2a'', 1, ''fpmas::model::detail::Model::getMpiCommunicator() const override'')]),
      (''getmpigroup_296'', ''getMpiGroup'', [(''../classfpmas_1_1communication_1_1MpiCommunicatorBase.html#a53b72f17e094ba5e9e1c5eb873553d4d'', 1, ''fpmas::communication::MpiCommunicatorBase'')]),
      (''getnode_297'', ''getNode'', [(''../classfpmas_1_1api_1_1graph_1_1Graph.html#a61501e99ee00b6b7444ad50cba4fb656'', 1, ''fpmas::api::graph::Graph::getNode(NodeIdType id)=0''),
        (''../classfpmas_1_1api_1_1graph_1_1Graph.html#aa80206b87b398bcded81a2f8ca13affd'', 1, ''fpmas::api::graph::Graph::getNode(NodeIdType id) const =0''),
        (''../classfpmas_1_1graph_1_1Graph.html#a9a4539ff472500757bb0a5a674b7d821'', 1, ''fpmas::graph::Graph::getNode(NodeIdType) override''),
        (''../classfpmas_1_1graph_1_1Graph.html#a1494027671ee2aa451a78209eee9c620'', 1, ''fpmas::graph::Graph::getNode(NodeIdType) const override'')]),
      (''getnodempi_298'', ''getNodeMpi'', [(''../classfpmas_1_1graph_1_1detail_1_1DistributedGraph.html#ae23cadb2bd16858c2b8370a9a41f720f'', 1, ''fpmas::graph::detail::DistributedGraph'')]),
      (''getnodes_299'', ''getNodes'', [(''../classfpmas_1_1api_1_1graph_1_1Graph.html#ada2efbce22b3deab22818abcd6fd1d52'', 1, ''fpmas::api::graph::Graph::getNodes()''),
        (''../classfpmas_1_1graph_1_1Graph.html#a428775fd3f71ce9c24d19752e5a385e1'', 1, ''fpmas::graph::Graph::getNodes()'')]),
      (''getoutgoingedges_300'', ''getOutgoingEdges'', [(''../classfpmas_1_1graph_1_1Node.html#ac4c8fc6dcb1473ece5cedcd8b66952a0'', 1, ''fpmas::graph::Node::getOutgoingEdges() const override''),
        (''../classfpmas_1_1graph_1_1Node.html#a3d575c53d17b7f2e8644c02e8071609e'', 1, ''fpmas::graph::Node::getOutgoingEdges(api::graph::LayerId layer) const override''),
        (''../classfpmas_1_1api_1_1graph_1_1Node.html#aafbeca54045bda9a0b5e066d7f887544'', 1, ''fpmas::api::graph::Node::getOutgoingEdges(LayerId layer_id) const =0''),
        (''../classfpmas_1_1api_1_1graph_1_1Node.html#a9686c2e06df3f4a8866bb521fb238ece'', 1, ''fpmas::api::graph::Node::getOutgoingEdges() const =0'')]),
      (''getrank_301'', ''getRank'', [(''../classfpmas_1_1api_1_1communication_1_1MpiCommunicator.html#a5d0a8ba6389d11dda81add366f6fc9b9'', 1, ''fpmas::api::communication::MpiCommunicator::getRank()''),
        (''../classfpmas_1_1communication_1_1MpiCommunicatorBase.html#aae73f8131cc4bba64ad8aa47b051cec4'', 1, ''fpmas::communication::MpiCommunicatorBase::getRank()'')]),
      (''getsize_302'', ''getSize'', [(''../classfpmas_1_1api_1_1communication_1_1MpiCommunicator.html#adaa99abca527281fe2b7993a524c31c4'', 1, ''fpmas::api::communication::MpiCommunicator::getSize()''),
        (''../classfpmas_1_1communication_1_1MpiCommunicatorBase.html#a0cee9bce6524b3b9f8988c28c7f1c9a5'', 1, ''fpmas::communication::MpiCommunicatorBase::getSize()''),
        (''../classfpmas_1_1model_1_1GridRange.html#a5150632df3142125c96e5267f29dc448'', 1, ''fpmas::model::GridRange::getSize()'')]),
      (''getsourcenode_303'', ''getSourceNode'', [(''../classfpmas_1_1api_1_1graph_1_1Edge.html#af5ad87e804df2008dfe291987686a0fa'', 1, ''fpmas::api::graph::Edge::getSourceNode()''),
        (''../classfpmas_1_1graph_1_1Edge.html#aaf04f5edcb21bf4b6ecddfd67bbbcabe'', 1, ''fpmas::graph::Edge::getSourceNode()'')]),
      (''getsynclinker_304'', ''getSyncLinker'', [(''../classfpmas_1_1synchro_1_1ghost_1_1GhostMode.html#a6bd0a7a89ad3f0267599f08c1c0d1a06'', 1, ''fpmas::synchro::ghost::GhostMode::getSyncLinker()''),
        (''../classfpmas_1_1api_1_1synchro_1_1SyncMode.html#a02cf7ca982560ae120fe8cc0e9fc9dc9'', 1, ''fpmas::api::synchro::SyncMode::getSyncLinker()''),
        (''../classfpmas_1_1synchro_1_1hard_1_1HardSyncMode.html#af84aeeb9bd8a410cb85c9bc28b382f00'', 1, ''fpmas::synchro::hard::HardSyncMode::getSyncLinker()'')]),
      (''getsyncmode_305'', ''getSyncMode'', [(''../classfpmas_1_1graph_1_1detail_1_1DistributedGraph.html#a16503aedfd56b6e2a4cd9e2af38533b6'', 1, ''fpmas::graph::detail::DistributedGraph'')]),
      (''gettargetnode_306'', ''getTargetNode'', [(''../classfpmas_1_1graph_1_1Edge.html#a144d2d3ba09bd284da3f2cc5b219f46f'', 1, ''fpmas::graph::Edge::getTargetNode()''),
        (''../classfpmas_1_1api_1_1graph_1_1Edge.html#a9f3bac493647ce30937782ff40e51381'', 1, ''fpmas::api::graph::Edge::getTargetNode()'')]),
      (''getweight_307'', ''getWeight'', [(''../classfpmas_1_1graph_1_1Node.html#a0d2c363c881b87af919af5c5eb75892a'', 1, ''fpmas::graph::Node::getWeight()''),
        (''../classfpmas_1_1graph_1_1Edge.html#af101a1615307035e6972e4bbc5d3c552'', 1, ''fpmas::graph::Edge::getWeight()''),
        (''../classfpmas_1_1api_1_1graph_1_1Node.html#a62d1c0934c0b8f364b96a776ee9d2008'', 1, ''fpmas::api::graph::Node::getWeight()''),
        (''../classfpmas_1_1api_1_1graph_1_1Edge.html#aff73770c43ab756722d88fcc46d0de65'', 1, ''fpmas::api::graph::Edge::getWeight()'')]),
      (''ghost_5fmode_2eh_308'', ''ghost_mode.h'', [(''../ghost__mode_8h.html'', 1, '''')]),
      (''ghostdatasync_309'', ''GhostDataSync'', [(''../classfpmas_1_1synchro_1_1ghost_1_1GhostDataSync.html'', 1, ''fpmas::synchro::ghost::GhostDataSync&lt; T &gt;''),
        (''../classfpmas_1_1synchro_1_1ghost_1_1GhostDataSync.html#add800f1bc34138bcfd270bf7f4f4620e'', 1, ''fpmas::synchro::ghost::GhostDataSync::GhostDataSync()'')]),
      (''ghostmode_310'', ''GhostMode'', [(''../classfpmas_1_1synchro_1_1ghost_1_1GhostMode.html'', 1, ''fpmas::synchro::ghost::GhostMode&lt; T &gt;''),
        (''../classfpmas_1_1synchro_1_1ghost_1_1GhostMode.html#a60d134ced49d241df951e2d537e0a80a'', 1, ''fpmas::synchro::ghost::GhostMode::GhostMode()'')]),
      (''ghostsynclinker_311'', ''GhostSyncLinker'', [(''../classfpmas_1_1synchro_1_1ghost_1_1GhostSyncLinker.html'', 1, ''fpmas::synchro::ghost::GhostSyncLinker&lt; T &gt;''),
        (''../classfpmas_1_1synchro_1_1ghost_1_1GhostSyncLinker.html#a84dd995b58701b4fe0101508d9179448'', 1, ''fpmas::synchro::ghost::GhostSyncLinker::GhostSyncLinker()'')]),
      (''graph_312'', ''Graph'', [(''../classfpmas_1_1api_1_1graph_1_1Graph.html'', 1, ''fpmas::api::graph::Graph&lt; NodeType, EdgeType &gt;''),
        (''../classfpmas_1_1graph_1_1Graph.html'', 1, ''fpmas::graph::Graph&lt; NodeType, EdgeType &gt;'')]),
      (''graph_313'', ''graph'', [(''../classfpmas_1_1api_1_1model_1_1Model.html#a6e311b6af42074838aff221f45ba545d'', 1, ''fpmas::api::model::Model'')]),
      (''graph_314'', ''Graph'', [(''../classfpmas_1_1graph_1_1Graph.html#a7df951298b9037f734d432341d033fa4'', 1, ''fpmas::graph::Graph::Graph(Graph&lt; NodeType, EdgeType &gt; &amp;&amp;graph)''),
        (''../classfpmas_1_1graph_1_1Graph.html#a106c75214b335eaa0e22df7db1ad0e2f'', 1, ''fpmas::graph::Graph::Graph()'')]),
      (''graph_315'', ''graph'', [(''../classfpmas_1_1model_1_1detail_1_1Model.html#aefd9e9f48daf05ca25a721a00701b4dc'', 1, ''fpmas::model::detail::Model::graph() const override''),
        (''../classfpmas_1_1model_1_1detail_1_1Model.html#a1d91d4bfb887a41b058fa72ddbaa0163'', 1, ''fpmas::model::detail::Model::graph() override''),
        (''../classfpmas_1_1api_1_1model_1_1Model.html#a59b8312f1570e1a3cc0af36baf03f679'', 1, ''fpmas::api::model::Model::graph()'')]),
      (''graph_2eh_316'', ''graph.h'', [(''../api_2graph_2graph_8h.html'', 1, ''(Global Namespace)''),
        (''../graph_2graph_8h.html'', 1, ''(Global Namespace)'')]),
      (''graph_3c_20api_3a_3agraph_3a_3adistributednode_3c_20t_20_3e_2c_20api_3a_3agraph_3a_3adistributededge_3c_20t_20_3e_20_3e_317'', ''Graph&lt; api::graph::DistributedNode&lt; T &gt;, api::graph::DistributedEdge&lt; T &gt; &gt;'', [(''../classfpmas_1_1graph_1_1Graph.html'', 1, ''fpmas::graph'')]),
      (''graph_3c_20distributednode_3c_20t_20_3e_2c_20distributededge_3c_20t_20_3e_20_3e_318'', ''Graph&lt; DistributedNode&lt; T &gt;, DistributedEdge&lt; T &gt; &gt;'', [(''../classfpmas_1_1api_1_1graph_1_1Graph.html'', 1, ''fpmas::api::graph'')]),
      (''graph_5fbuilder_2eh_319'', ''graph_builder.h'', [(''../api_2graph_2graph__builder_8h.html'', 1, ''(Global Namespace)''),
        (''../graph_2graph__builder_8h.html'', 1, ''(Global Namespace)'')]),
      (''graphbuilder_320'', ''GraphBuilder'', [(''../classfpmas_1_1api_1_1graph_1_1GraphBuilder.html'', 1, ''fpmas::api::graph'')]),
      (''graphcell_321'', ''GraphCell'', [(''../structfpmas_1_1model_1_1GraphCell.html'', 1, ''fpmas::model'')]),
      (''graphcellbase_322'', ''GraphCellBase'', [(''../classfpmas_1_1model_1_1GraphCellBase.html'', 1, ''fpmas::model'')]),
      (''graphcellbase_3c_20graphcell_20_3e_323'', ''GraphCellBase&lt; GraphCell &gt;'', [(''../classfpmas_1_1model_1_1GraphCellBase.html'', 1, ''fpmas::model'')]),
      (''graphrange_324'', ''GraphRange'', [(''../classfpmas_1_1model_1_1GraphRange.html'', 1, ''fpmas::model::GraphRange&lt; GraphCellType &gt;''),
        (''../classfpmas_1_1model_1_1GraphRange.html#acb5cf4d25c25331648f88e841b9ddaed'', 1, ''fpmas::model::GraphRange::GraphRange()'')]),
      (''grid_2eh_325'', ''grid.h'', [(''../model_2spatial_2grid_8h.html'', 1, ''(Global Namespace)''),
        (''../api_2model_2spatial_2grid_8h.html'', 1, ''(Global Namespace)'')]),
      (''grid_5fagent_5fmapping_2eh_326'', ''grid_agent_mapping.h'', [(''../grid__agent__mapping_8h.html'', 1, '''')]),
      (''gridagent_327'', ''GridAgent'', [(''../classfpmas_1_1api_1_1model_1_1GridAgent.html'', 1, ''fpmas::api::model::GridAgent&lt; GridCellType &gt;''),
        (''../classfpmas_1_1model_1_1GridAgent.html'', 1, ''fpmas::model::GridAgent&lt; AgentType, GridCellType, Derived &gt;''),
        (''../classfpmas_1_1model_1_1GridAgent.html#a754b557eb8468872fa0d0a6e395fec7f'', 1, ''fpmas::model::GridAgent::GridAgent()'')]),
      (''gridagent_3c_20api_3a_3amodel_3a_3agridcell_20_3e_328'', ''GridAgent&lt; api::model::GridCell &gt;'', [(''../classfpmas_1_1api_1_1model_1_1GridAgent.html'', 1, ''fpmas::api::model'')]),
      (''gridagentbuilder_329'', ''GridAgentBuilder'', [(''../namespacefpmas_1_1model.html#a7ec666f213a5477053a870026432ba47'', 1, ''fpmas::model'')]),
      (''gridagentmapping_330'', ''GridAgentMapping'', [(''../namespacefpmas_1_1api_1_1model.html#a774415a4b2904aa1d1478ae04bbae4bd'', 1, ''fpmas::api::model'')]),
      (''gridcell_331'', ''GridCell'', [(''../classfpmas_1_1api_1_1model_1_1GridCell.html'', 1, ''fpmas::api::model::GridCell''),
        (''../classfpmas_1_1model_1_1GridCell.html'', 1, ''fpmas::model::GridCell'')]),
      (''gridcellbase_332'', ''GridCellBase'', [(''../classfpmas_1_1model_1_1GridCellBase.html'', 1, ''fpmas::model::GridCellBase&lt; GridCellType, Derived &gt;''),
        (''../classfpmas_1_1model_1_1GridCellBase.html#ae600a15304ed38784f1dcb383b872a7f'', 1, ''fpmas::model::GridCellBase::GridCellBase(DiscretePoint location)''),
        (''../classfpmas_1_1model_1_1GridCellBase.html#a17c0873e131a0b42abbf39157ff278df'', 1, ''fpmas::model::GridCellBase::GridCellBase()'')]),
      (''gridcellbase_3c_20gridcell_20_3e_333'', ''GridCellBase&lt; GridCell &gt;'', [(''../classfpmas_1_1model_1_1GridCellBase.html'', 1, ''fpmas::model'')]),
      (''gridcellfactory_334'', ''GridCellFactory'', [(''../classfpmas_1_1api_1_1model_1_1GridCellFactory.html'', 1, ''fpmas::api::model::GridCellFactory&lt; CellType &gt;''),
        (''../classfpmas_1_1model_1_1GridCellFactory.html'', 1, ''fpmas::model::GridCellFactory&lt; GridCellType &gt;'')]),
      (''gridcellfactory_3c_20api_3a_3amodel_3a_3agridcell_20_3e_335'', ''GridCellFactory&lt; api::model::GridCell &gt;'', [(''../classfpmas_1_1model_1_1GridCellFactory_3_01api_1_1model_1_1GridCell_01_4.html'', 1, ''fpmas::model::GridCellFactory&lt; api::model::GridCell &gt;''),
        (''../classfpmas_1_1api_1_1model_1_1GridCellFactory.html'', 1, ''fpmas::api::model::GridCellFactory&lt; api::model::GridCell &gt;'')]),
      (''gridcellfactory_3c_20gridcell_20_3e_336'', ''GridCellFactory&lt; GridCell &gt;'', [(''../classfpmas_1_1api_1_1model_1_1GridCellFactory.html'', 1, ''fpmas::api::model'')]),
      (''gridconfig_337'', ''GridConfig'', [(''../structfpmas_1_1model_1_1GridConfig.html'', 1, ''fpmas::model'')]),
      (''gridmodel_338'', ''GridModel'', [(''../namespacefpmas_1_1api_1_1model.html#a8d5d39a289f9ed2a3e0aa540b4ffd462'', 1, ''fpmas::api::model::GridModel()''),
        (''../namespacefpmas_1_1model.html#a9fa31f2c0500caaa3dfbf0bfad07899d'', 1, ''fpmas::model::GridModel()'')]),
      (''gridrange_339'', ''GridRange'', [(''../classfpmas_1_1model_1_1GridRange.html'', 1, ''fpmas::model::GridRange&lt; GridConfig, GridRangeConfig &gt;''),
        (''../classfpmas_1_1model_1_1GridRange.html#a56f6b611a251b88e8e4124ef80da98ee'', 1, ''fpmas::model::GridRange::GridRange()'')]),
      (''gridrangeconfig_340'', ''GridRangeConfig'', [(''../structfpmas_1_1model_1_1GridRangeConfig.html'', 1, ''fpmas::model'')]),
      (''group_341'', ''group'', [(''../classfpmas_1_1api_1_1model_1_1Agent.html#a46ea84f58fb1b430f05312ba61b06639'', 1, ''fpmas::api::model::Agent::group()''),
        (''../classfpmas_1_1model_1_1AgentBase.html#af381fb37cf9202c032581435136ac421'', 1, ''fpmas::model::AgentBase::group()''),
        (''../classfpmas_1_1api_1_1model_1_1Agent.html#ae5374eb2b87f1b6c338f0547aab600f3'', 1, ''fpmas::api::model::Agent::group()''),
        (''../classfpmas_1_1model_1_1AgentBase.html#adc1328799e6a37f1c6b0f9044705b583'', 1, ''fpmas::model::AgentBase::group()''),
        (''../classfpmas_1_1communication_1_1MpiCommunicatorBase.html#af9f09cf5da93c3f175b94faedfbaaa9f'', 1, ''fpmas::communication::MpiCommunicatorBase::group()'')]),
      (''groupid_342'', ''groupId'', [(''../classfpmas_1_1api_1_1model_1_1Agent.html#af7df85262a65329202070747bd152c83'', 1, ''fpmas::api::model::Agent::groupId()''),
        (''../classfpmas_1_1api_1_1model_1_1AgentGroup.html#a2d16a5243fec7f30ac2e78e21f8b19df'', 1, ''fpmas::api::model::AgentGroup::groupId()''),
        (''../classfpmas_1_1model_1_1detail_1_1AgentGroupBase.html#abf975bf2e2fa51ee3b1349a5270fd3cf'', 1, ''fpmas::model::detail::AgentGroupBase::groupId()''),
        (''../classfpmas_1_1model_1_1AgentBase.html#a5b2b0173ee2d5283f1fd52a2bb75cbec'', 1, ''fpmas::model::AgentBase::groupId()'')]),
      (''groupid_343'', ''GroupId'', [(''../namespacefpmas_1_1api_1_1model.html#a21595fa9ac22b3afe6da9f2b1c46e13b'', 1, ''fpmas::api::model'')]),
      (''groupids_344'', ''groupIds'', [(''../classfpmas_1_1api_1_1model_1_1Agent.html#a33b14774c578bda05ba61abc308cc123'', 1, ''fpmas::api::model::Agent::groupIds()''),
        (''../classfpmas_1_1model_1_1AgentBase.html#a2251313022c0be755aef6528613fbc55'', 1, ''fpmas::model::AgentBase::groupIds()'')]),
      (''grouplist_345'', ''GroupList'', [(''../namespacefpmas_1_1api_1_1model.html#aed5895780a486f536653be0248d0a56a'', 1, ''fpmas::api::model'')]),
      (''groups_346'', ''groups'', [(''../classfpmas_1_1model_1_1detail_1_1Model.html#af142cc2c64ab193c439fac54fa26b65f'', 1, ''fpmas::model::detail::Model::groups()''),
        (''../classfpmas_1_1model_1_1AgentBase.html#afa08301209cde4d8f0898b22b9fc9bcb'', 1, ''fpmas::model::AgentBase::groups() const override''),
        (''../classfpmas_1_1model_1_1AgentBase.html#aa9f0b9efbea7f06af08051746268e37f'', 1, ''fpmas::model::AgentBase::groups() override''),
        (''../classfpmas_1_1api_1_1model_1_1Model.html#ab81a61fe901dace453f31268feb9be99'', 1, ''fpmas::api::model::Model::groups()''),
        (''../classfpmas_1_1api_1_1model_1_1Agent.html#a3eae89634fe06826b79dd71677c19a9d'', 1, ''fpmas::api::model::Agent::groups() const =0''),
        (''../classfpmas_1_1api_1_1model_1_1Agent.html#a11e6bb6db81b851129d22140dffb582e'', 1, ''fpmas::api::model::Agent::groups()=0'')]),
      (''guard_347'', ''Guard'', [(''../classfpmas_1_1synchro_1_1Guard.html'', 1, ''fpmas::synchro::Guard&lt; T &gt;''),
        (''../classfpmas_1_1synchro_1_1Guard.html#a8f10ed1da7b65068cf4b0cac10a9a3fc'', 1, ''fpmas::synchro::Guard::Guard()'')]),
      (''guards_2eh_348'', ''guards.h'', [(''../synchro_2guards_8h.html'', 1, ''(Global Namespace)''),
        (''../model_2guards_8h.html'', 1, ''(Global Namespace)'')])]"

definition all_8 :: "raw_entry list" where
  "all_8 = [
      (''handleincomingrequests_349'', ''handleIncomingRequests'', [(''../classfpmas_1_1synchro_1_1hard_1_1ServerPack.html#aa73b37b26aba354af5bbe0d6d6e1c05e'', 1, ''fpmas::synchro::hard::ServerPack::handleIncomingRequests()''),
        (''../classfpmas_1_1synchro_1_1hard_1_1api_1_1Server.html#a13e0c29890b8ea594d865a632da43a88'', 1, ''fpmas::synchro::hard::api::Server::handleIncomingRequests()''),
        (''../classfpmas_1_1synchro_1_1hard_1_1LinkServer.html#a7b72b3c68d9e228aea47891ace999d1f'', 1, ''fpmas::synchro::hard::LinkServer::handleIncomingRequests()''),
        (''../classfpmas_1_1synchro_1_1hard_1_1MutexServer.html#ad3bf18aa77d944e4810b2e16d1b5f5f0'', 1, ''fpmas::synchro::hard::MutexServer::handleIncomingRequests()'')]),
      (''handlemove_350'', ''handleMove'', [(''../classfpmas_1_1model_1_1CellBase.html#a8e245107ceb975dfa5c2d3864d2f9fdf'', 1, ''fpmas::model::CellBase::handleMove()''),
        (''../classfpmas_1_1api_1_1model_1_1CellBehavior.html#ae5c5cb2cb992488bd5ff4888f6aa2e87'', 1, ''fpmas::api::model::CellBehavior::handleMove()'')]),
      (''handlenewlocation_351'', ''handleNewLocation'', [(''../classfpmas_1_1model_1_1CellBase.html#aaf7649d1322244915e241d3291d4fe0a'', 1, ''fpmas::model::CellBase::handleNewLocation()''),
        (''../classfpmas_1_1api_1_1model_1_1CellBehavior.html#a44ba9609363ce5baa1793c069cb427c3'', 1, ''fpmas::api::model::CellBehavior::handleNewLocation()'')]),
      (''handlenewmove_352'', ''handleNewMove'', [(''../classfpmas_1_1api_1_1model_1_1SpatialAgentBehavior.html#ab130ba9b8820a568fd11f326a23e012e'', 1, ''fpmas::api::model::SpatialAgentBehavior::handleNewMove()''),
        (''../classfpmas_1_1model_1_1SpatialAgentBase.html#a374d952610f6e20d06fad158f7779412'', 1, ''fpmas::model::SpatialAgentBase::handleNewMove() override'')]),
      (''handlenewperceive_353'', ''handleNewPerceive'', [(''../classfpmas_1_1model_1_1SpatialAgentBase.html#a06fa94554a53dc404544dff5c747997b'', 1, ''fpmas::model::SpatialAgentBase::handleNewPerceive()''),
        (''../classfpmas_1_1api_1_1model_1_1SpatialAgentBehavior.html#aaf7a8ebf72a49ceebebdb869b4f373ae'', 1, ''fpmas::api::model::SpatialAgentBehavior::handleNewPerceive()'')]),
      (''handleperceive_354'', ''handlePerceive'', [(''../classfpmas_1_1model_1_1CellBase.html#afbeb8f021e9cbd1a59946cfd10ddf6d5'', 1, ''fpmas::model::CellBase::handlePerceive()''),
        (''../classfpmas_1_1api_1_1model_1_1CellBehavior.html#a60fe96879582e41e2b55c95d996aa161'', 1, ''fpmas::api::model::CellBehavior::handlePerceive()'')]),
      (''hard_5fdata_5fsync_2eh_355'', ''hard_data_sync.h'', [(''../hard__data__sync_8h.html'', 1, '''')]),
      (''hard_5fsync_5flinker_2eh_356'', ''hard_sync_linker.h'', [(''../hard__sync__linker_8h.html'', 1, '''')]),
      (''hard_5fsync_5fmode_2eh_357'', ''hard_sync_mode.h'', [(''../hard__sync__mode_8h.html'', 1, ''(Global Namespace)''),
        (''../api_2hard__sync__mode_8h.html'', 1, ''(Global Namespace)'')]),
      (''hard_5fsync_5fmutex_2eh_358'', ''hard_sync_mutex.h'', [(''../hard__sync__mutex_8h.html'', 1, '''')]),
      (''harddatasync_359'', ''HardDataSync'', [(''../classfpmas_1_1synchro_1_1hard_1_1HardDataSync.html'', 1, ''fpmas::synchro::hard::HardDataSync&lt; T &gt;''),
        (''../classfpmas_1_1synchro_1_1hard_1_1HardDataSync.html#a0152b2f985fd854e2da41761d7837b48'', 1, ''fpmas::synchro::hard::HardDataSync::HardDataSync()'')]),
      (''hardsynclinker_360'', ''HardSyncLinker'', [(''../classfpmas_1_1synchro_1_1hard_1_1api_1_1HardSyncLinker.html'', 1, ''fpmas::synchro::hard::api::HardSyncLinker&lt; T &gt;''),
        (''../classfpmas_1_1synchro_1_1hard_1_1HardSyncLinker.html'', 1, ''fpmas::synchro::hard::HardSyncLinker&lt; T &gt;''),
        (''../classfpmas_1_1synchro_1_1hard_1_1HardSyncLinker.html#ac90c95cd1d70f9c0acf78b488495321c'', 1, ''fpmas::synchro::hard::HardSyncLinker::HardSyncLinker()'')]),
      (''hardsyncmode_361'', ''HardSyncMode'', [(''../classfpmas_1_1synchro_1_1hard_1_1HardSyncMode.html'', 1, ''fpmas::synchro::hard::HardSyncMode&lt; T &gt;''),
        (''../classfpmas_1_1synchro_1_1hard_1_1HardSyncMode.html#a0ca008844a9600404d2367ed88dceb4a'', 1, ''fpmas::synchro::hard::HardSyncMode::HardSyncMode()'')]),
      (''hardsyncmutex_362'', ''HardSyncMutex'', [(''../classfpmas_1_1synchro_1_1hard_1_1api_1_1HardSyncMutex.html'', 1, ''fpmas::synchro::hard::api::HardSyncMutex&lt; T &gt;''),
        (''../classfpmas_1_1synchro_1_1hard_1_1HardSyncMutex.html'', 1, ''fpmas::synchro::hard::HardSyncMutex&lt; T &gt;''),
        (''../classfpmas_1_1synchro_1_1hard_1_1HardSyncMutex.html#a123b7e6abfc367b1614b14d567273333'', 1, ''fpmas::synchro::hard::HardSyncMutex::HardSyncMutex()'')]),
      (''hash_363'', ''hash'', [(''../classfpmas_1_1api_1_1graph_1_1DistributedId.html#a45a147e90dae6a0dc154caadc4cc1483'', 1, ''fpmas::api::graph::DistributedId::hash()''),
        (''../classfpmas_1_1api_1_1graph_1_1Id.html#a5d054ce3e8551c1da5dac37b60583b74'', 1, ''fpmas::api::graph::Id::hash()'')]),
      (''hash_3c_20distributedid_20_3e_364'', ''hash&lt; DistributedId &gt;'', [(''../structstd_1_1hash_3_01DistributedId_01_4.html'', 1, ''std'')]),
      (''hash_3c_20fpmas_3a_3amodel_3a_3adiscretepoint_20_3e_365'', ''hash&lt; fpmas::model::DiscretePoint &gt;'', [(''../structstd_1_1hash_3_01fpmas_1_1model_1_1DiscretePoint_01_4.html'', 1, ''std'')]),
      (''hasher_366'', ''hasher'', [(''../structstd_1_1hash_3_01fpmas_1_1model_1_1DiscretePoint_01_4.html#a6fff5d09753c70a341fbaf781c4f2739'', 1, ''std::hash&lt; fpmas::model::DiscretePoint &gt;'')]),
      (''headers_367'', ''headers'', [(''../classfpmas_1_1io_1_1CsvOutputBase.html#a1358f8c08c55ff3582d90642862db80a'', 1, ''fpmas::io::CsvOutputBase'')]),
      (''height_368'', ''height'', [(''../classfpmas_1_1model_1_1VonNeumannGridBuilder.html#abc2ec692e49814e68d3a27f6833bbb8f'', 1, ''fpmas::model::VonNeumannGridBuilder'')])]"

definition all_9 :: "raw_entry list" where
  "all_9 = [
      (''id_369'', ''Id'', [(''../classfpmas_1_1api_1_1graph_1_1Id.html'', 1, ''fpmas::api::graph'')]),
      (''id_370'', ''id'', [(''../structfpmas_1_1api_1_1communication_1_1MpiDistributedId.html#a2b51086fc12d6ca612b33ca3381c630d'', 1, ''fpmas::api::communication::MpiDistributedId::id()''),
        (''../structfpmas_1_1synchro_1_1hard_1_1api_1_1MutexRequest.html#a686f2d0e1cc3c4db407c24297dd7c0e1'', 1, ''fpmas::synchro::hard::api::MutexRequest::id()''),
        (''../structfpmas_1_1synchro_1_1DataUpdatePack.html#aecb037809eaa33e611ed95f4aba894d3'', 1, ''fpmas::synchro::DataUpdatePack::id()''),
        (''../classfpmas_1_1api_1_1graph_1_1DistributedId.html#a336bd3e5c515f230d3de1968de6d5964'', 1, ''fpmas::api::graph::DistributedId::id()''),
        (''../classfpmas_1_1api_1_1scheduler_1_1Job.html#a0fabef3daf5ac4f47d05b3bbea423564'', 1, ''fpmas::api::scheduler::Job::id()''),
        (''../classfpmas_1_1scheduler_1_1Job.html#a16bcb01e5a51e3fec655ffaa5bce1a52'', 1, ''fpmas::scheduler::Job::id()'')]),
      (''id_2eh_371'', ''id.h'', [(''../id_8h.html'', 1, '''')]),
      (''idhash_372'', ''IdHash'', [(''../structfpmas_1_1api_1_1graph_1_1IdHash.html'', 1, ''fpmas::api::graph'')]),
      (''idlebehavior_373'', ''IdleBehavior'', [(''../classfpmas_1_1model_1_1IdleBehavior.html'', 1, ''fpmas::model'')]),
      (''idmpi_374'', ''IdMpi'', [(''../classfpmas_1_1synchro_1_1ghost_1_1GhostSyncLinker.html#a9186fa3ae38a249675f67c4593e293d9'', 1, ''fpmas::synchro::ghost::GhostSyncLinker::IdMpi()''),
        (''../classfpmas_1_1synchro_1_1hard_1_1LinkClient.html#a0fca53a0ee743c34cbf0394e793e05ed'', 1, ''fpmas::synchro::hard::LinkClient::IdMpi()''),
        (''../classfpmas_1_1synchro_1_1hard_1_1LinkServer.html#ae29cf33aa904f06ae4c20119f1615288'', 1, ''fpmas::synchro::hard::LinkServer::IdMpi()''),
        (''../classfpmas_1_1synchro_1_1ghost_1_1GhostDataSync.html#aba6d7ca07c39bf780665e86c49ac9877'', 1, ''fpmas::synchro::ghost::GhostDataSync::IdMpi()''),
        (''../classfpmas_1_1graph_1_1LocationManager.html#a2fcb9b8c2c6b7210f31fe36e97eafb82'', 1, ''fpmas::graph::LocationManager::IdMpi()'')]),
      (''idtype_375'', ''IdType'', [(''../classfpmas_1_1api_1_1graph_1_1Edge.html#ae249f585c331da506ef69af0a6407283'', 1, ''fpmas::api::graph::Edge::IdType()''),
        (''../classfpmas_1_1api_1_1graph_1_1Node.html#ae661da329f949a84e15c578a66ac20cc'', 1, ''fpmas::api::graph::Node::IdType()'')]),
      (''ignore_376'', ''IGNORE'', [(''../structfpmas_1_1api_1_1communication_1_1Status.html#a63d41c6abc77dc4027390c4b65266f5c'', 1, ''fpmas::api::communication::Status'')]),
      (''ignore_5ftype_377'', ''IGNORE_TYPE'', [(''../classfpmas_1_1api_1_1communication_1_1MpiCommunicator.html#a48fd0230e1c60440a9089f669209e5df'', 1, ''fpmas::api::communication::MpiCommunicator'')]),
      (''importedge_378'', ''importEdge'', [(''../classfpmas_1_1api_1_1graph_1_1DistributedGraph.html#a8e286c4a21751597957e3b689e372457'', 1, ''fpmas::api::graph::DistributedGraph::importEdge()''),
        (''../classfpmas_1_1graph_1_1detail_1_1DistributedGraph.html#a3f1bdcba3290e49518f407de39f1f523'', 1, ''fpmas::graph::detail::DistributedGraph::importEdge()'')]),
      (''importnode_379'', ''importNode'', [(''../classfpmas_1_1api_1_1graph_1_1DistributedGraph.html#a7c8863184625a319f1329a14eab71b46'', 1, ''fpmas::api::graph::DistributedGraph::importNode()''),
        (''../classfpmas_1_1graph_1_1detail_1_1DistributedGraph.html#a51da03813aef91aeea680552a5eedfde'', 1, ''fpmas::graph::detail::DistributedGraph::importNode()'')]),
      (''init_380'', ''init'', [(''../namespacefpmas.html#a685b5a9916d27bffb1d0d4a9bf9f08a2'', 1, ''fpmas::init()''),
        (''../classfpmas_1_1model_1_1DynamicEndCondition.html#a43a728b94249b059ede79d7a1239ab2d'', 1, ''fpmas::model::DynamicEndCondition::init()''),
        (''../classfpmas_1_1model_1_1StaticEndCondition.html#a027438d41818090beaa1450123e95313'', 1, ''fpmas::model::StaticEndCondition::init()''),
        (''../classfpmas_1_1api_1_1model_1_1EndCondition.html#a8a33e83e4483cce4f440a8b787daf0b1'', 1, ''fpmas::api::model::EndCondition::init()''),
        (''../classfpmas_1_1communication_1_1MpiCommWorld.html#af67e76aef8f0d452fedf839928a9c5ea'', 1, ''fpmas::communication::MpiCommWorld::init()'')]),
      (''initlocation_381'', ''initLocation'', [(''../classfpmas_1_1model_1_1SpatialAgentBase.html#ac459900a3c1ffa9e5e6ec7067049d454'', 1, ''fpmas::model::SpatialAgentBase::initLocation()''),
        (''../classfpmas_1_1api_1_1model_1_1SpatialAgent.html#a6b2f3fc960bcad217e16796b0e032041'', 1, ''fpmas::api::model::SpatialAgent::initLocation()'')]),
      (''inneighbors_382'', ''inNeighbors'', [(''../classfpmas_1_1api_1_1graph_1_1Node.html#ad9d7a7ba92769f753c043a07545b2aaa'', 1, ''fpmas::api::graph::Node::inNeighbors() const =0''),
        (''../classfpmas_1_1api_1_1graph_1_1Node.html#a87acf4a8a81c45dcb6e79fe15595c5cc'', 1, ''fpmas::api::graph::Node::inNeighbors(LayerId layer_id) const =0''),
        (''../classfpmas_1_1graph_1_1Node.html#a20302aa8c09176be66198de45bf121b7'', 1, ''fpmas::graph::Node::inNeighbors() const override''),
        (''../classfpmas_1_1graph_1_1Node.html#a277625de7a695aebce0e2966b0b2796e'', 1, ''fpmas::graph::Node::inNeighbors(api::graph::LayerId) const override''),
        (''../classfpmas_1_1model_1_1NeighborsAccess.html#a4b8234fd04e848153acecb83c37a1406'', 1, ''fpmas::model::NeighborsAccess::inNeighbors() const''),
        (''../classfpmas_1_1model_1_1NeighborsAccess.html#aa0f21ad5e74c69d624f4382562c3e818'', 1, ''fpmas::model::NeighborsAccess::inNeighbors(api::graph::LayerId layer) const'')]),
      (''insert_383'', ''insert'', [(''../classfpmas_1_1api_1_1graph_1_1Graph.html#a92df198937356ee94158f3982245078b'', 1, ''fpmas::api::graph::Graph::insert()''),
        (''../classfpmas_1_1model_1_1detail_1_1Model.html#ab495b603f6d6726adb58bf4063dcedc6'', 1, ''fpmas::model::detail::Model::insert()''),
        (''../classfpmas_1_1model_1_1detail_1_1AgentGroupBase.html#a8dd58298f1ae198313bb15a51ebc8641'', 1, ''fpmas::model::detail::AgentGroupBase::insert()''),
        (''../classfpmas_1_1graph_1_1Graph.html#a6ea579fada474c4c094646dae5f31668'', 1, ''fpmas::graph::Graph::insert(EdgeType *) override''),
        (''../classfpmas_1_1graph_1_1Graph.html#aa9ddeefa71508445bd27e9a6ae42f7e8'', 1, ''fpmas::graph::Graph::insert(NodeType *) override''),
        (''../classfpmas_1_1api_1_1model_1_1Model.html#a1fafbc0a12416582439682629ab3a534'', 1, ''fpmas::api::model::Model::insert()''),
        (''../classfpmas_1_1api_1_1model_1_1AgentGroup.html#a4cd3d73f3c5be59a55fcad342702bf46'', 1, ''fpmas::api::model::AgentGroup::insert()''),
        (''../classfpmas_1_1api_1_1graph_1_1Graph.html#acbcb25f4af600a3d3fba0bd7fd60280d'', 1, ''fpmas::api::graph::Graph::insert()'')]),
      (''insertagentnodecallback_384'', ''InsertAgentNodeCallback'', [(''../classfpmas_1_1model_1_1detail_1_1InsertAgentNodeCallback.html'', 1, ''fpmas::model::detail::InsertAgentNodeCallback''),
        (''../classfpmas_1_1model_1_1detail_1_1InsertAgentNodeCallback.html#a482fde2d500f64a650505be3d0ae3359'', 1, ''fpmas::model::detail::InsertAgentNodeCallback::InsertAgentNodeCallback()'')]),
      (''insertdistant_385'', ''insertDistant'', [(''../classfpmas_1_1graph_1_1detail_1_1DistributedGraph.html#a3fb2ab70771e0dd6982edfd79e941518'', 1, ''fpmas::graph::detail::DistributedGraph::insertDistant()''),
        (''../classfpmas_1_1api_1_1graph_1_1DistributedGraph.html#a10fb5863c0ea1fbe6aa8829aa81d154a'', 1, ''fpmas::api::graph::DistributedGraph::insertDistant()'')]),
      (''iprobe_386'', ''Iprobe'', [(''../classfpmas_1_1api_1_1communication_1_1MpiCommunicator.html#a975cfd8d3c5707c92cc67d263a32cdd4'', 1, ''fpmas::api::communication::MpiCommunicator::Iprobe()''),
        (''../classfpmas_1_1api_1_1communication_1_1TypedMpi.html#a1fb1748db117c0f4d9fc0b82f2329ba3'', 1, ''fpmas::api::communication::TypedMpi::Iprobe()''),
        (''../classfpmas_1_1communication_1_1MpiCommunicatorBase.html#a76369334ed74db26dbeae49053c9575e'', 1, ''fpmas::communication::MpiCommunicatorBase::Iprobe()''),
        (''../classfpmas_1_1communication_1_1detail_1_1TypedMpi.html#ad57c144357e18569b6dc3de89a65d3ce'', 1, ''fpmas::communication::detail::TypedMpi::Iprobe()'')]),
      (''islockedremovenode_387'', ''isLockedRemoveNode'', [(''../classfpmas_1_1synchro_1_1hard_1_1api_1_1LinkServer.html#a8ff1fc541356c939b6f00bd28b358f2e'', 1, ''fpmas::synchro::hard::api::LinkServer::isLockedRemoveNode()''),
        (''../classfpmas_1_1synchro_1_1hard_1_1LinkServer.html#afa67cedaca96b4a167de36896273d876'', 1, ''fpmas::synchro::hard::LinkServer::isLockedRemoveNode()'')]),
      (''islockedunlink_388'', ''isLockedUnlink'', [(''../classfpmas_1_1synchro_1_1hard_1_1api_1_1LinkServer.html#a3b4d27e33bad4323b8e4ce30179923fc'', 1, ''fpmas::synchro::hard::api::LinkServer::isLockedUnlink()''),
        (''../classfpmas_1_1synchro_1_1hard_1_1LinkServer.html#ab991e8add47eb0e6f9786273614f16db'', 1, ''fpmas::synchro::hard::LinkServer::isLockedUnlink()'')]),
      (''issend_389'', ''Issend'', [(''../classfpmas_1_1api_1_1communication_1_1MpiCommunicator.html#a44a9779fbe5e79225615a4d464902ede'', 1, ''fpmas::api::communication::MpiCommunicator::Issend(const void *data, int count, MPI_Datatype datatype, int destination, int tag, Request &amp;request)=0''),
        (''../classfpmas_1_1api_1_1communication_1_1MpiCommunicator.html#a74045416f735eda2a04f9422f1a65cef'', 1, ''fpmas::api::communication::MpiCommunicator::Issend(int destination, int tag, Request &amp;request)=0''),
        (''../classfpmas_1_1api_1_1communication_1_1TypedMpi.html#a1b0737291a2077a0d3f14c20021309af'', 1, ''fpmas::api::communication::TypedMpi::Issend()''),
        (''../classfpmas_1_1communication_1_1MpiCommunicatorBase.html#ad7992533967068813029be32e49046e7'', 1, ''fpmas::communication::MpiCommunicatorBase::Issend(const void *data, int count, MPI_Datatype datatype, int destination, int tag, Request &amp;req) override''),
        (''../classfpmas_1_1communication_1_1MpiCommunicatorBase.html#a5f1402fd70fe5f608035ae755af98d5d'', 1, ''fpmas::communication::MpiCommunicatorBase::Issend(int destination, int tag, Request &amp;req) override''),
        (''../classfpmas_1_1communication_1_1detail_1_1TypedMpi.html#a59445e177f36d20acce02687218dedf9'', 1, ''fpmas::communication::detail::TypedMpi::Issend()'')]),
      (''item_5fcount_390'', ''item_count'', [(''../structfpmas_1_1api_1_1communication_1_1Status.html#adb335d6cddd699dbe53a94fcda4504b6'', 1, ''fpmas::api::communication::Status'')])]"

definition all_a :: "raw_entry list" where
  "all_a = [
      (''jid_391'', ''JID'', [(''../namespacefpmas_1_1api_1_1scheduler.html#ac26320b5421570e51865ab054ac369ed'', 1, ''fpmas::api::scheduler'')]),
      (''job_392'', ''Job'', [(''../classfpmas_1_1api_1_1scheduler_1_1Job.html'', 1, ''fpmas::api::scheduler::Job''),
        (''../classfpmas_1_1scheduler_1_1Job.html'', 1, ''fpmas::scheduler::Job'')]),
      (''job_393'', ''job'', [(''../classfpmas_1_1api_1_1io_1_1Output.html#a59becf32e05e39169fcda84c2bf5b200'', 1, ''fpmas::api::io::Output::job()''),
        (''../classfpmas_1_1api_1_1model_1_1AgentGroup.html#a305224b1bdb3d29821412d154ee4d316'', 1, ''fpmas::api::model::AgentGroup::job()=0''),
        (''../classfpmas_1_1api_1_1model_1_1AgentGroup.html#ae62d2bdce9b702dda19f66efc3812b24'', 1, ''fpmas::api::model::AgentGroup::job() const =0''),
        (''../classfpmas_1_1io_1_1OutputBase.html#a70f426a3c786d295783e86270b053b81'', 1, ''fpmas::io::OutputBase::job()''),
        (''../classfpmas_1_1model_1_1detail_1_1AgentGroupBase.html#a5d726030a0bcf58a85af7e0ced02d937'', 1, ''fpmas::model::detail::AgentGroupBase::job() override''),
        (''../classfpmas_1_1model_1_1detail_1_1AgentGroupBase.html#a2b485d248a8e2e65692557d6bbbea7f6'', 1, ''fpmas::model::detail::AgentGroupBase::job() const override''),
        (''../classfpmas_1_1model_1_1AutoBreakpoint.html#a4e492bc9cbc923d1b06e750b2344fb48'', 1, ''fpmas::model::AutoBreakpoint::job()'')]),
      (''job_394'', ''Job'', [(''../classfpmas_1_1scheduler_1_1Job.html#a285f5658eebffa25ca25561fa0029e36'', 1, ''fpmas::scheduler::Job::Job()''),
        (''../classfpmas_1_1scheduler_1_1Job.html#a8c5a66ddfa0e3cf6e90926596bf83cba'', 1, ''fpmas::scheduler::Job::Job(std::initializer_list&lt; std::reference_wrapper&lt; api::scheduler::Task &gt;&gt; tasks)''),
        (''../classfpmas_1_1scheduler_1_1Job.html#a49fed048d271c0cfb6605edac2f1ea5b'', 1, ''fpmas::scheduler::Job::Job(api::scheduler::Task &amp;begin, std::initializer_list&lt; std::reference_wrapper&lt; api::scheduler::Task &gt;&gt; tasks)''),
        (''../classfpmas_1_1scheduler_1_1Job.html#af4e914a72aad082576600e4ab30be1ba'', 1, ''fpmas::scheduler::Job::Job(api::scheduler::Task &amp;begin, std::initializer_list&lt; std::reference_wrapper&lt; api::scheduler::Task &gt;&gt; tasks, api::scheduler::Task &amp;end)''),
        (''../classfpmas_1_1scheduler_1_1Job.html#a86cf492fcf597079c3e9762ae6f749b8'', 1, ''fpmas::scheduler::Job::Job(std::initializer_list&lt; std::reference_wrapper&lt; api::scheduler::Task &gt;&gt; tasks, api::scheduler::Task &amp;end)'')]),
      (''jobcount_395'', ''jobCount'', [(''../classfpmas_1_1scheduler_1_1Epoch.html#a511ab0a4ce36ce4b20c883dd7e949711'', 1, ''fpmas::scheduler::Epoch::jobCount()''),
        (''../classfpmas_1_1api_1_1scheduler_1_1Epoch.html#a0d7387950558a0672c3f447acae8a735'', 1, ''fpmas::api::scheduler::Epoch::jobCount()=0'')]),
      (''jobiterator_396'', ''JobIterator'', [(''../classfpmas_1_1api_1_1scheduler_1_1Epoch.html#a32972fd3ef62461882631a32c705fb56'', 1, ''fpmas::api::scheduler::Epoch'')]),
      (''joblist_397'', ''JobList'', [(''../namespacefpmas_1_1api_1_1scheduler.html#a139c9d1ed36198a6a33716af6501b131'', 1, ''fpmas::api::scheduler'')]),
      (''jobs_398'', ''jobs'', [(''../classfpmas_1_1api_1_1model_1_1AgentGroup.html#a38be689a0b96dbb9e25feca3c962a6d9'', 1, ''fpmas::api::model::AgentGroup::jobs()''),
        (''../classfpmas_1_1api_1_1model_1_1DistributedMoveAlgorithm.html#a06d7fcbb128d61291844d0d7ee1410b7'', 1, ''fpmas::api::model::DistributedMoveAlgorithm::jobs()''),
        (''../classfpmas_1_1api_1_1scheduler_1_1Epoch.html#a66fc5aefc81d2d0527d15a5ba6e84587'', 1, ''fpmas::api::scheduler::Epoch::jobs()''),
        (''../classfpmas_1_1model_1_1detail_1_1AgentGroup.html#ab8c7f358078b2859dff05fd5387385d8'', 1, ''fpmas::model::detail::AgentGroup::jobs()''),
        (''../classfpmas_1_1model_1_1DistributedMoveAlgorithm.html#a7375e91f040c1d5ffc8f206d46d0282c'', 1, ''fpmas::model::DistributedMoveAlgorithm::jobs()''),
        (''../classfpmas_1_1model_1_1MoveAgentGroup.html#ae8878decaf3bad1f1ae0e86506d9300d'', 1, ''fpmas::model::MoveAgentGroup::jobs()''),
        (''../classfpmas_1_1scheduler_1_1Epoch.html#a2b90695c61a86a8d72e8950603ab75bf'', 1, ''fpmas::scheduler::Epoch::jobs()'')]),
      (''json_2eh_399'', ''json.h'', [(''../json_8h.html'', 1, '''')]),
      (''jsonbase_400'', ''JsonBase'', [(''../classfpmas_1_1model_1_1GraphCellBase.html#a70bf026122ce6cd85004b3495b45907e'', 1, ''fpmas::model::GraphCellBase::JsonBase()''),
        (''../classfpmas_1_1model_1_1GridCellBase.html#ad9df59d21181522b90b28126d7c4df0f'', 1, ''fpmas::model::GridCellBase::JsonBase()''),
        (''../classfpmas_1_1model_1_1SpatialAgentBase.html#a46b527b5f5a408c9502ec850d96c31be'', 1, ''fpmas::model::SpatialAgentBase::JsonBase()'')]),
      (''jsonoutput_401'', ''JsonOutput'', [(''../classfpmas_1_1io_1_1JsonOutput.html'', 1, ''fpmas::io::JsonOutput&lt; T &gt;''),
        (''../classfpmas_1_1io_1_1JsonOutput.html#a820e323b76e94dceba52678e5e3a8836'', 1, ''fpmas::io::JsonOutput::JsonOutput()'')])]"

definition all_b :: "raw_entry list" where
  "all_b = [
      (''label_402'', ''label'', [(''../classfpmas_1_1api_1_1utils_1_1perf_1_1Probe.html#a47ee538581fe2a7d71700f359d1e725c'', 1, ''fpmas::api::utils::perf::Probe::label()''),
        (''../classfpmas_1_1utils_1_1perf_1_1Probe.html#aa93bf0061181d02e241012ad0251db81'', 1, ''fpmas::utils::perf::Probe::label()'')]),
      (''lambdatask_403'', ''LambdaTask'', [(''../classfpmas_1_1scheduler_1_1detail_1_1LambdaTask.html'', 1, ''fpmas::scheduler::detail::LambdaTask''),
        (''../classfpmas_1_1scheduler_1_1LambdaTask.html'', 1, ''fpmas::scheduler::LambdaTask&lt; T &gt;''),
        (''../classfpmas_1_1scheduler_1_1detail_1_1LambdaTask.html#a41d793f3bcc38360d904353bc3125575'', 1, ''fpmas::scheduler::detail::LambdaTask::LambdaTask()''),
        (''../classfpmas_1_1scheduler_1_1LambdaTask.html#a1844f6bad4b18d4a6811f52dd24f55ab'', 1, ''fpmas::scheduler::LambdaTask::LambdaTask()'')]),
      (''layerid_404'', ''LayerId'', [(''../namespacefpmas_1_1api_1_1graph.html#a6ad1b60906b20514825a6f77b7fdc750'', 1, ''fpmas::api::graph'')]),
      (''light_5fjson_405'', ''light_json'', [(''../namespacefpmas_1_1io_1_1json.html#ad3a1963c72c1df255da41c2427dc44d4'', 1, ''fpmas::io::json'')]),
      (''light_5fserializer_406'', ''light_serializer'', [(''../structfpmas_1_1io_1_1json_1_1light__serializer.html'', 1, ''fpmas::io::json'')]),
      (''light_5fserializer_3c_20fpmas_3a_3aapi_3a_3amodel_3a_3aagentptr_20_3e_407'', ''light_serializer&lt; fpmas::api::model::AgentPtr &gt;'', [(''../structfpmas_1_1io_1_1json_1_1light__serializer_3_01fpmas_1_1api_1_1model_1_1AgentPtr_01_4.html'', 1, ''fpmas::io::json'')]),
      (''light_5fserializer_3c_20fpmas_3a_3aapi_3a_3autils_3a_3aptrwrapper_3c_20agenttype_20_3e_2c_20typename_20std_3a_3aenable_5fif_3c_20std_3a_3ais_5fbase_5fof_3c_20fpmas_3a_3aapi_3a_3amodel_3a_3aagent_2c_20agenttype_20_3e_3a_3avalue_20_26_26_21std_3a_3ais_5fdefault_5fconstructible_3c_20agenttype_20_3e_3a_3avalue_20_26_26std_3a_3ais_5fsame_3c_20agenttype_2c_20typename_20agenttype_3a_3afinalagenttype_20_3e_3a_3avalue_20_3e_3a_3atype_20_3e_408'', ''light_serializer&lt; fpmas::api::utils::PtrWrapper&lt; AgentType &gt;, typename std::enable_if&lt; std::is_base_of&lt; fpmas::api::model::Agent, AgentType &gt;::value &amp;&amp;!std::is_default_constructible&lt; AgentType &gt;::value &amp;&amp;std::is_same&lt; AgentType, typename AgentType::FinalAgentType &gt;::value &gt;::type &gt;'', [(''../structfpmas_1_1io_1_1json_1_1light__serializer_3_01fpmas_1_1api_1_1utils_1_1PtrWrapper_3_01Agent1166da05b8eb25f2bd231c13fb984d35.html'', 1, ''fpmas::io::json'')]),
      (''light_5fserializer_3c_20fpmas_3a_3aapi_3a_3autils_3a_3aptrwrapper_3c_20agenttype_20_3e_2c_20typename_20std_3a_3aenable_5fif_3c_20std_3a_3ais_5fbase_5fof_3c_20fpmas_3a_3aapi_3a_3amodel_3a_3aagent_2c_20agenttype_20_3e_3a_3avalue_20_26_26std_3a_3ais_5fdefault_5fconstructible_3c_20agenttype_20_3e_3a_3avalue_20_26_26std_3a_3ais_5fsame_3c_20agenttype_2c_20typename_20agenttype_3a_3afinalagenttype_20_3e_3a_3avalue_20_3e_3a_3atype_20_3e_409'', ''light_serializer&lt; fpmas::api::utils::PtrWrapper&lt; AgentType &gt;, typename std::enable_if&lt; std::is_base_of&lt; fpmas::api::model::Agent, AgentType &gt;::value &amp;&amp;std::is_default_constructible&lt; AgentType &gt;::value &amp;&amp;std::is_same&lt; AgentType, typename AgentType::FinalAgentType &gt;::value &gt;::type &gt;'', [(''../structfpmas_1_1io_1_1json_1_1light__serializer_3_01fpmas_1_1api_1_1utils_1_1PtrWrapper_3_01Agent897a43c8e174bcaded636be4611a9868.html'', 1, ''fpmas::io::json'')]),
      (''light_5fserializer_3c_20fpmas_3a_3aapi_3a_3autils_3a_3aptrwrapper_3c_20fpmas_3a_3amodel_3a_3agraphcellbase_3c_20agenttype_2c_20derived_20_3e_20_3e_20_3e_410'', ''light_serializer&lt; fpmas::api::utils::PtrWrapper&lt; fpmas::model::GraphCellBase&lt; AgentType, Derived &gt; &gt; &gt;'', [(''../structfpmas_1_1io_1_1json_1_1light__serializer_3_01fpmas_1_1api_1_1utils_1_1PtrWrapper_3_01fpmasa66c0aec42b8e119b4cc9e7da5cc5a4c.html'', 1, ''fpmas::io::json'')]),
      (''light_5fserializer_3c_20fpmas_3a_3aapi_3a_3autils_3a_3aptrwrapper_3c_20fpmas_3a_3amodel_3a_3agridagent_3c_20agenttype_2c_20celltype_2c_20derived_20_3e_20_3e_20_3e_411'', ''light_serializer&lt; fpmas::api::utils::PtrWrapper&lt; fpmas::model::GridAgent&lt; AgentType, CellType, Derived &gt; &gt; &gt;'', [(''../structfpmas_1_1io_1_1json_1_1light__serializer_3_01fpmas_1_1api_1_1utils_1_1PtrWrapper_3_01fpmas6514cec9ffaf9ddc3a05c9b72f5062b9.html'', 1, ''fpmas::io::json'')]),
      (''light_5fserializer_3c_20fpmas_3a_3aapi_3a_3autils_3a_3aptrwrapper_3c_20fpmas_3a_3amodel_3a_3agridcellbase_3c_20gridcelltype_2c_20derived_20_3e_20_3e_20_3e_412'', ''light_serializer&lt; fpmas::api::utils::PtrWrapper&lt; fpmas::model::GridCellBase&lt; GridCellType, Derived &gt; &gt; &gt;'', [(''../structfpmas_1_1io_1_1json_1_1light__serializer_3_01fpmas_1_1api_1_1utils_1_1PtrWrapper_3_01fpmas087459d4f5dfa9eac727b48e6313447e.html'', 1, ''fpmas::io::json'')]),
      (''light_5fserializer_3c_20fpmas_3a_3aapi_3a_3autils_3a_3aptrwrapper_3c_20fpmas_3a_3amodel_3a_3aspatialagentbase_3c_20agenttype_2c_20celltype_2c_20derived_20_3e_20_3e_20_3e_413'', ''light_serializer&lt; fpmas::api::utils::PtrWrapper&lt; fpmas::model::SpatialAgentBase&lt; AgentType, CellType, Derived &gt; &gt; &gt;'', [(''../structfpmas_1_1io_1_1json_1_1light__serializer_3_01fpmas_1_1api_1_1utils_1_1PtrWrapper_3_01fpmasc84e89e520a4a0cda5345fc83f0b8125.html'', 1, ''fpmas::io::json'')]),
      (''light_5fserializer_3c_20nodeptrwrapper_3c_20t_20_3e_20_3e_414'', ''light_serializer&lt; NodePtrWrapper&lt; T &gt; &gt;'', [(''../structfpmas_1_1io_1_1json_1_1light__serializer_3_01NodePtrWrapper_3_01T_01_4_01_4.html'', 1, ''fpmas::io::json'')]),
      (''light_5fserializer_3c_20t_2c_20typename_20std_3a_3aenable_5fif_3c_21std_3a_3ais_5fdefault_5fconstructible_3c_20t_20_3e_3a_3avalue_20_3e_3a_3atype_20_3e_415'', ''light_serializer&lt; T, typename std::enable_if&lt;!std::is_default_constructible&lt; T &gt;::value &gt;::type &gt;'', [(''../structfpmas_1_1io_1_1json_1_1light__serializer_3_01T_00_01typename_01std_1_1enable__if_3_9std_1_5b712814e422b4c73c9fd9f49be13323.html'', 1, ''fpmas::io::json'')]),
      (''link_416'', ''link'', [(''../classfpmas_1_1synchro_1_1hard_1_1HardSyncLinker.html#a84b5aca269c02ad85d57e3ed8f422b1b'', 1, ''fpmas::synchro::hard::HardSyncLinker::link()''),
        (''../classfpmas_1_1synchro_1_1ghost_1_1GhostSyncLinker.html#a35f856a3f5285d91e9a15e0e68766502'', 1, ''fpmas::synchro::ghost::GhostSyncLinker::link()''),
        (''../classfpmas_1_1synchro_1_1hard_1_1api_1_1LinkClient.html#aeceb623d3d5e72851adea3179f7d4941'', 1, ''fpmas::synchro::hard::api::LinkClient::link()''),
        (''../classfpmas_1_1synchro_1_1hard_1_1LinkClient.html#a7ce2f9b08ab490e4c1904bcca841bab4'', 1, ''fpmas::synchro::hard::LinkClient::link()''),
        (''../classfpmas_1_1model_1_1detail_1_1Model.html#a2b8b34698640ac3387675fa056d4eaeb'', 1, ''fpmas::model::detail::Model::link()''),
        (''../classfpmas_1_1api_1_1graph_1_1DistributedGraph.html#aef8d1101909c65ef27ce861ff9dd1907'', 1, ''fpmas::api::graph::DistributedGraph::link()''),
        (''../classfpmas_1_1api_1_1model_1_1Model.html#a6427014c6c05c44bd7fd97fb002a5889'', 1, ''fpmas::api::model::Model::link()''),
        (''../classfpmas_1_1api_1_1synchro_1_1SyncLinker.html#a7e96590183889c625de55fcd28b8d412'', 1, ''fpmas::api::synchro::SyncLinker::link()''),
        (''../classfpmas_1_1graph_1_1detail_1_1DistributedGraph.html#a8e0bd7495705459f24e363f6e512eaa4'', 1, ''fpmas::graph::detail::DistributedGraph::link()'')]),
      (''linkclient_417'', ''LinkClient'', [(''../classfpmas_1_1synchro_1_1hard_1_1api_1_1LinkClient.html'', 1, ''fpmas::synchro::hard::api::LinkClient&lt; T &gt;''),
        (''../classfpmas_1_1synchro_1_1hard_1_1LinkClient.html'', 1, ''fpmas::synchro::hard::LinkClient&lt; T &gt;''),
        (''../classfpmas_1_1synchro_1_1hard_1_1LinkClient.html#a9673a3f55ca1f8a37b60ea6f8f6df714'', 1, ''fpmas::synchro::hard::LinkClient::LinkClient()'')]),
      (''linkin_418'', ''linkIn'', [(''../classfpmas_1_1api_1_1graph_1_1Node.html#a62274d50d14a13a140522c48b59c5870'', 1, ''fpmas::api::graph::Node::linkIn()''),
        (''../classfpmas_1_1graph_1_1Node.html#ad5a591f477dd47be0c4211527ce71e53'', 1, ''fpmas::graph::Node::linkIn()'')]),
      (''linkout_419'', ''linkOut'', [(''../classfpmas_1_1api_1_1graph_1_1Node.html#ac1a4abf794607f885dabf23a475d2c33'', 1, ''fpmas::api::graph::Node::linkOut()''),
        (''../classfpmas_1_1graph_1_1Node.html#ab740cbe8dac62ae82afb6d48a376cb33'', 1, ''fpmas::graph::Node::linkOut()'')]),
      (''linkserver_420'', ''LinkServer'', [(''../classfpmas_1_1synchro_1_1hard_1_1api_1_1LinkServer.html'', 1, ''fpmas::synchro::hard::api::LinkServer''),
        (''../classfpmas_1_1synchro_1_1hard_1_1LinkServer.html'', 1, ''fpmas::synchro::hard::LinkServer&lt; T &gt;'')]),
      (''linkserver_421'', ''linkServer'', [(''../classfpmas_1_1synchro_1_1hard_1_1ServerPack.html#aa0c7126648e43ad00355877ba1634723'', 1, ''fpmas::synchro::hard::ServerPack'')]),
      (''linkserver_422'', ''LinkServer'', [(''../classfpmas_1_1synchro_1_1hard_1_1LinkServer.html#a1a4ec6b1d7ca660e3815167ee4f30dcf'', 1, ''fpmas::synchro::hard::LinkServer'')]),
      (''load_423'', ''load'', [(''../classfpmas_1_1io_1_1Breakpoint.html#ad727a74902d79270242057bcfc7d62fd'', 1, ''fpmas::io::Breakpoint::load()''),
        (''../classfpmas_1_1api_1_1io_1_1Breakpoint.html#a3ebf38430500bad9ee5ed2557195491f'', 1, ''fpmas::api::io::Breakpoint::load()'')]),
      (''load_5fbalancing_2eh_424'', ''load_balancing.h'', [(''../load__balancing_8h.html'', 1, '''')]),
      (''loadbalancing_425'', ''LoadBalancing'', [(''../classfpmas_1_1api_1_1graph_1_1LoadBalancing.html'', 1, ''fpmas::api::graph::LoadBalancing&lt; T &gt;''),
        (''../namespacefpmas_1_1api_1_1model.html#a5e62bc99add0c29c87aba29ba151e45b'', 1, ''fpmas::api::model::LoadBalancing()'')]),
      (''loadbalancing_3c_20agentptr_20_3e_426'', ''LoadBalancing&lt; AgentPtr &gt;'', [(''../classfpmas_1_1api_1_1graph_1_1LoadBalancing.html'', 1, ''fpmas::api::graph'')]),
      (''loadbalancingjob_427'', ''loadBalancingJob'', [(''../classfpmas_1_1api_1_1model_1_1Model.html#a573a9ec4c44a91984ea7e54069f50585'', 1, ''fpmas::api::model::Model::loadBalancingJob()''),
        (''../classfpmas_1_1model_1_1detail_1_1Model.html#aca1a0805ca1e1cdaad37f60fc8d3a9eb'', 1, ''fpmas::model::detail::Model::loadBalancingJob()'')]),
      (''loadbalancingtask_428'', ''LoadBalancingTask'', [(''../classfpmas_1_1model_1_1detail_1_1LoadBalancingTask.html'', 1, ''fpmas::model::detail::LoadBalancingTask''),
        (''../classfpmas_1_1model_1_1detail_1_1LoadBalancingTask.html#af7fd918dec1626b1f7d56dba25bbd139'', 1, ''fpmas::model::detail::LoadBalancingTask::LoadBalancingTask()'')]),
      (''local_429'', ''Local'', [(''../structfpmas_1_1io_1_1Local.html'', 1, ''fpmas::io'')]),
      (''local_430'', ''LOCAL'', [(''../namespacefpmas_1_1api_1_1graph.html#a3436e2c1520417414ff6059c45d9e02fa70a499dd022fa8f84306734e1240d1f9'', 1, ''fpmas::api::graph::LOCAL()''),
        (''../structfpmas_1_1synchro_1_1hard_1_1api_1_1MutexRequest.html#a59b524281ffb4b38a5f6013d5ea7a0e3'', 1, ''fpmas::synchro::hard::api::MutexRequest::LOCAL()'')]),
      (''local_5fnode_5fcount_431'', ''local_node_count'', [(''../classfpmas_1_1graph_1_1DistributedNodeBuilder.html#a65e163c885f58e856b567ccc4016d19f'', 1, ''fpmas::graph::DistributedNodeBuilder'')]),
      (''localagents_432'', ''localAgents'', [(''../classfpmas_1_1model_1_1detail_1_1AgentGroupBase.html#a554320e700d4ab0b318cd53396e4101b'', 1, ''fpmas::model::detail::AgentGroupBase::localAgents()''),
        (''../classfpmas_1_1api_1_1model_1_1AgentGroup.html#a847a43eca5667ed69d424738f6177dbf'', 1, ''fpmas::api::model::AgentGroup::localAgents()'')]),
      (''localizednode_433'', ''LocalizedNode'', [(''../structfpmas_1_1graph_1_1detail_1_1LocalizedNode.html'', 1, ''fpmas::graph::detail::LocalizedNode&lt; T &gt;''),
        (''../structfpmas_1_1graph_1_1detail_1_1LocalizedNode.html#a980442c3693b0cd243faca2200831865'', 1, ''fpmas::graph::detail::LocalizedNode::LocalizedNode()'')]),
      (''localizednodeview_434'', ''LocalizedNodeView'', [(''../structfpmas_1_1graph_1_1detail_1_1LocalizedNodeView.html'', 1, ''fpmas::graph::detail::LocalizedNodeView&lt; T &gt;''),
        (''../structfpmas_1_1graph_1_1detail_1_1LocalizedNodeView.html#a1d763f64347cb79a57d276e685a93edf'', 1, ''fpmas::graph::detail::LocalizedNodeView::LocalizedNodeView()'')]),
      (''localnodecount_435'', ''localNodeCount'', [(''../classfpmas_1_1api_1_1graph_1_1DistributedNodeBuilder.html#a5a7d5c780fd08380fe4c022763181f2f'', 1, ''fpmas::api::graph::DistributedNodeBuilder::localNodeCount()''),
        (''../classfpmas_1_1graph_1_1DistributedNodeBuilder.html#a8602465a1f6cb347dd0f8b6b3b30ac14'', 1, ''fpmas::graph::DistributedNodeBuilder::localNodeCount()'')]),
      (''location_436'', ''location'', [(''../structfpmas_1_1graph_1_1detail_1_1LocalizedNodeView.html#a1c49738deb1be6bb021d5f810057911f'', 1, ''fpmas::graph::detail::LocalizedNodeView::location()''),
        (''../classfpmas_1_1api_1_1graph_1_1DistributedNode.html#a54a0655fdc97496cd1f5a78bc7209fbd'', 1, ''fpmas::api::graph::DistributedNode::location()''),
        (''../classfpmas_1_1api_1_1model_1_1GridCell.html#ad793049809a549738bc7942495d5210a'', 1, ''fpmas::api::model::GridCell::location()''),
        (''../classfpmas_1_1graph_1_1DistributedNode.html#a9f39ed8fdb95fa3f25ec027bfc79e7e3'', 1, ''fpmas::graph::DistributedNode::location()''),
        (''../classfpmas_1_1model_1_1GridCellBase.html#a517352ccff263f88196223a29dffc981'', 1, ''fpmas::model::GridCellBase::location()'')]),
      (''location_5fmanager_2eh_437'', ''location_manager.h'', [(''../graph_2location__manager_8h.html'', 1, ''(Global Namespace)''),
        (''../api_2graph_2location__manager_8h.html'', 1, ''(Global Namespace)'')]),
      (''location_5fstate_2eh_438'', ''location_state.h'', [(''../location__state_8h.html'', 1, '''')]),
      (''locationcell_439'', ''locationCell'', [(''../classfpmas_1_1api_1_1model_1_1SpatialAgent.html#a710835cc3b3e28dfebaa834003b4363d'', 1, ''fpmas::api::model::SpatialAgent::locationCell()''),
        (''../classfpmas_1_1model_1_1SpatialAgentBase.html#a58aac637cb24e6722024bd5208efa998'', 1, ''fpmas::model::SpatialAgentBase::locationCell() const override'')]),
      (''locationid_440'', ''locationId'', [(''../classfpmas_1_1model_1_1SpatialAgentBase.html#a4210fa6392f62bcdb327fba980095070'', 1, ''fpmas::model::SpatialAgentBase::locationId()''),
        (''../classfpmas_1_1api_1_1model_1_1SpatialAgent.html#acce9e122bb6da9ed2b284c6dcf831553'', 1, ''fpmas::api::model::SpatialAgent::locationId()'')]),
      (''locationmanager_441'', ''LocationManager'', [(''../classfpmas_1_1api_1_1graph_1_1LocationManager.html'', 1, ''fpmas::api::graph::LocationManager&lt; T &gt;''),
        (''../classfpmas_1_1graph_1_1LocationManager.html'', 1, ''fpmas::graph::LocationManager&lt; T &gt;''),
        (''../classfpmas_1_1graph_1_1LocationManager.html#ae1da66baeee3bfcdf91eb2234184d802'', 1, ''fpmas::graph::LocationManager::LocationManager(api::communication::MpiCommunicator &amp;comm, IdMpi &amp;id_mpi, LocationMpi &amp;location_mpi)'')]),
      (''locationmpi_442'', ''LocationMpi'', [(''../classfpmas_1_1graph_1_1LocationManager.html#a0ab91bab542e9af57046ac2d3d6d3fde'', 1, ''fpmas::graph::LocationManager'')]),
      (''locationpoint_443'', ''locationPoint'', [(''../classfpmas_1_1api_1_1model_1_1GridAgent.html#ae388414b50d57ebec0d8bb2ba8c2c24c'', 1, ''fpmas::api::model::GridAgent::locationPoint()''),
        (''../classfpmas_1_1model_1_1GridAgent.html#accfa102f0b53b7a10ac3d4ac95befb0a'', 1, ''fpmas::model::GridAgent::locationPoint()'')]),
      (''locationstate_444'', ''LocationState'', [(''../namespacefpmas_1_1api_1_1graph.html#a3436e2c1520417414ff6059c45d9e02f'', 1, ''fpmas::api::graph'')]),
      (''lock_445'', ''lock'', [(''../classfpmas_1_1synchro_1_1hard_1_1api_1_1MutexServer.html#ae0e3f9df35aee4bba60e9e7c69eeefa7'', 1, ''fpmas::synchro::hard::api::MutexServer::lock()''),
        (''../classfpmas_1_1api_1_1synchro_1_1Mutex.html#aa48f90b41a1587487dce13b543daef14'', 1, ''fpmas::api::synchro::Mutex::lock()''),
        (''../classfpmas_1_1synchro_1_1ghost_1_1SingleThreadMutex.html#a31ca5036d0e17772e83e4d6897eee16d'', 1, ''fpmas::synchro::ghost::SingleThreadMutex::lock()''),
        (''../classfpmas_1_1synchro_1_1hard_1_1MutexClient.html#a8a466d84900c0d8ec67853b316b2ba9f'', 1, ''fpmas::synchro::hard::MutexClient::lock()''),
        (''../classfpmas_1_1synchro_1_1hard_1_1api_1_1MutexClient.html#ad63d29ffb9a38821f2834e12a8c539b1'', 1, ''fpmas::synchro::hard::api::MutexClient::lock()''),
        (''../classfpmas_1_1synchro_1_1hard_1_1HardSyncMutex.html#a431b07a69e94c64b9c51d1cbb2f764f8'', 1, ''fpmas::synchro::hard::HardSyncMutex::lock()'')]),
      (''locked_446'', ''locked'', [(''../classfpmas_1_1api_1_1synchro_1_1Mutex.html#ad0a034f31ef9c1e846690d152aa9a18d'', 1, ''fpmas::api::synchro::Mutex::locked()''),
        (''../classfpmas_1_1synchro_1_1ghost_1_1SingleThreadMutex.html#a638b9476f1eee4fd3fd1bb4e76b51e04'', 1, ''fpmas::synchro::ghost::SingleThreadMutex::locked()''),
        (''../classfpmas_1_1synchro_1_1hard_1_1HardSyncMutex.html#aa42c3254302c44d3117a3a79f6748a95'', 1, ''fpmas::synchro::hard::HardSyncMutex::locked()'')]),
      (''lockguard_447'', ''LockGuard'', [(''../classfpmas_1_1model_1_1LockGuard.html'', 1, ''fpmas::model::LockGuard''),
        (''../classfpmas_1_1synchro_1_1LockGuard.html'', 1, ''fpmas::synchro::LockGuard&lt; T &gt;''),
        (''../classfpmas_1_1synchro_1_1LockGuard.html#a249007229432521881b3cefb5d08add5'', 1, ''fpmas::synchro::LockGuard::LockGuard()''),
        (''../classfpmas_1_1model_1_1LockGuard.html#ad1270a6e8106df3640da573685daa52c'', 1, ''fpmas::model::LockGuard::LockGuard()'')]),
      (''lockguard_3c_20fpmas_3a_3aapi_3a_3amodel_3a_3aagentptr_20_3e_448'', ''LockGuard&lt; fpmas::api::model::AgentPtr &gt;'', [(''../classfpmas_1_1synchro_1_1LockGuard.html'', 1, ''fpmas::synchro'')]),
      (''lockremovenode_449'', ''lockRemoveNode'', [(''../classfpmas_1_1synchro_1_1hard_1_1LinkServer.html#a67284317f609ed87a7db36dd860773fd'', 1, ''fpmas::synchro::hard::LinkServer::lockRemoveNode()''),
        (''../classfpmas_1_1synchro_1_1hard_1_1api_1_1LinkServer.html#af0c8c6ad5112fc95b54c28844657e455'', 1, ''fpmas::synchro::hard::api::LinkServer::lockRemoveNode()'')]),
      (''lockshared_450'', ''lockShared'', [(''../classfpmas_1_1synchro_1_1ghost_1_1SingleThreadMutex.html#ad2d1f3b93c180ff37395fd9c1b020108'', 1, ''fpmas::synchro::ghost::SingleThreadMutex::lockShared()''),
        (''../classfpmas_1_1synchro_1_1hard_1_1api_1_1MutexClient.html#a209aed9af594b74ed1a569c4bafcad62'', 1, ''fpmas::synchro::hard::api::MutexClient::lockShared()''),
        (''../classfpmas_1_1synchro_1_1hard_1_1api_1_1MutexServer.html#aa5330b30680f557816dc549bcff9a2eb'', 1, ''fpmas::synchro::hard::api::MutexServer::lockShared()''),
        (''../classfpmas_1_1synchro_1_1hard_1_1HardSyncMutex.html#a19a5556f3720b3a2c75a0e48f7ce668a'', 1, ''fpmas::synchro::hard::HardSyncMutex::lockShared()''),
        (''../classfpmas_1_1synchro_1_1hard_1_1MutexClient.html#a5047f081d52471c968d7fc34779e2bc8'', 1, ''fpmas::synchro::hard::MutexClient::lockShared()''),
        (''../classfpmas_1_1api_1_1synchro_1_1Mutex.html#a1287fadba68dc72afc5a348535aebd65'', 1, ''fpmas::api::synchro::Mutex::lockShared()'')]),
      (''lockunlink_451'', ''lockUnlink'', [(''../classfpmas_1_1synchro_1_1hard_1_1api_1_1LinkServer.html#a1a2ca7079f337a93547ada0ccd2e0ef0'', 1, ''fpmas::synchro::hard::api::LinkServer::lockUnlink()''),
        (''../classfpmas_1_1synchro_1_1hard_1_1LinkServer.html#a85fe2ac9644b70484f73ac252bd416ff'', 1, ''fpmas::synchro::hard::LinkServer::lockUnlink()'')])]"

definition all_c :: "raw_entry list" where
  "all_c = [
      (''macros_2eh_452'', ''macros.h'', [(''../macros_8h.html'', 1, '''')]),
      (''manage_453'', ''manage'', [(''../classfpmas_1_1synchro_1_1hard_1_1api_1_1MutexServer.html#a0cf5839fb3e5d2e59eea02f731ca1cc5'', 1, ''fpmas::synchro::hard::api::MutexServer::manage()''),
        (''../classfpmas_1_1synchro_1_1hard_1_1MutexServer.html#a878014fbdda6563116bb51c0439a0e45'', 1, ''fpmas::synchro::hard::MutexServer::manage()'')]),
      (''manhattandistance_454'', ''ManhattanDistance'', [(''../classfpmas_1_1model_1_1ManhattanDistance.html'', 1, ''fpmas::model'')]),
      (''max_455'', ''max'', [(''../classfpmas_1_1random_1_1DistributedGenerator.html#aadf72e393fc04f8b64b89648818b539b'', 1, ''fpmas::random::DistributedGenerator::max()''),
        (''../classfpmas_1_1random_1_1Generator.html#a07a797de873e8990d6194875acfa9bdf'', 1, ''fpmas::random::Generator::max()''),
        (''../classfpmas_1_1random_1_1Distribution.html#afb9c599c5eb646719118ec9f75a34d73'', 1, ''fpmas::random::Distribution::max()''),
        (''../classfpmas_1_1api_1_1random_1_1Distribution.html#a5b25db265c7a818ae5674e42175dd801'', 1, ''fpmas::api::random::Distribution::max()'')]),
      (''max_5fid_456'', ''max_id'', [(''../classfpmas_1_1api_1_1graph_1_1DistributedId.html#ae971fde76e870fd74aff46814aa687d8'', 1, ''fpmas::api::graph::DistributedId'')]),
      (''max_5frank_457'', ''max_rank'', [(''../classfpmas_1_1api_1_1graph_1_1DistributedId.html#ae7eaac11f48cd4c61b5c6964412b8600'', 1, ''fpmas::api::graph::DistributedId'')]),
      (''migrate_458'', ''migrate'', [(''../classfpmas_1_1communication_1_1detail_1_1TypedMpi.html#a26b7042265852578e7c8e83ac8d08b81'', 1, ''fpmas::communication::detail::TypedMpi::migrate()''),
        (''../classfpmas_1_1api_1_1communication_1_1TypedMpi.html#a6550b59def1df2ff4570debf69164cbb'', 1, ''fpmas::api::communication::TypedMpi::migrate()'')]),
      (''min_459'', ''min'', [(''../classfpmas_1_1random_1_1DistributedGenerator.html#a54fa9dc05dc5b1bae74322d969dca7eb'', 1, ''fpmas::random::DistributedGenerator::min()''),
        (''../classfpmas_1_1random_1_1Generator.html#a2f4a899aec90416e202d429bc9d422ab'', 1, ''fpmas::random::Generator::min()''),
        (''../classfpmas_1_1random_1_1Distribution.html#ac15bab73579b77b1f4d1d33c1bff82af'', 1, ''fpmas::random::Distribution::min()''),
        (''../classfpmas_1_1api_1_1random_1_1Distribution.html#a6be8f2f682ac30ba47a646dc7ba5ae95'', 1, ''fpmas::api::random::Distribution::min()'')]),
      (''minstd_5frand_460'', ''minstd_rand'', [(''../namespacefpmas_1_1random.html#a46291533711a7df58040fa051ad62fa3'', 1, ''fpmas::random'')]),
      (''mobilityfield_461'', ''mobilityField'', [(''../classfpmas_1_1model_1_1SpatialAgentBase.html#ab250f88fe03847729f9cbfd54cb6418a'', 1, ''fpmas::model::SpatialAgentBase'')]),
      (''mobilityrange_462'', ''mobilityRange'', [(''../classfpmas_1_1model_1_1SpatialAgentBase.html#abfd681d02357c416b4eda2be4101377e'', 1, ''fpmas::model::SpatialAgentBase::mobilityRange()''),
        (''../classfpmas_1_1api_1_1model_1_1SpatialAgent.html#af0b5c8d4f351c9d1ca22247db4ba7911'', 1, ''fpmas::api::model::SpatialAgent::mobilityRange()'')]),
      (''model_463'', ''Model'', [(''../classfpmas_1_1api_1_1model_1_1Model.html'', 1, ''fpmas::api::model::Model''),
        (''../classfpmas_1_1model_1_1detail_1_1Model.html'', 1, ''fpmas::model::detail::Model'')]),
      (''model_464'', ''model'', [(''../classfpmas_1_1api_1_1model_1_1Agent.html#ae6794887a1eec21b29534b5612e1f60d'', 1, ''fpmas::api::model::Agent::model()=0''),
        (''../classfpmas_1_1api_1_1model_1_1Agent.html#a109e978f560ff376679066e07372dee7'', 1, ''fpmas::api::model::Agent::model() const =0''),
        (''../classfpmas_1_1model_1_1AgentBase.html#a4149099bc92fef542a8c14d062655a27'', 1, ''fpmas::model::AgentBase::model() override''),
        (''../classfpmas_1_1model_1_1AgentBase.html#a38c0da5ab8c9467ea383dfc813077cc1'', 1, ''fpmas::model::AgentBase::model() const override'')]),
      (''model_465'', ''Model'', [(''../namespacefpmas_1_1model.html#a6f691ab6900c77e70e7d314150090801'', 1, ''fpmas::model::Model()''),
        (''../classfpmas_1_1model_1_1detail_1_1Model.html#a7bf0a51e12adef065c5417b339bc6272'', 1, ''fpmas::model::detail::Model::Model()'')]),
      (''model_2eh_466'', ''model.h'', [(''../model_2model_8h.html'', 1, ''(Global Namespace)''),
        (''../model_2detail_2model_8h.html'', 1, ''(Global Namespace)''),
        (''../api_2model_2model_8h.html'', 1, ''(Global Namespace)'')]),
      (''monitor_467'', ''Monitor'', [(''../classfpmas_1_1api_1_1utils_1_1perf_1_1Monitor.html'', 1, ''fpmas::api::utils::perf::Monitor''),
        (''../classfpmas_1_1utils_1_1perf_1_1Monitor.html'', 1, ''fpmas::utils::perf::Monitor'')]),
      (''moore_2eh_468'', ''moore.h'', [(''../moore_8h.html'', 1, '''')]),
      (''moorerange_469'', ''MooreRange'', [(''../namespacefpmas_1_1model.html#a17376db8bc0f38123bd38394b9603714'', 1, ''fpmas::model'')]),
      (''moorerangeconfig_470'', ''MooreRangeConfig'', [(''../namespacefpmas_1_1model.html#a056124bbaa4a1770166a52badc65086d'', 1, ''fpmas::model'')]),
      (''moorerangeperimeter_471'', ''MooreRangePerimeter'', [(''../structfpmas_1_1model_1_1MooreRangePerimeter.html'', 1, ''fpmas::model'')]),
      (''moorerangeperimeter_3c_20vonneumanngrid_3c_20celltype_20_3e_20_3e_472'', ''MooreRangePerimeter&lt; VonNeumannGrid&lt; CellType &gt; &gt;'', [(''../structfpmas_1_1model_1_1MooreRangePerimeter_3_01VonNeumannGrid_3_01CellType_01_4_01_4.html'', 1, ''fpmas::model'')]),
      (''moveagentgroup_473'', ''MoveAgentGroup'', [(''../classfpmas_1_1api_1_1model_1_1MoveAgentGroup.html'', 1, ''fpmas::api::model::MoveAgentGroup&lt; CellType &gt;''),
        (''../classfpmas_1_1model_1_1MoveAgentGroup.html'', 1, ''fpmas::model::MoveAgentGroup&lt; CellType &gt;''),
        (''../classfpmas_1_1model_1_1MoveAgentGroup.html#a149eff11b17eae02c30c47b7a2b8321c'', 1, ''fpmas::model::MoveAgentGroup::MoveAgentGroup()'')]),
      (''moveassign_474'', ''moveAssign'', [(''../classfpmas_1_1api_1_1model_1_1Agent.html#acf5e675efc2b0a5d634afbcb9dd9d98d'', 1, ''fpmas::api::model::Agent::moveAssign()''),
        (''../classfpmas_1_1model_1_1AgentBase.html#aa4d9af0b20d9310fe764ae00142ef8be'', 1, ''fpmas::model::AgentBase::moveAssign()'')]),
      (''moveto_475'', ''moveTo'', [(''../classfpmas_1_1model_1_1SpatialAgent.html#a0e2d10191115349a31dddf76b1dd3061'', 1, ''fpmas::model::SpatialAgent::moveTo()''),
        (''../classfpmas_1_1model_1_1SpatialAgentBase.html#a0c1a2e3bf455891a6187142b9ae67e32'', 1, ''fpmas::model::SpatialAgentBase::moveTo()''),
        (''../classfpmas_1_1model_1_1GridAgent.html#ac4850609356482bbc3052d6cf71cc938'', 1, ''fpmas::model::GridAgent::moveTo(DiscretePoint point) override''),
        (''../classfpmas_1_1model_1_1GridAgent.html#a2da3a11cddb3178a04bdf6ab06fd0c85'', 1, ''fpmas::model::GridAgent::moveTo(GridCellType *cell) override''),
        (''../classfpmas_1_1api_1_1model_1_1SpatialAgent.html#ac119bd703acb668dd20ca7dc97deab24'', 1, ''fpmas::api::model::SpatialAgent::moveTo(Cell *cell)=0''),
        (''../classfpmas_1_1api_1_1model_1_1SpatialAgent.html#a05227b8b6e46c6c6b698ec532a326712'', 1, ''fpmas::api::model::SpatialAgent::moveTo(DistributedId id)=0''),
        (''../classfpmas_1_1api_1_1model_1_1GridAgent.html#a4d8ffe0ed3d4bf1256d5e7310eeaf8d8'', 1, ''fpmas::api::model::GridAgent::moveTo()'')]),
      (''mpi_5fdistributed_5fid_5ftype_476'', ''MPI_DISTRIBUTED_ID_TYPE'', [(''../macros_8h.html#a50ce9b1067e5bd5a7d8c727f07da8f37'', 1, ''macros.h'')]),
      (''mpicommunicator_477'', ''MpiCommunicator'', [(''../classfpmas_1_1api_1_1communication_1_1MpiCommunicator.html'', 1, ''fpmas::api::communication::MpiCommunicator''),
        (''../classfpmas_1_1communication_1_1MpiCommunicator.html'', 1, ''fpmas::communication::MpiCommunicator''),
        (''../classfpmas_1_1communication_1_1MpiCommunicator.html#a42eb9726161eaef0864433d57c1153e6'', 1, ''fpmas::communication::MpiCommunicator::MpiCommunicator()'')]),
      (''mpicommunicatorbase_478'', ''MpiCommunicatorBase'', [(''../classfpmas_1_1communication_1_1MpiCommunicatorBase.html'', 1, ''fpmas::communication'')]),
      (''mpicommworld_479'', ''MpiCommWorld'', [(''../classfpmas_1_1communication_1_1MpiCommWorld.html'', 1, ''fpmas::communication'')]),
      (''mpidistributedid_480'', ''MpiDistributedId'', [(''../structfpmas_1_1api_1_1communication_1_1MpiDistributedId.html'', 1, ''fpmas::api::communication'')]),
      (''mpidistributedidtype_481'', ''mpiDistributedIdType'', [(''../classfpmas_1_1api_1_1graph_1_1DistributedId.html#a6daab47e183372ec5c965c01410c7f3c'', 1, ''fpmas::api::graph::DistributedId'')]),
      (''mt19937_482'', ''mt19937'', [(''../namespacefpmas_1_1random.html#a607ca641f9fda09847b6890cb108d0d9'', 1, ''fpmas::random'')]),
      (''mt19937_5f64_483'', ''mt19937_64'', [(''../namespacefpmas_1_1random.html#a958313953011bd7eb5d1b6225928cf55'', 1, ''fpmas::random'')]),
      (''mutex_484'', ''Mutex'', [(''../classfpmas_1_1api_1_1synchro_1_1Mutex.html'', 1, ''fpmas::api::synchro'')]),
      (''mutex_485'', ''mutex'', [(''../classfpmas_1_1api_1_1graph_1_1DistributedNode.html#aa0e98df57f3a60863e96cde279e88941'', 1, ''fpmas::api::graph::DistributedNode::mutex()''),
        (''../classfpmas_1_1graph_1_1DistributedNode.html#a576c620cde3e2926710a5ec85ad0e498'', 1, ''fpmas::graph::DistributedNode::mutex() const override''),
        (''../classfpmas_1_1graph_1_1DistributedNode.html#a334488e333d1f91d57f9512a9fa1b87c'', 1, ''fpmas::graph::DistributedNode::mutex() override''),
        (''../classfpmas_1_1api_1_1graph_1_1DistributedNode.html#ab317f38259f5465264141f2ebc514bbb'', 1, ''fpmas::api::graph::DistributedNode::mutex()''),
        (''../classfpmas_1_1synchro_1_1Guard.html#a65fd7aeb968788c11cd18b90072d853e'', 1, ''fpmas::synchro::Guard::mutex()'')]),
      (''mutex_2eh_486'', ''mutex.h'', [(''../mutex_8h.html'', 1, '''')]),
      (''mutex_5fclient_2eh_487'', ''mutex_client.h'', [(''../mutex__client_8h.html'', 1, '''')]),
      (''mutex_5fserver_2eh_488'', ''mutex_server.h'', [(''../mutex__server_8h.html'', 1, '''')]),
      (''mutexclient_489'', ''MutexClient'', [(''../classfpmas_1_1synchro_1_1hard_1_1api_1_1MutexClient.html'', 1, ''fpmas::synchro::hard::api::MutexClient&lt; T &gt;''),
        (''../classfpmas_1_1synchro_1_1hard_1_1MutexClient.html'', 1, ''fpmas::synchro::hard::MutexClient&lt; T &gt;''),
        (''../classfpmas_1_1synchro_1_1hard_1_1MutexClient.html#a7aaf2df0eb269e18cc227c1212780dd7'', 1, ''fpmas::synchro::hard::MutexClient::MutexClient()'')]),
      (''mutexrequest_490'', ''MutexRequest'', [(''../structfpmas_1_1synchro_1_1hard_1_1api_1_1MutexRequest.html'', 1, ''fpmas::synchro::hard::api::MutexRequest''),
        (''../structfpmas_1_1synchro_1_1hard_1_1api_1_1MutexRequest.html#aeb6be710b3dd255c41603e1c761560d7'', 1, ''fpmas::synchro::hard::api::MutexRequest::MutexRequest()'')]),
      (''mutexrequesttype_491'', ''MutexRequestType'', [(''../namespacefpmas_1_1synchro_1_1hard_1_1api.html#ac4046501bb4f4567e743cfd877c68e89'', 1, ''fpmas::synchro::hard::api'')]),
      (''mutexserver_492'', ''MutexServer'', [(''../classfpmas_1_1synchro_1_1hard_1_1api_1_1MutexServer.html'', 1, ''fpmas::synchro::hard::api::MutexServer&lt; T &gt;''),
        (''../classfpmas_1_1synchro_1_1hard_1_1MutexServer.html'', 1, ''fpmas::synchro::hard::MutexServer&lt; T &gt;''),
        (''../classfpmas_1_1synchro_1_1hard_1_1MutexServer.html#a6d4e91b0ef7d55e6867a24e1685e8b98'', 1, ''fpmas::synchro::hard::MutexServer::MutexServer()'')]),
      (''mutexserver_493'', ''mutexServer'', [(''../classfpmas_1_1synchro_1_1hard_1_1ServerPack.html#a23bfe2ed85783cb88d4a7cc645deb258'', 1, ''fpmas::synchro::hard::ServerPack'')])]"

section \<open>The letters\<close>

lemma all_0_in: "file_in CHR ''_'' all_0 []"
  by (rule file_inI; unfold all_0_def list.map fst_conv) (simp_all add: file_check)

lemma all_1_in: "file_in CHR ''a'' all_1 []"
  by (rule file_inI; unfold all_1_def list.map fst_conv) (simp_all add: file_check)

lemma all_2_in: "file_in CHR ''b'' all_2 []"
  by (rule file_inI; unfold all_2_def list.map fst_conv) (simp_all add: file_check)

lemma all_3_in: "file_in CHR ''c'' all_3 []"
  by (rule file_inI; unfold all_3_def list.map fst_conv) (simp_all add: file_check)

lemma all_4_in: "file_in CHR ''d'' all_4 []"
  by (rule file_inI; unfold all_4_def list.map fst_conv) (simp_all add: file_check)

lemma all_5_in: "file_in CHR ''e'' all_5 []"
  by (rule file_inI; unfold all_5_def list.map fst_conv) (simp_all add: file_check)

lemma all_6_in: "file_in CHR ''f'' all_6 [''api_227'', ''communication_228'', ''detail_229'', ''exceptions_230'', ''ghost_258'', ''graph_259'', ''hard_260'', ''io_261'', ''json_262'', ''load_5fbalancing_263'', ''model_264'', ''perf_265'', ''random_266'', ''runtime_267'', ''scheduler_268'', ''synchro_269'', ''utils_270'', ''zoltan_271'']"
  by (rule file_inI; unfold all_6_def list.map fst_conv) (simp_all add: file_check)

lemma all_7_in: "file_in CHR ''g'' all_7 []"
  by (rule file_inI; unfold all_7_def list.map fst_conv) (simp_all add: file_check)

lemma all_8_in: "file_in CHR ''h'' all_8 []"
  by (rule file_inI; unfold all_8_def list.map fst_conv) (simp_all add: file_check)

lemma all_9_in: "file_in CHR ''i'' all_9 []"
  by (rule file_inI; unfold all_9_def list.map fst_conv) (simp_all add: file_check)

lemma all_a_in: "file_in CHR ''j'' all_a []"
  by (rule file_inI; unfold all_a_def list.map fst_conv) (simp_all add: file_check)

lemma all_b_in: "file_in CHR ''l'' all_b []"
  by (rule file_inI; unfold all_b_def list.map fst_conv) (simp_all add: file_check)

lemma all_c_in: "file_in CHR ''m'' all_c []"
  by (rule file_inI; unfold all_c_def list.map fst_conv) (simp_all add: file_check)

end
