(* ===== verification/Dox_All_B.thy ===== *)
theory Dox_All_B
  imports Dox_Entries
begin

text \<open>The index files of all entries (\<open>docs/search/all_*.js\<close>), for the letters from n.\<close>

definition all_d :: "raw_entry list" where
  "all_d = [
      (''neighbor_494'', ''Neighbor'', [(''../classfpmas_1_1model_1_1Neighbor.html'', 1, ''fpmas::model::Neighbor&lt; AgentType &gt;''),
        (''../classfpmas_1_1model_1_1Neighbor.html#a0304884c6668454b744a45ed3253a489'', 1, ''fpmas::model::Neighbor::Neighbor(AgentPtr *agent, AgentEdge *edge)''),
        (''../classfpmas_1_1model_1_1Neighbor.html#a31cf6f5a16eb9391dba73c196a62419b'', 1, ''fpmas::model::Neighbor::Neighbor(AgentPtr *agent)''),
        (''../classfpmas_1_1model_1_1Neighbor.html#af1f07083dd75ce75abb86bc8a4891216'', 1, ''fpmas::model::Neighbor::Neighbor()'')]),
      (''neighbors_495'', ''Neighbors'', [(''../classfpmas_1_1model_1_1Neighbors.html'', 1, ''fpmas::model::Neighbors&lt; AgentType &gt;''),
        (''../classfpmas_1_1model_1_1Neighbors.html#a82c25e671de601fe865fa8d820f9e6e5'', 1, ''fpmas::model::Neighbors::Neighbors()'')]),
      (''neighborsaccess_496'', ''NeighborsAccess'', [(''../classfpmas_1_1model_1_1NeighborsAccess.html'', 1, ''fpmas::model'')]),
      (''nlohmann_497'', ''nlohmann'', [(''../namespacenlohmann.html'', 1, '''')]),
      (''node_498'', ''Node'', [(''../classfpmas_1_1api_1_1graph_1_1Node.html'', 1, ''fpmas::api::graph::Node&lt; _IdType, _EdgeType &gt;''),
        (''../classfpmas_1_1graph_1_1Node.html'', 1, ''fpmas::graph::Node&lt; _IdType, _EdgeType &gt;''),
        (''../classfpmas_1_1graph_1_1Node.html#a6c38aaa3de49d5c38a1a58ab234e63c6'', 1, ''fpmas::graph::Node::Node()'')]),
      (''node_499'', ''node'', [(''../classfpmas_1_1scheduler_1_1LambdaTask.html#a57f52c647a52a747909566e4ad1403f7'', 1, ''fpmas::scheduler::LambdaTask::node()''),
        (''../classfpmas_1_1model_1_1AgentBase.html#aac87eb1c094637a4f830055a82591e13'', 1, ''fpmas::model::AgentBase::node() const override''),
        (''../classfpmas_1_1model_1_1AgentBase.html#abf848511e4e9d9d6c8494506b815576c'', 1, ''fpmas::model::AgentBase::node() override''),
        (''../structfpmas_1_1graph_1_1detail_1_1LocalizedNode.html#a3c7cc84c1fa5b5e19a9f356d22c33462'', 1, ''fpmas::graph::detail::LocalizedNode::node()''),
        (''../classfpmas_1_1api_1_1model_1_1Agent.html#aa0946e489e1679844800c1bb591ded85'', 1, ''fpmas::api::model::Agent::node()=0''),
        (''../classfpmas_1_1api_1_1model_1_1Agent.html#a7c9746b6c12e2120f5f9d5aaac39316e'', 1, ''fpmas::api::model::Agent::node() const =0''),
        (''../classfpmas_1_1api_1_1scheduler_1_1NodeTask.html#a0a99b586a6c4f89ffbb4ecc1697aa8d4'', 1, ''fpmas::api::scheduler::NodeTask::node()''),
        (''../classfpmas_1_1model_1_1detail_1_1AgentTaskBase.html#a0f50d279f2f45435eb9f3f0cd5610994'', 1, ''fpmas::model::detail::AgentTaskBase::node()'')]),
      (''node_2eh_500'', ''node.h'', [(''../api_2graph_2node_8h.html'', 1, ''(Global Namespace)''),
        (''../graph_2node_8h.html'', 1, ''(Global Namespace)'')]),
      (''node_3c_20distributedid_2c_20api_3a_3agraph_3a_3adistributededge_3c_20t_20_3e_20_3e_501'', ''Node&lt; DistributedId, api::graph::DistributedEdge&lt; T &gt; &gt;'', [(''../classfpmas_1_1graph_1_1Node.html'', 1, ''fpmas::graph'')]),
      (''node_3c_20distributedid_2c_20distributededge_3c_20t_20_3e_20_3e_502'', ''Node&lt; DistributedId, DistributedEdge&lt; T &gt; &gt;'', [(''../classfpmas_1_1api_1_1graph_1_1Node.html'', 1, ''fpmas::api::graph'')]),
      (''node_5fid_503'', ''node_id'', [(''../structfpmas_1_1graph_1_1detail_1_1LocalizedNodeView.html#ae4375eac6cd2e327c936ec21e65d7db5'', 1, ''fpmas::graph::detail::LocalizedNodeView'')]),
      (''node_5fmap_504'', ''node_map'', [(''../structfpmas_1_1graph_1_1zoltan_1_1ZoltanData.html#a8d41ae8883c03008359984f3434beccf'', 1, ''fpmas::graph::zoltan::ZoltanData'')]),
      (''nodeapi_505'', ''NodeApi'', [(''../classfpmas_1_1synchro_1_1ghost_1_1GhostSyncLinker.html#a5d3705828ba56c640369ce2a12988be9'', 1, ''fpmas::synchro::ghost::GhostSyncLinker::NodeApi()''),
        (''../classfpmas_1_1synchro_1_1hard_1_1LinkClient.html#a2f9d0af7b8a0494c0aeedf6a11de01e0'', 1, ''fpmas::synchro::hard::LinkClient::NodeApi()''),
        (''../classfpmas_1_1synchro_1_1hard_1_1HardSyncLinker.html#a2180423ac831f18832019441d7a0d23c'', 1, ''fpmas::synchro::hard::HardSyncLinker::NodeApi()'')]),
      (''nodebuilder_506'', ''NodeBuilder'', [(''../classfpmas_1_1api_1_1graph_1_1NodeBuilder.html'', 1, ''fpmas::api::graph'')]),
      (''nodebuilder_3c_20agentptr_20_3e_507'', ''NodeBuilder&lt; AgentPtr &gt;'', [(''../classfpmas_1_1api_1_1graph_1_1NodeBuilder.html'', 1, ''fpmas::api::graph'')]),
      (''nodecallback_508'', ''NodeCallback'', [(''../classfpmas_1_1api_1_1graph_1_1DistributedGraph.html#a30b9d94b6dc1ee6715f322ffed3eb3a7'', 1, ''fpmas::api::graph::DistributedGraph'')]),
      (''nodecount_509'', ''nodeCount'', [(''../classfpmas_1_1api_1_1graph_1_1NodeBuilder.html#a68c7d29ebd39b4d5210803e98350c1b3'', 1, ''fpmas::api::graph::NodeBuilder::nodeCount()''),
        (''../classfpmas_1_1graph_1_1DistributedNodeBuilder.html#a38aaf44d9280a784f8167a1af064df48'', 1, ''fpmas::graph::DistributedNodeBuilder::nodeCount()''),
        (''../classfpmas_1_1model_1_1AgentNodeBuilder.html#a3a49a4df3712a668e3ca37b6a20a8dcc'', 1, ''fpmas::model::AgentNodeBuilder::nodeCount()'')]),
      (''nodeidhash_510'', ''NodeIdHash'', [(''../classfpmas_1_1api_1_1graph_1_1Graph.html#a48e181d44f84794298ec7c06fd2e5d14'', 1, ''fpmas::api::graph::Graph'')]),
      (''nodeidtype_511'', ''NodeIdType'', [(''../classfpmas_1_1api_1_1graph_1_1Graph.html#afe364671e442294515e14bbffdd6dfba'', 1, ''fpmas::api::graph::Graph'')]),
      (''nodemap_512'', ''NodeMap'', [(''../namespacefpmas_1_1api_1_1graph.html#acc7eb1311839a21b24362b472d3ea887'', 1, ''fpmas::api::graph::NodeMap()''),
        (''../classfpmas_1_1model_1_1detail_1_1LoadBalancingTask.html#a79067d881e77bf66e3d7fedfa7d52273'', 1, ''fpmas::model::detail::LoadBalancingTask::NodeMap()''),
        (''../classfpmas_1_1api_1_1graph_1_1LocationManager.html#a48197447bf0348dca279317dfb31aaf4'', 1, ''fpmas::api::graph::LocationManager::NodeMap()''),
        (''../classfpmas_1_1api_1_1graph_1_1Graph.html#ac43fded831674b513ef7b1535d9d1814'', 1, ''fpmas::api::graph::Graph::NodeMap()'')]),
      (''nodeptrwrapper_513'', ''NodePtrWrapper'', [(''../namespacefpmas_1_1graph.html#a6c74a4ed290e011f46afa3674cea808e'', 1, ''fpmas::graph'')]),
      (''nodes_514'', ''nodes'', [(''../structfpmas_1_1graph_1_1zoltan_1_1ZoltanData.html#a413ae9094bc5b3d38bd52aa5e0290673'', 1, ''fpmas::graph::zoltan::ZoltanData'')]),
      (''nodetask_515'', ''NodeTask'', [(''../classfpmas_1_1api_1_1scheduler_1_1NodeTask.html'', 1, ''fpmas::api::scheduler'')]),
      (''nodetask_3c_20agentptr_20_3e_516'', ''NodeTask&lt; AgentPtr &gt;'', [(''../classfpmas_1_1api_1_1scheduler_1_1NodeTask.html'', 1, ''fpmas::api::scheduler'')]),
      (''nodetype_517'', ''NodeType'', [(''../classfpmas_1_1graph_1_1detail_1_1DistributedGraph.html#aa0531e967a109d7275b52514b6d0ad47'', 1, ''fpmas::graph::detail::DistributedGraph::NodeType()''),
        (''../classfpmas_1_1api_1_1graph_1_1Edge.html#a2e471f354b213b8d25bf712676815f16'', 1, ''fpmas::api::graph::Edge::NodeType()'')]),
      (''nodeupdatepack_518'', ''NodeUpdatePack'', [(''../structfpmas_1_1synchro_1_1NodeUpdatePack.html'', 1, ''fpmas::synchro::NodeUpdatePack&lt; T &gt;''),
        (''../structfpmas_1_1synchro_1_1NodeUpdatePack.html#a605cd7233d25674c6df55675250fc6dc'', 1, ''fpmas::synchro::NodeUpdatePack::NodeUpdatePack()'')]),
      (''normaldistribution_519'', ''NormalDistribution'', [(''../namespacefpmas_1_1random.html#ab48374532f5b05865d34cf57c8b5e868'', 1, ''fpmas::random'')]),
      (''notify_520'', ''notify'', [(''../classfpmas_1_1synchro_1_1hard_1_1api_1_1MutexServer.html#aac00224db9287acfc0ff0d5841451538'', 1, ''fpmas::synchro::hard::api::MutexServer::notify()''),
        (''../classfpmas_1_1synchro_1_1hard_1_1MutexServer.html#a808685ba1edaaf2767339d61babb0670'', 1, ''fpmas::synchro::hard::MutexServer::notify()'')]),
      (''num_5fedge_521'', ''num_edge'', [(''../classfpmas_1_1graph_1_1RandomGraphBuilder.html#a17de1db3677d5652b354ff32810e8534'', 1, ''fpmas::graph::RandomGraphBuilder'')]),
      (''num_5fedges_5fmulti_5ffn_522'', ''num_edges_multi_fn'', [(''../namespacefpmas_1_1graph_1_1zoltan.html#a8ceb1dee71273121b43fb532e84ca6f1'', 1, ''fpmas::graph::zoltan'')]),
      (''num_5ffixed_5fobj_5ffn_523'', ''num_fixed_obj_fn'', [(''../namespacefpmas_1_1graph_1_1zoltan.html#afc8d8a027ec5122418a777805ced56b2'', 1, ''fpmas::graph::zoltan'')]),
      (''num_5fgid_5fentries_524'', ''NUM_GID_ENTRIES'', [(''../namespacefpmas_1_1graph_1_1zoltan.html#af95733f89124974337a1602382bc0155'', 1, ''fpmas::graph::zoltan'')]),
      (''num_5fobj_525'', ''num_obj'', [(''../namespacefpmas_1_1graph_1_1zoltan.html#a4622954269c2bc2645ac99eaaa54edbd'', 1, ''fpmas::graph::zoltan'')])]"

definition all_e :: "raw_entry list" where
  "all_e = [
      (''obj_5flist_526'', ''obj_list'', [(''../namespacefpmas_1_1graph_1_1zoltan.html#adba89d9607e5718874270d2bcf31f873'', 1, ''fpmas::graph::zoltan'')]),
      (''oneraseedgecallbacks_527'', ''onEraseEdgeCallbacks'', [(''../classfpmas_1_1api_1_1graph_1_1Graph.html#a09f2ddf34df400d82d1b4da3330f8921'', 1, ''fpmas::api::graph::Graph::onEraseEdgeCallbacks()''),
        (''../classfpmas_1_1graph_1_1Graph.html#ac11ed85a4792734a6fa023fdd32eff56'', 1, ''fpmas::graph::Graph::onEraseEdgeCallbacks() const override'')]),
      (''onerasenodecallbacks_528'', ''onEraseNodeCallbacks'', [(''../classfpmas_1_1graph_1_1Graph.html#a34d5a980f9e62830b6c3ef8b99f2aeee'', 1, ''fpmas::graph::Graph::onEraseNodeCallbacks()''),
        (''../classfpmas_1_1api_1_1graph_1_1Graph.html#abe6acc8d3eeaddaa066db48d126ef531'', 1, ''fpmas::api::graph::Graph::onEraseNodeCallbacks()'')]),
      (''oninsertedgecallbacks_529'', ''onInsertEdgeCallbacks'', [(''../classfpmas_1_1graph_1_1Graph.html#ad219152a3c8894f49c9357dbdb8a4a73'', 1, ''fpmas::graph::Graph::onInsertEdgeCallbacks()''),
        (''../classfpmas_1_1api_1_1graph_1_1Graph.html#a891b12b6e3d0a2d8302680d53fcd7871'', 1, ''fpmas::api::graph::Graph::onInsertEdgeCallbacks()'')]),
      (''oninsertnodecallbacks_530'', ''onInsertNodeCallbacks'', [(''../classfpmas_1_1graph_1_1Graph.html#a666ffbeb3d0904c7b7cccc3f3f0ed6f2'', 1, ''fpmas::graph::Graph::onInsertNodeCallbacks()''),
        (''../classfpmas_1_1api_1_1graph_1_1Graph.html#aca9cd9a8a849a36c2db504a6db6502c1'', 1, ''fpmas::api::graph::Graph::onInsertNodeCallbacks()'')]),
      (''onsetdistantcallbacks_531'', ''onSetDistantCallbacks'', [(''../classfpmas_1_1api_1_1graph_1_1DistributedGraph.html#ab4899ff35c411748480e427b8efd0af9'', 1, ''fpmas::api::graph::DistributedGraph::onSetDistantCallbacks()''),
        (''../classfpmas_1_1graph_1_1detail_1_1DistributedGraph.html#ab78b2cb2005d17808aca6988d2d892a5'', 1, ''fpmas::graph::detail::DistributedGraph::onSetDistantCallbacks()'')]),
      (''onsetlocalcallbacks_532'', ''onSetLocalCallbacks'', [(''../classfpmas_1_1api_1_1graph_1_1DistributedGraph.html#af3edf2b3e4368c13c14fa991f6daa74f'', 1, ''fpmas::api::graph::DistributedGraph::onSetLocalCallbacks()''),
        (''../classfpmas_1_1graph_1_1detail_1_1DistributedGraph.html#a7888600e46477335aa752c9c3dc77678'', 1, ''fpmas::graph::detail::DistributedGraph::onSetLocalCallbacks()'')]),
      (''operator_20agenttype_20_2a_533'', ''operator AgentType *'', [(''../classfpmas_1_1model_1_1Neighbor.html#a649a9450ca879b99d27a9a627418bcdc'', 1, ''fpmas::model::Neighbor'')]),
      (''operator_20const_20t_20_2a_534'', ''operator const T *'', [(''../classfpmas_1_1api_1_1utils_1_1PtrWrapper.html#acaf17a3071b237d58978ca3df3409c41'', 1, ''fpmas::api::utils::PtrWrapper'')]),
      (''operator_20t_2a_535'', ''operator T*'', [(''../classfpmas_1_1api_1_1utils_1_1PtrWrapper.html#a8b5fd0670ce17dbc1bf35a8887e84d48'', 1, ''fpmas::api::utils::PtrWrapper'')]),
      (''operator_21_3d_536'', ''operator!='', [(''../classfpmas_1_1api_1_1graph_1_1DistributedId.html#a6dd1527b19d4aaf29705f0f5f1d3c944'', 1, ''fpmas::api::graph::DistributedId'')]),
      (''operator_28_29_537'', ''operator()'', [(''../classfpmas_1_1graph_1_1detail_1_1DistanceComparator.html#a0d066595f7904e2d31feb78b0aade7a6'', 1, ''fpmas::graph::detail::DistanceComparator::operator()()''),
        (''../classfpmas_1_1io_1_1Local_1_1Single.html#a539e50a6dd6eaef4a2e5d0f5d840a573'', 1, ''fpmas::io::Local::Single::operator()()''),
        (''../classfpmas_1_1io_1_1Local_1_1All.html#a701c63b46e40584c9cc685ef934695a8'', 1, ''fpmas::io::Local::All::operator()()''),
        (''../classfpmas_1_1io_1_1Reduce_1_1Single.html#a5f83d65dbec9fa1a1f21bdb12d21ca22'', 1, ''fpmas::io::Reduce::Single::operator()()''),
        (''../classfpmas_1_1io_1_1Reduce_1_1All.html#af7495b766611fe3fdde44f110f057d61'', 1, ''fpmas::io::Reduce::All::operator()()''),
        (''../classfpmas_1_1api_1_1random_1_1Generator.html#a6ee526b5d7080fd554ab3a1b289e2a6b'', 1, ''fpmas::api::random::Generator::operator()()''),
        (''../structfpmas_1_1api_1_1graph_1_1IdHash.html#a3366edfd3ec91842e3e3850e934d0261'', 1, ''fpmas::api::graph::IdHash::operator()()''),
        (''../structfpmas_1_1model_1_1PointHash.html#a842599ef8402f419619e04d42097fe9e'', 1, ''fpmas::model::PointHash::operator()()''),
        (''../structstd_1_1hash_3_01fpmas_1_1model_1_1DiscretePoint_01_4.html#a7c02c2285a81324e143ac00b7b8db269'', 1, ''std::hash&lt; fpmas::model::DiscretePoint &gt;::operator()()''),
        (''../structstd_1_1hash_3_01DistributedId_01_4.html#ac27f43a045e9588d77c5bbf3c2ae363e'', 1, ''std::hash&lt; DistributedId &gt;::operator()()''),
        (''../classfpmas_1_1model_1_1ChebyshevDistance.html#af59d9a47483c33dd17215f857d3906d5'', 1, ''fpmas::model::ChebyshevDistance::operator()()''),
        (''../structfpmas_1_1model_1_1MooreRangePerimeter_3_01VonNeumannGrid_3_01CellType_01_4_01_4.html#a1cb856cb3b8061a2a999c49f9b7a80af'', 1, ''fpmas::model::MooreRangePerimeter&lt; VonNeumannGrid&lt; CellType &gt; &gt;::operator()()''),
        (''../classfpmas_1_1model_1_1ManhattanDistance.html#ad69615e2eb3741ab9757364675fa53e8'', 1, ''fpmas::model::ManhattanDistance::operator()()''),
        (''../structfpmas_1_1model_1_1VonNeumannRangePerimeter_3_01VonNeumannGrid_3_01CellType_01_4_01_4.html#a9de7f58983b1893e751bed26964a4b2d'', 1, ''fpmas::model::VonNeumannRangePerimeter&lt; VonNeumannGrid&lt; CellType &gt; &gt;::operator()()''),
        (''../classfpmas_1_1random_1_1Distribution.html#a93b8db5c90a92f9b366e83aeea19c4b2'', 1, ''fpmas::random::Distribution::operator()()''),
        (''../classfpmas_1_1random_1_1Generator.html#aee2767771d5c027c103bc5d80401e5a0'', 1, ''fpmas::random::Generator::operator()()''),
        (''../classfpmas_1_1random_1_1DistributedGenerator.html#ace59c13f208ae1806962d9911375c956'', 1, ''fpmas::random::DistributedGenerator::operator()()''),
        (''../structfpmas_1_1utils_1_1Concat.html#ab042296c4ddf66eba9bef7be34c1af9f'', 1, ''fpmas::utils::Concat::operator()()'')]),
      (''operator_2a_538'', ''operator*'', [(''../classfpmas_1_1api_1_1utils_1_1PtrWrapper.html#a88aa8031412234cc55e53c2b86aaf9ab'', 1, ''fpmas::api::utils::PtrWrapper::operator*() const''),
        (''../classfpmas_1_1api_1_1utils_1_1PtrWrapper.html#a6216685c98ab6df4d1a2a4a46043dbd4'', 1, ''fpmas::api::utils::PtrWrapper::operator*()''),
        (''../classfpmas_1_1model_1_1Neighbor.html#adfa67afc88d6bedeb440405dd7506c84'', 1, ''fpmas::model::Neighbor::operator*()'')]),
      (''operator_2b_2b_539'', ''operator++'', [(''../classfpmas_1_1api_1_1graph_1_1DistributedId.html#a1948ef62f00cb4e9951faa92e57d9b7f'', 1, ''fpmas::api::graph::DistributedId::operator++()''),
        (''../classfpmas_1_1api_1_1graph_1_1Id.html#ad1a57f4341e09cbfc40c82946550edcb'', 1, ''fpmas::api::graph::Id::operator++()'')]),
      (''operator_2d_3e_540'', ''operator-&gt;'', [(''../classfpmas_1_1api_1_1utils_1_1PtrWrapper.html#a405a80c514cf572530d979ec563146e6'', 1, ''fpmas::api::utils::PtrWrapper::operator-&gt;()''),
        (''../classfpmas_1_1api_1_1utils_1_1PtrWrapper.html#a3d1226d3486d2f8a80541ec3eb118881'', 1, ''fpmas::api::utils::PtrWrapper::operator-&gt;() const''),
        (''../classfpmas_1_1model_1_1Neighbor.html#a873c043dafa06fc95093b924aeda92bb'', 1, ''fpmas::model::Neighbor::operator-&gt;()'')]),
      (''operator_3c_541'', ''operator&lt;'', [(''../classfpmas_1_1api_1_1graph_1_1DistributedId.html#a044cc6d16e097b0ff87df3b390e78068'', 1, ''fpmas::api::graph::DistributedId'')]),
      (''operator_3c_3c_542'', ''operator&lt;&lt;'', [(''../namespacefpmas_1_1api_1_1graph.html#abe5521f3ef478eb4bba78b8cf5e2a6a4'', 1, ''fpmas::api::graph::operator&lt;&lt;(std::ostream &amp;os, const DistributedId &amp;id)''),
        (''../namespacefpmas_1_1api_1_1graph.html#a131b1b921a1f3636426e6a8ebcf10722'', 1, ''fpmas::api::graph::operator&lt;&lt;(std::ostream &amp;os, const LocationState &amp;loc)''),
        (''../namespacefpmas_1_1api_1_1model.html#a789eb79b1637abcadd080ec44394ff8d'', 1, ''fpmas::api::model::operator&lt;&lt;()'')]),
      (''operator_3d_543'', ''operator='', [(''../classfpmas_1_1api_1_1communication_1_1DataPack.html#a1a885aac8266c8f036e24e2ae11b4201'', 1, ''fpmas::api::communication::DataPack::operator=()''),
        (''../structfpmas_1_1api_1_1communication_1_1Request.html#a5bd93a3865c8118f1f920dc3921ad833'', 1, ''fpmas::api::communication::Request::operator=()''),
        (''../classfpmas_1_1api_1_1model_1_1AgentPtr.html#a975c6a0284722c533a4dd947f22b5843'', 1, ''fpmas::api::model::AgentPtr::operator=(AgentPtr &amp;&amp;other)''),
        (''../classfpmas_1_1api_1_1model_1_1AgentPtr.html#a6425a7cf25850aa5c091ff4c3988ba77'', 1, ''fpmas::api::model::AgentPtr::operator=(const AgentPtr &amp;)''),
        (''../classfpmas_1_1graph_1_1detail_1_1DistributedGraph.html#a0112f4a68bad13afc46e09f0997c1dfe'', 1, ''fpmas::graph::detail::DistributedGraph::operator=()''),
        (''../classfpmas_1_1graph_1_1Graph.html#a32e2720851052ab1996facb63c00a068'', 1, ''fpmas::graph::Graph::operator=()''),
        (''../classfpmas_1_1api_1_1communication_1_1DataPack.html#aac75575d4cf73ffaa41735e4ce257e03'', 1, ''fpmas::api::communication::DataPack::operator=()''),
        (''../classfpmas_1_1model_1_1detail_1_1AgentGroupBase.html#a879251be90fc8954021cd0f57517696a'', 1, ''fpmas::model::detail::AgentGroupBase::operator=()'')]),
      (''operator_3d_3d_544'', ''operator=='', [(''../classfpmas_1_1api_1_1graph_1_1DistributedId.html#abb2a1130a07b9bce785c8882c722a0b3'', 1, ''fpmas::api::graph::DistributedId::operator==()''),
        (''../classfpmas_1_1api_1_1graph_1_1Id.html#a91c47fa6f34308f568ffcc50174fa223'', 1, ''fpmas::api::graph::Id::operator==()''),
        (''../structfpmas_1_1synchro_1_1hard_1_1api_1_1MutexRequest.html#a188359b9d19a52e3bbf09e7a84587657'', 1, ''fpmas::synchro::hard::api::MutexRequest::operator==()''),
        (''../namespacefpmas_1_1api_1_1communication.html#af9cdbe40e4ee988dc3d0b9123b972ca2'', 1, ''fpmas::api::communication::operator==()''),
        (''../namespacefpmas_1_1api_1_1model.html#a2edae9b216b491380a80b2f3e42d78b3'', 1, ''fpmas::api::model::operator==()'')]),
      (''operator_5b_5d_545'', ''operator[]'', [(''../classfpmas_1_1model_1_1Neighbors.html#abf1492a8a051d3b15ee5a5fdffdb7b8a'', 1, ''fpmas::model::Neighbors::operator[](std::size_t i)''),
        (''../classfpmas_1_1model_1_1Neighbors.html#ac92b1e3c73fd47f218988d9daa708833'', 1, ''fpmas::model::Neighbors::operator[](std::size_t i) const'')]),
      (''outneighbors_546'', ''outNeighbors'', [(''../classfpmas_1_1model_1_1NeighborsAccess.html#a6bada5c25bddac3caa77a97c88966334'', 1, ''fpmas::model::NeighborsAccess::outNeighbors(api::graph::LayerId layer) const''),
        (''../classfpmas_1_1model_1_1NeighborsAccess.html#a5ee662fa0bce76b54fb44cf3877b0e04'', 1, ''fpmas::model::NeighborsAccess::outNeighbors() const''),
        (''../classfpmas_1_1api_1_1graph_1_1Node.html#a190df8c997cbef3d37c7bb9bc440eff0'', 1, ''fpmas::api::graph::Node::outNeighbors() const =0''),
        (''../classfpmas_1_1api_1_1graph_1_1Node.html#afe764c113721a3d31fa9aa6d700fe3c6'', 1, ''fpmas::api::graph::Node::outNeighbors(LayerId layer_id) const =0''),
        (''../classfpmas_1_1graph_1_1Node.html#a44717e8ca69112422ba4e6147e11b247'', 1, ''fpmas::graph::Node::outNeighbors() const override''),
        (''../classfpmas_1_1graph_1_1Node.html#a8168dd4eb18249100aadb9e5252907c2'', 1, ''fpmas::graph::Node::outNeighbors(api::graph::LayerId) const override'')]),
      (''outoffieldexception_547'', ''OutOfFieldException'', [(''../classfpmas_1_1api_1_1model_1_1OutOfFieldException.html'', 1, ''fpmas::api::model::OutOfFieldException''),
        (''../classfpmas_1_1api_1_1model_1_1OutOfFieldException.html#a9998b91b35ccc3033bd41b91461d7e85'', 1, ''fpmas::api::model::OutOfFieldException::OutOfFieldException()'')]),
      (''outofmobilityfieldexception_548'', ''OutOfMobilityFieldException'', [(''../classfpmas_1_1api_1_1model_1_1OutOfMobilityFieldException.html'', 1, ''fpmas::api::model::OutOfMobilityFieldException''),
        (''../classfpmas_1_1api_1_1model_1_1OutOfMobilityFieldException.html#a51e02031da3777c89b3813cf6b058c81'', 1, ''fpmas::api::model::OutOfMobilityFieldException::OutOfMobilityFieldException(fpmas::api::graph::DistributedId agent_id, fpmas::api::graph::DistributedId cell_id)''),
        (''../classfpmas_1_1api_1_1model_1_1OutOfMobilityFieldException.html#a09b350f13e28a08d87b9e39e519708cf'', 1, ''fpmas::api::model::OutOfMobilityFieldException::OutOfMobilityFieldException(fpmas::api::graph::DistributedId agent_id, fpmas::api::model::DiscretePoint agent_location, fpmas::api::model::DiscretePoint cell_point)'')]),
      (''output_549'', ''Output'', [(''../classfpmas_1_1api_1_1io_1_1Output.html'', 1, ''fpmas::api::io'')]),
      (''output_2eh_550'', ''output.h'', [(''../api_2io_2output_8h.html'', 1, ''(Global Namespace)''),
        (''../io_2output_8h.html'', 1, ''(Global Namespace)'')]),
      (''output_5fstream_551'', ''output_stream'', [(''../classfpmas_1_1io_1_1OutputBase.html#ae3868c6b642e1f79cc196269f9174275'', 1, ''fpmas::io::OutputBase'')]),
      (''outputbase_552'', ''OutputBase'', [(''../classfpmas_1_1io_1_1OutputBase.html'', 1, ''fpmas::io::OutputBase''),
        (''../classfpmas_1_1io_1_1OutputBase.html#a2ea2e49aa07949866524464d806264f0'', 1, ''fpmas::io::OutputBase::OutputBase()'')]),
      (''outputstream_553'', ''OutputStream'', [(''../structfpmas_1_1api_1_1io_1_1OutputStream.html'', 1, ''fpmas::api::io'')]),
      (''outputtask_554'', ''OutputTask'', [(''../classfpmas_1_1io_1_1OutputTask.html'', 1, ''fpmas::io::OutputTask''),
        (''../classfpmas_1_1io_1_1OutputTask.html#a8d25b0cfff8c10b276af62a67c972eed'', 1, ''fpmas::io::OutputTask::OutputTask()'')]),
      (''string_555'', ''string'', [(''../classfpmas_1_1api_1_1graph_1_1Id.html#a7bc968e18c41cf2322be8d4d219b25f8'', 1, ''fpmas::api::graph::Id::string()''),
        (''../classfpmas_1_1api_1_1graph_1_1DistributedId.html#a626f433c58d6b254b20b72f0f00f0d3c'', 1, ''fpmas::api::graph::DistributedId::string()'')])]"

definition all_f :: "raw_entry list" where
  "all_f = [
      (''p_556'', ''p'', [(''../structfpmas_1_1graph_1_1detail_1_1LocalizedNode.html#aed55369a352504a80559eb668b692eea'', 1, ''fpmas::graph::detail::LocalizedNode::p()''),
        (''../structfpmas_1_1graph_1_1detail_1_1LocalizedNodeView.html#ac11d0b2f8ac6234b2c4fb868d4da6faf'', 1, ''fpmas::graph::detail::LocalizedNodeView::p()'')]),
      (''params_557'', ''Params'', [(''../structfpmas_1_1io_1_1Reduce.html#a29c4162620112bbd76a7e4c63cebb1ad'', 1, ''fpmas::io::Reduce::Params()''),
        (''../structfpmas_1_1io_1_1Local.html#a51d1e1fa354756c66afc61bb2675e28f'', 1, ''fpmas::io::Local::Params()'')]),
      (''partitionmap_558'', ''PartitionMap'', [(''../namespacefpmas_1_1api_1_1graph.html#a3b8d45dcdede19e41beff03c30a0671d'', 1, ''fpmas::api::graph::PartitionMap()''),
        (''../classfpmas_1_1model_1_1detail_1_1LoadBalancingTask.html#a8f59dd435e4d24623fcc23afa2794192'', 1, ''fpmas::model::detail::LoadBalancingTask::PartitionMap()'')]),
      (''perceptionrange_559'', ''perceptionRange'', [(''../classfpmas_1_1model_1_1SpatialAgentBase.html#aa114a59eacb17ca4f24bf465acd58a27'', 1, ''fpmas::model::SpatialAgentBase::perceptionRange()''),
        (''../classfpmas_1_1api_1_1model_1_1SpatialAgent.html#a1544209c531ed943b5e2cba0eb87736d'', 1, ''fpmas::api::model::SpatialAgent::perceptionRange()'')]),
      (''perceptions_560'', ''perceptions'', [(''../classfpmas_1_1model_1_1SpatialAgentBase.html#a61da76c0d3e47fc209aaabbb2d55845b'', 1, ''fpmas::model::SpatialAgentBase'')]),
      (''perf_2eh_561'', ''perf.h'', [(''../api_2utils_2perf_8h.html'', 1, ''(Global Namespace)''),
        (''../utils_2perf_8h.html'', 1, ''(Global Namespace)'')]),
      (''perimeter_562'', ''Perimeter'', [(''../structfpmas_1_1model_1_1GridRangeConfig.html#a91dd3840ef2cb8adff7f55cf6c3ed413'', 1, ''fpmas::model::GridRangeConfig'')]),
      (''period_563'', ''Period'', [(''../namespacefpmas_1_1api_1_1scheduler.html#aae904660e81c6a78fd0b27db5226f6f8'', 1, ''fpmas::api::scheduler'')]),
      (''point_564'', ''Point'', [(''../structfpmas_1_1graph_1_1detail_1_1Point.html'', 1, ''fpmas::graph::detail::Point''),
        (''../structfpmas_1_1graph_1_1detail_1_1Point.html#ab262273bdb7d8724e83dd88044919964'', 1, ''fpmas::graph::detail::Point::Point()'')]),
      (''pointhash_565'', ''PointHash'', [(''../structfpmas_1_1model_1_1PointHash.html'', 1, ''fpmas::model'')]),
      (''poissondistribution_566'', ''PoissonDistribution'', [(''../namespacefpmas_1_1random.html#acc013969073992c63b84ea645dcf0894'', 1, ''fpmas::random'')]),
      (''probe_567'', ''Probe'', [(''../classfpmas_1_1api_1_1utils_1_1perf_1_1Probe.html'', 1, ''fpmas::api::utils::perf::Probe''),
        (''../classfpmas_1_1utils_1_1perf_1_1Probe.html'', 1, ''fpmas::utils::perf::Probe''),
        (''../classfpmas_1_1utils_1_1perf_1_1Probe.html#a8553661239f307f739c61eab99c7ab8d'', 1, ''fpmas::utils::perf::Probe::Probe(std::string label)''),
        (''../classfpmas_1_1utils_1_1perf_1_1Probe.html#a1d36fd273f219f118ac4b0f6f7816cb4'', 1, ''fpmas::utils::perf::Probe::Probe(std::string label, std::function&lt; bool()&gt; condition)'')]),
      (''probe_568'', ''probe'', [(''../classfpmas_1_1api_1_1communication_1_1MpiCommunicator.html#a5dbf8bcbe25f3ec56a90e0640e5d2a3b'', 1, ''fpmas::api::communication::MpiCommunicator::probe()''),
        (''../classfpmas_1_1api_1_1communication_1_1TypedMpi.html#ac0b47b6e02f6457960a711b3ca2372cd'', 1, ''fpmas::api::communication::TypedMpi::probe()''),
        (''../classfpmas_1_1communication_1_1MpiCommunicatorBase.html#ab3e5b2caaa24391b5e0a32e1a4279a68'', 1, ''fpmas::communication::MpiCommunicatorBase::probe()''),
        (''../classfpmas_1_1communication_1_1detail_1_1TypedMpi.html#aa8cab487526f65d535d2ab3df7546be0'', 1, ''fpmas::communication::detail::TypedMpi::probe()'')]),
      (''ptr_569'', ''Ptr'', [(''../structfpmas_1_1io_1_1json_1_1light__serializer_3_01fpmas_1_1api_1_1utils_1_1PtrWrapper_3_01fpmas087459d4f5dfa9eac727b48e6313447e.html#a3107ad4d8a945ec139c5bfd6a59eed2f'', 1, ''fpmas::io::json::light_serializer&lt; fpmas::api::utils::PtrWrapper&lt; fpmas::model::GridCellBase&lt; GridCellType, Derived &gt; &gt; &gt;'')]),
      (''ptr_570'', ''ptr'', [(''../classfpmas_1_1api_1_1utils_1_1PtrWrapper.html#ae99a83391899f67e6e2e9779bc3a8819'', 1, ''fpmas::api::utils::PtrWrapper'')]),
      (''ptr_571'', ''Ptr'', [(''../structfpmas_1_1io_1_1json_1_1light__serializer_3_01fpmas_1_1api_1_1utils_1_1PtrWrapper_3_01fpmasc84e89e520a4a0cda5345fc83f0b8125.html#abaa285152283706d11aecf37f76d58cf'', 1, ''fpmas::io::json::light_serializer&lt; fpmas::api::utils::PtrWrapper&lt; fpmas::model::SpatialAgentBase&lt; AgentType, CellType, Derived &gt; &gt; &gt;::Ptr()''),
        (''../structnlohmann_1_1adl__serializer_3_01fpmas_1_1api_1_1utils_1_1PtrWrapper_3_01fpmas_1_1model_1_15c21a6b0ad54d23aaa2f84ed15f8db9e.html#a8cfac8299ee79ff51df516a3b90dc6db'', 1, ''nlohmann::adl_serializer&lt; fpmas::api::utils::PtrWrapper&lt; fpmas::model::SpatialAgentBase&lt; AgentType, CellType, Derived &gt; &gt; &gt;::Ptr()''),
        (''../structfpmas_1_1io_1_1json_1_1light__serializer_3_01fpmas_1_1api_1_1utils_1_1PtrWrapper_3_01fpmas6514cec9ffaf9ddc3a05c9b72f5062b9.html#a3e191a5178a3c96627f31f198772bd36'', 1, ''fpmas::io::json::light_serializer&lt; fpmas::api::utils::PtrWrapper&lt; fpmas::model::GridAgent&lt; AgentType, CellType, Derived &gt; &gt; &gt;::Ptr()''),
        (''../structnlohmann_1_1adl__serializer_3_01fpmas_1_1api_1_1utils_1_1PtrWrapper_3_01fpmas_1_1model_1_136032a46204f163d868560f92634ba90.html#a39bebf4e517117dd93eb3244e71cd2bf'', 1, ''nlohmann::adl_serializer&lt; fpmas::api::utils::PtrWrapper&lt; fpmas::model::GridAgent&lt; AgentType, CellType, Derived &gt; &gt; &gt;::Ptr()''),
        (''../structnlohmann_1_1adl__serializer_3_01fpmas_1_1api_1_1utils_1_1PtrWrapper_3_01fpmas_1_1model_1_1784f1e1360367771d11e7adbddb7008f.html#a8460d25c8ffca25f9ea8a7507a0bbbe4'', 1, ''nlohmann::adl_serializer&lt; fpmas::api::utils::PtrWrapper&lt; fpmas::model::GridCellBase&lt; GridCellType, Derived &gt; &gt; &gt;::Ptr()''),
        (''../structfpmas_1_1io_1_1json_1_1light__serializer_3_01fpmas_1_1api_1_1utils_1_1PtrWrapper_3_01fpmasa66c0aec42b8e119b4cc9e7da5cc5a4c.html#a4ebe74bed514f34b1f52cd94a479774d'', 1, ''fpmas::io::json::light_serializer&lt; fpmas::api::utils::PtrWrapper&lt; fpmas::model::GraphCellBase&lt; AgentType, Derived &gt; &gt; &gt;::Ptr()''),
        (''../structnlohmann_1_1adl__serializer_3_01fpmas_1_1api_1_1utils_1_1PtrWrapper_3_01fpmas_1_1model_1_189f18958e721d64cf9081bb53023a6a1.html#add64ac82ef61074da79fde80c017781d'', 1, ''nlohmann::adl_serializer&lt; fpmas::api::utils::PtrWrapper&lt; fpmas::model::GraphCellBase&lt; AgentType, Derived &gt; &gt; &gt;::Ptr()'')]),
      (''ptr_5fwrapper_2eh_572'', ''ptr_wrapper.h'', [(''../ptr__wrapper_8h.html'', 1, '''')]),
      (''ptrwrapper_573'', ''PtrWrapper'', [(''../classfpmas_1_1api_1_1utils_1_1PtrWrapper.html'', 1, ''fpmas::api::utils::PtrWrapper&lt; T &gt;''),
        (''../classfpmas_1_1api_1_1utils_1_1PtrWrapper.html#ab73e879af5ad12ba5b5e6739cffaa866'', 1, ''fpmas::api::utils::PtrWrapper::PtrWrapper()''),
        (''../classfpmas_1_1api_1_1utils_1_1PtrWrapper.html#a457ce5f8a61c4f454b92fd3b6bee0f9a'', 1, ''fpmas::api::utils::PtrWrapper::PtrWrapper(T *ptr)'')]),
      (''ptrwrapper_3c_20api_3a_3amodel_3a_3aagent_20_3e_574'', ''PtrWrapper&lt; api::model::Agent &gt;'', [(''../classfpmas_1_1api_1_1utils_1_1PtrWrapper.html'', 1, ''fpmas::api::utils'')]),
      (''push_575'', ''push'', [(''../classfpmas_1_1model_1_1AgentNodeBuilder.html#ae9897ac96d1826471e8c62e7cc60c480'', 1, ''fpmas::model::AgentNodeBuilder'')]),
      (''pushrequest_576'', ''pushRequest'', [(''../classfpmas_1_1synchro_1_1hard_1_1api_1_1HardSyncMutex.html#a0ab06fe23e238b08a97768f771ff6013'', 1, ''fpmas::synchro::hard::api::HardSyncMutex::pushRequest()''),
        (''../classfpmas_1_1synchro_1_1hard_1_1HardSyncMutex.html#a4579865be13a280c345198e353695688'', 1, ''fpmas::synchro::hard::HardSyncMutex::pushRequest()'')])]"

definition all_10 :: "raw_entry list" where
  "all_10 = [
      (''radius_577'', ''radius'', [(''../classfpmas_1_1model_1_1GridRange.html#a4f3e6a640485e4fd4ac3aba2fc1facb4'', 1, ''fpmas::model::GridRange::radius()''),
        (''../classfpmas_1_1model_1_1GraphRange.html#ae8082f8f11692fe7b6824f4efd3b67f4'', 1, ''fpmas::model::GraphRange::radius()''),
        (''../classfpmas_1_1api_1_1model_1_1Range.html#a6dc423fc1d7ea52bdd5c640c868d9b91'', 1, ''fpmas::api::model::Range::radius()'')]),
      (''random_578'', ''random'', [(''../classfpmas_1_1model_1_1Neighbors.html#aa21a92f8804a4661fd11996a4ad4146f'', 1, ''fpmas::model::Neighbors'')]),
      (''random_5fdevice_579'', ''random_device'', [(''../namespacefpmas_1_1random.html#aff2c18877094fcaaa04f4e857eabe64a'', 1, ''fpmas::random'')]),
      (''randomgraphbuilder_580'', ''RandomGraphBuilder'', [(''../classfpmas_1_1graph_1_1RandomGraphBuilder.html'', 1, ''fpmas::graph::RandomGraphBuilder''),
        (''../classfpmas_1_1graph_1_1RandomGraphBuilder.html#a8edc644b6705759a0e108ad2480f9274'', 1, ''fpmas::graph::RandomGraphBuilder::RandomGraphBuilder()'')]),
      (''randomgridagentmapping_581'', ''RandomGridAgentMapping'', [(''../classfpmas_1_1model_1_1RandomGridAgentMapping.html'', 1, ''fpmas::model::RandomGridAgentMapping''),
        (''../classfpmas_1_1model_1_1RandomGridAgentMapping.html#a4b73f99360660092ad9be7311b098941'', 1, ''fpmas::model::RandomGridAgentMapping::RandomGridAgentMapping()'')]),
      (''randomloadbalancing_582'', ''RandomLoadBalancing'', [(''../classfpmas_1_1graph_1_1RandomLoadBalancing.html'', 1, ''fpmas::graph::RandomLoadBalancing&lt; T &gt;''),
        (''../classfpmas_1_1graph_1_1RandomLoadBalancing.html#a52978fc1f0bece78e8ec2eeb759a7b8b'', 1, ''fpmas::graph::RandomLoadBalancing::RandomLoadBalancing()'')]),
      (''randomneighbors_583'', ''RandomNeighbors'', [(''../structfpmas_1_1model_1_1RandomNeighbors.html'', 1, ''fpmas::model'')]),
      (''range_584'', ''Range'', [(''../classfpmas_1_1api_1_1model_1_1Range.html'', 1, ''fpmas::api::model'')]),
      (''range_3c_20api_3a_3amodel_3a_3acell_20_3e_585'', ''Range&lt; api::model::Cell &gt;'', [(''../classfpmas_1_1api_1_1model_1_1Range.html'', 1, ''fpmas::api::model'')]),
      (''range_3c_20api_3a_3amodel_3a_3agridcell_20_3e_586'', ''Range&lt; api::model::GridCell &gt;'', [(''../classfpmas_1_1api_1_1model_1_1Range.html'', 1, ''fpmas::api::model'')]),
      (''range_3c_20graphcell_20_3e_587'', ''Range&lt; GraphCell &gt;'', [(''../classfpmas_1_1api_1_1model_1_1Range.html'', 1, ''fpmas::api::model'')]),
      (''range_3c_20gridconfig_3a_3acelltype_20_3e_588'', ''Range&lt; GridConfig::CellType &gt;'', [(''../classfpmas_1_1api_1_1model_1_1Range.html'', 1, ''fpmas::api::model'')]),
      (''rank_589'', ''rank'', [(''../classfpmas_1_1api_1_1graph_1_1DistributedId.html#a57f698a2639f24de0a019e1c9902d5fb'', 1, ''fpmas::api::graph::DistributedId::rank()''),
        (''../classfpmas_1_1communication_1_1MpiCommunicatorBase.html#a357dc24aa2d395022b4a4c657fa5e840'', 1, ''fpmas::communication::MpiCommunicatorBase::rank()''),
        (''../structfpmas_1_1api_1_1communication_1_1MpiDistributedId.html#a67528f4f27b132d956781be817a4f8aa'', 1, ''fpmas::api::communication::MpiDistributedId::rank()'')]),
      (''rd_590'', ''rd'', [(''../structfpmas_1_1model_1_1RandomNeighbors.html#a29721b68c3a7df97f6835bea8b73d8db'', 1, ''fpmas::model::RandomNeighbors'')]),
      (''reachable_5fcells_591'', ''reachable_cells'', [(''../classfpmas_1_1model_1_1ReachableCell.html#a7f5fa367ebd13a3cfb450fd6223fe233'', 1, ''fpmas::model::ReachableCell'')]),
      (''reachablecell_592'', ''ReachableCell'', [(''../classfpmas_1_1model_1_1ReachableCell.html'', 1, ''fpmas::model'')]),
      (''reachablecells_593'', ''reachableCells'', [(''../classfpmas_1_1model_1_1ReachableCell.html#a18accb5e31f626a57bc84d6d0b673987'', 1, ''fpmas::model::ReachableCell'')]),
      (''read_594'', ''read'', [(''../classfpmas_1_1synchro_1_1hard_1_1MutexClient.html#a4fecada560fa399757ca9b2f1d8043cf'', 1, ''fpmas::synchro::hard::MutexClient::read()''),
        (''../classfpmas_1_1synchro_1_1hard_1_1HardSyncMutex.html#a9f7e4e56fe216e7026c087833abde061'', 1, ''fpmas::synchro::hard::HardSyncMutex::read()''),
        (''../classfpmas_1_1synchro_1_1hard_1_1api_1_1MutexClient.html#a605d6428958a7addecf549f37d35cc94'', 1, ''fpmas::synchro::hard::api::MutexClient::read()''),
        (''../classfpmas_1_1synchro_1_1ghost_1_1SingleThreadMutex.html#aaa291fea997434b327336e01ea916a43'', 1, ''fpmas::synchro::ghost::SingleThreadMutex::read()''),
        (''../classfpmas_1_1api_1_1synchro_1_1Mutex.html#abbbbdffc747bd45c448ec26d064aedbe'', 1, ''fpmas::api::synchro::Mutex::read()'')]),
      (''read_5fzoltan_5fid_595'', ''read_zoltan_id'', [(''../namespacefpmas_1_1graph_1_1zoltan.html#a1f1f85ebf5a206d380910c9becb6613b'', 1, ''fpmas::graph::zoltan'')]),
      (''readguard_596'', ''ReadGuard'', [(''../classfpmas_1_1model_1_1ReadGuard.html'', 1, ''fpmas::model::ReadGuard''),
        (''../classfpmas_1_1synchro_1_1ReadGuard.html'', 1, ''fpmas::synchro::ReadGuard&lt; T &gt;''),
        (''../classfpmas_1_1model_1_1ReadGuard.html#a22ff408d4e0378199c366317a0db5616'', 1, ''fpmas::model::ReadGuard::ReadGuard()''),
        (''../classfpmas_1_1synchro_1_1ReadGuard.html#a4ea091e6a83f9775b71fe41ad8658d44'', 1, ''fpmas::synchro::ReadGuard::ReadGuard()'')]),
      (''readguard_3c_20fpmas_3a_3aapi_3a_3amodel_3a_3aagentptr_20_3e_597'', ''ReadGuard&lt; fpmas::api::model::AgentPtr &gt;'', [(''../classfpmas_1_1synchro_1_1ReadGuard.html'', 1, ''fpmas::synchro'')]),
      (''recv_598'', ''recv'', [(''../classfpmas_1_1api_1_1communication_1_1MpiCommunicator.html#a90c9f239f2f895b6e180f6107524df4e'', 1, ''fpmas::api::communication::MpiCommunicator::recv(int source, int tag, Status &amp;status=Status::IGNORE)=0''),
        (''../classfpmas_1_1api_1_1communication_1_1MpiCommunicator.html#a754227599d2c1eca07793a76bc19dc34'', 1, ''fpmas::api::communication::MpiCommunicator::recv(void *buffer, int count, MPI_Datatype datatype, int source, int tag, Status &amp;status)=0''),
        (''../classfpmas_1_1api_1_1communication_1_1TypedMpi.html#a6f4203cc8ae67f7d58f0c5e230105b78'', 1, ''fpmas::api::communication::TypedMpi::recv()''),
        (''../classfpmas_1_1communication_1_1MpiCommunicatorBase.html#ad9e7e173a844ec2867d32b1448875452'', 1, ''fpmas::communication::MpiCommunicatorBase::recv(int source, int tag, Status &amp;status=Status::IGNORE) override''),
        (''../classfpmas_1_1communication_1_1MpiCommunicatorBase.html#a74e52958fa42ffcf2c9daa4da8ea716f'', 1, ''fpmas::communication::MpiCommunicatorBase::recv(void *buffer, int count, MPI_Datatype datatype, int source, int tag, Status &amp;status=Status::IGNORE) override''),
        (''../classfpmas_1_1communication_1_1detail_1_1TypedMpi.html#a9e766db76a83e042c79debf37208ddc6'', 1, ''fpmas::communication::detail::TypedMpi::recv()'')]),
      (''reduce_599'', ''Reduce'', [(''../structfpmas_1_1io_1_1Reduce.html'', 1, ''fpmas::io'')]),
      (''reduce_600'', ''reduce'', [(''../namespacefpmas_1_1communication.html#ade0613a10cab382e02936abe67237433'', 1, ''fpmas::communication'')]),
      (''register_5ftype_601'', ''register_type'', [(''../structnlohmann_1_1adl__serializer_3_01std_1_1type__index_01_4.html#a2ef35756346c86be964534f48e339bc9'', 1, ''nlohmann::adl_serializer&lt; std::type_index &gt;'')]),
      (''register_5ftypes_602'', ''register_types'', [(''../namespacefpmas.html#ad687ae462a5b1dd2d5d1df39c41aa920'', 1, ''fpmas'')]),
      (''register_5ftypes_3c_20void_20_3e_603'', ''register_types&lt; void &gt;'', [(''../namespacefpmas.html#a4634331ddaec9c6fc199c12eab4c5094'', 1, ''fpmas'')]),
      (''registernodetoremove_604'', ''registerNodeToRemove'', [(''../classfpmas_1_1synchro_1_1hard_1_1HardSyncLinker.html#af4b801b9423b6725681340d963976ce9'', 1, ''fpmas::synchro::hard::HardSyncLinker::registerNodeToRemove()''),
        (''../classfpmas_1_1synchro_1_1hard_1_1api_1_1HardSyncLinker.html#a3a735d290b05294bf87d7aba2beb9222'', 1, ''fpmas::synchro::hard::api::HardSyncLinker::registerNodeToRemove()'')]),
      (''release_605'', ''release'', [(''../classfpmas_1_1api_1_1utils_1_1PtrWrapper.html#acca3dd736b3b8004433e47305529879b'', 1, ''fpmas::api::utils::PtrWrapper'')]),
      (''releaseacquire_606'', ''releaseAcquire'', [(''../classfpmas_1_1api_1_1synchro_1_1Mutex.html#a7ac55e46ce06c0507f5375d69a8287d3'', 1, ''fpmas::api::synchro::Mutex::releaseAcquire()''),
        (''../classfpmas_1_1synchro_1_1ghost_1_1SingleThreadMutex.html#a3e3fadf9a47046e3e62d35dfd46099d9'', 1, ''fpmas::synchro::ghost::SingleThreadMutex::releaseAcquire()''),
        (''../classfpmas_1_1synchro_1_1hard_1_1api_1_1MutexClient.html#a4d42fba165d97353139334f6ff5af9b1'', 1, ''fpmas::synchro::hard::api::MutexClient::releaseAcquire()''),
        (''../classfpmas_1_1synchro_1_1hard_1_1HardSyncMutex.html#a9ad4c7aa5084dbabe4ecb3f7ecff65c5'', 1, ''fpmas::synchro::hard::HardSyncMutex::releaseAcquire()''),
        (''../classfpmas_1_1synchro_1_1hard_1_1MutexClient.html#a6884009cc4203e7886893bb3da8d6004'', 1, ''fpmas::synchro::hard::MutexClient::releaseAcquire()'')]),
      (''releaseread_607'', ''releaseRead'', [(''../classfpmas_1_1api_1_1synchro_1_1Mutex.html#afa57d005c8c3e804d8658d997da2802a'', 1, ''fpmas::api::synchro::Mutex::releaseRead()''),
        (''../classfpmas_1_1synchro_1_1ghost_1_1SingleThreadMutex.html#a8ce5578e81c0cb8d38943d3524deb119'', 1, ''fpmas::synchro::ghost::SingleThreadMutex::releaseRead()''),
        (''../classfpmas_1_1synchro_1_1hard_1_1api_1_1MutexClient.html#a701f8279e4fca49c15f2e8c249d3e248'', 1, ''fpmas::synchro::hard::api::MutexClient::releaseRead()''),
        (''../classfpmas_1_1synchro_1_1hard_1_1HardSyncMutex.html#a6823d6a49c493ef3234531514fd0573e'', 1, ''fpmas::synchro::hard::HardSyncMutex::releaseRead()''),
        (''../classfpmas_1_1synchro_1_1hard_1_1MutexClient.html#a3efb3d5378b0ad640c71881c730ee844'', 1, ''fpmas::synchro::hard::MutexClient::releaseRead()'')]),
      (''remove_608'', ''remove'', [(''../classfpmas_1_1synchro_1_1hard_1_1api_1_1MutexServer.html#a44bd2668c0f1a8e9df5a6eeb3bf82dd8'', 1, ''fpmas::synchro::hard::api::MutexServer::remove()''),
        (''../classfpmas_1_1synchro_1_1hard_1_1MutexServer.html#a59e59dd9c65a297a492ac21c7c197747'', 1, ''fpmas::synchro::hard::MutexServer::remove()''),
        (''../classfpmas_1_1scheduler_1_1Job.html#a9946cf6a9930f5a5a40489e16b365770'', 1, ''fpmas::scheduler::Job::remove()''),
        (''../classfpmas_1_1model_1_1detail_1_1AgentGroupBase.html#a6ab7b85ed29da686d3f97b3b838ca873'', 1, ''fpmas::model::detail::AgentGroupBase::remove()''),
        (''../classfpmas_1_1api_1_1scheduler_1_1Job.html#a1700a72e63f3488cc2ddd33c423fd990'', 1, ''fpmas::api::scheduler::Job::remove()''),
        (''../classfpmas_1_1api_1_1model_1_1AgentGroup.html#a26fcdced435645d94157555677bb72d0'', 1, ''fpmas::api::model::AgentGroup::remove()''),
        (''../classfpmas_1_1api_1_1graph_1_1LocationManager.html#af55879979ae7c0011225efba57eaa59f'', 1, ''fpmas::api::graph::LocationManager::remove()''),
        (''../classfpmas_1_1graph_1_1LocationManager.html#a5992a6bfba46f45ff059386ab0664fa9'', 1, ''fpmas::graph::LocationManager::remove()'')]),
      (''removegroup_609'', ''removeGroup'', [(''../classfpmas_1_1api_1_1model_1_1Agent.html#aa327b8d0ab033b95a635cf0131d1fd35'', 1, ''fpmas::api::model::Agent::removeGroup()''),
        (''../classfpmas_1_1api_1_1model_1_1Model.html#a268cd0238ce1883c3e99aae8e4734cc1'', 1, ''fpmas::api::model::Model::removeGroup()''),
        (''../classfpmas_1_1model_1_1detail_1_1Model.html#aa60b5d12d78c81e891d1d918dbded7a9'', 1, ''fpmas::model::detail::Model::removeGroup()''),
        (''../classfpmas_1_1model_1_1AgentBase.html#ab9744582c9bbcb8eb186465fd233323c'', 1, ''fpmas::model::AgentBase::removeGroup(api::model::AgentGroup *group) override'')]),
      (''removegroupid_610'', ''removeGroupId'', [(''../classfpmas_1_1model_1_1AgentBase.html#a4dc0eeb87807264cfb4593e9ea03e662'', 1, ''fpmas::model::AgentBase::removeGroupId()''),
        (''../classfpmas_1_1api_1_1model_1_1Agent.html#affebf9145d5a77e16d60bfb384c6d4f3'', 1, ''fpmas::api::model::Agent::removeGroupId()'')]),
      (''removemanagednode_611'', ''removeManagedNode'', [(''../classfpmas_1_1api_1_1graph_1_1LocationManager.html#a83a6b1b24c9d1c5fbc7a33f80f27486c'', 1, ''fpmas::api::graph::LocationManager::removeManagedNode(DistributedNode&lt; T &gt; *node)=0''),
        (''../classfpmas_1_1api_1_1graph_1_1LocationManager.html#a191b8045b2592aa84ba0f66dbd9ad758'', 1, ''fpmas::api::graph::LocationManager::removeManagedNode(DistributedId id)=0''),
        (''../classfpmas_1_1graph_1_1LocationManager.html#a1f4a031fdde206f663783b572ffb9679'', 1, ''fpmas::graph::LocationManager::removeManagedNode(api::graph::DistributedNode&lt; T &gt; *node) override''),
        (''../classfpmas_1_1graph_1_1LocationManager.html#a954e199562bfeb67819b140b3b1d5bd2'', 1, ''fpmas::graph::LocationManager::removeManagedNode(DistributedId id) override'')]),
      (''removenode_612'', ''removeNode'', [(''../classfpmas_1_1synchro_1_1hard_1_1HardSyncLinker.html#a88b17a787e9491c66a27499b6ab66ee2'', 1, ''fpmas::synchro::hard::HardSyncLinker::removeNode()''),
        (''../classfpmas_1_1synchro_1_1hard_1_1LinkClient.html#a2d723e36db7a2061f8323c90f9d12881'', 1, ''fpmas::synchro::hard::LinkClient::removeNode()''),
        (''../classfpmas_1_1synchro_1_1hard_1_1api_1_1LinkClient.html#a42332e5927a431050c2bcc5a30aa3eef'', 1, ''fpmas::synchro::hard::api::LinkClient::removeNode()''),
        (''../classfpmas_1_1synchro_1_1ghost_1_1GhostSyncLinker.html#a64538d6f25270780b6b0d276d97d43ef'', 1, ''fpmas::synchro::ghost::GhostSyncLinker::removeNode()''),
        (''../classfpmas_1_1graph_1_1detail_1_1DistributedGraph.html#aa2d9e506866dee48646a37dcca28e6fc'', 1, ''fpmas::graph::detail::DistributedGraph::removeNode()''),
        (''../classfpmas_1_1api_1_1synchro_1_1SyncLinker.html#a3ae8b8e347dec6748fa6c0d0496794d5'', 1, ''fpmas::api::synchro::SyncLinker::removeNode()''),
        (''../classfpmas_1_1api_1_1graph_1_1DistributedGraph.html#ab02cae2fa16324954d02fcc497d1f400'', 1, ''fpmas::api::graph::DistributedGraph::removeNode(DistributedId id)=0''),
        (''../classfpmas_1_1api_1_1graph_1_1DistributedGraph.html#a0a20e27bc1434cee36d760278aa79b27'', 1, ''fpmas::api::graph::DistributedGraph::removeNode(DistributedNode&lt; T &gt; *node)=0''),
        (''../classfpmas_1_1graph_1_1detail_1_1DistributedGraph.html#a8b79d869a2fb4aa169c12a58b6183cf4'', 1, ''fpmas::graph::detail::DistributedGraph::removeNode()'')]),
      (''removereachablecell_613'', ''removeReachableCell'', [(''../classfpmas_1_1model_1_1ReachableCell.html#ae2af60865b959660c557e9bdeaaea316'', 1, ''fpmas::model::ReachableCell'')]),
      (''request_614'', ''Request'', [(''../structfpmas_1_1api_1_1communication_1_1Request.html'', 1, ''fpmas::api::communication::Request''),
        (''../structfpmas_1_1api_1_1communication_1_1Request.html#ad0b572d239afd699ef5e09ca348be5cc'', 1, ''fpmas::api::communication::Request::Request()'')]),
      (''requeststoprocess_615'', ''requestsToProcess'', [(''../classfpmas_1_1synchro_1_1hard_1_1HardSyncMutex.html#a282953de4470f76242060dc281d85eba'', 1, ''fpmas::synchro::hard::HardSyncMutex::requestsToProcess()''),
        (''../classfpmas_1_1synchro_1_1hard_1_1api_1_1HardSyncMutex.html#ac4264110df61a3acbabaea1cadc993bd'', 1, ''fpmas::synchro::hard::api::HardSyncMutex::requestsToProcess()'')]),
      (''result_5ftype_616'', ''result_type'', [(''../classfpmas_1_1random_1_1Generator.html#ab245f633d5f6b2f0b3716e3cce23a802'', 1, ''fpmas::random::Generator::result_type()''),
        (''../classfpmas_1_1random_1_1Distribution.html#a822508dc54851c938f6946621dc35f11'', 1, ''fpmas::random::Distribution::result_type()''),
        (''../classfpmas_1_1random_1_1DistributedGenerator.html#ac6cad7d2d743f3f00f47bd0326a7da4a'', 1, ''fpmas::random::DistributedGenerator::result_type()'')]),
      (''run_617'', ''run'', [(''../classfpmas_1_1scheduler_1_1detail_1_1LambdaTask.html#ae39fb347b182eba21f0ec3291b4ff700'', 1, ''fpmas::scheduler::detail::LambdaTask::run()''),
        (''../classfpmas_1_1scheduler_1_1LambdaTask.html#ac692db5e4260b38ad07a4cdad1286101'', 1, ''fpmas::scheduler::LambdaTask::run()''),
        (''../classfpmas_1_1scheduler_1_1VoidTask.html#a983475529c0dea92428d054ff395da73'', 1, ''fpmas::scheduler::VoidTask::run()''),
        (''../classfpmas_1_1runtime_1_1Runtime.html#a82621c12507a8bf0b205e60fec9a4d84'', 1, ''fpmas::runtime::Runtime::run(Date start, Date end) override''),
        (''../classfpmas_1_1runtime_1_1Runtime.html#a257c7abf301188d04b23248c84a8dbae'', 1, ''fpmas::runtime::Runtime::run(Date end) override''),
        (''../classfpmas_1_1model_1_1detail_1_1LoadBalancingTask.html#a569312a0cd3f4a00e989d9dc96cde143'', 1, ''fpmas::model::detail::LoadBalancingTask::run()''),
        (''../classfpmas_1_1model_1_1detail_1_1SynchronizeGraphTask.html#a83d7efc6f34afbada6121f5b44d213b1'', 1, ''fpmas::model::detail::SynchronizeGraphTask::run()''),
        (''../classfpmas_1_1model_1_1detail_1_1AgentBehaviorTask.html#aede4f22957f83a18d7042a9a006370d4'', 1, ''fpmas::model::detail::AgentBehaviorTask::run()''),
        (''../classfpmas_1_1model_1_1detail_1_1AgentTask.html#a18b55e14265602f552f63da78111011b'', 1, ''fpmas::model::detail::AgentTask::run()''),
        (''../classfpmas_1_1io_1_1OutputTask.html#a83449a38add080b0c684ee65c836910a'', 1, ''fpmas::io::OutputTask::run()''),
        (''../classfpmas_1_1api_1_1scheduler_1_1Task.html#acf925d631a63900965ea96688ea93061'', 1, ''fpmas::api::scheduler::Task::run()''),
        (''../classfpmas_1_1api_1_1runtime_1_1Runtime.html#a47d4954c8da167dab75612e6fbee3047'', 1, ''fpmas::api::runtime::Runtime::run(Date end)=0''),
        (''../classfpmas_1_1api_1_1runtime_1_1Runtime.html#aee78977a5c01e161e6fcf1d94815779c'', 1, ''fpmas::api::runtime::Runtime::run(Date start, Date end)=0'')]),
      (''runtime_618'', ''Runtime'', [(''../classfpmas_1_1api_1_1runtime_1_1Runtime.html'', 1, ''fpmas::api::runtime::Runtime''),
        (''../classfpmas_1_1runtime_1_1Runtime.html'', 1, ''fpmas::runtime::Runtime''),
        (''../classfpmas_1_1runtime_1_1Runtime.html#a6ef98f90954665ed270e406a3acd841f'', 1, ''fpmas::runtime::Runtime::Runtime()'')]),
      (''runtime_619'', ''runtime'', [(''../classfpmas_1_1api_1_1model_1_1Model.html#a8dd560c85966165dde31ed518296603a'', 1, ''fpmas::api::model::Model::runtime()=0''),
        (''../classfpmas_1_1api_1_1model_1_1Model.html#a4b9094b3f1fdb1da10d016aa3c0a15d9'', 1, ''fpmas::api::model::Model::runtime() const =0''),
        (''../classfpmas_1_1model_1_1detail_1_1Model.html#a4f8c28c690c4d5003abb7733a421fa28'', 1, ''fpmas::model::detail::Model::runtime() override''),
        (''../classfpmas_1_1model_1_1detail_1_1Model.html#a26dea4de82e1723eda8234f70b35ee72'', 1, ''fpmas::model::detail::Model::runtime() const override'')]),
      (''runtime_2eh_620'', ''runtime.h'', [(''../runtime_2runtime_8h.html'', 1, ''(Global Namespace)''),
        (''../api_2runtime_2runtime_8h.html'', 1, ''(Global Namespace)'')])]"

definition all_11 :: "raw_entry list" where
  "all_11 = [
      (''schedule_621'', ''schedule'', [(''../classfpmas_1_1scheduler_1_1Scheduler.html#add01ea9c9e1a0d8531889c11b5a1c064'', 1, ''fpmas::scheduler::Scheduler::schedule(api::scheduler::Date date, api::scheduler::Date end, api::scheduler::Period period, const api::scheduler::Job &amp;) override''),
        (''../classfpmas_1_1scheduler_1_1Scheduler.html#ae12c76f293c214c7960bc94f61582c7a'', 1, ''fpmas::scheduler::Scheduler::schedule(api::scheduler::Date date, api::scheduler::Period period, const api::scheduler::Job &amp;) override''),
        (''../classfpmas_1_1scheduler_1_1Scheduler.html#ac83415e23eb4b7db6bbade20036ed3f6'', 1, ''fpmas::scheduler::Scheduler::schedule(api::scheduler::Date date, const api::scheduler::Job &amp;) override''),
        (''../classfpmas_1_1api_1_1scheduler_1_1Scheduler.html#a45201b358583893ce785f1c917ef825c'', 1, ''fpmas::api::scheduler::Scheduler::schedule(Date date, Date end, Period period, JobList job)=0''),
        (''../classfpmas_1_1api_1_1scheduler_1_1Scheduler.html#ae7ba3f8278068ab8d97381c2c233272b'', 1, ''fpmas::api::scheduler::Scheduler::schedule(Date date, Period period, JobList job)=0''),
        (''../classfpmas_1_1api_1_1scheduler_1_1Scheduler.html#ae4ed8c532ae91ee23c49a539a01857bb'', 1, ''fpmas::api::scheduler::Scheduler::schedule(Date date, JobList job)=0''),
        (''../classfpmas_1_1api_1_1scheduler_1_1Scheduler.html#a998d61f9ff277420fcead131be688992'', 1, ''fpmas::api::scheduler::Scheduler::schedule(Date date, Date end, Period period, const Job &amp;job)=0''),
        (''../classfpmas_1_1scheduler_1_1Scheduler.html#a5d00946349c5f25d574ec0f0272dc0d0'', 1, ''fpmas::scheduler::Scheduler::schedule()''),
        (''../classfpmas_1_1api_1_1scheduler_1_1Scheduler.html#abaae483dc256c7044cadba31ac394cd1'', 1, ''fpmas::api::scheduler::Scheduler::schedule(Date date, Period period, const Job &amp;job)=0''),
        (''../classfpmas_1_1api_1_1scheduler_1_1Scheduler.html#a16247c43544f6ef7cda66150e13c8955'', 1, ''fpmas::api::scheduler::Scheduler::schedule(Date date, const Job &amp;job)=0''),
        (''../classfpmas_1_1scheduler_1_1Scheduler.html#af0f67339c712dc964beb2a854b8a9a15'', 1, ''fpmas::scheduler::Scheduler::schedule(api::scheduler::Date date, api::scheduler::JobList) override''),
        (''../classfpmas_1_1scheduler_1_1Scheduler.html#a8221d452fd1698e6233eadcaada54f9c'', 1, ''fpmas::scheduler::Scheduler::schedule(api::scheduler::Date date, api::scheduler::Period period, api::scheduler::JobList) override'')]),
      (''scheduled_5fload_5fbalancing_2eh_622'', ''scheduled_load_balancing.h'', [(''../scheduled__load__balancing_8h.html'', 1, '''')]),
      (''scheduledloadbalancing_623'', ''ScheduledLoadBalancing'', [(''../classfpmas_1_1graph_1_1ScheduledLoadBalancing.html'', 1, ''fpmas::graph::ScheduledLoadBalancing&lt; T &gt;''),
        (''../classfpmas_1_1graph_1_1ScheduledLoadBalancing.html#a9fa0c10d87cac51e7c3df234d8241cdc'', 1, ''fpmas::graph::ScheduledLoadBalancing::ScheduledLoadBalancing()''),
        (''../namespacefpmas_1_1model_1_1detail.html#a2ca32d0ef086e24464878ad021ce2732'', 1, ''fpmas::model::detail::ScheduledLoadBalancing()'')]),
      (''scheduledloadbalancing_3c_20agentptr_20_3e_624'', ''ScheduledLoadBalancing&lt; AgentPtr &gt;'', [(''../classfpmas_1_1graph_1_1ScheduledLoadBalancing.html'', 1, ''fpmas::graph'')]),
      (''scheduler_625'', ''Scheduler'', [(''../classfpmas_1_1api_1_1scheduler_1_1Scheduler.html'', 1, ''fpmas::api::scheduler::Scheduler''),
        (''../classfpmas_1_1scheduler_1_1Scheduler.html'', 1, ''fpmas::scheduler::Scheduler'')]),
      (''scheduler_626'', ''scheduler'', [(''../classfpmas_1_1api_1_1model_1_1Model.html#a845cd1a69f86ab69c1fd55e763bdea12'', 1, ''fpmas::api::model::Model::scheduler()=0''),
        (''../classfpmas_1_1api_1_1model_1_1Model.html#a4a7496ca25e117735384210fce6c9c82'', 1, ''fpmas::api::model::Model::scheduler() const =0''),
        (''../classfpmas_1_1model_1_1detail_1_1Model.html#a204b904321d90859829cba8ef1474ba2'', 1, ''fpmas::model::detail::Model::scheduler() override''),
        (''../classfpmas_1_1model_1_1detail_1_1Model.html#ae72dce34baf5a53d88d6a64b09fb03c0'', 1, ''fpmas::model::detail::Model::scheduler() const override'')]),
      (''scheduler_2eh_627'', ''scheduler.h'', [(''../scheduler_2scheduler_8h.html'', 1, ''(Global Namespace)''),
        (''../api_2scheduler_2scheduler_8h.html'', 1, ''(Global Namespace)'')]),
      (''seed_628'', ''seed'', [(''../structfpmas_1_1model_1_1RandomNeighbors.html#a6a6d99902e9a5467e454df9cb30d282d'', 1, ''fpmas::model::RandomNeighbors'')]),
      (''send_629'', ''send'', [(''../classfpmas_1_1api_1_1communication_1_1MpiCommunicator.html#a34b01eebabd8d004bfb08ddd369204b8'', 1, ''fpmas::api::communication::MpiCommunicator::send(int destination, int tag)=0''),
        (''../classfpmas_1_1api_1_1communication_1_1MpiCommunicator.html#afeb4b62ff2e052f4cd3583811fb58318'', 1, ''fpmas::api::communication::MpiCommunicator::send(const void *data, int count, MPI_Datatype datatype, int destination, int tag)=0''),
        (''../classfpmas_1_1api_1_1communication_1_1TypedMpi.html#af231bbb7a249117dc731ed1e6ac64e7a'', 1, ''fpmas::api::communication::TypedMpi::send()''),
        (''../classfpmas_1_1communication_1_1MpiCommunicatorBase.html#a01b806ace945a7c44746ddb2ff53d046'', 1, ''fpmas::communication::MpiCommunicatorBase::send()''),
        (''../classfpmas_1_1communication_1_1detail_1_1TypedMpi.html#a51663a12f03882c046ad7e5434e13bd4'', 1, ''fpmas::communication::detail::TypedMpi::send()''),
        (''../classfpmas_1_1communication_1_1MpiCommunicatorBase.html#ae4fc1c74dc7610e06e156f16c980f587'', 1, ''fpmas::communication::MpiCommunicatorBase::send()'')]),
      (''serializer_2eh_630'', ''serializer.h'', [(''../serializer_8h.html'', 1, '''')]),
      (''server_631'', ''Server'', [(''../classfpmas_1_1synchro_1_1hard_1_1api_1_1Server.html'', 1, ''fpmas::synchro::hard::api'')]),
      (''server_5fpack_2eh_632'', ''server_pack.h'', [(''../server__pack_8h.html'', 1, '''')]),
      (''serverpack_633'', ''ServerPack'', [(''../classfpmas_1_1synchro_1_1hard_1_1ServerPack.html'', 1, ''fpmas::synchro::hard::ServerPack&lt; T &gt;''),
        (''../classfpmas_1_1synchro_1_1hard_1_1ServerPack.html#a9023b8c88358157379f5c5d1f96568cb'', 1, ''fpmas::synchro::hard::ServerPack::ServerPack()'')]),
      (''setagentdistantcallback_634'', ''SetAgentDistantCallback'', [(''../classfpmas_1_1model_1_1detail_1_1SetAgentDistantCallback.html'', 1, ''fpmas::model::detail::SetAgentDistantCallback''),
        (''../classfpmas_1_1model_1_1detail_1_1SetAgentDistantCallback.html#a1ef91d1b0b13e72b6e0813f4437f0afa'', 1, ''fpmas::model::detail::SetAgentDistantCallback::SetAgentDistantCallback()'')]),
      (''setagentlocalcallback_635'', ''SetAgentLocalCallback'', [(''../classfpmas_1_1model_1_1detail_1_1SetAgentLocalCallback.html'', 1, ''fpmas::model::detail::SetAgentLocalCallback''),
        (''../classfpmas_1_1model_1_1detail_1_1SetAgentLocalCallback.html#a9c35e07e00e592f8fffa4817513a2bcf'', 1, ''fpmas::model::detail::SetAgentLocalCallback::SetAgentLocalCallback()'')]),
      (''setbegintask_636'', ''setBeginTask'', [(''../classfpmas_1_1api_1_1scheduler_1_1Job.html#a39a362553c50e8a25c874d9b411410a8'', 1, ''fpmas::api::scheduler::Job::setBeginTask()''),
        (''../classfpmas_1_1scheduler_1_1Job.html#ae8051a2b516865d43e15131d7b50077e'', 1, ''fpmas::scheduler::Job::setBeginTask()'')]),
      (''setcurrentdate_637'', ''setCurrentDate'', [(''../classfpmas_1_1api_1_1runtime_1_1Runtime.html#a6ce196e0d98a348fa473129b632273b5'', 1, ''fpmas::api::runtime::Runtime::setCurrentDate()''),
        (''../classfpmas_1_1runtime_1_1Runtime.html#a6ffc12923b412f17d9045ae0b0a20a8c'', 1, ''fpmas::runtime::Runtime::setCurrentDate()'')]),
      (''setcurrentedgeid_638'', ''setCurrentEdgeId'', [(''../classfpmas_1_1api_1_1graph_1_1DistributedGraph.html#aea61510c7f39f69c795188f33a92f1a6'', 1, ''fpmas::api::graph::DistributedGraph::setCurrentEdgeId()''),
        (''../classfpmas_1_1graph_1_1detail_1_1DistributedGraph.html#a278c1bfa845491b829901000574589bd'', 1, ''fpmas::graph::detail::DistributedGraph::setCurrentEdgeId()'')]),
      (''setcurrentnodeid_639'', ''setCurrentNodeId'', [(''../classfpmas_1_1api_1_1graph_1_1DistributedGraph.html#a895e677b29acca3b9c9192c294ffe408'', 1, ''fpmas::api::graph::DistributedGraph::setCurrentNodeId()''),
        (''../classfpmas_1_1graph_1_1detail_1_1DistributedGraph.html#a57c2b67f282cf459418da7d0b92664f6'', 1, ''fpmas::graph::detail::DistributedGraph::setCurrentNodeId()'')]),
      (''setdistant_640'', ''setDistant'', [(''../classfpmas_1_1graph_1_1LocationManager.html#a6ac45717c48660ab12a8cd31bd1bdeeb'', 1, ''fpmas::graph::LocationManager::setDistant()''),
        (''../classfpmas_1_1api_1_1graph_1_1LocationManager.html#a831cbb48cac025537db4020808562c13'', 1, ''fpmas::api::graph::LocationManager::setDistant()'')]),
      (''setendtask_641'', ''setEndTask'', [(''../classfpmas_1_1scheduler_1_1Job.html#a9c7b12b33140d205ff74bfa853fc7d27'', 1, ''fpmas::scheduler::Job::setEndTask()''),
        (''../classfpmas_1_1api_1_1scheduler_1_1Job.html#ab21131808e8f1faeb04247aaf55693f1'', 1, ''fpmas::api::scheduler::Job::setEndTask()'')]),
      (''setepoch_642'', ''setEpoch'', [(''../classfpmas_1_1synchro_1_1hard_1_1MutexServer.html#a12623213ea8163c1543a26c170a672bd'', 1, ''fpmas::synchro::hard::MutexServer::setEpoch()''),
        (''../classfpmas_1_1synchro_1_1hard_1_1ServerPack.html#a26a78ff176397b4d44ee15b0861abf58'', 1, ''fpmas::synchro::hard::ServerPack::setEpoch()''),
        (''../classfpmas_1_1synchro_1_1hard_1_1LinkServer.html#a45cb18f6c72dcb1032868edbe8a8a079'', 1, ''fpmas::synchro::hard::LinkServer::setEpoch()''),
        (''../classfpmas_1_1synchro_1_1hard_1_1api_1_1Server.html#a996904b20a0a057b52226831079968c9'', 1, ''fpmas::synchro::hard::api::Server::setEpoch()'')]),
      (''setgroup_643'', ''setGroup'', [(''../classfpmas_1_1api_1_1model_1_1Agent.html#ae99d995f47d7ace0c267d1a6233b4886'', 1, ''fpmas::api::model::Agent::setGroup()''),
        (''../classfpmas_1_1model_1_1AgentBase.html#a045afad06d462bba8f1a82b8aa974c1e'', 1, ''fpmas::model::AgentBase::setGroup()'')]),
      (''setgroupid_644'', ''setGroupId'', [(''../classfpmas_1_1api_1_1model_1_1Agent.html#a803e97bb1657a3db3110d7f499c3c878'', 1, ''fpmas::api::model::Agent::setGroupId()''),
        (''../classfpmas_1_1model_1_1AgentBase.html#aaf86c1637019f5ac8bc359c95b4a92e7'', 1, ''fpmas::model::AgentBase::setGroupId()'')]),
      (''setlocal_645'', ''setLocal'', [(''../classfpmas_1_1api_1_1graph_1_1LocationManager.html#a1ae4b47cff8f987d9d1abe05937ffdda'', 1, ''fpmas::api::graph::LocationManager::setLocal()''),
        (''../classfpmas_1_1graph_1_1LocationManager.html#aa522d5e7b87007bfc1fd5a3222e67c7b'', 1, ''fpmas::graph::LocationManager::setLocal()'')]),
      (''setlocation_646'', ''setLocation'', [(''../classfpmas_1_1api_1_1graph_1_1DistributedNode.html#abf9349f578ce3d2e6e1d9b4127de2373'', 1, ''fpmas::api::graph::DistributedNode::setLocation()''),
        (''../classfpmas_1_1graph_1_1DistributedNode.html#a3e480ac25cf8ab08add81b73afe5cb78'', 1, ''fpmas::graph::DistributedNode::setLocation()'')]),
      (''setmodel_647'', ''setModel'', [(''../classfpmas_1_1model_1_1AgentBase.html#a2a49054032879d5a8f41f7a0d575f69a'', 1, ''fpmas::model::AgentBase::setModel()''),
        (''../classfpmas_1_1api_1_1model_1_1Agent.html#a6d5b6cac63060d2399b230aa074f9723'', 1, ''fpmas::api::model::Agent::setModel()'')]),
      (''setmutex_648'', ''setMutex'', [(''../classfpmas_1_1api_1_1graph_1_1DistributedNode.html#a4d1b901cb0cae83c2e419ca94bb12597'', 1, ''fpmas::api::graph::DistributedNode::setMutex()''),
        (''../classfpmas_1_1graph_1_1DistributedNode.html#a6b74f6135ccf6da8b452b7c9b0b442e1'', 1, ''fpmas::graph::DistributedNode::setMutex()'')]),
      (''setnode_649'', ''setNode'', [(''../classfpmas_1_1api_1_1model_1_1Agent.html#a2290eaafa3cff2c7ab82ec41367c93ce'', 1, ''fpmas::api::model::Agent::setNode()''),
        (''../classfpmas_1_1model_1_1AgentBase.html#a5ae0e1fbbf134eb074193897927df518'', 1, ''fpmas::model::AgentBase::setNode()'')]),
      (''setsize_650'', ''setSize'', [(''../classfpmas_1_1model_1_1GridRange.html#a931143098fa4d11112bd0512e4ec8ccc'', 1, ''fpmas::model::GridRange'')]),
      (''setsourcenode_651'', ''setSourceNode'', [(''../classfpmas_1_1api_1_1graph_1_1Edge.html#a4afd2966e10d39d93ec3f9aebe3ae267'', 1, ''fpmas::api::graph::Edge::setSourceNode()''),
        (''../classfpmas_1_1graph_1_1Edge.html#a82678894af76a48c25892460233ee0fe'', 1, ''fpmas::graph::Edge::setSourceNode()'')]),
      (''setstate_652'', ''setState'', [(''../classfpmas_1_1graph_1_1DistributedEdge.html#a5d6b6f1a4e789666e2f4417fbc7830d2'', 1, ''fpmas::graph::DistributedEdge::setState()''),
        (''../classfpmas_1_1graph_1_1DistributedNode.html#a06f7affab08e09a3eea858812ecf637d'', 1, ''fpmas::graph::DistributedNode::setState()''),
        (''../classfpmas_1_1api_1_1graph_1_1DistributedNode.html#ad9251c911b800a01d9f859c5cdb6021e'', 1, ''fpmas::api::graph::DistributedNode::setState()''),
        (''../classfpmas_1_1api_1_1graph_1_1DistributedEdge.html#a28d4e5d75fe9352509fb8a7c978a9b9c'', 1, ''fpmas::api::graph::DistributedEdge::setState()'')]),
      (''settargetnode_653'', ''setTargetNode'', [(''../classfpmas_1_1graph_1_1Edge.html#a26e798af279ac4b25dce4c0dc9c12768'', 1, ''fpmas::graph::Edge::setTargetNode()''),
        (''../classfpmas_1_1api_1_1graph_1_1Edge.html#a118171acfb3a9802f852e30c41c54668'', 1, ''fpmas::api::graph::Edge::setTargetNode()'')]),
      (''settask_654'', ''setTask'', [(''../classfpmas_1_1api_1_1model_1_1Agent.html#a7b39628166c00090a41dd8fada6c05d2'', 1, ''fpmas::api::model::Agent::setTask(GroupId id, AgentTask *task)=0''),
        (''../classfpmas_1_1api_1_1model_1_1Agent.html#a4b58fcc33d6e1569d791413ac009a497'', 1, ''fpmas::api::model::Agent::setTask(AgentTask *task)=0''),
        (''../classfpmas_1_1model_1_1AgentBase.html#adfecc1e9011fd4473a72b6235132a8bf'', 1, ''fpmas::model::AgentBase::setTask(api::model::AgentTask *task) override''),
        (''../classfpmas_1_1model_1_1AgentBase.html#a74980b32bbf286f63f58a448571d563a'', 1, ''fpmas::model::AgentBase::setTask(api::model::GroupId id, api::model::AgentTask *task) override'')]),
      (''setweight_655'', ''setWeight'', [(''../classfpmas_1_1graph_1_1Node.html#a09872ef06bfd20e639891ae8e120027d'', 1, ''fpmas::graph::Node::setWeight()''),
        (''../classfpmas_1_1graph_1_1Edge.html#a45822d116615b27fe5df4017283e8c7d'', 1, ''fpmas::graph::Edge::setWeight()''),
        (''../classfpmas_1_1api_1_1graph_1_1Node.html#a38478627243ff2f95ad86cf2eeeae24a'', 1, ''fpmas::api::graph::Node::setWeight()''),
        (''../classfpmas_1_1api_1_1graph_1_1Edge.html#ab67d88ab59fa041c8bd8e1320b57e124'', 1, ''fpmas::api::graph::Edge::setWeight()'')]),
      (''sharedlockcount_656'', ''sharedLockCount'', [(''../classfpmas_1_1synchro_1_1hard_1_1HardSyncMutex.html#a503a488a7bb794289e67a0107e5c051e'', 1, ''fpmas::synchro::hard::HardSyncMutex::sharedLockCount()''),
        (''../classfpmas_1_1synchro_1_1ghost_1_1SingleThreadMutex.html#a784977c35b52d3a6cd60b4c9bdcbde32'', 1, ''fpmas::synchro::ghost::SingleThreadMutex::sharedLockCount()''),
        (''../classfpmas_1_1api_1_1synchro_1_1Mutex.html#a88eb37a3a4cda19240ec05fc6280c7db'', 1, ''fpmas::api::synchro::Mutex::sharedLockCount()'')]),
      (''sharedlockguard_657'', ''SharedLockGuard'', [(''../classfpmas_1_1model_1_1SharedLockGuard.html'', 1, ''fpmas::model::SharedLockGuard''),
        (''../classfpmas_1_1synchro_1_1SharedLockGuard.html'', 1, ''fpmas::synchro::SharedLockGuard&lt; T &gt;''),
        (''../classfpmas_1_1synchro_1_1SharedLockGuard.html#a62c1489ae226d2594f1447e5b6453f7a'', 1, ''fpmas::synchro::SharedLockGuard::SharedLockGuard()''),
        (''../classfpmas_1_1model_1_1SharedLockGuard.html#ab2969a420b99e9ba7892d93a10bf6634'', 1, ''fpmas::model::SharedLockGuard::SharedLockGuard()'')]),
      (''sharedlockguard_3c_20fpmas_3a_3aapi_3a_3amodel_3a_3aagentptr_20_3e_658'', ''SharedLockGuard&lt; fpmas::api::model::AgentPtr &gt;'', [(''../classfpmas_1_1synchro_1_1SharedLockGuard.html'', 1, ''fpmas::synchro'')]),
      (''shuffle_659'', ''shuffle'', [(''../classfpmas_1_1model_1_1Neighbors.html#afa5d351d629ea1c87352df4eb4b8a196'', 1, ''fpmas::model::Neighbors'')]),
      (''single_660'', ''Single'', [(''../classfpmas_1_1io_1_1Local_1_1Single.html'', 1, ''fpmas::io::Local&lt; T &gt;::Single''),
        (''../classfpmas_1_1io_1_1Reduce_1_1Single.html'', 1, ''fpmas::io::Reduce&lt; T, BinaryOp, Mpi &gt;::Single''),
        (''../classfpmas_1_1io_1_1Local_1_1Single.html#a9a44aea0e4e65ba44ab875578b1d7f6d'', 1, ''fpmas::io::Local::Single::Single()''),
        (''../classfpmas_1_1io_1_1Reduce_1_1Single.html#a6e4a4e746f8926809a25916a3cdc5451'', 1, ''fpmas::io::Reduce::Single::Single()'')]),
      (''singlethreadmutex_661'', ''SingleThreadMutex'', [(''../classfpmas_1_1synchro_1_1ghost_1_1SingleThreadMutex.html'', 1, ''fpmas::synchro::ghost::SingleThreadMutex&lt; T &gt;''),
        (''../classfpmas_1_1synchro_1_1ghost_1_1SingleThreadMutex.html#afbebfb957fc05f42864ca864f756a0e1'', 1, ''fpmas::synchro::ghost::SingleThreadMutex::SingleThreadMutex()'')]),
      (''size_662'', ''size'', [(''../classfpmas_1_1api_1_1communication_1_1DataPack.html#a13bb6c2725dbeb314bc40376efbeb176'', 1, ''fpmas::api::communication::DataPack::size()''),
        (''../structfpmas_1_1api_1_1communication_1_1Status.html#a71d1726a2595395b8fce99ccf8a0da0e'', 1, ''fpmas::api::communication::Status::size()''),
        (''../classfpmas_1_1communication_1_1MpiCommunicatorBase.html#a8db93e98133c98d9eb1ea4c442640ab5'', 1, ''fpmas::communication::MpiCommunicatorBase::size()'')]),
      (''source_663'', ''source'', [(''../structfpmas_1_1api_1_1communication_1_1Status.html#ae72f73a165c508e32efb8aba3b8122ec'', 1, ''fpmas::api::communication::Status::source()''),
        (''../structfpmas_1_1synchro_1_1hard_1_1api_1_1MutexRequest.html#abb66d42eabf084bddc87cf9addb32abe'', 1, ''fpmas::synchro::hard::api::MutexRequest::source()'')]),
      (''spatial_5fmodel_2eh_664'', ''spatial_model.h'', [(''../model_2spatial_2spatial__model_8h.html'', 1, ''(Global Namespace)''),
        (''../api_2model_2spatial_2spatial__model_8h.html'', 1, ''(Global Namespace)'')]),
      (''spatialagent_665'', ''SpatialAgent'', [(''../classfpmas_1_1api_1_1model_1_1SpatialAgent.html'', 1, ''fpmas::api::model::SpatialAgent&lt; CellType &gt;''),
        (''../classfpmas_1_1model_1_1SpatialAgent.html'', 1, ''fpmas::model::SpatialAgent&lt; AgentType, CellType, Derived &gt;'')]),
      (''spatialagent_3c_20api_3a_3amodel_3a_3acell_20_3e_666'', ''SpatialAgent&lt; api::model::Cell &gt;'', [(''../classfpmas_1_1api_1_1model_1_1SpatialAgent.html'', 1, ''fpmas::api::model'')]),
      (''spatialagent_3c_20api_3a_3amodel_3a_3agridcell_20_3e_667'', ''SpatialAgent&lt; api::model::GridCell &gt;'', [(''../classfpmas_1_1api_1_1model_1_1SpatialAgent.html'', 1, ''fpmas::api::model'')]),
      (''spatialagent_3c_20gridcelltype_20_3e_668'', ''SpatialAgent&lt; GridCellType &gt;'', [(''../classfpmas_1_1api_1_1model_1_1SpatialAgent.html'', 1, ''fpmas::api::model'')]),
      (''spatialagentbase_669'', ''SpatialAgentBase'', [(''../classfpmas_1_1model_1_1SpatialAgentBase.html'', 1, ''fpmas::model::SpatialAgentBase&lt; AgentType, CellType, Derived &gt;''),
        (''../classfpmas_1_1model_1_1SpatialAgentBase.html#a64471d5cb6df79793703597081ad85ea'', 1, ''fpmas::model::SpatialAgentBase::SpatialAgentBase()'')]),
      (''spatialagentbase_3c_20agenttype_2c_20api_3a_3amodel_3a_3acell_2c_20agenttype_20_3e_670'', ''SpatialAgentBase&lt; AgentType, api::model::Cell, AgentType &gt;'', [(''../classfpmas_1_1model_1_1SpatialAgentBase.html'', 1, ''fpmas::model'')]),
      (''spatialagentbase_3c_20agenttype_2c_20api_3a_3amodel_3a_3agridcell_2c_20gridagent_3c_20agenttype_2c_20api_3a_3amodel_3a_3agridcell_2c_20agenttype_20_3e_20_3e_671'', ''SpatialAgentBase&lt; AgentType, api::model::GridCell, GridAgent&lt; AgentType, api::model::GridCell, AgentType &gt; &gt;'', [(''../classfpmas_1_1model_1_1SpatialAgentBase.html'', 1, ''fpmas::model'')]),
      (''spatialagentbehavior_672'', ''SpatialAgentBehavior'', [(''../classfpmas_1_1api_1_1model_1_1SpatialAgentBehavior.html'', 1, ''fpmas::api::model'')]),
      (''spatialagentbuilder_673'', ''SpatialAgentBuilder'', [(''../classfpmas_1_1api_1_1model_1_1SpatialAgentBuilder.html'', 1, ''fpmas::api::model::SpatialAgentBuilder&lt; CellType, MappingCellType &gt;''),
        (''../classfpmas_1_1model_1_1SpatialAgentBuilder.html'', 1, ''fpmas::model::SpatialAgentBuilder&lt; CellType, MappingCellType &gt;'')]),
      (''spatialagentbuilder_3c_20celltype_2c_20api_3a_3amodel_3a_3acell_20_3e_674'', ''SpatialAgentBuilder&lt; CellType, api::model::Cell &gt;'', [(''../classfpmas_1_1api_1_1model_1_1SpatialAgentBuilder.html'', 1, ''fpmas::api::model'')]),
      (''spatialagentfactory_675'', ''SpatialAgentFactory'', [(''../classfpmas_1_1api_1_1model_1_1SpatialAgentFactory.html'', 1, ''fpmas::api::model'')]),
      (''spatialagentfactory_3c_20agenttype_3a_3acell_20_3e_676'', ''SpatialAgentFactory&lt; AgentType::Cell &gt;'', [(''../classfpmas_1_1api_1_1model_1_1SpatialAgentFactory.html'', 1, ''fpmas::api::model'')]),
      (''spatialagentmapping_677'', ''SpatialAgentMapping'', [(''../classfpmas_1_1api_1_1model_1_1SpatialAgentMapping.html'', 1, ''fpmas::api::model'')]),
      (''spatialagentmapping_3c_20api_3a_3amodel_3a_3acell_20_3e_678'', ''SpatialAgentMapping&lt; api::model::Cell &gt;'', [(''../classfpmas_1_1api_1_1model_1_1SpatialAgentMapping.html'', 1, ''fpmas::api::model'')]),
      (''spatialagentmapping_3c_20api_3a_3amodel_3a_3agridcell_20_3e_679'', ''SpatialAgentMapping&lt; api::model::GridCell &gt;'', [(''../classfpmas_1_1api_1_1model_1_1SpatialAgentMapping.html'', 1, ''fpmas::api::model'')]),
      (''spatialmodel_680'', ''SpatialModel'', [(''../classfpmas_1_1api_1_1model_1_1SpatialModel.html'', 1, ''fpmas::api::model::SpatialModel&lt; CellType &gt;''),
        (''../classfpmas_1_1model_1_1SpatialModel.html'', 1, ''fpmas::model::SpatialModel&lt; SyncMode, CellType, EndCondition &gt;''),
        (''../classfpmas_1_1model_1_1SpatialModel.html#abe3abb3af5ef0eb3c76fe585553ea375'', 1, ''fpmas::model::SpatialModel::SpatialModel()'')]),
      (''spatialmodel_3c_20api_3a_3amodel_3a_3acell_20_3e_681'', ''SpatialModel&lt; api::model::Cell &gt;'', [(''../classfpmas_1_1api_1_1model_1_1SpatialModel.html'', 1, ''fpmas::api::model'')]),
      (''spatialmodellayers_682'', ''SpatialModelLayers'', [(''../namespacefpmas_1_1api_1_1model.html#a61b472901d2de4d31db2f66bfa1089a8'', 1, ''fpmas::api::model'')]),
      (''start_683'', ''start'', [(''../classfpmas_1_1utils_1_1perf_1_1Probe.html#a0e667882b5bcf92f0471d8ab854949f0'', 1, ''fpmas::utils::perf::Probe::start()''),
        (''../classfpmas_1_1api_1_1utils_1_1perf_1_1Probe.html#afa16d073966abf9aa53ff1729ec42513'', 1, ''fpmas::api::utils::perf::Probe::start()'')]),
      (''state_684'', ''state'', [(''../classfpmas_1_1graph_1_1DistributedNode.html#aec35c6b25bb1f640fc44679308290209'', 1, ''fpmas::graph::DistributedNode::state()''),
        (''../classfpmas_1_1graph_1_1DistributedEdge.html#a8547dd0a19e0aad902ee36d580009dc8'', 1, ''fpmas::graph::DistributedEdge::state()''),
        (''../classfpmas_1_1api_1_1graph_1_1DistributedEdge.html#a82477d497010f9398f2527234b745695'', 1, ''fpmas::api::graph::DistributedEdge::state()''),
        (''../classfpmas_1_1api_1_1graph_1_1DistributedNode.html#a3bbad9ecc09a033de17d3457964a9783'', 1, ''fpmas::api::graph::DistributedNode::state()'')]),
      (''staticendcondition_685'', ''StaticEndCondition'', [(''../classfpmas_1_1model_1_1StaticEndCondition.html'', 1, ''fpmas::model::StaticEndCondition&lt; RangeType, MaxRangeSize, CellType &gt;''),
        (''../classfpmas_1_1model_1_1StaticEndCondition.html#a2f91ef814898dc78242a52a2e400bcc9'', 1, ''fpmas::model::StaticEndCondition::StaticEndCondition()'')]),
      (''status_686'', ''Status'', [(''../structfpmas_1_1api_1_1communication_1_1Status.html'', 1, ''fpmas::api::communication'')]),
      (''step_687'', ''step'', [(''../classfpmas_1_1model_1_1DynamicEndCondition.html#a2d268ec7ea1023ca9f68fdb26124ec3f'', 1, ''fpmas::model::DynamicEndCondition::step()''),
        (''../classfpmas_1_1api_1_1model_1_1EndCondition.html#affc81891d0e5cafa8def7ab1de794050'', 1, ''fpmas::api::model::EndCondition::step()''),
        (''../classfpmas_1_1model_1_1StaticEndCondition.html#aa798031930003e3ee011b1e106ed5667'', 1, ''fpmas::model::StaticEndCondition::step()'')]),
      (''stop_688'', ''stop'', [(''../classfpmas_1_1api_1_1utils_1_1perf_1_1Probe.html#a2bf0e19538660ce18397d54da1e200ad'', 1, ''fpmas::api::utils::perf::Probe::stop()''),
        (''../classfpmas_1_1utils_1_1perf_1_1Probe.html#a54d257d98b55c3582fa066fbd2c3da59'', 1, ''fpmas::utils::perf::Probe::stop()'')]),
      (''str_689'', ''str'', [(''../classfpmas_1_1io_1_1StringOutput.html#a853b0fa1ebd77b4a65dcfd7413481b44'', 1, ''fpmas::io::StringOutput'')]),
      (''stringoutput_690'', ''StringOutput'', [(''../classfpmas_1_1io_1_1StringOutput.html'', 1, ''fpmas::io'')]),
      (''sub_5fstep_5fend_691'', ''sub_step_end'', [(''../namespacefpmas_1_1api_1_1scheduler.html#a5307289f802aab9ba49f2fbd80015069'', 1, ''fpmas::api::scheduler'')]),
      (''sub_5ftime_5fstep_692'', ''sub_time_step'', [(''../namespacefpmas_1_1api_1_1scheduler.html#a4338c78f37b052ffbab5cc4e2b1392c2'', 1, ''fpmas::api::scheduler'')]),
      (''submit_693'', ''submit'', [(''../classfpmas_1_1api_1_1scheduler_1_1Epoch.html#ae47cd7df1f404ebf18ecf1e7eb5c1221'', 1, ''fpmas::api::scheduler::Epoch::submit(const Job &amp;job, SubTimeStep sub_time_step)=0''),
        (''../classfpmas_1_1api_1_1scheduler_1_1Epoch.html#a06b1d118d348e2f2fa38b9a4b5359ffd'', 1, ''fpmas::api::scheduler::Epoch::submit(JobList job_list, SubTimeStep sub_time_step)=0''),
        (''../classfpmas_1_1scheduler_1_1Epoch.html#aa8c5675a5ae2834ebb6ffd84c4905444'', 1, ''fpmas::scheduler::Epoch::submit(const api::scheduler::Job &amp;, api::scheduler::SubTimeStep sub_time_step) override''),
        (''../classfpmas_1_1scheduler_1_1Epoch.html#a9e19ee9053af5786cdec0f8af9115123'', 1, ''fpmas::scheduler::Epoch::submit(api::scheduler::JobList job_list, api::scheduler::SubTimeStep sub_time_step) override'')]),
      (''subtimestep_694'', ''SubTimeStep'', [(''../namespacefpmas_1_1api_1_1scheduler.html#a77af02d3aacc514067e2762f0d021261'', 1, ''fpmas::api::scheduler'')]),
      (''successors_695'', ''successors'', [(''../classfpmas_1_1model_1_1CellBase.html#a16ed9973dcf9da54710b43ed495d4ea3'', 1, ''fpmas::model::CellBase::successors()''),
        (''../classfpmas_1_1api_1_1model_1_1Cell.html#a8fb19e195c393d83e289da838b8f3391'', 1, ''fpmas::api::model::Cell::successors()'')]),
      (''sync_5fmode_2eh_696'', ''sync_mode.h'', [(''../sync__mode_8h.html'', 1, '''')]),
      (''synchronizationmode_697'', ''synchronizationMode'', [(''../classfpmas_1_1graph_1_1detail_1_1DistributedGraph.html#ad561fe9e8021d1d6506f14a038521fb2'', 1, ''fpmas::graph::detail::DistributedGraph::synchronizationMode()''),
        (''../classfpmas_1_1api_1_1graph_1_1DistributedGraph.html#a9b8c4aa878f481b81c025c03e5f14be6'', 1, ''fpmas::api::graph::DistributedGraph::synchronizationMode()'')]),
      (''synchronize_698'', ''synchronize'', [(''../classfpmas_1_1synchro_1_1ghost_1_1GhostSyncLinker.html#a33187466eb861c1e977e07068ae67d32'', 1, ''fpmas::synchro::ghost::GhostSyncLinker::synchronize()''),
        (''../classfpmas_1_1synchro_1_1hard_1_1HardSyncLinker.html#a1cc71ff0bbe698fc7114081197561bb2'', 1, ''fpmas::synchro::hard::HardSyncLinker::synchronize()''),
        (''../classfpmas_1_1synchro_1_1hard_1_1HardDataSync.html#a0eb71e13088fcd1e898fd82fe6b2e5c2'', 1, ''fpmas::synchro::hard::HardDataSync::synchronize()''),
        (''../classfpmas_1_1synchro_1_1ghost_1_1GhostDataSync.html#a643124d03fa8af849051469a8a7290d8'', 1, ''fpmas::synchro::ghost::GhostDataSync::synchronize()''),
        (''../classfpmas_1_1model_1_1GraphRange.html#a6c4934305d1eea785dddd3f24a5a6364'', 1, ''fpmas::model::GraphRange::synchronize()''),
        (''../classfpmas_1_1graph_1_1detail_1_1DistributedGraph.html#a8feb8a3a21c40a734e2d3b3593114e37'', 1, ''fpmas::graph::detail::DistributedGraph::synchronize()''),
        (''../classfpmas_1_1api_1_1synchro_1_1SyncLinker.html#a82048e7e48cba49d8242df2aaa2d26be'', 1, ''fpmas::api::synchro::SyncLinker::synchronize()''),
        (''../classfpmas_1_1api_1_1synchro_1_1DataSync.html#a0bec0beaff6ec61fbb5c19c060c7d470'', 1, ''fpmas::api::synchro::DataSync::synchronize()''),
        (''../classfpmas_1_1api_1_1graph_1_1DistributedGraph.html#acf23a48ac7af373c0d92b7dd50764da9'', 1, ''fpmas::api::graph::DistributedGraph::synchronize()'')]),
      (''synchronizegraphtask_699'', ''SynchronizeGraphTask'', [(''../classfpmas_1_1model_1_1detail_1_1SynchronizeGraphTask.html'', 1, ''fpmas::model::detail::SynchronizeGraphTask''),
        (''../classfpmas_1_1model_1_1detail_1_1SynchronizeGraphTask.html#a9b4ab8b89821589c7a16d0db0b35a6be'', 1, ''fpmas::model::detail::SynchronizeGraphTask::SynchronizeGraphTask()'')]),
      (''synclinker_700'', ''SyncLinker'', [(''../classfpmas_1_1api_1_1synchro_1_1SyncLinker.html'', 1, ''fpmas::api::synchro'')]),
      (''syncmode_701'', ''SyncMode'', [(''../classfpmas_1_1api_1_1synchro_1_1SyncMode.html'', 1, ''fpmas::api::synchro'')])]"

definition all_12 :: "raw_entry list" where
  "all_12 = [
      (''tag_702'', ''Tag'', [(''../namespacefpmas_1_1synchro_1_1hard_1_1api.html#af0c73301fe0dbfb290dc128612232db9'', 1, ''fpmas::synchro::hard::api'')]),
      (''tag_703'', ''tag'', [(''../structfpmas_1_1api_1_1communication_1_1Status.html#a40df648667851fd963b609a4dfa4f416'', 1, ''fpmas::api::communication::Status'')]),
      (''task_704'', ''Task'', [(''../classfpmas_1_1api_1_1scheduler_1_1Task.html'', 1, ''fpmas::api::scheduler'')]),
      (''task_705'', ''task'', [(''../classfpmas_1_1model_1_1AgentBase.html#a6cfdc386c9794c6c469e8c4619ee3941'', 1, ''fpmas::model::AgentBase::task()''),
        (''../classfpmas_1_1api_1_1model_1_1Agent.html#a33ce2c6ccad92c42cfa76f7cb54d8470'', 1, ''fpmas::api::model::Agent::task(GroupId id) const =0''),
        (''../classfpmas_1_1api_1_1model_1_1Agent.html#af6288ad4a6b343807c13ede7f1e98bbd'', 1, ''fpmas::api::model::Agent::task(GroupId id)=0''),
        (''../classfpmas_1_1api_1_1model_1_1Agent.html#a3e635c3ee12b226056a270dd21825816'', 1, ''fpmas::api::model::Agent::task() const =0''),
        (''../classfpmas_1_1api_1_1model_1_1Agent.html#a67db390e324f864aed535a18339a124e'', 1, ''fpmas::api::model::Agent::task()=0''),
        (''../classfpmas_1_1model_1_1AgentBase.html#a253d2291a3e22bc0f74df17adfc3e6e9'', 1, ''fpmas::model::AgentBase::task() const override''),
        (''../classfpmas_1_1model_1_1AgentBase.html#a0eee6c69333e02b8802030cddb86aca6'', 1, ''fpmas::model::AgentBase::task(api::model::GroupId id) override''),
        (''../classfpmas_1_1model_1_1AgentBase.html#aabfeefe9f1c23ae97ded6dae23d4d214'', 1, ''fpmas::model::AgentBase::task(api::model::GroupId id) const override'')]),
      (''taskiterator_706'', ''TaskIterator'', [(''../classfpmas_1_1api_1_1scheduler_1_1Job.html#a0d2eff9ada080dc6be37ca4da2f99ed0'', 1, ''fpmas::api::scheduler::Job'')]),
      (''tasks_707'', ''tasks'', [(''../classfpmas_1_1api_1_1model_1_1Agent.html#abdd1c49e6ec9696bf0d8a42aa3b15768'', 1, ''fpmas::api::model::Agent::tasks()''),
        (''../classfpmas_1_1api_1_1scheduler_1_1Job.html#adf65c26924db62ae0adc8ae812b0a891'', 1, ''fpmas::api::scheduler::Job::tasks()''),
        (''../classfpmas_1_1model_1_1AgentBase.html#a088d25931e55b74ca34752a4317a988a'', 1, ''fpmas::model::AgentBase::tasks()''),
        (''../classfpmas_1_1scheduler_1_1Job.html#a64457ed4997c9c4d7cb57ce0d8c7ae0d'', 1, ''fpmas::scheduler::Job::tasks()'')]),
      (''temp_5fgroup_5fid_708'', ''TEMP_GROUP_ID'', [(''../classfpmas_1_1model_1_1SpatialAgentBuilder.html#a01fafb24e35a869b210f302935d80290'', 1, ''fpmas::model::SpatialAgentBuilder'')]),
      (''terminate_709'', ''terminate'', [(''../classfpmas_1_1synchro_1_1hard_1_1api_1_1TerminationAlgorithm.html#a39c03976945f0087bfeb75fdcc312055'', 1, ''fpmas::synchro::hard::api::TerminationAlgorithm::terminate()''),
        (''../classfpmas_1_1synchro_1_1hard_1_1ServerPack.html#a29290c0b789b4fb1fbbc046f910483ad'', 1, ''fpmas::synchro::hard::ServerPack::terminate()''),
        (''../classfpmas_1_1synchro_1_1hard_1_1TerminationAlgorithm.html#a028641fe7a270c218391e43e26c84d4b'', 1, ''fpmas::synchro::hard::TerminationAlgorithm::terminate()'')]),
      (''termination_2eh_710'', ''termination.h'', [(''../termination_8h.html'', 1, '''')]),
      (''terminationalgorithm_711'', ''TerminationAlgorithm'', [(''../classfpmas_1_1synchro_1_1hard_1_1api_1_1TerminationAlgorithm.html'', 1, ''fpmas::synchro::hard::api::TerminationAlgorithm''),
        (''../classfpmas_1_1synchro_1_1hard_1_1TerminationAlgorithm.html'', 1, ''fpmas::synchro::hard::TerminationAlgorithm''),
        (''../classfpmas_1_1synchro_1_1hard_1_1TerminationAlgorithm.html#a5584e7b1b819c9b2cef6fe91698fd19d'', 1, ''fpmas::synchro::hard::TerminationAlgorithm::TerminationAlgorithm()'')]),
      (''test_712'', ''test'', [(''../classfpmas_1_1communication_1_1MpiCommunicatorBase.html#ad0af13c5b293e5dc32d60ceedc26df4d'', 1, ''fpmas::communication::MpiCommunicatorBase::test()''),
        (''../classfpmas_1_1api_1_1communication_1_1MpiCommunicator.html#a0caebcfc6fb644898553ca0bc507c4f6'', 1, ''fpmas::api::communication::MpiCommunicator::test()'')]),
      (''time_5fstep_713'', ''time_step'', [(''../namespacefpmas_1_1api_1_1scheduler.html#a4019ccd09789098c4330d9763150adfa'', 1, ''fpmas::api::scheduler'')]),
      (''timestep_714'', ''TimeStep'', [(''../namespacefpmas_1_1api_1_1scheduler.html#ad5a155cbf800b483b5555af9d45c92fa'', 1, ''fpmas::api::scheduler'')]),
      (''to_5fcsv_715'', ''to_csv'', [(''../structfpmas_1_1io_1_1CsvSerial_3_01std_1_1chrono_1_1duration_3_01Rep_00_01Ratio_01_4_01_4.html#a0f915c4f8cfa6c5c33ad3aa813fa8e7c'', 1, ''fpmas::io::CsvSerial&lt; std::chrono::duration&lt; Rep, Ratio &gt; &gt;::to_csv()''),
        (''../structfpmas_1_1io_1_1CsvSerial.html#a24d88f30b4a8007e3ec2e8877d7a6abc'', 1, ''fpmas::io::CsvSerial::to_csv()'')]),
      (''to_5fjson_716'', ''to_json'', [(''../structnlohmann_1_1adl__serializer_3_01fpmas_1_1api_1_1utils_1_1PtrWrapper_3_01fpmas_1_1model_1_189f18958e721d64cf9081bb53023a6a1.html#af238639f73cf42a659ce71caa4ccdf20'', 1, ''nlohmann::adl_serializer&lt; fpmas::api::utils::PtrWrapper&lt; fpmas::model::GraphCellBase&lt; AgentType, Derived &gt; &gt; &gt;::to_json()''),
        (''../structnlohmann_1_1adl__serializer_3_01std_1_1type__index_01_4.html#ab749767dafdfbefc5004d58eb20fc3da'', 1, ''nlohmann::adl_serializer&lt; std::type_index &gt;::to_json()''),
        (''../structnlohmann_1_1adl__serializer_3_01fpmas_1_1model_1_1ReachableCell_01_4.html#ad3a66dc21d01421d94eaadf888c3859b'', 1, ''nlohmann::adl_serializer&lt; fpmas::model::ReachableCell &gt;::to_json()''),
        (''../structfpmas_1_1io_1_1json_1_1light__serializer_3_01NodePtrWrapper_3_01T_01_4_01_4.html#af7cdf14526508971dda78259dc9d64a2'', 1, ''fpmas::io::json::light_serializer&lt; NodePtrWrapper&lt; T &gt; &gt;::to_json()''),
        (''../structfpmas_1_1model_1_1AgentPtrSerializer.html#ae4803fbd043d62e8da187eecc0202150'', 1, ''fpmas::model::AgentPtrSerializer::to_json()''),
        (''../structfpmas_1_1model_1_1AgentPtrSerializer_3_01JsonType_00_01void_01_4.html#a3931559f7449c70806cab05d6e773b97'', 1, ''fpmas::model::AgentPtrSerializer&lt; JsonType, void &gt;::to_json()''),
        (''../structfpmas_1_1io_1_1json_1_1light__serializer_3_01fpmas_1_1api_1_1utils_1_1PtrWrapper_3_01Agent897a43c8e174bcaded636be4611a9868.html#a572e62f598b316f09cd3d0f123f5851f'', 1, ''fpmas::io::json::light_serializer&lt; fpmas::api::utils::PtrWrapper&lt; AgentType &gt;, typename std::enable_if&lt; std::is_base_of&lt; fpmas::api::model::Agent, AgentType &gt;::value &amp;&amp;std::is_default_constructible&lt; AgentType &gt;::value &amp;&amp;std::is_same&lt; AgentType, typename AgentType::FinalAgentType &gt;::value &gt;::type &gt;::to_json()''),
        (''../structfpmas_1_1io_1_1json_1_1light__serializer_3_01fpmas_1_1api_1_1utils_1_1PtrWrapper_3_01Agent1166da05b8eb25f2bd231c13fb984d35.html#a46ef7c930f888202d3c9eb3512d60d51'', 1, ''fpmas::io::json::light_serializer&lt; fpmas::api::utils::PtrWrapper&lt; AgentType &gt;, typename std::enable_if&lt; std::is_base_of&lt; fpmas::api::model::Agent, AgentType &gt;::value &amp;&amp;!std::is_default_constructible&lt; AgentType &gt;::value &amp;&amp;std::is_same&lt; AgentType, typename AgentType::FinalAgentType &gt;::value &gt;::type &gt;::to_json()''),
        (''../structnlohmann_1_1adl__serializer_3_01fpmas_1_1api_1_1utils_1_1PtrWrapper_3_01AgentType_01_4_01_4.html#aafc696e6ab69798d024ba9d97210aa35'', 1, ''nlohmann::adl_serializer&lt; fpmas::api::utils::PtrWrapper&lt; AgentType &gt; &gt;::to_json()''),
        (''../structnlohmann_1_1adl__serializer_3_01fpmas_1_1api_1_1utils_1_1PtrWrapper_3_01fpmas_1_1model_1_1784f1e1360367771d11e7adbddb7008f.html#ad96f9ccac8ad879d954770956ad3fe8f'', 1, ''nlohmann::adl_serializer&lt; fpmas::api::utils::PtrWrapper&lt; fpmas::model::GridCellBase&lt; GridCellType, Derived &gt; &gt; &gt;::to_json()''),
        (''../structfpmas_1_1io_1_1json_1_1light__serializer_3_01fpmas_1_1api_1_1utils_1_1PtrWrapper_3_01fpmasa66c0aec42b8e119b4cc9e7da5cc5a4c.html#ab356fc7402d9ab66f4a97233f92b7791'', 1, ''fpmas::io::json::light_serializer&lt; fpmas::api::utils::PtrWrapper&lt; fpmas::model::GraphCellBase&lt; AgentType, Derived &gt; &gt; &gt;::to_json()''),
        (''../structnlohmann_1_1adl__serializer_3_01fpmas_1_1api_1_1model_1_1DiscretePoint_01_4.html#ab4dd2a0f200472b4b96aab3d14e3e4e7'', 1, ''nlohmann::adl_serializer&lt; fpmas::api::model::DiscretePoint &gt;::to_json()''),
        (''../structnlohmann_1_1adl__serializer_3_01std_1_1chrono_1_1duration_3_01Rep_00_01Ratio_01_4_01_4.html#ae1c7cff0d6cfa2a86126f48a8a88a3df'', 1, ''nlohmann::adl_serializer&lt; std::chrono::duration&lt; Rep, Ratio &gt; &gt;::to_json()''),
        (''../structnlohmann_1_1adl__serializer_3_01NodeUpdatePack_3_01T_01_4_01_4.html#a0f385a3ee53a1a04ecd3bb745250430e'', 1, ''nlohmann::adl_serializer&lt; NodeUpdatePack&lt; T &gt; &gt;::to_json()''),
        (''../structnlohmann_1_1adl__serializer_3_01DataUpdatePack_3_01T_01_4_01_4.html#ab8cb02a39c04e68fb4c8df2d7842b389'', 1, ''nlohmann::adl_serializer&lt; DataUpdatePack&lt; T &gt; &gt;::to_json()''),
        (''../structfpmas_1_1io_1_1json_1_1light__serializer_3_01fpmas_1_1api_1_1utils_1_1PtrWrapper_3_01fpmasc84e89e520a4a0cda5345fc83f0b8125.html#a81ef6b37d83ecdc47452a449dbc33953'', 1, ''fpmas::io::json::light_serializer&lt; fpmas::api::utils::PtrWrapper&lt; fpmas::model::SpatialAgentBase&lt; AgentType, CellType, Derived &gt; &gt; &gt;::to_json()''),
        (''../structnlohmann_1_1adl__serializer_3_01fpmas_1_1api_1_1utils_1_1PtrWrapper_3_01fpmas_1_1model_1_15c21a6b0ad54d23aaa2f84ed15f8db9e.html#ae8e095bade2162a3959f3ef3cee339b3'', 1, ''nlohmann::adl_serializer&lt; fpmas::api::utils::PtrWrapper&lt; fpmas::model::SpatialAgentBase&lt; AgentType, CellType, Derived &gt; &gt; &gt;::to_json()''),
        (''../structfpmas_1_1io_1_1json_1_1light__serializer_3_01fpmas_1_1api_1_1utils_1_1PtrWrapper_3_01fpmas6514cec9ffaf9ddc3a05c9b72f5062b9.html#a46542f7fdc3fea287d0973ee03fade95'', 1, ''fpmas::io::json::light_serializer&lt; fpmas::api::utils::PtrWrapper&lt; fpmas::model::GridAgent&lt; AgentType, CellType, Derived &gt; &gt; &gt;::to_json()''),
        (''../structfpmas_1_1io_1_1json_1_1light__serializer_3_01fpmas_1_1api_1_1utils_1_1PtrWrapper_3_01fpmas087459d4f5dfa9eac727b48e6313447e.html#ab757655ed846b28739122191f311afe1'', 1, ''fpmas::io::json::light_serializer&lt; fpmas::api::utils::PtrWrapper&lt; fpmas::model::GridCellBase&lt; GridCellType, Derived &gt; &gt; &gt;::to_json()''),
        (''../structnlohmann_1_1adl__serializer_3_01fpmas_1_1api_1_1utils_1_1PtrWrapper_3_01fpmas_1_1model_1_136032a46204f163d868560f92634ba90.html#a5493520712a1338a1722ef9d99b39587'', 1, ''nlohmann::adl_serializer&lt; fpmas::api::utils::PtrWrapper&lt; fpmas::model::GridAgent&lt; AgentType, CellType, Derived &gt; &gt; &gt;::to_json()''),
        (''../structnlohmann_1_1adl__serializer_3_01fpmas_1_1api_1_1model_1_1AgentPtr_01_4.html#ade937b52afe3ee0b25f8ca0a816e5f9e'', 1, ''nlohmann::adl_serializer&lt; fpmas::api::model::AgentPtr &gt;::to_json()''),
        (''../structfpmas_1_1io_1_1json_1_1light__serializer_3_01fpmas_1_1api_1_1model_1_1AgentPtr_01_4.html#a9cb8d08cf539e6e25a75adc4633ad5dd'', 1, ''fpmas::io::json::light_serializer&lt; fpmas::api::model::AgentPtr &gt;::to_json()''),
        (''../structfpmas_1_1io_1_1json_1_1light__serializer_3_01T_00_01typename_01std_1_1enable__if_3_9std_1_5b712814e422b4c73c9fd9f49be13323.html#a7089659b1a01771edf73fcef2a6536b7'', 1, ''fpmas::io::json::light_serializer&lt; T, typename std::enable_if&lt;!std::is_default_constructible&lt; T &gt;::value &gt;::type &gt;::to_json()''),
        (''../structfpmas_1_1io_1_1json_1_1light__serializer.html#a6d92f744dabdfb57ddd3f68f6bab3dd8'', 1, ''fpmas::io::json::light_serializer::to_json()''),
        (''../structnlohmann_1_1adl__serializer_3_01fpmas_1_1api_1_1graph_1_1LocationManager_3_01T_01_4_01_4.html#a9a0e97381ed8800d8bd9e9317112c30e'', 1, ''nlohmann::adl_serializer&lt; fpmas::api::graph::LocationManager&lt; T &gt; &gt;::to_json()''),
        (''../structnlohmann_1_1adl__serializer_3_01fpmas_1_1graph_1_1detail_1_1LocalizedNodeView_3_01T_01_4_01_4.html#a4fe8ab7c7170007b71bb796d784964a6'', 1, ''nlohmann::adl_serializer&lt; fpmas::graph::detail::LocalizedNodeView&lt; T &gt; &gt;::to_json()''),
        (''../structnlohmann_1_1adl__serializer_3_01NodePtrWrapper_3_01T_01_4_01_4.html#a6b906506ca7bd554501fc2f939855182'', 1, ''nlohmann::adl_serializer&lt; NodePtrWrapper&lt; T &gt; &gt;::to_json()''),
        (''../structnlohmann_1_1adl__serializer_3_01fpmas_1_1api_1_1graph_1_1DistributedGraph_3_01T_01_4_01_4.html#a91c8e1060603e1722ec42b3c0c16fd56'', 1, ''nlohmann::adl_serializer&lt; fpmas::api::graph::DistributedGraph&lt; T &gt; &gt;::to_json()''),
        (''../structnlohmann_1_1adl__serializer_3_01EdgePtrWrapper_3_01T_01_4_01_4.html#a0b5b70ba9113d0aa45ff4306e780ad24'', 1, ''nlohmann::adl_serializer&lt; EdgePtrWrapper&lt; T &gt; &gt;::to_json()''),
        (''../structnlohmann_1_1adl__serializer_3_01DistributedId_01_4.html#ac940522a325bac9acfceb5985b523de2'', 1, ''nlohmann::adl_serializer&lt; DistributedId &gt;::to_json()''),
        (''../structnlohmann_1_1adl__serializer_3_01fpmas_1_1api_1_1model_1_1Model_01_4.html#a3aefa6225128c57688131fd8068884e2'', 1, ''nlohmann::adl_serializer&lt; fpmas::api::model::Model &gt;::to_json()'')]),
      (''to_5fstring_717'', ''to_string'', [(''../namespacefpmas.html#ae25eaa27642d79622104b01cb51e8cc9'', 1, ''fpmas::to_string(const api::graph::DistributedId &amp;id)''),
        (''../namespacefpmas.html#ac32091fe107997df840770b6b4d28bcf'', 1, ''fpmas::to_string(const api::model::DiscretePoint &amp;point)'')]),
      (''totalduration_718'', ''totalDuration'', [(''../classfpmas_1_1api_1_1utils_1_1perf_1_1Monitor.html#a0effd9301ff52ae2b4ad1bfdceda915b'', 1, ''fpmas::api::utils::perf::Monitor::totalDuration()''),
        (''../classfpmas_1_1utils_1_1perf_1_1Monitor.html#a6e3a3765d7d426aaec7cf921193ae90b'', 1, ''fpmas::utils::perf::Monitor::totalDuration()'')]),
      (''type_719'', ''type'', [(''../structfpmas_1_1synchro_1_1hard_1_1api_1_1MutexRequest.html#a3ae19eb0a6e62e26d59f28c25d186c5a'', 1, ''fpmas::synchro::hard::api::MutexRequest'')]),
      (''type_720'', ''Type'', [(''../structfpmas_1_1io_1_1Local.html#ab4fa9196a2674cb6cd9b1b461f198003'', 1, ''fpmas::io::Local::Type()''),
        (''../structfpmas_1_1io_1_1Reduce.html#a00ef952e23ec8fe3013521645107f3d2'', 1, ''fpmas::io::Reduce::Type()'')]),
      (''type_5fid_721'', ''TYPE_ID'', [(''../classfpmas_1_1model_1_1AgentBase.html#a77887dacc49a91e62f49f3d25d05e854'', 1, ''fpmas::model::AgentBase'')]),
      (''typedagentptr_722'', ''TypedAgentPtr'', [(''../namespacefpmas_1_1model.html#ae9e9d1d75ae89feca3188cdee516ce1f'', 1, ''fpmas::model'')]),
      (''typedmpi_723'', ''TypedMpi'', [(''../classfpmas_1_1api_1_1communication_1_1TypedMpi.html'', 1, ''fpmas::api::communication::TypedMpi&lt; T &gt;''),
        (''../classfpmas_1_1communication_1_1detail_1_1TypedMpi.html'', 1, ''fpmas::communication::detail::TypedMpi&lt; T, JsonType &gt;''),
        (''../structfpmas_1_1communication_1_1TypedMpi.html'', 1, ''fpmas::communication::TypedMpi&lt; T &gt;''),
        (''../classfpmas_1_1communication_1_1detail_1_1TypedMpi.html#a1a89ccdd7a951f2b9a671410ff5dafc5'', 1, ''fpmas::communication::detail::TypedMpi::TypedMpi()'')]),
      (''typedmpi_3c_20color_20_3e_724'', ''TypedMpi&lt; Color &gt;'', [(''../structfpmas_1_1communication_1_1TypedMpi.html'', 1, ''fpmas::communication'')]),
      (''typedmpi_3c_20distributedid_20_3e_725'', ''TypedMpi&lt; DistributedId &gt;'', [(''../structfpmas_1_1communication_1_1TypedMpi.html'', 1, ''fpmas::communication'')]),
      (''typedmpi_3c_20fpmas_3a_3aapi_3a_3autils_3a_3aptrwrapper_3c_20t_20_3e_20_3e_726'', ''TypedMpi&lt; fpmas::api::utils::PtrWrapper&lt; T &gt; &gt;'', [(''../structfpmas_1_1communication_1_1TypedMpi.html'', 1, ''fpmas::communication'')]),
      (''typedmpi_3c_20fpmas_3a_3agraph_3a_3aedgeptrwrapper_3c_20t_20_3e_20_3e_727'', ''TypedMpi&lt; fpmas::graph::EdgePtrWrapper&lt; T &gt; &gt;'', [(''../structfpmas_1_1communication_1_1TypedMpi_3_01fpmas_1_1graph_1_1EdgePtrWrapper_3_01T_01_4_01_4.html'', 1, ''fpmas::communication'')]),
      (''typedmpi_3c_20fpmas_3a_3agraph_3a_3aedgeptrwrapper_3c_20t_20_3e_2c_20fpmas_3a_3aio_3a_3ajson_3a_3alight_5fjson_20_3e_728'', ''TypedMpi&lt; fpmas::graph::EdgePtrWrapper&lt; T &gt;, fpmas::io::json::light_json &gt;'', [(''../classfpmas_1_1communication_1_1detail_1_1TypedMpi.html'', 1, ''fpmas::communication::detail'')]),
      (''typedmpi_3c_20fpmas_3a_3asynchro_3a_3adataupdatepack_3c_20t_20_3e_20_3e_729'', ''TypedMpi&lt; fpmas::synchro::DataUpdatePack&lt; T &gt; &gt;'', [(''../structfpmas_1_1communication_1_1TypedMpi.html'', 1, ''fpmas::communication'')]),
      (''typedmpi_3c_20fpmas_3a_3asynchro_3a_3anodeupdatepack_3c_20t_20_3e_20_3e_730'', ''TypedMpi&lt; fpmas::synchro::NodeUpdatePack&lt; T &gt; &gt;'', [(''../structfpmas_1_1communication_1_1TypedMpi.html'', 1, ''fpmas::communication'')]),
      (''typedmpi_3c_20std_3a_3aset_3c_20fpmas_3a_3aapi_3a_3agraph_3a_3adistributedid_20_3e_20_3e_731'', ''TypedMpi&lt; std::set&lt; fpmas::api::graph::DistributedId &gt; &gt;'', [(''../structfpmas_1_1communication_1_1TypedMpi.html'', 1, ''fpmas::communication'')]),
      (''typedmpi_3c_20t_2c_20nlohmann_3a_3ajson_20_3e_732'', ''TypedMpi&lt; T, nlohmann::json &gt;'', [(''../classfpmas_1_1communication_1_1detail_1_1TypedMpi.html'', 1, ''fpmas::communication::detail'')]),
      (''typeid_733'', ''typeId'', [(''../classfpmas_1_1api_1_1model_1_1Agent.html#a1a6b51d0a175f47b878f27af5937277f'', 1, ''fpmas::api::model::Agent::typeId()''),
        (''../classfpmas_1_1model_1_1AgentBase.html#a3367b0ed8599e6d69f8ead4deef72411'', 1, ''fpmas::model::AgentBase::typeId()'')]),
      (''typeid_734'', ''TypeId'', [(''../namespacefpmas_1_1api_1_1model.html#a7da0ccdbfe2ecfca12aec5d1bfbb156c'', 1, ''fpmas::api::model'')])]"

definition all_13 :: "raw_entry list" where
  "all_13 = [
      (''uniformagentmapping_735'', ''UniformAgentMapping'', [(''../classfpmas_1_1model_1_1UniformAgentMapping.html'', 1, ''fpmas::model::UniformAgentMapping''),
        (''../classfpmas_1_1model_1_1UniformAgentMapping.html#a52eb355fc3fed9e7859223a982946478'', 1, ''fpmas::model::UniformAgentMapping::UniformAgentMapping()'')]),
      (''uniformgraphbuilder_736'', ''UniformGraphBuilder'', [(''../classfpmas_1_1graph_1_1UniformGraphBuilder.html'', 1, ''fpmas::graph::UniformGraphBuilder&lt; T &gt;''),
        (''../classfpmas_1_1graph_1_1UniformGraphBuilder.html#a3ba7028de1b209e9e5c8ba353b8d3dd3'', 1, ''fpmas::graph::UniformGraphBuilder::UniformGraphBuilder()'')]),
      (''uniformgridagentmapping_737'', ''UniformGridAgentMapping'', [(''../classfpmas_1_1model_1_1UniformGridAgentMapping.html'', 1, ''fpmas::model::UniformGridAgentMapping''),
        (''../classfpmas_1_1model_1_1UniformGridAgentMapping.html#a71d9334e58ba2c38cf7f882f6659bd7b'', 1, ''fpmas::model::UniformGridAgentMapping::UniformGridAgentMapping()'')]),
      (''uniformintdistribution_738'', ''UniformIntDistribution'', [(''../namespacefpmas_1_1random.html#a23dc7c593f8260da242cefd237ca8e18'', 1, ''fpmas::random'')]),
      (''uniformrealdistribution_739'', ''UniformRealDistribution'', [(''../namespacefpmas_1_1random.html#a4ad22d20ea25e75206e433664b7a0c63'', 1, ''fpmas::random'')]),
      (''unlink_740'', ''unlink'', [(''../classfpmas_1_1api_1_1synchro_1_1SyncLinker.html#acdacbab4cc836434fd459e2caa4e5d28'', 1, ''fpmas::api::synchro::SyncLinker::unlink()''),
        (''../classfpmas_1_1api_1_1graph_1_1DistributedGraph.html#adbd6818d91cea7a3a4856aed08a42527'', 1, ''fpmas::api::graph::DistributedGraph::unlink(DistributedEdge&lt; T &gt; *edge)=0''),
        (''../classfpmas_1_1api_1_1graph_1_1DistributedGraph.html#ac480db15a103f51edfadb75cbc63f91a'', 1, ''fpmas::api::graph::DistributedGraph::unlink(DistributedId id)=0''),
        (''../classfpmas_1_1synchro_1_1hard_1_1HardSyncLinker.html#a7895d2eb89d37bfc79b4b9430e990408'', 1, ''fpmas::synchro::hard::HardSyncLinker::unlink()''),
        (''../classfpmas_1_1synchro_1_1hard_1_1LinkClient.html#ac85d2127005c68ae4ab31af821817b2a'', 1, ''fpmas::synchro::hard::LinkClient::unlink()''),
        (''../classfpmas_1_1synchro_1_1hard_1_1api_1_1LinkClient.html#a1671171b923adbee5780dd5bbad36cbf'', 1, ''fpmas::synchro::hard::api::LinkClient::unlink()''),
        (''../classfpmas_1_1model_1_1detail_1_1Model.html#a4b1c5a8bc582e1253fa4d4be16110939'', 1, ''fpmas::model::detail::Model::unlink()''),
        (''../classfpmas_1_1api_1_1model_1_1Model.html#a4663840cf39443f1f0a8809393fb2394'', 1, ''fpmas::api::model::Model::unlink()''),
        (''../classfpmas_1_1graph_1_1detail_1_1DistributedGraph.html#ab5590e41ba5066e0fc30961486963c5d'', 1, ''fpmas::graph::detail::DistributedGraph::unlink()''),
        (''../classfpmas_1_1synchro_1_1ghost_1_1GhostSyncLinker.html#a8c0abc09482cc454269caf60e333187b'', 1, ''fpmas::synchro::ghost::GhostSyncLinker::unlink()''),
        (''../classfpmas_1_1graph_1_1detail_1_1DistributedGraph.html#aaf1bf4c3654ced9a22672cf95da802fe'', 1, ''fpmas::graph::detail::DistributedGraph::unlink()'')]),
      (''unlinkin_741'', ''unlinkIn'', [(''../classfpmas_1_1graph_1_1Node.html#a66997e71a7c8f7b35d8e7af53d2e3627'', 1, ''fpmas::graph::Node::unlinkIn()''),
        (''../classfpmas_1_1api_1_1graph_1_1Node.html#a897418a706e39920e91a06c150a2d0b9'', 1, ''fpmas::api::graph::Node::unlinkIn()'')]),
      (''unlinkout_742'', ''unlinkOut'', [(''../classfpmas_1_1graph_1_1Node.html#a84a55ed24509fa83a6d5bd79844459bf'', 1, ''fpmas::graph::Node::unlinkOut()''),
        (''../classfpmas_1_1api_1_1graph_1_1Node.html#a0f8d4adbc10082dcc6591675a5c320c8'', 1, ''fpmas::api::graph::Node::unlinkOut()'')]),
      (''unlock_743'', ''unlock'', [(''../classfpmas_1_1api_1_1synchro_1_1Mutex.html#a6de01ac85ec7a43a6d07591a1f642e9f'', 1, ''fpmas::api::synchro::Mutex::unlock()''),
        (''../classfpmas_1_1synchro_1_1hard_1_1MutexClient.html#a801a381b416481d0fd995c9df9d9230a'', 1, ''fpmas::synchro::hard::MutexClient::unlock()''),
        (''../classfpmas_1_1synchro_1_1hard_1_1api_1_1MutexServer.html#a5c19cc2c3f23c3944be951cedfc72326'', 1, ''fpmas::synchro::hard::api::MutexServer::unlock()''),
        (''../classfpmas_1_1synchro_1_1ghost_1_1SingleThreadMutex.html#ab18e7f97c66f752d32eac2a39a5271ce'', 1, ''fpmas::synchro::ghost::SingleThreadMutex::unlock()''),
        (''../classfpmas_1_1synchro_1_1hard_1_1api_1_1MutexClient.html#a3180606ab5c782480cf3397aef0c2cc6'', 1, ''fpmas::synchro::hard::api::MutexClient::unlock()''),
        (''../classfpmas_1_1synchro_1_1hard_1_1HardSyncMutex.html#a779bf74609da05bdb0bfd57e7cd30503'', 1, ''fpmas::synchro::hard::HardSyncMutex::unlock()'')]),
      (''unlockremovenode_744'', ''unlockRemoveNode'', [(''../classfpmas_1_1synchro_1_1hard_1_1LinkServer.html#a81120007d120c4cdccb1f38801d6c340'', 1, ''fpmas::synchro::hard::LinkServer::unlockRemoveNode()''),
        (''../classfpmas_1_1synchro_1_1hard_1_1api_1_1LinkServer.html#ac6bcf4c2e08376acb52dae90622ddf16'', 1, ''fpmas::synchro::hard::api::LinkServer::unlockRemoveNode()'')]),
      (''unlockshared_745'', ''unlockShared'', [(''../classfpmas_1_1api_1_1synchro_1_1Mutex.html#a76fa230afbc2d5f837fd336fac7d8640'', 1, ''fpmas::api::synchro::Mutex::unlockShared()''),
        (''../classfpmas_1_1synchro_1_1hard_1_1MutexClient.html#ae6ee388e29e9904b2b3d5b5a33e9046c'', 1, ''fpmas::synchro::hard::MutexClient::unlockShared()''),
        (''../classfpmas_1_1synchro_1_1hard_1_1HardSyncMutex.html#a9f57903eeb12f2bfd6787b2eccbcf396'', 1, ''fpmas::synchro::hard::HardSyncMutex::unlockShared()''),
        (''../classfpmas_1_1synchro_1_1hard_1_1api_1_1MutexServer.html#a64671efe19887de20305886d67f3029a'', 1, ''fpmas::synchro::hard::api::MutexServer::unlockShared()''),
        (''../classfpmas_1_1synchro_1_1hard_1_1api_1_1MutexClient.html#a05432541afd3fdf1422e1c436cb12ad5'', 1, ''fpmas::synchro::hard::api::MutexClient::unlockShared()''),
        (''../classfpmas_1_1synchro_1_1ghost_1_1SingleThreadMutex.html#a696778c007534cb867037b806cc1e5e7'', 1, ''fpmas::synchro::ghost::SingleThreadMutex::unlockShared()'')]),
      (''unlockunlink_746'', ''unlockUnlink'', [(''../classfpmas_1_1synchro_1_1hard_1_1api_1_1LinkServer.html#a93d76c0d9aa8a1346d0b41fd7b05a286'', 1, ''fpmas::synchro::hard::api::LinkServer::unlockUnlink()''),
        (''../classfpmas_1_1synchro_1_1hard_1_1LinkServer.html#ad5f8bdb0a5dcb8192cc13022cb8dd13a'', 1, ''fpmas::synchro::hard::LinkServer::unlockUnlink()'')]),
      (''updated_5fdata_747'', ''updated_data'', [(''../structfpmas_1_1synchro_1_1DataUpdatePack.html#aa858ec38abf0348afd447cbae5a923bb'', 1, ''fpmas::synchro::DataUpdatePack'')]),
      (''updated_5fweight_748'', ''updated_weight'', [(''../structfpmas_1_1synchro_1_1NodeUpdatePack.html#aa58e6be9bfd047b3ea6b0c45f058b266'', 1, ''fpmas::synchro::NodeUpdatePack'')]),
      (''updatelocation_749'', ''updateLocation'', [(''../classfpmas_1_1model_1_1SpatialAgentBase.html#a15eb737af355d5be560b078207fb0d09'', 1, ''fpmas::model::SpatialAgentBase'')]),
      (''updatelocations_750'', ''updateLocations'', [(''../classfpmas_1_1api_1_1graph_1_1LocationManager.html#a0dde25d0084892a7a23ed76729582bc9'', 1, ''fpmas::api::graph::LocationManager::updateLocations()''),
        (''../classfpmas_1_1graph_1_1LocationManager.html#abf49a203e8cef844e6766c632a684ade'', 1, ''fpmas::graph::LocationManager::updateLocations()'')]),
      (''updateperceptions_751'', ''updatePerceptions'', [(''../classfpmas_1_1api_1_1model_1_1CellBehavior.html#a04e4be9bdf95203ad2811e2a70359139'', 1, ''fpmas::api::model::CellBehavior::updatePerceptions()''),
        (''../classfpmas_1_1model_1_1CellBase.html#a4f18eee837f5bbd29dfc7554fdee1dd6'', 1, ''fpmas::model::CellBase::updatePerceptions()'')])]"

definition all_14 :: "raw_entry list" where
  "all_14 = [
      (''void_752'', ''Void'', [(''../structfpmas_1_1io_1_1Void.html'', 1, ''fpmas::io'')]),
      (''voidcallback_753'', ''VoidCallback'', [(''../classfpmas_1_1utils_1_1VoidCallback.html'', 1, ''fpmas::utils'')]),
      (''voidtask_754'', ''VoidTask'', [(''../classfpmas_1_1scheduler_1_1VoidTask.html'', 1, ''fpmas::scheduler'')]),
      (''von_5fneumann_2eh_755'', ''von_neumann.h'', [(''../von__neumann_8h.html'', 1, '''')]),
      (''vonneumanngrid_756'', ''VonNeumannGrid'', [(''../namespacefpmas_1_1model.html#a89fbfcfbe02c5c6bd0c2dc8ecdb57a0e'', 1, ''fpmas::model'')]),
      (''vonneumanngridbuilder_757'', ''VonNeumannGridBuilder'', [(''../classfpmas_1_1model_1_1VonNeumannGridBuilder.html'', 1, ''fpmas::model::VonNeumannGridBuilder&lt; CellType &gt;''),
        (''../classfpmas_1_1model_1_1VonNeumannGridBuilder.html#a499e851d7a0dac997cef60964cc80a2b'', 1, ''fpmas::model::VonNeumannGridBuilder::VonNeumannGridBuilder(api::model::GridCellFactory&lt; CellType &gt; &amp;cell_factory, DiscreteCoordinate width, DiscreteCoordinate height)''),
        (''../classfpmas_1_1model_1_1VonNeumannGridBuilder.html#aa2b32fb1b5e2327ce166b84d84d7c52d'', 1, ''fpmas::model::VonNeumannGridBuilder::VonNeumannGridBuilder(DiscreteCoordinate width, DiscreteCoordinate height)'')]),
      (''vonneumannrange_758'', ''VonNeumannRange'', [(''../namespacefpmas_1_1model.html#abd91eeccf31a7fd158f4e4bca7ce9d0d'', 1, ''fpmas::model'')]),
      (''vonneumannrangeconfig_759'', ''VonNeumannRangeConfig'', [(''../namespacefpmas_1_1model.html#af36960684bc9aa760d6c845f4320d451'', 1, ''fpmas::model'')]),
      (''vonneumannrangeperimeter_760'', ''VonNeumannRangePerimeter'', [(''../structfpmas_1_1model_1_1VonNeumannRangePerimeter.html'', 1, ''fpmas::model'')]),
      (''vonneumannrangeperimeter_3c_20vonneumanngrid_3c_20celltype_20_3e_20_3e_761'', ''VonNeumannRangePerimeter&lt; VonNeumannGrid&lt; CellType &gt; &gt;'', [(''../structfpmas_1_1model_1_1VonNeumannRangePerimeter_3_01VonNeumannGrid_3_01CellType_01_4_01_4.html'', 1, ''fpmas::model'')])]"

definition all_15 :: "raw_entry list" where
  "all_15 = [
      (''wait_762'', ''wait'', [(''../classfpmas_1_1api_1_1communication_1_1MpiCommunicator.html#a449c57e68384cf6f3cbed21f1132f483'', 1, ''fpmas::api::communication::MpiCommunicator::wait()''),
        (''../classfpmas_1_1communication_1_1MpiCommunicatorBase.html#a646e833f057cb4c05759e3f8c87a60bb'', 1, ''fpmas::communication::MpiCommunicatorBase::wait()''),
        (''../classfpmas_1_1synchro_1_1hard_1_1api_1_1MutexServer.html#a1e1dacfe9083a453ca067eaaa2b8f3b0'', 1, ''fpmas::synchro::hard::api::MutexServer::wait()''),
        (''../classfpmas_1_1synchro_1_1hard_1_1MutexServer.html#a60ce47ea6c65266b5d1d12450cecb03b'', 1, ''fpmas::synchro::hard::MutexServer::wait()'')]),
      (''waitresponse_763'', ''waitResponse'', [(''../classfpmas_1_1synchro_1_1hard_1_1ServerPack.html#a7071ef560602f1031aed2bd0a6d9d4b7'', 1, ''fpmas::synchro::hard::ServerPack'')]),
      (''waitsendrequest_764'', ''waitSendRequest'', [(''../classfpmas_1_1synchro_1_1hard_1_1ServerPack.html#a1d6d1ca5a8f395111f84d19eb5575e83'', 1, ''fpmas::synchro::hard::ServerPack'')]),
      (''waitvoidresponse_765'', ''waitVoidResponse'', [(''../classfpmas_1_1synchro_1_1hard_1_1ServerPack.html#aa59215f1c506be7b36488bb3d99b4379'', 1, ''fpmas::synchro::hard::ServerPack'')]),
      (''watcher_766'', ''Watcher'', [(''../namespacefpmas_1_1api_1_1io.html#a6a28e70ce859db06fc25482a97bee9f0'', 1, ''fpmas::api::io'')]),
      (''what_767'', ''what'', [(''../classfpmas_1_1exceptions_1_1BadIdException.html#a015a8a3b33cc56243da7efb4747ba7b9'', 1, ''fpmas::exceptions::BadIdException::what()''),
        (''../classfpmas_1_1exceptions_1_1BadTypeException.html#a8d31453dd73149baedb207278f99d1d1'', 1, ''fpmas::exceptions::BadTypeException::what()'')]),
      (''width_768'', ''width'', [(''../classfpmas_1_1model_1_1VonNeumannGridBuilder.html#afdc029c6bae41c0a15fb378f40397474'', 1, ''fpmas::model::VonNeumannGridBuilder'')]),
      (''world_769'', ''WORLD'', [(''../namespacefpmas_1_1communication.html#a0cd77ee61dd8f7c45cc7d1e98e36bae8'', 1, ''fpmas::communication'')]),
      (''write_5fzoltan_5fid_770'', ''write_zoltan_id'', [(''../namespacefpmas_1_1graph_1_1zoltan.html#a05b68727c104f62f3c2f516b949a3e54'', 1, ''fpmas::graph::zoltan'')])]"

definition all_16 :: "raw_entry list" where
  "all_16 = [
      (''x_771'', ''x'', [(''../structfpmas_1_1api_1_1model_1_1DiscretePoint.html#a7ebf26ffd43b442ac752ddc8abe884dc'', 1, ''fpmas::api::model::DiscretePoint::x()''),
        (''../structfpmas_1_1graph_1_1detail_1_1Point.html#a4efa118529d0e78adb7433bef3b15237'', 1, ''fpmas::graph::detail::Point::x()'')])]"

definition all_17 :: "raw_entry list" where
  "all_17 = [
      (''y_772'', ''y'', [(''../structfpmas_1_1api_1_1model_1_1DiscretePoint.html#a9b1eaf59e8df459ddbb5d1498acd7f3e'', 1, ''fpmas::api::model::DiscretePoint::y()''),
        (''../structfpmas_1_1graph_1_1detail_1_1Point.html#aa93843915c20265914a2f69fb5fc3acc'', 1, ''fpmas::graph::detail::Point::y()'')])]"

definition all_18 :: "raw_entry list" where
  "all_18 = [
      (''zoltan_5fconfig_773'', ''zoltan_config'', [(''../namespacefpmas_1_1graph_1_1zoltan.html#a5dba3e09b1c68378547b22a77e78431f'', 1, ''fpmas::graph::zoltan'')]),
      (''zoltan_5fload_5fbalancing_2eh_774'', ''zoltan_load_balancing.h'', [(''../zoltan__load__balancing_8h.html'', 1, '''')]),
      (''zoltandata_775'', ''ZoltanData'', [(''../structfpmas_1_1graph_1_1zoltan_1_1ZoltanData.html'', 1, ''fpmas::graph::zoltan'')]),
      (''zoltandata_3c_20agentptr_20_3e_776'', ''ZoltanData&lt; AgentPtr &gt;'', [(''../structfpmas_1_1graph_1_1zoltan_1_1ZoltanData.html'', 1, ''fpmas::graph::zoltan'')]),
      (''zoltanloadbalancing_777'', ''ZoltanLoadBalancing'', [(''../classfpmas_1_1graph_1_1ZoltanLoadBalancing.html'', 1, ''fpmas::graph::ZoltanLoadBalancing&lt; T &gt;''),
        (''../classfpmas_1_1graph_1_1ZoltanLoadBalancing.html#a8baaa58631744d67268d6846e191232c'', 1, ''fpmas::graph::ZoltanLoadBalancing::ZoltanLoadBalancing()''),
        (''../namespacefpmas_1_1model_1_1detail.html#a7aee66cb197cb771785532ace85b4a22'', 1, ''fpmas::model::detail::ZoltanLoadBalancing()'')]),
      (''zoltanloadbalancing_3c_20agentptr_20_3e_778'', ''ZoltanLoadBalancing&lt; AgentPtr &gt;'', [(''../classfpmas_1_1graph_1_1ZoltanLoadBalancing.html'', 1, ''fpmas::graph'')])]"

definition all_19 :: "raw_entry list" where
  "all_19 = [
      (''_7eacquireguard_779'', ''~AcquireGuard'', [(''../classfpmas_1_1synchro_1_1AcquireGuard.html#a12321632d16e1b3caa73447b09978f91'', 1, ''fpmas::synchro::AcquireGuard'')]),
      (''_7eagentptr_780'', ''~AgentPtr'', [(''../classfpmas_1_1api_1_1model_1_1AgentPtr.html#ab48b92b86aeca4f7b6bcb273a34323b5'', 1, ''fpmas::api::model::AgentPtr'')]),
      (''_7edatapack_781'', ''~DataPack'', [(''../classfpmas_1_1api_1_1communication_1_1DataPack.html#a6de0888fc740e85083c807cdafb54ec3'', 1, ''fpmas::api::communication::DataPack'')]),
      (''_7elockguard_782'', ''~LockGuard'', [(''../classfpmas_1_1synchro_1_1LockGuard.html#a1c7b5eafaf36cf1c5b3b5b6d1a356bd0'', 1, ''fpmas::synchro::LockGuard'')]),
      (''_7empicommunicator_783'', ''~MpiCommunicator'', [(''../classfpmas_1_1communication_1_1MpiCommunicator.html#a868d5f7039acbde8aaf33f658fbd0bef'', 1, ''fpmas::communication::MpiCommunicator'')]),
      (''_7ereadguard_784'', ''~ReadGuard'', [(''../classfpmas_1_1synchro_1_1ReadGuard.html#a0b74a565a0d34989c83bf03a63b14525'', 1, ''fpmas::synchro::ReadGuard'')]),
      (''_7esharedlockguard_785'', ''~SharedLockGuard'', [(''../classfpmas_1_1synchro_1_1SharedLockGuard.html#aa5f9c48aa27d75941d0470316a67d0d1'', 1, ''fpmas::synchro::SharedLockGuard'')])]"

section \<open>The letters\<close>

lemma all_d_in: "file_in CHR ''n'' all_d []"
  by (rule file_inI; unfold all_d_def list.map fst_conv) (simp_all add: file_check)

lemma all_e_in: "file_in CHR ''o'' all_e [''string_555'']"
  by (rule file_inI; unfold all_e_def list.map fst_conv) (simp_all add: file_check)

lemma all_f_in: "file_in CHR ''p'' all_f []"
  by (rule file_inI; unfold all_f_def list.map fst_conv) (simp_all add: file_check)

lemma all_10_in: "file_in CHR ''r'' all_10 []"
  by (rule file_inI; unfold all_10_def list.map fst_conv) (simp_all add: file_check)

lemma all_11_in: "file_in CHR ''s'' all_11 []"
  by (rule file_inI; unfold all_11_def list.map fst_conv) (simp_all add: file_check)

lemma all_12_in: "file_in CHR ''t'' all_12 []"
  by (rule file_inI; unfold all_12_def list.map fst_conv) (simp_all add: file_check)

lemma all_13_in: "file_in CHR ''u'' all_13 []"
  by (rule file_inI; unfold all_13_def list.map fst_conv) (simp_all add: file_check)

lemma all_14_in: "file_in CHR ''v'' all_14 []"
  by (rule file_inI; unfold all_14_def list.map fst_conv) (simp_all add: file_check)

lemma all_15_in: "file_in CHR ''w'' all_15 []"
  by (rule file_inI; unfold all_15_def list.map fst_conv) (simp_all add: file_check)

lemma all_16_in: "file_in CHR ''x'' all_16 []"
  by (rule file_inI; unfold all_16_def list.map fst_conv) (simp_all add: file_check)

lemma all_17_in: "file_in CHR ''y'' all_17 []"
  by (rule file_inI; unfold all_17_def list.map fst_conv) (simp_all add: file_check)

lemma all_18_in: "file_in CHR ''z'' all_18 []"
  by (rule file_inI; unfold all_18_def list.map fst_conv) (simp_all add: file_check)

lemma all_19_in: "file_in CHR ''~'' all_19 []"
  by (rule file_inI; unfold all_19_def list.map fst_conv) (simp_all add: file_check)

end
