(* ===== verification/Dox_Data.thy ===== *)
theory Dox_Data
  imports Dox_Classes Dox_Functions Dox_All_A Dox_All_B Dox_Search
begin

text \<open>
  The index files of the documentation for the sections with few entries: the namespaces, variables, type
  definitions, enumerations, enumerators, macros and pages; and the table of the files of every section but the
  first, which repeats the entries of the others.
\<close>

section \<open>The files\<close>

definition namespaces_0 :: "raw_entry list" where
  "namespaces_0 = [
      (''api_1067'', ''api'', [(''../namespacefpmas_1_1api.html'', 1, ''fpmas::api''),
        (''../namespacefpmas_1_1synchro_1_1hard_1_1api.html'', 1, ''fpmas::synchro::hard::api'')]),
      (''communication_1068'', ''communication'', [(''../namespacefpmas_1_1api_1_1communication.html'', 1, ''fpmas::api::communication''),
        (''../namespacefpmas_1_1communication.html'', 1, ''fpmas::communication'')]),
      (''detail_1069'', ''detail'', [(''../namespacefpmas_1_1graph_1_1detail.html'', 1, ''fpmas::graph::detail''),
        (''../namespacefpmas_1_1model_1_1detail.html'', 1, ''fpmas::model::detail'')]),
      (''exceptions_1070'', ''exceptions'', [(''../namespacefpmas_1_1exceptions.html'', 1, ''fpmas'')]),
      (''fpmas_1071'', ''fpmas'', [(''../namespacefpmas.html'', 1, '''')]),
      (''ghost_1072'', ''ghost'', [(''../namespacefpmas_1_1synchro_1_1ghost.html'', 1, ''fpmas::synchro'')]),
      (''graph_1073'', ''graph'', [(''../namespacefpmas_1_1api_1_1graph.html'', 1, ''fpmas::api::graph''),
        (''../namespacefpmas_1_1graph.html'', 1, ''fpmas::graph'')]),
      (''hard_1074'', ''hard'', [(''../namespacefpmas_1_1synchro_1_1hard.html'', 1, ''fpmas::synchro'')]),
      (''io_1075'', ''io'', [(''../namespacefpmas_1_1api_1_1io.html'', 1, ''fpmas::api::io''),
        (''../namespacefpmas_1_1io.html'', 1, ''fpmas::io'')]),
      (''json_1076'', ''json'', [(''../namespacefpmas_1_1io_1_1json.html'', 1, ''fpmas::io'')]),
      (''load_5fbalancing_1077'', ''load_balancing'', [(''../namespacefpmas_1_1api_1_1load__balancing.html'', 1, ''fpmas::api::load_balancing''),
        (''../namespacefpmas_1_1load__balancing.html'', 1, ''fpmas::load_balancing'')]),
      (''model_1078'', ''model'', [(''../namespacefpmas_1_1api_1_1model.html'', 1, ''fpmas::api::model''),
        (''../namespacefpmas_1_1model.html'', 1, ''fpmas::model'')]),
      (''perf_1079'', ''perf'', [(''../namespacefpmas_1_1api_1_1utils_1_1perf.html'', 1, ''fpmas::api::utils::perf''),
        (''../namespacefpmas_1_1utils_1_1perf.html'', 1, ''fpmas::utils::perf'')]),
      (''random_1080'', ''random'', [(''../namespacefpmas_1_1api_1_1random.html'', 1, ''fpmas::api::random''),
        (''../namespacefpmas_1_1random.html'', 1, ''fpmas::random'')]),
      (''runtime_1081'', ''runtime'', [(''../namespacefpmas_1_1api_1_1runtime.html'', 1, ''fpmas::api::runtime''),
        (''../namespacefpmas_1_1runtime.html'', 1, ''fpmas::runtime'')]),
      (''scheduler_1082'', ''scheduler'', [(''../namespacefpmas_1_1api_1_1scheduler.html'', 1, ''fpmas::api::scheduler''),
        (''../namespacefpmas_1_1scheduler.html'', 1, ''fpmas::scheduler'')]),
      (''synchro_1083'', ''synchro'', [(''../namespacefpmas_1_1api_1_1synchro.html'', 1, ''fpmas::api::synchro''),
        (''../namespacefpmas_1_1synchro.html'', 1, ''fpmas::synchro'')]),
      (''utils_1084'', ''utils'', [(''../namespacefpmas_1_1api_1_1utils.html'', 1, ''fpmas::api::utils''),
        (''../namespacefpmas_1_1utils.html'', 1, ''fpmas::utils'')]),
      (''zoltan_1085'', ''zoltan'', [(''../namespacefpmas_1_1graph_1_1zoltan.html'', 1, ''fpmas::graph::zoltan''),
        (''../namespacefpmas_1_1load__balancing_1_1zoltan.html'', 1, ''fpmas::load_balancing::zoltan'')])]"

definition namespaces_1 :: "raw_entry list" where
  "namespaces_1 = [
      (''nlohmann_1086'', ''nlohmann'', [(''../namespacenlohmann.html'', 1, '''')])]"

definition variables_0 :: "raw_entry list" where
  "variables_0 = [
      (''_5f_5fdata_1536'', ''__data'', [(''../structfpmas_1_1api_1_1communication_1_1Request.html#aee432cace6f04a2e9899862d6d96f88a'', 1, ''fpmas::api::communication::Request'')]),
      (''_5f_5fgraph_1537'', ''__graph'', [(''../classfpmas_1_1model_1_1detail_1_1DefaultModelConfig.html#a8f78707e8eaac81edc8aebf22d25a8ca'', 1, ''fpmas::model::detail::DefaultModelConfig'')]),
      (''_5f_5fload_5fbalancing_1538'', ''__load_balancing'', [(''../classfpmas_1_1model_1_1detail_1_1DefaultModelConfig.html#a9f64a33f175d20303378c7d980ce5f90'', 1, ''fpmas::model::detail::DefaultModelConfig'')]),
      (''_5f_5fmpi_5frequest_1539'', ''__mpi_request'', [(''../structfpmas_1_1api_1_1communication_1_1Request.html#a95b15e64c904c2b8f536181252ddbf0d'', 1, ''fpmas::api::communication::Request'')]),
      (''_5f_5fruntime_1540'', ''__runtime'', [(''../classfpmas_1_1model_1_1detail_1_1DefaultModelConfig.html#af15a75261e05a6ec455c43456e0db9c5'', 1, ''fpmas::model::detail::DefaultModelConfig'')]),
      (''_5f_5fscheduler_1541'', ''__scheduler'', [(''../classfpmas_1_1model_1_1detail_1_1DefaultModelConfig.html#a98a813125572fce555ac6c578a7ea0b9'', 1, ''fpmas::model::detail::DefaultModelConfig'')]),
      (''_5f_5fzoltan_5flb_1542'', ''__zoltan_lb'', [(''../classfpmas_1_1model_1_1detail_1_1DefaultModelConfig.html#a238363beba4f88a8705d05e39f018b6a'', 1, ''fpmas::model::detail::DefaultModelConfig'')]),
      (''_5fagent_1543'', ''_agent'', [(''../classfpmas_1_1model_1_1detail_1_1AgentTaskBase.html#ab925c4b502d5a1c2defed0d17dbf0511'', 1, ''fpmas::model::detail::AgentTaskBase'')])]"

definition variables_1 :: "raw_entry list" where
  "variables_1 = [
      (''buffer_1544'', ''buffer'', [(''../classfpmas_1_1api_1_1communication_1_1DataPack.html#a11c47710cc89f0dd6c7b8343a0749560'', 1, ''fpmas::api::communication::DataPack'')])]"

definition variables_2 :: "raw_entry list" where
  "variables_2 = [
      (''comm_1545'', ''comm'', [(''../classfpmas_1_1communication_1_1MpiCommunicatorBase.html#a666e0fb90d54c60a50a5e35bd58e2624'', 1, ''fpmas::communication::MpiCommunicatorBase::comm()''),
        (''../classfpmas_1_1model_1_1detail_1_1DefaultModelConfig.html#a97c98eb4a1b4d88f8dc19a40b57aaf11'', 1, ''fpmas::model::detail::DefaultModelConfig::comm()'')]),
      (''count_1546'', ''count'', [(''../classfpmas_1_1api_1_1communication_1_1DataPack.html#a2142f9784dfe9fcb5f6e86f7280852c4'', 1, ''fpmas::api::communication::DataPack'')])]"

definition variables_3 :: "raw_entry list" where
  "variables_3 = [
      (''default_5fcell_5ffactory_1547'', ''default_cell_factory'', [(''../classfpmas_1_1model_1_1VonNeumannGridBuilder.html#a9b182bccf5cdaf1c8a08b35aa074d97e'', 1, ''fpmas::model::VonNeumannGridBuilder'')]),
      (''distributed_5fnode_5fids_1548'', ''distributed_node_ids'', [(''../structfpmas_1_1graph_1_1zoltan_1_1ZoltanData.html#a0b510f71d6b149c21b1378051585e25e'', 1, ''fpmas::graph::zoltan::ZoltanData'')])]"

definition variables_4 :: "raw_entry list" where
  "variables_4 = [
      (''edges_1549'', ''edges'', [(''../structfpmas_1_1graph_1_1zoltan_1_1ZoltanData.html#acb3a1521e70ba0e92cf3762bac46fdfb'', 1, ''fpmas::graph::zoltan::ZoltanData'')])]"

definition variables_5 :: "raw_entry list" where
  "variables_5 = [
      (''gen_1550'', ''gen'', [(''../classfpmas_1_1random_1_1Generator.html#a0a6c638d792d1d0bd1b179579bf3c8ce'', 1, ''fpmas::random::Generator'')]),
      (''group_1551'', ''group'', [(''../classfpmas_1_1communication_1_1MpiCommunicatorBase.html#af9f09cf5da93c3f175b94faedfbaaa9f'', 1, ''fpmas::communication::MpiCommunicatorBase'')])]"

definition variables_6 :: "raw_entry list" where
  "variables_6 = [
      (''hasher_1552'', ''hasher'', [(''../structstd_1_1hash_3_01fpmas_1_1model_1_1DiscretePoint_01_4.html#a6fff5d09753c70a341fbaf781c4f2739'', 1, ''std::hash&lt; fpmas::model::DiscretePoint &gt;'')])]"

definition variables_7 :: "raw_entry list" where
  "variables_7 = [
      (''id_1553'', ''id'', [(''../structfpmas_1_1api_1_1communication_1_1MpiDistributedId.html#a2b51086fc12d6ca612b33ca3381c630d'', 1, ''fpmas::api::communication::MpiDistributedId::id()''),
        (''../structfpmas_1_1synchro_1_1hard_1_1api_1_1MutexRequest.html#a686f2d0e1cc3c4db407c24297dd7c0e1'', 1, ''fpmas::synchro::hard::api::MutexRequest::id()''),
        (''../structfpmas_1_1synchro_1_1DataUpdatePack.html#aecb037809eaa33e611ed95f4aba894d3'', 1, ''fpmas::synchro::DataUpdatePack::id()'')]),
      (''ignore_1554'', ''IGNORE'', [(''../structfpmas_1_1api_1_1communication_1_1Status.html#a63d41c6abc77dc4027390c4b65266f5c'', 1, ''fpmas::api::communication::Status'')]),
      (''ignore_5ftype_1555'', ''IGNORE_TYPE'', [(''../classfpmas_1_1api_1_1communication_1_1MpiCommunicator.html#a48fd0230e1c60440a9089f669209e5df'', 1, ''fpmas::api::communication::MpiCommunicator'')]),
      (''item_5fcount_1556'', ''item_count'', [(''../structfpmas_1_1api_1_1communication_1_1Status.html#adb335d6cddd699dbe53a94fcda4504b6'', 1, ''fpmas::api::communication::Status'')])]"

definition variables_8 :: "raw_entry list" where
  "variables_8 = [
      (''local_1557'', ''LOCAL'', [(''../structfpmas_1_1synchro_1_1hard_1_1api_1_1MutexRequest.html#a59b524281ffb4b38a5f6013d5ea7a0e3'', 1, ''fpmas::synchro::hard::api::MutexRequest'')]),
      (''local_5fnode_5fcount_1558'', ''local_node_count'', [(''../classfpmas_1_1graph_1_1DistributedNodeBuilder.html#a65e163c885f58e856b567ccc4016d19f'', 1, ''fpmas::graph::DistributedNodeBuilder'')]),
      (''location_1559'', ''location'', [(''../structfpmas_1_1graph_1_1detail_1_1LocalizedNodeView.html#a1c49738deb1be6bb021d5f810057911f'', 1, ''fpmas::graph::detail::LocalizedNodeView'')])]"

definition variables_9 :: "raw_entry list" where
  "variables_9 = [
      (''max_5fid_1560'', ''max_id'', [(''../classfpmas_1_1api_1_1graph_1_1DistributedId.html#ae971fde76e870fd74aff46814aa687d8'', 1, ''fpmas::api::graph::DistributedId'')]),
      (''max_5frank_1561'', ''max_rank'', [(''../classfpmas_1_1api_1_1graph_1_1DistributedId.html#ae7eaac11f48cd4c61b5c6964412b8600'', 1, ''fpmas::api::graph::DistributedId'')]),
      (''mpidistributedidtype_1562'', ''mpiDistributedIdType'', [(''../classfpmas_1_1api_1_1graph_1_1DistributedId.html#a6daab47e183372ec5c965c01410c7f3c'', 1, ''fpmas::api::graph::DistributedId'')]),
      (''mutex_1563'', ''mutex'', [(''../classfpmas_1_1synchro_1_1Guard.html#a65fd7aeb968788c11cd18b90072d853e'', 1, ''fpmas::synchro::Guard'')])]"

definition variables_a :: "raw_entry list" where
  "variables_a = [
      (''node_1564'', ''node'', [(''../structfpmas_1_1graph_1_1detail_1_1LocalizedNode.html#a3c7cc84c1fa5b5e19a9f356d22c33462'', 1, ''fpmas::graph::detail::LocalizedNode'')]),
      (''node_5fid_1565'', ''node_id'', [(''../structfpmas_1_1graph_1_1detail_1_1LocalizedNodeView.html#ae4375eac6cd2e327c936ec21e65d7db5'', 1, ''fpmas::graph::detail::LocalizedNodeView'')]),
      (''node_5fmap_1566'', ''node_map'', [(''../structfpmas_1_1graph_1_1zoltan_1_1ZoltanData.html#a8d41ae8883c03008359984f3434beccf'', 1, ''fpmas::graph::zoltan::ZoltanData'')]),
      (''nodes_1567'', ''nodes'', [(''../structfpmas_1_1graph_1_1zoltan_1_1ZoltanData.html#a413ae9094bc5b3d38bd52aa5e0290673'', 1, ''fpmas::graph::zoltan::ZoltanData'')]),
      (''num_5fedge_1568'', ''num_edge'', [(''../classfpmas_1_1graph_1_1RandomGraphBuilder.html#a17de1db3677d5652b354ff32810e8534'', 1, ''fpmas::graph::RandomGraphBuilder'')]),
      (''num_5fgid_5fentries_1569'', ''NUM_GID_ENTRIES'', [(''../namespacefpmas_1_1graph_1_1zoltan.html#af95733f89124974337a1602382bc0155'', 1, ''fpmas::graph::zoltan'')])]"

definition variables_b :: "raw_entry list" where
  "variables_b = [
      (''output_5fstream_1570'', ''output_stream'', [(''../classfpmas_1_1io_1_1OutputBase.html#ae3868c6b642e1f79cc196269f9174275'', 1, ''fpmas::io::OutputBase'')])]"

definition variables_c :: "raw_entry list" where
  "variables_c = [
      (''p_1571'', ''p'', [(''../structfpmas_1_1graph_1_1detail_1_1LocalizedNode.html#aed55369a352504a80559eb668b692eea'', 1, ''fpmas::graph::detail::LocalizedNode::p()''),
        (''../structfpmas_1_1graph_1_1detail_1_1LocalizedNodeView.html#ac11d0b2f8ac6234b2c4fb868d4da6faf'', 1, ''fpmas::graph::detail::LocalizedNodeView::p()'')]),
      (''ptr_1572'', ''ptr'', [(''../classfpmas_1_1api_1_1utils_1_1PtrWrapper.html#ae99a83391899f67e6e2e9779bc3a8819'', 1, ''fpmas::api::utils::PtrWrapper'')])]"

definition variables_d :: "raw_entry list" where
  "variables_d = [
      (''rank_1573'', ''rank'', [(''../structfpmas_1_1api_1_1communication_1_1MpiDistributedId.html#a67528f4f27b132d956781be817a4f8aa'', 1, ''fpmas::api::communication::MpiDistributedId::rank()''),
        (''../classfpmas_1_1communication_1_1MpiCommunicatorBase.html#a357dc24aa2d395022b4a4c657fa5e840'', 1, ''fpmas::communication::MpiCommunicatorBase::rank()'')]),
      (''rd_1574'', ''rd'', [(''../structfpmas_1_1model_1_1RandomNeighbors.html#a29721b68c3a7df97f6835bea8b73d8db'', 1, ''fpmas::model::RandomNeighbors'')]),
      (''reachable_5fcells_1575'', ''reachable_cells'', [(''../classfpmas_1_1model_1_1ReachableCell.html#a7f5fa367ebd13a3cfb450fd6223fe233'', 1, ''fpmas::model::ReachableCell'')])]"

definition variables_e :: "raw_entry list" where
  "variables_e = [
      (''size_1576'', ''size'', [(''../classfpmas_1_1api_1_1communication_1_1DataPack.html#a13bb6c2725dbeb314bc40376efbeb176'', 1, ''fpmas::api::communication::DataPack::size()''),
        (''../structfpmas_1_1api_1_1communication_1_1Status.html#a71d1726a2595395b8fce99ccf8a0da0e'', 1, ''fpmas::api::communication::Status::size()''),
        (''../classfpmas_1_1communication_1_1MpiCommunicatorBase.html#a8db93e98133c98d9eb1ea4c442640ab5'', 1, ''fpmas::communication::MpiCommunicatorBase::size()'')]),
      (''source_1577'', ''source'', [(''../structfpmas_1_1api_1_1communication_1_1Status.html#ae72f73a165c508e32efb8aba3b8122ec'', 1, ''fpmas::api::communication::Status::source()''),
        (''../structfpmas_1_1synchro_1_1hard_1_1api_1_1MutexRequest.html#abb66d42eabf084bddc87cf9addb32abe'', 1, ''fpmas::synchro::hard::api::MutexRequest::source()'')])]"

definition variables_f :: "raw_entry list" where
  "variables_f = [
      (''tag_1578'', ''tag'', [(''../structfpmas_1_1api_1_1communication_1_1Status.html#a40df648667851fd963b609a4dfa4f416'', 1, ''fpmas::api::communication::Status'')]),
      (''temp_5fgroup_5fid_1579'', ''TEMP_GROUP_ID'', [(''../classfpmas_1_1model_1_1SpatialAgentBuilder.html#a01fafb24e35a869b210f302935d80290'', 1, ''fpmas::model::SpatialAgentBuilder'')]),
      (''type_1580'', ''type'', [(''../structfpmas_1_1synchro_1_1hard_1_1api_1_1MutexRequest.html#a3ae19eb0a6e62e26d59f28c25d186c5a'', 1, ''fpmas::synchro::hard::api::MutexRequest'')]),
      (''type_5fid_1581'', ''TYPE_ID'', [(''../classfpmas_1_1model_1_1AgentBase.html#a77887dacc49a91e62f49f3d25d05e854'', 1, ''fpmas::model::AgentBase'')])]"

definition variables_10 :: "raw_entry list" where
  "variables_10 = [
      (''updated_5fdata_1582'', ''updated_data'', [(''../structfpmas_1_1synchro_1_1DataUpdatePack.html#aa858ec38abf0348afd447cbae5a923bb'', 1, ''fpmas::synchro::DataUpdatePack'')]),
      (''updated_5fweight_1583'', ''updated_weight'', [(''../structfpmas_1_1synchro_1_1NodeUpdatePack.html#aa58e6be9bfd047b3ea6b0c45f058b266'', 1, ''fpmas::synchro::NodeUpdatePack'')])]"

definition variables_11 :: "raw_entry list" where
  "variables_11 = [
      (''world_1584'', ''WORLD'', [(''../namespacefpmas_1_1communication.html#a0cd77ee61dd8f7c45cc7d1e98e36bae8'', 1, ''fpmas::communication'')])]"

definition variables_12 :: "raw_entry list" where
  "variables_12 = [
      (''x_1585'', ''x'', [(''../structfpmas_1_1api_1_1model_1_1DiscretePoint.html#a7ebf26ffd43b442ac752ddc8abe884dc'', 1, ''fpmas::api::model::DiscretePoint::x()''),
        (''../structfpmas_1_1graph_1_1detail_1_1Point.html#a4efa118529d0e78adb7433bef3b15237'', 1, ''fpmas::graph::detail::Point::x()'')])]"

definition variables_13 :: "raw_entry list" where
  "variables_13 = [
      (''y_1586'', ''y'', [(''../structfpmas_1_1api_1_1model_1_1DiscretePoint.html#a9b1eaf59e8df459ddbb5d1498acd7f3e'', 1, ''fpmas::api::model::DiscretePoint::y()''),
        (''../structfpmas_1_1graph_1_1detail_1_1Point.html#aa93843915c20265914a2f69fb5fc3acc'', 1, ''fpmas::graph::detail::Point::y()'')])]"

definition typedefs_0 :: "raw_entry list" where
  "typedefs_0 = [
      (''agentedge_1587'', ''AgentEdge'', [(''../namespacefpmas_1_1api_1_1model.html#ad5477de8442103a77a5d09703fbe1366'', 1, ''fpmas::api::model'')]),
      (''agentgraph_1588'', ''AgentGraph'', [(''../namespacefpmas_1_1api_1_1model.html#acf7ec99f5c6cefadbfe4942abff58a5f'', 1, ''fpmas::api::model::AgentGraph()''),
        (''../namespacefpmas_1_1model_1_1detail.html#ae1fc630622cc0feb44b73de78cc7a24b'', 1, ''fpmas::model::detail::AgentGraph()'')]),
      (''agentnode_1589'', ''AgentNode'', [(''../namespacefpmas_1_1api_1_1model.html#a30d59218cc71aa4332700b0cf150d98a'', 1, ''fpmas::api::model'')]),
      (''agentnodecallback_1590'', ''AgentNodeCallback'', [(''../namespacefpmas_1_1model.html#a36bc24876d38e87a9e9471f7ae153ab4'', 1, ''fpmas::model'')])]"

definition typedefs_1 :: "raw_entry list" where
  "typedefs_1 = [
      (''breakpoint_1591'', ''Breakpoint'', [(''../namespacefpmas_1_1model.html#a27645259f09d2f3d29223e8a410e5712'', 1, ''fpmas::model'')]),
      (''builder_1592'', ''Builder'', [(''../structfpmas_1_1model_1_1GridConfig.html#a9454bb7f4e85a5c4bad9949edf9d1183'', 1, ''fpmas::model::GridConfig'')])]"

definition typedefs_2 :: "raw_entry list" where
  "typedefs_2 = [
      (''cell_1593'', ''Cell'', [(''../classfpmas_1_1api_1_1model_1_1SpatialAgent.html#abf0a276b2503f729442c5b9811eb326d'', 1, ''fpmas::api::model::SpatialAgent'')]),
      (''celltype_1594'', ''CellType'', [(''../structfpmas_1_1model_1_1GridConfig.html#a77d25613c703c274126081c6fa3e4b9f'', 1, ''fpmas::model::GridConfig'')]),
      (''clock_1595'', ''Clock'', [(''../namespacefpmas_1_1api_1_1utils_1_1perf.html#a126ebf6b23629efe06bfee44d9ea4b77'', 1, ''fpmas::api::utils::perf'')]),
      (''clocktime_1596'', ''ClockTime'', [(''../namespacefpmas_1_1api_1_1utils_1_1perf.html#aafb99a0a2e2c516e7aa6c2dfa6871d78'', 1, ''fpmas::api::utils::perf'')])]"

definition typedefs_3 :: "raw_entry list" where
  "typedefs_3 = [
      (''data_5ftype_1597'', ''data_type'', [(''../classfpmas_1_1api_1_1graph_1_1DistributedNode.html#ad0d2934e1abcbbe6251016b48ecfb395'', 1, ''fpmas::api::graph::DistributedNode'')]),
      (''datampi_1598'', ''DataMpi'', [(''../classfpmas_1_1synchro_1_1ghost_1_1GhostDataSync.html#aff06f48c44e56f387154f27a42ab5ecb'', 1, ''fpmas::synchro::ghost::GhostDataSync'')]),
      (''date_1599'', ''Date'', [(''../namespacefpmas_1_1api_1_1scheduler.html#a01d03432a682d5e46feacd771f756266'', 1, ''fpmas::api::scheduler'')]),
      (''discretecoordinate_1600'', ''DiscreteCoordinate'', [(''../namespacefpmas_1_1api_1_1model.html#af79ffd5419e5a965079b2aa37b548bac'', 1, ''fpmas::api::model'')]),
      (''distance_1601'', ''Distance'', [(''../structfpmas_1_1model_1_1GridConfig.html#a8533b83a9ee2498885fdf4afd3856531'', 1, ''fpmas::model::GridConfig::Distance()''),
        (''../structfpmas_1_1model_1_1GridRangeConfig.html#a28b470e6071210f6ac31f7255e88868b'', 1, ''fpmas::model::GridRangeConfig::Distance()'')]),
      (''distributedclusteredgraphbuilder_1602'', ''DistributedClusteredGraphBuilder'', [(''../namespacefpmas_1_1model.html#a25303e05d67fadfb5fa7bafafc5e21df'', 1, ''fpmas::model'')]),
      (''distributedgraph_1603'', ''DistributedGraph'', [(''../namespacefpmas_1_1graph.html#adf6379dbff231d9b0bd9b9bb7ad65028'', 1, ''fpmas::graph'')]),
      (''distributeduniformgraphbuilder_1604'', ''DistributedUniformGraphBuilder'', [(''../namespacefpmas_1_1model.html#aeff89c16ae317dd8cb63f271bb959ea2'', 1, ''fpmas::model'')]),
      (''duration_1605'', ''Duration'', [(''../namespacefpmas_1_1api_1_1utils_1_1perf.html#a4c66a59dd3013154b1d13a6cad737a46'', 1, ''fpmas::api::utils::perf'')])]"

definition typedefs_4 :: "raw_entry list" where
  "typedefs_4 = [
      (''edgeapi_1606'', ''EdgeApi'', [(''../classfpmas_1_1synchro_1_1ghost_1_1GhostSyncLinker.html#ae064b19ca0ad660c5dc1ef7cc947c5d9'', 1, ''fpmas::synchro::ghost::GhostSyncLinker::EdgeApi()''),
        (''../classfpmas_1_1synchro_1_1hard_1_1LinkServer.html#ac48b291800c0e6ff0c9798ca65229ddb'', 1, ''fpmas::synchro::hard::LinkServer::EdgeApi()''),
        (''../classfpmas_1_1synchro_1_1hard_1_1LinkClient.html#a4b5ebaace9cd6363a0c605359db4e9ef'', 1, ''fpmas::synchro::hard::LinkClient::EdgeApi()''),
        (''../classfpmas_1_1synchro_1_1hard_1_1HardSyncLinker.html#a1c062e17123ccd12e73fa1c6b6eec482'', 1, ''fpmas::synchro::hard::HardSyncLinker::EdgeApi()'')]),
      (''edgeidhash_1607'', ''EdgeIdHash'', [(''../classfpmas_1_1api_1_1graph_1_1Graph.html#a7c2232a886453eee9932c4023b96bb5c'', 1, ''fpmas::api::graph::Graph'')]),
      (''edgeidtype_1608'', ''EdgeIdType'', [(''../classfpmas_1_1api_1_1graph_1_1Graph.html#ace4182051c68558b00dfa1b57f86eb6b'', 1, ''fpmas::api::graph::Graph'')]),
      (''edgemap_1609'', ''EdgeMap'', [(''../classfpmas_1_1api_1_1graph_1_1Graph.html#a254989187dd47a7a5e2afd9647d13cf2'', 1, ''fpmas::api::graph::Graph'')]),
      (''edgempi_1610'', ''EdgeMpi'', [(''../classfpmas_1_1synchro_1_1ghost_1_1GhostSyncLinker.html#ab9cdf857e28c32691df1b3f8ccedf80f'', 1, ''fpmas::synchro::ghost::GhostSyncLinker::EdgeMpi()''),
        (''../classfpmas_1_1synchro_1_1hard_1_1LinkServer.html#ae257bd2db24e9f7364e73cc1ec67ac0d'', 1, ''fpmas::synchro::hard::LinkServer::EdgeMpi()''),
        (''../classfpmas_1_1synchro_1_1hard_1_1LinkClient.html#a4cc060168ed9f441e9f1a78602b31eb2'', 1, ''fpmas::synchro::hard::LinkClient::EdgeMpi()'')]),
      (''edgeptr_1611'', ''EdgePtr'', [(''../classfpmas_1_1synchro_1_1ghost_1_1GhostSyncLinker.html#a7431063e2ac3a7cfe145e0166006c01c'', 1, ''fpmas::synchro::ghost::GhostSyncLinker'')]),
      (''edgeptrwrapper_1612'', ''EdgePtrWrapper'', [(''../namespacefpmas_1_1graph.html#aa824a675374017e941f1f4f780c7e95a'', 1, ''fpmas::graph'')]),
      (''edgetype_1613'', ''EdgeType'', [(''../classfpmas_1_1api_1_1graph_1_1Node.html#adf0b743e9cdb4f37b5292e2f7dc8c746'', 1, ''fpmas::api::graph::Node::EdgeType()''),
        (''../classfpmas_1_1graph_1_1detail_1_1DistributedGraph.html#ad3d19ef6778e899d7ccd8549648232aa'', 1, ''fpmas::graph::detail::DistributedGraph::EdgeType()'')])]"

definition typedefs_5 :: "raw_entry list" where
  "typedefs_5 = [
      (''finalagenttype_1614'', ''FinalAgentType'', [(''../classfpmas_1_1model_1_1AgentBase.html#ad9369ec706397ed04b361deb2b381eb5'', 1, ''fpmas::model::AgentBase'')])]"

definition typedefs_6 :: "raw_entry list" where
  "typedefs_6 = [
      (''gridagentbuilder_1615'', ''GridAgentBuilder'', [(''../namespacefpmas_1_1model.html#a7ec666f213a5477053a870026432ba47'', 1, ''fpmas::model'')]),
      (''gridagentmapping_1616'', ''GridAgentMapping'', [(''../namespacefpmas_1_1api_1_1model.html#a774415a4b2904aa1d1478ae04bbae4bd'', 1, ''fpmas::api::model'')]),
      (''gridmodel_1617'', ''GridModel'', [(''../namespacefpmas_1_1api_1_1model.html#a8d5d39a289f9ed2a3e0aa540b4ffd462'', 1, ''fpmas::api::model::GridModel()''),
        (''../namespacefpmas_1_1model.html#a9fa31f2c0500caaa3dfbf0bfad07899d'', 1, ''fpmas::model::GridModel()'')]),
      (''groupid_1618'', ''GroupId'', [(''../namespacefpmas_1_1api_1_1model.html#a21595fa9ac22b3afe6da9f2b1c46e13b'', 1, ''fpmas::api::model'')]),
      (''grouplist_1619'', ''GroupList'', [(''../namespacefpmas_1_1api_1_1model.html#aed5895780a486f536653be0248d0a56a'', 1, ''fpmas::api::model'')])]"

definition typedefs_7 :: "raw_entry list" where
  "typedefs_7 = [
      (''idmpi_1620'', ''IdMpi'', [(''../classfpmas_1_1graph_1_1LocationManager.html#a2fcb9b8c2c6b7210f31fe36e97eafb82'', 1, ''fpmas::graph::LocationManager::IdMpi()''),
        (''../classfpmas_1_1synchro_1_1ghost_1_1GhostDataSync.html#aba6d7ca07c39bf780665e86c49ac9877'', 1, ''fpmas::synchro::ghost::GhostDataSync::IdMpi()''),
        (''../classfpmas_1_1synchro_1_1ghost_1_1GhostSyncLinker.html#a9186fa3ae38a249675f67c4593e293d9'', 1, ''fpmas::synchro::ghost::GhostSyncLinker::IdMpi()''),
        (''../classfpmas_1_1synchro_1_1hard_1_1LinkServer.html#ae29cf33aa904f06ae4c20119f1615288'', 1, ''fpmas::synchro::hard::LinkServer::IdMpi()''),
        (''../classfpmas_1_1synchro_1_1hard_1_1LinkClient.html#a0fca53a0ee743c34cbf0394e793e05ed'', 1, ''fpmas::synchro::hard::LinkClient::IdMpi()'')]),
      (''idtype_1621'', ''IdType'', [(''../classfpmas_1_1api_1_1graph_1_1Edge.html#ae249f585c331da506ef69af0a6407283'', 1, ''fpmas::api::graph::Edge::IdType()''),
        (''../classfpmas_1_1api_1_1graph_1_1Node.html#ae661da329f949a84e15c578a66ac20cc'', 1, ''fpmas::api::graph::Node::IdType()'')])]"

definition typedefs_8 :: "raw_entry list" where
  "typedefs_8 = [
      (''jid_1622'', ''JID'', [(''../namespacefpmas_1_1api_1_1scheduler.html#ac26320b5421570e51865ab054ac369ed'', 1, ''fpmas::api::scheduler'')]),
      (''jobiterator_1623'', ''JobIterator'', [(''../classfpmas_1_1api_1_1scheduler_1_1Epoch.html#a32972fd3ef62461882631a32c705fb56'', 1, ''fpmas::api::scheduler::Epoch'')]),
      (''joblist_1624'', ''JobList'', [(''../namespacefpmas_1_1api_1_1scheduler.html#a139c9d1ed36198a6a33716af6501b131'', 1, ''fpmas::api::scheduler'')]),
      (''jsonbase_1625'', ''JsonBase'', [(''../classfpmas_1_1model_1_1GraphCellBase.html#a70bf026122ce6cd85004b3495b45907e'', 1, ''fpmas::model::GraphCellBase::JsonBase()''),
        (''../classfpmas_1_1model_1_1GridCellBase.html#ad9df59d21181522b90b28126d7c4df0f'', 1, ''fpmas::model::GridCellBase::JsonBase()''),
        (''../classfpmas_1_1model_1_1SpatialAgentBase.html#a46b527b5f5a408c9502ec850d96c31be'', 1, ''fpmas::model::SpatialAgentBase::JsonBase()'')])]"

definition typedefs_9 :: "raw_entry list" where
  "typedefs_9 = [
      (''layerid_1626'', ''LayerId'', [(''../namespacefpmas_1_1api_1_1graph.html#a6ad1b60906b20514825a6f77b7fdc750'', 1, ''fpmas::api::graph'')]),
      (''light_5fjson_1627'', ''light_json'', [(''../namespacefpmas_1_1io_1_1json.html#ad3a1963c72c1df255da41c2427dc44d4'', 1, ''fpmas::io::json'')]),
      (''loadbalancing_1628'', ''LoadBalancing'', [(''../namespacefpmas_1_1api_1_1model.html#a5e62bc99add0c29c87aba29ba151e45b'', 1, ''fpmas::api::model'')]),
      (''locationmpi_1629'', ''LocationMpi'', [(''../classfpmas_1_1graph_1_1LocationManager.html#a0ab91bab542e9af57046ac2d3d6d3fde'', 1, ''fpmas::graph::LocationManager'')])]"

definition typedefs_a :: "raw_entry list" where
  "typedefs_a = [
      (''minstd_5frand_1630'', ''minstd_rand'', [(''../namespacefpmas_1_1random.html#a46291533711a7df58040fa051ad62fa3'', 1, ''fpmas::random'')]),
      (''model_1631'', ''Model'', [(''../namespacefpmas_1_1model.html#a6f691ab6900c77e70e7d314150090801'', 1, ''fpmas::model'')]),
      (''moorerange_1632'', ''MooreRange'', [(''../namespacefpmas_1_1model.html#a17376db8bc0f38123bd38394b9603714'', 1, ''fpmas::model'')]),
      (''moorerangeconfig_1633'', ''MooreRangeConfig'', [(''../namespacefpmas_1_1model.html#a056124bbaa4a1770166a52badc65086d'', 1, ''fpmas::model'')]),
      (''mt19937_1634'', ''mt19937'', [(''../namespacefpmas_1_1random.html#a607ca641f9fda09847b6890cb108d0d9'', 1, ''fpmas::random'')]),
      (''mt19937_5f64_1635'', ''mt19937_64'', [(''../namespacefpmas_1_1random.html#a958313953011bd7eb5d1b6225928cf55'', 1, ''fpmas::random'')])]"

definition typedefs_b :: "raw_entry list" where
  "typedefs_b = [
      (''nodeapi_1636'', ''NodeApi'', [(''../classfpmas_1_1synchro_1_1ghost_1_1GhostSyncLinker.html#a5d3705828ba56c640369ce2a12988be9'', 1, ''fpmas::synchro::ghost::GhostSyncLinker::NodeApi()''),
        (''../classfpmas_1_1synchro_1_1hard_1_1LinkClient.html#a2f9d0af7b8a0494c0aeedf6a11de01e0'', 1, ''fpmas::synchro::hard::LinkClient::NodeApi()''),
        (''../classfpmas_1_1synchro_1_1hard_1_1HardSyncLinker.html#a2180423ac831f18832019441d7a0d23c'', 1, ''fpmas::synchro::hard::HardSyncLinker::NodeApi()'')]),
      (''nodecallback_1637'', ''NodeCallback'', [(''../classfpmas_1_1api_1_1graph_1_1DistributedGraph.html#a30b9d94b6dc1ee6715f322ffed3eb3a7'', 1, ''fpmas::api::graph::DistributedGraph'')]),
      (''nodeidhash_1638'', ''NodeIdHash'', [(''../classfpmas_1_1api_1_1graph_1_1Graph.html#a48e181d44f84794298ec7c06fd2e5d14'', 1, ''fpmas::api::graph::Graph'')]),
      (''nodeidtype_1639'', ''NodeIdType'', [(''../classfpmas_1_1api_1_1graph_1_1Graph.html#afe364671e442294515e14bbffdd6dfba'', 1, ''fpmas::api::graph::Graph'')]),
      (''nodemap_1640'', ''NodeMap'', [(''../classfpmas_1_1api_1_1graph_1_1Graph.html#ac43fded831674b513ef7b1535d9d1814'', 1, ''fpmas::api::graph::Graph::NodeMap()''),
        (''../classfpmas_1_1api_1_1graph_1_1LocationManager.html#a48197447bf0348dca279317dfb31aaf4'', 1, ''fpmas::api::graph::LocationManager::NodeMap()''),
        (''../classfpmas_1_1model_1_1detail_1_1LoadBalancingTask.html#a79067d881e77bf66e3d7fedfa7d52273'', 1, ''fpmas::model::detail::LoadBalancingTask::NodeMap()''),
        (''../namespacefpmas_1_1api_1_1graph.html#acc7eb1311839a21b24362b472d3ea887'', 1, ''fpmas::api::graph::NodeMap()'')]),
      (''nodeptrwrapper_1641'', ''NodePtrWrapper'', [(''../namespacefpmas_1_1graph.html#a6c74a4ed290e011f46afa3674cea808e'', 1, ''fpmas::graph'')]),
      (''nodetype_1642'', ''NodeType'', [(''../classfpmas_1_1api_1_1graph_1_1Edge.html#a2e471f354b213b8d25bf712676815f16'', 1, ''fpmas::api::graph::Edge::NodeType()''),
        (''../classfpmas_1_1graph_1_1detail_1_1DistributedGraph.html#aa0531e967a109d7275b52514b6d0ad47'', 1, ''fpmas::graph::detail::DistributedGraph::NodeType()'')]),
      (''normaldistribution_1643'', ''NormalDistribution'', [(''../namespacefpmas_1_1random.html#ab48374532f5b05865d34cf57c8b5e868'', 1, ''fpmas::random'')])]"

definition typedefs_c :: "raw_entry list" where
  "typedefs_c = [
      (''params_1644'', ''Params'', [(''../structfpmas_1_1io_1_1Local.html#a51d1e1fa354756c66afc61bb2675e28f'', 1, ''fpmas::io::Local::Params()''),
        (''../structfpmas_1_1io_1_1Reduce.html#a29c4162620112bbd76a7e4c63cebb1ad'', 1, ''fpmas::io::Reduce::Params()'')]),
      (''partitionmap_1645'', ''PartitionMap'', [(''../classfpmas_1_1model_1_1detail_1_1LoadBalancingTask.html#a8f59dd435e4d24623fcc23afa2794192'', 1, ''fpmas::model::detail::LoadBalancingTask::PartitionMap()''),
        (''../namespacefpmas_1_1api_1_1graph.html#a3b8d45dcdede19e41beff03c30a0671d'', 1, ''fpmas::api::graph::PartitionMap()'')]),
      (''perimeter_1646'', ''Perimeter'', [(''../structfpmas_1_1model_1_1GridRangeConfig.html#a91dd3840ef2cb8adff7f55cf6c3ed413'', 1, ''fpmas::model::GridRangeConfig'')]),
      (''period_1647'', ''Period'', [(''../namespacefpmas_1_1api_1_1scheduler.html#aae904660e81c6a78fd0b27db5226f6f8'', 1, ''fpmas::api::scheduler'')]),
      (''poissondistribution_1648'', ''PoissonDistribution'', [(''../namespacefpmas_1_1random.html#acc013969073992c63b84ea645dcf0894'', 1, ''fpmas::random'')]),
      (''ptr_1649'', ''Ptr'', [(''../structnlohmann_1_1adl__serializer_3_01fpmas_1_1api_1_1utils_1_1PtrWrapper_3_01fpmas_1_1model_1_189f18958e721d64cf9081bb53023a6a1.html#add64ac82ef61074da79fde80c017781d'', 1, ''nlohmann::adl_serializer&lt; fpmas::api::utils::PtrWrapper&lt; fpmas::model::GraphCellBase&lt; AgentType, Derived &gt; &gt; &gt;::Ptr()''),
        (''../structfpmas_1_1io_1_1json_1_1light__serializer_3_01fpmas_1_1api_1_1utils_1_1PtrWrapper_3_01fpmasa66c0aec42b8e119b4cc9e7da5cc5a4c.html#a4ebe74bed514f34b1f52cd94a479774d'', 1, ''fpmas::io::json::light_serializer&lt; fpmas::api::utils::PtrWrapper&lt; fpmas::model::GraphCellBase&lt; AgentType, Derived &gt; &gt; &gt;::Ptr()''),
        (''../structnlohmann_1_1adl__serializer_3_01fpmas_1_1api_1_1utils_1_1PtrWrapper_3_01fpmas_1_1model_1_1784f1e1360367771d11e7adbddb7008f.html#a8460d25c8ffca25f9ea8a7507a0bbbe4'', 1, ''nlohmann::adl_serializer&lt; fpmas::api::utils::PtrWrapper&lt; fpmas::model::GridCellBase&lt; GridCellType, Derived &gt; &gt; &gt;::Ptr()''),
        (''../structnlohmann_1_1adl__serializer_3_01fpmas_1_1api_1_1utils_1_1PtrWrapper_3_01fpmas_1_1model_1_136032a46204f163d868560f92634ba90.html#a39bebf4e517117dd93eb3244e71cd2bf'', 1, ''nlohmann::adl_serializer&lt; fpmas::api::utils::PtrWrapper&lt; fpmas::model::GridAgent&lt; AgentType, CellType, Derived &gt; &gt; &gt;::Ptr()''),
        (''../structfpmas_1_1io_1_1json_1_1light__serializer_3_01fpmas_1_1api_1_1utils_1_1PtrWrapper_3_01fpmas087459d4f5dfa9eac727b48e6313447e.html#a3107ad4d8a945ec139c5bfd6a59eed2f'', 1, ''fpmas::io::json::light_serializer&lt; fpmas::api::utils::PtrWrapper&lt; fpmas::model::GridCellBase&lt; GridCellType, Derived &gt; &gt; &gt;::Ptr()''),
        (''../structfpmas_1_1io_1_1json_1_1light__serializer_3_01fpmas_1_1api_1_1utils_1_1PtrWrapper_3_01fpmas6514cec9ffaf9ddc3a05c9b72f5062b9.html#a3e191a5178a3c96627f31f198772bd36'', 1, ''fpmas::io::json::light_serializer&lt; fpmas::api::utils::PtrWrapper&lt; fpmas::model::GridAgent&lt; AgentType, CellType, Derived &gt; &gt; &gt;::Ptr()''),
        (''../structnlohmann_1_1adl__serializer_3_01fpmas_1_1api_1_1utils_1_1PtrWrapper_3_01fpmas_1_1model_1_15c21a6b0ad54d23aaa2f84ed15f8db9e.html#a8cfac8299ee79ff51df516a3b90dc6db'', 1, ''nlohmann::adl_serializer&lt; fpmas::api::utils::PtrWrapper&lt; fpmas::model::SpatialAgentBase&lt; AgentType, CellType, Derived &gt; &gt; &gt;::Ptr()''),
        (''../structfpmas_1_1io_1_1json_1_1light__serializer_3_01fpmas_1_1api_1_1utils_1_1PtrWrapper_3_01fpmasc84e89e520a4a0cda5345fc83f0b8125.html#abaa285152283706d11aecf37f76d58cf'', 1, ''fpmas::io::json::light_serializer&lt; fpmas::api::utils::PtrWrapper&lt; fpmas::model::SpatialAgentBase&lt; AgentType, CellType, Derived &gt; &gt; &gt;::Ptr()'')])]"

definition typedefs_d :: "raw_entry list" where
  "typedefs_d = [
      (''random_5fdevice_1650'', ''random_device'', [(''../namespacefpmas_1_1random.html#aff2c18877094fcaaa04f4e857eabe64a'', 1, ''fpmas::random'')]),
      (''result_5ftype_1651'', ''result_type'', [(''../classfpmas_1_1random_1_1Distribution.html#a822508dc54851c938f6946621dc35f11'', 1, ''fpmas::random::Distribution::result_type()''),
        (''../classfpmas_1_1random_1_1Generator.html#ab245f633d5f6b2f0b3716e3cce23a802'', 1, ''fpmas::random::Generator::result_type()''),
        (''../classfpmas_1_1random_1_1DistributedGenerator.html#ac6cad7d2d743f3f00f47bd0326a7da4a'', 1, ''fpmas::random::DistributedGenerator::result_type()'')])]"

definition typedefs_e :: "raw_entry list" where
  "typedefs_e = [
      (''scheduledloadbalancing_1652'', ''ScheduledLoadBalancing'', [(''../namespacefpmas_1_1model_1_1detail.html#a2ca32d0ef086e24464878ad021ce2732'', 1, ''fpmas::model::detail'')]),
      (''subtimestep_1653'', ''SubTimeStep'', [(''../namespacefpmas_1_1api_1_1scheduler.html#a77af02d3aacc514067e2762f0d021261'', 1, ''fpmas::api::scheduler'')])]"

definition typedefs_f :: "raw_entry list" where
  "typedefs_f = [
      (''taskiterator_1654'', ''TaskIterator'', [(''../classfpmas_1_1api_1_1scheduler_1_1Job.html#a0d2eff9ada080dc6be37ca4da2f99ed0'', 1, ''fpmas::api::scheduler::Job'')]),
      (''timestep_1655'', ''TimeStep'', [(''../namespacefpmas_1_1api_1_1scheduler.html#ad5a155cbf800b483b5555af9d45c92fa'', 1, ''fpmas::api::scheduler'')]),
      (''type_1656'', ''Type'', [(''../structfpmas_1_1io_1_1Local.html#ab4fa9196a2674cb6cd9b1b461f198003'', 1, ''fpmas::io::Local::Type()''),
        (''../structfpmas_1_1io_1_1Reduce.html#a00ef952e23ec8fe3013521645107f3d2'', 1, ''fpmas::io::Reduce::Type()'')]),
      (''typedagentptr_1657'', ''TypedAgentPtr'', [(''../namespacefpmas_1_1model.html#ae9e9d1d75ae89feca3188cdee516ce1f'', 1, ''fpmas::model'')]),
      (''typeid_1658'', ''TypeId'', [(''../namespacefpmas_1_1api_1_1model.html#a7da0ccdbfe2ecfca12aec5d1bfbb156c'', 1, ''fpmas::api::model'')])]"

definition typedefs_10 :: "raw_entry list" where
  "typedefs_10 = [
      (''uniformintdistribution_1659'', ''UniformIntDistribution'', [(''../namespacefpmas_1_1random.html#a23dc7c593f8260da242cefd237ca8e18'', 1, ''fpmas::random'')]),
      (''uniformrealdistribution_1660'', ''UniformRealDistribution'', [(''../namespacefpmas_1_1random.html#a4ad22d20ea25e75206e433664b7a0c63'', 1, ''fpmas::random'')])]"

definition typedefs_11 :: "raw_entry list" where
  "typedefs_11 = [
      (''vonneumanngrid_1661'', ''VonNeumannGrid'', [(''../namespacefpmas_1_1model.html#a89fbfcfbe02c5c6bd0c2dc8ecdb57a0e'', 1, ''fpmas::model'')]),
      (''vonneumannrange_1662'', ''VonNeumannRange'', [(''../namespacefpmas_1_1model.html#abd91eeccf31a7fd158f4e4bca7ce9d0d'', 1, ''fpmas::model'')]),
      (''vonneumannrangeconfig_1663'', ''VonNeumannRangeConfig'', [(''../namespacefpmas_1_1model.html#af36960684bc9aa760d6c845f4320d451'', 1, ''fpmas::model'')])]"

definition typedefs_12 :: "raw_entry list" where
  "typedefs_12 = [
      (''watcher_1664'', ''Watcher'', [(''../namespacefpmas_1_1api_1_1io.html#a6a28e70ce859db06fc25482a97bee9f0'', 1, ''fpmas::api::io'')])]"

definition typedefs_13 :: "raw_entry list" where
  "typedefs_13 = [
      (''zoltanloadbalancing_1665'', ''ZoltanLoadBalancing'', [(''../namespacefpmas_1_1model_1_1detail.html#a7aee66cb197cb771785532ace85b4a22'', 1, ''fpmas::model::detail'')])]"

definition enums_0 :: "raw_entry list" where
  "enums_0 = [
      (''color_1666'', ''Color'', [(''../namespacefpmas_1_1synchro_1_1hard_1_1api.html#a2564dc813466b9b61c9a3fe3af0acef4'', 1, ''fpmas::synchro::hard::api'')])]"

definition enums_1 :: "raw_entry list" where
  "enums_1 = [
      (''epoch_1667'', ''Epoch'', [(''../namespacefpmas_1_1synchro_1_1hard_1_1api.html#ab613c5f2c0ff9f5646a028383496d812'', 1, ''fpmas::synchro::hard::api'')])]"

definition enums_2 :: "raw_entry list" where
  "enums_2 = [
      (''locationstate_1668'', ''LocationState'', [(''../namespacefpmas_1_1api_1_1graph.html#a3436e2c1520417414ff6059c45d9e02f'', 1, ''fpmas::api::graph'')])]"

definition enums_3 :: "raw_entry list" where
  "enums_3 = [
      (''mutexrequesttype_1669'', ''MutexRequestType'', [(''../namespacefpmas_1_1synchro_1_1hard_1_1api.html#ac4046501bb4f4567e743cfd877c68e89'', 1, ''fpmas::synchro::hard::api'')])]"

definition enums_4 :: "raw_entry list" where
  "enums_4 = [
      (''spatialmodellayers_1670'', ''SpatialModelLayers'', [(''../namespacefpmas_1_1api_1_1model.html#a61b472901d2de4d31db2f66bfa1089a8'', 1, ''fpmas::api::model'')])]"

definition enums_5 :: "raw_entry list" where
  "enums_5 = [
      (''tag_1671'', ''Tag'', [(''../namespacefpmas_1_1synchro_1_1hard_1_1api.html#af0c73301fe0dbfb290dc128612232db9'', 1, ''fpmas::synchro::hard::api'')])]"

definition enumvalues_0 :: "raw_entry list" where
  "enumvalues_0 = [
      (''distant_1672'', ''DISTANT'', [(''../namespacefpmas_1_1api_1_1graph.html#a3436e2c1520417414ff6059c45d9e02fa5f6df4aaed961263dac8b13311f22c73'', 1, ''fpmas::api::graph'')])]"

definition enumvalues_1 :: "raw_entry list" where
  "enumvalues_1 = [
      (''local_1673'', ''LOCAL'', [(''../namespacefpmas_1_1api_1_1graph.html#a3436e2c1520417414ff6059c45d9e02fa70a499dd022fa8f84306734e1240d1f9'', 1, ''fpmas::api::graph'')])]"

definition defines_0 :: "raw_entry list" where
  "defines_0 = [
      (''fpmas_5fc_5fstr_1674'', ''FPMAS_C_STR'', [(''../macros_8h.html#a32ab2caf321ac613cabb47d79541d9c9'', 1, ''macros.h'')]),
      (''fpmas_5fdefault_5fjson_1675'', ''FPMAS_DEFAULT_JSON'', [(''../serializer_8h.html#a2540dd16aee93cd7779411153980ffb9'', 1, ''serializer.h'')]),
      (''fpmas_5fdefine_5fgroups_1676'', ''FPMAS_DEFINE_GROUPS'', [(''../macros_8h.html#a0f51f358990224f4edba2a7290118cbf'', 1, ''macros.h'')]),
      (''fpmas_5fdefine_5flayers_1677'', ''FPMAS_DEFINE_LAYERS'', [(''../macros_8h.html#a5df4bc2a01aa1877da64b5fbd4fe502a'', 1, ''macros.h'')]),
      (''fpmas_5fid_5ftype_1678'', ''FPMAS_ID_TYPE'', [(''../distributed__id_8h.html#af1f79f0ccd7aab198c60b5f7aa431322'', 1, ''distributed_id.h'')]),
      (''fpmas_5fjson_5fset_5fup_1679'', ''FPMAS_JSON_SET_UP'', [(''../serializer_8h.html#a4722b5fd6cdf04855fb40935583a8dcf'', 1, ''serializer.h'')]),
      (''fpmas_5fnode_5ftask_1680'', ''FPMAS_NODE_TASK'', [(''../macros_8h.html#a18036fdf3569b649695ce2c03e3e381b'', 1, ''macros.h'')]),
      (''fpmas_5fon_5fproc_1681'', ''FPMAS_ON_PROC'', [(''../macros_8h.html#a2868889724c6490a488852f9fc535bf3'', 1, ''macros.h'')]),
      (''fpmas_5fregister_5fagent_5ftypes_1682'', ''FPMAS_REGISTER_AGENT_TYPES'', [(''../serializer_8h.html#aa1f4073e73128e2a9af8cc819f677b89'', 1, ''serializer.h'')]),
      (''fpmas_5fversion_1683'', ''FPMAS_VERSION'', [(''../fpmas_8h.html#a4766d5892b769bcff0480917a85b921e'', 1, ''fpmas.h'')]),
      (''fpmas_5fversion_5fmajor_1684'', ''FPMAS_VERSION_MAJOR'', [(''../fpmas_8h.html#a85f66e8572844ae65b978c34ff6c6d1b'', 1, ''fpmas.h'')]),
      (''fpmas_5fversion_5fminor_1685'', ''FPMAS_VERSION_MINOR'', [(''../fpmas_8h.html#ada8b8c2730e77e4e60c63af56a2add74'', 1, ''fpmas.h'')]),
      (''fpmas_5fversion_5fpatch_1686'', ''FPMAS_VERSION_PATCH'', [(''../fpmas_8h.html#ad074e4937a67e81ef92268273d2b0313'', 1, ''fpmas.h'')])]"

definition defines_1 :: "raw_entry list" where
  "defines_1 = [
      (''mpi_5fdistributed_5fid_5ftype_1687'', ''MPI_DISTRIBUTED_ID_TYPE'', [(''../macros_8h.html#a50ce9b1067e5bd5a7d8c727f07da8f37'', 1, ''macros.h'')])]"

definition pages_0 :: "raw_entry list" where
  "pages_0 = [
      (''deprecated_20list_1688'', ''Deprecated List'', [(''../deprecated.html'', 1, '''')])]"

definition pages_1 :: "raw_entry list" where
  "pages_1 = [
      (''fpmas_20api_20reference_1689'', ''FPMAS API reference'', [(''../index.html'', 1, '''')])]"

text \<open>The files of each section, in the order of its letters.\<close>

definition all_files :: "raw_entry list list" where
  "all_files = [all_0, all_1, all_2, all_3, all_4, all_5, all_6, all_7, all_8, all_9,
     all_a, all_b, all_c, all_d, all_e, all_f, all_10, all_11,
     all_12, all_13, all_14, all_15, all_16, all_17, all_18, all_19]"


definition index_files :: "(nat \<times> raw_entry list list) list" where
  "index_files =
    [(0, all_files),
     (1, classes_files),
     (2, [namespaces_0, namespaces_1]),
     (3, files_files),
     (4, functions_files),
     (5, [variables_0, variables_1, variables_2, variables_3, variables_4, variables_5, variables_6, variables_7, variables_8, variables_9,
       variables_a, variables_b, variables_c, variables_d, variables_e, variables_f, variables_10, variables_11, variables_12, variables_13]),
     (6, [typedefs_0, typedefs_1, typedefs_2, typedefs_3, typedefs_4, typedefs_5, typedefs_6, typedefs_7, typedefs_8, typedefs_9, typedefs_a, typedefs_b, typedefs_c, typedefs_d, typedefs_e, typedefs_f, typedefs_10, typedefs_11, typedefs_12, typedefs_13]),
     (7, [enums_0, enums_1, enums_2, enums_3, enums_4, enums_5]),
     (8, [enumvalues_0, enumvalues_1]),
     (9, [defines_0, defines_1]),
     (10, [pages_0, pages_1])]"

section \<open>The files and the tables\<close>

definition section_files :: "nat \<Rightarrow> raw_entry list list" where
  "section_files section = (case map_of index_files section of None \<Rightarrow> [] | Some files \<Rightarrow> files)"

definition section_ok :: "nat \<Rightarrow> string \<Rightarrow> string list \<Rightarrow> bool" where
  "section_ok section letters out \<longleftrightarrow>
     indexSectionsWithContent ! section = js letters \<and> files_ok letters (section_files section) out \<and>
     list_all (\<lambda>f. lower_ids (map ascii_lower) (map to_search_entry f) \<and> distinct (map fst (map to_search_entry f)))
       (section_files section)"

lemma variables_0_in: "file_in CHR ''_'' variables_0 []"
  by (rule file_inI; unfold variables_0_def list.map fst_conv) (simp_all add: file_check)

lemma variables_1_in: "file_in CHR ''b'' variables_1 []"
  by (rule file_inI; unfold variables_1_def list.map fst_conv) (simp_all add: file_check)

lemma variables_2_in: "file_in CHR ''c'' variables_2 []"
  by (rule file_inI; unfold variables_2_def list.map fst_conv) (simp_all add: file_check)

lemma variables_3_in: "file_in CHR ''d'' variables_3 []"
  by (rule file_inI; unfold variables_3_def list.map fst_conv) (simp_all add: file_check)

lemma variables_4_in: "file_in CHR ''e'' variables_4 []"
  by (rule file_inI; unfold variables_4_def list.map fst_conv) (simp_all add: file_check)

lemma variables_5_in: "file_in CHR ''g'' variables_5 []"
  by (rule file_inI; unfold variables_5_def list.map fst_conv) (simp_all add: file_check)

lemma variables_6_in: "file_in CHR ''h'' variables_6 []"
  by (rule file_inI; unfold variables_6_def list.map fst_conv) (simp_all add: file_check)

lemma variables_7_in: "file_in CHR ''i'' variables_7 []"
  by (rule file_inI; unfold variables_7_def list.map fst_conv) (simp_all add: file_check)

lemma variables_8_in: "file_in CHR ''l'' variables_8 []"
  by (rule file_inI; unfold variables_8_def list.map fst_conv) (simp_all add: file_check)

lemma variables_9_in: "file_in CHR ''m'' variables_9 []"
  by (rule file_inI; unfold variables_9_def list.map fst_conv) (simp_all add: file_check)

lemma variables_a_in: "file_in CHR ''n'' variables_a []"
  by (rule file_inI; unfold variables_a_def list.map fst_conv) (simp_all add: file_check)

lemma variables_b_in: "file_in CHR ''o'' variables_b []"
  by (rule file_inI; unfold variables_b_def list.map fst_conv) (simp_all add: file_check)

lemma variables_c_in: "file_in CHR ''p'' variables_c []"
  by (rule file_inI; unfold variables_c_def list.map fst_conv) (simp_all add: file_check)

lemma variables_d_in: "file_in CHR ''r'' variables_d []"
  by (rule file_inI; unfold variables_d_def list.map fst_conv) (simp_all add: file_check)

lemma variables_e_in: "file_in CHR ''s'' variables_e []"
  by (rule file_inI; unfold variables_e_def list.map fst_conv) (simp_all add: file_check)

lemma variables_f_in: "file_in CHR ''t'' variables_f []"
  by (rule file_inI; unfold variables_f_def list.map fst_conv) (simp_all add: file_check)

lemma variables_10_in: "file_in CHR ''u'' variables_10 []"
  by (rule file_inI; unfold variables_10_def list.map fst_conv) (simp_all add: file_check)

lemma variables_11_in: "file_in CHR ''w'' variables_11 []"
  by (rule file_inI; unfold variables_11_def list.map fst_conv) (simp_all add: file_check)

lemma variables_12_in: "file_in CHR ''x'' variables_12 []"
  by (rule file_inI; unfold variables_12_def list.map fst_conv) (simp_all add: file_check)

lemma variables_13_in: "file_in CHR ''y'' variables_13 []"
  by (rule file_inI; unfold variables_13_def list.map fst_conv) (simp_all add: file_check)

lemma typedefs_0_in: "file_in CHR ''a'' typedefs_0 []"
  by (rule file_inI; unfold typedefs_0_def list.map fst_conv) (simp_all add: file_check)

lemma typedefs_1_in: "file_in CHR ''b'' typedefs_1 []"
  by (rule file_inI; unfold typedefs_1_def list.map fst_conv) (simp_all add: file_check)

lemma typedefs_2_in: "file_in CHR ''c'' typedefs_2 []"
  by (rule file_inI; unfold typedefs_2_def list.map fst_conv) (simp_all add: file_check)

lemma typedefs_3_in: "file_in CHR ''d'' typedefs_3 []"
  by (rule file_inI; unfold typedefs_3_def list.map fst_conv) (simp_all add: file_check)

lemma typedefs_4_in: "file_in CHR ''e'' typedefs_4 []"
  by (rule file_inI; unfold typedefs_4_def list.map fst_conv) (simp_all add: file_check)

lemma typedefs_5_in: "file_in CHR ''f'' typedefs_5 []"
  by (rule file_inI; unfold typedefs_5_def list.map fst_conv) (simp_all add: file_check)

lemma typedefs_6_in: "file_in CHR ''g'' typedefs_6 []"
  by (rule file_inI; unfold typedefs_6_def list.map fst_conv) (simp_all add: file_check)

lemma typedefs_7_in: "file_in CHR ''i'' typedefs_7 []"
  by (rule file_inI; unfold typedefs_7_def list.map fst_conv) (simp_all add: file_check)

lemma typedefs_8_in: "file_in CHR ''j'' typedefs_8 []"
  by (rule file_inI; unfold typedefs_8_def list.map fst_conv) (simp_all add: file_check)

lemma typedefs_9_in: "file_in CHR ''l'' typedefs_9 []"
  by (rule file_inI; unfold typedefs_9_def list.map fst_conv) (simp_all add: file_check)

lemma typedefs_a_in: "file_in CHR ''m'' typedefs_a []"
  by (rule file_inI; unfold typedefs_a_def list.map fst_conv) (simp_all add: file_check)

lemma typedefs_b_in: "file_in CHR ''n'' typedefs_b []"
  by (rule file_inI; unfold typedefs_b_def list.map fst_conv) (simp_all add: file_check)

lemma typedefs_c_in: "file_in CHR ''p'' typedefs_c []"
  by (rule file_inI; unfold typedefs_c_def list.map fst_conv) (simp_all add: file_check)

lemma typedefs_d_in: "file_in CHR ''r'' typedefs_d []"
  by (rule file_inI; unfold typedefs_d_def list.map fst_conv) (simp_all add: file_check)

lemma typedefs_e_in: "file_in CHR ''s'' typedefs_e []"
  by (rule file_inI; unfold typedefs_e_def list.map fst_conv) (simp_all add: file_check)

lemma typedefs_f_in: "file_in CHR ''t'' typedefs_f []"
  by (rule file_inI; unfold typedefs_f_def list.map fst_conv) (simp_all add: file_check)

lemma typedefs_10_in: "file_in CHR ''u'' typedefs_10 []"
  by (rule file_inI; unfold typedefs_10_def list.map fst_conv) (simp_all add: file_check)

lemma typedefs_11_in: "file_in CHR ''v'' typedefs_11 []"
  by (rule file_inI; unfold typedefs_11_def list.map fst_conv) (simp_all add: file_check)

lemma typedefs_12_in: "file_in CHR ''w'' typedefs_12 []"
  by (rule file_inI; unfold typedefs_12_def list.map fst_conv) (simp_all add: file_check)

lemma typedefs_13_in: "file_in CHR ''z'' typedefs_13 []"
  by (rule file_inI; unfold typedefs_13_def list.map fst_conv) (simp_all add: file_check)

lemma enums_0_in: "file_in CHR ''c'' enums_0 []"
  by (rule file_inI; unfold enums_0_def list.map fst_conv) (simp_all add: file_check)

lemma enums_1_in: "file_in CHR ''e'' enums_1 []"
  by (rule file_inI; unfold enums_1_def list.map fst_conv) (simp_all add: file_check)

lemma enums_2_in: "file_in CHR ''l'' enums_2 []"
  by (rule file_inI; unfold enums_2_def list.map fst_conv) (simp_all add: file_check)

lemma enums_3_in: "file_in CHR ''m'' enums_3 []"
  by (rule file_inI; unfold enums_3_def list.map fst_conv) (simp_all add: file_check)

lemma enums_4_in: "file_in CHR ''s'' enums_4 []"
  by (rule file_inI; unfold enums_4_def list.map fst_conv) (simp_all add: file_check)

lemma enums_5_in: "file_in CHR ''t'' enums_5 []"
  by (rule file_inI; unfold enums_5_def list.map fst_conv) (simp_all add: file_check)

lemma enumvalues_0_in: "file_in CHR ''d'' enumvalues_0 []"
  by (rule file_inI; unfold enumvalues_0_def list.map fst_conv) (simp_all add: file_check)

lemma enumvalues_1_in: "file_in CHR ''l'' enumvalues_1 []"
  by (rule file_inI; unfold enumvalues_1_def list.map fst_conv) (simp_all add: file_check)

lemma defines_0_in: "file_in CHR ''f'' defines_0 []"
  by (rule file_inI; unfold defines_0_def list.map fst_conv) (simp_all add: file_check)

lemma defines_1_in: "file_in CHR ''m'' defines_1 []"
  by (rule file_inI; unfold defines_1_def list.map fst_conv) (simp_all add: file_check)

lemma pages_0_in: "file_in CHR ''d'' pages_0 []"
  by (rule file_inI; unfold pages_0_def list.map fst_conv) (simp_all add: file_check)

lemma pages_1_in: "file_in CHR ''f'' pages_1 []"
  by (rule file_inI; unfold pages_1_def list.map fst_conv) (simp_all add: file_check)

lemma variables_letters: "files_ok ''_bcdeghilmnoprstuwxy''
    [variables_0, variables_1, variables_2, variables_3, variables_4, variables_5, variables_6,
     variables_7, variables_8, variables_9, variables_a, variables_b, variables_c, variables_d,
     variables_e, variables_f, variables_10, variables_11, variables_12, variables_13] []"
  using variables_0_in variables_1_in variables_2_in variables_3_in variables_4_in variables_5_in
    variables_6_in variables_7_in variables_8_in variables_9_in variables_a_in variables_b_in
    variables_c_in variables_d_in variables_e_in variables_f_in variables_10_in variables_11_in
    variables_12_in variables_13_in
  by (simp add: files_ok_def file_in_def)

lemma typedefs_letters: "files_ok ''abcdefgijlmnprstuvwz''
    [typedefs_0, typedefs_1, typedefs_2, typedefs_3, typedefs_4, typedefs_5, typedefs_6, typedefs_7,
     typedefs_8, typedefs_9, typedefs_a, typedefs_b, typedefs_c, typedefs_d, typedefs_e, typedefs_f,
     typedefs_10, typedefs_11, typedefs_12, typedefs_13] []"
  using typedefs_0_in typedefs_1_in typedefs_2_in typedefs_3_in typedefs_4_in typedefs_5_in typedefs_6_in
    typedefs_7_in typedefs_8_in typedefs_9_in typedefs_a_in typedefs_b_in typedefs_c_in typedefs_d_in
    typedefs_e_in typedefs_f_in typedefs_10_in typedefs_11_in typedefs_12_in typedefs_13_in
  by (simp add: files_ok_def file_in_def)

lemma enums_letters: "files_ok ''celmst''
    [enums_0, enums_1, enums_2, enums_3, enums_4, enums_5] []"
  using enums_0_in enums_1_in enums_2_in enums_3_in enums_4_in enums_5_in
  by (simp add: files_ok_def file_in_def)

lemma enumvalues_letters: "files_ok ''dl''
    [enumvalues_0, enumvalues_1] []"
  using enumvalues_0_in enumvalues_1_in
  by (simp add: files_ok_def file_in_def)

lemma defines_letters: "files_ok ''fm''
    [defines_0, defines_1] []"
  using defines_0_in defines_1_in
  by (simp add: files_ok_def file_in_def)

lemma pages_letters: "files_ok ''df''
    [pages_0, pages_1] []"
  using pages_0_in pages_1_in
  by (simp add: files_ok_def file_in_def)

lemma section_files_simps:
  "section_files 0 = all_files" "section_files 1 = classes_files" "section_files 3 = files_files" "section_files 4 = functions_files"
  "section_files 5 = [variables_0, variables_1, variables_2, variables_3, variables_4, variables_5, variables_6, variables_7, variables_8, variables_9, variables_a, variables_b, variables_c, variables_d, variables_e, variables_f, variables_10, variables_11, variables_12, variables_13]" "section_files 6 = [typedefs_0, typedefs_1, typedefs_2, typedefs_3, typedefs_4, typedefs_5, typedefs_6, typedefs_7, typedefs_8, typedefs_9, typedefs_a, typedefs_b, typedefs_c, typedefs_d, typedefs_e, typedefs_f, typedefs_10, typedefs_11, typedefs_12, typedefs_13]"
  "section_files 7 = [enums_0, enums_1, enums_2, enums_3, enums_4, enums_5]" "section_files 8 = [enumvalues_0, enumvalues_1]" "section_files 9 = [defines_0, defines_1]" "section_files 10 = [pages_0, pages_1]"
  by (simp_all add: section_files_def index_files_def)

lemma indexSectionsWithContent_simps:
  "indexSectionsWithContent ! 0 = js ''_abcdefghijlmnoprstuvwxyz~''" "indexSectionsWithContent ! 1 = js ''abcdefghijlmnoprstuvz''" "indexSectionsWithContent ! 3 = js ''bcdefghijlmnoprstvz''"
  "indexSectionsWithContent ! 4 = js ''_abcdefghijlmnoprstuvwz~''" "indexSectionsWithContent ! 5 = js ''_bcdeghilmnoprstuwxy''"
  "indexSectionsWithContent ! 6 = js ''abcdefgijlmnprstuvwz''" "indexSectionsWithContent ! 7 = js ''celmst''"
  "indexSectionsWithContent ! 8 = js ''dl''" "indexSectionsWithContent ! 9 = js ''fm''" "indexSectionsWithContent ! 10 = js ''df''"
  by (simp_all add: indexSectionsWithContent_def del: js_simps)

text \<open>The ids that are not found under their letter in the section of all entries: the nested namespaces and a
  conversion operator.\<close>

definition all_misfiled :: "string list" where
  "all_misfiled =
    [''api_227'', ''communication_228'', ''detail_229'', ''exceptions_230'', ''ghost_258'', ''graph_259'', ''hard_260'',
     ''io_261'', ''json_262'', ''load_5fbalancing_263'', ''model_264'', ''perf_265'', ''random_266'',
     ''runtime_267'', ''scheduler_268'', ''synchro_269'', ''utils_270'', ''zoltan_271'', ''string_555'']"

lemma all_letters: "files_ok ''_abcdefghijlmnoprstuvwxyz~'' all_files all_misfiled"
  using all_0_in all_1_in all_2_in all_3_in all_4_in all_5_in all_6_in all_7_in all_8_in all_9_in all_a_in all_b_in all_c_in
    all_d_in all_e_in all_f_in all_10_in all_11_in all_12_in all_13_in all_14_in all_15_in all_16_in all_17_in all_18_in all_19_in
  by (simp add: files_ok_def all_files_def file_in_def all_misfiled_def)

lemma section_okI:
  "indexSectionsWithContent ! section = js letters \<Longrightarrow> files_ok letters (section_files section) out \<Longrightarrow>
     section_ok section letters out"
  by (simp only: section_ok_def files_page simp_thms)

text \<open>In every section but the namespaces, the file of a letter holds ids that start with the id of that letter, all
  different and in lower case, as the filter of the results page requires. One entry of the
  functions is the exception: the conversion to \<open>std::string\<close> is filed with the operators but has the id \<open>string\<close>.
  The section of all entries has the same exception and those of the namespaces inside others.\<close>

definition misfiled_ids :: "nat \<Rightarrow> string list" where
  "misfiled_ids section = (if section = 0 then all_misfiled else if section = 4 then [''string_1407''] else [])"

lemma index_files_by_letter:
  "section_ok 0 ''_abcdefghijlmnoprstuvwxyz~'' all_misfiled \<and>
   section_ok 1 ''abcdefghijlmnoprstuvz'' [] \<and> section_ok 3 ''bcdefghijlmnoprstvz'' [] \<and>
   section_ok 4 ''_abcdefghijlmnoprstuvwz~'' [''string_1407''] \<and>
   section_ok 5 ''_bcdeghilmnoprstuwxy'' [] \<and> section_ok 6 ''abcdefgijlmnprstuvwz'' [] \<and>
   section_ok 7 ''celmst'' [] \<and> section_ok 8 ''dl'' [] \<and> section_ok 9 ''fm'' [] \<and> section_ok 10 ''df'' []"
  using all_letters classes_letters files_letters functions_letters variables_letters typedefs_letters enums_letters
    enumvalues_letters defines_letters pages_letters
  by (intro conjI section_okI) (simp_all only: indexSectionsWithContent_simps section_files_simps)

lemma sections_ok:
  assumes "i < 11" and "i \<noteq> 2"
  shows "\<exists>letters. section_ok i letters (misfiled_ids i)"
proof -
  from assms have "i = 0 \<or> i = 1 \<or> i = 3 \<or> i = 4 \<or> i = 5 \<or> i = 6 \<or> i = 7 \<or> i = 8 \<or> i = 9 \<or> i = 10"
    by presburger
  then consider "i = 0" | "i = 1" | "i = 3" | "i = 4" | "i = 5" | "i = 6" | "i = 7" | "i = 8" | "i = 9" | "i = 10"
    by blast
  then show ?thesis
    by cases (use index_files_by_letter in \<open>simp_all only: misfiled_ids_def, auto\<close>)
qed

lemma letters_ok:
  assumes "i < 11"
  shows "distinct (indexSectionsWithContent ! i)" "list_all (\<lambda>u. u < 0x80) (indexSectionsWithContent ! i)"
proof -
  have "\<forall>l\<in>set indexSectionsWithContent. distinct l \<and> list_all (\<lambda>u. u < 0x80) l"
    by (simp add: indexSectionsWithContent_def)
  with assms show "distinct (indexSectionsWithContent ! i)" "list_all (\<lambda>u. u < 0x80) (indexSectionsWithContent ! i)"
    by (simp_all add: sections)
qed

section \<open>Properties\<close>

text \<open>Property C37: a search of a word whose first character has a file in the section, and that, stripped and in lower
  case, has only characters that are not escaped in an id, opens that file; the rows displayed are those of the file
  whose id starts with the word; and every entry of the section whose id starts with the word is in that file, but for
  the nineteen misfiled entries of the section of all entries and the one of the functions. This holds in every
  section but the namespaces, for any such word.\<close>

theorem section_search:
  assumes "br_lower br = map ascii_lower"
    and "sb_searchIndex s < 11" and "sb_searchIndex s \<noteq> 2" and "url_safe (sb_resultsPath s)" and "url_safe (sb_extension s)"
    and "map ascii_lower (strip_right (strip_left (dom_field_value s))) = c # t" and "\<forall>d\<in>set (c # t). id_char d"
    and "c \<in> set (indexSectionsWithContent ! sb_searchIndex s)"
  shows "\<exists>k s' r. k < length (section_files (sb_searchIndex s)) \<and> indexSectionsWithContent ! sb_searchIndex s ! k = c \<and>
    box_Search br s = Inr s' \<and>
    sb_lastResultsPage s' = sb_resultsPath s @ js ''/'' @ (indexSectionNames ! sb_searchIndex s) @ js ''_''
      @ js (show_nat 16 k) @ sb_extension s \<and>
    results_Search (map ascii_lower) (search_word js_unescape (location_search (frame_location s')) [])
      (new_results_page (results_body (map to_search_entry (section_files (sb_searchIndex s) ! k)))) = Inr r \<and>
    (\<forall>e<length (section_files (sb_searchIndex s) ! k). has_display (rp_doc r) [0, 1, e]
      (if prefix (c # t) (js (fst (section_files (sb_searchIndex s) ! k ! e))) then ''block'' else ''none'')) \<and>
    (\<forall>entry\<in>set (concat (section_files (sb_searchIndex s))).
       prefix (c # t) (js (fst entry)) \<and> fst entry \<notin> set (misfiled_ids (sb_searchIndex s)) \<longrightarrow>
       entry \<in> set (section_files (sb_searchIndex s) ! k))"
proof -
  from sections_ok [OF assms(2,3)] obtain letters where ok: "section_ok (sb_searchIndex s) letters (misfiled_ids (sb_searchIndex s))"
    by blast
  then have letters: "indexSectionsWithContent ! sb_searchIndex s = js letters"
    and files: "files_ok letters (section_files (sb_searchIndex s)) (misfiled_ids (sb_searchIndex s))"
    "list_all (\<lambda>f. lower_ids (map ascii_lower) (map to_search_entry f)) (section_files (sb_searchIndex s))"
    by (simp_all add: section_ok_def list_all_iff)
  note l = letters_ok [OF assms(2), unfolded letters]
  show ?thesis unfolding letters
    by (rule search_files [OF assms(1,2) letters l files assms(4,5,6,7)]) (use assms(8) letters in simp)
qed

text \<open>Searching \<open>Loc\<close> among the enumerations opens the third file and displays its row.\<close>

theorem section_search_witness:
  "\<exists>s' r. box_Search plain_browser (fresh_box\<lparr>sb_searchIndex := 7, dom_field_value := js '' Loc''\<rparr>) = Inr s' \<and>
    sb_lastResultsPage s' = js ''search/enums_2.html'' \<and>
    results_Search (map ascii_lower) (search_word js_unescape (location_search (frame_location s')) [])
      (new_results_page (results_body (map to_search_entry enums_2))) = Inr r \<and>
    has_display (rp_doc r) [0, 1, 0] ''block''"
proof -
  let ?s = "fresh_box\<lparr>sb_searchIndex := 7, dom_field_value := js '' Loc''\<rparr>"
  have lower: "br_lower plain_browser = map ascii_lower" by (simp add: plain_browser_def ascii_lower_def [abs_def])
  have i: "sb_searchIndex ?s = 7" by simp
  have path: "sb_resultsPath ?s = js ''search''" "sb_extension ?s = js ''.html''" by (simp_all add: fresh_box_def SearchBox_def)
  have safe: "url_safe (sb_resultsPath ?s)" "url_safe (sb_extension ?s)" unfolding path by simp_all
  have word: "map ascii_lower (strip_right (strip_left (dom_field_value ?s))) = 0x6C # js ''oc''"
    by (simp add: strip_left_def strip_right_def space_def ascii_lower_def)
  have plain: "\<forall>d\<in>set (0x6C # js ''oc''). id_char d" by (simp add: id_char_def)
  have c: "0x6C \<in> set (indexSectionsWithContent ! sb_searchIndex ?s)" unfolding i by (simp add: indexSectionsWithContent_simps)
  have "sb_searchIndex ?s < 11" "sb_searchIndex ?s \<noteq> 2" by simp_all
  from section_search [OF lower this safe word plain c] obtain k s' r where
    k: "k < length (section_files 7)" "indexSectionsWithContent ! 7 ! k = 0x6C" and
    s': "box_Search plain_browser ?s = Inr s'" and
    page: "sb_lastResultsPage s' = js ''search'' @ js ''/'' @ (indexSectionNames ! 7) @ js ''_'' @ js (show_nat 16 k) @ js ''.html''" and
    r: "results_Search (map ascii_lower) (search_word js_unescape (location_search (frame_location s')) [])
      (new_results_page (results_body (map to_search_entry (section_files 7 ! k)))) = Inr r" and
    rows: "\<forall>e<length (section_files 7 ! k). has_display (rp_doc r) [0, 1, e]
      (if prefix (0x6C # js ''oc'') (js (fst (section_files 7 ! k ! e))) then ''block'' else ''none'')"
    unfolding i path by (elim exE conjE) (rule that; assumption)
  have "k < 6" using k(1) by (simp add: section_files_simps)
  moreover have "distinct (indexSectionsWithContent ! 7)" by (rule letters_ok) simp
  moreover have "indexSectionsWithContent ! 7 ! 2 = 0x6C" "length (indexSectionsWithContent ! 7) = 6"
    by (simp_all add: indexSectionsWithContent_simps)
  ultimately have "k = 2" using k(2) nth_eq_iff_index_eq [of "indexSectionsWithContent ! 7" k 2] by simp
  then have f: "section_files 7 ! k = enums_2" by (simp add: section_files_simps)
  have "sb_lastResultsPage s' = js ''search/enums_2.html''"
    unfolding page \<open>k = 2\<close> by (simp add: indexSectionNames_def show_nat_def digits_of.simps digit_char_def)
  moreover have "has_display (rp_doc r) [0, 1, 0] ''block''" using rows unfolding f by (simp add: enums_2_def)
  ultimately show ?thesis using s' r unfolding f by blast
qed

text \<open>The namespaces are filed under the first letter of their qualified name but have the id of
  their own name, so a namespace such as \<open>fpmas::graph\<close> is never found: the letter of \<open>graph\<close> has no file,
  and in the file of the letter of \<open>fpmas\<close> its row does not start with it.\<close>

theorem nested_namespaces_not_found:
  "(''graph_1073'', ''graph'') \<in> set (map (\<lambda>(i, n, _). (i, n)) namespaces_0) \<and>
   indexOf (js ''g'') (indexSectionsWithContent ! 2) = None \<and>
   indexOf (js ''f'') (indexSectionsWithContent ! 2) = Some 0 \<and>
   \<not> prefix (convertToId (js ''f'')) (js ''graph_1073'')"
proof -
  have "(''graph_1073'', ''graph'') \<in> set (map (\<lambda>(i, n, _). (i, n)) namespaces_0)" by code_simp
  then show ?thesis by (simp add: indexSectionsWithContent_def escape_unit_def id_char_def)
qed

end
