(* ===== verification/Spec2Isabelle.thy ===== *)
theory Spec2Isabelle
  imports Mutex_Props Termination_Props Job_Runtime Graph_Props Ghost_Props Ghost_Data Distribution_Props Mpi_Props Graph_Balance
    Dox_Results_Props Dox_Box_Props Dox_Search Dox_Menu Dox_Sections Dox_Data
begin

text \<open>
  A model of FPMAS, a C++ library for multi-agent simulations distributed over processes that exchange MPI
  messages, and of the search pages of its documentation. All paths are relative to the repository; the library
  is under \<open>src/fpmas/\<close>.

  \<^bold>\<open>The program.\<close> A simulation is a graph of nodes with data and of edges on layers, distributed over processes.
  A process holds some nodes, its local nodes, and copies of the nodes of other processes that its edges reach,
  its distant nodes. A synchronization mode decides what an access to a distant node does: the hard mode asks
  the process that holds the node and waits, and so every process must serve requests until all have finished;
  the ghost mode reads the copy and fetches data at the end of each step. A scheduler says which jobs run at
  which date, and a runtime executes them. The documentation is a set of pages with scripts of Doxygen that
  search an index, show a menu and fold sections.

  \<^bold>\<open>The library.\<close> \<open>Prelude\<close> holds what the components share: the sequencing of operations that may fail (a sum,
  \<open>Inl\<close> the fault), loops over lists of such operations, the first match in a queue, the printing of numbers, and
  sorting. \<open>Hash_Map\<close> models the standard library's hash maps as lists of entries.

  \<^item> \<open>Dist_Id\<close>: \<open>api/graph/distributed_id.h\<close>, with the counter as a 64-bit word. The order is a strict total order,
    identifiers print alike only if they are equal, and a counter wraps around after 2^64 identifiers.
  \<^item> \<open>Mutex_Sync\<close>, \<open>Mutex_Server\<close>, \<open>Mutex_Client\<close>: the mutex of a node (\<open>synchro/hard/hard_sync_mutex.h\<close>), the server
    that handles the requests of other processes (\<open>mutex_server.h\<close>) and the client operations with their waits
    (\<open>mutex_client.h\<close>, \<open>server_pack.h\<close>). Messages are lists in their order of arrival, and a wait is a recursion over
    the messages that each poll finds, with the fault \<open>Blocked\<close> when there are none left; the theorem on waits holds for
    any number of polls before the answer. \<open>Mutex_Lemmas\<close> and
    \<open>Mutex_Invariant\<close> prove the invariant of the server and \<open>Mutex_Props\<close> the properties: which releases keep the
    readers-writer guarantee and which lose it, what a release commits and serves, round trips of remote writes.
  \<^item> \<open>Termination\<close>, \<open>Termination_Props\<close>: the token ring of \<open>synchro/hard/termination.cpp\<close> as a step relation over all the
    processes. No process leaves its k-th call before all have entered theirs, and 2n rounds are enough to leave.
  \<^item> \<open>Job_Scheduler\<close>, \<open>Job_Scheduler_Props\<close>, \<open>Job_Runtime\<close>: jobs, epochs and schedules of \<open>scheduler/scheduler.cpp\<close> and the
    loop of \<open>runtime/runtime.cpp\<close>. Dates are rationals that are floats: the loop rounds after each increment, and it is
    a partial function without any fuel, so that a run that never returns is the value \<open>None\<close>. The epoch of a step is specified by the
    list of the calls of \<open>schedule\<close>.
  \<^item> \<open>Graph_Store\<close>, \<open>Graph_Base\<close>, \<open>Dist_Graph\<close>: \<open>graph/node.h\<close>, \<open>edge.h\<close>, \<open>graph.h\<close>, \<open>location_manager.h\<close> and
    \<open>distributed_graph.h\<close> on the graph of one process. Nodes and edges are objects on a heap reached by pointers, and an
    access to a deleted object is a fault. \<open>Graph_Invariant\<close> states that the lists of the nodes, the two indexes and the
    lists of the location manager describe one set of nodes and edges, and what erasures do; \<open>Graph_Growth\<close>,
    \<open>Graph_Import\<close>, \<open>Edge_Import\<close> and \<open>Graph_Clear\<close> do the same for building, linking, importing nodes and edges, and
    clearing; \<open>Graph_Effects\<close> says what each of them leaves alone. The abstract view of a
    graph is a set of identifiers and a set of labelled edges; \<open>Graph_Props\<close> holds the refinements of this view.
  \<^item> \<open>Exchange\<close>, \<open>Node_Stamp\<close>, \<open>Location_Sync\<close>: the collective exchange \<open>TypedMpi::migrate\<close> and
    \<open>LocationManager::updateLocations\<close>, as sequences of phases over the states of all the processes, with the theorem
    that all processes end with the true locations.
  \<^item> \<open>Graph_Messages\<close>, \<open>Distribution\<close>: the messages that carry nodes and edges (\<open>distributed_node.h\<close>, \<open>distributed_edge.h\<close>) and
    \<open>DistributedGraph::_distribute\<close>, over the states of all the processes. \<open>Distribution_Exports\<close> and \<open>Distribution_Imports\<close>
    prove what a process sends and what unpacking and importing make of it, and \<open>Distribution_Props\<close> that every node moves
    to the process of its partition with its data and that no edge is lost.
  \<^item> \<open>Load_Balancing\<close>, \<open>Graph_Balance\<close>: the random and the scheduled load balancing and \<open>DistributedGraph::balance\<close>
    (\<open>random_load_balancing.h\<close>, \<open>scheduled_load_balancing.h\<close>), with the whole of a balance in ghost mode.
  \<^item> \<open>Mpi_Buffers\<close>, \<open>Mpi_Props\<close>: the buffers, counts and displacements of \<open>communication/communication.cpp\<close> and the typed
    operations of \<open>communication.h\<close>. Sizes are bytes, and the \<open>int\<close> of C has its 32 bits: a text of 2^31 bytes or more is
    narrowed, and a sum that does not fit is a fault. The typed exchange refines \<open>migrate\<close> below this bound, and the bound
    is exact.
  \<^item> \<open>Ghost_Mode\<close>, \<open>Ghost_Props\<close>, \<open>Ghost_Data\<close>: \<open>synchro/ghost/ghost_mode.h\<close>: what linking, unlinking and removing do at once
    and what they buffer, the failure of a double removal, and the collective synchronization of the data.
    \<open>Graph_Sample\<close> holds the two small graphs on which the properties are instantiated.
  \<^item> \<open>Dox_Ids\<close>, \<open>Dox_Dom\<close>, \<open>Dox_Results\<close>, \<open>Dox_Tree\<close>, \<open>Dox_Results_Props\<close>, \<open>Dox_Box\<close>, \<open>Dox_Box_Props\<close>: \<open>docs/search/search.js\<close>, the
    results page and the search box, over a model of the document as a tree of nodes with attributes. \<open>Dox_Search\<close> joins
    the two, from the word in the field to the rows displayed.
    \<open>Dox_Menu\<close>: \<open>docs/menu.js\<close>. \<open>Dox_Sections\<close>: \<open>docs/dynsections.js\<close>. \<open>Dox_Entries\<close>, \<open>Dox_Classes\<close>,
    \<open>Dox_Functions\<close>, \<open>Dox_All_A\<close>, \<open>Dox_All_B\<close> and \<open>Dox_Data\<close>: the index files of all eleven sections, with the checks
    that ten of them pass and the namespaces do not.

  \<^bold>\<open>Interfaces.\<close> The locale \<open>request_handler\<close> is what a reception cycle needs of a handler; it is interpreted on
  each of the seven handlers of the mutex server in \<open>Mutex_Invariant\<close>. The locale \<open>api_server\<close> is what the termination
  algorithm needs of the server it keeps running; \<open>Termination_Props\<close> interprets it on the mutex server.
  The locale \<open>fixed_vertices_lb\<close> of \<open>Load_Balancing\<close> is what the scheduled load balancing needs of the one it calls for each
  job; it is interpreted on the random load balancing. The locale \<open>buffering_linker\<close> of \<open>Graph_Growth\<close> is the contract of a \<open>SyncLinker\<close> that answers a
  link or an unlink at once and only changes its own state; it is interpreted on the ghost linker in \<open>Ghost_Mode\<close>, and
  the properties of links and unlinks rest on its facts.

  \<^bold>\<open>What stands outside.\<close> MPI is a set of lists of messages for the hard mode and the function \<open>migrate\<close> for collective
  exchanges; under \<open>migrate\<close>, in \<open>Mpi_Buffers\<close>, the calls of MPI and the JSON library are arguments, and the hypotheses
  \<open>alltoall_spec\<close>, \<open>alltoallv_spec\<close>, \<open>gather_spec\<close> and \<open>gatherv_spec\<close> say what the MPI standard promises for buffers that are laid out as
  it requires. The data of a node is any type and is received as it was sent, except in messages of edges, where the
  serialization chosen by the user is the argument \<open>light\<close>. Values that constructors leave uninitialised are the argument
  \<open>junk\<close> or \<open>loc\<close>. Callbacks and tasks of the user are recorded as events or are arguments. Weights are rationals.
  Iteration over a hash map follows the list of its entries; the theorems hold for every order of the entries. Edges that a node's
  clearing collects in an ordered set of pointers are visited in the order of the pointers.

  \<^bold>\<open>What the proofs showed.\<close> A release can grant a reader and a writer at once, and an acquire can pass a shared lock;
  the termination algorithm never uses the colour black; a run beyond date 2^24 never returns, and a second run
  repeats the last step; erasing a task that was added twice leaves unspecified entries; a node removed twice in ghost mode
  is erased twice; an entry of a partition for a copy of a node overwrites the data of the node; an exchange of 2^31
  bytes or more faults; selecting a filter while a search is pending leaves the pending one running; several corner cases of the search page fail. The theorems named in the manifest state each of them.

  \<^bold>\<open>Not modelled.\<close> The links of the hard mode (\<open>hard_sync_linker.h\<close>), the builders of random graphs, the Zoltan load
  balancing (mostly calls to Zoltan), agents and groups, the spatial models and the output of files. Random numbers,
  clocks, logs, JSON adapters and jQuery are wrappers or third-party code.
\<close>

end
